(* ===== verification/Kmp_Prelude.thy ===== *)
theory Kmp_Prelude
  imports Main "HOL-Library.Word" "HOL-Library.AList"
begin

unbundle bit_operations_syntax

text \<open>
  Shared vocabulary of the development: machine integers and little-endian bytes, the model of
  \<^verbatim>\<open>std::unordered_map\<close> that the servers keep their state in, C strings and decimal
  printing.  Two named collections carry the component proofs: \<^verbatim>\<open>wire_simps\<close> (byte-level
  encoding) and \<^verbatim>\<open>um_simps\<close> (map look-up after an update).
\<close>

named_theorems wire_simps
named_theorems um_simps

section \<open>Machine integers\<close>

type_synonym u8 = "8 word"
type_synonym u16 = "16 word"
type_synonym u32 = "32 word"
type_synonym u64 = "64 word"
type_synonym i32 = "32 word"
type_synonym byte = u8
type_synonym bytes = "byte list"

text \<open>Little-endian byte images, as \<^verbatim>\<open>memcpy\<close> of an integer produces on x86-64.\<close>

definition bytes_u8 :: "u8 \<Rightarrow> bytes" where
  "bytes_u8 w = [w]"

definition bytes_u16 :: "u16 \<Rightarrow> bytes" where
  "bytes_u16 w = [ucast w, ucast (drop_bit 8 w)]"

definition bytes_u32 :: "u32 \<Rightarrow> bytes" where
  "bytes_u32 w = [ucast w, ucast (drop_bit 8 w), ucast (drop_bit 16 w), ucast (drop_bit 24 w)]"

fun u8_of :: "bytes \<Rightarrow> u8" where
  "u8_of [a] = a"
| "u8_of _ = 0"

fun u16_of :: "bytes \<Rightarrow> u16" where
  "u16_of [a, b] = ucast a OR push_bit 8 (ucast b)"
| "u16_of _ = 0"

fun u32_of :: "bytes \<Rightarrow> u32" where
  "u32_of [a, b, c, d] =
     ucast a OR push_bit 8 (ucast b) OR push_bit 16 (ucast c) OR push_bit 24 (ucast d)"
| "u32_of _ = 0"

lemma length_bytes_u8 [simp]: "length (bytes_u8 w) = 1"
  by (simp add: bytes_u8_def)

lemma u8_of_bytes_u8 [simp]: "u8_of (bytes_u8 w) = w"
  by (simp add: bytes_u8_def)

lemma length_bytes_u16 [simp]: "length (bytes_u16 w) = 2"
  by (simp add: bytes_u16_def)

lemma length_bytes_u32 [simp]: "length (bytes_u32 w) = 4"
  by (simp add: bytes_u32_def)

lemma u16_of_bytes_u16 [simp]: "u16_of (bytes_u16 w) = w"
  unfolding bytes_u16_def u16_of.simps
  by (rule bit_word_eqI) (auto simp: bit_simps)

lemma u32_of_bytes_u32 [simp]: "u32_of (bytes_u32 w) = w"
proof -
  have "bit w n" if "bit w (24 + (n - 24))" "\<not> n < 8" "\<not> n - 8 < 8" "\<not> n - 16 < 8" for n
  proof -
    have "24 + (n - 24) = n" using that by arith
    with that show ?thesis by simp
  qed
  then show ?thesis
    unfolding bytes_u32_def u32_of.simps
    by (intro bit_word_eqI) (auto simp: bit_simps intro: ccontr)
qed

lemma byte_slices_u16:
  "ucast (ucast a OR push_bit 8 (ucast b) :: u16) = (a :: u8)"
  "ucast (drop_bit 8 (ucast a OR push_bit 8 (ucast b) :: u16)) = (b :: u8)"
  by (rule bit_word_eqI; auto simp: bit_simps dest: bit_imp_le_length)+

lemma byte_slices_u32:
  fixes a b c d :: u8
  defines "w \<equiv> ucast a OR push_bit 8 (ucast b) OR push_bit 16 (ucast c) OR push_bit 24 (ucast d) :: u32"
  shows "ucast w = a" "ucast (drop_bit 8 w) = b" "ucast (drop_bit 16 w) = c" "ucast (drop_bit 24 w) = d"
  unfolding w_def
  by (rule bit_word_eqI; auto simp: bit_simps dest: bit_imp_le_length)+

lemma bytes_u16_of: 
  assumes "length bs = 2" shows "bytes_u16 (u16_of bs) = bs"
proof -
  from assms obtain a b where "bs = [a, b]" by (auto simp: numeral_eq_Suc length_Suc_conv)
  then show ?thesis by (simp only: u16_of.simps bytes_u16_def byte_slices_u16)
qed

lemma bytes_u32_of [wire_simps]:
  assumes "length bs = 4" shows "bytes_u32 (u32_of bs) = bs"
proof -
  from assms obtain a b c d where "bs = [a, b, c, d]" by (auto simp: numeral_eq_Suc length_Suc_conv)
  then show ?thesis by (simp only: u32_of.simps bytes_u32_def byte_slices_u32)
qed

lemma bytes_u8_of: "length bs = 1 \<Longrightarrow> bytes_u8 (u8_of bs) = bs"
  by (auto simp: length_Suc_conv bytes_u8_def)

text \<open>Reading a 32-bit word as \<^verbatim>\<open>int32_t\<close>.\<close>

lemma sint_small: "uint (w :: i32) < 2147483648 \<Longrightarrow> sint w = uint w"
  by (simp add: sint_uint signed_take_bit_int_eq_self_iff order_trans [of _ 0])

lemma sint_word_of_int:
  "- 2147483648 \<le> k \<Longrightarrow> k < 2147483648 \<Longrightarrow> sint (word_of_int k :: i32) = k"
  by (simp add: sint_sbintrunc' signed_take_bit_int_eq_self_iff)

lemma sint_i32_range: "- 2147483648 \<le> sint (w :: i32)" "sint (w :: i32) < 2147483648"
  using sint_greater_eq [of w] sint_less [of w] by simp_all

text \<open>
  Fields of a packed struct: \<open>bslice i n bs\<close> is the \<open>n\<close> bytes at offset \<open>i\<close>.  Adjacent slices
  concatenate, which is what makes re-encoding a decoded struct give its bytes back.
\<close>

definition bslice :: "nat \<Rightarrow> nat \<Rightarrow> bytes \<Rightarrow> bytes" where
  "bslice i n bs = take n (drop i bs)"

lemma slice_append [wire_simps]:
  "j = i + n \<Longrightarrow> bslice i n bs @ bslice j m bs = bslice i (n + m) bs"
  by (simp add: bslice_def take_add add.commute [of i n])

lemma slice_all [wire_simps]: "length bs = n \<Longrightarrow> bslice 0 n bs = bs"
  by (simp add: bslice_def)

lemma length_slice [simp]: "i + n \<le> length bs \<Longrightarrow> length (bslice i n bs) = n"
  by (simp add: bslice_def)

lemma slice_u8 [wire_simps]: "i + 1 \<le> length bs \<Longrightarrow> bytes_u8 (u8_of (bslice i 1 bs)) = bslice i 1 bs"
  by (simp add: bytes_u8_of)

lemma slice_u8_Suc [wire_simps]:
  "i + 1 \<le> length bs \<Longrightarrow> bytes_u8 (u8_of (bslice i (Suc 0) bs)) = bslice i (Suc 0) bs"
  by (simp add: bytes_u8_of)

lemma slice_u16 [wire_simps]:
  "i + 2 \<le> length bs \<Longrightarrow> bytes_u16 (u16_of (bslice i 2 bs)) = bslice i 2 bs"
  by (simp add: bytes_u16_of)

lemma slice_u32 [wire_simps]:
  "i + 4 \<le> length bs \<Longrightarrow> bytes_u32 (u32_of (bslice i 4 bs)) = bslice i 4 bs"
  by (simp add: bytes_u32_of)

text \<open>Selecting a field out of a concatenation of encoded fields.\<close>

lemma slice_skip [wire_simps]: "length xs \<le> i \<Longrightarrow> bslice i n (xs @ ys) = bslice (i - length xs) n ys"
  by (simp add: bslice_def)

lemma slice_hit [wire_simps]: "length xs = n \<Longrightarrow> bslice 0 n (xs @ ys) = xs"
  by (simp add: bslice_def)

section \<open>Strings\<close>

text \<open>
  A \<^verbatim>\<open>std::string\<close> is its bytes.  \<open>lit\<close> turns a literal into bytes, \<open>cstr\<close> reads a C string
  up to its terminator, \<open>strncpy_buf n s\<close> is a zero-initialised \<^verbatim>\<open>char[n]\<close> after
  \<^verbatim>\<open>strncpy(buf, s.c_str(), n - 1)\<close>, which is also what \<^verbatim>\<open>snprintf\<close> leaves there.
\<close>

definition lit :: "string \<Rightarrow> bytes" where
  "lit s = map of_char s"

definition cstr :: "bytes \<Rightarrow> bytes" where
  "cstr bs = takeWhile (\<lambda>b. b \<noteq> 0) bs"

definition strncpy_buf :: "nat \<Rightarrow> bytes \<Rightarrow> bytes" where
  "strncpy_buf n s = take (n - 1) (cstr s) @ replicate (n - length (take (n - 1) (cstr s))) 0"

lemma length_strncpy_buf [simp]: "length (strncpy_buf n s) = n"
  by (simp add: strncpy_buf_def)

lemma cstr_nonzero: "b \<in> set (cstr s) \<Longrightarrow> b \<noteq> 0"
  by (auto simp: cstr_def dest: set_takeWhileD)

lemma cstr_id: "0 \<notin> set s \<Longrightarrow> cstr s = s"
  by (auto simp: cstr_def takeWhile_eq_all_conv)

lemma cstr_strncpy_buf:
  assumes "0 < n" shows "cstr (strncpy_buf n s) = take (n - 1) (cstr s)"
proof -
  define t where "t = take (n - 1) (cstr s)"
  have nz: "\<forall>b \<in> set t. b \<noteq> 0" unfolding t_def by (auto dest: in_set_takeD cstr_nonzero)
  have "length t < n" using assms by (simp add: t_def)
  then obtain k where "n - length t = Suc k" by (cases "n - length t") auto
  then have "strncpy_buf n s = t @ 0 # replicate k 0"
    unfolding strncpy_buf_def t_def [symmetric] by simp
  moreover have "cstr (t @ 0 # replicate k 0) = t"
    using nz by (simp add: cstr_def takeWhile_append2)
  ultimately show ?thesis by (simp only: t_def)
qed

text \<open>Decimal printing (\<^verbatim>\<open>std::to_string\<close>, \<^verbatim>\<open>%d\<close>).\<close>

fun dec_nat :: "nat \<Rightarrow> bytes" where
  "dec_nat n = (if n < 10 then [48 + of_nat n] else dec_nat (n div 10) @ [48 + of_nat (n mod 10)])"

declare dec_nat.simps [simp del]

definition dec_int :: "int \<Rightarrow> bytes" where
  "dec_int k = (if k < 0 then 45 # dec_nat (nat (- k)) else dec_nat (nat k))"

section \<open>Unordered maps\<close>

text \<open>
  A \<^verbatim>\<open>std::unordered_map\<close> is the list of its entries in iteration order, with distinct keys.
  The C++ order is unspecified: a new key is appended here, and the step relation of the server
  may permute the list between any two operations.
\<close>

type_synonym ('k, 'v) umap = "('k \<times> 'v) list"

abbreviation um_find :: "('k, 'v) umap \<Rightarrow> 'k \<Rightarrow> 'v option" where
  "um_find \<equiv> map_of"

definition um_set :: "'k \<Rightarrow> 'v \<Rightarrow> ('k, 'v) umap \<Rightarrow> ('k, 'v) umap" where
  "um_set = AList.update"

definition um_erase :: "'k \<Rightarrow> ('k, 'v) umap \<Rightarrow> ('k, 'v) umap" where
  "um_erase = AList.delete"

definition um_modify :: "'k \<Rightarrow> ('v \<Rightarrow> 'v) \<Rightarrow> ('k, 'v) umap \<Rightarrow> ('k, 'v) umap" where
  "um_modify = AList.map_entry"

definition um_keys :: "('k, 'v) umap \<Rightarrow> 'k list" where
  "um_keys m = map fst m"

definition um_wf :: "('k, 'v) umap \<Rightarrow> bool" where
  "um_wf m = distinct (um_keys m)"

lemma um_find_set [um_simps]: "um_find (um_set k v m) = (um_find m)(k \<mapsto> v)"
  by (simp add: um_set_def update_conv')

lemma um_find_erase [um_simps]: "um_find (um_erase k m) = (um_find m)(k := None)"
  by (simp add: um_erase_def delete_conv')

lemma um_find_modify [um_simps]:
  "um_find (um_modify k f m) = (um_find m)(k := map_option f (um_find m k))"
  by (induction m) (auto simp: um_modify_def fun_eq_iff)

lemma um_find_empty [um_simps]: "um_find [] k = None"
  by simp

lemma um_keys_set [um_simps]:
  "set (um_keys (um_set k v m)) = insert k (set (um_keys m))"
  by (induction m) (auto simp: um_keys_def um_set_def)

lemma um_keys_erase [um_simps]: "set (um_keys (um_erase k m)) = set (um_keys m) - {k}"
  by (simp add: um_keys_def um_erase_def delete_keys)

lemma um_keys_modify [um_simps]: "um_keys (um_modify k f m) = um_keys m"
  by (induction m) (auto simp: um_keys_def um_modify_def)

lemma um_wf_set [simp]: "um_wf m \<Longrightarrow> um_wf (um_set k v m)"
  by (simp add: um_wf_def um_keys_def um_set_def distinct_update)

lemma um_wf_erase [simp]: "um_wf m \<Longrightarrow> um_wf (um_erase k m)"
  by (simp add: um_wf_def um_keys_def um_erase_def distinct_delete)

lemma um_wf_modify [simp]: "um_wf (um_modify k f m) = um_wf m"
  by (simp add: um_wf_def um_keys_modify)

lemma um_wf_Nil [simp]: "um_wf []"
  by (simp add: um_wf_def um_keys_def)

lemma um_find_None_iff: "um_find m k = None \<longleftrightarrow> k \<notin> set (um_keys m)"
  by (simp add: um_keys_def map_of_eq_None_iff)

lemma um_find_Some_iff: "um_wf m \<Longrightarrow> um_find m k = Some v \<longleftrightarrow> (k, v) \<in> set m"
  by (simp add: um_wf_def um_keys_def map_of_eq_Some_iff)

lemma um_size_set: "length (um_set k v m) = (if um_find m k = None then Suc (length m) else length m)"
  by (induction m) (auto simp: um_set_def)

lemma um_size_erase_le: "length (um_erase k m) \<le> length m"
  by (simp add: um_erase_def length_delete_le)

lemma um_size_modify [simp]: "length (um_modify k f m) = length m"
  by (induction m) (auto simp: um_modify_def)

lemma um_set_same: "um_find m k = Some v \<Longrightarrow> um_set k v m = m"
  by (induction m) (auto simp: um_set_def split: if_splits)

lemma um_find_map: "um_find (map (\<lambda>(k, v). (k, f k v)) m) k = map_option (f k) (um_find m k)"
  by (induction m) auto

lemma um_keys_map: "um_keys (map (\<lambda>(k, v). (k, f k v)) m) = um_keys m"
  by (induction m) (auto simp: um_keys_def)

lemma um_wf_map [simp]: "um_wf (map (\<lambda>(k, v). (k, f k v)) m) = um_wf m"
  by (simp add: um_wf_def um_keys_map)

lemma um_find_filter:
  "um_wf m \<Longrightarrow> um_find (filter (\<lambda>(k, v). P k v) m) k =
     (case um_find m k of None \<Rightarrow> None | Some v \<Rightarrow> if P k v then Some v else None)"
proof (induction m)
  case (Cons x m)
  obtain j v where x: "x = (j, v)" by (cases x)
  have "um_wf m" "um_find m j = None" using Cons.prems x by (auto simp: um_wf_def um_keys_def map_of_eq_None_iff)
  then show ?case using Cons.IH x by (auto split: option.splits)
qed simp

lemma um_wf_filter [simp]: "um_wf m \<Longrightarrow> um_wf (filter P m)"
  by (simp add: um_wf_def um_keys_def distinct_map_filter)

lemma in_keys_filter:
  "um_wf m \<Longrightarrow> k \<in> set (map fst (filter (\<lambda>(k, x). P k x) m)) \<longleftrightarrow> (\<exists>x. um_find m k = Some x \<and> P k x)"
  by (force simp: um_find_Some_iff)

lemma um_modify_find_None: "um_find m k = None \<Longrightarrow> um_modify k f m = m"
  by (induction m) (auto simp: um_modify_def split: if_splits)

section \<open>Runs of operations\<close>

text \<open>
  A component as operations on a state: \<open>run_ok\<close> says that every operation of a sequence is allowed in
  the state it is applied to.  A client that proves the step law gets the invariant of all runs.
\<close>

fun run_ok :: "('op \<Rightarrow> 's \<Rightarrow> bool) \<Rightarrow> ('op \<Rightarrow> 's \<Rightarrow> 's) \<Rightarrow> 'op list \<Rightarrow> 's \<Rightarrow> bool" where
  "run_ok ok app [] s \<longleftrightarrow> True"
| "run_ok ok app (x # xs) s \<longleftrightarrow> ok x s \<and> run_ok ok app xs (app x s)"

locale run_invariant =
  fixes app :: "'op \<Rightarrow> 's \<Rightarrow> 's" and ok :: "'op \<Rightarrow> 's \<Rightarrow> bool" and inv :: "'s \<Rightarrow> bool"
  assumes step: "inv s \<Longrightarrow> ok x s \<Longrightarrow> inv (app x s)"
begin

lemma run: "inv s \<Longrightarrow> run_ok ok app xs s \<Longrightarrow> inv (fold app xs s)"
  by (induction xs arbitrary: s) (auto intro: step)

end

end
