(* ===== verification/Protocol.thy ===== *)
theory Protocol
  imports Kmp_Prelude
begin

text \<open>
  \<^verbatim>\<open>KenshiMP.Common/include/kmp/protocol.h\<close>: the message types, the packet header and the
  serialisation buffers \<^verbatim>\<open>PacketWriter\<close> and \<^verbatim>\<open>PacketReader\<close>.  A writer operation is a function
  on the bytes written so far; a reader operation returns the value (None when the C++ method
  returns false) together with the reader it leaves behind.  The locale \<^verbatim>\<open>wire_struct\<close> is the
  contract between a packed struct and the buffers; every message struct interprets it.
\<close>

named_theorems msg_type

section \<open>Message types\<close>

text \<open>
  \<^verbatim>\<open>enum class MessageType : uint8_t\<close> has a fixed underlying type, so every byte is a value
  of it; the enumerators are named bytes.
\<close>

type_synonym MessageType = u8

definition C2S_Handshake :: MessageType where [msg_type]: "C2S_Handshake = 0x01"
definition S2C_HandshakeAck :: MessageType where [msg_type]: "S2C_HandshakeAck = 0x02"
definition S2C_HandshakeReject :: MessageType where [msg_type]: "S2C_HandshakeReject = 0x03"
definition C2S_Disconnect :: MessageType where [msg_type]: "C2S_Disconnect = 0x04"
definition S2C_PlayerJoined :: MessageType where [msg_type]: "S2C_PlayerJoined = 0x05"
definition S2C_PlayerLeft :: MessageType where [msg_type]: "S2C_PlayerLeft = 0x06"
definition C2S_Keepalive :: MessageType where [msg_type]: "C2S_Keepalive = 0x07"
definition S2C_KeepaliveAck :: MessageType where [msg_type]: "S2C_KeepaliveAck = 0x08"
definition C2S_PlayerReady :: MessageType where [msg_type]: "C2S_PlayerReady = 0x09"
definition S2C_AllPlayersReady :: MessageType where [msg_type]: "S2C_AllPlayersReady = 0x0A"
definition S2C_WorldSnapshot :: MessageType where [msg_type]: "S2C_WorldSnapshot = 0x10"
definition S2C_TimeSync :: MessageType where [msg_type]: "S2C_TimeSync = 0x11"
definition S2C_ZoneData :: MessageType where [msg_type]: "S2C_ZoneData = 0x12"
definition S2C_EntitySpawn :: MessageType where [msg_type]: "S2C_EntitySpawn = 0x20"
definition S2C_EntityDespawn :: MessageType where [msg_type]: "S2C_EntityDespawn = 0x21"
definition C2S_EntitySpawnReq :: MessageType where [msg_type]: "C2S_EntitySpawnReq = 0x22"
definition C2S_EntityDespawnReq :: MessageType where [msg_type]: "C2S_EntityDespawnReq = 0x23"
definition C2S_ZoneRequest :: MessageType where [msg_type]: "C2S_ZoneRequest = 0x13"
definition C2S_PositionUpdate :: MessageType where [msg_type]: "C2S_PositionUpdate = 0x30"
definition S2C_PositionUpdate :: MessageType where [msg_type]: "S2C_PositionUpdate = 0x31"
definition C2S_MoveCommand :: MessageType where [msg_type]: "C2S_MoveCommand = 0x32"
definition S2C_MoveCommand :: MessageType where [msg_type]: "S2C_MoveCommand = 0x33"
definition C2S_AttackIntent :: MessageType where [msg_type]: "C2S_AttackIntent = 0x40"
definition S2C_CombatHit :: MessageType where [msg_type]: "S2C_CombatHit = 0x41"
definition S2C_CombatBlock :: MessageType where [msg_type]: "S2C_CombatBlock = 0x42"
definition S2C_CombatDeath :: MessageType where [msg_type]: "S2C_CombatDeath = 0x43"
definition S2C_CombatKO :: MessageType where [msg_type]: "S2C_CombatKO = 0x44"
definition C2S_CombatStance :: MessageType where [msg_type]: "C2S_CombatStance = 0x45"
definition C2S_CombatDeath :: MessageType where [msg_type]: "C2S_CombatDeath = 0x46"
definition C2S_CombatKO :: MessageType where [msg_type]: "C2S_CombatKO = 0x47"
definition S2C_StatUpdate :: MessageType where [msg_type]: "S2C_StatUpdate = 0x50"
definition S2C_HealthUpdate :: MessageType where [msg_type]: "S2C_HealthUpdate = 0x51"
definition S2C_EquipmentUpdate :: MessageType where [msg_type]: "S2C_EquipmentUpdate = 0x52"
definition C2S_EquipmentUpdate :: MessageType where [msg_type]: "C2S_EquipmentUpdate = 0x53"
definition C2S_LimbHealth :: MessageType where [msg_type]: "C2S_LimbHealth = 0x54"
definition S2C_LimbHealth :: MessageType where [msg_type]: "S2C_LimbHealth = 0x55"
definition C2S_StatusEffect :: MessageType where [msg_type]: "C2S_StatusEffect = 0x56"
definition S2C_StatusEffect :: MessageType where [msg_type]: "S2C_StatusEffect = 0x57"
definition C2S_ItemPickup :: MessageType where [msg_type]: "C2S_ItemPickup = 0x60"
definition C2S_ItemDrop :: MessageType where [msg_type]: "C2S_ItemDrop = 0x61"
definition C2S_ItemTransfer :: MessageType where [msg_type]: "C2S_ItemTransfer = 0x62"
definition S2C_InventoryUpdate :: MessageType where [msg_type]: "S2C_InventoryUpdate = 0x63"
definition C2S_TradeRequest :: MessageType where [msg_type]: "C2S_TradeRequest = 0x64"
definition S2C_TradeResult :: MessageType where [msg_type]: "S2C_TradeResult = 0x65"
definition C2S_BuildRequest :: MessageType where [msg_type]: "C2S_BuildRequest = 0x70"
definition S2C_BuildPlaced :: MessageType where [msg_type]: "S2C_BuildPlaced = 0x71"
definition S2C_BuildProgress :: MessageType where [msg_type]: "S2C_BuildProgress = 0x72"
definition S2C_BuildDestroyed :: MessageType where [msg_type]: "S2C_BuildDestroyed = 0x73"
definition C2S_DoorInteract :: MessageType where [msg_type]: "C2S_DoorInteract = 0x74"
definition S2C_DoorState :: MessageType where [msg_type]: "S2C_DoorState = 0x75"
definition C2S_BuildDismantle :: MessageType where [msg_type]: "C2S_BuildDismantle = 0x76"
definition C2S_BuildRepair :: MessageType where [msg_type]: "C2S_BuildRepair = 0x77"
definition C2S_SquadCreate :: MessageType where [msg_type]: "C2S_SquadCreate = 0xB0"
definition S2C_SquadCreated :: MessageType where [msg_type]: "S2C_SquadCreated = 0xB1"
definition C2S_SquadAddMember :: MessageType where [msg_type]: "C2S_SquadAddMember = 0xB2"
definition S2C_SquadMemberUpdate :: MessageType where [msg_type]: "S2C_SquadMemberUpdate = 0xB3"
definition C2S_FactionRelation :: MessageType where [msg_type]: "C2S_FactionRelation = 0xC0"
definition S2C_FactionRelation :: MessageType where [msg_type]: "S2C_FactionRelation = 0xC1"
definition C2S_ChatMessage :: MessageType where [msg_type]: "C2S_ChatMessage = 0x80"
definition S2C_ChatMessage :: MessageType where [msg_type]: "S2C_ChatMessage = 0x81"
definition S2C_SystemMessage :: MessageType where [msg_type]: "S2C_SystemMessage = 0x82"
definition C2S_AdminCommand :: MessageType where [msg_type]: "C2S_AdminCommand = 0x90"
definition S2C_AdminResponse :: MessageType where [msg_type]: "S2C_AdminResponse = 0x91"
definition S2C_HostAssignment :: MessageType where [msg_type]: "S2C_HostAssignment = 0x92"
definition C2S_ServerQuery :: MessageType where [msg_type]: "C2S_ServerQuery = 0xA0"
definition S2C_ServerInfo :: MessageType where [msg_type]: "S2C_ServerInfo = 0xA1"
definition MS_Register :: MessageType where [msg_type]: "MS_Register = 0xD0"
definition MS_Heartbeat :: MessageType where [msg_type]: "MS_Heartbeat = 0xD1"
definition MS_Deregister :: MessageType where [msg_type]: "MS_Deregister = 0xD2"
definition MS_QueryList :: MessageType where [msg_type]: "MS_QueryList = 0xD3"
definition MS_ServerList :: MessageType where [msg_type]: "MS_ServerList = 0xD4"
definition C2S_PipelineSnapshot :: MessageType where [msg_type]: "C2S_PipelineSnapshot = 0xE0"
definition S2C_PipelineSnapshot :: MessageType where [msg_type]: "S2C_PipelineSnapshot = 0xE1"
definition C2S_PipelineEvent :: MessageType where [msg_type]: "C2S_PipelineEvent = 0xE2"
definition S2C_PipelineEvent :: MessageType where [msg_type]: "S2C_PipelineEvent = 0xE3"
definition S2C_EntityHeartbeat :: MessageType where [msg_type]: "S2C_EntityHeartbeat = 0x14"
definition C2S_EntityAck :: MessageType where [msg_type]: "C2S_EntityAck = 0x15"
definition S2C_FactionAssignment :: MessageType where [msg_type]: "S2C_FactionAssignment = 0xF0"
definition C2S_LobbyReady :: MessageType where [msg_type]: "C2S_LobbyReady = 0xF1"
definition S2C_LobbyStart :: MessageType where [msg_type]: "S2C_LobbyStart = 0xF2"

definition all_message_types :: "MessageType list" where
  "all_message_types =
    [C2S_Handshake, S2C_HandshakeAck, S2C_HandshakeReject, C2S_Disconnect, S2C_PlayerJoined,
     S2C_PlayerLeft, C2S_Keepalive, S2C_KeepaliveAck, C2S_PlayerReady, S2C_AllPlayersReady,
     S2C_WorldSnapshot, S2C_TimeSync, S2C_ZoneData, S2C_EntitySpawn, S2C_EntityDespawn,
     C2S_EntitySpawnReq, C2S_EntityDespawnReq, C2S_ZoneRequest, C2S_PositionUpdate,
     S2C_PositionUpdate, C2S_MoveCommand, S2C_MoveCommand, C2S_AttackIntent, S2C_CombatHit,
     S2C_CombatBlock, S2C_CombatDeath, S2C_CombatKO, C2S_CombatStance, C2S_CombatDeath,
     C2S_CombatKO, S2C_StatUpdate, S2C_HealthUpdate, S2C_EquipmentUpdate, C2S_EquipmentUpdate,
     C2S_LimbHealth, S2C_LimbHealth, C2S_StatusEffect, S2C_StatusEffect, C2S_ItemPickup,
     C2S_ItemDrop, C2S_ItemTransfer, S2C_InventoryUpdate, C2S_TradeRequest, S2C_TradeResult,
     C2S_BuildRequest, S2C_BuildPlaced, S2C_BuildProgress, S2C_BuildDestroyed,
     C2S_DoorInteract, S2C_DoorState, C2S_BuildDismantle, C2S_BuildRepair, C2S_SquadCreate,
     S2C_SquadCreated, C2S_SquadAddMember, S2C_SquadMemberUpdate, C2S_FactionRelation,
     S2C_FactionRelation, C2S_ChatMessage, S2C_ChatMessage, S2C_SystemMessage,
     C2S_AdminCommand, S2C_AdminResponse, S2C_HostAssignment, C2S_ServerQuery, S2C_ServerInfo,
     MS_Register, MS_Heartbeat, MS_Deregister, MS_QueryList, MS_ServerList,
     C2S_PipelineSnapshot, S2C_PipelineSnapshot, C2S_PipelineEvent, S2C_PipelineEvent,
     S2C_EntityHeartbeat, C2S_EntityAck, S2C_FactionAssignment, C2S_LobbyReady, S2C_LobbyStart]"

lemma all_message_types_distinct: "distinct all_message_types"
  unfolding all_message_types_def msg_type by simp

section \<open>Packet header\<close>

record PacketHeader =
  ph_type :: MessageType
  ph_flags :: u8
  ph_sequence :: u16
  ph_timestamp :: u32

definition PacketHeader_enc :: "PacketHeader \<Rightarrow> bytes" where
  "PacketHeader_enc h =
     bytes_u8 (ph_type h) @ bytes_u8 (ph_flags h) @ bytes_u16 (ph_sequence h) @ bytes_u32 (ph_timestamp h)"

definition PacketHeader_dec :: "bytes \<Rightarrow> PacketHeader" where
  "PacketHeader_dec bs = \<lparr>ph_type = u8_of (bslice 0 1 bs), ph_flags = u8_of (bslice 1 1 bs),
     ph_sequence = u16_of (bslice 2 2 bs), ph_timestamp = u32_of (bslice 4 4 bs)\<rparr>"

section \<open>PacketWriter\<close>

type_synonym PacketWriter = bytes

definition WriteRaw :: "bytes \<Rightarrow> PacketWriter \<Rightarrow> PacketWriter" where
  "WriteRaw data w = w @ data"

definition WriteHeader :: "MessageType \<Rightarrow> u16 \<Rightarrow> u32 \<Rightarrow> PacketWriter \<Rightarrow> PacketWriter" where
  "WriteHeader type seq tick = WriteRaw (PacketHeader_enc
     \<lparr>ph_type = type, ph_flags = 0, ph_sequence = seq, ph_timestamp = tick\<rparr>)"

definition WriteU8 :: "u8 \<Rightarrow> PacketWriter \<Rightarrow> PacketWriter" where
  "WriteU8 v = WriteRaw (bytes_u8 v)"

definition WriteU16 :: "u16 \<Rightarrow> PacketWriter \<Rightarrow> PacketWriter" where
  "WriteU16 v = WriteRaw (bytes_u16 v)"

definition WriteU32 :: "u32 \<Rightarrow> PacketWriter \<Rightarrow> PacketWriter" where
  "WriteU32 v = WriteRaw (bytes_u32 v)"

definition WriteI32 :: "i32 \<Rightarrow> PacketWriter \<Rightarrow> PacketWriter" where
  "WriteI32 v = WriteRaw (bytes_u32 v)"

definition WriteF32 :: "u32 \<Rightarrow> PacketWriter \<Rightarrow> PacketWriter" where
  "WriteF32 v = WriteRaw (bytes_u32 v)"

definition WriteVec3 :: "u32 \<Rightarrow> u32 \<Rightarrow> u32 \<Rightarrow> PacketWriter \<Rightarrow> PacketWriter" where
  "WriteVec3 x y z w = WriteF32 z (WriteF32 y (WriteF32 x w))"

definition WriteString :: "bytes \<Rightarrow> PacketWriter \<Rightarrow> PacketWriter" where
  "WriteString s w = (let len = of_nat (length s) :: u16; w1 = WriteU16 len w in
     if 0 < len then WriteRaw (take (unat len) s) w1 else w1)"

text \<open>A packet is what a fresh writer holds after a sequence of writes.\<close>

definition packet :: "(PacketWriter \<Rightarrow> PacketWriter) list \<Rightarrow> bytes" where
  "packet ws = fold (\<lambda>f w. f w) ws []"

abbreviation hdr :: "MessageType \<Rightarrow> PacketWriter \<Rightarrow> PacketWriter" where
  "hdr type \<equiv> WriteHeader type 0 0"

lemmas writer_defs = WriteHeader_def WriteU8_def WriteU16_def WriteU32_def WriteI32_def
  WriteF32_def WriteVec3_def WriteRaw_def

section \<open>PacketReader\<close>

record PacketReader =
  m_data :: bytes
  m_pos :: nat

abbreviation m_size :: "PacketReader \<Rightarrow> nat" where
  "m_size r \<equiv> length (m_data r)"

definition PacketReader_new :: "bytes \<Rightarrow> PacketReader" where
  "PacketReader_new data = \<lparr>m_data = data, m_pos = 0\<rparr>"

definition ReadRaw :: "nat \<Rightarrow> PacketReader \<Rightarrow> bytes option \<times> PacketReader" where
  "ReadRaw len r = (if m_pos r + len > m_size r then (None, r)
     else (Some (bslice (m_pos r) len (m_data r)), r\<lparr>m_pos := m_pos r + len\<rparr>))"

definition ReadStruct :: "nat \<Rightarrow> (bytes \<Rightarrow> 'a) \<Rightarrow> PacketReader \<Rightarrow> 'a option \<times> PacketReader" where
  "ReadStruct sz dec r = apfst (map_option dec) (ReadRaw sz r)"

definition ReadHeader :: "PacketReader \<Rightarrow> PacketHeader option \<times> PacketReader" where
  "ReadHeader = ReadStruct 8 PacketHeader_dec"

definition ReadU8 :: "PacketReader \<Rightarrow> u8 option \<times> PacketReader" where
  "ReadU8 = ReadStruct 1 u8_of"

definition ReadU16 :: "PacketReader \<Rightarrow> u16 option \<times> PacketReader" where
  "ReadU16 = ReadStruct 2 u16_of"

definition ReadU32 :: "PacketReader \<Rightarrow> u32 option \<times> PacketReader" where
  "ReadU32 = ReadStruct 4 u32_of"

definition ReadI32 :: "PacketReader \<Rightarrow> i32 option \<times> PacketReader" where
  "ReadI32 = ReadStruct 4 u32_of"

definition ReadF32 :: "PacketReader \<Rightarrow> u32 option \<times> PacketReader" where
  "ReadF32 = ReadStruct 4 u32_of"

definition ReadVec3 :: "PacketReader \<Rightarrow> (u32 \<times> u32 \<times> u32) option \<times> PacketReader" where
  "ReadVec3 r = (case ReadF32 r of (None, r) \<Rightarrow> (None, r) | (Some x, r) \<Rightarrow>
     (case ReadF32 r of (None, r) \<Rightarrow> (None, r) | (Some y, r) \<Rightarrow>
       (case ReadF32 r of (None, r) \<Rightarrow> (None, r) | (Some z, r) \<Rightarrow> (Some (x, y, z), r))))"

definition ReadString :: "nat \<Rightarrow> PacketReader \<Rightarrow> bytes option \<times> PacketReader" where
  "ReadString maxLen r = (case ReadU16 r of (None, r) \<Rightarrow> (None, r) | (Some len, r) \<Rightarrow>
     if unat len > maxLen then (None, r)
     else if m_pos r + unat len > m_size r then (None, r)
     else (Some (bslice (m_pos r) (unat len) (m_data r)), r\<lparr>m_pos := m_pos r + unat len\<rparr>))"

definition Remaining :: "PacketReader \<Rightarrow> nat" where
  "Remaining r = m_size r - m_pos r"

definition Current :: "PacketReader \<Rightarrow> bytes" where
  "Current r = drop (m_pos r) (m_data r)"

lemmas reader_defs = ReadU8_def ReadU16_def ReadU32_def ReadI32_def ReadF32_def ReadHeader_def

text \<open>The cursor never leaves the buffer, and no read changes the buffer.\<close>

definition reader_ok :: "PacketReader \<Rightarrow> bool" where
  "reader_ok r = (m_pos r \<le> m_size r)"

lemma reader_ok_new [simp]: "reader_ok (PacketReader_new data)"
  by (simp add: reader_ok_def PacketReader_new_def)

lemma ReadStruct_data [simp]: "m_data (snd (ReadStruct sz dec r)) = m_data r"
  by (simp add: ReadStruct_def ReadRaw_def)

lemma ReadStruct_pos:
  "m_pos (snd (ReadStruct sz dec r)) = (if fst (ReadStruct sz dec r) = None then m_pos r else m_pos r + sz)"
  by (simp add: ReadStruct_def ReadRaw_def)

lemma ReadStruct_ok [simp]: "reader_ok r \<Longrightarrow> reader_ok (snd (ReadStruct sz dec r))"
  by (simp add: reader_ok_def ReadStruct_def ReadRaw_def)

lemma ReadStruct_None_iff: "reader_ok r \<Longrightarrow> fst (ReadStruct sz dec r) = None \<longleftrightarrow> Remaining r < sz"
  by (auto simp: reader_ok_def ReadStruct_def ReadRaw_def Remaining_def)

section \<open>The contract of a packed struct\<close>

text \<open>
  A struct \<^verbatim>\<open>T\<close> read with \<^verbatim>\<open>ReadRaw(&msg, sizeof(T))\<close> and written with \<^verbatim>\<open>WriteRaw(&msg, sizeof(T))\<close>:
  its image has exactly \<open>sz\<close> bytes, decoding inverts encoding, and, the struct being packed,
  encoding inverts decoding on every image.
\<close>

locale wire_struct =
  fixes enc :: "'a \<Rightarrow> bytes" and dec :: "bytes \<Rightarrow> 'a" and sz :: nat and wf :: "'a \<Rightarrow> bool"
  assumes enc_length: "wf m \<Longrightarrow> length (enc m) = sz"
    and dec_enc: "wf m \<Longrightarrow> dec (enc m) = m"
    and dec_wf: "length bs = sz \<Longrightarrow> wf (dec bs)"
    and enc_dec: "length bs = sz \<Longrightarrow> enc (dec bs) = bs"
begin

lemma read_written:
  assumes "wf m"
  shows "ReadStruct sz dec \<lparr>m_data = pre @ enc m @ post, m_pos = length pre\<rparr>
    = (Some m, \<lparr>m_data = pre @ enc m @ post, m_pos = length pre + sz\<rparr>)"
  using assms by (simp add: ReadStruct_def ReadRaw_def bslice_def enc_length dec_enc)

lemma read_fails_iff: "reader_ok r \<Longrightarrow> fst (ReadStruct sz dec r) = None \<longleftrightarrow> Remaining r < sz"
  by (rule ReadStruct_None_iff)

lemma read_reencodes:
  assumes "ReadStruct sz dec r = (Some m, r')"
  shows "wf m" "enc m = bslice (m_pos r) sz (m_data r)" "r' = r\<lparr>m_pos := m_pos r + sz\<rparr>"
    "m_pos r + sz \<le> m_size r"
  using assms
  by (auto simp: ReadStruct_def ReadRaw_def apfst_def map_prod_def enc_dec dec_wf split: if_splits)

lemma enc_inject: "wf a \<Longrightarrow> wf b \<Longrightarrow> enc a = enc b \<Longrightarrow> a = b"
  by (metis dec_enc)

end

interpretation header: wire_struct PacketHeader_enc PacketHeader_dec 8 "\<lambda>_. True"
  by unfold_locales (simp_all add: PacketHeader_enc_def PacketHeader_dec_def wire_simps)

interpretation wire_u8: wire_struct bytes_u8 u8_of 1 "\<lambda>_. True"
  by unfold_locales (simp_all add: bytes_u8_of)

interpretation wire_u16: wire_struct bytes_u16 u16_of 2 "\<lambda>_. True"
  by unfold_locales (simp_all add: bytes_u16_of)

interpretation wire_u32: wire_struct bytes_u32 u32_of 4 "\<lambda>_. True"
  by unfold_locales (simp_all add: bytes_u32_of)

end
