(* ===== verification/Float32.thy ===== *)
theory Float32
  imports Kmp_Prelude
begin

text \<open>
  The C++ type \<^verbatim>\<open>float\<close>: IEEE 754 binary32 with round-to-nearest-even after every operation, as
  SSE arithmetic on the x86-64 target performs it.  A \<^verbatim>\<open>float\<close> is its bit pattern, so that it can
  be sent over the wire unchanged.  Every finite value is an integer multiple of \<open>2\<^sup>-\<^sup>1\<^sup>4\<^sup>9\<close>;
  arithmetic is exact integer arithmetic on those multiples followed by one rounding
  (\<^verbatim>\<open>mag_round\<close>).  The payload of a NaN result is not specified by the language; the model
  fixes the canonical quiet NaN and no theorem depends on it.

  The two facts the components rest on: rounding is monotone (\<^verbatim>\<open>kround_mono\<close>) and leaves
  representable values alone (\<^verbatim>\<open>kround_exact\<close>); together they turn bounds on exact values into
  bounds on computed ones.
\<close>

named_theorems f32_lits

section \<open>Rounding magnitudes\<close>

text \<open>
  \<open>norm_shift n\<close> is how far an integer must be shifted right to fit the 24 bits of a
  significand; \<open>rne n d\<close> rounds \<open>n / d\<close> to the nearest integer, ties to even.  The rounded
  magnitude of \<open>n / d\<close> (in units of \<open>2\<^sup>-\<^sup>1\<^sup>4\<^sup>9\<close>) is given as the low 31 bits of the pattern, saturating
  at infinity; \<open>mag_int\<close> reads such a pattern back.
\<close>

fun norm_shift :: "nat \<Rightarrow> nat" where
  "norm_shift n = (if n < 2 ^ 24 then 0 else Suc (norm_shift (n div 2)))"

declare norm_shift.simps [simp del]

definition rne :: "nat \<Rightarrow> nat \<Rightarrow> nat" where
  "rne n d = (let q = n div d; r = n mod d in
     if 2 * r < d \<or> 2 * r = d \<and> even q then q else q + 1)"

definition mag_inf :: nat where
  "mag_inf = 255 * 2 ^ 23"

definition mag_round :: "nat \<Rightarrow> nat \<Rightarrow> nat" where
  "mag_round n d = (let k = norm_shift (n div d) in min mag_inf (k * 2 ^ 23 + rne n (d * 2 ^ k)))"

definition mag_int :: "nat \<Rightarrow> nat" where
  "mag_int m = (if m < 2 ^ 23 then m else (2 ^ 23 + m mod 2 ^ 23) * 2 ^ (m div 2 ^ 23 - 1))"

subsection \<open>Monotonicity and exactness of rounding\<close>

lemma norm_shift_upper: "n div 2 ^ norm_shift n < 2 ^ 24"
proof (induction n rule: norm_shift.induct)
  case (1 n)
  then show ?case
    by (cases "n < 2 ^ 24") (simp_all add: norm_shift.simps [of n] div_mult2_eq)
qed

lemma norm_shift_lower: "0 < norm_shift n \<Longrightarrow> 2 ^ 23 \<le> n div 2 ^ norm_shift n"
proof (induction n rule: norm_shift.induct)
  case (1 n)
  show ?case
  proof (cases "norm_shift (n div 2) = 0")
    case True
    then have "n div 2 < 2 ^ 24" by (simp add: norm_shift.simps [of "n div 2"] split: if_splits)
    with "1.prems" True show ?thesis
      by (simp add: norm_shift.simps [of n] split: if_splits)
  next
    case False
    with 1 show ?thesis
      by (auto simp: norm_shift.simps [of n] div_mult2_eq split: if_splits)
  qed
qed

lemma norm_shift_mono: "a \<le> b \<Longrightarrow> norm_shift a \<le> norm_shift b"
proof (induction a arbitrary: b rule: norm_shift.induct)
  case (1 a)
  show ?case
  proof (cases "a < 2 ^ 24")
    case True
    then show ?thesis by (simp add: norm_shift.simps [of a])
  next
    case False
    with "1.prems" have "a div 2 \<le> b div 2" "\<not> b < 2 ^ 24" by (simp_all add: div_le_mono)
    with False "1.IH" [of "b div 2"] show ?thesis
      by (simp add: norm_shift.simps [of a] norm_shift.simps [of b])
  qed
qed

lemma norm_shift_scale:
  "2 ^ 23 \<le> m \<Longrightarrow> m < 2 ^ 24 \<Longrightarrow> norm_shift (m * 2 ^ k) = k"
proof (induction k)
  case 0
  then show ?case by (simp add: norm_shift.simps [of m])
next
  case (Suc k)
  have "2 ^ 23 * 2 ^ Suc k \<le> m * 2 ^ Suc k" using Suc.prems(1) by (rule mult_le_mono1)
  moreover have "(2::nat) ^ 24 \<le> 2 ^ 23 * 2 ^ Suc k" by simp
  ultimately have "\<not> m * 2 ^ Suc k < 2 ^ 24" by linarith
  moreover have "m * 2 ^ Suc k div 2 = m * 2 ^ k" by simp
  ultimately show ?case using Suc
    by (simp only: norm_shift.simps [of "m * 2 ^ Suc k"] if_False)
qed

lemma rne_exact [simp]: "0 < d \<Longrightarrow> rne (n * d) d = n" "0 < d \<Longrightarrow> rne (d * n) d = n"
  by (simp_all add: rne_def)

lemma rne_bounds: "n div d \<le> rne n d" "rne n d \<le> Suc (n div d)"
  by (simp_all add: rne_def Let_def)

lemma rne_div_mod:
  fixes n d :: nat
  obtains q r where "n = q * d + r" "n div d = q" "n mod d = r"
  by (metis div_mult_mod_eq)

lemma rne_lower: "0 < d \<Longrightarrow> 2 * (rne n d * d) \<le> 2 * n + d"
  and rne_lower_tie: "0 < d \<Longrightarrow> 2 * (rne n d * d) = 2 * n + d \<Longrightarrow> even (rne n d)"
  and rne_upper: "0 < d \<Longrightarrow> 2 * n \<le> 2 * (rne n d * d) + d"
  and rne_upper_tie: "0 < d \<Longrightarrow> 2 * n = 2 * (rne n d * d) + d \<Longrightarrow> even (rne n d)"
proof -
  assume d: "0 < d"
  obtain q r where n: "n = q * d + r" and q: "n div d = q" and r: "n mod d = r"
    by (rule rne_div_mod)
  have rd: "r < d" using d r by auto
  have eq: "rne n d = (if 2 * r < d \<or> 2 * r = d \<and> even q then q else q + 1)"
    by (simp add: rne_def q r)
  have n2: "2 * n = 2 * (q * d) + 2 * r" by (simp add: n)
  show "2 * (rne n d * d) \<le> 2 * n + d"
    unfolding eq n2 using rd by (auto simp: algebra_simps)
  show "2 * n \<le> 2 * (rne n d * d) + d"
    unfolding eq n2 using rd by (auto simp: algebra_simps)
  show "even (rne n d)" if "2 * (rne n d * d) = 2 * n + d"
    using that rd d unfolding eq n2 by (auto simp: algebra_simps split: if_splits)
  show "even (rne n d)" if "2 * n = 2 * (rne n d * d) + d"
    using that rd d unfolding eq n2 by (auto simp: algebra_simps split: if_splits)
qed

lemma rne_mono:
  assumes d: "0 < d1" "0 < d2" and le: "n1 * d2 \<le> n2 * d1"
  shows "rne n1 d1 \<le> rne n2 d2"
proof (rule ccontr)
  define a b where "a = rne n1 d1" and "b = rne n2 d2"
  assume "\<not> rne n1 d1 \<le> rne n2 d2"
  then have ab: "Suc b \<le> a" by (simp add: a_def b_def)
  have 1: "2 * (a * d1) * d2 \<le> (2 * n1 + d1) * d2"
    using rne_lower [OF d(1), of n1] by (simp add: a_def)
  have 2: "2 * n2 * d1 \<le> (2 * (b * d2) + d2) * d1"
    using rne_upper [OF d(2), of n2] by (simp add: b_def)
  have 3: "Suc b * (d1 * d2) \<le> a * (d1 * d2)" using ab by (rule mult_le_mono1)
  have e1: "2 * (a * d1) * d2 = (2 * n1 + d1) * d2"
   and e2: "2 * n2 * d1 = (2 * (b * d2) + d2) * d1"
   and e3: "Suc b * (d1 * d2) = a * (d1 * d2)"
    using 1 2 3 le by (simp_all add: algebra_simps)
  have "even a" using e1 d rne_lower_tie [OF d(1), of n1] by (simp add: a_def)
  moreover have "even b" using e2 d rne_upper_tie [OF d(2), of n2] by (simp add: b_def)
  moreover have "a = Suc b" using e3 d by (metis mult_right_cancel nat_0_less_mult_iff neq0_conv)
  ultimately show False by simp
qed

lemma div_cross_mono:
  fixes n1 d1 n2 d2 :: nat
  assumes "0 < d1" "0 < d2" "n1 * d2 \<le> n2 * d1"
  shows "n1 div d1 \<le> n2 div d2"
proof -
  have "n1 div d1 * d1 * d2 \<le> n1 * d2" by simp
  also have "\<dots> \<le> n2 * d1" by fact
  finally have "(n1 div d1 * d2) * d1 \<le> n2 * d1" by (simp add: ac_simps)
  then have "n1 div d1 * d2 \<le> n2" using assms by simp
  then show ?thesis using assms by (simp add: less_eq_div_iff_mult_less_eq)
qed

lemma mag_round_bits_range:
  fixes n d :: nat
  assumes "0 < d"
  defines "k \<equiv> norm_shift (n div d)"
  shows "rne n (d * 2 ^ k) \<le> 2 ^ 24" and "0 < k \<Longrightarrow> 2 ^ 23 \<le> rne n (d * 2 ^ k)"
proof -
  have eq: "n div (d * 2 ^ k) = n div d div 2 ^ k" by (simp add: div_mult2_eq)
  have "n div (d * 2 ^ k) < 2 ^ 24" unfolding eq unfolding k_def by (rule norm_shift_upper)
  then show "rne n (d * 2 ^ k) \<le> 2 ^ 24" using rne_bounds(2) [of n "d * 2 ^ k"] by linarith
  assume "0 < k"
  then have "2 ^ 23 \<le> n div (d * 2 ^ k)" unfolding eq unfolding k_def by (rule norm_shift_lower)
  then show "2 ^ 23 \<le> rne n (d * 2 ^ k)" using rne_bounds(1) [of n "d * 2 ^ k"] by linarith
qed

lemma mag_round_mono:
  assumes d: "0 < d1" "0 < d2" and le: "n1 * d2 \<le> n2 * d1"
  shows "mag_round n1 d1 \<le> mag_round n2 d2"
proof -
  define k1 k2 where "k1 = norm_shift (n1 div d1)" and "k2 = norm_shift (n2 div d2)"
  have "k1 \<le> k2" unfolding k1_def k2_def by (intro norm_shift_mono div_cross_mono d le)
  have "k1 * 2 ^ 23 + rne n1 (d1 * 2 ^ k1) \<le> k2 * 2 ^ 23 + rne n2 (d2 * 2 ^ k2)"
  proof (cases "k1 = k2")
    case True
    have "n1 * d2 * 2 ^ k2 \<le> n2 * d1 * 2 ^ k2" using le by simp
    then have "rne n1 (d1 * 2 ^ k1) \<le> rne n2 (d2 * 2 ^ k2)"
      using d True by (intro rne_mono) (simp_all add: ac_simps)
    then show ?thesis using True by simp
  next
    case False
    with \<open>k1 \<le> k2\<close> have k: "Suc k1 \<le> k2" by simp
    then have "Suc k1 * 2 ^ 23 \<le> k2 * 2 ^ 23" by (rule mult_le_mono1)
    moreover have "rne n1 (d1 * 2 ^ k1) \<le> 2 ^ 24"
      using mag_round_bits_range(1) [OF d(1)] by (simp add: k1_def)
    moreover have "2 ^ 23 \<le> rne n2 (d2 * 2 ^ k2)"
      using mag_round_bits_range(2) [OF d(2), of n2] k by (simp add: k2_def)
    ultimately show ?thesis by simp
  qed
  then show ?thesis by (simp add: mag_round_def Let_def k1_def k2_def min_le_iff_disj)
qed

lemma mag_round_exact:
  assumes "0 < d" "m \<le> mag_inf"
  shows "mag_round (mag_int m * d) d = m"
proof (cases "m < 2 ^ 23")
  case True
  then show ?thesis using assms
    by (simp add: mag_round_def mag_int_def norm_shift.simps [of m])
next
  case False
  define f e where "f = 2 ^ 23 + m mod 2 ^ 23" and "e = m div 2 ^ 23 - 1"
  have f: "2 ^ 23 \<le> f" "f < 2 ^ 24" by (auto simp: f_def)
  have m: "e * 2 ^ 23 + f = m"
    using False div_mult_mod_eq [of m "2 ^ 23"]
    by (simp add: e_def f_def algebra_simps diff_mult_distrib)
  have eq: "mag_int m = f * 2 ^ e" using False by (simp add: mag_int_def f_def e_def)
  have "norm_shift (f * 2 ^ e) = e" using f by (rule norm_shift_scale)
  moreover have "rne (f * 2 ^ e * d) (d * 2 ^ e) = f"
    using rne_exact(1) [of "d * 2 ^ e" f] assms by (simp add: ac_simps)
  ultimately show ?thesis using assms m
    by (simp add: mag_round_def Let_def eq)
qed

lemma mag_round_le_inf: "mag_round n d \<le> mag_inf"
  by (simp add: mag_round_def Let_def)

lemma mag_round_zero [simp]: "0 < d \<Longrightarrow> mag_round 0 d = 0"
  by (simp add: mag_round_def rne_def norm_shift.simps)

lemma mag_round_le:
  assumes "0 < d" "n \<le> mag_int m * d" "m \<le> mag_inf" shows "mag_round n d \<le> m"
  using mag_round_mono [of d d n "mag_int m * d"] mag_round_exact [of d m] assms by simp

lemma mag_round_ge:
  assumes "0 < d" "mag_int m * d \<le> n" "m \<le> mag_inf" shows "m \<le> mag_round n d"
  using mag_round_mono [of d d "mag_int m * d" n] mag_round_exact [of d m] assms by simp

lemma mag_int_mono: 
  assumes "a \<le> b" "b \<le> mag_inf" shows "mag_int a \<le> mag_int b"
proof (rule ccontr)
  assume "\<not> mag_int a \<le> mag_int b"
  then have "b \<le> a" 
    using mag_round_mono [of 1 1 "mag_int b" "mag_int a"] mag_round_exact [of 1 a] mag_round_exact [of 1 b] assms by simp
  with assms \<open>\<not> mag_int a \<le> mag_int b\<close> show False by simp
qed

lemma mag_int_inj: "a \<le> mag_inf \<Longrightarrow> b \<le> mag_inf \<Longrightarrow> mag_int a = mag_int b \<Longrightarrow> a = b"
  using mag_round_exact [of 1 a] mag_round_exact [of 1 b] by simp


section \<open>Bit patterns and operations\<close>

type_synonym f32 = "32 word"

text \<open>
  \<open>f32_key\<close> orders all values but NaN the way the float comparisons do; \<open>f32_sval\<close> is the exact
  value of a finite pattern in units of \<open>2\<^sup>-\<^sup>1\<^sup>4\<^sup>9\<close>.
\<close>

definition f32_sign :: "f32 \<Rightarrow> bool" where
  "f32_sign x = (2 ^ 31 \<le> unat x)"

definition f32_mag :: "f32 \<Rightarrow> nat" where
  "f32_mag x = unat x mod 2 ^ 31"

definition f32_mk :: "bool \<Rightarrow> nat \<Rightarrow> f32" where
  "f32_mk s m = word_of_nat ((if s then 2 ^ 31 else 0) + m)"

definition f32_isnan :: "f32 \<Rightarrow> bool" where
  "f32_isnan x = (mag_inf < f32_mag x)"

definition f32_isinf :: "f32 \<Rightarrow> bool" where
  "f32_isinf x = (f32_mag x = mag_inf)"

definition f32_isfinite :: "f32 \<Rightarrow> bool" where
  "f32_isfinite x = (f32_mag x < mag_inf)"

definition f32_key :: "f32 \<Rightarrow> int" where
  "f32_key x = (if f32_sign x then - int (f32_mag x) else int (f32_mag x))"

definition f32_sval :: "f32 \<Rightarrow> int" where
  "f32_sval x = (if f32_sign x then - int (mag_int (f32_mag x)) else int (mag_int (f32_mag x)))"

definition f32_nan :: f32 where
  "f32_nan = 0x7FC00000"

text \<open>\<open>f32_scaled z n d\<close> rounds \<open>n / d\<close> units; \<open>z\<close> is the sign of an exact zero.\<close>

definition f32_scaled :: "bool \<Rightarrow> int \<Rightarrow> nat \<Rightarrow> f32" where
  "f32_scaled z n d = (if n = 0 then f32_mk z 0 else f32_mk (n < 0) (mag_round (nat \<bar>n\<bar>) d))"

text \<open>A decimal literal \<^verbatim>\<open>n/d f\<close>, correctly rounded by the compiler.\<close>

definition f32_lit :: "int \<Rightarrow> nat \<Rightarrow> f32" where
  "f32_lit n d = f32_scaled False (n * 2 ^ 149) d"

definition f32_neg :: "f32 \<Rightarrow> f32" where
  "f32_neg x = f32_mk (\<not> f32_sign x) (f32_mag x)"

definition f32_abs :: "f32 \<Rightarrow> f32" where
  "f32_abs x = f32_mk False (f32_mag x)"

definition f32_add :: "f32 \<Rightarrow> f32 \<Rightarrow> f32" where
  "f32_add x y =
     (if f32_isnan x \<or> f32_isnan y then f32_nan
      else if f32_isinf x then (if f32_isinf y \<and> f32_sign x \<noteq> f32_sign y then f32_nan else x)
      else if f32_isinf y then y
      else f32_scaled (f32_sign x \<and> f32_sign y) (f32_sval x + f32_sval y) 1)"

definition f32_sub :: "f32 \<Rightarrow> f32 \<Rightarrow> f32" where
  "f32_sub x y = f32_add x (f32_neg y)"

definition f32_mul :: "f32 \<Rightarrow> f32 \<Rightarrow> f32" where
  "f32_mul x y =
     (if f32_isnan x \<or> f32_isnan y then f32_nan
      else if f32_isinf x \<or> f32_isinf y then
        (if f32_mag x = 0 \<or> f32_mag y = 0 then f32_nan
         else f32_mk (f32_sign x \<noteq> f32_sign y) mag_inf)
      else f32_scaled (f32_sign x \<noteq> f32_sign y) (f32_sval x * f32_sval y) (2 ^ 149))"

definition f32_div :: "f32 \<Rightarrow> f32 \<Rightarrow> f32" where
  "f32_div x y =
     (if f32_isnan x \<or> f32_isnan y \<or> f32_isinf x \<and> f32_isinf y
         \<or> f32_mag x = 0 \<and> f32_mag y = 0 then f32_nan
      else if f32_isinf x \<or> f32_mag y = 0 then f32_mk (f32_sign x \<noteq> f32_sign y) mag_inf
      else if f32_isinf y then f32_mk (f32_sign x \<noteq> f32_sign y) 0
      else f32_scaled (f32_sign x \<noteq> f32_sign y)
             (sgn (f32_sval y) * f32_sval x * 2 ^ 149) (nat \<bar>f32_sval y\<bar>))"

text \<open>
  \<^verbatim>\<open>std::sqrt\<close> is correctly rounded.  The integer square root of the scaled radicand has at
  least 75 bits, so one sticky bit decides every rounding.
\<close>

definition isqrt_step :: "nat \<Rightarrow> nat \<Rightarrow> nat" where
  "isqrt_step n r = (if (2 * r + 1) * (2 * r + 1) \<le> n then 2 * r + 1 else 2 * r)"

fun isqrt :: "nat \<Rightarrow> nat" where
  "isqrt n = (if n = 0 then 0 else isqrt_step n (isqrt (n div 4)))"

declare isqrt.simps [simp del]

definition sticky :: "nat \<Rightarrow> nat \<Rightarrow> nat" where
  "sticky n s = 2 * s + (if s * s = n then 0 else 1)"

definition mag_sqrt :: "nat \<Rightarrow> nat" where
  "mag_sqrt n = mag_round (sticky n (isqrt n)) 2"

definition f32_sqrt :: "f32 \<Rightarrow> f32" where
  "f32_sqrt x =
     (if f32_isnan x then f32_nan
      else if f32_mag x = 0 then x
      else if f32_sign x then f32_nan
      else if f32_isinf x then x
      else f32_mk False (mag_sqrt (mag_int (f32_mag x) * 2 ^ 149)))"

definition f32_lt :: "f32 \<Rightarrow> f32 \<Rightarrow> bool" where
  "f32_lt x y = (\<not> f32_isnan x \<and> \<not> f32_isnan y \<and> f32_key x < f32_key y)"

definition f32_le :: "f32 \<Rightarrow> f32 \<Rightarrow> bool" where
  "f32_le x y = (\<not> f32_isnan x \<and> \<not> f32_isnan y \<and> f32_key x \<le> f32_key y)"

definition f32_eq :: "f32 \<Rightarrow> f32 \<Rightarrow> bool" where
  "f32_eq x y = (\<not> f32_isnan x \<and> \<not> f32_isnan y \<and> f32_key x = f32_key y)"

definition f32_floor :: "f32 \<Rightarrow> f32" where
  "f32_floor x = (if f32_isfinite x
     then f32_scaled (f32_sign x) (f32_sval x div 2 ^ 149 * 2 ^ 149) 1 else x)"

definition f32_trunc :: "f32 \<Rightarrow> int" where
  "f32_trunc x = sgn (f32_sval x) * (\<bar>f32_sval x\<bar> div 2 ^ 149)"

text \<open>
  \<^verbatim>\<open>static_cast<int32_t>(float)\<close>: truncation; out of range (undefined in C++) the x86-64
  conversion instruction returns the integer indefinite value.
\<close>

definition f32_to_i32 :: "f32 \<Rightarrow> 32 word" where
  "f32_to_i32 x = (if f32_isfinite x \<and> - (2 ^ 31) \<le> f32_trunc x \<and> f32_trunc x < 2 ^ 31
     then word_of_int (f32_trunc x) else 0x80000000)"

definition f32_of_int :: "int \<Rightarrow> f32" where
  "f32_of_int n = f32_scaled False (n * 2 ^ 149) 1"


text \<open>\<^verbatim>\<open>std::min\<close>, \<^verbatim>\<open>std::max\<close>, \<^verbatim>\<open>std::clamp\<close>.\<close>

definition f32_min :: "f32 \<Rightarrow> f32 \<Rightarrow> f32" where
  "f32_min a b = (if f32_lt b a then b else a)"

definition f32_max :: "f32 \<Rightarrow> f32 \<Rightarrow> f32" where
  "f32_max a b = (if f32_lt a b then b else a)"

definition f32_clamp :: "f32 \<Rightarrow> f32 \<Rightarrow> f32 \<Rightarrow> f32" where
  "f32_clamp v lo hi = (if f32_lt v lo then lo else if f32_lt hi v then hi else v)"

subsection \<open>Evaluation\<close>

text \<open>
  The number of bits of a binary numeral replaces the recursion of \<^const>\<open>norm_shift\<close> when closed
  terms are evaluated.
\<close>

fun num_bits :: "num \<Rightarrow> nat" where
  "num_bits num.One = 1"
| "num_bits (num.Bit0 n) = num_bits n + 1"
| "num_bits (num.Bit1 n) = num_bits n + 1"

lemma double_bounds:
  fixes p n :: nat
  shows "p \<le> 2 * n \<Longrightarrow> p * 2 \<le> 2 * (n + n)" "p \<le> 2 * n \<Longrightarrow> p * 2 \<le> 2 * (n + n + 1)"
    "n < p \<Longrightarrow> n + n < p * 2" "n < p \<Longrightarrow> n + n + 1 < p * 2"
    "2 ^ 24 * q = p \<Longrightarrow> p \<le> 2 * n \<Longrightarrow> 2 ^ 23 * q \<le> n"
  by simp_all

lemma num_bits_bounds:
  "2 ^ num_bits w \<le> 2 * (numeral w :: nat)" "(numeral w :: nat) < 2 ^ num_bits w"
proof (induction w)
  case (Bit0 w)
  { case 1 show ?case unfolding num_bits.simps numeral_Bit0 [of w] power_add power_one_right
      by (rule double_bounds(1) [OF Bit0(1)]) }
  { case 2 show ?case unfolding num_bits.simps numeral_Bit0 [of w] power_add power_one_right
      by (rule double_bounds(3) [OF Bit0(2)]) }
next
  case (Bit1 w)
  { case 1 show ?case unfolding num_bits.simps numeral_Bit1 [of w] power_add power_one_right
      by (rule double_bounds(2) [OF Bit1(1)]) }
  { case 2 show ?case unfolding num_bits.simps numeral_Bit1 [of w] power_add power_one_right
      by (rule double_bounds(4) [OF Bit1(2)]) }
qed simp_all

lemma norm_shift_unique:
  assumes "n div 2 ^ k < 2 ^ 24" "0 < k \<Longrightarrow> 2 ^ 23 \<le> n div 2 ^ k"
  shows "norm_shift n = k"
  using assms
proof (induction k arbitrary: n)
  case 0
  then show ?case by (simp add: norm_shift.simps [of n])
next
  case (Suc k)
  have "n div 2 ^ Suc k = n div 2 ^ k div 2"
    by (simp only: power_Suc2 div_mult2_eq)
  then have "2 ^ 23 \<le> n div 2 ^ k div 2" using Suc.prems(2) by simp
  then have "2 ^ 24 \<le> n div 2 ^ k" by simp
  also have "\<dots> \<le> n" by simp
  finally have "\<not> n < 2 ^ 24" by simp
  moreover have "norm_shift (n div 2) = k"
    using Suc.prems by (intro Suc.IH) (simp_all add: div_mult2_eq)
  ultimately show ?case by (simp only: norm_shift.simps [of n] if_False)
qed

lemma norm_shift_numeral: "norm_shift (numeral w) = num_bits w - 24"
proof (rule norm_shift_unique)
  have b: "(numeral w :: nat) < 2 ^ (24 + (num_bits w - 24))"
    using num_bits_bounds(2) [of w] by (rule less_le_trans) simp
  then show "numeral w div 2 ^ (num_bits w - 24) < (2 ^ 24 :: nat)"
    by (simp add: div_less_iff_less_mult power_add)
  assume "0 < num_bits w - 24"
  then have "24 + (num_bits w - 24) = num_bits w" by simp
  then have "(2 ^ 24 * 2 ^ (num_bits w - 24) :: nat) = 2 ^ num_bits w"
    by (metis power_add)
  then have "(2 ^ 23 * 2 ^ (num_bits w - 24) :: nat) \<le> numeral w"
    by (rule double_bounds(5) [OF _ num_bits_bounds(1)])
  then show "(2 ^ 23 :: nat) \<le> numeral w div 2 ^ (num_bits w - 24)"
    by (simp add: less_eq_div_iff_mult_less_eq)
qed

lemma norm_shift_01: "norm_shift 0 = 0" "norm_shift (Suc 0) = 0" by (simp_all add: norm_shift.simps)

lemmas f32_eval = f32_lit_def f32_scaled_def f32_mk_def mag_round_def mag_inf_def rne_def
  norm_shift_numeral norm_shift_01 f32_add_def f32_sub_def f32_mul_def f32_div_def f32_sqrt_def f32_isnan_def
  f32_isinf_def f32_isfinite_def f32_mag_def f32_sign_def f32_sval_def mag_int_def f32_neg_def
  f32_key_def f32_lt_def f32_le_def f32_eq_def f32_trunc_def f32_to_i32_def f32_of_int_def
  f32_floor_def f32_abs_def isqrt.simps isqrt_step_def sticky_def mag_sqrt_def f32_nan_def
  f32_min_def f32_max_def f32_clamp_def Let_def

lemma f32_literals [f32_lits]:
  "f32_of_int 0 = 0" "f32_of_int 1 = 0x3F800000" "f32_lit 1 10 = 0x3DCCCCCD" "f32_of_int 10 = 0x41200000"
  "f32_of_int 1000000 = 0x49742400" "f32_of_int 750 = 0x443B8000" "f32_of_int 100 = 0x42C80000"
  "f32_of_int 86400 = 0x47A8C000" "f32_lit 1 2 = 0x3F000000"
  "f32_lit 7071068 10000000 = 0x3F3504F4" "f32_lit 14142136 10000000 = 0x3FB504F4"
  "f32_of_int 1023 = 0x447FC000"
  by (simp_all add: f32_eval)

section \<open>Bounds on computed values\<close>

definition kround :: "int \<Rightarrow> nat \<Rightarrow> int" where
  "kround n d = sgn n * int (mag_round (nat \<bar>n\<bar>) d)"

definition ksval :: "int \<Rightarrow> int" where
  "ksval k = sgn k * int (mag_int (nat \<bar>k\<bar>))"

abbreviation kinf :: int where
  "kinf \<equiv> int mag_inf"

lemma mag_inf_less: "mag_inf < 2 ^ 31"
  by (simp add: mag_inf_def)

lemma f32_mk_unat: "m < 2 ^ 31 \<Longrightarrow> unat (f32_mk s m) = (if s then 2 ^ 31 else 0) + m"
  by (simp add: f32_mk_def unat_of_nat del: of_nat_add)

lemma f32_mk_fields [simp]:
  assumes "m < 2147483648"
  shows "f32_mag (f32_mk s m) = m" "f32_sign (f32_mk s m) = s"
  using assms by (simp_all add: f32_mag_def f32_sign_def f32_mk_unat del: of_nat_add) 

lemma f32_mag_less [simp]: "f32_mag x < 2147483648"
  by (simp add: f32_mag_def)

lemma f32_mk_mag [simp]: "f32_mk (f32_sign x) (f32_mag x) = x"
proof -
  have "unat x < 2 ^ LENGTH(32)" by (rule unsigned_less)
  then have "unat x < 2 ^ 32" by simp
  then have "(if f32_sign x then 2 ^ 31 else 0) + f32_mag x = unat x"
    by (auto simp: f32_sign_def f32_mag_def mod_if)
  then show ?thesis by (simp add: f32_mk_def del: of_nat_add)
qed

lemma f32_key_mk: "m < 2 ^ 31 \<Longrightarrow> f32_key (f32_mk s m) = (if s then - int m else int m)"
  by (simp add: f32_key_def)

lemma f32_sval_key: "f32_sval x = ksval (f32_key x)"
  by (auto simp: f32_sval_def ksval_def f32_key_def sgn_if mag_int_def)

lemma f32_class_key:
  "f32_isnan x \<longleftrightarrow> kinf < \<bar>f32_key x\<bar>"
  "f32_isinf x \<longleftrightarrow> \<bar>f32_key x\<bar> = kinf"
  "f32_isfinite x \<longleftrightarrow> \<bar>f32_key x\<bar> < kinf"
  by (auto simp: f32_isnan_def f32_isinf_def f32_isfinite_def f32_key_def)

lemma kround_key:
  assumes "0 < d"
  shows "f32_key (f32_scaled z n d) = kround n d"
  using mag_round_le_inf [of "nat \<bar>n\<bar>" d] mag_inf_less
  by (auto simp: f32_scaled_def kround_def f32_key_mk sgn_if)

lemma kround_abs_le: "\<bar>kround n d\<bar> \<le> kinf"
  using mag_round_le_inf [of "nat \<bar>n\<bar>" d] by (auto simp: kround_def abs_mult sgn_if)

lemma f32_scaled_not_nan [simp]: "0 < d \<Longrightarrow> \<not> f32_isnan (f32_scaled z n d)"
  using kround_abs_le [of n d] by (simp add: f32_class_key kround_key)

lemma kround_nonneg: "0 \<le> n \<Longrightarrow> 0 \<le> kround n d"
  by (simp add: kround_def sgn_if)

lemma kround_minus: "kround (- n) d = - kround n d"
  by (simp add: kround_def sgn_if)

lemma kround_mono_nonneg:
  assumes "0 < d1" "0 < d2" "0 \<le> n1" "n1 * int d2 \<le> n2 * int d1"
  shows "kround n1 d1 \<le> kround n2 d2"
proof -
  have "0 \<le> n1 * int d2" using assms by simp
  with assms(4) have "0 \<le> n2 * int d1" by linarith
  with assms(1) have n2: "0 \<le> n2" by (simp add: zero_le_mult_iff)
  have "int (nat n1 * d2) \<le> int (nat n2 * d1)" using assms n2 by simp
  then have "nat n1 * d2 \<le> nat n2 * d1" by (simp only: of_nat_le_iff)
  then have "mag_round (nat n1) d1 \<le> mag_round (nat n2) d2"
    by (intro mag_round_mono assms)
  moreover have "n1 = 0 \<or> 0 < n2"
  proof (rule disjCI)
    assume "\<not> 0 < n2"
    with n2 have "n2 = 0" by simp
    with assms(4) have "n1 * int d2 \<le> 0" by simp
    with assms(2,3) show "n1 = 0" by (simp add: mult_le_0_iff)
  qed
  ultimately show ?thesis using assms n2 by (auto simp: kround_def sgn_if)
qed

lemma kround_mono:
  assumes d: "0 < d1" "0 < d2" and le: "n1 * int d2 \<le> n2 * int d1"
  shows "kround n1 d1 \<le> kround n2 d2"
proof -
  consider "0 \<le> n1" | "n1 < 0" "0 \<le> n2" | "n1 < 0" "n2 < 0" by linarith
  then show ?thesis
  proof cases
    case 1
    with d le show ?thesis by (intro kround_mono_nonneg)
  next
    case 2
    then have "kround n1 d1 \<le> 0" using kround_nonneg [of "- n1" d1] by (simp add: kround_minus)
    with 2 kround_nonneg [of n2 d2] show ?thesis by simp
  next
    case 3
    then have "kround (- n2) d2 \<le> kround (- n1) d1"
      using d le by (intro kround_mono_nonneg) simp_all
    then show ?thesis by (simp add: kround_minus)
  qed
qed

lemma kround_exact:
  assumes "0 < d" "\<bar>k\<bar> \<le> kinf"
  shows "kround (ksval k * int d) d = k"
proof -
  have *: "kround (ksval k * int d) d = k" if "0 \<le> k" "k \<le> kinf" for k
  proof (cases "k = 0")
    case True
    then show ?thesis using assms by (simp add: ksval_def kround_def)
  next
    case False
    with that have k: "0 < k" "nat k \<le> mag_inf" "\<bar>k\<bar> = k" by auto
    have "nat \<bar>ksval k * int d\<bar> = mag_int (nat k) * d"
      using k by (simp add: ksval_def abs_mult nat_mult_distrib)
    moreover have "0 < mag_int (nat k)" using k by (auto simp: mag_int_def)
    ultimately show ?thesis using k assms mag_round_exact [of d "nat k"]
      by (simp add: kround_def ksval_def sgn_mult)
  qed
  show ?thesis
  proof (cases "0 \<le> k")
    case True
    with * assms show ?thesis by simp
  next
    case False
    then have "ksval k = - ksval (- k)" by (simp add: ksval_def)
    with * [of "- k"] False assms show ?thesis by (simp add: kround_minus)
  qed
qed

lemma kround_le:
  assumes "0 < d" "n \<le> ksval k * int d" "\<bar>k\<bar> \<le> kinf" shows "kround n d \<le> k"
  using kround_mono [of d d n "ksval k * int d"] kround_exact [of d k] assms by (simp add: mult_right_mono)

lemma kround_ge:
  assumes "0 < d" "ksval k * int d \<le> n" "\<bar>k\<bar> \<le> kinf" shows "k \<le> kround n d"
  using kround_mono [of d d "ksval k * int d" n] kround_exact [of d k] assms by (simp add: mult_right_mono)

lemma ksval_mono:
  assumes "a \<le> b" "\<bar>a\<bar> \<le> kinf" "\<bar>b\<bar> \<le> kinf" shows "ksval a \<le> ksval b"
proof (rule ccontr)
  assume "\<not> ksval a \<le> ksval b"
  then have "b \<le> a" 
    using kround_mono [of 1 1 "ksval b" "ksval a"] kround_exact [of 1 a] kround_exact [of 1 b] assms by simp
  with assms \<open>\<not> ksval a \<le> ksval b\<close> show False by simp
qed

lemma ksval_less_iff:
  assumes "\<bar>a\<bar> \<le> kinf" "\<bar>b\<bar> \<le> kinf" shows "ksval a < ksval b \<longleftrightarrow> a < b"
  using assms ksval_mono [of b a] ksval_mono [of a b] kround_exact [of 1 a] kround_exact [of 1 b]
  by (cases a b rule: linorder_cases) (auto simp: order.strict_iff_order)

subsection \<open>The operations on finite operands\<close>

lemma f32_key_neg: "f32_key (f32_neg x) = - f32_key x"
  by (simp add: f32_neg_def f32_key_def)

lemma f32_key_abs: "f32_key (f32_abs x) = \<bar>f32_key x\<bar>"
  by (simp add: f32_abs_def f32_key_def)

lemma f32_class_excl: "f32_isfinite x \<Longrightarrow> \<not> f32_isnan x" "f32_isfinite x \<Longrightarrow> \<not> f32_isinf x"
  by (simp_all add: f32_isfinite_def f32_isnan_def f32_isinf_def)

lemma f32_neg_class [simp]: "f32_isfinite (f32_neg x) = f32_isfinite x"
  "f32_isnan (f32_neg x) = f32_isnan x" "f32_isinf (f32_neg x) = f32_isinf x"
  by (simp_all add: f32_class_key f32_key_neg)

lemma ksval_minus: "ksval (- k) = - ksval k"
  by (simp add: ksval_def)

lemma f32_sval_neg: "f32_sval (f32_neg x) = - f32_sval x"
  by (simp add: f32_sval_key f32_key_neg ksval_minus)

lemma f32_add_key:
  "f32_isfinite x \<Longrightarrow> f32_isfinite y \<Longrightarrow> f32_key (f32_add x y) = kround (f32_sval x + f32_sval y) 1"
  by (simp add: f32_add_def f32_class_excl kround_key)

lemma f32_sub_key:
  "f32_isfinite x \<Longrightarrow> f32_isfinite y \<Longrightarrow> f32_key (f32_sub x y) = kround (f32_sval x - f32_sval y) 1"
  by (simp add: f32_sub_def f32_add_key f32_sval_neg)

lemma f32_mul_key:
  "f32_isfinite x \<Longrightarrow> f32_isfinite y \<Longrightarrow>
     f32_key (f32_mul x y) = kround (f32_sval x * f32_sval y) (2 ^ 149)"
  by (simp add: f32_mul_def f32_class_excl kround_key)

lemma f32_key_sval_zero: "f32_isfinite x \<Longrightarrow> f32_sval x = 0 \<longleftrightarrow> f32_key x = 0"
  by (auto simp: f32_sval_def f32_key_def mag_int_def)

lemma f32_div_key:
  assumes "f32_isfinite x" "f32_isfinite y" "f32_key y \<noteq> 0"
  shows "f32_key (f32_div x y)
    = kround (sgn (f32_sval y) * f32_sval x * 2 ^ 149) (nat \<bar>f32_sval y\<bar>)"
proof -
  have "f32_mag y \<noteq> 0" using assms(3) by (auto simp: f32_key_def split: if_splits)
  moreover have "f32_sval y \<noteq> 0" using assms by (simp add: f32_key_sval_zero)
  ultimately show ?thesis using assms(1,2) by (simp add: f32_div_def f32_class_excl kround_key)
qed

lemma f32_sval_mono:
  "f32_isfinite x \<Longrightarrow> f32_isfinite y \<Longrightarrow> f32_key x \<le> f32_key y \<Longrightarrow> f32_sval x \<le> f32_sval y"
  by (simp add: f32_sval_key f32_class_key ksval_mono)

lemma f32_sval_nonneg: "f32_isfinite x \<Longrightarrow> 0 \<le> f32_key x \<Longrightarrow> 0 \<le> f32_sval x"
  by (simp add: f32_sval_key ksval_def sgn_if)

lemma f32_le_sval:
  "f32_isfinite x \<Longrightarrow> f32_isfinite y \<Longrightarrow> f32_le x y \<longleftrightarrow> f32_sval x \<le> f32_sval y"
  using ksval_less_iff [of "f32_key y" "f32_key x"]
  by (auto simp: f32_le_def f32_class_excl f32_sval_key f32_class_key)

lemma f32_lt_sval:
  "f32_isfinite x \<Longrightarrow> f32_isfinite y \<Longrightarrow> f32_lt x y \<longleftrightarrow> f32_sval x < f32_sval y"
  using ksval_less_iff [of "f32_key x" "f32_key y"]
  by (auto simp: f32_lt_def f32_class_excl f32_sval_key f32_class_key)

text \<open>Clamping a value that is not NaN lands in the interval.\<close>

lemma f32_clamp_key:
  assumes "\<not> f32_isnan v" "\<not> f32_isnan lo" "\<not> f32_isnan hi" "f32_key lo \<le> f32_key hi"
  shows "f32_key lo \<le> f32_key (f32_clamp v lo hi)" "f32_key (f32_clamp v lo hi) \<le> f32_key hi"
  using assms by (auto simp: f32_clamp_def f32_lt_def)

lemma f32_clamp_nan: "f32_isnan v \<Longrightarrow> f32_clamp v lo hi = v"
  by (simp add: f32_clamp_def f32_lt_def)

subsection \<open>Square root\<close>

lemma isqrt_bounds: "isqrt n * isqrt n \<le> n \<and> n < Suc (isqrt n) * Suc (isqrt n)"
proof (induction n rule: isqrt.induct)
  case (1 n)
  show ?case
  proof (cases "n = 0")
    case True
    then show ?thesis by (simp add: isqrt.simps)
  next
    case False
    define r where "r = isqrt (n div 4)"
    have IH: "r * r \<le> n div 4" "n div 4 < Suc r * Suc r"
      using 1 False by (simp_all add: r_def)
    then have lo: "4 * (r * r) \<le> n" and hi: "n < 4 * (Suc r * Suc r)"
      by linarith+
    have eq: "isqrt n = (if (2 * r + 1) * (2 * r + 1) \<le> n then 2 * r + 1 else 2 * r)"
      using False by (simp add: isqrt.simps [of n] isqrt_step_def r_def)
    show ?thesis unfolding eq using lo hi by (simp add: algebra_simps)
  qed
qed

lemma isqrt_le: 
  assumes "n \<le> c * c" shows "isqrt n \<le> c"
proof (rule ccontr)
  assume "\<not> isqrt n \<le> c"
  then have "Suc c * Suc c \<le> isqrt n * isqrt n" by (intro mult_le_mono) simp_all
  also have "\<dots> \<le> n" using isqrt_bounds by simp
  finally show False using assms by simp
qed

lemma sticky_le: 
  assumes "n \<le> c * c" shows "sticky n (isqrt n) \<le> 2 * c"
proof (cases "isqrt n = c")
  case True
  then have "isqrt n * isqrt n = n" using assms isqrt_bounds [of n] by simp
  with True show ?thesis by (simp add: sticky_def)
next
  case False
  with isqrt_le [OF assms] show ?thesis by (simp add: sticky_def)
qed

lemma f32_sqrt_unit:
  assumes "f32_isfinite x" "0 \<le> f32_key x" "f32_sval x \<le> 2 ^ 149"
  shows "f32_isfinite (f32_sqrt x)" "0 \<le> f32_key (f32_sqrt x)"
    "f32_key (f32_sqrt x) \<le> f32_key (f32_of_int 1)"
proof -
  define m where "m = f32_mag x"
  define q where "q = mag_sqrt (mag_int m * 2 ^ 149)"
  have pos: "f32_mag x = 0 \<or> \<not> f32_sign x" using assms(2) by (auto simp: f32_key_def split: if_splits)
  have one: "f32_key (f32_of_int 1) = 127 * 2 ^ 23" by (simp add: f32_lits f32_key_def f32_sign_def f32_mag_def)
  have "f32_mag x \<noteq> 0 \<Longrightarrow> mag_int m \<le> 2 ^ 149"
    using assms(3) pos by (simp add: f32_sval_def m_def)
  then have "f32_mag x \<noteq> 0 \<Longrightarrow> mag_int m * 2 ^ 149 \<le> 2 ^ 149 * 2 ^ 149" by (rule mult_le_mono1)
  then have "f32_mag x \<noteq> 0 \<Longrightarrow> sticky (mag_int m * 2 ^ 149) (isqrt (mag_int m * 2 ^ 149)) \<le> mag_int (127 * 2 ^ 23) * 2"
    using sticky_le [of "mag_int m * 2 ^ 149" "2 ^ 149"] by (simp add: mag_int_def)
  then have q: "f32_mag x \<noteq> 0 \<Longrightarrow> q \<le> 127 * 2 ^ 23"
    unfolding q_def mag_sqrt_def by (intro mag_round_le) (simp_all add: mag_inf_def)
  have res: "f32_sqrt x = (if f32_mag x = 0 then x else f32_mk False q)"
    using pos assms(1) by (auto simp: f32_sqrt_def f32_class_excl q_def m_def)
  have "f32_mag x \<noteq> 0 \<Longrightarrow> f32_key (f32_mk False q) = int q"
    using q by (subst f32_key_mk) simp_all
  then show "f32_isfinite (f32_sqrt x)" "0 \<le> f32_key (f32_sqrt x)"
    "f32_key (f32_sqrt x) \<le> f32_key (f32_of_int 1)"
    using q assms unfolding res one
    by (auto simp: f32_class_key(3) mag_inf_def f32_key_def [of x])
qed

subsection \<open>Interval arithmetic\<close>

text \<open>
  \<open>f32_between lo hi x\<close>: the value is finite and lies between two exact values.  The rules
  propagate intervals through one operation each; the end points of a result must be
  representable (\<open>ksval k\<close>).
\<close>

definition f32_between :: "int \<Rightarrow> int \<Rightarrow> f32 \<Rightarrow> bool" where
  "f32_between lo hi x \<longleftrightarrow> f32_isfinite x \<and> lo \<le> f32_sval x \<and> f32_sval x \<le> hi"

lemma f32_between_weaken: "f32_between lo hi x \<Longrightarrow> lo' \<le> lo \<Longrightarrow> hi \<le> hi' \<Longrightarrow> f32_between lo' hi' x"
  by (simp add: f32_between_def)

lemma f32_between_keys:
  assumes "a \<le> f32_key x" "f32_key x \<le> b" "\<bar>a\<bar> < kinf" "\<bar>b\<bar> < kinf"
  shows "f32_between (ksval a) (ksval b) x"
proof -
  have "\<bar>f32_key x\<bar> < kinf" using assms by linarith
  then show ?thesis using assms by (auto simp: f32_between_def f32_sval_key f32_class_key intro!: ksval_mono)
qed

lemma f32_between_kround:
  assumes key: "f32_key x = kround n d" and d: "0 < d"
    and k: "\<bar>lo\<bar> < kinf" "\<bar>hi\<bar> < kinf"
    and n: "ksval lo * int d \<le> n" "n \<le> ksval hi * int d"
  shows "f32_between (ksval lo) (ksval hi) x"
proof -
  have "lo \<le> f32_key x" "f32_key x \<le> hi"
    unfolding key using assms by (auto intro: kround_ge kround_le)
  then have b: "lo \<le> f32_key x" "f32_key x \<le> hi" "\<bar>f32_key x\<bar> < kinf" using k by auto
  then show ?thesis using k
    by (simp add: f32_between_def f32_class_key f32_sval_key ksval_mono)
qed

lemma f32_between_add:
  assumes "f32_between a b x" "f32_between c d y" "\<bar>lo\<bar> < kinf" "\<bar>hi\<bar> < kinf"
    "ksval lo \<le> a + c" "b + d \<le> ksval hi"
  shows "f32_between (ksval lo) (ksval hi) (f32_add x y)"
  using assms by (intro f32_between_kround [of _ "f32_sval x + f32_sval y" 1])
    (simp_all add: f32_between_def f32_add_key)

lemma f32_between_sub:
  assumes "f32_between a b x" "f32_between c d y" "\<bar>lo\<bar> < kinf" "\<bar>hi\<bar> < kinf"
    "ksval lo \<le> a - d" "b - c \<le> ksval hi"
  shows "f32_between (ksval lo) (ksval hi) (f32_sub x y)"
  using assms by (intro f32_between_kround [of _ "f32_sval x - f32_sval y" 1])
    (simp_all add: f32_between_def f32_sub_key)

lemma f32_between_mul_nonneg:
  assumes "f32_between 0 b x" "f32_between 0 d y" "\<bar>hi\<bar> < kinf" "b * d \<le> ksval hi * 2 ^ 149"
  shows "f32_between 0 (ksval hi) (f32_mul x y)"
proof -
  have xy: "0 \<le> f32_sval x * f32_sval y" "f32_sval x * f32_sval y \<le> b * d"
    using assms by (auto simp: f32_between_def intro: mult_mono)
  have "f32_between (ksval 0) (ksval hi) (f32_mul x y)"
    using assms xy by (intro f32_between_kround [of _ "f32_sval x * f32_sval y" "2 ^ 149"])
      (simp_all add: f32_between_def f32_mul_key ksval_def mag_inf_def)
  then show ?thesis by (simp add: ksval_def)
qed

lemma f32_between_square:
  assumes "f32_between (- b) b x" "\<bar>hi\<bar> < kinf" "b * b \<le> ksval hi * 2 ^ 149"
  shows "f32_between 0 (ksval hi) (f32_mul x x)"
proof -
  have "\<bar>f32_sval x\<bar> \<le> b" using assms(1) by (auto simp: f32_between_def)
  then have "\<bar>f32_sval x\<bar> * \<bar>f32_sval x\<bar> \<le> b * b" by (intro mult_mono) simp_all
  then have xx: "f32_sval x * f32_sval x \<le> b * b" by (simp add: abs_mult_self_eq)
  have "f32_between (ksval 0) (ksval hi) (f32_mul x x)"
    using assms xx by (intro f32_between_kround [of _ "f32_sval x * f32_sval x" "2 ^ 149"])
      (simp_all add: f32_between_def f32_mul_key ksval_def mag_inf_def)
  then show ?thesis by (simp add: ksval_def)
qed

lemma f32_between_div_pos:
  assumes x: "f32_between a b x" and y: "f32_isfinite y" "0 < f32_sval y"
    and k: "\<bar>lo\<bar> < kinf" "\<bar>hi\<bar> < kinf"
    and n: "ksval lo * f32_sval y \<le> a * 2 ^ 149" "b * 2 ^ 149 \<le> ksval hi * f32_sval y"
  shows "f32_between (ksval lo) (ksval hi) (f32_div x y)"
proof -
  have key: "f32_key (f32_div x y) = kround (f32_sval x * 2 ^ 149) (nat (f32_sval y))"
    using x y f32_div_key [of x y] f32_key_sval_zero [of y] by (simp add: f32_between_def)
  have le: "a * 2 ^ 149 \<le> f32_sval x * 2 ^ 149" "f32_sval x * 2 ^ 149 \<le> b * 2 ^ 149"
    using x by (simp_all add: f32_between_def)
  show ?thesis
  proof (rule f32_between_kround [OF key _ k])
    show "ksval lo * int (nat (f32_sval y)) \<le> f32_sval x * 2 ^ 149"
      using le n y by simp
    show "f32_sval x * 2 ^ 149 \<le> ksval hi * int (nat (f32_sval y))"
      using le n y by simp
  qed (use y in simp)
qed

lemma f32_between_of_int:
  assumes "\<bar>lo\<bar> < kinf" "\<bar>hi\<bar> < kinf" "ksval lo \<le> n * 2 ^ 149" "n * 2 ^ 149 \<le> ksval hi"
  shows "f32_between (ksval lo) (ksval hi) (f32_of_int n)"
  using assms by (intro f32_between_kround [of _ "n * 2 ^ 149" 1])
    (simp_all add: f32_of_int_def kround_key)

lemma f32_between_max0:
  assumes "f32_between a b x" "0 \<le> b" shows "f32_between 0 b (f32_max 0 x)"
proof -
  have z: "f32_isfinite 0" "f32_sval 0 = 0" by (simp_all add: f32_eval)
  show ?thesis using assms z f32_lt_sval [OF z(1), of x]
    by (auto simp: f32_max_def f32_between_def)
qed

lemma f32_between_sqrt_unit:
  assumes "f32_between 0 (2 ^ 149) x" shows "f32_between 0 (2 ^ 149) (f32_sqrt x)"
proof -
  have "0 \<le> f32_key x"
    using assms ksval_less_iff [of "f32_key x" 0]
    by (auto simp: f32_between_def f32_class_key f32_sval_key ksval_def mag_inf_def)
  then have s: "f32_isfinite (f32_sqrt x)" "0 \<le> f32_key (f32_sqrt x)"
    "f32_key (f32_sqrt x) \<le> f32_key (f32_of_int 1)"
    using assms f32_sqrt_unit [of x] by (auto simp: f32_between_def)
  have one: "f32_isfinite (f32_of_int 1)" "f32_sval (f32_of_int 1) = 2 ^ 149"
    unfolding f32_lits by (simp_all add: f32_eval)
  show ?thesis using s one f32_sval_mono [OF s(1) one(1)] f32_sval_nonneg [OF s(1)]
    by (simp add: f32_between_def)
qed

end
