(* ===== verification/Kmp_Types.thy ===== *)
theory Kmp_Types
  imports Float32
begin

text \<open>
  \<^verbatim>\<open>KenshiMP.Common/include/kmp/types.h\<close> and \<^verbatim>\<open>constants.h\<close>: vectors, the smallest-three
  quaternion compression, zone coordinates and the enumerations of the entity model.  The
  lemmas show that compression packs its four fields without loss, that decompression always
  yields finite components in the unit box, and that zone coordinates of accepted positions
  are small enough for the \<^verbatim>\<open>int32_t\<close> arithmetic of \<^verbatim>\<open>IsAdjacent\<close> never to overflow.
\<close>

section \<open>Constants\<close>

type_synonym EntityID = u32
type_synonym PlayerID = u32

definition INVALID_ENTITY :: EntityID where "INVALID_ENTITY = 0"
definition INVALID_PLAYER :: PlayerID where "INVALID_PLAYER = 0"

definition KMP_PROTOCOL_VERSION :: u32 where "KMP_PROTOCOL_VERSION = 1"
definition KMP_MAX_PLAYERS :: nat where "KMP_MAX_PLAYERS = 16"
definition KMP_MAX_NAME_LENGTH :: nat where "KMP_MAX_NAME_LENGTH = 31"
definition KMP_CHANNEL_RELIABLE_ORDERED :: nat where "KMP_CHANNEL_RELIABLE_ORDERED = 0"
definition KMP_CHANNEL_RELIABLE_UNORDERED :: nat where "KMP_CHANNEL_RELIABLE_UNORDERED = 1"
definition KMP_CHANNEL_UNRELIABLE_SEQ :: nat where "KMP_CHANNEL_UNRELIABLE_SEQ = 2"
definition KMP_ZONE_SIZE :: f32 where "KMP_ZONE_SIZE = f32_of_int 750"
definition KMP_MAX_SYNC_ENTITIES :: nat where "KMP_MAX_SYNC_ENTITIES = 2048"

section \<open>Vectors\<close>

record Vec3 =
  vx :: f32
  vy :: f32
  vz :: f32

definition Vec3_new :: "f32 \<Rightarrow> f32 \<Rightarrow> f32 \<Rightarrow> Vec3" where
  "Vec3_new x y z = \<lparr>vx = x, vy = y, vz = z\<rparr>"

definition Vec3_add :: "Vec3 \<Rightarrow> Vec3 \<Rightarrow> Vec3" where
  "Vec3_add a b = Vec3_new (f32_add (vx a) (vx b)) (f32_add (vy a) (vy b)) (f32_add (vz a) (vz b))"

definition Vec3_sub :: "Vec3 \<Rightarrow> Vec3 \<Rightarrow> Vec3" where
  "Vec3_sub a b = Vec3_new (f32_sub (vx a) (vx b)) (f32_sub (vy a) (vy b)) (f32_sub (vz a) (vz b))"

definition Vec3_scale :: "Vec3 \<Rightarrow> f32 \<Rightarrow> Vec3" where
  "Vec3_scale a s = Vec3_new (f32_mul (vx a) s) (f32_mul (vy a) s) (f32_mul (vz a) s)"

definition LengthSq :: "Vec3 \<Rightarrow> f32" where
  "LengthSq v = f32_add (f32_add (f32_mul (vx v) (vx v)) (f32_mul (vy v) (vy v))) (f32_mul (vz v) (vz v))"

definition Length :: "Vec3 \<Rightarrow> f32" where
  "Length v = f32_sqrt (LengthSq v)"

definition DistanceTo :: "Vec3 \<Rightarrow> Vec3 \<Rightarrow> f32" where
  "DistanceTo a b = Length (Vec3_sub a b)"

text \<open>
  The coordinate check that the server repeats verbatim in every handler that stores a
  position: NaN, infinity or an absolute value above 1000000 is rejected.
\<close>

definition bad_coords :: "f32 \<Rightarrow> f32 \<Rightarrow> f32 \<Rightarrow> bool" where
  "bad_coords x y z \<longleftrightarrow>
     f32_isnan x \<or> f32_isnan y \<or> f32_isnan z \<or> f32_isinf x \<or> f32_isinf y \<or> f32_isinf z \<or>
     f32_lt (f32_of_int 1000000) (f32_abs x) \<or> f32_lt (f32_of_int 1000000) (f32_abs y) \<or>
     f32_lt (f32_of_int 1000000) (f32_abs z)"

section \<open>Quaternions\<close>

record Quat =
  qw :: f32
  qx :: f32
  qy :: f32
  qz :: f32

definition Quat_default :: Quat where
  "Quat_default = \<lparr>qw = f32_of_int 1, qx = 0, qy = 0, qz = 0\<rparr>"

definition quat_comps :: "Quat \<Rightarrow> f32 list" where
  "quat_comps q = [qw q, qx q, qy q, qz q]"

definition quat_largest :: "f32 list \<Rightarrow> nat" where
  "quat_largest comps = (let a = map f32_abs comps in
     fold (\<lambda>i l. if f32_lt (a ! l) (a ! i) then i else l) [1, 2, 3] 0)"

definition quantize :: "f32 \<Rightarrow> int" where
  "quantize val = (let q = sint (f32_to_i32 (f32_add (f32_mul (f32_div
       (f32_add val (f32_lit 7071068 10000000)) (f32_lit 14142136 10000000)) (f32_of_int 1023))
       (f32_lit 1 2)))
     in if q < 0 then 0 else if q > 1023 then 1023 else q)"

fun pack_slots :: "nat \<Rightarrow> int list \<Rightarrow> u32 \<Rightarrow> u32" where
  "pack_slots slot [] packed = packed"
| "pack_slots slot (q # qs) packed =
     pack_slots (slot + 1) qs (packed OR push_bit (slot * 10) (word_of_int q))"

definition Compress :: "Quat \<Rightarrow> u32" where
  "Compress q = (let comps = quat_comps q; largest = quat_largest comps;
     sign = (if f32_lt (comps ! largest) 0 then f32_neg (f32_of_int 1) else f32_of_int 1);
     rest = map (\<lambda>i. comps ! i) (filter (\<lambda>i. i \<noteq> largest) [0, 1, 2, 3])
   in pack_slots 0 (map (\<lambda>c. quantize (f32_mul c sign)) rest) (push_bit 30 (of_nat largest)))"

definition slot_field :: "u32 \<Rightarrow> nat \<Rightarrow> u32" where
  "slot_field packed slot = drop_bit (slot * 10) packed AND 0x3FF"

definition dequantize :: "u32 \<Rightarrow> f32" where
  "dequantize q = f32_sub (f32_mul (f32_div (f32_of_int (sint q)) (f32_of_int 1023))
     (f32_lit 14142136 10000000)) (f32_lit 7071068 10000000)"

definition Decompress :: "u32 \<Rightarrow> Quat" where
  "Decompress packed = (let largest = unat (drop_bit 30 packed AND 3);
     c0 = dequantize (slot_field packed 0);
     c1 = dequantize (slot_field packed 1);
     c2 = dequantize (slot_field packed 2);
     sumSq = f32_add (f32_add (f32_add 0 (f32_mul c0 c0)) (f32_mul c1 c1)) (f32_mul c2 c2);
     big = f32_sqrt (f32_max 0 (f32_sub (f32_of_int 1) sumSq));
     comps = take largest [c0, c1, c2] @ big # drop largest [c0, c1, c2]
   in \<lparr>qw = comps ! 0, qx = comps ! 1, qy = comps ! 2, qz = comps ! 3\<rparr>)"

section \<open>Zone coordinates\<close>

record ZoneCoord =
  zx :: i32
  zy :: i32

definition ZoneCoord_new :: "i32 \<Rightarrow> i32 \<Rightarrow> ZoneCoord" where
  "ZoneCoord_new x y = \<lparr>zx = x, zy = y\<rparr>"

definition i32_abs :: "i32 \<Rightarrow> i32" where
  "i32_abs w = (if sint w < 0 then - w else w)"

definition IsAdjacent :: "ZoneCoord \<Rightarrow> ZoneCoord \<Rightarrow> bool" where
  "IsAdjacent a b \<longleftrightarrow> sint (i32_abs (zx a - zx b)) \<le> 1 \<and> sint (i32_abs (zy a - zy b)) \<le> 1"

definition FromWorldPos :: "Vec3 \<Rightarrow> f32 \<Rightarrow> ZoneCoord" where
  "FromWorldPos pos zoneSize =
     (if \<not> f32_isfinite (vx pos) \<or> \<not> f32_isfinite (vz pos) then ZoneCoord_new 0 0
      else ZoneCoord_new (f32_to_i32 (f32_floor (f32_div (vx pos) zoneSize)))
                         (f32_to_i32 (f32_floor (f32_div (vz pos) zoneSize))))"

section \<open>Enumerations\<close>

datatype EntityState = Inactive | Spawning | Active | Despawning | Frozen

datatype AuthorityType = AuthNone | AuthServer | AuthPlayer | AuthTransferring

datatype BodyPart = Head | Chest | Stomach | LeftArm | RightArm | LeftLeg | RightLeg

fun BodyPart_code :: "BodyPart \<Rightarrow> nat" where
  "BodyPart_code Head = 0"
| "BodyPart_code Chest = 1"
| "BodyPart_code Stomach = 2"
| "BodyPart_code LeftArm = 3"
| "BodyPart_code RightArm = 4"
| "BodyPart_code LeftLeg = 5"
| "BodyPart_code RightLeg = 6"

text \<open>
  \<^verbatim>\<open>EntityType\<close> is cast from a byte and from a JSON integer, so any byte can occur.
\<close>

type_synonym EntityType = u8

definition PlayerCharacter :: EntityType where "PlayerCharacter = 0"
definition NPC :: EntityType where "NPC = 1"
definition Building :: EntityType where "Building = 3"
definition Turret :: EntityType where "Turret = 6"

record CombatInfo =
  ci_inCombat :: bool
  ci_targetId :: EntityID
  ci_stance :: u8

definition CombatInfo_default :: CombatInfo where
  "CombatInfo_default = \<lparr>ci_inCombat = False, ci_targetId = INVALID_ENTITY, ci_stance = 0\<rparr>"

section \<open>Compression packs its fields without loss\<close>

lemma quantize_range: "0 \<le> quantize v" "quantize v \<le> 1023"
  by (simp_all add: quantize_def Let_def)

lemma quat_largest_less: "quat_largest comps < 4"
  by (simp add: quat_largest_def Let_def)

lemma pack3_fields:
  fixes l a b c :: u32
  assumes "take_bit 2 l = l" "take_bit 10 a = a" "take_bit 10 b = b" "take_bit 10 c = c"
  defines "w \<equiv> ((push_bit 30 l OR push_bit 0 a) OR push_bit 10 b) OR push_bit 20 c"
  shows "take_bit 10 w = a" "take_bit 10 (drop_bit 10 w) = b"
    "take_bit 10 (drop_bit 20 w) = c" "drop_bit 30 w = l"
proof -
  have bl: "\<not> bit l n" if "2 \<le> n" for n using that assms(1) by (metis bit_take_bit_iff linorder_not_less)
  have ba: "\<not> bit a n" if "10 \<le> n" for n using that assms(2) by (metis bit_take_bit_iff linorder_not_less)
  have bb: "\<not> bit b n" if "10 \<le> n" for n using that assms(3) by (metis bit_take_bit_iff linorder_not_less)
  have bc: "\<not> bit c n" if "10 \<le> n" for n using that assms(4) by (metis bit_take_bit_iff linorder_not_less)
  show "take_bit 10 w = a" "take_bit 10 (drop_bit 10 w) = b"
    "take_bit 10 (drop_bit 20 w) = c" "drop_bit 30 w = l"
    unfolding w_def
    by (rule bit_word_eqI; auto simp: bit_simps bl ba bb bc not_less intro: ccontr)+
qed

lemma mask_as_take_bit: "(w :: u32) AND 0x3FF = take_bit 10 w" "(w :: u32) AND 3 = take_bit 2 w"
  by (simp_all add: take_bit_eq_mask mask_eq_exp_minus_1)

lemma take_bit_quantize: "take_bit 10 (word_of_int (quantize v) :: u32) = word_of_int (quantize v)"
  using quantize_range [of v]
  unfolding word_uint_eq_iff unsigned_take_bit_eq by (simp add: uint_word_of_int take_bit_eq_mod)

lemma take_bit_largest: "l < 4 \<Longrightarrow> take_bit 2 (of_nat l :: u32) = of_nat l"
  unfolding word_unat_eq_iff unsigned_take_bit_eq by (simp add: unat_of_nat take_bit_eq_mod)

lemma Compress_fields:
  fixes q :: Quat
  defines "comps \<equiv> quat_comps q"
  defines "l \<equiv> quat_largest comps"
  defines "sign \<equiv> (if f32_lt (comps ! l) 0 then f32_neg (f32_of_int 1) else f32_of_int 1)"
  defines "rest \<equiv> map (\<lambda>i. comps ! i) (filter (\<lambda>i. i \<noteq> l) [0, 1, 2, 3])"
  shows "drop_bit 30 (Compress q) AND 3 = of_nat l"
    and "k < 3 \<Longrightarrow> slot_field (Compress q) k = word_of_int (quantize (f32_mul (rest ! k) sign))"
proof -
  have l: "l < 4" unfolding l_def by (rule quat_largest_less)
  have "length rest = 3"
    using l by (auto simp: rest_def)
  then obtain a b c where rest: "rest = [a, b, c]" by (auto simp: numeral_eq_Suc length_Suc_conv)
  define F where "F x = (word_of_int (quantize (f32_mul x sign)) :: u32)" for x
  have C: "Compress q = ((push_bit 30 (of_nat l) OR push_bit 0 (F a)) OR push_bit 10 (F b)) OR push_bit 20 (F c)"
  proof -
    have "Compress q = pack_slots 0 (map (\<lambda>c. quantize (f32_mul c sign)) rest) (push_bit 30 (of_nat l))"
      by (simp only: Compress_def Let_def comps_def l_def sign_def rest_def)
    then show ?thesis unfolding rest F_def by simp
  qed
  have t: "take_bit 2 (of_nat l :: u32) = of_nat l" "take_bit 10 (F a) = F a"
    "take_bit 10 (F b) = F b" "take_bit 10 (F c) = F c"
    using l by (simp_all only: F_def take_bit_quantize take_bit_largest)
  note f = pack3_fields [OF t, folded C]
  show "drop_bit 30 (Compress q) AND 3 = of_nat l"
    by (simp only: mask_as_take_bit f t)
  assume "k < 3"
  then consider "k = 0" | "k = 1" | "k = 2" by linarith
  then show "slot_field (Compress q) k = word_of_int (quantize (f32_mul (rest ! k) sign))"
    by cases (simp_all add: slot_field_def mask_as_take_bit rest f F_def)
qed

section \<open>Decompression stays in the unit box\<close>

definition unit_comp :: "f32 \<Rightarrow> bool" where
  "unit_comp c \<longleftrightarrow> f32_between (- (2 ^ 149)) (2 ^ 149) c"

abbreviation s7071 :: int where "s7071 \<equiv> 0xB504F4 * 2 ^ 125"

lemma ksval_consts:
  "ksval 0 = 0" "ksval 0x3F800000 = 2 ^ 149" "ksval 0x447FC000 = 1023 * 2 ^ 149"
  "ksval 0x3FB504F4 = 2 * s7071" "ksval 0x3F3504F4 = s7071" "ksval (- 0x3F3504F4) = - s7071"
  "ksval 0x40000000 = 2 * 2 ^ 149" "ksval (- 0x3F800000) = - (2 ^ 149)"
  "ksval 0x3F000001 = 0x800001 * 2 ^ 125" 
  by (simp_all add: ksval_def mag_int_def)

lemma slot_field_range: "0 \<le> sint (slot_field p k)" "sint (slot_field p k) \<le> 1023"
proof -
  have u: "uint (slot_field p k) < 1024"
    unfolding slot_field_def mask_as_take_bit unsigned_take_bit_eq by (simp add: take_bit_eq_mod)
  then have "sint (slot_field p k) = uint (slot_field p k)"
    by (intro sint_small) simp
  with u show "0 \<le> sint (slot_field p k)" "sint (slot_field p k) \<le> 1023" by simp_all
qed

lemma f32_const_svals:
  "f32_isfinite (f32_of_int 1023)" "f32_sval (f32_of_int 1023) = 1023 * 2 ^ 149"
  "f32_between (2 * s7071) (2 * s7071) (f32_lit 14142136 10000000)"
  "f32_between s7071 s7071 (f32_lit 7071068 10000000)"
  "f32_between (2 ^ 149) (2 ^ 149) (f32_of_int 1)" "f32_between 0 0 0"
  unfolding f32_lits by (simp_all add: f32_between_def f32_eval)

lemma dequantize_between: "f32_between (- s7071) s7071 (dequantize (slot_field p k))"
proof -
  define n where "n = sint (slot_field p k)"
  have n: "0 \<le> n" "n \<le> 1023" unfolding n_def by (rule slot_field_range)+
  have "f32_between (ksval 0) (ksval 0x447FC000) (f32_of_int n)"
    using n by (intro f32_between_of_int) (simp_all add: ksval_consts mag_inf_def)
  then have "f32_between (ksval 0) (ksval 0x3F800000) (f32_div (f32_of_int n) (f32_of_int 1023))"
    by (rule f32_between_div_pos) (simp_all add: f32_const_svals ksval_consts mag_inf_def)
  then have "f32_between 0 (ksval 0x3FB504F4)
      (f32_mul (f32_div (f32_of_int n) (f32_of_int 1023)) (f32_lit 14142136 10000000))"
    using f32_between_weaken [OF f32_const_svals(3), of 0 "2 * s7071"] unfolding ksval_consts
    by (rule f32_between_mul_nonneg [unfolded ksval_consts, of "2 ^ 149" _ "2 * s7071" _ "0x3FB504F4", unfolded ksval_consts])
      (simp_all add: mag_inf_def)
  then have "f32_between (ksval (- 0x3F3504F4)) (ksval 0x3F3504F4) (dequantize (slot_field p k))"
    unfolding dequantize_def n_def [symmetric]
    by (rule f32_between_sub [OF _ f32_const_svals(4)]) (simp_all add: ksval_consts mag_inf_def)
  then show ?thesis by (simp only: ksval_consts)
qed

lemma Decompress_unit:
  "\<forall>c \<in> set (quat_comps (Decompress p)). unit_comp c"
proof -
  define c0 c1 c2 where "c0 = dequantize (slot_field p 0)" and "c1 = dequantize (slot_field p 1)"
    and "c2 = dequantize (slot_field p 2)"
  define sq where "sq = f32_add (f32_add (f32_add 0 (f32_mul c0 c0)) (f32_mul c1 c1)) (f32_mul c2 c2)"
  define big where "big = f32_sqrt (f32_max 0 (f32_sub (f32_of_int 1) sq))"
  have c: "f32_between (- s7071) s7071 c0" "f32_between (- s7071) s7071 c1" "f32_between (- s7071) s7071 c2"
    unfolding c0_def c1_def c2_def by (rule dequantize_between)+
  have m: "f32_between 0 (ksval 0x3F800000) (f32_mul x x)" if "f32_between (- s7071) s7071 x" for x
    using that by (rule f32_between_square) (simp_all add: ksval_consts mag_inf_def)
  have "f32_between (ksval 0) (ksval 0x3F800000) (f32_add 0 (f32_mul c0 c0))"
    by (rule f32_between_add [OF f32_const_svals(6) m [OF c(1)]]) (simp_all add: ksval_consts mag_inf_def)
  then have "f32_between (ksval 0) (ksval 0x40000000) (f32_add (f32_add 0 (f32_mul c0 c0)) (f32_mul c1 c1))"
    by (rule f32_between_add [OF _ m [OF c(2)]]) (simp_all add: ksval_consts mag_inf_def)
  then have "f32_between (ksval 0) (ksval 0x40800000) sq" unfolding sq_def
    by (rule f32_between_add [OF _ m [OF c(3)]]) (simp_all add: ksval_consts mag_inf_def ksval_def mag_int_def)
  then have "f32_between (ksval (- 0x40800000)) (ksval 0x3F800000) (f32_sub (f32_of_int 1) sq)"
    by (rule f32_between_sub [OF f32_const_svals(5)]) (simp_all add: mag_inf_def ksval_def mag_int_def)
  then have "f32_between 0 (ksval 0x3F800000) (f32_max 0 (f32_sub (f32_of_int 1) sq))"
    by (rule f32_between_max0) (simp add: ksval_consts)
  then have big: "f32_between 0 (2 ^ 149) big"
    unfolding big_def ksval_consts by (rule f32_between_sqrt_unit)
  have u: "unit_comp c0" "unit_comp c1" "unit_comp c2" "unit_comp big"
    unfolding unit_comp_def
    using c big by (auto elim!: f32_between_weaken)
  define l where "l = unat (drop_bit 30 p AND 3)"
  have "set (quat_comps (Decompress p)) \<subseteq> {c0, c1, c2, big}"
  proof -
    have "l < 4" unfolding l_def mask_as_take_bit unsigned_take_bit_eq by (simp add: take_bit_eq_mod)
    then consider "l = 0" | "l = 1" | "l = 2" | "l = 3" by linarith
    then show ?thesis
      unfolding Decompress_def Let_def c0_def [symmetric] c1_def [symmetric] c2_def [symmetric]
        sq_def [symmetric] big_def [symmetric] l_def [symmetric]
      by cases (simp_all add: quat_comps_def)
  qed
  with u show ?thesis by auto
qed

section \<open>Zones of accepted positions\<close>

definition zone_small :: "ZoneCoord \<Rightarrow> bool" where
  "zone_small z \<longleftrightarrow> -1334 \<le> sint (zx z) \<and> sint (zx z) \<le> 1333 \<and> -1334 \<le> sint (zy z) \<and> sint (zy z) \<le> 1333"

lemma f32_trunc_between:
  assumes "f32_between (- (a * 2 ^ 149)) (b * 2 ^ 149) x" "0 \<le> a" "0 \<le> b"
  shows "- a \<le> f32_trunc x" "f32_trunc x \<le> b"
proof -
  have s: "- (a * 2 ^ 149) \<le> f32_sval x" "f32_sval x \<le> b * 2 ^ 149"
    using assms(1) by (simp_all add: f32_between_def)
  consider "f32_sval x = 0" | "0 < f32_sval x" | "f32_sval x < 0" by linarith
  then show "- a \<le> f32_trunc x" "f32_trunc x \<le> b"
    using s assms(2,3) by (cases; simp add: f32_trunc_def pos_imp_zdiv_nonneg_iff)+
qed

lemma f32_to_i32_between:
  assumes "f32_between (- (a * 2 ^ 149)) (b * 2 ^ 149) x" "0 \<le> a" "0 \<le> b" "a < 2 ^ 31" "b < 2 ^ 31"
  shows "sint (f32_to_i32 x) = f32_trunc x" "- a \<le> sint (f32_to_i32 x)" "sint (f32_to_i32 x) \<le> b"
proof -
  note t = f32_trunc_between [OF assms(1-3)]
  have "f32_isfinite x" using assms(1) by (simp add: f32_between_def)
  then show e: "sint (f32_to_i32 x) = f32_trunc x"
    using t assms by (simp add: f32_to_i32_def sint_word_of_int)
  show "- a \<le> sint (f32_to_i32 x)" "sint (f32_to_i32 x) \<le> b" using t by (simp_all add: e)
qed

lemma f32_between_floor:
  assumes x: "f32_between a b x" and k: "\<bar>lo\<bar> < kinf" "\<bar>hi\<bar> < kinf"
    and n: "ksval lo \<le> a div 2 ^ 149 * 2 ^ 149" "b div 2 ^ 149 * 2 ^ 149 \<le> ksval hi"
  shows "f32_between (ksval lo) (ksval hi) (f32_floor x)"
proof (rule f32_between_kround [OF _ _ k])
  show "f32_key (f32_floor x) = kround (f32_sval x div 2 ^ 149 * 2 ^ 149) 1"
    using x by (simp add: f32_floor_def f32_between_def kround_key)
  have "a div 2 ^ 149 \<le> f32_sval x div 2 ^ 149" "f32_sval x div 2 ^ 149 \<le> b div 2 ^ 149"
    using x by (auto simp: f32_between_def intro: zdiv_mono1)
  with n show "ksval lo * int 1 \<le> f32_sval x div 2 ^ 149 * 2 ^ 149"
    "f32_sval x div 2 ^ 149 * 2 ^ 149 \<le> ksval hi * int 1"
    by simp_all
qed simp

lemma zone_axis_range:
  assumes "f32_between (- (1000000 * 2 ^ 149)) (1000000 * 2 ^ 149) x"
  defines "z \<equiv> f32_to_i32 (f32_floor (f32_div x KMP_ZONE_SIZE))"
  shows "-1334 \<le> sint z" "sint z \<le> 1333"
proof -
  have c: "ksval (- 0x44A6C000) = - (1334 * 2 ^ 149)" "ksval 0x44A6B000 = 2667 * 2 ^ 148"
    "ksval 0x44A6A000 = 1333 * 2 ^ 149"
    by (simp_all add: ksval_def mag_int_def)
  have s: "f32_isfinite KMP_ZONE_SIZE" "f32_sval KMP_ZONE_SIZE = 750 * 2 ^ 149"
    unfolding KMP_ZONE_SIZE_def f32_lits by (simp_all add: f32_eval)
  have "f32_between (ksval (- 0x44A6C000)) (ksval 0x44A6B000) (f32_div x KMP_ZONE_SIZE)"
    by (rule f32_between_div_pos [OF assms(1)]) (simp_all add: s c mag_inf_def)
  then have "f32_between (ksval (- 0x44A6C000)) (ksval 0x44A6A000) (f32_floor (f32_div x KMP_ZONE_SIZE))"
    by (rule f32_between_floor) (simp_all add: c mag_inf_def)
  then show "-1334 \<le> sint z" "sint z \<le> 1333"
    unfolding z_def c using f32_to_i32_between [of 1334 1333] by simp_all
qed

lemma good_coord_between:
  assumes "\<not> bad_coords x y z"
  shows "f32_between (- (1000000 * 2 ^ 149)) (1000000 * 2 ^ 149) x"
    "f32_between (- (1000000 * 2 ^ 149)) (1000000 * 2 ^ 149) y"
    "f32_between (- (1000000 * 2 ^ 149)) (1000000 * 2 ^ 149) z"
proof -
  have "f32_between (- (1000000 * 2 ^ 149)) (1000000 * 2 ^ 149) w"
    if "\<not> f32_isnan w" "\<not> f32_isinf w" "\<not> f32_lt (f32_of_int 1000000) (f32_abs w)" for w
  proof -
    have fin: "f32_isfinite w" using that by (simp add: f32_class_key)
    have m: "\<not> f32_isnan (f32_of_int 1000000)" "f32_key (f32_of_int 1000000) = 0x49742400"
      unfolding f32_lits by (simp_all add: f32_eval)
    have "\<bar>f32_key w\<bar> \<le> 0x49742400"
      using that m by (auto simp: f32_lt_def f32_key_abs f32_class_key)
    then have "ksval (- 0x49742400) \<le> f32_sval w" "f32_sval w \<le> ksval 0x49742400"
      unfolding f32_sval_key by (auto intro!: ksval_mono simp: mag_inf_def)
    with fin show ?thesis by (simp add: f32_between_def ksval_def mag_int_def)
  qed
  with assms show "f32_between (- (1000000 * 2 ^ 149)) (1000000 * 2 ^ 149) x"
    "f32_between (- (1000000 * 2 ^ 149)) (1000000 * 2 ^ 149) y"
    "f32_between (- (1000000 * 2 ^ 149)) (1000000 * 2 ^ 149) z"
    unfolding bad_coords_def by blast+
qed

lemma FromWorldPos_small:
  assumes "\<not> bad_coords (vx p) (vy p) (vz p)"
  shows "zone_small (FromWorldPos p KMP_ZONE_SIZE)"
  using good_coord_between [OF assms] zone_axis_range
  by (auto simp: zone_small_def FromWorldPos_def ZoneCoord_new_def f32_between_def)

lemma sint_diff:
  "\<bar>sint (a :: i32)\<bar> < 1073741824 \<Longrightarrow> \<bar>sint b\<bar> < 1073741824 \<Longrightarrow> sint (a - b) = sint a - sint b"
  using sint_word_of_int [of "sint a - sint b"] by simp

lemma sint_i32_abs: "- 2147483648 < sint w \<Longrightarrow> sint (i32_abs w) = \<bar>sint w\<bar>"
  using sint_word_of_int [of "- sint w"] sint_i32_range [of w] by (simp add: i32_abs_def)

lemma IsAdjacent_small:
  assumes "zone_small a" "zone_small b"
  shows "IsAdjacent a b \<longleftrightarrow> \<bar>sint (zx a) - sint (zx b)\<bar> \<le> 1 \<and> \<bar>sint (zy a) - sint (zy b)\<bar> \<le> 1"
proof -
  have "sint (i32_abs (x - y)) = \<bar>sint x - sint y\<bar>"
    if "-1334 \<le> sint x" "sint x \<le> 1333" "-1334 \<le> sint y" "sint y \<le> 1333" for x y :: i32
  proof -
    have "sint (x - y) = sint x - sint y" using that by (intro sint_diff) auto
    with that show ?thesis by (subst sint_i32_abs) auto
  qed
  with assms show ?thesis by (simp add: IsAdjacent_def zone_small_def)
qed

lemma IsAdjacent_refl [simp]: "IsAdjacent z z"
  by (simp add: IsAdjacent_def i32_abs_def)

lemma i32_abs_minus: "i32_abs (- w) = i32_abs w"
proof (cases "sint w = - 2147483648")
  case True
  then have "w = 0x80000000" by (intro signed_word_eqI) simp
  then show ?thesis by (simp add: i32_abs_def)
next
  case False
  then have "sint (- w) = - sint w"
    using sint_word_of_int [of "- sint w"] sint_i32_range [of w] by simp
  moreover have "sint w = 0 \<Longrightarrow> w = 0" by (intro signed_word_eqI) simp
  ultimately show ?thesis by (cases "w = 0") (auto simp: i32_abs_def order.order_iff_strict)
qed

lemma IsAdjacent_sym: "IsAdjacent a b \<longleftrightarrow> IsAdjacent b a"
  using i32_abs_minus [of "zx a - zx b"] i32_abs_minus [of "zy a - zy b"]
  by (simp add: IsAdjacent_def)

end
