(* ===== verification/Messages.thy ===== *)
theory Messages
  imports Protocol Kmp_Types
begin

text \<open>
  \<^verbatim>\<open>KenshiMP.Common/include/kmp/messages.h\<close>: the packed message structs that the game server and
  the master server exchange, each as a record with its byte image (\<^verbatim>\<open>_enc\<close>), its decoder
  (\<^verbatim>\<open>_dec\<close>) and its \<^verbatim>\<open>sizeof\<close> (\<^verbatim>\<open>_size\<close>).  Every struct interprets \<^verbatim>\<open>wire_struct\<close>: the
  image has \<^verbatim>\<open>sizeof\<close> bytes and decoding and encoding are inverse.
\<close>

section \<open>Arrays of floats\<close>

definition f32s_enc :: "f32 list \<Rightarrow> bytes" where
  "f32s_enc xs = concat (map bytes_u32 xs)"

definition f32s_dec :: "nat \<Rightarrow> bytes \<Rightarrow> f32 list" where
  "f32s_dec n bs = map (\<lambda>i. u32_of (bslice (4 * i) 4 bs)) [0..<n]"

lemma length_f32s_enc [simp]: "length (f32s_enc xs) = 4 * length xs"
  by (induction xs) (simp_all add: f32s_enc_def)

lemma length_f32s_dec [simp]: "length (f32s_dec n bs) = n"
  by (simp add: f32s_dec_def)

lemma f32s_dec_Suc: "f32s_dec (Suc n) bs = u32_of (bslice 0 4 bs) # f32s_dec n (drop 4 bs)"
  by (simp add: f32s_dec_def upt_conv_Cons map_Suc_upt [symmetric] bslice_def add.commute
      del: upt_Suc)

lemma f32s_dec_enc [wire_simps]: "length xs = n \<Longrightarrow> f32s_dec n (f32s_enc xs) = xs"
proof (induction xs arbitrary: n)
  case Nil
  then show ?case by (simp add: f32s_dec_def)
next
  case (Cons x xs)
  have "drop 4 (f32s_enc (x # xs)) = f32s_enc xs" "bslice 0 4 (f32s_enc (x # xs)) = bytes_u32 x"
    by (simp_all add: f32s_enc_def bslice_def)
  with Cons show ?case by (cases n) (simp_all add: f32s_dec_Suc)
qed

lemma f32s_enc_dec [wire_simps]: "length bs = 4 * n \<Longrightarrow> f32s_enc (f32s_dec n bs) = bs"
proof (induction n arbitrary: bs)
  case 0
  then show ?case by (simp add: f32s_dec_def f32s_enc_def)
next
  case (Suc n)
  then have "f32s_enc (f32s_dec n (drop 4 bs)) = drop 4 bs" by simp
  moreover have "bytes_u32 (u32_of (bslice 0 4 bs)) = take 4 bs"
    using Suc.prems by (simp add: bytes_u32_of bslice_def)
  ultimately show ?case by (simp add: f32s_dec_Suc f32s_enc_def)
qed

section \<open>Structs\<close>

record MsgHandshake =
  MsgHandshake_protocolVersion :: u32
  MsgHandshake_playerName :: bytes
  MsgHandshake_gameVersionMajor :: u8
  MsgHandshake_gameVersionMinor :: u8
  MsgHandshake_gameVersionPatch :: u8
  MsgHandshake_reserved :: u8

definition MsgHandshake_size :: nat where
  "MsgHandshake_size = 40"

definition MsgHandshake_enc :: "MsgHandshake \<Rightarrow> bytes" where
  "MsgHandshake_enc m = bytes_u32 (MsgHandshake_protocolVersion m) @
     MsgHandshake_playerName m @
     bytes_u8 (MsgHandshake_gameVersionMajor m) @
     bytes_u8 (MsgHandshake_gameVersionMinor m) @
     bytes_u8 (MsgHandshake_gameVersionPatch m) @
     bytes_u8 (MsgHandshake_reserved m)"

definition MsgHandshake_dec :: "bytes \<Rightarrow> MsgHandshake" where
  "MsgHandshake_dec bs = \<lparr>MsgHandshake_protocolVersion = u32_of (bslice 0 4 bs),
     MsgHandshake_playerName = bslice 4 32 bs,
     MsgHandshake_gameVersionMajor = u8_of (bslice 36 1 bs),
     MsgHandshake_gameVersionMinor = u8_of (bslice 37 1 bs),
     MsgHandshake_gameVersionPatch = u8_of (bslice 38 1 bs),
     MsgHandshake_reserved = u8_of (bslice 39 1 bs)\<rparr>"

definition MsgHandshake_wf :: "MsgHandshake \<Rightarrow> bool" where
  "MsgHandshake_wf m \<longleftrightarrow> length (MsgHandshake_playerName m) = 32"

interpretation MsgHandshake: wire_struct MsgHandshake_enc MsgHandshake_dec MsgHandshake_size MsgHandshake_wf
  by unfold_locales (simp_all add: MsgHandshake_enc_def MsgHandshake_dec_def MsgHandshake_size_def MsgHandshake_wf_def wire_simps)

record MsgHandshakeAck =
  MsgHandshakeAck_playerId :: PlayerID
  MsgHandshakeAck_serverTick :: u32
  MsgHandshakeAck_timeOfDay :: f32
  MsgHandshakeAck_weatherState :: i32
  MsgHandshakeAck_maxPlayers :: u8
  MsgHandshakeAck_currentPlayers :: u8
  MsgHandshakeAck_reserved :: u16

definition MsgHandshakeAck_size :: nat where
  "MsgHandshakeAck_size = 20"

definition MsgHandshakeAck_enc :: "MsgHandshakeAck \<Rightarrow> bytes" where
  "MsgHandshakeAck_enc m = bytes_u32 (MsgHandshakeAck_playerId m) @
     bytes_u32 (MsgHandshakeAck_serverTick m) @
     bytes_u32 (MsgHandshakeAck_timeOfDay m) @
     bytes_u32 (MsgHandshakeAck_weatherState m) @
     bytes_u8 (MsgHandshakeAck_maxPlayers m) @
     bytes_u8 (MsgHandshakeAck_currentPlayers m) @
     bytes_u16 (MsgHandshakeAck_reserved m)"

definition MsgHandshakeAck_dec :: "bytes \<Rightarrow> MsgHandshakeAck" where
  "MsgHandshakeAck_dec bs = \<lparr>MsgHandshakeAck_playerId = u32_of (bslice 0 4 bs),
     MsgHandshakeAck_serverTick = u32_of (bslice 4 4 bs),
     MsgHandshakeAck_timeOfDay = u32_of (bslice 8 4 bs),
     MsgHandshakeAck_weatherState = u32_of (bslice 12 4 bs),
     MsgHandshakeAck_maxPlayers = u8_of (bslice 16 1 bs),
     MsgHandshakeAck_currentPlayers = u8_of (bslice 17 1 bs),
     MsgHandshakeAck_reserved = u16_of (bslice 18 2 bs)\<rparr>"

interpretation MsgHandshakeAck: wire_struct MsgHandshakeAck_enc MsgHandshakeAck_dec MsgHandshakeAck_size "\<lambda>_. True"
  by unfold_locales (simp_all add: MsgHandshakeAck_enc_def MsgHandshakeAck_dec_def MsgHandshakeAck_size_def wire_simps)

record MsgHandshakeReject =
  MsgHandshakeReject_reasonCode :: u8
  MsgHandshakeReject_reasonText :: bytes

definition MsgHandshakeReject_size :: nat where
  "MsgHandshakeReject_size = 129"

definition MsgHandshakeReject_enc :: "MsgHandshakeReject \<Rightarrow> bytes" where
  "MsgHandshakeReject_enc m = bytes_u8 (MsgHandshakeReject_reasonCode m) @
     MsgHandshakeReject_reasonText m"

definition MsgHandshakeReject_dec :: "bytes \<Rightarrow> MsgHandshakeReject" where
  "MsgHandshakeReject_dec bs = \<lparr>MsgHandshakeReject_reasonCode = u8_of (bslice 0 1 bs),
     MsgHandshakeReject_reasonText = bslice 1 128 bs\<rparr>"

definition MsgHandshakeReject_wf :: "MsgHandshakeReject \<Rightarrow> bool" where
  "MsgHandshakeReject_wf m \<longleftrightarrow> length (MsgHandshakeReject_reasonText m) = 128"

interpretation MsgHandshakeReject: wire_struct MsgHandshakeReject_enc MsgHandshakeReject_dec MsgHandshakeReject_size MsgHandshakeReject_wf
  by unfold_locales (simp_all add: MsgHandshakeReject_enc_def MsgHandshakeReject_dec_def MsgHandshakeReject_size_def MsgHandshakeReject_wf_def wire_simps)

record MsgPlayerJoined =
  MsgPlayerJoined_playerId :: PlayerID
  MsgPlayerJoined_playerName :: bytes

definition MsgPlayerJoined_size :: nat where
  "MsgPlayerJoined_size = 36"

definition MsgPlayerJoined_enc :: "MsgPlayerJoined \<Rightarrow> bytes" where
  "MsgPlayerJoined_enc m = bytes_u32 (MsgPlayerJoined_playerId m) @
     MsgPlayerJoined_playerName m"

definition MsgPlayerJoined_dec :: "bytes \<Rightarrow> MsgPlayerJoined" where
  "MsgPlayerJoined_dec bs = \<lparr>MsgPlayerJoined_playerId = u32_of (bslice 0 4 bs),
     MsgPlayerJoined_playerName = bslice 4 32 bs\<rparr>"

definition MsgPlayerJoined_wf :: "MsgPlayerJoined \<Rightarrow> bool" where
  "MsgPlayerJoined_wf m \<longleftrightarrow> length (MsgPlayerJoined_playerName m) = 32"

interpretation MsgPlayerJoined: wire_struct MsgPlayerJoined_enc MsgPlayerJoined_dec MsgPlayerJoined_size MsgPlayerJoined_wf
  by unfold_locales (simp_all add: MsgPlayerJoined_enc_def MsgPlayerJoined_dec_def MsgPlayerJoined_size_def MsgPlayerJoined_wf_def wire_simps)

record MsgPlayerLeft =
  MsgPlayerLeft_playerId :: PlayerID
  MsgPlayerLeft_reason :: u8

definition MsgPlayerLeft_size :: nat where
  "MsgPlayerLeft_size = 5"

definition MsgPlayerLeft_enc :: "MsgPlayerLeft \<Rightarrow> bytes" where
  "MsgPlayerLeft_enc m = bytes_u32 (MsgPlayerLeft_playerId m) @
     bytes_u8 (MsgPlayerLeft_reason m)"

definition MsgPlayerLeft_dec :: "bytes \<Rightarrow> MsgPlayerLeft" where
  "MsgPlayerLeft_dec bs = \<lparr>MsgPlayerLeft_playerId = u32_of (bslice 0 4 bs),
     MsgPlayerLeft_reason = u8_of (bslice 4 1 bs)\<rparr>"

interpretation MsgPlayerLeft: wire_struct MsgPlayerLeft_enc MsgPlayerLeft_dec MsgPlayerLeft_size "\<lambda>_. True"
  by unfold_locales (simp_all add: MsgPlayerLeft_enc_def MsgPlayerLeft_dec_def MsgPlayerLeft_size_def wire_simps)

record CharacterPosition =
  CharacterPosition_entityId :: EntityID
  CharacterPosition_generation :: u32
  CharacterPosition_posX :: f32
  CharacterPosition_posY :: f32
  CharacterPosition_posZ :: f32
  CharacterPosition_compressedQuat :: u32
  CharacterPosition_animStateId :: u8
  CharacterPosition_moveSpeed :: u8
  CharacterPosition_flags :: u16

definition CharacterPosition_size :: nat where
  "CharacterPosition_size = 28"

definition CharacterPosition_enc :: "CharacterPosition \<Rightarrow> bytes" where
  "CharacterPosition_enc m = bytes_u32 (CharacterPosition_entityId m) @
     bytes_u32 (CharacterPosition_generation m) @
     bytes_u32 (CharacterPosition_posX m) @
     bytes_u32 (CharacterPosition_posY m) @
     bytes_u32 (CharacterPosition_posZ m) @
     bytes_u32 (CharacterPosition_compressedQuat m) @
     bytes_u8 (CharacterPosition_animStateId m) @
     bytes_u8 (CharacterPosition_moveSpeed m) @
     bytes_u16 (CharacterPosition_flags m)"

definition CharacterPosition_dec :: "bytes \<Rightarrow> CharacterPosition" where
  "CharacterPosition_dec bs = \<lparr>CharacterPosition_entityId = u32_of (bslice 0 4 bs),
     CharacterPosition_generation = u32_of (bslice 4 4 bs),
     CharacterPosition_posX = u32_of (bslice 8 4 bs),
     CharacterPosition_posY = u32_of (bslice 12 4 bs),
     CharacterPosition_posZ = u32_of (bslice 16 4 bs),
     CharacterPosition_compressedQuat = u32_of (bslice 20 4 bs),
     CharacterPosition_animStateId = u8_of (bslice 24 1 bs),
     CharacterPosition_moveSpeed = u8_of (bslice 25 1 bs),
     CharacterPosition_flags = u16_of (bslice 26 2 bs)\<rparr>"

interpretation CharacterPosition: wire_struct CharacterPosition_enc CharacterPosition_dec CharacterPosition_size "\<lambda>_. True"
  by unfold_locales (simp_all add: CharacterPosition_enc_def CharacterPosition_dec_def CharacterPosition_size_def wire_simps)

record MsgMoveCommand =
  MsgMoveCommand_entityId :: EntityID
  MsgMoveCommand_targetX :: f32
  MsgMoveCommand_targetY :: f32
  MsgMoveCommand_targetZ :: f32
  MsgMoveCommand_moveType :: u8

definition MsgMoveCommand_size :: nat where
  "MsgMoveCommand_size = 17"

definition MsgMoveCommand_enc :: "MsgMoveCommand \<Rightarrow> bytes" where
  "MsgMoveCommand_enc m = bytes_u32 (MsgMoveCommand_entityId m) @
     bytes_u32 (MsgMoveCommand_targetX m) @
     bytes_u32 (MsgMoveCommand_targetY m) @
     bytes_u32 (MsgMoveCommand_targetZ m) @
     bytes_u8 (MsgMoveCommand_moveType m)"

definition MsgMoveCommand_dec :: "bytes \<Rightarrow> MsgMoveCommand" where
  "MsgMoveCommand_dec bs = \<lparr>MsgMoveCommand_entityId = u32_of (bslice 0 4 bs),
     MsgMoveCommand_targetX = u32_of (bslice 4 4 bs),
     MsgMoveCommand_targetY = u32_of (bslice 8 4 bs),
     MsgMoveCommand_targetZ = u32_of (bslice 12 4 bs),
     MsgMoveCommand_moveType = u8_of (bslice 16 1 bs)\<rparr>"

interpretation MsgMoveCommand: wire_struct MsgMoveCommand_enc MsgMoveCommand_dec MsgMoveCommand_size "\<lambda>_. True"
  by unfold_locales (simp_all add: MsgMoveCommand_enc_def MsgMoveCommand_dec_def MsgMoveCommand_size_def wire_simps)

record MsgAttackIntent =
  MsgAttackIntent_attackerId :: EntityID
  MsgAttackIntent_targetId :: EntityID
  MsgAttackIntent_attackType :: u8

definition MsgAttackIntent_size :: nat where
  "MsgAttackIntent_size = 9"

definition MsgAttackIntent_enc :: "MsgAttackIntent \<Rightarrow> bytes" where
  "MsgAttackIntent_enc m = bytes_u32 (MsgAttackIntent_attackerId m) @
     bytes_u32 (MsgAttackIntent_targetId m) @
     bytes_u8 (MsgAttackIntent_attackType m)"

definition MsgAttackIntent_dec :: "bytes \<Rightarrow> MsgAttackIntent" where
  "MsgAttackIntent_dec bs = \<lparr>MsgAttackIntent_attackerId = u32_of (bslice 0 4 bs),
     MsgAttackIntent_targetId = u32_of (bslice 4 4 bs),
     MsgAttackIntent_attackType = u8_of (bslice 8 1 bs)\<rparr>"

interpretation MsgAttackIntent: wire_struct MsgAttackIntent_enc MsgAttackIntent_dec MsgAttackIntent_size "\<lambda>_. True"
  by unfold_locales (simp_all add: MsgAttackIntent_enc_def MsgAttackIntent_dec_def MsgAttackIntent_size_def wire_simps)

record MsgCombatHit =
  MsgCombatHit_attackerId :: EntityID
  MsgCombatHit_targetId :: EntityID
  MsgCombatHit_bodyPart :: u8
  MsgCombatHit_cutDamage :: f32
  MsgCombatHit_bluntDamage :: f32
  MsgCombatHit_pierceDamage :: f32
  MsgCombatHit_resultHealth :: f32
  MsgCombatHit_wasBlocked :: u8
  MsgCombatHit_wasKO :: u8

definition MsgCombatHit_size :: nat where
  "MsgCombatHit_size = 27"

definition MsgCombatHit_enc :: "MsgCombatHit \<Rightarrow> bytes" where
  "MsgCombatHit_enc m = bytes_u32 (MsgCombatHit_attackerId m) @
     bytes_u32 (MsgCombatHit_targetId m) @
     bytes_u8 (MsgCombatHit_bodyPart m) @
     bytes_u32 (MsgCombatHit_cutDamage m) @
     bytes_u32 (MsgCombatHit_bluntDamage m) @
     bytes_u32 (MsgCombatHit_pierceDamage m) @
     bytes_u32 (MsgCombatHit_resultHealth m) @
     bytes_u8 (MsgCombatHit_wasBlocked m) @
     bytes_u8 (MsgCombatHit_wasKO m)"

definition MsgCombatHit_dec :: "bytes \<Rightarrow> MsgCombatHit" where
  "MsgCombatHit_dec bs = \<lparr>MsgCombatHit_attackerId = u32_of (bslice 0 4 bs),
     MsgCombatHit_targetId = u32_of (bslice 4 4 bs),
     MsgCombatHit_bodyPart = u8_of (bslice 8 1 bs),
     MsgCombatHit_cutDamage = u32_of (bslice 9 4 bs),
     MsgCombatHit_bluntDamage = u32_of (bslice 13 4 bs),
     MsgCombatHit_pierceDamage = u32_of (bslice 17 4 bs),
     MsgCombatHit_resultHealth = u32_of (bslice 21 4 bs),
     MsgCombatHit_wasBlocked = u8_of (bslice 25 1 bs),
     MsgCombatHit_wasKO = u8_of (bslice 26 1 bs)\<rparr>"

interpretation MsgCombatHit: wire_struct MsgCombatHit_enc MsgCombatHit_dec MsgCombatHit_size "\<lambda>_. True"
  by unfold_locales (simp_all add: MsgCombatHit_enc_def MsgCombatHit_dec_def MsgCombatHit_size_def wire_simps)

record MsgCombatKO =
  MsgCombatKO_entityId :: EntityID
  MsgCombatKO_attackerId :: EntityID
  MsgCombatKO_bodyPart :: u8
  MsgCombatKO_resultHealth :: f32

definition MsgCombatKO_size :: nat where
  "MsgCombatKO_size = 13"

definition MsgCombatKO_enc :: "MsgCombatKO \<Rightarrow> bytes" where
  "MsgCombatKO_enc m = bytes_u32 (MsgCombatKO_entityId m) @
     bytes_u32 (MsgCombatKO_attackerId m) @
     bytes_u8 (MsgCombatKO_bodyPart m) @
     bytes_u32 (MsgCombatKO_resultHealth m)"

definition MsgCombatKO_dec :: "bytes \<Rightarrow> MsgCombatKO" where
  "MsgCombatKO_dec bs = \<lparr>MsgCombatKO_entityId = u32_of (bslice 0 4 bs),
     MsgCombatKO_attackerId = u32_of (bslice 4 4 bs),
     MsgCombatKO_bodyPart = u8_of (bslice 8 1 bs),
     MsgCombatKO_resultHealth = u32_of (bslice 9 4 bs)\<rparr>"

interpretation MsgCombatKO: wire_struct MsgCombatKO_enc MsgCombatKO_dec MsgCombatKO_size "\<lambda>_. True"
  by unfold_locales (simp_all add: MsgCombatKO_enc_def MsgCombatKO_dec_def MsgCombatKO_size_def wire_simps)

record MsgCombatDeath =
  MsgCombatDeath_entityId :: EntityID
  MsgCombatDeath_killerId :: EntityID

definition MsgCombatDeath_size :: nat where
  "MsgCombatDeath_size = 8"

definition MsgCombatDeath_enc :: "MsgCombatDeath \<Rightarrow> bytes" where
  "MsgCombatDeath_enc m = bytes_u32 (MsgCombatDeath_entityId m) @
     bytes_u32 (MsgCombatDeath_killerId m)"

definition MsgCombatDeath_dec :: "bytes \<Rightarrow> MsgCombatDeath" where
  "MsgCombatDeath_dec bs = \<lparr>MsgCombatDeath_entityId = u32_of (bslice 0 4 bs),
     MsgCombatDeath_killerId = u32_of (bslice 4 4 bs)\<rparr>"

interpretation MsgCombatDeath: wire_struct MsgCombatDeath_enc MsgCombatDeath_dec MsgCombatDeath_size "\<lambda>_. True"
  by unfold_locales (simp_all add: MsgCombatDeath_enc_def MsgCombatDeath_dec_def MsgCombatDeath_size_def wire_simps)

record MsgEquipmentUpdate =
  MsgEquipmentUpdate_entityId :: EntityID
  MsgEquipmentUpdate_slot :: u8
  MsgEquipmentUpdate_itemTemplateId :: u32

definition MsgEquipmentUpdate_size :: nat where
  "MsgEquipmentUpdate_size = 9"

definition MsgEquipmentUpdate_enc :: "MsgEquipmentUpdate \<Rightarrow> bytes" where
  "MsgEquipmentUpdate_enc m = bytes_u32 (MsgEquipmentUpdate_entityId m) @
     bytes_u8 (MsgEquipmentUpdate_slot m) @
     bytes_u32 (MsgEquipmentUpdate_itemTemplateId m)"

definition MsgEquipmentUpdate_dec :: "bytes \<Rightarrow> MsgEquipmentUpdate" where
  "MsgEquipmentUpdate_dec bs = \<lparr>MsgEquipmentUpdate_entityId = u32_of (bslice 0 4 bs),
     MsgEquipmentUpdate_slot = u8_of (bslice 4 1 bs),
     MsgEquipmentUpdate_itemTemplateId = u32_of (bslice 5 4 bs)\<rparr>"

interpretation MsgEquipmentUpdate: wire_struct MsgEquipmentUpdate_enc MsgEquipmentUpdate_dec MsgEquipmentUpdate_size "\<lambda>_. True"
  by unfold_locales (simp_all add: MsgEquipmentUpdate_enc_def MsgEquipmentUpdate_dec_def MsgEquipmentUpdate_size_def wire_simps)

record MsgLimbHealth =
  MsgLimbHealth_entityId :: EntityID
  MsgLimbHealth_health :: "f32 list"

definition MsgLimbHealth_size :: nat where
  "MsgLimbHealth_size = 32"

definition MsgLimbHealth_enc :: "MsgLimbHealth \<Rightarrow> bytes" where
  "MsgLimbHealth_enc m = bytes_u32 (MsgLimbHealth_entityId m) @
     f32s_enc (MsgLimbHealth_health m)"

definition MsgLimbHealth_dec :: "bytes \<Rightarrow> MsgLimbHealth" where
  "MsgLimbHealth_dec bs = \<lparr>MsgLimbHealth_entityId = u32_of (bslice 0 4 bs),
     MsgLimbHealth_health = f32s_dec 7 (bslice 4 28 bs)\<rparr>"

definition MsgLimbHealth_wf :: "MsgLimbHealth \<Rightarrow> bool" where
  "MsgLimbHealth_wf m \<longleftrightarrow> length (MsgLimbHealth_health m) = 7"

interpretation MsgLimbHealth: wire_struct MsgLimbHealth_enc MsgLimbHealth_dec MsgLimbHealth_size MsgLimbHealth_wf
  by unfold_locales (simp_all add: MsgLimbHealth_enc_def MsgLimbHealth_dec_def MsgLimbHealth_size_def MsgLimbHealth_wf_def wire_simps)

record MsgStatusEffect =
  MsgStatusEffect_entityId :: EntityID
  MsgStatusEffect_effectType :: u8
  MsgStatusEffect_active :: u8

definition MsgStatusEffect_size :: nat where
  "MsgStatusEffect_size = 6"

definition MsgStatusEffect_enc :: "MsgStatusEffect \<Rightarrow> bytes" where
  "MsgStatusEffect_enc m = bytes_u32 (MsgStatusEffect_entityId m) @
     bytes_u8 (MsgStatusEffect_effectType m) @
     bytes_u8 (MsgStatusEffect_active m)"

definition MsgStatusEffect_dec :: "bytes \<Rightarrow> MsgStatusEffect" where
  "MsgStatusEffect_dec bs = \<lparr>MsgStatusEffect_entityId = u32_of (bslice 0 4 bs),
     MsgStatusEffect_effectType = u8_of (bslice 4 1 bs),
     MsgStatusEffect_active = u8_of (bslice 5 1 bs)\<rparr>"

interpretation MsgStatusEffect: wire_struct MsgStatusEffect_enc MsgStatusEffect_dec MsgStatusEffect_size "\<lambda>_. True"
  by unfold_locales (simp_all add: MsgStatusEffect_enc_def MsgStatusEffect_dec_def MsgStatusEffect_size_def wire_simps)

record MsgBuildRequest =
  MsgBuildRequest_templateId :: u32
  MsgBuildRequest_posX :: f32
  MsgBuildRequest_posY :: f32
  MsgBuildRequest_posZ :: f32
  MsgBuildRequest_compressedQuat :: u32

definition MsgBuildRequest_size :: nat where
  "MsgBuildRequest_size = 20"

definition MsgBuildRequest_enc :: "MsgBuildRequest \<Rightarrow> bytes" where
  "MsgBuildRequest_enc m = bytes_u32 (MsgBuildRequest_templateId m) @
     bytes_u32 (MsgBuildRequest_posX m) @
     bytes_u32 (MsgBuildRequest_posY m) @
     bytes_u32 (MsgBuildRequest_posZ m) @
     bytes_u32 (MsgBuildRequest_compressedQuat m)"

definition MsgBuildRequest_dec :: "bytes \<Rightarrow> MsgBuildRequest" where
  "MsgBuildRequest_dec bs = \<lparr>MsgBuildRequest_templateId = u32_of (bslice 0 4 bs),
     MsgBuildRequest_posX = u32_of (bslice 4 4 bs),
     MsgBuildRequest_posY = u32_of (bslice 8 4 bs),
     MsgBuildRequest_posZ = u32_of (bslice 12 4 bs),
     MsgBuildRequest_compressedQuat = u32_of (bslice 16 4 bs)\<rparr>"

interpretation MsgBuildRequest: wire_struct MsgBuildRequest_enc MsgBuildRequest_dec MsgBuildRequest_size "\<lambda>_. True"
  by unfold_locales (simp_all add: MsgBuildRequest_enc_def MsgBuildRequest_dec_def MsgBuildRequest_size_def wire_simps)

record MsgBuildPlaced =
  MsgBuildPlaced_entityId :: EntityID
  MsgBuildPlaced_templateId :: u32
  MsgBuildPlaced_posX :: f32
  MsgBuildPlaced_posY :: f32
  MsgBuildPlaced_posZ :: f32
  MsgBuildPlaced_compressedQuat :: u32
  MsgBuildPlaced_builderId :: PlayerID

definition MsgBuildPlaced_size :: nat where
  "MsgBuildPlaced_size = 28"

definition MsgBuildPlaced_enc :: "MsgBuildPlaced \<Rightarrow> bytes" where
  "MsgBuildPlaced_enc m = bytes_u32 (MsgBuildPlaced_entityId m) @
     bytes_u32 (MsgBuildPlaced_templateId m) @
     bytes_u32 (MsgBuildPlaced_posX m) @
     bytes_u32 (MsgBuildPlaced_posY m) @
     bytes_u32 (MsgBuildPlaced_posZ m) @
     bytes_u32 (MsgBuildPlaced_compressedQuat m) @
     bytes_u32 (MsgBuildPlaced_builderId m)"

definition MsgBuildPlaced_dec :: "bytes \<Rightarrow> MsgBuildPlaced" where
  "MsgBuildPlaced_dec bs = \<lparr>MsgBuildPlaced_entityId = u32_of (bslice 0 4 bs),
     MsgBuildPlaced_templateId = u32_of (bslice 4 4 bs),
     MsgBuildPlaced_posX = u32_of (bslice 8 4 bs),
     MsgBuildPlaced_posY = u32_of (bslice 12 4 bs),
     MsgBuildPlaced_posZ = u32_of (bslice 16 4 bs),
     MsgBuildPlaced_compressedQuat = u32_of (bslice 20 4 bs),
     MsgBuildPlaced_builderId = u32_of (bslice 24 4 bs)\<rparr>"

interpretation MsgBuildPlaced: wire_struct MsgBuildPlaced_enc MsgBuildPlaced_dec MsgBuildPlaced_size "\<lambda>_. True"
  by unfold_locales (simp_all add: MsgBuildPlaced_enc_def MsgBuildPlaced_dec_def MsgBuildPlaced_size_def wire_simps)

record MsgBuildProgress =
  MsgBuildProgress_entityId :: EntityID
  MsgBuildProgress_progress :: f32

definition MsgBuildProgress_size :: nat where
  "MsgBuildProgress_size = 8"

definition MsgBuildProgress_enc :: "MsgBuildProgress \<Rightarrow> bytes" where
  "MsgBuildProgress_enc m = bytes_u32 (MsgBuildProgress_entityId m) @
     bytes_u32 (MsgBuildProgress_progress m)"

definition MsgBuildProgress_dec :: "bytes \<Rightarrow> MsgBuildProgress" where
  "MsgBuildProgress_dec bs = \<lparr>MsgBuildProgress_entityId = u32_of (bslice 0 4 bs),
     MsgBuildProgress_progress = u32_of (bslice 4 4 bs)\<rparr>"

interpretation MsgBuildProgress: wire_struct MsgBuildProgress_enc MsgBuildProgress_dec MsgBuildProgress_size "\<lambda>_. True"
  by unfold_locales (simp_all add: MsgBuildProgress_enc_def MsgBuildProgress_dec_def MsgBuildProgress_size_def wire_simps)

record MsgDoorState =
  MsgDoorState_entityId :: EntityID
  MsgDoorState_state :: u8

definition MsgDoorState_size :: nat where
  "MsgDoorState_size = 5"

definition MsgDoorState_enc :: "MsgDoorState \<Rightarrow> bytes" where
  "MsgDoorState_enc m = bytes_u32 (MsgDoorState_entityId m) @
     bytes_u8 (MsgDoorState_state m)"

definition MsgDoorState_dec :: "bytes \<Rightarrow> MsgDoorState" where
  "MsgDoorState_dec bs = \<lparr>MsgDoorState_entityId = u32_of (bslice 0 4 bs),
     MsgDoorState_state = u8_of (bslice 4 1 bs)\<rparr>"

interpretation MsgDoorState: wire_struct MsgDoorState_enc MsgDoorState_dec MsgDoorState_size "\<lambda>_. True"
  by unfold_locales (simp_all add: MsgDoorState_enc_def MsgDoorState_dec_def MsgDoorState_size_def wire_simps)

record MsgItemPickup =
  MsgItemPickup_entityId :: EntityID
  MsgItemPickup_itemTemplateId :: u32
  MsgItemPickup_quantity :: i32

definition MsgItemPickup_size :: nat where
  "MsgItemPickup_size = 12"

definition MsgItemPickup_enc :: "MsgItemPickup \<Rightarrow> bytes" where
  "MsgItemPickup_enc m = bytes_u32 (MsgItemPickup_entityId m) @
     bytes_u32 (MsgItemPickup_itemTemplateId m) @
     bytes_u32 (MsgItemPickup_quantity m)"

definition MsgItemPickup_dec :: "bytes \<Rightarrow> MsgItemPickup" where
  "MsgItemPickup_dec bs = \<lparr>MsgItemPickup_entityId = u32_of (bslice 0 4 bs),
     MsgItemPickup_itemTemplateId = u32_of (bslice 4 4 bs),
     MsgItemPickup_quantity = u32_of (bslice 8 4 bs)\<rparr>"

interpretation MsgItemPickup: wire_struct MsgItemPickup_enc MsgItemPickup_dec MsgItemPickup_size "\<lambda>_. True"
  by unfold_locales (simp_all add: MsgItemPickup_enc_def MsgItemPickup_dec_def MsgItemPickup_size_def wire_simps)

record MsgItemDrop =
  MsgItemDrop_entityId :: EntityID
  MsgItemDrop_itemTemplateId :: u32
  MsgItemDrop_posX :: f32
  MsgItemDrop_posY :: f32
  MsgItemDrop_posZ :: f32

definition MsgItemDrop_size :: nat where
  "MsgItemDrop_size = 20"

definition MsgItemDrop_enc :: "MsgItemDrop \<Rightarrow> bytes" where
  "MsgItemDrop_enc m = bytes_u32 (MsgItemDrop_entityId m) @
     bytes_u32 (MsgItemDrop_itemTemplateId m) @
     bytes_u32 (MsgItemDrop_posX m) @
     bytes_u32 (MsgItemDrop_posY m) @
     bytes_u32 (MsgItemDrop_posZ m)"

definition MsgItemDrop_dec :: "bytes \<Rightarrow> MsgItemDrop" where
  "MsgItemDrop_dec bs = \<lparr>MsgItemDrop_entityId = u32_of (bslice 0 4 bs),
     MsgItemDrop_itemTemplateId = u32_of (bslice 4 4 bs),
     MsgItemDrop_posX = u32_of (bslice 8 4 bs),
     MsgItemDrop_posY = u32_of (bslice 12 4 bs),
     MsgItemDrop_posZ = u32_of (bslice 16 4 bs)\<rparr>"

interpretation MsgItemDrop: wire_struct MsgItemDrop_enc MsgItemDrop_dec MsgItemDrop_size "\<lambda>_. True"
  by unfold_locales (simp_all add: MsgItemDrop_enc_def MsgItemDrop_dec_def MsgItemDrop_size_def wire_simps)

record MsgTradeRequest =
  MsgTradeRequest_buyerEntityId :: EntityID
  MsgTradeRequest_sellerEntityId :: EntityID
  MsgTradeRequest_itemTemplateId :: u32
  MsgTradeRequest_quantity :: i32
  MsgTradeRequest_price :: i32

definition MsgTradeRequest_size :: nat where
  "MsgTradeRequest_size = 20"

definition MsgTradeRequest_enc :: "MsgTradeRequest \<Rightarrow> bytes" where
  "MsgTradeRequest_enc m = bytes_u32 (MsgTradeRequest_buyerEntityId m) @
     bytes_u32 (MsgTradeRequest_sellerEntityId m) @
     bytes_u32 (MsgTradeRequest_itemTemplateId m) @
     bytes_u32 (MsgTradeRequest_quantity m) @
     bytes_u32 (MsgTradeRequest_price m)"

definition MsgTradeRequest_dec :: "bytes \<Rightarrow> MsgTradeRequest" where
  "MsgTradeRequest_dec bs = \<lparr>MsgTradeRequest_buyerEntityId = u32_of (bslice 0 4 bs),
     MsgTradeRequest_sellerEntityId = u32_of (bslice 4 4 bs),
     MsgTradeRequest_itemTemplateId = u32_of (bslice 8 4 bs),
     MsgTradeRequest_quantity = u32_of (bslice 12 4 bs),
     MsgTradeRequest_price = u32_of (bslice 16 4 bs)\<rparr>"

interpretation MsgTradeRequest: wire_struct MsgTradeRequest_enc MsgTradeRequest_dec MsgTradeRequest_size "\<lambda>_. True"
  by unfold_locales (simp_all add: MsgTradeRequest_enc_def MsgTradeRequest_dec_def MsgTradeRequest_size_def wire_simps)

record MsgTradeResult =
  MsgTradeResult_buyerEntityId :: EntityID
  MsgTradeResult_itemTemplateId :: u32
  MsgTradeResult_quantity :: i32
  MsgTradeResult_success :: u8

definition MsgTradeResult_size :: nat where
  "MsgTradeResult_size = 13"

definition MsgTradeResult_enc :: "MsgTradeResult \<Rightarrow> bytes" where
  "MsgTradeResult_enc m = bytes_u32 (MsgTradeResult_buyerEntityId m) @
     bytes_u32 (MsgTradeResult_itemTemplateId m) @
     bytes_u32 (MsgTradeResult_quantity m) @
     bytes_u8 (MsgTradeResult_success m)"

definition MsgTradeResult_dec :: "bytes \<Rightarrow> MsgTradeResult" where
  "MsgTradeResult_dec bs = \<lparr>MsgTradeResult_buyerEntityId = u32_of (bslice 0 4 bs),
     MsgTradeResult_itemTemplateId = u32_of (bslice 4 4 bs),
     MsgTradeResult_quantity = u32_of (bslice 8 4 bs),
     MsgTradeResult_success = u8_of (bslice 12 1 bs)\<rparr>"

interpretation MsgTradeResult: wire_struct MsgTradeResult_enc MsgTradeResult_dec MsgTradeResult_size "\<lambda>_. True"
  by unfold_locales (simp_all add: MsgTradeResult_enc_def MsgTradeResult_dec_def MsgTradeResult_size_def wire_simps)

record MsgInventoryUpdate =
  MsgInventoryUpdate_entityId :: EntityID
  MsgInventoryUpdate_action :: u8
  MsgInventoryUpdate_itemTemplateId :: u32
  MsgInventoryUpdate_quantity :: i32

definition MsgInventoryUpdate_size :: nat where
  "MsgInventoryUpdate_size = 13"

definition MsgInventoryUpdate_enc :: "MsgInventoryUpdate \<Rightarrow> bytes" where
  "MsgInventoryUpdate_enc m = bytes_u32 (MsgInventoryUpdate_entityId m) @
     bytes_u8 (MsgInventoryUpdate_action m) @
     bytes_u32 (MsgInventoryUpdate_itemTemplateId m) @
     bytes_u32 (MsgInventoryUpdate_quantity m)"

definition MsgInventoryUpdate_dec :: "bytes \<Rightarrow> MsgInventoryUpdate" where
  "MsgInventoryUpdate_dec bs = \<lparr>MsgInventoryUpdate_entityId = u32_of (bslice 0 4 bs),
     MsgInventoryUpdate_action = u8_of (bslice 4 1 bs),
     MsgInventoryUpdate_itemTemplateId = u32_of (bslice 5 4 bs),
     MsgInventoryUpdate_quantity = u32_of (bslice 9 4 bs)\<rparr>"

interpretation MsgInventoryUpdate: wire_struct MsgInventoryUpdate_enc MsgInventoryUpdate_dec MsgInventoryUpdate_size "\<lambda>_. True"
  by unfold_locales (simp_all add: MsgInventoryUpdate_enc_def MsgInventoryUpdate_dec_def MsgInventoryUpdate_size_def wire_simps)

record MsgSquadMemberUpdate =
  MsgSquadMemberUpdate_squadNetId :: u32
  MsgSquadMemberUpdate_memberEntityId :: EntityID
  MsgSquadMemberUpdate_action :: u8

definition MsgSquadMemberUpdate_size :: nat where
  "MsgSquadMemberUpdate_size = 9"

definition MsgSquadMemberUpdate_enc :: "MsgSquadMemberUpdate \<Rightarrow> bytes" where
  "MsgSquadMemberUpdate_enc m = bytes_u32 (MsgSquadMemberUpdate_squadNetId m) @
     bytes_u32 (MsgSquadMemberUpdate_memberEntityId m) @
     bytes_u8 (MsgSquadMemberUpdate_action m)"

definition MsgSquadMemberUpdate_dec :: "bytes \<Rightarrow> MsgSquadMemberUpdate" where
  "MsgSquadMemberUpdate_dec bs = \<lparr>MsgSquadMemberUpdate_squadNetId = u32_of (bslice 0 4 bs),
     MsgSquadMemberUpdate_memberEntityId = u32_of (bslice 4 4 bs),
     MsgSquadMemberUpdate_action = u8_of (bslice 8 1 bs)\<rparr>"

interpretation MsgSquadMemberUpdate: wire_struct MsgSquadMemberUpdate_enc MsgSquadMemberUpdate_dec MsgSquadMemberUpdate_size "\<lambda>_. True"
  by unfold_locales (simp_all add: MsgSquadMemberUpdate_enc_def MsgSquadMemberUpdate_dec_def MsgSquadMemberUpdate_size_def wire_simps)

record MsgFactionRelation =
  MsgFactionRelation_factionIdA :: u32
  MsgFactionRelation_factionIdB :: u32
  MsgFactionRelation_relation :: f32
  MsgFactionRelation_causerEntityId :: EntityID

definition MsgFactionRelation_size :: nat where
  "MsgFactionRelation_size = 16"

definition MsgFactionRelation_enc :: "MsgFactionRelation \<Rightarrow> bytes" where
  "MsgFactionRelation_enc m = bytes_u32 (MsgFactionRelation_factionIdA m) @
     bytes_u32 (MsgFactionRelation_factionIdB m) @
     bytes_u32 (MsgFactionRelation_relation m) @
     bytes_u32 (MsgFactionRelation_causerEntityId m)"

definition MsgFactionRelation_dec :: "bytes \<Rightarrow> MsgFactionRelation" where
  "MsgFactionRelation_dec bs = \<lparr>MsgFactionRelation_factionIdA = u32_of (bslice 0 4 bs),
     MsgFactionRelation_factionIdB = u32_of (bslice 4 4 bs),
     MsgFactionRelation_relation = u32_of (bslice 8 4 bs),
     MsgFactionRelation_causerEntityId = u32_of (bslice 12 4 bs)\<rparr>"

interpretation MsgFactionRelation: wire_struct MsgFactionRelation_enc MsgFactionRelation_dec MsgFactionRelation_size "\<lambda>_. True"
  by unfold_locales (simp_all add: MsgFactionRelation_enc_def MsgFactionRelation_dec_def MsgFactionRelation_size_def wire_simps)

record MsgCombatStance =
  MsgCombatStance_entityId :: EntityID
  MsgCombatStance_stance :: u8

definition MsgCombatStance_size :: nat where
  "MsgCombatStance_size = 5"

definition MsgCombatStance_enc :: "MsgCombatStance \<Rightarrow> bytes" where
  "MsgCombatStance_enc m = bytes_u32 (MsgCombatStance_entityId m) @
     bytes_u8 (MsgCombatStance_stance m)"

definition MsgCombatStance_dec :: "bytes \<Rightarrow> MsgCombatStance" where
  "MsgCombatStance_dec bs = \<lparr>MsgCombatStance_entityId = u32_of (bslice 0 4 bs),
     MsgCombatStance_stance = u8_of (bslice 4 1 bs)\<rparr>"

interpretation MsgCombatStance: wire_struct MsgCombatStance_enc MsgCombatStance_dec MsgCombatStance_size "\<lambda>_. True"
  by unfold_locales (simp_all add: MsgCombatStance_enc_def MsgCombatStance_dec_def MsgCombatStance_size_def wire_simps)

record MsgItemTransfer =
  MsgItemTransfer_sourceEntityId :: EntityID
  MsgItemTransfer_destEntityId :: EntityID
  MsgItemTransfer_itemTemplateId :: u32
  MsgItemTransfer_quantity :: i32

definition MsgItemTransfer_size :: nat where
  "MsgItemTransfer_size = 16"

definition MsgItemTransfer_enc :: "MsgItemTransfer \<Rightarrow> bytes" where
  "MsgItemTransfer_enc m = bytes_u32 (MsgItemTransfer_sourceEntityId m) @
     bytes_u32 (MsgItemTransfer_destEntityId m) @
     bytes_u32 (MsgItemTransfer_itemTemplateId m) @
     bytes_u32 (MsgItemTransfer_quantity m)"

definition MsgItemTransfer_dec :: "bytes \<Rightarrow> MsgItemTransfer" where
  "MsgItemTransfer_dec bs = \<lparr>MsgItemTransfer_sourceEntityId = u32_of (bslice 0 4 bs),
     MsgItemTransfer_destEntityId = u32_of (bslice 4 4 bs),
     MsgItemTransfer_itemTemplateId = u32_of (bslice 8 4 bs),
     MsgItemTransfer_quantity = u32_of (bslice 12 4 bs)\<rparr>"

interpretation MsgItemTransfer: wire_struct MsgItemTransfer_enc MsgItemTransfer_dec MsgItemTransfer_size "\<lambda>_. True"
  by unfold_locales (simp_all add: MsgItemTransfer_enc_def MsgItemTransfer_dec_def MsgItemTransfer_size_def wire_simps)

record MsgDoorInteract =
  MsgDoorInteract_entityId :: EntityID
  MsgDoorInteract_actorEntityId :: EntityID
  MsgDoorInteract_action :: u8

definition MsgDoorInteract_size :: nat where
  "MsgDoorInteract_size = 9"

definition MsgDoorInteract_enc :: "MsgDoorInteract \<Rightarrow> bytes" where
  "MsgDoorInteract_enc m = bytes_u32 (MsgDoorInteract_entityId m) @
     bytes_u32 (MsgDoorInteract_actorEntityId m) @
     bytes_u8 (MsgDoorInteract_action m)"

definition MsgDoorInteract_dec :: "bytes \<Rightarrow> MsgDoorInteract" where
  "MsgDoorInteract_dec bs = \<lparr>MsgDoorInteract_entityId = u32_of (bslice 0 4 bs),
     MsgDoorInteract_actorEntityId = u32_of (bslice 4 4 bs),
     MsgDoorInteract_action = u8_of (bslice 8 1 bs)\<rparr>"

interpretation MsgDoorInteract: wire_struct MsgDoorInteract_enc MsgDoorInteract_dec MsgDoorInteract_size "\<lambda>_. True"
  by unfold_locales (simp_all add: MsgDoorInteract_enc_def MsgDoorInteract_dec_def MsgDoorInteract_size_def wire_simps)

record MsgAdminCommand =
  MsgAdminCommand_commandType :: u8
  MsgAdminCommand_targetPlayerId :: PlayerID
  MsgAdminCommand_floatParam :: f32
  MsgAdminCommand_textParam :: bytes

definition MsgAdminCommand_size :: nat where
  "MsgAdminCommand_size = 137"

definition MsgAdminCommand_enc :: "MsgAdminCommand \<Rightarrow> bytes" where
  "MsgAdminCommand_enc m = bytes_u8 (MsgAdminCommand_commandType m) @
     bytes_u32 (MsgAdminCommand_targetPlayerId m) @
     bytes_u32 (MsgAdminCommand_floatParam m) @
     MsgAdminCommand_textParam m"

definition MsgAdminCommand_dec :: "bytes \<Rightarrow> MsgAdminCommand" where
  "MsgAdminCommand_dec bs = \<lparr>MsgAdminCommand_commandType = u8_of (bslice 0 1 bs),
     MsgAdminCommand_targetPlayerId = u32_of (bslice 1 4 bs),
     MsgAdminCommand_floatParam = u32_of (bslice 5 4 bs),
     MsgAdminCommand_textParam = bslice 9 128 bs\<rparr>"

definition MsgAdminCommand_wf :: "MsgAdminCommand \<Rightarrow> bool" where
  "MsgAdminCommand_wf m \<longleftrightarrow> length (MsgAdminCommand_textParam m) = 128"

interpretation MsgAdminCommand: wire_struct MsgAdminCommand_enc MsgAdminCommand_dec MsgAdminCommand_size MsgAdminCommand_wf
  by unfold_locales (simp_all add: MsgAdminCommand_enc_def MsgAdminCommand_dec_def MsgAdminCommand_size_def MsgAdminCommand_wf_def wire_simps)

record MsgAdminResponse =
  MsgAdminResponse_success :: u8
  MsgAdminResponse_responseText :: bytes

definition MsgAdminResponse_size :: nat where
  "MsgAdminResponse_size = 129"

definition MsgAdminResponse_enc :: "MsgAdminResponse \<Rightarrow> bytes" where
  "MsgAdminResponse_enc m = bytes_u8 (MsgAdminResponse_success m) @
     MsgAdminResponse_responseText m"

definition MsgAdminResponse_dec :: "bytes \<Rightarrow> MsgAdminResponse" where
  "MsgAdminResponse_dec bs = \<lparr>MsgAdminResponse_success = u8_of (bslice 0 1 bs),
     MsgAdminResponse_responseText = bslice 1 128 bs\<rparr>"

definition MsgAdminResponse_wf :: "MsgAdminResponse \<Rightarrow> bool" where
  "MsgAdminResponse_wf m \<longleftrightarrow> length (MsgAdminResponse_responseText m) = 128"

interpretation MsgAdminResponse: wire_struct MsgAdminResponse_enc MsgAdminResponse_dec MsgAdminResponse_size MsgAdminResponse_wf
  by unfold_locales (simp_all add: MsgAdminResponse_enc_def MsgAdminResponse_dec_def MsgAdminResponse_size_def MsgAdminResponse_wf_def wire_simps)

record MsgHostAssignment =
  MsgHostAssignment_newHostPlayerId :: PlayerID

definition MsgHostAssignment_size :: nat where
  "MsgHostAssignment_size = 4"

definition MsgHostAssignment_enc :: "MsgHostAssignment \<Rightarrow> bytes" where
  "MsgHostAssignment_enc m = bytes_u32 (MsgHostAssignment_newHostPlayerId m)"

definition MsgHostAssignment_dec :: "bytes \<Rightarrow> MsgHostAssignment" where
  "MsgHostAssignment_dec bs = \<lparr>MsgHostAssignment_newHostPlayerId = u32_of (bslice 0 4 bs)\<rparr>"

interpretation MsgHostAssignment: wire_struct MsgHostAssignment_enc MsgHostAssignment_dec MsgHostAssignment_size "\<lambda>_. True"
  by unfold_locales (simp_all add: MsgHostAssignment_enc_def MsgHostAssignment_dec_def MsgHostAssignment_size_def wire_simps)

record MsgBuildDismantle =
  MsgBuildDismantle_buildingId :: EntityID
  MsgBuildDismantle_dismantlerId :: EntityID

definition MsgBuildDismantle_size :: nat where
  "MsgBuildDismantle_size = 8"

definition MsgBuildDismantle_enc :: "MsgBuildDismantle \<Rightarrow> bytes" where
  "MsgBuildDismantle_enc m = bytes_u32 (MsgBuildDismantle_buildingId m) @
     bytes_u32 (MsgBuildDismantle_dismantlerId m)"

definition MsgBuildDismantle_dec :: "bytes \<Rightarrow> MsgBuildDismantle" where
  "MsgBuildDismantle_dec bs = \<lparr>MsgBuildDismantle_buildingId = u32_of (bslice 0 4 bs),
     MsgBuildDismantle_dismantlerId = u32_of (bslice 4 4 bs)\<rparr>"

interpretation MsgBuildDismantle: wire_struct MsgBuildDismantle_enc MsgBuildDismantle_dec MsgBuildDismantle_size "\<lambda>_. True"
  by unfold_locales (simp_all add: MsgBuildDismantle_enc_def MsgBuildDismantle_dec_def MsgBuildDismantle_size_def wire_simps)

record MsgBuildRepair =
  MsgBuildRepair_buildingId :: EntityID
  MsgBuildRepair_amount :: f32

definition MsgBuildRepair_size :: nat where
  "MsgBuildRepair_size = 8"

definition MsgBuildRepair_enc :: "MsgBuildRepair \<Rightarrow> bytes" where
  "MsgBuildRepair_enc m = bytes_u32 (MsgBuildRepair_buildingId m) @
     bytes_u32 (MsgBuildRepair_amount m)"

definition MsgBuildRepair_dec :: "bytes \<Rightarrow> MsgBuildRepair" where
  "MsgBuildRepair_dec bs = \<lparr>MsgBuildRepair_buildingId = u32_of (bslice 0 4 bs),
     MsgBuildRepair_amount = u32_of (bslice 4 4 bs)\<rparr>"

interpretation MsgBuildRepair: wire_struct MsgBuildRepair_enc MsgBuildRepair_dec MsgBuildRepair_size "\<lambda>_. True"
  by unfold_locales (simp_all add: MsgBuildRepair_enc_def MsgBuildRepair_dec_def MsgBuildRepair_size_def wire_simps)

record MsgTimeSync =
  MsgTimeSync_serverTick :: u32
  MsgTimeSync_timeOfDay :: f32
  MsgTimeSync_weatherState :: i32
  MsgTimeSync_gameSpeed :: f32

definition MsgTimeSync_size :: nat where
  "MsgTimeSync_size = 16"

definition MsgTimeSync_enc :: "MsgTimeSync \<Rightarrow> bytes" where
  "MsgTimeSync_enc m = bytes_u32 (MsgTimeSync_serverTick m) @
     bytes_u32 (MsgTimeSync_timeOfDay m) @
     bytes_u32 (MsgTimeSync_weatherState m) @
     bytes_u32 (MsgTimeSync_gameSpeed m)"

definition MsgTimeSync_dec :: "bytes \<Rightarrow> MsgTimeSync" where
  "MsgTimeSync_dec bs = \<lparr>MsgTimeSync_serverTick = u32_of (bslice 0 4 bs),
     MsgTimeSync_timeOfDay = u32_of (bslice 4 4 bs),
     MsgTimeSync_weatherState = u32_of (bslice 8 4 bs),
     MsgTimeSync_gameSpeed = u32_of (bslice 12 4 bs)\<rparr>"

interpretation MsgTimeSync: wire_struct MsgTimeSync_enc MsgTimeSync_dec MsgTimeSync_size "\<lambda>_. True"
  by unfold_locales (simp_all add: MsgTimeSync_enc_def MsgTimeSync_dec_def MsgTimeSync_size_def wire_simps)

record MsgServerQuery =
  MsgServerQuery_protocolVersion :: u32

definition MsgServerQuery_size :: nat where
  "MsgServerQuery_size = 4"

definition MsgServerQuery_enc :: "MsgServerQuery \<Rightarrow> bytes" where
  "MsgServerQuery_enc m = bytes_u32 (MsgServerQuery_protocolVersion m)"

definition MsgServerQuery_dec :: "bytes \<Rightarrow> MsgServerQuery" where
  "MsgServerQuery_dec bs = \<lparr>MsgServerQuery_protocolVersion = u32_of (bslice 0 4 bs)\<rparr>"

interpretation MsgServerQuery: wire_struct MsgServerQuery_enc MsgServerQuery_dec MsgServerQuery_size "\<lambda>_. True"
  by unfold_locales (simp_all add: MsgServerQuery_enc_def MsgServerQuery_dec_def MsgServerQuery_size_def wire_simps)

record MsgServerInfo =
  MsgServerInfo_protocolVersion :: u32
  MsgServerInfo_currentPlayers :: u8
  MsgServerInfo_maxPlayers :: u8
  MsgServerInfo_port :: u16
  MsgServerInfo_timeOfDay :: f32
  MsgServerInfo_pvpEnabled :: u8
  MsgServerInfo_reserved :: bytes
  MsgServerInfo_serverName :: bytes

definition MsgServerInfo_size :: nat where
  "MsgServerInfo_size = 80"

definition MsgServerInfo_enc :: "MsgServerInfo \<Rightarrow> bytes" where
  "MsgServerInfo_enc m = bytes_u32 (MsgServerInfo_protocolVersion m) @
     bytes_u8 (MsgServerInfo_currentPlayers m) @
     bytes_u8 (MsgServerInfo_maxPlayers m) @
     bytes_u16 (MsgServerInfo_port m) @
     bytes_u32 (MsgServerInfo_timeOfDay m) @
     bytes_u8 (MsgServerInfo_pvpEnabled m) @
     MsgServerInfo_reserved m @
     MsgServerInfo_serverName m"

definition MsgServerInfo_dec :: "bytes \<Rightarrow> MsgServerInfo" where
  "MsgServerInfo_dec bs = \<lparr>MsgServerInfo_protocolVersion = u32_of (bslice 0 4 bs),
     MsgServerInfo_currentPlayers = u8_of (bslice 4 1 bs),
     MsgServerInfo_maxPlayers = u8_of (bslice 5 1 bs),
     MsgServerInfo_port = u16_of (bslice 6 2 bs),
     MsgServerInfo_timeOfDay = u32_of (bslice 8 4 bs),
     MsgServerInfo_pvpEnabled = u8_of (bslice 12 1 bs),
     MsgServerInfo_reserved = bslice 13 3 bs,
     MsgServerInfo_serverName = bslice 16 64 bs\<rparr>"

definition MsgServerInfo_wf :: "MsgServerInfo \<Rightarrow> bool" where
  "MsgServerInfo_wf m \<longleftrightarrow> length (MsgServerInfo_reserved m) = 3 \<and> length (MsgServerInfo_serverName m) = 64"

interpretation MsgServerInfo: wire_struct MsgServerInfo_enc MsgServerInfo_dec MsgServerInfo_size MsgServerInfo_wf
  by unfold_locales (simp_all add: MsgServerInfo_enc_def MsgServerInfo_dec_def MsgServerInfo_size_def MsgServerInfo_wf_def wire_simps)

record MsgMasterRegister =
  MsgMasterRegister_protocolVersion :: u32
  MsgMasterRegister_gamePort :: u16
  MsgMasterRegister_currentPlayers :: u8
  MsgMasterRegister_maxPlayers :: u8
  MsgMasterRegister_timeOfDay :: f32
  MsgMasterRegister_pvpEnabled :: u8
  MsgMasterRegister_reserved :: bytes
  MsgMasterRegister_serverName :: bytes
  MsgMasterRegister_externalIP :: bytes

definition MsgMasterRegister_size :: nat where
  "MsgMasterRegister_size = 126"

definition MsgMasterRegister_enc :: "MsgMasterRegister \<Rightarrow> bytes" where
  "MsgMasterRegister_enc m = bytes_u32 (MsgMasterRegister_protocolVersion m) @
     bytes_u16 (MsgMasterRegister_gamePort m) @
     bytes_u8 (MsgMasterRegister_currentPlayers m) @
     bytes_u8 (MsgMasterRegister_maxPlayers m) @
     bytes_u32 (MsgMasterRegister_timeOfDay m) @
     bytes_u8 (MsgMasterRegister_pvpEnabled m) @
     MsgMasterRegister_reserved m @
     MsgMasterRegister_serverName m @
     MsgMasterRegister_externalIP m"

definition MsgMasterRegister_dec :: "bytes \<Rightarrow> MsgMasterRegister" where
  "MsgMasterRegister_dec bs = \<lparr>MsgMasterRegister_protocolVersion = u32_of (bslice 0 4 bs),
     MsgMasterRegister_gamePort = u16_of (bslice 4 2 bs),
     MsgMasterRegister_currentPlayers = u8_of (bslice 6 1 bs),
     MsgMasterRegister_maxPlayers = u8_of (bslice 7 1 bs),
     MsgMasterRegister_timeOfDay = u32_of (bslice 8 4 bs),
     MsgMasterRegister_pvpEnabled = u8_of (bslice 12 1 bs),
     MsgMasterRegister_reserved = bslice 13 3 bs,
     MsgMasterRegister_serverName = bslice 16 64 bs,
     MsgMasterRegister_externalIP = bslice 80 46 bs\<rparr>"

definition MsgMasterRegister_wf :: "MsgMasterRegister \<Rightarrow> bool" where
  "MsgMasterRegister_wf m \<longleftrightarrow> length (MsgMasterRegister_reserved m) = 3 \<and> length (MsgMasterRegister_serverName m) = 64 \<and> length (MsgMasterRegister_externalIP m) = 46"

interpretation MsgMasterRegister: wire_struct MsgMasterRegister_enc MsgMasterRegister_dec MsgMasterRegister_size MsgMasterRegister_wf
  by unfold_locales (simp_all add: MsgMasterRegister_enc_def MsgMasterRegister_dec_def MsgMasterRegister_size_def MsgMasterRegister_wf_def wire_simps)

record MsgMasterHeartbeat =
  MsgMasterHeartbeat_gamePort :: u16
  MsgMasterHeartbeat_currentPlayers :: u8
  MsgMasterHeartbeat_maxPlayers :: u8
  MsgMasterHeartbeat_timeOfDay :: f32

definition MsgMasterHeartbeat_size :: nat where
  "MsgMasterHeartbeat_size = 8"

definition MsgMasterHeartbeat_enc :: "MsgMasterHeartbeat \<Rightarrow> bytes" where
  "MsgMasterHeartbeat_enc m = bytes_u16 (MsgMasterHeartbeat_gamePort m) @
     bytes_u8 (MsgMasterHeartbeat_currentPlayers m) @
     bytes_u8 (MsgMasterHeartbeat_maxPlayers m) @
     bytes_u32 (MsgMasterHeartbeat_timeOfDay m)"

definition MsgMasterHeartbeat_dec :: "bytes \<Rightarrow> MsgMasterHeartbeat" where
  "MsgMasterHeartbeat_dec bs = \<lparr>MsgMasterHeartbeat_gamePort = u16_of (bslice 0 2 bs),
     MsgMasterHeartbeat_currentPlayers = u8_of (bslice 2 1 bs),
     MsgMasterHeartbeat_maxPlayers = u8_of (bslice 3 1 bs),
     MsgMasterHeartbeat_timeOfDay = u32_of (bslice 4 4 bs)\<rparr>"

interpretation MsgMasterHeartbeat: wire_struct MsgMasterHeartbeat_enc MsgMasterHeartbeat_dec MsgMasterHeartbeat_size "\<lambda>_. True"
  by unfold_locales (simp_all add: MsgMasterHeartbeat_enc_def MsgMasterHeartbeat_dec_def MsgMasterHeartbeat_size_def wire_simps)

record MsgMasterServerEntry =
  MsgMasterServerEntry_serverName :: bytes
  MsgMasterServerEntry_address :: bytes
  MsgMasterServerEntry_port :: u16
  MsgMasterServerEntry_currentPlayers :: u8
  MsgMasterServerEntry_maxPlayers :: u8
  MsgMasterServerEntry_pvpEnabled :: u8
  MsgMasterServerEntry_reserved :: u8

definition MsgMasterServerEntry_size :: nat where
  "MsgMasterServerEntry_size = 116"

definition MsgMasterServerEntry_enc :: "MsgMasterServerEntry \<Rightarrow> bytes" where
  "MsgMasterServerEntry_enc m = MsgMasterServerEntry_serverName m @
     MsgMasterServerEntry_address m @
     bytes_u16 (MsgMasterServerEntry_port m) @
     bytes_u8 (MsgMasterServerEntry_currentPlayers m) @
     bytes_u8 (MsgMasterServerEntry_maxPlayers m) @
     bytes_u8 (MsgMasterServerEntry_pvpEnabled m) @
     bytes_u8 (MsgMasterServerEntry_reserved m)"

definition MsgMasterServerEntry_dec :: "bytes \<Rightarrow> MsgMasterServerEntry" where
  "MsgMasterServerEntry_dec bs = \<lparr>MsgMasterServerEntry_serverName = bslice 0 64 bs,
     MsgMasterServerEntry_address = bslice 64 46 bs,
     MsgMasterServerEntry_port = u16_of (bslice 110 2 bs),
     MsgMasterServerEntry_currentPlayers = u8_of (bslice 112 1 bs),
     MsgMasterServerEntry_maxPlayers = u8_of (bslice 113 1 bs),
     MsgMasterServerEntry_pvpEnabled = u8_of (bslice 114 1 bs),
     MsgMasterServerEntry_reserved = u8_of (bslice 115 1 bs)\<rparr>"

definition MsgMasterServerEntry_wf :: "MsgMasterServerEntry \<Rightarrow> bool" where
  "MsgMasterServerEntry_wf m \<longleftrightarrow> length (MsgMasterServerEntry_serverName m) = 64 \<and> length (MsgMasterServerEntry_address m) = 46"

interpretation MsgMasterServerEntry: wire_struct MsgMasterServerEntry_enc MsgMasterServerEntry_dec MsgMasterServerEntry_size MsgMasterServerEntry_wf
  by unfold_locales (simp_all add: MsgMasterServerEntry_enc_def MsgMasterServerEntry_dec_def MsgMasterServerEntry_size_def MsgMasterServerEntry_wf_def wire_simps)

end
