(* ===== verification/Server_State.thy ===== *)
theory Server_State
  imports Messages
begin

text \<open>
  \<^verbatim>\<open>KenshiMP.Server/server.h\<close>: the state of \<^verbatim>\<open>GameServer\<close>, and the sending primitives of
  \<^verbatim>\<open>server.cpp\<close>.  ENet is not part of the sources.  What the server can observe of it is
  part of the state: the peer table (user data, address, round-trip time), the outcome of the
  \<open>n\<close>-th packet allocation (\<^verbatim>\<open>enet_packet_create\<close> may return null) and, in order, the calls made
  to it (\<^verbatim>\<open>outbox\<close>).
\<close>

section \<open>The ENet boundary\<close>

type_synonym peer = nat

text \<open>A peer handle; 0 is the null pointer.\<close>

record enet_peer =
  ep_data :: PlayerID
  ep_host :: u32
  ep_rtt :: u32

datatype net_out =
    PeerSend peer nat bytes bool
  | HostBroadcast nat bytes bool
  | PeerTimeout peer
  | PeerDisconnect peer
  | PeerDisconnectLater peer
  | MasterConnect
  | MasterSend bytes
  | MasterFlush
  | MasterDisconnectNow
  | HostFlush

record enet =
  peer_tab :: "peer \<Rightarrow> enet_peer"
  alloc_ok :: "nat \<Rightarrow> bool"
  n_allocs :: nat
  outbox :: "net_out list"

definition enet_out :: "net_out \<Rightarrow> enet \<Rightarrow> enet" where
  "enet_out c e = e\<lparr>outbox := outbox e @ [c]\<rparr>"

text \<open>\<open>enet_packet_create\<close> tells whether the allocation succeeded.\<close>

definition enet_packet_create :: "enet \<Rightarrow> bool \<times> enet" where
  "enet_packet_create e = (alloc_ok e (n_allocs e), e\<lparr>n_allocs := n_allocs e + 1\<rparr>)"

text \<open>Create a packet and hand it to ENet with \<open>c\<close>; the flag tells whether the packet was created.\<close>

definition enet_try :: "net_out \<Rightarrow> enet \<Rightarrow> bool \<times> enet" where
  "enet_try c e = (case enet_packet_create e of (ok, e) \<Rightarrow> (ok, if ok then enet_out c e else e))"

definition enet_set_data :: "peer \<Rightarrow> PlayerID \<Rightarrow> enet \<Rightarrow> enet" where
  "enet_set_data p d e = e\<lparr>peer_tab := (peer_tab e)(p := (peer_tab e p)\<lparr>ep_data := d\<rparr>)\<rparr>"

section \<open>Records\<close>

record ConnectedPlayer =
  cp_id :: PlayerID
  cp_name :: bytes
  cp_peer :: peer
  cp_position :: Vec3
  cp_zone :: ZoneCoord
  cp_ping :: u32
  cp_lastUpdate :: f32
  cp_ownedEntities :: "EntityID list"
  cp_lobbyReady :: bool
  cp_isLoopback :: bool
  cp_isReady :: bool

record ServerEntity =
  se_id :: EntityID
  se_generation :: u32
  se_type :: EntityType
  se_owner :: PlayerID
  se_state :: EntityState
  se_authority :: AuthorityType
  se_dirtyFlags :: u16
  se_position :: Vec3
  se_rotation :: Quat
  se_zone :: ZoneCoord
  se_templateId :: u32
  se_factionId :: u32
  se_templateName :: bytes
  se_health :: "f32 list"
  se_limbHealth :: "f32 list"
  se_statusEffects :: "u8 list"
  se_combat :: CombatInfo
  se_animState :: u8
  se_moveSpeed :: u8
  se_flags :: u16
  se_alive :: bool
  se_buildProgress :: f32
  se_equipment :: "u32 list"

definition Vec3_default :: Vec3 where
  "Vec3_default = \<lparr>vx = 0, vy = 0, vz = 0\<rparr>"

definition ZoneCoord_default :: ZoneCoord where
  "ZoneCoord_default = \<lparr>zx = 0, zy = 0\<rparr>"

text \<open>The default member initialisers of \<^verbatim>\<open>struct ServerEntity\<close>.\<close>

definition ServerEntity_default :: ServerEntity where
  "ServerEntity_default = \<lparr>
     se_id = 0, se_generation = 0, se_type = NPC, se_owner = 0,
     se_state = Active, se_authority = AuthServer, se_dirtyFlags = 0,
     se_position = Vec3_default, se_rotation = Quat_default, se_zone = ZoneCoord_default,
     se_templateId = 0, se_factionId = 0, se_templateName = [],
     se_health = replicate 7 (f32_of_int 100), se_limbHealth = replicate 7 (f32_of_int 100),
     se_statusEffects = replicate 5 0, se_combat = CombatInfo_default,
     se_animState = 0, se_moveSpeed = 0, se_flags = 0, se_alive = True,
     se_buildProgress = 0, se_equipment = replicate 14 0\<rparr>"

record SavedPlayer =
  sp_name :: bytes
  sp_entityIds :: "EntityID list"

record ServerConfig =
  sc_serverName :: bytes
  sc_port :: u16
  sc_maxPlayers :: i32
  sc_password :: bytes
  sc_savePath :: bytes
  sc_tickRate :: i32
  sc_pvpEnabled :: bool
  sc_gameSpeed :: f32
  sc_masterServer :: bytes
  sc_masterPort :: u16

text \<open>What \<^verbatim>\<open>SaveWorldToFile\<close> is called with.\<close>

record WorldSave =
  ws_path :: bytes
  ws_entities :: "(EntityID, ServerEntity) umap"
  ws_players :: "(bytes, SavedPlayer) umap"
  ws_timeOfDay :: f32
  ws_weather :: i32

record GameServer =
  m_config :: ServerConfig
  m_players :: "(PlayerID, ConnectedPlayer) umap"
  m_entities :: "(EntityID, ServerEntity) umap"
  m_savedPlayers :: "(bytes, SavedPlayer) umap"
  m_nextPlayerId :: PlayerID
  m_nextEntityId :: EntityID
  m_nextSquadId :: u32
  m_hostPlayerId :: PlayerID
  m_serverTick :: u32
  m_timeOfDay :: f32
  m_weatherState :: i32
  m_timeSinceTimeSync :: f32
  m_timeSinceHeartbeat :: f32
  m_uptime :: f32
  m_timeSinceOrphanCleanup :: f32
  m_timeSinceAutoSave :: f32
  m_autoSaveInterval :: f32
  m_masterHost :: bool
  m_masterPeer :: bool
  m_masterConnected :: bool
  m_timeSinceMasterHeartbeat :: f32
  m_masterHeartbeatInterval :: f32
  m_masterReconnectTimer :: f32
  m_masterReconnectDelay :: f32
  m_saves :: "WorldSave list"
  m_enet :: enet

text \<open>A freshly constructed server (the member initialisers of \<^verbatim>\<open>class GameServer\<close>).\<close>

definition GameServer_new :: "ServerConfig \<Rightarrow> enet \<Rightarrow> GameServer" where
  "GameServer_new cfg e = \<lparr>
     m_config = cfg, m_players = [], m_entities = [], m_savedPlayers = [],
     m_nextPlayerId = 1, m_nextEntityId = 1, m_nextSquadId = 0x80000000, m_hostPlayerId = 0,
     m_serverTick = 0, m_timeOfDay = f32_lit 1 2, m_weatherState = 0,
     m_timeSinceTimeSync = 0, m_timeSinceHeartbeat = 0, m_uptime = 0,
     m_timeSinceOrphanCleanup = 0, m_timeSinceAutoSave = 0, m_autoSaveInterval = f32_of_int 60,
     m_masterHost = False, m_masterPeer = False, m_masterConnected = False,
     m_timeSinceMasterHeartbeat = 0, m_masterHeartbeatInterval = f32_of_int 30,
     m_masterReconnectTimer = 0, m_masterReconnectDelay = f32_of_int 5,
     m_saves = [], m_enet = e\<rparr>"

text \<open>\<^verbatim>\<open>static_cast<size_t>(int)\<close>: sign extension to 64 bits.\<close>

definition size_t_of_int :: "i32 \<Rightarrow> nat" where
  "size_t_of_int k = unat (scast k :: u64)"

section \<open>Sending\<close>

definition do_enet :: "(enet \<Rightarrow> enet) \<Rightarrow> GameServer \<Rightarrow> GameServer" where
  "do_enet f s = s\<lparr>m_enet := f (m_enet s)\<rparr>"

definition Broadcast :: "bytes \<Rightarrow> nat \<Rightarrow> bool \<Rightarrow> GameServer \<Rightarrow> GameServer" where
  "Broadcast data channel reliable = do_enet (\<lambda>e. snd (enet_try (HostBroadcast channel data reliable) e))"

definition send_except :: "PlayerID \<Rightarrow> bytes \<Rightarrow> nat \<Rightarrow> bool \<Rightarrow> (PlayerID \<times> ConnectedPlayer) \<Rightarrow> enet \<Rightarrow> enet" where
  "send_except exclude data channel reliable = (\<lambda>(id, player) e.
     if id = exclude then e else if cp_peer player = 0 then e
     else snd (enet_try (PeerSend (cp_peer player) channel data reliable) e))"

definition BroadcastExcept :: "PlayerID \<Rightarrow> bytes \<Rightarrow> nat \<Rightarrow> bool \<Rightarrow> GameServer \<Rightarrow> GameServer" where
  "BroadcastExcept exclude data channel reliable s =
     do_enet (fold (send_except exclude data channel reliable) (m_players s)) s"

definition SendTo :: "PlayerID \<Rightarrow> bytes \<Rightarrow> nat \<Rightarrow> bool \<Rightarrow> GameServer \<Rightarrow> GameServer" where
  "SendTo pid data channel reliable s = (case um_find (m_players s) pid of
     None \<Rightarrow> s
   | Some p \<Rightarrow> do_enet (\<lambda>e. snd (enet_try (PeerSend (cp_peer p) channel data reliable) e)) s)"

definition BroadcastSystemMessage :: "bytes \<Rightarrow> GameServer \<Rightarrow> GameServer" where
  "BroadcastSystemMessage message = Broadcast
     (packet [hdr S2C_SystemMessage, WriteU32 0, WriteString message]) KMP_CHANNEL_RELIABLE_ORDERED True"

section \<open>Helpers\<close>

definition GetPlayer :: "PlayerID \<Rightarrow> GameServer \<Rightarrow> ConnectedPlayer option" where
  "GetPlayer pid s = um_find (m_players s) pid"

definition GetPlayerByPeer :: "peer \<Rightarrow> GameServer \<Rightarrow> ConnectedPlayer option" where
  "GetPlayerByPeer p s = (if p = 0 \<or> ep_data (peer_tab (m_enet s) p) = 0 then None
     else um_find (m_players s) (ep_data (peer_tab (m_enet s) p)))"

definition NextPlayerId :: "GameServer \<Rightarrow> PlayerID \<times> GameServer" where
  "NextPlayerId s = (m_nextPlayerId s, s\<lparr>m_nextPlayerId := m_nextPlayerId s + 1\<rparr>)"

text \<open>
  Handlers receive a reference to the player's map element: writes go through to the entry whose
  key is the player's id.
\<close>

definition modify_player :: "PlayerID \<Rightarrow> (ConnectedPlayer \<Rightarrow> ConnectedPlayer) \<Rightarrow> GameServer \<Rightarrow> GameServer" where
  "modify_player pid f s = s\<lparr>m_players := um_modify pid f (m_players s)\<rparr>"

definition modify_entity :: "EntityID \<Rightarrow> (ServerEntity \<Rightarrow> ServerEntity) \<Rightarrow> GameServer \<Rightarrow> GameServer" where
  "modify_entity eid f s = s\<lparr>m_entities := um_modify eid f (m_entities s)\<rparr>"

section \<open>Frame lemmas: sending changes nothing but the ENet state\<close>

named_theorems srv_simps

lemma do_enet_frame [srv_simps]:
  "m_config (do_enet f s) = m_config s" "m_players (do_enet f s) = m_players s"
  "m_entities (do_enet f s) = m_entities s" "m_savedPlayers (do_enet f s) = m_savedPlayers s"
  "m_nextPlayerId (do_enet f s) = m_nextPlayerId s" "m_nextEntityId (do_enet f s) = m_nextEntityId s"
  "m_nextSquadId (do_enet f s) = m_nextSquadId s" "m_hostPlayerId (do_enet f s) = m_hostPlayerId s"
  "m_serverTick (do_enet f s) = m_serverTick s" "m_timeOfDay (do_enet f s) = m_timeOfDay s"
  "m_weatherState (do_enet f s) = m_weatherState s" "m_uptime (do_enet f s) = m_uptime s"
  "m_saves (do_enet f s) = m_saves s" "m_enet (do_enet f s) = f (m_enet s)"
  "m_timeSinceTimeSync (do_enet f s) = m_timeSinceTimeSync s" "m_timeSinceHeartbeat (do_enet f s) = m_timeSinceHeartbeat s"
  "m_timeSinceOrphanCleanup (do_enet f s) = m_timeSinceOrphanCleanup s" "m_timeSinceAutoSave (do_enet f s) = m_timeSinceAutoSave s"
  "m_autoSaveInterval (do_enet f s) = m_autoSaveInterval s" "m_masterHost (do_enet f s) = m_masterHost s"
  "m_masterPeer (do_enet f s) = m_masterPeer s" "m_masterConnected (do_enet f s) = m_masterConnected s"
  "m_timeSinceMasterHeartbeat (do_enet f s) = m_timeSinceMasterHeartbeat s" "m_masterHeartbeatInterval (do_enet f s) = m_masterHeartbeatInterval s"
  "m_masterReconnectTimer (do_enet f s) = m_masterReconnectTimer s" "m_masterReconnectDelay (do_enet f s) = m_masterReconnectDelay s"
  by (simp_all add: do_enet_def)

text \<open>
  \<open>send_only g\<close>: the operation \<open>g\<close> only talks to ENet.  Everything proved about such an operation
  in one place: the whole game state is untouched.
\<close>

definition send_only :: "(GameServer \<Rightarrow> GameServer) \<Rightarrow> bool" where
  "send_only g \<longleftrightarrow> (\<forall>s. \<exists>f. g s = do_enet f s \<and> (\<forall>e. peer_tab (f e) = peer_tab e \<and> alloc_ok (f e) = alloc_ok e))"

lemma enet_try_frame [simp]:
  "peer_tab (snd (enet_try c e)) = peer_tab e" "alloc_ok (snd (enet_try c e)) = alloc_ok e"
  "fst (enet_try c e) = alloc_ok e (n_allocs e)"
  by (simp_all add: enet_try_def enet_packet_create_def enet_out_def)

lemma send_except_frame [simp]:
  "peer_tab (fold (send_except x d ch r) ps e) = peer_tab e"
  "alloc_ok (fold (send_except x d ch r) ps e) = alloc_ok e"
  by (induction ps arbitrary: e) (auto simp: send_except_def split: prod.splits)

lemma send_only_id [simp]: "send_only (\<lambda>s. s)"
  unfolding send_only_def by (rule allI, rule exI [of _ "\<lambda>e. e"]) (simp add: do_enet_def)

lemma send_only_Broadcast [simp]: "send_only (Broadcast d ch r)"
  unfolding send_only_def Broadcast_def by (rule allI, rule exI, rule conjI, rule refl) simp

lemma send_only_BroadcastExcept [simp]: "send_only (BroadcastExcept x d ch r)"
  unfolding send_only_def BroadcastExcept_def by (rule allI, rule exI, rule conjI, rule refl) simp

lemma send_only_SendTo [simp]: "send_only (SendTo pid d ch r)"
  unfolding send_only_def
proof
  fix s show "\<exists>f. SendTo pid d ch r s = do_enet f s \<and> (\<forall>e. peer_tab (f e) = peer_tab e \<and> alloc_ok (f e) = alloc_ok e)"
  proof (cases "um_find (m_players s) pid")
    case None
    then show ?thesis by (intro exI [of _ "\<lambda>e. e"]) (simp add: SendTo_def do_enet_def)
  next
    case (Some p)
    show ?thesis unfolding SendTo_def Some option.case by (rule exI, rule conjI, rule refl) simp
  qed
qed

lemma send_only_BroadcastSystemMessage [simp]: "send_only (BroadcastSystemMessage m)"
  unfolding BroadcastSystemMessage_def by simp

lemma send_only_frame:
  assumes "send_only g"
  shows "m_config (g s) = m_config s" "m_players (g s) = m_players s"
    "m_entities (g s) = m_entities s" "m_savedPlayers (g s) = m_savedPlayers s"
    "m_nextPlayerId (g s) = m_nextPlayerId s" "m_nextEntityId (g s) = m_nextEntityId s"
    "m_nextSquadId (g s) = m_nextSquadId s" "m_hostPlayerId (g s) = m_hostPlayerId s"
    "m_serverTick (g s) = m_serverTick s" "m_timeOfDay (g s) = m_timeOfDay s"
    "m_weatherState (g s) = m_weatherState s" "m_uptime (g s) = m_uptime s" "m_saves (g s) = m_saves s"
    "peer_tab (m_enet (g s)) = peer_tab (m_enet s)" "alloc_ok (m_enet (g s)) = alloc_ok (m_enet s)"
    "m_timeSinceTimeSync (g s) = m_timeSinceTimeSync s" "m_timeSinceHeartbeat (g s) = m_timeSinceHeartbeat s"
    "m_timeSinceOrphanCleanup (g s) = m_timeSinceOrphanCleanup s" "m_timeSinceAutoSave (g s) = m_timeSinceAutoSave s"
    "m_autoSaveInterval (g s) = m_autoSaveInterval s" "m_masterHost (g s) = m_masterHost s"
    "m_masterPeer (g s) = m_masterPeer s" "m_masterConnected (g s) = m_masterConnected s"
    "m_timeSinceMasterHeartbeat (g s) = m_timeSinceMasterHeartbeat s" "m_masterHeartbeatInterval (g s) = m_masterHeartbeatInterval s"
    "m_masterReconnectTimer (g s) = m_masterReconnectTimer s" "m_masterReconnectDelay (g s) = m_masterReconnectDelay s"
proof -
  from assms obtain f where "g s = do_enet f s" "\<forall>e. peer_tab (f e) = peer_tab e \<and> alloc_ok (f e) = alloc_ok e"
    unfolding send_only_def by blast
  then show "m_config (g s) = m_config s" "m_players (g s) = m_players s"
    "m_entities (g s) = m_entities s" "m_savedPlayers (g s) = m_savedPlayers s"
    "m_nextPlayerId (g s) = m_nextPlayerId s" "m_nextEntityId (g s) = m_nextEntityId s"
    "m_nextSquadId (g s) = m_nextSquadId s" "m_hostPlayerId (g s) = m_hostPlayerId s"
    "m_serverTick (g s) = m_serverTick s" "m_timeOfDay (g s) = m_timeOfDay s"
    "m_weatherState (g s) = m_weatherState s" "m_uptime (g s) = m_uptime s" "m_saves (g s) = m_saves s"
    "peer_tab (m_enet (g s)) = peer_tab (m_enet s)" "alloc_ok (m_enet (g s)) = alloc_ok (m_enet s)"
    "m_timeSinceTimeSync (g s) = m_timeSinceTimeSync s" "m_timeSinceHeartbeat (g s) = m_timeSinceHeartbeat s"
    "m_timeSinceOrphanCleanup (g s) = m_timeSinceOrphanCleanup s" "m_timeSinceAutoSave (g s) = m_timeSinceAutoSave s"
    "m_autoSaveInterval (g s) = m_autoSaveInterval s" "m_masterHost (g s) = m_masterHost s"
    "m_masterPeer (g s) = m_masterPeer s" "m_masterConnected (g s) = m_masterConnected s"
    "m_timeSinceMasterHeartbeat (g s) = m_timeSinceMasterHeartbeat s" "m_masterHeartbeatInterval (g s) = m_masterHeartbeatInterval s"
    "m_masterReconnectTimer (g s) = m_masterReconnectTimer s" "m_masterReconnectDelay (g s) = m_masterReconnectDelay s"
    by (simp_all add: srv_simps)
qed

lemmas send_frame [srv_simps] =
  send_only_frame [OF send_only_Broadcast] send_only_frame [OF send_only_BroadcastExcept]
  send_only_frame [OF send_only_SendTo] send_only_frame [OF send_only_BroadcastSystemMessage]

lemma FromWorldPos_origin: "FromWorldPos Vec3_default KMP_ZONE_SIZE = ZoneCoord_default"
  by (simp add: FromWorldPos_def Vec3_default_def ZoneCoord_default_def ZoneCoord_new_def KMP_ZONE_SIZE_def f32_eval)

end
