(* ===== verification/Authority.thy ===== *)
theory Authority
  imports Server_State
begin

text \<open>
  \<^verbatim>\<open>KenshiMP.Server/authority_validator.cpp\<close>: the checks a client command has to pass, in the
  order the code makes them, with the reason of a rejection (the code logs it) as a value.
\<close>

datatype authority_verdict =
    UnknownEntity
  | DeadEntity
  | NonPlayerEntity AuthorityType
  | AuthorityViolation PlayerID
  | Allowed

definition authority_check :: "PlayerID \<Rightarrow> EntityID \<Rightarrow> (EntityID, ServerEntity) umap \<Rightarrow> authority_verdict" where
  "authority_check clientPlayerId entityId entities = (case um_find entities entityId of
     None \<Rightarrow> UnknownEntity
   | Some entity \<Rightarrow>
       if \<not> se_alive entity then DeadEntity
       else if se_authority entity \<noteq> AuthPlayer then NonPlayerEntity (se_authority entity)
       else if se_owner entity \<noteq> clientPlayerId then AuthorityViolation (se_owner entity)
       else Allowed)"

definition CanClientCommandEntity :: "PlayerID \<Rightarrow> EntityID \<Rightarrow> (EntityID, ServerEntity) umap \<Rightarrow> bool" where
  "CanClientCommandEntity clientPlayerId entityId entities \<longleftrightarrow>
     authority_check clientPlayerId entityId entities = Allowed"

definition ValidatePositionUpdate :: "PlayerID \<Rightarrow> EntityID \<Rightarrow> (EntityID, ServerEntity) umap \<Rightarrow> bool" where
  "ValidatePositionUpdate clientPlayerId entityId entities =
     CanClientCommandEntity clientPlayerId entityId entities"

lemma CanClientCommandEntity_iff:
  "CanClientCommandEntity pid eid es \<longleftrightarrow>
     (\<exists>e. um_find es eid = Some e \<and> se_alive e \<and> se_authority e = AuthPlayer \<and> se_owner e = pid)"
  by (simp add: CanClientCommandEntity_def authority_check_def split: option.splits)

lemma CanClientCommandEntityE:
  assumes "CanClientCommandEntity pid eid es"
  obtains e where "um_find es eid = Some e" "se_alive e" "se_authority e = AuthPlayer" "se_owner e = pid"
  using assms by (auto simp: CanClientCommandEntity_iff)

text \<open>At most one player may command an entity.\<close>

lemma command_unique:
  "CanClientCommandEntity p1 eid es \<Longrightarrow> CanClientCommandEntity p2 eid es \<Longrightarrow> p1 = p2"
  by (auto simp: CanClientCommandEntity_iff)

end
