(* ===== verification/Combat.thy ===== *)
theory Combat
  imports Server_State
begin

text \<open>
  \<^verbatim>\<open>KenshiMP.Server/combat_resolver.cpp\<close>: body part selection and damage.  The draws from the
  Mersenne twister are arguments: the weighted roll (1 to 100), the damage factor (drawn from
  0.8 to 1.2) and the block roll (0 to 1).
\<close>

record combat_draws =
  cd_roll :: int
  cd_factor :: f32
  cd_block :: f32

record CombatResult =
  cr_hitPart :: BodyPart
  cr_cutDamage :: f32
  cr_bluntDamage :: f32
  cr_pierceDamage :: f32
  cr_resultHealth :: f32
  cr_wasBlocked :: bool
  cr_wasKO :: bool
  cr_wasDeath :: bool

definition body_weights :: "(BodyPart \<times> int) list" where
  "body_weights = [(Chest, 30), (Stomach, 20), (Head, 10), (LeftArm, 10), (RightArm, 10),
     (LeftLeg, 10), (RightLeg, 10)]"

fun select_loop :: "int \<Rightarrow> int \<Rightarrow> (BodyPart \<times> int) list \<Rightarrow> BodyPart" where
  "select_loop roll cumulative [] = Chest"
| "select_loop roll cumulative ((part, weight) # ws) =
     (if roll \<le> cumulative + weight then part else select_loop roll (cumulative + weight) ws)"

definition SelectBodyPart :: "int \<Rightarrow> BodyPart" where
  "SelectBodyPart roll = select_loop roll 0 body_weights"

text \<open>Total damage before blocking: \<^verbatim>\<open>attackStat * randomFactor * defenseReduction\<close>.\<close>

definition totalDamage :: "f32 \<Rightarrow> f32" where
  "totalDamage randomFactor = (let attackStat = f32_of_int 20; defenseStat = f32_of_int 10;
     defenseReduction = f32_sub (f32_of_int 1)
       (f32_clamp (f32_div defenseStat (f32_of_int 100)) 0 (f32_lit 9 10))
   in f32_mul (f32_mul attackStat randomFactor) defenseReduction)"

definition part_damage :: "combat_draws \<Rightarrow> f32" where
  "part_damage d = (let half = f32_mul (totalDamage (cd_factor d)) (f32_lit 1 2)
   in if f32_lt (cd_block d) (f32_lit 2 10) then f32_mul half (f32_lit 3 10) else half)"

definition ResolveCombat :: "ServerEntity \<Rightarrow> ServerEntity \<Rightarrow> u8 \<Rightarrow> combat_draws \<Rightarrow> CombatResult \<times> ServerEntity" where
  "ResolveCombat attacker target attackType d =
    (let part = SelectBodyPart (cd_roll d);
         cut = part_damage d; blunt = part_damage d; pierce = 0;
         i = BodyPart_code part;
         newHealth = f32_sub (se_health target ! i) (f32_add (f32_add cut blunt) pierce);
         target1 = target\<lparr>se_health := (se_health target)[i := newHealth]\<rparr>;
         ko = (\<exists>h \<in> set (take 7 (se_health target1)). f32_le h (f32_of_int (- 50)));
         death = (f32_le (se_health target1 ! BodyPart_code Chest) (f32_of_int (- 100)) \<or>
                  f32_le (se_health target1 ! BodyPart_code Head) (f32_of_int (- 100)))
     in (\<lparr>cr_hitPart = part, cr_cutDamage = cut, cr_bluntDamage = blunt, cr_pierceDamage = pierce,
          cr_resultHealth = newHealth, cr_wasBlocked = f32_lt (cd_block d) (f32_lit 2 10),
          cr_wasKO = ko, cr_wasDeath = death\<rparr>,
         if death then target1\<lparr>se_alive := False\<rparr> else target1))"

section \<open>Selection\<close>

lemma BodyPart_code_less: "BodyPart_code p < 7"
  by (cases p) simp_all

text \<open>Exactly the advertised share of the rolls 1 to 100 selects each body part.\<close>

lemma SelectBodyPart_ranges:
  assumes "1 \<le> roll" "roll \<le> 100"
  shows "SelectBodyPart roll = (if roll \<le> 30 then Chest else if roll \<le> 50 then Stomach
    else if roll \<le> 60 then Head else if roll \<le> 70 then LeftArm else if roll \<le> 80 then RightArm
    else if roll \<le> 90 then LeftLeg else RightLeg)"
  using assms by (simp add: SelectBodyPart_def body_weights_def)

section \<open>Effect on the target\<close>

text \<open>Only the health of the part that was hit and, on death, the alive flag change.\<close>

lemma ResolveCombat_frame:
  fixes a t0 :: ServerEntity and ty :: u8 and d :: combat_draws
  defines "t \<equiv> snd (ResolveCombat a t0 ty d)"
  shows "se_owner t = se_owner t0" "se_id t = se_id t0"
    "se_authority t = se_authority t0" "se_zone t = se_zone t0"
    "se_position t = se_position t0" "se_type t = se_type t0"
    "se_state t = se_state t0" "length (se_health t) = length (se_health t0)"
    "se_equipment t = se_equipment t0" "se_limbHealth t = se_limbHealth t0"
    "se_statusEffects t = se_statusEffects t0" "se_rotation t = se_rotation t0"
    "se_buildProgress t = se_buildProgress t0" "se_templateName t = se_templateName t0"
    "se_alive t \<Longrightarrow> se_alive t0"
  unfolding t_def ResolveCombat_def Let_def by (auto split: if_splits)

lemma ResolveCombat_other_parts:
  "i \<noteq> BodyPart_code (cr_hitPart (fst (ResolveCombat a t ty d))) \<Longrightarrow>
     se_health (snd (ResolveCombat a t ty d)) ! i = se_health t ! i"
  by (simp add: ResolveCombat_def Let_def)

lemma ResolveCombat_death_iff:
  "cr_wasDeath (fst (ResolveCombat a t ty d)) \<longleftrightarrow>
     f32_le (se_health (snd (ResolveCombat a t ty d)) ! BodyPart_code Chest) (f32_of_int (- 100)) \<or>
     f32_le (se_health (snd (ResolveCombat a t ty d)) ! BodyPart_code Head) (f32_of_int (- 100))"
  by (simp add: ResolveCombat_def Let_def)

lemma ResolveCombat_dead: 
  "cr_wasDeath (fst (ResolveCombat a t ty d)) \<Longrightarrow> \<not> se_alive (snd (ResolveCombat a t ty d))"
  "\<not> cr_wasDeath (fst (ResolveCombat a t ty d)) \<Longrightarrow> se_alive (snd (ResolveCombat a t ty d)) = se_alive t"
  by (simp_all add: ResolveCombat_def Let_def)

text \<open>A death is always also a knock-out.\<close>

lemma ResolveCombat_death_ko:
  assumes "length (se_health t) = 7" "cr_wasDeath (fst (ResolveCombat a t ty d))"
  shows "cr_wasKO (fst (ResolveCombat a t ty d))"
proof -
  define h where "h = se_health (snd (ResolveCombat a t ty d))"
  have len: "length h = 7" unfolding h_def using assms(1) by (simp add: ResolveCombat_frame)
  have ko: "cr_wasKO (fst (ResolveCombat a t ty d)) \<longleftrightarrow> (\<exists>x \<in> set (take 7 h). f32_le x (f32_of_int (- 50)))"
    by (simp add: ResolveCombat_def Let_def h_def)
  have k: "f32_key (f32_of_int (- 100)) \<le> f32_key (f32_of_int (- 50))" "\<not> f32_isnan (f32_of_int (- 50))"
    by (simp_all add: f32_eval)
  have "f32_le (h ! 1) (f32_of_int (- 100)) \<or> f32_le (h ! 0) (f32_of_int (- 100))"
    using assms(2) by (simp only: ResolveCombat_death_iff h_def BodyPart_code.simps)
  then obtain i where i: "i < 7" "f32_le (h ! i) (f32_of_int (- 100))"
    by (metis one_less_numeral_iff semiring_norm(77) zero_less_numeral)
  then have "f32_le (h ! i) (f32_of_int (- 50))" using k by (simp add: f32_le_def)
  moreover have "h ! i \<in> set (take 7 h)" using i len by simp
  ultimately show ?thesis unfolding ko by blast
qed

end
