(* ===== verification/Server_Handlers.thy ===== *)
theory Server_Handlers
  imports Authority Combat
begin

text \<open>
  \<^verbatim>\<open>KenshiMP.Server/server.cpp\<close>: the handlers of gameplay messages.  Each takes the sending
  player (the reference the dispatcher looked up), the reader positioned after the packet
  header and the server, and returns the server.  Handlers appear in the order of the source;
  each early return of the source is a branch that returns the server unchanged.
\<close>

abbreviation RO :: nat where "RO \<equiv> KMP_CHANNEL_RELIABLE_ORDERED"
abbreviation RU :: nat where "RU \<equiv> KMP_CHANNEL_RELIABLE_UNORDERED"

section \<open>Movement\<close>

definition apply_position :: "CharacterPosition \<Rightarrow> ServerEntity \<Rightarrow> ServerEntity" where
  "apply_position pos e = (let p = Vec3_new (CharacterPosition_posX pos) (CharacterPosition_posY pos)
       (CharacterPosition_posZ pos) in
     e\<lparr>se_position := p, se_rotation := Decompress (CharacterPosition_compressedQuat pos),
       se_zone := FromWorldPos p KMP_ZONE_SIZE, se_animState := CharacterPosition_animStateId pos,
       se_moveSpeed := CharacterPosition_moveSpeed pos, se_flags := CharacterPosition_flags pos\<rparr>)"

definition track_player :: "CharacterPosition \<Rightarrow> ConnectedPlayer \<Rightarrow> ConnectedPlayer" where
  "track_player pos pl = (let p = Vec3_new (CharacterPosition_posX pos) (CharacterPosition_posY pos)
       (CharacterPosition_posZ pos) in
     pl\<lparr>cp_position := p, cp_zone := FromWorldPos p KMP_ZONE_SIZE\<rparr>)"

fun position_loop :: "nat \<Rightarrow> PlayerID \<Rightarrow> bool \<Rightarrow> PacketReader \<Rightarrow> GameServer \<Rightarrow> GameServer" where
  "position_loop 0 pid playerPosUpdated r s = s"
| "position_loop (Suc n) pid playerPosUpdated r s =
    (case ReadStruct CharacterPosition_size CharacterPosition_dec r of
       (None, r) \<Rightarrow> s
     | (Some pos, r) \<Rightarrow>
         if bad_coords (CharacterPosition_posX pos) (CharacterPosition_posY pos) (CharacterPosition_posZ pos)
         then position_loop n pid playerPosUpdated r s
         else if \<not> ValidatePositionUpdate pid (CharacterPosition_entityId pos) (m_entities s)
         then position_loop n pid playerPosUpdated r s
         else (case um_find (m_entities s) (CharacterPosition_entityId pos) of
             None \<Rightarrow> position_loop n pid playerPosUpdated r s
           | Some _ \<Rightarrow>
               let s1 = modify_entity (CharacterPosition_entityId pos) (apply_position pos) s;
                   s2 = (if playerPosUpdated then s1 else modify_player pid (track_player pos) s1)
               in position_loop n pid True r s2))"

definition HandlePositionUpdate :: "ConnectedPlayer \<Rightarrow> PacketReader \<Rightarrow> GameServer \<Rightarrow> GameServer" where
  "HandlePositionUpdate player r s = (case ReadU8 r of
     (None, r) \<Rightarrow> s
   | (Some count, r) \<Rightarrow> position_loop (unat count) (cp_id player) False r s)"

definition HandleMoveCommand :: "ConnectedPlayer \<Rightarrow> PacketReader \<Rightarrow> GameServer \<Rightarrow> GameServer" where
  "HandleMoveCommand player r s = (case ReadStruct MsgMoveCommand_size MsgMoveCommand_dec r of
     (None, r) \<Rightarrow> s
   | (Some msg, r) \<Rightarrow>
       if \<not> CanClientCommandEntity (cp_id player) (MsgMoveCommand_entityId msg) (m_entities s) then s
       else BroadcastExcept (cp_id player)
              (packet [hdr S2C_MoveCommand, WriteRaw (MsgMoveCommand_enc msg)]) RU True s)"

section \<open>Combat\<close>

definition distSq3 :: "Vec3 \<Rightarrow> Vec3 \<Rightarrow> f32" where
  "distSq3 a b = (let dx = f32_sub (vx a) (vx b); dy = f32_sub (vy a) (vy b); dz = f32_sub (vz a) (vz b)
     in f32_add (f32_add (f32_mul dx dx) (f32_mul dy dy)) (f32_mul dz dz))"

definition hit_message :: "MsgAttackIntent \<Rightarrow> CombatResult \<Rightarrow> MsgCombatHit" where
  "hit_message msg result = \<lparr>MsgCombatHit_attackerId = MsgAttackIntent_attackerId msg,
     MsgCombatHit_targetId = MsgAttackIntent_targetId msg,
     MsgCombatHit_bodyPart = of_nat (BodyPart_code (cr_hitPart result)),
     MsgCombatHit_cutDamage = cr_cutDamage result, MsgCombatHit_bluntDamage = cr_bluntDamage result,
     MsgCombatHit_pierceDamage = cr_pierceDamage result, MsgCombatHit_resultHealth = cr_resultHealth result,
     MsgCombatHit_wasBlocked = (if cr_wasBlocked result then 1 else 0),
     MsgCombatHit_wasKO = (if cr_wasKO result then 1 else 0)\<rparr>"

definition HandleAttackIntent :: "combat_draws \<Rightarrow> ConnectedPlayer \<Rightarrow> PacketReader \<Rightarrow> GameServer \<Rightarrow> GameServer" where
  "HandleAttackIntent d player r s = (case ReadStruct MsgAttackIntent_size MsgAttackIntent_dec r of
     (None, r) \<Rightarrow> s
   | (Some msg, r) \<Rightarrow>
       if \<not> CanClientCommandEntity (cp_id player) (MsgAttackIntent_attackerId msg) (m_entities s) then s
       else (case (um_find (m_entities s) (MsgAttackIntent_attackerId msg),
                   um_find (m_entities s) (MsgAttackIntent_targetId msg)) of
         (Some attacker, Some target) \<Rightarrow>
           if \<not> se_alive target then s
           else
             let maxDist = (if MsgAttackIntent_attackType msg = 1 then f32_of_int 150 else f32_of_int 15)
             in if f32_lt (f32_mul maxDist maxDist) (distSq3 (se_position attacker) (se_position target)) then s
             else (case ResolveCombat attacker target (MsgAttackIntent_attackType msg) d of
               (result, target1) \<Rightarrow>
                 let s1 = modify_entity (MsgAttackIntent_targetId msg) (\<lambda>_. target1) s;
                     s2 = Broadcast (packet [hdr S2C_CombatHit,
                            WriteRaw (MsgCombatHit_enc (hit_message msg result))]) RU True s1
                 in if cr_wasDeath result then
                      Broadcast (packet [hdr S2C_CombatDeath, WriteRaw (MsgCombatDeath_enc
                          \<lparr>MsgCombatDeath_entityId = MsgAttackIntent_targetId msg,
                           MsgCombatDeath_killerId = MsgAttackIntent_attackerId msg\<rparr>)]) RO True
                        (modify_entity (MsgAttackIntent_targetId msg) (\<lambda>e. e\<lparr>se_alive := False\<rparr>) s2)
                    else if cr_wasKO result then
                      Broadcast (packet [hdr S2C_CombatKO, WriteRaw (MsgCombatKO_enc
                          \<lparr>MsgCombatKO_entityId = MsgAttackIntent_targetId msg,
                           MsgCombatKO_attackerId = MsgAttackIntent_attackerId msg,
                           MsgCombatKO_bodyPart = of_nat (BodyPart_code (cr_hitPart result)),
                           MsgCombatKO_resultHealth = cr_resultHealth result\<rparr>)]) RO True s2
                    else s2)
       | _ \<Rightarrow> s))"

section \<open>Chat\<close>

definition HandleChatMessage :: "ConnectedPlayer \<Rightarrow> PacketReader \<Rightarrow> GameServer \<Rightarrow> GameServer" where
  "HandleChatMessage player r s = (case ReadU32 r of
     (None, r) \<Rightarrow> s
   | (Some senderId, r) \<Rightarrow> (case ReadString 1024 r of
       (None, r) \<Rightarrow> s
     | (Some message, r) \<Rightarrow>
         if message = [] then s
         else BroadcastExcept (cp_id player)
           (packet [hdr S2C_ChatMessage, WriteU32 (cp_id player), WriteString message]) RO True s))"

section \<open>Building\<close>

definition new_building :: "EntityID \<Rightarrow> PlayerID \<Rightarrow> MsgBuildRequest \<Rightarrow> ServerEntity" where
  "new_building buildId pid msg = (let p = Vec3_new (MsgBuildRequest_posX msg) (MsgBuildRequest_posY msg)
       (MsgBuildRequest_posZ msg) in
     ServerEntity_default\<lparr>se_id := buildId, se_type := Building, se_owner := pid, se_position := p,
       se_rotation := Decompress (MsgBuildRequest_compressedQuat msg),
       se_zone := FromWorldPos p KMP_ZONE_SIZE, se_templateId := MsgBuildRequest_templateId msg,
       se_alive := True\<rparr>)"

definition HandleBuildRequest :: "ConnectedPlayer \<Rightarrow> PacketReader \<Rightarrow> GameServer \<Rightarrow> GameServer" where
  "HandleBuildRequest player r s = (case ReadStruct MsgBuildRequest_size MsgBuildRequest_dec r of
     (None, r) \<Rightarrow> s
   | (Some msg, r) \<Rightarrow>
       if bad_coords (MsgBuildRequest_posX msg) (MsgBuildRequest_posY msg) (MsgBuildRequest_posZ msg) then s
       else if f32_lt (f32_mul (f32_of_int 500) (f32_of_int 500))
           (distSq3 (Vec3_new (MsgBuildRequest_posX msg) (MsgBuildRequest_posY msg) (MsgBuildRequest_posZ msg))
              (cp_position player)) then s
       else
         let buildId = m_nextEntityId s;
             s1 = s\<lparr>m_nextEntityId := m_nextEntityId s + 1,
                    m_entities := um_set buildId (new_building buildId (cp_id player) msg) (m_entities s)\<rparr>
         in BroadcastExcept (cp_id player) (packet [hdr S2C_BuildPlaced, WriteRaw (MsgBuildPlaced_enc
              \<lparr>MsgBuildPlaced_entityId = buildId, MsgBuildPlaced_templateId = MsgBuildRequest_templateId msg,
               MsgBuildPlaced_posX = MsgBuildRequest_posX msg, MsgBuildPlaced_posY = MsgBuildRequest_posY msg,
               MsgBuildPlaced_posZ = MsgBuildRequest_posZ msg,
               MsgBuildPlaced_compressedQuat = MsgBuildRequest_compressedQuat msg,
               MsgBuildPlaced_builderId = cp_id player\<rparr>)]) RO True s1)"

section \<open>Spawning and despawning\<close>

text \<open>The \<^verbatim>\<open>S2C_EntitySpawn\<close> packet, which three functions of the source write alike.\<close>

definition spawn_packet :: "EntityID \<Rightarrow> u8 \<Rightarrow> PlayerID \<Rightarrow> u32 \<Rightarrow> Vec3 \<Rightarrow> u32 \<Rightarrow> u32 \<Rightarrow> bytes \<Rightarrow> f32 list \<Rightarrow> bool \<Rightarrow> bytes" where
  "spawn_packet eid type owner templateId p quat factionId name health alive = packet
     ([hdr S2C_EntitySpawn, WriteU32 eid, WriteU8 type, WriteU32 owner, WriteU32 templateId,
       WriteF32 (vx p), WriteF32 (vy p), WriteF32 (vz p), WriteU32 quat, WriteU32 factionId,
       WriteU16 (of_nat (length name))]
      @ (if (of_nat (length name) :: u16) > 0 then [WriteRaw (take (unat (of_nat (length name) :: u16)) name)] else [])
      @ [WriteU8 1] @ map WriteF32 (take 7 health) @ [WriteU8 (if alive then 1 else 0)])"

fun read_floats :: "f32 list \<Rightarrow> PacketReader \<Rightarrow> f32 list \<times> PacketReader" where
  "read_floats [] r = ([], r)"
| "read_floats (x # xs) r = (case ReadF32 r of (v, r) \<Rightarrow> apfst (Cons (case v of None \<Rightarrow> x | Some y \<Rightarrow> y)) (read_floats xs r))"

definition read_template_name :: "PacketReader \<Rightarrow> bytes \<times> PacketReader" where
  "read_template_name r =
     (if Remaining r \<ge> 2 then (case ReadU16 r of (n, r) \<Rightarrow>
        let nameLen = unat (case n of None \<Rightarrow> 0 | Some k \<Rightarrow> k) in
        if nameLen > 0 \<and> nameLen \<le> 255 \<and> Remaining r \<ge> nameLen
        then (case ReadRaw nameLen r of (None, r) \<Rightarrow> (replicate nameLen 0, r) | (Some bs, r) \<Rightarrow> (bs, r))
        else ([], r))
      else ([], r))"

text \<open>Optional extended state: health and alive flag, present when the flag byte is 1.\<close>

definition read_extended :: "PacketReader \<Rightarrow> (f32 list \<times> bool) option" where
  "read_extended r =
     (if Remaining r \<ge> 1 then (case ReadU8 r of (f, r) \<Rightarrow>
        if f = Some 1 \<and> Remaining r \<ge> 7 * 4 + 1
        then (case read_floats (replicate 7 (f32_of_int 100)) r of (hs, r) \<Rightarrow>
               (case ReadU8 r of (a, r) \<Rightarrow> Some (hs, (case a of None \<Rightarrow> True | Some v \<Rightarrow> v \<noteq> 0))))
        else None)
      else None)"

record spawn_req =
  sr_clientEntityId :: u32
  sr_type :: u8
  sr_ownerId :: u32
  sr_templateId :: u32
  sr_pos :: Vec3
  sr_compQuat :: u32
  sr_factionId :: u32
  sr_templateName :: bytes
  sr_extended :: "(f32 list \<times> bool) option"

definition read_spawn_req :: "PacketReader \<Rightarrow> spawn_req option" where
  "read_spawn_req r =
    (case ReadU32 r of (None, r) \<Rightarrow> None | (Some clientEntityId, r) \<Rightarrow>
    (case ReadU8 r of (None, r) \<Rightarrow> None | (Some type, r) \<Rightarrow>
    (case ReadU32 r of (None, r) \<Rightarrow> None | (Some ownerId, r) \<Rightarrow>
    (case ReadU32 r of (None, r) \<Rightarrow> None | (Some templateId, r) \<Rightarrow>
    (case ReadVec3 r of (None, r) \<Rightarrow> None | (Some (px, py, pz), r) \<Rightarrow>
    (case ReadU32 r of (None, r) \<Rightarrow> None | (Some compQuat, r) \<Rightarrow>
    (case ReadU32 r of (None, r) \<Rightarrow> None | (Some factionId, r) \<Rightarrow>
    (case read_template_name r of (name, r) \<Rightarrow>
      Some \<lparr>sr_clientEntityId = clientEntityId, sr_type = type, sr_ownerId = ownerId,
        sr_templateId = templateId, sr_pos = Vec3_new px py pz, sr_compQuat = compQuat,
        sr_factionId = factionId, sr_templateName = name, sr_extended = read_extended r\<rparr>))))))))"

definition spawned_entity :: "EntityID \<Rightarrow> PlayerID \<Rightarrow> spawn_req \<Rightarrow> ServerEntity" where
  "spawned_entity serverId pid q =
    (let e = ServerEntity_default\<lparr>se_id := serverId, se_type := sr_type q, se_owner := pid,
           se_position := sr_pos q, se_rotation := Decompress (sr_compQuat q),
           se_templateId := sr_templateId q, se_factionId := sr_factionId q,
           se_templateName := sr_templateName q, se_zone := FromWorldPos (sr_pos q) KMP_ZONE_SIZE\<rparr>
     in case sr_extended q of None \<Rightarrow> e | Some (hs, alive) \<Rightarrow> e\<lparr>se_health := hs, se_alive := alive\<rparr>)"

definition HandleEntitySpawnReq :: "ConnectedPlayer \<Rightarrow> PacketReader \<Rightarrow> GameServer \<Rightarrow> GameServer" where
  "HandleEntitySpawnReq player r s = (case read_spawn_req r of
     None \<Rightarrow> s
   | Some q \<Rightarrow>
       if sr_type q > Turret then s
       else if length (m_entities s) \<ge> KMP_MAX_SYNC_ENTITIES then s
       else
         let serverId = m_nextEntityId s;
             entity = spawned_entity serverId (cp_id player) q;
             s1 = s\<lparr>m_nextEntityId := m_nextEntityId s + 1,
                    m_entities := um_set serverId entity (m_entities s)\<rparr>;
             s2 = (if cp_zone player = ZoneCoord_new 0 0
                   then modify_player (cp_id player)
                          (\<lambda>p. p\<lparr>cp_position := se_position entity, cp_zone := se_zone entity\<rparr>) s1
                   else s1)
         in Broadcast (spawn_packet serverId (sr_type q) (cp_id player) (sr_templateId q) (sr_pos q)
              (sr_compQuat q) (sr_factionId q) (sr_templateName q) (se_health entity) (se_alive entity)) RO True s2)"

text \<open>
  \<open>junk\<close> is the indeterminate value of the local \<^verbatim>\<open>uint8_t reason\<close>, which the source broadcasts when
  the packet ends before the optional reason byte.
\<close>

definition HandleEntityDespawnReq :: "u8 \<Rightarrow> ConnectedPlayer \<Rightarrow> PacketReader \<Rightarrow> GameServer \<Rightarrow> GameServer" where
  "HandleEntityDespawnReq junk player r s = (case ReadU32 r of
     (None, r) \<Rightarrow> s
   | (Some entityId, r) \<Rightarrow>
       let reason = (case fst (ReadU8 r) of None \<Rightarrow> junk | Some v \<Rightarrow> v) in
       (case um_find (m_entities s) entityId of
          None \<Rightarrow> s
        | Some e \<Rightarrow>
            if se_owner e \<noteq> cp_id player then s
            else Broadcast (packet [hdr S2C_EntityDespawn, WriteU32 entityId, WriteU8 reason]) RO True
                   (s\<lparr>m_entities := um_erase entityId (m_entities s)\<rparr>)))"

section \<open>Equipment\<close>

definition HandleEquipmentUpdate :: "ConnectedPlayer \<Rightarrow> PacketReader \<Rightarrow> GameServer \<Rightarrow> GameServer" where
  "HandleEquipmentUpdate player r s = (case ReadStruct MsgEquipmentUpdate_size MsgEquipmentUpdate_dec r of
     (None, r) \<Rightarrow> s
   | (Some msg, r) \<Rightarrow> (case um_find (m_entities s) (MsgEquipmentUpdate_entityId msg) of
       None \<Rightarrow> s
     | Some e \<Rightarrow>
         if se_owner e \<noteq> cp_id player then s
         else if MsgEquipmentUpdate_slot msg \<ge> 14 then s
         else BroadcastExcept (cp_id player)
                (packet [hdr S2C_EquipmentUpdate, WriteRaw (MsgEquipmentUpdate_enc msg)]) RU True
                (modify_entity (MsgEquipmentUpdate_entityId msg)
                   (\<lambda>e. e\<lparr>se_equipment := (se_equipment e)[unat (MsgEquipmentUpdate_slot msg) :=
                      MsgEquipmentUpdate_itemTemplateId msg]\<rparr>) s)))"

section \<open>Zones and snapshots\<close>

definition entity_spawn_packet :: "ServerEntity \<Rightarrow> bytes" where
  "entity_spawn_packet e = spawn_packet (se_id e) (se_type e) (se_owner e) (se_templateId e) (se_position e)
     (Compress (se_rotation e)) (se_factionId e) (take 255 (se_templateName e)) (se_health e) (se_alive e)"

definition zone_relevant :: "PlayerID \<Rightarrow> ZoneCoord \<Rightarrow> ServerEntity \<Rightarrow> bool" where
  "zone_relevant pid z e \<longleftrightarrow> se_owner e \<noteq> pid \<and>
     (IsAdjacent z (se_zone e) \<or> zx (se_zone e) = zx z \<and> zy (se_zone e) = zy z)"

definition HandleZoneRequest :: "ConnectedPlayer \<Rightarrow> PacketReader \<Rightarrow> GameServer \<Rightarrow> GameServer" where
  "HandleZoneRequest player r s = (case ReadI32 r of
     (None, r) \<Rightarrow> s
   | (Some zoneX, r) \<Rightarrow> (case ReadI32 r of
       (None, r) \<Rightarrow> s
     | (Some zoneY, r) \<Rightarrow>
         if sint zoneX < - 500 \<or> sint zoneX > 500 \<or> sint zoneY < - 500 \<or> sint zoneY > 500 then s
         else do_enet (fold (\<lambda>(entityId, e) n.
                if zone_relevant (cp_id player) (ZoneCoord_new zoneX zoneY) e
                then snd (enet_try (PeerSend (cp_peer player) RO (entity_spawn_packet e) True) n)
                else n) (m_entities s)) s))"

fun send_equipment :: "peer \<Rightarrow> EntityID \<Rightarrow> nat \<Rightarrow> u32 list \<Rightarrow> enet \<Rightarrow> enet" where
  "send_equipment p eid slot [] n = n"
| "send_equipment p eid slot (item # items) n =
     (if item \<noteq> 0 then (case enet_try (PeerSend p RU (packet [hdr S2C_EquipmentUpdate,
          WriteRaw (MsgEquipmentUpdate_enc \<lparr>MsgEquipmentUpdate_entityId = eid,
            MsgEquipmentUpdate_slot = of_nat slot, MsgEquipmentUpdate_itemTemplateId = item\<rparr>)]) True) n of
          (ok, n) \<Rightarrow> if ok then send_equipment p eid (Suc slot) items n else n)
      else send_equipment p eid (Suc slot) items n)"

definition snapshot_relevant :: "GameServer \<Rightarrow> ServerEntity \<Rightarrow> bool" where
  "snapshot_relevant s e \<longleftrightarrow> \<not> (se_owner e \<noteq> 0 \<and> GetPlayer (se_owner e) s = None) \<and>
     \<not> bad_coords (vx (se_position e)) (vy (se_position e)) (vz (se_position e))"

definition snapshot_entity :: "peer \<Rightarrow> ServerEntity \<Rightarrow> enet \<Rightarrow> enet" where
  "snapshot_entity p e n = (case enet_try (PeerSend p RO (entity_spawn_packet e) True) n of
     (ok, n) \<Rightarrow> if ok then send_equipment p (se_id e) 0 (take 14 (se_equipment e)) n else n)"

definition SendWorldSnapshot :: "ConnectedPlayer \<Rightarrow> GameServer \<Rightarrow> GameServer" where
  "SendWorldSnapshot player s = do_enet (fold (\<lambda>(entityId, e) n.
     if snapshot_relevant s e then snapshot_entity (cp_peer player) e n else n) (m_entities s)) s"

end
