(* ===== verification/Server_World.thy ===== *)
theory Server_World
  imports Server_Handlers
begin

text \<open>
  \<^verbatim>\<open>KenshiMP.Server/server.cpp\<close>, second half of the gameplay handlers: inventory, trade, squads,
  factions, building upkeep, reported combat outcomes, limb health, status effects, item
  transfer and doors.
\<close>

section \<open>Inventory\<close>

definition inventory_update :: "EntityID \<Rightarrow> u8 \<Rightarrow> u32 \<Rightarrow> i32 \<Rightarrow> bytes" where
  "inventory_update eid action item qty = packet [hdr S2C_InventoryUpdate, WriteRaw (MsgInventoryUpdate_enc
     \<lparr>MsgInventoryUpdate_entityId = eid, MsgInventoryUpdate_action = action,
      MsgInventoryUpdate_itemTemplateId = item, MsgInventoryUpdate_quantity = qty\<rparr>)]"

definition HandleItemPickup :: "ConnectedPlayer \<Rightarrow> PacketReader \<Rightarrow> GameServer \<Rightarrow> GameServer" where
  "HandleItemPickup player r s = (case ReadStruct MsgItemPickup_size MsgItemPickup_dec r of
     (None, r) \<Rightarrow> s
   | (Some msg, r) \<Rightarrow> (case um_find (m_entities s) (MsgItemPickup_entityId msg) of
       None \<Rightarrow> s
     | Some e \<Rightarrow>
         if se_owner e \<noteq> cp_id player then s
         else BroadcastExcept (cp_id player) (inventory_update (MsgItemPickup_entityId msg) 0
                (MsgItemPickup_itemTemplateId msg) (MsgItemPickup_quantity msg)) RU True s))"

definition HandleItemDrop :: "ConnectedPlayer \<Rightarrow> PacketReader \<Rightarrow> GameServer \<Rightarrow> GameServer" where
  "HandleItemDrop player r s = (case ReadStruct MsgItemDrop_size MsgItemDrop_dec r of
     (None, r) \<Rightarrow> s
   | (Some msg, r) \<Rightarrow> (case um_find (m_entities s) (MsgItemDrop_entityId msg) of
       None \<Rightarrow> s
     | Some e \<Rightarrow>
         if se_owner e \<noteq> cp_id player then s
         else BroadcastExcept (cp_id player) (inventory_update (MsgItemDrop_entityId msg) 1
                (MsgItemDrop_itemTemplateId msg) 1) RU True s))"

definition trade_result :: "MsgTradeRequest \<Rightarrow> u8 \<Rightarrow> bytes" where
  "trade_result msg success = packet [hdr S2C_TradeResult, WriteRaw (MsgTradeResult_enc
     \<lparr>MsgTradeResult_buyerEntityId = MsgTradeRequest_buyerEntityId msg,
      MsgTradeResult_itemTemplateId = MsgTradeRequest_itemTemplateId msg,
      MsgTradeResult_quantity = MsgTradeRequest_quantity msg, MsgTradeResult_success = success\<rparr>)]"

definition HandleTradeRequest :: "ConnectedPlayer \<Rightarrow> PacketReader \<Rightarrow> GameServer \<Rightarrow> GameServer" where
  "HandleTradeRequest player r s = (case ReadStruct MsgTradeRequest_size MsgTradeRequest_dec r of
     (None, r) \<Rightarrow> s
   | (Some msg, r) \<Rightarrow> (case um_find (m_entities s) (MsgTradeRequest_buyerEntityId msg) of
       None \<Rightarrow> s
     | Some buyer \<Rightarrow>
         if se_owner buyer \<noteq> cp_id player then s
         else if sint (MsgTradeRequest_quantity msg) \<le> 0 \<or> sint (MsgTradeRequest_quantity msg) > 10000
             \<or> sint (MsgTradeRequest_price msg) < 0
         then SendTo (cp_id player) (trade_result msg 0) RO True s
         else if MsgTradeRequest_sellerEntityId msg \<noteq> 0
             \<and> um_find (m_entities s) (MsgTradeRequest_sellerEntityId msg) = None
         then SendTo (cp_id player) (trade_result msg 0) RO True s
         else Broadcast (trade_result msg 1) RO True s))"

section \<open>Squads and factions\<close>

definition HandleSquadCreate :: "ConnectedPlayer \<Rightarrow> PacketReader \<Rightarrow> GameServer \<Rightarrow> GameServer" where
  "HandleSquadCreate player r s = (case ReadU32 r of
     (None, r) \<Rightarrow> s
   | (Some creatorEntityId, r) \<Rightarrow> (case ReadString 1024 r of
       (None, r) \<Rightarrow> s
     | (Some squadName, r) \<Rightarrow> (case um_find (m_entities s) creatorEntityId of
         None \<Rightarrow> s
       | Some e \<Rightarrow>
           if se_owner e \<noteq> cp_id player then s
           else Broadcast (packet [hdr S2C_SquadCreated, WriteU32 creatorEntityId,
                  WriteU32 (m_nextSquadId s), WriteString squadName]) RO True
                  (s\<lparr>m_nextSquadId := m_nextSquadId s + 1\<rparr>))))"

definition HandleSquadAddMember :: "ConnectedPlayer \<Rightarrow> PacketReader \<Rightarrow> GameServer \<Rightarrow> GameServer" where
  "HandleSquadAddMember player r s = (case ReadStruct MsgSquadMemberUpdate_size MsgSquadMemberUpdate_dec r of
     (None, r) \<Rightarrow> s
   | (Some msg, r) \<Rightarrow> (case um_find (m_entities s) (MsgSquadMemberUpdate_memberEntityId msg) of
       None \<Rightarrow> s
     | Some e \<Rightarrow>
         if se_owner e \<noteq> cp_id player then s
         else BroadcastExcept (cp_id player)
                (packet [hdr S2C_SquadMemberUpdate, WriteRaw (MsgSquadMemberUpdate_enc msg)]) RO True s))"

definition HandleFactionRelation :: "ConnectedPlayer \<Rightarrow> PacketReader \<Rightarrow> GameServer \<Rightarrow> GameServer" where
  "HandleFactionRelation player r s = (case ReadStruct MsgFactionRelation_size MsgFactionRelation_dec r of
     (None, r) \<Rightarrow> s
   | (Some msg, r) \<Rightarrow>
       if f32_lt (MsgFactionRelation_relation msg) (f32_of_int (- 100))
           \<or> f32_lt (f32_of_int 100) (MsgFactionRelation_relation msg) then s
       else if MsgFactionRelation_causerEntityId msg \<noteq> 0
           \<and> (case um_find (m_entities s) (MsgFactionRelation_causerEntityId msg) of
                None \<Rightarrow> True | Some e \<Rightarrow> se_owner e \<noteq> cp_id player) then s
       else Broadcast (packet [hdr S2C_FactionRelation, WriteRaw (MsgFactionRelation_enc msg)]) RO True s)"

section \<open>Buildings\<close>

definition HandleBuildDismantle :: "ConnectedPlayer \<Rightarrow> PacketReader \<Rightarrow> GameServer \<Rightarrow> GameServer" where
  "HandleBuildDismantle player r s = (case ReadStruct MsgBuildDismantle_size MsgBuildDismantle_dec r of
     (None, r) \<Rightarrow> s
   | (Some msg, r) \<Rightarrow> (case um_find (m_entities s) (MsgBuildDismantle_buildingId msg) of
       None \<Rightarrow> s
     | Some e \<Rightarrow>
         if se_owner e \<noteq> cp_id player \<and> cp_id player \<noteq> m_hostPlayerId s then s
         else BroadcastExcept (cp_id player)
                (packet [hdr S2C_BuildDestroyed, WriteU32 (MsgBuildDismantle_buildingId msg), WriteU8 2]) RO True
                (s\<lparr>m_entities := um_erase (MsgBuildDismantle_buildingId msg) (m_entities s)\<rparr>)))"

definition repaired :: "f32 \<Rightarrow> f32 \<Rightarrow> f32" where
  "repaired progress amount = f32_clamp (f32_add progress amount) 0 (f32_of_int 1)"

definition HandleBuildRepair :: "ConnectedPlayer \<Rightarrow> PacketReader \<Rightarrow> GameServer \<Rightarrow> GameServer" where
  "HandleBuildRepair player r s = (case ReadStruct MsgBuildRepair_size MsgBuildRepair_dec r of
     (None, r) \<Rightarrow> s
   | (Some msg, r) \<Rightarrow> (case um_find (m_entities s) (MsgBuildRepair_buildingId msg) of
       None \<Rightarrow> s
     | Some e \<Rightarrow>
         if se_owner e \<noteq> cp_id player \<and> cp_id player \<noteq> m_hostPlayerId s then s
         else if f32_le (MsgBuildRepair_amount msg) 0 \<or> f32_isnan (MsgBuildRepair_amount msg)
             \<or> f32_lt (f32_of_int 1) (MsgBuildRepair_amount msg) then s
         else let p = repaired (se_buildProgress e) (MsgBuildRepair_amount msg) in
           BroadcastExcept (cp_id player) (packet [hdr S2C_BuildProgress, WriteRaw (MsgBuildProgress_enc
               \<lparr>MsgBuildProgress_entityId = MsgBuildRepair_buildingId msg, MsgBuildProgress_progress = p\<rparr>)]) RU True
             (modify_entity (MsgBuildRepair_buildingId msg) (\<lambda>e. e\<lparr>se_buildProgress := p\<rparr>) s)))"

section \<open>Reported combat state\<close>

definition HandleCombatStance :: "ConnectedPlayer \<Rightarrow> PacketReader \<Rightarrow> GameServer \<Rightarrow> GameServer" where
  "HandleCombatStance player r s = (case ReadStruct MsgCombatStance_size MsgCombatStance_dec r of
     (None, r) \<Rightarrow> s
   | (Some msg, r) \<Rightarrow> (case um_find (m_entities s) (MsgCombatStance_entityId msg) of
       None \<Rightarrow> s
     | Some e \<Rightarrow>
         if se_owner e \<noteq> cp_id player then s
         else if MsgCombatStance_stance msg > 3 then s
         else BroadcastExcept (cp_id player)
                (packet [hdr S2C_CombatBlock, WriteRaw (MsgCombatStance_enc msg)]) RU True s))"

text \<open>The reporter must own the victim or, when an aggressor is named, the aggressor.\<close>

definition is_reporter :: "PlayerID \<Rightarrow> ServerEntity \<Rightarrow> EntityID \<Rightarrow> GameServer \<Rightarrow> bool" where
  "is_reporter pid victim aggressorId s \<longleftrightarrow> se_owner victim = pid \<or>
     aggressorId \<noteq> 0 \<and> (case um_find (m_entities s) aggressorId of None \<Rightarrow> False | Some a \<Rightarrow> se_owner a = pid)"

definition HandleCombatKO :: "ConnectedPlayer \<Rightarrow> PacketReader \<Rightarrow> GameServer \<Rightarrow> GameServer" where
  "HandleCombatKO player r s =
    (case ReadU32 r of (None, r) \<Rightarrow> s | (Some entityId, r) \<Rightarrow>
    (case ReadU32 r of (None, r) \<Rightarrow> s | (Some attackerId, r) \<Rightarrow>
    (case ReadU8 r of (None, r) \<Rightarrow> s | (Some reason, r) \<Rightarrow>
    (case ReadF32 r of (None, r) \<Rightarrow> s | (Some chestHealth, r) \<Rightarrow>
    (case um_find (m_entities s) entityId of
       None \<Rightarrow> s
     | Some e \<Rightarrow>
         if \<not> se_alive e then s
         else if \<not> is_reporter (cp_id player) e attackerId s then s
         else Broadcast (packet [hdr S2C_CombatKO, WriteRaw (MsgCombatKO_enc
                \<lparr>MsgCombatKO_entityId = entityId, MsgCombatKO_attackerId = attackerId,
                 MsgCombatKO_bodyPart = reason, MsgCombatKO_resultHealth = chestHealth\<rparr>)]) RU True
                (modify_entity entityId (\<lambda>e. e\<lparr>se_health := (se_health e)[0 := chestHealth]\<rparr>) s))))))"

definition HandleCombatDeath :: "ConnectedPlayer \<Rightarrow> PacketReader \<Rightarrow> GameServer \<Rightarrow> GameServer" where
  "HandleCombatDeath player r s = (case ReadStruct MsgCombatDeath_size MsgCombatDeath_dec r of
     (None, r) \<Rightarrow> s
   | (Some msg, r) \<Rightarrow> (case um_find (m_entities s) (MsgCombatDeath_entityId msg) of
       None \<Rightarrow> s
     | Some e \<Rightarrow>
         if \<not> se_alive e then s
         else if \<not> is_reporter (cp_id player) e (MsgCombatDeath_killerId msg) s then s
         else Broadcast (packet [hdr S2C_CombatDeath, WriteRaw (MsgCombatDeath_enc msg)]) RO True
                (modify_entity (MsgCombatDeath_entityId msg) (\<lambda>e. e\<lparr>se_alive := False\<rparr>) s)))"

definition HandleLimbHealth :: "ConnectedPlayer \<Rightarrow> PacketReader \<Rightarrow> GameServer \<Rightarrow> GameServer" where
  "HandleLimbHealth player r s = (case ReadStruct MsgLimbHealth_size MsgLimbHealth_dec r of
     (None, r) \<Rightarrow> s
   | (Some msg, r) \<Rightarrow> (case um_find (m_entities s) (MsgLimbHealth_entityId msg) of
       None \<Rightarrow> s
     | Some e \<Rightarrow>
         if se_owner e \<noteq> cp_id player then s
         else BroadcastExcept (cp_id player)
                (packet [hdr S2C_LimbHealth, WriteRaw (MsgLimbHealth_enc msg)]) RU True
                (modify_entity (MsgLimbHealth_entityId msg) (\<lambda>e. e\<lparr>se_limbHealth := MsgLimbHealth_health msg\<rparr>) s)))"

definition HandleStatusEffect :: "ConnectedPlayer \<Rightarrow> PacketReader \<Rightarrow> GameServer \<Rightarrow> GameServer" where
  "HandleStatusEffect player r s = (case ReadStruct MsgStatusEffect_size MsgStatusEffect_dec r of
     (None, r) \<Rightarrow> s
   | (Some msg, r) \<Rightarrow> (case um_find (m_entities s) (MsgStatusEffect_entityId msg) of
       None \<Rightarrow> s
     | Some e \<Rightarrow>
         if se_owner e \<noteq> cp_id player then s
         else if MsgStatusEffect_effectType msg > 4 then s
         else BroadcastExcept (cp_id player)
                (packet [hdr S2C_StatusEffect, WriteRaw (MsgStatusEffect_enc msg)]) RU True
                (modify_entity (MsgStatusEffect_entityId msg)
                   (\<lambda>e. e\<lparr>se_statusEffects := (se_statusEffects e)[unat (MsgStatusEffect_effectType msg) :=
                      MsgStatusEffect_active msg]\<rparr>) s)))"

section \<open>Transfers and doors\<close>

definition HandleItemTransfer :: "ConnectedPlayer \<Rightarrow> PacketReader \<Rightarrow> GameServer \<Rightarrow> GameServer" where
  "HandleItemTransfer player r s = (case ReadStruct MsgItemTransfer_size MsgItemTransfer_dec r of
     (None, r) \<Rightarrow> s
   | (Some msg, r) \<Rightarrow> (case um_find (m_entities s) (MsgItemTransfer_sourceEntityId msg) of
       None \<Rightarrow> s
     | Some src \<Rightarrow>
         if se_owner src \<noteq> cp_id player then s
         else if um_find (m_entities s) (MsgItemTransfer_destEntityId msg) = None then s
         else if sint (MsgItemTransfer_quantity msg) \<le> 0 \<or> sint (MsgItemTransfer_quantity msg) > 10000 then s
         else BroadcastExcept (cp_id player) (inventory_update (MsgItemTransfer_destEntityId msg) 0
                  (MsgItemTransfer_itemTemplateId msg) (MsgItemTransfer_quantity msg)) RU True
                (BroadcastExcept (cp_id player) (inventory_update (MsgItemTransfer_sourceEntityId msg) 1
                  (MsgItemTransfer_itemTemplateId msg) (MsgItemTransfer_quantity msg)) RU True s)))"

definition HandleDoorInteract :: "ConnectedPlayer \<Rightarrow> PacketReader \<Rightarrow> GameServer \<Rightarrow> GameServer" where
  "HandleDoorInteract player r s = (case ReadStruct MsgDoorInteract_size MsgDoorInteract_dec r of
     (None, r) \<Rightarrow> s
   | (Some msg, r) \<Rightarrow> (case um_find (m_entities s) (MsgDoorInteract_actorEntityId msg) of
       None \<Rightarrow> s
     | Some actor \<Rightarrow>
         if se_owner actor \<noteq> cp_id player then s
         else if um_find (m_entities s) (MsgDoorInteract_entityId msg) = None then s
         else if MsgDoorInteract_action msg > 3 then s
         else Broadcast (packet [hdr S2C_DoorState, WriteRaw (MsgDoorState_enc
                \<lparr>MsgDoorState_entityId = MsgDoorInteract_entityId msg,
                 MsgDoorState_state = MsgDoorInteract_action msg\<rparr>)]) RO True s))"

end
