(* ===== verification/Server_Session.thy ===== *)
theory Server_Session
  imports Server_World
begin

text \<open>
  \<^verbatim>\<open>KenshiMP.Server/server.cpp\<close>: connections, the handshake, disconnects and host migration, the
  lobby, admin commands, server queries and the periodic broadcasts.
\<close>

section \<open>Broadcasts of server state\<close>

definition position_record :: "ServerEntity \<Rightarrow> CharacterPosition" where
  "position_record e = \<lparr>CharacterPosition_entityId = se_id e, CharacterPosition_generation = se_generation e,
     CharacterPosition_posX = vx (se_position e), CharacterPosition_posY = vy (se_position e),
     CharacterPosition_posZ = vz (se_position e), CharacterPosition_compressedQuat = Compress (se_rotation e),
     CharacterPosition_animStateId = se_animState e, CharacterPosition_moveSpeed = se_moveSpeed e,
     CharacterPosition_flags = se_flags e\<rparr>"

definition positions_for :: "PlayerID \<Rightarrow> (EntityID, ServerEntity) umap \<Rightarrow> ServerEntity list" where
  "positions_for pid es = filter (\<lambda>e. se_owner e \<noteq> pid) (map snd es)"

definition positions_packet :: "ServerEntity list \<Rightarrow> bytes" where
  "positions_packet nearby = (let sendCount = min (length nearby) 255 in packet
     ([hdr S2C_PositionUpdate, WriteU32 0, WriteU8 (of_nat sendCount)] @
      map (\<lambda>e. WriteRaw (CharacterPosition_enc (position_record e))) (take sendCount nearby)))"

definition BroadcastPositions :: "GameServer \<Rightarrow> GameServer" where
  "BroadcastPositions s = do_enet (fold (\<lambda>(playerId, player) n.
     let nearby = positions_for playerId (m_entities s) in
     if nearby = [] then n
     else snd (enet_try (PeerSend (cp_peer player) KMP_CHANNEL_UNRELIABLE_SEQ (positions_packet nearby) False) n))
     (m_players s)) s"

definition BroadcastTimeSync :: "GameServer \<Rightarrow> GameServer" where
  "BroadcastTimeSync s = Broadcast (packet [hdr S2C_TimeSync, WriteRaw (MsgTimeSync_enc
     \<lparr>MsgTimeSync_serverTick = m_serverTick s, MsgTimeSync_timeOfDay = m_timeOfDay s,
      MsgTimeSync_weatherState = m_weatherState s, MsgTimeSync_gameSpeed = sc_gameSpeed (m_config s)\<rparr>)]) RO True s"

definition BroadcastHostAssignment :: "GameServer \<Rightarrow> GameServer" where
  "BroadcastHostAssignment s = Broadcast (packet [hdr S2C_HostAssignment, WriteRaw (MsgHostAssignment_enc
     \<lparr>MsgHostAssignment_newHostPlayerId = m_hostPlayerId s\<rparr>)]) RO True s"

definition heartbeat_ids :: "PlayerID \<Rightarrow> ZoneCoord \<Rightarrow> (EntityID, ServerEntity) umap \<Rightarrow> EntityID list" where
  "heartbeat_ids pid z es = map fst (filter (\<lambda>(eid, e). se_state e = Active \<and>
     (se_owner e = pid \<or> IsAdjacent (se_zone e) z \<or> se_owner e = 0)) es)"

definition heartbeat_packet :: "u32 \<Rightarrow> EntityID list \<Rightarrow> bytes" where
  "heartbeat_packet tick ids = packet ([hdr S2C_EntityHeartbeat, WriteU32 tick,
     WriteU16 (of_nat (length ids))] @ map WriteU32 ids)"

definition BroadcastEntityHeartbeat :: "GameServer \<Rightarrow> GameServer" where
  "BroadcastEntityHeartbeat s = fold (\<lambda>(playerId, player) s.
     SendTo playerId (heartbeat_packet (m_serverTick s) (heartbeat_ids playerId (cp_zone player) (m_entities s)))
       RO True s) (m_players s) s"

section \<open>Connect and disconnect\<close>

definition HandleConnect :: "peer \<Rightarrow> GameServer \<Rightarrow> GameServer" where
  "HandleConnect p s =
     (if length (m_players s) \<ge> size_t_of_int (sc_maxPlayers (m_config s))
      then do_enet (enet_out (PeerDisconnect p)) s
      else do_enet (enet_set_data p 0 \<circ> enet_out (PeerTimeout p)) s)"

definition release_entity :: "PlayerID \<Rightarrow> ServerEntity \<Rightarrow> ServerEntity" where
  "release_entity pid e = (if se_owner e = pid then e\<lparr>se_owner := 0\<rparr> else e)"

definition owned_ids :: "PlayerID \<Rightarrow> (EntityID, ServerEntity) umap \<Rightarrow> EntityID list" where
  "owned_ids pid es = map fst (filter (\<lambda>(eid, e). se_owner e = pid) es)"

definition release_entities :: "ConnectedPlayer \<Rightarrow> GameServer \<Rightarrow> GameServer" where
  "release_entities player s = (let ids = owned_ids (cp_id player) (m_entities s) in
     s\<lparr>m_entities := map (\<lambda>(k, e). (k, release_entity (cp_id player) e)) (m_entities s),
       m_savedPlayers := (if ids = [] then m_savedPlayers s
         else um_set (cp_name player) \<lparr>sp_name = cp_name player, sp_entityIds = ids\<rparr> (m_savedPlayers s))\<rparr>)"

definition reassign_host :: "PlayerID \<Rightarrow> GameServer \<Rightarrow> GameServer" where
  "reassign_host leavingId s =
     (if leavingId = m_hostPlayerId s then
        (case m_players s of
           [] \<Rightarrow> s\<lparr>m_hostPlayerId := 0\<rparr>
         | (newId, p) # _ \<Rightarrow> BroadcastHostAssignment
             (BroadcastSystemMessage (cp_name p @ lit '' is now the host'') (s\<lparr>m_hostPlayerId := newId\<rparr>)))
      else s)"

definition HandleDisconnect :: "peer \<Rightarrow> GameServer \<Rightarrow> GameServer" where
  "HandleDisconnect p s = do_enet (enet_set_data p 0) (case GetPlayerByPeer p s of
     None \<Rightarrow> s
   | Some player \<Rightarrow>
       let s1 = release_entities player s;
           s2 = BroadcastExcept (cp_id player) (packet [hdr S2C_PlayerLeft, WriteRaw (MsgPlayerLeft_enc
                  \<lparr>MsgPlayerLeft_playerId = cp_id player, MsgPlayerLeft_reason = 0\<rparr>)]) RO True s1;
           s3 = s2\<lparr>m_players := um_erase (cp_id player) (m_players s2)\<rparr>;
           s4 = reassign_host (cp_id player) s3
       in BroadcastSystemMessage (cp_name player @ lit '' left the game'') s4)"

section \<open>Handshake\<close>

definition IsLoopbackAddress :: "u32 \<Rightarrow> bool" where
  "IsLoopbackAddress host \<longleftrightarrow> host = 0x0100007F"

definition send_reject :: "peer \<Rightarrow> u8 \<Rightarrow> bytes \<Rightarrow> GameServer \<Rightarrow> GameServer" where
  "send_reject p code reason = do_enet (\<lambda>n. enet_out (PeerDisconnectLater p)
     (snd (enet_try (PeerSend p RO (packet [hdr S2C_HandshakeReject, WriteRaw (MsgHandshakeReject_enc
        \<lparr>MsgHandshakeReject_reasonCode = code, MsgHandshakeReject_reasonText = strncpy_buf 128 reason\<rparr>)]) True) n)))"

definition sanitize_name :: "bytes \<Rightarrow> bytes" where
  "sanitize_name buf = (let s = filter (\<lambda>c. 32 \<le> c \<and> c < 127) (cstr (take KMP_MAX_NAME_LENGTH buf))
     in if s = [] then lit ''Player'' else s)"

definition new_player :: "PlayerID \<Rightarrow> bytes \<Rightarrow> peer \<Rightarrow> GameServer \<Rightarrow> ConnectedPlayer" where
  "new_player pid name p s = \<lparr>cp_id = pid, cp_name = name, cp_peer = p, cp_position = Vec3_default,
     cp_zone = ZoneCoord_default, cp_ping = ep_rtt (peer_tab (m_enet s) p), cp_lastUpdate = m_uptime s,
     cp_ownedEntities = [], cp_lobbyReady = False,
     cp_isLoopback = IsLoopbackAddress (ep_host (peer_tab (m_enet s) p)), cp_isReady = False\<rparr>"

fun reclaim :: "PlayerID \<Rightarrow> EntityID list \<Rightarrow> GameServer \<Rightarrow> GameServer" where
  "reclaim pid [] s = s"
| "reclaim pid (eid # eids) s = reclaim pid eids (case um_find (m_entities s) eid of
     None \<Rightarrow> s
   | Some e \<Rightarrow> if se_owner e = 0
       then modify_player pid (\<lambda>p. p\<lparr>cp_ownedEntities := cp_ownedEntities p @ [eid]\<rparr>)
              (modify_entity eid (\<lambda>e. e\<lparr>se_owner := pid\<rparr>) s)
       else s)"

definition reclaim_saved :: "PlayerID \<Rightarrow> bytes \<Rightarrow> GameServer \<Rightarrow> GameServer" where
  "reclaim_saved pid name s = (case um_find (m_savedPlayers s) name of
     None \<Rightarrow> s
   | Some sp \<Rightarrow> let s1 = reclaim pid (sp_entityIds sp) s in s1\<lparr>m_savedPlayers := um_erase name (m_savedPlayers s1)\<rparr>)"

definition assign_host :: "ConnectedPlayer \<Rightarrow> GameServer \<Rightarrow> bool \<times> GameServer" where
  "assign_host player s =
     (if m_hostPlayerId s = 0 then (True, s\<lparr>m_hostPlayerId := cp_id player\<rparr>)
      else if cp_isLoopback player then
        (case um_find (m_players s) (m_hostPlayerId s) of
           Some cur \<Rightarrow> if \<not> cp_isLoopback cur then (True, s\<lparr>m_hostPlayerId := cp_id player\<rparr>) else (False, s)
         | None \<Rightarrow> (False, s))
      else (False, s))"

definition ack_packet :: "PlayerID \<Rightarrow> GameServer \<Rightarrow> bytes" where
  "ack_packet pid s = packet [hdr S2C_HandshakeAck, WriteRaw (MsgHandshakeAck_enc
     \<lparr>MsgHandshakeAck_playerId = pid, MsgHandshakeAck_serverTick = m_serverTick s,
      MsgHandshakeAck_timeOfDay = m_timeOfDay s, MsgHandshakeAck_weatherState = m_weatherState s,
      MsgHandshakeAck_maxPlayers = ucast (sc_maxPlayers (m_config s)),
      MsgHandshakeAck_currentPlayers = of_nat (length (m_players s)), MsgHandshakeAck_reserved = 0\<rparr>)]"

definition faction_strings :: "bytes list" where
  "faction_strings = [lit ''10-kenshi-online.mod'', lit ''12-kenshi-online.mod'']"

definition faction_slot :: "PlayerID \<Rightarrow> u32" where
  "faction_slot pid = (pid - 1) mod 2"

definition faction_packet :: "PlayerID \<Rightarrow> bytes" where
  "faction_packet pid = (let f = faction_strings ! unat (faction_slot pid) in
     packet [hdr S2C_FactionAssignment, WriteU16 (of_nat (length f)), WriteRaw f, WriteI32 (faction_slot pid)])"

definition joined_packet :: "PlayerID \<Rightarrow> bytes \<Rightarrow> bytes" where
  "joined_packet pid name = packet [hdr S2C_PlayerJoined, WriteRaw (MsgPlayerJoined_enc
     \<lparr>MsgPlayerJoined_playerId = pid, MsgPlayerJoined_playerName = strncpy_buf KMP_MAX_NAME_LENGTH name @ [0]\<rparr>)]"

definition send_existing :: "PlayerID \<Rightarrow> peer \<Rightarrow> GameServer \<Rightarrow> GameServer" where
  "send_existing pid p s = do_enet (fold (\<lambda>(existingId, ep) n. if existingId = pid then n
     else snd (enet_try (PeerSend p RO (joined_packet existingId (cp_name ep)) True) n)) (m_players s)) s"

text \<open>Undo of an admission whose reply could not be allocated.\<close>

definition abort_admission :: "PlayerID \<Rightarrow> peer \<Rightarrow> GameServer \<Rightarrow> GameServer" where
  "abort_admission pid p s = do_enet (enet_set_data p 0) (s\<lparr>m_players := um_erase pid (m_players s)\<rparr>)"

definition try_send :: "peer \<Rightarrow> bytes \<Rightarrow> GameServer \<Rightarrow> bool \<times> GameServer" where
  "try_send p data s = (case enet_try (PeerSend p RO data True) (m_enet s) of (ok, n) \<Rightarrow> (ok, s\<lparr>m_enet := n\<rparr>))"

text \<open>From the first announcement to other players to the end of the handshake.\<close>

definition announce_player :: "ConnectedPlayer \<Rightarrow> GameServer \<Rightarrow> GameServer" where
  "announce_player player s =
     (let pid = cp_id player;
          s1 = BroadcastExcept pid (joined_packet pid (cp_name player)) RO True s;
          s2 = send_existing pid (cp_peer player) s1;
          s3 = (case um_find (m_players s2) pid of None \<Rightarrow> s2 | Some p \<Rightarrow> SendWorldSnapshot p s2)
      in BroadcastSystemMessage (cp_name player @ lit '' joined the game'') s3)"

text \<open>Admission of a peer that passed the checks: entry, reclaim, host assignment, replies.\<close>

definition admit_player :: "peer \<Rightarrow> bytes \<Rightarrow> GameServer \<Rightarrow> GameServer" where
  "admit_player p name s0 =
    (case NextPlayerId s0 of (pid, s) \<Rightarrow>
     let player = new_player pid name p s;
         s1 = do_enet (enet_set_data p pid) s;
         s2 = s1\<lparr>m_players := um_set pid player (m_players s1)\<rparr>;
         s3 = reclaim_saved pid name s2
     in (case assign_host player s3 of (hostChanged, s4) \<Rightarrow>
        (case try_send p (ack_packet pid s4) s4 of (ok, s5) \<Rightarrow>
           if \<not> ok then abort_admission pid p s5
           else let s6 = (if hostChanged then BroadcastHostAssignment s5 else s5) in
             (case try_send p (faction_packet pid) s6 of (ok, s7) \<Rightarrow>
                if \<not> ok then abort_admission pid p s7
                else announce_player player s7))))"

definition full_text :: "GameServer \<Rightarrow> bytes" where
  "full_text s = lit ''Server is full ('' @ dec_nat (length (m_players s)) @ lit ''/'' @
     dec_int (sint (sc_maxPlayers (m_config s))) @ lit '')''"

definition version_text :: "u32 \<Rightarrow> bytes" where
  "version_text v = lit ''Version mismatch: server='' @ dec_int (sint KMP_PROTOCOL_VERSION) @
     lit '', client='' @ dec_int (sint v)"

definition HandleHandshake :: "peer \<Rightarrow> PacketReader \<Rightarrow> GameServer \<Rightarrow> GameServer" where
  "HandleHandshake p r s = (case ReadStruct MsgHandshake_size MsgHandshake_dec r of
     (None, r) \<Rightarrow> s
   | (Some msg, r) \<Rightarrow>
       if ep_data (peer_tab (m_enet s) p) \<noteq> 0 then s
       else if length (m_players s) \<ge> size_t_of_int (sc_maxPlayers (m_config s))
       then send_reject p 0 (full_text s) s
       else if MsgHandshake_protocolVersion msg \<noteq> KMP_PROTOCOL_VERSION
       then send_reject p 1 (version_text (MsgHandshake_protocolVersion msg)) s
       else admit_player p (sanitize_name (MsgHandshake_playerName msg)) s)"

section \<open>Server query\<close>

definition HandleServerQuery :: "peer \<Rightarrow> PacketReader \<Rightarrow> GameServer \<Rightarrow> GameServer" where
  "HandleServerQuery p r s = (case ReadStruct MsgServerQuery_size MsgServerQuery_dec r of
     (None, r) \<Rightarrow> s
   | (Some query, r) \<Rightarrow> do_enet (\<lambda>n. enet_out (PeerDisconnectLater p)
       (snd (enet_try (PeerSend p RO (packet [hdr S2C_ServerInfo, WriteRaw (MsgServerInfo_enc
         \<lparr>MsgServerInfo_protocolVersion = KMP_PROTOCOL_VERSION,
          MsgServerInfo_currentPlayers = of_nat (length (m_players s)),
          MsgServerInfo_maxPlayers = ucast (sc_maxPlayers (m_config s)),
          MsgServerInfo_port = sc_port (m_config s), MsgServerInfo_timeOfDay = m_timeOfDay s,
          MsgServerInfo_pvpEnabled = (if sc_pvpEnabled (m_config s) then 1 else 0),
          MsgServerInfo_reserved = [0, 0, 0],
          MsgServerInfo_serverName = strncpy_buf 64 (sc_serverName (m_config s))\<rparr>)]) True) n))) s)"

section \<open>Lobby and ready handshake\<close>

definition all_ready_text :: bytes where
  "all_ready_text = lit ''All players ready '' @ [0xE2, 0x80, 0x94] @ lit '' starting game!''"

definition HandleLobbyReady :: "ConnectedPlayer \<Rightarrow> GameServer \<Rightarrow> GameServer" where
  "HandleLobbyReady player s =
     (let s1 = modify_player (cp_id player) (\<lambda>p. p\<lparr>cp_lobbyReady := True\<rparr>) s;
          s2 = BroadcastSystemMessage (cp_name player @ lit '' is ready!'') s1
      in if (\<forall>(pid, p) \<in> set (m_players s2). cp_lobbyReady p) \<and> m_players s2 \<noteq> []
         then Broadcast (packet [hdr S2C_LobbyStart, WriteU8 (of_nat (length (m_players s2)))]) RO True
                (BroadcastSystemMessage all_ready_text s2)
         else s2)"

definition GetReadyPlayerCount :: "GameServer \<Rightarrow> nat" where
  "GetReadyPlayerCount s = length (filter (\<lambda>(pid, p). cp_isReady p) (m_players s))"

definition GetConnectedPlayerCount :: "GameServer \<Rightarrow> nat" where
  "GetConnectedPlayerCount s = length (m_players s)"

definition HandlePlayerReady :: "ConnectedPlayer \<Rightarrow> GameServer \<Rightarrow> GameServer" where
  "HandlePlayerReady player s =
     (if cp_isReady player then s
      else let s1 = modify_player (cp_id player) (\<lambda>p. p\<lparr>cp_isReady := True\<rparr>) s in
        if GetConnectedPlayerCount s1 > 1 \<and> GetReadyPlayerCount s1 = GetConnectedPlayerCount s1
        then Broadcast (packet [hdr S2C_AllPlayersReady]) RO True s1
        else s1)"

section \<open>Admin commands\<close>

text \<open>\<^verbatim>\<open>%.2f\<close> of a finite float.\<close>

definition fmt_f2 :: "f32 \<Rightarrow> bytes" where
  "fmt_f2 x = (let n = rne (mag_int (f32_mag x) * 100) (2 ^ 149) in
     (if f32_sign x then [45] else []) @ dec_nat (n div 100) @ [46, 48 + of_nat (n div 10 mod 10), 48 + of_nat (n mod 10)])"

definition admin_response :: "u8 \<Rightarrow> bytes \<Rightarrow> bytes" where
  "admin_response success text = packet [hdr S2C_AdminResponse, WriteRaw (MsgAdminResponse_enc
     \<lparr>MsgAdminResponse_success = success, MsgAdminResponse_responseText = strncpy_buf 128 text\<rparr>)]"

definition weather_names :: "bytes list" where
  "weather_names = [lit ''Clear'', lit ''Cloudy'', lit ''Dust Storm'', lit ''Rain'', lit ''Acid Rain'']"

definition admin_kick :: "PlayerID \<Rightarrow> bytes \<Rightarrow> GameServer \<Rightarrow> bytes \<times> GameServer" where
  "admin_kick targetId text s = (case GetPlayer targetId s of
     Some target \<Rightarrow>
       if cp_id target \<noteq> m_hostPlayerId s then
         let reason = (if text \<noteq> [] then text else lit ''Kicked by host'');
             s1 = BroadcastSystemMessage (cp_name target @ lit '' was kicked: '' @ reason) s;
             s2 = send_reject (cp_peer target) 2 reason s1
         in (lit ''Kicked '' @ cp_name target, s2)
       else (lit ''Player not found or cannot kick host.'', s)
   | None \<Rightarrow> (lit ''Player not found or cannot kick host.'', s))"

definition admin_command :: "u8 \<Rightarrow> PlayerID \<Rightarrow> f32 \<Rightarrow> bytes \<Rightarrow> GameServer \<Rightarrow> bytes \<times> GameServer" where
  "admin_command cmd targetId f text s =
     (if cmd = 0 then admin_kick targetId text s
      else if cmd = 2 then
        (if f32_le 0 f \<and> f32_lt f (f32_of_int 1)
         then (lit ''Time set to '' @ fmt_f2 f, BroadcastTimeSync (s\<lparr>m_timeOfDay := f\<rparr>))
         else (lit ''Invalid time (0.0-1.0)'', s))
      else if cmd = 3 then
        (let weather = f32_to_i32 f in
         if sint weather \<ge> 0 \<and> sint weather \<le> 4
         then (lit ''Weather set to '' @ weather_names ! unat weather, BroadcastTimeSync (s\<lparr>m_weatherState := weather\<rparr>))
         else (lit ''Invalid weather (0-4)'', s))
      else if cmd = 4 then
        (if text \<noteq> [] then (lit ''Announced.'', BroadcastSystemMessage (lit ''[HOST] '' @ text) s)
         else (lit ''Empty announcement.'', s))
      else if cmd = 5 then
        (if f32_le (f32_lit 1 10) f \<and> f32_le f (f32_of_int 10)
         then (lit ''Game speed set to '' @ fmt_f2 f @ lit ''x'',
               BroadcastTimeSync (s\<lparr>m_config := (m_config s)\<lparr>sc_gameSpeed := f\<rparr>\<rparr>))
         else (lit ''Invalid speed (must be 0.1-10.0)'', s))
      else (lit ''Unknown admin command.'', s))"

text \<open>
  \<open>beyond\<close> is the memory that follows the struct: \<^verbatim>\<open>textParam\<close> is read as a C string although the
  client need not terminate it.
\<close>

definition HandleAdminCommand :: "bytes \<Rightarrow> ConnectedPlayer \<Rightarrow> PacketReader \<Rightarrow> GameServer \<Rightarrow> GameServer" where
  "HandleAdminCommand beyond player r s = (case ReadStruct MsgAdminCommand_size MsgAdminCommand_dec r of
     (None, r) \<Rightarrow> s
   | (Some msg, r) \<Rightarrow>
       if cp_id player \<noteq> m_hostPlayerId s
       then SendTo (cp_id player)
              (admin_response 0 (lit ''Permission denied: only the host can use admin commands.'')) RO True s
       else (case admin_command (MsgAdminCommand_commandType msg) (MsgAdminCommand_targetPlayerId msg)
                (MsgAdminCommand_floatParam msg) (cstr (MsgAdminCommand_textParam msg @ beyond)) s of
              (text, s1) \<Rightarrow> SendTo (cp_id player) (admin_response 1 text) RO True s1))"

definition KickPlayer :: "PlayerID \<Rightarrow> bytes \<Rightarrow> GameServer \<Rightarrow> GameServer" where
  "KickPlayer pid reason s = (case GetPlayer pid s of
     None \<Rightarrow> s
   | Some player \<Rightarrow> do_enet (enet_out (PeerDisconnect (cp_peer player)))
       (BroadcastSystemMessage (cp_name player @ lit '' was kicked: '' @ reason) s))"

end
