(* ===== verification/Wire_Properties.thy ===== *)
theory Wire_Properties
  imports Server_Session
begin

text \<open>
  Properties of the wire format: what is written is read back, reads stay inside the packet, and
  the numeric encodings (zones, quaternions) stay inside their ranges.
\<close>

section \<open>Reading at a cursor\<close>

text \<open>A reader whose consumed part is \<open>pre\<close> and whose remaining part is \<open>rest\<close>.\<close>

definition reader_at :: "bytes \<Rightarrow> bytes \<Rightarrow> PacketReader" where
  "reader_at pre rest = \<lparr>m_data = pre @ rest, m_pos = length pre\<rparr>"

lemma reader_at_new: "PacketReader_new bs = reader_at [] bs"
  by (simp add: PacketReader_new_def reader_at_def)

named_theorems read_at

lemma Remaining_at [read_at]: "Remaining (reader_at pre rest) = length rest"
  by (simp add: Remaining_def reader_at_def)

text \<open>Reading a run of \<open>n\<close> structs.\<close>

fun read_run :: "nat \<Rightarrow> (bytes \<Rightarrow> 'm) \<Rightarrow> nat \<Rightarrow> PacketReader \<Rightarrow> 'm list" where
  "read_run sz dec 0 r = []"
| "read_run sz dec (Suc n) r = (case ReadStruct sz dec r of (None, r) \<Rightarrow> [] | (Some m, r) \<Rightarrow> m # read_run sz dec n r)"

context wire_struct
begin

lemma struct_at: "wf m \<Longrightarrow> ReadStruct sz dec (reader_at pre (enc m @ rest)) = (Some m, reader_at (pre @ enc m) rest)"
  using read_written [of m pre rest] by (simp add: reader_at_def enc_length)

lemma read_run_at:
  "list_all wf ms \<Longrightarrow> read_run sz dec (length ms) (reader_at pre (concat (map enc ms) @ rest)) = ms"
  by (induction ms arbitrary: pre) (simp_all add: struct_at)

end

lemma scalars_at [read_at]:
  "ReadU8 (reader_at pre (bytes_u8 a @ rest)) = (Some a, reader_at (pre @ bytes_u8 a) rest)"
  "ReadU16 (reader_at pre (bytes_u16 b @ rest)) = (Some b, reader_at (pre @ bytes_u16 b) rest)"
  "ReadU32 (reader_at pre (bytes_u32 c @ rest)) = (Some c, reader_at (pre @ bytes_u32 c) rest)"
  "ReadI32 (reader_at pre (bytes_u32 c @ rest)) = (Some c, reader_at (pre @ bytes_u32 c) rest)"
  "ReadF32 (reader_at pre (bytes_u32 c @ rest)) = (Some c, reader_at (pre @ bytes_u32 c) rest)"
  "ReadHeader (reader_at pre (PacketHeader_enc h @ rest)) = (Some h, reader_at (pre @ PacketHeader_enc h) rest)"
  unfolding reader_defs
  by (rule wire_u8.struct_at wire_u16.struct_at wire_u32.struct_at header.struct_at, rule TrueI)+

lemma last_u8_at [read_at]: "ReadU8 (reader_at pre (bytes_u8 a)) = (Some a, reader_at (pre @ bytes_u8 a) [])"
  using scalars_at(1) [of pre a "[]"] by simp

lemma raw_at [read_at]: "length bs = n \<Longrightarrow> ReadRaw n (reader_at pre (bs @ rest)) = (Some bs, reader_at (pre @ bs) rest)"
  by (auto simp: ReadRaw_def reader_at_def bslice_def)

lemma vec3_at [read_at]: "ReadVec3 (reader_at pre (bytes_u32 x @ bytes_u32 y @ bytes_u32 z @ rest)) =
    (Some (x, y, z), reader_at (((pre @ bytes_u32 x) @ bytes_u32 y) @ bytes_u32 z) rest)"
  by (simp add: ReadVec3_def read_at)

lemmas write_at = packet_def writer_defs WriteRaw_def WriteF32_def WriteString_def Let_def

section \<open>Strings and bounds\<close>

lemma ReadRaw_reader_ok: "reader_ok r \<Longrightarrow> reader_ok (snd (ReadRaw n r))"
  by (simp add: ReadRaw_def reader_ok_def)

lemma WriteString_bytes:
  assumes "length s < 65536" shows "WriteString s [] = bytes_u16 (of_nat (length s)) @ s"
proof (cases s)
  case (Cons a xs)
  have n: "unat (of_nat (length s) :: u16) = length s" using assms by (simp add: unat_of_nat)
  then have "(of_nat (length s) :: u16) \<noteq> 0" using Cons by (metis list.size(3) unat_0 length_0_conv list.distinct(1))
  then show ?thesis using n by (simp add: WriteString_def Let_def writer_defs WriteRaw_def word_neq_0_conv)
qed (simp add: WriteString_def writer_defs WriteRaw_def)

lemma string_at:
  assumes "length s \<le> 1024"
  shows "ReadString 1024 (reader_at pre (WriteString s [] @ rest)) = (Some s, reader_at (pre @ WriteString s []) rest)"
proof -
  have "unat (of_nat (length s) :: u16) = length s" "length s < 65536" using assms by (simp_all add: unat_of_nat)
  then show ?thesis using assms
    by (simp add: WriteString_bytes ReadString_def read_at) (auto simp: reader_at_def bslice_def)
qed

text \<open>
  A string written with \<^verbatim>\<open>WriteString\<close> is read back by \<^verbatim>\<open>ReadString\<close> when it has at most 1024
  bytes, leaving the cursor behind it, and a longer one (up to the 65535 bytes its length field
  can express) is refused.
\<close>

theorem string_roundtrip:
  assumes "length s < 65536"
  shows "ReadString 1024 (reader_at pre (WriteString s [] @ rest)) =
    (if length s \<le> 1024 then (Some s, reader_at (pre @ WriteString s []) rest)
     else (None, reader_at (pre @ bytes_u16 (of_nat (length s))) (s @ rest)))"
proof (cases "length s \<le> 1024")
  case False
  have "unat (of_nat (length s) :: u16) = length s" using assms by (simp add: unat_of_nat)
  with False show ?thesis by (simp add: WriteString_bytes [OF assms] ReadString_def read_at)
qed (simp add: string_at)

theorem string_roundtrip_witness:
  "ReadString 1024 (reader_at [] (WriteString (lit ''hi'') [] @ [7])) =
     (Some (lit ''hi''), reader_at (WriteString (lit ''hi'') []) [7])"
  using string_roundtrip [of "lit ''hi''" "[]" "[7]"] by (simp add: lit_def)

text \<open>
  No read leaves the packet: starting from a fresh reader, every read operation keeps the
  cursor at or before the end of the buffer and never touches the buffer, whether it succeeds or
  not.
\<close>

theorem reads_stay_inside:
  assumes "reader_ok r"
  shows "reader_ok (snd (ReadHeader r)) \<and> reader_ok (snd (ReadU8 r)) \<and> reader_ok (snd (ReadU16 r)) \<and>
    reader_ok (snd (ReadU32 r)) \<and> reader_ok (snd (ReadI32 r)) \<and> reader_ok (snd (ReadF32 r)) \<and>
    reader_ok (snd (ReadRaw n r)) \<and> reader_ok (snd (ReadString maxLen r)) \<and>
    m_data (snd (ReadRaw n r)) = m_data r \<and> m_data (snd (ReadString maxLen r)) = m_data r"
proof -
  have "reader_ok (snd (ReadString maxLen r)) \<and> m_data (snd (ReadString maxLen r)) = m_data r"
    using ReadStruct_ok [OF assms, of 2 u16_of] ReadStruct_data [of 2 u16_of r]
    by (cases "ReadStruct 2 u16_of r") (auto simp: ReadString_def ReadU16_def reader_ok_def split: option.splits)
  then show ?thesis using assms ReadRaw_reader_ok [OF assms]
    by (auto simp: reader_defs ReadRaw_def)
qed

theorem reads_stay_inside_witness:
  "reader_ok (snd (ReadString 1024 (PacketReader_new [200, 0, 1])))"
  using reads_stay_inside [OF reader_ok_new, of "[200, 0, 1]" 0 1024] by blast

section \<open>Messages\<close>

text \<open>
  A handshake written by the client is decoded field by field by the server: the header
  carries the message type, and the body is the struct that was written.
\<close>

theorem handshake_roundtrip:
  assumes "MsgHandshake_wf m"
  shows "case ReadHeader (PacketReader_new (packet [hdr C2S_Handshake, WriteRaw (MsgHandshake_enc m)])) of
    (h, r) \<Rightarrow> map_option ph_type h = Some C2S_Handshake \<and>
      fst (ReadStruct MsgHandshake_size MsgHandshake_dec r) = Some m \<and>
      Remaining (snd (ReadStruct MsgHandshake_size MsgHandshake_dec r)) = 0"
  using MsgHandshake.struct_at [OF assms, where rest = "[]"]
  by (simp add: write_at reader_at_new read_at)

theorem handshake_roundtrip_witness:
  "MsgHandshake_wf (MsgHandshake_dec (replicate 40 65)) \<and>
   fst (ReadStruct MsgHandshake_size MsgHandshake_dec (snd (ReadHeader (PacketReader_new
     (packet [hdr C2S_Handshake, WriteRaw (MsgHandshake_enc (MsgHandshake_dec (replicate 40 65)))]))))) =
   Some (MsgHandshake_dec (replicate 40 65))"
proof -
  have wf: "MsgHandshake_wf (MsgHandshake_dec (replicate 40 65))"
    by (rule MsgHandshake.dec_wf) (simp add: MsgHandshake_size_def)
  then show ?thesis using handshake_roundtrip [OF wf] by (auto split: prod.splits)
qed

lemma fold_write_records: "fold (\<lambda>f w. f w) (map (\<lambda>e. WriteRaw (g e)) xs) w = w @ concat (map g xs)"
  by (induction xs arbitrary: w) (simp_all add: WriteRaw_def)

text \<open>
  The per-tick position packet decodes to the records of the first 255 entities the receiver
  does not own: the count byte never wraps and no record is lost or cut.
\<close>

theorem positions_roundtrip:
  "case ReadHeader (PacketReader_new (positions_packet nearby)) of (h, r) \<Rightarrow>
   (case ReadU32 r of (source, r) \<Rightarrow> (case ReadU8 r of (count, r) \<Rightarrow>
      map_option ph_type h = Some S2C_PositionUpdate \<and> source = Some 0 \<and>
      count = Some (of_nat (min (length nearby) 255)) \<and>
      read_run CharacterPosition_size CharacterPosition_dec (unat (the count)) r = map position_record (take 255 nearby)))"
proof -
  let ?n = "min (length nearby) 255" and ?ps = "map position_record (take (min (length nearby) 255) nearby)"
  have p: "positions_packet nearby = PacketHeader_enc \<lparr>ph_type = S2C_PositionUpdate, ph_flags = 0, ph_sequence = 0, ph_timestamp = 0\<rparr> @
      bytes_u32 0 @ bytes_u8 (of_nat ?n) @ concat (map CharacterPosition_enc ?ps)"
    by (simp add: positions_packet_def packet_def Let_def fold_write_records writer_defs WriteRaw_def comp_def)
  have "unat (of_nat ?n :: u8) = length ?ps" by (simp add: unat_of_nat)
  moreover have "read_run CharacterPosition_size CharacterPosition_dec (length ?ps) (reader_at pre (concat (map CharacterPosition_enc ?ps))) = ?ps" for pre
    using CharacterPosition.read_run_at [of ?ps pre "[]"] by (simp add: list_all_iff)
  moreover have "?ps = map position_record (take 255 nearby)" by (simp add: min_def)
  ultimately show ?thesis unfolding p reader_at_new by (simp only: read_at prod.case) simp
qed

lemma fold_write_floats: "fold (\<lambda>f w. f w) (map WriteF32 xs) w = w @ concat (map bytes_u32 xs)"
  by (induction xs arbitrary: w) (simp_all add: WriteF32_def WriteRaw_def)

lemma read_floats_at:
  "length ds = length xs \<Longrightarrow> read_floats ds (reader_at pre (concat (map bytes_u32 xs) @ rest)) =
     (xs, reader_at (pre @ concat (map bytes_u32 xs)) rest)"
proof (induction xs arbitrary: ds pre)
  case (Cons x xs)
  then obtain d ds' where "ds = d # ds'" by (cases ds) auto
  then show ?case using Cons.IH [of ds' "pre @ bytes_u32 x"] Cons.prems by (simp add: read_at)
qed simp

lemma length_concat_u32: "length (concat (map bytes_u32 xs)) = 4 * length xs"
  by (induction xs) simp_all

lemma read_template_name_at:
  assumes "length name \<le> 255"
  shows "read_template_name (reader_at pre (bytes_u16 (of_nat (length name)) @ name @ rest)) =
    (name, reader_at (pre @ bytes_u16 (of_nat (length name)) @ name) rest)"
  using assms by (simp add: read_template_name_def read_at Let_def unat_of_nat)

lemma read_extended_at:
  assumes "length hs = 7"
  shows "read_extended (reader_at pre (bytes_u8 1 @ concat (map bytes_u32 hs) @ bytes_u8 (if a then 1 else 0))) = Some (hs, a)"
proof -
  have "length (concat (map bytes_u32 hs) @ bytes_u8 (if a then 1 else 0)) = 29"
    using assms by (simp add: length_concat_u32)
  then show ?thesis using assms read_floats_at [of "replicate 7 (f32_of_int 100)" hs]
    by (simp add: read_extended_def read_at)
qed

lemma spawn_read:
  assumes "length name \<le> 255" "length hs = 7"
  shows "read_spawn_req (snd (ReadHeader (PacketReader_new
      (spawn_packet eid ty owner templateId p quat faction name hs alive)))) =
    Some \<lparr>sr_clientEntityId = eid, sr_type = ty, sr_ownerId = owner, sr_templateId = templateId,
      sr_pos = p, sr_compQuat = quat, sr_factionId = faction, sr_templateName = name,
      sr_extended = Some (hs, alive)\<rparr>"
proof -
  have n: "unat (of_nat (length name) :: u16) = length name" using assms(1) by (simp add: unat_of_nat)
  have pk: "spawn_packet eid ty owner templateId p quat faction name hs alive =
      PacketHeader_enc \<lparr>ph_type = S2C_EntitySpawn, ph_flags = 0, ph_sequence = 0, ph_timestamp = 0\<rparr> @
      bytes_u32 eid @ bytes_u8 ty @ bytes_u32 owner @ bytes_u32 templateId @
      bytes_u32 (vx p) @ bytes_u32 (vy p) @ bytes_u32 (vz p) @ bytes_u32 quat @ bytes_u32 faction @
      bytes_u16 (of_nat (length name)) @ name @ bytes_u8 1 @ concat (map bytes_u32 hs) @ bytes_u8 (if alive then 1 else 0)"
  proof (cases "name = []")
    case True
    then show ?thesis using assms(2)
      by (simp add: spawn_packet_def packet_def writer_defs WriteF32_def WriteRaw_def fold_write_floats)
  next
    case False
    then have "(of_nat (length name) :: u16) \<noteq> 0" using n by (metis length_0_conv unat_0)
    then show ?thesis using assms(2) n
      by (simp add: spawn_packet_def packet_def writer_defs WriteF32_def WriteRaw_def fold_write_floats word_neq_0_conv)
  qed
  show ?thesis unfolding pk reader_at_new
    by (simp add: read_at read_spawn_req_def read_template_name_at [OF assms(1)] read_extended_at [OF assms(2)] Vec3_new_def)
qed

text \<open>
  The spawn announcement the server writes (\<^verbatim>\<open>S2C_EntitySpawn\<close>) has the layout the spawn parser
  reads: parsing it gives back the id, type, owner, template, position, rotation, faction,
  template name, the seven health values and the alive flag.
\<close>

theorem spawn_roundtrip:
  assumes "length name \<le> 255" "length hs = 7"
  shows "read_spawn_req (snd (ReadHeader (PacketReader_new
      (spawn_packet eid ty owner templateId p quat faction name hs alive)))) =
    Some \<lparr>sr_clientEntityId = eid, sr_type = ty, sr_ownerId = owner, sr_templateId = templateId,
      sr_pos = p, sr_compQuat = quat, sr_factionId = faction, sr_templateName = name,
      sr_extended = Some (hs, alive)\<rparr>"
  using assms by (rule spawn_read)

theorem spawn_roundtrip_witness:
  "map_option sr_extended (read_spawn_req (snd (ReadHeader (PacketReader_new
      (spawn_packet 7 0 1 2 Vec3_default 0 3 (lit ''Greenlander'') (replicate 7 0) False))))) =
   Some (Some (replicate 7 0, False))"
  using spawn_roundtrip [of "lit ''Greenlander''" "replicate 7 0" 7 0 1 2 Vec3_default 0 3 False] by (simp add: lit_def)

section \<open>Zones and rotations\<close>

text \<open>
  Zones never overflow: a position that passes the coordinate check lies in a zone with
  coordinates between -1334 and 1333, so the float to integer conversion is defined, and for two
  such positions \<^verbatim>\<open>IsAdjacent\<close>, computed in 32-bit arithmetic, is the mathematical Chebyshev
  distance at most 1, hence symmetric.
\<close>

theorem zones_of_positions:
  assumes "\<not> bad_coords (vx p) (vy p) (vz p)" "\<not> bad_coords (vx q) (vy q) (vz q)"
  defines "a \<equiv> FromWorldPos p KMP_ZONE_SIZE" and "b \<equiv> FromWorldPos q KMP_ZONE_SIZE"
  shows "- 1334 \<le> sint (zx a) \<and> sint (zx a) \<le> 1333 \<and> - 1334 \<le> sint (zy a) \<and> sint (zy a) \<le> 1333 \<and>
    (IsAdjacent a b \<longleftrightarrow> \<bar>sint (zx a) - sint (zx b)\<bar> \<le> 1 \<and> \<bar>sint (zy a) - sint (zy b)\<bar> \<le> 1) \<and>
    IsAdjacent a b = IsAdjacent b a"
proof -
  have z: "zone_small a" "zone_small b" unfolding a_def b_def by (rule FromWorldPos_small, rule assms)+
  then show ?thesis using IsAdjacent_small [OF z] IsAdjacent_small [OF z(2,1)]
    by (auto simp: zone_small_def abs_minus_commute)
qed

theorem zones_of_positions_witness:
  "IsAdjacent (FromWorldPos (Vec3_new (f32_of_int 800) 0 0) KMP_ZONE_SIZE) (FromWorldPos Vec3_default KMP_ZONE_SIZE) =
   IsAdjacent (FromWorldPos Vec3_default KMP_ZONE_SIZE) (FromWorldPos (Vec3_new (f32_of_int 800) 0 0) KMP_ZONE_SIZE)"
proof -
  have "\<not> bad_coords (f32_of_int 800) 0 0" "\<not> bad_coords 0 0 0" by (simp_all add: bad_coords_def f32_eval)
  then have "\<not> bad_coords (vx (Vec3_new (f32_of_int 800) 0 0)) (vy (Vec3_new (f32_of_int 800) 0 0)) (vz (Vec3_new (f32_of_int 800) 0 0))"
    "\<not> bad_coords (vx Vec3_default) (vy Vec3_default) (vz Vec3_default)"
    by (simp_all add: Vec3_new_def Vec3_default_def)
  from zones_of_positions [OF this] show ?thesis by blast
qed

definition quat_bounded :: "Quat \<Rightarrow> bool" where
  "quat_bounded q \<longleftrightarrow> list_all (\<lambda>c. f32_isfinite c \<and> f32_le (f32_of_int (- 1)) c \<and> f32_le c (f32_of_int 1)) (quat_comps q)"

lemma unit_comp_bounded: "unit_comp c \<Longrightarrow> f32_isfinite c \<and> f32_le (f32_of_int (- 1)) c \<and> f32_le c (f32_of_int 1)"
proof -
  have "f32_isfinite (f32_of_int (- 1))" "f32_isfinite (f32_of_int 1)"
    "f32_sval (f32_of_int (- 1)) = - (2 ^ 149)" "f32_sval (f32_of_int 1) = 2 ^ 149"
    by (simp_all add: f32_eval)
  then show "unit_comp c \<Longrightarrow> ?thesis" by (simp add: unit_comp_def f32_between_def f32_le_sval)
qed

text \<open>
  Decompressing any 32-bit pattern gives a rotation whose four components are finite numbers
  in [-1, 1]: no packet can make the server store a NaN or an unbounded rotation.
\<close>

theorem decompressed_rotation_bounded: "quat_bounded (Decompress packed)"
  using Decompress_unit [of packed] by (simp add: quat_bounded_def list_all_iff unit_comp_bounded)

text \<open>
  Compression keeps the index of the component it drops and the three quantised others: what
  \<^verbatim>\<open>Decompress\<close> extracts from the packed word is the index of the component of largest magnitude,
  and in slot \<open>k\<close> the quantised \<open>k\<close>-th remaining component (with the sign that makes the dropped one
  positive).
\<close>

theorem compressed_layout:
  assumes "k < 3"
  shows "unat (drop_bit 30 (Compress q) AND 3) = quat_largest (quat_comps q) \<and>
    slot_field (Compress q) k = word_of_int (quantize (f32_mul
      (map (\<lambda>i. quat_comps q ! i) (filter (\<lambda>i. i \<noteq> quat_largest (quat_comps q)) [0, 1, 2, 3]) ! k)
      (if f32_lt (quat_comps q ! quat_largest (quat_comps q)) 0 then f32_neg (f32_of_int 1) else f32_of_int 1)))"
  using Compress_fields(1) [of q] Compress_fields(2) [OF assms, of q] quat_largest_less [of "quat_comps q"]
  by (simp add: unat_of_nat)

theorem compressed_layout_witness:
  "unat (drop_bit 30 (Compress Quat_default) AND 3) = quat_largest (quat_comps Quat_default)"
  using compressed_layout [of 0 Quat_default] by simp

end
