(* ===== verification/World_Persistence.thy ===== *)
theory World_Persistence
  imports Server_State "HOL-Library.List_Lexorder" "HOL-Library.Multiset"
begin

text \<open>
  \<^verbatim>\<open>KenshiMP.Server/world_persistence.cpp\<close>: the document \<^verbatim>\<open>SaveWorldToFile\<close> builds, the way it
  replaces the file on disk, and \<^verbatim>\<open>LoadWorldFromFile\<close>.

  The JSON library (nlohmann) is not part of the sources.  A document is what its accessors
  return: a member is \<open>None\<close> when reading it with the type the source asks for throws.  The
  functions \<open>dump\<close> (which may throw, \<open>None\<close>) and \<open>parse\<close> are arguments.
\<close>

section \<open>Documents\<close>

record json_entity =
  je_id :: "EntityID option"
  je_type :: "i32 option"
  je_owner :: "PlayerID option"
  je_templateId :: "u32 option"
  je_factionId :: "u32 option"
  je_position :: "Vec3 option"
  je_rotation :: "Quat option"
  je_alive :: "bool option"
  je_health :: "f32 option list"
  je_templateName :: "bytes option"
  je_equipment :: "u32 option list"

record json_doc =
  jd_version :: "i32 option"
  jd_timeOfDay :: "f32 option"
  jd_weather :: "i32 option"
  jd_entities :: "json_entity list option"
  jd_players :: "(bytes \<times> EntityID option list) list option"

text \<open>What opening and parsing a path gives.\<close>

datatype json_file = NoFile | Unparsable | Document json_doc

section \<open>Saving\<close>

definition entity_json :: "ServerEntity \<Rightarrow> json_entity" where
  "entity_json e = \<lparr>je_id = Some (se_id e), je_type = Some (ucast (se_type e)), je_owner = Some (se_owner e),
     je_templateId = Some (se_templateId e), je_factionId = Some (se_factionId e),
     je_position = Some (se_position e), je_rotation = Some (se_rotation e), je_alive = Some (se_alive e),
     je_health = map Some (take 7 (se_health e)), je_templateName = Some (se_templateName e),
     je_equipment = map Some (take 14 (se_equipment e))\<rparr>"

text \<open>The members of a JSON object are kept in key order.\<close>

definition world_json :: "WorldSave \<Rightarrow> json_doc" where
  "world_json w = \<lparr>jd_version = Some 2, jd_timeOfDay = Some (ws_timeOfDay w), jd_weather = Some (ws_weather w),
     jd_entities = Some (map (entity_json \<circ> snd) (ws_entities w)),
     jd_players = Some (sort_key fst (map (\<lambda>(name, sp). (name, map Some (sp_entityIds sp))) (ws_players w)))\<rparr>"

text \<open>
  The file system as a map from paths to contents.  \<open>fs_env\<close> says which of the calls the
  operating system lets succeed, in the order the function makes them.
\<close>

type_synonym fs = "bytes \<rightharpoonup> bytes"

record fs_env =
  fe_open :: bool
  fe_write :: bool
  fe_move :: bool
  fe_rename_old :: bool
  fe_rename_new :: bool
  fe_rename_back :: bool

definition fs_remove :: "bytes \<Rightarrow> fs \<Rightarrow> fs" where
  "fs_remove p d = d(p := None)"

text \<open>
  \<^verbatim>\<open>std::rename\<close>: fails when the source does not exist or the destination does.  \<^verbatim>\<open>MoveFileExA\<close>
  replaces the destination.
\<close>

definition fs_rename :: "bool \<Rightarrow> bytes \<Rightarrow> bytes \<Rightarrow> fs \<Rightarrow> bool \<times> fs" where
  "fs_rename ok from to d = (case d from of
     None \<Rightarrow> (False, d)
   | Some c \<Rightarrow> if ok \<and> d to = None then (True, d(to := Some c, from := None)) else (False, d))"

definition fs_move :: "bool \<Rightarrow> bytes \<Rightarrow> bytes \<Rightarrow> fs \<Rightarrow> bool \<times> fs" where
  "fs_move ok from to d = (case d from of
     None \<Rightarrow> (False, d)
   | Some c \<Rightarrow> if ok then (True, d(to := Some c, from := None)) else (False, d))"

datatype save_result = Saved | SaveFailed | SaveThrows

definition tmp_path :: "bytes \<Rightarrow> bytes" where "tmp_path p = p @ lit ''.tmp''"
definition bak_path :: "bytes \<Rightarrow> bytes" where "bak_path p = p @ lit ''.bak''"

text \<open>
  The states of the file system during the fallback (rotate the old file to the backup, the
  temporary file to the target), the last one being the final one.
\<close>

definition save_fallback :: "fs_env \<Rightarrow> bytes \<Rightarrow> fs \<Rightarrow> save_result \<times> fs list" where
  "save_fallback env path d0 =
     (let d1 = fs_remove (bak_path path) d0;
          d2 = snd (fs_rename (fe_rename_old env) path (bak_path path) d1)
      in case fs_rename (fe_rename_new env) (tmp_path path) path d2 of
           (True, d3) \<Rightarrow> (Saved, [d1, d2, d3, fs_remove (bak_path path) d3])
         | (False, d3) \<Rightarrow> (SaveFailed, [d1, d2, d3, snd (fs_rename (fe_rename_back env) (bak_path path) path d3)]))"

text \<open>
  \<^verbatim>\<open>SaveWorldToFile\<close>: the result and the states the file system goes through, the last one
  being the final one.  \<open>fe_write\<close> is what \<^verbatim>\<open>good()\<close> reports after writing and flushing.
\<close>

definition SaveWorldToFile :: "(json_doc \<Rightarrow> bytes option) \<Rightarrow> fs_env \<Rightarrow> WorldSave \<Rightarrow> fs \<Rightarrow> save_result \<times> fs list" where
  "SaveWorldToFile dump env w d =
     (let path = ws_path w; tmp = tmp_path path in
      if \<not> fe_open env then (SaveFailed, [d])
      else let d0 = d(tmp := Some []) in
        (case dump (world_json w) of
           None \<Rightarrow> (SaveThrows, [d, d0])
         | Some text \<Rightarrow>
            if \<not> fe_write env then (SaveFailed, [d, d0, fs_remove tmp d0])
            else let d1 = d0(tmp := Some text) in
              (case fs_move (fe_move env) tmp path d1 of
                 (True, d2) \<Rightarrow> (Saved, [d, d0, d1, d2])
               | (False, d2) \<Rightarrow> (case save_fallback env path d2 of (r, ds) \<Rightarrow> (r, [d, d0, d1, d2] @ ds)))))"

section \<open>Loading\<close>

datatype load_step = LoadThrows | LoadSkip EntityID | LoadOk ServerEntity

text \<open>Overwrite the leading elements; reading an element may throw.\<close>

fun overlay :: "'a list \<Rightarrow> 'a option list \<Rightarrow> 'a list option" where
  "overlay [] ys = Some []"
| "overlay xs [] = Some xs"
| "overlay (x # xs) (y # ys) = (case y of None \<Rightarrow> None | Some v \<Rightarrow> map_option (Cons v) (overlay xs ys))"

definition load_entity :: "json_entity \<Rightarrow> load_step" where
  "load_entity e = (case (je_id e, je_type e, je_templateId e, je_factionId e, je_position e) of
     (Some eid, Some type, Some templateId, Some factionId, Some p) \<Rightarrow>
       if bad_coords (vx p) (vy p) (vz p) then LoadSkip eid
       else (case (je_rotation e, je_alive e, overlay (replicate 7 (f32_of_int 100)) (je_health e),
                   je_templateName e, overlay (replicate 14 0) (je_equipment e)) of
         (Some rot, Some alive, Some health, Some name, Some equipment) \<Rightarrow>
           LoadOk (ServerEntity_default\<lparr>se_id := eid, se_type := ucast type, se_owner := 0,
             se_templateId := templateId, se_factionId := factionId, se_position := p, se_rotation := rot,
             se_zone := FromWorldPos p KMP_ZONE_SIZE, se_alive := alive, se_health := health,
             se_templateName := name, se_equipment := equipment\<rparr>)
       | _ \<Rightarrow> LoadThrows)
   | _ \<Rightarrow> LoadThrows)"

text \<open>The loop over the entity array; the flag tells that nothing threw.\<close>

fun load_entities :: "json_entity list \<Rightarrow> nat \<Rightarrow> EntityID \<Rightarrow> (EntityID, ServerEntity) umap \<Rightarrow>
    bool \<times> EntityID \<times> (EntityID, ServerEntity) umap" where
  "load_entities [] n maxId es = (True, maxId, es)"
| "load_entities (j # js) n maxId es =
     (if n \<ge> KMP_MAX_SYNC_ENTITIES then (True, maxId, es)
      else case load_entity j of
        LoadThrows \<Rightarrow> (False, maxId, es)
      | LoadSkip eid \<Rightarrow> load_entities js n (max maxId eid) es
      | LoadOk e \<Rightarrow> load_entities js (Suc n) (max maxId (se_id e)) (um_set (se_id e) e es))"

fun load_players :: "(bytes \<times> EntityID option list) list \<Rightarrow> (EntityID, ServerEntity) umap \<Rightarrow>
    (bytes, SavedPlayer) umap \<Rightarrow> bool \<times> (bytes, SavedPlayer) umap" where
  "load_players [] es saved = (True, saved)"
| "load_players ((name, ids) # ps) es saved =
     (if None \<in> set ids then (False, saved)
      else let kept = filter (\<lambda>eid. um_find es eid \<noteq> None) (map the ids) in
        load_players ps es (if kept = [] then saved
          else um_set name \<lparr>sp_name = name, sp_entityIds = kept\<rparr> saved))"

record loaded =
  ld_entities :: "(EntityID, ServerEntity) umap"
  ld_players :: "(bytes, SavedPlayer) umap"
  ld_timeOfDay :: f32
  ld_weather :: i32
  ld_nextEntityId :: EntityID

text \<open>
  The by-reference arguments are the record \<open>l\<close>: an exception after \<^verbatim>\<open>entities.clear()\<close> leaves the
  maps as far as they were filled.
\<close>

definition load_doc :: "json_doc \<Rightarrow> loaded \<Rightarrow> bool \<times> loaded" where
  "load_doc j l = (case jd_timeOfDay j of
     None \<Rightarrow> (False, l)
   | Some t \<Rightarrow> (case jd_weather j of
       None \<Rightarrow> (False, l\<lparr>ld_timeOfDay := t\<rparr>)
     | Some w \<Rightarrow>
         let l1 = l\<lparr>ld_timeOfDay := t, ld_weather := w, ld_entities := [], ld_players := []\<rparr> in
         (case jd_entities j of
            None \<Rightarrow> (False, l1)
          | Some js \<Rightarrow> (case load_entities js 0 0 [] of
              (False, maxId, es) \<Rightarrow> (False, l1\<lparr>ld_entities := es\<rparr>)
            | (True, maxId, es) \<Rightarrow>
                (case (case jd_players j of None \<Rightarrow> (True, []) | Some ps \<Rightarrow> load_players ps es []) of
                   (False, saved) \<Rightarrow> (False, l1\<lparr>ld_entities := es, ld_players := saved\<rparr>)
                 | (True, saved) \<Rightarrow> (True, l1\<lparr>ld_entities := es, ld_players := saved,
                     ld_nextEntityId := maxId + 1\<rparr>))))))"

definition LoadWorldFromFile :: "json_file \<Rightarrow> loaded \<Rightarrow> bool \<times> loaded" where
  "LoadWorldFromFile f l = (case f of NoFile \<Rightarrow> (False, l) | Unparsable \<Rightarrow> (False, l) | Document j \<Rightarrow> load_doc j l)"

section \<open>The file is never lost\<close>

lemma paths_distinct [simp]:
  "tmp_path p \<noteq> p" "bak_path p \<noteq> p" "tmp_path p \<noteq> bak_path p"
  "p \<noteq> tmp_path p" "p \<noteq> bak_path p" "bak_path p \<noteq> tmp_path p"
  by (auto simp: tmp_path_def bak_path_def lit_def)

lemma save_fallback_safe:
  assumes "d path = Some old" "d (tmp_path path) = Some new" "x \<in> set (snd (save_fallback env path d))"
  shows "x path = Some old \<or> x (bak_path path) = Some old \<or> x path = Some new"
  using assms by (auto simp: save_fallback_def fs_rename_def fs_remove_def Let_def split: option.splits if_splits)

lemma save_fallback_result:
  assumes "d (tmp_path path) = Some new"
  shows "fst (save_fallback env path d) = Saved \<Longrightarrow> last (snd (save_fallback env path d)) path = Some new"
    "fst (save_fallback env path d) \<noteq> SaveThrows" "snd (save_fallback env path d) \<noteq> []"
  using assms by (auto simp: save_fallback_def fs_rename_def fs_remove_def Let_def split: option.splits if_splits)

lemma SaveWorldToFile_safe:
  assumes "d (ws_path w) = Some old" "dump (world_json w) = Some new"
    "x \<in> set (snd (SaveWorldToFile dump env w d))"
  shows "x (ws_path w) = Some old \<or> x (bak_path (ws_path w)) = Some old \<or> x (ws_path w) = Some new"
proof -
  let ?p = "ws_path w"
  let ?d1 = "d(tmp_path ?p \<mapsto> new)"
  have d1: "?d1 ?p = Some old" "?d1 (tmp_path ?p) = Some new" using assms(1) by simp_all
  show ?thesis
  proof (cases "fe_open env \<and> fe_write env \<and> \<not> fe_move env")
    case True
    then have "x \<in> {d, d(tmp_path ?p \<mapsto> []), ?d1} \<union> set (snd (save_fallback env ?p ?d1))"
      using assms(2,3) by (simp add: SaveWorldToFile_def fs_move_def Let_def split: prod.splits)
    then show ?thesis using save_fallback_safe [of ?d1 ?p old new x env] d1 assms(1) by auto
  next
    case False
    then show ?thesis using assms
      by (auto simp: SaveWorldToFile_def fs_move_def fs_remove_def Let_def split: if_splits)
  qed
qed

lemma SaveWorldToFile_saved:
  assumes "fst (SaveWorldToFile dump env w d) = Saved"
  shows "\<exists>text. dump (world_json w) = Some text \<and> last (snd (SaveWorldToFile dump env w d)) (ws_path w) = Some text"
proof (cases "dump (world_json w)")
  case None
  then show ?thesis using assms by (simp add: SaveWorldToFile_def Let_def split: if_splits)
next
  case (Some new)
  let ?d1 = "d(tmp_path (ws_path w) \<mapsto> new)"
  note fb = save_fallback_result [of ?d1 "ws_path w" new env]
  show ?thesis using assms Some fb
    by (cases "save_fallback env (ws_path w) ?d1")
      (auto simp: SaveWorldToFile_def fs_move_def Let_def split: if_splits)
qed

section \<open>Loading what was saved\<close>

text \<open>What a saved entity is after loading: unowned, its zone recomputed, unsaved fields at their defaults.\<close>

definition reloaded :: "ServerEntity \<Rightarrow> ServerEntity" where
  "reloaded e = ServerEntity_default\<lparr>se_id := se_id e, se_type := se_type e, se_owner := 0,
     se_templateId := se_templateId e, se_factionId := se_factionId e, se_position := se_position e,
     se_rotation := se_rotation e, se_zone := FromWorldPos (se_position e) KMP_ZONE_SIZE,
     se_alive := se_alive e, se_health := se_health e, se_templateName := se_templateName e,
     se_equipment := se_equipment e\<rparr>"

definition saveable :: "ServerEntity \<Rightarrow> bool" where
  "saveable e \<longleftrightarrow> length (se_health e) = 7 \<and> length (se_equipment e) = 14 \<and>
     \<not> bad_coords (vx (se_position e)) (vy (se_position e)) (vz (se_position e))"

lemma overlay_full: "length ys = length xs \<Longrightarrow> overlay xs (map Some ys) = Some ys"
proof (induction xs arbitrary: ys)
  case (Cons x xs)
  then show ?case by (cases ys) simp_all
qed simp

lemma overlay_length: "overlay xs ys = Some zs \<Longrightarrow> length zs = length xs"
  by (induction xs ys arbitrary: zs rule: overlay.induct) (auto split: option.splits)

lemma u8_via_int [simp]: "ucast (ucast (x :: u8) :: i32) = x"
  by (rule bit_word_eqI) (simp add: bit_ucast_iff)

lemma load_entity_json: "saveable e \<Longrightarrow> load_entity (entity_json e) = LoadOk (reloaded e)"
  using overlay_full [of "se_health e" "replicate 7 (f32_of_int 100)"]
    overlay_full [of "se_equipment e" "replicate 14 0"]
  by (simp add: load_entity_def entity_json_def saveable_def reloaded_def)

text \<open>What every entity that \<^verbatim>\<open>LoadWorldFromFile\<close> accepts satisfies, whatever the file holds.\<close>

lemma load_entity_ok:
  assumes "load_entity j = LoadOk e"
  shows "saveable e" "se_owner e = 0" "se_authority e = AuthServer" "se_zone e = FromWorldPos (se_position e) KMP_ZONE_SIZE"
    "je_id j = Some (se_id e)" "se_buildProgress e = 0" "length (se_limbHealth e) = 7" "length (se_statusEffects e) = 5"
  using assms
  by (auto simp: load_entity_def saveable_def ServerEntity_default_def
        split: option.splits if_splits dest!: overlay_length)

text \<open>Invariant of the loop: keys are the ids, every entity passed the checks, ids up to \<open>maxId\<close>.\<close>

definition loaded_ok :: "EntityID \<Rightarrow> (EntityID, ServerEntity) umap \<Rightarrow> bool" where
  "loaded_ok maxId es \<longleftrightarrow> um_wf es \<and> (\<forall>(k, e) \<in> set es. k = se_id e \<and> k \<le> maxId \<and>
     (\<exists>j. load_entity j = LoadOk e))"

lemma um_set_subset: "set (um_set k v m) \<subseteq> insert (k, v) (set m)"
  unfolding um_set_def by (induction m) auto

lemma loaded_ok_set:
  assumes "loaded_ok maxId es" "load_entity j = LoadOk e"
  shows "loaded_ok (max maxId (se_id e)) (um_set (se_id e) e es)"
proof -
  have "k = se_id x \<and> k \<le> max maxId (se_id e) \<and> (\<exists>j. load_entity j = LoadOk x)"
    if "(k, x) \<in> set (um_set (se_id e) e es)" for k x
  proof (cases "(k, x) = (se_id e, e)")
    case True
    then show ?thesis using assms(2) by auto
  next
    case False
    then have "(k, x) \<in> set es" using that um_set_subset [of "se_id e" e es] by auto
    then show ?thesis using assms(1) by (auto simp: loaded_ok_def le_max_iff_disj)
  qed
  then show ?thesis using assms(1) by (auto simp: loaded_ok_def)
qed

lemma loaded_ok_mono: "loaded_ok a es \<Longrightarrow> loaded_ok (max a b) es"
  unfolding loaded_ok_def by (auto simp: max_def)

lemma load_entities_ok:
  "load_entities js n maxId es = (ok, maxId', es') \<Longrightarrow> loaded_ok maxId es \<Longrightarrow> length es \<le> n \<Longrightarrow>
     n \<le> KMP_MAX_SYNC_ENTITIES \<Longrightarrow> loaded_ok maxId' es' \<and> length es' \<le> KMP_MAX_SYNC_ENTITIES"
proof (induction js n maxId es rule: load_entities.induct)
  case (2 j js n maxId es)
  show ?case
  proof (cases "load_entity j")
    case (LoadOk e)
    have "length (um_set (se_id e) e es) \<le> Suc n" using "2.prems"(3) by (simp add: um_size_set)
    then show ?thesis using 2 LoadOk loaded_ok_set [OF "2.prems"(2) LoadOk] by (auto split: if_splits)
  qed (use 2 loaded_ok_mono in \<open>auto split: if_splits\<close>)
qed auto

lemma loaded_ok_Nil: "loaded_ok 0 []"
  by (simp add: loaded_ok_def)

lemma load_entities_saved:
  assumes "\<forall>(k, e) \<in> set m. k = se_id e \<and> saveable e" "n + length m \<le> KMP_MAX_SYNC_ENTITIES" "um_wf m"
  shows "\<exists>maxId' es'. load_entities (map (entity_json \<circ> snd) m) n maxId es = (True, maxId', es') \<and>
     um_find es' = um_find es ++ (map_option reloaded \<circ> um_find m) \<and>
     maxId \<le> maxId' \<and> (\<forall>k \<in> set (um_keys m). k \<le> maxId') \<and> maxId' \<in> insert maxId (set (um_keys m))"
  using assms
proof (induction m arbitrary: n maxId es)
  case Nil
  then show ?case by (simp add: um_keys_def fun_eq_iff map_add_def)
next
  case (Cons p m)
  obtain k e where p: "p = (k, e)" by (cases p)
  have e: "k = se_id e" "saveable e" and fresh: "um_find m k = None" and wf: "um_wf m"
    using Cons.prems p by (auto simp: um_wf_def um_keys_def map_of_eq_None_iff)
  have m: "\<forall>(k, e) \<in> set m. k = se_id e \<and> saveable e" "Suc n + length m \<le> KMP_MAX_SYNC_ENTITIES"
    using Cons.prems by auto
  have "reloaded e\<lparr>se_id := k\<rparr> = reloaded e" "se_id (reloaded e) = k" using e by (simp_all add: reloaded_def)
  then show ?case
    using Cons.IH [OF m wf, of "max maxId k" "um_set k (reloaded e) es"] Cons.prems(2) e fresh
    by (auto simp: p load_entity_json um_find_set um_keys_def fun_eq_iff map_add_def max_def split: if_splits)
qed

text \<open>The record a list of ids gives: none when no entity of it was loaded.\<close>

definition kept_ids :: "(EntityID, ServerEntity) umap \<Rightarrow> EntityID list \<Rightarrow> EntityID list" where
  "kept_ids es ids = filter (\<lambda>eid. um_find es eid \<noteq> None) ids"

definition kept_player :: "(EntityID, ServerEntity) umap \<Rightarrow> bytes \<Rightarrow> EntityID list \<Rightarrow> SavedPlayer option" where
  "kept_player es name ids = (if kept_ids es ids = [] then None
     else Some \<lparr>sp_name = name, sp_entityIds = kept_ids es ids\<rparr>)"

lemma load_players_step:
  "None \<notin> set ids \<Longrightarrow> load_players ((name, ids) # ps) es saved = load_players ps es
     (case kept_player es name (map the ids) of None \<Rightarrow> saved | Some sp \<Rightarrow> um_set name sp saved)"
  by (simp add: kept_player_def kept_ids_def Let_def)

lemma load_players_saved:
  assumes "distinct (map fst ps)" "\<forall>(name, ids) \<in> set ps. None \<notin> set ids"
  shows "\<exists>saved'. load_players ps es saved = (True, saved') \<and> (\<forall>name. um_find saved' name =
     (case Option.bind (map_of ps name) (kept_player es name \<circ> map the) of None \<Rightarrow> um_find saved name | Some sp \<Rightarrow> Some sp))"
  using assms
proof (induction ps arbitrary: saved)
  case (Cons p ps)
  obtain name ids where p: "p = (name, ids)" by (cases p)
  define saved1 where "saved1 = (case kept_player es name (map the ids) of None \<Rightarrow> saved | Some sp \<Rightarrow> um_set name sp saved)"
  have fresh: "map_of ps name = None" using Cons.prems(1) p by (simp add: map_of_eq_None_iff)
  have step: "load_players (p # ps) es saved = load_players ps es saved1"
    unfolding p saved1_def by (rule load_players_step) (use Cons.prems(2) p in auto)
  have find1: "um_find saved1 n = (case (if n = name then kept_player es name (map the ids) else None) of
      None \<Rightarrow> um_find saved n | Some sp \<Rightarrow> Some sp)" for n
    by (simp add: saved1_def um_find_set split: option.splits)
  obtain saved' where l: "load_players ps es saved1 = (True, saved')" and
    f: "um_find saved' n = (case Option.bind (map_of ps n) (kept_player es n \<circ> map the) of
      None \<Rightarrow> um_find saved1 n | Some sp \<Rightarrow> Some sp)" for n
    using Cons.IH [of saved1] Cons.prems by (auto simp: comp_def)
  have "um_find saved' n = (case Option.bind (map_of (p # ps) n) (kept_player es n \<circ> map the) of
      None \<Rightarrow> um_find saved n | Some sp \<Rightarrow> Some sp)" for n
    unfolding f find1 using fresh by (cases "n = name") (simp_all add: p split: option.splits)
  then show ?case unfolding step l by blast
qed simp

lemma case_option_self: "(case x of None \<Rightarrow> None | Some y \<Rightarrow> Some y) = x"
  by (cases x) simp_all

lemma distinct_sorted: "distinct (map fst (sort_key fst xs)) \<longleftrightarrow> distinct (map fst xs)"
  by (rule mset_eq_imp_distinct_iff) simp

lemma map_of_sorted: "distinct (map fst xs) \<Longrightarrow> map_of (sort_key fst xs) = map_of xs"
  by (subst map_of_inject_set) (simp_all add: distinct_sorted)

text \<open>Loading a saved world: the entities come back unowned, the player records come back, ids are fresh.\<close>

lemma load_world_json:
  assumes es: "\<forall>(k, e) \<in> set (ws_entities w). k = se_id e \<and> saveable e" "um_wf (ws_entities w)"
      "length (ws_entities w) \<le> KMP_MAX_SYNC_ENTITIES"
    and ps: "um_wf (ws_players w)"
  obtains l' where "load_doc (world_json w) l = (True, l')"
     "ld_timeOfDay l' = ws_timeOfDay w" "ld_weather l' = ws_weather w"
     "um_find (ld_entities l') = map_option reloaded \<circ> um_find (ws_entities w)"
     "\<And>name. um_find (ld_players l') name =
        Option.bind (um_find (ws_players w) name) (kept_player (ws_entities w) name \<circ> sp_entityIds)"
     "ld_nextEntityId l' - 1 \<in> insert 0 (set (um_keys (ws_entities w)))"
     "\<And>k. k \<in> set (um_keys (ws_entities w)) \<Longrightarrow> k \<le> ld_nextEntityId l' - 1"
proof -
  let ?ps = "map (\<lambda>(name, sp). (name, map Some (sp_entityIds sp))) (ws_players w)"
  obtain maxId es' where l: "load_entities (map (entity_json \<circ> snd) (ws_entities w)) 0 0 [] = (True, maxId, es')"
      and find: "um_find es' = map_option reloaded \<circ> um_find (ws_entities w)"
      and ids: "maxId \<in> insert 0 (set (um_keys (ws_entities w)))" "\<forall>k \<in> set (um_keys (ws_entities w)). k \<le> maxId"
    using load_entities_saved [OF es(1) _ es(2), of 0 0 "[]"] es(3) by (auto simp: fun_eq_iff map_add_def split: option.splits)
  have kept: "kept_player es' = kept_player (ws_entities w)"
    by (simp add: fun_eq_iff kept_player_def kept_ids_def find)
  have d: "distinct (map fst ?ps)" using ps by (simp add: um_wf_def um_keys_def comp_def case_prod_beta)
  then have "distinct (map fst (sort_key fst ?ps))" by (simp only: distinct_sorted)
  moreover have "\<forall>(name, ids) \<in> set (sort_key fst ?ps). None \<notin> set ids" by auto
  ultimately obtain saved' where p: "load_players (sort_key fst ?ps) es' [] = (True, saved')"
      and fp: "\<And>name. um_find saved' name = Option.bind (map_of ?ps name) (kept_player es' name \<circ> map the)"
    using load_players_saved [of "sort_key fst ?ps" es' "[]"] map_of_sorted [OF d]
    by (auto simp only: case_option_self map_of.simps)
  have m: "map_of ?ps name = map_option (\<lambda>sp. map Some (sp_entityIds sp)) (um_find (ws_players w) name)" for name
    by (rule um_find_map)
  show thesis
  proof (rule that)
    show "load_doc (world_json w) l = (True, l\<lparr>ld_timeOfDay := ws_timeOfDay w, ld_weather := ws_weather w,
        ld_entities := es', ld_players := saved', ld_nextEntityId := maxId + 1\<rparr>)"
      by (simp add: load_doc_def world_json_def l p)
    show "um_find (ld_players (l\<lparr>ld_timeOfDay := ws_timeOfDay w, ld_weather := ws_weather w,
        ld_entities := es', ld_players := saved', ld_nextEntityId := maxId + 1\<rparr>)) name =
        Option.bind (um_find (ws_players w) name) (kept_player (ws_entities w) name \<circ> sp_entityIds)" for name
      unfolding kept [symmetric] by (cases "um_find (ws_players w) name") (simp_all add: fp m comp_def)
  qed (use find ids in simp_all)
qed

end
