(* ===== verification/Server_Loop.thy ===== *)
theory Server_Loop
  imports Server_Session World_Persistence
begin

text \<open>
  \<^verbatim>\<open>KenshiMP.Server/server.cpp\<close>: start and stop, the dispatcher, saving and loading, the master
  server connection and the tick (\<^verbatim>\<open>Update\<close>); \<^verbatim>\<open>main.cpp\<close>: the console commands.
\<close>

section \<open>Dispatch\<close>

text \<open>
  What a handler can observe beyond the packet: the random draws of a fight, the value of an
  uninitialised local and the memory behind a struct on the stack.
\<close>

record packet_env =
  pe_draws :: combat_draws
  pe_junk :: u8
  pe_beyond :: bytes

definition HandleKeepalive :: "peer \<Rightarrow> ConnectedPlayer \<Rightarrow> PacketReader \<Rightarrow> GameServer \<Rightarrow> GameServer" where
  "HandleKeepalive p player r s =
     do_enet (\<lambda>n. snd (enet_try (PeerSend p RO (packet [hdr S2C_KeepaliveAck]) True) n))
       (modify_player (cp_id player) (\<lambda>q. q\<lparr>cp_lastUpdate := m_uptime s\<rparr>) s)"

definition RelayPipeline :: "MessageType \<Rightarrow> ConnectedPlayer \<Rightarrow> PacketReader \<Rightarrow> GameServer \<Rightarrow> GameServer" where
  "RelayPipeline fwdType player r s = BroadcastExcept (cp_id player)
     (packet [hdr fwdType, WriteU32 (cp_id player), WriteRaw (Current r)]) RU True s"

text \<open>The cases of the switch that need a player: each looks the peer's player up first.\<close>

definition player_handlers :: "packet_env \<Rightarrow> peer \<Rightarrow>
    (MessageType \<times> (ConnectedPlayer \<Rightarrow> PacketReader \<Rightarrow> GameServer \<Rightarrow> GameServer)) list" where
  "player_handlers env p = [
     (C2S_PositionUpdate, HandlePositionUpdate),
     (C2S_MoveCommand, HandleMoveCommand),
     (C2S_AttackIntent, HandleAttackIntent (pe_draws env)),
     (C2S_ChatMessage, HandleChatMessage),
     (C2S_BuildRequest, HandleBuildRequest),
     (C2S_EntitySpawnReq, HandleEntitySpawnReq),
     (C2S_EntityDespawnReq, HandleEntityDespawnReq (pe_junk env)),
     (C2S_EquipmentUpdate, HandleEquipmentUpdate),
     (C2S_ZoneRequest, HandleZoneRequest),
     (C2S_ItemPickup, HandleItemPickup),
     (C2S_ItemDrop, HandleItemDrop),
     (C2S_TradeRequest, HandleTradeRequest),
     (C2S_SquadCreate, HandleSquadCreate),
     (C2S_SquadAddMember, HandleSquadAddMember),
     (C2S_FactionRelation, HandleFactionRelation),
     (C2S_PlayerReady, \<lambda>player r. HandlePlayerReady player),
     (C2S_BuildDismantle, HandleBuildDismantle),
     (C2S_BuildRepair, HandleBuildRepair),
     (C2S_CombatStance, HandleCombatStance),
     (C2S_CombatKO, HandleCombatKO),
     (C2S_CombatDeath, HandleCombatDeath),
     (C2S_LimbHealth, HandleLimbHealth),
     (C2S_StatusEffect, HandleStatusEffect),
     (C2S_ItemTransfer, HandleItemTransfer),
     (C2S_DoorInteract, HandleDoorInteract),
     (C2S_AdminCommand, HandleAdminCommand (pe_beyond env)),
     (C2S_LobbyReady, \<lambda>player r. HandleLobbyReady player),
     (C2S_Keepalive, HandleKeepalive p),
     (C2S_PipelineSnapshot, RelayPipeline S2C_PipelineSnapshot),
     (C2S_PipelineEvent, RelayPipeline S2C_PipelineEvent)]"

definition wrong_channel :: "MessageType \<Rightarrow> nat \<Rightarrow> bool" where
  "wrong_channel type channel \<longleftrightarrow>
     type = C2S_PositionUpdate \<and> channel \<noteq> KMP_CHANNEL_UNRELIABLE_SEQ \<or>
     type \<noteq> C2S_PositionUpdate \<and> channel = KMP_CHANNEL_UNRELIABLE_SEQ \<and> type \<noteq> C2S_Keepalive"

definition dispatch :: "packet_env \<Rightarrow> peer \<Rightarrow> MessageType \<Rightarrow> PacketReader \<Rightarrow> GameServer \<Rightarrow> GameServer" where
  "dispatch env p type r s =
     (if type = C2S_Handshake then HandleHandshake p r s
      else if type = C2S_Disconnect then do_enet (enet_out (PeerDisconnect p)) s
      else if type = C2S_ServerQuery then HandleServerQuery p r s
      else (case map_of (player_handlers env p) type of
          None \<Rightarrow> s
        | Some h \<Rightarrow> (case GetPlayerByPeer p s of None \<Rightarrow> s | Some player \<Rightarrow> h player r s)))"

definition HandlePacket :: "packet_env \<Rightarrow> peer \<Rightarrow> bytes \<Rightarrow> nat \<Rightarrow> GameServer \<Rightarrow> GameServer" where
  "HandlePacket env p data channel s =
     (if length data < 8 then s
      else (case ReadHeader (PacketReader_new data) of
          (None, r) \<Rightarrow> s
        | (Some header, r) \<Rightarrow>
            if wrong_channel (ph_type header) channel then s
            else dispatch env p (ph_type header) r s))"

section \<open>Saving and loading\<close>

definition default_save_path :: bytes where
  "default_save_path = lit ''kenshi_mp_world.json''"

definition savePath :: "GameServer \<Rightarrow> bytes" where
  "savePath s = (if sc_savePath (m_config s) = [] then default_save_path else sc_savePath (m_config s))"

text \<open>The offline records, overwritten by the live ownership of the connected players.\<close>

definition savedForWrite :: "GameServer \<Rightarrow> (bytes, SavedPlayer) umap" where
  "savedForWrite s = fold (\<lambda>(pid, cp) saved.
     let ids = owned_ids pid (m_entities s) in
     if ids = [] then saved else um_set (cp_name cp) \<lparr>sp_name = cp_name cp, sp_entityIds = ids\<rparr> saved)
     (m_players s) (m_savedPlayers s)"

definition SaveWorld :: "GameServer \<Rightarrow> GameServer" where
  "SaveWorld s = s\<lparr>m_saves := m_saves s @ [\<lparr>ws_path = savePath s, ws_entities = m_entities s,
     ws_players = savedForWrite s, ws_timeOfDay = m_timeOfDay s, ws_weather = m_weatherState s\<rparr>]\<rparr>"

definition LoadWorld :: "(bytes \<Rightarrow> json_file) \<Rightarrow> GameServer \<Rightarrow> GameServer" where
  "LoadWorld files s =
     (case LoadWorldFromFile (files (savePath s)) \<lparr>ld_entities = m_entities s, ld_players = m_savedPlayers s,
          ld_timeOfDay = m_timeOfDay s, ld_weather = m_weatherState s, ld_nextEntityId = m_nextEntityId s\<rparr> of
        (ok, l) \<Rightarrow>
          let s1 = s\<lparr>m_entities := ld_entities l, m_savedPlayers := ld_players l\<rparr> in
          if ok then s1\<lparr>m_timeOfDay := ld_timeOfDay l, m_weatherState := ld_weather l,
            m_nextEntityId := ld_nextEntityId l\<rparr>
          else s1)"

section \<open>The master server connection\<close>

datatype master_event = MasterUp | MasterDown | MasterPacket

text \<open>
  What the master connection gives during one tick: the events, whether a connection attempt can
  be started, and the external address UPnP discovery found.
\<close>

record master_env =
  me_events :: "master_event list"
  me_connect :: bool
  me_extIP :: bytes

definition ConnectToMaster :: "bool \<Rightarrow> bool \<Rightarrow> GameServer \<Rightarrow> GameServer" where
  "ConnectToMaster host_ok connect_ok s =
     (if sc_masterServer (m_config s) = [] then s
      else if \<not> host_ok then s\<lparr>m_masterHost := False\<rparr>
      else let s1 = do_enet (enet_out MasterConnect) s in
        if connect_ok then s1\<lparr>m_masterHost := True, m_masterPeer := True\<rparr>
        else s1\<lparr>m_masterHost := False, m_masterPeer := False\<rparr>)"

definition master_send :: "bool \<Rightarrow> bytes \<Rightarrow> GameServer \<Rightarrow> GameServer" where
  "master_send flush data s = do_enet (\<lambda>n. case enet_try (MasterSend data) n of
     (ok, n) \<Rightarrow> if ok \<and> flush then enet_out MasterFlush n else n) s"

definition SendMasterRegister :: "bytes \<Rightarrow> GameServer \<Rightarrow> GameServer" where
  "SendMasterRegister extIP s =
     (if \<not> m_masterPeer s \<or> \<not> m_masterConnected s then s
      else master_send True (packet [hdr MS_Register, WriteRaw (MsgMasterRegister_enc
        \<lparr>MsgMasterRegister_protocolVersion = KMP_PROTOCOL_VERSION, MsgMasterRegister_gamePort = sc_port (m_config s),
         MsgMasterRegister_currentPlayers = of_nat (length (m_players s)),
         MsgMasterRegister_maxPlayers = ucast (sc_maxPlayers (m_config s)),
         MsgMasterRegister_timeOfDay = m_timeOfDay s,
         MsgMasterRegister_pvpEnabled = (if sc_pvpEnabled (m_config s) then 1 else 0),
         MsgMasterRegister_reserved = [0, 0, 0],
         MsgMasterRegister_serverName = strncpy_buf 64 (sc_serverName (m_config s)),
         MsgMasterRegister_externalIP = strncpy_buf 46 extIP\<rparr>)]) s)"

definition SendMasterHeartbeat :: "GameServer \<Rightarrow> GameServer" where
  "SendMasterHeartbeat s =
     (if \<not> m_masterPeer s \<or> \<not> m_masterConnected s then s
      else master_send False (packet [hdr MS_Heartbeat, WriteRaw (MsgMasterHeartbeat_enc
        \<lparr>MsgMasterHeartbeat_gamePort = sc_port (m_config s),
         MsgMasterHeartbeat_currentPlayers = of_nat (length (m_players s)),
         MsgMasterHeartbeat_maxPlayers = ucast (sc_maxPlayers (m_config s)),
         MsgMasterHeartbeat_timeOfDay = m_timeOfDay s\<rparr>)]) s)"

definition SendMasterDeregister :: "GameServer \<Rightarrow> GameServer" where
  "SendMasterDeregister s =
     (if \<not> m_masterPeer s \<or> \<not> m_masterConnected s then s
      else master_send True (packet [hdr MS_Deregister]) s)"

fun handle_master_event :: "bytes \<Rightarrow> master_event \<Rightarrow> GameServer \<Rightarrow> GameServer" where
  "handle_master_event extIP MasterUp s =
     SendMasterRegister extIP (s\<lparr>m_masterConnected := True, m_masterReconnectDelay := f32_of_int 5\<rparr>)"
| "handle_master_event extIP MasterDown s = s\<lparr>m_masterConnected := False, m_masterPeer := False\<rparr>"
| "handle_master_event extIP MasterPacket s = s"

definition master_heartbeat :: "f32 \<Rightarrow> GameServer \<Rightarrow> GameServer" where
  "master_heartbeat dt s0 =
     (let s = s0\<lparr>m_timeSinceMasterHeartbeat := f32_add (m_timeSinceMasterHeartbeat s0) dt\<rparr> in
      if f32_le (m_masterHeartbeatInterval s) (m_timeSinceMasterHeartbeat s)
      then (SendMasterHeartbeat s)\<lparr>m_timeSinceMasterHeartbeat := 0\<rparr> else s)"

definition master_reconnect :: "f32 \<Rightarrow> bool \<Rightarrow> GameServer \<Rightarrow> GameServer" where
  "master_reconnect dt connect_ok s0 =
     (let s = s0\<lparr>m_masterReconnectTimer := f32_add (m_masterReconnectTimer s0) dt\<rparr> in
      if f32_le (m_masterReconnectDelay s) (m_masterReconnectTimer s)
      then do_enet (enet_out MasterConnect) (s\<lparr>m_masterReconnectTimer := 0, m_masterPeer := connect_ok,
             m_masterReconnectDelay := f32_min (f32_mul (m_masterReconnectDelay s) (f32_of_int 2)) (f32_of_int 60)\<rparr>)
      else s)"

definition UpdateMasterConnection :: "f32 \<Rightarrow> master_env \<Rightarrow> GameServer \<Rightarrow> GameServer" where
  "UpdateMasterConnection dt env s =
     (if \<not> m_masterHost s then s
      else let s1 = fold (handle_master_event (me_extIP env)) (me_events env) s;
               s2 = (if m_masterConnected s1 then master_heartbeat dt s1
                     else if \<not> m_masterPeer s1 \<and> sc_masterServer (m_config s1) \<noteq> []
                     then master_reconnect dt (me_connect env) s1 else s1)
           in do_enet (enet_out MasterFlush) s2)"

section \<open>The tick\<close>

text \<open>
  One event of \<^verbatim>\<open>enet_host_service\<close>.  A connect event comes with the address of the new peer;
  \<open>EvRtt\<close> is ENet updating a peer's round-trip time while it services the host.
\<close>

datatype enet_event =
    EvConnect peer u32
  | EvReceive peer bytes nat packet_env
  | EvDisconnect peer
  | EvRtt peer u32

definition enet_set_host :: "peer \<Rightarrow> u32 \<Rightarrow> enet \<Rightarrow> enet" where
  "enet_set_host p h e = e\<lparr>peer_tab := (peer_tab e)(p := (peer_tab e p)\<lparr>ep_host := h\<rparr>)\<rparr>"

definition enet_set_rtt :: "peer \<Rightarrow> u32 \<Rightarrow> enet \<Rightarrow> enet" where
  "enet_set_rtt p t e = e\<lparr>peer_tab := (peer_tab e)(p := (peer_tab e p)\<lparr>ep_rtt := t\<rparr>)\<rparr>"

fun handle_event :: "enet_event \<Rightarrow> GameServer \<Rightarrow> GameServer" where
  "handle_event (EvConnect p h) s = HandleConnect p (do_enet (enet_set_host p h) s)"
| "handle_event (EvReceive p data channel env) s = HandlePacket env p data channel s"
| "handle_event (EvDisconnect p) s = HandleDisconnect p s"
| "handle_event (EvRtt p t) s = do_enet (enet_set_rtt p t) s"

definition begin_tick :: "f32 \<Rightarrow> GameServer \<Rightarrow> GameServer" where
  "begin_tick dt s = s\<lparr>m_serverTick := m_serverTick s + 1, m_uptime := f32_add (m_uptime s) dt\<rparr>"

definition advance_time :: "f32 \<Rightarrow> f32 \<Rightarrow> f32 \<Rightarrow> f32" where
  "advance_time dt speed t =
     (let t1 = f32_add t (f32_div (f32_mul dt speed) (f32_of_int 86400))
      in if f32_le (f32_of_int 1) t1 then f32_sub t1 (f32_of_int 1) else t1)"

definition update_time :: "f32 \<Rightarrow> GameServer \<Rightarrow> GameServer" where
  "update_time dt s = s\<lparr>m_timeOfDay := advance_time dt (sc_gameSpeed (m_config s)) (m_timeOfDay s)\<rparr>"

definition tick_time_sync :: "f32 \<Rightarrow> GameServer \<Rightarrow> GameServer" where
  "tick_time_sync dt s0 = (let s = s0\<lparr>m_timeSinceTimeSync := f32_add (m_timeSinceTimeSync s0) dt\<rparr> in
     if f32_le (f32_of_int 5) (m_timeSinceTimeSync s)
     then (BroadcastTimeSync s)\<lparr>m_timeSinceTimeSync := 0\<rparr> else s)"

definition tick_heartbeat :: "f32 \<Rightarrow> GameServer \<Rightarrow> GameServer" where
  "tick_heartbeat dt s0 = (let s = s0\<lparr>m_timeSinceHeartbeat := f32_add (m_timeSinceHeartbeat s0) dt\<rparr> in
     if f32_le (f32_of_int 5) (m_timeSinceHeartbeat s) \<and> m_entities s \<noteq> []
     then (BroadcastEntityHeartbeat s)\<lparr>m_timeSinceHeartbeat := 0\<rparr> else s)"

definition update_pings :: "GameServer \<Rightarrow> GameServer" where
  "update_pings s = s\<lparr>m_players := map (\<lambda>(k, p). (k, if cp_peer p \<noteq> 0
     then p\<lparr>cp_ping := ep_rtt (peer_tab (m_enet s) (cp_peer p))\<rparr> else p)) (m_players s)\<rparr>"

definition orphan_ids :: "GameServer \<Rightarrow> EntityID list" where
  "orphan_ids s = map fst (filter (\<lambda>(eid, e). se_owner e \<noteq> 0 \<and> GetPlayer (se_owner e) s = None) (m_entities s))"

definition remove_orphan :: "EntityID \<Rightarrow> GameServer \<Rightarrow> GameServer" where
  "remove_orphan eid s = (let s1 = Broadcast (packet [hdr S2C_EntityDespawn, WriteU32 eid, WriteU8 2]) RO True s
     in s1\<lparr>m_entities := um_erase eid (m_entities s1)\<rparr>)"

definition tick_orphans :: "f32 \<Rightarrow> GameServer \<Rightarrow> GameServer" where
  "tick_orphans dt s0 = (let s = s0\<lparr>m_timeSinceOrphanCleanup := f32_add (m_timeSinceOrphanCleanup s0) dt\<rparr> in
     if f32_le (f32_of_int 30) (m_timeSinceOrphanCleanup s) \<and> m_entities s \<noteq> []
     then (fold remove_orphan (orphan_ids s) s)\<lparr>m_timeSinceOrphanCleanup := 0\<rparr> else s)"

definition tick_autosave :: "f32 \<Rightarrow> GameServer \<Rightarrow> GameServer" where
  "tick_autosave dt s0 = (let s = s0\<lparr>m_timeSinceAutoSave := f32_add (m_timeSinceAutoSave s0) dt\<rparr> in
     if f32_le (m_autoSaveInterval s) (m_timeSinceAutoSave s) \<and> m_entities s \<noteq> []
     then (SaveWorld s)\<lparr>m_timeSinceAutoSave := 0\<rparr> else s)"

text \<open>The part of \<^verbatim>\<open>Update\<close> that follows the event pump.\<close>

definition end_tick :: "f32 \<Rightarrow> master_env \<Rightarrow> GameServer \<Rightarrow> GameServer" where
  "end_tick dt menv s = do_enet (enet_out HostFlush) (UpdateMasterConnection dt menv
     (tick_autosave dt (tick_orphans dt (update_pings (tick_heartbeat dt (tick_time_sync dt
       (BroadcastPositions (update_time dt s))))))))"

definition Update :: "f32 \<Rightarrow> enet_event list \<Rightarrow> master_env \<Rightarrow> GameServer \<Rightarrow> GameServer" where
  "Update dt evs menv s = end_tick dt menv (fold handle_event evs (begin_tick dt s))"

section \<open>Start, stop and the console\<close>

text \<open>Whether \<^verbatim>\<open>enet_initialize\<close>, the two \<^verbatim>\<open>enet_host_create\<close> calls and the master connect succeed.\<close>

record start_env =
  st_enet :: bool
  st_host :: bool
  st_masterHost :: bool
  st_masterPeer :: bool

definition Start :: "start_env \<Rightarrow> ServerConfig \<Rightarrow> GameServer \<Rightarrow> bool \<times> GameServer" where
  "Start env cfg s0 = (let s = s0\<lparr>m_config := cfg\<rparr> in
     if \<not> st_enet env then (False, s)
     else if \<not> st_host env then (False, s)
     else (True, ConnectToMaster (st_masterHost env) (st_masterPeer env) (s\<lparr>m_autoSaveInterval := f32_of_int 60\<rparr>)))"

definition Stop :: "GameServer \<Rightarrow> GameServer" where
  "Stop s = (let s1 = SendMasterDeregister s;
       s2 = (if m_masterPeer s1 then do_enet (enet_out MasterDisconnectNow) (s1\<lparr>m_masterPeer := False\<rparr>) else s1);
       s3 = s2\<lparr>m_masterHost := False, m_masterConnected := False\<rparr>;
       s4 = do_enet (fold (\<lambda>(pid, p) n. if cp_peer p \<noteq> 0 then enet_out (PeerDisconnect (cp_peer p)) n else n) (m_players s3)) s3
     in s4\<lparr>m_players := []\<rparr>)"

text \<open>
  A console line: \<open>stoul\<close> is the library's \<^verbatim>\<open>std::stoul\<close> (\<open>None\<close> when it throws;
  \<^verbatim>\<open>unsigned long\<close> has 32 bits on Windows, the only platform of the server).  The flag tells whether the main loop goes on.
\<close>

definition console_command :: "(bytes \<Rightarrow> u32 option) \<Rightarrow> bytes \<Rightarrow> GameServer \<Rightarrow> bool \<times> GameServer" where
  "console_command stoul line s =
     (if line \<in> {lit ''stop'', lit ''quit'', lit ''exit''} then (False, s)
      else if line \<in> {lit ''help'', lit ''status'', lit ''players''} then (True, s)
      else if line = lit ''save'' then (True, SaveWorld s)
      else if take 4 line = lit ''say '' then (True, BroadcastSystemMessage (drop 4 line) s)
      else if take 5 line = lit ''kick '' then (case stoul (drop 5 line) of
          None \<Rightarrow> (True, s)
        | Some k \<Rightarrow> (True, KickPlayer k (lit ''Kicked by admin'') s))
      else (True, s))"

end
