(* ===== verification/Server_Actions.thy ===== *)
theory Server_Actions
  imports Server_Loop
begin

text \<open>
  What a client may do to the server: an abstract action system.  An action of a player is one of
  a few small state changes with its permission; every handler of a client message is shown to
  be a sequence of actions of the sending player.  The locale \<open>gameplay_handler\<close> states this contract
  and derives from it, once for all handlers, what a message can and cannot change.
\<close>

section \<open>Well-formed entities and players\<close>

definition unit_progress :: "ServerEntity \<Rightarrow> bool" where
  "unit_progress e \<longleftrightarrow> f32_le 0 (se_buildProgress e) \<and> f32_le (se_buildProgress e) (f32_of_int 1)"

definition zone_ok :: "ServerEntity \<Rightarrow> bool" where
  "zone_ok e \<longleftrightarrow> se_zone e = FromWorldPos (se_position e) KMP_ZONE_SIZE"

definition entity_ok :: "EntityID \<Rightarrow> ServerEntity \<Rightarrow> bool" where
  "entity_ok k e \<longleftrightarrow> se_id e = k \<and> se_authority e = AuthServer \<and> length (se_health e) = 7 \<and>
     length (se_limbHealth e) = 7 \<and> length (se_statusEffects e) = 5 \<and> length (se_equipment e) = 14 \<and>
     zone_ok e \<and> unit_progress e"

definition name_ok :: "bytes \<Rightarrow> bool" where
  "name_ok name \<longleftrightarrow> name \<noteq> [] \<and> length name \<le> KMP_MAX_NAME_LENGTH \<and> (\<forall>c \<in> set name. 32 \<le> c \<and> c < 127)"

definition player_ok :: "PlayerID \<Rightarrow> ConnectedPlayer \<Rightarrow> bool" where
  "player_ok k p \<longleftrightarrow> cp_id p = k \<and> name_ok (cp_name p) \<and> cp_zone p = FromWorldPos (cp_position p) KMP_ZONE_SIZE"

section \<open>Permitted changes\<close>

text \<open>A write keeps the identity of the entity, never revives it and keeps it well formed.\<close>

definition same_entity :: "ServerEntity \<Rightarrow> ServerEntity \<Rightarrow> bool" where
  "same_entity e e' \<longleftrightarrow> se_id e' = se_id e \<and> se_generation e' = se_generation e \<and> se_type e' = se_type e \<and>
     se_owner e' = se_owner e \<and> se_state e' = se_state e \<and> se_authority e' = se_authority e \<and>
     se_templateId e' = se_templateId e \<and> se_factionId e' = se_factionId e \<and>
     se_templateName e' = se_templateName e \<and> length (se_health e') = length (se_health e) \<and>
     length (se_limbHealth e') = 7 \<and> length (se_statusEffects e') = length (se_statusEffects e) \<and>
     length (se_equipment e') = length (se_equipment e) \<and> (se_alive e' \<longrightarrow> se_alive e) \<and>
     (zone_ok e \<longrightarrow> zone_ok e') \<and> (unit_progress e \<longrightarrow> unit_progress e')"

definition progress_only :: "ServerEntity \<Rightarrow> ServerEntity \<Rightarrow> bool" where
  "progress_only e e' \<longleftrightarrow> e' = e\<lparr>se_buildProgress := se_buildProgress e'\<rparr>"

definition combat_only :: "ServerEntity \<Rightarrow> ServerEntity \<Rightarrow> bool" where
  "combat_only e e' \<longleftrightarrow> e' = e\<lparr>se_health := se_health e', se_alive := se_alive e'\<rparr>"

definition owns_some :: "PlayerID \<Rightarrow> GameServer \<Rightarrow> bool" where
  "owns_some pid s \<longleftrightarrow> (\<exists>aid a. um_find (m_entities s) aid = Some a \<and> se_owner a = pid)"

definition may_write :: "PlayerID \<Rightarrow> GameServer \<Rightarrow> ServerEntity \<Rightarrow> ServerEntity \<Rightarrow> bool" where
  "may_write pid s e e' \<longleftrightarrow> (length (se_limbHealth e) = 7 \<longrightarrow> same_entity e e') \<and>
     (se_owner e = pid \<or> pid = m_hostPlayerId s \<and> progress_only e e' \<or> owns_some pid s \<and> combat_only e e')"

definition new_entity :: "PlayerID \<Rightarrow> EntityID \<Rightarrow> ServerEntity \<Rightarrow> bool" where
  "new_entity pid eid e \<longleftrightarrow> entity_ok eid e \<and> se_owner e = pid \<and> se_state e = Active \<and> se_type e \<le> Turret"

text \<open>What a player's own messages may change of the player's record.\<close>

definition player_write :: "ConnectedPlayer \<Rightarrow> ConnectedPlayer \<Rightarrow> bool" where
  "player_write p p' \<longleftrightarrow> cp_id p' = cp_id p \<and> cp_name p' = cp_name p \<and> cp_peer p' = cp_peer p \<and>
     cp_isLoopback p' = cp_isLoopback p \<and> cp_ownedEntities p' = cp_ownedEntities p \<and>
     (cp_zone p = FromWorldPos (cp_position p) KMP_ZONE_SIZE \<longrightarrow>
        cp_zone p' = FromWorldPos (cp_position p') KMP_ZONE_SIZE) \<and>
     (cp_lobbyReady p \<longrightarrow> cp_lobbyReady p') \<and> (cp_isReady p \<longrightarrow> cp_isReady p')"

definition enet_only :: "(enet \<Rightarrow> enet) \<Rightarrow> bool" where
  "enet_only f \<longleftrightarrow> (\<forall>e. peer_tab (f e) = peer_tab e \<and> alloc_ok (f e) = alloc_ok e)"

section \<open>Actions\<close>

text \<open>
  Every entity id in use is below the counter, and the counter is not about to wrap.  The code
  does not check for a collision after \<open>2 ^ 32\<close> entities, so this is a hypothesis where it
  matters: with \<open>fr\<close> set, an action only creates entities when it holds.
\<close>

definition ids_fresh :: "GameServer \<Rightarrow> bool" where
  "ids_fresh s \<longleftrightarrow> (\<forall>k \<in> set (um_keys (m_entities s)). k < m_nextEntityId s) \<and> m_nextEntityId s \<noteq> 0xFFFFFFFF"

inductive act :: "bool \<Rightarrow> PlayerID \<Rightarrow> GameServer \<Rightarrow> GameServer \<Rightarrow> bool" for fr pid where
  act_send: "enet_only f \<Longrightarrow> act fr pid s (do_enet f s)"
| act_entity: "um_find (m_entities s) eid = Some e \<Longrightarrow> may_write pid s e (f e) \<Longrightarrow>
    act fr pid s (modify_entity eid f s)"
| act_spawn: "new_entity pid (m_nextEntityId s) e \<Longrightarrow> (fr \<longrightarrow> ids_fresh s) \<Longrightarrow>
    act fr pid s (s\<lparr>m_nextEntityId := m_nextEntityId s + 1, m_entities := um_set (m_nextEntityId s) e (m_entities s)\<rparr>)"
| act_erase: "um_find (m_entities s) eid = Some e \<Longrightarrow> se_owner e = pid \<or> pid = m_hostPlayerId s \<Longrightarrow>
    act fr pid s (s\<lparr>m_entities := um_erase eid (m_entities s)\<rparr>)"
| act_player: "(\<And>p. um_find (m_players s) pid = Some p \<Longrightarrow> player_write p (f p)) \<Longrightarrow>
    act fr pid s (modify_player pid f s)"
| act_squad: "act fr pid s (s\<lparr>m_nextSquadId := m_nextSquadId s + 1\<rparr>)"
| act_time: "pid = m_hostPlayerId s \<Longrightarrow> f32_le 0 t \<Longrightarrow> f32_lt t (f32_of_int 1) \<Longrightarrow>
    act fr pid s (s\<lparr>m_timeOfDay := t\<rparr>)"
| act_weather: "pid = m_hostPlayerId s \<Longrightarrow> 0 \<le> sint w \<Longrightarrow> sint w \<le> 4 \<Longrightarrow>
    act fr pid s (s\<lparr>m_weatherState := w\<rparr>)"
| act_speed: "pid = m_hostPlayerId s \<Longrightarrow> f32_le (f32_lit 1 10) v \<Longrightarrow> f32_le v (f32_of_int 10) \<Longrightarrow>
    act fr pid s (s\<lparr>m_config := (m_config s)\<lparr>sc_gameSpeed := v\<rparr>\<rparr>)"

abbreviation acts :: "bool \<Rightarrow> PlayerID \<Rightarrow> GameServer \<Rightarrow> GameServer \<Rightarrow> bool" where
  "acts fr pid \<equiv> (act fr pid)\<^sup>*\<^sup>*"

named_theorems acts_intro

lemma acts_snoc: "act fr pid t u \<Longrightarrow> acts fr pid s t \<Longrightarrow> acts fr pid s u"
  by (rule rtranclp.rtrancl_into_rtrancl)

lemma acts_send_only: "send_only g \<Longrightarrow> acts fr pid s t \<Longrightarrow> acts fr pid s (g t)"
  unfolding send_only_def by (metis act_send acts_snoc enet_only_def)

lemmas acts_sends [acts_intro] =
  acts_send_only [OF send_only_Broadcast] acts_send_only [OF send_only_BroadcastExcept]
  acts_send_only [OF send_only_SendTo] acts_send_only [OF send_only_BroadcastSystemMessage]

lemma acts_refl [acts_intro]: "acts fr pid s s"
  by simp

lemma acts_do_enet [acts_intro]: "enet_only f \<Longrightarrow> acts fr pid s t \<Longrightarrow> acts fr pid s (do_enet f t)"
  by (rule acts_snoc [OF act_send])

lemma acts_entity: "um_find (m_entities t) eid = Some e \<Longrightarrow> may_write pid t e (f e) \<Longrightarrow> acts fr pid s t \<Longrightarrow>
    acts fr pid s (modify_entity eid f t)"
  by (rule acts_snoc [OF act_entity])

lemma acts_player: "(\<And>p. um_find (m_players t) pid = Some p \<Longrightarrow> player_write p (f p)) \<Longrightarrow> acts fr pid s t \<Longrightarrow>
    acts fr pid s (modify_player pid f t)"
  by (rule acts_snoc [OF act_player])

lemma acts_erase: "um_find (m_entities t) eid = Some e \<Longrightarrow> se_owner e = pid \<or> pid = m_hostPlayerId t \<Longrightarrow>
    acts fr pid s t \<Longrightarrow> acts fr pid s (t\<lparr>m_entities := um_erase eid (m_entities t)\<rparr>)"
  by (rule acts_snoc [OF act_erase])

lemma acts_spawn: "new_entity pid (m_nextEntityId t) e \<Longrightarrow> (fr \<longrightarrow> ids_fresh t) \<Longrightarrow> acts fr pid s t \<Longrightarrow>
    acts fr pid s (t\<lparr>m_nextEntityId := m_nextEntityId t + 1, m_entities := um_set (m_nextEntityId t) e (m_entities t)\<rparr>)"
  by (rule acts_snoc [OF act_spawn])

text \<open>A write by the owner.\<close>

lemma may_write_owner: "se_owner e = pid \<Longrightarrow> (length (se_limbHealth e) = 7 \<Longrightarrow> same_entity e e') \<Longrightarrow> may_write pid s e e'"
  by (simp add: may_write_def)

lemmas write_defs = may_write_def same_entity_def progress_only_def combat_only_def zone_ok_def unit_progress_def

lemma enet_only_fold:
  assumes "\<And>x. enet_only (f x)" shows "enet_only (fold f xs)"
  using assms by (induction xs) (simp_all add: enet_only_def)

lemma enet_only_try [simp]: "enet_only (\<lambda>n. snd (enet_try c n))"
  by (simp add: enet_only_def)

section \<open>The handlers act\<close>

text \<open>Handlers that only relay.\<close>

lemma relays_act:
  "acts fr (cp_id p) s (HandleMoveCommand p r s)" "acts fr (cp_id p) s (HandleChatMessage p r s)"
  "acts fr (cp_id p) s (HandleItemPickup p r s)" "acts fr (cp_id p) s (HandleItemDrop p r s)"
  "acts fr (cp_id p) s (HandleTradeRequest p r s)" "acts fr (cp_id p) s (HandleSquadAddMember p r s)"
  "acts fr (cp_id p) s (HandleFactionRelation p r s)" "acts fr (cp_id p) s (HandleCombatStance p r s)"
  "acts fr (cp_id p) s (HandleItemTransfer p r s)" "acts fr (cp_id p) s (HandleDoorInteract p r s)"
  "acts fr (cp_id p) s (RelayPipeline ty p r s)"
  unfolding HandleMoveCommand_def HandleChatMessage_def HandleItemPickup_def HandleItemDrop_def
    HandleTradeRequest_def HandleSquadAddMember_def HandleFactionRelation_def HandleCombatStance_def
    HandleItemTransfer_def HandleDoorInteract_def RelayPipeline_def
  by (auto intro!: acts_intro split: prod.splits option.splits)

lemma HandleZoneRequest_act: "acts fr (cp_id p) s (HandleZoneRequest p r s)"
  unfolding HandleZoneRequest_def
  by (auto intro!: acts_intro enet_only_fold split: prod.splits option.splits) (auto simp: enet_only_def)

lemma HandleKeepalive_act: "acts fr (cp_id p) s (HandleKeepalive q p r s)"
  unfolding HandleKeepalive_def by (auto intro!: acts_intro acts_player simp: player_write_def)

lemma HandleSquadCreate_act: "acts fr (cp_id p) s (HandleSquadCreate p r s)"
  unfolding HandleSquadCreate_def
  by (auto intro!: acts_intro acts_snoc [OF act_squad] split: prod.splits option.splits)

lemma HandleLobbyReady_act: "acts fr (cp_id p) s (HandleLobbyReady p s)"
  unfolding HandleLobbyReady_def Let_def by (auto intro!: acts_intro acts_player simp: player_write_def)

lemma HandlePlayerReady_act: "acts fr (cp_id p) s (HandlePlayerReady p s)"
  unfolding HandlePlayerReady_def Let_def by (auto intro!: acts_intro acts_player simp: player_write_def)

text \<open>Handlers that write one entity.\<close>

lemma HandleEquipmentUpdate_act: "acts fr (cp_id p) s (HandleEquipmentUpdate p r s)"
  unfolding HandleEquipmentUpdate_def
  by (auto intro!: acts_intro acts_entity may_write_owner simp: write_defs split: prod.splits option.splits)

lemma HandleStatusEffect_act: "acts fr (cp_id p) s (HandleStatusEffect p r s)"
  unfolding HandleStatusEffect_def
  by (auto intro!: acts_intro acts_entity may_write_owner simp: write_defs split: prod.splits option.splits)

lemma HandleLimbHealth_act: "acts fr (cp_id p) s (HandleLimbHealth p r s)"
  unfolding HandleLimbHealth_def
  by (auto intro!: acts_intro acts_entity may_write_owner simp: write_defs
        dest!: MsgLimbHealth.read_reencodes(1) simp: MsgLimbHealth_wf_def split: prod.splits option.splits)

lemma is_reporter_owns: "is_reporter pid e aid s \<Longrightarrow> se_owner e = pid \<or> owns_some pid s"
  by (auto simp: is_reporter_def owns_some_def split: option.splits)

lemma HandleCombatKO_act: "acts fr (cp_id p) s (HandleCombatKO p r s)"
  unfolding HandleCombatKO_def
  by (auto intro!: acts_intro acts_entity simp: write_defs dest!: is_reporter_owns split: prod.splits option.splits)

lemma HandleCombatDeath_act: "acts fr (cp_id p) s (HandleCombatDeath p r s)"
  unfolding HandleCombatDeath_def
  by (auto intro!: acts_intro acts_entity simp: write_defs dest!: is_reporter_owns split: prod.splits option.splits)

lemma HandleEntityDespawnReq_act: "acts fr (cp_id p) s (HandleEntityDespawnReq junk p r s)"
  unfolding HandleEntityDespawnReq_def Let_def
  by (auto intro!: acts_intro acts_erase split: prod.splits option.splits)

lemma HandleBuildDismantle_act: "acts fr (cp_id p) s (HandleBuildDismantle p r s)"
  unfolding HandleBuildDismantle_def
  by (auto intro!: acts_intro acts_erase split: prod.splits option.splits)

lemma unit_between:
  assumes "f32_le 0 x" "f32_le x (f32_of_int 1)"
  shows "f32_between 0 (2 ^ 149) x"
proof -
  have k: "f32_key 0 = 0" "f32_key (f32_of_int 1) = 0x3F800000" by (simp_all add: f32_eval)
  have x: "0 \<le> f32_key x" "f32_key x \<le> 0x3F800000" using assms k by (simp_all add: f32_le_def)
  have "ksval 0 = 0" "ksval 0x3F800000 = 2 ^ 149" by (simp_all add: ksval_def f32_eval)
  then show ?thesis using f32_between_keys [OF x] by (simp add: mag_inf_def)
qed

lemma repaired_unit:
  assumes "f32_le 0 p" "f32_le p (f32_of_int 1)" "f32_le 0 a" "f32_le a (f32_of_int 1)"
  shows "f32_le 0 (repaired p a)" "f32_le (repaired p a) (f32_of_int 1)"
proof -
  have v: "ksval 0 = 0" "ksval 0x40000000 = 2 * 2 ^ 149" by (simp_all add: ksval_def f32_eval)
  have "f32_between (ksval 0) (ksval 0x40000000) (f32_add p a)"
    by (rule f32_between_add [OF unit_between [OF assms(1,2)] unit_between [OF assms(3,4)]])
      (simp_all add: v mag_inf_def)
  then have n: "\<not> f32_isnan (f32_add p a)" by (auto simp: f32_between_def f32_class_excl)
  have k: "\<not> f32_isnan 0" "\<not> f32_isnan (f32_of_int 1)" "f32_key 0 \<le> f32_key (f32_of_int 1)"
    by (simp_all add: f32_eval)
  note c = f32_clamp_key [OF n k]
  have "\<not> f32_isnan (repaired p a)" using n k by (simp add: repaired_def f32_clamp_def)
  then show "f32_le 0 (repaired p a)" "f32_le (repaired p a) (f32_of_int 1)"
    using c k by (simp_all add: f32_le_def repaired_def)
qed

lemma repair_amount:
  "\<not> f32_le a 0 \<Longrightarrow> \<not> f32_isnan a \<Longrightarrow> \<not> f32_lt (f32_of_int 1) a \<Longrightarrow> f32_le 0 a \<and> f32_le a (f32_of_int 1)"
proof -
  have "\<not> f32_isnan 0" "\<not> f32_isnan (f32_of_int 1)" by (simp_all add: f32_eval)
  then show "\<not> f32_le a 0 \<Longrightarrow> \<not> f32_isnan a \<Longrightarrow> \<not> f32_lt (f32_of_int 1) a \<Longrightarrow> ?thesis"
    by (auto simp: f32_le_def f32_lt_def)
qed

lemma HandleBuildRepair_act: "acts fr (cp_id p) s (HandleBuildRepair p r s)"
  unfolding HandleBuildRepair_def Let_def
  by (auto intro!: acts_intro acts_entity simp: write_defs repaired_unit repair_amount split: prod.splits option.splits)

text \<open>Handlers that create an entity.\<close>

lemma entity_default_ok:
  "se_authority ServerEntity_default = AuthServer" "length (se_health ServerEntity_default) = 7"
  "length (se_limbHealth ServerEntity_default) = 7" "length (se_statusEffects ServerEntity_default) = 5"
  "length (se_equipment ServerEntity_default) = 14" "se_state ServerEntity_default = Active"
  "se_buildProgress ServerEntity_default = 0"
  by (simp_all add: ServerEntity_default_def)

lemma unit_progress_0: "se_buildProgress e = 0 \<Longrightarrow> unit_progress e"
  by (simp add: unit_progress_def f32_eval)

lemma new_building_ok: "new_entity pid eid (new_building eid pid msg)"
proof -
  have "unit_progress (new_building eid pid msg)"
    by (rule unit_progress_0) (simp add: new_building_def Let_def entity_default_ok)
  then show ?thesis
    by (simp add: new_entity_def entity_ok_def zone_ok_def new_building_def Let_def entity_default_ok Building_def Turret_def)
qed

lemma HandleBuildRequest_act: "(fr \<longrightarrow> ids_fresh s) \<Longrightarrow> acts fr (cp_id p) s (HandleBuildRequest p r s)"
  unfolding HandleBuildRequest_def Let_def
  by (auto intro!: acts_intro acts_spawn new_building_ok split: prod.splits option.splits)

lemma read_floats_length: "length (fst (read_floats xs r)) = length xs"
  by (induction xs arbitrary: r) (auto split: prod.splits)

lemma read_spawn_req_health:
  "read_spawn_req r = Some q \<Longrightarrow> sr_extended q = Some (hs, a) \<Longrightarrow> length hs = 7"
proof -
  have "read_extended r = Some (hs, a) \<Longrightarrow> length hs = 7" for r
    using read_floats_length [of "replicate 7 (f32_of_int 100)"]
    by (auto simp: read_extended_def split: prod.splits if_splits dest: arg_cong [of _ _ "length \<circ> fst"])
  then show "read_spawn_req r = Some q \<Longrightarrow> sr_extended q = Some (hs, a) \<Longrightarrow> length hs = 7"
    by (auto simp: read_spawn_req_def split: prod.splits option.splits)
qed

lemma spawned_entity_ok:
  assumes "read_spawn_req r = Some q" "\<not> sr_type q > Turret"
  shows "new_entity pid eid (spawned_entity eid pid q)"
proof -
  have "unit_progress (spawned_entity eid pid q)"
    by (rule unit_progress_0) (simp add: spawned_entity_def Let_def entity_default_ok split: option.splits prod.splits)
  then show ?thesis using assms read_spawn_req_health [OF assms(1)]
    by (auto simp: new_entity_def entity_ok_def zone_ok_def spawned_entity_def Let_def entity_default_ok
        split: option.splits prod.splits)
qed

lemma HandleEntitySpawnReq_act:
  assumes "fr \<longrightarrow> ids_fresh s" shows "acts fr (cp_id p) s (HandleEntitySpawnReq p r s)"
proof (cases "read_spawn_req r")
  case None
  then show ?thesis by (simp add: HandleEntitySpawnReq_def)
next
  case (Some q)
  have z: "se_zone (spawned_entity eid pid q) = FromWorldPos (se_position (spawned_entity eid pid q)) KMP_ZONE_SIZE" for eid pid
    by (simp add: spawned_entity_def Let_def split: option.splits prod.splits)
  show ?thesis using spawned_entity_ok [OF Some] assms
    by (auto simp: HandleEntitySpawnReq_def Some Let_def player_write_def z intro!: acts_intro acts_player acts_spawn)
qed

text \<open>Combat and movement.\<close>

lemma ResolveCombat_write:
  assumes "um_find (m_entities s) aid = Some a" "se_owner a = pid"
  shows "may_write pid s t (snd (ResolveCombat b t ty d))"
proof -
  have "owns_some pid s" using assms by (auto simp: owns_some_def)
  then show ?thesis by (auto simp: ResolveCombat_def Let_def write_defs)
qed

lemma attack_acts:
  assumes a: "um_find (m_entities s) aid = Some a" "se_owner a = pid" and t: "um_find (m_entities s) tid = Some t"
    and c: "ResolveCombat a t ty d = (res, t')"
  shows "acts fr pid s (Broadcast m1 RU True (modify_entity tid (\<lambda>_. t') s))"
    "acts fr pid s (Broadcast m2 RO True (modify_entity tid (\<lambda>e. e\<lparr>se_alive := False\<rparr>)
        (Broadcast m1 RU True (modify_entity tid (\<lambda>_. t') s))))"
proof -
  have w: "may_write pid s t t'" using ResolveCombat_write [OF a, of t a ty d] c by simp
  let ?s1 = "Broadcast m1 RU True (modify_entity tid (\<lambda>_. t') s)"
  show s1: "acts fr pid s ?s1" using w t by (auto intro!: acts_intro acts_entity)
  have f: "um_find (m_entities ?s1) tid = Some t'" 
    using t by (simp add: srv_simps modify_entity_def um_find_modify)
  have "se_owner t' = se_owner t" using w c ResolveCombat_frame(1) [of a t ty d] by simp
  then have "owns_some pid ?s1"
    using a t by (auto simp: owns_some_def srv_simps modify_entity_def um_find_modify intro!: exI [of _ aid])
  then have "may_write pid ?s1 t' (t'\<lparr>se_alive := False\<rparr>)" by (auto simp: write_defs)
  then show "acts fr pid s (Broadcast m2 RO True (modify_entity tid (\<lambda>e. e\<lparr>se_alive := False\<rparr>) ?s1))"
    by (rule acts_sends(1) [OF acts_entity [OF f _ s1]])
qed

lemma HandleAttackIntent_act: "acts fr (cp_id p) s (HandleAttackIntent d p r s)"
proof (cases "ReadStruct MsgAttackIntent_size MsgAttackIntent_dec r")
  case (Pair x r')
  show ?thesis
  proof (cases "\<exists>msg t. x = Some msg \<and> um_find (m_entities s) (MsgAttackIntent_targetId msg) = Some t \<and>
      CanClientCommandEntity (cp_id p) (MsgAttackIntent_attackerId msg) (m_entities s)")
    case True
    then obtain msg t a where x: "x = Some msg" and t: "um_find (m_entities s) (MsgAttackIntent_targetId msg) = Some t"
      and cmd: "CanClientCommandEntity (cp_id p) (MsgAttackIntent_attackerId msg) (m_entities s)"
      and a: "um_find (m_entities s) (MsgAttackIntent_attackerId msg) = Some a" "se_owner a = cp_id p"
      by (auto simp: CanClientCommandEntity_iff)
    obtain res t' where c: "ResolveCombat a t (MsgAttackIntent_attackType msg) d = (res, t')" by fastforce
    note act = attack_acts [OF a t c]
    show ?thesis unfolding HandleAttackIntent_def Pair x prod.case option.case Let_def
      by (simp add: cmd a(1) t c acts_refl act acts_sends(1) [OF act(1)])
  next
    case False
    then show ?thesis by (auto simp: HandleAttackIntent_def Pair split: option.splits)
  qed
qed

lemma position_loop_act: "acts fr pid s (position_loop n pid b r s)"
proof (induction n arbitrary: b r s)
  case (Suc n)
  have w: "may_write pid s e (apply_position pos e)" if "se_owner e = pid" for e pos
    using that by (simp add: write_defs apply_position_def Let_def)
  have pl: "player_write q (track_player pos q)" for q pos
    by (simp add: player_write_def track_player_def Let_def)
  have "acts fr pid s (modify_player pid (track_player pos) (modify_entity eid (apply_position pos) s))"
    "acts fr pid s (modify_entity eid (apply_position pos) s)"
    if "CanClientCommandEntity pid eid (m_entities s)" for pos eid
    using that w pl by (auto intro!: acts_intro acts_player acts_entity elim!: CanClientCommandEntityE)
  moreover have "acts fr pid s (position_loop n pid b' r' t)" if "acts fr pid s t" for b' r' t
    by (rule rtranclp_trans [OF that Suc])
  ultimately show ?case
    by (auto simp: ValidatePositionUpdate_def Let_def split: prod.splits option.splits)
qed simp

lemma HandlePositionUpdate_act: "acts fr (cp_id p) s (HandlePositionUpdate p r s)"
  unfolding HandlePositionUpdate_def by (auto simp: position_loop_act split: prod.splits option.splits)

text \<open>Admin commands.\<close>

lemma send_only_BroadcastTimeSync [simp]: "send_only BroadcastTimeSync"
  unfolding send_only_def BroadcastTimeSync_def using send_only_Broadcast by (auto simp: send_only_def)

lemma enet_only_reject: "\<exists>f. enet_only f \<and> send_reject p c reason s = do_enet f s"
  unfolding send_reject_def by (rule exI, rule conjI, rule_tac [2] refl) (simp add: enet_only_def enet_out_def)

lemma acts_reject [acts_intro]: "acts fr pid s t \<Longrightarrow> acts fr pid s (send_reject q c reason t)"
  using enet_only_reject [of q c reason t] acts_do_enet by metis

lemma admin_command_act:
  assumes "pid = m_hostPlayerId s" shows "acts fr pid s (snd (admin_command c tid f m s))"
  using assms unfolding admin_command_def admin_kick_def Let_def
  by (auto intro!: acts_intro acts_send_only [OF send_only_BroadcastTimeSync]
        acts_snoc [OF act_time] acts_snoc [OF act_weather] acts_snoc [OF act_speed] split: option.splits)

lemma HandleAdminCommand_act: "acts fr (cp_id p) s (HandleAdminCommand beyond p r s)"
proof -
  have "acts fr (cp_id p) s s1" if "admin_command c tid f m s = (t, s1)" "cp_id p = m_hostPlayerId s" for c tid f m t s1
    using admin_command_act [OF that(2), of fr c tid f m] that(1) by simp
  then show ?thesis unfolding HandleAdminCommand_def
    by (auto intro!: acts_intro split: prod.splits option.splits)
qed

lemmas handler_acts = relays_act HandleZoneRequest_act HandleKeepalive_act HandleSquadCreate_act
  HandleLobbyReady_act HandlePlayerReady_act HandleEquipmentUpdate_act HandleStatusEffect_act
  HandleLimbHealth_act HandleCombatKO_act HandleCombatDeath_act HandleEntityDespawnReq_act
  HandleBuildDismantle_act HandleBuildRepair_act HandleBuildRequest_act HandleEntitySpawnReq_act
  HandleAttackIntent_act HandlePositionUpdate_act HandleAdminCommand_act

section \<open>What actions cannot change\<close>

lemma u32_less_succ: "(n :: u32) \<noteq> 0xFFFFFFFF \<Longrightarrow> n < n + 1"
proof -
  assume "n \<noteq> 0xFFFFFFFF"
  moreover have "(0xFFFFFFFF :: u32) + 1 = 0" by simp
  ultimately have "n + 1 \<noteq> 0" by (metis add_right_cancel)
  then show ?thesis using unatSuc [of n] by (simp add: word_less_nat_alt add.commute)
qed

lemma act_frame:
  assumes "act fr pid s t"
  shows "m_savedPlayers t = m_savedPlayers s" "m_hostPlayerId t = m_hostPlayerId s"
    "m_nextPlayerId t = m_nextPlayerId s" "sc_maxPlayers (m_config t) = sc_maxPlayers (m_config s)"
    "um_keys (m_players t) = um_keys (m_players s)" "m_saves t = m_saves s" "m_serverTick t = m_serverTick s"
    "peer_tab (m_enet t) = peer_tab (m_enet s)" "alloc_ok (m_enet t) = alloc_ok (m_enet s)"
  using assms by (induction rule: act.induct)
    (simp_all add: srv_simps modify_entity_def modify_player_def um_keys_modify enet_only_def)

lemma acts_frame:
  assumes "acts fr pid s t"
  shows "m_savedPlayers t = m_savedPlayers s" "m_hostPlayerId t = m_hostPlayerId s"
    "m_nextPlayerId t = m_nextPlayerId s" "sc_maxPlayers (m_config t) = sc_maxPlayers (m_config s)"
    "um_keys (m_players t) = um_keys (m_players s)" "m_saves t = m_saves s" "m_serverTick t = m_serverTick s"
    "peer_tab (m_enet t) = peer_tab (m_enet s)" "alloc_ok (m_enet t) = alloc_ok (m_enet s)"
  using assms by (induction rule: rtranclp_induct) (simp_all add: act_frame)

text \<open>The records of the other players are untouched; the player's own keeps identity, name and peer.\<close>

lemma act_players:
  assumes "act fr pid s t"
  shows "k \<noteq> pid \<Longrightarrow> um_find (m_players t) k = um_find (m_players s) k"
    "um_find (m_players s) pid = Some p \<Longrightarrow> \<exists>p'. um_find (m_players t) pid = Some p' \<and> player_write p p'"
  using assms by (induction rule: act.induct)
    (auto simp: srv_simps modify_entity_def modify_player_def um_find_modify player_write_def)

lemma player_write_trans: "player_write a b \<Longrightarrow> player_write b c \<Longrightarrow> player_write a c"
  unfolding player_write_def by simp

lemma acts_players:
  assumes "acts fr pid s t"
  shows "k \<noteq> pid \<Longrightarrow> um_find (m_players t) k = um_find (m_players s) k"
    "um_find (m_players s) pid = Some p \<Longrightarrow> \<exists>p'. um_find (m_players t) pid = Some p' \<and> player_write p p'"
proof -
  show "k \<noteq> pid \<Longrightarrow> um_find (m_players t) k = um_find (m_players s) k"
    using assms by (induction rule: rtranclp_induct) (simp_all add: act_players)
  show "um_find (m_players s) pid = Some p \<Longrightarrow> \<exists>p'. um_find (m_players t) pid = Some p' \<and> player_write p p'"
    using assms
  proof (induction rule: rtranclp_induct)
    case base
    then show ?case by (auto simp: player_write_def)
  next
    case (step t u)
    then show ?case using act_players(2) [OF step.hyps(2)] player_write_trans by blast
  qed
qed

text \<open>Only the host changes the clock, the weather and the game speed, and only within their ranges.\<close>

lemma act_world:
  assumes "act fr pid s t"
  shows "pid \<noteq> m_hostPlayerId s \<Longrightarrow> m_timeOfDay t = m_timeOfDay s \<and> m_weatherState t = m_weatherState s \<and> m_config t = m_config s"
  using assms by (induction rule: act.induct) (simp_all add: srv_simps modify_entity_def modify_player_def)

lemma acts_world:
  assumes "acts fr pid s t" "pid \<noteq> m_hostPlayerId s"
  shows "m_timeOfDay t = m_timeOfDay s \<and> m_weatherState t = m_weatherState s \<and> m_config t = m_config s"
  using assms by (induction rule: rtranclp_induct) (auto simp: act_world acts_frame)

text \<open>Entities of other players: at most their health and alive flag change.\<close>

lemma act_foreign:
  assumes "act True pid s t" "um_find (m_entities s) k = Some e" "se_owner e \<noteq> pid" "pid \<noteq> m_hostPlayerId s"
  shows "\<exists>e'. um_find (m_entities t) k = Some e' \<and> combat_only e e'"
proof -
  have refl: "combat_only e e" by (simp add: combat_only_def)
  from assms show ?thesis
  proof (induction rule: act.induct)
    case (act_entity s eid e0 f)
    then show ?case using refl by (auto simp: modify_entity_def um_find_modify may_write_def)
  next
    case (act_spawn s e0)
    then have "k < m_nextEntityId s" by (auto simp: ids_fresh_def um_keys_def dest!: map_of_SomeD)
    then show ?case using act_spawn refl by (auto simp: um_find_set)
  qed (use refl in \<open>auto simp: srv_simps modify_player_def um_find_erase\<close>)
qed

lemma combat_only_iff: "combat_only e e' \<longleftrightarrow> (\<exists>h a. e' = e\<lparr>se_health := h, se_alive := a\<rparr>)"
  unfolding combat_only_def by (auto simp del: ServerEntity.surjective) 

lemma combat_only_trans: "combat_only a b \<Longrightarrow> combat_only b c \<Longrightarrow> combat_only a c"
  unfolding combat_only_iff by fastforce

lemma combat_only_owner: "combat_only e e' \<Longrightarrow> se_owner e' = se_owner e"
  unfolding combat_only_iff by auto

lemma acts_foreign:
  assumes "acts True pid s t" "um_find (m_entities s) k = Some e" "se_owner e \<noteq> pid" "pid \<noteq> m_hostPlayerId s"
  shows "\<exists>e'. um_find (m_entities t) k = Some e' \<and> combat_only e e'"
  using assms(1)
proof (induction rule: rtranclp_induct)
  case base
  then show ?case using assms(2) by (simp add: combat_only_def)
next
  case (step t u)
  then obtain e' where e': "um_find (m_entities t) k = Some e'" "combat_only e e'" by blast
  have "se_owner e' \<noteq> pid" "pid \<noteq> m_hostPlayerId t"
    using e' assms(3,4) step.hyps(1) by (simp_all add: combat_only_owner acts_frame)
  then show ?case using act_foreign [OF step.hyps(2) e'(1)] e'(2) combat_only_trans by blast
qed

text \<open>Without an entity of one's own, nothing of the other players' entities changes at all.\<close>

definition wf_entities :: "GameServer \<Rightarrow> bool" where
  "wf_entities s \<longleftrightarrow> (\<forall>k e. um_find (m_entities s) k = Some e \<longrightarrow> entity_ok k e)"

lemma wf_entitiesD: "wf_entities s \<Longrightarrow> um_find (m_entities s) k = Some e \<Longrightarrow> entity_ok k e"
  by (simp add: wf_entities_def)

lemma same_entity_ok: "same_entity e e' \<Longrightarrow> entity_ok k e \<Longrightarrow> entity_ok k e'"
  by (simp add: same_entity_def entity_ok_def)

lemma act_wf_entities:
  assumes "act fr pid s t" "wf_entities s" shows "wf_entities t"
  using assms
proof (induction rule: act.induct)
  case (act_entity s eid e f)
  have ok: "entity_ok eid e" by (rule wf_entitiesD [OF act_entity.prems act_entity.hyps(1)])
  then have "same_entity e (f e)" using act_entity.hyps(2) by (simp add: may_write_def entity_ok_def)
  then have "entity_ok eid (f e)" using ok by (rule same_entity_ok)
  then show ?case using act_entity by (auto simp: wf_entities_def modify_entity_def um_find_modify)
qed (auto simp: wf_entities_def srv_simps modify_player_def um_find_set um_find_erase new_entity_def)

lemma acts_wf_entities: "acts fr pid s t \<Longrightarrow> wf_entities s \<Longrightarrow> wf_entities t"
  by (induction rule: rtranclp_induct) (auto intro: act_wf_entities)

text \<open>The dead stay dead.\<close>

definition gone_or_dead :: "EntityID \<Rightarrow> GameServer \<Rightarrow> bool" where
  "gone_or_dead k s \<longleftrightarrow> k < m_nextEntityId s \<and> (\<forall>e. um_find (m_entities s) k = Some e \<longrightarrow> \<not> se_alive e)"

lemma act_gone_or_dead:
  assumes "act True pid s t" "wf_entities s" "gone_or_dead k s" shows "gone_or_dead k t"
  using assms
proof (induction rule: act.induct)
  case (act_entity s eid e f)
  have "entity_ok eid e" by (rule wf_entitiesD [OF act_entity.prems(1) act_entity.hyps(1)])
  then have "se_alive (f e) \<longrightarrow> se_alive e"
    using act_entity.hyps(2) by (simp add: may_write_def entity_ok_def same_entity_def)
  then show ?case using act_entity by (auto simp: gone_or_dead_def modify_entity_def um_find_modify)
next
  case (act_spawn s e)
  then have "m_nextEntityId s < m_nextEntityId s + 1" by (simp add: ids_fresh_def u32_less_succ)
  then show ?case using act_spawn by (auto simp: gone_or_dead_def um_find_set intro: less_trans)
qed (auto simp: gone_or_dead_def srv_simps modify_player_def um_find_erase)

lemma acts_gone_or_dead:
  assumes "acts True pid s t" "wf_entities s" "gone_or_dead k s" shows "gone_or_dead k t"
  using assms by (induction rule: rtranclp_induct) (auto intro: act_gone_or_dead acts_wf_entities)

section \<open>The contract of a client message\<close>

text \<open>
  \<open>gameplay_handler h\<close>: the handler \<open>h\<close> only acts on behalf of the sending player.
  \<open>relay_handler h\<close>: moreover the game state does not change at all.
\<close>

definition quiet :: "GameServer \<Rightarrow> GameServer \<Rightarrow> bool" where
  "quiet s t \<longleftrightarrow> (\<exists>f. enet_only f \<and> t = do_enet f s)"

locale gameplay_handler =
  fixes h :: "ConnectedPlayer \<Rightarrow> PacketReader \<Rightarrow> GameServer \<Rightarrow> GameServer"
  assumes acts: "(fr \<longrightarrow> ids_fresh s) \<Longrightarrow> acts fr (cp_id p) s (h p r s)"
begin

lemma any_acts: "acts False (cp_id p) s (h p r s)"
  by (rule acts) simp

lemma keeps_session:
  "m_savedPlayers (h p r s) = m_savedPlayers s" "m_hostPlayerId (h p r s) = m_hostPlayerId s"
  "m_nextPlayerId (h p r s) = m_nextPlayerId s" "um_keys (m_players (h p r s)) = um_keys (m_players s)"
  "peer_tab (m_enet (h p r s)) = peer_tab (m_enet s)"
  by (rule acts_frame [OF any_acts])+

lemma other_players: "k \<noteq> cp_id p \<Longrightarrow> um_find (m_players (h p r s)) k = um_find (m_players s) k"
  by (rule acts_players(1) [OF any_acts])

lemma own_player:
  "um_find (m_players s) (cp_id p) = Some q \<Longrightarrow>
     \<exists>q'. um_find (m_players (h p r s)) (cp_id p) = Some q' \<and> player_write q q'"
  by (rule acts_players(2) [OF any_acts])

lemma world_by_host: "cp_id p \<noteq> m_hostPlayerId s \<Longrightarrow>
    m_timeOfDay (h p r s) = m_timeOfDay s \<and> m_weatherState (h p r s) = m_weatherState s \<and> m_config (h p r s) = m_config s"
  by (rule acts_world [OF any_acts])

lemma keeps_wf_entities: "wf_entities s \<Longrightarrow> wf_entities (h p r s)"
  by (rule acts_wf_entities [OF any_acts])

lemma foreign_entity:
  assumes "ids_fresh s" "um_find (m_entities s) k = Some e" "se_owner e \<noteq> cp_id p" "cp_id p \<noteq> m_hostPlayerId s"
  shows "\<exists>e'. um_find (m_entities (h p r s)) k = Some e' \<and> combat_only e e'"
  by (rule acts_foreign [OF acts assms(2-4)]) (use assms(1) in simp)

lemma dead_stays_dead:
  assumes "ids_fresh s" "wf_entities s" "gone_or_dead k s" shows "gone_or_dead k (h p r s)"
  by (rule acts_gone_or_dead [OF acts assms(2,3)]) (use assms(1) in simp)

end

locale relay_handler = gameplay_handler +
  assumes quiet: "quiet s (h p r s)"
begin

lemma keeps_world: "m_entities (h p r s) = m_entities s" "m_players (h p r s) = m_players s"
    "m_nextEntityId (h p r s) = m_nextEntityId s" "m_nextSquadId (h p r s) = m_nextSquadId s"
  using quiet [of s p r] by (auto simp: quiet_def srv_simps)

end

lemma quiet_refl [simp]: "quiet s s"
  unfolding quiet_def by (rule exI [of _ "\<lambda>e. e"]) (simp add: enet_only_def do_enet_def)

lemma quiet_do_enet: "enet_only f \<Longrightarrow> quiet s t \<Longrightarrow> quiet s (do_enet f t)"
proof -
  assume f: "enet_only f" and "quiet s t"
  then obtain g where g: "enet_only g" "t = do_enet g s" unfolding quiet_def by blast
  have "do_enet f t = do_enet (f \<circ> g) s" "enet_only (f \<circ> g)"
    using f g by (simp_all add: do_enet_def enet_only_def)
  then show ?thesis unfolding quiet_def by blast
qed

lemma quiet_send_only: "send_only g \<Longrightarrow> quiet s t \<Longrightarrow> quiet s (g t)"
  unfolding send_only_def by (metis quiet_do_enet enet_only_def)

lemmas quiet_sends = quiet_send_only [OF send_only_Broadcast] quiet_send_only [OF send_only_BroadcastExcept]
  quiet_send_only [OF send_only_SendTo] quiet_send_only [OF send_only_BroadcastSystemMessage]

text \<open>The handlers that only relay: every branch returns the server or sends.\<close>

lemma handler_quiet:
  "quiet s (HandleMoveCommand p r s)"
  "quiet s (HandleChatMessage p r s)"
  "quiet s (HandleItemPickup p r s)"
  "quiet s (HandleItemDrop p r s)"
  "quiet s (HandleTradeRequest p r s)"
  "quiet s (HandleSquadAddMember p r s)"
  "quiet s (HandleFactionRelation p r s)"
  "quiet s (HandleCombatStance p r s)"
  "quiet s (HandleItemTransfer p r s)"
  "quiet s (HandleDoorInteract p r s)"
  unfolding HandleMoveCommand_def
    HandleChatMessage_def
    HandleItemPickup_def
    HandleItemDrop_def
    HandleTradeRequest_def
    HandleSquadAddMember_def
    HandleFactionRelation_def
    HandleCombatStance_def
    HandleItemTransfer_def
    HandleDoorInteract_def
  by (auto intro!: quiet_sends split: prod.splits option.splits)

lemma HandleZoneRequest_quiet: "quiet s (HandleZoneRequest p r s)"
  unfolding HandleZoneRequest_def
  by (auto intro!: quiet_sends quiet_do_enet enet_only_fold split: prod.splits option.splits) (auto simp: enet_only_def)

interpretation HandleMoveCommand: relay_handler HandleMoveCommand
  by unfold_locales (rule handler_acts, rule handler_quiet)

interpretation HandleChatMessage: relay_handler HandleChatMessage
  by unfold_locales (rule handler_acts, rule handler_quiet)

interpretation HandleItemPickup: relay_handler HandleItemPickup
  by unfold_locales (rule handler_acts, rule handler_quiet)

interpretation HandleItemDrop: relay_handler HandleItemDrop
  by unfold_locales (rule handler_acts, rule handler_quiet)

interpretation HandleTradeRequest: relay_handler HandleTradeRequest
  by unfold_locales (rule handler_acts, rule handler_quiet)

interpretation HandleSquadAddMember: relay_handler HandleSquadAddMember
  by unfold_locales (rule handler_acts, rule handler_quiet)

interpretation HandleFactionRelation: relay_handler HandleFactionRelation
  by unfold_locales (rule handler_acts, rule handler_quiet)

interpretation HandleCombatStance: relay_handler HandleCombatStance
  by unfold_locales (rule handler_acts, rule handler_quiet)

interpretation HandleItemTransfer: relay_handler HandleItemTransfer
  by unfold_locales (rule handler_acts, rule handler_quiet)

interpretation HandleDoorInteract: relay_handler HandleDoorInteract
  by unfold_locales (rule handler_acts, rule handler_quiet)

interpretation HandleZoneRequest: relay_handler HandleZoneRequest
  by unfold_locales (rule handler_acts, rule HandleZoneRequest_quiet)

interpretation RelayPipeline: relay_handler "RelayPipeline ty" for ty
  by unfold_locales (rule handler_acts, auto simp: RelayPipeline_def intro!: quiet_sends)

interpretation HandleSquadCreate: gameplay_handler HandleSquadCreate
  by unfold_locales (rule handler_acts)

interpretation HandleEquipmentUpdate: gameplay_handler HandleEquipmentUpdate
  by unfold_locales (rule handler_acts)

interpretation HandleStatusEffect: gameplay_handler HandleStatusEffect
  by unfold_locales (rule handler_acts)

interpretation HandleLimbHealth: gameplay_handler HandleLimbHealth
  by unfold_locales (rule handler_acts)

interpretation HandleCombatKO: gameplay_handler HandleCombatKO
  by unfold_locales (rule handler_acts)

interpretation HandleCombatDeath: gameplay_handler HandleCombatDeath
  by unfold_locales (rule handler_acts)

interpretation HandleBuildDismantle: gameplay_handler HandleBuildDismantle
  by unfold_locales (rule handler_acts)

interpretation HandleBuildRepair: gameplay_handler HandleBuildRepair
  by unfold_locales (rule handler_acts)

interpretation HandleBuildRequest: gameplay_handler HandleBuildRequest
  by unfold_locales (rule HandleBuildRequest_act)

interpretation HandleEntitySpawnReq: gameplay_handler HandleEntitySpawnReq
  by unfold_locales (rule HandleEntitySpawnReq_act)

interpretation HandlePositionUpdate: gameplay_handler HandlePositionUpdate
  by unfold_locales (rule handler_acts)

interpretation HandleAttackIntent: gameplay_handler "HandleAttackIntent d" for d
  by unfold_locales (rule handler_acts)

interpretation HandleEntityDespawnReq: gameplay_handler "HandleEntityDespawnReq junk" for junk
  by unfold_locales (rule handler_acts)

interpretation HandleAdminCommand: gameplay_handler "HandleAdminCommand beyond" for beyond
  by unfold_locales (rule handler_acts)

interpretation HandleKeepalive: gameplay_handler "HandleKeepalive q" for q
  by unfold_locales (rule handler_acts)

interpretation HandleLobbyReady: gameplay_handler "\<lambda>p r. HandleLobbyReady p"
  by unfold_locales (rule handler_acts)

interpretation HandlePlayerReady: gameplay_handler "\<lambda>p r. HandlePlayerReady p"
  by unfold_locales (rule handler_acts)

text \<open>Every case of the dispatcher's switch that is run for a player satisfies the contract.\<close>

lemma player_handlers_contract:
  assumes "(ty, h) \<in> set (player_handlers env q)" shows "gameplay_handler h"
proof -
  have "\<forall>h \<in> set (map snd (player_handlers env q)). gameplay_handler h"
    unfolding player_handlers_def list.map snd_conv list.set ball_simps
    by (intro conjI TrueI; unfold_locales)
  with assms show ?thesis by force
qed

end
