(* ===== verification/Server_Invariants.thy ===== *)
theory Server_Invariants
  imports Server_Actions
begin

text \<open>
  The server as a transition system: its steps are the beginning and the end of a tick, one ENet
  event, a console line and a rehash of the unordered maps.  The invariants of all reachable
  states.
\<close>

section \<open>Steps\<close>

text \<open>
  What ENet guarantees of its events: peers are not null, and a peer slot is only reused for a new
  connection after the disconnect event of the old one was delivered.
\<close>

fun event_ok :: "GameServer \<Rightarrow> enet_event \<Rightarrow> bool" where
  "event_ok s (EvConnect p h) \<longleftrightarrow> p \<noteq> 0 \<and> (\<forall>(k, q) \<in> set (m_players s). cp_peer q \<noteq> p)"
| "event_ok s (EvReceive p data channel env) \<longleftrightarrow> p \<noteq> 0"
| "event_ok s (EvDisconnect p) \<longleftrightarrow> p \<noteq> 0"
| "event_ok s (EvRtt p t) \<longleftrightarrow> True"

text \<open>The iteration order of an unordered map is unspecified and may change at any time.\<close>

definition rehashed :: "GameServer \<Rightarrow> GameServer \<Rightarrow> bool" where
  "rehashed s t \<longleftrightarrow> (\<exists>ps es sv. mset ps = mset (m_players s) \<and> mset es = mset (m_entities s) \<and>
     mset sv = mset (m_savedPlayers s) \<and> t = s\<lparr>m_players := ps, m_entities := es, m_savedPlayers := sv\<rparr>)"

text \<open>A step from \<open>s\<close> to \<open>t\<close>; the number counts the ENet events.\<close>

inductive server_step :: "nat \<Rightarrow> GameServer \<Rightarrow> GameServer \<Rightarrow> bool" where
  step_begin: "server_step 0 s (begin_tick dt s)"
| step_event: "event_ok s ev \<Longrightarrow> server_step 1 s (handle_event ev s)"
| step_end: "server_step 0 s (end_tick dt menv s)"
| step_console: "server_step 0 s (snd (console_command stoul line s))"
| step_rehash: "rehashed s t \<Longrightarrow> server_step 0 s t"

text \<open>
  States of a server that was started (with the fresh peer table of a new ENet host), loaded its
  world file and then handled \<open>n\<close> events.
\<close>

inductive reachable :: "nat \<Rightarrow> GameServer \<Rightarrow> bool" where
  reach_start: "Start env cfg (GameServer_new cfg0 e) = (True, s) \<Longrightarrow> (\<And>p. ep_data (peer_tab e p) = 0) \<Longrightarrow>
    reachable 0 (LoadWorld files s)"
| reach_step: "reachable n s \<Longrightarrow> server_step k s t \<Longrightarrow> reachable (n + k) t"

inductive_cases server_stepE: "server_step k s t"

section \<open>Frames\<close>

text \<open>The parts of the state the invariants speak about.\<close>

definition frame :: "GameServer \<Rightarrow> GameServer \<Rightarrow> bool" where
  "frame s t \<longleftrightarrow> m_players t = m_players s \<and> m_entities t = m_entities s \<and> m_savedPlayers t = m_savedPlayers s \<and>
     m_nextPlayerId t = m_nextPlayerId s \<and> m_nextEntityId t = m_nextEntityId s \<and>
     m_hostPlayerId t = m_hostPlayerId s \<and> sc_maxPlayers (m_config t) = sc_maxPlayers (m_config s) \<and>
     ep_data \<circ> peer_tab (m_enet t) = ep_data \<circ> peer_tab (m_enet s) \<and> alloc_ok (m_enet t) = alloc_ok (m_enet s)"

named_theorems frame_intro

lemma frame_refl [frame_intro]: "frame s s"
  by (simp add: frame_def)

lemma frame_trans: "frame s t \<Longrightarrow> frame t u \<Longrightarrow> frame s u"
  by (simp add: frame_def)

lemma frame_do_enet [frame_intro]: "enet_only f \<Longrightarrow> frame s t \<Longrightarrow> frame s (do_enet f t)"
  by (simp add: frame_def enet_only_def srv_simps)

lemma frame_send_only: "send_only g \<Longrightarrow> frame s t \<Longrightarrow> frame s (g t)"
  by (simp add: frame_def send_only_frame)

lemmas frame_sends [frame_intro] = frame_send_only [OF send_only_Broadcast]
  frame_send_only [OF send_only_BroadcastExcept] frame_send_only [OF send_only_SendTo]
  frame_send_only [OF send_only_BroadcastSystemMessage] frame_send_only [OF send_only_BroadcastTimeSync]

lemma frame_updates [frame_intro]:
  "frame s t \<Longrightarrow> frame s (t\<lparr>m_serverTick := a\<rparr>)" "frame s t \<Longrightarrow> frame s (t\<lparr>m_uptime := b\<rparr>)"
  "frame s t \<Longrightarrow> frame s (t\<lparr>m_timeOfDay := b\<rparr>)" "frame s t \<Longrightarrow> frame s (t\<lparr>m_timeSinceTimeSync := b\<rparr>)"
  "frame s t \<Longrightarrow> frame s (t\<lparr>m_timeSinceHeartbeat := b\<rparr>)" "frame s t \<Longrightarrow> frame s (t\<lparr>m_timeSinceOrphanCleanup := b\<rparr>)"
  "frame s t \<Longrightarrow> frame s (t\<lparr>m_timeSinceAutoSave := b\<rparr>)" "frame s t \<Longrightarrow> frame s (t\<lparr>m_saves := c\<rparr>)"
  "frame s t \<Longrightarrow> frame s (t\<lparr>m_masterConnected := d\<rparr>)" "frame s t \<Longrightarrow> frame s (t\<lparr>m_masterPeer := d\<rparr>)"
  "frame s t \<Longrightarrow> frame s (t\<lparr>m_masterHost := d\<rparr>)" "frame s t \<Longrightarrow> frame s (t\<lparr>m_masterReconnectDelay := b\<rparr>)"
  "frame s t \<Longrightarrow> frame s (t\<lparr>m_masterReconnectTimer := b\<rparr>)" "frame s t \<Longrightarrow> frame s (t\<lparr>m_timeSinceMasterHeartbeat := b\<rparr>)"
  "frame s t \<Longrightarrow> frame s (t\<lparr>m_autoSaveInterval := b\<rparr>)"
  by (simp_all add: frame_def)

lemma enet_only_out [frame_intro]: "enet_only (enet_out c)"
  by (simp add: enet_only_def enet_out_def)

lemma frame_fold: "(\<And>x t. frame s t \<Longrightarrow> frame s (f x t)) \<Longrightarrow> frame s t \<Longrightarrow> frame s (fold f xs t)"
  by (induction xs arbitrary: t) auto

lemma frame_begin_tick: "frame s (begin_tick dt s)"
  unfolding begin_tick_def by (intro frame_intro)

lemma frame_master_send [frame_intro]: "frame s t \<Longrightarrow> frame s (master_send b d t)"
  unfolding master_send_def
  by (rule frame_do_enet) (auto simp: enet_only_def enet_try_def enet_packet_create_def enet_out_def)

lemma frame_master_event: "frame s t \<Longrightarrow> frame s (handle_master_event ip ev t)"
  by (cases ev) (auto simp: SendMasterRegister_def intro!: frame_intro)

lemma frame_UpdateMasterConnection: "frame s t \<Longrightarrow> frame s (UpdateMasterConnection dt env t)"
  unfolding UpdateMasterConnection_def master_heartbeat_def master_reconnect_def Let_def SendMasterHeartbeat_def
  by (auto intro!: frame_intro frame_fold frame_master_event)

lemma frame_SaveWorld [frame_intro]: "frame s t \<Longrightarrow> frame s (SaveWorld t)"
  unfolding SaveWorld_def by (intro frame_intro)

lemma frame_console: "frame s (snd (console_command stoul line s))"
  unfolding console_command_def KickPlayer_def
  by (auto intro!: frame_intro split: option.splits)

lemma frame_time_sync: "frame s t \<Longrightarrow> frame s (tick_time_sync dt t)"
  unfolding tick_time_sync_def Let_def by (auto intro!: frame_intro)

lemma frame_heartbeat: "frame s t \<Longrightarrow> frame s (tick_heartbeat dt t)"
  unfolding tick_heartbeat_def Let_def BroadcastEntityHeartbeat_def by (auto intro!: frame_intro frame_fold)

lemma frame_positions: "frame s t \<Longrightarrow> frame s (BroadcastPositions t)"
  unfolding BroadcastPositions_def Let_def
  by (auto intro!: frame_intro enet_only_fold) (auto simp: enet_only_def)

lemma frame_autosave: "frame s t \<Longrightarrow> frame s (tick_autosave dt t)"
  unfolding tick_autosave_def Let_def by (auto intro!: frame_intro)

lemma frame_update_time: "frame s (update_time dt s)"
  unfolding update_time_def by (intro frame_intro)

section \<open>The invariants\<close>

definition wf_players :: "GameServer \<Rightarrow> bool" where
  "wf_players s \<longleftrightarrow> (\<forall>k p. um_find (m_players s) k = Some p \<longrightarrow> player_ok k p)"

text \<open>Structure: distinct keys that are the ids and names of the entries, well-formed entries, no more
  players than configured.\<close>

definition world_inv :: "GameServer \<Rightarrow> bool" where
  "world_inv s \<longleftrightarrow> um_wf (m_players s) \<and> um_wf (m_entities s) \<and> um_wf (m_savedPlayers s) \<and>
     wf_entities s \<and> wf_players s \<and> (\<forall>n sp. um_find (m_savedPlayers s) n = Some sp \<longrightarrow> sp_name sp = n) \<and>
     length (m_players s) \<le> size_t_of_int (sc_maxPlayers (m_config s))"

text \<open>Sessions: the user data of a peer and the peer of a player are inverse to each other, and
  player ids are fresh.\<close>

definition session_inv :: "nat \<Rightarrow> GameServer \<Rightarrow> bool" where
  "session_inv n s \<longleftrightarrow>
     (\<forall>k q. um_find (m_players s) k = Some q \<longrightarrow> 0 < k \<and> k < m_nextPlayerId s \<and> cp_peer q \<noteq> 0 \<and>
        (ep_data \<circ> peer_tab (m_enet s)) (cp_peer q) = k) \<and>
     (\<forall>p. (ep_data \<circ> peer_tab (m_enet s)) p \<noteq> 0 \<longrightarrow>
        (\<exists>q. um_find (m_players s) ((ep_data \<circ> peer_tab (m_enet s)) p) = Some q \<and> cp_peer q = p)) \<and>
     0 < m_nextPlayerId s \<and> unat (m_nextPlayerId s) \<le> n + 1"

text \<open>There is a host exactly when somebody is connected, and the host is connected.\<close>

definition host_inv :: "GameServer \<Rightarrow> bool" where
  "host_inv s \<longleftrightarrow> (if m_players s = [] then m_hostPlayerId s = 0 else m_hostPlayerId s \<in> set (um_keys (m_players s)))"

text \<open>Every entity is unowned or owned by a connected player.\<close>

definition owner_inv :: "GameServer \<Rightarrow> bool" where
  "owner_inv s \<longleftrightarrow> (\<forall>k e. um_find (m_entities s) k = Some e \<longrightarrow> se_owner e = 0 \<or> se_owner e \<in> set (um_keys (m_players s)))"

text \<open>Ids are fresh up to \<open>2 ^ 32 - 1\<close> events; host and owners need that no packet allocation fails.\<close>

definition server_inv :: "nat \<Rightarrow> GameServer \<Rightarrow> bool" where
  "server_inv n s \<longleftrightarrow> world_inv s \<and> (n < 0xFFFFFFFF \<longrightarrow> session_inv n s \<and>
     ((\<forall>i. alloc_ok (m_enet s) i) \<longrightarrow> host_inv s \<and> owner_inv s))"

lemmas inv_defs = server_inv_def world_inv_def session_inv_def host_inv_def owner_inv_def wf_entities_def wf_players_def

lemma frame_inv:
  assumes "frame s t" "server_inv n s" shows "server_inv n t"
proof -
  have "server_inv n t \<longleftrightarrow> server_inv n s"
    using assms(1) unfolding frame_def by (elim conjE) (simp only: inv_defs)
  then show ?thesis using assms(2) by simp
qed

lemma server_inv_mono: "server_inv n s \<Longrightarrow> n \<le> m \<Longrightarrow> server_inv m s"
  by (auto simp: server_inv_def session_inv_def)

subsection \<open>Actions\<close>

lemma act_um_wf: "act fr pid s t \<Longrightarrow> um_wf (m_entities s) \<Longrightarrow> um_wf (m_entities t)"
  by (induction rule: act.induct) (simp_all add: srv_simps modify_entity_def modify_player_def)

lemma act_owner_inv:
  assumes "act fr pid s t" "pid \<in> set (um_keys (m_players s))" "wf_entities s" "owner_inv s"
  shows "owner_inv t"
  using assms
proof (induction rule: act.induct)
  case (act_entity s eid e f)
  have "entity_ok eid e" by (rule wf_entitiesD [OF act_entity.prems(2) act_entity.hyps(1)])
  then have "se_owner (f e) = se_owner e"
    using act_entity.hyps(2) by (simp add: may_write_def entity_ok_def same_entity_def)
  then show ?case using act_entity by (auto simp: owner_inv_def modify_entity_def um_find_modify)
qed (auto simp: owner_inv_def srv_simps modify_player_def um_find_set um_find_erase um_keys_modify new_entity_def
      split: if_splits)

lemma act_wf_players:
  assumes "act fr pid s t" "wf_players s" shows "wf_players t"
  unfolding wf_players_def
proof (intro allI impI)
  fix k p' assume p': "um_find (m_players t) k = Some p'"
  have "um_find (m_players s) k \<noteq> None"
    using p' act_frame(5) [OF assms(1)] by (metis option.distinct(1) um_find_None_iff)
  then obtain p where p: "um_find (m_players s) k = Some p" by blast
  have ok: "player_ok k p" using assms(2) p by (simp add: wf_players_def)
  show "player_ok k p'"
  proof (cases "k = pid")
    case True
    then have "player_write p p'" using act_players(2) [OF assms(1)] p p' by fastforce
    then show ?thesis using ok by (simp add: player_write_def player_ok_def)
  next
    case False
    then show ?thesis using act_players(1) [OF assms(1) False] p p' ok by simp
  qed
qed

text \<open>The session invariant only depends on who is connected through which peer.\<close>

definition peers :: "GameServer \<Rightarrow> PlayerID \<rightharpoonup> peer" where
  "peers s = map_option cp_peer \<circ> um_find (m_players s)"

lemma session_inv_peers:
  "session_inv n s \<longleftrightarrow>
     (\<forall>k p. peers s k = Some p \<longrightarrow> 0 < k \<and> k < m_nextPlayerId s \<and> p \<noteq> 0 \<and> (ep_data \<circ> peer_tab (m_enet s)) p = k) \<and>
     (\<forall>p. (ep_data \<circ> peer_tab (m_enet s)) p \<noteq> 0 \<longrightarrow> peers s ((ep_data \<circ> peer_tab (m_enet s)) p) = Some p) \<and>
     0 < m_nextPlayerId s \<and> unat (m_nextPlayerId s) \<le> n + 1"
  unfolding session_inv_def peers_def by fastforce

lemma act_peers:
  assumes "act fr pid s t" shows "peers t = peers s"
proof
  fix k
  have keys: "um_find (m_players t) k = None \<longleftrightarrow> um_find (m_players s) k = None"
    by (simp add: um_find_None_iff act_frame(5) [OF assms])
  show "peers t k = peers s k"
  proof (cases "um_find (m_players s) k")
    case None
    then show ?thesis using keys by (simp add: peers_def)
  next
    case (Some p)
    show ?thesis
    proof (cases "k = pid")
      case True
      then show ?thesis using act_players(2) [OF assms, of p] Some by (auto simp: peers_def player_write_def)
    qed (simp add: peers_def act_players(1) [OF assms])
  qed
qed

lemma um_length_keys: "length m = length (um_keys m)"
  by (simp add: um_keys_def)

lemma um_empty_keys: "m = [] \<longleftrightarrow> um_keys m = []"
  by (simp add: um_keys_def)

lemma act_inv:
  assumes a: "act fr pid s t" and pid: "pid \<in> set (um_keys (m_players s))" and inv: "server_inv n s"
  shows "server_inv n t"
proof -
  note f = act_frame [OF a]
  have w: "world_inv s" using inv by (simp add: server_inv_def)
  then have "wf_entities t" "wf_players t" "um_wf (m_entities t)"
    using act_wf_entities [OF a] act_wf_players [OF a] act_um_wf [OF a] by (simp_all add: world_inv_def)
  then have "world_inv t"
    using w f by (simp add: world_inv_def um_wf_def um_length_keys [of "m_players _"])
  moreover have "session_inv n t \<longleftrightarrow> session_inv n s" by (simp only: session_inv_peers act_peers [OF a] f)
  moreover have "host_inv t \<longleftrightarrow> host_inv s" by (simp only: host_inv_def um_empty_keys f)
  moreover have "owner_inv s \<Longrightarrow> owner_inv t" using act_owner_inv [OF a pid] w by (simp add: world_inv_def)
  ultimately show ?thesis using inv f(9) by (simp add: server_inv_def)
qed

lemma acts_inv:
  assumes "acts fr pid s t" "pid \<in> set (um_keys (m_players s))" "server_inv n s"
  shows "server_inv n t"
  using assms by (induction rule: rtranclp_induct) (auto simp: acts_frame intro: act_inv)

subsection \<open>Packets of players\<close>

lemma GetPlayerByPeer_key:
  assumes "GetPlayerByPeer q s = Some p" "world_inv s"
  shows "um_find (m_players s) (cp_id p) = Some p" "cp_id p \<in> set (um_keys (m_players s))"
    "cp_id p = ep_data (peer_tab (m_enet s) q)"
proof -
  have f: "um_find (m_players s) (ep_data (peer_tab (m_enet s) q)) = Some p"
    using assms(1) by (auto simp: GetPlayerByPeer_def split: if_splits)
  then have "cp_id p = ep_data (peer_tab (m_enet s) q)"
    using assms(2) by (auto simp: world_inv_def wf_players_def player_ok_def)
  then show "um_find (m_players s) (cp_id p) = Some p" "cp_id p = ep_data (peer_tab (m_enet s) q)" using f by simp_all
  then show "cp_id p \<in> set (um_keys (m_players s))" using um_find_None_iff [of "m_players s" "cp_id p"] by auto
qed

lemma dispatch_cases:
  obtains (handshake) "dispatch env q ty r s = HandleHandshake q r s"
  | (disconnect) "dispatch env q ty r s = do_enet (enet_out (PeerDisconnect q)) s"
  | (query) "dispatch env q ty r s = HandleServerQuery q r s"
  | (ignored) "dispatch env q ty r s = s"
  | (player) h p where "(ty, h) \<in> set (player_handlers env q)" "GetPlayerByPeer q s = Some p"
      "dispatch env q ty r s = h p r s"
proof (cases "ty = C2S_Handshake \<or> ty = C2S_Disconnect \<or> ty = C2S_ServerQuery")
  case True
  then show ?thesis using handshake disconnect query by (elim disjE) (simp_all add: dispatch_def msg_type)
next
  case False
  then have d: "dispatch env q ty r s = (case map_of (player_handlers env q) ty of None \<Rightarrow> s
      | Some h \<Rightarrow> (case GetPlayerByPeer q s of None \<Rightarrow> s | Some p \<Rightarrow> h p r s))"
    by (simp add: dispatch_def)
  show ?thesis
  proof (cases "map_of (player_handlers env q) ty = None \<or> GetPlayerByPeer q s = None")
    case True
    then show ?thesis by (intro ignored) (auto simp: d split: option.splits)
  next
    case False
    then obtain h p where "map_of (player_handlers env q) ty = Some h" "GetPlayerByPeer q s = Some p" by fastforce
    then show ?thesis by (intro player [of h p]) (auto simp: d dest: map_of_SomeD)
  qed
qed

lemma player_packet_inv:
  assumes "(ty, h) \<in> set (player_handlers env q)" "GetPlayerByPeer q s = Some p" "server_inv n s"
  shows "server_inv n (h p r s)"
proof -
  have "gameplay_handler h" by (rule player_handlers_contract [OF assms(1)])
  then have "acts False (cp_id p) s (h p r s)" by (rule gameplay_handler.any_acts)
  moreover have "cp_id p \<in> set (um_keys (m_players s))"
    using GetPlayerByPeer_key [OF assms(2)] assms(3) by (simp add: server_inv_def)
  ultimately show ?thesis using assms(3) by (rule acts_inv)
qed

subsection \<open>Connections\<close>

lemma ep_data_set: "ep_data \<circ> peer_tab (enet_set_data p d e) = (ep_data \<circ> peer_tab e)(p := d)"
  by (simp add: enet_set_data_def fun_eq_iff)

lemma alloc_ok_set [simp]: "alloc_ok (enet_set_data p d e) = alloc_ok e"
  by (simp add: enet_set_data_def)

lemma set_data_inv:
  assumes inv: "server_inv n s" and free: "\<And>k. n < 0xFFFFFFFF \<Longrightarrow> peers s k \<noteq> Some p"
  shows "server_inv n (do_enet (enet_set_data p 0) s)"
proof -
  let ?t = "do_enet (enet_set_data p 0) s"
  have eq: "world_inv ?t = world_inv s" "host_inv ?t = host_inv s" "owner_inv ?t = owner_inv s"
    "alloc_ok (m_enet ?t) = alloc_ok (m_enet s)" "peers ?t = peers s" "m_nextPlayerId ?t = m_nextPlayerId s"
    "ep_data \<circ> peer_tab (m_enet ?t) = (ep_data \<circ> peer_tab (m_enet s))(p := 0)"
    by (simp_all add: inv_defs srv_simps peers_def ep_data_set)
  have "n < 0xFFFFFFFF \<Longrightarrow> session_inv n s \<Longrightarrow> session_inv n ?t"
    unfolding session_inv_peers eq using free by auto
  then show ?thesis using inv by (simp add: server_inv_def eq)
qed

lemma frame_set_host: "frame s (do_enet (enet_set_host p h) s)"
  by (simp add: frame_def srv_simps enet_set_host_def fun_eq_iff)

lemma frame_set_rtt: "frame s (do_enet (enet_set_rtt p h) s)"
  by (simp add: frame_def srv_simps enet_set_rtt_def fun_eq_iff)

lemma peers_Some: "world_inv s \<Longrightarrow> peers s k = Some p \<Longrightarrow> \<exists>q. (k, q) \<in> set (m_players s) \<and> cp_peer q = p"
  by (auto simp: peers_def world_inv_def um_find_Some_iff)

lemma HandleConnect_inv:
  assumes inv: "server_inv n s" and ok: "event_ok s (EvConnect p h)"
  shows "server_inv n (handle_event (EvConnect p h) s)"
proof -
  let ?s = "do_enet (enet_set_host p h) s"
  have inv': "server_inv n ?s" by (rule frame_inv [OF frame_set_host inv])
  show ?thesis
  proof (cases "length (m_players ?s) \<ge> size_t_of_int (sc_maxPlayers (m_config ?s))")
    case True
    then show ?thesis using frame_inv [OF _ inv'] by (auto simp: HandleConnect_def intro!: frame_intro)
  next
    case False
    have f: "frame ?s (do_enet (enet_out (PeerTimeout p)) ?s)" by (intro frame_intro)
    have "peers (do_enet (enet_out (PeerTimeout p)) ?s) k \<noteq> Some p" for k
      using ok peers_Some [of s k p] inv by (auto simp: peers_def srv_simps server_inv_def)
    then have "server_inv n (do_enet (enet_set_data p 0) (do_enet (enet_out (PeerTimeout p)) ?s))"
      by (rule set_data_inv [OF frame_inv [OF f inv']])
    then show ?thesis using False by (simp add: HandleConnect_def do_enet_def comp_def)
  qed
qed

text \<open>The state after the player's entities are released and the player is erased.\<close>

definition parted :: "ConnectedPlayer \<Rightarrow> GameServer \<Rightarrow> GameServer" where
  "parted player s = (let s1 = release_entities player s in
     s1\<lparr>m_players := um_erase (cp_id player) (m_players s1)\<rparr>)"

definition next_host :: "PlayerID \<Rightarrow> GameServer \<Rightarrow> PlayerID" where
  "next_host lid s = (if lid = m_hostPlayerId s then (case m_players s of [] \<Rightarrow> 0 | (k, p) # _ \<Rightarrow> k) else m_hostPlayerId s)"

lemma reassign_host_frame: "frame (s\<lparr>m_hostPlayerId := next_host lid s\<rparr>) (reassign_host lid s)"
  unfolding reassign_host_def BroadcastHostAssignment_def next_host_def
  by (auto intro!: frame_intro split: list.splits)

definition left_state :: "ConnectedPlayer \<Rightarrow> GameServer \<Rightarrow> GameServer" where
  "left_state p s = (parted p s)\<lparr>m_hostPlayerId := next_host (cp_id p) (parted p s)\<rparr>"

lemma frame_congs:
  "frame s t \<Longrightarrow> frame (s\<lparr>m_players := ps\<rparr>) (t\<lparr>m_players := ps\<rparr>)"
  "frame s t \<Longrightarrow> frame (s\<lparr>m_hostPlayerId := h\<rparr>) (t\<lparr>m_hostPlayerId := h\<rparr>)"
  "frame s t \<Longrightarrow> frame (s\<lparr>m_hostPlayerId := next_host l s\<rparr>) (t\<lparr>m_hostPlayerId := next_host l t\<rparr>)"
  "frame s t \<Longrightarrow> frame (do_enet (enet_set_data p d) s) (do_enet (enet_set_data p d) t)"
  by (simp_all add: frame_def srv_simps ep_data_set next_host_def)

lemma HandleDisconnect_frame:
  assumes "GetPlayerByPeer q s = Some p"
  shows "frame (do_enet (enet_set_data q 0) (left_state p s)) (HandleDisconnect q s)"
proof -
  define m where "m = packet [hdr S2C_PlayerLeft, WriteRaw (MsgPlayerLeft_enc
     \<lparr>MsgPlayerLeft_playerId = cp_id p, MsgPlayerLeft_reason = 0\<rparr>)]"
  let ?s2 = "BroadcastExcept (cp_id p) m RO True (release_entities p s)"
  let ?s3 = "?s2\<lparr>m_players := um_erase (cp_id p) (m_players ?s2)\<rparr>"
  have "frame (parted p s) ?s3" unfolding parted_def Let_def by (simp add: frame_def srv_simps)
  then have "frame (left_state p s) (reassign_host (cp_id p) ?s3)"
    unfolding left_state_def by (rule frame_trans [OF frame_congs(3) reassign_host_frame])
  then have "frame (left_state p s) (BroadcastSystemMessage (cp_name p @ lit '' left the game'') (reassign_host (cp_id p) ?s3))"
    by (rule frame_sends)
  then show ?thesis unfolding HandleDisconnect_def assms option.case Let_def m_def by (rule frame_congs)
qed

lemma release_find:
  "um_find (m_entities (release_entities p s)) k = map_option (release_entity (cp_id p)) (um_find (m_entities s) k)"
  unfolding release_entities_def Let_def by (simp add: um_find_map)

lemma release_players [simp]: "m_players (release_entities p s) = m_players s"
  by (simp add: release_entities_def Let_def)

lemma release_owner: "se_owner (release_entity pid e) = (if se_owner e = pid then 0 else se_owner e)"
  by (simp add: release_entity_def)

lemma release_entity_ok [simp]: "entity_ok k (release_entity pid e) = entity_ok k e"
  by (simp add: release_entity_def entity_ok_def zone_ok_def unit_progress_def)

lemma parted_world_inv: "world_inv s \<Longrightarrow> world_inv (parted p s)"
proof -
  assume w: "world_inv s"
  have "wf_entities (parted p s)"
    using w by (auto simp: wf_entities_def parted_def Let_def release_find world_inv_def)
  moreover have "length (um_erase (cp_id p) (m_players s)) \<le> size_t_of_int (sc_maxPlayers (m_config s))"
    using w um_size_erase_le [of "cp_id p" "m_players s"] by (simp add: world_inv_def)
  ultimately show ?thesis using w
    by (auto simp: world_inv_def wf_players_def parted_def release_entities_def Let_def um_find_erase um_find_set
        split: if_splits)
qed

lemma parted_owner_inv: "owner_inv s \<Longrightarrow> owner_inv (parted p s)"
  unfolding owner_inv_def parted_def Let_def
  by (fastforce simp: release_find um_keys_erase release_owner split: if_splits)

lemma left_host_inv: "host_inv s \<Longrightarrow> cp_id p \<in> set (um_keys (m_players s)) \<Longrightarrow> host_inv (left_state p s)"
proof -
  assume h: "host_inv s" and p: "cp_id p \<in> set (um_keys (m_players s))"
  have ps: "m_players (left_state p s) = um_erase (cp_id p) (m_players s)"
    by (simp add: left_state_def next_host_def parted_def release_entities_def Let_def)
  have hs: "m_hostPlayerId s \<in> set (um_keys (m_players s))" using h p by (auto simp: host_inv_def um_keys_def split: if_splits)
  show ?thesis
  proof (cases "um_erase (cp_id p) (m_players s)")
    case Nil
    then have "set (um_keys (m_players s)) - {cp_id p} = {}"
      using um_keys_erase [of "cp_id p" "m_players s"] by (simp add: um_keys_def)
    then have "m_hostPlayerId s = cp_id p" using hs by auto
    then show ?thesis using Nil by (simp add: host_inv_def left_state_def next_host_def parted_def release_entities_def Let_def)
  next
    case (Cons x xs)
    have "cp_id p \<noteq> m_hostPlayerId s \<Longrightarrow> m_hostPlayerId s \<in> set (um_keys (um_erase (cp_id p) (m_players s)))"
      using hs by (simp add: um_keys_erase)
    then show ?thesis using Cons
      by (auto simp: host_inv_def left_state_def next_host_def parted_def release_entities_def Let_def um_keys_def split: prod.splits)
  qed
qed

lemma inverse_erase:
  assumes "\<And>k p. P k = Some p \<Longrightarrow> D p = k" "\<And>p. D p \<noteq> z \<Longrightarrow> P (D p) = Some p"
  shows "(P(D q := None)) k = Some p \<Longrightarrow> (D(q := z)) p = k"
    "(D(q := z)) p \<noteq> z \<Longrightarrow> (P(D q := None)) ((D(q := z)) p) = Some p"
proof -
  show "(P(D q := None)) k = Some p \<Longrightarrow> (D(q := z)) p = k"
    using assms(1) [of k p] by (auto split: if_splits)
  show "(D(q := z)) p \<noteq> z \<Longrightarrow> (P(D q := None)) ((D(q := z)) p) = Some p"
    using assms(2) [of p] assms(2) [of q] by (auto split: if_splits)
qed

lemma session_erase:
  assumes "session_inv n s" "ep_data (peer_tab (m_enet s) q) = k" "peers t = (peers s)(k := None)"
    "m_nextPlayerId t = m_nextPlayerId s" "ep_data \<circ> peer_tab (m_enet t) = (ep_data \<circ> peer_tab (m_enet s))(q := 0)"
  shows "session_inv n t"
proof -
  define D where "D = ep_data \<circ> peer_tab (m_enet s)"
  have k: "k = D q" using assms(2) by (simp add: D_def)
  have s: "\<And>k p. peers s k = Some p \<Longrightarrow> 0 < k \<and> k < m_nextPlayerId s \<and> p \<noteq> 0"
      "\<And>k p. peers s k = Some p \<Longrightarrow> D p = k" "\<And>p. D p \<noteq> 0 \<Longrightarrow> peers s (D p) = Some p"
      "0 < m_nextPlayerId s" "unat (m_nextPlayerId s) \<le> n + 1"
    using assms(1) unfolding session_inv_peers D_def [symmetric] by blast+
  note e = inverse_erase [of "peers s" D 0 q, OF s(2,3)]
  have "peers s j = Some p" if "((peers s)(D q := None)) j = Some p" for j p using that by (auto split: if_splits)
  then show ?thesis using s(1,4,5) e unfolding session_inv_peers assms(3-5) D_def [symmetric] k by blast
qed

lemma left_session_inv:
  assumes "session_inv n s" "ep_data (peer_tab (m_enet s) q) = cp_id p"
  shows "session_inv n (do_enet (enet_set_data q 0) (left_state p s))"
  by (rule session_erase [OF assms])
    (auto simp: left_state_def next_host_def parted_def release_entities_def Let_def peers_def srv_simps um_find_erase ep_data_set)

lemma HandleDisconnect_inv:
  assumes inv: "server_inv n s" and p: "q \<noteq> 0"
  shows "server_inv n (HandleDisconnect q s)"
proof (cases "GetPlayerByPeer q s")
  case None
  have "peers s k \<noteq> Some q" if "n < 0xFFFFFFFF" for k
  proof
    assume q: "peers s k = Some q"
    have "session_inv n s" using that inv by (simp add: server_inv_def)
    then have "0 < k" "ep_data (peer_tab (m_enet s) q) = k" using q by (auto simp: session_inv_peers)
    then show False using q None p by (auto simp: GetPlayerByPeer_def peers_def split: if_splits)
  qed
  then have "server_inv n (do_enet (enet_set_data q 0) s)" by (rule set_data_inv [OF inv])
  then show ?thesis by (simp add: HandleDisconnect_def None)
next
  case (Some x)
  let ?t = "do_enet (enet_set_data q 0) (left_state x s)"
  have w: "world_inv s" using inv by (simp add: server_inv_def)
  note k = GetPlayerByPeer_key [OF Some w]
  have "world_inv ?t = world_inv (parted x s)" "owner_inv ?t = owner_inv (parted x s)"
    "host_inv ?t = host_inv (left_state x s)" "alloc_ok (m_enet ?t) = alloc_ok (m_enet s)"
    by (simp_all add: inv_defs srv_simps left_state_def parted_def release_entities_def Let_def)
  then have "server_inv n ?t"
    using inv w parted_world_inv parted_owner_inv left_host_inv [OF _ k(2)] left_session_inv [OF _ k(3) [symmetric]]
    by (simp add: server_inv_def)
  then show ?thesis by (rule frame_inv [OF HandleDisconnect_frame [OF Some]])
qed

subsection \<open>Admission\<close>

text \<open>The state after a player is entered, has reclaimed its entities and the host is assigned.\<close>

definition entered :: "peer \<Rightarrow> bytes \<Rightarrow> GameServer \<Rightarrow> GameServer" where
  "entered p name s0 = (let pid = m_nextPlayerId s0; s = s0\<lparr>m_nextPlayerId := pid + 1\<rparr>;
       s1 = do_enet (enet_set_data p pid) s
     in s1\<lparr>m_players := um_set pid (new_player pid name p s) (m_players s1)\<rparr>)"

definition enrolled :: "peer \<Rightarrow> bytes \<Rightarrow> GameServer \<Rightarrow> GameServer" where
  "enrolled p name s = snd (assign_host (new_player (m_nextPlayerId s) name p s)
     (reclaim_saved (m_nextPlayerId s) name (entered p name s)))"

lemma new_player_next [simp]: "new_player pid name p (s\<lparr>m_nextPlayerId := k\<rparr>) = new_player pid name p s"
  by (simp add: new_player_def)

lemma frame_try_send: "frame s t \<Longrightarrow> try_send p d t = (ok, u) \<Longrightarrow> frame s u \<and> ok = alloc_ok (m_enet t) (n_allocs (m_enet t))"
  by (auto simp: try_send_def frame_def split: prod.splits)
    (metis enet_try_frame fst_conv snd_conv)+

lemma frame_host_assignment [frame_intro]: "frame s t \<Longrightarrow> frame s (BroadcastHostAssignment t)"
  unfolding BroadcastHostAssignment_def by (intro frame_intro)

lemma frame_send_existing [frame_intro]: "frame s t \<Longrightarrow> frame s (send_existing pid p t)"
  unfolding send_existing_def by (auto intro!: frame_intro enet_only_fold) (auto simp: enet_only_def)

lemma enet_only_send_equipment: "enet_only (send_equipment p eid slot items)"
proof -
  have "peer_tab (send_equipment p eid slot items e) = peer_tab e \<and> alloc_ok (send_equipment p eid slot items e) = alloc_ok e" for e
    by (induction p eid slot items e rule: send_equipment.induct)
      (auto split: prod.splits dest: arg_cong [of _ _ "peer_tab \<circ> snd"] arg_cong [of _ _ "alloc_ok \<circ> snd"])
  then show ?thesis by (simp add: enet_only_def)
qed

lemma enet_only_snapshot: "enet_only (snapshot_entity p e)"
  using enet_only_send_equipment [of p "se_id e" 0 "take 14 (se_equipment e)"]
  by (auto simp: enet_only_def snapshot_entity_def split: prod.splits
      dest: arg_cong [of _ _ "peer_tab \<circ> snd"] arg_cong [of _ _ "alloc_ok \<circ> snd"])

lemma frame_snapshot [frame_intro]: "frame s t \<Longrightarrow> frame s (SendWorldSnapshot pl t)"
  unfolding SendWorldSnapshot_def
  by (intro frame_intro enet_only_fold)
    (use enet_only_snapshot in \<open>auto simp: enet_only_def split: prod.splits\<close>)

lemma frame_announce [frame_intro]: "frame s t \<Longrightarrow> frame s (announce_player pl t)"
  unfolding announce_player_def Let_def by (auto intro!: frame_intro split: option.splits)

lemma frame_abort: "frame s t \<Longrightarrow> frame (abort_admission pid p s) (abort_admission pid p t)"
  by (simp add: abort_admission_def frame_def srv_simps ep_data_set)

lemma admit_player_cases:
  obtains "frame (enrolled p name s) (admit_player p name s)"
  | "\<not> (\<forall>i. alloc_ok (m_enet (enrolled p name s)) i)"
    "frame (abort_admission (m_nextPlayerId s) p (enrolled p name s)) (admit_player p name s)"
proof -
  let ?pl = "new_player (m_nextPlayerId s) name p s"
  let ?pid = "m_nextPlayerId s"
  obtain hc s4 where a: "assign_host ?pl (reclaim_saved ?pid name (entered p name s)) = (hc, s4)" by fastforce
  then have s4: "enrolled p name s = s4" by (simp add: enrolled_def)
  obtain ok s5 where t1: "try_send p (ack_packet ?pid s4) s4 = (ok, s5)" by fastforce
  let ?s6 = "if hc then BroadcastHostAssignment s5 else s5"
  obtain ok2 s7 where t2: "try_send p (faction_packet ?pid) ?s6 = (ok2, s7)" by fastforce
  have adm: "admit_player p name s = (if \<not> ok then abort_admission ?pid p s5
      else if \<not> ok2 then abort_admission ?pid p s7 else announce_player ?pl s7)"
    using a t1 t2 by (simp add: admit_player_def NextPlayerId_def entered_def Let_def)
  have f5: "frame s4 s5" "ok = alloc_ok (m_enet s4) (n_allocs (m_enet s4))"
    using frame_try_send [OF frame_refl t1] by auto
  then have f6: "frame s4 ?s6" by (auto intro: frame_intro)
  then have f7: "frame s4 s7" "ok2 = alloc_ok (m_enet ?s6) (n_allocs (m_enet ?s6))"
    using frame_try_send [OF f6 t2] by auto
  have al: "alloc_ok (m_enet ?s6) = alloc_ok (m_enet s4)" using f6 by (simp only: frame_def)
  show thesis
  proof (cases "ok \<and> ok2")
    case True
    then show thesis using that(1) f7(1) adm s4 by (auto intro: frame_intro)
  next
    case False
    then have "\<not> (\<forall>i. alloc_ok (m_enet s4) i)" using f5 f7 al by auto
    moreover have "frame (abort_admission ?pid p s4) (admit_player p name s)"
      using adm False f5(1) f7(1) by (auto intro: frame_abort)
    ultimately show thesis using that(2) s4 by simp
  qed
qed

text \<open>Everything but the host.\<close>

definition core_inv :: "nat \<Rightarrow> GameServer \<Rightarrow> bool" where
  "core_inv n s \<longleftrightarrow> world_inv s \<and> (n < 0xFFFFFFFF \<longrightarrow> session_inv n s \<and> ((\<forall>i. alloc_ok (m_enet s) i) \<longrightarrow> owner_inv s))"

lemma server_inv_core:
  "server_inv n s \<longleftrightarrow> core_inv n s \<and> (n < 0xFFFFFFFF \<and> (\<forall>i. alloc_ok (m_enet s) i) \<longrightarrow> host_inv s)"
  by (auto simp: server_inv_def core_inv_def)

lemma sanitize_name_ok: "name_ok (sanitize_name buf)"
proof -
  have "length (filter P (cstr (take KMP_MAX_NAME_LENGTH buf))) \<le> KMP_MAX_NAME_LENGTH" for P
    by (rule order_trans [OF length_filter_le])
      (simp add: cstr_def order_trans [OF length_takeWhile_le])
  moreover have "name_ok (lit ''Player'')" by (simp add: name_ok_def lit_def KMP_MAX_NAME_LENGTH_def)
  ultimately show ?thesis by (auto simp: name_ok_def sanitize_name_def Let_def)
qed

lemma new_player_ok: "name_ok name \<Longrightarrow> player_ok pid (new_player pid name p s)"
  by (simp add: player_ok_def new_player_def FromWorldPos_origin)

lemma entered_peers: "peers (entered p name s) = (peers s)(m_nextPlayerId s \<mapsto> p)"
  by (auto simp: peers_def entered_def Let_def srv_simps um_find_set new_player_def)

lemma entered_sel:
  "m_entities (entered p name s) = m_entities s" "m_savedPlayers (entered p name s) = m_savedPlayers s"
  "m_hostPlayerId (entered p name s) = m_hostPlayerId s" "m_config (entered p name s) = m_config s"
  "m_nextPlayerId (entered p name s) = m_nextPlayerId s + 1" "alloc_ok (m_enet (entered p name s)) = alloc_ok (m_enet s)"
  "m_players (entered p name s) = um_set (m_nextPlayerId s) (new_player (m_nextPlayerId s) name p s) (m_players s)"
  "ep_data \<circ> peer_tab (m_enet (entered p name s)) = (ep_data \<circ> peer_tab (m_enet s))(p := m_nextPlayerId s)"
  by (simp_all add: entered_def Let_def srv_simps ep_data_set)

lemma entered_world_inv:
  assumes "world_inv s" "name_ok name" "length (m_players s) < size_t_of_int (sc_maxPlayers (m_config s))"
  shows "world_inv (entered p name s)"
  using assms new_player_ok [OF assms(2)]
  by (auto simp: world_inv_def wf_players_def wf_entities_def entered_sel um_find_set um_size_set)

lemma unat_succ_u32: "(k :: u32) \<noteq> 0xFFFFFFFF \<Longrightarrow> unat (k + 1) = unat k + 1"
  using u32_less_succ [of k] unatSuc [of k] by (metis add.commute add_cancel_right_left not_less_zero Suc_eq_plus1 word_not_simps(1))

lemma entered_session_inv:
  assumes "session_inv n s" "n < 0xFFFFFFFE" "ep_data (peer_tab (m_enet s) p) = 0" "p \<noteq> 0"
  shows "session_inv (Suc n) (entered p name s)"
proof -
  let ?k = "m_nextPlayerId s"
  have k: "unat ?k \<le> n + 1" "0 < ?k" using assms(1) by (simp_all add: session_inv_peers)
  have "?k \<noteq> 0xFFFFFFFF"
  proof
    assume "?k = 0xFFFFFFFF"
    then have "unat ?k = 0xFFFFFFFF" by simp
    then show False using k(1) assms(2) by simp
  qed
  note succ = u32_less_succ [OF this] unat_succ_u32 [OF this]
  have free: "peers s j \<noteq> Some p" for j using assms(1,3) unfolding session_inv_peers by fastforce
  have new: "peers s ?k = None"
    using assms(1) by (cases "peers s ?k") (auto simp: session_inv_peers)
  have unused: "ep_data (peer_tab (m_enet s) q) \<noteq> ?k" for q
    using assms(1) new k(2) unfolding session_inv_peers comp_def
    by (metis option.distinct(1) word_gt_0)
  show ?thesis
    using assms(1,4) free new k succ unused
    unfolding session_inv_peers entered_peers entered_sel
    by auto (meson less_trans)
qed

lemma reclaim_one:
  assumes inv: "core_inv n s" and pid: "pid \<in> set (um_keys (m_players s))"
  shows "core_inv n (modify_player pid (\<lambda>p. p\<lparr>cp_ownedEntities := x p\<rparr>) (modify_entity eid (\<lambda>e. e\<lparr>se_owner := pid\<rparr>) s))"
    (is "core_inv n ?t")
proof -
  have "peers ?t = peers s" by (auto simp: peers_def modify_player_def modify_entity_def um_find_modify fun_eq_iff option.map_comp comp_def)
  then have "session_inv n ?t \<longleftrightarrow> session_inv n s"
    unfolding session_inv_peers by (simp add: modify_player_def modify_entity_def)
  moreover have "world_inv s \<Longrightarrow> world_inv ?t"
    by (auto simp: world_inv_def wf_players_def wf_entities_def modify_player_def modify_entity_def um_find_modify
        player_ok_def entity_ok_def zone_ok_def unit_progress_def split: if_splits)
  moreover have "owner_inv s \<Longrightarrow> owner_inv ?t"
    using pid by (auto simp: owner_inv_def modify_player_def modify_entity_def um_find_modify um_keys_modify split: if_splits)
  ultimately show ?thesis using inv by (auto simp: core_inv_def modify_player_def modify_entity_def)
qed

lemma reclaim_keys: "um_keys (m_players (reclaim pid ids s)) = um_keys (m_players s)"
  "m_hostPlayerId (reclaim pid ids s) = m_hostPlayerId s" "m_enet (reclaim pid ids s) = m_enet s"
  "um_keys (m_entities (reclaim pid ids s)) = um_keys (m_entities s)"
  by (induction ids arbitrary: s)
    (auto simp: modify_player_def modify_entity_def um_keys_modify split: option.splits)

lemma reclaim_inv:
  "core_inv n s \<Longrightarrow> pid \<in> set (um_keys (m_players s)) \<Longrightarrow> core_inv n (reclaim pid ids s)"
proof (induction ids arbitrary: s)
  case (Cons eid ids)
  let ?t = "modify_player pid (\<lambda>p. p\<lparr>cp_ownedEntities := cp_ownedEntities p @ [eid]\<rparr>)
     (modify_entity eid (\<lambda>e. e\<lparr>se_owner := pid\<rparr>) s)"
  have "core_inv n ?t" by (rule reclaim_one [OF Cons.prems])
  moreover have "pid \<in> set (um_keys (m_players ?t))"
    using Cons.prems(2) by (simp add: modify_player_def modify_entity_def um_keys_modify)
  ultimately have "core_inv n (reclaim pid ids ?t)" by (rule Cons.IH)
  then show ?case using Cons by (auto split: option.splits)
qed simp

lemma reclaim_saved_inv:
  assumes "core_inv n s" "pid \<in> set (um_keys (m_players s))"
  shows "core_inv n (reclaim_saved pid name s)"
proof (cases "um_find (m_savedPlayers s) name")
  case (Some sp)
  let ?t = "reclaim pid (sp_entityIds sp) s"
  have "core_inv n ?t" by (rule reclaim_inv [OF assms])
  then have "core_inv n (?t\<lparr>m_savedPlayers := um_erase name (m_savedPlayers ?t)\<rparr>)"
    by (auto simp: core_inv_def world_inv_def wf_players_def wf_entities_def session_inv_def owner_inv_def um_find_erase
        split: if_splits)
  then show ?thesis by (simp add: reclaim_saved_def Some Let_def)
qed (simp add: reclaim_saved_def assms)

lemma assign_host_sel:
  "core_inv n (snd (assign_host pl s)) = core_inv n s" "m_players (snd (assign_host pl s)) = m_players s"
  "m_enet (snd (assign_host pl s)) = m_enet s"
  by (auto simp: assign_host_def core_inv_def world_inv_def wf_players_def wf_entities_def session_inv_def owner_inv_def
      split: option.splits)

lemma reclaim_saved_keys: "um_keys (m_players (reclaim_saved pid name s)) = um_keys (m_players s)"
  "m_hostPlayerId (reclaim_saved pid name s) = m_hostPlayerId s" "m_enet (reclaim_saved pid name s) = m_enet s"
  by (auto simp: reclaim_saved_def Let_def reclaim_keys split: option.splits)

lemma enrolled_inv:
  assumes inv: "server_inv n s" and name: "name_ok name" and p: "p \<noteq> 0" "ep_data (peer_tab (m_enet s) p) = 0"
    and room: "length (m_players s) < size_t_of_int (sc_maxPlayers (m_config s))"
  shows "server_inv (Suc n) (enrolled p name s)"
proof -
  let ?pid = "m_nextPlayerId s" and ?s = "entered p name s"
  let ?t = "reclaim_saved ?pid name ?s"
  have "core_inv n s" using inv by (simp add: server_inv_core)
  then have "core_inv (Suc n) ?s"
    using entered_world_inv [OF _ name room, of p] entered_session_inv [OF _ _ p(2,1), of n name]
    by (auto simp: core_inv_def owner_inv_def entered_sel um_keys_set)
  moreover have k: "?pid \<in> set (um_keys (m_players ?s))" by (simp add: entered_sel um_keys_set)
  ultimately have "core_inv (Suc n) ?t" by (rule reclaim_saved_inv)
  then have "core_inv (Suc n) (enrolled p name s)" by (simp add: enrolled_def assign_host_sel)
  moreover have "host_inv (enrolled p name s)" if "n < 0xFFFFFFFE" "\<forall>i. alloc_ok (m_enet s) i"
  proof -
    have h: "host_inv s" using inv that by (simp add: server_inv_core)
    have ks: "set (um_keys (m_players (enrolled p name s))) = insert ?pid (set (um_keys (m_players s)))"
      by (simp add: enrolled_def assign_host_sel reclaim_saved_keys entered_sel um_keys_set)
    have "m_hostPlayerId (enrolled p name s) \<in> {?pid, m_hostPlayerId s}"
      by (auto simp: enrolled_def assign_host_def new_player_def reclaim_saved_keys entered_sel split: option.splits)
    moreover have "m_hostPlayerId s = 0 \<Longrightarrow> m_hostPlayerId (enrolled p name s) = ?pid"
      by (simp add: enrolled_def assign_host_def new_player_def reclaim_saved_keys entered_sel)
    ultimately have "m_hostPlayerId (enrolled p name s) \<in> set (um_keys (m_players (enrolled p name s)))"
      using h unfolding ks by (auto simp: host_inv_def split: if_splits)
    then show ?thesis by (auto simp: host_inv_def um_keys_def)
  qed
  moreover have "alloc_ok (m_enet (enrolled p name s)) = alloc_ok (m_enet s)"
    by (simp add: enrolled_def assign_host_sel reclaim_saved_keys entered_sel)
  ultimately show ?thesis by (simp add: server_inv_core)
qed

lemma erase_player_inv: "world_inv s \<Longrightarrow> world_inv (s\<lparr>m_players := um_erase k (m_players s)\<rparr>)"
  using um_size_erase_le [of k "m_players s"]
  by (auto simp: world_inv_def wf_players_def wf_entities_def um_find_erase split: if_splits)

lemma enrolled_data: "ep_data (peer_tab (m_enet (enrolled p name s)) p) = m_nextPlayerId s"
  using fun_cong [OF entered_sel(8) [of p name s], of p]
  by (simp add: enrolled_def assign_host_sel reclaim_saved_keys)

lemma abort_inv:
  assumes inv: "server_inv n t" and data: "ep_data (peer_tab (m_enet t) p) = pid" and fail: "\<not> (\<forall>i. alloc_ok (m_enet t) i)"
  shows "server_inv n (abort_admission pid p t)"
proof -
  let ?u = "abort_admission pid p t"
  have "world_inv ?u = world_inv (t\<lparr>m_players := um_erase pid (m_players t)\<rparr>)" "alloc_ok (m_enet ?u) = alloc_ok (m_enet t)"
    by (simp_all add: abort_admission_def inv_defs srv_simps)
  moreover have "session_inv n ?u" if "session_inv n t"
    by (rule session_erase [OF that data])
      (auto simp: abort_admission_def srv_simps peers_def um_find_erase ep_data_set)
  ultimately show ?thesis using inv fail erase_player_inv [of t pid] by (auto simp: server_inv_def)
qed

lemma frame_reject [frame_intro]: "frame s t \<Longrightarrow> frame s (send_reject q c reason t)"
  using enet_only_reject [of q c reason t] frame_do_enet by metis

lemma HandleHandshake_inv:
  assumes inv: "server_inv n s" and p: "p \<noteq> 0"
  shows "server_inv (Suc n) (HandleHandshake p r s)"
proof -
  have inv1: "server_inv (Suc n) s" by (rule server_inv_mono [OF inv]) simp
  have "server_inv (Suc n) (admit_player p name s)"
    if "ep_data (peer_tab (m_enet s) p) = 0" "length (m_players s) < size_t_of_int (sc_maxPlayers (m_config s))"
      "name_ok name" for name
  proof -
    have e: "server_inv (Suc n) (enrolled p name s)" by (rule enrolled_inv [OF inv that(3) p that(1,2)])
    show ?thesis
      by (rule admit_player_cases [of p name s])
        (use frame_inv [OF _ e] frame_inv [OF _ abort_inv [OF e enrolled_data]] in blast)+
  qed
  then show ?thesis
    by (auto simp: HandleHandshake_def inv1 sanitize_name_ok not_le frame_inv [OF frame_reject [OF frame_refl] inv1]
        split: prod.splits option.splits)
qed

lemma frame_query: "frame s (HandleServerQuery q r s)"
  unfolding HandleServerQuery_def
  by (auto simp: enet_only_def enet_out_def intro!: frame_intro split: prod.splits option.splits)

lemma HandlePacket_inv:
  assumes inv: "server_inv n s" and p: "p \<noteq> 0"
  shows "server_inv (Suc n) (HandlePacket env p data ch s)"
proof -
  have inv1: "server_inv (Suc n) s" by (rule server_inv_mono [OF inv]) simp
  have "server_inv (Suc n) (dispatch env p ty r s)" for ty r
  proof (rule dispatch_cases [of env p ty r s])
    assume "dispatch env p ty r s = HandleHandshake p r s"
    then show ?thesis using HandleHandshake_inv [OF inv p] by simp
  next
    assume "dispatch env p ty r s = HandleServerQuery p r s"
    then show ?thesis using frame_inv [OF frame_query inv1] by simp
  next
    assume "dispatch env p ty r s = do_enet (enet_out (PeerDisconnect p)) s"
    then show ?thesis using frame_inv [OF frame_do_enet [OF enet_only_out frame_refl] inv1] by simp
  qed (use inv1 player_packet_inv [OF _ _ inv1] in auto)
  then show ?thesis by (auto simp: HandlePacket_def inv1 split: prod.splits option.splits)
qed

lemma handle_event_inv: "server_inv n s \<Longrightarrow> event_ok s ev \<Longrightarrow> server_inv (Suc n) (handle_event ev s)"
proof (cases ev)
  case (EvConnect p h)
  assume "server_inv n s" "event_ok s ev"
  then show ?thesis using HandleConnect_inv [of n s p h] server_inv_mono EvConnect by (meson le_SucI order_refl)
next
  case (EvReceive p data ch env)
  assume "server_inv n s" "event_ok s ev"
  then show ?thesis using HandlePacket_inv EvReceive by simp
next
  case (EvDisconnect p)
  assume "server_inv n s" "event_ok s ev"
  then show ?thesis using HandleDisconnect_inv [of n s p] server_inv_mono [of n _ "Suc n"] EvDisconnect by simp
next
  case (EvRtt p t)
  assume "server_inv n s" "event_ok s ev"
  then show ?thesis using frame_inv [OF frame_set_rtt] server_inv_mono [of n _ "Suc n"] EvRtt by simp
qed

subsection \<open>The tick\<close>

lemma update_pings_inv: "server_inv n s \<Longrightarrow> server_inv n (update_pings s)"
proof -
  assume inv: "server_inv n s"
  let ?f = "\<lambda>k p. if cp_peer p \<noteq> 0 then p\<lparr>cp_ping := ep_rtt (peer_tab (m_enet s) (cp_peer p))\<rparr> else p"
  have find: "um_find (m_players (update_pings s)) k = map_option (?f k) (um_find (m_players s) k)" for k
    unfolding update_pings_def using um_find_map [of ?f "m_players s" k] by simp
  have keys: "um_keys (m_players (update_pings s)) = um_keys (m_players s)"
    unfolding update_pings_def using um_keys_map [of ?f "m_players s"] by simp
  have len: "length (m_players (update_pings s)) = length (m_players s)" by (simp add: update_pings_def)
  have pl: "wf_players s \<Longrightarrow> wf_players (update_pings s)" by (auto simp: wf_players_def find player_ok_def)
  have sel: "m_entities (update_pings s) = m_entities s" "m_savedPlayers (update_pings s) = m_savedPlayers s"
    "m_config (update_pings s) = m_config s" by (simp_all add: update_pings_def)
  have "peers (update_pings s) = peers s" by (auto simp: peers_def find fun_eq_iff option.map_comp comp_def intro!: option.map_cong)
  then have "session_inv n (update_pings s) = session_inv n s"
    unfolding session_inv_peers by (simp add: update_pings_def)
  moreover have "world_inv s \<Longrightarrow> world_inv (update_pings s)"
    using len sel pl by (simp add: world_inv_def wf_entities_def um_wf_def keys)
  moreover have "host_inv (update_pings s) = host_inv s" "owner_inv (update_pings s) = owner_inv s"
    by (simp_all only: host_inv_def owner_inv_def um_empty_keys keys) (simp_all add: update_pings_def)
  ultimately show ?thesis using inv by (simp add: server_inv_def) (simp add: update_pings_def)
qed

lemma erase_entity_inv: "server_inv n s \<Longrightarrow> server_inv n (s\<lparr>m_entities := um_erase k (m_entities s)\<rparr>)"
  by (auto simp: server_inv_def world_inv_def wf_players_def wf_entities_def session_inv_def host_inv_def owner_inv_def
      um_find_erase split: if_splits)

lemma remove_orphan_inv: "server_inv n s \<Longrightarrow> server_inv n (remove_orphan k s)"
  unfolding remove_orphan_def Let_def by (rule erase_entity_inv) (erule frame_inv [rotated], intro frame_intro)

lemma fold_inv: "(\<And>x s. I s \<Longrightarrow> I (f x s)) \<Longrightarrow> I s \<Longrightarrow> I (fold f xs s)"
  by (induction xs arbitrary: s) auto

lemma tick_orphans_inv: "server_inv n s \<Longrightarrow> server_inv n (tick_orphans dt s)"
proof -
  assume inv: "server_inv n s"
  let ?s = "s\<lparr>m_timeSinceOrphanCleanup := f32_add (m_timeSinceOrphanCleanup s) dt\<rparr>"
  have s: "server_inv n ?s" by (rule frame_inv [OF _ inv]) (intro frame_intro)
  then have "server_inv n (fold remove_orphan (orphan_ids ?s) ?s)" by (rule fold_inv [of "server_inv n", rotated]) (rule remove_orphan_inv)
  then have "server_inv n ((fold remove_orphan (orphan_ids ?s) ?s)\<lparr>m_timeSinceOrphanCleanup := 0\<rparr>)"
    by (rule frame_inv [rotated]) (intro frame_intro)
  then show ?thesis using s by (simp add: tick_orphans_def Let_def)
qed

lemma end_tick_inv: "server_inv n s \<Longrightarrow> server_inv n (end_tick dt menv s)"
proof -
  assume inv: "server_inv n s"
  let ?a = "tick_heartbeat dt (tick_time_sync dt (BroadcastPositions (update_time dt s)))"
  have "frame s ?a"
    by (intro frame_heartbeat frame_time_sync frame_positions frame_update_time)
  then have "server_inv n (tick_orphans dt (update_pings ?a))"
    using inv by (intro tick_orphans_inv update_pings_inv) (rule frame_inv)
  then show ?thesis unfolding end_tick_def
    by (rule frame_inv [rotated]) (intro frame_intro frame_UpdateMasterConnection frame_autosave)
qed

subsection \<open>Rehashing\<close>

lemma um_perm:
  assumes "mset m' = mset m" "um_wf m"
  shows "um_wf m'" "um_find m' = um_find m" "length m' = length m" "set (um_keys m') = set (um_keys m)" "m' = [] \<longleftrightarrow> m = []"
proof -
  have "mset (um_keys m') = mset (um_keys m)" using assms(1) by (simp add: um_keys_def)
  then show wf: "um_wf m'" and "set (um_keys m') = set (um_keys m)"
    using assms(2) mset_eq_imp_distinct_iff mset_eq_setD unfolding um_wf_def by metis+
  have "set m' = set m" using assms(1) by (rule mset_eq_setD)
  then show "um_find m' = um_find m"
    using um_find_Some_iff [OF wf] um_find_Some_iff [OF assms(2)] by (metis (no_types, opaque_lifting) ext not_None_eq option.exhaust)
  show "length m' = length m" using assms(1) by (rule mset_eq_length)
  then show "m' = [] \<longleftrightarrow> m = []" by auto
qed

lemma rehashed_inv: "rehashed s t \<Longrightarrow> server_inv n s \<Longrightarrow> server_inv n t"
proof -
  assume "rehashed s t" and inv: "server_inv n s"
  then obtain ps es sv where m: "mset ps = mset (m_players s)" "mset es = mset (m_entities s)" "mset sv = mset (m_savedPlayers s)"
    and t: "t = s\<lparr>m_players := ps, m_entities := es, m_savedPlayers := sv\<rparr>" unfolding rehashed_def by blast
  have w: "um_wf (m_players s)" "um_wf (m_entities s)" "um_wf (m_savedPlayers s)"
    using inv by (simp_all add: server_inv_def world_inv_def)
  show ?thesis using inv um_perm [OF m(1) w(1)] um_perm [OF m(2) w(2)] um_perm [OF m(3) w(3)]
    unfolding t inv_defs by simp
qed

section \<open>Start and reachable states\<close>

definition saved_ok :: "(bytes, SavedPlayer) umap \<Rightarrow> bool" where
  "saved_ok sv \<longleftrightarrow> um_wf sv \<and> (\<forall>n sp. um_find sv n = Some sp \<longrightarrow> sp_name sp = n)"

lemma kept_player_saved:
  "saved_ok sv \<Longrightarrow> saved_ok (case kept_player es name ids of None \<Rightarrow> sv | Some sp \<Rightarrow> um_set name sp sv)"
  by (auto simp: saved_ok_def kept_player_def um_find_set)

lemma load_players_ok: "saved_ok saved \<Longrightarrow> saved_ok (snd (load_players ps es saved))"
proof (induction ps arbitrary: saved)
  case (Cons p ps)
  obtain name ids where p: "p = (name, ids)" by (cases p)
  show ?case
  proof (cases "None \<in> set ids")
    case False
    show ?thesis unfolding p load_players_step [OF False]
      by (rule Cons.IH [OF kept_player_saved [OF Cons.prems]])
  qed (simp add: p Cons.prems)
qed simp

lemma loaded_entities_ok:
  assumes "loaded_ok maxId es" "um_find es k = Some e"
  shows "entity_ok k e" "se_owner e = 0"
proof -
  have m: "(k, e) \<in> set es" using assms by (auto simp: loaded_ok_def um_find_Some_iff)
  then obtain j where j: "load_entity j = LoadOk e" and k: "k = se_id e" using assms(1) by (auto simp: loaded_ok_def)
  note l = load_entity_ok [OF j]
  show "entity_ok k e" using l k unit_progress_0 [of e] by (simp add: entity_ok_def saveable_def zone_ok_def)
  show "se_owner e = 0" by (rule l)
qed

text \<open>Whatever the world file holds, the maps it fills are well formed and unowned.\<close>

definition load_ok :: "loaded \<Rightarrow> bool" where
  "load_ok l \<longleftrightarrow> (\<exists>maxId. loaded_ok maxId (ld_entities l)) \<and> saved_ok (ld_players l)"

lemma load_doc_ok:
  assumes "load_ok l" shows "load_ok (snd (load_doc j l))"
proof (cases "jd_timeOfDay j = None \<or> jd_weather j = None \<or> jd_entities j = None")
  case True
  have "load_ok (l\<lparr>ld_timeOfDay := t\<rparr>)" "load_ok (l\<lparr>ld_timeOfDay := t, ld_weather := w, ld_entities := [], ld_players := []\<rparr>)" for t w
    using assms loaded_ok_Nil by (auto simp: load_ok_def saved_ok_def)
  then show ?thesis using True assms by (auto simp: load_doc_def Let_def split: option.splits)
next
  case False
  then obtain t w js where j: "jd_timeOfDay j = Some t" "jd_weather j = Some w" "jd_entities j = Some js" by auto
  obtain ok maxId es where es: "load_entities js 0 0 [] = (ok, maxId, es)" by (metis prod_cases3)
  have e: "loaded_ok maxId es" using load_entities_ok [OF es loaded_ok_Nil] by simp
  define r where "r = (case jd_players j of None \<Rightarrow> (True, []) | Some ps \<Rightarrow> load_players ps es [])"
  have n: "saved_ok []" by (simp add: saved_ok_def)
  then have "saved_ok (snd r)" using load_players_ok [of "[]"] by (auto simp: r_def split: option.splits)
  then show ?thesis using e n
    by (cases ok; cases r; cases "fst r")
      (auto simp: load_doc_def j es r_def [symmetric] load_ok_def Let_def)
qed

lemma LoadWorldFromFile_ok: "load_ok l \<Longrightarrow> load_ok (snd (LoadWorldFromFile f l))"
  by (cases f) (simp_all add: LoadWorldFromFile_def load_doc_ok)

lemma start_state:
  assumes "Start env cfg (GameServer_new cfg0 e) = (True, s)"
  shows "m_players s = []" "m_entities s = []" "m_savedPlayers s = []" "m_nextPlayerId s = 1" "m_hostPlayerId s = 0"
    "peer_tab (m_enet s) = peer_tab e" "m_config s = cfg"
  using assms
  by (auto simp: Start_def ConnectToMaster_def GameServer_new_def Let_def srv_simps enet_out_def split: if_splits)

lemma start_inv:
  assumes s: "Start env cfg (GameServer_new cfg0 e) = (True, s)" and e: "\<And>p. ep_data (peer_tab e p) = 0"
  shows "server_inv 0 (LoadWorld files s)"
proof -
  note st = start_state [OF s]
  let ?l = "\<lparr>ld_entities = m_entities s, ld_players = m_savedPlayers s, ld_timeOfDay = m_timeOfDay s,
     ld_weather = m_weatherState s, ld_nextEntityId = m_nextEntityId s\<rparr>"
  obtain ok l where l: "LoadWorldFromFile (files (savePath s)) ?l = (ok, l)" by fastforce
  have "load_ok ?l" using loaded_ok_Nil by (auto simp: load_ok_def saved_ok_def st)
  then have "load_ok l" using LoadWorldFromFile_ok [of ?l "files (savePath s)"] l by simp
  then obtain maxId where m: "loaded_ok maxId (ld_entities l)" and sv: "saved_ok (ld_players l)" by (auto simp: load_ok_def)
  let ?t = "LoadWorld files s"
  have t: "m_entities ?t = ld_entities l" "m_savedPlayers ?t = ld_players l" "m_players ?t = []"
      "m_nextPlayerId ?t = 1" "m_hostPlayerId ?t = 0" "peer_tab (m_enet ?t) = peer_tab e" "m_config ?t = cfg"
    using l by (simp_all add: LoadWorld_def Let_def st)
  have "um_wf (ld_entities l)" using m by (simp add: loaded_ok_def)
  then show ?thesis using loaded_entities_ok [OF m] sv e
    by (simp add: server_inv_def world_inv_def wf_entities_def wf_players_def session_inv_def host_inv_def owner_inv_def t saved_ok_def)
qed

text \<open>
  An invariant of the server: it holds after the start, and every step keeps it.  The number is
  that of the ENet events handled so far.
\<close>

locale server_invariant =
  fixes I :: "nat \<Rightarrow> GameServer \<Rightarrow> bool"
  assumes start: "Start env cfg (GameServer_new cfg0 e) = (True, s) \<Longrightarrow> (\<And>p. ep_data (peer_tab e p) = 0) \<Longrightarrow>
      I 0 (LoadWorld files s)"
    and begin_tick: "I n s \<Longrightarrow> I n (begin_tick dt s)"
    and event: "I n s \<Longrightarrow> event_ok s ev \<Longrightarrow> I (Suc n) (handle_event ev s)"
    and end_tick: "I n s \<Longrightarrow> I n (end_tick dt menv s)"
    and console: "I n s \<Longrightarrow> I n (snd (console_command stoul line s))"
    and rehash: "I n s \<Longrightarrow> rehashed s t \<Longrightarrow> I n t"
begin

lemma step: "server_step k s t \<Longrightarrow> I n s \<Longrightarrow> I (n + k) t"
  by (induction rule: server_step.induct) (auto simp: begin_tick event end_tick console rehash)

lemma always: "reachable n s \<Longrightarrow> I n s"
  by (induction rule: reachable.induct) (auto intro: start step)

end

interpretation invariants: server_invariant server_inv
proof
  fix n s dt
  assume "server_inv n s"
  then show "server_inv n (begin_tick dt s)" by (rule frame_inv [OF frame_begin_tick])
next
  fix n s and stoul :: "bytes \<Rightarrow> u32 option" and line
  assume "server_inv n s"
  then show "server_inv n (snd (console_command stoul line s))" by (rule frame_inv [OF frame_console])
qed (auto intro: start_inv handle_event_inv end_tick_inv rehashed_inv)

text \<open>A whole tick is a sequence of steps.\<close>

fun events_ok :: "GameServer \<Rightarrow> enet_event list \<Rightarrow> bool" where
  "events_ok s [] \<longleftrightarrow> True"
| "events_ok s (ev # evs) \<longleftrightarrow> event_ok s ev \<and> events_ok (handle_event ev s) evs"

lemma events_reachable:
  "reachable n s \<Longrightarrow> events_ok s evs \<Longrightarrow> reachable (n + length evs) (fold handle_event evs s)"
proof (induction evs arbitrary: n s)
  case (Cons ev evs)
  have "reachable (n + 1) (handle_event ev s)" using Cons.prems
    by (intro reach_step [OF Cons.prems(1) step_event]) simp
  then show ?case using Cons.IH [of "n + 1"] Cons.prems by simp
qed simp

lemma Update_reachable:
  assumes "reachable n s" "events_ok (begin_tick dt s) evs"
  shows "reachable (n + length evs) (Update dt evs menv s)"
proof -
  have "reachable n (begin_tick dt s)" using reach_step [OF assms(1) step_begin] by simp
  then have "reachable (n + length evs) (fold handle_event evs (begin_tick dt s))" by (rule events_reachable [OF _ assms(2)])
  then show ?thesis unfolding Update_def using reach_step [OF _ step_end] by fastforce
qed

end
