(* ===== verification/World_Properties.thy ===== *)
theory World_Properties
  imports World_Persistence Combat Server_Invariants
begin

text \<open>
  Properties of combat resolution (\<^verbatim>\<open>combat_resolver.cpp\<close>) and of the world file
  (\<^verbatim>\<open>world_persistence.cpp\<close>).
\<close>

section \<open>Combat\<close>

text \<open>
  The weighted table gives each body part exactly its advertised share of the 100 equally
  likely rolls: chest 30, stomach 20, every other part 10.
\<close>

theorem body_part_odds:
  "card {roll. 1 \<le> roll \<and> roll \<le> 100 \<and> SelectBodyPart roll = part} =
     (case part of Chest \<Rightarrow> 30 | Stomach \<Rightarrow> 20 | _ \<Rightarrow> 10)"
proof -
  have "{roll. 1 \<le> roll \<and> roll \<le> 100 \<and> SelectBodyPart roll = part} =
      (case part of Chest \<Rightarrow> {1..30} | Stomach \<Rightarrow> {31..50} | Head \<Rightarrow> {51..60} | LeftArm \<Rightarrow> {61..70}
         | RightArm \<Rightarrow> {71..80} | LeftLeg \<Rightarrow> {81..90} | RightLeg \<Rightarrow> {91..100})"
    using SelectBodyPart_ranges by (cases part) (auto split: if_splits)
  then show ?thesis by (cases part) simp_all
qed

text \<open>
  Resolving a hit changes the target in exactly one health slot and possibly the alive flag:
  the slot of the selected part loses the reported damage and holds the reported result, all
  other slots keep their value; the result says death exactly when chest or head is at or below
  -100 afterwards, says knock-out exactly when some part is at or below -50, a death is also a
  knock-out, and the target dies exactly on a reported death.
\<close>

theorem combat_outcome:
  fixes a t :: ServerEntity and ty :: u8 and d :: combat_draws
  assumes len: "length (se_health t) = 7"
  defines "res \<equiv> fst (ResolveCombat a t ty d)" and "t' \<equiv> snd (ResolveCombat a t ty d)"
  defines "i \<equiv> BodyPart_code (cr_hitPart res)"
  shows "cr_hitPart res = SelectBodyPart (cd_roll d) \<and>
    t' = t\<lparr>se_health := (se_health t)[i := cr_resultHealth res], se_alive := se_alive t \<and> \<not> cr_wasDeath res\<rparr> \<and>
    cr_resultHealth res = f32_sub (se_health t ! i)
      (f32_add (f32_add (cr_cutDamage res) (cr_bluntDamage res)) (cr_pierceDamage res)) \<and>
    (cr_wasDeath res \<longleftrightarrow> f32_le (se_health t' ! 1) (f32_of_int (- 100)) \<or> f32_le (se_health t' ! 0) (f32_of_int (- 100))) \<and>
    (cr_wasKO res \<longleftrightarrow> list_ex (\<lambda>h. f32_le h (f32_of_int (- 50))) (se_health t')) \<and>
    (\<not> cr_wasDeath res \<or> cr_wasKO res)"
proof -
  have take: "take 7 (xs :: f32 list) = xs" if "length xs = 7" for xs using that by simp
  have "cr_hitPart res = SelectBodyPart (cd_roll d)"
    "cr_resultHealth res = f32_sub (se_health t ! i)
      (f32_add (f32_add (cr_cutDamage res) (cr_bluntDamage res)) (cr_pierceDamage res))"
    "t' = t\<lparr>se_health := (se_health t)[i := cr_resultHealth res], se_alive := se_alive t \<and> \<not> cr_wasDeath res\<rparr>"
    unfolding res_def t'_def i_def by (simp_all add: ResolveCombat_def Let_def)
  moreover have "cr_wasKO res \<longleftrightarrow> list_ex (\<lambda>h. f32_le h (f32_of_int (- 50))) (se_health t')"
    using len unfolding res_def t'_def by (simp add: ResolveCombat_def Let_def list_ex_iff)
  moreover have "\<not> cr_wasDeath res \<or> cr_wasKO res" using ResolveCombat_death_ko [OF len] unfolding res_def by blast
  moreover have "cr_wasDeath res \<longleftrightarrow> f32_le (se_health t' ! 1) (f32_of_int (- 100)) \<or> f32_le (se_health t' ! 0) (f32_of_int (- 100))"
    using ResolveCombat_death_iff [of a t ty d] unfolding res_def t'_def by simp
  ultimately show ?thesis by blast
qed

theorem combat_outcome_witness:
  "cr_hitPart (fst (ResolveCombat ServerEntity_default ServerEntity_default 0
     \<lparr>cd_roll = 55, cd_factor = f32_of_int 1, cd_block = f32_of_int 1\<rparr>)) = Head"
  using combat_outcome [of ServerEntity_default ServerEntity_default 0
      "\<lparr>cd_roll = 55, cd_factor = f32_of_int 1, cd_block = f32_of_int 1\<rparr>"] entity_default_ok(2)
  by (simp add: SelectBodyPart_ranges)

text \<open>Values used as bounds, in units of \<open>2 ^ -149\<close>.\<close>

lemma damage_consts:
  "ksval 0x41C80000 = 25 * 2 ^ 149" "ksval 0x41480000 = 25 * 2 ^ 148" "ksval 0 = 0" "ksval 0x3FA00000 = 5 * 2 ^ 147"
  by (simp_all add: ksval_def mag_int_def)

lemma damage_factors:
  "f32_between 0 (20 * 2 ^ 149) (f32_of_int 20)"
  "f32_between 0 (2 ^ 149) (f32_sub (f32_of_int 1) (f32_clamp (f32_div (f32_of_int 10) (f32_of_int 100)) 0 (f32_lit 9 10)))"
  "f32_between 0 (2 ^ 149) (f32_lit 3 10)" "f32_between 0 (2 ^ 148) (f32_lit 1 2)"
  unfolding f32_lits by (simp_all add: f32_between_def f32_eval)

lemma factor_between:
  assumes "f32_le (f32_lit 8 10) x" "f32_le x (f32_lit 12 10)"
  shows "f32_between 0 (5 * 2 ^ 147) x"
proof -
  have k: "0 \<le> f32_key (f32_lit 8 10)" "f32_key (f32_lit 12 10) \<le> 0x3FA00000"
    unfolding f32_lits by (simp_all add: f32_eval)
  have x: "0 \<le> f32_key x" "f32_key x \<le> 0x3FA00000" using assms k by (auto simp: f32_le_def)
  then show ?thesis using f32_between_keys [OF x] by (simp add: mag_inf_def damage_consts)
qed

lemma part_damage_between:
  assumes "f32_le (f32_lit 8 10) (cd_factor d)" "f32_le (cd_factor d) (f32_lit 12 10)"
  shows "f32_between 0 (25 * 2 ^ 148) (part_damage d)"
proof -
  note rule = f32_between_mul_nonneg
  have "f32_between 0 (ksval 0x41C80000) (f32_mul (f32_of_int 20) (cd_factor d))"
    by (rule rule [OF damage_factors(1) factor_between [OF assms]]) (simp_all add: damage_consts mag_inf_def)
  then have "f32_between 0 (ksval 0x41C80000) (totalDamage (cd_factor d))"
    unfolding totalDamage_def Let_def
    by (rule rule [OF _ damage_factors(2)]) (simp_all add: damage_consts mag_inf_def)
  then have h: "f32_between 0 (ksval 0x41480000) (f32_mul (totalDamage (cd_factor d)) (f32_lit 1 2))"
    by (rule rule [OF _ damage_factors(4)]) (simp_all add: damage_consts mag_inf_def)
  then have "f32_between 0 (ksval 0x41480000) (f32_mul (f32_mul (totalDamage (cd_factor d)) (f32_lit 1 2)) (f32_lit 3 10))"
    by (rule rule [OF _ damage_factors(3)]) (simp_all add: damage_consts mag_inf_def)
  with h show ?thesis by (simp add: part_damage_def Let_def damage_consts)
qed

text \<open>
  Damage is bounded and never heals: with the damage factor drawn from [0.8, 1.2] as the
  resolver does, the total damage of a hit lies between 0 and 25, and the part that is hit has
  afterwards at most the health it had (when that was a finite number), also after rounding.
\<close>

theorem hit_never_heals:
  fixes a t :: ServerEntity and ty :: u8 and d :: combat_draws
  assumes "f32_le (f32_lit 8 10) (cd_factor d)" "f32_le (cd_factor d) (f32_lit 12 10)"
    and "f32_isfinite (se_health t ! BodyPart_code (SelectBodyPart (cd_roll d)))"
  defines "res \<equiv> fst (ResolveCombat a t ty d)"
  defines "damage \<equiv> f32_add (f32_add (cr_cutDamage res) (cr_bluntDamage res)) (cr_pierceDamage res)"
  shows "f32_le 0 damage \<and> f32_le damage (f32_of_int 25) \<and>
    f32_le (cr_resultHealth res) (se_health t ! BodyPart_code (SelectBodyPart (cd_roll d)))"
proof -
  let ?h = "se_health t ! BodyPart_code (SelectBodyPart (cd_roll d))"
  note p = part_damage_between [OF assms(1,2)]
  have z: "f32_between 0 0 0" "f32_isfinite 0" "f32_sval 0 = 0" "f32_isfinite (f32_of_int 25)" "f32_sval (f32_of_int 25) = 25 * 2 ^ 149"
    by (simp_all add: f32_between_def f32_eval)
  have "f32_between (ksval 0) (ksval 0x41C80000) (f32_add (part_damage d) (part_damage d))"
    by (rule f32_between_add [OF p p]) (simp_all add: damage_consts mag_inf_def)
  then have "f32_between (ksval 0) (ksval 0x41C80000) (f32_add (f32_add (part_damage d) (part_damage d)) 0)"
    by (rule f32_between_add [OF _ z(1)]) (simp_all add: damage_consts mag_inf_def)
  moreover have dm: "damage = f32_add (f32_add (part_damage d) (part_damage d)) 0"
    by (simp add: damage_def res_def ResolveCombat_def Let_def)
  ultimately have b: "f32_isfinite damage" "0 \<le> f32_sval damage" "f32_sval damage \<le> 25 * 2 ^ 149"
    by (simp_all add: f32_between_def damage_consts)
  have r: "cr_resultHealth res = f32_sub ?h damage"
    by (simp add: damage_def res_def ResolveCombat_def Let_def)
  have "f32_key (cr_resultHealth res) \<le> f32_key ?h"
  proof -
    have "kround (f32_sval ?h - f32_sval damage) 1 \<le> kround (f32_sval ?h) 1" using b(2) kround_mono [of 1 1] by simp
    also have "kround (f32_sval ?h) 1 = f32_key ?h"
      using kround_exact [of 1 "f32_key ?h"] assms(3) by (simp add: f32_sval_key f32_class_key)
    finally show ?thesis using r f32_sub_key [OF assms(3) b(1)] by simp
  qed
  moreover have "\<not> f32_isnan (cr_resultHealth res)"
    using r f32_sub_key [OF assms(3) b(1)] kround_abs_le [of "f32_sval ?h - f32_sval damage" 1]
    by (simp add: f32_class_key)
  ultimately show ?thesis using b z assms(3) by (simp add: f32_le_sval) (simp add: f32_le_def f32_class_excl)
qed

theorem hit_never_heals_witness:
  "f32_le (cr_resultHealth (fst (ResolveCombat ServerEntity_default ServerEntity_default 0
     \<lparr>cd_roll = 55, cd_factor = f32_of_int 1, cd_block = f32_of_int 1\<rparr>))) (f32_of_int 100)"
proof -
  define d where "d = \<lparr>cd_roll = 55, cd_factor = f32_of_int 1, cd_block = f32_of_int 1\<rparr>"
  have f: "f32_le (f32_lit 8 10) (cd_factor d)" "f32_le (cd_factor d) (f32_lit 12 10)"
    by (simp_all add: d_def f32_eval)
  have h: "se_health ServerEntity_default ! BodyPart_code (SelectBodyPart (cd_roll d)) = f32_of_int 100"
    by (simp add: d_def SelectBodyPart_ranges ServerEntity_default_def)
  have "f32_isfinite (f32_of_int 100)" by (simp add: f32_eval)
  then have "f32_isfinite (se_health ServerEntity_default ! BodyPart_code (SelectBodyPart (cd_roll d)))" by (simp only: h)
  from hit_never_heals [OF f this, of ServerEntity_default 0] show ?thesis unfolding h by (simp only: d_def)
qed

section \<open>The world file\<close>

text \<open>
  C14.  Saving never loses the world: starting from a file with contents \<open>old\<close>, in every state the
  file system goes through during \<^verbatim>\<open>SaveWorldToFile\<close>, whatever calls the operating system fails, the
  full old contents are at the path or at its backup, or the full new contents are at the path;
  and when the function reports success the new contents are at the path.
\<close>

theorem save_never_loses:
  assumes "d (ws_path w) = Some old" "dump (world_json w) = Some new"
    and "x \<in> set (snd (SaveWorldToFile dump env w d))"
  shows "(x (ws_path w) = Some old \<or> x (bak_path (ws_path w)) = Some old \<or> x (ws_path w) = Some new) \<and>
    (fst (SaveWorldToFile dump env w d) = Saved \<longrightarrow>
       last (snd (SaveWorldToFile dump env w d)) (ws_path w) = Some new)"
  using SaveWorldToFile_safe [OF assms] SaveWorldToFile_saved [of dump env w d] assms(2) by auto

definition example_world :: WorldSave where
  "example_world = \<lparr>ws_path = lit ''w'', ws_entities = [(5, ServerEntity_default\<lparr>se_id := 5, se_owner := 2\<rparr>)],
     ws_players = [(lit ''Ann'', \<lparr>sp_name = lit ''Ann'', sp_entityIds = [5, 6]\<rparr>)], ws_timeOfDay = 0, ws_weather = 0\<rparr>"

theorem save_never_loses_witness:
  "last (snd (SaveWorldToFile (\<lambda>_. Some [1]) \<lparr>fe_open = True, fe_write = True, fe_move = False, fe_rename_old = True,
      fe_rename_new = True, fe_rename_back = True\<rparr> example_world [lit ''w'' \<mapsto> [0]])) (lit ''w'') = Some [1]"
proof -
  define env where "env = \<lparr>fe_open = True, fe_write = True, fe_move = False, fe_rename_old = True,
      fe_rename_new = True, fe_rename_back = True\<rparr>"
  have p: "ws_path example_world = lit ''w''" by (simp add: example_world_def)
  have ne: "lit ''w'' \<noteq> tmp_path (lit ''w'')" "lit ''w'' \<noteq> bak_path (lit ''w'')" by simp_all
  have s: "fst (SaveWorldToFile (\<lambda>_. Some [1]) env example_world [lit ''w'' \<mapsto> [0]]) = Saved"
    by (simp add: SaveWorldToFile_def env_def p Let_def fs_move_def save_fallback_def fs_rename_def fs_remove_def)
  have m: "[lit ''w'' \<mapsto> [0]] \<in> set (snd (SaveWorldToFile (\<lambda>_. Some [1]) env example_world [lit ''w'' \<mapsto> [0]]))"
    by (simp add: SaveWorldToFile_def env_def Let_def fs_move_def save_fallback_def fs_rename_def fs_remove_def)
  show ?thesis
    using save_never_loses [of "[lit ''w'' \<mapsto> [0]]" example_world "[0]" "\<lambda>_. Some [1]" "[1]" "[lit ''w'' \<mapsto> [0]]" env] s m
    by (simp add: p env_def)
qed


lemma example_saveable: "saveable (ServerEntity_default\<lparr>se_id := 5, se_owner := 2\<rparr>)"
  by (simp add: saveable_def ServerEntity_default_def Vec3_default_def bad_coords_def f32_eval)


text \<open>
  C16.  No world file can corrupt the server: whatever document (or none) \<^verbatim>\<open>LoadWorldFromFile\<close> finds,
  also when reading it throws half way, the entity map it leaves has distinct ids as keys, every
  entity has a valid position, full arrays, no owner and server authority, and every player
  record carries the name it is filed under.
\<close>

theorem load_any_file:
  assumes "ld_entities l = []" "ld_players l = []" "LoadWorldFromFile f l = (ok, l')"
  shows "um_wf (ld_entities l') \<and> um_wf (ld_players l') \<and>
    (\<forall>k e. um_find (ld_entities l') k = Some e \<longrightarrow> entity_ok k e \<and> se_owner e = 0 \<and>
       \<not> bad_coords (vx (se_position e)) (vy (se_position e)) (vz (se_position e))) \<and>
    (\<forall>name sp. um_find (ld_players l') name = Some sp \<longrightarrow> sp_name sp = name)"
proof -
  have "load_ok l" using assms(1,2) loaded_ok_Nil by (auto simp: load_ok_def saved_ok_def)
  then have "load_ok l'" using LoadWorldFromFile_ok [of l f] assms(3) by simp
  then obtain maxId where m: "loaded_ok maxId (ld_entities l')" and p: "saved_ok (ld_players l')" by (auto simp: load_ok_def)
  have "\<not> bad_coords (vx (se_position e)) (vy (se_position e)) (vz (se_position e))"
    if "um_find (ld_entities l') k = Some e" for k e
    using that m load_entity_ok(1) by (auto simp: loaded_ok_def um_find_Some_iff saveable_def)
  then show ?thesis using loaded_entities_ok [OF m] p m by (auto simp: saved_ok_def loaded_ok_def)
qed

theorem load_any_file_witness:
  "um_wf (ld_entities (snd (LoadWorldFromFile (Document \<lparr>jd_version = None, jd_timeOfDay = Some 0, jd_weather = Some 0,
      jd_entities = Some [entity_json ServerEntity_default, entity_json ServerEntity_default], jd_players = None\<rparr>)
      \<lparr>ld_entities = [], ld_players = [], ld_timeOfDay = 0, ld_weather = 0, ld_nextEntityId = 1\<rparr>)))"
  using load_any_file [of "\<lparr>ld_entities = [], ld_players = [], ld_timeOfDay = 0, ld_weather = 0, ld_nextEntityId = 1\<rparr>"]
  by (metis (no_types, lifting) loaded.select_convs(1,2) prod.collapse)

end
