(* ===== verification/Server_Lemmas.thy ===== *)
theory Server_Lemmas
  imports Server_Invariants
begin

text \<open>
  Lemmas about single operations of the server that the properties rest on: the effect of a
  packet by sender, the dead, reconnection, the clock, orphan cleanup and the master connection.
\<close>

section \<open>Packets\<close>

text \<open>A peer that already has a player: the packet is one of that player's messages or changes nothing.\<close>

lemma quiet_query: "quiet s (HandleServerQuery q r s)"
  unfolding HandleServerQuery_def
  by (auto simp: enet_only_def enet_out_def intro!: quiet_do_enet split: prod.splits option.splits)

lemma quiet_handshake_known:
  assumes "GetPlayerByPeer q s = Some p" shows "HandleHandshake q r s = s"
proof -
  have "ep_data (peer_tab (m_enet s) q) \<noteq> 0" using assms by (auto simp: GetPlayerByPeer_def split: if_splits)
  then show ?thesis by (auto simp: HandleHandshake_def split: prod.splits option.splits)
qed

lemma HandlePacket_dispatch:
  "HandlePacket env q data ch s = s \<or> (\<exists>h r. ReadHeader (PacketReader_new data) = (Some h, r) \<and> 8 \<le> length data \<and>
     \<not> wrong_channel (ph_type h) ch \<and> HandlePacket env q data ch s = dispatch env q (ph_type h) r s)"
  by (auto simp: HandlePacket_def split: prod.splits option.splits)

lemma quiet_acts: "quiet s t \<Longrightarrow> acts fr pid s t"
  unfolding quiet_def by (auto intro: acts_do_enet acts_refl)

lemma packet_acts:
  assumes p: "GetPlayerByPeer q s = Some p" and fr: "fr \<longrightarrow> ids_fresh s"
  shows "acts fr (cp_id p) s (HandlePacket env q data ch s)"
proof -
  have "acts fr (cp_id p) s (dispatch env q ty r s)" for ty r
  proof (rule dispatch_cases [of env q ty r s])
    fix h p' assume h: "(ty, h) \<in> set (player_handlers env q)" "GetPlayerByPeer q s = Some p'"
      "dispatch env q ty r s = h p' r s"
    then have "gameplay_handler h" by (intro player_handlers_contract)
    then show ?thesis using gameplay_handler.acts [OF _ fr] h p by simp
  qed (use quiet_handshake_known [OF p] quiet_acts [OF quiet_query] in
      \<open>auto intro!: acts_do_enet enet_only_out\<close>)
  then show ?thesis using HandlePacket_dispatch [of env q data ch s] by auto
qed

text \<open>A peer without a player can only ask for admission.\<close>

lemma stranger_quiet:
  assumes "GetPlayerByPeer q s = None" "\<And>h r. ReadHeader (PacketReader_new data) = (Some h, r) \<Longrightarrow> ph_type h \<noteq> C2S_Handshake"
  shows "quiet s (HandlePacket env q data ch s)"
proof -
  have "quiet s (dispatch env q ty r s)" if "ty \<noteq> C2S_Handshake" for ty r
  proof -
    have "quiet s (do_enet (enet_out c) s)" for c by (rule quiet_do_enet [OF enet_only_out quiet_refl])
    then show ?thesis using that assms(1) quiet_query by (auto simp: dispatch_def split: option.splits)
  qed
  then show ?thesis using HandlePacket_dispatch [of env q data ch s] assms(2) by auto
qed

section \<open>The dead\<close>

lemma gone_or_dead_cong:
  "um_find (m_entities t) = um_find (m_entities s) \<Longrightarrow> m_nextEntityId t = m_nextEntityId s \<Longrightarrow>
     gone_or_dead k t = gone_or_dead k s"
  by (simp add: gone_or_dead_def)

lemma frame_gone: "frame s t \<Longrightarrow> gone_or_dead k t = gone_or_dead k s"
  by (rule gone_or_dead_cong) (simp_all add: frame_def)

lemma reclaim_gone: "gone_or_dead k (reclaim pid ids s) = gone_or_dead k s"
  by (induction ids arbitrary: s)
    (auto simp: gone_or_dead_def modify_player_def modify_entity_def um_find_modify split: option.splits)

lemma enrolled_gone: "gone_or_dead k (enrolled p name s) = gone_or_dead k s"
proof -
  have "gone_or_dead k (snd (assign_host pl t)) = gone_or_dead k t" for pl t
    by (rule gone_or_dead_cong) (auto simp: assign_host_def split: option.splits)
  moreover have "gone_or_dead k (reclaim_saved pid name t) = gone_or_dead k t" for pid t
    using reclaim_gone by (auto simp: reclaim_saved_def Let_def gone_or_dead_def split: option.splits)
  moreover have "gone_or_dead k (entered p name s) = gone_or_dead k s"
    by (rule gone_or_dead_cong) (auto simp: entered_def Let_def srv_simps)
  ultimately show ?thesis by (simp add: enrolled_def)
qed

lemma abort_gone: "gone_or_dead k (abort_admission pid p t) = gone_or_dead k t"
  by (rule gone_or_dead_cong) (simp_all add: abort_admission_def srv_simps)

lemma handshake_gone: "gone_or_dead k (HandleHandshake p r s) = gone_or_dead k s"
proof -
  have "gone_or_dead k (admit_player p name s) = gone_or_dead k s" for name
    by (rule admit_player_cases [of p name s]) (simp_all add: frame_gone abort_gone enrolled_gone)
  moreover have "gone_or_dead k (send_reject p c reason s) = gone_or_dead k s" for c reason
    using frame_gone [OF frame_reject [OF frame_refl]] by blast
  ultimately show ?thesis by (auto simp: HandleHandshake_def split: prod.splits option.splits)
qed

lemma disconnect_gone: "gone_or_dead k s \<Longrightarrow> gone_or_dead k (HandleDisconnect q s)"
proof (cases "GetPlayerByPeer q s")
  case None
  then show "gone_or_dead k s \<Longrightarrow> ?thesis" by (simp add: HandleDisconnect_def gone_or_dead_def srv_simps)
next
  case (Some p)
  assume g: "gone_or_dead k s"
  have n: "m_nextEntityId (left_state p s) = m_nextEntityId s" "m_entities (left_state p s) = m_entities (release_entities p s)"
    by (simp_all add: left_state_def parted_def release_entities_def Let_def)
  have "se_alive (release_entity pid e) = se_alive e" for pid e by (simp add: release_entity_def)
  then have "gone_or_dead k (do_enet (enet_set_data q 0) (left_state p s))"
    using g by (auto simp: gone_or_dead_def srv_simps n release_find)
  then show ?thesis using frame_gone [OF HandleDisconnect_frame [OF Some]] by simp
qed

lemma packet_gone:
  assumes "world_inv s" "ids_fresh s" "gone_or_dead k s"
  shows "gone_or_dead k (HandlePacket env q data ch s)"
proof (cases "GetPlayerByPeer q s")
  case (Some p)
  have "wf_entities s" using assms(1) by (simp add: world_inv_def)
  then show ?thesis using acts_gone_or_dead [OF packet_acts [OF Some]] assms by blast
next
  case None
  have "gone_or_dead k (dispatch env q ty r s)" for ty r
  proof (rule dispatch_cases [of env q ty r s])
    assume "dispatch env q ty r s = HandleServerQuery q r s"
    then show ?thesis using assms(3) frame_gone [OF frame_query] by simp
  qed (use None assms(3) handshake_gone in \<open>auto simp: gone_or_dead_def srv_simps\<close>)
  then show ?thesis using HandlePacket_dispatch [of env q data ch s] assms(3) by auto
qed

lemma event_gone:
  assumes "world_inv s" "ids_fresh s" "gone_or_dead k s" shows "gone_or_dead k (handle_event ev s)"
proof (cases ev)
  case (EvReceive p data ch env)
  then show ?thesis using packet_gone [OF assms] by simp
next
  case (EvDisconnect p)
  then show ?thesis using disconnect_gone [OF assms(3)] by simp
qed (use assms(3) in \<open>auto simp: HandleConnect_def gone_or_dead_def srv_simps\<close>)

lemma orphans_gone: "gone_or_dead k s \<Longrightarrow> gone_or_dead k (fold remove_orphan ids s)"
proof (rule fold_inv)
  show "gone_or_dead k (remove_orphan x t)" if "gone_or_dead k t" for x t
    using that by (simp add: remove_orphan_def Let_def gone_or_dead_def srv_simps um_find_erase)
qed

lemma tick_orphans_gone: "gone_or_dead k s \<Longrightarrow> gone_or_dead k (tick_orphans dt s)"
proof -
  assume g: "gone_or_dead k s"
  let ?s = "s\<lparr>m_timeSinceOrphanCleanup := f32_add (m_timeSinceOrphanCleanup s) dt\<rparr>"
  have s: "gone_or_dead k ?s" using g by (simp add: gone_or_dead_def)
  have "gone_or_dead k ((fold remove_orphan (orphan_ids ?s) ?s)\<lparr>m_timeSinceOrphanCleanup := 0\<rparr>)"
    using orphans_gone [OF s, of "orphan_ids ?s"] by (simp add: gone_or_dead_def)
  then show ?thesis using s by (simp add: tick_orphans_def Let_def)
qed

lemma end_tick_gone: "gone_or_dead k s \<Longrightarrow> gone_or_dead k (end_tick dt menv s)"
proof -
  assume g: "gone_or_dead k s"
  let ?a = "tick_heartbeat dt (tick_time_sync dt (BroadcastPositions (update_time dt s)))"
  have "frame s ?a" by (intro frame_heartbeat frame_time_sync frame_positions frame_update_time)
  then have "gone_or_dead k (update_pings ?a)" using g frame_gone by (auto simp: gone_or_dead_def update_pings_def)
  then have "gone_or_dead k (tick_orphans dt (update_pings ?a))" by (rule tick_orphans_gone)
  moreover have "frame (tick_orphans dt (update_pings ?a)) (end_tick dt menv s)"
    unfolding end_tick_def by (intro frame_intro frame_UpdateMasterConnection frame_autosave)
  ultimately show ?thesis using frame_gone by simp
qed

lemma step_gone:
  assumes "server_step n s t" "world_inv s" "ids_fresh s" "gone_or_dead k s"
  shows "gone_or_dead k t"
  using assms
proof (induction rule: server_step.induct)
  case (step_begin s dt)
  then show ?case using frame_gone [OF frame_begin_tick] by simp
next
  case (step_console s stoul line)
  then show ?case using frame_gone [OF frame_console] by simp
next
  case (step_rehash s t)
  then obtain ps es sv where "mset es = mset (m_entities s)" "t = s\<lparr>m_players := ps, m_entities := es, m_savedPlayers := sv\<rparr>"
    unfolding rehashed_def by blast
  then show ?case using um_perm(2) [of es "m_entities s"] step_rehash.prems by (simp add: gone_or_dead_def world_inv_def)
qed (auto intro: event_gone end_tick_gone)

section \<open>Reconnection\<close>

text \<open>Reclaiming gives exactly the listed unowned entities to the player.\<close>

lemma reclaim_find:
  "pid \<noteq> 0 \<Longrightarrow> um_find (m_entities (reclaim pid ids s)) k =
     map_option (\<lambda>e. if se_owner e = 0 \<and> k \<in> set ids then e\<lparr>se_owner := pid\<rparr> else e) (um_find (m_entities s) k)"
proof (induction ids arbitrary: s)
  case Nil
  then show ?case by (simp add: option.map_ident)
next
  case (Cons i ids)
  let ?s1 = "case um_find (m_entities s) i of None \<Rightarrow> s
     | Some e \<Rightarrow> if se_owner e = 0
         then modify_player pid (\<lambda>p. p\<lparr>cp_ownedEntities := cp_ownedEntities p @ [i]\<rparr>)
                (modify_entity i (\<lambda>e. e\<lparr>se_owner := pid\<rparr>) s)
         else s"
  have "um_find (m_entities ?s1) k =
      map_option (\<lambda>e. if se_owner e = 0 \<and> k = i then e\<lparr>se_owner := pid\<rparr> else e) (um_find (m_entities s) k)"
    by (cases "um_find (m_entities s) k") (auto simp: modify_player_def modify_entity_def um_find_modify split: option.splits)
  then show ?case using Cons.IH [OF Cons.prems, of ?s1] Cons.prems
    by (cases "um_find (m_entities s) k") (auto split: option.splits)
qed

lemma reclaim_saved_players [simp]: "m_savedPlayers (reclaim pid ids s) = m_savedPlayers s"
  by (induction ids arbitrary: s) (auto simp: modify_player_def modify_entity_def split: option.splits)

lemma enrolled_find:
  assumes "um_find (m_savedPlayers s) name = Some sp" "m_nextPlayerId s \<noteq> 0"
  shows "um_find (m_entities (enrolled p name s)) k =
     map_option (\<lambda>e. if se_owner e = 0 \<and> k \<in> set (sp_entityIds sp) then e\<lparr>se_owner := m_nextPlayerId s\<rparr> else e)
       (um_find (m_entities s) k)"
proof -
  have "m_entities (snd (assign_host pl t)) = m_entities t" for pl t
    by (auto simp: assign_host_def split: option.splits)
  then show ?thesis using assms
    by (simp add: enrolled_def reclaim_saved_def entered_sel Let_def reclaim_find)
qed

lemma admit_entities: "m_entities (admit_player p name s) = m_entities (enrolled p name s)"
proof (rule admit_player_cases [of p name s])
  assume "frame (abort_admission (m_nextPlayerId s) p (enrolled p name s)) (admit_player p name s)"
  then show ?thesis by (simp add: frame_def abort_admission_def srv_simps)
qed (simp add: frame_def)

lemma owned_ids_iff: "um_wf es \<Longrightarrow> k \<in> set (owned_ids pid es) \<longleftrightarrow> (\<exists>e. um_find es k = Some e \<and> se_owner e = pid)"
  by (force simp: owned_ids_def um_find_Some_iff)

end
