(* ===== verification/Server_Ticks.thy ===== *)
theory Server_Ticks
  imports Server_Lemmas
begin

text \<open>
  Lemmas about the periodic work of \<^verbatim>\<open>GameServer::Update\<close> and of the lobby: the clock, the orphan
  cleanup, the reconnect backoff of the master connection, and who is told that the game starts.
\<close>

section \<open>The clock\<close>

definition valid_time :: "f32 \<Rightarrow> bool" where
  "valid_time t \<longleftrightarrow> f32_le 0 t \<and> f32_lt t (f32_of_int 1)"

definition valid_speed :: "f32 \<Rightarrow> bool" where
  "valid_speed v \<longleftrightarrow> f32_le (f32_lit 1 10) v \<and> f32_le v (f32_of_int 10)"

definition valid_clock :: "GameServer \<Rightarrow> bool" where
  "valid_clock s \<longleftrightarrow> valid_time (m_timeOfDay s) \<and> 0 \<le> sint (m_weatherState s) \<and> sint (m_weatherState s) \<le> 4 \<and>
     valid_speed (sc_gameSpeed (m_config s))"

lemma act_clock: "act fr pid s t \<Longrightarrow> valid_clock s \<Longrightarrow> valid_clock t"
  by (induction rule: act.induct)
    (simp_all add: valid_clock_def valid_time_def valid_speed_def srv_simps modify_entity_def modify_player_def)

lemma acts_clock: "acts fr pid s t \<Longrightarrow> valid_clock s \<Longrightarrow> valid_clock t"
  by (induction rule: rtranclp_induct) (auto intro: act_clock)

lemma clock_consts:
  "ksval 0 = 0" "ksval 0x470CA000 = 36000 * 2 ^ 149" "ksval 0x3F000000 = 2 ^ 148" "ksval 0x3FC00000 = 3 * 2 ^ 148"
  "ksval 0x3F800000 = 2 ^ 149" "ksval 0x45610000 = 3600 * 2 ^ 149" "ksval 0x41200000 = 10 * 2 ^ 149"
  by (simp_all add: ksval_def mag_int_def)

lemma clock_keys:
  "f32_key 0 = 0" "f32_key (f32_of_int 1) = 0x3F800000" "f32_key (f32_of_int 3600) = 0x45610000"
  "f32_key (f32_of_int 10) = 0x41200000" "0 \<le> f32_key (f32_lit 1 10)"
  "f32_isfinite (f32_of_int 86400)" "f32_sval (f32_of_int 86400) = 86400 * 2 ^ 149"
  "f32_between (2 ^ 149) (2 ^ 149) (f32_of_int 1)" "\<not> f32_isnan 0" "\<not> f32_isnan (f32_of_int 1)"
  unfolding f32_lits by (simp_all add: f32_between_def f32_eval)

lemma between_keyI:
  assumes "f32_le a x" "f32_le x b" "0 \<le> f32_key a" "f32_key b < kinf"
  shows "f32_between 0 (ksval (f32_key b)) x"
proof -
  have "0 \<le> f32_key x" "f32_key x \<le> f32_key b" "0 \<le> f32_key b" using assms by (auto simp: f32_le_def)
  then show ?thesis using f32_between_keys [of 0 x "f32_key b"] assms(4) by (simp add: clock_consts mag_inf_def)
qed

lemma between_le: "f32_between lo hi x \<Longrightarrow> f32_isfinite y \<Longrightarrow> hi \<le> f32_sval y \<Longrightarrow> f32_le x y"
  by (simp add: f32_between_def f32_le_sval)

lemma increment_between:
  assumes "f32_le 0 dt" "f32_le dt (f32_of_int 3600)" "valid_speed v"
  shows "f32_between 0 (2 ^ 148) (f32_div (f32_mul dt v) (f32_of_int 86400))"
proof -
  have dt: "f32_between 0 (3600 * 2 ^ 149) dt"
    using between_keyI [OF assms(1,2)] by (simp add: clock_keys clock_consts mag_inf_def)
  have v: "f32_between 0 (10 * 2 ^ 149) v"
    using between_keyI [of "f32_lit 1 10" v "f32_of_int 10"] assms(3)
    by (simp add: valid_speed_def clock_keys clock_consts mag_inf_def)
  have "f32_between 0 (ksval 0x470CA000) (f32_mul dt v)"
    by (rule f32_between_mul_nonneg [OF dt v]) (simp_all add: clock_consts mag_inf_def)
  then have "f32_between (ksval 0) (ksval 0x3F000000) (f32_div (f32_mul dt v) (f32_of_int 86400))"
    by (rule f32_between_div_pos) (simp_all add: clock_keys clock_consts mag_inf_def)
  then show ?thesis by (simp add: clock_consts)
qed

lemma valid_time_between: "valid_time t \<Longrightarrow> f32_between 0 (2 ^ 149) t"
  using between_keyI [of 0 t "f32_of_int 1"]
  by (auto simp: valid_time_def f32_le_def f32_lt_def clock_keys clock_consts mag_inf_def)

lemma between_valid:
  assumes "f32_between 0 hi x" "hi \<le> 2 ^ 148" shows "valid_time x"
proof -
  have f: "f32_isfinite 0" "f32_sval 0 = 0" "f32_isfinite (f32_of_int 1)" "f32_sval (f32_of_int 1) = 2 ^ 149"
    by (simp_all add: f32_eval)
  have "f32_sval x \<le> 2 ^ 148" using assms by (simp add: f32_between_def)
  then have "f32_sval x < 2 ^ 149" by simp
  then show ?thesis using assms(1) f by (simp add: valid_time_def f32_between_def f32_le_sval f32_lt_sval)
qed

lemma advance_time_valid:
  assumes "valid_time t" "f32_le 0 dt" "f32_le dt (f32_of_int 3600)" "valid_speed v"
  shows "valid_time (advance_time dt v t)"
proof -
  let ?x = "f32_div (f32_mul dt v) (f32_of_int 86400)"
  have s: "f32_between (ksval 0) (ksval 0x3FC00000) (f32_add t ?x)"
    by (rule f32_between_add [OF valid_time_between [OF assms(1)] increment_between [OF assms(2-4)]])
      (simp_all add: clock_consts mag_inf_def)
  show ?thesis
  proof (cases "f32_le (f32_of_int 1) (f32_add t ?x)")
    case True
    have "f32_isfinite (f32_of_int 1)" "f32_sval (f32_of_int 1) = 2 ^ 149" by (simp_all add: f32_eval)
    then have "f32_between (2 ^ 149) (3 * 2 ^ 148) (f32_add t ?x)"
      using s True by (simp add: f32_between_def f32_le_sval clock_consts)
    then have "f32_between (ksval 0) (ksval 0x3F000000) (f32_sub (f32_add t ?x) (f32_of_int 1))"
      by (rule f32_between_sub [OF _ clock_keys(8)]) (simp_all add: clock_consts mag_inf_def)
    then show ?thesis using True between_valid by (simp add: advance_time_def Let_def clock_consts)
  next
    case False
    have "\<not> f32_isnan (f32_add t ?x)" using s by (simp add: f32_between_def f32_class_excl)
    moreover have "f32_isfinite 0" "f32_sval 0 = 0" by (simp_all add: f32_eval)
    then have "f32_le 0 (f32_add t ?x)" using s by (simp add: f32_between_def f32_le_sval clock_consts)
    ultimately show ?thesis using False clock_keys(10)
      by (auto simp: advance_time_def Let_def valid_time_def f32_le_def f32_lt_def)
  qed
qed

section \<open>Orphan cleanup\<close>

lemma remove_orphans_find:
  "um_find (m_entities (fold remove_orphan ids s)) k = (if k \<in> set ids then None else um_find (m_entities s) k)"
proof (induction ids arbitrary: s)
  case (Cons i ids)
  then show ?case by (simp add: remove_orphan_def Let_def srv_simps um_find_erase)
qed simp

lemma orphan_ids_iff:
  "um_wf (m_entities s) \<Longrightarrow> k \<in> set (orphan_ids s) \<longleftrightarrow>
     (\<exists>e. um_find (m_entities s) k = Some e \<and> se_owner e \<noteq> 0 \<and> GetPlayer (se_owner e) s = None)"
  by (force simp: orphan_ids_def um_find_Some_iff)

lemma owner_inv_no_orphans: "owner_inv s \<Longrightarrow> um_wf (m_entities s) \<Longrightarrow> orphan_ids s = []"
  using orphan_ids_iff [of s] um_find_None_iff [of "m_players s"]
  by (auto simp: owner_inv_def GetPlayer_def) (metis list.set_intros(1) neq_Nil_conv)

section \<open>The master connection\<close>

text \<open>The reconnect delays: 5, 10, 20, 40 and then 60 seconds.\<close>

definition delay_ok :: "f32 \<Rightarrow> bool" where
  "delay_ok d \<longleftrightarrow> d \<in> {f32_of_int 5, f32_of_int 10, f32_of_int 20, f32_of_int 40, f32_of_int 60}"

lemma double_delay:
  "f32_min (f32_mul (f32_of_int 5) (f32_of_int 2)) (f32_of_int 60) = f32_of_int 10"
  "f32_min (f32_mul (f32_of_int 10) (f32_of_int 2)) (f32_of_int 60) = f32_of_int 20"
  "f32_min (f32_mul (f32_of_int 20) (f32_of_int 2)) (f32_of_int 60) = f32_of_int 40"
  "f32_min (f32_mul (f32_of_int 40) (f32_of_int 2)) (f32_of_int 60) = f32_of_int 60"
  "f32_min (f32_mul (f32_of_int 60) (f32_of_int 2)) (f32_of_int 60) = f32_of_int 60"
  by (simp_all add: f32_eval)

lemma delay_ok_double: "delay_ok d \<Longrightarrow> delay_ok (f32_min (f32_mul d (f32_of_int 2)) (f32_of_int 60))"
  unfolding delay_ok_def by (elim insertE emptyE) (simp_all add: double_delay)

lemma master_send_delay [simp]: "m_masterReconnectDelay (master_send b d s) = m_masterReconnectDelay s"
  by (simp add: master_send_def srv_simps)

lemma master_event_delay: "delay_ok (m_masterReconnectDelay s) \<Longrightarrow> delay_ok (m_masterReconnectDelay (handle_master_event ip ev s))"
  by (cases ev) (simp_all add: SendMasterRegister_def delay_ok_def)

lemma master_delay:
  assumes "delay_ok (m_masterReconnectDelay s)"
  shows "delay_ok (m_masterReconnectDelay (UpdateMasterConnection dt env s))"
proof -
  let ?t = "fold (handle_master_event (me_extIP env)) (me_events env) s"
  have "delay_ok (m_masterReconnectDelay ?t)"
    using assms by (rule fold_inv [rotated]) (rule master_event_delay)
  then show ?thesis using assms
    by (simp add: UpdateMasterConnection_def Let_def master_heartbeat_def master_reconnect_def SendMasterHeartbeat_def
        srv_simps delay_ok_double)
qed

section \<open>Who is sent what\<close>

abbreviation allocs_ok :: "GameServer \<Rightarrow> bool" where
  "allocs_ok s \<equiv> (\<forall>i. alloc_ok (m_enet s) i)"

abbreviation sent :: "GameServer \<Rightarrow> net_out list" where
  "sent s \<equiv> outbox (m_enet s)"

lemma enet_try_outbox: "\<forall>i. alloc_ok e i \<Longrightarrow> outbox (snd (enet_try c e)) = outbox e @ [c]"
  by (simp add: enet_try_def enet_packet_create_def enet_out_def)

text \<open>A loop that sends a packet for the selected elements of a map.\<close>

lemma send_loop:
  assumes "\<forall>i. alloc_ok e i"
  shows "outbox (fold (\<lambda>x n. if P x then snd (enet_try (c x) n) else n) xs e) = outbox e @ map c (filter P xs)"
  using assms by (induction xs arbitrary: e) (simp_all add: enet_try_outbox)

lemma sent_Broadcast: "allocs_ok s \<Longrightarrow> sent (Broadcast d ch r s) = sent s @ [HostBroadcast ch d r]"
  by (simp add: Broadcast_def srv_simps enet_try_outbox)

lemma sent_BroadcastExcept:
  assumes "allocs_ok s"
  shows "sent (BroadcastExcept x d ch r s) = sent s @
    map (\<lambda>(k, p). PeerSend (cp_peer p) ch d r) (filter (\<lambda>(k, p). k \<noteq> x \<and> cp_peer p \<noteq> 0) (m_players s))"
proof -
  have "send_except x d ch r = (\<lambda>kp n. if (case kp of (k, p) \<Rightarrow> k \<noteq> x \<and> cp_peer p \<noteq> 0)
      then snd (enet_try (case kp of (k, p) \<Rightarrow> PeerSend (cp_peer p) ch d r) n) else n)"
    by (auto simp: send_except_def fun_eq_iff)
  then show ?thesis
    using send_loop [OF assms, of "\<lambda>(k, p). k \<noteq> x \<and> cp_peer p \<noteq> 0" "\<lambda>(k, p). PeerSend (cp_peer p) ch d r"]
    by (simp add: BroadcastExcept_def srv_simps)
qed

lemma allocs_Broadcast [simp]: "alloc_ok (m_enet (Broadcast d ch r s)) = alloc_ok (m_enet s)"
  "alloc_ok (m_enet (BroadcastSystemMessage m s)) = alloc_ok (m_enet s)"
  by (simp_all add: srv_simps)

lemma sent_SystemMessage: "allocs_ok s \<Longrightarrow> sent (BroadcastSystemMessage m s) =
    sent s @ [HostBroadcast RO (packet [hdr S2C_SystemMessage, WriteU32 0, WriteString m]) True]"
  unfolding BroadcastSystemMessage_def by (rule sent_Broadcast)

lemma sent_modify_player [simp]: "m_enet (modify_player pid f s) = m_enet s"
  by (simp add: modify_player_def)

section \<open>The saved-players map\<close>

lemma savedForWrite_find:
  assumes "distinct (map (cp_name \<circ> snd) ps)" "(pid, p) \<in> set ps" "owned_ids pid es \<noteq> []"
  shows "um_find (fold (\<lambda>(pid, cp) saved. let ids = owned_ids pid es in
      if ids = [] then saved else um_set (cp_name cp) \<lparr>sp_name = cp_name cp, sp_entityIds = ids\<rparr> saved) ps sv) (cp_name p)
    = Some \<lparr>sp_name = cp_name p, sp_entityIds = owned_ids pid es\<rparr>"
  using assms
proof (induction ps arbitrary: sv rule: rev_induct)
  case (snoc x ps)
  obtain k q where x: "x = (k, q)" by (cases x)
  show ?case
  proof (cases "(pid, p) = x")
    case True
    then show ?thesis using snoc.prems(3) x by (simp add: Let_def um_find_set)
  next
    case False
    then have "(pid, p) \<in> set ps" using snoc.prems(2) by auto
    moreover from this have "cp_name q \<noteq> cp_name p" using snoc.prems(1) x by (force simp: image_iff)
    ultimately show ?thesis using snoc x by (simp add: Let_def um_find_set)
  qed
qed simp

section \<open>Players after an admission\<close>

lemma reclaim_step_players:
  "um_find (m_players (modify_player pid (\<lambda>p. p\<lparr>cp_ownedEntities := cp_ownedEntities p @ [i]\<rparr>) (modify_entity i f s))) k =
     (if k = pid then map_option (\<lambda>p. p\<lparr>cp_ownedEntities := cp_ownedEntities p @ [i]\<rparr>) (um_find (m_players s) k)
      else um_find (m_players s) k)"
  by (simp add: modify_player_def modify_entity_def um_find_modify)

lemma reclaim_other_players:
  assumes "k \<noteq> pid" shows "um_find (m_players (reclaim pid ids s)) k = um_find (m_players s) k"
  using assms by (induction ids arbitrary: s) (auto simp: reclaim_step_players split: option.splits)

lemma reclaim_own_player:
  assumes "um_find (m_players s) pid = Some p"
  shows "\<exists>own. um_find (m_players (reclaim pid ids s)) pid = Some (p\<lparr>cp_ownedEntities := own\<rparr>)"
  using assms
proof (induction ids arbitrary: s p)
  case Nil
  then show ?case by (auto intro!: exI [of _ "cp_ownedEntities p"])
next
  case (Cons i ids)
  let ?t = "modify_player pid (\<lambda>p. p\<lparr>cp_ownedEntities := cp_ownedEntities p @ [i]\<rparr>) (modify_entity i (\<lambda>e. e\<lparr>se_owner := pid\<rparr>) s)"
  have "um_find (m_players ?t) pid = Some (p\<lparr>cp_ownedEntities := cp_ownedEntities p @ [i]\<rparr>)"
    using Cons.prems by (simp add: reclaim_step_players)
  from Cons.IH [OF this] Cons.IH [OF Cons.prems] show ?case by (auto split: option.splits)
qed

lemmas reclaim_players = reclaim_other_players reclaim_own_player

lemma enrolled_players:
  "k \<noteq> m_nextPlayerId s \<Longrightarrow> um_find (m_players (enrolled q name s)) k = um_find (m_players s) k"
  "\<exists>own. um_find (m_players (enrolled q name s)) (m_nextPlayerId s) =
     Some (new_player (m_nextPlayerId s) name q s\<lparr>cp_ownedEntities := own\<rparr>)"
proof -
  let ?pid = "m_nextPlayerId s"
  have e: "um_find (m_players (entered q name s)) ?pid = Some (new_player ?pid name q s)"
    "k \<noteq> ?pid \<Longrightarrow> um_find (m_players (entered q name s)) k = um_find (m_players s) k"
    by (simp_all add: entered_sel um_find_set)
  show "k \<noteq> ?pid \<Longrightarrow> um_find (m_players (enrolled q name s)) k = um_find (m_players s) k"
    using e(2) reclaim_players(1) by (auto simp: enrolled_def assign_host_sel reclaim_saved_def Let_def split: option.splits)
  show "\<exists>own. um_find (m_players (enrolled q name s)) ?pid = Some (new_player ?pid name q s\<lparr>cp_ownedEntities := own\<rparr>)"
  proof (cases "um_find (m_savedPlayers (entered q name s)) name")
    case None
    then show ?thesis using e(1)
      by (auto simp: enrolled_def assign_host_sel reclaim_saved_def new_player_def intro!: exI [of _ "[]"])
  next
    case (Some sp)
    then show ?thesis using reclaim_players(2) [OF e(1), of "sp_entityIds sp"]
      by (simp add: enrolled_def assign_host_sel reclaim_saved_def Let_def)
  qed
qed

lemma enrolled_alloc: "alloc_ok (m_enet (enrolled q name s)) = alloc_ok (m_enet s)"
  by (simp add: enrolled_def assign_host_sel reclaim_saved_keys entered_sel)

lemma admit_frame: "allocs_ok s \<Longrightarrow> frame (enrolled q name s) (admit_player q name s)"
  by (rule admit_player_cases [of q name s]) (auto simp: enrolled_alloc)

lemma enrolled_next: "m_nextPlayerId (enrolled q name s) = m_nextPlayerId s + 1"
proof -
  have "m_nextPlayerId (reclaim pid ids t) = m_nextPlayerId t" for pid ids t
    by (induction ids arbitrary: t) (auto simp: modify_player_def modify_entity_def split: option.splits)
  then have "m_nextPlayerId (reclaim_saved pid name t) = m_nextPlayerId t" for pid t
    by (auto simp: reclaim_saved_def Let_def split: option.splits)
  moreover have "m_nextPlayerId (snd (assign_host pl t)) = m_nextPlayerId t" for pl t
    by (auto simp: assign_host_def split: option.splits)
  ultimately show ?thesis by (simp add: enrolled_def entered_sel)
qed

end
