(* ===== verification/Example_Server.thy ===== *)
theory Example_Server
  imports Server_Ticks
begin

text \<open>
  Concrete servers the witnesses of the properties are evaluated at: one that was just started and
  one with two players, the host among them, and an entity of each.
\<close>

section \<open>Example states\<close>

definition example_config :: ServerConfig where
  "example_config = \<lparr>sc_serverName = lit ''S'', sc_port = 27800, sc_maxPlayers = 16, sc_password = [], sc_savePath = [],
     sc_tickRate = 20, sc_pvpEnabled = True, sc_gameSpeed = f32_of_int 1, sc_masterServer = [], sc_masterPort = 0\<rparr>"

definition example_enet :: "(peer \<Rightarrow> PlayerID) \<Rightarrow> enet" where
  "example_enet d = \<lparr>peer_tab = (\<lambda>p. \<lparr>ep_data = d p, ep_host = 0, ep_rtt = 0\<rparr>), alloc_ok = (\<lambda>_. True), n_allocs = 0, outbox = []\<rparr>"

text \<open>A server that was just started.\<close>

definition example_start :: GameServer where
  "example_start = LoadWorld (\<lambda>_. NoFile) (GameServer_new example_config (example_enet (\<lambda>_. 0)))"

definition example_player :: "PlayerID \<Rightarrow> bytes \<Rightarrow> ConnectedPlayer" where
  "example_player k name = \<lparr>cp_id = k, cp_name = name, cp_peer = unat k, cp_position = Vec3_default, cp_zone = ZoneCoord_default,
     cp_ping = 0, cp_lastUpdate = 0, cp_ownedEntities = [], cp_lobbyReady = False, cp_isLoopback = False, cp_isReady = False\<rparr>"

definition example_entity :: "EntityID \<Rightarrow> PlayerID \<Rightarrow> ServerEntity" where
  "example_entity k pid = ServerEntity_default\<lparr>se_id := k, se_owner := pid\<rparr>"

text \<open>Two players, the first of them the host, with one entity each.\<close>

definition example_server :: GameServer where
  "example_server = (GameServer_new example_config (example_enet (\<lambda>p. if p = 1 then 1 else if p = 2 then 2 else 0)))\<lparr>
     m_players := [(1, example_player 1 (lit ''Ann'')), (2, example_player 2 (lit ''Bob''))],
     m_entities := [(1, example_entity 1 1), (2, example_entity 2 2)],
     m_nextPlayerId := 3, m_nextEntityId := 3, m_hostPlayerId := 1\<rparr>"

definition example_dead :: GameServer where
  "example_dead = example_server\<lparr>m_entities := [(1, example_entity 1 1\<lparr>se_alive := False\<rparr>)]\<rparr>"

definition example_env :: packet_env where
  "example_env = \<lparr>pe_draws = \<lparr>cd_roll = 1, cd_factor = f32_of_int 1, cd_block = 0\<rparr>, pe_junk = 0, pe_beyond = []\<rparr>"

lemma example_start_reachable: "reachable 0 example_start"
proof -
  have "Start \<lparr>st_enet = True, st_host = True, st_masterHost = True, st_masterPeer = True\<rparr> example_config
      (GameServer_new example_config (example_enet (\<lambda>_. 0))) = (True, GameServer_new example_config (example_enet (\<lambda>_. 0)))"
    by (simp add: Start_def ConnectToMaster_def GameServer_new_def example_config_def)
  from reach_start [OF this, of "\<lambda>_. NoFile"] show ?thesis by (simp add: example_start_def example_enet_def)
qed

lemma example_start_sel:
  "m_players example_start = []" "m_entities example_start = []" "m_enet example_start = example_enet (\<lambda>_. 0)"
  "m_config example_start = example_config"
  by (simp_all add: example_start_def LoadWorld_def LoadWorldFromFile_def GameServer_new_def)

lemma example_server_sel:
  "m_players example_server = [(1, example_player 1 (lit ''Ann'')), (2, example_player 2 (lit ''Bob''))]"
  "m_entities example_server = [(1, example_entity 1 1), (2, example_entity 2 2)]"
  "m_hostPlayerId example_server = 1" "m_nextEntityId example_server = 3" "m_nextPlayerId example_server = 3"
  "m_config example_server = example_config" "m_savedPlayers example_server = []"
  "m_enet example_server = example_enet (\<lambda>p. if p = 1 then 1 else if p = 2 then 2 else 0)"
  by (simp_all add: example_server_def GameServer_new_def)

lemma example_entity_ok: "entity_ok k (example_entity k pid)"
  using unit_progress_0 [of "example_entity k pid"]
  by (simp add: entity_ok_def example_entity_def zone_ok_def entity_default_ok)
    (simp add: ServerEntity_default_def FromWorldPos_origin)

lemma example_world_inv: "world_inv example_server"
proof -
  have "player_ok 1 (example_player 1 (lit ''Ann''))" "player_ok 2 (example_player 2 (lit ''Bob''))"
    by (simp_all add: player_ok_def example_player_def FromWorldPos_origin name_ok_def lit_def KMP_MAX_NAME_LENGTH_def)
  then show ?thesis using example_entity_ok
    by (auto simp: world_inv_def example_server_sel um_wf_def um_keys_def wf_entities_def wf_players_def
        example_config_def size_t_of_int_def)
qed

lemma example_fresh: "ids_fresh example_server"
  by (simp add: ids_fresh_def example_server_sel um_keys_def)

lemma example_peers:
  "GetPlayerByPeer 1 example_server = Some (example_player 1 (lit ''Ann''))"
  "GetPlayerByPeer 2 example_server = Some (example_player 2 (lit ''Bob''))" "GetPlayerByPeer 3 example_server = None"
  by (simp_all add: GetPlayerByPeer_def example_server_sel example_enet_def)

end
