(* ===== verification/Session_Properties.thy ===== *)
theory Session_Properties
  imports Example_Server Wire_Properties
begin

text \<open>
  Properties of the life of a session: admission and refusal, departure with host migration,
  reconnection, the lobby, chat, zone requests, spawning, the orphan cleanup, what a save records
  and the master connection.
\<close>

section \<open>Admission\<close>

lemma admit_sel:
  assumes "allocs_ok s"
  shows "m_players (admit_player q name s) = m_players (enrolled q name s)"
    "m_nextPlayerId (admit_player q name s) = m_nextPlayerId s + 1"
    "ep_data (peer_tab (m_enet (admit_player q name s)) q) = m_nextPlayerId s"
  using admit_frame [OF assms, of q name] enrolled_next [of q name s] enrolled_data [of q name s]
  by (simp_all add: frame_def fun_eq_iff)

text \<open>
  C13.  A handshake with the right version, from a peer without a player, while there is room, admits
  the player: the next id is used up, the peer carries it, the new record has the sanitised name
  and that peer, and every other player's record is as before.
\<close>

theorem handshake_admits:
  assumes "ReadStruct MsgHandshake_size MsgHandshake_dec r = (Some msg, r')"
    and "MsgHandshake_protocolVersion msg = KMP_PROTOCOL_VERSION"
    and "length (m_players s) < size_t_of_int (sc_maxPlayers (m_config s))"
    and "ep_data (peer_tab (m_enet s) q) = 0" "allocs_ok s"
  shows "let t = HandleHandshake q r s; pid = m_nextPlayerId s; name = sanitize_name (MsgHandshake_playerName msg) in
    (\<exists>own. um_find (m_players t) pid = Some (new_player pid name q s\<lparr>cp_ownedEntities := own\<rparr>)) \<and>
    (k \<noteq> pid \<longrightarrow> um_find (m_players t) k = um_find (m_players s) k) \<and>
    m_nextPlayerId t = pid + 1 \<and> ep_data (peer_tab (m_enet t) q) = pid"
proof -
  have "HandleHandshake q r s = admit_player q (sanitize_name (MsgHandshake_playerName msg)) s"
    using assms(1-4) by (simp add: HandleHandshake_def)
  then show ?thesis using enrolled_players admit_sel [OF assms(5)] by (simp add: Let_def)
qed

definition example_handshake :: "u32 \<Rightarrow> MsgHandshake" where
  "example_handshake v = \<lparr>MsgHandshake_protocolVersion = v, MsgHandshake_playerName = lit ''Cat'' @ replicate 29 0,
     MsgHandshake_gameVersionMajor = 0, MsgHandshake_gameVersionMinor = 0, MsgHandshake_gameVersionPatch = 0,
     MsgHandshake_reserved = 0\<rparr>"

lemma example_handshake_read:
  "ReadStruct MsgHandshake_size MsgHandshake_dec (reader_at pre (MsgHandshake_enc (example_handshake v))) =
     (Some (example_handshake v), reader_at (pre @ MsgHandshake_enc (example_handshake v)) [])"
  using MsgHandshake.struct_at [of "example_handshake v" pre "[]"]
  by (simp add: MsgHandshake_wf_def example_handshake_def lit_def)

lemma example_room:
  "length (m_players example_server) < size_t_of_int (sc_maxPlayers (m_config example_server))"
  "ep_data (peer_tab (m_enet example_server) 3) = 0" "allocs_ok example_server"
  by (simp_all add: example_server_sel example_config_def size_t_of_int_def example_enet_def)

theorem handshake_admits_witness:
  "ep_data (peer_tab (m_enet (HandleHandshake 3 (reader_at [] (MsgHandshake_enc (example_handshake 1))) example_server)) 3) = 3"
proof -
  have "MsgHandshake_protocolVersion (example_handshake 1) = KMP_PROTOCOL_VERSION"
    by (simp add: example_handshake_def KMP_PROTOCOL_VERSION_def)
  from handshake_admits [where k = 0, OF example_handshake_read this example_room]
  show ?thesis by (simp only: Let_def example_server_sel)
qed

definition reject_packet :: "u8 \<Rightarrow> bytes \<Rightarrow> bytes" where
  "reject_packet code reason = packet [hdr S2C_HandshakeReject, WriteRaw (MsgHandshakeReject_enc
     \<lparr>MsgHandshakeReject_reasonCode = code, MsgHandshakeReject_reasonText = strncpy_buf 128 reason\<rparr>)]"

lemma send_reject_sent:
  assumes "allocs_ok s"
  shows "sent (send_reject q code reason s) = sent s @ [PeerSend q RO (reject_packet code reason) True, PeerDisconnectLater q]"
    "frame s (send_reject q code reason s)"
  using assms frame_reject [OF frame_refl]
  by (simp_all add: send_reject_def reject_packet_def srv_simps enet_out_def enet_try_outbox)

text \<open>
  A handshake is refused when the server is full or the version differs: the peer is sent one
  reject message (reason 0 or 1) and is disconnected once that is delivered, and nothing else
  changes.
\<close>

theorem handshake_refused:
  assumes "ReadStruct MsgHandshake_size MsgHandshake_dec r = (Some msg, r')"
    and "ep_data (peer_tab (m_enet s) q) = 0" "allocs_ok s"
  shows "let t = HandleHandshake q r s in
    (size_t_of_int (sc_maxPlayers (m_config s)) \<le> length (m_players s) \<longrightarrow> frame s t \<and>
       sent t = sent s @ [PeerSend q RO (reject_packet 0 (full_text s)) True, PeerDisconnectLater q]) \<and>
    (length (m_players s) < size_t_of_int (sc_maxPlayers (m_config s)) \<and>
       MsgHandshake_protocolVersion msg \<noteq> KMP_PROTOCOL_VERSION \<longrightarrow> frame s t \<and>
       sent t = sent s @ [PeerSend q RO (reject_packet 1 (version_text (MsgHandshake_protocolVersion msg))) True,
         PeerDisconnectLater q])"
  using assms send_reject_sent [OF assms(3)] by (simp add: HandleHandshake_def Let_def)

theorem handshake_refused_witness:
  "sent (HandleHandshake 3 (reader_at [] (MsgHandshake_enc (example_handshake 2))) example_server) =
     sent example_server @ [PeerSend 3 RO (reject_packet 1 (version_text 2)) True, PeerDisconnectLater 3]"
proof -
  have "MsgHandshake_protocolVersion (example_handshake 2) = 2" by (simp add: example_handshake_def)
  then show ?thesis using handshake_refused [OF example_handshake_read [of "[]" 2] example_room(2,3)] example_room(1)
    by (simp add: Let_def KMP_PROTOCOL_VERSION_def)
qed

section \<open>Departure and return\<close>

text \<open>
  When a player leaves, exactly that player's record goes, and the host passes on: if the
  leaving player was the host, the first remaining player becomes host (nobody when the server is
  empty), otherwise the host stays.  The peer is free again.
\<close>

theorem disconnect_passes_host:
  assumes "GetPlayerByPeer q s = Some p"
  shows "let t = HandleDisconnect q s in m_players t = um_erase (cp_id p) (m_players s) \<and>
    m_hostPlayerId t = (if cp_id p = m_hostPlayerId s
      then (case um_erase (cp_id p) (m_players s) of [] \<Rightarrow> 0 | (k, _) # _ \<Rightarrow> k) else m_hostPlayerId s) \<and>
    ep_data (peer_tab (m_enet t) q) = 0 \<and> m_nextPlayerId t = m_nextPlayerId s"
  using HandleDisconnect_frame [OF assms]
  by (simp add: frame_def srv_simps left_state_def parted_def next_host_def fun_eq_iff ep_data_set
      release_entities_def enet_set_data_def Let_def)

theorem disconnect_passes_host_witness: "m_hostPlayerId (HandleDisconnect 1 example_server) = 2"
  using disconnect_passes_host [OF example_peers(1)]
  by (simp add: example_server_sel example_player_def Let_def um_erase_def)

text \<open>
  C12.  Reconnection is a round trip: a player who owned entities leaves and is admitted again under
  the same name (from any peer).  Then every entity is back exactly as it was, with the new player
  id as owner of precisely the entities the player had owned.
\<close>

theorem reconnect_roundtrip:
  assumes "GetPlayerByPeer q s = Some p" "world_inv s" "owned_ids (cp_id p) (m_entities s) \<noteq> []" "m_nextPlayerId s \<noteq> 0"
  shows "um_find (m_entities (admit_player q' (cp_name p) (HandleDisconnect q s))) k =
    map_option (\<lambda>e. if se_owner e = cp_id p then e\<lparr>se_owner := m_nextPlayerId s\<rparr> else e) (um_find (m_entities s) k)"
proof -
  let ?t = "HandleDisconnect q s" and ?ids = "owned_ids (cp_id p) (m_entities s)"
  have t: "m_entities ?t = m_entities (release_entities p s)" "m_nextPlayerId ?t = m_nextPlayerId s"
    "um_find (m_savedPlayers ?t) (cp_name p) = Some \<lparr>sp_name = cp_name p, sp_entityIds = ?ids\<rparr>"
    using HandleDisconnect_frame [OF assms(1)] assms(3)
    by (simp_all add: frame_def srv_simps left_state_def parted_def Let_def release_entities_def um_find_set)
  have "um_wf (m_entities s)" using assms(2) by (simp add: world_inv_def)
  note own = owned_ids_iff [OF this]
  have "cp_id p \<noteq> 0" using GetPlayerByPeer_key [OF assms(1,2)] assms(1)
    by (auto simp: GetPlayerByPeer_def split: if_splits)
  then show ?thesis unfolding admit_entities enrolled_find [OF t(3), unfolded t(2), OF assms(4)] t(1) release_find
    by (cases "um_find (m_entities s) k") (auto simp: own release_entity_def)
qed

theorem reconnect_roundtrip_witness:
  "um_find (m_entities (admit_player 7 (lit ''Ann'') (HandleDisconnect 1 example_server))) 1 = Some (example_entity 1 3)"
proof -
  have "owned_ids 1 (m_entities example_server) \<noteq> []"
    by (simp add: example_server_sel owned_ids_def example_entity_def)
  then show ?thesis using reconnect_roundtrip [OF example_peers(1) example_world_inv, of 7 1]
    by (simp add: example_server_sel example_player_def example_entity_def)
qed

section \<open>The lobby\<close>

lemma ready_modify:
  "um_wf ps \<Longrightarrow> (\<forall>(k, q) \<in> set (um_modify j (\<lambda>p. p\<lparr>cp_lobbyReady := True\<rparr>) ps). cp_lobbyReady q) \<longleftrightarrow>
     list_all (\<lambda>(k, q). k = j \<or> cp_lobbyReady q) ps"
proof (induction ps)
  case (Cons x ps)
  obtain k q where x: "x = (k, q)" by (cases x)
  have "um_wf ps" "k \<notin> fst ` set ps" using Cons.prems x by (auto simp: um_wf_def um_keys_def)
  then show ?case using Cons.IH x by (force simp: um_modify_def list_all_iff)
qed (simp add: um_modify_def)

text \<open>
  The game starts exactly when everybody is ready: the readiness of a player is announced, and
  the start message (with the number of players) is broadcast if and only if all the other players
  are ready already.
\<close>

theorem lobby_start_iff_all_ready:
  assumes "allocs_ok s" "um_wf (m_players s)" "um_find (m_players s) (cp_id p) = Some p"
  shows "sent (HandleLobbyReady p s) = sent s @
    [HostBroadcast RO (packet [hdr S2C_SystemMessage, WriteU32 0, WriteString (cp_name p @ lit '' is ready!'')]) True] @
    (if list_all (\<lambda>(k, q). k = cp_id p \<or> cp_lobbyReady q) (m_players s)
     then [HostBroadcast RO (packet [hdr S2C_SystemMessage, WriteU32 0, WriteString all_ready_text]) True,
       HostBroadcast RO (packet [hdr S2C_LobbyStart, WriteU8 (of_nat (length (m_players s)))]) True]
     else [])"
proof -
  let ?s1 = "modify_player (cp_id p) (\<lambda>p. p\<lparr>cp_lobbyReady := True\<rparr>) s"
  have "m_players s \<noteq> []" using assms(3) by auto
  then have ne: "um_modify (cp_id p) (\<lambda>p. p\<lparr>cp_lobbyReady := True\<rparr>) (m_players s) \<noteq> []"
    using um_size_modify [of "cp_id p" _ "m_players s"] by (metis length_0_conv)
  have pl: "m_players (BroadcastSystemMessage m ?s1) = um_modify (cp_id p) (\<lambda>p. p\<lparr>cp_lobbyReady := True\<rparr>) (m_players s)" for m
    by (simp add: srv_simps modify_player_def)
  show ?thesis using assms(1) ne unfolding HandleLobbyReady_def Let_def pl ready_modify [OF assms(2)]
    by (simp add: sent_SystemMessage sent_Broadcast)
qed

theorem lobby_start_iff_all_ready_witness:
  "sent (HandleLobbyReady (example_player 1 (lit ''Ann'')) example_server) = sent example_server @
     [HostBroadcast RO (packet [hdr S2C_SystemMessage, WriteU32 0, WriteString (lit ''Ann'' @ lit '' is ready!'')]) True]"
  using lobby_start_iff_all_ready [OF example_room(3), of "example_player 1 (lit ''Ann'')"] example_world_inv
  by (simp add: world_inv_def example_server_sel example_player_def)

section \<open>Messages between players\<close>

text \<open>
  Chat cannot be forged: a chat message is passed on to all the other connected players, in the
  order of the map, under the id of the player it came from, whatever sender id the packet claims.
\<close>

theorem chat_names_its_sender:
  assumes "ReadU32 r = (Some claimed, r1)" "ReadString 1024 r1 = (Some m, r2)" "m \<noteq> []" "allocs_ok s"
  shows "sent (HandleChatMessage p r s) = sent s @
    map (\<lambda>(k, q). PeerSend (cp_peer q) RO (packet [hdr S2C_ChatMessage, WriteU32 (cp_id p), WriteString m]) True)
      (filter (\<lambda>(k, q). k \<noteq> cp_id p \<and> cp_peer q \<noteq> 0) (m_players s))"
  using assms by (simp add: HandleChatMessage_def sent_BroadcastExcept)

theorem chat_names_its_sender_witness:
  "sent (HandleChatMessage (example_player 2 (lit ''Bob'')) (reader_at [] (bytes_u32 1 @ WriteString (lit ''hi'') [])) example_server)
     = sent example_server @ [PeerSend 1 RO (packet [hdr S2C_ChatMessage, WriteU32 2, WriteString (lit ''hi'')]) True]"
proof -
  have r1: "ReadU32 (reader_at [] (bytes_u32 1 @ WriteString (lit ''hi'') [])) = (Some 1, reader_at (bytes_u32 1) (WriteString (lit ''hi'') []))"
    by (simp add: read_at)
  have r2: "ReadString 1024 (reader_at (bytes_u32 1) (WriteString (lit ''hi'') [])) =
      (Some (lit ''hi''), reader_at (bytes_u32 1 @ WriteString (lit ''hi'') []) [])"
    using string_at [of "lit ''hi''" "bytes_u32 1" "[]"] by (simp add: lit_def)
  show ?thesis using chat_names_its_sender [OF r1 r2 _ example_room(3), of "example_player 2 (lit ''Bob'')"]
    by (simp add: lit_def example_server_sel example_player_def)
qed

section \<open>Spawning, zones and cleanup\<close>

text \<open>
  A spawn request that parses, names a valid type and finds room adds exactly one entity, under
  a fresh id and owned by the sender (whatever owner the packet names); every other request leaves
  the server unchanged.  So requests never grow the world beyond 2048 entities.
\<close>

theorem spawn_adds_one:
  assumes "ids_fresh s"
  shows "case read_spawn_req r of None \<Rightarrow> HandleEntitySpawnReq p r s = s
    | Some q \<Rightarrow> if sr_type q > Turret \<or> KMP_MAX_SYNC_ENTITIES \<le> length (m_entities s) then HandleEntitySpawnReq p r s = s
        else um_find (m_entities s) (m_nextEntityId s) = None \<and>
          um_find (m_entities (HandleEntitySpawnReq p r s)) =
            (um_find (m_entities s))(m_nextEntityId s \<mapsto> spawned_entity (m_nextEntityId s) (cp_id p) q) \<and>
          m_nextEntityId (HandleEntitySpawnReq p r s) = m_nextEntityId s + 1 \<and>
          length (m_entities (HandleEntitySpawnReq p r s)) = Suc (length (m_entities s)) \<and>
          length (m_entities (HandleEntitySpawnReq p r s)) \<le> KMP_MAX_SYNC_ENTITIES"
proof (cases "read_spawn_req r")
  case (Some q)
  have "um_find (m_entities s) (m_nextEntityId s) = None"
    using assms by (auto simp: ids_fresh_def um_find_None_iff)
  then show ?thesis using Some
    by (auto simp: HandleEntitySpawnReq_def Let_def srv_simps modify_player_def um_find_set um_size_set)
qed (simp add: HandleEntitySpawnReq_def)

text \<open>A request without a name and extended state, claiming player 9 as the owner.\<close>

definition example_spawn :: bytes where
  "example_spawn = bytes_u32 0 @ bytes_u8 1 @ bytes_u32 9 @ bytes_u32 4 @ bytes_u32 0 @ bytes_u32 0 @ bytes_u32 0 @
     bytes_u32 0 @ bytes_u32 5 @ []"

lemma example_spawn_read:
  "read_spawn_req (reader_at [] example_spawn) = Some \<lparr>sr_clientEntityId = 0, sr_type = 1, sr_ownerId = 9, sr_templateId = 4,
     sr_pos = Vec3_default, sr_compQuat = 0, sr_factionId = 5, sr_templateName = [], sr_extended = None\<rparr>"
  unfolding example_spawn_def read_spawn_req_def scalars_at vec3_at prod.case option.case
  by (simp add: read_template_name_def read_extended_def Remaining_at Vec3_new_def Vec3_default_def)

theorem spawn_adds_one_witness:
  "map_option se_owner (um_find (m_entities (HandleEntitySpawnReq (example_player 1 []) (reader_at [] example_spawn) example_server)) 3) = Some 1"
  using spawn_adds_one [OF example_fresh, of "example_player 1 []" "reader_at [] example_spawn"]
  by (simp add: example_spawn_read example_server_sel Turret_def KMP_MAX_SYNC_ENTITIES_def spawned_entity_def Let_def example_player_def)

text \<open>
  A zone request is answered with exactly the entities of the requested zone and its eight
  neighbours that the player does not own, each with its full state, to that player only; a zone
  outside the map is not answered.
\<close>

theorem zone_request_answer:
  assumes "ReadI32 r = (Some x, r1)" "ReadI32 r1 = (Some y, r2)" "allocs_ok s"
  shows "sent (HandleZoneRequest p r s) = sent s @
    (if - 500 \<le> sint x \<and> sint x \<le> 500 \<and> - 500 \<le> sint y \<and> sint y \<le> 500
     then map (\<lambda>(k, e). PeerSend (cp_peer p) RO (entity_spawn_packet e) True)
       (filter (\<lambda>(k, e). se_owner e \<noteq> cp_id p \<and> IsAdjacent (ZoneCoord_new x y) (se_zone e)) (m_entities s))
     else [])"
proof -
  have adj: "zone_relevant (cp_id p) (ZoneCoord_new x y) e \<longleftrightarrow> se_owner e \<noteq> cp_id p \<and> IsAdjacent (ZoneCoord_new x y) (se_zone e)" for e
    by (auto simp: zone_relevant_def IsAdjacent_def ZoneCoord_new_def i32_abs_def)
  let ?P = "\<lambda>(k :: EntityID, e). se_owner e \<noteq> cp_id p \<and> IsAdjacent (ZoneCoord_new x y) (se_zone e)"
  let ?c = "\<lambda>(k :: EntityID, e). PeerSend (cp_peer p) RO (entity_spawn_packet e) True"
  have "(\<lambda>(k :: EntityID, e) n. if zone_relevant (cp_id p) (ZoneCoord_new x y) e
      then snd (enet_try (PeerSend (cp_peer p) RO (entity_spawn_packet e) True) n) else n) =
    (\<lambda>ke n. if ?P ke then snd (enet_try (?c ke) n) else n)"
    by (auto simp: fun_eq_iff adj)
  then show ?thesis using assms send_loop [OF assms(3), of ?P ?c]
    by (auto simp: HandleZoneRequest_def srv_simps)
qed

theorem zone_request_answer_witness:
  "sent (HandleZoneRequest (example_player 1 []) (reader_at [] (bytes_u32 0 @ bytes_u32 0 @ [])) example_server) =
     sent example_server @ [PeerSend 1 RO (entity_spawn_packet (example_entity 2 2)) True]"
proof -
  have r: "ReadI32 (reader_at [] (bytes_u32 0 @ bytes_u32 0 @ [])) = (Some 0, reader_at (bytes_u32 0) (bytes_u32 0 @ []))"
    "ReadI32 (reader_at (bytes_u32 0) (bytes_u32 0 @ [])) = (Some 0, reader_at (bytes_u32 0 @ bytes_u32 0) [])"
    by (simp_all only: scalars_at append_Nil)
  have "IsAdjacent (ZoneCoord_new 0 0) ZoneCoord_default"
    by (simp add: IsAdjacent_def ZoneCoord_new_def ZoneCoord_default_def i32_abs_def)
  then show ?thesis using zone_request_answer [OF r example_room(3), of "example_player 1 []"]
    by (simp add: example_server_sel example_player_def example_entity_def ServerEntity_default_def)
qed

text \<open>
  When it runs, the orphan cleanup removes exactly the entities whose owner is not connected:
  unowned entities and entities of connected players stay as they are.
\<close>

theorem orphans_removed_exactly:
  assumes "um_wf (m_entities s)" "f32_le (f32_of_int 30) (f32_add (m_timeSinceOrphanCleanup s) dt)"
  shows "um_find (m_entities (tick_orphans dt s)) k = (case um_find (m_entities s) k of None \<Rightarrow> None
    | Some e \<Rightarrow> if se_owner e \<noteq> 0 \<and> um_find (m_players s) (se_owner e) = None then None else Some e)"
proof -
  let ?s = "s\<lparr>m_timeSinceOrphanCleanup := f32_add (m_timeSinceOrphanCleanup s) dt\<rparr>"
  have "k \<in> set (orphan_ids ?s) \<longleftrightarrow>
      (\<exists>e. um_find (m_entities s) k = Some e \<and> se_owner e \<noteq> 0 \<and> um_find (m_players s) (se_owner e) = None)"
    using orphan_ids_iff [of ?s k] assms(1) by (simp add: GetPlayer_def)
  moreover have "um_find (m_entities (tick_orphans dt s)) k =
      um_find (m_entities (fold remove_orphan (orphan_ids ?s) ?s)) k"
    using assms(2) by (auto simp: tick_orphans_def Let_def orphan_ids_def)
  ultimately show ?thesis by (auto simp: remove_orphans_find split: option.splits)
qed

definition example_orphan :: GameServer where
  "example_orphan = example_server\<lparr>m_entities := [(1, example_entity 1 1), (2, example_entity 2 9)],
     m_timeSinceOrphanCleanup := f32_of_int 30\<rparr>"

theorem orphans_removed_exactly_witness: "um_find (m_entities (tick_orphans 0 example_orphan)) 2 = None"
proof -
  have w: "um_wf (m_entities example_orphan)" by (simp add: example_orphan_def um_wf_def um_keys_def)
  have "f32_le (f32_of_int 30) (f32_add (f32_of_int 30) 0)" by (simp add: f32_eval)
  then have "f32_le (f32_of_int 30) (f32_add (m_timeSinceOrphanCleanup example_orphan) 0)"
    by (simp add: example_orphan_def)
  from orphans_removed_exactly [OF w this, of 2] show ?thesis
    by (simp add: example_orphan_def example_server_sel example_entity_def)
qed

section \<open>Names, saved records and the master connection\<close>

text \<open>
  Sanitised names are always acceptable (printable, not empty, at most 31 characters), and a
  name that is acceptable already survives the round trip through the 32-byte field of the
  handshake and the sanitising unchanged.
\<close>

theorem names_sanitised:
  "name_ok (sanitize_name buf) \<and> (name_ok name \<longrightarrow> sanitize_name (strncpy_buf 32 name) = name)"
proof (intro conjI impI)
  show "name_ok (sanitize_name buf)" by (rule sanitize_name_ok)
  assume ok: "name_ok name"
  have len: "length name \<le> 31" "name \<noteq> []" and pr: "\<And>c. c \<in> set name \<Longrightarrow> 32 \<le> c \<and> c < 127"
    using ok by (auto simp: name_ok_def KMP_MAX_NAME_LENGTH_def)
  have z: "0 \<notin> set name" using pr [of 0] by (auto simp: word_le_nat_alt)
  then have "take 31 (strncpy_buf 32 name) = name @ replicate (31 - length name) 0"
    using len by (simp add: strncpy_buf_def cstr_id)
  moreover have "cstr (name @ replicate n 0) = name" for n
    using z by (induction name) (auto simp: cstr_def takeWhile_replicate)
  moreover have "filter (\<lambda>c. 32 \<le> c \<and> c < 127) name = name" using pr by simp
  ultimately show "sanitize_name (strncpy_buf 32 name) = name" using len(2)
    by (simp add: sanitize_name_def KMP_MAX_NAME_LENGTH_def)
qed

theorem names_sanitised_witness: "sanitize_name (strncpy_buf 32 (lit ''Ann'')) = lit ''Ann''"
  using names_sanitised by (simp add: name_ok_def lit_def KMP_MAX_NAME_LENGTH_def)

text \<open>
  What a save records of the players: while the names of the connected players are distinct,
  each of them who owns entities is written with exactly the ids of those entities, so that a
  restart lets them reclaim these.
\<close>

theorem save_records_owners:
  assumes "um_wf (m_players s)" "um_wf (m_entities s)" "distinct (map (cp_name \<circ> snd) (m_players s))"
    and "um_find (m_players s) pid = Some p" "um_find (m_entities s) k = Some e" "se_owner e = pid"
  shows "\<exists>sp. um_find (ws_players (last (m_saves (SaveWorld s)))) (cp_name p) = Some sp \<and>
    (\<forall>j. j \<in> set (sp_entityIds sp) \<longleftrightarrow> (\<exists>e. um_find (m_entities s) j = Some e \<and> se_owner e = pid))"
proof -
  have own: "j \<in> set (owned_ids pid (m_entities s)) \<longleftrightarrow> (\<exists>e. um_find (m_entities s) j = Some e \<and> se_owner e = pid)" for j
    by (rule owned_ids_iff [OF assms(2)])
  then have "owned_ids pid (m_entities s) \<noteq> []" using assms(5,6) by (metis empty_iff empty_set)
  moreover have "(pid, p) \<in> set (m_players s)" using um_find_Some_iff [OF assms(1)] assms(4) by blast
  ultimately show ?thesis using own savedForWrite_find [OF assms(3)] by (simp add: SaveWorld_def savedForWrite_def)
qed

theorem save_records_owners_witness:
  "\<exists>sp. um_find (ws_players (last (m_saves (SaveWorld example_server)))) (lit ''Ann'') = Some sp \<and> 1 \<in> set (sp_entityIds sp)"
proof -
  have w: "um_wf (m_players example_server)" "um_wf (m_entities example_server)"
    using example_world_inv by (simp_all add: world_inv_def)
  have d: "distinct (map (cp_name \<circ> snd) (m_players example_server))"
    by (simp add: example_server_sel example_player_def lit_def)
  have f: "um_find (m_players example_server) 1 = Some (example_player 1 (lit ''Ann''))"
    "um_find (m_entities example_server) 1 = Some (example_entity 1 1)" "se_owner (example_entity 1 1) = 1"
    by (simp_all add: example_server_sel example_entity_def)
  from save_records_owners [OF w d f] f(2,3) show ?thesis by (auto simp: example_player_def)
qed

text \<open>
  The reconnect backoff to the master server stays on the documented schedule: from a delay of
  5, 10, 20, 40 or 60 seconds every update leads to one of these again, and a new attempt is only
  made when the time since the last one has reached the delay.
\<close>

theorem reconnect_backoff:
  assumes "delay_ok (m_masterReconnectDelay s)"
  shows "delay_ok (m_masterReconnectDelay (UpdateMasterConnection dt env s)) \<and>
    (MasterConnect \<in> set (drop (length (sent s)) (sent (master_reconnect dt ok s))) \<longrightarrow>
       f32_le (m_masterReconnectDelay s) (f32_add (m_masterReconnectTimer s) dt) \<and>
       m_masterReconnectTimer (master_reconnect dt ok s) = 0)"
  using master_delay [OF assms] by (auto simp: master_reconnect_def Let_def srv_simps enet_out_def split: if_splits)

theorem reconnect_backoff_witness:
  "delay_ok (m_masterReconnectDelay (UpdateMasterConnection (f32_of_int 1) \<lparr>me_events = [MasterDown], me_connect = False, me_extIP = []\<rparr> example_server))"
proof -
  have "delay_ok (m_masterReconnectDelay example_server)"
    by (simp add: delay_ok_def example_server_def GameServer_new_def)
  then show ?thesis using reconnect_backoff by blast
qed

end
