(* ===== verification/Master_Server.thy ===== *)
theory Master_Server
  imports Wire_Properties
begin

text \<open>
  \<^verbatim>\<open>KenshiMP.MasterServer/main.cpp\<close>: the registry of game servers behind the server browser.  The
  steady clock is an argument in nanoseconds; the address ENet reports for a peer is the parameter
  \<open>ip_of\<close>; the memory behind the message on the stack is \<open>beyond\<close>, because the strings of a
  registration need not be terminated.  A null packet handed to ENet ends the process: \<open>None\<close>.
\<close>

section \<open>State\<close>

record RegisteredServer =
  rs_serverName :: bytes
  rs_address :: bytes
  rs_port :: u16
  rs_currentPlayers :: u8
  rs_maxPlayers :: u8
  rs_timeOfDay :: f32
  rs_pvpEnabled :: u8
  rs_lastHeartbeat :: int
  rs_peer :: peer

record Master =
  g_servers :: "(bytes, RegisteredServer) umap"
  ms_timeSincePrune :: f32
  ms_enet :: enet

definition HEARTBEAT_TIMEOUT_SEC :: f32 where
  "HEARTBEAT_TIMEOUT_SEC = f32_of_int 90"

definition MakeKey :: "bytes \<Rightarrow> u16 \<Rightarrow> bytes" where
  "MakeKey ip port = ip @ lit '':'' @ dec_nat (unat port)"

section \<open>Handlers\<close>

definition registered :: "bytes \<Rightarrow> int \<Rightarrow> bytes \<Rightarrow> peer \<Rightarrow> MsgMasterRegister \<Rightarrow> RegisteredServer" where
  "registered beyond now ip p msg = \<lparr>
     rs_serverName = cstr (MsgMasterRegister_serverName msg @ MsgMasterRegister_externalIP msg @ beyond),
     rs_address = ip, rs_port = MsgMasterRegister_gamePort msg,
     rs_currentPlayers = MsgMasterRegister_currentPlayers msg, rs_maxPlayers = MsgMasterRegister_maxPlayers msg,
     rs_timeOfDay = MsgMasterRegister_timeOfDay msg, rs_pvpEnabled = MsgMasterRegister_pvpEnabled msg,
     rs_lastHeartbeat = now, rs_peer = p\<rparr>"

definition HandleRegister :: "(peer \<Rightarrow> bytes) \<Rightarrow> bytes \<Rightarrow> int \<Rightarrow> peer \<Rightarrow> bytes \<Rightarrow> Master \<Rightarrow> Master" where
  "HandleRegister ip_of beyond now p data s = (case ReadHeader (PacketReader_new data) of
     (None, r) \<Rightarrow> s
   | (Some header, r) \<Rightarrow> (case ReadStruct MsgMasterRegister_size MsgMasterRegister_dec r of
       (None, r) \<Rightarrow> s
     | (Some msg, r) \<Rightarrow>
         if MsgMasterRegister_protocolVersion msg \<noteq> KMP_PROTOCOL_VERSION then s
         else let ext = cstr (MsgMasterRegister_externalIP msg @ beyond);
                  ip = (if ext \<noteq> [] then ext else ip_of p)
              in s\<lparr>g_servers := um_set (MakeKey ip (MsgMasterRegister_gamePort msg)) (registered beyond now ip p msg) (g_servers s)\<rparr>))"

definition refreshed :: "int \<Rightarrow> MsgMasterHeartbeat \<Rightarrow> RegisteredServer \<Rightarrow> RegisteredServer" where
  "refreshed now msg srv = srv\<lparr>rs_currentPlayers := MsgMasterHeartbeat_currentPlayers msg,
     rs_maxPlayers := MsgMasterHeartbeat_maxPlayers msg, rs_timeOfDay := MsgMasterHeartbeat_timeOfDay msg,
     rs_lastHeartbeat := now\<rparr>"

text \<open>The loop that looks for a registration of the same peer and port under another key.\<close>

fun refresh_first :: "int \<Rightarrow> peer \<Rightarrow> MsgMasterHeartbeat \<Rightarrow> (bytes, RegisteredServer) umap \<Rightarrow> (bytes, RegisteredServer) umap" where
  "refresh_first now p msg [] = []"
| "refresh_first now p msg ((k, srv) # srvs) =
     (if rs_peer srv = p \<and> rs_port srv = MsgMasterHeartbeat_gamePort msg then (k, refreshed now msg srv) # srvs
      else (k, srv) # refresh_first now p msg srvs)"

definition HandleHeartbeat :: "(peer \<Rightarrow> bytes) \<Rightarrow> int \<Rightarrow> peer \<Rightarrow> bytes \<Rightarrow> Master \<Rightarrow> Master" where
  "HandleHeartbeat ip_of now p data s = (case ReadHeader (PacketReader_new data) of
     (None, r) \<Rightarrow> s
   | (Some header, r) \<Rightarrow> (case ReadStruct MsgMasterHeartbeat_size MsgMasterHeartbeat_dec r of
       (None, r) \<Rightarrow> s
     | (Some msg, r) \<Rightarrow>
         let key = MakeKey (ip_of p) (MsgMasterHeartbeat_gamePort msg) in
         if um_find (g_servers s) key \<noteq> None
         then s\<lparr>g_servers := um_modify key (refreshed now msg) (g_servers s)\<rparr>
         else s\<lparr>g_servers := refresh_first now p msg (g_servers s)\<rparr>))"

text \<open>Both a deregistration and a disconnect remove all servers of the peer.\<close>

definition HandleDeregister :: "peer \<Rightarrow> Master \<Rightarrow> Master" where
  "HandleDeregister p s = s\<lparr>g_servers := filter (\<lambda>(k, srv). rs_peer srv \<noteq> p) (g_servers s)\<rparr>"

definition server_entry :: "RegisteredServer \<Rightarrow> MsgMasterServerEntry" where
  "server_entry srv = \<lparr>MsgMasterServerEntry_serverName = strncpy_buf 64 (rs_serverName srv),
     MsgMasterServerEntry_address = strncpy_buf 46 (rs_address srv), MsgMasterServerEntry_port = rs_port srv,
     MsgMasterServerEntry_currentPlayers = rs_currentPlayers srv, MsgMasterServerEntry_maxPlayers = rs_maxPlayers srv,
     MsgMasterServerEntry_pvpEnabled = rs_pvpEnabled srv, MsgMasterServerEntry_reserved = 0\<rparr>"

definition list_packet :: "(bytes, RegisteredServer) umap \<Rightarrow> bytes" where
  "list_packet srvs = packet ([hdr MS_ServerList, WriteU16 (of_nat (length srvs))] @
     map (\<lambda>(key, srv). WriteRaw (MsgMasterServerEntry_enc (server_entry srv))) srvs)"

definition HandleQueryList :: "peer \<Rightarrow> Master \<Rightarrow> Master option" where
  "HandleQueryList p s = (case enet_try (PeerSend p 0 (list_packet (g_servers s)) True) (ms_enet s) of
     (ok, e) \<Rightarrow> if ok then Some (s\<lparr>ms_enet := enet_out (PeerDisconnectLater p) e\<rparr>) else None)"

definition elapsed_sec :: "int \<Rightarrow> f32" where
  "elapsed_sec ns = f32_div (f32_of_int ns) (f32_of_int 1000000000)"

definition stale :: "int \<Rightarrow> RegisteredServer \<Rightarrow> bool" where
  "stale now srv \<longleftrightarrow> f32_lt HEARTBEAT_TIMEOUT_SEC (elapsed_sec (now - rs_lastHeartbeat srv))"

definition PruneStaleServers :: "int \<Rightarrow> Master \<Rightarrow> Master" where
  "PruneStaleServers now s = s\<lparr>g_servers := filter (\<lambda>(k, srv). \<not> stale now srv) (g_servers s)\<rparr>"

definition Master_HandlePacket :: "(peer \<Rightarrow> bytes) \<Rightarrow> bytes \<Rightarrow> int \<Rightarrow> peer \<Rightarrow> bytes \<Rightarrow> Master \<Rightarrow> Master option" where
  "Master_HandlePacket ip_of beyond now p data s =
     (if length data < 8 then Some s
      else (case ReadHeader (PacketReader_new data) of
        (None, r) \<Rightarrow> Some s
      | (Some header, r) \<Rightarrow>
          if ph_type header = MS_Register then Some (HandleRegister ip_of beyond now p data s)
          else if ph_type header = MS_Heartbeat then Some (HandleHeartbeat ip_of now p data s)
          else if ph_type header = MS_Deregister then Some (HandleDeregister p s)
          else if ph_type header = MS_QueryList then HandleQueryList p s
          else Some s))"

section \<open>The main loop\<close>

datatype ms_event = MsConnect peer | MsReceive peer bytes bytes | MsDisconnect peer

fun ms_handle :: "(peer \<Rightarrow> bytes) \<Rightarrow> int \<Rightarrow> ms_event \<Rightarrow> Master \<Rightarrow> Master option" where
  "ms_handle ip_of now (MsConnect p) s = Some s"
| "ms_handle ip_of now (MsReceive p data beyond) s = Master_HandlePacket ip_of beyond now p data s"
| "ms_handle ip_of now (MsDisconnect p) s = Some (HandleDeregister p s)"

fun ms_events :: "(peer \<Rightarrow> bytes) \<Rightarrow> (int \<times> ms_event) list \<Rightarrow> Master \<Rightarrow> Master option" where
  "ms_events ip_of [] s = Some s"
| "ms_events ip_of ((now, ev) # evs) s = Option.bind (ms_handle ip_of now ev s) (ms_events ip_of evs)"

definition ms_prune :: "f32 \<Rightarrow> int \<Rightarrow> Master \<Rightarrow> Master" where
  "ms_prune dt now s0 = (let s = s0\<lparr>ms_timeSincePrune := f32_add (ms_timeSincePrune s0) dt\<rparr> in
     if f32_le (f32_of_int 30) (ms_timeSincePrune s) then PruneStaleServers now (s\<lparr>ms_timeSincePrune := 0\<rparr>) else s)"

text \<open>
  One round of the loop: the events with the times they are handled at, then the periodic pruning.
\<close>

definition ms_round :: "(peer \<Rightarrow> bytes) \<Rightarrow> f32 \<Rightarrow> (int \<times> ms_event) list \<Rightarrow> int \<Rightarrow> Master \<Rightarrow> Master option" where
  "ms_round ip_of dt evs now s = map_option (\<lambda>s. (ms_prune dt now s)\<lparr>ms_enet := enet_out HostFlush (ms_enet (ms_prune dt now s))\<rparr>)
     (ms_events ip_of evs s)"

section \<open>The registry is consistent\<close>

text \<open>Keys are made of address and port, and every registration belongs to a connected peer.\<close>

definition entry_ok :: "peer set \<Rightarrow> bytes \<Rightarrow> RegisteredServer \<Rightarrow> bool" where
  "entry_ok conn k srv \<longleftrightarrow> k = MakeKey (rs_address srv) (rs_port srv) \<and> rs_peer srv \<in> conn"

definition ms_inv :: "peer set \<Rightarrow> Master \<Rightarrow> bool" where
  "ms_inv conn s \<longleftrightarrow> um_wf (g_servers s) \<and>
     (\<forall>k srv. um_find (g_servers s) k = Some srv \<longrightarrow> entry_ok conn k srv) \<and> (\<forall>i. alloc_ok (ms_enet s) i)"

lemma ms_inv_servers:
  "ms_inv conn s \<Longrightarrow> um_wf m \<Longrightarrow> (\<And>k srv. um_find m k = Some srv \<Longrightarrow> entry_ok conn' k srv) \<Longrightarrow>
   ms_inv conn' (s\<lparr>g_servers := m\<rparr>)"
  by (simp add: ms_inv_def)

lemma ms_inv_mono: "ms_inv conn s \<Longrightarrow> conn \<subseteq> conn' \<Longrightarrow> ms_inv conn' s"
  unfolding ms_inv_def entry_ok_def by blast

lemma entry_ok_refreshed [simp]: "entry_ok conn k (refreshed now msg srv) = entry_ok conn k srv"
  by (simp add: entry_ok_def refreshed_def)

lemma entry_ok_registered: "p \<in> conn \<Longrightarrow> entry_ok conn (MakeKey ip (MsgMasterRegister_gamePort msg)) (registered b now ip p msg)"
  by (simp add: entry_ok_def registered_def)

lemma refresh_first_find:
  "um_find (refresh_first now p msg m) k = um_find m k \<or>
     (\<exists>srv. um_find m k = Some srv \<and> um_find (refresh_first now p msg m) k = Some (refreshed now msg srv))"
  by (induction now p msg m rule: refresh_first.induct) auto

lemma refresh_first_keys [simp]: "um_keys (refresh_first now p msg m) = um_keys m"
  by (induction now p msg m rule: refresh_first.induct) (auto simp: um_keys_def)

lemma HandleRegister_inv: "ms_inv conn s \<Longrightarrow> p \<in> conn \<Longrightarrow> ms_inv conn (HandleRegister ip_of b now p data s)"
  unfolding HandleRegister_def Let_def
  by (auto intro!: ms_inv_servers simp: ms_inv_def um_find_set entry_ok_registered split: prod.splits option.splits if_splits)

lemma HandleHeartbeat_inv:
  assumes "ms_inv conn s" shows "ms_inv conn (HandleHeartbeat ip_of now p data s)"
proof -
  have "ms_inv conn (s\<lparr>g_servers := um_modify key (refreshed now msg) (g_servers s)\<rparr>)" for key msg
    by (rule ms_inv_servers [OF assms]) (use assms in \<open>auto simp: ms_inv_def um_find_modify split: if_splits\<close>)
  moreover have "ms_inv conn (s\<lparr>g_servers := refresh_first now p msg (g_servers s)\<rparr>)" for msg
  proof (rule ms_inv_servers [OF assms])
    show "um_wf (refresh_first now p msg (g_servers s))" using assms by (simp add: ms_inv_def um_wf_def)
    show "entry_ok conn k srv"
      if "um_find (refresh_first now p msg (g_servers s)) k = Some srv" for k srv
      using refresh_first_find [of now p msg "g_servers s" k] that assms by (auto simp: ms_inv_def)
  qed
  ultimately show ?thesis using assms by (auto simp: HandleHeartbeat_def Let_def split: prod.splits option.splits)
qed

lemma filter_inv:
  assumes "ms_inv conn s" "\<And>k srv. entry_ok conn k srv \<Longrightarrow> P k srv \<Longrightarrow> entry_ok conn' k srv"
  shows "ms_inv conn' (s\<lparr>g_servers := filter (\<lambda>(k, srv). P k srv) (g_servers s)\<rparr>)"
proof (rule ms_inv_servers [OF assms(1)])
  have w: "um_wf (g_servers s)" using assms(1) by (simp add: ms_inv_def)
  then show "um_wf (filter (\<lambda>(k, srv). P k srv) (g_servers s))" by simp
  show "entry_ok conn' k srv"
    if "um_find (filter (\<lambda>(k, srv). P k srv) (g_servers s)) k = Some srv" for k srv
    using that assms um_find_filter [OF w, of P k] by (auto simp: ms_inv_def split: option.splits if_splits)
qed

lemma HandleDeregister_inv: "ms_inv conn s \<Longrightarrow> ms_inv (conn - {p}) (HandleDeregister p s)"
  unfolding HandleDeregister_def by (rule filter_inv) (auto simp: entry_ok_def)

lemma ms_prune_inv: "ms_inv conn s \<Longrightarrow> ms_inv conn (ms_prune dt now s)"
  using filter_inv [of conn "s\<lparr>ms_timeSincePrune := t\<rparr>" "\<lambda>k srv. \<not> stale now srv" conn for t]
  by (auto simp: ms_prune_def Let_def PruneStaleServers_def ms_inv_def)

lemma HandleQueryList_inv: "ms_inv conn s \<Longrightarrow> \<exists>t. HandleQueryList p s = Some t \<and> ms_inv conn t"
  by (auto simp: HandleQueryList_def ms_inv_def enet_out_def split_beta)

text \<open>Which peers are connected after an event, and what ENet guarantees of its events.\<close>

fun ms_conn :: "ms_event \<Rightarrow> peer set \<Rightarrow> peer set" where
  "ms_conn (MsConnect p) conn = insert p conn"
| "ms_conn (MsReceive p data beyond) conn = conn"
| "ms_conn (MsDisconnect p) conn = conn - {p}"

fun ms_conns :: "(int \<times> ms_event) list \<Rightarrow> peer set \<Rightarrow> peer set" where
  "ms_conns [] conn = conn"
| "ms_conns ((now, ev) # evs) conn = ms_conns evs (ms_conn ev conn)"

fun ms_ok :: "(int \<times> ms_event) list \<Rightarrow> peer set \<Rightarrow> bool" where
  "ms_ok [] conn \<longleftrightarrow> True"
| "ms_ok ((now, ev) # evs) conn \<longleftrightarrow> (case ev of MsReceive p data beyond \<Rightarrow> p \<in> conn | _ \<Rightarrow> True) \<and> ms_ok evs (ms_conn ev conn)"

lemma packet_inv:
  assumes "ms_inv conn s" "p \<in> conn"
  shows "\<exists>t. Master_HandlePacket ip_of b now p data s = Some t \<and> ms_inv conn t"
proof -
  have d: "ms_inv conn (HandleDeregister p s)"
    by (rule ms_inv_mono [OF HandleDeregister_inv [OF assms(1)]]) blast
  show ?thesis using HandleQueryList_inv [OF assms(1), of p] HandleRegister_inv [OF assms, of ip_of b now data]
      HandleHeartbeat_inv [OF assms(1), of ip_of now p data] d assms(1)
    by (simp add: Master_HandlePacket_def split: prod.splits option.splits)
qed

lemma ms_event_inv:
  assumes "ms_inv conn s" "case ev of MsReceive p data beyond \<Rightarrow> p \<in> conn | _ \<Rightarrow> True"
  shows "\<exists>t. ms_handle ip_of now ev s = Some t \<and> ms_inv (ms_conn ev conn) t"
proof (cases ev)
  case (MsReceive p data beyond)
  then show ?thesis using packet_inv [OF assms(1), of p] assms(2) by simp
qed (simp_all add: ms_inv_mono [OF assms(1)] subset_insertI HandleDeregister_inv [OF assms(1)])

lemma ms_events_inv:
  "ms_inv conn s \<Longrightarrow> ms_ok evs conn \<Longrightarrow> \<exists>t. ms_events ip_of evs s = Some t \<and> ms_inv (ms_conns evs conn) t"
proof (induction evs arbitrary: s conn)
  case (Cons x evs)
  obtain now ev where x: "x = (now, ev)" by (cases x)
  then obtain t where "ms_handle ip_of now ev s = Some t" "ms_inv (ms_conn ev conn) t"
    using ms_event_inv [OF Cons.prems(1)] Cons.prems(2) by fastforce
  with Cons.IH [of "ms_conn ev conn" t] Cons.prems(2) x show ?case by simp
qed simp

section \<open>Properties\<close>

lemma ms_conns_snoc: "ms_conns (evs @ [(now, ev)]) conn = ms_conn ev (ms_conns evs conn)"
  by (induction evs arbitrary: conn) auto

definition example_master :: Master where
  "example_master = \<lparr>g_servers = [], ms_timeSincePrune = 0,
     ms_enet = \<lparr>peer_tab = (\<lambda>p. \<lparr>ep_data = 0, ep_host = 0, ep_rtt = 0\<rparr>), alloc_ok = (\<lambda>_. True), n_allocs = 0, outbox = []\<rparr>\<rparr>"



lemma server_entry_wf: "MsgMasterServerEntry_wf (server_entry srv)"
  by (simp add: MsgMasterServerEntry_wf_def server_entry_def)

lemma list_packet_bytes:
  "list_packet srvs = PacketHeader_enc \<lparr>ph_type = MS_ServerList, ph_flags = 0, ph_sequence = 0, ph_timestamp = 0\<rparr> @
     bytes_u16 (of_nat (length srvs)) @ concat (map MsgMasterServerEntry_enc (map (server_entry \<circ> snd) srvs))"
proof -
  have "(\<lambda>(key :: bytes, srv). WriteRaw (MsgMasterServerEntry_enc (server_entry srv))) =
      (\<lambda>x. WriteRaw (MsgMasterServerEntry_enc (server_entry (snd x))))" by auto
  then show ?thesis using fold_write_records [of "\<lambda>x. MsgMasterServerEntry_enc (server_entry (snd x))" srvs]
    by (simp add: list_packet_def packet_def writer_defs WriteRaw_def comp_def)
qed

text \<open>
  The server list a browser receives is complete: it decodes to one entry per registration, in
  order, each with its name and address (cut to 63 and 45 characters), port, player counts and PvP
  flag, as long as fewer than 65536 servers are registered.
\<close>

theorem master_list_roundtrip:
  assumes "length srvs < 65536"
  shows "case ReadHeader (PacketReader_new (list_packet srvs)) of (h, r) \<Rightarrow> map_option ph_type h = Some MS_ServerList \<and>
    (case ReadU16 r of (count, r) \<Rightarrow>
      read_run MsgMasterServerEntry_size MsgMasterServerEntry_dec (unat (the count)) r = map (server_entry \<circ> snd) srvs)"
proof -
  let ?es = "map (server_entry \<circ> snd) srvs"
  have "list_all MsgMasterServerEntry_wf ?es" by (simp add: list_all_iff server_entry_wf)
  moreover have "unat (of_nat (length srvs) :: u16) = length ?es" using assms by (simp add: unat_of_nat)
  ultimately have "read_run MsgMasterServerEntry_size MsgMasterServerEntry_dec (unat (of_nat (length srvs) :: u16))
      (reader_at pre (concat (map MsgMasterServerEntry_enc ?es))) = ?es" for pre
    using MsgMasterServerEntry.read_run_at [of ?es pre "[]"] by simp
  then show ?thesis unfolding list_packet_bytes reader_at_new by (simp only: read_at prod.case) simp
qed

theorem master_list_roundtrip_witness:
  "read_run MsgMasterServerEntry_size MsgMasterServerEntry_dec 1 (snd (ReadU16 (snd (ReadHeader (PacketReader_new
      (list_packet [(lit ''a:1'', registered [] 0 (lit ''a'') 1 (MsgMasterRegister_dec (replicate 126 65)))])))))) =
   [server_entry (registered [] 0 (lit ''a'') 1 (MsgMasterRegister_dec (replicate 126 65)))]"
proof -
  let ?l = "[(lit ''a:1'', registered [] 0 (lit ''a'') 1 (MsgMasterRegister_dec (replicate 126 65)))]"
  have "fst (ReadU16 (snd (ReadHeader (PacketReader_new (list_packet ?l))))) = Some 1"
    unfolding list_packet_bytes reader_at_new by (simp only: read_at prod.case snd_conv fst_conv) simp
  then show ?thesis using master_list_roundtrip [of ?l] by (auto split: prod.splits)
qed

lemma prune_consts:
  "f32_key (f32_of_int 90000000000) = 0x51A7A358" "f32_key (f32_of_int 91000000000) = 0x51A9802E"
  "ksval 0x51A7A358 = 89999998976 * 2 ^ 149" "ksval 0x51A9802E = 90999996416 * 2 ^ 149"
  "f32_key (f32_of_int 90) = 0x42B40000" "ksval 0x42B40000 = 90 * 2 ^ 149" "ksval 0x42B40001 = 11796481 * 2 ^ 132"
  "f32_isfinite (f32_of_int 1000000000)" "f32_sval (f32_of_int 1000000000) = 1000000000 * 2 ^ 149"
  by (simp_all add: f32_eval ksval_def)

lemma of_int_key_mono: "a \<le> b \<Longrightarrow> f32_key (f32_of_int a) \<le> f32_key (f32_of_int b)"
  using kround_mono [of 1 1 "a * 2 ^ 149" "b * 2 ^ 149"] by (simp add: f32_of_int_def kround_key)

lemma elapsed_key:
  assumes "0 \<le> ns" "ns < 2 ^ 63"
  shows "\<not> f32_isnan (elapsed_sec ns)" "0 \<le> f32_key (f32_of_int ns)" "f32_isfinite (f32_of_int ns)"
    "f32_key (elapsed_sec ns) = kround (f32_sval (f32_of_int ns) * 2 ^ 149) (1000000000 * 2 ^ 149)"
proof -
  have b: "f32_key (f32_of_int (2 ^ 63)) = 0x5F000000" "f32_key (f32_of_int 0) = 0" by (simp_all add: f32_eval)
  show k: "0 \<le> f32_key (f32_of_int ns)" using of_int_key_mono [OF assms(1)] b by simp
  have "f32_key (f32_of_int ns) \<le> 0x5F000000" using of_int_key_mono [of ns "2 ^ 63"] assms b by simp
  then show f: "f32_isfinite (f32_of_int ns)" using k by (simp add: f32_class_key mag_inf_def)
  have "f32_key (f32_of_int 1000000000) \<noteq> 0" by (simp add: f32_eval)
  from f32_div_key [OF f prune_consts(8) this]
  show key: "f32_key (elapsed_sec ns) = kround (f32_sval (f32_of_int ns) * 2 ^ 149) (1000000000 * 2 ^ 149)"
    by (simp add: elapsed_sec_def prune_consts nat_mult_distrib nat_power_eq)
  show "\<not> f32_isnan (elapsed_sec ns)"
    unfolding f32_class_key key by (simp add: kround_abs_le not_less)
qed

lemma elapsed_small:
  assumes "0 \<le> ns" "ns \<le> 90000000000" shows "\<not> f32_lt (f32_of_int 90) (elapsed_sec ns)"
proof -
  have ns: "ns < 2 ^ 63" using assms(2) by simp
  note e = elapsed_key [OF assms(1) ns]
  have "f32_key (f32_of_int ns) \<le> 0x51A7A358" using of_int_key_mono [OF assms(2)] by (simp add: prune_consts)
  then have "f32_sval (f32_of_int ns) \<le> ksval 0x51A7A358"
    unfolding f32_sval_key using e(2) by (intro ksval_mono) (simp_all add: mag_inf_def)
  then have "f32_key (elapsed_sec ns) \<le> 0x42B40000" unfolding e(4)
    by (intro kround_le) (simp_all add: prune_consts mag_inf_def)
  then show ?thesis by (simp add: f32_lt_def prune_consts)
qed

lemma elapsed_large:
  assumes "91000000000 \<le> ns" "ns < 2 ^ 63" shows "f32_lt (f32_of_int 90) (elapsed_sec ns)"
proof -
  have "0 \<le> ns" using assms(1) by simp
  note e = elapsed_key [OF this assms(2)]
  have "0x51A9802E \<le> f32_key (f32_of_int ns)" using of_int_key_mono [OF assms(1)] by (simp add: prune_consts)
  then have "ksval 0x51A9802E \<le> f32_sval (f32_of_int ns)"
    unfolding f32_sval_key using e(3) by (intro ksval_mono) (simp_all add: mag_inf_def f32_class_key)
  then have "0x42B40001 \<le> f32_key (elapsed_sec ns)" unfolding e(4)
    by (intro kround_ge) (simp_all add: prune_consts mag_inf_def)
  moreover have "\<not> f32_isnan (f32_of_int 90)" by (simp add: f32_eval)
  ultimately show ?thesis using e(1) by (simp add: f32_lt_def prune_consts)
qed

text \<open>
  Pruning removes the servers that have been silent too long and no others: with the elapsed
  time computed in single precision, a server heard of within the last 90 seconds is kept and one
  silent for 91 seconds is removed.
\<close>

theorem prune_threshold:
  assumes "um_wf (g_servers s)" "um_find (g_servers s) k = Some srv" "rs_lastHeartbeat srv \<le> now" "now - rs_lastHeartbeat srv < 2 ^ 63"
  shows "(now - rs_lastHeartbeat srv \<le> 90 * 10 ^ 9 \<longrightarrow> um_find (g_servers (PruneStaleServers now s)) k = Some srv) \<and>
    (91 * 10 ^ 9 \<le> now - rs_lastHeartbeat srv \<longrightarrow> um_find (g_servers (PruneStaleServers now s)) k = None)"
  using elapsed_small [of "now - rs_lastHeartbeat srv"] elapsed_large [of "now - rs_lastHeartbeat srv"] assms
    um_find_filter [OF assms(1), of "\<lambda>k srv. \<not> stale now srv" k]
  by (auto simp: PruneStaleServers_def stale_def HEARTBEAT_TIMEOUT_SEC_def)

theorem prune_threshold_witness:
  "um_find (g_servers (PruneStaleServers (100 * 10 ^ 9) (example_master\<lparr>g_servers :=
     [(lit ''a:1'', registered [] 0 (lit ''a'') 1 (MsgMasterRegister_dec []))]\<rparr>))) (lit ''a:1'') = None"
proof -
  let ?srv = "registered [] 0 (lit ''a'') 1 (MsgMasterRegister_dec [])"
  let ?s = "example_master\<lparr>g_servers := [(lit ''a:1'', ?srv)]\<rparr>"
  have "um_wf (g_servers ?s)" "um_find (g_servers ?s) (lit ''a:1'') = Some ?srv" by (simp_all add: um_wf_def um_keys_def)
  from prune_threshold [OF this, of "100 * 10 ^ 9"] show ?thesis by (simp add: registered_def)
qed

end
