(* ===== verification/Entity_Registry.thy ===== *)
theory Entity_Registry
  imports Server_State
begin

text \<open>
  \<^verbatim>\<open>KenshiMP.Core/sync/entity_registry.h\<close> and \<^verbatim>\<open>.cpp\<close>: the client's table of entities and the
  inverse table from game objects to ids.  Pointers are 64-bit words; the locks make each
  operation atomic.  The lemmas show that the two tables stay inverse to each other under every
  operation, as long as no object is linked to two entities.
\<close>

section \<open>Data\<close>

datatype LocalAuthorityState = LocalOwned | RemoteOwned | ServerOwned | PendingSpawn | Destroyed

record EntityInfo =
  ei_netId :: EntityID
  ei_generation :: u32
  ei_gameObject :: u64
  ei_type :: EntityType
  ei_ownerPlayerId :: PlayerID
  ei_state :: EntityState
  ei_authority :: AuthorityType
  ei_localState :: LocalAuthorityState
  ei_dirtyFlags :: u16
  ei_zone :: ZoneCoord
  ei_lastPosition :: Vec3
  ei_velocity :: Vec3
  ei_lastRotation :: Quat
  ei_health :: f32
  ei_limbs :: "f32 list"
  ei_statusEffects :: "u8 list"
  ei_combat :: CombatInfo
  ei_moveSpeed :: u8
  ei_animState :: u8
  ei_lastUpdateTick :: u64
  ei_isRemote :: bool
  ei_lastEquipment :: "u32 list"

definition EntityInfo_default :: EntityInfo where
  "EntityInfo_default = \<lparr>ei_netId = INVALID_ENTITY, ei_generation = 0, ei_gameObject = 0, ei_type = NPC,
     ei_ownerPlayerId = 0, ei_state = Inactive, ei_authority = AuthNone, ei_localState = RemoteOwned,
     ei_dirtyFlags = 0, ei_zone = ZoneCoord_default, ei_lastPosition = Vec3_default, ei_velocity = Vec3_default,
     ei_lastRotation = Quat_default, ei_health = f32_of_int 100, ei_limbs = replicate 7 (f32_of_int 100),
     ei_statusEffects = replicate 5 0, ei_combat = CombatInfo_default, ei_moveSpeed = 0, ei_animState = 0,
     ei_lastUpdateTick = 0, ei_isRemote = False, ei_lastEquipment = replicate 14 0\<rparr>"

record EntityRegistry =
  reg_entities :: "(EntityID, EntityInfo) umap"
  reg_ptrToId :: "(u64, EntityID) umap"
  reg_nextId :: EntityID

definition EntityRegistry_new :: EntityRegistry where
  "EntityRegistry_new = \<lparr>reg_entities = [], reg_ptrToId = [], reg_nextId = 0x10000000\<rparr>"

section \<open>Registration\<close>

text \<open>The pointer check that \<^verbatim>\<open>Register\<close> and \<^verbatim>\<open>SetGameObject\<close> share.\<close>

definition bad_pointer :: "u64 \<Rightarrow> bool" where
  "bad_pointer p \<longleftrightarrow> p \<noteq> 0 \<and> (p < 0x10000 \<or> p > 0x00007FFFFFFFFFFF \<or> p AND 3 \<noteq> 0)"

definition local_info :: "EntityID \<Rightarrow> u64 \<Rightarrow> EntityType \<Rightarrow> PlayerID \<Rightarrow> EntityInfo" where
  "local_info i p type owner = EntityInfo_default\<lparr>ei_netId := i, ei_gameObject := p, ei_type := type,
     ei_ownerPlayerId := owner, ei_isRemote := False, ei_state := Active, ei_authority := AuthPlayer,
     ei_localState := LocalOwned\<rparr>"

definition Register :: "u64 \<Rightarrow> EntityType \<Rightarrow> PlayerID \<Rightarrow> EntityRegistry \<Rightarrow> EntityID \<times> EntityRegistry" where
  "Register gameObject type owner s =
     (if bad_pointer gameObject then (INVALID_ENTITY, s)
      else (case um_find (reg_ptrToId s) gameObject of
        Some i \<Rightarrow> (i, s)
      | None \<Rightarrow> let i = reg_nextId s in
          (i, s\<lparr>reg_nextId := reg_nextId s + 1,
                reg_entities := um_set i (local_info i gameObject type owner) (reg_entities s),
                reg_ptrToId := um_set gameObject i (reg_ptrToId s)\<rparr>)))"

definition remote_info :: "EntityID \<Rightarrow> EntityType \<Rightarrow> PlayerID \<Rightarrow> Vec3 \<Rightarrow> EntityInfo" where
  "remote_info netId type owner pos = EntityInfo_default\<lparr>ei_netId := netId, ei_gameObject := 0, ei_type := type,
     ei_ownerPlayerId := owner, ei_lastPosition := pos, ei_isRemote := True, ei_state := Spawning,
     ei_authority := AuthPlayer, ei_localState := RemoteOwned, ei_zone := FromWorldPos pos KMP_ZONE_SIZE\<rparr>"

definition RegisterRemote :: "EntityID \<Rightarrow> EntityType \<Rightarrow> PlayerID \<Rightarrow> Vec3 \<Rightarrow> EntityRegistry \<Rightarrow> EntityRegistry" where
  "RegisterRemote netId type owner pos s =
     (if um_find (reg_entities s) netId \<noteq> None then s
      else s\<lparr>reg_entities := um_set netId (remote_info netId type owner pos) (reg_entities s),
             reg_nextId := max (reg_nextId s) (netId + 1)\<rparr>)"

section \<open>Look-up\<close>

definition GetInfo :: "EntityID \<Rightarrow> EntityRegistry \<Rightarrow> EntityInfo option" where
  "GetInfo netId s = um_find (reg_entities s) netId"

definition GetGameObject :: "EntityID \<Rightarrow> EntityRegistry \<Rightarrow> u64" where
  "GetGameObject netId s = (case um_find (reg_entities s) netId of Some i \<Rightarrow> ei_gameObject i | None \<Rightarrow> 0)"

definition GetNetId :: "u64 \<Rightarrow> EntityRegistry \<Rightarrow> EntityID" where
  "GetNetId p s = (case um_find (reg_ptrToId s) p of Some i \<Rightarrow> i | None \<Rightarrow> INVALID_ENTITY)"

section \<open>Updates\<close>

definition modify_info :: "EntityID \<Rightarrow> (EntityInfo \<Rightarrow> EntityInfo) \<Rightarrow> EntityRegistry \<Rightarrow> EntityRegistry" where
  "modify_info netId f s = s\<lparr>reg_entities := um_modify netId f (reg_entities s)\<rparr>"

definition link_info :: "u64 \<Rightarrow> EntityInfo \<Rightarrow> EntityInfo" where
  "link_info p i = (let i1 = i\<lparr>ei_gameObject := p\<rparr> in
     if p \<noteq> 0 \<and> ei_state i = Spawning then i1\<lparr>ei_state := Active\<rparr> else i1)"

definition SetGameObject :: "EntityID \<Rightarrow> u64 \<Rightarrow> EntityRegistry \<Rightarrow> EntityRegistry" where
  "SetGameObject netId gameObject s =
     (let p = (if bad_pointer gameObject then 0 else gameObject) in
      case um_find (reg_entities s) netId of
        None \<Rightarrow> s
      | Some i \<Rightarrow>
          let m1 = (if ei_gameObject i \<noteq> 0 then um_erase (ei_gameObject i) (reg_ptrToId s) else reg_ptrToId s);
              m2 = (if p \<noteq> 0 then um_set p netId m1 else m1)
          in (modify_info netId (link_info p) s)\<lparr>reg_ptrToId := m2\<rparr>)"

definition UpdatePosition :: "EntityID \<Rightarrow> Vec3 \<Rightarrow> EntityRegistry \<Rightarrow> EntityRegistry" where
  "UpdatePosition netId pos = modify_info netId (\<lambda>i. i\<lparr>ei_lastPosition := pos, ei_zone := FromWorldPos pos KMP_ZONE_SIZE\<rparr>)"

definition UpdateRotation :: "EntityID \<Rightarrow> Quat \<Rightarrow> EntityRegistry \<Rightarrow> EntityRegistry" where
  "UpdateRotation netId rot = modify_info netId (\<lambda>i. i\<lparr>ei_lastRotation := rot\<rparr>)"

definition UpdateOwner :: "EntityID \<Rightarrow> PlayerID \<Rightarrow> EntityRegistry \<Rightarrow> EntityRegistry" where
  "UpdateOwner netId newOwner = modify_info netId (\<lambda>i. i\<lparr>ei_ownerPlayerId := newOwner\<rparr>)"

definition UpdateEquipment :: "EntityID \<Rightarrow> i32 \<Rightarrow> u32 \<Rightarrow> EntityRegistry \<Rightarrow> EntityRegistry" where
  "UpdateEquipment netId slot item s = (if 0 \<le> sint slot \<and> sint slot < 14
     then modify_info netId (\<lambda>i. i\<lparr>ei_lastEquipment := (ei_lastEquipment i)[nat (sint slot) := item]\<rparr>) s else s)"

definition UpdateLimbHealth :: "EntityID \<Rightarrow> f32 list \<Rightarrow> EntityRegistry \<Rightarrow> EntityRegistry" where
  "UpdateLimbHealth netId health = modify_info netId (\<lambda>i. i\<lparr>ei_limbs := take 7 health\<rparr>)"

definition UpdateStatusEffect :: "EntityID \<Rightarrow> u8 \<Rightarrow> bool \<Rightarrow> EntityRegistry \<Rightarrow> EntityRegistry" where
  "UpdateStatusEffect netId effectType active s = (if effectType < 5
     then modify_info netId (\<lambda>i. i\<lparr>ei_statusEffects := (ei_statusEffects i)[unat effectType := if active then 1 else 0]\<rparr>) s
     else s)"

definition SetDirtyFlags :: "EntityID \<Rightarrow> u16 \<Rightarrow> EntityRegistry \<Rightarrow> EntityRegistry" where
  "SetDirtyFlags netId flags = modify_info netId (\<lambda>i. i\<lparr>ei_dirtyFlags := ei_dirtyFlags i OR flags\<rparr>)"

definition ClearDirtyFlags :: "EntityID \<Rightarrow> u16 \<Rightarrow> EntityRegistry \<Rightarrow> EntityRegistry" where
  "ClearDirtyFlags netId flags = modify_info netId (\<lambda>i. i\<lparr>ei_dirtyFlags := ei_dirtyFlags i AND NOT flags\<rparr>)"

definition RemapEntityId :: "EntityID \<Rightarrow> EntityID \<Rightarrow> EntityRegistry \<Rightarrow> bool \<times> EntityRegistry" where
  "RemapEntityId oldId newId s = (case um_find (reg_entities s) oldId of
     None \<Rightarrow> (False, s)
   | Some i \<Rightarrow>
       if um_find (reg_entities s) newId \<noteq> None then (False, s)
       else let info = i\<lparr>ei_netId := newId\<rparr>;
                ptrs = (if ei_gameObject info \<noteq> 0 then um_set (ei_gameObject info) newId (reg_ptrToId s) else reg_ptrToId s)
            in (True, s\<lparr>reg_ptrToId := ptrs, reg_entities := um_set newId info (um_erase oldId (reg_entities s)),
                  reg_nextId := max (reg_nextId s) (newId + 1)\<rparr>))"

fun near_loop :: "Vec3 \<Rightarrow> PlayerID \<Rightarrow> (EntityID, EntityInfo) umap \<Rightarrow> EntityID \<Rightarrow> f32 \<Rightarrow> EntityID" where
  "near_loop pos owner [] bestId bestDist = bestId"
| "near_loop pos owner ((k, info) # es) bestId bestDist =
     (if ei_isRemote info then near_loop pos owner es bestId bestDist
      else if ei_ownerPlayerId info \<noteq> owner then near_loop pos owner es bestId bestDist
      else let d = DistanceTo (ei_lastPosition info) pos in
        if f32_lt d bestDist then near_loop pos owner es k d else near_loop pos owner es bestId bestDist)"

definition FindLocalEntityNear :: "Vec3 \<Rightarrow> PlayerID \<Rightarrow> f32 \<Rightarrow> EntityRegistry \<Rightarrow> EntityID" where
  "FindLocalEntityNear pos owner maxDist s = near_loop pos owner (reg_entities s) INVALID_ENTITY maxDist"

section \<open>Removal\<close>

definition Unregister :: "EntityID \<Rightarrow> EntityRegistry \<Rightarrow> EntityRegistry" where
  "Unregister netId s = (case um_find (reg_entities s) netId of
     None \<Rightarrow> s
   | Some i \<Rightarrow> s\<lparr>reg_ptrToId := (if ei_gameObject i \<noteq> 0 then um_erase (ei_gameObject i) (reg_ptrToId s) else reg_ptrToId s),
                 reg_entities := um_erase netId (reg_entities s)\<rparr>)"

definition ids_where :: "(EntityInfo \<Rightarrow> bool) \<Rightarrow> EntityRegistry \<Rightarrow> EntityID list" where
  "ids_where P s = map fst (filter (\<lambda>(k, info). P info) (reg_entities s))"

definition RemoveEntitiesInZone :: "ZoneCoord \<Rightarrow> EntityRegistry \<Rightarrow> EntityRegistry" where
  "RemoveEntitiesInZone zone s = fold Unregister (ids_where (\<lambda>info. ei_zone info = zone \<and> ei_isRemote info) s) s"

definition GetPlayerEntities :: "PlayerID \<Rightarrow> EntityRegistry \<Rightarrow> EntityID list" where
  "GetPlayerEntities playerId = ids_where (\<lambda>info. ei_ownerPlayerId info = playerId)"

definition GetEntitiesInZone :: "ZoneCoord \<Rightarrow> EntityRegistry \<Rightarrow> EntityID list" where
  "GetEntitiesInZone zone = ids_where (\<lambda>info. ei_zone info = zone)"

definition GetRemoteEntities :: "EntityRegistry \<Rightarrow> EntityID list" where
  "GetRemoteEntities = ids_where ei_isRemote"

definition GetEntityCount :: "EntityRegistry \<Rightarrow> nat" where
  "GetEntityCount s = length (reg_entities s)"

definition GetRemoteCount :: "EntityRegistry \<Rightarrow> nat" where
  "GetRemoteCount s = length (filter (\<lambda>(k, info). ei_isRemote info) (reg_entities s))"

definition GetSpawnedRemoteCount :: "EntityRegistry \<Rightarrow> nat" where
  "GetSpawnedRemoteCount s = length (filter (\<lambda>(k, info). ei_isRemote info \<and> ei_gameObject info \<noteq> 0) (reg_entities s))"

definition ClearRemoteEntities :: "EntityRegistry \<Rightarrow> nat \<times> EntityRegistry" where
  "ClearRemoteEntities s = (length (ids_where ei_isRemote s), fold Unregister (ids_where ei_isRemote s) s)"

definition Registry_Clear :: "EntityRegistry \<Rightarrow> EntityRegistry" where
  "Registry_Clear s = s\<lparr>reg_entities := [], reg_ptrToId := []\<rparr>"

section \<open>Authority helpers\<close>

definition IsLocalOwned :: "EntityID \<Rightarrow> PlayerID \<Rightarrow> EntityRegistry \<Rightarrow> bool" where
  "IsLocalOwned netId myPlayerId s = (case um_find (reg_entities s) netId of None \<Rightarrow> False
   | Some i \<Rightarrow> ei_ownerPlayerId i = myPlayerId \<and> ei_localState i = LocalOwned)"

definition IsRemoteOwned :: "EntityID \<Rightarrow> PlayerID \<Rightarrow> EntityRegistry \<Rightarrow> bool" where
  "IsRemoteOwned netId myPlayerId s = (case um_find (reg_entities s) netId of None \<Rightarrow> False
   | Some i \<Rightarrow> ei_ownerPlayerId i \<noteq> myPlayerId \<and> ei_localState i = RemoteOwned)"

definition IsServerOwned :: "EntityID \<Rightarrow> EntityRegistry \<Rightarrow> bool" where
  "IsServerOwned netId s = (case um_find (reg_entities s) netId of None \<Rightarrow> False
   | Some i \<Rightarrow> ei_localState i = ServerOwned)"

definition IsValidGeneration :: "EntityID \<Rightarrow> u32 \<Rightarrow> EntityRegistry \<Rightarrow> bool" where
  "IsValidGeneration netId generation s = (case um_find (reg_entities s) netId of None \<Rightarrow> False
   | Some i \<Rightarrow> ei_generation i = generation)"

definition GetOwnerPlayerId :: "EntityID \<Rightarrow> EntityRegistry \<Rightarrow> PlayerID" where
  "GetOwnerPlayerId netId s = (case um_find (reg_entities s) netId of None \<Rightarrow> INVALID_PLAYER
   | Some i \<Rightarrow> ei_ownerPlayerId i)"

definition IsRemote :: "EntityID \<Rightarrow> EntityRegistry \<Rightarrow> bool" where
  "IsRemote netId s = (case um_find (reg_entities s) netId of None \<Rightarrow> False | Some i \<Rightarrow> ei_isRemote i)"

section \<open>Operations as a datatype, for runs\<close>

datatype reg_op =
    OpRegister u64 EntityType PlayerID
  | OpRegisterRemote EntityID EntityType PlayerID Vec3
  | OpSetGameObject EntityID u64
  | OpUpdatePosition EntityID Vec3
  | OpUpdateRotation EntityID Quat
  | OpUpdateOwner EntityID PlayerID
  | OpUpdateEquipment EntityID i32 u32
  | OpUpdateLimbHealth EntityID "f32 list"
  | OpUpdateStatusEffect EntityID u8 bool
  | OpSetDirtyFlags EntityID u16
  | OpClearDirtyFlags EntityID u16
  | OpRemap EntityID EntityID
  | OpUnregister EntityID
  | OpRemoveZone ZoneCoord
  | OpClearRemote
  | OpClear

fun reg_apply :: "reg_op \<Rightarrow> EntityRegistry \<Rightarrow> EntityRegistry" where
  "reg_apply (OpRegister p ty owner) s = snd (Register p ty owner s)"
| "reg_apply (OpRegisterRemote i ty owner pos) s = RegisterRemote i ty owner pos s"
| "reg_apply (OpSetGameObject i p) s = SetGameObject i p s"
| "reg_apply (OpUpdatePosition i pos) s = UpdatePosition i pos s"
| "reg_apply (OpUpdateRotation i rot) s = UpdateRotation i rot s"
| "reg_apply (OpUpdateOwner i owner) s = UpdateOwner i owner s"
| "reg_apply (OpUpdateEquipment i slot item) s = UpdateEquipment i slot item s"
| "reg_apply (OpUpdateLimbHealth i hs) s = UpdateLimbHealth i hs s"
| "reg_apply (OpUpdateStatusEffect i e a) s = UpdateStatusEffect i e a s"
| "reg_apply (OpSetDirtyFlags i fl) s = SetDirtyFlags i fl s"
| "reg_apply (OpClearDirtyFlags i fl) s = ClearDirtyFlags i fl s"
| "reg_apply (OpRemap i j) s = snd (RemapEntityId i j s)"
| "reg_apply (OpUnregister i) s = Unregister i s"
| "reg_apply (OpRemoveZone z) s = RemoveEntitiesInZone z s"
| "reg_apply OpClearRemote s = snd (ClearRemoteEntities s)"
| "reg_apply OpClear s = Registry_Clear s"

text \<open>
  What callers have to respect: the id counter must not wrap, a game object is not linked to a
  second entity, objects are registered with a pointer that is not null, limb arrays have seven
  elements.
\<close>

fun reg_pre :: "reg_op \<Rightarrow> EntityRegistry \<Rightarrow> bool" where
  "reg_pre (OpRegister p ty owner) s \<longleftrightarrow> p \<noteq> 0 \<and> reg_nextId s \<noteq> 0xFFFFFFFF"
| "reg_pre (OpRegisterRemote i ty owner pos) s \<longleftrightarrow> i \<noteq> 0xFFFFFFFF"
| "reg_pre (OpSetGameObject i p) s \<longleftrightarrow> um_find (reg_ptrToId s) p = None \<or> um_find (reg_ptrToId s) p = Some i"
| "reg_pre (OpRemap i j) s \<longleftrightarrow> j \<noteq> 0xFFFFFFFF"
| "reg_pre (OpUpdateLimbHealth i hs) s \<longleftrightarrow> length hs = 7"
| "reg_pre _ s \<longleftrightarrow> True"

section \<open>The invariant\<close>

definition info_ok :: "EntityID \<Rightarrow> EntityInfo \<Rightarrow> bool" where
  "info_ok k i \<longleftrightarrow> ei_netId i = k \<and> ei_zone i = FromWorldPos (ei_lastPosition i) KMP_ZONE_SIZE \<and>
     length (ei_limbs i) = 7 \<and> length (ei_statusEffects i) = 5 \<and> length (ei_lastEquipment i) = 14 \<and>
     \<not> bad_pointer (ei_gameObject i)"

text \<open>The objects of the entities and the inverse table agree.\<close>

definition linked :: "(EntityID \<rightharpoonup> EntityInfo) \<Rightarrow> (u64 \<rightharpoonup> EntityID) \<Rightarrow> bool" where
  "linked es ps \<longleftrightarrow> (\<forall>p k. p \<noteq> 0 \<longrightarrow> (ps p = Some k \<longleftrightarrow> (\<exists>i. es k = Some i \<and> ei_gameObject i = p))) \<and> ps 0 = None"

definition reg_inv :: "EntityRegistry \<Rightarrow> bool" where
  "reg_inv s \<longleftrightarrow> um_wf (reg_entities s) \<and> um_wf (reg_ptrToId s) \<and>
     (\<forall>k i. um_find (reg_entities s) k = Some i \<longrightarrow> info_ok k i \<and> k < reg_nextId s) \<and>
     linked (um_find (reg_entities s)) (um_find (reg_ptrToId s))"

lemma reg_invD:
  assumes "reg_inv s" "um_find (reg_entities s) k = Some i"
  shows "info_ok k i" "k < reg_nextId s"
  using assms by (simp_all add: reg_inv_def)

lemma linkedD: "linked es ps \<Longrightarrow> p \<noteq> 0 \<Longrightarrow> ps p = Some k \<longleftrightarrow> (\<exists>i. es k = Some i \<and> ei_gameObject i = p)"
  by (simp add: linked_def)

lemma linked_null: "linked es ps \<Longrightarrow> ps 0 = None"
  by (simp add: linked_def)

lemma linked_same: "linked es ps \<Longrightarrow> map_option ei_gameObject \<circ> es' = map_option ei_gameObject \<circ> es \<Longrightarrow> linked es' ps"
proof -
  assume l: "linked es ps" and e: "map_option ei_gameObject \<circ> es' = map_option ei_gameObject \<circ> es"
  have "(\<exists>i. es' k = Some i \<and> ei_gameObject i = p) \<longleftrightarrow> (\<exists>i. es k = Some i \<and> ei_gameObject i = p)" for k p
    using fun_cong [OF e, of k] by (cases "es k"; cases "es' k") auto
  with l show ?thesis by (simp add: linked_def)
qed

lemma modify_info_inv:
  assumes "reg_inv s" "\<And>i. info_ok k i \<Longrightarrow> info_ok k (f i) \<and> ei_gameObject (f i) = ei_gameObject i"
  shows "reg_inv (modify_info k f s)"
proof -
  have m: "um_find (um_modify k f (reg_entities s)) j = (if j = k then map_option f (um_find (reg_entities s) k) else um_find (reg_entities s) j)" for j
    by (simp add: um_find_modify)
  have "linked (um_find (um_modify k f (reg_entities s))) (um_find (reg_ptrToId s))"
  proof (rule linked_same)
    show "linked (um_find (reg_entities s)) (um_find (reg_ptrToId s))" using assms(1) by (simp add: reg_inv_def)
    show "map_option ei_gameObject \<circ> um_find (um_modify k f (reg_entities s)) = map_option ei_gameObject \<circ> um_find (reg_entities s)"
      using reg_invD(1) [OF assms(1)] assms(2) by (auto simp: m fun_eq_iff option.map_comp intro!: option.map_cong0)
  qed
  then show ?thesis using assms(1) reg_invD [OF assms(1)] assms(2)
    by (auto simp: reg_inv_def modify_info_def m split: if_splits)
qed

text \<open>Every operation is built from removing an entity and its link, and adding one with its link.\<close>

lemma linked_inj: "linked es ps \<Longrightarrow> es k = Some i \<Longrightarrow> es j = Some i' \<Longrightarrow> ei_gameObject i' = ei_gameObject i \<Longrightarrow>
    ei_gameObject i \<noteq> 0 \<Longrightarrow> j = k"
  by (metis linkedD option.inject)

lemma linked_unlink:
  assumes l: "linked es ps" and k: "es k = Some i"
  shows "linked (es(k := None)) (if ei_gameObject i \<noteq> 0 then ps(ei_gameObject i := None) else ps)"
proof (cases "ei_gameObject i = 0")
  case True
  then have "(\<exists>i'. (es(k := None)) j = Some i' \<and> ei_gameObject i' = p) \<longleftrightarrow> (\<exists>i'. es j = Some i' \<and> ei_gameObject i' = p)"
    if "p \<noteq> 0" for j p using k that by auto
  with l True show ?thesis by (simp add: linked_def)
next
  case False
  have "(ps(ei_gameObject i := None)) p = Some j \<longleftrightarrow> (\<exists>i'. (es(k := None)) j = Some i' \<and> ei_gameObject i' = p)"
    if p: "p \<noteq> 0" for j p
  proof (cases "p = ei_gameObject i")
    case True
    then show ?thesis using linked_inj [OF l k _ _ False, of j] by (metis fun_upd_apply option.distinct(1))
  next
    case ne: False
    then show ?thesis using linkedD [OF l p, of j] k by (cases "j = k") simp_all
  qed
  with l False show ?thesis by (simp add: linked_def)
qed

lemma linked_link:
  assumes "linked es ps" "es k = None" "ei_gameObject i \<noteq> 0 \<Longrightarrow> ps (ei_gameObject i) = None"
  shows "linked (es(k \<mapsto> i)) (if ei_gameObject i \<noteq> 0 then ps(ei_gameObject i \<mapsto> k) else ps)"
proof -
  have "es j \<noteq> Some i'" if "ei_gameObject i' = ei_gameObject i" "ei_gameObject i \<noteq> 0" for j i'
    using linkedD [OF assms(1) that(2), of j] assms(3) that by auto
  with assms show ?thesis by (auto simp: linked_def)
qed

lemma reg_inv_linked: "reg_inv s \<Longrightarrow> linked (um_find (reg_entities s)) (um_find (reg_ptrToId s))"
  by (simp add: reg_inv_def)

text \<open>Installing one entry in both tables.\<close>

lemma reg_inv_replace:
  assumes "reg_inv s" "info_ok k i" "k < reg_nextId s'" "reg_nextId s \<le> reg_nextId s'"
    and "um_wf (reg_entities s')" "um_wf (reg_ptrToId s')"
    and "um_find (reg_entities s') = es(k \<mapsto> i)" "\<And>j i'. es j = Some i' \<Longrightarrow> um_find (reg_entities s) j = Some i'"
    and "linked (um_find (reg_entities s')) (um_find (reg_ptrToId s'))"
  shows "reg_inv s'"
  using assms reg_invD [OF assms(1)]
  by (auto simp: reg_inv_def split: if_splits intro: order.strict_trans2 [of _ "reg_nextId s"])

lemma local_info_ok: "\<not> bad_pointer p \<Longrightarrow> info_ok k (local_info k p ty owner)"
  by (simp add: info_ok_def local_info_def EntityInfo_default_def FromWorldPos_origin)

lemma remote_info_ok: "info_ok k (remote_info k ty owner pos)"
  by (simp add: info_ok_def remote_info_def EntityInfo_default_def bad_pointer_def)

lemma u32_succ_gt: "(k :: u32) \<noteq> 0xFFFFFFFF \<Longrightarrow> k < k + 1"
proof -
  assume "k \<noteq> 0xFFFFFFFF"
  then have "unat k \<noteq> 4294967295" using word_unat_eq_iff [of k "0xFFFFFFFF"] by simp
  then have "unat k + 1 < 4294967296" using unsigned_less [where ?'a = nat, of k] by simp
  then show ?thesis by (simp add: word_less_nat_alt unat_word_ariths)
qed

lemma Register_inv:
  assumes "reg_inv s" "p \<noteq> 0" "reg_nextId s \<noteq> 0xFFFFFFFF"
  shows "reg_inv (snd (Register p ty owner s))"
proof (cases "bad_pointer p \<or> um_find (reg_ptrToId s) p \<noteq> None")
  case True
  with assms show ?thesis by (auto simp: Register_def)
next
  case False
  let ?k = "reg_nextId s" and ?i = "local_info (reg_nextId s) p ty owner"
  have fresh: "um_find (reg_entities s) ?k = None"
    using reg_invD(2) [OF assms(1), of ?k] by (cases "um_find (reg_entities s) ?k") auto
  have o: "ei_gameObject ?i = p" by (simp add: local_info_def)
  have lt: "?k < ?k + 1" using assms(3) by (rule u32_succ_gt)
  have eq: "snd (Register p ty owner s) = s\<lparr>reg_nextId := ?k + 1, reg_entities := um_set ?k ?i (reg_entities s),
      reg_ptrToId := um_set p ?k (reg_ptrToId s)\<rparr>"
    using False by (auto simp: Register_def Let_def)
  show ?thesis unfolding eq
    using assms(1) False lt linked_link [OF reg_inv_linked [OF assms(1)] fresh, of ?i] assms(2)
    by (intro reg_inv_replace [OF assms(1), where k = ?k and i = ?i and es = "um_find (reg_entities s)"])
      (auto simp: local_info_ok um_find_set o reg_inv_def)
qed

lemma RegisterRemote_inv:
  assumes "reg_inv s" "k \<noteq> 0xFFFFFFFF"
  shows "reg_inv (RegisterRemote k ty owner pos s)"
proof (cases "um_find (reg_entities s) k")
  case (Some i)
  with assms show ?thesis by (simp add: RegisterRemote_def)
next
  case None
  let ?i = "remote_info k ty owner pos"
  have o: "ei_gameObject ?i = 0" by (simp add: remote_info_def)
  have lt: "k < max (reg_nextId s) (k + 1)" using u32_succ_gt [OF assms(2)] by (simp add: less_max_iff_disj)
  have eq: "RegisterRemote k ty owner pos s = s\<lparr>reg_entities := um_set k ?i (reg_entities s),
      reg_nextId := max (reg_nextId s) (k + 1)\<rparr>"
    using None by (simp add: RegisterRemote_def)
  show ?thesis unfolding eq
    using assms(1) lt linked_link [OF reg_inv_linked [OF assms(1)] None, of ?i]
    by (intro reg_inv_replace [OF assms(1), where k = k and i = ?i and es = "um_find (reg_entities s)"])
      (auto simp: remote_info_ok um_find_set o reg_inv_def)
qed

lemma Unregister_inv:
  assumes "reg_inv s" shows "reg_inv (Unregister k s)"
proof (cases "um_find (reg_entities s) k")
  case (Some i)
  show ?thesis using assms linked_unlink [OF reg_inv_linked [OF assms] Some] Some
    by (auto simp: Unregister_def reg_inv_def um_find_erase split: if_splits)
qed (use assms in \<open>simp add: Unregister_def\<close>)

lemma fold_Unregister_inv: "reg_inv s \<Longrightarrow> reg_inv (fold Unregister ks s)"
  by (induction ks arbitrary: s) (auto simp: Unregister_inv)

lemma link_info_ok: "info_ok k i \<Longrightarrow> \<not> bad_pointer p \<Longrightarrow> info_ok k (link_info p i)"
  by (simp add: info_ok_def link_info_def Let_def)

lemma link_info_object [simp]: "ei_gameObject (link_info p i) = p"
  by (simp add: link_info_def Let_def)

lemma SetGameObject_inv:
  assumes inv: "reg_inv s" and free: "um_find (reg_ptrToId s) p = None \<or> um_find (reg_ptrToId s) p = Some k"
  shows "reg_inv (SetGameObject k p s)"
proof (cases "um_find (reg_entities s) k")
  case (Some i)
  let ?p = "if bad_pointer p then 0 else p" and ?es = "um_find (reg_entities s)" and ?ps = "um_find (reg_ptrToId s)"
  let ?ps1 = "if ei_gameObject i \<noteq> 0 then ?ps(ei_gameObject i := None) else ?ps"
  have np: "\<not> bad_pointer ?p" by (simp add: bad_pointer_def)
  have free1: "?ps1 ?p = None" if "?p \<noteq> 0"
    using that free linkedD [OF reg_inv_linked [OF inv] that, of k] Some by (auto split: if_splits)
  have "linked ((?es(k := None))(k \<mapsto> link_info ?p i)) (if ?p \<noteq> 0 then ?ps1(?p \<mapsto> k) else ?ps1)"
    by (rule linked_link [OF linked_unlink [OF reg_inv_linked [OF inv] Some], of k "link_info ?p i", unfolded link_info_object])
      (simp, rule free1)
  then have l: "linked (?es(k \<mapsto> link_info ?p i)) (if ?p \<noteq> 0 then ?ps1(?p \<mapsto> k) else ?ps1)" by simp
  show ?thesis
  proof (rule reg_inv_replace [OF inv, where k = k and i = "link_info ?p i" and es = "um_find (reg_entities s)"])
    show "info_ok k (link_info ?p i)" by (rule link_info_ok [OF reg_invD(1) [OF inv Some] np])
    show "linked (um_find (reg_entities (SetGameObject k p s))) (um_find (reg_ptrToId (SetGameObject k p s)))"
      using l Some by (simp add: SetGameObject_def modify_info_def um_find_modify um_find_set um_find_erase Let_def split: if_splits)
  qed (use inv Some reg_invD(2) [OF inv Some] in
      \<open>simp_all add: SetGameObject_def modify_info_def reg_inv_def um_find_modify Let_def\<close>)
qed (use inv in \<open>simp add: SetGameObject_def\<close>)

lemma Remap_inv:
  assumes inv: "reg_inv s" and new: "new \<noteq> 0xFFFFFFFF"
  shows "reg_inv (snd (RemapEntityId old new s))"
proof (cases "um_find (reg_entities s) old = None \<or> um_find (reg_entities s) new \<noteq> None")
  case True
  with inv show ?thesis by (auto simp: RemapEntityId_def split: option.splits)
next
  case False
  then obtain i where i: "um_find (reg_entities s) old = Some i" and n: "um_find (reg_entities s) new = None" by auto
  let ?i = "i\<lparr>ei_netId := new\<rparr>" and ?es = "um_find (reg_entities s)" and ?ps = "um_find (reg_ptrToId s)"
  have lt: "new < max (reg_nextId s) (new + 1)" using u32_succ_gt [OF assms(2)] by (simp add: less_max_iff_disj)
  have ok: "info_ok new ?i" using reg_invD(1) [OF inv i] by (simp add: info_ok_def)
  have o: "ei_gameObject ?i = ei_gameObject i" by simp
  have "linked ((?es(old := None))(new \<mapsto> ?i)) (if ei_gameObject i \<noteq> 0 then ?ps(ei_gameObject i \<mapsto> new) else ?ps)"
    using linked_link [OF linked_unlink [OF reg_inv_linked [OF inv] i], of new ?i, unfolded o] n
    by (cases "ei_gameObject i = 0") simp_all
  then show ?thesis using inv lt ok i n
    by (intro reg_inv_replace [OF inv, where k = new and i = ?i and es = "?es(old := None)"])
      (auto simp: RemapEntityId_def Let_def um_find_set um_find_erase reg_inv_def split: if_splits)
qed

lemmas reg_modify_defs = UpdatePosition_def UpdateRotation_def UpdateOwner_def UpdateEquipment_def UpdateLimbHealth_def
  UpdateStatusEffect_def SetDirtyFlags_def ClearDirtyFlags_def

lemma reg_step: "reg_inv s \<Longrightarrow> reg_pre x s \<Longrightarrow> reg_inv (reg_apply x s)"
  by (cases x) (auto simp: Register_inv RegisterRemote_inv SetGameObject_inv Remap_inv Unregister_inv
      RemoveEntitiesInZone_def ClearRemoteEntities_def fold_Unregister_inv reg_modify_defs info_ok_def
      intro!: modify_info_inv, simp_all add: Registry_Clear_def reg_inv_def linked_def)

interpretation registry: run_invariant reg_apply reg_pre reg_inv
  by unfold_locales (rule reg_step)

lemma EntityRegistry_new_inv: "reg_inv EntityRegistry_new"
  by (simp add: reg_inv_def EntityRegistry_new_def linked_def)

section \<open>Properties\<close>

lemma GetNetId_iff:
  assumes "reg_inv s" "p \<noteq> 0" "k \<noteq> INVALID_ENTITY"
  shows "GetNetId p s = k \<longleftrightarrow> GetGameObject k s = p"
proof -
  have l: "um_find (reg_ptrToId s) p = Some k \<longleftrightarrow> (\<exists>i. um_find (reg_entities s) k = Some i \<and> ei_gameObject i = p)"
    using linkedD [OF reg_inv_linked [OF assms(1)] assms(2)] .
  have "GetNetId p s = k \<longleftrightarrow> um_find (reg_ptrToId s) p = Some k"
    using assms(3) by (auto simp: GetNetId_def split: option.splits)
  also have "\<dots> \<longleftrightarrow> GetGameObject k s = p" unfolding l
    using assms(2) by (auto simp: GetGameObject_def split: option.splits)
  finally show ?thesis .
qed

text \<open>
  After any sequence of registrations, links, remaps, updates and removals that respects \<open>reg_pre\<close>,
  \<^verbatim>\<open>GetNetId\<close> and \<^verbatim>\<open>GetGameObject\<close> are inverse to each other on valid ids and non-null objects, every
  entry knows its own id, lies in the zone of its position and was handed out by the counter.
\<close>

theorem registry_links_inverse:
  assumes "run_ok reg_pre reg_apply ops EntityRegistry_new"
  defines "s \<equiv> fold reg_apply ops EntityRegistry_new"
  shows "(\<forall>p k. p \<noteq> 0 \<longrightarrow> k \<noteq> INVALID_ENTITY \<longrightarrow> (GetNetId p s = k \<longleftrightarrow> GetGameObject k s = p)) \<and>
    (\<forall>k i. GetInfo k s = Some i \<longrightarrow> ei_netId i = k \<and> ei_zone i = FromWorldPos (ei_lastPosition i) KMP_ZONE_SIZE \<and>
       length (ei_limbs i) = 7 \<and> k < reg_nextId s)"
proof -
  have inv: "reg_inv s" unfolding s_def by (rule registry.run [OF EntityRegistry_new_inv assms(1)])
  then show ?thesis
    using GetNetId_iff [OF inv] reg_invD [OF inv] by (auto simp: GetInfo_def info_ok_def)
qed

definition example_links :: "reg_op list" where
  "example_links = [OpRegister 0x20000 NPC 1, OpRegisterRemote 7 NPC 2 Vec3_default, OpSetGameObject 7 0x30000,
     OpRemap 0x10000000 9, OpUpdateOwner 9 2]"

theorem registry_links_inverse_witness:
  "GetNetId 0x20000 (fold reg_apply example_links EntityRegistry_new) = 9 \<and>
   GetGameObject 9 (fold reg_apply example_links EntityRegistry_new) = 0x20000"
proof -
  have ok: "run_ok reg_pre reg_apply example_links EntityRegistry_new"
    by (simp add: example_links_def EntityRegistry_new_def Register_def RegisterRemote_def SetGameObject_def
        RemapEntityId_def modify_info_def bad_pointer_def um_set_def um_erase_def um_modify_def local_info_def
        remote_info_def link_info_def Let_def)
  have "GetNetId 0x20000 (fold reg_apply example_links EntityRegistry_new) = 9"
    by (simp add: example_links_def EntityRegistry_new_def Register_def RegisterRemote_def SetGameObject_def
        RemapEntityId_def modify_info_def bad_pointer_def um_set_def um_erase_def um_modify_def local_info_def
        remote_info_def link_info_def Let_def GetNetId_def UpdateOwner_def)
  with registry_links_inverse [OF ok] show ?thesis by (simp add: INVALID_ENTITY_def)
qed

text \<open>
  \<^verbatim>\<open>RemapEntityId\<close> succeeds exactly when the old id is known and the new one is free; it then moves that
  one entity, keeping its object and all of its state but the id, and leaves every other entity alone.
\<close>

theorem remap_moves_one:
  fixes old new :: EntityID and s :: EntityRegistry
  defines "r \<equiv> RemapEntityId old new s"
  shows "(fst r \<longleftrightarrow> GetInfo old s \<noteq> None \<and> GetInfo new s = None) \<and> (\<not> fst r \<longrightarrow> snd r = s) \<and>
    (fst r \<longrightarrow>
      (\<forall>k. GetInfo k (snd r) = (if k = new then map_option (\<lambda>i. i\<lparr>ei_netId := new\<rparr>) (GetInfo old s)
         else if k = old then None else GetInfo k s)) \<and>
      (\<forall>p. p \<noteq> 0 \<longrightarrow> GetNetId p (snd r) = (if GetGameObject old s = p then new else GetNetId p s)))"
  by (auto simp: r_def RemapEntityId_def GetInfo_def GetNetId_def GetGameObject_def um_find_set um_find_erase Let_def split: option.splits)

theorem remap_moves_one_witness:
  "GetInfo 9 (snd (RemapEntityId 0x10000000 9 (snd (Register 0x20000 NPC 1 EntityRegistry_new)))) =
     Some ((local_info 0x10000000 0x20000 NPC 1)\<lparr>ei_netId := 9\<rparr>)"
proof -
  let ?s = "snd (Register 0x20000 NPC 1 EntityRegistry_new)"
  have s: "?s = \<lparr>reg_entities = [(0x10000000, local_info 0x10000000 0x20000 NPC 1)], reg_ptrToId = [(0x20000, 0x10000000)],
      reg_nextId = 0x10000001\<rparr>"
    by (simp add: EntityRegistry_new_def Register_def bad_pointer_def um_set_def Let_def)
  have i: "GetInfo 0x10000000 ?s = Some (local_info 0x10000000 0x20000 NPC 1)" "GetInfo 9 ?s = None"
    by (simp_all add: s GetInfo_def)
  then have "fst (RemapEntityId 0x10000000 9 ?s)" using remap_moves_one [of "0x10000000" 9 ?s] by simp
  with remap_moves_one [of "0x10000000" 9 ?s] i show ?thesis by simp
qed

text \<open>
  \<^verbatim>\<open>Register\<close> rejects a pointer outside the user address range or not four-byte aligned and changes nothing;
  an object already registered keeps its id; any other object gets an id that no entity had, under which
  \<^verbatim>\<open>GetGameObject\<close> and \<^verbatim>\<open>GetNetId\<close> find it at once, and no other entity changes.
\<close>

theorem register_is_fresh:
  fixes ty :: EntityType and owner :: PlayerID
  assumes "reg_inv s" "p \<noteq> 0"
  defines "r \<equiv> Register p ty owner s"
  shows "if bad_pointer p then r = (INVALID_ENTITY, s)
    else if um_find (reg_ptrToId s) p \<noteq> None then r = (GetNetId p s, s)
    else GetInfo (fst r) s = None \<and> GetGameObject (fst r) (snd r) = p \<and> GetNetId p (snd r) = fst r \<and>
      (\<forall>k. k \<noteq> fst r \<longrightarrow> GetInfo k (snd r) = GetInfo k s)"
proof -
  have "um_find (reg_entities s) (reg_nextId s) = None"
    using reg_invD(2) [OF assms(1), of "reg_nextId s"] by (cases "um_find (reg_entities s) (reg_nextId s)") auto
  then show ?thesis
    by (auto simp: r_def Register_def GetGameObject_def GetNetId_def GetInfo_def um_find_set local_info_def Let_def)
qed

theorem register_is_fresh_witness:
  "Register 0x20001 NPC 1 EntityRegistry_new = (INVALID_ENTITY, EntityRegistry_new) \<and>
   GetNetId 0x20000 (snd (Register 0x20000 NPC 1 EntityRegistry_new)) = fst (Register 0x20000 NPC 1 EntityRegistry_new)"
  using register_is_fresh [OF EntityRegistry_new_inv, of "0x20001" NPC 1]
    register_is_fresh [OF EntityRegistry_new_inv, of "0x20000" NPC 1]
  by (simp add: bad_pointer_def EntityRegistry_new_def)

text \<open>
  The condition of \<^verbatim>\<open>SetGameObject\<close> in \<open>reg_pre\<close> matters: linking an object that another entity holds and then
  dropping that entity leaves the object without an id although the new entity still points to it.
\<close>

theorem double_link_loses_id:
  "let s = Unregister 7 (SetGameObject 8 0x30000 (SetGameObject 7 0x30000
             (RegisterRemote 8 NPC 2 Vec3_default (RegisterRemote 7 NPC 2 Vec3_default EntityRegistry_new))))
   in GetGameObject 8 s = 0x30000 \<and> GetNetId 0x30000 s = INVALID_ENTITY"
  by (simp add: EntityRegistry_new_def RegisterRemote_def SetGameObject_def Unregister_def modify_info_def bad_pointer_def
      um_set_def um_erase_def um_modify_def remote_info_def link_info_def Let_def GetNetId_def GetGameObject_def)

text \<open>A null object slips through \<^verbatim>\<open>Register\<close> once, and \<^verbatim>\<open>Unregister\<close> does not take its entry out of the inverse table.\<close>

theorem null_object_stays:
  "let s = Unregister 0x10000000 (snd (Register 0 NPC 1 EntityRegistry_new))
   in GetInfo 0x10000000 s = None \<and> GetNetId 0 s = 0x10000000 \<and> fst (Register 0 NPC 2 s) = 0x10000000"
  by (simp add: EntityRegistry_new_def Register_def Unregister_def bad_pointer_def um_set_def um_erase_def
      local_info_def Let_def GetNetId_def GetInfo_def)

end
