(* ===== verification/Zone_Engine.thy ===== *)
theory Zone_Engine
  imports Entity_Registry Session_Properties
begin

text \<open>
  \<^verbatim>\<open>KenshiMP.Core/sync/zone_engine.h\<close> and \<^verbatim>\<open>.cpp\<close>: which zone the local player is in, which entities and
  which players are in which zone.  What the callbacks receive is returned: the transitions and the
  packets with their channel and reliability.  The lemmas show that the two player tables are inverse to
  each other, that the entity cache agrees with the registry, and that a zone change makes the server send
  the entities around the new zone.
\<close>

section \<open>State\<close>

datatype transition_type = Enter | Leave

record ZoneTransition =
  zt_type :: transition_type
  zt_zone :: ZoneCoord
  zt_entityId :: EntityID
  zt_playerId :: PlayerID

record ZoneEngine =
  ze_localZone :: ZoneCoord
  ze_prevLocalZone :: ZoneCoord
  ze_zoneEntities :: "(u64, EntityID list) umap"
  ze_playerZones :: "(PlayerID, ZoneCoord) umap"
  ze_zonePlayers :: "(u64, PlayerID list) umap"
  ze_transitionCb :: bool
  ze_sendFn :: bool

type_synonym client_packet = "bytes \<times> nat \<times> bool"

definition ZoneEngine_new :: ZoneEngine where
  "ZoneEngine_new = \<lparr>ze_localZone = ZoneCoord_new 0 0, ze_prevLocalZone = ZoneCoord_new 0 0, ze_zoneEntities = [], ze_playerZones = [],
     ze_zonePlayers = [], ze_transitionCb = False, ze_sendFn = False\<rparr>"

definition ZoneKey :: "ZoneCoord \<Rightarrow> u64" where
  "ZoneKey z = push_bit 32 (ucast (zx z)) OR ucast (zy z)"

section \<open>The local player\<close>

definition NotifyZoneChange :: "ZoneEngine \<Rightarrow> client_packet list" where
  "NotifyZoneChange s = (if \<not> ze_sendFn s then []
     else [(packet [hdr C2S_ZoneRequest, WriteI32 (zx (ze_localZone s)), WriteI32 (zy (ze_localZone s))],
            KMP_CHANNEL_RELIABLE_ORDERED, True)])"

definition UpdateLocalPlayerZone :: "Vec3 \<Rightarrow> ZoneEngine \<Rightarrow> bool \<times> ZoneTransition list \<times> client_packet list \<times> ZoneEngine" where
  "UpdateLocalPlayerZone position s = (let newZone = FromWorldPos position KMP_ZONE_SIZE in
     if newZone = ze_localZone s then (False, [], [], s)
     else let s1 = s\<lparr>ze_prevLocalZone := ze_localZone s, ze_localZone := newZone\<rparr>;
              events = (if ze_transitionCb s1
                then [\<lparr>zt_type = Leave, zt_zone = ze_prevLocalZone s1, zt_entityId = INVALID_ENTITY, zt_playerId = INVALID_PLAYER\<rparr>,
                      \<lparr>zt_type = Enter, zt_zone = ze_localZone s1, zt_entityId = INVALID_ENTITY, zt_playerId = INVALID_PLAYER\<rparr>]
                else [])
          in (True, events, NotifyZoneChange s1, s1))"

definition interest_offsets :: "i32 list" where
  "interest_offsets = [-1, 0, 1]"

definition GetInterestZones :: "ZoneEngine \<Rightarrow> ZoneCoord list" where
  "GetInterestZones s = concat (map (\<lambda>dx. map (\<lambda>dy. ZoneCoord_new (zx (ze_localZone s) + dx) (zy (ze_localZone s) + dy))
     interest_offsets) interest_offsets)"

section \<open>The entity cache\<close>

definition index_zone :: "EntityRegistry \<Rightarrow> ZoneCoord \<Rightarrow> (u64, EntityID list) umap \<Rightarrow> (u64, EntityID list) umap" where
  "index_zone reg zone m = (let entities = GetEntitiesInZone zone reg in
     if entities \<noteq> [] then um_set (ZoneKey zone) entities m else m)"

definition RebuildZoneIndex :: "EntityRegistry \<Rightarrow> ZoneEngine \<Rightarrow> ZoneEngine" where
  "RebuildZoneIndex reg s = s\<lparr>ze_zoneEntities := fold (index_zone reg) (GetInterestZones s) []\<rparr>"

definition ZoneEngine_GetEntitiesInZone :: "ZoneCoord \<Rightarrow> ZoneEngine \<Rightarrow> EntityID list" where
  "ZoneEngine_GetEntitiesInZone zone s = (case um_find (ze_zoneEntities s) (ZoneKey zone) of Some es \<Rightarrow> es | None \<Rightarrow> [])"

definition key_zone :: "u64 \<Rightarrow> ZoneCoord" where
  "key_zone key = ZoneCoord_new (ucast (drop_bit 32 key)) (ucast (key AND 0xFFFFFFFF))"

definition GetPopulatedZones :: "ZoneEngine \<Rightarrow> ZoneCoord list" where
  "GetPopulatedZones s = map (\<lambda>(key, es). key_zone key) (filter (\<lambda>(key, es). es \<noteq> []) (ze_zoneEntities s))"

definition ZoneEngine_GetZonePopulation :: "ZoneCoord \<Rightarrow> ZoneEngine \<Rightarrow> nat" where
  "ZoneEngine_GetZonePopulation zone s = (case um_find (ze_zoneEntities s) (ZoneKey zone) of Some es \<Rightarrow> length es | None \<Rightarrow> 0)"

section \<open>The player tables\<close>

definition list_at :: "u64 \<Rightarrow> (u64, PlayerID list) umap \<Rightarrow> PlayerID list" where
  "list_at key m = (case um_find m key of Some ps \<Rightarrow> ps | None \<Rightarrow> [])"

text \<open>\<^verbatim>\<open>erase(remove(\<dots>))\<close> on a zone's list, dropping the entry when the list becomes empty.\<close>

definition leave_zone :: "u64 \<Rightarrow> PlayerID \<Rightarrow> (u64, PlayerID list) umap \<Rightarrow> (u64, PlayerID list) umap" where
  "leave_zone key pid m = (let ps = removeAll pid (list_at key m) in
     if ps = [] then um_erase key m else um_set key ps m)"

definition enter_zone :: "u64 \<Rightarrow> PlayerID \<Rightarrow> (u64, PlayerID list) umap \<Rightarrow> (u64, PlayerID list) umap" where
  "enter_zone key pid m = um_set key (list_at key m @ [pid]) m"

definition UpdatePlayerZone :: "PlayerID \<Rightarrow> ZoneCoord \<Rightarrow> ZoneEngine \<Rightarrow> ZoneEngine" where
  "UpdatePlayerZone playerId zone s = (case um_find (ze_playerZones s) playerId of
     None \<Rightarrow> s\<lparr>ze_playerZones := um_set playerId zone (ze_playerZones s),
               ze_zonePlayers := enter_zone (ZoneKey zone) playerId (ze_zonePlayers s)\<rparr>
   | Some oldZone \<Rightarrow> if oldZone = zone then s
       else s\<lparr>ze_playerZones := um_set playerId zone (ze_playerZones s),
              ze_zonePlayers := enter_zone (ZoneKey zone) playerId (leave_zone (ZoneKey oldZone) playerId (ze_zonePlayers s))\<rparr>)"

definition GetPlayersInZone :: "ZoneCoord \<Rightarrow> ZoneEngine \<Rightarrow> PlayerID list" where
  "GetPlayersInZone zone s = list_at (ZoneKey zone) (ze_zonePlayers s)"

definition GetPlayerZone :: "PlayerID \<Rightarrow> ZoneEngine \<Rightarrow> ZoneCoord" where
  "GetPlayerZone playerId s = (case um_find (ze_playerZones s) playerId of Some z \<Rightarrow> z | None \<Rightarrow> ZoneCoord_new 0 0)"

definition ZoneEngine_RemovePlayer :: "PlayerID \<Rightarrow> ZoneEngine \<Rightarrow> ZoneEngine" where
  "ZoneEngine_RemovePlayer playerId s = (case um_find (ze_playerZones s) playerId of
     None \<Rightarrow> s
   | Some z \<Rightarrow> s\<lparr>ze_zonePlayers := leave_zone (ZoneKey z) playerId (ze_zonePlayers s),
                 ze_playerZones := um_erase playerId (ze_playerZones s)\<rparr>)"

section \<open>Interest queries\<close>

definition IsInRange :: "ZoneCoord \<Rightarrow> ZoneEngine \<Rightarrow> bool" where
  "IsInRange entityZone s = IsAdjacent (ze_localZone s) entityZone"

definition ShouldSync :: "EntityID \<Rightarrow> EntityRegistry \<Rightarrow> ZoneEngine \<Rightarrow> bool" where
  "ShouldSync entityId reg s = (case GetInfo entityId reg of None \<Rightarrow> False | Some i \<Rightarrow> IsAdjacent (ze_localZone s) (ei_zone i))"

definition ZoneEngine_Reset :: "ZoneEngine \<Rightarrow> ZoneEngine" where
  "ZoneEngine_Reset s = s\<lparr>ze_localZone := ZoneCoord_new 0 0, ze_prevLocalZone := ZoneCoord_new 0 0, ze_zoneEntities := [],
     ze_playerZones := [], ze_zonePlayers := []\<rparr>"

section \<open>Keys of zones\<close>

lemma key_zone_ZoneKey: "key_zone (ZoneKey z) = z"
proof -
  have x: "ucast (drop_bit 32 (push_bit 32 (ucast a) OR ucast b :: u64)) = (a :: u32)" for a b :: u32
    by (rule bit_word_eqI) (auto simp: bit_simps dest: bit_imp_le_length)
  have y: "ucast ((push_bit 32 (ucast a) OR ucast b :: u64) AND 0xFFFFFFFF) = (b :: u32)" for a b :: u32
  proof -
    have m: "(0xFFFFFFFF :: u64) = mask 32" by (simp add: mask_eq_exp_minus_1)
    show ?thesis unfolding m by (rule bit_word_eqI) (auto simp: bit_simps dest: bit_imp_le_length)
  qed
  show ?thesis unfolding key_zone_def ZoneKey_def x y by (simp add: ZoneCoord_new_def)
qed

lemma ZoneKey_inject [simp]: "ZoneKey a = ZoneKey b \<longleftrightarrow> a = b"
  by (metis key_zone_ZoneKey)

section \<open>The player tables are inverse to each other\<close>

definition players_ok :: "(PlayerID \<rightharpoonup> ZoneCoord) \<Rightarrow> (u64, PlayerID list) umap \<Rightarrow> bool" where
  "players_ok pz m \<longleftrightarrow> (\<forall>key pid. pid \<in> set (list_at key m) \<longleftrightarrow> (\<exists>z. key = ZoneKey z \<and> pz pid = Some z)) \<and>
     (\<forall>key ps. um_find m key = Some ps \<longrightarrow> ps \<noteq> [] \<and> distinct ps)"

lemma list_at_simps [simp]:
  "list_at key [] = []" "list_at key (um_set k ps m) = (if key = k then ps else list_at key m)"
  "list_at key (um_erase k m) = (if key = k then [] else list_at key m)"
  by (simp_all add: list_at_def um_find_set um_find_erase)

lemma list_at_leave: "list_at key (leave_zone k pid m) = (if key = k then removeAll pid (list_at k m) else list_at key m)"
  by (simp add: leave_zone_def Let_def)

lemma players_ok_distinct: "players_ok pz m \<Longrightarrow> distinct (list_at key m)"
  by (auto simp: players_ok_def list_at_def split: option.splits)

lemma players_ok_leave:
  assumes "players_ok pz m" "pz pid = Some z"
  shows "players_ok (pz(pid := None)) (leave_zone (ZoneKey z) pid m)"
proof -
  have "ps \<noteq> [] \<and> distinct ps" if "um_find (leave_zone (ZoneKey z) pid m) key = Some ps" for key ps
    using that assms(1) players_ok_distinct [OF assms(1), of "ZoneKey z"]
    by (auto simp: leave_zone_def Let_def um_find_set um_find_erase players_ok_def distinct_removeAll split: if_splits)
  then show ?thesis using assms by (auto simp: players_ok_def list_at_leave split: if_splits)
qed

lemma players_ok_enter:
  assumes "players_ok pz m" "pz pid = None"
  shows "players_ok (pz(pid \<mapsto> z)) (enter_zone (ZoneKey z) pid m)"
proof -
  have "pid \<notin> set (list_at key m)" for key using assms by (auto simp: players_ok_def)
  then show ?thesis using assms players_ok_distinct [OF assms(1), of "ZoneKey z"]
    by (auto simp: players_ok_def enter_zone_def um_find_set split: if_splits)
qed

definition ze_inv :: "ZoneEngine \<Rightarrow> bool" where
  "ze_inv s \<longleftrightarrow> players_ok (um_find (ze_playerZones s)) (ze_zonePlayers s)"

lemma UpdatePlayerZone_inv:
  assumes "ze_inv s" shows "ze_inv (UpdatePlayerZone pid z s)"
proof (cases "um_find (ze_playerZones s) pid")
  case None
  then show ?thesis using assms players_ok_enter by (simp add: ze_inv_def UpdatePlayerZone_def um_find_set)
next
  case (Some z0)
  have "players_ok ((um_find (ze_playerZones s))(pid := None, pid \<mapsto> z))
      (enter_zone (ZoneKey z) pid (leave_zone (ZoneKey z0) pid (ze_zonePlayers s)))"
    using assms Some by (intro players_ok_enter players_ok_leave) (simp_all add: ze_inv_def)
  then show ?thesis using assms Some by (simp add: ze_inv_def UpdatePlayerZone_def um_find_set)
qed

lemma RemovePlayer_inv: "ze_inv s \<Longrightarrow> ze_inv (ZoneEngine_RemovePlayer pid s)"
  using players_ok_leave [of "um_find (ze_playerZones s)" "ze_zonePlayers s" pid]
  by (auto simp: ze_inv_def ZoneEngine_RemovePlayer_def um_find_erase split: option.splits)

datatype ze_op =
    OpLocalZone Vec3
  | OpRebuild EntityRegistry
  | OpPlayerZone PlayerID ZoneCoord
  | OpRemovePlayer PlayerID
  | OpReset

fun ze_apply :: "ze_op \<Rightarrow> ZoneEngine \<Rightarrow> ZoneEngine" where
  "ze_apply (OpLocalZone pos) s = snd (snd (snd (UpdateLocalPlayerZone pos s)))"
| "ze_apply (OpRebuild reg) s = RebuildZoneIndex reg s"
| "ze_apply (OpPlayerZone pid z) s = UpdatePlayerZone pid z s"
| "ze_apply (OpRemovePlayer pid) s = ZoneEngine_RemovePlayer pid s"
| "ze_apply OpReset s = ZoneEngine_Reset s"

lemma ze_inv_cong: "ze_inv s \<Longrightarrow> ze_playerZones s' = ze_playerZones s \<Longrightarrow> ze_zonePlayers s' = ze_zonePlayers s \<Longrightarrow> ze_inv s'"
  by (simp add: ze_inv_def)

lemma ze_inv_empty: "ze_playerZones s = [] \<Longrightarrow> ze_zonePlayers s = [] \<Longrightarrow> ze_inv s"
  by (simp add: ze_inv_def players_ok_def)

lemma ze_step: "ze_inv s \<Longrightarrow> ze_inv (ze_apply x s)"
proof (cases x)
  case (OpLocalZone pos)
  then show "ze_inv s \<Longrightarrow> ?thesis" by (auto simp: UpdateLocalPlayerZone_def Let_def elim: ze_inv_cong)
next
  case (OpRebuild reg)
  then show "ze_inv s \<Longrightarrow> ?thesis" by (auto simp: RebuildZoneIndex_def elim: ze_inv_cong)
qed (simp_all add: UpdatePlayerZone_inv RemovePlayer_inv ze_inv_empty ZoneEngine_Reset_def)

interpretation zone_engine: run_invariant ze_apply "\<lambda>_ _. True" ze_inv
  by unfold_locales (rule ze_step)

lemma run_ok_always: "run_ok (\<lambda>_ _. True) app ops s"
  by (induction ops arbitrary: s) simp_all

lemma ze_inv_run: "ze_inv (fold ze_apply ops ZoneEngine_new)"
  by (rule zone_engine.run [OF _ run_ok_always]) (simp add: ze_inv_empty ZoneEngine_new_def)

section \<open>Properties\<close>

text \<open>
  After any sequence of operations the players listed for a zone are exactly those whose recorded
  zone it is, without repetition.
\<close>

theorem zone_players_inverse:
  fixes ops :: "ze_op list"
  defines "s \<equiv> fold ze_apply ops ZoneEngine_new"
  shows "(pid \<in> set (GetPlayersInZone z s) \<longleftrightarrow> um_find (ze_playerZones s) pid = Some z) \<and> distinct (GetPlayersInZone z s)"
proof -
  have i: "ze_inv s" unfolding s_def by (rule ze_inv_run)
  then have "distinct (GetPlayersInZone z s)" using players_ok_distinct by (auto simp: ze_inv_def GetPlayersInZone_def)
  with i show ?thesis by (auto simp: ze_inv_def players_ok_def GetPlayersInZone_def)
qed

lemma interest_index:
  "um_find (fold (index_zone reg) zs m) (ZoneKey z) =
     (if z \<in> set zs \<and> GetEntitiesInZone z reg \<noteq> [] then Some (GetEntitiesInZone z reg) else um_find m (ZoneKey z))"
  by (induction zs arbitrary: m) (auto simp: index_zone_def Let_def um_find_set)

text \<open>
  After \<^verbatim>\<open>RebuildZoneIndex\<close> the cache gives, for each of the nine zones of interest, exactly what the
  registry gives, and nothing for any other zone; the population count is the length of that list.
\<close>

theorem zone_index_agrees:
  "ZoneEngine_GetEntitiesInZone z (RebuildZoneIndex reg s) =
     (if z \<in> set (GetInterestZones s) then GetEntitiesInZone z reg else []) \<and>
   ZoneEngine_GetZonePopulation z (RebuildZoneIndex reg s) = length (ZoneEngine_GetEntitiesInZone z (RebuildZoneIndex reg s))"
  by (simp add: RebuildZoneIndex_def ZoneEngine_GetEntitiesInZone_def ZoneEngine_GetZonePopulation_def interest_index
      split: option.splits)

lemma small_offsets:
  assumes "-1334 \<le> sint a" "sint a \<le> 1333" "-1334 \<le> sint b" "sint b \<le> 1333"
  shows "(\<exists>d \<in> set interest_offsets. b = a + d) \<longleftrightarrow> \<bar>sint a - sint b\<bar> \<le> 1"
proof -
  have p: "sint (a + 1) = sint a + 1" "sint (a - 1) = sint a - 1"
    using assms by (simp_all add: signed_take_bit_int_eq_self sint_word_ariths)
  have "(\<exists>d \<in> set interest_offsets. b = a + d) \<longleftrightarrow> sint b = sint a - 1 \<or> sint b = sint a \<or> sint b = sint a + 1"
    by (auto simp: interest_offsets_def p [symmetric] signed_word_eqI intro: signed_word_eqI)
  then show ?thesis by arith
qed

lemma interest_iff_adjacent:
  assumes "zone_small (ze_localZone s)" "zone_small z"
  shows "z \<in> set (GetInterestZones s) \<longleftrightarrow> IsAdjacent (ze_localZone s) z"
proof -
  let ?l = "ze_localZone s"
  have "z \<in> set (GetInterestZones s) \<longleftrightarrow>
      (\<exists>d \<in> set interest_offsets. zx z = zx ?l + d) \<and> (\<exists>d \<in> set interest_offsets. zy z = zy ?l + d)"
    by (cases z) (auto simp: GetInterestZones_def ZoneCoord_new_def)
  also have "\<dots> \<longleftrightarrow> IsAdjacent ?l z"
    using assms small_offsets [of "zx ?l" "zx z"] small_offsets [of "zy ?l" "zy z"]
    by (simp add: IsAdjacent_small zone_small_def)
  finally show ?thesis .
qed

text \<open>
  The two ways the client has to decide which entities matter agree: for zones that legal positions
  can have, an entity should be synchronised (\<^verbatim>\<open>ShouldSync\<close>) exactly when the rebuilt cache lists it under its zone.
\<close>

theorem should_sync_iff_cached:
  assumes "um_wf (reg_entities reg)" "GetInfo k reg = Some i" "zone_small (ze_localZone s)" "zone_small (ei_zone i)"
  shows "ShouldSync k reg s \<longleftrightarrow> k \<in> set (ZoneEngine_GetEntitiesInZone (ei_zone i) (RebuildZoneIndex reg s))"
proof -
  have m: "(k, i) \<in> set (reg_entities reg)" using assms(1,2) by (simp add: GetInfo_def um_find_Some_iff)
  then have k: "k \<in> set (GetEntitiesInZone (ei_zone i) reg)"
    by (force simp: GetEntitiesInZone_def ids_where_def)
  have "ZoneEngine_GetEntitiesInZone (ei_zone i) (RebuildZoneIndex reg s) =
      (if ei_zone i \<in> set (GetInterestZones s) then GetEntitiesInZone (ei_zone i) reg else [])"
    by (simp add: RebuildZoneIndex_def ZoneEngine_GetEntitiesInZone_def interest_index split: option.splits)
  then show ?thesis using assms(2) k interest_iff_adjacent [OF assms(3,4)] by (simp add: ShouldSync_def)
qed

theorem should_sync_iff_cached_witness:
  "let reg = RegisterRemote 7 NPC 2 Vec3_default EntityRegistry_new
   in 7 \<in> set (ZoneEngine_GetEntitiesInZone ZoneCoord_default (RebuildZoneIndex reg ZoneEngine_new))"
proof -
  let ?reg = "RegisterRemote 7 NPC 2 Vec3_default EntityRegistry_new"
  have r: "reg_entities ?reg = [(7, remote_info 7 NPC 2 Vec3_default)]"
    by (simp add: RegisterRemote_def EntityRegistry_new_def um_set_def)
  have z: "ei_zone (remote_info 7 NPC 2 Vec3_default) = ZoneCoord_default" by (simp add: remote_info_def FromWorldPos_origin)
  have "um_wf (reg_entities ?reg)" "GetInfo 7 ?reg = Some (remote_info 7 NPC 2 Vec3_default)"
    "zone_small (ze_localZone ZoneEngine_new)" "zone_small (ei_zone (remote_info 7 NPC 2 Vec3_default))"
    by (simp_all add: r z GetInfo_def um_wf_def um_keys_def zone_small_def ZoneEngine_new_def ZoneCoord_new_def ZoneCoord_default_def)
  from should_sync_iff_cached [OF this] show ?thesis
    by (simp add: z ShouldSync_def GetInfo_def r IsAdjacent_def i32_abs_def ZoneEngine_new_def ZoneCoord_new_def ZoneCoord_default_def)
qed

text \<open>The packet of a zone change, as the server reads it.\<close>

lemma zone_packet_read:
  obtains r r1 r2 where "ReadHeader (PacketReader_new (packet [hdr C2S_ZoneRequest, WriteI32 x, WriteI32 y])) =
      (Some \<lparr>ph_type = C2S_ZoneRequest, ph_flags = 0, ph_sequence = 0, ph_timestamp = 0\<rparr>, r)"
    "ReadI32 r = (Some x, r1)" "ReadI32 r1 = (Some y, r2)"
proof -
  let ?h = "\<lparr>ph_type = C2S_ZoneRequest, ph_flags = 0, ph_sequence = 0, ph_timestamp = 0\<rparr>"
  have "packet [hdr C2S_ZoneRequest, WriteI32 x, WriteI32 y] = PacketHeader_enc ?h @ bytes_u32 x @ bytes_u32 y @ []"
    by (simp add: write_at)
  then show thesis using that by (simp only: reader_at_new scalars_at append_Nil)
qed

lemma zone_packet_dispatch:
  assumes "GetPlayerByPeer q srv = Some p"
  obtains r r1 r2 where "HandlePacket env q (packet [hdr C2S_ZoneRequest, WriteI32 x, WriteI32 y]) KMP_CHANNEL_RELIABLE_ORDERED srv =
      HandleZoneRequest p r srv" "ReadI32 r = (Some x, r1)" "ReadI32 r1 = (Some y, r2)"
proof (rule zone_packet_read [of x y])
  fix r r1 r2
  assume h: "ReadHeader (PacketReader_new (packet [hdr C2S_ZoneRequest, WriteI32 x, WriteI32 y])) =
      (Some \<lparr>ph_type = C2S_ZoneRequest, ph_flags = 0, ph_sequence = 0, ph_timestamp = 0\<rparr>, r)"
    "ReadI32 r = (Some x, r1)" "ReadI32 r1 = (Some y, r2)"
  have "8 \<le> length (packet [hdr C2S_ZoneRequest, WriteI32 x, WriteI32 y])" by (simp add: write_at PacketHeader_enc_def)
  moreover have "map_of (player_handlers env q) C2S_ZoneRequest = Some HandleZoneRequest" by (simp add: player_handlers_def msg_type)
  ultimately have "HandlePacket env q (packet [hdr C2S_ZoneRequest, WriteI32 x, WriteI32 y]) KMP_CHANNEL_RELIABLE_ORDERED srv =
      HandleZoneRequest p r srv"
    using assms h(1) by (simp add: HandlePacket_def wrong_channel_def dispatch_def KMP_CHANNEL_RELIABLE_ORDERED_def
        KMP_CHANNEL_UNRELIABLE_SEQ_def msg_type)
  with h(2,3) that show thesis by blast
qed

text \<open>
  C23.  Client and server together: when the local player moves to another zone, the packet the client sends
  makes the server answer that player with exactly the foreign entities of the new zone and its neighbours,
  provided the zone lies within 500 zones of the origin, and with nothing otherwise.
\<close>

theorem zone_change_is_answered:
  assumes "ze_sendFn c" "FromWorldPos pos KMP_ZONE_SIZE \<noteq> ze_localZone c"
    and "GetPlayerByPeer q srv = Some p" "allocs_ok srv"
  defines "z \<equiv> FromWorldPos pos KMP_ZONE_SIZE"
  shows "\<exists>events data c'. UpdateLocalPlayerZone pos c = (True, events, [(data, KMP_CHANNEL_RELIABLE_ORDERED, True)], c') \<and>
    ze_localZone c' = z \<and>
    sent (HandlePacket env q data KMP_CHANNEL_RELIABLE_ORDERED srv) = sent srv @
      (if \<bar>sint (zx z)\<bar> \<le> 500 \<and> \<bar>sint (zy z)\<bar> \<le> 500
       then map (\<lambda>(k, e). PeerSend (cp_peer p) RO (entity_spawn_packet e) True)
         (filter (\<lambda>(k, e). se_owner e \<noteq> cp_id p \<and> IsAdjacent z (se_zone e)) (m_entities srv))
       else [])"
proof -
  let ?data = "packet [hdr C2S_ZoneRequest, WriteI32 (zx z), WriteI32 (zy z)]"
  obtain r r1 r2 where r: "HandlePacket env q ?data KMP_CHANNEL_RELIABLE_ORDERED srv = HandleZoneRequest p r srv"
    "ReadI32 r = (Some (zx z), r1)" "ReadI32 r1 = (Some (zy z), r2)"
    by (rule zone_packet_dispatch [OF assms(3)])
  have zz: "ZoneCoord_new (zx z) (zy z) = z" by (simp add: ZoneCoord_new_def)
  have "sent (HandlePacket env q ?data KMP_CHANNEL_RELIABLE_ORDERED srv) = sent srv @
      (if \<bar>sint (zx z)\<bar> \<le> 500 \<and> \<bar>sint (zy z)\<bar> \<le> 500
       then map (\<lambda>(k, e). PeerSend (cp_peer p) RO (entity_spawn_packet e) True)
         (filter (\<lambda>(k, e). se_owner e \<noteq> cp_id p \<and> IsAdjacent z (se_zone e)) (m_entities srv))
       else [])"
    unfolding r(1) zone_request_answer [OF r(2,3) assms(4)] zz by (simp add: abs_le_iff minus_le_iff conj_ac)
  then show ?thesis using assms(1,2) unfolding z_def
    by (simp add: UpdateLocalPlayerZone_def NotifyZoneChange_def Let_def)
qed

theorem zone_change_is_answered_witness:
  "\<exists>events data c'. UpdateLocalPlayerZone (Vec3_new (f32_of_int 800) 0 0) (ZoneEngine_new\<lparr>ze_sendFn := True\<rparr>) =
       (True, events, [(data, KMP_CHANNEL_RELIABLE_ORDERED, True)], c') \<and> ze_localZone c' = ZoneCoord_new 1 0 \<and>
     sent (HandlePacket example_env 1 data KMP_CHANNEL_RELIABLE_ORDERED example_server) =
       sent example_server @ [PeerSend 1 RO (entity_spawn_packet (example_entity 2 2)) True]"
proof -
  have z: "FromWorldPos (Vec3_new (f32_of_int 800) 0 0) KMP_ZONE_SIZE = ZoneCoord_new 1 0"
    unfolding FromWorldPos_def Vec3_new_def KMP_ZONE_SIZE_def Vec3.simps f32_lits by (simp add: f32_eval)
  have a: "IsAdjacent (ZoneCoord_new 1 0) ZoneCoord_default"
    by (simp add: IsAdjacent_def ZoneCoord_new_def ZoneCoord_default_def i32_abs_def)
  show ?thesis
    using zone_change_is_answered [of "ZoneEngine_new\<lparr>ze_sendFn := True\<rparr>" "Vec3_new (f32_of_int 800) 0 0" 1 example_server
        "example_player 1 (lit ''Ann'')" example_env] example_peers(1) example_room(3) a
    by (simp add: z ZoneEngine_new_def ZoneCoord_new_def example_server_sel example_player_def example_entity_def ServerEntity_default_def)
qed

end
