(* ===== verification/Interpolation.thy ===== *)
theory Interpolation
  imports Server_State
begin

text \<open>
  \<^verbatim>\<open>KenshiMP.Core/sync/interpolation.h\<close> and \<^verbatim>\<open>.cpp\<close>: the per-entity ring buffer of snapshots, the jitter
  estimator that adapts the render delay, snap correction and the bracket search of the renderer.  A
  \<^verbatim>\<open>Snapshot*\<close> is the index of its slot in the buffer, because the code compares pointers.  The functions
  \<^verbatim>\<open>acosf\<close> and \<^verbatim>\<open>sinf\<close> of the C library, whose rounding is not specified, are arguments of \<open>Slerp\<close>.
\<close>

section \<open>Constants\<close>

definition KMP_TICK_INTERVAL_SEC :: f32 where "KMP_TICK_INTERVAL_SEC = f32_div (f32_of_int 1) (f32_of_int 20)"
definition KMP_INTERP_DELAY_SEC :: f32 where "KMP_INTERP_DELAY_SEC = f32_lit 1 10"
definition KMP_MAX_SNAPSHOTS :: int where "KMP_MAX_SNAPSHOTS = 8"
definition KMP_INTERP_DELAY_MIN :: f32 where "KMP_INTERP_DELAY_MIN = f32_lit 5 100"
definition KMP_INTERP_DELAY_MAX :: f32 where "KMP_INTERP_DELAY_MAX = f32_lit 2 10"
definition KMP_EXTRAP_MAX_SEC :: f32 where "KMP_EXTRAP_MAX_SEC = f32_lit 25 100"
definition KMP_SNAP_THRESHOLD_MIN :: f32 where "KMP_SNAP_THRESHOLD_MIN = f32_of_int 5"
definition KMP_SNAP_THRESHOLD_MAX :: f32 where "KMP_SNAP_THRESHOLD_MAX = f32_of_int 50"
definition KMP_SNAP_CORRECT_SEC :: f32 where "KMP_SNAP_CORRECT_SEC = f32_lit 15 100"
definition KMP_JITTER_EMA_ALPHA :: f32 where "KMP_JITTER_EMA_ALPHA = f32_lit 1 10"

section \<open>Jitter estimator\<close>

record JitterEstimator =
  je_lastArrivalTime :: f32
  je_jitterEma :: f32
  je_adaptiveDelay :: f32
  je_initialized :: bool

definition JitterEstimator_new :: JitterEstimator where
  "JitterEstimator_new = \<lparr>je_lastArrivalTime = 0, je_jitterEma = f32_lit 2 100, je_adaptiveDelay = KMP_INTERP_DELAY_SEC,
     je_initialized = False\<rparr>"

definition OnPacketArrived :: "f32 \<Rightarrow> JitterEstimator \<Rightarrow> JitterEstimator" where
  "OnPacketArrived arrivalTime j =
     (if \<not> je_initialized j then j\<lparr>je_lastArrivalTime := arrivalTime, je_initialized := True\<rparr>
      else let interval = f32_sub arrivalTime (je_lastArrivalTime j);
               jitter = f32_abs (f32_sub interval KMP_TICK_INTERVAL_SEC);
               ema = f32_add (f32_mul KMP_JITTER_EMA_ALPHA jitter)
                       (f32_mul (f32_sub (f32_of_int 1) KMP_JITTER_EMA_ALPHA) (je_jitterEma j));
               t = f32_div (f32_sub ema (f32_lit 2 100)) (f32_sub (f32_lit 8 100) (f32_lit 2 100));
               t' = f32_clamp t 0 (f32_of_int 1)
           in j\<lparr>je_jitterEma := ema, je_lastArrivalTime := arrivalTime,
                je_adaptiveDelay := f32_add KMP_INTERP_DELAY_MIN
                  (f32_mul t' (f32_sub KMP_INTERP_DELAY_MAX KMP_INTERP_DELAY_MIN))\<rparr>)"

definition GetDelay :: "JitterEstimator \<Rightarrow> f32" where
  "GetDelay j = je_adaptiveDelay j"

section \<open>Snap correction\<close>

record SnapCorrection =
  sc_active :: bool
  sc_errorOffset :: Vec3
  sc_blendTimer :: f32
  sc_blendTotal :: f32

definition SnapCorrection_new :: SnapCorrection where
  "SnapCorrection_new = \<lparr>sc_active = False, sc_errorOffset = Vec3_default, sc_blendTimer = 0, sc_blendTotal = 0\<rparr>"

definition StartCorrection :: "Vec3 \<Rightarrow> SnapCorrection \<Rightarrow> SnapCorrection" where
  "StartCorrection error c = (let dist = Length error in
     if f32_lt KMP_SNAP_THRESHOLD_MAX dist then c\<lparr>sc_active := False\<rparr>
     else if f32_lt KMP_SNAP_THRESHOLD_MIN dist
       then c\<lparr>sc_errorOffset := error, sc_blendTimer := KMP_SNAP_CORRECT_SEC, sc_blendTotal := KMP_SNAP_CORRECT_SEC,
              sc_active := True\<rparr>
     else c)"

definition SnapCorrection_Apply :: "f32 \<Rightarrow> SnapCorrection \<Rightarrow> Vec3 \<times> SnapCorrection" where
  "SnapCorrection_Apply dt c =
     (if \<not> sc_active c then (Vec3_new 0 0 0, c)
      else let c1 = c\<lparr>sc_blendTimer := f32_sub (sc_blendTimer c) dt\<rparr> in
        if f32_le (sc_blendTimer c1) 0 then (Vec3_new 0 0 0, c1\<lparr>sc_active := False\<rparr>)
        else (Vec3_scale (sc_errorOffset c1) (f32_div (sc_blendTimer c1) (sc_blendTotal c1)), c1))"

section \<open>The ring buffer of one entity\<close>

record Snapshot =
  sn_timestamp :: f32
  sn_tick :: u32
  sn_position :: Vec3
  sn_velocity :: Vec3
  sn_rotation :: Quat
  sn_moveSpeed :: u8
  sn_animState :: u8

definition Snapshot_default :: Snapshot where
  "Snapshot_default = \<lparr>sn_timestamp = 0, sn_tick = 0, sn_position = Vec3_default, sn_velocity = Vec3_default,
     sn_rotation = Quat_default, sn_moveSpeed = 0, sn_animState = 0\<rparr>"

record EntityInterpState =
  is_buffer :: "Snapshot list"
  is_head :: int
  is_count :: int
  is_jitter :: JitterEstimator
  is_snap :: SnapCorrection

definition EntityInterpState_new :: EntityInterpState where
  "EntityInterpState_new = \<lparr>is_buffer = replicate 8 Snapshot_default, is_head = 0, is_count = 0,
     is_jitter = JitterEstimator_new, is_snap = SnapCorrection_new\<rparr>"

definition PushSnapshot :: "Snapshot \<Rightarrow> EntityInterpState \<Rightarrow> EntityInterpState" where
  "PushSnapshot x st = st\<lparr>is_buffer := (is_buffer st)[nat (is_head st) := x],
     is_head := (is_head st + 1) mod KMP_MAX_SNAPSHOTS,
     is_count := (if is_count st < KMP_MAX_SNAPSHOTS then is_count st + 1 else is_count st)\<rparr>"

definition Snapshot_Get :: "int \<Rightarrow> EntityInterpState \<Rightarrow> int option" where
  "Snapshot_Get age st = (if age < 0 \<or> is_count st \<le> age then None
     else Some ((is_head st - 1 - age + KMP_MAX_SNAPSHOTS * 2) mod KMP_MAX_SNAPSHOTS))"

definition slot :: "EntityInterpState \<Rightarrow> int \<Rightarrow> Snapshot" where
  "slot st i = is_buffer st ! nat i"

section \<open>Adding a snapshot\<close>

record Interpolation =
  ip_entities :: "(EntityID, EntityInterpState) umap"
  ip_currentTime :: f32
  ip_deltaTime :: f32

definition Interpolation_new :: Interpolation where
  "Interpolation_new = \<lparr>ip_entities = [], ip_currentTime = 0, ip_deltaTime = 0\<rparr>"

definition finite_pose :: "Vec3 \<Rightarrow> Quat \<Rightarrow> bool" where
  "finite_pose p r \<longleftrightarrow> \<not> (\<exists>c \<in> set [vx p, vy p, vz p]. f32_isnan c \<or> f32_isinf c) \<and>
     \<not> (\<exists>c \<in> set (quat_comps r). f32_isnan c \<or> f32_isinf c)"

definition snapshot_velocity :: "f32 \<Rightarrow> Vec3 \<Rightarrow> Snapshot \<Rightarrow> Vec3" where
  "snapshot_velocity dt p prev = (if f32_lt (f32_lit 1 1000) dt \<and> f32_lt dt (f32_of_int 2)
     then Vec3_scale (Vec3_sub p (sn_position prev)) (f32_div (f32_of_int 1) dt) else Vec3_new 0 0 0)"

definition snap_check :: "f32 \<Rightarrow> Vec3 \<Rightarrow> Snapshot \<Rightarrow> SnapCorrection \<Rightarrow> SnapCorrection" where
  "snap_check dt p prev c = (let expected = Vec3_add (sn_position prev) (Vec3_scale (sn_velocity prev) dt);
       error = Vec3_sub p expected; dist = Length error in
     if f32_lt KMP_SNAP_THRESHOLD_MAX dist then c\<lparr>sc_active := False\<rparr>
     else if f32_lt KMP_SNAP_THRESHOLD_MIN dist then StartCorrection error c else c)"

definition push_state :: "f32 \<Rightarrow> Vec3 \<Rightarrow> Quat \<Rightarrow> u8 \<Rightarrow> u8 \<Rightarrow> EntityInterpState \<Rightarrow> EntityInterpState" where
  "push_state timestamp p r moveSpeed animState st0 =
     (let st = st0\<lparr>is_jitter := OnPacketArrived timestamp (is_jitter st0)\<rparr>;
          prev = (if 0 < is_count st then map_option (slot st) (Snapshot_Get 0 st) else None);
          velocity = (case prev of None \<Rightarrow> Vec3_new 0 0 0
            | Some q \<Rightarrow> snapshot_velocity (f32_sub timestamp (sn_timestamp q)) p q);
          st1 = (case prev of None \<Rightarrow> st
            | Some q \<Rightarrow> st\<lparr>is_snap := snap_check (f32_sub timestamp (sn_timestamp q)) p q (is_snap st)\<rparr>)
      in PushSnapshot \<lparr>sn_timestamp = timestamp, sn_tick = 0, sn_position = p, sn_velocity = velocity, sn_rotation = r,
           sn_moveSpeed = moveSpeed, sn_animState = animState\<rparr> st1)"

definition AddSnapshot :: "EntityID \<Rightarrow> f32 \<Rightarrow> Vec3 \<Rightarrow> Quat \<Rightarrow> u8 \<Rightarrow> u8 \<Rightarrow> Interpolation \<Rightarrow> Interpolation" where
  "AddSnapshot entityId timestamp p r moveSpeed animState ip =
     (if \<not> finite_pose p r then ip
      else let st = (case um_find (ip_entities ip) entityId of None \<Rightarrow> EntityInterpState_new | Some st \<Rightarrow> st)
           in ip\<lparr>ip_entities := um_set entityId (push_state timestamp p r moveSpeed animState st) (ip_entities ip)\<rparr>)"

section \<open>Rendering\<close>

definition quat_lerp :: "Quat \<Rightarrow> Quat \<Rightarrow> f32 \<Rightarrow> f32 list" where
  "quat_lerp a b t = map2 (\<lambda>p q. f32_add p (f32_mul t (f32_sub q p))) (quat_comps a) (quat_comps b)"

fun quat_of :: "f32 list \<Rightarrow> Quat" where
  "quat_of [w, x, y, z] = \<lparr>qw = w, qx = x, qy = y, qz = z\<rparr>"
| "quat_of _ = Quat_default"

fun sum_products :: "f32 list \<Rightarrow> f32 list \<Rightarrow> f32" where
  "sum_products [a, b, c, d] [e, f, g, h] =
     f32_add (f32_add (f32_add (f32_mul a e) (f32_mul b f)) (f32_mul c g)) (f32_mul d h)"
| "sum_products _ _ = 0"

definition Slerp :: "(f32 \<Rightarrow> f32) \<Rightarrow> (f32 \<Rightarrow> f32) \<Rightarrow> Quat \<Rightarrow> Quat \<Rightarrow> f32 \<Rightarrow> Quat" where
  "Slerp acosf sinf a b t =
     (let dot0 = sum_products (quat_comps a) (quat_comps b);
          neg = f32_lt dot0 0;
          dot1 = (if neg then f32_neg dot0 else dot0);
          b2 = (if neg then quat_of (map f32_neg (quat_comps b)) else b);
          dot = (if f32_lt (f32_of_int 1) dot1 then f32_of_int 1 else dot1)
      in if f32_le (f32_lit 9995 10000) dot then
           let r = quat_lerp a b2 t;
               len = f32_sqrt (sum_products r r)
           in quat_of (if f32_lt (f32_lit 1 100000000) len
                then map (\<lambda>c. f32_mul c (f32_div (f32_of_int 1) len)) r else r)
         else let theta = acosf dot;
                  sinTheta = sinf theta;
                  wa = f32_div (sinf (f32_mul (f32_sub (f32_of_int 1) t) theta)) sinTheta;
                  wb = f32_div (sinf (f32_mul t theta)) sinTheta
              in quat_of (map2 (\<lambda>p q. f32_add (f32_mul wa p) (f32_mul wb q)) (quat_comps a) (quat_comps b2)))"

text \<open>The scan for the two snapshots around a time, over ages \<open>i, i + 1, \<dots>\<close>.\<close>

definition closer_before :: "EntityInterpState \<Rightarrow> f32 \<Rightarrow> int \<Rightarrow> int option \<Rightarrow> int option" where
  "closer_before st time x before = (if f32_le (sn_timestamp (slot st x)) time \<and>
       (case before of None \<Rightarrow> True | Some b \<Rightarrow> f32_lt (sn_timestamp (slot st b)) (sn_timestamp (slot st x)))
     then Some x else before)"

definition closer_after :: "EntityInterpState \<Rightarrow> f32 \<Rightarrow> int \<Rightarrow> int option \<Rightarrow> int option" where
  "closer_after st time x after = (if f32_le time (sn_timestamp (slot st x)) \<and>
       (case after of None \<Rightarrow> True | Some a \<Rightarrow> f32_lt (sn_timestamp (slot st x)) (sn_timestamp (slot st a)))
     then Some x else after)"

fun bracket :: "EntityInterpState \<Rightarrow> f32 \<Rightarrow> int list \<Rightarrow> int option \<times> int option \<Rightarrow> int option \<times> int option" where
  "bracket st time [] ba = ba"
| "bracket st time (i # is) (before, after) = (case Snapshot_Get i st of
     None \<Rightarrow> bracket st time is (before, after)
   | Some x \<Rightarrow> bracket st time is (closer_before st time x before, closer_after st time x after))"

record pose =
  po_pos :: Vec3
  po_rot :: Quat
  po_moveSpeed :: u8
  po_animState :: u8

definition snapshot_pose :: "Snapshot \<Rightarrow> pose" where
  "snapshot_pose x = \<lparr>po_pos = sn_position x, po_rot = sn_rotation x, po_moveSpeed = sn_moveSpeed x, po_animState = sn_animState x\<rparr>"

definition extrapolate :: "f32 \<Rightarrow> Snapshot \<Rightarrow> pose" where
  "extrapolate time b = (let overshoot = f32_sub time (sn_timestamp b) in
     if f32_lt 0 overshoot \<and> f32_le overshoot KMP_EXTRAP_MAX_SEC \<and> f32_lt (f32_lit 1 1000) (LengthSq (sn_velocity b))
     then (snapshot_pose b)\<lparr>po_pos := Vec3_add (sn_position b) (Vec3_scale (sn_velocity b) overshoot)\<rparr>
     else snapshot_pose b)"

definition blend_factor :: "f32 \<Rightarrow> Snapshot \<Rightarrow> Snapshot \<Rightarrow> f32" where
  "blend_factor time b a = (let span = f32_sub (sn_timestamp a) (sn_timestamp b) in
     f32_clamp (if f32_lt (f32_lit 1 1000) span then f32_div (f32_sub time (sn_timestamp b)) span else 0) 0 (f32_of_int 1))"

definition blend :: "(f32 \<Rightarrow> f32) \<Rightarrow> (f32 \<Rightarrow> f32) \<Rightarrow> f32 \<Rightarrow> Snapshot \<Rightarrow> Snapshot \<Rightarrow> pose" where
  "blend acosf sinf time b a = (let t = blend_factor time b a; late = f32_lt (f32_lit 1 2) t in
     \<lparr>po_pos = Vec3_add (sn_position b) (Vec3_scale (Vec3_sub (sn_position a) (sn_position b)) t),
      po_rot = Slerp acosf sinf (sn_rotation b) (sn_rotation a) t,
      po_moveSpeed = (if late then sn_moveSpeed a else sn_moveSpeed b),
      po_animState = (if late then sn_animState a else sn_animState b)\<rparr>)"

definition InterpolateEntity :: "(f32 \<Rightarrow> f32) \<Rightarrow> (f32 \<Rightarrow> f32) \<Rightarrow> EntityInterpState \<Rightarrow> f32 \<Rightarrow> pose option" where
  "InterpolateEntity acosf sinf st renderTime =
     (if is_count st = 0 then None
      else let time = f32_sub renderTime (GetDelay (is_jitter st)) in
        case bracket st time [0..is_count st - 1] (None, None) of
          (None, None) \<Rightarrow> None
        | (None, Some a) \<Rightarrow> Some (snapshot_pose (slot st a))
        | (Some b, None) \<Rightarrow> Some (extrapolate time (slot st b))
        | (Some b, Some a) \<Rightarrow> if a = b then Some (extrapolate time (slot st b))
                              else Some (blend acosf sinf time (slot st b) (slot st a)))"

definition GetInterpolated :: "(f32 \<Rightarrow> f32) \<Rightarrow> (f32 \<Rightarrow> f32) \<Rightarrow> EntityID \<Rightarrow> f32 \<Rightarrow> Interpolation \<Rightarrow> pose option \<times> Interpolation" where
  "GetInterpolated acosf sinf entityId renderTime ip = (case um_find (ip_entities ip) entityId of
     None \<Rightarrow> (None, ip)
   | Some st \<Rightarrow> (case InterpolateEntity acosf sinf st renderTime of
       None \<Rightarrow> (None, ip)
     | Some out \<Rightarrow>
         if sc_active (is_snap st) then
           let (correction, c) = SnapCorrection_Apply (ip_deltaTime ip) (is_snap st)
           in (Some (out\<lparr>po_pos := Vec3_sub (po_pos out) correction\<rparr>),
               ip\<lparr>ip_entities := um_modify entityId (\<lambda>st. st\<lparr>is_snap := c\<rparr>) (ip_entities ip)\<rparr>)
         else (Some out, ip)))"

definition Interpolation_RemoveEntity :: "EntityID \<Rightarrow> Interpolation \<Rightarrow> Interpolation" where
  "Interpolation_RemoveEntity entityId ip = ip\<lparr>ip_entities := um_erase entityId (ip_entities ip)\<rparr>"

definition Interpolation_Clear :: "Interpolation \<Rightarrow> Interpolation" where
  "Interpolation_Clear ip = ip\<lparr>ip_entities := [], ip_currentTime := 0\<rparr>"

definition Interpolation_Update :: "f32 \<Rightarrow> Interpolation \<Rightarrow> Interpolation" where
  "Interpolation_Update deltaTime ip = ip\<lparr>ip_currentTime := f32_add (ip_currentTime ip) deltaTime, ip_deltaTime := deltaTime\<rparr>"

section \<open>The ring buffer holds the last eight snapshots\<close>

definition ring_ok :: "EntityInterpState \<Rightarrow> bool" where
  "ring_ok st \<longleftrightarrow> length (is_buffer st) = 8 \<and> 0 \<le> is_head st \<and> is_head st < 8 \<and> 0 \<le> is_count st \<and> is_count st \<le> 8"

text \<open>The abstract state: the snapshots that \<^verbatim>\<open>Get(0)\<close>, \<^verbatim>\<open>Get(1)\<close>, \<dots> return.\<close>

definition recent :: "EntityInterpState \<Rightarrow> Snapshot list" where
  "recent st = map (\<lambda>age. slot st ((is_head st - 1 - int age + 16) mod 8)) [0..<nat (is_count st)]"

lemma ring_ok_new: "ring_ok EntityInterpState_new"
  by (simp add: ring_ok_def EntityInterpState_new_def)

lemma ring_ok_push: "ring_ok st \<Longrightarrow> ring_ok (PushSnapshot x st)"
  by (auto simp: ring_ok_def PushSnapshot_def KMP_MAX_SNAPSHOTS_def)

lemma recent_new: "recent EntityInterpState_new = []"
  by (simp add: recent_def EntityInterpState_new_def)

lemma Get_recent:
  assumes "ring_ok st"
  shows "map_option (slot st) (Snapshot_Get age st) =
    (if 0 \<le> age \<and> nat age < length (recent st) then Some (recent st ! nat age) else None)"
  using assms by (auto simp: ring_ok_def Snapshot_Get_def recent_def KMP_MAX_SNAPSHOTS_def)

lemma ring_head: "0 \<le> h \<Longrightarrow> h < 8 \<Longrightarrow> ((h + 1) mod 8 - 1 + 16) mod 8 = (h :: int)"
  using mod_add_left_eq [of "h + 1" 8 15] mod_add_self2 [of "h + 8" "8 :: int"] mod_add_self2 [of h "8 :: int"]
  by (simp add: algebra_simps)

lemma ring_older:
  "((h + 1) mod 8 - 1 - int (Suc a) + 16) mod 8 = (h - 1 - int a + 16) mod 8"
  using mod_add_left_eq [of "h + 1" 8 "14 - int a"] by (simp add: algebra_simps)

lemma ring_distinct:
  assumes "0 \<le> h" "h < 8" "a < 7"
  shows "nat ((h - 1 - int a + 16) mod 8) \<noteq> nat h"
proof -
  have "(h - 1 - int a + 16) mod 8 \<noteq> h" using assms by presburger
  then show ?thesis using assms by (simp add: nat_eq_iff)
qed

lemma recent_push:
  assumes "ring_ok st" shows "recent (PushSnapshot x st) = take 8 (x # recent st)"
proof (rule nth_equalityI)
  show len: "length (recent (PushSnapshot x st)) = length (take 8 (x # recent st))"
    using assms by (auto simp: recent_def PushSnapshot_def KMP_MAX_SNAPSHOTS_def ring_ok_def)
  fix i assume "i < length (recent (PushSnapshot x st))"
  then have i: "i < nat (is_count st) + 1" "i < 8" using len by (auto simp: recent_def)
  have c: "0 \<le> is_count st" using assms by (simp add: ring_ok_def)
  have h: "0 \<le> is_head st" "is_head st < 8" "length (is_buffer st) = 8" "nat (is_head st) < 8"
    using assms by (auto simp: ring_ok_def)
  have p: "recent (PushSnapshot x st) ! i = (is_buffer st)[nat (is_head st) := x] !
      nat (((is_head st + 1) mod 8 - 1 - int i + 16) mod 8)"
    using c i by (simp add: recent_def PushSnapshot_def KMP_MAX_SNAPSHOTS_def slot_def nat_add_distrib del: upt_Suc)
  show "recent (PushSnapshot x st) ! i = take 8 (x # recent st) ! i"
  proof (cases i)
    case 0
    then show ?thesis unfolding p using h ring_head [of "is_head st"] by (simp add: algebra_simps)
  next
    case (Suc a)
    then have "a < 7" "a < nat (is_count st)" using i by auto
    then show ?thesis unfolding p unfolding Suc ring_older
      using h ring_distinct [of "is_head st" a] by (simp add: recent_def slot_def)
  qed
qed

section \<open>The adaptive delay\<close>

text \<open>Which operations keep a value from being NaN.\<close>

lemma f32_class_iff: "f32_isfinite x \<longleftrightarrow> \<not> f32_isnan x \<and> \<not> f32_isinf x"
  by (auto simp: f32_isfinite_def f32_isnan_def f32_isinf_def)

lemma f32_inf_class [simp]: "\<not> f32_isnan (f32_mk s mag_inf)" "f32_isinf (f32_mk s mag_inf)"
  by (simp_all add: f32_isnan_def f32_isinf_def mag_inf_def f32_mk_fields)

lemma f32_zero_class [simp]: "\<not> f32_isnan (f32_mk s 0)"
  by (simp add: f32_isnan_def mag_inf_def f32_mk_fields)

lemma add_not_nan_finite: "\<not> f32_isnan x \<Longrightarrow> f32_isfinite y \<Longrightarrow> \<not> f32_isnan (f32_add x y)"
  by (auto simp: f32_add_def f32_class_iff)

lemma sub_not_nan_finite: "\<not> f32_isnan x \<Longrightarrow> f32_isfinite y \<Longrightarrow> \<not> f32_isnan (f32_sub x y)"
  by (simp add: f32_sub_def add_not_nan_finite)

lemma div_not_nan: "\<not> f32_isnan x \<Longrightarrow> f32_isfinite y \<Longrightarrow> f32_mag y \<noteq> 0 \<Longrightarrow> \<not> f32_isnan (f32_div x y)"
  by (auto simp: f32_div_def f32_class_iff f32_sval_def mag_int_def)

definition nonneg :: "f32 \<Rightarrow> bool" where
  "nonneg x \<longleftrightarrow> \<not> f32_isnan x \<and> \<not> f32_sign x"

lemma nonneg_abs: "\<not> f32_isnan x \<Longrightarrow> nonneg (f32_abs x)"
  by (simp add: nonneg_def f32_abs_def f32_isnan_def)

lemma sign_scaled: "0 \<le> n \<Longrightarrow> 0 < d \<Longrightarrow> \<not> f32_sign (f32_scaled False n d)"
  using mag_round_le_inf [of "nat \<bar>n\<bar>" d] mag_inf_less by (auto simp: f32_scaled_def)

lemma nonneg_add: "nonneg x \<Longrightarrow> nonneg y \<Longrightarrow> nonneg (f32_add x y)"
  by (auto simp: nonneg_def f32_add_def intro!: notI dest!: sign_scaled [rotated, THEN notE, rotated 2] simp: f32_sval_def)

lemma nonneg_mul: "nonneg x \<Longrightarrow> f32_isfinite x \<Longrightarrow> f32_mag x \<noteq> 0 \<Longrightarrow> nonneg y \<Longrightarrow> nonneg (f32_mul x y)"
  using sign_scaled [of "f32_sval x * f32_sval y" "2 ^ 149"] mag_inf_less f32_inf_class(1) [of False]
  by (auto simp: nonneg_def f32_mul_def f32_class_iff f32_isinf_def) (auto simp: f32_sval_def mag_inf_def)

lemma interp_literals [f32_lits]:
  "f32_lit 2 100 = 0x3CA3D70A" "f32_lit 8 100 = 0x3DA3D70A" "f32_lit 5 100 = 0x3D4CCCCD" "f32_lit 2 10 = 0x3E4CCCCD"
  "f32_lit 15 100 = 0x3E19999A" "f32_lit 1 1000 = 0x3A83126F" "f32_of_int 20 = 0x41A00000"
  by (simp_all add: f32_eval)

lemma interp_results:
  "f32_div 0x3F800000 0x41A00000 = 0x3D4CCCCD" "f32_sub 0x3F800000 0x3DCCCCCD = 0x3F666666"
  "f32_sub 0x3DA3D70A 0x3CA3D70A = 0x3D75C28F"
  by (simp_all add: f32_eval)

lemmas f32_class_eval = f32_isnan_def f32_isfinite_def f32_isinf_def f32_mag_def f32_sign_def mag_inf_def

lemma delay_consts:
  "f32_isfinite KMP_TICK_INTERVAL_SEC"
  "nonneg KMP_JITTER_EMA_ALPHA" "f32_isfinite KMP_JITTER_EMA_ALPHA" "f32_mag KMP_JITTER_EMA_ALPHA \<noteq> 0"
  "nonneg (f32_sub (f32_of_int 1) KMP_JITTER_EMA_ALPHA)" "f32_isfinite (f32_sub (f32_of_int 1) KMP_JITTER_EMA_ALPHA)"
  "f32_mag (f32_sub (f32_of_int 1) KMP_JITTER_EMA_ALPHA) \<noteq> 0"
  "f32_isfinite (f32_lit 2 100)" "nonneg (f32_lit 2 100)"
  "f32_isfinite (f32_sub (f32_lit 8 100) (f32_lit 2 100))" "f32_mag (f32_sub (f32_lit 8 100) (f32_lit 2 100)) \<noteq> 0"
  unfolding KMP_TICK_INTERVAL_SEC_def KMP_JITTER_EMA_ALPHA_def nonneg_def f32_lits interp_results
  by (simp_all add: f32_class_eval)

definition jitter_ok :: "JitterEstimator \<Rightarrow> bool" where
  "jitter_ok j \<longleftrightarrow> nonneg (je_jitterEma j) \<and> (je_initialized j \<longrightarrow> f32_isfinite (je_lastArrivalTime j)) \<and>
     f32_le KMP_INTERP_DELAY_MIN (je_adaptiveDelay j) \<and> f32_le (je_adaptiveDelay j) KMP_INTERP_DELAY_MAX"

lemma delay_range:
  assumes "\<not> f32_isnan t"
  defines "d \<equiv> f32_add KMP_INTERP_DELAY_MIN (f32_mul (f32_clamp t 0 (f32_of_int 1)) (f32_sub KMP_INTERP_DELAY_MAX KMP_INTERP_DELAY_MIN))"
  shows "f32_le KMP_INTERP_DELAY_MIN d \<and> f32_le d KMP_INTERP_DELAY_MAX"
proof -
  let ?c = "f32_clamp t 0 (f32_of_int 1)"
  have k: "f32_key KMP_INTERP_DELAY_MIN = 1028443341" "f32_key KMP_INTERP_DELAY_MAX = 1045220557"
    "f32_key (f32_sub KMP_INTERP_DELAY_MAX KMP_INTERP_DELAY_MIN) = 1041865114" "f32_key 0 = 0" "f32_key (f32_of_int 1) = 1065353216"
    unfolding KMP_INTERP_DELAY_MIN_def KMP_INTERP_DELAY_MAX_def f32_lits by (simp_all add: f32_eval)
  have "f32_key 0 \<le> f32_key ?c \<and> f32_key ?c \<le> f32_key (f32_of_int 1)"
    using f32_clamp_key [OF assms(1), of 0 "f32_of_int 1"] by (simp add: k f32_class_key mag_inf_def)
  then have c: "f32_between 0 (ksval 1065353216) ?c"
    using f32_between_keys [of 0 ?c 1065353216] by (simp add: k mag_inf_def ksval_def)
  have "f32_between 0 (ksval 1041865114) (f32_sub KMP_INTERP_DELAY_MAX KMP_INTERP_DELAY_MIN)"
    using f32_between_keys [of 0 "f32_sub KMP_INTERP_DELAY_MAX KMP_INTERP_DELAY_MIN" 1041865114] by (simp add: k mag_inf_def ksval_def)
  from f32_between_mul_nonneg [OF c this, of 1041865114]
  have m: "f32_between 0 (ksval 1041865114) (f32_mul ?c (f32_sub KMP_INTERP_DELAY_MAX KMP_INTERP_DELAY_MIN))"
    by (simp add: mag_inf_def ksval_def mag_int_def)
  have "f32_between (ksval 1028443341) (ksval 1028443341) KMP_INTERP_DELAY_MIN"
    using f32_between_keys [of 1028443341 KMP_INTERP_DELAY_MIN 1028443341] by (simp add: k mag_inf_def)
  then have n: "f32_isfinite KMP_INTERP_DELAY_MIN" "f32_sval KMP_INTERP_DELAY_MIN = ksval 1028443341" by (simp_all add: f32_between_def)
  have key: "f32_key d = kround (ksval 1028443341 + f32_sval (f32_mul ?c (f32_sub KMP_INTERP_DELAY_MAX KMP_INTERP_DELAY_MIN))) 1"
    unfolding d_def using n m by (simp add: f32_add_key f32_between_def)
  have "kround (ksval 1028443341) 1 \<le> f32_key d" "f32_key d \<le> kround (ksval 1028443341 + ksval 1041865114) 1"
    unfolding key using m by (auto simp: f32_between_def intro!: kround_mono)
  then have d: "1028443341 \<le> f32_key d" "f32_key d \<le> 1045220557"
    by (simp_all add: kround_def ksval_def mag_int_def f32_eval)
  then show ?thesis using k by (simp add: f32_le_def f32_class_key mag_inf_def)
qed

lemma jitter_ok_new: "jitter_ok JitterEstimator_new"
  unfolding jitter_ok_def JitterEstimator_new_def KMP_INTERP_DELAY_SEC_def KMP_INTERP_DELAY_MIN_def KMP_INTERP_DELAY_MAX_def
    nonneg_def JitterEstimator.simps f32_lits
  by (simp add: f32_eval)

lemma jitter_ok_packet:
  assumes "jitter_ok j" "f32_isfinite t" shows "jitter_ok (OnPacketArrived t j)"
proof (cases "je_initialized j")
  case True
  let ?jitter = "f32_abs (f32_sub (f32_sub t (je_lastArrivalTime j)) KMP_TICK_INTERVAL_SEC)"
  let ?ema = "f32_add (f32_mul KMP_JITTER_EMA_ALPHA ?jitter)
    (f32_mul (f32_sub (f32_of_int 1) KMP_JITTER_EMA_ALPHA) (je_jitterEma j))"
  have "nonneg ?jitter"
    using assms True by (intro nonneg_abs sub_not_nan_finite delay_consts) (simp_all add: jitter_ok_def f32_class_excl)
  then have ema: "nonneg ?ema"
    using assms by (intro nonneg_add nonneg_mul delay_consts) (simp_all add: jitter_ok_def)
  then have "\<not> f32_isnan (f32_div (f32_sub ?ema (f32_lit 2 100)) (f32_sub (f32_lit 8 100) (f32_lit 2 100)))"
    by (intro div_not_nan sub_not_nan_finite delay_consts) (simp add: nonneg_def)
  from delay_range [OF this] show ?thesis
    using ema True assms by (simp add: OnPacketArrived_def Let_def jitter_ok_def)
next
  case False
  with assms show ?thesis by (simp add: OnPacketArrived_def jitter_ok_def)
qed

section \<open>Snap correction fades out\<close>

lemma sub_nonneg_le:
  assumes "f32_isfinite a" "f32_isfinite b" "0 \<le> f32_key b" shows "f32_key (f32_sub a b) \<le> f32_key a"
proof -
  have "f32_key (f32_sub a b) = kround (f32_sval a - f32_sval b) 1" using assms by (simp add: f32_sub_key)
  also have "\<dots> \<le> kround (f32_sval a) 1" using assms f32_sval_nonneg [of b] by (intro kround_mono) simp_all
  also have "\<dots> = f32_key a" using assms kround_exact [of 1 "f32_key a"] by (simp add: f32_sval_key f32_class_key)
  finally show ?thesis .
qed

definition snap_ok :: "SnapCorrection \<Rightarrow> bool" where
  "snap_ok c \<longleftrightarrow> (sc_active c \<longrightarrow> sc_blendTotal c = KMP_SNAP_CORRECT_SEC \<and> f32_lt 0 (sc_blendTimer c) \<and>
     f32_le (sc_blendTimer c) KMP_SNAP_CORRECT_SEC)"

definition frame_time :: "f32 \<Rightarrow> bool" where
  "frame_time dt \<longleftrightarrow> f32_isfinite dt \<and> f32_le 0 dt"

lemma snap_key: "f32_key KMP_SNAP_CORRECT_SEC = 1041865114" "f32_key 0 = 0"
  by (simp_all add: KMP_SNAP_CORRECT_SEC_def f32_eval)

lemma snap_ok_start: "snap_ok c \<Longrightarrow> snap_ok (StartCorrection e c)"
  by (simp add: snap_ok_def StartCorrection_def Let_def f32_lt_def f32_le_def f32_class_key snap_key mag_inf_def)

lemma snap_ok_check: "snap_ok c \<Longrightarrow> snap_ok (snap_check dt p q c)"
  by (simp add: snap_check_def Let_def snap_ok_start) (simp add: snap_ok_def)

lemma Apply_timer:
  assumes "snap_ok c" "frame_time dt" "sc_active c"
  shows "\<not> f32_isnan (f32_sub (sc_blendTimer c) dt)" "f32_key (f32_sub (sc_blendTimer c) dt) \<le> f32_key (sc_blendTimer c)"
proof -
  have "f32_isfinite (sc_blendTimer c)" using assms by (simp add: snap_ok_def f32_lt_def f32_le_def f32_class_key snap_key mag_inf_def)
  moreover have "f32_isfinite dt" "0 \<le> f32_key dt" using assms by (auto simp: frame_time_def f32_le_def snap_key)
  ultimately show "\<not> f32_isnan (f32_sub (sc_blendTimer c) dt)" "f32_key (f32_sub (sc_blendTimer c) dt) \<le> f32_key (sc_blendTimer c)"
    by (simp_all add: sub_not_nan_finite f32_class_excl sub_nonneg_le)
qed

lemma snap_ok_apply: "snap_ok c \<Longrightarrow> frame_time dt \<Longrightarrow> snap_ok (snd (SnapCorrection_Apply dt c))"
  using Apply_timer [of c dt] by (auto simp: SnapCorrection_Apply_def snap_ok_def Let_def f32_le_def f32_lt_def snap_key f32_class_key)

section \<open>The bracket search\<close>

definition before_spec :: "EntityInterpState \<Rightarrow> f32 \<Rightarrow> int set \<Rightarrow> int option \<Rightarrow> bool" where
  "before_spec st time X b \<longleftrightarrow> (case b of
     None \<Rightarrow> \<forall>x \<in> X. \<not> f32_le (sn_timestamp (slot st x)) time
   | Some y \<Rightarrow> y \<in> X \<and> f32_le (sn_timestamp (slot st y)) time \<and>
       (\<forall>x \<in> X. f32_le (sn_timestamp (slot st x)) time \<longrightarrow> f32_le (sn_timestamp (slot st x)) (sn_timestamp (slot st y))))"

definition after_spec :: "EntityInterpState \<Rightarrow> f32 \<Rightarrow> int set \<Rightarrow> int option \<Rightarrow> bool" where
  "after_spec st time X a \<longleftrightarrow> (case a of
     None \<Rightarrow> \<forall>x \<in> X. \<not> f32_le time (sn_timestamp (slot st x))
   | Some y \<Rightarrow> y \<in> X \<and> f32_le time (sn_timestamp (slot st y)) \<and>
       (\<forall>x \<in> X. f32_le time (sn_timestamp (slot st x)) \<longrightarrow> f32_le (sn_timestamp (slot st y)) (sn_timestamp (slot st x))))"

lemma closer_before_spec: "before_spec st time X b \<Longrightarrow> before_spec st time (insert x X) (closer_before st time x b)"
  by (fastforce simp: before_spec_def closer_before_def f32_le_def f32_lt_def split: option.splits)

lemma closer_after_spec: "after_spec st time X a \<Longrightarrow> after_spec st time (insert x X) (closer_after st time x a)"
  by (fastforce simp: after_spec_def closer_after_def f32_le_def f32_lt_def split: option.splits)

lemma bracket_spec:
  assumes "before_spec st time X b" "after_spec st time X a" "bracket st time is (b, a) = (b', a')"
  shows "before_spec st time (X \<union> {x. \<exists>i \<in> set is. Snapshot_Get i st = Some x}) b' \<and>
    after_spec st time (X \<union> {x. \<exists>i \<in> set is. Snapshot_Get i st = Some x}) a'"
  using assms
proof (induction "is" arbitrary: X b a)
  case (Cons i "is")
  show ?case
  proof (cases "Snapshot_Get i st")
    case None
    with Cons show ?thesis by simp
  next
    case (Some x)
    have "insert x X \<union> {x. \<exists>i \<in> set is. Snapshot_Get i st = Some x} = X \<union> {x. \<exists>j \<in> set (i # is). Snapshot_Get j st = Some x}"
      using Some by auto
    with Cons.IH [OF closer_before_spec [OF Cons.prems(1)] closer_after_spec [OF Cons.prems(2)], of x] Cons.prems(3) Some
    show ?thesis by simp
  qed
qed simp

section \<open>The invariant of the component\<close>

definition snapshot_ok :: "Snapshot \<Rightarrow> bool" where
  "snapshot_ok x \<longleftrightarrow> finite_pose (sn_position x) (sn_rotation x) \<and> f32_isfinite (sn_timestamp x)"

definition interp_ok :: "EntityInterpState \<Rightarrow> bool" where
  "interp_ok st \<longleftrightarrow> ring_ok st \<and> jitter_ok (is_jitter st) \<and> snap_ok (is_snap st) \<and> (\<forall>x \<in> set (recent st). snapshot_ok x)"

definition ip_inv :: "Interpolation \<Rightarrow> bool" where
  "ip_inv ip \<longleftrightarrow> (\<forall>k st. um_find (ip_entities ip) k = Some st \<longrightarrow> interp_ok st) \<and> frame_time (ip_deltaTime ip)"

lemma ring_cong [simp]:
  "ring_ok (st\<lparr>is_jitter := j\<rparr>) = ring_ok st" "ring_ok (st\<lparr>is_snap := c\<rparr>) = ring_ok st"
  "recent (st\<lparr>is_jitter := j\<rparr>) = recent st" "recent (st\<lparr>is_snap := c\<rparr>) = recent st"
  by (simp_all add: ring_ok_def recent_def slot_def)

lemma push_fields [simp]: "is_jitter (PushSnapshot x st) = is_jitter st" "is_snap (PushSnapshot x st) = is_snap st"
  by (simp_all add: PushSnapshot_def)

lemma push_state_eq:
  obtains v c where "push_state ts p r ms an st = PushSnapshot \<lparr>sn_timestamp = ts, sn_tick = 0, sn_position = p, sn_velocity = v,
      sn_rotation = r, sn_moveSpeed = ms, sn_animState = an\<rparr> (st\<lparr>is_jitter := OnPacketArrived ts (is_jitter st), is_snap := c\<rparr>)"
    "snap_ok (is_snap st) \<Longrightarrow> snap_ok c"
proof -
  let ?st = "st\<lparr>is_jitter := OnPacketArrived ts (is_jitter st)\<rparr>"
  have same: "?st\<lparr>is_snap := is_snap st\<rparr> = ?st" by simp
  show thesis
  proof (cases "if 0 < is_count ?st then map_option (slot ?st) (Snapshot_Get 0 ?st) else None")
    case None
    then show thesis using that [of "Vec3_new 0 0 0" "is_snap st"] same by (simp add: push_state_def Let_def)
  next
    case (Some q)
    then show thesis using that [of _ "snap_check (f32_sub ts (sn_timestamp q)) p q (is_snap st)"] snap_ok_check
      by (simp add: push_state_def Let_def)
  qed
qed

lemma push_state_recent:
  assumes "ring_ok st"
  shows "\<exists>v. recent (push_state ts p r ms an st) = take 8 (\<lparr>sn_timestamp = ts, sn_tick = 0, sn_position = p, sn_velocity = v,
      sn_rotation = r, sn_moveSpeed = ms, sn_animState = an\<rparr> # recent st)"
proof -
  obtain v c where e: "push_state ts p r ms an st = PushSnapshot \<lparr>sn_timestamp = ts, sn_tick = 0, sn_position = p, sn_velocity = v,
      sn_rotation = r, sn_moveSpeed = ms, sn_animState = an\<rparr> (st\<lparr>is_jitter := OnPacketArrived ts (is_jitter st), is_snap := c\<rparr>)"
    by (rule push_state_eq)
  show ?thesis unfolding e using assms by (auto simp: recent_push)
qed

lemma push_state_ok:
  assumes "interp_ok st" "finite_pose p r" "f32_isfinite ts"
  shows "interp_ok (push_state ts p r ms an st)"
proof -
  obtain v c where e: "push_state ts p r ms an st = PushSnapshot \<lparr>sn_timestamp = ts, sn_tick = 0, sn_position = p, sn_velocity = v,
      sn_rotation = r, sn_moveSpeed = ms, sn_animState = an\<rparr> (st\<lparr>is_jitter := OnPacketArrived ts (is_jitter st), is_snap := c\<rparr>)"
    and c: "snap_ok (is_snap st) \<Longrightarrow> snap_ok c"
    by (rule push_state_eq) blast
  show ?thesis unfolding e using assms c
    by (auto simp: interp_ok_def ring_ok_push recent_push jitter_ok_packet snapshot_ok_def dest!: in_set_takeD)
qed

lemma interp_ok_new: "interp_ok EntityInterpState_new"
  by (simp add: interp_ok_def ring_ok_new recent_new)
    (simp add: EntityInterpState_new_def jitter_ok_new SnapCorrection_new_def snap_ok_def)

datatype ip_op =
    OpAdd EntityID f32 Vec3 Quat u8 u8
  | OpGet EntityID f32
  | OpRemove EntityID
  | OpIpClear
  | OpUpdate f32

fun ip_apply :: "(f32 \<Rightarrow> f32) \<Rightarrow> (f32 \<Rightarrow> f32) \<Rightarrow> ip_op \<Rightarrow> Interpolation \<Rightarrow> Interpolation" where
  "ip_apply acosf sinf (OpAdd k ts p r ms an) ip = AddSnapshot k ts p r ms an ip"
| "ip_apply acosf sinf (OpGet k t) ip = snd (GetInterpolated acosf sinf k t ip)"
| "ip_apply acosf sinf (OpRemove k) ip = Interpolation_RemoveEntity k ip"
| "ip_apply acosf sinf OpIpClear ip = Interpolation_Clear ip"
| "ip_apply acosf sinf (OpUpdate dt) ip = Interpolation_Update dt ip"

text \<open>Times come from the clock: arrival times are finite, frame times are finite and not negative.\<close>

fun ip_pre :: "ip_op \<Rightarrow> Interpolation \<Rightarrow> bool" where
  "ip_pre (OpAdd k ts p r ms an) ip \<longleftrightarrow> f32_isfinite ts"
| "ip_pre (OpUpdate dt) ip \<longleftrightarrow> frame_time dt"
| "ip_pre _ ip \<longleftrightarrow> True"

lemma AddSnapshot_inv: "ip_inv ip \<Longrightarrow> f32_isfinite ts \<Longrightarrow> ip_inv (AddSnapshot k ts p r ms an ip)"
  by (auto simp: ip_inv_def AddSnapshot_def Let_def um_find_set push_state_ok interp_ok_new split: option.splits)

lemma snap_update_ok: "interp_ok st \<Longrightarrow> snap_ok c \<Longrightarrow> interp_ok (st\<lparr>is_snap := c\<rparr>)"
  by (simp add: interp_ok_def)

lemma GetInterpolated_inv:
  assumes "ip_inv ip" shows "ip_inv (snd (GetInterpolated acosf sinf k t ip))"
proof -
  have "snap_ok (snd (SnapCorrection_Apply (ip_deltaTime ip) (is_snap st)))" if "um_find (ip_entities ip) k = Some st" for st
    using assms that by (intro snap_ok_apply) (auto simp: ip_inv_def interp_ok_def)
  then show ?thesis using assms
    by (auto simp: GetInterpolated_def ip_inv_def um_find_modify snap_update_ok split: option.splits prod.splits)
qed

lemma ip_step: "ip_inv ip \<Longrightarrow> ip_pre x ip \<Longrightarrow> ip_inv (ip_apply acosf sinf x ip)"
  by (cases x) (auto simp: AddSnapshot_inv GetInterpolated_inv, auto simp: ip_inv_def Interpolation_RemoveEntity_def
      Interpolation_Clear_def Interpolation_Update_def um_find_erase split: if_splits)

interpretation interpolation: run_invariant "ip_apply acosf sinf" ip_pre ip_inv
  by unfold_locales (rule ip_step)

lemma Interpolation_new_inv: "ip_inv Interpolation_new"
  by (simp add: ip_inv_def Interpolation_new_def frame_time_def f32_eval)

section \<open>Properties\<close>

text \<open>The snapshots of one entity, newest first.\<close>

definition snapshots_of :: "EntityID \<Rightarrow> Interpolation \<Rightarrow> Snapshot list" where
  "snapshots_of k ip = (case um_find (ip_entities ip) k of None \<Rightarrow> [] | Some st \<Rightarrow> recent st)"

text \<open>
  C27.  The ring buffer implements a queue of the last eight snapshots: a snapshot with a finite pose goes
  to the front of its entity's queue and pushes the ninth out, a pose with a NaN or infinite component
  changes nothing, and no other entity is touched.
\<close>

theorem snapshot_queue_refines:
  assumes "run_ok ip_pre (ip_apply acosf sinf) ops Interpolation_new"
  defines "ip \<equiv> fold (ip_apply acosf sinf) ops Interpolation_new"
  shows "(\<not> finite_pose p r \<longrightarrow> AddSnapshot k ts p r ms an ip = ip) \<and>
    (finite_pose p r \<longrightarrow> (\<exists>v. snapshots_of k (AddSnapshot k ts p r ms an ip) =
       take 8 (\<lparr>sn_timestamp = ts, sn_tick = 0, sn_position = p, sn_velocity = v, sn_rotation = r, sn_moveSpeed = ms,
                sn_animState = an\<rparr> # snapshots_of k ip))) \<and>
    (\<forall>j. j \<noteq> k \<longrightarrow> snapshots_of j (AddSnapshot k ts p r ms an ip) = snapshots_of j ip)"
proof -
  have inv: "ip_inv ip" unfolding ip_def by (rule interpolation.run [OF Interpolation_new_inv assms(1)])
  have ok: "ring_ok (case um_find (ip_entities ip) k of None \<Rightarrow> EntityInterpState_new | Some st \<Rightarrow> st)"
    using inv by (auto simp: ip_inv_def interp_ok_def ring_ok_new split: option.splits)
  have r: "recent (case um_find (ip_entities ip) k of None \<Rightarrow> EntityInterpState_new | Some st \<Rightarrow> st) = snapshots_of k ip"
    by (simp add: snapshots_of_def recent_new split: option.splits)
  show ?thesis using push_state_recent [OF ok] unfolding r
    by (simp add: AddSnapshot_def snapshots_of_def Let_def um_find_set)
qed

definition example_pose :: "Vec3 \<times> Quat" where
  "example_pose = (Vec3_new (f32_of_int 3) 0 (f32_of_int 4), Quat_default)"

lemma example_pose_finite: "finite_pose (fst example_pose) (snd example_pose)"
  by (simp add: example_pose_def finite_pose_def Vec3_new_def Quat_default_def quat_comps_def f32_eval)

theorem snapshot_queue_refines_witness:
  "\<exists>v. snapshots_of 7 (AddSnapshot 7 (f32_of_int 1) (fst example_pose) (snd example_pose) 2 3 Interpolation_new) =
     [\<lparr>sn_timestamp = f32_of_int 1, sn_tick = 0, sn_position = fst example_pose, sn_velocity = v,
       sn_rotation = snd example_pose, sn_moveSpeed = 2, sn_animState = 3\<rparr>]"
  using snapshot_queue_refines [of id id "[]" "fst example_pose" "snd example_pose" 7 "f32_of_int 1" 2 3] example_pose_finite
  by (simp add: snapshots_of_def Interpolation_new_def)

text \<open>
  Whatever packets arrive in whatever order, the render delay of every entity stays between 50 ms and
  200 ms, at most eight snapshots are kept, and no kept position or rotation has a NaN or infinite component.
\<close>

theorem interpolation_bounds:
  assumes "run_ok ip_pre (ip_apply acosf sinf) ops Interpolation_new"
    and "um_find (ip_entities (fold (ip_apply acosf sinf) ops Interpolation_new)) k = Some st"
  shows "f32_le (f32_lit 5 100) (GetDelay (is_jitter st)) \<and> f32_le (GetDelay (is_jitter st)) (f32_lit 2 10) \<and>
    length (recent st) \<le> 8 \<and> (\<forall>x \<in> set (recent st). finite_pose (sn_position x) (sn_rotation x))"
proof -
  have "interp_ok st" using interpolation.run [OF Interpolation_new_inv assms(1)] assms(2) by (auto simp: ip_inv_def)
  then show ?thesis
    by (auto simp: interp_ok_def jitter_ok_def GetDelay_def KMP_INTERP_DELAY_MIN_def KMP_INTERP_DELAY_MAX_def
        snapshot_ok_def ring_ok_def recent_def)
qed

theorem interpolation_bounds_witness:
  "f32_le (f32_lit 5 100) (GetDelay (is_jitter (push_state (f32_of_int 1) (fst example_pose) (snd example_pose) 2 3 EntityInterpState_new)))"
proof -
  let ?ops = "[OpAdd 7 (f32_of_int 1) (fst example_pose) (snd example_pose) 2 3]"
  have "run_ok ip_pre (ip_apply id id) ?ops Interpolation_new" by (simp add: f32_eval)
  moreover have "um_find (ip_entities (fold (ip_apply id id) ?ops Interpolation_new)) 7 =
      Some (push_state (f32_of_int 1) (fst example_pose) (snd example_pose) 2 3 EntityInterpState_new)"
    using example_pose_finite by (simp add: AddSnapshot_def Interpolation_new_def um_set_def)
  ultimately show ?thesis using interpolation_bounds [of id id ?ops 7] by blast
qed

text \<open>The snapshots that bracket a time.\<close>

definition latest_before :: "EntityInterpState \<Rightarrow> f32 \<Rightarrow> Snapshot \<Rightarrow> bool" where
  "latest_before st time b \<longleftrightarrow> b \<in> set (recent st) \<and> f32_le (sn_timestamp b) time \<and>
     (\<forall>x \<in> set (recent st). f32_le (sn_timestamp x) time \<longrightarrow> f32_le (sn_timestamp x) (sn_timestamp b))"

definition earliest_after :: "EntityInterpState \<Rightarrow> f32 \<Rightarrow> Snapshot \<Rightarrow> bool" where
  "earliest_after st time a \<longleftrightarrow> a \<in> set (recent st) \<and> f32_le time (sn_timestamp a) \<and>
     (\<forall>x \<in> set (recent st). f32_le time (sn_timestamp x) \<longrightarrow> f32_le (sn_timestamp a) (sn_timestamp x))"

lemma recent_slots:
  assumes "ring_ok st"
  shows "slot st ` {x. \<exists>i \<in> set [0..is_count st - 1]. Snapshot_Get i st = Some x} = set (recent st)"
proof -
  have "{x. \<exists>i \<in> set [0..is_count st - 1]. Snapshot_Get i st = Some x} = (\<lambda>a. (is_head st - 1 - int a + 16) mod 8) ` {0..<nat (is_count st)}"
    by (auto simp: Snapshot_Get_def KMP_MAX_SNAPSHOTS_def image_iff zle_diff1_eq)
      (metis atLeastLessThan_iff int_nat_eq nat_less_le nat_mono_iff order.strict_trans1 zero_le)+
  then show ?thesis by (simp add: recent_def image_image)
qed

lemma spec_recent:
  assumes "slot st ` X = set (recent st)"
  shows "before_spec st time X (Some b) \<Longrightarrow> latest_before st time (slot st b)"
    "after_spec st time X (Some a) \<Longrightarrow> earliest_after st time (slot st a)"
    "before_spec st time X None \<Longrightarrow> x \<in> set (recent st) \<Longrightarrow> \<not> f32_le (sn_timestamp x) time"
    "after_spec st time X None \<Longrightarrow> x \<in> set (recent st) \<Longrightarrow> \<not> f32_le time (sn_timestamp x)"
  unfolding latest_before_def earliest_after_def assms [symmetric] by (auto simp: before_spec_def after_spec_def)

lemma clamp_unit:
  assumes "\<not> f32_isnan t"
  shows "f32_le 0 (f32_clamp t 0 (f32_of_int 1)) \<and> f32_le (f32_clamp t 0 (f32_of_int 1)) (f32_of_int 1)"
proof -
  have k: "f32_key 0 = 0" "f32_key (f32_of_int 1) = 1065353216" by (simp_all add: f32_eval)
  then show ?thesis using f32_clamp_key [OF assms, of 0 "f32_of_int 1"] by (simp add: f32_le_def f32_class_key mag_inf_def)
qed

lemma blend_factor_unit:
  assumes "f32_isfinite (sn_timestamp b)" "f32_isfinite (f32_sub (sn_timestamp a) (sn_timestamp b))" "\<not> f32_isnan time"
  shows "f32_le 0 (blend_factor time b a) \<and> f32_le (blend_factor time b a) (f32_of_int 1)"
proof -
  have "f32_key (f32_lit 1 1000) = 981668463" by (simp add: f32_eval)
  then have "f32_mag x \<noteq> 0" if "f32_lt (f32_lit 1 1000) x" for x
    using that by (auto simp: f32_lt_def f32_key_def [of x] split: if_splits)
  then have "\<not> f32_isnan (f32_div (f32_sub time (sn_timestamp b)) x)" if "f32_lt (f32_lit 1 1000) x" "f32_isfinite x" for x
    using assms(1,3) that by (simp add: div_not_nan sub_not_nan_finite)
  moreover have "\<not> f32_isnan 0" by (simp add: f32_isnan_def f32_mag_def)
  ultimately show ?thesis unfolding blend_factor_def Let_def using assms(2) by (intro clamp_unit) (simp split: if_split)
qed

text \<open>
  C28.  Rendering an entity that has snapshots always gives a pose, made from the snapshots around the render
  time less the delay: the earliest one when all lie in the future, an interpolation between the latest one
  before and the earliest one after, or, when there is none after, the latest one, moved on by its velocity
  for at most a quarter of a second.  Without snapshots there is no pose.
\<close>

theorem rendering_brackets:
  assumes "interp_ok st" "\<not> f32_isnan t"
  defines "time \<equiv> f32_sub t (GetDelay (is_jitter st))"
  shows "if recent st = [] then InterpolateEntity acosf sinf st t = None
    else (\<exists>a. (\<forall>x \<in> set (recent st). \<not> f32_le (sn_timestamp x) time) \<and> earliest_after st time a \<and>
            InterpolateEntity acosf sinf st t = Some (snapshot_pose a)) \<or>
         (\<exists>b. latest_before st time b \<and> ((\<forall>x \<in> set (recent st). \<not> f32_le time (sn_timestamp x)) \<or> earliest_after st time b) \<and>
            InterpolateEntity acosf sinf st t = Some (extrapolate time b)) \<or>
         (\<exists>b a. latest_before st time b \<and> earliest_after st time a \<and> InterpolateEntity acosf sinf st t = Some (blend acosf sinf time b a))"
proof (cases "recent st = []")
  case True
  then have "is_count st = 0" using assms(1) by (auto simp: interp_ok_def ring_ok_def recent_def)
  with True show ?thesis by (simp add: InterpolateEntity_def)
next
  case False
  have r: "ring_ok st" and c: "is_count st \<noteq> 0" using assms(1) False by (auto simp: interp_ok_def ring_ok_def recent_def)
  have d: "f32_isfinite (GetDelay (is_jitter st))"
    using assms(1) by (auto simp: interp_ok_def jitter_ok_def GetDelay_def f32_le_def KMP_INTERP_DELAY_MAX_def KMP_INTERP_DELAY_MIN_def f32_class_key f32_eval)
  then have time: "\<not> f32_isnan time" unfolding time_def using assms(2) by (simp add: sub_not_nan_finite)
  let ?X = "{x. \<exists>i \<in> set [0..is_count st - 1]. Snapshot_Get i st = Some x}"
  obtain b a where ba: "bracket st time [0..is_count st - 1] (None, None) = (b, a)" by fastforce
  have s: "before_spec st time ?X b" "after_spec st time ?X a"
    using bracket_spec [OF _ _ ba, of "{}"] by (auto simp: before_spec_def after_spec_def)
  note sr = spec_recent [OF recent_slots [OF r]]
  have some: "b \<noteq> None \<or> a \<noteq> None"
  proof (rule ccontr)
    assume "\<not> ?thesis"
    then have n: "b = None" "a = None" by simp_all
    let ?x = "hd (recent st)"
    have x: "?x \<in> set (recent st)" using False by simp
    with n s sr(3) [of time ?x] sr(4) [of time ?x] have "\<not> f32_le (sn_timestamp ?x) time" "\<not> f32_le time (sn_timestamp ?x)" by simp_all
    moreover have "\<not> f32_isnan (sn_timestamp ?x)" using assms(1) x by (simp add: interp_ok_def snapshot_ok_def f32_class_excl)
    ultimately show False using time by (simp add: f32_le_def)
  qed
  have I: "InterpolateEntity acosf sinf st t = (case (b, a) of (None, None) \<Rightarrow> None | (None, Some a) \<Rightarrow> Some (snapshot_pose (slot st a))
      | (Some b, None) \<Rightarrow> Some (extrapolate time (slot st b))
      | (Some b, Some a) \<Rightarrow> if a = b then Some (extrapolate time (slot st b)) else Some (blend acosf sinf time (slot st b) (slot st a)))"
    using c by (simp add: InterpolateEntity_def time_def [symmetric] ba Let_def)
  show ?thesis
  proof (cases b)
    case None
    with some obtain a1 where "a = Some a1" by auto
    with None s sr(2) [of time a1] sr(3) [of time] have "earliest_after st time (slot st a1)"
      "\<forall>x \<in> set (recent st). \<not> f32_le (sn_timestamp x) time" by auto
    with None \<open>a = Some a1\<close> False show ?thesis unfolding I by auto
  next
    case (Some b1)
    then have lb: "latest_before st time (slot st b1)" using s(1) sr(1) by simp
    show ?thesis
    proof (cases a)
      case None
      then have "\<forall>x \<in> set (recent st). \<not> f32_le time (sn_timestamp x)" using s(2) sr(4) [of time] by auto
      with None Some lb False show ?thesis unfolding I by auto
    next
      case (Some a1)
      then have "earliest_after st time (slot st a1)" using s(2) sr(2) by simp
      with \<open>b = Some b1\<close> Some lb False show ?thesis unfolding I by (cases "a1 = b1") auto
    qed
  qed
qed

theorem rendering_brackets_witness:
  "InterpolateEntity id id (push_state (f32_of_int 1) (fst example_pose) (snd example_pose) 2 3 EntityInterpState_new) (f32_of_int 9) \<noteq> None"
proof -
  let ?st = "push_state (f32_of_int 1) (fst example_pose) (snd example_pose) 2 3 EntityInterpState_new"
  have ok: "interp_ok ?st" by (rule push_state_ok [OF interp_ok_new example_pose_finite]) (simp add: f32_eval)
  have "recent ?st \<noteq> []" using push_state_recent [OF ring_ok_new, of "f32_of_int 1" "fst example_pose" "snd example_pose" 2 3] by auto
  moreover have "\<not> f32_isnan (f32_of_int 9)" by (simp add: f32_eval)
  ultimately show ?thesis using rendering_brackets [OF ok, of "f32_of_int 9" id id] by auto
qed

text \<open>
  A running snap correction only fades: each frame moves the rendered position by a fraction between
  zero and one of the recorded error, its timer never grows, and it ends exactly when the timer runs out.
\<close>

theorem snap_correction_fades:
  assumes "snap_ok c" "frame_time dt" "sc_active c"
  defines "c' \<equiv> snd (SnapCorrection_Apply dt c)"
  shows "f32_le (sc_blendTimer c') (sc_blendTimer c) \<and> (sc_active c' \<longleftrightarrow> f32_lt 0 (sc_blendTimer c')) \<and>
    (\<not> sc_active c' \<longrightarrow> fst (SnapCorrection_Apply dt c) = Vec3_new 0 0 0) \<and>
    (sc_active c' \<longrightarrow> (\<exists>ratio. f32_le 0 ratio \<and> f32_le ratio (f32_of_int 1) \<and>
       fst (SnapCorrection_Apply dt c) = Vec3_scale (sc_errorOffset c) ratio))"
proof -
  let ?x = "f32_sub (sc_blendTimer c) dt"
  have x: "\<not> f32_isnan ?x" "f32_key ?x \<le> f32_key (sc_blendTimer c)" by (rule Apply_timer [OF assms(1-3)])+
  have c: "sc_blendTotal c = KMP_SNAP_CORRECT_SEC" "f32_key (sc_blendTimer c) \<le> f32_key KMP_SNAP_CORRECT_SEC" "\<not> f32_isnan (sc_blendTimer c)"
    using assms by (auto simp: snap_ok_def f32_le_def)
  have unit: "f32_le 0 (f32_div ?x KMP_SNAP_CORRECT_SEC) \<and> f32_le (f32_div ?x KMP_SNAP_CORRECT_SEC) (f32_of_int 1)"
    if "\<not> f32_le ?x 0"
  proof -
    have k: "0 \<le> f32_key ?x" "f32_key ?x \<le> 1041865114" using that x c by (auto simp: f32_le_def snap_key f32_class_key mag_inf_def)
    have s: "f32_sval KMP_SNAP_CORRECT_SEC = ksval 1041865114" by (simp add: f32_sval_key snap_key)
    have "f32_between (ksval 0) (ksval 1041865114) ?x" using f32_between_keys [OF k] by (simp add: mag_inf_def)
    then have b: "f32_between (ksval 0) (ksval 1065353216) (f32_div ?x KMP_SNAP_CORRECT_SEC)"
      by (rule f32_between_div_pos) (simp_all add: s f32_class_key snap_key mag_inf_def ksval_def mag_int_def)
    have one: "f32_isfinite 0" "f32_isfinite (f32_of_int 1)" "f32_sval 0 = ksval 0" "f32_sval (f32_of_int 1) = ksval 1065353216"
      by (simp_all add: f32_eval ksval_def)
    show ?thesis using b one by (simp add: f32_between_def f32_le_sval)
  qed
  have z: "f32_lt 0 ?x \<longleftrightarrow> \<not> f32_le ?x 0" using x(1) by (auto simp: f32_lt_def f32_le_def f32_class_key snap_key mag_inf_def)
  show ?thesis using x c unit assms(3)
    by (auto simp: c'_def SnapCorrection_Apply_def Let_def z f32_le_def [of ?x "sc_blendTimer c"])
qed

theorem snap_correction_fades_witness:
  "let c = \<lparr>sc_active = True, sc_errorOffset = Vec3_new (f32_of_int 8) 0 0, sc_blendTimer = KMP_SNAP_CORRECT_SEC,
            sc_blendTotal = KMP_SNAP_CORRECT_SEC\<rparr>
   in f32_le (sc_blendTimer (snd (SnapCorrection_Apply (f32_lit 1 100) c))) (sc_blendTimer c)"
proof -
  let ?c = "\<lparr>sc_active = True, sc_errorOffset = Vec3_new (f32_of_int 8) 0 0, sc_blendTimer = KMP_SNAP_CORRECT_SEC,
            sc_blendTotal = KMP_SNAP_CORRECT_SEC\<rparr>"
  have "snap_ok ?c" by (simp add: snap_ok_def f32_lt_def f32_le_def f32_class_key snap_key mag_inf_def)
  moreover have "frame_time (f32_lit 1 100)" by (simp add: frame_time_def f32_eval)
  ultimately show ?thesis using snap_correction_fades [of ?c "f32_lit 1 100"] by (simp add: Let_def)
qed

end
