(* ===== verification/Client_Session.thy ===== *)
theory Client_Session
  imports Zone_Engine Interpolation
begin

text \<open>
  The client's side of entity replication: \<^verbatim>\<open>sync/authority_validator.cpp\<close>, \<^verbatim>\<open>sync/pending_snapshot_queue.cpp\<close>,
  \<^verbatim>\<open>sync/deferred_spawn_queue.cpp\<close> and the handlers of \<^verbatim>\<open>net/packet_handler.cpp\<close> for spawn, despawn, position
  and move messages, a player leaving and the ready signal, all under \<^verbatim>\<open>KenshiMP.Core\<close>.  The registry and the
  interpolation buffers are state; calls into the game process and into the subsystems around it are recorded
  in order as effects.  Logging and HUD texts are left out.  The health array of a \<^verbatim>\<open>DeferredSpawn\<close> without
  extended state is uninitialised in the code and never read; the model fills it with the default.
\<close>

section \<open>Validation of inbound snapshots\<close>

datatype SnapshotDecision = ApplyRemote | ReconcileLocal | QueuePendingSpawn | RejectAuthorityViolation | RejectEcho
  | RejectStaleGeneration | RejectDestroyed | RejectUnknown

definition ValidateInboundSnapshot :: "CharacterPosition \<Rightarrow> u32 \<Rightarrow> u32 \<Rightarrow> EntityRegistry \<Rightarrow> SnapshotDecision" where
  "ValidateInboundSnapshot pos sourcePlayerId myPlayerId registry =
     (case GetInfo (CharacterPosition_entityId pos) registry of
        None \<Rightarrow> QueuePendingSpawn
      | Some info \<Rightarrow>
          if ei_generation info \<noteq> CharacterPosition_generation pos then RejectStaleGeneration
          else if ei_state info = Inactive then RejectDestroyed
          else let ownerPlayerId = GetOwnerPlayerId (CharacterPosition_entityId pos) registry in
            if ownerPlayerId = myPlayerId then ReconcileLocal
            else if ownerPlayerId \<noteq> sourcePlayerId then RejectAuthorityViolation
            else if IsRemote (CharacterPosition_entityId pos) registry then ApplyRemote
            else RejectUnknown)"

section \<open>State\<close>

record PendingSnapshot =
  pn_position :: CharacterPosition
  pn_sourcePlayerId :: u32
  pn_timestamp :: f32

record DeferredSpawn =
  df_entityId :: u32
  df_generation :: u32
  df_type :: u8
  df_ownerId :: u32
  df_templateId :: u32
  df_pos :: Vec3
  df_compressedQuat :: u32
  df_factionId :: u32
  df_templateName :: bytes
  df_health :: "f32 list"
  df_hasExtendedHealth :: bool
  df_isAlive :: bool
  df_timestamp :: f32

record SpawnRequest =
  rq_netId :: EntityID
  rq_owner :: PlayerID
  rq_type :: EntityType
  rq_templateName :: bytes
  rq_position :: Vec3
  rq_rotation :: Quat
  rq_templateId :: u32
  rq_factionId :: u32
  rq_retryCount :: u32
  rq_hasExtendedState :: bool
  rq_health :: "f32 list"
  rq_alive :: bool

text \<open>Calls that leave the modelled part, in the order the code makes them.\<close>

datatype game_effect =
    MarkRemoteControlled u64
  | UnmarkRemoteControlled u64
  | PushWritePosition u64 Vec3
  | WritePosition u64 Vec3
  | WritePlayerControlled u64 bool
  | OnRemoteCharSpawned EntityID u64 PlayerID
  | WriteGameDataName u64 PlayerID
  | ScheduleAnimProbe u64
  | WriteLimbHealth u64 "f32 list"
  | CreateProxy EntityID PlayerID Vec3 Quat
  | AllyModFaction u64
  | QueueSpawn SpawnRequest
  | ClearSpawnsForOwner PlayerID
  | DecrementSpawnCount PlayerID
  | OnRemotePositionReceived Vec3
  | RecordActivity PlayerID
  | RemoveRemotePlayer PlayerID
  | OnRemotePlayerLeft PlayerID
  | ZoneRemovePlayer PlayerID
  | ClearInterest PlayerID

datatype ClientPhase = Startup | MainMenu | Loading | GameReady | Connecting | Connected

fun phase_code :: "ClientPhase \<Rightarrow> nat" where
  "phase_code Startup = 0"
| "phase_code MainMenu = 1"
| "phase_code Loading = 2"
| "phase_code GameReady = 3"
| "phase_code Connecting = 4"
| "phase_code Connected = 5"

record Client =
  cl_registry :: EntityRegistry
  cl_interp :: Interpolation
  cl_pending :: "(u32, PendingSnapshot list) umap"
  cl_deferred :: "DeferredSpawn list"
  cl_localPlayerId :: PlayerID
  cl_gameLoaded :: bool
  cl_phase :: ClientPhase
  cl_hostSpawnPoint :: "Vec3 option"
  cl_effects :: "game_effect list"

text \<open>
  What a handler gets from outside: the session clock, the mod characters of the loaded game by player slot
  (null when there is none), the conversion to the ANSI code page, the C library functions of \<^verbatim>\<open>Slerp\<close>, and
  whether the synchronisation orchestrator exists.
\<close>

record client_env =
  ce_now :: f32
  ce_modCharacter :: "i32 \<Rightarrow> u64"
  ce_utf8ToAnsi :: "bytes \<Rightarrow> bytes"
  ce_acosf :: "f32 \<Rightarrow> f32"
  ce_sinf :: "f32 \<Rightarrow> f32"
  ce_orchestrator :: bool

definition emit :: "game_effect list \<Rightarrow> Client \<Rightarrow> Client" where
  "emit es c = c\<lparr>cl_effects := cl_effects c @ es\<rparr>"

definition on_registry :: "(EntityRegistry \<Rightarrow> EntityRegistry) \<Rightarrow> Client \<Rightarrow> Client" where
  "on_registry f c = c\<lparr>cl_registry := f (cl_registry c)\<rparr>"

definition on_interp :: "(Interpolation \<Rightarrow> Interpolation) \<Rightarrow> Client \<Rightarrow> Client" where
  "on_interp f c = c\<lparr>cl_interp := f (cl_interp c)\<rparr>"

section \<open>Pending snapshots\<close>

definition cp_vec :: "CharacterPosition \<Rightarrow> Vec3" where
  "cp_vec pos = Vec3_new (CharacterPosition_posX pos) (CharacterPosition_posY pos) (CharacterPosition_posZ pos)"

definition PendingQueue :: "client_env \<Rightarrow> CharacterPosition \<Rightarrow> u32 \<Rightarrow> Client \<Rightarrow> Client" where
  "PendingQueue env pos sourcePlayer c =
     (let k = CharacterPosition_entityId pos;
          old = (case um_find (cl_pending c) k of None \<Rightarrow> [] | Some xs \<Rightarrow> xs)
      in c\<lparr>cl_pending := um_set k (old @ [\<lparr>pn_position = pos, pn_sourcePlayerId = sourcePlayer, pn_timestamp = ce_now env\<rparr>]) (cl_pending c)\<rparr>)"

definition flush_one :: "PendingSnapshot \<Rightarrow> Interpolation \<Rightarrow> Interpolation" where
  "flush_one x = (let pos = pn_position x in
     AddSnapshot (CharacterPosition_entityId pos) (pn_timestamp x) (cp_vec pos) (Decompress (CharacterPosition_compressedQuat pos))
       (CharacterPosition_moveSpeed pos) (CharacterPosition_animStateId pos))"

definition FlushForEntity :: "u32 \<Rightarrow> Client \<Rightarrow> Client" where
  "FlushForEntity entityId c = (case um_find (cl_pending c) entityId of
     None \<Rightarrow> c
   | Some xs \<Rightarrow> (on_interp (fold flush_one xs) c)\<lparr>cl_pending := um_erase entityId (cl_pending c)\<rparr>)"

definition CleanupOld :: "f32 \<Rightarrow> f32 \<Rightarrow> Client \<Rightarrow> Client" where
  "CleanupOld currentTime maxAge c = (let cutoff = f32_sub currentTime maxAge in
     c\<lparr>cl_pending := filter (\<lambda>(k, xs). xs \<noteq> []) (map (\<lambda>(k, xs). (k, filter (\<lambda>x. \<not> f32_lt (pn_timestamp x) cutoff) xs)) (cl_pending c))\<rparr>)"

section \<open>Spawning\<close>

definition nonzero_pos :: "Vec3 \<Rightarrow> bool" where
  "nonzero_pos p \<longleftrightarrow> \<not> f32_eq (vx p) 0 \<or> \<not> f32_eq (vy p) 0 \<or> \<not> f32_eq (vz p) 0"

text \<open>The server confirms one of the client's own entities.\<close>

definition confirm_own :: "EntityID \<Rightarrow> PlayerID \<Rightarrow> Vec3 \<Rightarrow> Client \<Rightarrow> Client" where
  "confirm_own entityId ownerId spawnPos c =
     (let localId = FindLocalEntityNear spawnPos ownerId (f32_of_int 5) (cl_registry c) in
      if localId \<noteq> INVALID_ENTITY \<and> localId \<noteq> entityId
      then on_registry (\<lambda>g. snd (RemapEntityId localId entityId g)) c else c)"

definition default_limbs :: "f32 list" where
  "default_limbs = replicate 7 (f32_of_int 100)"

definition defer_spawn :: "client_env \<Rightarrow> spawn_req \<Rightarrow> Client \<Rightarrow> Client" where
  "defer_spawn env q c = c\<lparr>cl_deferred := cl_deferred c @ [
     \<lparr>df_entityId = sr_clientEntityId q, df_generation = 0, df_type = sr_type q, df_ownerId = sr_ownerId q,
      df_templateId = sr_templateId q, df_pos = sr_pos q, df_compressedQuat = sr_compQuat q, df_factionId = sr_factionId q,
      df_templateName = sr_templateName q, df_health = (case sr_extended q of None \<Rightarrow> default_limbs | Some (hs, a) \<Rightarrow> hs),
      df_hasExtendedHealth = (sr_extended q \<noteq> None), df_isAlive = (case sr_extended q of None \<Rightarrow> True | Some (hs, a) \<Rightarrow> a),
      df_timestamp = ce_now env\<rparr>]\<rparr>"

text \<open>Registration, the queued snapshots and the spawn snapshot, shared by the direct and the deferred path.\<close>

definition introduce :: "client_env \<Rightarrow> EntityID \<Rightarrow> u8 \<Rightarrow> PlayerID \<Rightarrow> Vec3 \<Rightarrow> Quat \<Rightarrow> Client \<Rightarrow> Client" where
  "introduce env entityId type ownerId spawnPos rot c =
     on_interp (AddSnapshot entityId (ce_now env) spawnPos rot 0 0)
       (FlushForEntity entityId (on_registry (RegisterRemote entityId type ownerId spawnPos) c))"

text \<open>Linking a mod character that is already in the world.\<close>

definition link_existing :: "client_env \<Rightarrow> u64 \<Rightarrow> spawn_req \<Rightarrow> Client \<Rightarrow> Client" where
  "link_existing env obj q c =
     (let entityId = sr_clientEntityId q; rot = Decompress (sr_compQuat q);
          c1 = emit [MarkRemoteControlled obj] (on_registry (UpdatePosition entityId (sr_pos q) \<circ> SetGameObject entityId obj) c);
          (out, ip) = GetInterpolated (ce_acosf env) (ce_sinf env) entityId (ce_now env) (cl_interp c1);
          bestPos = (case out of None \<Rightarrow> sr_pos q | Some o1 \<Rightarrow> po_pos o1);
          c2 = on_registry (case out of None \<Rightarrow> id | Some o1 \<Rightarrow> UpdatePosition entityId bestPos) (c1\<lparr>cl_interp := ip\<rparr>);
          c3 = (if cl_gameLoaded c2 \<and> nonzero_pos bestPos then emit [PushWritePosition obj bestPos] c2 else c2);
          c4 = emit [OnRemoteCharSpawned entityId obj (sr_ownerId q), WriteGameDataName obj (sr_ownerId q), ScheduleAnimProbe obj] c3;
          c5 = (case sr_extended q of
                  Some (hs, alive) \<Rightarrow> if cl_gameLoaded c4
                    then emit [WriteLimbHealth obj hs] (on_registry (UpdateLimbHealth entityId hs) c4) else c4
                | None \<Rightarrow> c4)
      in emit [CreateProxy entityId (sr_ownerId q) (sr_pos q) rot, AllyModFaction obj] c5)"

definition spawn_request :: "client_env \<Rightarrow> spawn_req \<Rightarrow> SpawnRequest" where
  "spawn_request env q = \<lparr>rq_netId = sr_clientEntityId q, rq_owner = sr_ownerId q, rq_type = sr_type q,
     rq_templateName = ce_utf8ToAnsi env (sr_templateName q), rq_position = sr_pos q, rq_rotation = Decompress (sr_compQuat q),
     rq_templateId = sr_templateId q, rq_factionId = sr_factionId q, rq_retryCount = 0,
     rq_hasExtendedState = (sr_extended q \<noteq> None), rq_health = (case sr_extended q of None \<Rightarrow> default_limbs | Some (hs, a) \<Rightarrow> hs),
     rq_alive = (case sr_extended q of None \<Rightarrow> True | Some (hs, a) \<Rightarrow> a)\<rparr>"

definition Client_HandleEntitySpawn :: "client_env \<Rightarrow> PacketReader \<Rightarrow> Client \<Rightarrow> Client" where
  "Client_HandleEntitySpawn env r c = (case read_spawn_req r of
     None \<Rightarrow> c
   | Some q \<Rightarrow>
       let entityId = sr_clientEntityId q; ownerId = sr_ownerId q; spawnPos = sr_pos q; rot = Decompress (sr_compQuat q) in
       if ownerId = cl_localPlayerId c then confirm_own entityId ownerId spawnPos c
       else if \<not> cl_gameLoaded c \<or> phase_code (cl_phase c) < phase_code GameReady then defer_spawn env q c
       else
         let c1 = (if cl_hostSpawnPoint c = None \<and> \<not> f32_eq (vx spawnPos) 0 \<and> \<not> f32_eq (vz spawnPos) 0
                   then c\<lparr>cl_hostSpawnPoint := Some spawnPos\<rparr> else c);
             c2 = introduce env entityId (sr_type q) ownerId spawnPos rot c1;
             found = ce_modCharacter env ownerId;
             linkedId = (if found \<noteq> 0 then GetNetId found (cl_registry c2) else INVALID_ENTITY);
             existing = (if found \<noteq> 0 \<and> linkedId \<noteq> INVALID_ENTITY \<and> linkedId \<noteq> entityId then 0 else found)
         in if existing \<noteq> 0 then link_existing env existing q c2
            else emit [QueueSpawn (spawn_request env q)] c2)"

definition ProcessDeferredSpawn :: "client_env \<Rightarrow> DeferredSpawn \<Rightarrow> Client \<Rightarrow> Client" where
  "ProcessDeferredSpawn env ds c =
     (let entityId = df_entityId ds; ownerId = df_ownerId ds; spawnPos = df_pos ds; rot = Decompress (df_compressedQuat ds) in
      if ownerId = cl_localPlayerId c then c
      else
        let c1 = introduce env entityId (df_type ds) ownerId spawnPos rot c;
            existing = ce_modCharacter env ownerId;
            linkedId = (if existing \<noteq> 0 then GetNetId existing (cl_registry c1) else INVALID_ENTITY)
        in if existing \<noteq> 0 \<and> linkedId = INVALID_ENTITY then
             let c2 = emit [MarkRemoteControlled existing] (on_registry (UpdatePosition entityId spawnPos \<circ> SetGameObject entityId existing) c1);
                 c3 = (if cl_gameLoaded c2 \<and> nonzero_pos spawnPos then emit [PushWritePosition existing spawnPos] c2 else c2);
                 c4 = emit [OnRemoteCharSpawned entityId existing ownerId, WriteGameDataName existing ownerId, ScheduleAnimProbe existing] c3
             in if df_hasExtendedHealth ds \<and> cl_gameLoaded c4
                then emit [WriteLimbHealth existing (df_health ds)] (on_registry (UpdateLimbHealth entityId (df_health ds)) c4)
                else c4
           else emit [QueueSpawn \<lparr>rq_netId = entityId, rq_owner = ownerId, rq_type = df_type ds, rq_templateName = df_templateName ds,
                  rq_position = spawnPos, rq_rotation = rot, rq_templateId = df_templateId ds, rq_factionId = df_factionId ds,
                  rq_retryCount = 0, rq_hasExtendedState = False, rq_health = default_limbs, rq_alive = True\<rparr>] c1)"

definition ProcessAll :: "client_env \<Rightarrow> Client \<Rightarrow> Client" where
  "ProcessAll env c = (if cl_deferred c = [] then c
     else (fold (ProcessDeferredSpawn env) (cl_deferred c) c)\<lparr>cl_deferred := []\<rparr>)"

definition HandleAllPlayersReady :: "client_env \<Rightarrow> Client \<Rightarrow> Client" where
  "HandleAllPlayersReady env c = (if 0 < length (cl_deferred c) then ProcessAll env c else c)"

definition Deferred_Clear :: "Client \<Rightarrow> Client" where
  "Deferred_Clear c = c\<lparr>cl_deferred := []\<rparr>"

section \<open>Removal\<close>

definition underground :: Vec3 where
  "underground = Vec3_new 0 (f32_of_int (- 10000)) 0"

definition Client_HandleEntityDespawn :: "PacketReader \<Rightarrow> Client \<Rightarrow> Client" where
  "Client_HandleEntityDespawn r c = (case ReadU32 r of
     (None, r) \<Rightarrow> c
   | (Some entityId, r) \<Rightarrow>
       if \<not> cl_gameLoaded c then c
       else
         let c1 = (case GetInfo entityId (cl_registry c) of
                     Some i \<Rightarrow> if ei_isRemote i then emit [DecrementSpawnCount (ei_ownerPlayerId i)] c else c
                   | None \<Rightarrow> c);
             obj = GetGameObject entityId (cl_registry c1);
             c2 = (if obj \<noteq> 0 then emit [WritePosition obj underground, UnmarkRemoteControlled obj] c1 else c1)
         in on_registry (Unregister entityId) (on_interp (Interpolation_RemoveEntity entityId) (on_registry (SetGameObject entityId 0) c2)))"

definition remove_left :: "PlayerID \<Rightarrow> EntityID \<Rightarrow> Client \<Rightarrow> Client" where
  "remove_left playerId eid c =
     (let obj = GetGameObject eid (cl_registry c);
          c1 = (if obj \<noteq> 0 then emit [WritePlayerControlled obj False, WritePosition obj underground, UnmarkRemoteControlled obj] c else c)
      in on_registry (Unregister eid) (on_interp (Interpolation_RemoveEntity eid) (emit [DecrementSpawnCount playerId] c1)))"

definition HandlePlayerLeft :: "client_env \<Rightarrow> PacketReader \<Rightarrow> Client \<Rightarrow> Client" where
  "HandlePlayerLeft env r c = (case ReadStruct MsgPlayerLeft_size MsgPlayerLeft_dec r of
     (None, r) \<Rightarrow> c
   | (Some msg, r) \<Rightarrow>
       let p = MsgPlayerLeft_playerId msg;
           c1 = emit [RemoveRemotePlayer p] c;
           c2 = (if ce_orchestrator env then emit [OnRemotePlayerLeft p, ZoneRemovePlayer p, ClearInterest p] c1 else c1);
           c3 = emit [ClearSpawnsForOwner p] c2
       in fold (remove_left p) (GetPlayerEntities p (cl_registry c3)) c3)"

section \<open>Movement\<close>

definition position_step :: "client_env \<Rightarrow> u32 \<Rightarrow> CharacterPosition \<Rightarrow> bool \<times> Client \<Rightarrow> bool \<times> Client" where
  "position_step env sourcePlayer pos fc = (case fc of (fed, c) \<Rightarrow>
     let p = cp_vec pos in
     if \<exists>x \<in> set [vx p, vy p, vz p]. f32_isnan x \<or> f32_isinf x then (fed, c)
     else (case ValidateInboundSnapshot pos sourcePlayer (cl_localPlayerId c) (cl_registry c) of
        ApplyRemote \<Rightarrow>
          let c1 = on_interp (AddSnapshot (CharacterPosition_entityId pos) (ce_now env) p (Decompress (CharacterPosition_compressedQuat pos))
                     (CharacterPosition_moveSpeed pos) (CharacterPosition_animStateId pos)) c
          in if \<not> fed \<and> sourcePlayer \<noteq> 0 \<and> sourcePlayer \<noteq> cl_localPlayerId c \<and> nonzero_pos p
             then (True, emit [OnRemotePositionReceived p] c1) else (fed, c1)
      | QueuePendingSpawn \<Rightarrow> (fed, PendingQueue env pos sourcePlayer c)
      | _ \<Rightarrow> (fed, c)))"

fun client_position_loop :: "client_env \<Rightarrow> u32 \<Rightarrow> nat \<Rightarrow> PacketReader \<Rightarrow> bool \<times> Client \<Rightarrow> bool \<times> Client" where
  "client_position_loop env sourcePlayer 0 r fc = fc"
| "client_position_loop env sourcePlayer (Suc n) r fc = (case ReadStruct CharacterPosition_size CharacterPosition_dec r of
     (None, r) \<Rightarrow> fc
   | (Some pos, r) \<Rightarrow> client_position_loop env sourcePlayer n r (position_step env sourcePlayer pos fc))"

definition Client_HandlePositionUpdate :: "client_env \<Rightarrow> PacketReader \<Rightarrow> Client \<Rightarrow> Client" where
  "Client_HandlePositionUpdate env r c = (case ReadU32 r of
     (None, r) \<Rightarrow> c
   | (Some sourcePlayer, r) \<Rightarrow> (case ReadU8 r of
       (None, r) \<Rightarrow> c
     | (Some n, r) \<Rightarrow>
         let c1 = snd (client_position_loop env sourcePlayer (unat n) r (False, c))
         in if ce_orchestrator env then emit [RecordActivity sourcePlayer] c1 else c1))"

definition Client_HandleMoveCommand :: "client_env \<Rightarrow> PacketReader \<Rightarrow> Client \<Rightarrow> Client" where
  "Client_HandleMoveCommand env r c = (case ReadStruct MsgMoveCommand_size MsgMoveCommand_dec r of
     (None, r) \<Rightarrow> c
   | (Some msg, r) \<Rightarrow>
       if \<not> cl_gameLoaded c then c
       else on_interp (AddSnapshot (MsgMoveCommand_entityId msg) (f32_add (ce_now env) (f32_of_int 1))
         (Vec3_new (MsgMoveCommand_targetX msg) (MsgMoveCommand_targetY msg) (MsgMoveCommand_targetZ msg)) Quat_default 0 0) c)"

section \<open>Operations as a datatype, for runs\<close>

datatype client_op =
    CSpawn PacketReader
  | CDespawn PacketReader
  | CLeft PacketReader
  | CReady
  | CPositions PacketReader
  | CMove PacketReader
  | CCleanup f32 f32
  | CClearDeferred
  | CFrame f32
  | CRender EntityID f32

fun client_apply :: "client_env \<times> client_op \<Rightarrow> Client \<Rightarrow> Client" where
  "client_apply (env, CSpawn r) c = Client_HandleEntitySpawn env r c"
| "client_apply (env, CDespawn r) c = Client_HandleEntityDespawn r c"
| "client_apply (env, CLeft r) c = HandlePlayerLeft env r c"
| "client_apply (env, CReady) c = HandleAllPlayersReady env c"
| "client_apply (env, CPositions r) c = Client_HandlePositionUpdate env r c"
| "client_apply (env, CMove r) c = Client_HandleMoveCommand env r c"
| "client_apply (env, CCleanup t m) c = CleanupOld t m c"
| "client_apply (env, CClearDeferred) c = Deferred_Clear c"
| "client_apply (env, CFrame dt) c = on_interp (Interpolation_Update dt) c"
| "client_apply (env, CRender k t) c = on_interp (\<lambda>ip. snd (GetInterpolated (ce_acosf env) (ce_sinf env) k t ip)) c"

definition Client_new :: "PlayerID \<Rightarrow> Client" where
  "Client_new p = \<lparr>cl_registry = EntityRegistry_new, cl_interp = Interpolation_new, cl_pending = [], cl_deferred = [],
     cl_localPlayerId = p, cl_gameLoaded = False, cl_phase = Startup, cl_hostSpawnPoint = None, cl_effects = []\<rparr>"

text \<open>The clock is finite and the server's entity ids are proper ids (it counts them up from one).\<close>

definition proper_id :: "EntityID \<Rightarrow> bool" where
  "proper_id k \<longleftrightarrow> k \<noteq> INVALID_ENTITY \<and> k \<noteq> 0xFFFFFFFF"

definition clock_ok :: "client_env \<Rightarrow> bool" where
  "clock_ok env \<longleftrightarrow> f32_isfinite (ce_now env) \<and> f32_isfinite (f32_add (ce_now env) (f32_of_int 1))"

fun client_pre :: "client_env \<times> client_op \<Rightarrow> Client \<Rightarrow> bool" where
  "client_pre (env, CSpawn r) c \<longleftrightarrow> clock_ok env \<and> (\<forall>q. read_spawn_req r = Some q \<longrightarrow> proper_id (sr_clientEntityId q))"
| "client_pre (env, CFrame dt) c \<longleftrightarrow> frame_time dt"
| "client_pre (env, x) c \<longleftrightarrow> clock_ok env"

section \<open>The handlers respect the registry's contract\<close>

definition reg_ok :: "EntityRegistry \<Rightarrow> bool" where
  "reg_ok s \<longleftrightarrow> reg_inv s \<and> um_find (reg_entities s) INVALID_ENTITY = None"

definition pending_ok :: "(u32, PendingSnapshot list) umap \<Rightarrow> bool" where
  "pending_ok m \<longleftrightarrow> (\<forall>k xs. um_find m k = Some xs \<longrightarrow> (\<forall>x \<in> set xs. f32_isfinite (pn_timestamp x) \<and>
     CharacterPosition_entityId (pn_position x) = k))"

definition deferred_ok :: "DeferredSpawn \<Rightarrow> bool" where
  "deferred_ok ds \<longleftrightarrow> proper_id (df_entityId ds) \<and> length (df_health ds) = 7"

definition client_inv :: "Client \<Rightarrow> bool" where
  "client_inv c \<longleftrightarrow> reg_ok (cl_registry c) \<and> ip_inv (cl_interp c) \<and> um_wf (cl_pending c) \<and> pending_ok (cl_pending c) \<and>
     (\<forall>ds \<in> set (cl_deferred c). deferred_ok ds)"

lemma reg_ok_ops:
  assumes "reg_ok s"
  shows "proper_id k \<Longrightarrow> reg_ok (RegisterRemote k ty owner pos s)"
    "reg_ok (UpdatePosition k pos s)" "length hs = 7 \<Longrightarrow> reg_ok (UpdateLimbHealth k hs s)" "reg_ok (Unregister k s)"
    "proper_id new \<Longrightarrow> reg_ok (snd (RemapEntityId old new s))"
    "um_find (reg_ptrToId s) p = None \<or> um_find (reg_ptrToId s) p = Some k \<Longrightarrow> reg_ok (SetGameObject k p s)"
proof -
  have i: "reg_inv s" and z: "um_find (reg_entities s) INVALID_ENTITY = None" using assms by (simp_all add: reg_ok_def)
  have "um_find (reg_entities (RegisterRemote k ty owner pos s)) INVALID_ENTITY = None" if "proper_id k"
    using that z by (auto simp: RegisterRemote_def proper_id_def um_find_set)
  then show "reg_ok (RegisterRemote k ty owner pos s)" if "proper_id k"
    using that RegisterRemote_inv [OF i, of k] by (simp add: reg_ok_def proper_id_def)
  show "reg_ok (UpdatePosition k pos s)"
    using z reg_step [OF i, of "OpUpdatePosition k pos"] by (simp add: reg_ok_def UpdatePosition_def modify_info_def um_find_modify)
  show "reg_ok (UpdateLimbHealth k hs s)" if "length hs = 7"
    using that z reg_step [OF i, of "OpUpdateLimbHealth k hs"] by (simp add: reg_ok_def UpdateLimbHealth_def modify_info_def um_find_modify)
  show "reg_ok (Unregister k s)"
    using z Unregister_inv [OF i] by (auto simp: reg_ok_def Unregister_def um_find_erase split: option.splits)
  show "reg_ok (snd (RemapEntityId old new s))" if "proper_id new"
    using that z Remap_inv [OF i, of new old]
    by (auto simp: reg_ok_def RemapEntityId_def proper_id_def um_find_set um_find_erase Let_def split: option.splits)
  show "reg_ok (SetGameObject k p s)" if "um_find (reg_ptrToId s) p = None \<or> um_find (reg_ptrToId s) p = Some k"
    using z SetGameObject_inv [OF i that] by (auto simp: reg_ok_def SetGameObject_def modify_info_def um_find_modify Let_def split: option.splits)
qed

text \<open>In such a registry the id 0 really means that an object is not linked.\<close>

lemma GetNetId_unlinked:
  assumes "reg_ok s" "p \<noteq> 0"
  shows "GetNetId p s = INVALID_ENTITY \<longleftrightarrow> um_find (reg_ptrToId s) p = None"
proof -
  have "um_find (reg_ptrToId s) p \<noteq> Some INVALID_ENTITY"
    using assms linkedD [OF reg_inv_linked assms(2), of s INVALID_ENTITY] by (auto simp: reg_ok_def)
  then show ?thesis by (auto simp: GetNetId_def split: option.splits)
qed

lemma GetNetId_linked: "reg_ok s \<Longrightarrow> p \<noteq> 0 \<Longrightarrow> GetNetId p s = k \<Longrightarrow> k \<noteq> INVALID_ENTITY \<Longrightarrow> um_find (reg_ptrToId s) p = Some k"
  by (auto simp: GetNetId_def split: option.splits)

named_theorems client_simps

lemma client_sel [client_simps]:
  "cl_registry (emit es c) = cl_registry c" "cl_interp (emit es c) = cl_interp c" "cl_pending (emit es c) = cl_pending c"
  "cl_deferred (emit es c) = cl_deferred c" "cl_gameLoaded (emit es c) = cl_gameLoaded c" "cl_localPlayerId (emit es c) = cl_localPlayerId c"
  "cl_registry (on_registry f c) = f (cl_registry c)" "cl_interp (on_registry f c) = cl_interp c" "cl_pending (on_registry f c) = cl_pending c"
  "cl_deferred (on_registry f c) = cl_deferred c" "cl_gameLoaded (on_registry f c) = cl_gameLoaded c"
  "cl_registry (on_interp g c) = cl_registry c" "cl_interp (on_interp g c) = g (cl_interp c)" "cl_pending (on_interp g c) = cl_pending c"
  "cl_deferred (on_interp g c) = cl_deferred c" "cl_gameLoaded (on_interp g c) = cl_gameLoaded c"
  "cl_localPlayerId (on_registry f c) = cl_localPlayerId c" "cl_localPlayerId (on_interp g c) = cl_localPlayerId c"
  by (simp_all add: emit_def on_registry_def on_interp_def)

lemma inv_emit [simp]: "client_inv (emit es c) = client_inv c"
  by (simp add: client_inv_def client_simps)

lemma inv_registry: "client_inv c \<Longrightarrow> reg_ok (f (cl_registry c)) \<Longrightarrow> client_inv (on_registry f c)"
  by (simp add: client_inv_def client_simps)

lemma inv_interp: "client_inv c \<Longrightarrow> ip_inv (g (cl_interp c)) \<Longrightarrow> client_inv (on_interp g c)"
  by (simp add: client_inv_def client_simps)

lemma inv_reg_ok: "client_inv c \<Longrightarrow> reg_ok (cl_registry c)"
  by (simp add: client_inv_def)

lemma inv_ip: "client_inv c \<Longrightarrow> ip_inv (cl_interp c)"
  by (simp add: client_inv_def)

lemma flush_fold_inv: "ip_inv ip \<Longrightarrow> \<forall>x \<in> set xs. f32_isfinite (pn_timestamp x) \<Longrightarrow> ip_inv (fold flush_one xs ip)"
  by (induction xs arbitrary: ip) (simp_all add: flush_one_def Let_def AddSnapshot_inv)

lemma Flush_inv: "client_inv c \<Longrightarrow> client_inv (FlushForEntity k c)"
  using flush_fold_inv [of "cl_interp c"]
  by (auto simp: client_inv_def FlushForEntity_def client_simps pending_ok_def um_find_erase split: option.splits)

lemma introduce_inv:
  assumes "client_inv c" "proper_id k" "clock_ok env"
  shows "client_inv (introduce env k ty owner pos rot c)"
proof -
  have "client_inv (FlushForEntity k (on_registry (RegisterRemote k ty owner pos) c))"
    using assms by (intro Flush_inv inv_registry reg_ok_ops inv_reg_ok) simp_all
  then show ?thesis unfolding introduce_def
    using assms(3) by (intro inv_interp AddSnapshot_inv inv_ip) (simp_all add: clock_ok_def)
qed

lemma link_inv:
  assumes "client_inv c" "um_find (reg_ptrToId (cl_registry c)) obj = None \<or> um_find (reg_ptrToId (cl_registry c)) obj = Some k"
  shows "client_inv (on_registry (UpdatePosition k pos \<circ> SetGameObject k obj) c)"
  using assms by (intro inv_registry) (simp_all add: reg_ok_ops client_inv_def)

lemma limbs_inv: "client_inv c \<Longrightarrow> length hs = 7 \<Longrightarrow> client_inv (on_registry (UpdateLimbHealth k hs) c)"
  by (intro inv_registry) (simp_all add: reg_ok_ops client_inv_def)

lemma link_existing_inv:
  assumes "client_inv c" "um_find (reg_ptrToId (cl_registry c)) obj = None \<or> um_find (reg_ptrToId (cl_registry c)) obj = Some (sr_clientEntityId q)"
    and "\<And>hs a. sr_extended q = Some (hs, a) \<Longrightarrow> length hs = 7"
  shows "client_inv (link_existing env obj q c)"
proof -
  let ?c1 = "emit [MarkRemoteControlled obj] (on_registry (UpdatePosition (sr_clientEntityId q) (sr_pos q) \<circ> SetGameObject (sr_clientEntityId q) obj) c)"
  let ?g = "GetInterpolated (ce_acosf env) (ce_sinf env) (sr_clientEntityId q) (ce_now env) (cl_interp ?c1)"
  have c1: "client_inv ?c1" using link_inv [OF assms(1,2)] by simp
  have "client_inv (?c1\<lparr>cl_interp := snd ?g\<rparr>)"
    using c1 GetInterpolated_inv [OF inv_ip [OF c1]] by (simp add: client_inv_def)
  moreover have "reg_ok ((case fst ?g of None \<Rightarrow> id | Some o1 \<Rightarrow> UpdatePosition (sr_clientEntityId q) p) (cl_registry (?c1\<lparr>cl_interp := snd ?g\<rparr>)))" for p
    using inv_reg_ok [OF c1] by (simp add: reg_ok_ops split: option.splits)
  ultimately have "client_inv (on_registry (case fst ?g of None \<Rightarrow> id | Some o1 \<Rightarrow> UpdatePosition (sr_clientEntityId q) p) (?c1\<lparr>cl_interp := snd ?g\<rparr>))" for p
    by (rule inv_registry)
  then show ?thesis using assms(3)
    by (auto simp: link_existing_def Let_def split_beta limbs_inv split: option.splits)
qed

lemma spawn_req_health: "read_spawn_req r = Some q \<Longrightarrow> sr_extended q = Some (hs, a) \<Longrightarrow> length hs = 7"
proof -
  have "read_extended r' = Some (hs, a) \<Longrightarrow> length hs = 7" for r'
    using read_floats_length [of "replicate 7 (f32_of_int 100)"]
    by (auto simp: read_extended_def split: prod.splits if_splits dest: arg_cong [of _ _ "length \<circ> fst"])
  then show "read_spawn_req r = Some q \<Longrightarrow> sr_extended q = Some (hs, a) \<Longrightarrow> length hs = 7"
    by (auto simp: read_spawn_req_def split: option.splits prod.splits)
qed

lemma inv_cong: "client_inv c \<Longrightarrow> cl_registry c' = cl_registry c \<Longrightarrow> cl_interp c' = cl_interp c \<Longrightarrow> cl_pending c' = cl_pending c \<Longrightarrow>
    cl_deferred c' = cl_deferred c \<Longrightarrow> client_inv c'"
  by (simp add: client_inv_def)

lemma confirm_own_inv: "client_inv c \<Longrightarrow> proper_id k \<Longrightarrow> client_inv (confirm_own k owner pos c)"
  unfolding confirm_own_def Let_def by (auto intro!: inv_registry reg_ok_ops inv_reg_ok)

lemma unlinked_or:
  assumes "reg_ok s" "p \<noteq> 0" "GetNetId p s = INVALID_ENTITY \<or> GetNetId p s = k" "k \<noteq> INVALID_ENTITY"
  shows "um_find (reg_ptrToId s) p = None \<or> um_find (reg_ptrToId s) p = Some k"
  using assms GetNetId_unlinked [OF assms(1,2)] GetNetId_linked [OF assms(1,2)] by blast

lemma spawn_inv:
  assumes c: "client_inv c" and clock: "clock_ok env" and ids: "\<And>q. read_spawn_req r = Some q \<Longrightarrow> proper_id (sr_clientEntityId q)"
  shows "client_inv (Client_HandleEntitySpawn env r c)"
proof (cases "read_spawn_req r")
  case (Some q)
  let ?k = "sr_clientEntityId q"
  have k: "proper_id ?k" by (rule ids [OF Some])
  define c1 where "c1 = (if cl_hostSpawnPoint c = None \<and> \<not> f32_eq (vx (sr_pos q)) 0 \<and> \<not> f32_eq (vz (sr_pos q)) 0
    then c\<lparr>cl_hostSpawnPoint := Some (sr_pos q)\<rparr> else c)"
  define c2 where "c2 = introduce env ?k (sr_type q) (sr_ownerId q) (sr_pos q) (Decompress (sr_compQuat q)) c1"
  have "client_inv c1" using c by (auto simp: c1_def elim: inv_cong)
  then have c2: "client_inv c2" unfolding c2_def by (rule introduce_inv [OF _ k clock])
  have "client_inv (defer_spawn env q c)"
    using c k spawn_req_health [OF Some] by (auto simp: client_inv_def defer_spawn_def deferred_ok_def default_limbs_def split: option.splits)
  moreover have "client_inv (link_existing env obj q c2)"
    if "obj \<noteq> 0" "GetNetId obj (cl_registry c2) = INVALID_ENTITY \<or> GetNetId obj (cl_registry c2) = ?k" for obj
    using unlinked_or [OF inv_reg_ok [OF c2] that] k spawn_req_health [OF Some]
    by (intro link_existing_inv [OF c2]) (auto simp: proper_id_def)
  ultimately show ?thesis using c2 confirm_own_inv [OF c k] Some
    by (auto simp: Client_HandleEntitySpawn_def Let_def c1_def [symmetric] c2_def [symmetric])
qed (use c in \<open>simp add: Client_HandleEntitySpawn_def\<close>)

lemma deferred_spawn_inv:
  assumes "client_inv c" "clock_ok env" "deferred_ok ds"
  shows "client_inv (ProcessDeferredSpawn env ds c)"
proof -
  define c1 where "c1 = introduce env (df_entityId ds) (df_type ds) (df_ownerId ds) (df_pos ds) (Decompress (df_compressedQuat ds)) c"
  have c1: "client_inv c1" unfolding c1_def using assms by (intro introduce_inv) (simp_all add: deferred_ok_def)
  have "client_inv (on_registry (UpdatePosition (df_entityId ds) (df_pos ds) \<circ> SetGameObject (df_entityId ds) obj) c1)"
    if "obj \<noteq> 0" "GetNetId obj (cl_registry c1) = INVALID_ENTITY" for obj
    using that GetNetId_unlinked [OF inv_reg_ok [OF c1] that(1)] by (intro link_inv [OF c1]) simp
  then show ?thesis using assms c1
    by (auto simp: ProcessDeferredSpawn_def Let_def c1_def [symmetric] deferred_ok_def limbs_inv)
qed

lemma ready_inv:
  assumes "client_inv c" "clock_ok env" shows "client_inv (HandleAllPlayersReady env c)"
proof -
  have "client_inv (fold (ProcessDeferredSpawn env) dss c)" if "\<forall>ds \<in> set dss. deferred_ok ds" for dss
    using that assms by (induction dss arbitrary: c) (simp_all add: deferred_spawn_inv)
  from this [of "cl_deferred c"] show ?thesis using assms
    by (simp add: HandleAllPlayersReady_def ProcessAll_def client_inv_def)
qed

lemma RemoveEntity_inv: "ip_inv ip \<Longrightarrow> ip_inv (Interpolation_RemoveEntity k ip)"
  using ip_step [of ip "OpRemove k" id id] by simp

lemma unlink_ok: "reg_ok s \<Longrightarrow> reg_ok (SetGameObject k 0 s)"
  by (rule reg_ok_ops(6)) (auto simp: reg_ok_def reg_inv_def linked_def)

lemma despawn_inv: "client_inv c \<Longrightarrow> client_inv (Client_HandleEntityDespawn r c)"
  unfolding Client_HandleEntityDespawn_def Let_def
  by (auto simp: client_simps intro!: inv_registry inv_interp reg_ok_ops(4) unlink_ok RemoveEntity_inv inv_reg_ok inv_ip
      split: prod.splits option.splits)

lemma remove_left_inv: "client_inv c \<Longrightarrow> client_inv (remove_left p k c)"
  unfolding remove_left_def Let_def
  by (auto simp: client_simps intro!: inv_registry inv_interp reg_ok_ops(4) RemoveEntity_inv inv_reg_ok inv_ip)

lemma left_inv:
  assumes "client_inv c" shows "client_inv (HandlePlayerLeft env r c)"
proof -
  have "client_inv c' \<Longrightarrow> client_inv (fold (remove_left p) ks c')" for p ks c'
    by (induction ks arbitrary: c') (simp_all add: remove_left_inv)
  then show ?thesis using assms by (auto simp: HandlePlayerLeft_def Let_def split: prod.splits option.splits)
qed

lemma pending_find: "pending_ok m \<Longrightarrow> um_find m k = Some xs \<Longrightarrow> x \<in> set xs \<Longrightarrow>
    f32_isfinite (pn_timestamp x) \<and> CharacterPosition_entityId (pn_position x) = k"
  by (simp add: pending_ok_def)

lemma Queue_inv:
  assumes "client_inv c" "clock_ok env" shows "client_inv (PendingQueue env pos src c)"
proof -
  have p: "pending_ok (cl_pending c)" and now: "f32_isfinite (ce_now env)" using assms by (simp_all add: client_inv_def clock_ok_def)
  have "pending_ok (cl_pending (PendingQueue env pos src c))"
    unfolding pending_ok_def PendingQueue_def Let_def using pending_find [OF p] now
    by (cases "um_find (cl_pending c) (CharacterPosition_entityId pos)") (auto simp: um_find_set split: if_splits)
  then show ?thesis using assms(1) by (simp add: client_inv_def PendingQueue_def Let_def)
qed

lemma position_step_inv:
  assumes "client_inv (snd fc)" "clock_ok env" shows "client_inv (snd (position_step env src pos fc))"
proof -
  obtain fed c where fc: "fc = (fed, c)" by (cases fc)
  have "client_inv (on_interp (AddSnapshot k (ce_now env) p q m a) c)" for k p q m a
    using assms fc by (intro inv_interp AddSnapshot_inv inv_ip) (simp_all add: clock_ok_def)
  then show ?thesis using assms Queue_inv [of c env pos src] unfolding fc position_step_def
    by (simp add: Let_def split: SnapshotDecision.split)
qed

lemma position_loop_inv: "client_inv (snd fc) \<Longrightarrow> clock_ok env \<Longrightarrow> client_inv (snd (client_position_loop env src n r fc))"
  by (induction n arbitrary: r fc) (auto simp: position_step_inv split: prod.splits option.splits)

lemma positions_inv: "client_inv c \<Longrightarrow> clock_ok env \<Longrightarrow> client_inv (Client_HandlePositionUpdate env r c)"
  using position_loop_inv [of "(False, c)"]
  by (auto simp: Client_HandlePositionUpdate_def Let_def split: prod.splits option.splits)

lemma cleanup_inv:
  assumes "client_inv c" shows "client_inv (CleanupOld t m c)"
proof -
  let ?f = "\<lambda>k xs. filter (\<lambda>x. \<not> f32_lt (pn_timestamp x) (f32_sub t m)) xs"
  have w: "um_wf (map (\<lambda>(k, xs). (k, ?f k xs)) (cl_pending c))" using assms by (simp add: client_inv_def)
  have "um_find (filter (\<lambda>(k, xs). xs \<noteq> []) (map (\<lambda>(k, xs). (k, ?f k xs)) (cl_pending c))) k = Some xs \<Longrightarrow>
      \<exists>ys. um_find (cl_pending c) k = Some ys \<and> xs = ?f k ys" for k xs
    by (auto simp: um_find_filter [OF w] um_find_map [of ?f] split: option.splits if_splits)
  then have "pending_ok (cl_pending (CleanupOld t m c))"
    unfolding pending_ok_def using pending_find [of "cl_pending c"] assms by (fastforce simp: CleanupOld_def Let_def client_inv_def)
  then show ?thesis using assms w by (simp add: client_inv_def CleanupOld_def Let_def)
qed

lemma move_inv: "client_inv c \<Longrightarrow> clock_ok env \<Longrightarrow> client_inv (Client_HandleMoveCommand env r c)"
  by (auto simp: Client_HandleMoveCommand_def clock_ok_def intro!: inv_interp AddSnapshot_inv inv_ip split: prod.splits option.splits)

lemma client_frame_inv: "client_inv c \<Longrightarrow> frame_time dt \<Longrightarrow> client_inv (on_interp (Interpolation_Update dt) c)"
  using ip_step [of "cl_interp c" "OpUpdate dt" id id] by (intro inv_interp) (simp_all add: inv_ip)

lemma client_step:
  assumes "client_inv c" "client_pre x c" shows "client_inv (client_apply x c)"
proof -
  obtain env y where "x = (env, y)" by (cases x)
  with assms show ?thesis
    by (cases y) (simp_all add: spawn_inv despawn_inv left_inv ready_inv positions_inv cleanup_inv move_inv client_frame_inv
        inv_interp GetInterpolated_inv inv_ip, simp add: client_inv_def Deferred_Clear_def)
qed

interpretation client: run_invariant client_apply client_pre client_inv
  by unfold_locales (rule client_step)

lemma Client_new_inv: "client_inv (Client_new p)"
  using EntityRegistry_new_inv Interpolation_new_inv
  by (simp add: client_inv_def Client_new_def reg_ok_def pending_ok_def EntityRegistry_new_def)

end
