(* ===== verification/Client_Properties.thy ===== *)
theory Client_Properties
  imports Client_Session
begin

text \<open>
  Properties of the client's replication handlers: what one packet can change, that a spawn announcement of the
  server gives the client the server's entity, what is left of a player who leaves, and where the client and the
  server disagree.
\<close>

section \<open>The client keeps the contracts of its parts\<close>

text \<open>
  Whatever spawn, despawn, position and move packets arrive and whatever is rendered in between, the client's
  handlers keep the registry's links inverse to each other, never link one game object to two entities, and keep the
  render delays within bounds and the buffered poses finite.
\<close>

theorem client_state_consistent:
  assumes "run_ok client_pre client_apply ops (Client_new me)"
  defines "c \<equiv> fold client_apply ops (Client_new me)"
  shows "(\<forall>p k. p \<noteq> 0 \<longrightarrow> k \<noteq> INVALID_ENTITY \<longrightarrow> (GetNetId p (cl_registry c) = k \<longleftrightarrow> GetGameObject k (cl_registry c) = p)) \<and>
    (\<forall>k st. um_find (ip_entities (cl_interp c)) k = Some st \<longrightarrow> f32_le (f32_lit 5 100) (GetDelay (is_jitter st)) \<and>
       f32_le (GetDelay (is_jitter st)) (f32_lit 2 10) \<and> (\<forall>x \<in> set (recent st). finite_pose (sn_position x) (sn_rotation x)))"
proof -
  have "client_inv c" unfolding c_def by (rule client.run [OF Client_new_inv assms(1)])
  then have r: "reg_inv (cl_registry c)" and i: "ip_inv (cl_interp c)" by (simp_all add: client_inv_def reg_ok_def)
  have "interp_ok st" if "um_find (ip_entities (cl_interp c)) k = Some st" for k st using i that by (simp add: ip_inv_def)
  then show ?thesis using GetNetId_iff [OF r]
    by (auto simp: interp_ok_def jitter_ok_def GetDelay_def snapshot_ok_def KMP_INTERP_DELAY_MIN_def KMP_INTERP_DELAY_MAX_def)
qed

definition example_client_env :: client_env where
  "example_client_env = \<lparr>ce_now = f32_of_int 1, ce_modCharacter = (\<lambda>slot. 0), ce_utf8ToAnsi = id, ce_acosf = id, ce_sinf = id,
     ce_orchestrator = True\<rparr>"

lemma example_clock: "clock_ok example_client_env"
  unfolding clock_ok_def example_client_env_def client_env.simps f32_lits by (simp add: f32_eval)

theorem client_state_consistent_witness:
  "let ops = [(example_client_env, CReady)]; reg = cl_registry (fold client_apply ops (Client_new 1))
   in run_ok client_pre client_apply ops (Client_new 1) \<and> (GetNetId 5 reg = 1 \<longleftrightarrow> GetGameObject 1 reg = 5)"
proof -
  have ok: "run_ok client_pre client_apply [(example_client_env, CReady)] (Client_new 1)" using example_clock by simp
  show ?thesis using client_state_consistent [OF ok] ok by (simp add: INVALID_ENTITY_def Let_def del: run_ok.simps fold.simps)
qed

section \<open>Position updates\<close>

lemma snapshots_AddSnapshot_other: "j \<noteq> k \<Longrightarrow> snapshots_of j (AddSnapshot k ts p r ms an ip) = snapshots_of j ip"
  by (simp add: AddSnapshot_def snapshots_of_def Let_def um_find_set)

definition may_move :: "PlayerID \<Rightarrow> EntityID \<Rightarrow> Client \<Rightarrow> bool" where
  "may_move source k c \<longleftrightarrow> (\<exists>i. GetInfo k (cl_registry c) = Some i \<and> ei_ownerPlayerId i = source \<and> ei_ownerPlayerId i \<noteq> cl_localPlayerId c \<and>
     ei_isRemote i \<and> ei_state i \<noteq> Inactive)"

lemma ValidateInboundSnapshot_Apply:
  "ValidateInboundSnapshot pos source (cl_localPlayerId c) (cl_registry c) = ApplyRemote \<Longrightarrow>
     may_move source (CharacterPosition_entityId pos) c"
  by (auto simp: ValidateInboundSnapshot_def may_move_def GetOwnerPlayerId_def IsRemote_def GetInfo_def Let_def split: option.splits if_splits)

lemma position_step_frame:
  "cl_registry (snd (position_step env src pos fc)) = cl_registry (snd fc) \<and>
   cl_localPlayerId (snd (position_step env src pos fc)) = cl_localPlayerId (snd fc) \<and>
   (\<not> may_move src k (snd fc) \<longrightarrow> snapshots_of k (cl_interp (snd (position_step env src pos fc))) = snapshots_of k (cl_interp (snd fc)))"
proof (cases fc)
  case (Pair fed c)
  show ?thesis
  proof (cases "ValidateInboundSnapshot pos src (cl_localPlayerId c) (cl_registry c) = ApplyRemote")
    case True
    then have "may_move src (CharacterPosition_entityId pos) c" by (rule ValidateInboundSnapshot_Apply)
    then have "\<not> may_move src k c \<Longrightarrow> k \<noteq> CharacterPosition_entityId pos" by auto
    with True Pair show ?thesis by (auto simp: position_step_def Let_def client_simps snapshots_AddSnapshot_other)
  next
    case False
    with Pair show ?thesis by (auto simp: position_step_def Let_def PendingQueue_def split: SnapshotDecision.splits)
  qed
qed

lemma may_move_cong: "cl_registry c' = cl_registry c \<Longrightarrow> cl_localPlayerId c' = cl_localPlayerId c \<Longrightarrow> may_move s k c' = may_move s k c"
  by (simp add: may_move_def)

lemma position_loop_frame:
  "cl_registry (snd (client_position_loop env src n r fc)) = cl_registry (snd fc) \<and>
   (\<not> may_move src k (snd fc) \<longrightarrow> snapshots_of k (cl_interp (snd (client_position_loop env src n r fc))) = snapshots_of k (cl_interp (snd fc)))"
proof (induction n arbitrary: r fc)
  case (Suc n)
  show ?case
  proof (cases "ReadStruct CharacterPosition_size CharacterPosition_dec r")
    case (Pair m r')
    show ?thesis
    proof (cases m)
      case (Some pos)
      let ?fc = "position_step env src pos fc"
      have "may_move src k (snd ?fc) = may_move src k (snd fc)" by (rule may_move_cong) (simp_all add: position_step_frame)
      then show ?thesis using Suc.IH [of r' ?fc] position_step_frame [of env src pos fc k] Some Pair by simp
    qed (simp add: Pair)
  qed
qed simp

lemma positions_frame:
  assumes "\<And>src. fst (ReadU32 r) = Some src \<Longrightarrow> \<not> may_move src k c"
  shows "cl_registry (Client_HandlePositionUpdate env r c) = cl_registry c \<and>
    snapshots_of k (cl_interp (Client_HandlePositionUpdate env r c)) = snapshots_of k (cl_interp c)"
  using assms position_loop_frame [where fc = "(False, c)" and k = k]
  by (auto simp: Client_HandlePositionUpdate_def Let_def client_simps split: prod.splits option.splits)

text \<open>
  A position packet, whatever its bytes, changes no registry entry, and moves an entity only when the registry has
  it as an active remote entity owned by the player the packet names as its source, and that player is not the client
  itself.
\<close>

theorem positions_need_ownership:
  assumes "snapshots_of k (cl_interp (Client_HandlePositionUpdate env r c)) \<noteq> snapshots_of k (cl_interp c)"
  shows "\<exists>source i. fst (ReadU32 r) = Some source \<and> GetInfo k (cl_registry c) = Some i \<and> ei_ownerPlayerId i = source \<and>
    source \<noteq> cl_localPlayerId c \<and> ei_isRemote i \<and> ei_state i \<noteq> Inactive"
  using assms positions_frame [of r k c env] by (auto simp: may_move_def)

definition example_registry :: EntityRegistry where
  "example_registry = \<lparr>reg_entities = [(7, remote_info 7 NPC 2 Vec3_default)], reg_ptrToId = [], reg_nextId = 0x10000000\<rparr>"

definition example_client :: Client where
  "example_client = (Client_new 1)\<lparr>cl_registry := example_registry, cl_gameLoaded := True, cl_phase := Connected\<rparr>"

definition example_position :: CharacterPosition where
  "example_position = \<lparr>CharacterPosition_entityId = 7, CharacterPosition_generation = 0, CharacterPosition_posX = f32_of_int 3,
     CharacterPosition_posY = 0, CharacterPosition_posZ = f32_of_int 4, CharacterPosition_compressedQuat = 0,
     CharacterPosition_animStateId = 0, CharacterPosition_moveSpeed = 0, CharacterPosition_flags = 0\<rparr>"

lemma decompressed_finite: "finite_pose p (Decompress w) \<longleftrightarrow> \<not> (\<exists>c \<in> set [vx p, vy p, vz p]. f32_isnan c \<or> f32_isinf c)"
  using Decompress_unit [of w] by (auto simp: finite_pose_def unit_comp_def f32_between_def f32_class_excl)

lemma AddSnapshot_front:
  assumes "ip_inv ip" "finite_pose p r"
  shows "\<exists>v. snapshots_of k (AddSnapshot k ts p r ms an ip) = take 8 (\<lparr>sn_timestamp = ts, sn_tick = 0, sn_position = p,
     sn_velocity = v, sn_rotation = r, sn_moveSpeed = ms, sn_animState = an\<rparr> # snapshots_of k ip)"
proof -
  let ?st = "case um_find (ip_entities ip) k of None \<Rightarrow> EntityInterpState_new | Some st \<Rightarrow> st"
  have ok: "ring_ok ?st" using assms(1) by (auto simp: ip_inv_def interp_ok_def ring_ok_new split: option.splits)
  have r: "recent ?st = snapshots_of k ip" by (simp add: snapshots_of_def recent_new split: option.splits)
  show ?thesis using push_state_recent [OF ok] assms(2) unfolding r by (simp add: AddSnapshot_def snapshots_of_def Let_def um_find_set)
qed

lemma position_step_applies:
  assumes "ip_inv (cl_interp c)" "\<not> (\<exists>x \<in> set [vx (cp_vec pos), vy (cp_vec pos), vz (cp_vec pos)]. f32_isnan x \<or> f32_isinf x)"
    and "ValidateInboundSnapshot pos src (cl_localPlayerId c) (cl_registry c) = ApplyRemote"
  shows "\<exists>v. snapshots_of (CharacterPosition_entityId pos) (cl_interp (snd (position_step env src pos (fed, c)))) =
    take 8 (\<lparr>sn_timestamp = ce_now env, sn_tick = 0, sn_position = cp_vec pos, sn_velocity = v,
      sn_rotation = Decompress (CharacterPosition_compressedQuat pos), sn_moveSpeed = CharacterPosition_moveSpeed pos,
      sn_animState = CharacterPosition_animStateId pos\<rparr> # snapshots_of (CharacterPosition_entityId pos) (cl_interp c))"
proof -
  have f: "finite_pose (cp_vec pos) (Decompress (CharacterPosition_compressedQuat pos))" using assms(2) by (simp only: decompressed_finite simp_thms)
  have "cl_interp (snd (position_step env src pos (fed, c))) = AddSnapshot (CharacterPosition_entityId pos) (ce_now env) (cp_vec pos)
      (Decompress (CharacterPosition_compressedQuat pos)) (CharacterPosition_moveSpeed pos) (CharacterPosition_animStateId pos) (cl_interp c)"
    using assms(2,3) by (auto simp: position_step_def Let_def client_simps)
  then show ?thesis using AddSnapshot_front [OF assms(1) f] by simp
qed

lemma example_position_applied:
  "snapshots_of 7 (cl_interp (snd (position_step example_client_env 2 example_position (False, example_client)))) \<noteq> []"
proof -
  have f: "\<not> (\<exists>x \<in> set [vx (cp_vec example_position), vy (cp_vec example_position), vz (cp_vec example_position)]. f32_isnan x \<or> f32_isinf x)"
    by (simp add: cp_vec_def example_position_def Vec3_new_def f32_eval)
  have v: "ValidateInboundSnapshot example_position 2 (cl_localPlayerId example_client) (cl_registry example_client) = ApplyRemote"
    by (simp add: ValidateInboundSnapshot_def GetInfo_def GetOwnerPlayerId_def IsRemote_def example_client_def example_registry_def
        example_position_def remote_info_def EntityInfo_default_def Client_new_def)
  have i: "ip_inv (cl_interp example_client)" by (simp add: example_client_def Client_new_def Interpolation_new_inv)
  have "CharacterPosition_entityId example_position = 7" by (simp add: example_position_def)
  with position_step_applies [OF i f v, of example_client_env False] show ?thesis by auto
qed

theorem positions_need_ownership_witness:
  "\<exists>i. GetInfo 7 (cl_registry example_client) = Some i \<and> ei_ownerPlayerId i = 2"
proof -
  let ?r = "reader_at [] (bytes_u32 2 @ bytes_u8 1 @ CharacterPosition_enc example_position @ [])"
  have r: "ReadU32 ?r = (Some 2, reader_at (bytes_u32 2) (bytes_u8 1 @ CharacterPosition_enc example_position @ []))"
    "ReadU8 (reader_at (bytes_u32 2) (bytes_u8 1 @ CharacterPosition_enc example_position @ [])) =
       (Some 1, reader_at (bytes_u32 2 @ bytes_u8 1) (CharacterPosition_enc example_position @ []))"
    by (simp_all only: scalars_at append_Nil)
  have "ReadStruct CharacterPosition_size CharacterPosition_dec (reader_at pre (CharacterPosition_enc example_position @ [])) =
      (Some example_position, reader_at (pre @ CharacterPosition_enc example_position) [])" for pre
    by (rule CharacterPosition.struct_at) simp
  then have "cl_interp (Client_HandlePositionUpdate example_client_env ?r example_client) =
      cl_interp (snd (position_step example_client_env 2 example_position (False, example_client)))"
    using r by (simp add: Client_HandlePositionUpdate_def Let_def client_simps One_nat_def [symmetric] del: append_Nil2 One_nat_def)
      (simp add: numeral_eq_Suc)
  then have "snapshots_of 7 (cl_interp (Client_HandlePositionUpdate example_client_env ?r example_client)) \<noteq> snapshots_of 7 (cl_interp example_client)"
    using example_position_applied by (simp add: example_client_def Client_new_def snapshots_of_def Interpolation_new_def)
  from positions_need_ownership [OF this] r show ?thesis by auto
qed

text \<open>
  C21.  Server and client disagree about who sends positions.  The server's per-tick packet names player 0 as its source,
  so the client rejects, as an authority violation, every record of an entity that it knows to be owned by a player: for
  no client state and no set of entities does the packet move such an entity.
\<close>

theorem server_positions_rejected:
  assumes "GetInfo k (cl_registry c) = Some i" "ei_ownerPlayerId i \<noteq> 0"
  shows "snapshots_of k (cl_interp (Client_HandlePositionUpdate env
      (snd (ReadHeader (PacketReader_new (positions_packet nearby)))) c)) = snapshots_of k (cl_interp c)"
proof -
  have "positions_packet nearby = PacketHeader_enc \<lparr>ph_type = S2C_PositionUpdate, ph_flags = 0, ph_sequence = 0, ph_timestamp = 0\<rparr> @
      bytes_u32 0 @ bytes_u8 (of_nat (min (length nearby) 255)) @
      concat (map (\<lambda>e. CharacterPosition_enc (position_record e)) (take (min (length nearby) 255) nearby))"
    by (simp add: positions_packet_def packet_def Let_def fold_write_records writer_defs WriteRaw_def)
  then have "fst (ReadU32 (snd (ReadHeader (PacketReader_new (positions_packet nearby))))) = Some 0"
    by (simp add: reader_at_new scalars_at)
  then show ?thesis using assms positions_frame [of "snd (ReadHeader (PacketReader_new (positions_packet nearby)))" k c env]
    by (simp add: may_move_def)
qed

theorem server_positions_rejected_witness:
  "snapshots_of 7 (cl_interp (Client_HandlePositionUpdate example_client_env
      (snd (ReadHeader (PacketReader_new (positions_packet [example_entity 7 2])))) example_client)) = []"
  using server_positions_rejected [of 7 example_client "remote_info 7 NPC 2 Vec3_default" example_client_env "[example_entity 7 2]"]
  by (simp add: example_client_def Client_new_def GetInfo_def example_registry_def remote_info_def snapshots_of_def Interpolation_new_def)

section \<open>Spawning\<close>

text \<open>Fields of an entry that later registry updates of a spawn keep.\<close>

definition identity :: "EntityInfo \<Rightarrow> PlayerID \<times> EntityType \<times> bool" where
  "identity i = (ei_ownerPlayerId i, ei_type i, ei_isRemote i)"

lemma identity_updates:
  "map_option identity (GetInfo k (UpdatePosition j pos s)) = map_option identity (GetInfo k s)"
  "map_option identity (GetInfo k (UpdateLimbHealth j hs s)) = map_option identity (GetInfo k s)"
  "map_option identity (GetInfo k (SetGameObject j p s)) = map_option identity (GetInfo k s)"
  by (simp_all add: GetInfo_def UpdatePosition_def UpdateLimbHealth_def SetGameObject_def modify_info_def um_find_modify Let_def
      identity_def [abs_def] link_info_def option.map_comp comp_def split: option.split)

lemma introduce_registry: "cl_registry (introduce env k ty owner pos rot c) = RegisterRemote k ty owner pos (cl_registry c)"
  by (simp add: introduce_def FlushForEntity_def client_simps on_interp_def on_registry_def split: option.splits)

lemma link_existing_identity:
  "map_option identity (GetInfo k (cl_registry (link_existing env obj q c))) = map_option identity (GetInfo k (cl_registry c))"
  by (simp add: link_existing_def Let_def split_beta client_simps identity_updates comp_def split: option.split)

lemma server_spawn_read:
  assumes "length (se_health e) = 7"
  shows "read_spawn_req (snd (ReadHeader (PacketReader_new (entity_spawn_packet e)))) =
    Some \<lparr>sr_clientEntityId = se_id e, sr_type = se_type e, sr_ownerId = se_owner e, sr_templateId = se_templateId e,
      sr_pos = se_position e, sr_compQuat = Compress (se_rotation e), sr_factionId = se_factionId e,
      sr_templateName = take 255 (se_templateName e), sr_extended = Some (se_health e, se_alive e)\<rparr>"
  unfolding entity_spawn_packet_def using assms by (intro spawn_read) simp_all

text \<open>
  C22.  Server and client together: the spawn announcement the server sends for an entity makes a client that is in the
  game, did not know the entity and does not own it, register it under the same id with the same owner and type as a
  remote entity.  When the game has no character for that player yet, the entry has the server's position and the only
  request to the game is to spawn a character with the server's position, template, health and alive flag.
\<close>

theorem spawn_is_replicated:
  fixes env :: client_env
  assumes "length (se_health e) = 7" "se_owner e \<noteq> cl_localPlayerId c" "cl_gameLoaded c" "phase_code GameReady \<le> phase_code (cl_phase c)"
    and "GetInfo (se_id e) (cl_registry c) = None"
  defines "c' \<equiv> Client_HandleEntitySpawn env (snd (ReadHeader (PacketReader_new (entity_spawn_packet e)))) c"
  shows "\<exists>i. GetInfo (se_id e) (cl_registry c') = Some i \<and> ei_ownerPlayerId i = se_owner e \<and> ei_type i = se_type e \<and> ei_isRemote i \<and>
    (ce_modCharacter env (se_owner e) = 0 \<longrightarrow> ei_lastPosition i = se_position e \<and> ei_state i = Spawning \<and>
       cl_effects c' = cl_effects c @ [QueueSpawn \<lparr>rq_netId = se_id e, rq_owner = se_owner e, rq_type = se_type e,
         rq_templateName = ce_utf8ToAnsi env (take 255 (se_templateName e)), rq_position = se_position e,
         rq_rotation = Decompress (Compress (se_rotation e)), rq_templateId = se_templateId e, rq_factionId = se_factionId e,
         rq_retryCount = 0, rq_hasExtendedState = True, rq_health = se_health e, rq_alive = se_alive e\<rparr>])"
proof -
  let ?q = "\<lparr>sr_clientEntityId = se_id e, sr_type = se_type e, sr_ownerId = se_owner e, sr_templateId = se_templateId e,
      sr_pos = se_position e, sr_compQuat = Compress (se_rotation e), sr_factionId = se_factionId e,
      sr_templateName = take 255 (se_templateName e), sr_extended = Some (se_health e, se_alive e)\<rparr>"
  define c1 where "c1 = (if cl_hostSpawnPoint c = None \<and> \<not> f32_eq (vx (se_position e)) 0 \<and> \<not> f32_eq (vz (se_position e)) 0
    then c\<lparr>cl_hostSpawnPoint := Some (se_position e)\<rparr> else c)"
  define c2 where "c2 = introduce env (se_id e) (se_type e) (se_owner e) (se_position e) (Decompress (Compress (se_rotation e))) c1"
  let ?i = "remote_info (se_id e) (se_type e) (se_owner e) (se_position e)"
  have i: "GetInfo (se_id e) (cl_registry c2) = Some ?i"
    using assms(5) by (simp add: c2_def introduce_registry c1_def RegisterRemote_def GetInfo_def um_find_set)
  have eff: "cl_effects c2 = cl_effects c"
    by (simp add: c2_def introduce_def FlushForEntity_def on_interp_def on_registry_def c1_def split: option.splits)
  have "c' = (let existing = (if ce_modCharacter env (se_owner e) \<noteq> 0 \<and> GetNetId (ce_modCharacter env (se_owner e)) (cl_registry c2) \<noteq> INVALID_ENTITY \<and>
        GetNetId (ce_modCharacter env (se_owner e)) (cl_registry c2) \<noteq> se_id e then 0 else ce_modCharacter env (se_owner e))
      in if existing \<noteq> 0 then link_existing env existing ?q c2 else emit [QueueSpawn (spawn_request env ?q)] c2)"
    unfolding c'_def Client_HandleEntitySpawn_def server_spawn_read [OF assms(1)] using assms(2-4)
    by (simp add: Let_def c1_def [symmetric] c2_def [symmetric])
  then consider (link) obj where "ce_modCharacter env (se_owner e) \<noteq> 0" "c' = link_existing env obj ?q c2"
    | (queue) "c' = emit [QueueSpawn (spawn_request env ?q)] c2"
    by (auto simp: Let_def split: if_splits)
  then show ?thesis
  proof cases
    case link
    have "map_option identity (GetInfo (se_id e) (cl_registry c')) = Some (identity ?i)"
      unfolding link(2) link_existing_identity i by simp
    then show ?thesis using link(1) by (auto simp: identity_def remote_info_def)
  next
    case queue
    then show ?thesis using i eff by (simp add: client_simps emit_def spawn_request_def remote_info_def)
  qed
qed

theorem spawn_is_replicated_witness:
  "\<exists>i. GetInfo 9 (cl_registry (Client_HandleEntitySpawn example_client_env
      (snd (ReadHeader (PacketReader_new (entity_spawn_packet (example_entity 9 2))))) example_client)) = Some i \<and> ei_ownerPlayerId i = 2"
  using spawn_is_replicated [of "example_entity 9 2" example_client example_client_env]
  by (auto simp: example_entity_def ServerEntity_default_def example_client_def Client_new_def example_registry_def GetInfo_def)

text \<open>
  A spawn that had to wait loses its state: when the game has no character for the player, the request made for the
  deferred spawn carries full health and the alive flag even when the announcement said otherwise, unlike the request
  made for the same announcement when the game is ready.
\<close>

theorem deferred_spawn_forgets_health:
  assumes "sr_ownerId q \<noteq> cl_localPlayerId c" "ce_modCharacter env (sr_ownerId q) = 0"
    and "cl_deferred c = []" "sr_extended q = Some (hs, alive)"
  shows "\<exists>req. cl_effects (HandleAllPlayersReady env (defer_spawn env q c)) = cl_effects c @ [QueueSpawn req] \<and>
    rq_netId req = sr_clientEntityId q \<and> \<not> rq_hasExtendedState req \<and> rq_alive req \<and> rq_health req = default_limbs \<and>
    rq_hasExtendedState (spawn_request env q) \<and> rq_alive (spawn_request env q) = alive \<and> rq_health (spawn_request env q) = hs"
  using assms
  by (simp add: HandleAllPlayersReady_def ProcessAll_def defer_spawn_def ProcessDeferredSpawn_def Let_def emit_def introduce_def
      FlushForEntity_def on_interp_def on_registry_def spawn_request_def split: option.split)

theorem deferred_spawn_forgets_health_witness:
  "let q = \<lparr>sr_clientEntityId = 9, sr_type = NPC, sr_ownerId = 2, sr_templateId = 0, sr_pos = Vec3_default, sr_compQuat = 0,
            sr_factionId = 0, sr_templateName = [], sr_extended = Some (replicate 7 0, False)\<rparr>
   in \<exists>req. cl_effects (HandleAllPlayersReady example_client_env (defer_spawn example_client_env q (Client_new 1))) = [QueueSpawn req] \<and> rq_alive req"
proof -
  let ?q = "\<lparr>sr_clientEntityId = 9, sr_type = NPC, sr_ownerId = 2, sr_templateId = 0, sr_pos = Vec3_default, sr_compQuat = 0,
            sr_factionId = 0, sr_templateName = [], sr_extended = Some (replicate 7 0, False)\<rparr>"
  have "sr_ownerId ?q \<noteq> cl_localPlayerId (Client_new 1)" "ce_modCharacter example_client_env (sr_ownerId ?q) = 0" "cl_deferred (Client_new 1) = []"
    "sr_extended ?q = Some (replicate 7 0, False)" by (simp_all add: Client_new_def example_client_env_def)
  from deferred_spawn_forgets_health [OF this] show ?thesis by (auto simp: Client_new_def Let_def)
qed

section \<open>Players who leave\<close>

lemma fold_remove_left_registry: "cl_registry (fold (remove_left p) ks c) = fold Unregister ks (cl_registry c)"
  by (induction ks arbitrary: c) (simp_all add: remove_left_def Let_def client_simps)

lemma fold_remove_left_interp: "cl_interp (fold (remove_left p) ks c) = fold Interpolation_RemoveEntity ks (cl_interp c)"
  by (induction ks arbitrary: c) (simp_all add: remove_left_def Let_def client_simps)

lemma fold_Unregister_find:
  "um_find (reg_entities (fold Unregister ks s)) k = (if k \<in> set ks then None else um_find (reg_entities s) k)"
proof (induction ks arbitrary: s)
  case (Cons j ks)
  have "um_find (reg_entities (Unregister j s)) = (um_find (reg_entities s))(j := None)"
    by (auto simp: Unregister_def um_find_erase fun_eq_iff split: option.splits)
  then show ?case by (simp add: Cons.IH)
qed simp

lemma fold_RemoveEntity_find:
  "um_find (ip_entities (fold Interpolation_RemoveEntity ks ip)) k = (if k \<in> set ks then None else um_find (ip_entities ip) k)"
  by (induction ks arbitrary: ip) (simp_all add: Interpolation_RemoveEntity_def um_find_erase)

text \<open>
  When a player leaves, the client drops exactly that player's entities: none of them is left in the registry and
  their snapshots are gone, every other entity keeps its entry and its snapshots.
\<close>

theorem left_player_is_cleaned_up:
  fixes env :: client_env
  assumes "client_inv c" and "ReadStruct MsgPlayerLeft_size MsgPlayerLeft_dec r = (Some msg, r')"
  defines "c' \<equiv> HandlePlayerLeft env r c" and "p \<equiv> MsgPlayerLeft_playerId msg"
  shows "GetInfo k (cl_registry c') = (case GetInfo k (cl_registry c) of None \<Rightarrow> None
      | Some i \<Rightarrow> if ei_ownerPlayerId i = p then None else Some i) \<and>
    snapshots_of k (cl_interp c') = (if \<exists>i. GetInfo k (cl_registry c) = Some i \<and> ei_ownerPlayerId i = p then []
      else snapshots_of k (cl_interp c))"
proof -
  define c3 where "c3 = emit [ClearSpawnsForOwner p] (if ce_orchestrator env
    then emit [OnRemotePlayerLeft p, ZoneRemovePlayer p, ClearInterest p] (emit [RemoveRemotePlayer p] c) else emit [RemoveRemotePlayer p] c)"
  have c': "c' = fold (remove_left p) (GetPlayerEntities p (cl_registry c)) c3"
    by (simp add: c'_def HandlePlayerLeft_def assms(2) Let_def p_def c3_def client_simps)
  have c3: "cl_registry c3 = cl_registry c" "cl_interp c3 = cl_interp c" by (simp_all add: c3_def client_simps)
  have "k \<in> set (GetPlayerEntities p (cl_registry c)) \<longleftrightarrow> (\<exists>i. (k, i) \<in> set (reg_entities (cl_registry c)) \<and> ei_ownerPlayerId i = p)"
    by (force simp: GetPlayerEntities_def ids_where_def)
  then have m: "k \<in> set (GetPlayerEntities p (cl_registry c)) \<longleftrightarrow> (\<exists>i. GetInfo k (cl_registry c) = Some i \<and> ei_ownerPlayerId i = p)"
    using assms(1) by (simp add: GetInfo_def um_find_Some_iff client_inv_def reg_ok_def reg_inv_def)
  show ?thesis unfolding c' GetInfo_def fold_remove_left_registry fold_Unregister_find snapshots_of_def fold_remove_left_interp
      fold_RemoveEntity_find m c3
    by (auto simp: GetInfo_def split: option.splits)
qed

lemma example_client_inv: "client_inv example_client"
proof -
  have "example_registry = RegisterRemote 7 NPC 2 Vec3_default EntityRegistry_new"
    by (simp add: example_registry_def RegisterRemote_def EntityRegistry_new_def um_set_def)
  moreover have "reg_ok EntityRegistry_new" using EntityRegistry_new_inv by (simp add: reg_ok_def EntityRegistry_new_def)
  ultimately have "reg_ok example_registry" using reg_ok_ops(1) [of EntityRegistry_new 7 NPC 2 Vec3_default] by (simp add: proper_id_def INVALID_ENTITY_def)
  then show ?thesis using Client_new_inv [of 1] by (simp add: client_inv_def example_client_def)
qed

theorem left_player_is_cleaned_up_witness:
  "GetInfo 7 (cl_registry (HandlePlayerLeft example_client_env
      (reader_at [] (MsgPlayerLeft_enc \<lparr>MsgPlayerLeft_playerId = 2, MsgPlayerLeft_reason = 0\<rparr> @ [])) example_client)) = None"
proof -
  have r: "ReadStruct MsgPlayerLeft_size MsgPlayerLeft_dec
      (reader_at [] (MsgPlayerLeft_enc \<lparr>MsgPlayerLeft_playerId = 2, MsgPlayerLeft_reason = 0\<rparr> @ [])) =
      (Some \<lparr>MsgPlayerLeft_playerId = 2, MsgPlayerLeft_reason = 0\<rparr>, reader_at ([] @ MsgPlayerLeft_enc \<lparr>MsgPlayerLeft_playerId = 2, MsgPlayerLeft_reason = 0\<rparr>) [])"
    by (rule MsgPlayerLeft.struct_at) simp
  have "GetInfo 7 (cl_registry example_client) = Some (remote_info 7 NPC 2 Vec3_default)"
    by (simp add: GetInfo_def example_client_def example_registry_def)
  then show ?thesis using left_player_is_cleaned_up [OF example_client_inv r, of 7 example_client_env] by (simp add: remote_info_def)
qed

section \<open>Queued snapshots are not validated again\<close>

text \<open>
  A snapshot for an entity the client does not know is queued whatever its source, and is applied when the entity is
  announced, without the ownership check it would have failed: here player 9 places an entity of player 2.
\<close>

theorem pending_snapshot_bypasses_validation:
  "let c = introduce example_client_env 7 NPC 2 Vec3_default Quat_default (PendingQueue example_client_env example_position 9
             ((Client_new 1)\<lparr>cl_gameLoaded := True\<rparr>))
   in ValidateInboundSnapshot example_position 9 1 (cl_registry c) = RejectAuthorityViolation \<and>
      (\<exists>x \<in> set (snapshots_of 7 (cl_interp c)). sn_position x = cp_vec example_position)"
proof -
  let ?c0 = "(Client_new 1)\<lparr>cl_gameLoaded := True\<rparr>"
  let ?x = "\<lparr>pn_position = example_position, pn_sourcePlayerId = 9, pn_timestamp = ce_now example_client_env\<rparr>"
  let ?c1 = "PendingQueue example_client_env example_position 9 ?c0"
  define c where "c = introduce example_client_env 7 NPC 2 Vec3_default Quat_default ?c1"
  have k: "CharacterPosition_entityId example_position = 7" "CharacterPosition_compressedQuat example_position = 0" by (simp_all add: example_position_def)
  have p: "um_find (cl_pending ?c1) 7 = Some [?x]" by (simp add: PendingQueue_def Client_new_def k um_find_set Let_def)
  have reg: "cl_registry c = RegisterRemote 7 NPC 2 Vec3_default EntityRegistry_new"
    by (simp add: c_def introduce_registry PendingQueue_def Client_new_def Let_def)
  define ip where "ip = flush_one ?x Interpolation_new"
  have ip: "cl_interp c = AddSnapshot 7 (ce_now example_client_env) Vec3_default Quat_default 0 0 ip"
    using p by (simp add: c_def introduce_def FlushForEntity_def client_simps ip_def)
      (simp add: PendingQueue_def Client_new_def Let_def)
  have now: "f32_isfinite (ce_now example_client_env)" using example_clock by (simp add: clock_ok_def)
  have "finite_pose (cp_vec example_position) (Decompress 0)"
    unfolding decompressed_finite by (simp add: cp_vec_def example_position_def Vec3_new_def f32_eval)
  moreover have "finite_pose Vec3_default Quat_default"
    by (simp add: finite_pose_def quat_comps_def Vec3_new_def Vec3_default_def Quat_default_def f32_eval)
  ultimately have f: "finite_pose (cp_vec example_position) (Decompress 0)" "finite_pose Vec3_default Quat_default" by simp_all
  have "ip_inv ip" unfolding ip_def flush_one_def using now by (simp add: Let_def AddSnapshot_inv Interpolation_new_inv)
  from AddSnapshot_front [OF this f(2), of 7 "ce_now example_client_env" 0 0]
  have front: "\<exists>y. snapshots_of 7 (cl_interp c) = take 8 (y # snapshots_of 7 ip)" unfolding ip by blast
  obtain v where v: "snapshots_of 7 ip = take 8 (\<lparr>sn_timestamp = ce_now example_client_env, sn_tick = 0, sn_position = cp_vec example_position,
      sn_velocity = v, sn_rotation = Decompress 0, sn_moveSpeed = CharacterPosition_moveSpeed example_position,
      sn_animState = CharacterPosition_animStateId example_position\<rparr> # snapshots_of 7 Interpolation_new)"
    using AddSnapshot_front [OF Interpolation_new_inv f(1), of 7 "ce_now example_client_env" "CharacterPosition_moveSpeed example_position"
        "CharacterPosition_animStateId example_position"] by (auto simp: ip_def flush_one_def Let_def k)
  have "snapshots_of 7 Interpolation_new = []" by (simp add: snapshots_of_def Interpolation_new_def)
  with v front have "\<exists>x \<in> set (snapshots_of 7 (cl_interp c)). sn_position x = cp_vec example_position" by auto
  moreover have "ValidateInboundSnapshot example_position 9 1 (cl_registry c) = RejectAuthorityViolation"
    by (simp add: reg ValidateInboundSnapshot_def GetInfo_def GetOwnerPlayerId_def RegisterRemote_def EntityRegistry_new_def um_set_def
        remote_info_def EntityInfo_default_def example_position_def)
  ultimately show ?thesis by (simp add: c_def [symmetric] Let_def)
qed

end
