(* ===== verification/Entity_Resolver.thy ===== *)
theory Entity_Resolver
  imports Zone_Engine
begin

text \<open>
  \<^verbatim>\<open>KenshiMP.Core/sync/entity_resolver.h\<close> and \<^verbatim>\<open>.cpp\<close>: compound queries over the registry, interest sets with the
  entities that enter and leave a player's view, dirty flags, lifecycle and ownership questions.  The operations
  that change the registry take and return it.
\<close>

section \<open>Queries\<close>

record EntityFilter =
  ef_owner :: PlayerID
  ef_zone :: ZoneCoord
  ef_useZone :: bool
  ef_type :: EntityType
  ef_useType :: bool
  ef_state :: EntityState
  ef_useState :: bool
  ef_localOnly :: bool
  ef_remoteOnly :: bool
  ef_dirtyMask :: u16

definition EntityFilter_default :: EntityFilter where
  "EntityFilter_default = \<lparr>ef_owner = INVALID_PLAYER, ef_zone = ZoneCoord_default, ef_useZone = False, ef_type = NPC, ef_useType = False,
     ef_state = Active, ef_useState = False, ef_localOnly = False, ef_remoteOnly = False, ef_dirtyMask = 0\<rparr>"

definition MatchesFilter :: "EntityInfo \<Rightarrow> EntityFilter \<Rightarrow> bool" where
  "MatchesFilter info f =
     (if ef_owner f \<noteq> INVALID_PLAYER \<and> ei_ownerPlayerId info \<noteq> ef_owner f then False
      else if ef_useZone f \<and> ei_zone info \<noteq> ef_zone f then False
      else if ef_useType f \<and> ei_type info \<noteq> ef_type f then False
      else if ef_useState f \<and> ei_state info \<noteq> ef_state f then False
      else if ef_localOnly f \<and> ei_isRemote info then False
      else if ef_remoteOnly f \<and> \<not> ei_isRemote info then False
      else if ef_dirtyMask f \<noteq> 0 \<and> ei_dirtyFlags info AND ef_dirtyMask f = 0 then False
      else True)"

definition keep_matching :: "EntityRegistry \<Rightarrow> EntityFilter \<Rightarrow> EntityID list \<Rightarrow> EntityID list" where
  "keep_matching reg f = filter (\<lambda>k. case GetInfo k reg of None \<Rightarrow> False | Some i \<Rightarrow> MatchesFilter i f)"

definition Resolver_Query :: "EntityFilter \<Rightarrow> EntityRegistry \<Rightarrow> EntityID list" where
  "Resolver_Query f reg =
     (if ef_useZone f then keep_matching reg f (GetEntitiesInZone (ef_zone f) reg)
      else if ef_owner f \<noteq> INVALID_PLAYER then keep_matching reg f (GetPlayerEntities (ef_owner f) reg)
      else if ef_remoteOnly f then keep_matching reg f (GetRemoteEntities reg)
      else keep_matching reg f (GetRemoteEntities reg))"

definition Resolver_Count :: "EntityFilter \<Rightarrow> EntityRegistry \<Rightarrow> nat" where
  "Resolver_Count f reg = length (Resolver_Query f reg)"

definition InZoneNeighborhood :: "ZoneCoord \<Rightarrow> EntityRegistry \<Rightarrow> EntityID list" where
  "InZoneNeighborhood center reg = concat (map (\<lambda>dx. concat (map (\<lambda>dy.
     GetEntitiesInZone (ZoneCoord_new (zx center + dx) (zy center + dy)) reg) interest_offsets)) interest_offsets)"

definition within :: "Vec3 \<Rightarrow> f32 \<Rightarrow> Vec3 \<Rightarrow> bool" where
  "within center radiusSq p = f32_le (LengthSq (Vec3_sub p center)) radiusSq"

definition InRadius :: "Vec3 \<Rightarrow> f32 \<Rightarrow> EntityRegistry \<Rightarrow> EntityID list" where
  "InRadius center radius reg = (let radiusSq = f32_mul radius radius in
     filter (\<lambda>k. case GetInfo k reg of None \<Rightarrow> False | Some i \<Rightarrow> within center radiusSq (ei_lastPosition i))
       (InZoneNeighborhood (FromWorldPos center KMP_ZONE_SIZE) reg))"

section \<open>Interest\<close>

record InterestSet =
  it_playerId :: PlayerID
  it_playerZone :: ZoneCoord
  it_entities :: "EntityID list"
  it_enteringView :: "EntityID list"
  it_leavingView :: "EntityID list"

type_synonym interest_cache = "(PlayerID, InterestSet) umap"

definition ComputeInterest :: "PlayerID \<Rightarrow> ZoneCoord \<Rightarrow> EntityRegistry \<Rightarrow> interest_cache \<Rightarrow> InterestSet \<times> interest_cache" where
  "ComputeInterest playerId playerZone reg cache =
     (let es = InZoneNeighborhood playerZone reg;
          (entering, leaving) = (case um_find cache playerId of
             Some old \<Rightarrow> (filter (\<lambda>k. k \<notin> set (it_entities old)) es, filter (\<lambda>k. k \<notin> set es) (it_entities old))
           | None \<Rightarrow> (es, []));
          new = \<lparr>it_playerId = playerId, it_playerZone = playerZone, it_entities = es, it_enteringView = entering, it_leavingView = leaving\<rparr>
      in (new, um_set playerId new cache))"

definition GetInterest :: "PlayerID \<Rightarrow> interest_cache \<Rightarrow> InterestSet option" where
  "GetInterest playerId cache = um_find cache playerId"

definition Resolver_ClearInterest :: "PlayerID \<Rightarrow> interest_cache \<Rightarrow> interest_cache" where
  "Resolver_ClearInterest playerId cache = um_erase playerId cache"

section \<open>Dirty flags\<close>

definition MarkDirty :: "EntityID \<Rightarrow> u16 \<Rightarrow> EntityRegistry \<Rightarrow> EntityRegistry" where
  "MarkDirty k flags = SetDirtyFlags k flags"

definition IsDirty :: "EntityID \<Rightarrow> u16 \<Rightarrow> EntityRegistry \<Rightarrow> bool" where
  "IsDirty k flags reg = (case GetInfo k reg of None \<Rightarrow> False | Some i \<Rightarrow> ei_dirtyFlags i AND flags \<noteq> 0)"

fun consume_loop :: "u16 \<Rightarrow> EntityID list \<Rightarrow> EntityRegistry \<Rightarrow> EntityID list \<times> EntityRegistry" where
  "consume_loop flags [] reg = ([], reg)"
| "consume_loop flags (k # ks) reg =
     (if IsDirty k flags reg then apfst (Cons k) (consume_loop flags ks (ClearDirtyFlags k flags reg))
      else consume_loop flags ks reg)"

definition ConsumeDirty :: "u16 \<Rightarrow> EntityRegistry \<Rightarrow> EntityID list \<times> EntityRegistry" where
  "ConsumeDirty flags reg = consume_loop flags (GetRemoteEntities reg) reg"

section \<open>Lifecycle and ownership\<close>

definition CanSync :: "EntityID \<Rightarrow> EntityRegistry \<Rightarrow> bool" where
  "CanSync k reg = (case GetInfo k reg of None \<Rightarrow> False | Some i \<Rightarrow> ei_state i = Active \<or> ei_state i = Spawning)"

definition CanDespawn :: "EntityID \<Rightarrow> EntityRegistry \<Rightarrow> bool" where
  "CanDespawn k reg = (case GetInfo k reg of None \<Rightarrow> False | Some i \<Rightarrow> ei_state i = Active)"

definition IsAlive :: "EntityID \<Rightarrow> EntityRegistry \<Rightarrow> bool" where
  "IsAlive k reg = (case GetInfo k reg of None \<Rightarrow> False | Some i \<Rightarrow> ei_state i = Active \<and> ei_gameObject i \<noteq> 0)"

definition IsLocallyOwned :: "EntityID \<Rightarrow> PlayerID \<Rightarrow> EntityRegistry \<Rightarrow> bool" where
  "IsLocallyOwned k localPlayer reg = (case GetInfo k reg of None \<Rightarrow> False | Some i \<Rightarrow> ei_ownerPlayerId i = localPlayer)"

definition Resolver_IsServerOwned :: "EntityID \<Rightarrow> EntityRegistry \<Rightarrow> bool" where
  "Resolver_IsServerOwned k reg = (case GetInfo k reg of None \<Rightarrow> False | Some i \<Rightarrow> ei_ownerPlayerId i = 0)"

definition TransferToServer :: "PlayerID \<Rightarrow> EntityRegistry \<Rightarrow> EntityRegistry" where
  "TransferToServer fromPlayer reg = fold (\<lambda>k. UpdateOwner k 0) (GetPlayerEntities fromPlayer reg) reg"

section \<open>What the queries return\<close>

lemma ids_where_iff:
  "um_wf (reg_entities reg) \<Longrightarrow> k \<in> set (ids_where P reg) \<longleftrightarrow> (\<exists>i. GetInfo k reg = Some i \<and> P i)"
  by (force simp: ids_where_def GetInfo_def um_find_Some_iff)

lemma ids_where_distinct: "um_wf (reg_entities reg) \<Longrightarrow> distinct (ids_where P reg)"
  by (simp add: ids_where_def um_wf_def um_keys_def distinct_map_filter)

lemmas registry_lists = GetPlayerEntities_def GetEntitiesInZone_def GetRemoteEntities_def

text \<open>
  A query returns, without repetition, exactly the entities that satisfy the filter, as long as it names a zone or
  an owner; a query that names neither returns exactly the remote ones among them.
\<close>

theorem query_exact:
  assumes "um_wf (reg_entities reg)"
  shows "distinct (Resolver_Query f reg) \<and> (k \<in> set (Resolver_Query f reg) \<longleftrightarrow> (\<exists>i. GetInfo k reg = Some i \<and> MatchesFilter i f \<and>
    (ef_useZone f \<or> ef_owner f \<noteq> INVALID_PLAYER \<or> ei_isRemote i)))"
proof -
  have "k \<in> set (keep_matching reg f (ids_where P reg)) \<longleftrightarrow> (\<exists>i. GetInfo k reg = Some i \<and> P i \<and> MatchesFilter i f)" for P
    by (auto simp: keep_matching_def ids_where_iff [OF assms] split: option.splits)
  then show ?thesis
    using ids_where_distinct [OF assms] by (auto simp: Resolver_Query_def registry_lists keep_matching_def MatchesFilter_def split: if_splits)
qed

lemma neighborhood_iff:
  assumes "um_wf (reg_entities reg)"
  shows "k \<in> set (InZoneNeighborhood z reg) \<longleftrightarrow> (\<exists>i. GetInfo k reg = Some i \<and>
    (\<exists>dx \<in> set interest_offsets. zx (ei_zone i) = zx z + dx) \<and> (\<exists>dy \<in> set interest_offsets. zy (ei_zone i) = zy z + dy))"
proof -
  have eq: "ei_zone i = ZoneCoord_new x y \<longleftrightarrow> zx (ei_zone i) = x \<and> zy (ei_zone i) = y" for i x y
    by (auto simp: ZoneCoord_new_def)
  show ?thesis unfolding InZoneNeighborhood_def GetEntitiesInZone_def set_concat set_map UN_iff ids_where_iff [OF assms] eq bex_simps
    by blast
qed

text \<open>
  The enter and leave lists are the exact difference between the interest set computed last and the new one, which
  holds exactly the entities of the zones around the player; other players' interest sets stay as they were.
\<close>

theorem interest_deltas_exact:
  fixes p :: PlayerID and cache :: interest_cache and z :: ZoneCoord
  assumes "um_wf (reg_entities reg)"
  defines "old \<equiv> (case GetInterest p cache of None \<Rightarrow> {} | Some s \<Rightarrow> set (it_entities s))"
    and "r \<equiv> ComputeInterest p z reg cache"
  shows "set (it_enteringView (fst r)) = set (it_entities (fst r)) - old \<and> set (it_leavingView (fst r)) = old - set (it_entities (fst r)) \<and>
    GetInterest p (snd r) = Some (fst r) \<and> (\<forall>q. q \<noteq> p \<longrightarrow> GetInterest q (snd r) = GetInterest q cache) \<and>
    (\<forall>k. k \<in> set (it_entities (fst r)) \<longleftrightarrow> (\<exists>i. GetInfo k reg = Some i \<and>
       (\<exists>dx \<in> set interest_offsets. zx (ei_zone i) = zx z + dx) \<and> (\<exists>dy \<in> set interest_offsets. zy (ei_zone i) = zy z + dy)))"
  unfolding neighborhood_iff [OF assms(1), symmetric]
  by (auto simp: r_def old_def ComputeInterest_def GetInterest_def um_find_set Let_def split: option.splits)

theorem interest_deltas_exact_witness:
  "let reg = RegisterRemote 7 NPC 2 Vec3_default EntityRegistry_new; r = ComputeInterest 1 ZoneCoord_default reg []
   in GetInterest 1 (snd r) = Some (fst r) \<and> GetInterest 2 (snd r) = None"
proof -
  have "um_wf (reg_entities (RegisterRemote 7 NPC 2 Vec3_default EntityRegistry_new))"
    by (simp add: RegisterRemote_def EntityRegistry_new_def Let_def)
  from interest_deltas_exact [OF this, of 1 ZoneCoord_default "[]"] show ?thesis
    by (simp add: Let_def GetInterest_def del: split_paired_All)
qed

section \<open>Dirty flags and ownership\<close>

lemma GetInfo_modify_info: "GetInfo j (modify_info k f reg) = (if j = k then map_option f (GetInfo k reg) else GetInfo j reg)"
  by (simp add: GetInfo_def modify_info_def um_find_modify)

lemma cleared_flags: "(x AND NOT flags) AND flags = (0 :: u16)"
  by (rule bit_word_eqI) (simp add: bit_simps)

lemma IsDirty_ClearDirtyFlags: "IsDirty j flags (ClearDirtyFlags k flags reg) \<longleftrightarrow> j \<noteq> k \<and> IsDirty j flags reg"
  by (auto simp: IsDirty_def ClearDirtyFlags_def GetInfo_modify_info cleared_flags split: option.splits)

lemma GetRemoteEntities_ClearDirtyFlags: "GetRemoteEntities (ClearDirtyFlags k flags reg) = GetRemoteEntities reg"
proof -
  have "map fst (filter (\<lambda>(j, i). ei_isRemote i) (um_modify k f m)) = map fst (filter (\<lambda>(j, i). ei_isRemote i) m)"
    if "\<And>i. ei_isRemote (f i) = ei_isRemote i" for f and m :: "(EntityID, EntityInfo) umap"
    using that by (induction m) (simp_all add: um_modify_def split_beta)
  then show ?thesis by (simp add: GetRemoteEntities_def ids_where_def ClearDirtyFlags_def modify_info_def)
qed

lemma consume_loop_result:
  assumes "distinct ks"
  shows "fst (consume_loop flags ks reg) = filter (\<lambda>k. IsDirty k flags reg) ks \<and>
    (\<forall>j. GetInfo j (snd (consume_loop flags ks reg)) =
       (if j \<in> set ks \<and> IsDirty j flags reg then map_option (\<lambda>i. i\<lparr>ei_dirtyFlags := ei_dirtyFlags i AND NOT flags\<rparr>) (GetInfo j reg)
        else GetInfo j reg)) \<and>
    GetRemoteEntities (snd (consume_loop flags ks reg)) = GetRemoteEntities reg"
  using assms
proof (induction flags ks reg rule: consume_loop.induct)
  case (2 flags k ks reg)
  have same: "filter (\<lambda>j. j \<noteq> k \<and> IsDirty j flags reg) ks = filter (\<lambda>j. IsDirty j flags reg) ks"
    using 2(3) by (auto intro!: filter_cong)
  show ?case
  proof (cases "IsDirty k flags reg")
    case True
    with 2 show ?thesis
      by (auto simp: IsDirty_ClearDirtyFlags same GetRemoteEntities_ClearDirtyFlags) (auto simp: ClearDirtyFlags_def GetInfo_modify_info)
  next
    case False
    with 2 show ?thesis by auto
  qed
qed simp

lemma consume_loop_clean: "(\<forall>k \<in> set ks. \<not> IsDirty k flags reg) \<Longrightarrow> consume_loop flags ks reg = ([], reg)"
  by (induction ks) simp_all

text \<open>
  Consuming the dirty entities for a mask returns every remote entity with a flag of the mask exactly once,
  clears the flags of the mask on those and changes nothing else; a second call finds nothing.
\<close>

theorem consume_dirty_once:
  fixes flags :: u16
  assumes "um_wf (reg_entities reg)"
  defines "r \<equiv> ConsumeDirty flags reg"
  shows "distinct (fst r) \<and>
    (\<forall>k. k \<in> set (fst r) \<longleftrightarrow> (\<exists>i. GetInfo k reg = Some i \<and> ei_isRemote i \<and> ei_dirtyFlags i AND flags \<noteq> 0)) \<and>
    (\<forall>k. GetInfo k (snd r) = (if k \<in> set (fst r) then map_option (\<lambda>i. i\<lparr>ei_dirtyFlags := ei_dirtyFlags i AND NOT flags\<rparr>) (GetInfo k reg)
       else GetInfo k reg)) \<and>
    ConsumeDirty flags (snd r) = ([], snd r)"
proof -
  have d: "distinct (GetRemoteEntities reg)" unfolding GetRemoteEntities_def by (rule ids_where_distinct [OF assms(1)])
  note run = consume_loop_result [OF d, of flags reg, folded ConsumeDirty_def r_def]
  have mem: "k \<in> set (fst r) \<longleftrightarrow> (\<exists>i. GetInfo k reg = Some i \<and> ei_isRemote i \<and> ei_dirtyFlags i AND flags \<noteq> 0)" for k
    using run by (auto simp: GetRemoteEntities_def ids_where_iff [OF assms(1)] IsDirty_def split: option.splits)
  have "\<forall>k \<in> set (GetRemoteEntities reg). \<not> IsDirty k flags (snd r)"
    using run by (auto simp: IsDirty_def cleared_flags split: option.splits)
  then have "ConsumeDirty flags (snd r) = ([], snd r)"
    using run by (simp add: ConsumeDirty_def consume_loop_clean)
  with mem run d show ?thesis by auto
qed

theorem consume_dirty_once_witness:
  "let reg = RegisterRemote 7 NPC 2 Vec3_default EntityRegistry_new
   in ConsumeDirty 1 (snd (ConsumeDirty 1 (MarkDirty 7 1 reg))) = ([], snd (ConsumeDirty 1 (MarkDirty 7 1 reg)))"
proof -
  have "um_wf (reg_entities (MarkDirty 7 1 (RegisterRemote 7 NPC 2 Vec3_default EntityRegistry_new)))"
    by (simp add: MarkDirty_def SetDirtyFlags_def modify_info_def RegisterRemote_def EntityRegistry_new_def Let_def)
  from consume_dirty_once [OF this, of 1] show ?thesis by (simp add: Let_def)
qed

lemma fold_UpdateOwner:
  "distinct ks \<Longrightarrow> GetInfo j (fold (\<lambda>k. UpdateOwner k q) ks reg) =
     (if j \<in> set ks then map_option (\<lambda>i. i\<lparr>ei_ownerPlayerId := q\<rparr>) (GetInfo j reg) else GetInfo j reg)"
  by (induction ks arbitrary: reg) (auto simp: UpdateOwner_def GetInfo_modify_info)

text \<open>Transferring a player's entities to the server moves exactly these and leaves the player with none.\<close>

theorem transfer_to_server_exact:
  assumes "um_wf (reg_entities reg)"
  shows "GetInfo k (TransferToServer p reg) =
    map_option (\<lambda>i. if ei_ownerPlayerId i = p then i\<lparr>ei_ownerPlayerId := 0\<rparr> else i) (GetInfo k reg)"
proof -
  have "distinct (GetPlayerEntities p reg)" unfolding GetPlayerEntities_def by (rule ids_where_distinct [OF assms])
  moreover have "k \<in> set (GetPlayerEntities p reg) \<longleftrightarrow> (\<exists>i. GetInfo k reg = Some i \<and> ei_ownerPlayerId i = p)"
    unfolding GetPlayerEntities_def by (rule ids_where_iff [OF assms])
  ultimately show ?thesis
    by (cases "GetInfo k reg") (auto simp: TransferToServer_def fold_UpdateOwner)
qed

end
