(* ===== verification/Text_Util.thy ===== *)
theory Text_Util
  imports Kmp_Prelude "HOL-Library.Sublist"
begin

text \<open>
  Case-insensitive text as the servers and the client use it: \<^verbatim>\<open>std::tolower\<close> of the C locale mapped over a
  string, \<^verbatim>\<open>std::string::find\<close>, and the decimal suffixes of generated names.  The lemmas relate the search to the
  library's sublists and say that decimal numbers are distinct.
\<close>

section \<open>Lower case and search\<close>

definition tolower :: "byte \<Rightarrow> byte" where
  "tolower c = (if 65 \<le> c \<and> c \<le> 90 then c + 32 else c)"

definition ToLower :: "bytes \<Rightarrow> bytes" where
  "ToLower s = map tolower s"

text \<open>\<open>string_find\<close> is the position \<^verbatim>\<open>s.find(p)\<close> returns, \<open>None\<close> for \<^verbatim>\<open>npos\<close>.\<close>

fun string_find :: "bytes \<Rightarrow> bytes \<Rightarrow> nat option" where
  "string_find p [] = (if p = [] then Some 0 else None)"
| "string_find p (c # s) = (if prefix p (c # s) then Some 0 else map_option Suc (string_find p s))"

lemma string_find_sublist: "string_find p s \<noteq> None \<longleftrightarrow> sublist p s"
  by (induction s) (auto simp: sublist_Cons_right)

lemma string_find_prefix: "string_find p s = Some 0 \<longleftrightarrow> prefix p s"
  by (cases s) auto

lemma string_find_position: "string_find p s = Some n \<Longrightarrow> prefix p (drop n s) \<and> n \<le> length s"
  by (induction s arbitrary: n) (auto split: if_splits)

lemma tolower_range: "\<not> (65 \<le> tolower c \<and> tolower c \<le> 90)"
proof (cases "65 \<le> c \<and> c \<le> 90")
  case True
  then have "65 \<le> unat c" "unat c \<le> 90" by (simp_all add: word_le_nat_alt)
  then have "unat (c + 32) = unat c + 32" by (simp add: unat_word_ariths)
  then show ?thesis using True \<open>65 \<le> unat c\<close> by (simp add: tolower_def word_le_nat_alt)
next
  case False
  then have "tolower c = c" by (auto simp: tolower_def)
  with False show ?thesis by simp
qed

lemma ToLower_idem: "ToLower (ToLower s) = ToLower s"
proof -
  have "tolower (tolower c) = tolower c" for c using tolower_range [of c] by (simp only: tolower_def [of "tolower c"] if_False)
  then show ?thesis by (simp add: ToLower_def)
qed

lemma length_ToLower [simp]: "length (ToLower s) = length s"
  by (simp add: ToLower_def)

lemma ToLower_append [simp]: "ToLower (s @ t) = ToLower s @ ToLower t"
  by (simp add: ToLower_def)

section \<open>Decimal numbers\<close>

lemma digit_unat: "k < 10 \<Longrightarrow> unat (48 + of_nat k :: byte) = 48 + k"
  by (simp add: unat_word_ariths unat_of_nat)

lemma dec_nat_digits: "b \<in> set (dec_nat n) \<Longrightarrow> 48 \<le> unat b \<and> unat b \<le> 57"
proof (induction n rule: dec_nat.induct)
  case (1 n)
  show ?case using 1 digit_unat [of n] digit_unat [of "n mod 10"] by (subst (asm) (2) dec_nat.simps) (auto split: if_splits)
qed

lemma dec_nat_small: "n < 10 \<Longrightarrow> dec_nat n = [48 + of_nat n]"
  by (simp add: dec_nat.simps [of n])

lemma dec_nat_big: "\<not> n < 10 \<Longrightarrow> dec_nat n = dec_nat (n div 10) @ [48 + of_nat (n mod 10)]"
  by (simp add: dec_nat.simps [of n])

lemma dec_nat_nonempty: "dec_nat n \<noteq> []"
  by (cases "n < 10") (simp_all add: dec_nat_small dec_nat_big)

lemma dec_nat_inj: "dec_nat n = dec_nat m \<Longrightarrow> n = m"
proof (induction n arbitrary: m rule: less_induct)
  case (less n)
  have d: "(48 + of_nat k :: byte) = 48 + of_nat l \<longleftrightarrow> k = l" if "k < 10" "l < 10" for k l
    using that by (auto simp del: of_nat_add simp: word_unat_eq_iff digit_unat)
  show ?case
  proof (cases "n < 10")
    case True
    have "m < 10"
    proof (rule ccontr)
      assume "\<not> m < 10"
      with less.prems True show False using dec_nat_nonempty [of "m div 10"] by (simp add: dec_nat_small dec_nat_big)
    qed
    with less.prems True d show ?thesis by (simp add: dec_nat_small)
  next
    case False
    have "\<not> m < 10"
    proof
      assume "m < 10"
      with less.prems False show False using dec_nat_nonempty [of "n div 10"] by (simp add: dec_nat_small dec_nat_big)
    qed
    with less.prems False d [of "n mod 10" "m mod 10"] have "dec_nat (n div 10) = dec_nat (m div 10)" "n mod 10 = m mod 10"
      by (simp_all add: dec_nat_big)
    moreover have "n div 10 = m div 10" using less.IH [of "n div 10"] calculation(1) False by simp
    ultimately show ?thesis by (metis div_mult_mod_eq)
  qed
qed

lemma tolower_digit: "48 \<le> unat b \<Longrightarrow> unat b \<le> 57 \<Longrightarrow> tolower b = b"
  by (simp add: tolower_def word_le_nat_alt)

lemma ToLower_dec [simp]: "ToLower (dec_nat n) = dec_nat n"
  unfolding ToLower_def by (rule map_idI) (auto dest: dec_nat_digits intro: tolower_digit)

end
