(* ===== verification/Player_Engine.thy ===== *)
theory Player_Engine
  imports Entity_Resolver Text_Util
begin

text \<open>
  \<^verbatim>\<open>KenshiMP.Core/sync/player_engine.cpp\<close> and \<^verbatim>\<open>KenshiMP.Core/game/player_controller.cpp\<close>: the sessions of the remote
  players with their lifecycle states, and the controller that tracks the local player, its faction and the
  characters of the remote players.  A \<^verbatim>\<open>steady_clock\<close> reading is a number of nanoseconds and an argument of the
  operations that take one.  What the controller reads from and writes to the game's own objects goes through
  \<open>game_api\<close>, whose functions are those of the game.
\<close>

section \<open>Sessions\<close>

datatype PlayerState = PsConnecting | PsLoading | PsInGame | PsAFK | PsDisconnected

record PlayerSession =
  pls_playerId :: PlayerID
  pls_name :: bytes
  pls_state :: PlayerState
  pls_zone :: ZoneCoord
  pls_position :: Vec3
  pls_ping :: u32
  pls_joinTime :: int
  pls_lastActivity :: int
  pls_lastPositionUpdate :: int
  pls_entityCount :: int
  pls_isHost :: bool

record PlayerEngine =
  pg_localState :: PlayerState
  pg_localZone :: ZoneCoord
  pg_localPlayerId :: PlayerID
  pg_localPlayerName :: bytes
  pg_sessions :: "(PlayerID, PlayerSession) umap"

definition PlayerEngine_new :: PlayerEngine where
  "PlayerEngine_new = \<lparr>pg_localState = PsConnecting, pg_localZone = ZoneCoord_default, pg_localPlayerId = INVALID_PLAYER,
     pg_localPlayerName = [], pg_sessions = []\<rparr>"

definition SetState :: "PlayerID \<Rightarrow> PlayerState \<Rightarrow> PlayerEngine \<Rightarrow> PlayerEngine" where
  "SetState k new s = (if k = pg_localPlayerId s then s\<lparr>pg_localState := new\<rparr>
     else s\<lparr>pg_sessions := um_modify k (\<lambda>x. x\<lparr>pls_state := new\<rparr>) (pg_sessions s)\<rparr>)"

definition GetState :: "PlayerID \<Rightarrow> PlayerEngine \<Rightarrow> PlayerState" where
  "GetState k s = (if k = pg_localPlayerId s then pg_localState s
     else case um_find (pg_sessions s) k of Some x \<Rightarrow> pls_state x | None \<Rightarrow> PsDisconnected)"

definition OnHandshakeAck :: "PlayerID \<Rightarrow> bytes \<Rightarrow> PlayerEngine \<Rightarrow> PlayerEngine" where
  "OnHandshakeAck localId name s = s\<lparr>pg_localPlayerId := localId, pg_localPlayerName := name, pg_localState := PsLoading\<rparr>"

definition new_session :: "int \<Rightarrow> PlayerID \<Rightarrow> bytes \<Rightarrow> PlayerSession" where
  "new_session now k name = \<lparr>pls_playerId = k, pls_name = name, pls_state = PsInGame, pls_zone = ZoneCoord_default, pls_position = Vec3_default,
     pls_ping = 0, pls_joinTime = now, pls_lastActivity = now, pls_lastPositionUpdate = now, pls_entityCount = 0, pls_isHost = False\<rparr>"

definition OnRemotePlayerJoined :: "int \<Rightarrow> PlayerID \<Rightarrow> bytes \<Rightarrow> PlayerEngine \<Rightarrow> PlayerEngine" where
  "OnRemotePlayerJoined now k name s = s\<lparr>pg_sessions := um_set k (new_session now k name) (pg_sessions s)\<rparr>"

definition OnRemotePlayerLeft :: "PlayerID \<Rightarrow> PlayerEngine \<Rightarrow> PlayerEngine" where
  "OnRemotePlayerLeft k s = s\<lparr>pg_sessions := um_modify k (\<lambda>x. x\<lparr>pls_state := PsDisconnected\<rparr>) (pg_sessions s)\<rparr>"

definition OnWorldSnapshotReceived :: "PlayerEngine \<Rightarrow> PlayerEngine" where
  "OnWorldSnapshotReceived s = s\<lparr>pg_localState := PsInGame\<rparr>"

definition RecordActivity :: "int \<Rightarrow> PlayerID \<Rightarrow> PlayerEngine \<Rightarrow> PlayerEngine" where
  "RecordActivity now k s = s\<lparr>pg_sessions := um_modify k (\<lambda>x. let x1 = x\<lparr>pls_lastActivity := now\<rparr> in
     if pls_state x1 = PsAFK then x1\<lparr>pls_state := PsInGame\<rparr> else x1) (pg_sessions s)\<rparr>"

definition UpdatePlayerPosition :: "int \<Rightarrow> PlayerID \<Rightarrow> Vec3 \<Rightarrow> ZoneCoord \<Rightarrow> PlayerEngine \<Rightarrow> PlayerEngine" where
  "UpdatePlayerPosition now k pos z s = s\<lparr>pg_sessions := um_modify k (\<lambda>x. x\<lparr>pls_position := pos, pls_zone := z,
     pls_lastPositionUpdate := now, pls_lastActivity := now\<rparr>) (pg_sessions s)\<rparr>"

text \<open>\<^verbatim>\<open>duration_cast<seconds>\<close> truncates towards zero.\<close>

definition whole_seconds :: "int \<Rightarrow> int" where
  "whole_seconds ns = sgn ns * (\<bar>ns\<bar> div 1000000000)"

definition is_idle :: "int \<Rightarrow> f32 \<Rightarrow> PlayerSession \<Rightarrow> bool" where
  "is_idle now timeout x \<longleftrightarrow> pls_state x = PsInGame \<and> f32_trunc timeout \<le> whole_seconds (now - pls_lastActivity x)"

definition CheckAFK :: "int \<Rightarrow> f32 \<Rightarrow> PlayerEngine \<Rightarrow> PlayerID list \<times> PlayerEngine" where
  "CheckAFK now timeout s = (map fst (filter (\<lambda>(k, x). is_idle now timeout x) (pg_sessions s)),
     s\<lparr>pg_sessions := map (\<lambda>(k, x). (k, if is_idle now timeout x then x\<lparr>pls_state := PsAFK\<rparr> else x)) (pg_sessions s)\<rparr>)"

definition GetSession :: "PlayerID \<Rightarrow> PlayerEngine \<Rightarrow> PlayerSession option" where
  "GetSession k s = um_find (pg_sessions s) k"

definition GetByState :: "PlayerState \<Rightarrow> PlayerEngine \<Rightarrow> PlayerID list" where
  "GetByState st s = map fst (filter (\<lambda>(k, x). pls_state x = st) (pg_sessions s))"

definition GetByZone :: "ZoneCoord \<Rightarrow> PlayerEngine \<Rightarrow> PlayerID list" where
  "GetByZone z s = map fst (filter (\<lambda>(k, x). pls_zone x = z) (pg_sessions s))"

definition PlayerEngine_FindByName :: "bytes \<Rightarrow> PlayerEngine \<Rightarrow> PlayerID" where
  "PlayerEngine_FindByName partialName s =
     (case find (\<lambda>(k, x). string_find (ToLower partialName) (ToLower (pls_name x)) \<noteq> None) (pg_sessions s) of
        Some (k, x) \<Rightarrow> k | None \<Rightarrow> INVALID_PLAYER)"

definition GetAllSessions :: "PlayerEngine \<Rightarrow> PlayerSession list" where
  "GetAllSessions s = map snd (pg_sessions s)"

record StateCount =
  sct_connecting :: nat
  sct_loading :: nat
  sct_inGame :: nat
  sct_afk :: nat
  sct_disconnected :: nat

definition tally :: "PlayerState \<Rightarrow> StateCount \<Rightarrow> StateCount" where
  "tally st c = (case st of PsConnecting \<Rightarrow> c\<lparr>sct_connecting := Suc (sct_connecting c)\<rparr> | PsLoading \<Rightarrow> c\<lparr>sct_loading := Suc (sct_loading c)\<rparr>
     | PsInGame \<Rightarrow> c\<lparr>sct_inGame := Suc (sct_inGame c)\<rparr> | PsAFK \<Rightarrow> c\<lparr>sct_afk := Suc (sct_afk c)\<rparr>
     | PsDisconnected \<Rightarrow> c\<lparr>sct_disconnected := Suc (sct_disconnected c)\<rparr>)"

definition GetStateCounts :: "PlayerEngine \<Rightarrow> StateCount" where
  "GetStateCounts s = fold (\<lambda>(k, x). tally (pls_state x)) (pg_sessions s)
     \<lparr>sct_connecting = 0, sct_loading = 0, sct_inGame = 0, sct_afk = 0, sct_disconnected = 0\<rparr>"

definition SetLocalZone :: "ZoneCoord \<Rightarrow> PlayerEngine \<Rightarrow> PlayerEngine" where
  "SetLocalZone z s = s\<lparr>pg_localZone := z\<rparr>"

definition PlayerEngine_Reset :: "PlayerEngine \<Rightarrow> PlayerEngine" where
  "PlayerEngine_Reset s = s\<lparr>pg_sessions := [], pg_localPlayerId := INVALID_PLAYER, pg_localPlayerName := [], pg_localState := PsConnecting,
     pg_localZone := ZoneCoord_new 0 0\<rparr>"

section \<open>The controller\<close>

text \<open>What the game answers about one of its characters, and whether a write to it succeeds.\<close>

record game_api =
  ga_IsValid :: "u64 \<Rightarrow> bool"
  ga_GetFactionPtr :: "u64 \<Rightarrow> u64"
  ga_WriteName :: "u64 \<Rightarrow> bytes \<Rightarrow> bool"
  ga_WriteNameToGameData :: "u64 \<Rightarrow> bytes \<Rightarrow> bool"
  ga_moduleBase :: u64

record RemotePlayerState =
  rps_playerId :: PlayerID
  rps_playerName :: bytes
  rps_lastKnownPosition :: Vec3
  rps_hasSpawnedCharacter :: bool
  rps_factionPtr :: u64
  rps_entities :: "EntityID list"

record PlayerController =
  pct_localPlayerId :: PlayerID
  pct_localPlayerName :: bytes
  pct_localFactionPtr :: u64
  pct_initialized :: bool
  pct_remotePlayers :: "(PlayerID, RemotePlayerState) umap"

definition PlayerController_new :: PlayerController where
  "PlayerController_new = \<lparr>pct_localPlayerId = 0, pct_localPlayerName = [], pct_localFactionPtr = 0, pct_initialized = False, pct_remotePlayers = []\<rparr>"

definition in_module :: "u64 \<Rightarrow> u64 \<Rightarrow> bool" where
  "in_module base p \<longleftrightarrow> base \<le> p \<and> p < base + 0x4000000"

definition capture_faction :: "game_api \<Rightarrow> EntityRegistry \<Rightarrow> EntityID \<Rightarrow> PlayerController \<Rightarrow> PlayerController" where
  "capture_faction api reg eid s =
     (let obj = GetGameObject eid reg in
      if obj = 0 \<or> \<not> ga_IsValid api obj then s
      else let faction = ga_GetFactionPtr api obj in
        if 0x10000 < faction \<and> faction < 0x00007FFFFFFFFFFF \<and> faction AND 7 = 0 \<and> pct_localFactionPtr s = 0
        then if in_module (ga_moduleBase api) faction then s else s\<lparr>pct_localFactionPtr := faction\<rparr>
        else s)"

definition InitializeLocalPlayer :: "game_api \<Rightarrow> EntityRegistry \<Rightarrow> PlayerID \<Rightarrow> bytes \<Rightarrow> PlayerController \<Rightarrow> PlayerController" where
  "InitializeLocalPlayer api reg localId name s =
     fold (capture_faction api reg) (GetPlayerEntities localId reg) (s\<lparr>pct_localPlayerId := localId, pct_localPlayerName := name, pct_initialized := True\<rparr>)"

definition GetLocalSquadEntities :: "EntityRegistry \<Rightarrow> PlayerController \<Rightarrow> EntityID list" where
  "GetLocalSquadEntities reg s = GetPlayerEntities (pct_localPlayerId s) reg"

definition GetPrimaryCharacter :: "EntityRegistry \<Rightarrow> PlayerController \<Rightarrow> u64" where
  "GetPrimaryCharacter reg s =
     (case find (\<lambda>k. GetGameObject k reg \<noteq> 0) (GetPlayerEntities (pct_localPlayerId s) reg) of Some k \<Rightarrow> GetGameObject k reg | None \<Rightarrow> 0)"

definition RemotePlayerState_default :: RemotePlayerState where
  "RemotePlayerState_default = \<lparr>rps_playerId = 0, rps_playerName = [], rps_lastKnownPosition = Vec3_default, rps_hasSpawnedCharacter = False,
     rps_factionPtr = 0, rps_entities = []\<rparr>"

definition RegisterRemotePlayer :: "PlayerID \<Rightarrow> bytes \<Rightarrow> PlayerController \<Rightarrow> PlayerController" where
  "RegisterRemotePlayer k name s =
     (if k = pct_localPlayerId s then s
      else let old = (case um_find (pct_remotePlayers s) k of Some x \<Rightarrow> x | None \<Rightarrow> RemotePlayerState_default)
           in s\<lparr>pct_remotePlayers := um_set k (old\<lparr>rps_playerId := k, rps_playerName := name\<rparr>) (pct_remotePlayers s)\<rparr>)"

definition RemoveRemotePlayer :: "PlayerID \<Rightarrow> PlayerController \<Rightarrow> PlayerController" where
  "RemoveRemotePlayer k s = s\<lparr>pct_remotePlayers := um_erase k (pct_remotePlayers s)\<rparr>"

definition SetLocalFactionPtr :: "u64 \<Rightarrow> PlayerController \<Rightarrow> PlayerController" where
  "SetLocalFactionPtr p s = s\<lparr>pct_localFactionPtr := p\<rparr>"

definition display_name :: "PlayerID \<Rightarrow> PlayerController \<Rightarrow> bytes" where
  "display_name owner s = (let n = (case um_find (pct_remotePlayers s) owner of Some x \<Rightarrow> rps_playerName x | None \<Rightarrow> []) in
     if n = [] then lit ''Player_'' @ dec_nat (unat owner) else n)"

text \<open>The second component is the name written to the character, if one was tried.\<close>

definition OnRemoteCharacterSpawned ::
  "game_api \<Rightarrow> EntityID \<Rightarrow> u64 \<Rightarrow> PlayerID \<Rightarrow> PlayerController \<Rightarrow> bool \<times> bytes option \<times> PlayerController" where
  "OnRemoteCharacterSpawned api eid obj owner s =
     (if obj = 0 \<or> \<not> ga_IsValid api obj then (False, None, s)
      else (True, Some (take 15 (display_name owner s)),
        s\<lparr>pct_remotePlayers := um_modify owner (\<lambda>x. x\<lparr>rps_hasSpawnedCharacter := True, rps_entities := rps_entities x @ [eid],
            rps_factionPtr := (if rps_factionPtr x = 0 then ga_GetFactionPtr api obj else rps_factionPtr x)\<rparr>) (pct_remotePlayers s)\<rparr>))"

definition WriteGameDataNameForModLink :: "game_api \<Rightarrow> u64 \<Rightarrow> PlayerID \<Rightarrow> PlayerController \<Rightarrow> bool" where
  "WriteGameDataNameForModLink api obj owner s =
     (if obj = 0 then False else if \<not> ga_IsValid api obj then False else ga_WriteNameToGameData api obj (take 15 (display_name owner s)))"

definition GetRemotePlayer :: "PlayerID \<Rightarrow> PlayerController \<Rightarrow> RemotePlayerState option" where
  "GetRemotePlayer k s = um_find (pct_remotePlayers s) k"

definition GetAllRemotePlayers :: "PlayerController \<Rightarrow> RemotePlayerState list" where
  "GetAllRemotePlayers s = map snd (pct_remotePlayers s)"

definition PlayerController_Reset :: "PlayerController \<Rightarrow> PlayerController" where
  "PlayerController_Reset s = s\<lparr>pct_remotePlayers := [], pct_localFactionPtr := 0, pct_initialized := False\<rparr>"

section \<open>The faction election\<close>

text \<open>What the scan reads of one character the iterator yields; \<open>sc_flag\<close> is false where the offset is unknown.\<close>

record seen_character =
  sc_valid :: bool
  sc_faction :: u64
  sc_name :: bytes
  sc_flag :: bool

record FacVote =
  fv_ptr :: u64
  fv_score :: nat
  fv_nameMatch :: bool

definition strnicmp_eq :: "bytes \<Rightarrow> bytes \<Rightarrow> nat \<Rightarrow> bool" where
  "strnicmp_eq a b n \<longleftrightarrow> ToLower (take n (cstr a)) = ToLower (take n (cstr b))"

definition name_matches :: "bytes \<Rightarrow> bytes \<Rightarrow> bool" where
  "name_matches cfgName charName \<longleftrightarrow>
     0 < length cfgName \<and> length charName = length cfgName \<and> strnicmp_eq charName cfgName (length cfgName)"

definition plausible_faction :: "u64 \<Rightarrow> u64 \<Rightarrow> bool" where
  "plausible_faction base p \<longleftrightarrow> \<not> (p < 0x10000 \<or> 0x00007FFFFFFFFFFF < p \<or> p AND 7 \<noteq> 0) \<and> \<not> in_module base p"

definition vote_points :: "bytes \<Rightarrow> seen_character \<Rightarrow> nat" where
  "vote_points cfgName c = 1 + (if name_matches cfgName (sc_name c) then 10 else 0) + (if sc_flag c then 3 else 0)"

definition credit :: "bytes \<Rightarrow> seen_character \<Rightarrow> FacVote \<Rightarrow> FacVote" where
  "credit cfgName c v = v\<lparr>fv_score := fv_score v + vote_points cfgName c, fv_nameMatch := fv_nameMatch v \<or> name_matches cfgName (sc_name c)\<rparr>"

fun cast_vote :: "bytes \<Rightarrow> seen_character \<Rightarrow> FacVote list \<Rightarrow> nat \<Rightarrow> FacVote list" where
  "cast_vote cfgName c [] room =
     (if room = 0 then [] else [credit cfgName c \<lparr>fv_ptr = sc_faction c, fv_score = 0, fv_nameMatch = False\<rparr>])"
| "cast_vote cfgName c (v # vs) room =
     (if fv_ptr v = sc_faction c then credit cfgName c v # vs else v # cast_vote cfgName c vs (room - 1))"

fun scan_votes :: "u64 \<Rightarrow> bytes \<Rightarrow> seen_character list \<Rightarrow> nat \<Rightarrow> FacVote list \<Rightarrow> FacVote list" where
  "scan_votes base cfgName [] scanned vs = vs"
| "scan_votes base cfgName (c # cs) scanned vs =
     (if 12 \<le> scanned then vs
      else if \<not> sc_valid c then scan_votes base cfgName cs scanned vs
      else if \<not> plausible_faction base (sc_faction c) then scan_votes base cfgName cs (Suc scanned) vs
      else scan_votes base cfgName cs (Suc scanned) (cast_vote cfgName c vs 4))"

definition elect :: "FacVote list \<Rightarrow> u64" where
  "elect vs = fst (fold (\<lambda>v (best, score). if score < fv_score v then (fv_ptr v, fv_score v) else (best, score)) vs (0, 0))"

definition OnGameWorldLoaded :: "u64 \<Rightarrow> bytes \<Rightarrow> seen_character list \<Rightarrow> PlayerController \<Rightarrow> PlayerController" where
  "OnGameWorldLoaded base cfgName cs s = (let best = elect (scan_votes base cfgName cs 0 []) in
     if best \<noteq> 0 \<and> pct_localFactionPtr s = 0 then s\<lparr>pct_localFactionPtr := best\<rparr> else s)"

section \<open>What the sessions promise\<close>

lemmas engine_ops = SetState_def OnHandshakeAck_def OnRemotePlayerJoined_def OnRemotePlayerLeft_def OnWorldSnapshotReceived_def
  RecordActivity_def UpdatePlayerPosition_def CheckAFK_def SetLocalZone_def PlayerEngine_Reset_def Let_def

text \<open>
  The idle check reports exactly the players in the game whose last activity is at least the timeout ago, each
  once, moves exactly these to AFK, changes no other session, and reports nobody when it is repeated at once.
\<close>

theorem afk_check_exact:
  fixes now :: int and timeout :: f32
  assumes "um_wf (pg_sessions s)"
  defines "r \<equiv> CheckAFK now timeout s"
  shows "distinct (fst r) \<and> (\<forall>k. k \<in> set (fst r) \<longleftrightarrow> (\<exists>x. GetSession k s = Some x \<and> is_idle now timeout x)) \<and>
    (\<forall>k. GetSession k (snd r) = map_option (\<lambda>x. if k \<in> set (fst r) then x\<lparr>pls_state := PsAFK\<rparr> else x) (GetSession k s)) \<and>
    CheckAFK now timeout (snd r) = ([], snd r)"
proof -
  have mem: "k \<in> set (fst r) \<longleftrightarrow> (\<exists>x. GetSession k s = Some x \<and> is_idle now timeout x)" for k
    unfolding r_def CheckAFK_def GetSession_def fst_conv by (rule in_keys_filter [OF assms(1)])
  have "distinct (fst r)" using assms(1) by (simp add: r_def CheckAFK_def um_wf_def um_keys_def distinct_map_filter)
  moreover have "GetSession k (snd r) = map_option (\<lambda>x. if k \<in> set (fst r) then x\<lparr>pls_state := PsAFK\<rparr> else x) (GetSession k s)" for k
    unfolding mem by (cases "GetSession k s") (simp_all add: r_def CheckAFK_def GetSession_def um_find_map)
  moreover have "CheckAFK now timeout (snd r) = ([], snd r)"
  proof -
    have still: "\<not> is_idle now timeout (if is_idle now timeout x then x\<lparr>pls_state := PsAFK\<rparr> else x)" for x
      by (auto simp: is_idle_def)
    then have "filter (\<lambda>(k, x). is_idle now timeout x) (pg_sessions (snd r)) = []"
      by (auto simp: r_def CheckAFK_def filter_empty_conv)
    moreover have "map (\<lambda>(k, x). (k, if is_idle now timeout x then x\<lparr>pls_state := PsAFK\<rparr> else x)) (pg_sessions (snd r)) = pg_sessions (snd r)"
      unfolding r_def CheckAFK_def by (auto simp: is_idle_def)
    ultimately show ?thesis by (simp add: CheckAFK_def)
  qed
  ultimately show ?thesis using mem by blast
qed

theorem afk_check_exact_witness:
  "let s = OnRemotePlayerJoined 0 4 (lit ''Ann'') PlayerEngine_new; r = CheckAFK 400000000000 (f32_of_int 300) s
   in CheckAFK 400000000000 (f32_of_int 300) (snd r) = ([], snd r)"
proof -
  have "um_wf (pg_sessions (OnRemotePlayerJoined 0 4 (lit ''Ann'') PlayerEngine_new))" by (simp add: engine_ops PlayerEngine_new_def)
  from afk_check_exact [OF this] show ?thesis by (simp add: Let_def)
qed

datatype session_op =
    SoSetState PlayerID PlayerState
  | SoHandshakeAck PlayerID bytes
  | SoJoined int PlayerID bytes
  | SoLeft PlayerID
  | SoWorldSnapshot
  | SoActivity int PlayerID
  | SoPosition int PlayerID Vec3 ZoneCoord
  | SoCheckAFK int f32
  | SoLocalZone ZoneCoord
  | SoReset

fun session_apply :: "session_op \<Rightarrow> PlayerEngine \<Rightarrow> PlayerEngine" where
  "session_apply (SoSetState k st) = SetState k st"
| "session_apply (SoHandshakeAck k n) = OnHandshakeAck k n"
| "session_apply (SoJoined now k n) = OnRemotePlayerJoined now k n"
| "session_apply (SoLeft k) = OnRemotePlayerLeft k"
| "session_apply SoWorldSnapshot = OnWorldSnapshotReceived"
| "session_apply (SoActivity now k) = RecordActivity now k"
| "session_apply (SoPosition now k p z) = UpdatePlayerPosition now k p z"
| "session_apply (SoCheckAFK now t) = snd \<circ> CheckAFK now t"
| "session_apply (SoLocalZone z) = SetLocalZone z"
| "session_apply SoReset = PlayerEngine_Reset"

text \<open>The operations that may give player \<open>k\<close> a session in another state again, or drop it.\<close>

fun leaves_alone :: "PlayerID \<Rightarrow> session_op \<Rightarrow> PlayerEngine \<Rightarrow> bool" where
  "leaves_alone k (SoSetState j st) s \<longleftrightarrow> j \<noteq> k"
| "leaves_alone k (SoHandshakeAck j n) s \<longleftrightarrow> j \<noteq> k"
| "leaves_alone k (SoJoined now j n) s \<longleftrightarrow> j \<noteq> k"
| "leaves_alone k SoReset s \<longleftrightarrow> False"
| "leaves_alone k x s \<longleftrightarrow> True"

definition departed :: "PlayerID \<Rightarrow> bytes \<Rightarrow> PlayerEngine \<Rightarrow> bool" where
  "departed k n s \<longleftrightarrow> k \<noteq> pg_localPlayerId s \<and>
     (case GetSession k s of None \<Rightarrow> False | Some x \<Rightarrow> pls_state x = PsDisconnected \<and> pls_name x = n)"

lemma find_modify_at: "um_find (um_modify j f m) k = (if k = j then map_option f (um_find m k) else um_find m k)"
  by (simp add: um_find_modify)

interpretation departure: run_invariant session_apply "leaves_alone k" "departed k n" for k n
proof
  fix s x
  assume "departed k n s" and alone: "leaves_alone k x s"
  then obtain y where y: "k \<noteq> pg_localPlayerId s" "um_find (pg_sessions s) k = Some y" "pls_state y = PsDisconnected" "pls_name y = n"
    by (auto simp: departed_def GetSession_def split: option.splits)
  show "departed k n (session_apply x s)"
    using alone y by (cases x) (auto simp: departed_def GetSession_def engine_ops find_modify_at um_find_set um_find_map is_idle_def)
qed

text \<open>
  A player who left stays disconnected, and its session with its name stays in the table, through every sequence
  of later operations other than a new join, an explicit state change for it, or a reset; position packets that still
  arrive for it and the idle check do not bring it back.
\<close>

theorem departed_players_stay:
  assumes "GetSession k s = Some x" "k \<noteq> pg_localPlayerId s"
    "run_ok (leaves_alone k) session_apply ops (OnRemotePlayerLeft k s)"
  shows "\<exists>y. GetSession k (fold session_apply ops (OnRemotePlayerLeft k s)) = Some y \<and> pls_name y = pls_name x \<and>
    GetState k (fold session_apply ops (OnRemotePlayerLeft k s)) = PsDisconnected"
proof -
  have "departed k (pls_name x) (OnRemotePlayerLeft k s)"
    using assms(1,2) by (auto simp: departed_def GetSession_def engine_ops find_modify_at)
  from departure.run [OF this assms(3)] show ?thesis by (auto simp: departed_def GetSession_def GetState_def split: option.splits)
qed

theorem departed_players_stay_witness:
  "let s = OnRemotePlayerJoined 0 4 (lit ''Ann'') PlayerEngine_new
   in GetState 4 (fold session_apply [SoActivity 5 4, SoCheckAFK 9 0] (OnRemotePlayerLeft 4 s)) = PsDisconnected"
proof -
  have "GetSession 4 (OnRemotePlayerJoined 0 4 (lit ''Ann'') PlayerEngine_new) = Some (new_session 0 4 (lit ''Ann''))"
    "(4 :: PlayerID) \<noteq> pg_localPlayerId (OnRemotePlayerJoined 0 4 (lit ''Ann'') PlayerEngine_new)"
    by (simp_all add: GetSession_def engine_ops PlayerEngine_new_def INVALID_PLAYER_def um_find_set)
  from departed_players_stay [OF this, of "[SoActivity 5 4, SoCheckAFK 9 0]"] show ?thesis by (auto simp: Let_def)
qed

text \<open>
  The counts per state are the sizes of the lists the state query returns.
\<close>

lemma state_counts_exact:
  "GetStateCounts s = \<lparr>sct_connecting = length (GetByState PsConnecting s), sct_loading = length (GetByState PsLoading s),
     sct_inGame = length (GetByState PsInGame s), sct_afk = length (GetByState PsAFK s), sct_disconnected = length (GetByState PsDisconnected s)\<rparr>"
proof -
  have "fold (\<lambda>(k, x). tally (pls_state x)) m \<lparr>sct_connecting = a, sct_loading = b, sct_inGame = c, sct_afk = d, sct_disconnected = e\<rparr> =
    (let n = (\<lambda>st. length (filter (\<lambda>(k, x). pls_state x = st) m)) in
     \<lparr>sct_connecting = a + n PsConnecting, sct_loading = b + n PsLoading, sct_inGame = c + n PsInGame, sct_afk = d + n PsAFK,
      sct_disconnected = e + n PsDisconnected\<rparr>)" for m :: "(PlayerID, PlayerSession) umap" and a b c d e
  proof (induction m arbitrary: a b c d e)
    case (Cons p m)
    then show ?case by (cases p; cases "pls_state (snd p)") (simp_all add: tally_def Let_def)
  qed simp
  then show ?thesis by (simp add: GetStateCounts_def GetByState_def Let_def)
qed

lemma name_search_sound:
  assumes "um_wf (pg_sessions s)" "PlayerEngine_FindByName p s = k" "k \<noteq> INVALID_PLAYER"
  shows "\<exists>x. GetSession k s = Some x \<and> sublist (ToLower p) (ToLower (pls_name x))"
proof -
  obtain x where "find (\<lambda>(k, x). string_find (ToLower p) (ToLower (pls_name x)) \<noteq> None) (pg_sessions s) = Some (k, x)"
    using assms(2,3) by (auto simp: PlayerEngine_FindByName_def split: option.splits)
  then have "(k, x) \<in> set (pg_sessions s)" "string_find (ToLower p) (ToLower (pls_name x)) \<noteq> None"
    by (auto simp: find_Some_iff dest: nth_mem)
  then show ?thesis unfolding string_find_sublist by (auto simp: GetSession_def um_find_Some_iff [OF assms(1)])
qed

section \<open>The election picks the faction with the most points\<close>

text \<open>The characters that count: the first twelve valid ones, without those whose faction pointer is implausible.\<close>

definition counted :: "u64 \<Rightarrow> seen_character list \<Rightarrow> seen_character list" where
  "counted base cs = filter (\<lambda>c. plausible_faction base (sc_faction c)) (take 12 (filter sc_valid cs))"

definition points_of :: "bytes \<Rightarrow> u64 \<Rightarrow> seen_character list \<Rightarrow> nat" where
  "points_of cfgName p xs = sum_list (map (vote_points cfgName) (filter (\<lambda>c. sc_faction c = p) xs))"

lemma scan_votes_fold:
  "scan_votes base n cs k vs = fold (\<lambda>c vs. cast_vote n c vs 4)
     (filter (\<lambda>c. plausible_faction base (sc_faction c)) (take (12 - k) (filter sc_valid cs))) vs"
proof (induction cs arbitrary: k vs)
  case (Cons c cs)
  show ?case
  proof (cases "12 \<le> k")
    case False
    then have "12 - k = Suc (12 - Suc k)" by simp
    with Cons False show ?thesis by simp
  qed simp
qed simp

lemma cast_vote_ptrs:
  "set (map fv_ptr (cast_vote n c vs room)) = set (map fv_ptr vs) \<union> (if length vs < room then {sc_faction c} else {}) \<and>
   (distinct (map fv_ptr vs) \<longrightarrow> distinct (map fv_ptr (cast_vote n c vs room))) \<and>
   length (cast_vote n c vs room) \<le> max room (length vs) \<and> length vs \<le> length (cast_vote n c vs room)"
  by (induction n c vs room rule: cast_vote.induct) (auto simp: credit_def)

definition votes_for :: "bytes \<Rightarrow> seen_character list \<Rightarrow> FacVote list \<Rightarrow> bool" where
  "votes_for n xs vs \<longleftrightarrow> distinct (map fv_ptr vs) \<and> length vs \<le> 4 \<and> fv_ptr ` set vs \<subseteq> sc_faction ` set xs \<and>
     (length vs < 4 \<longrightarrow> fv_ptr ` set vs = sc_faction ` set xs) \<and> (\<forall>v \<in> set vs. fv_score v = points_of n (fv_ptr v) xs)"

lemma cast_vote_scores:
  "distinct (map fv_ptr vs) \<Longrightarrow> v \<in> set (cast_vote n c vs room) \<Longrightarrow>
     (if fv_ptr v = sc_faction c
      then (\<exists>w \<in> set vs. fv_ptr w = fv_ptr v \<and> fv_score v = fv_score w + vote_points n c) \<or>
           sc_faction c \<notin> fv_ptr ` set vs \<and> length vs < room \<and> fv_score v = vote_points n c
      else v \<in> set vs)"
  by (induction n c vs room rule: cast_vote.induct) (auto simp: credit_def image_iff split: if_splits)

lemma points_of_snoc: "points_of n p (xs @ [c]) = points_of n p xs + (if sc_faction c = p then vote_points n c else 0)"
  by (simp add: points_of_def)

lemma points_of_none: "p \<notin> sc_faction ` set xs \<Longrightarrow> points_of n p xs = 0"
  by (auto simp: points_of_def filter_empty_conv intro: image_eqI)

lemma cast_vote_votes:
  assumes "votes_for n xs vs"
  shows "votes_for n (xs @ [c]) (cast_vote n c vs 4)"
proof -
  from assms have v: "distinct (map fv_ptr vs)" "length vs \<le> 4" "fv_ptr ` set vs \<subseteq> sc_faction ` set xs"
    "length vs < 4 \<Longrightarrow> fv_ptr ` set vs = sc_faction ` set xs" "\<And>w. w \<in> set vs \<Longrightarrow> fv_score w = points_of n (fv_ptr w) xs"
    by (auto simp: votes_for_def)
  note p = cast_vote_ptrs [of n c vs 4]
  have "fv_score w = points_of n (fv_ptr w) (xs @ [c])" if "w \<in> set (cast_vote n c vs 4)" for w
    using cast_vote_scores [OF v(1) that] v(4,5) by (auto simp: points_of_snoc points_of_none split: if_splits)
  moreover have "fv_ptr ` set (cast_vote n c vs 4) = sc_faction ` set (xs @ [c])" if "length (cast_vote n c vs 4) < 4"
    using p v(4) that by (auto split: if_splits)
  ultimately show ?thesis using p v(1-3) by (auto simp: votes_for_def split: if_splits)
qed

lemma scan_votes_votes: "votes_for n (counted base cs) (scan_votes base n cs 0 [])"
proof -
  have run: "votes_for n (ys @ xs) (fold (\<lambda>c vs. cast_vote n c vs 4) xs vs)" if "votes_for n ys vs" for xs ys vs
    using that
  proof (induction xs arbitrary: ys vs)
    case (Cons c xs)
    from Cons.IH [OF cast_vote_votes [OF Cons.prems]] show ?case by simp
  qed simp
  have "votes_for n [] []" by (simp add: votes_for_def)
  from run [OF this, of "counted base cs"] show ?thesis by (simp add: scan_votes_fold counted_def)
qed

lemma elect_max:
  assumes "\<forall>v \<in> set vs. 0 < fv_score v"
  shows "(vs = [] \<longrightarrow> elect vs = 0) \<and> (vs \<noteq> [] \<longrightarrow> (\<exists>v \<in> set vs. fv_ptr v = elect vs \<and> (\<forall>w \<in> set vs. fv_score w \<le> fv_score v)))"
proof -
  define f where "f = (\<lambda>(v :: FacVote) (best :: u64, score). if score < fv_score v then (fv_ptr v, fv_score v) else (best, score))"
  have "let r = fold f us a in snd a \<le> snd r \<and> (\<forall>w \<in> set us. fv_score w \<le> snd r) \<and> (r = a \<or> (\<exists>v \<in> set us. r = (fv_ptr v, fv_score v)))"
    for us a
  proof (induction us arbitrary: a)
    case (Cons u us)
    from Cons.IH [of "f u a"] show ?case by (cases a) (force simp: f_def Let_def split: if_splits)
  qed simp
  from this [of vs "(0, 0)"] show ?thesis using assms unfolding elect_def f_def [symmetric]
    by (cases vs) (force simp: Let_def)+
qed

lemma vote_points_pos: "0 < vote_points n c"
  by (simp add: vote_points_def)

lemma points_of_pos: "p \<in> sc_faction ` set xs \<Longrightarrow> 0 < points_of n p xs"
  by (induction xs) (auto simp: points_of_def vote_points_pos)

text \<open>
  The faction election, a table of four candidates filled while scanning, elects the faction whose counted
  characters have the most points, when they belong to at most four factions: no characters, no winner; and the
  winner's pointer is always that of a valid scanned character, aligned and outside the game's module.
\<close>

theorem election_is_maximal:
  fixes base :: u64 and n :: bytes and cs :: "seen_character list"
  defines "best \<equiv> elect (scan_votes base n cs 0 [])" and "xs \<equiv> counted base cs"
  shows "(xs = [] \<longrightarrow> best = 0) \<and> (xs \<noteq> [] \<longrightarrow> best \<in> sc_faction ` set xs \<and> plausible_faction base best) \<and>
    (card (sc_faction ` set xs) \<le> 4 \<longrightarrow> (\<forall>p. points_of n p xs \<le> points_of n best xs))"
proof -
  define vs where "vs = scan_votes base n cs 0 []"
  have v: "votes_for n xs vs" unfolding vs_def xs_def by (rule scan_votes_votes)
  then have pos: "\<forall>v \<in> set vs. 0 < fv_score v" by (auto simp: votes_for_def intro!: points_of_pos)
  have empty: "vs = [] \<longleftrightarrow> xs = []" using v by (cases vs) (auto simp: votes_for_def)
  have plausible: "plausible_faction base (sc_faction c)" if "c \<in> set xs" for c using that by (auto simp: xs_def counted_def)
  show ?thesis
  proof (cases "vs = []")
    case True
    with empty show ?thesis by (simp add: best_def vs_def [symmetric] points_of_def elect_def)
  next
    case False
    then obtain w where w: "w \<in> set vs" "fv_ptr w = best" "\<forall>u \<in> set vs. fv_score u \<le> fv_score w"
      using elect_max [OF pos] unfolding best_def vs_def [symmetric] by blast
    have "points_of n p xs \<le> points_of n best xs" if few: "card (sc_faction ` set xs) \<le> 4" for p
    proof (cases "p \<in> sc_faction ` set xs")
      case True
      have "length vs = card (fv_ptr ` set vs)" using v distinct_card [of "map fv_ptr vs"] by (simp add: votes_for_def)
      then have "fv_ptr ` set vs = sc_faction ` set xs"
        using v few card_subset_eq [of "sc_faction ` set xs" "fv_ptr ` set vs"] card_mono [of "sc_faction ` set xs" "fv_ptr ` set vs"]
        by (cases "length vs < 4") (auto simp: votes_for_def)
      with True have "p \<in> fv_ptr ` set vs" by simp
      then obtain u where "u \<in> set vs" "fv_ptr u = p" by blast
      then show ?thesis using v w by (auto simp: votes_for_def)
    qed (simp add: points_of_none)
    moreover have "best \<in> sc_faction ` set xs" using v w by (auto simp: votes_for_def)
    ultimately show ?thesis using empty False plausible by auto
  qed
qed

definition example_scan :: "seen_character list" where
  "example_scan = [\<lparr>sc_valid = True, sc_faction = 0x20000, sc_name = lit ''hired'', sc_flag = False\<rparr>,
     \<lparr>sc_valid = True, sc_faction = 0x30000, sc_name = lit ''Ann'', sc_flag = False\<rparr>,
     \<lparr>sc_valid = True, sc_faction = 0x20000, sc_name = lit ''guard'', sc_flag = False\<rparr>]"

theorem election_is_maximal_witness:
  "points_of (lit ''ann'') 0x20000 (counted 0 example_scan) \<le> points_of (lit ''ann'') (elect (scan_votes 0 (lit ''ann'') example_scan 0 [])) (counted 0 example_scan)"
proof -
  have "set (counted 0 example_scan) \<subseteq> set example_scan" by (auto simp: counted_def dest: in_set_takeD)
  then have "sc_faction ` set (counted 0 example_scan) \<subseteq> {0x20000, 0x30000}" by (auto simp: example_scan_def)
  then have "card (sc_faction ` set (counted 0 example_scan)) \<le> card {0x20000 :: u64, 0x30000}" by (intro card_mono) auto
  then show ?thesis using election_is_maximal [of 0 example_scan "lit ''ann''"] by (auto simp: card_insert_if)
qed

section \<open>The controller\<close>

lemma captured_faction:
  "pct_localFactionPtr s = 0 \<or> plausible_faction (ga_moduleBase api) (pct_localFactionPtr s) \<Longrightarrow>
   pct_localFactionPtr (capture_faction api reg k s) = 0 \<or> plausible_faction (ga_moduleBase api) (pct_localFactionPtr (capture_faction api reg k s))"
  by (auto simp: capture_faction_def plausible_faction_def Let_def)

text \<open>The faction pointer the local player starts with is none, or aligned, in the user range and outside the module.\<close>

lemma initial_faction_plausible:
  assumes "pct_localFactionPtr s = 0"
  shows "let p = pct_localFactionPtr (InitializeLocalPlayer api reg k name s) in p = 0 \<or> plausible_faction (ga_moduleBase api) p"
proof -
  have "pct_localFactionPtr (fold (capture_faction api reg) ks s) = 0 \<or>
      plausible_faction (ga_moduleBase api) (pct_localFactionPtr (fold (capture_faction api reg) ks s))"
    if "pct_localFactionPtr s = 0 \<or> plausible_faction (ga_moduleBase api) (pct_localFactionPtr s)" for ks s
    using that
  proof (induction ks arbitrary: s)
    case (Cons k ks)
    from Cons.IH [OF captured_faction [OF Cons.prems]] show ?case by simp
  qed simp
  then show ?thesis using assms by (simp add: InitializeLocalPlayer_def Let_def)
qed

lemma self_is_not_remote: "GetRemotePlayer (pct_localPlayerId s) (RegisterRemotePlayer k n s) = GetRemotePlayer (pct_localPlayerId s) s"
  by (simp add: GetRemotePlayer_def RegisterRemotePlayer_def um_find_set Let_def)

lemma register_remote: "k \<noteq> pct_localPlayerId s \<Longrightarrow> map_option rps_playerName (GetRemotePlayer k (RegisterRemotePlayer k n s)) = Some n"
  by (simp add: GetRemotePlayer_def RegisterRemotePlayer_def um_find_set Let_def)

text \<open>
  A reset forgets the remote players but keeps the local id: until the next handshake a remote player who gets the
  old id is ignored.
\<close>

lemma reset_keeps_local_id:
  "GetRemotePlayer (pct_localPlayerId s) (RegisterRemotePlayer (pct_localPlayerId s) n (PlayerController_Reset s)) = None"
  by (simp add: GetRemotePlayer_def RegisterRemotePlayer_def PlayerController_Reset_def)

end
