(* ===== verification/Server_Managers.thy ===== *)
theory Server_Managers
  imports Server_State Zone_Engine Text_Util
begin

text \<open>
  The utility classes of the server: \<^verbatim>\<open>player_manager.cpp\<close> (names, bans, idle players, rate limits),
  \<^verbatim>\<open>entity_manager.cpp\<close> (queries over the entity map), \<^verbatim>\<open>zone_manager.cpp\<close> (population index and relevance) and
  \<^verbatim>\<open>game_state.cpp\<close> (clock and weather).  Random draws are arguments.
\<close>

section \<open>Names\<close>

type_synonym player_map = "(PlayerID, ConnectedPlayer) umap"

definition first_id :: "(ConnectedPlayer \<Rightarrow> bool) \<Rightarrow> player_map \<Rightarrow> PlayerID option" where
  "first_id P players = map_option fst (find (\<lambda>(k, p). P p) players)"

definition PlayerManager_FindByName :: "player_map \<Rightarrow> bytes \<Rightarrow> PlayerID" where
  "PlayerManager_FindByName players name =
     (let needle = ToLower name in
      case first_id (\<lambda>p. ToLower (cp_name p) = needle) players of Some k \<Rightarrow> k
      | None \<Rightarrow> (case first_id (\<lambda>p. string_find needle (ToLower (cp_name p)) = Some 0) players of Some k \<Rightarrow> k
        | None \<Rightarrow> (case first_id (\<lambda>p. string_find needle (ToLower (cp_name p)) \<noteq> None) players of Some k \<Rightarrow> k
          | None \<Rightarrow> 0)))"

definition FindByExactName :: "player_map \<Rightarrow> bytes \<Rightarrow> PlayerID" where
  "FindByExactName players name = (case first_id (\<lambda>p. ToLower (cp_name p) = ToLower name) players of Some k \<Rightarrow> k | None \<Rightarrow> 0)"

definition IsNameTaken :: "player_map \<Rightarrow> bytes \<Rightarrow> bool" where
  "IsNameTaken players name \<longleftrightarrow> FindByExactName players name \<noteq> 0"

definition suffixed :: "bytes \<Rightarrow> nat \<Rightarrow> bytes" where
  "suffixed base n = base @ lit ''_'' @ dec_nat n"

text \<open>\<open>draw\<close> is what \<^verbatim>\<open>rand()\<close> returns in the last resort.\<close>

definition MakeUniqueName :: "nat \<Rightarrow> player_map \<Rightarrow> bytes \<Rightarrow> bytes" where
  "MakeUniqueName draw players base =
     (if \<not> IsNameTaken players base then base
      else case find (\<lambda>n. \<not> IsNameTaken players (suffixed base n)) [2..<100] of
        Some n \<Rightarrow> suffixed base n
      | None \<Rightarrow> suffixed base (draw mod 9999))"

section \<open>Bans, idle players, rate limits\<close>

record PlayerManager =
  pm_bannedIPs :: "bytes list"
  pm_rateLimits :: "(PlayerID, f32 list) umap"

definition BanIP :: "bytes \<Rightarrow> PlayerManager \<Rightarrow> PlayerManager" where
  "BanIP ip s = s\<lparr>pm_bannedIPs := List.insert ip (pm_bannedIPs s)\<rparr>"

definition UnbanIP :: "bytes \<Rightarrow> PlayerManager \<Rightarrow> PlayerManager" where
  "UnbanIP ip s = s\<lparr>pm_bannedIPs := removeAll ip (pm_bannedIPs s)\<rparr>"

definition IsIPBanned :: "bytes \<Rightarrow> PlayerManager \<Rightarrow> bool" where
  "IsIPBanned ip s \<longleftrightarrow> ip \<in> set (pm_bannedIPs s)"

definition GetBanList :: "PlayerManager \<Rightarrow> bytes list" where
  "GetBanList s = pm_bannedIPs s"

definition GetAFKPlayers :: "player_map \<Rightarrow> f32 \<Rightarrow> f32 \<Rightarrow> PlayerID list" where
  "GetAFKPlayers players currentTime timeout =
     map fst (filter (\<lambda>(k, p). f32_lt timeout (f32_sub currentTime (cp_lastUpdate p))) players)"

definition CheckRateLimit :: "PlayerID \<Rightarrow> f32 \<Rightarrow> f32 \<Rightarrow> i32 \<Rightarrow> PlayerManager \<Rightarrow> bool" where
  "CheckRateLimit k currentTime window maxMessages s = (case um_find (pm_rateLimits s) k of
     None \<Rightarrow> False
   | Some ts \<Rightarrow> sint maxMessages \<le> int (length (filter (\<lambda>t. f32_le (f32_sub currentTime t) window) ts)))"

definition RecordMessage :: "PlayerID \<Rightarrow> f32 \<Rightarrow> PlayerManager \<Rightarrow> PlayerManager" where
  "RecordMessage k currentTime s =
     s\<lparr>pm_rateLimits := um_set k ((case um_find (pm_rateLimits s) k of None \<Rightarrow> [] | Some ts \<Rightarrow> ts) @ [currentTime]) (pm_rateLimits s)\<rparr>"

definition CleanupRateLimits :: "f32 \<Rightarrow> f32 \<Rightarrow> PlayerManager \<Rightarrow> PlayerManager" where
  "CleanupRateLimits currentTime window s =
     s\<lparr>pm_rateLimits := map (\<lambda>(k, ts). (k, filter (\<lambda>t. \<not> f32_lt window (f32_sub currentTime t)) ts)) (pm_rateLimits s)\<rparr>"

section \<open>Entity queries\<close>

type_synonym entity_map = "(EntityID, ServerEntity) umap"

definition entity_ids :: "(ServerEntity \<Rightarrow> bool) \<Rightarrow> entity_map \<Rightarrow> EntityID list" where
  "entity_ids P entities = map fst (filter (\<lambda>(k, e). P e) entities)"

definition GetEntitiesByOwner :: "entity_map \<Rightarrow> PlayerID \<Rightarrow> EntityID list" where
  "GetEntitiesByOwner entities owner = entity_ids (\<lambda>e. se_owner e = owner) entities"

definition CountByOwner :: "entity_map \<Rightarrow> PlayerID \<Rightarrow> nat" where
  "CountByOwner entities owner = length (filter (\<lambda>(k, e). se_owner e = owner) entities)"

definition IsOwnedBy :: "entity_map \<Rightarrow> EntityID \<Rightarrow> PlayerID \<Rightarrow> bool" where
  "IsOwnedBy entities k p = (case um_find entities k of Some e \<Rightarrow> se_owner e = p | None \<Rightarrow> False)"

definition EntityManager_GetEntitiesInZone :: "entity_map \<Rightarrow> ZoneCoord \<Rightarrow> EntityID list" where
  "EntityManager_GetEntitiesInZone entities z = entity_ids (\<lambda>e. zx (se_zone e) = zx z \<and> zy (se_zone e) = zy z) entities"

definition GetEntitiesNearZone :: "entity_map \<Rightarrow> ZoneCoord \<Rightarrow> EntityID list" where
  "GetEntitiesNearZone entities center = entity_ids (\<lambda>e. IsAdjacent center (se_zone e)) entities"

definition distance_sq :: "Vec3 \<Rightarrow> Vec3 \<Rightarrow> f32" where
  "distance_sq p center = (let dx = f32_sub (vx p) (vx center); dy = f32_sub (vy p) (vy center); dz = f32_sub (vz p) (vz center)
     in f32_add (f32_add (f32_mul dx dx) (f32_mul dy dy)) (f32_mul dz dz))"

definition GetEntitiesInRadius :: "entity_map \<Rightarrow> Vec3 \<Rightarrow> f32 \<Rightarrow> EntityID list" where
  "GetEntitiesInRadius entities center radius =
     entity_ids (\<lambda>e. f32_le (distance_sq (se_position e) center) (f32_mul radius radius)) entities"

definition FLT_MAX :: f32 where
  "FLT_MAX = 0x7F7FFFFF"

definition nearer :: "Vec3 \<Rightarrow> EntityType \<Rightarrow> bool \<Rightarrow> EntityID \<times> ServerEntity \<Rightarrow> EntityID \<times> f32 \<Rightarrow> EntityID \<times> f32" where
  "nearer position filterType filterByType = (\<lambda>(k, e) (nearest, best).
     if filterByType \<and> se_type e \<noteq> filterType then (nearest, best)
     else let d = distance_sq (se_position e) position in if f32_lt d best then (k, d) else (nearest, best))"

definition FindNearest :: "entity_map \<Rightarrow> Vec3 \<Rightarrow> EntityType \<Rightarrow> bool \<Rightarrow> EntityID" where
  "FindNearest entities position filterType filterByType = fst (fold (nearer position filterType filterByType) entities (0, FLT_MAX))"

definition WouldExceedLimit :: "entity_map \<Rightarrow> PlayerID \<Rightarrow> nat \<Rightarrow> bool" where
  "WouldExceedLimit entities owner maxPerPlayer \<longleftrightarrow> maxPerPlayer \<le> CountByOwner entities owner"

definition bump :: "'k \<Rightarrow> ('k, nat) umap \<Rightarrow> ('k, nat) umap" where
  "bump k m = um_set k (case um_find m k of None \<Rightarrow> 1 | Some n \<Rightarrow> Suc n) m"

definition GetTypeDistribution :: "entity_map \<Rightarrow> (EntityType, nat) umap" where
  "GetTypeDistribution entities = fold (\<lambda>(k, e). bump (se_type e)) entities []"

section \<open>Zones\<close>

text \<open>The index from zone keys to numbers of entities is the whole state of the manager.\<close>

type_synonym zone_population = "(u64, nat) umap"

definition ZoneManager_ZoneKey :: "ZoneCoord \<Rightarrow> u64" where
  "ZoneManager_ZoneKey z = push_bit 32 (ucast (zx z)) OR ucast (zy z)"

definition RebuildIndex :: "entity_map \<Rightarrow> zone_population \<Rightarrow> zone_population" where
  "RebuildIndex entities pop = fold (\<lambda>(k, e). bump (ZoneManager_ZoneKey (se_zone e))) entities []"

definition ZoneManager_GetZonePopulation :: "ZoneCoord \<Rightarrow> zone_population \<Rightarrow> nat" where
  "ZoneManager_GetZonePopulation z pop = (case um_find pop (ZoneManager_ZoneKey z) of Some n \<Rightarrow> n | None \<Rightarrow> 0)"

definition ZoneManager_GetPopulatedZones :: "zone_population \<Rightarrow> ZoneCoord list" where
  "ZoneManager_GetPopulatedZones pop =
     map (\<lambda>(key, n). ZoneCoord_new (ucast (drop_bit 32 key)) (ucast (key AND 0xFFFFFFFF))) (filter (\<lambda>(key, n). 0 < n) pop)"

definition GetRelevantEntities :: "entity_map \<Rightarrow> ConnectedPlayer \<Rightarrow> EntityID list" where
  "GetRelevantEntities entities player =
     entity_ids (\<lambda>e. if se_owner e = cp_id player then False else IsAdjacent (cp_zone player) (se_zone e)) entities"

definition ShouldReceiveUpdates :: "ConnectedPlayer \<Rightarrow> ServerEntity \<Rightarrow> bool" where
  "ShouldReceiveUpdates player e = (if se_owner e = cp_id player then False else IsAdjacent (cp_zone player) (se_zone e))"

definition HasChangedZone :: "ZoneCoord \<Rightarrow> ZoneCoord \<Rightarrow> bool" where
  "HasChangedZone oldZone newZone \<longleftrightarrow> zx oldZone \<noteq> zx newZone \<or> zy oldZone \<noteq> zy newZone"

definition GetZoneForPosition :: "Vec3 \<Rightarrow> ZoneCoord" where
  "GetZoneForPosition pos = FromWorldPos pos KMP_ZONE_SIZE"

definition GetAdjacentZones :: "ZoneCoord \<Rightarrow> ZoneCoord list" where
  "GetAdjacentZones center =
     concat (map (\<lambda>dx. map (\<lambda>dy. ZoneCoord_new (zx center + dx) (zy center + dy)) [- 1, 0, 1]) [- 1, 0, 1])"

section \<open>Clock and weather\<close>

record GameStateManager =
  gs_timeOfDay :: f32
  gs_dayNumber :: i32
  gs_weatherState :: int
  gs_uptime :: f32
  gs_weatherTimer :: f32
  gs_weatherInterval :: f32
  gs_wasDaytime :: bool

definition GameStateManager_new :: GameStateManager where
  "GameStateManager_new = \<lparr>gs_timeOfDay = f32_lit 1 2, gs_dayNumber = 1, gs_weatherState = 0, gs_uptime = 0, gs_weatherTimer = 0,
     gs_weatherInterval = f32_of_int 600, gs_wasDaytime = True\<rparr>"

definition IsDaytime :: "GameStateManager \<Rightarrow> bool" where
  "IsDaytime s \<longleftrightarrow> f32_le (f32_lit 1 4) (gs_timeOfDay s) \<and> f32_lt (gs_timeOfDay s) (f32_lit 3 4)"

definition weather_of_roll :: "int \<Rightarrow> int" where
  "weather_of_roll roll = (if roll < 40 then 0 else if roll < 65 then 1 else if roll < 80 then 2 else if roll < 95 then 3 else 4)"

definition UpdateWeather :: "nat \<Rightarrow> f32 \<Rightarrow> GameStateManager \<Rightarrow> GameStateManager" where
  "UpdateWeather draw dt s0 =
     (let s = s0\<lparr>gs_weatherTimer := f32_add (gs_weatherTimer s0) dt\<rparr> in
      if f32_lt (gs_weatherTimer s) (gs_weatherInterval s) then s
      else s\<lparr>gs_weatherTimer := 0, gs_weatherState := weather_of_roll (int (draw mod 100))\<rparr>)"

definition GameState_Update :: "nat \<Rightarrow> f32 \<Rightarrow> f32 \<Rightarrow> GameStateManager \<Rightarrow> GameStateManager" where
  "GameState_Update draw dt gameSpeed s =
     (let s1 = s\<lparr>gs_uptime := f32_add (gs_uptime s) dt,
                  gs_timeOfDay := f32_add (gs_timeOfDay s) (f32_div (f32_mul dt gameSpeed) (f32_of_int 86400))\<rparr>;
          s2 = (if f32_le (f32_of_int 1) (gs_timeOfDay s1)
                then s1\<lparr>gs_timeOfDay := f32_sub (gs_timeOfDay s1) (f32_of_int 1), gs_dayNumber := gs_dayNumber s1 + 1\<rparr> else s1)
      in UpdateWeather draw dt s2)"

definition SetTimeOfDay :: "f32 \<Rightarrow> GameStateManager \<Rightarrow> GameStateManager" where
  "SetTimeOfDay t s = (let r = f32_sub t (f32_floor t) in
     s\<lparr>gs_timeOfDay := (if f32_lt r 0 then f32_add r (f32_of_int 1) else r)\<rparr>)"

definition SetWeatherState :: "int \<Rightarrow> GameStateManager \<Rightarrow> GameStateManager" where
  "SetWeatherState w s = s\<lparr>gs_weatherState := w\<rparr>"

definition pad2 :: "int \<Rightarrow> bytes" where
  "pad2 k = (if 0 \<le> k \<and> k < 10 then 48 # dec_int k else dec_int k)"

definition GetTimeString :: "GameStateManager \<Rightarrow> bytes" where
  "GetTimeString s =
     (let hours24 = f32_mul (gs_timeOfDay s) (f32_of_int 24);
          h = sint (f32_to_i32 hours24);
          hour = sgn h * (\<bar>h\<bar> mod 24);
          minute = sint (f32_to_i32 (f32_mul (f32_sub hours24 (f32_floor hours24)) (f32_of_int 60)))
      in lit ''Day '' @ dec_int (sint (gs_dayNumber s)) @ lit '', '' @ pad2 hour @ lit '':'' @ pad2 minute)"

definition CheckDayNightTransition :: "GameStateManager \<Rightarrow> bool \<times> GameStateManager" where
  "CheckDayNightTransition s = (if IsDaytime s \<noteq> gs_wasDaytime s then (True, s\<lparr>gs_wasDaytime := IsDaytime s\<rparr>) else (False, s))"

section \<open>Names are found and made unique\<close>

lemma find_None_iff': "find P xs = None \<longleftrightarrow> (\<forall>x \<in> set xs. \<not> P x)"
  by (simp add: find_None_iff) blast

lemma find_SomeD: "find P xs = Some x \<Longrightarrow> x \<in> set xs \<and> P x"
  by (auto simp: find_Some_iff)

lemma first_id_Some: "first_id P m = Some k \<Longrightarrow> \<exists>p. (k, p) \<in> set m \<and> P p"
  by (auto simp: first_id_def dest!: find_SomeD)

lemma first_id_None: "first_id P m = None \<longleftrightarrow> (\<forall>(k, p) \<in> set m. \<not> P p)"
  by (auto simp: first_id_def find_None_iff')

definition real_ids :: "player_map \<Rightarrow> bool" where
  "real_ids players \<longleftrightarrow> (\<forall>k p. (k, p) \<in> set players \<longrightarrow> k \<noteq> 0)"

lemma name_taken_iff:
  "real_ids players \<Longrightarrow> IsNameTaken players name \<longleftrightarrow> (\<exists>k p. (k, p) \<in> set players \<and> ToLower (cp_name p) = ToLower name)"
  by (fastforce simp: IsNameTaken_def FindByExactName_def real_ids_def first_id_None dest: first_id_Some split: option.splits)

text \<open>
  Looking a player up by name finds a connected player whose name contains the given text without regard to case,
  an exact match before a prefix and a prefix before any other, and returns 0 only when no name contains it.
\<close>

theorem find_by_name:
  fixes players :: player_map and name :: bytes
  assumes "real_ids players"
  defines "matches \<equiv> (\<lambda>R. \<exists>k p. (k, p) \<in> set players \<and> R (ToLower name) (ToLower (cp_name p)))"
    and "k \<equiv> PlayerManager_FindByName players name"
  shows "(k = 0 \<longleftrightarrow> \<not> matches sublist) \<and>
    (k \<noteq> 0 \<longrightarrow> (\<exists>p. (k, p) \<in> set players \<and> sublist (ToLower name) (ToLower (cp_name p)) \<and>
       (matches (=) \<longrightarrow> ToLower (cp_name p) = ToLower name) \<and> (matches prefix \<longrightarrow> prefix (ToLower name) (ToLower (cp_name p)))))"
proof -
  let ?n = "ToLower name"
  have nz: "j \<noteq> 0" if "(j, p) \<in> set players" for j p using assms(1) that by (auto simp: real_ids_def)
  show ?thesis
  proof (cases "first_id (\<lambda>p. ToLower (cp_name p) = ?n) players")
    case (Some j)
    then obtain p where p: "(j, p) \<in> set players" "ToLower (cp_name p) = ?n" using first_id_Some by blast
    have "k = j" by (simp add: k_def PlayerManager_FindByName_def Some)
    then show ?thesis using p nz [OF p(1)] by (auto simp: matches_def intro!: exI [of _ p])
  next
    case exact: None
    show ?thesis
    proof (cases "first_id (\<lambda>p. string_find ?n (ToLower (cp_name p)) = Some 0) players")
      case (Some j)
      then obtain p where p: "(j, p) \<in> set players" "prefix ?n (ToLower (cp_name p))"
        using first_id_Some unfolding string_find_prefix by blast
      have "k = j" by (simp add: k_def PlayerManager_FindByName_def exact Some)
      then show ?thesis using p nz [OF p(1)] exact
        by (fastforce simp: matches_def first_id_None intro!: exI [of _ p])
    next
      case pre: None
      show ?thesis
      proof (cases "first_id (\<lambda>p. string_find ?n (ToLower (cp_name p)) \<noteq> None) players")
        case (Some j)
        then obtain p where p: "(j, p) \<in> set players" "sublist ?n (ToLower (cp_name p))"
          using first_id_Some unfolding string_find_sublist by blast
        have "k = j" by (simp add: k_def PlayerManager_FindByName_def exact pre Some del: not_None_eq)
        then show ?thesis using p nz [OF p(1)] exact pre
          by (fastforce simp: matches_def first_id_None string_find_prefix intro!: exI [of _ p])
      next
        case None
        then have "\<not> matches sublist" unfolding first_id_None string_find_sublist by (auto simp: matches_def)
        moreover have "k = 0" by (simp add: k_def PlayerManager_FindByName_def exact pre None del: not_None_eq)
        ultimately show ?thesis by simp
      qed
    qed
  qed
qed

lemma suffixed_inj: "ToLower (suffixed base n) = ToLower (suffixed base m) \<Longrightarrow> n = m"
  by (auto simp: suffixed_def dest: dec_nat_inj)

lemma suffixed_not_base: "ToLower (suffixed base n) \<noteq> ToLower base"
  by (auto dest: arg_cong [of _ _ length] simp: suffixed_def lit_def)

text \<open>
  With fewer than 99 players the name made for a new player is free, and it is the requested name itself or the
  requested name with the smallest free number from 2 to 99.
\<close>

theorem unique_name:
  assumes "um_wf players" "real_ids players" "length players < 99"
  shows "\<not> IsNameTaken players (MakeUniqueName draw players base) \<and>
    (MakeUniqueName draw players base = base \<or>
     (\<exists>n \<in> {2..99}. MakeUniqueName draw players base = suffixed base n \<and> (\<forall>m \<in> {2..<n}. IsNameTaken players (suffixed base m))))"
proof (cases "IsNameTaken players base")
  case taken: True
  let ?free = "\<lambda>n. \<not> IsNameTaken players (suffixed base n)"
  define ns where "ns = [2..<100 :: nat]"
  have ns: "set ns = {2..<100}" "length ns = 98" "\<And>i. i < 98 \<Longrightarrow> ns ! i = 2 + i" by (simp_all add: ns_def del: upt_rec_numeral)
  have "find ?free ns \<noteq> None"
  proof
    assume "find ?free ns = None"
    then have all: "IsNameTaken players (suffixed base n)" if "n \<in> {2..<100}" for n
      using that ns(1) by (auto simp: find_None_iff')
    define names where "names = insert (ToLower base) ((\<lambda>n. ToLower (suffixed base n)) ` {2..<100})"
    have "inj_on (\<lambda>n. ToLower (suffixed base n)) {2..<100}" by (auto intro!: inj_onI dest: suffixed_inj)
    then have "card names = Suc (card {2 :: nat..<100})"
      unfolding names_def by (subst card_insert_disjoint) (auto simp: card_image suffixed_not_base [THEN not_sym])
    moreover have "names \<subseteq> (\<lambda>(k, p). ToLower (cp_name p)) ` set players"
    proof
      fix x assume "x \<in> names"
      then obtain y where "x = ToLower y" "IsNameTaken players y" using taken all by (auto simp: names_def)
      then show "x \<in> (\<lambda>(k, p). ToLower (cp_name p)) ` set players"
        unfolding name_taken_iff [OF assms(2)] by force
    qed
    then have "card names \<le> card (set players)" by (meson List.finite_set card_image_le card_mono finite_imageI le_trans)
    moreover have "card (set players) \<le> length players" by (rule card_length)
    ultimately show False using assms(3) by simp
  qed
  then obtain n where n: "find ?free ns = Some n" by blast
  then obtain i where "i < 98" "?free n" "n = 2 + i" "\<forall>j < i. IsNameTaken players (suffixed base (2 + j))"
    using ns by (auto simp: find_Some_iff)
  moreover from this have "\<forall>m \<in> {2..<n}. IsNameTaken players (suffixed base m)"
    by (metis add_diff_inverse_nat atLeastLessThan_iff less_diff_conv2 nat_add_left_cancel_less not_less)
  ultimately show ?thesis using taken n by (auto simp: MakeUniqueName_def ns_def [symmetric] simp del: upt_rec_numeral)
qed (simp add: MakeUniqueName_def)

definition example_name_map :: player_map where
  "example_name_map = [(1, \<lparr>cp_id = 1, cp_name = lit ''Ann'', cp_peer = 0, cp_position = Vec3_default, cp_zone = ZoneCoord_default, cp_ping = 0,
     cp_lastUpdate = 0, cp_ownedEntities = [], cp_lobbyReady = False, cp_isLoopback = False, cp_isReady = True\<rparr>)]"

theorem find_by_name_witness: "PlayerManager_FindByName example_name_map (lit ''NN'') \<noteq> 0"
proof -
  have "real_ids example_name_map" by (simp add: real_ids_def example_name_map_def)
  from find_by_name [OF this, of "lit ''NN''"] show ?thesis
    by (simp add: example_name_map_def ToLower_def lit_def tolower_def sublist_Cons_right)
qed

theorem unique_name_witness:
  "\<not> IsNameTaken example_name_map (MakeUniqueName 0 example_name_map (lit ''ann'')) \<and> IsNameTaken example_name_map (lit ''ann'')"
proof -
  have "um_wf example_name_map" "real_ids example_name_map" "length example_name_map < 99"
    by (simp_all add: real_ids_def example_name_map_def um_wf_def um_keys_def)
  then show ?thesis using unique_name [of example_name_map 0 "lit ''ann''"]
    by (simp add: name_taken_iff) (simp add: example_name_map_def ToLower_def lit_def tolower_def)
qed

section \<open>The population index\<close>

lemma bump_find: "um_find (bump k m) j = (if j = k then Some (case um_find m k of None \<Rightarrow> 1 | Some n \<Rightarrow> Suc n) else um_find m j)"
  by (simp add: bump_def um_find_set)

lemma bump_wf: "um_wf m \<Longrightarrow> um_wf (bump k m)"
  by (simp add: bump_def)

definition population :: "('e \<Rightarrow> 'k) \<Rightarrow> 'e list \<Rightarrow> 'k \<Rightarrow> nat option" where
  "population f es k = (let n = length (filter (\<lambda>e. f e = k) es) in if n = 0 then None else Some n)"

lemma fold_bump: "um_wf (fold (\<lambda>e. bump (f e)) es []) \<and> um_find (fold (\<lambda>e. bump (f e)) es []) = population f es"
proof (induction es rule: rev_induct)
  case (snoc e es)
  then show ?case by (auto simp: bump_wf bump_find population_def Let_def fun_eq_iff)
qed (simp add: population_def fun_eq_iff)

lemma ZoneManager_key: "ZoneManager_ZoneKey z = ZoneKey z"
  by (simp add: ZoneManager_ZoneKey_def ZoneKey_def)

lemma RebuildIndex_find: "um_wf (RebuildIndex es pop) \<and> um_find (RebuildIndex es pop) = population (\<lambda>(k, e). ZoneKey (se_zone e)) es"
  using fold_bump [of "\<lambda>(k, e). ZoneKey (se_zone e)" es] unfolding RebuildIndex_def ZoneManager_key case_prod_unfold by simp

text \<open>
  After a rebuild the index gives for every zone the number of entities in it, and lists exactly the zones that
  have one, each once, with its signed coordinates recovered from the 64-bit key.
\<close>

theorem zone_population_exact:
  "ZoneManager_GetZonePopulation z (RebuildIndex es pop) = length (EntityManager_GetEntitiesInZone es z) \<and>
   distinct (ZoneManager_GetPopulatedZones (RebuildIndex es pop)) \<and>
   set (ZoneManager_GetPopulatedZones (RebuildIndex es pop)) = (\<lambda>(k, e). se_zone e) ` set es"
proof -
  let ?m = "RebuildIndex es pop"
  note m = RebuildIndex_find [of es pop]
  have zone_eq: "a = b \<longleftrightarrow> zx a = zx b \<and> zy a = zy b" for a b :: ZoneCoord by (cases a, cases b) auto
  have count: "length (filter (\<lambda>e. (case e of (k, e) \<Rightarrow> ZoneKey (se_zone e)) = ZoneKey w) es) = length (EntityManager_GetEntitiesInZone es w)" for w
    by (simp add: EntityManager_GetEntitiesInZone_def entity_ids_def zone_eq [symmetric] case_prod_unfold)
  have zones: "ZoneManager_GetPopulatedZones ?m = map key_zone (map fst (filter (\<lambda>(key, n). 0 < n) ?m))"
    by (auto simp: ZoneManager_GetPopulatedZones_def key_zone_def)
  have keys: "key \<in> set (map fst (filter (\<lambda>(key, n). 0 < n) ?m)) \<longleftrightarrow> key \<in> (\<lambda>(k, e). ZoneKey (se_zone e)) ` set es" for key
  proof -
    have "key \<in> set (map fst (filter (\<lambda>(key, n). 0 < n) ?m)) \<longleftrightarrow> (\<exists>n. um_find ?m key = Some n \<and> 0 < n)"
      using m by (intro in_keys_filter) simp
    also have "\<dots> \<longleftrightarrow> key \<in> (\<lambda>(k, e). ZoneKey (se_zone e)) ` set es"
      using m by (force simp: population_def Let_def filter_empty_conv)
    finally show ?thesis .
  qed
  have "inj_on key_zone ((\<lambda>(k, e). ZoneKey (se_zone e)) ` set es)"
    by (auto intro!: inj_onI simp: key_zone_ZoneKey)
  moreover have "set (map fst (filter (\<lambda>(key, n). 0 < n) ?m)) = (\<lambda>(k, e). ZoneKey (se_zone e)) ` set es"
    using keys by blast
  moreover have "distinct (map fst (filter (\<lambda>(key, n). 0 < n) ?m))"
    using m by (simp add: um_wf_def um_keys_def distinct_map_filter)
  ultimately have "distinct (map key_zone ks)" "set (map key_zone ks) = key_zone ` (\<lambda>(k, e). ZoneKey (se_zone e)) ` set es"
    if "ks = map fst (filter (\<lambda>(key, n). 0 < n) ?m)" for ks using that by (simp_all only: distinct_map set_map simp_thms)
  then have "distinct (ZoneManager_GetPopulatedZones ?m)"
    "set (ZoneManager_GetPopulatedZones ?m) = (\<lambda>(k, e). se_zone e) ` set es"
    unfolding zones by (simp_all only: image_image case_prod_unfold key_zone_ZoneKey)
  moreover have "ZoneManager_GetZonePopulation z ?m = length (EntityManager_GetEntitiesInZone es z)"
    using m count [of z] by (simp add: ZoneManager_GetZonePopulation_def ZoneManager_key population_def Let_def)
  ultimately show ?thesis by blast
qed

lemma type_distribution_exact: "um_find (GetTypeDistribution es) = population (\<lambda>(k, e). se_type e) es"
  using fold_bump [of "\<lambda>(k, e). se_type e" es] unfolding GetTypeDistribution_def case_prod_unfold by simp

section \<open>The nearest entity\<close>

definition eligible :: "EntityType \<Rightarrow> bool \<Rightarrow> ServerEntity \<Rightarrow> bool" where
  "eligible t byType e \<longleftrightarrow> (byType \<longrightarrow> se_type e = t)"

text \<open>What the search knows after the entities \<open>es\<close>: where it started from, or an eligible entity, and nothing nearer.\<close>

definition best_so_far :: "Vec3 \<Rightarrow> EntityType \<Rightarrow> bool \<Rightarrow> entity_map \<Rightarrow> EntityID \<times> f32 \<Rightarrow> bool" where
  "best_so_far p t byType es r \<longleftrightarrow> \<not> f32_isnan (snd r) \<and> f32_le (snd r) FLT_MAX \<and>
     (r = (0, FLT_MAX) \<or> (\<exists>e. (fst r, e) \<in> set es \<and> eligible t byType e \<and> snd r = distance_sq (se_position e) p)) \<and>
     (\<forall>(k, e) \<in> set es. eligible t byType e \<longrightarrow> \<not> f32_lt (distance_sq (se_position e) p) (snd r))"

lemma nearer_best:
  assumes "best_so_far p t byType es r"
  shows "best_so_far p t byType (es @ [x]) (nearer p t byType x r)"
proof (cases x, cases r)
  fix k e near best
  assume x: "x = (k, e)" and r: "r = (near, best)"
  let ?d = "distance_sq (se_position e) p"
  show ?thesis
  proof (cases "eligible t byType e \<and> f32_lt ?d best")
    case True
    then have step: "nearer p t byType x r = (k, ?d)" by (auto simp: nearer_def x r eligible_def Let_def)
    have "\<not> f32_lt c ?d" if "\<not> f32_lt c best" for c using that True by (auto simp: f32_lt_def)
    then show ?thesis using assms True unfolding step by (fastforce simp: best_so_far_def x r f32_lt_def f32_le_def)
  next
    case False
    then have step: "nearer p t byType x r = r" by (auto simp: nearer_def x r eligible_def Let_def)
    show ?thesis using assms False unfolding step by (fastforce simp: best_so_far_def x r)
  qed
qed

text \<open>
  The nearest-entity search returns an entity of the wanted type such that no other of that type is closer, and 0
  only if none has a distance below the largest float; it needs no assumption on the coordinates, which may be
  infinite or NaN.
\<close>

theorem nearest_is_nearest:
  fixes p :: Vec3 and t :: EntityType and byType :: bool and es :: entity_map
  assumes "\<forall>(k, e) \<in> set es. k \<noteq> 0"
  defines "n \<equiv> FindNearest es p t byType" and "d \<equiv> (\<lambda>e. distance_sq (se_position e) p)"
  shows "(n \<noteq> 0 \<longrightarrow> (\<exists>e. (n, e) \<in> set es \<and> eligible t byType e \<and> (\<forall>(j, f) \<in> set es. eligible t byType f \<longrightarrow> \<not> f32_lt (d f) (d e)))) \<and>
    (n = 0 \<longrightarrow> (\<forall>(j, f) \<in> set es. eligible t byType f \<longrightarrow> \<not> f32_lt (d f) FLT_MAX))"
proof -
  define r where "r = fold (nearer p t byType) es (0, FLT_MAX)"
  have "best_so_far p t byType es r" unfolding r_def
  proof (induction es rule: rev_induct)
    case Nil
    show ?case by (simp add: best_so_far_def FLT_MAX_def f32_eval)
  next
    case (snoc x es)
    from nearer_best [OF this, of x] show ?case by simp
  qed
  then show ?thesis using assms(1) unfolding n_def d_def FindNearest_def r_def [symmetric] best_so_far_def by fastforce
qed

theorem nearest_is_nearest_witness:
  "\<exists>e. (FindNearest [(7, ServerEntity_default)] Vec3_default NPC True, e) \<in> set [(7 :: EntityID, ServerEntity_default)] \<or>
     FindNearest [(7, ServerEntity_default)] Vec3_default NPC True = 0"
  using nearest_is_nearest [of "[(7, ServerEntity_default)]" Vec3_default NPC True] by auto

section \<open>Rate limits\<close>

definition in_window :: "PlayerID \<Rightarrow> f32 \<Rightarrow> f32 \<Rightarrow> PlayerManager \<Rightarrow> nat" where
  "in_window k now window s =
     length (filter (\<lambda>t. f32_le (f32_sub now t) window) (case um_find (pm_rateLimits s) k of None \<Rightarrow> [] | Some ts \<Rightarrow> ts))"

lemma CheckRateLimit_iff:
  "0 < sint maxMessages \<Longrightarrow> CheckRateLimit k now window maxMessages s \<longleftrightarrow> sint maxMessages \<le> int (in_window k now window s)"
  by (auto simp: CheckRateLimit_def in_window_def split: option.splits)

lemma cleanup_find: "um_find (pm_rateLimits (CleanupRateLimits now window s)) k =
    map_option (filter (\<lambda>t. \<not> f32_lt window (f32_sub now t))) (um_find (pm_rateLimits s) k)"
  unfolding CleanupRateLimits_def by (simp add: um_find_map)

text \<open>
  A message that is recorded only after the limit was checked leaves at most the allowed number in the window, and
  cleaning up with a window at least as long never changes what the check answers at that time, NaN times included.
\<close>

theorem rate_limit_holds:
  assumes "0 < sint maxMessages" "f32_le window keep"
  shows "(\<not> CheckRateLimit k now window maxMessages s \<longrightarrow> int (in_window k now window (RecordMessage k now s)) \<le> sint maxMessages) \<and>
    CheckRateLimit k now window maxMessages (CleanupRateLimits now keep s) = CheckRateLimit k now window maxMessages s"
proof
  have "in_window k now window (RecordMessage k now s) \<le> Suc (in_window k now window s)"
    by (simp add: in_window_def RecordMessage_def um_find_set split: option.split)
  then show "\<not> CheckRateLimit k now window maxMessages s \<longrightarrow> int (in_window k now window (RecordMessage k now s)) \<le> sint maxMessages"
    unfolding CheckRateLimit_iff [OF assms(1)] by linarith
  have "f32_le d window \<longleftrightarrow> f32_le d window \<and> \<not> f32_lt keep d" for d using assms(2) by (auto simp: f32_le_def f32_lt_def)
  then have "filter (\<lambda>t. f32_le (f32_sub now t) window) (filter (\<lambda>t. \<not> f32_lt keep (f32_sub now t)) ts) =
      filter (\<lambda>t. f32_le (f32_sub now t) window) ts" for ts
    by (subst filter_filter) (rule filter_cong [OF refl], blast)
  then have "in_window k now window (CleanupRateLimits now keep s) = in_window k now window s"
    by (cases "um_find (pm_rateLimits s) k") (simp_all add: in_window_def cleanup_find)
  then show "CheckRateLimit k now window maxMessages (CleanupRateLimits now keep s) = CheckRateLimit k now window maxMessages s"
    unfolding CheckRateLimit_iff [OF assms(1)] by simp
qed

theorem rate_limit_holds_witness:
  "CheckRateLimit 3 0 0 1 (CleanupRateLimits 0 0 (RecordMessage 3 0 \<lparr>pm_bannedIPs = [], pm_rateLimits = []\<rparr>)) =
   CheckRateLimit 3 0 0 1 (RecordMessage 3 0 \<lparr>pm_bannedIPs = [], pm_rateLimits = []\<rparr>)"
proof -
  have "0 < sint (1 :: i32)" "f32_le 0 0" by (simp_all add: f32_eval)
  from rate_limit_holds [OF this] show ?thesis by blast
qed

lemma ban_roundtrip: "IsIPBanned ip (BanIP ip s) \<and> \<not> IsIPBanned ip (UnbanIP ip s) \<and>
    (ip' \<noteq> ip \<longrightarrow> IsIPBanned ip' (BanIP ip s) = IsIPBanned ip' s \<and> IsIPBanned ip' (UnbanIP ip s) = IsIPBanned ip' s)"
  by (simp add: IsIPBanned_def BanIP_def UnbanIP_def)

section \<open>Clock and weather\<close>

lemma weather_range: "0 \<le> weather_of_roll r \<and> weather_of_roll r \<le> 4"
  by (simp add: weather_of_roll_def)

lemma transition_reported_once:
  "fst (CheckDayNightTransition s) \<longleftrightarrow> IsDaytime s \<noteq> gs_wasDaytime s"
  "gs_wasDaytime (snd (CheckDayNightTransition s)) = IsDaytime s"
  "fst (CheckDayNightTransition (snd (CheckDayNightTransition s))) = False"
  by (auto simp: CheckDayNightTransition_def IsDaytime_def)

text \<open>
  A time just below a whole number is not mapped into [0,1): single precision rounds the difference to 1, which counts
  as night and prints as 00:00 of the same day.
\<close>

lemma set_time_reaches_one: "gs_timeOfDay (SetTimeOfDay 0xAEDBE6FF s) = f32_of_int 1"
  by (simp add: SetTimeOfDay_def f32_eval)

lemma relevance_is_a_filter: "GetRelevantEntities es p = map fst (filter (\<lambda>(k, e). ShouldReceiveUpdates p e) es)"
  by (simp add: GetRelevantEntities_def entity_ids_def ShouldReceiveUpdates_def)

end
