(* ===== verification/Pattern_Scan.thy ===== *)
theory Pattern_Scan
  imports Text_Util
begin

text \<open>
  The byte pattern search of \<^verbatim>\<open>KenshiMP.Scanner\<close>: parsing of patterns such as \<^verbatim>\<open>48 8B ? C3\<close> and the scan of a
  memory region, in the linear form of \<^verbatim>\<open>scanner.cpp\<close> and in the form of \<^verbatim>\<open>scanner_engine.cpp\<close> that compares sixteen
  bytes at a time.  The memory of the process is a function from addresses to bytes, a region is a start address and
  a number of bytes, and positions in it are natural numbers.
\<close>

section \<open>Memory\<close>

type_synonym memory = "u64 \<Rightarrow> u8"

definition at :: "memory \<Rightarrow> u64 \<Rightarrow> nat \<Rightarrow> u8" where
  "at m start i = m (start + of_nat i)"

definition read_u16 :: "memory \<Rightarrow> u64 \<Rightarrow> u16" where
  "read_u16 m a = u16_of (map (at m a) [0, 1])"

definition read_u32 :: "memory \<Rightarrow> u64 \<Rightarrow> u32" where
  "read_u32 m a = u32_of (map (at m a) [0, 1, 2, 3])"

section \<open>Patterns\<close>

record ParsedPattern =
  pp_bytes :: "u8 list"
  pp_mask :: "bool list"
  pp_original :: bytes
  pp_offset :: i32

definition isspace :: "byte \<Rightarrow> bool" where
  "isspace c \<longleftrightarrow> c = 32 \<or> 9 \<le> c \<and> c \<le> 13"

text \<open>\<open>words acc s\<close>: what \<^verbatim>\<open>stream >> token\<close> yields, with the characters of the token begun so far.\<close>

fun words :: "bytes \<Rightarrow> bytes \<Rightarrow> bytes list" where
  "words acc [] = (if acc = [] then [] else [acc])"
| "words acc (c # s) = (if isspace c then (if acc = [] then words [] s else acc # words [] s) else words (acc @ [c]) s)"

definition hex_value :: "byte \<Rightarrow> nat option" where
  "hex_value c = (if 48 \<le> c \<and> c \<le> 57 then Some (unat c - 48)
     else if 97 \<le> c \<and> c \<le> 102 then Some (unat c - 87)
     else if 65 \<le> c \<and> c \<le> 70 then Some (unat c - 55) else None)"

fun hex_number :: "nat \<Rightarrow> bytes \<Rightarrow> nat" where
  "hex_number v [] = v"
| "hex_number v (c # s) = (case hex_value c of None \<Rightarrow> v | Some d \<Rightarrow> hex_number (16 * v + d) s)"

text \<open>
  \<^verbatim>\<open>strtoul(s, nullptr, 16)\<close> with the 32-bit \<^verbatim>\<open>unsigned long\<close> of Windows, on a token without white space: an
  optional sign, an optional \<^verbatim>\<open>0x\<close> that is followed by a digit, digits up to the first other character, the largest
  value on overflow.
\<close>

definition strip_0x :: "bytes \<Rightarrow> bytes" where
  "strip_0x s = (if length s > 2 \<and> s ! 0 = 48 \<and> (s ! 1 = 120 \<or> s ! 1 = 88) \<and> hex_value (s ! 2) \<noteq> None then drop 2 s else s)"

definition strtoul16 :: "bytes \<Rightarrow> u32" where
  "strtoul16 s =
     (let neg = (s \<noteq> [] \<and> hd s = 45);
          body = (if s \<noteq> [] \<and> (hd s = 45 \<or> hd s = 43) then tl s else s);
          v = hex_number 0 (strip_0x body)
      in if 2 ^ 32 \<le> v then 0xFFFFFFFF else if neg then - of_nat v else of_nat v)"

definition is_wild :: "bytes \<Rightarrow> bool" where
  "is_wild t \<longleftrightarrow> t = lit ''?'' \<or> t = lit ''??''"

definition token_byte :: "bytes \<Rightarrow> u8" where
  "token_byte t = (if is_wild t then 0 else ucast (strtoul16 t))"

definition Parse :: "bytes \<Rightarrow> ParsedPattern option" where
  "Parse s = (let ts = words [] (cstr s) in if ts = [] then None
     else Some \<lparr>pp_bytes = map token_byte ts, pp_mask = map (\<lambda>t. \<not> is_wild t) ts, pp_original = cstr s, pp_offset = 0\<rparr>)"

section \<open>Matching and the linear scan\<close>

fun match_from :: "(nat \<Rightarrow> u8) \<Rightarrow> nat \<Rightarrow> u8 list \<Rightarrow> bool list \<Rightarrow> bool" where
  "match_from d i (b # bs) (k # ks) \<longleftrightarrow> (if k \<and> d i \<noteq> b then False else match_from d (Suc i) bs ks)"
| "match_from d i _ _ \<longleftrightarrow> True"

fun linear_loop :: "(nat \<Rightarrow> u8) \<Rightarrow> ParsedPattern \<Rightarrow> nat \<Rightarrow> nat \<Rightarrow> nat option" where
  "linear_loop d p i 0 = None"
| "linear_loop d p i (Suc n) =
     (if hd (pp_mask p) \<and> d i \<noteq> hd (pp_bytes p) then linear_loop d p (Suc i) n
      else if match_from d (Suc i) (tl (pp_bytes p)) (tl (pp_mask p)) then Some i
      else linear_loop d p (Suc i) n)"

definition address_of :: "u64 \<Rightarrow> nat option \<Rightarrow> u64" where
  "address_of start r = (case r of None \<Rightarrow> 0 | Some i \<Rightarrow> start + of_nat i)"

definition ScanRegionLinear :: "memory \<Rightarrow> u64 \<Rightarrow> nat \<Rightarrow> ParsedPattern \<Rightarrow> u64" where
  "ScanRegionLinear m start sz p =
     (if pp_bytes p = [] \<or> sz < length (pp_bytes p) then 0
      else address_of start (linear_loop (at m start) p 0 (sz - length (pp_bytes p) + 1)))"

section \<open>The scan of sixteen bytes at a time\<close>

fun first_fixed :: "bool list \<Rightarrow> nat option" where
  "first_fixed [] = None"
| "first_fixed (k # ks) = (if k then Some 0 else map_option Suc (first_fixed ks))"

text \<open>
  \<^verbatim>\<open>_mm_movemask_epi8\<close> of the comparison of sixteen bytes, \<^verbatim>\<open>_BitScanForward\<close>, and the loop over the set bits.
\<close>

definition movemask :: "(nat \<Rightarrow> u8) \<Rightarrow> nat \<Rightarrow> u8 \<Rightarrow> nat" where
  "movemask d i needle = horner_sum of_bool 2 (map (\<lambda>k. d (i + k) = needle) [0..<16])"

fun bit_scan :: "nat \<Rightarrow> nat" where
  "bit_scan n = (if n = 0 then 0 else if odd n then 0 else Suc (bit_scan (n div 2)))"

declare bit_scan.simps [simp del]

datatype lane_result = Found nat | Beyond | Nothing_here

lemma clear_lowest_odd: "odd n \<Longrightarrow> n AND (n - 1) = n - (1 :: nat)"
proof (elim oddE)
  fix b assume "n = 2 * b + 1"
  then show "n AND (n - 1) = n - 1" by (subst and_nat_rec) simp
qed

lemma clear_lowest_even: "0 < k \<Longrightarrow> (2 * k) AND (2 * k - 1) = 2 * (k AND (k - (1 :: nat)))"
proof -
  assume "0 < k"
  then have "2 * k - 1 = 1 + 2 * (k - 1)" by simp
  then have "(2 * k - 1) div 2 = k - 1" by simp
  then show ?thesis by (subst and_nat_rec) simp
qed

lemma clear_lowest:
  "0 < n \<Longrightarrow> n AND (n - 1) < (n :: nat) \<and> bit n (bit_scan n) \<and> (\<forall>j < bit_scan n. \<not> bit n j) \<and> (\<forall>j. bit (n AND (n - 1)) j \<longleftrightarrow> bit n j \<and> j \<noteq> bit_scan n)"
proof (induction n rule: bit_scan.induct)
  case (1 n)
  show ?case
  proof (cases "odd n")
    case True
    then have "bit_scan n = 0" using 1 by (simp add: bit_scan.simps [of n])
    moreover have "bit (n - 1) j \<longleftrightarrow> bit n j \<and> j \<noteq> 0" for j
      using True by (cases j) (auto elim!: oddE simp: bit_0 bit_Suc)
    ultimately show ?thesis unfolding clear_lowest_odd [OF True] using True 1 by (simp add: bit_0)
  next
    case False
    then obtain k where k: "n = 2 * k" "0 < k" using 1 by auto
    then have s: "bit_scan (2 * k) = Suc (bit_scan k)" using k by (subst bit_scan.simps) simp
    have IH: "k AND (k - 1) < k \<and> bit k (bit_scan k) \<and> (\<forall>j < bit_scan k. \<not> bit k j) \<and> (\<forall>j. bit (k AND (k - 1)) j \<longleftrightarrow> bit k j \<and> j \<noteq> bit_scan k)"
      using 1 k False by simp
    have b: "bit (2 * x) j \<longleftrightarrow> j \<noteq> 0 \<and> bit x (j - 1)" for x j :: nat by (cases j) (simp_all add: bit_0 bit_Suc)
    show ?thesis using IH unfolding k(1) s clear_lowest_even [OF k(2)] b by (auto simp: less_Suc_eq_0_disj)
  qed
qed
function lanes :: "(nat \<Rightarrow> u8) \<Rightarrow> ParsedPattern \<Rightarrow> nat \<Rightarrow> nat \<Rightarrow> nat \<Rightarrow> lane_result" where
  "lanes d p scanEnd i bits =
     (if bits = 0 then Nothing_here
      else let candidate = i + bit_scan bits in
        if scanEnd < candidate then Beyond
        else if match_from d candidate (pp_bytes p) (pp_mask p) then Found candidate
        else lanes d p scanEnd i (bits AND (bits - 1)))"
  by pat_completeness auto
termination by (relation "measure (\<lambda>(d, p, scanEnd, i, bits). bits)") (use clear_lowest in auto)

declare lanes.simps [simp del]

fun fixed_loop :: "(nat \<Rightarrow> u8) \<Rightarrow> ParsedPattern \<Rightarrow> nat \<Rightarrow> u8 \<Rightarrow> nat \<Rightarrow> nat \<Rightarrow> nat option" where
  "fixed_loop d p ff needle i 0 = None"
| "fixed_loop d p ff needle i (Suc n) =
     (if d (i + ff) \<noteq> needle then fixed_loop d p ff needle (Suc i) n
      else if match_from d i (pp_bytes p) (pp_mask p) then Some i
      else fixed_loop d p ff needle (Suc i) n)"

function simd_loop :: "(nat \<Rightarrow> u8) \<Rightarrow> ParsedPattern \<Rightarrow> nat \<Rightarrow> u8 \<Rightarrow> nat \<Rightarrow> nat \<Rightarrow> nat \<Rightarrow> nat option" where
  "simd_loop d p ff needle scanEnd simdEnd i =
     (if i \<le> simdEnd
      then (case lanes d p scanEnd i (movemask d (i + ff) needle) of
              Found c \<Rightarrow> Some c
            | Beyond \<Rightarrow> None
            | Nothing_here \<Rightarrow> simd_loop d p ff needle scanEnd simdEnd (i + 16))
      else fixed_loop d p ff needle i (scanEnd + 1 - i))"
  by pat_completeness auto
termination by (relation "measure (\<lambda>(d, p, ff, needle, scanEnd, simdEnd, i). Suc simdEnd - i)") auto

declare simd_loop.simps [simp del]

definition simd_end :: "nat \<Rightarrow> nat" where
  "simd_end scanEnd = (if 16 < scanEnd then scanEnd - 16 else 0)"

definition ScanRegionSSE2 :: "memory \<Rightarrow> u64 \<Rightarrow> nat \<Rightarrow> ParsedPattern \<Rightarrow> u64" where
  "ScanRegionSSE2 m start sz p =
     (if pp_bytes p = [] \<or> sz < length (pp_bytes p) then 0
      else case first_fixed (pp_mask p) of
        None \<Rightarrow> start
      | Some ff \<Rightarrow> (let scanEnd = sz - length (pp_bytes p) in
          address_of start (simd_loop (at m start) p ff (pp_bytes p ! ff) scanEnd (simd_end scanEnd) 0)))"

text \<open>All matches: \<open>current\<close> and \<open>remaining\<close> as in the loop of \<^verbatim>\<open>ScanRegionAll\<close>.\<close>

lemma linear_loop_bound: "linear_loop d p i n = Some j \<Longrightarrow> i \<le> j \<and> j < i + n"
  by (induction d p i n rule: linear_loop.induct) (auto split: if_splits)

definition advance_by :: "u64 \<Rightarrow> u64 \<Rightarrow> nat" where
  "advance_by current addr = unat (addr - current) + 1"

function scan_all :: "memory \<Rightarrow> ParsedPattern \<Rightarrow> u64 \<Rightarrow> nat \<Rightarrow> u64 list" where
  "scan_all m p current remaining =
     (if length (pp_bytes p) < remaining
      then let addr = ScanRegionSSE2 m current remaining p in
        if addr = 0 then []
        else addr # scan_all m p (current + of_nat (advance_by current addr)) (remaining - advance_by current addr)
      else [])"
  by pat_completeness auto
termination by (relation "measure (\<lambda>(m, p, current, remaining). remaining)") (auto simp: advance_by_def)

declare scan_all.simps [simp del]

definition ScanRegionAll :: "memory \<Rightarrow> u64 \<Rightarrow> nat \<Rightarrow> ParsedPattern \<Rightarrow> u64 list" where
  "ScanRegionAll m start sz p = (if pp_bytes p = [] \<or> sz < length (pp_bytes p) then [] else scan_all m p start sz)"

section \<open>Addresses in instructions\<close>

definition ResolveRIP :: "memory \<Rightarrow> u64 \<Rightarrow> i32 \<Rightarrow> i32 \<Rightarrow> u64" where
  "ResolveRIP m instr operandOffset len = instr + scast len + scast (read_u32 m (instr + scast operandOffset))"

definition FollowCall :: "memory \<Rightarrow> u64 \<Rightarrow> u64" where
  "FollowCall m a = (if m a \<noteq> 0xE8 then 0 else ResolveRIP m a 1 5)"

definition FollowJmp :: "memory \<Rightarrow> u64 \<Rightarrow> u64" where
  "FollowJmp m a = (if m a \<noteq> 0xE9 then 0 else ResolveRIP m a 1 5)"

definition FollowConditionalJmp :: "memory \<Rightarrow> u64 \<Rightarrow> u64" where
  "FollowConditionalJmp m a =
     (let b0 = m a; b1 = m (a + 1) in
      if b0 AND 0xF0 = 0x70 then a + 2 + scast (m (a + 1))
      else if b0 = 0x0F \<and> b1 AND 0xF0 = 0x80 then ResolveRIP m a 2 6
      else 0)"

section \<open>Both scans return the first match\<close>

text \<open>The reference: a position matches when every byte the mask fixes is there; the scan looks for the first one.\<close>

definition pattern_ok :: "ParsedPattern \<Rightarrow> bool" where
  "pattern_ok p \<longleftrightarrow> pp_bytes p \<noteq> [] \<and> length (pp_mask p) = length (pp_bytes p)"

definition matches :: "(nat \<Rightarrow> u8) \<Rightarrow> ParsedPattern \<Rightarrow> nat \<Rightarrow> bool" where
  "matches d p i \<longleftrightarrow> (\<forall>j < length (pp_bytes p). pp_mask p ! j \<longrightarrow> d (i + j) = pp_bytes p ! j)"

definition first_match :: "(nat \<Rightarrow> u8) \<Rightarrow> ParsedPattern \<Rightarrow> nat \<Rightarrow> nat option" where
  "first_match d p n = find (matches d p) [0..<n]"

lemma match_from_nth:
  "length ks = length bs \<Longrightarrow> match_from d i bs ks \<longleftrightarrow> (\<forall>j < length bs. ks ! j \<longrightarrow> d (i + j) = bs ! j)"
proof (induction d i bs ks rule: match_from.induct)
  case (1 d i b bs k ks)
  then show ?case by (auto simp: less_Suc_eq_0_disj all_conj_distrib imp_conjL)
qed auto

lemma match_from_matches: "pattern_ok p \<Longrightarrow> match_from d i (pp_bytes p) (pp_mask p) \<longleftrightarrow> matches d p i"
  by (simp add: pattern_ok_def matches_def match_from_nth)

lemma match_first_tail:
  assumes "pattern_ok p"
  shows "\<not> (hd (pp_mask p) \<and> d i \<noteq> hd (pp_bytes p)) \<and> match_from d (Suc i) (tl (pp_bytes p)) (tl (pp_mask p)) \<longleftrightarrow> matches d p i"
proof -
  obtain b bs k ks where "pp_bytes p = b # bs" "pp_mask p = k # ks"
    using assms by (cases "pp_bytes p"; cases "pp_mask p") (auto simp: pattern_ok_def)
  moreover have "match_from d i (b # bs) (k # ks) \<longleftrightarrow> \<not> (k \<and> d i \<noteq> b) \<and> match_from d (Suc i) bs ks" by simp
  ultimately show ?thesis using match_from_matches [OF assms, of d i] by (simp del: match_from.simps)
qed

lemma find_upt_Suc: "find P [i..<i + Suc n] = (if P i then Some i else find P [Suc i..<Suc i + n])"
  by (simp add: upt_conv_Cons del: upt_Suc)

lemma linear_loop_find: "pattern_ok p \<Longrightarrow> linear_loop d p i n = find (matches d p) [i..<i + n]"
proof (induction d p i n rule: linear_loop.induct)
  case (2 d p i n)
  then show ?case unfolding find_upt_Suc linear_loop.simps match_first_tail [OF \<open>pattern_ok p\<close>, of d i, symmetric] by auto
qed simp

theorem linear_scan_first_match:
  "pattern_ok p \<Longrightarrow> length (pp_bytes p) \<le> n \<Longrightarrow>
     ScanRegionLinear m start n p = address_of start (first_match (at m start) p (n - length (pp_bytes p) + 1))"
  by (simp add: ScanRegionLinear_def linear_loop_find first_match_def pattern_ok_def del: linear_loop.simps upt_Suc)

lemma first_fixed_Some: "first_fixed ks = Some j \<Longrightarrow> j < length ks \<and> ks ! j"
  by (induction ks arbitrary: j) (auto split: if_splits)

lemma first_fixed_None: "first_fixed ks = None \<Longrightarrow> j < length ks \<Longrightarrow> \<not> ks ! j"
  by (induction ks arbitrary: j) (auto simp: less_Suc_eq_0_disj split: if_splits)

lemma first_fixed_matches:
  assumes "pattern_ok p" "first_fixed (pp_mask p) = Some ff" "matches d p i"
  shows "d (i + ff) = pp_bytes p ! ff"
  using assms first_fixed_Some [OF assms(2)] by (auto simp: matches_def pattern_ok_def)

lemma fixed_loop_find:
  assumes "pattern_ok p" "first_fixed (pp_mask p) = Some ff"
  shows "fixed_loop d p ff (pp_bytes p ! ff) i n = find (matches d p) [i..<i + n]"
proof (induction n arbitrary: i)
  case (Suc n)
  then show ?case unfolding find_upt_Suc using first_fixed_matches [OF assms, of d i] match_from_matches [OF assms(1), of d i] by auto
qed simp

text \<open>
  The loop over the set bits finds the first match among the positions whose bits are set, or stops beyond the last
  position where a match fits.
\<close>

lemma lanes_spec:
  assumes "pattern_ok p"
  shows "(case lanes d p scanEnd i bits of
     Found c \<Rightarrow> bit bits (c - i) \<and> i \<le> c \<and> c \<le> scanEnd \<and> matches d p c \<and> (\<forall>j. bit bits j \<longrightarrow> i + j < c \<longrightarrow> \<not> matches d p (i + j))
   | Beyond \<Rightarrow> (\<exists>j. bit bits j \<and> scanEnd < i + j) \<and> (\<forall>j. bit bits j \<longrightarrow> i + j \<le> scanEnd \<longrightarrow> \<not> matches d p (i + j))
   | Nothing_here \<Rightarrow> (\<forall>j. bit bits j \<longrightarrow> \<not> matches d p (i + j)))"
proof (induction bits rule: less_induct)
  case (less bits)
  let ?c = "i + bit_scan bits" and ?rest = "bits AND (bits - 1)"
  show ?case
  proof (cases "bits = 0 \<or> scanEnd < ?c \<or> matches d p ?c")
    case True
    have low: "bit_scan bits \<le> j" if "bit bits j" for j
      using clear_lowest [of bits] that by (cases "bits = 0") (auto simp: not_less [symmetric])
    show ?thesis
    proof (cases "bits = 0")
      case False
      with True low clear_lowest [of bits] show ?thesis
        by (subst lanes.simps) (auto simp: Let_def match_from_matches [OF assms] dest: low intro!: exI [of _ "bit_scan bits"])
    qed (simp add: lanes.simps)
  next
    case False
    then have step: "lanes d p scanEnd i bits = lanes d p scanEnd i ?rest"
      by (subst lanes.simps) (simp add: Let_def match_from_matches [OF assms])
    have b: "?rest < bits" "\<And>j. bit ?rest j \<longleftrightarrow> bit bits j \<and> j \<noteq> bit_scan bits" "bit bits (bit_scan bits)"
      using clear_lowest [of bits] False by auto
    have all: "(\<forall>j. bit bits j \<longrightarrow> R j) \<longleftrightarrow> R (bit_scan bits) \<and> (\<forall>j. bit ?rest j \<longrightarrow> R j)" for R using b(2,3) by blast
    have some: "bit ?rest j \<Longrightarrow> bit bits j" for j using b(2) by blast
    show ?thesis using less.IH [OF b(1)] some False unfolding step all by (fastforce split: lane_result.splits)
  qed
qed

lemma movemask_bit: "bit (movemask d i needle) k \<longleftrightarrow> k < 16 \<and> d (i + k) = needle"
  unfolding movemask_def by (auto simp: bit_horner_sum_bit_iff)

lemma find_upt_split: "i \<le> j \<Longrightarrow> j \<le> n \<Longrightarrow> find P [i..<n] = (case find P [i..<j] of None \<Rightarrow> find P [j..<n] | Some x \<Rightarrow> Some x)"
proof -
  assume "i \<le> j" "j \<le> n"
  then have "[i..<n] = [i..<j] @ [j..<n]" by (metis le_Suc_ex upt_add_eq_append)
  moreover have "find P (xs @ ys) = (case find P xs of None \<Rightarrow> find P ys | Some x \<Rightarrow> Some x)" for xs ys
    by (induction xs) auto
  ultimately show ?thesis by simp
qed

lemma find_upt_Some: "find P [i..<n] = Some c \<longleftrightarrow> i \<le> c \<and> c < n \<and> P c \<and> (\<forall>j. i \<le> j \<longrightarrow> j < c \<longrightarrow> \<not> P j)"
proof
  assume "find P [i..<n] = Some c"
  then obtain k where k: "k < n - i" "P (i + k)" "c = i + k" "\<forall>j < k. \<not> P (i + j)" by (auto simp: find_Some_iff)
  then show "i \<le> c \<and> c < n \<and> P c \<and> (\<forall>j. i \<le> j \<longrightarrow> j < c \<longrightarrow> \<not> P j)" by (auto simp: le_iff_add)
next
  assume c: "i \<le> c \<and> c < n \<and> P c \<and> (\<forall>j. i \<le> j \<longrightarrow> j < c \<longrightarrow> \<not> P j)"
  then show "find P [i..<n] = Some c" unfolding find_Some_iff by (intro exI [of _ "c - i"]) auto
qed

lemma find_upt_None: "find P [i..<n] = None \<longleftrightarrow> (\<forall>j. i \<le> j \<longrightarrow> j < n \<longrightarrow> \<not> P j)"
  by (auto simp: find_None_iff)

lemma simd_loop_find:
  assumes "pattern_ok p" "first_fixed (pp_mask p) = Some ff"
  shows "i \<le> Suc scanEnd \<Longrightarrow> simdEnd \<le> scanEnd \<Longrightarrow>
    simd_loop d p ff (pp_bytes p ! ff) scanEnd simdEnd i = find (matches d p) [i..<Suc scanEnd]"
proof (induction "Suc simdEnd - i" arbitrary: i rule: less_induct)
  case less
  let ?bits = "movemask d (i + ff) (pp_bytes p ! ff)"
  have bits: "bit ?bits j" if "matches d p (i + j)" "j < 16" for j
    using first_fixed_matches [OF assms that(1)] that(2) by (simp add: movemask_bit ac_simps)
  have lane: "j < 16" if "bit ?bits j" for j using that by (simp add: movemask_bit)
  show ?case
  proof (cases "i \<le> simdEnd")
    case False
    then show ?thesis using fixed_loop_find [OF assms, of d i "Suc scanEnd - i"] less.prems by (simp add: simd_loop.simps)
  next
    case True
    note spec = lanes_spec [OF assms(1), where d = d and scanEnd = scanEnd and i = i and bits = ?bits]
    show ?thesis
    proof (cases "lanes d p scanEnd i ?bits")
      case (Found c)
      then have c: "bit ?bits (c - i)" "i \<le> c" "c \<le> scanEnd" "matches d p c" "\<And>j. bit ?bits j \<Longrightarrow> i + j < c \<Longrightarrow> \<not> matches d p (i + j)"
        using spec by auto
      have "\<not> matches d p j" if "i \<le> j" "j < c" for j
        using c(5) [of "j - i"] bits [of "j - i"] lane [OF c(1)] that by auto
      then have "find (matches d p) [i..<Suc scanEnd] = Some c" using c by (simp only: find_upt_Some) simp
      then show ?thesis using True Found by (simp add: simd_loop.simps del: upt_Suc)
    next
      case Beyond
      then obtain k where k: "k < 16" "scanEnd < i + k" using spec lane by auto
      have "\<not> matches d p j" if "i \<le> j" "j < Suc scanEnd" for j
      proof
        assume m: "matches d p j"
        have "j - i < 16" "i + (j - i) = j" "i + (j - i) \<le> scanEnd" using k that by auto
        then show False using spec Beyond bits [of "j - i"] m by fastforce
      qed
      then have "find (matches d p) [i..<Suc scanEnd] = None" by (simp only: find_upt_None) simp
      then show ?thesis using True Beyond by (simp add: simd_loop.simps del: upt_Suc)
    next
      case Nothing_here
      have none: "\<not> matches d p j" if "i \<le> j" "j < i + 16" for j
      proof
        assume m: "matches d p j"
        have "j - i < 16" "i + (j - i) = j" using that by auto
        then show False using spec Nothing_here bits [of "j - i"] m by fastforce
      qed
      have step: "simd_loop d p ff (pp_bytes p ! ff) scanEnd simdEnd i = simd_loop d p ff (pp_bytes p ! ff) scanEnd simdEnd (i + 16)"
        using True Nothing_here by (subst simd_loop.simps) simp
      show ?thesis
      proof (cases "i + 16 \<le> Suc scanEnd")
        case True
        have "find (matches d p) [i..<i + 16] = None" using none by (simp only: find_upt_None) simp
        then have "find (matches d p) [i..<Suc scanEnd] = find (matches d p) [i + 16..<Suc scanEnd]"
          using True find_upt_split [of i "i + 16" "Suc scanEnd" "matches d p"] by (simp del: upt_Suc)
        then show ?thesis unfolding step using less.hyps [of "i + 16"] less.prems True \<open>i \<le> simdEnd\<close> by simp
      next
        case False
        then have "\<not> i + 16 \<le> simdEnd" using less.prems by simp
        then have "simd_loop d p ff (pp_bytes p ! ff) scanEnd simdEnd (i + 16) = None"
          using False by (subst simd_loop.simps) simp
        moreover have "find (matches d p) [i..<Suc scanEnd] = None" using none False by (simp only: find_upt_None) simp
        ultimately show ?thesis by (simp add: step)
      qed
    qed
  qed
qed

lemma all_wild_matches: "pattern_ok p \<Longrightarrow> first_fixed (pp_mask p) = None \<Longrightarrow> matches d p i"
  by (auto simp: matches_def pattern_ok_def dest: first_fixed_None)

theorem simd_scan_first_match:
  assumes "pattern_ok p" "length (pp_bytes p) \<le> n"
  shows "ScanRegionSSE2 m start n p = address_of start (first_match (at m start) p (n - length (pp_bytes p) + 1))"
proof (cases "first_fixed (pp_mask p)")
  case None
  have "find (matches (at m start) p) [0..<Suc (n - length (pp_bytes p))] = Some 0"
    using all_wild_matches [OF assms(1) None] by (simp only: find_upt_Some) simp
  then show ?thesis using None assms by (simp add: ScanRegionSSE2_def first_match_def address_of_def pattern_ok_def del: upt_Suc)
next
  case (Some ff)
  have "simd_end k \<le> k" for k by (simp add: simd_end_def)
  then show ?thesis using Some assms simd_loop_find [OF assms(1) Some, of 0 "n - length (pp_bytes p)" "simd_end (n - length (pp_bytes p))" "at m start"]
    by (simp add: ScanRegionSSE2_def first_match_def Let_def pattern_ok_def del: upt_Suc)
qed

text \<open>
  C36.  The scan of sixteen bytes at a time, with its bit masks and its linear rest, returns for every pattern, memory
  and region what the linear scan returns: the address of the first position where the pattern matches, or 0.
\<close>

theorem simd_equals_linear:
  assumes "pattern_ok p"
  shows "ScanRegionSSE2 m start n p = ScanRegionLinear m start n p \<and>
    ScanRegionSSE2 m start n p = (if n < length (pp_bytes p) then 0
      else address_of start (first_match (at m start) p (n - length (pp_bytes p) + 1)))"
proof (cases "n < length (pp_bytes p)")
  case True
  then show ?thesis by (simp add: ScanRegionSSE2_def ScanRegionLinear_def)
next
  case False
  then show ?thesis using simd_scan_first_match [OF assms] linear_scan_first_match [OF assms] by simp
qed

section \<open>All matches\<close>

lemma matches_shift: "matches (at m (start + of_nat c)) p i = matches (at m start) p (c + i)"
  by (simp add: matches_def at_def ac_simps)

lemma first_match_shift:
  "first_match (at m (start + of_nat c)) p k = Some i \<longleftrightarrow> find (matches (at m start) p) [c..<c + k] = Some (c + i)"
  "first_match (at m (start + of_nat c)) p k = None \<longleftrightarrow> find (matches (at m start) p) [c..<c + k] = None"
proof -
  have all: "(\<forall>j. c \<le> j \<longrightarrow> j < x \<longrightarrow> R j) \<longleftrightarrow> (\<forall>j. j < x - c \<longrightarrow> R (c + j))" for R x
    by (metis add.commute le_add_diff_inverse le_add1 less_diff_conv)
  show "first_match (at m (start + of_nat c)) p k = Some i \<longleftrightarrow> find (matches (at m start) p) [c..<c + k] = Some (c + i)"
    unfolding first_match_def find_upt_Some all matches_shift by simp
  show "first_match (at m (start + of_nat c)) p k = None \<longleftrightarrow> find (matches (at m start) p) [c..<c + k] = None"
    unfolding first_match_def find_upt_None all matches_shift by simp
qed

definition listed :: "(nat \<Rightarrow> u8) \<Rightarrow> ParsedPattern \<Rightarrow> nat \<Rightarrow> nat \<Rightarrow> nat list" where
  "listed d p c e = filter (\<lambda>i. matches d p i \<and> (i = e \<longrightarrow> c < e \<and> \<not> matches d p (e - 1))) [c..<Suc e]"

lemma filter_upt_find: "find P [c..<n] = Some x \<Longrightarrow> filter P [c..<n] = x # filter P [Suc x..<n]"
proof -
  assume "find P [c..<n] = Some x"
  then have x: "c \<le> x" "x < n" "P x" "\<And>j. c \<le> j \<Longrightarrow> j < x \<Longrightarrow> \<not> P j" by (auto simp: find_upt_Some)
  then have "[c..<n] = [c..<x] @ x # [Suc x..<n]" by (metis less_imp_le_nat upt_conv_Cons le_Suc_ex upt_add_eq_append)
  moreover have "filter P [c..<x] = []" using x by (auto simp: filter_empty_conv)
  ultimately show ?thesis using x(3) by (metis append_Nil filter.simps(2) filter_append)
qed

lemma listed_step:
  assumes "c < e" "find (matches d p) [c..<Suc e] = Some x"
  shows "listed d p c e = x # (if x < e then listed d p (Suc x) e else [])"
proof -
  have x: "c \<le> x" "x \<le> e" "matches d p x" "\<And>j. c \<le> j \<Longrightarrow> j < x \<Longrightarrow> \<not> matches d p j"
    using assms(2) by (auto simp only: find_upt_Some)
  let ?Q = "\<lambda>i. matches d p i \<and> (i = e \<longrightarrow> c < e \<and> \<not> matches d p (e - 1))"
  have "find ?Q [c..<Suc e] = Some x"
    using x assms(1) by (simp only: find_upt_Some) auto
  from filter_upt_find [OF this] have l: "listed d p c e = x # filter ?Q [Suc x..<Suc e]" by (simp add: listed_def del: upt_Suc)
  have "filter ?Q [Suc x..<Suc e] = listed d p (Suc x) e"
    unfolding listed_def
  proof (rule filter_cong [OF refl])
    fix i assume "i \<in> set [Suc x..<Suc e]"
    then have "x < e" by (simp only: set_upt atLeastLessThan_iff) linarith
    have "x = e - 1" if "\<not> Suc x < e" using that \<open>x < e\<close> by simp
    then show "?Q i \<longleftrightarrow> matches d p i \<and> (i = e \<longrightarrow> Suc x < e \<and> \<not> matches d p (e - 1))"
      using x(3) assms(1) by auto
  qed
  then show ?thesis using l x(2) by (cases "x < e") (auto simp: listed_def simp del: upt_Suc)
qed

lemma scan_all_listed:
  assumes "pattern_ok p" "e = n - length (pp_bytes p)" "length (pp_bytes p) \<le> n" "n < 2 ^ 64" "\<And>i. i < n \<Longrightarrow> start + of_nat i \<noteq> 0"
  shows "c \<le> e \<Longrightarrow> scan_all m p (start + of_nat c) (n - c) = map (\<lambda>i. start + of_nat i) (listed (at m start) p c e)"
proof (induction "n - c" arbitrary: c rule: less_induct)
  case less
  let ?d = "at m start" and ?l = "length (pp_bytes p)"
  have l: "0 < ?l" using assms(1) by (simp add: pattern_ok_def)
  have fits: "?l \<le> n - c" "n - c - ?l + 1 = Suc e - c" "c + (Suc e - c) = Suc e" using less.prems assms(2,3) by auto
  note scan = simd_scan_first_match [OF assms(1) fits(1), of m "start + of_nat c", unfolded fits(2)]
  show ?case
  proof (cases "c < e")
    case False
    then have "c = e" using less.prems by simp
    then show ?thesis using assms(2,3) by (simp add: scan_all.simps listed_def)
  next
    case True
    then have go: "?l < n - c" using assms(2,3) by auto
    show ?thesis
    proof (cases "find (matches ?d p) [c..<Suc e]")
      case None
      then have "ScanRegionSSE2 m (start + of_nat c) (n - c) p = 0"
        using first_match_shift(2) [of m start c p "Suc e - c"] scan fits(3) by (simp add: address_of_def)
      moreover have "listed ?d p c e = []" using None unfolding listed_def filter_empty_conv find_upt_None by auto
      ultimately show ?thesis using go by (simp add: scan_all.simps Let_def)
    next
      case (Some x)
      then have x: "c \<le> x" "x \<le> e" unfolding find_upt_Some by auto
      have "first_match (at m (start + of_nat c)) p (Suc e - c) = Some (x - c)"
        using Some x first_match_shift(1) [of m start c p "Suc e - c" "x - c"] fits(3) by simp
      then have addr: "ScanRegionSSE2 m (start + of_nat c) (n - c) p = start + of_nat x"
        using scan x by (simp add: address_of_def flip: of_nat_add)
      have "x < n" using x(2) assms(2,3) l by linarith
      then have nz: "start + of_nat x \<noteq> 0" by (rule assms(5))
      have adv: "advance_by (start + of_nat c) (start + of_nat x) = x - c + 1"
      proof -
        have "start + of_nat x - (start + of_nat c) = (of_nat (x - c) :: u64)" using x(1) by (simp add: of_nat_diff)
        moreover have "x - c < 2 ^ 64" using \<open>x < n\<close> assms(4) by simp
        ultimately show ?thesis by (simp add: advance_by_def unat_of_nat)
      qed
      have next_pos: "start + of_nat c + of_nat (x - c + 1) = (start + of_nat (Suc x) :: u64)" "n - c - (x - c + 1) = n - Suc x"
        using x(1) by (simp_all add: of_nat_diff)
      have step: "scan_all m p (start + of_nat c) (n - c) = (start + of_nat x) # scan_all m p (start + of_nat (Suc x)) (n - Suc x)"
        using go addr nz unfolding scan_all.simps [of m p "start + of_nat c"] by (simp only: Let_def adv next_pos if_True if_False)
      show ?thesis
      proof (cases "x < e")
        case True
        have "n - Suc x < n - c" using x(1) \<open>x < n\<close> by simp
        from less.hyps [OF this] True show ?thesis unfolding step using listed_step [OF \<open>c < e\<close> Some] by simp
      next
        case False
        then have "n - Suc x < ?l" using x(2) assms(2,3) l by linarith
        then show ?thesis unfolding step using listed_step [OF \<open>c < e\<close> Some] False by (simp add: scan_all.simps)
      qed
    qed
  qed
qed

text \<open>
  The list of all matches holds, in order and each once, the address of every position where the pattern matches,
  with one exception: a match that ends with the region is missing when it is the only position or when the position
  before it matches too.
\<close>

theorem scan_all_exact:
  fixes m :: memory and start :: u64 and n :: nat
  assumes "pattern_ok p" "length (pp_bytes p) \<le> n" "n < 2 ^ 64" "\<forall>i < n. start + of_nat i \<noteq> 0"
  defines "d \<equiv> at m start" and "e \<equiv> n - length (pp_bytes p)"
  shows "ScanRegionAll m start n p =
    map (\<lambda>i. start + of_nat i) (filter (\<lambda>i. matches d p i \<and> (i = e \<longrightarrow> 0 < e \<and> \<not> matches d p (e - 1))) [0..<Suc e])"
proof -
  have "scan_all m p (start + of_nat 0) (n - 0) = map (\<lambda>i. start + of_nat i) (listed (at m start) p 0 e)"
    by (rule scan_all_listed) (use assms in auto)
  then show ?thesis using assms(1,2) by (simp add: ScanRegionAll_def pattern_ok_def listed_def d_def del: upt_Suc)
qed

section \<open>Reading a printed pattern\<close>

definition hex_digit :: "nat \<Rightarrow> byte" where
  "hex_digit n = (if n < 10 then of_nat (48 + n) else of_nat (55 + n))"

definition show_byte :: "u8 \<Rightarrow> bool \<Rightarrow> bytes" where
  "show_byte b k = (if k then [hex_digit (unat b div 16), hex_digit (unat b mod 16)] else lit ''?'')"

fun show_pattern :: "u8 list \<Rightarrow> bool list \<Rightarrow> bytes" where
  "show_pattern (b # bs) (k # ks) = show_byte b k @ 32 # show_pattern bs ks"
| "show_pattern _ _ = []"

lemma unat_u8: "unat (b :: u8) < 256"
proof -
  have "unat b < 2 ^ LENGTH(8)" by (rule unsigned_less)
  then show ?thesis by simp
qed

lemma hex_digit_cases:
  assumes "n < 16"
  shows "hex_value (hex_digit n) = Some n \<and> \<not> isspace (hex_digit n) \<and> hex_digit n \<noteq> 0 \<and> hex_digit n \<noteq> 45 \<and> hex_digit n \<noteq> 43 \<and>
    hex_digit n \<noteq> 63 \<and> hex_digit n \<noteq> 120 \<and> hex_digit n \<noteq> 88"
proof -
  have "list_all (\<lambda>n. hex_value (hex_digit n) = Some n \<and> \<not> isspace (hex_digit n) \<and> hex_digit n \<noteq> 0 \<and> hex_digit n \<noteq> 45 \<and> hex_digit n \<noteq> 43 \<and>
    hex_digit n \<noteq> 63 \<and> hex_digit n \<noteq> 120 \<and> hex_digit n \<noteq> 88) [0..<16]"
    by code_simp
  then show ?thesis using assms by (simp only: list_all_iff set_upt atLeastLessThan_iff Ball_def) simp
qed

lemma show_byte_no_space: "c \<in> set (show_byte b k) \<Longrightarrow> \<not> isspace c \<and> c \<noteq> 0"
proof -
  have "unat b div 16 < 16" "unat b mod 16 < 16" using unat_u8 [of b] by (simp_all add: div_less_iff_less_mult)
  then show "c \<in> set (show_byte b k) \<Longrightarrow> \<not> isspace c \<and> c \<noteq> 0"
    using hex_digit_cases by (auto simp: show_byte_def lit_def isspace_def split: if_splits)
qed

lemma show_byte_not_empty: "show_byte b k \<noteq> []"
  by (simp add: show_byte_def lit_def)

lemma words_token: "(\<forall>c \<in> set t. \<not> isspace c) \<Longrightarrow> acc @ t \<noteq> [] \<Longrightarrow> words acc (t @ 32 # s) = (acc @ t) # words [] s"
  by (induction t arbitrary: acc) (auto simp: isspace_def)

lemma words_show: "length ks = length bs \<Longrightarrow> words [] (show_pattern bs ks) = map2 show_byte bs ks"
proof (induction bs ks rule: show_pattern.induct)
  case (1 b bs k ks)
  have "words [] (show_byte b k @ 32 # show_pattern bs ks) = show_byte b k # words [] (show_pattern bs ks)"
    using words_token [of "show_byte b k" "[]"] show_byte_no_space [of _ b k] show_byte_not_empty [of b k] by simp
  then show ?case using 1 by simp
qed auto

lemma token_byte_show: "token_byte (show_byte b k) = (if k then b else 0) \<and> is_wild (show_byte b k) = (\<not> k)"
proof (cases k)
  case True
  have lt: "unat b div 16 < 16" "unat b mod 16 < 16" using unat_u8 [of b] by (simp_all add: div_less_iff_less_mult)
  note h = hex_digit_cases [OF lt(1)] hex_digit_cases [OF lt(2)]
  have num: "hex_number 0 [hex_digit (unat b div 16), hex_digit (unat b mod 16)] = unat b" using h by simp
  have "unat b < 2 ^ 32" using unat_u8 [of b] by simp
  then have "strtoul16 (show_byte b k) = of_nat (unat b)"
    using h num True by (simp add: strtoul16_def show_byte_def strip_0x_def)
  moreover have "\<not> is_wild (show_byte b k)" using h True by (auto simp: is_wild_def show_byte_def lit_def)
  moreover have "ucast (of_nat (unat b) :: u32) = b" by (rule bit_word_eqI) (auto simp: bit_simps)
  ultimately show ?thesis using True by (simp add: token_byte_def)
qed (simp add: token_byte_def show_byte_def is_wild_def)

lemma cstr_show: "cstr (show_pattern bs ks) = show_pattern bs ks"
proof -
  have "0 \<notin> set (show_pattern bs ks)"
    by (induction bs ks rule: show_pattern.induct) (auto dest: show_byte_no_space)
  then show ?thesis by (rule cstr_id)
qed

text \<open>
  Printing a pattern in the notation of the pattern tables, two digits for a fixed byte and a question mark for a
  free one, and parsing the text gives back the bytes and the mask.
\<close>

theorem parse_roundtrip:
  assumes "bs \<noteq> []" "length ks = length bs" "\<forall>j < length bs. \<not> ks ! j \<longrightarrow> bs ! j = 0"
  shows "Parse (show_pattern bs ks) = Some \<lparr>pp_bytes = bs, pp_mask = ks, pp_original = show_pattern bs ks, pp_offset = 0\<rparr>"
proof -
  have "map token_byte (map2 show_byte bs ks) = bs" "map (\<lambda>t. \<not> is_wild t) (map2 show_byte bs ks) = ks"
    using assms(2,3) by (auto intro!: nth_equalityI simp: token_byte_show)
  moreover have "map2 show_byte bs ks \<noteq> []" using assms(1,2) by (cases bs; cases ks) auto
  ultimately show ?thesis using words_show [OF assms(2)] by (simp add: Parse_def cstr_show Let_def del: map_map)
qed

theorem parse_roundtrip_witness:
  "Parse (lit ''4A ? '') = Some \<lparr>pp_bytes = [0x4A, 0], pp_mask = [True, False], pp_original = lit ''4A ? '', pp_offset = 0\<rparr>"
proof -
  have "show_pattern [0x4A, 0] [True, False] = lit ''4A ? ''" by (simp add: show_byte_def hex_digit_def lit_def)
  with parse_roundtrip [of "[0x4A, 0]" "[True, False]"] show ?thesis by (auto simp: less_Suc_eq_0_disj)
qed

lemma parse_ok: "Parse s = Some p \<Longrightarrow> pattern_ok p"
  by (auto simp: Parse_def pattern_ok_def Let_def split: if_splits)

definition example_bytes :: memory where
  "example_bytes = (\<lambda>a. if a = 0x1000 \<or> a = 0x1001 \<or> a = 0x1002 then 0x90 else 0)"

theorem simd_equals_linear_witness:
  "let p = \<lparr>pp_bytes = [0x90], pp_mask = [True], pp_original = [], pp_offset = 0\<rparr>
   in ScanRegionSSE2 example_bytes 0xF00 0x200 p = ScanRegionLinear example_bytes 0xF00 0x200 p"
proof -
  have "pattern_ok \<lparr>pp_bytes = [0x90], pp_mask = [True], pp_original = [], pp_offset = 0\<rparr>" by (simp add: pattern_ok_def)
  from simd_equals_linear [OF this] show ?thesis by (simp add: Let_def)
qed

text \<open>The witness is the exception itself: the second of two overlapping matches in three bytes is not listed.\<close>

theorem scan_all_exact_witness:
  "ScanRegionAll example_bytes 0x1000 3 \<lparr>pp_bytes = [0x90, 0x90], pp_mask = [True, True], pp_original = [], pp_offset = 0\<rparr> = [0x1000]"
proof -
  let ?p = "\<lparr>pp_bytes = [0x90, 0x90], pp_mask = [True, True], pp_original = [], pp_offset = 0\<rparr>"
  have "pattern_ok ?p" "length (pp_bytes ?p) \<le> 3" "(3 :: nat) < 2 ^ 64" by (simp_all add: pattern_ok_def)
  moreover have "\<forall>i < 3. (0x1000 :: u64) + of_nat i \<noteq> 0" by (auto simp: numeral_3_eq_3 less_Suc_eq)
  ultimately show ?thesis using scan_all_exact [where p = ?p and n = 3 and start = "0x1000" and m = example_bytes]
    by (simp add: matches_def at_def example_bytes_def less_Suc_eq numeral_3_eq_3 pattern_ok_def)
qed

section \<open>Reads and targets\<close>

text \<open>
  In a region with more than sixteen positions every block that is loaded lies inside it; in a smaller one the first
  block may reach up to fifteen bytes beyond its end.
\<close>

lemma simd_reads_inside:
  assumes "pattern_ok p" "first_fixed (pp_mask p) = Some ff" "length (pp_bytes p) + 16 < n"
    "i \<le> simd_end (n - length (pp_bytes p))" "k < 16"
  shows "i + ff + k < n"
proof -
  have "ff < length (pp_bytes p)" using assms(1,2) first_fixed_Some by (fastforce simp: pattern_ok_def)
  then show ?thesis using assms(3-5) by (auto simp: simd_end_def split: if_splits)
qed

text \<open>
  A call or jump instruction encoded for a target within 2 GB is followed to exactly this target.
\<close>

theorem followed_to_target:
  fixes rel :: i32
  assumes "map (at m (a + 1)) [0, 1, 2, 3] = bytes_u32 rel"
  shows "(m a = 0xE8 \<longrightarrow> FollowCall m a = a + 5 + scast rel) \<and> (m a = 0xE9 \<longrightarrow> FollowJmp m a = a + 5 + scast rel) \<and>
    (m a \<noteq> 0xE8 \<longrightarrow> FollowCall m a = 0) \<and> (m a \<noteq> 0xE9 \<longrightarrow> FollowJmp m a = 0)"
proof -
  have "scast (1 :: i32) = (1 :: u64)" "scast (5 :: i32) = (5 :: u64)" by (simp_all add: scast_eq)
  then show ?thesis using assms by (simp add: FollowCall_def FollowJmp_def ResolveRIP_def read_u32_def)
qed

end
