(* ===== verification/Scanner_Engine.thy ===== *)
theory Scanner_Engine
  imports Pattern_Scan Float32
begin

text \<open>
  \<^verbatim>\<open>scanner_engine.cpp\<close> and \<^verbatim>\<open>scanner.cpp\<close> above the scan itself: the PE section table, the regions that are searched,
  the result cache, section searches, composed patterns and the batch scan.  The handle of the module is an argument;
  \<open>ok\<close> says which addresses can be read, for the code that catches access violations.  The layout of the PE headers
  is the documented one.
\<close>

section \<open>Sections\<close>

record PESection =
  sec_name :: bytes
  sec_base :: u64
  sec_size :: nat
  sec_characteristics :: u32

definition IsExecutable :: "PESection \<Rightarrow> bool" where
  "IsExecutable sec \<longleftrightarrow> sec_characteristics sec AND 0x20000000 \<noteq> 0"

definition IsReadable :: "PESection \<Rightarrow> bool" where
  "IsReadable sec \<longleftrightarrow> sec_characteristics sec AND 0x40000000 \<noteq> 0"

definition IsWritable :: "PESection \<Rightarrow> bool" where
  "IsWritable sec \<longleftrightarrow> sec_characteristics sec AND 0x80000000 \<noteq> 0"

definition Contains :: "PESection \<Rightarrow> u64 \<Rightarrow> bool" where
  "Contains sec a \<longleftrightarrow> sec_base sec \<le> a \<and> a < sec_base sec + of_nat (sec_size sec)"

record ScanResult =
  res_address :: u64
  res_valid :: bool
  res_section :: bytes
  res_confidence :: f32

definition ScanResult_default :: ScanResult where
  "ScanResult_default = \<lparr>res_address = 0, res_valid = False, res_section = [], res_confidence = 0\<rparr>"

record ScannerEngine =
  eng_moduleBase :: u64
  eng_moduleSize :: nat
  eng_sections :: "PESection list"
  eng_restrictSections :: "bytes list"
  eng_cache :: "(bytes, ScanResult) umap"

definition nt_header :: "memory \<Rightarrow> u64 \<Rightarrow> u64" where
  "nt_header m base = base + scast (read_u32 m (base + 0x3C))"

definition section_header :: "memory \<Rightarrow> u64 \<Rightarrow> nat \<Rightarrow> u64" where
  "section_header m nt i = nt + 24 + ucast (read_u16 m (nt + 20)) + of_nat (40 * i)"

definition read_section :: "memory \<Rightarrow> u64 \<Rightarrow> u64 \<Rightarrow> PESection" where
  "read_section m base a = \<lparr>sec_name = map (at m a) [0..<8] @ [0], sec_base = base + ucast (read_u32 m (a + 12)),
     sec_size = unat (read_u32 m (a + 8)), sec_characteristics = read_u32 m (a + 36)\<rparr>"

definition EnumerateSections :: "memory \<Rightarrow> ScannerEngine \<Rightarrow> bool \<times> ScannerEngine" where
  "EnumerateSections m s =
     (let base = eng_moduleBase s; nt = nt_header m base;
          secs = map (\<lambda>i. read_section m base (section_header m nt i)) [0..<unat (read_u16 m (nt + 6))]
      in (secs \<noteq> [], s\<lparr>eng_sections := secs\<rparr>))"

definition Init :: "memory \<Rightarrow> u64 \<Rightarrow> ScannerEngine \<Rightarrow> bool \<times> ScannerEngine" where
  "Init m handle s =
     (if handle = 0 then (False, s)
      else let s1 = s\<lparr>eng_moduleBase := handle\<rparr>; nt = nt_header m handle in
        if read_u16 m handle \<noteq> 0x5A4D then (False, s1)
        else if read_u32 m nt \<noteq> 0x00004550 then (False, s1)
        else EnumerateSections m (s1\<lparr>eng_moduleSize := unat (read_u32 m (nt + 80))\<rparr>))"

definition FindSection :: "bytes \<Rightarrow> ScannerEngine \<Rightarrow> PESection option" where
  "FindSection name s = find (\<lambda>sec. cstr (sec_name sec) = cstr name) (eng_sections s)"

record scan_region =
  rg_start :: u64
  rg_size :: nat
  rg_section :: bytes

definition region_of :: "PESection \<Rightarrow> scan_region" where
  "region_of sec = \<lparr>rg_start = sec_base sec, rg_size = sec_size sec, rg_section = cstr (sec_name sec)\<rparr>"

definition GetScanRegions :: "ScannerEngine \<Rightarrow> scan_region list" where
  "GetScanRegions s =
     (if eng_restrictSections s \<noteq> [] then map region_of (List.map_filter (\<lambda>name. FindSection name s) (eng_restrictSections s))
      else case FindSection (lit ''.text'') s of
        Some t \<Rightarrow> [\<lparr>rg_start = sec_base t, rg_size = sec_size t, rg_section = lit ''.text''\<rparr>]
      | None \<Rightarrow> [\<lparr>rg_start = eng_moduleBase s, rg_size = eng_moduleSize s, rg_section = lit ''module''\<rparr>])"

definition SetScanSections :: "bytes list \<Rightarrow> ScannerEngine \<Rightarrow> ScannerEngine" where
  "SetScanSections names s = s\<lparr>eng_restrictSections := names\<rparr>"

definition SetScanAll :: "ScannerEngine \<Rightarrow> ScannerEngine" where
  "SetScanAll s = s\<lparr>eng_restrictSections := []\<rparr>"

section \<open>Single patterns\<close>

definition hit :: "u64 \<Rightarrow> ParsedPattern \<Rightarrow> bytes \<Rightarrow> ScanResult" where
  "hit a p sec = \<lparr>res_address = a + scast (pp_offset p), res_valid = True, res_section = sec, res_confidence = f32_of_int 1\<rparr>"

fun find_in_regions :: "memory \<Rightarrow> ParsedPattern \<Rightarrow> scan_region list \<Rightarrow> ScanResult" where
  "find_in_regions m p [] = ScanResult_default"
| "find_in_regions m p (r # rs) =
     (let a = ScanRegionSSE2 m (rg_start r) (rg_size r) p in if a \<noteq> 0 then hit a p (rg_section r) else find_in_regions m p rs)"

definition Find_parsed :: "memory \<Rightarrow> ParsedPattern \<Rightarrow> ScannerEngine \<Rightarrow> ScanResult" where
  "Find_parsed m p s = find_in_regions m p (GetScanRegions s)"

definition cache_key :: "bytes \<Rightarrow> i32 \<Rightarrow> bytes" where
  "cache_key pattern offset = cstr pattern @ lit ''@'' @ dec_int (sint offset)"

definition Find_text :: "memory \<Rightarrow> bytes \<Rightarrow> i32 \<Rightarrow> ScannerEngine \<Rightarrow> ScanResult \<times> ScannerEngine" where
  "Find_text m pattern offset s = (case um_find (eng_cache s) (cache_key pattern offset) of
     Some r \<Rightarrow> (r, s)
   | None \<Rightarrow> (case Parse pattern of
       None \<Rightarrow> (ScanResult_default, s)
     | Some p \<Rightarrow> (let r = Find_parsed m (p\<lparr>pp_offset := offset\<rparr>) s in (r, s\<lparr>eng_cache := um_set (cache_key pattern offset) r (eng_cache s)\<rparr>))))"

definition FindAll_parsed :: "memory \<Rightarrow> ParsedPattern \<Rightarrow> ScannerEngine \<Rightarrow> u64 list" where
  "FindAll_parsed m p s = concat (map (\<lambda>r. ScanRegionAll m (rg_start r) (rg_size r) p) (GetScanRegions s))"

definition FindAll_text :: "memory \<Rightarrow> bytes \<Rightarrow> ScannerEngine \<Rightarrow> u64 list" where
  "FindAll_text m pattern s = (case Parse pattern of None \<Rightarrow> [] | Some p \<Rightarrow> FindAll_parsed m p s)"

definition FindInSection_parsed :: "memory \<Rightarrow> bytes \<Rightarrow> ParsedPattern \<Rightarrow> ScannerEngine \<Rightarrow> ScanResult" where
  "FindInSection_parsed m name p s = (case FindSection name s of
     None \<Rightarrow> ScanResult_default
   | Some sec \<Rightarrow> (let a = ScanRegionSSE2 m (sec_base sec) (sec_size sec) p in
       if a = 0 then ScanResult_default else hit a p (cstr (sec_name sec))))"

definition FindInSection :: "memory \<Rightarrow> bytes \<Rightarrow> bytes \<Rightarrow> ScannerEngine \<Rightarrow> ScanResult" where
  "FindInSection m name pattern s = (case Parse pattern of None \<Rightarrow> ScanResult_default | Some p \<Rightarrow> FindInSection_parsed m name p s)"

definition FindAllInSection :: "memory \<Rightarrow> bytes \<Rightarrow> bytes \<Rightarrow> ScannerEngine \<Rightarrow> u64 list" where
  "FindAllInSection m name pattern s = (case Parse pattern of None \<Rightarrow> []
     | Some p \<Rightarrow> (case FindSection name s of None \<Rightarrow> [] | Some sec \<Rightarrow> ScanRegionAll m (sec_base sec) (sec_size sec) p))"

definition ClearCache :: "ScannerEngine \<Rightarrow> ScannerEngine" where
  "ClearCache s = s\<lparr>eng_cache := []\<rparr>"

definition CacheSize :: "ScannerEngine \<Rightarrow> nat" where
  "CacheSize s = length (eng_cache s)"

section \<open>Composed patterns\<close>

record PatternComponent =
  pc_pattern :: ParsedPattern
  pc_relativeOffset :: i32
  pc_required :: bool

datatype PostProcess = PostNone | PostFollowCall | PostFollowJmp | PostResolveRIP | PostFindPrologue

record ComplexPattern =
  cx_components :: "PatternComponent list"
  cx_resultOffset :: i32
  cx_postProcess :: PostProcess
  cx_ripOperandOffset :: i32
  cx_ripInstructionLen :: i32

text \<open>A read of an address that cannot be read ends the loop with no match.\<close>

fun guarded_match :: "(u64 \<Rightarrow> bool) \<Rightarrow> memory \<Rightarrow> u64 \<Rightarrow> u8 list \<Rightarrow> bool list \<Rightarrow> bool" where
  "guarded_match ok m a (b # bs) (k # ks) \<longleftrightarrow>
     (if k then (if \<not> ok a then False else if m a \<noteq> b then False else guarded_match ok m (a + 1) bs ks)
      else guarded_match ok m (a + 1) bs ks)"
| "guarded_match ok m a _ _ \<longleftrightarrow> True"

definition component_matches :: "(u64 \<Rightarrow> bool) \<Rightarrow> memory \<Rightarrow> u64 \<Rightarrow> PatternComponent \<Rightarrow> bool" where
  "component_matches ok m anchor c =
     guarded_match ok m (anchor + scast (pc_relativeOffset c)) (pp_bytes (pc_pattern c)) (pp_mask (pc_pattern c))"

text \<open>
  \<open>skip_padding\<close> returns no result when it never leaves the padding bytes, and \<open>Some None\<close> on an access violation.
\<close>

partial_function (option) skip_padding :: "(u64 \<Rightarrow> bool) \<Rightarrow> memory \<Rightarrow> u64 \<Rightarrow> u64 option option" where
  "skip_padding ok m a = (if \<not> ok a then Some None else if m a = 0xCC then skip_padding ok m (a + 1) else Some (Some a))"

fun prologue_loop :: "(u64 \<Rightarrow> bool) \<Rightarrow> memory \<Rightarrow> u64 \<Rightarrow> u64 \<Rightarrow> nat \<Rightarrow> u64 option option" where
  "prologue_loop ok m result a 0 = Some (Some result)"
| "prologue_loop ok m result a (Suc n) =
     (if \<not> result - 4096 < a then Some (Some result)
      else if \<not> ok a then Some None
      else if m a = 0xCC \<or> m a = 0xC3 then skip_padding ok m (a + 1)
      else prologue_loop ok m result (a - 1) n)"

definition post_process :: "(u64 \<Rightarrow> bool) \<Rightarrow> memory \<Rightarrow> ComplexPattern \<Rightarrow> u64 \<Rightarrow> u64 option option" where
  "post_process ok m c a = (case cx_postProcess c of
     PostNone \<Rightarrow> Some (Some a)
   | PostFollowCall \<Rightarrow> Some (if FollowCall m a = 0 then None else Some (FollowCall m a))
   | PostFollowJmp \<Rightarrow> Some (if FollowJmp m a = 0 then None else Some (FollowJmp m a))
   | PostResolveRIP \<Rightarrow> Some (Some (ResolveRIP m a (cx_ripOperandOffset c) (cx_ripInstructionLen c)))
   | PostFindPrologue \<Rightarrow> prologue_loop ok m a (a - 1) 4096)"

definition FindComplex :: "(u64 \<Rightarrow> bool) \<Rightarrow> memory \<Rightarrow> ComplexPattern \<Rightarrow> ScannerEngine \<Rightarrow> ScanResult option" where
  "FindComplex ok m c s = (case cx_components c of
     [] \<Rightarrow> Some ScanResult_default
   | anchor # rest \<Rightarrow> (let r = Find_parsed m (pc_pattern anchor) s in
       if \<not> res_valid r then Some ScanResult_default
       else if \<exists>x \<in> set rest. pc_required x \<and> \<not> component_matches ok m (res_address r) x then Some ScanResult_default
       else map_option (\<lambda>out. case out of
           None \<Rightarrow> ScanResult_default
         | Some a \<Rightarrow> \<lparr>res_address = a, res_valid = True, res_section = res_section r, res_confidence = f32_lit 9 10\<rparr>)
         (post_process ok m c (res_address r + scast (cx_resultOffset c)))))"

section \<open>The batch scan\<close>

record BatchEntry =
  be_id :: bytes
  be_pattern :: ParsedPattern
  be_result :: ScanResult

type_synonym byte_index = "(u8, (nat \<times> nat) list) umap"

definition index_entry :: "nat \<times> BatchEntry \<Rightarrow> byte_index \<Rightarrow> byte_index" where
  "index_entry = (\<lambda>(i, e) ix. if res_valid (be_result e) then ix
     else case first_fixed (pp_mask (be_pattern e)) of
       None \<Rightarrow> ix
     | Some ff \<Rightarrow> (let b = pp_bytes (be_pattern e) ! ff in
         um_set b ((case um_find ix b of None \<Rightarrow> [] | Some cs \<Rightarrow> cs) @ [(i, ff)]) ix))"

text \<open>\<open>patStart\<close> is computed in \<^verbatim>\<open>size_t\<close>: it wraps around when the fixed byte stands before the offset.\<close>

definition try_entry :: "memory \<Rightarrow> scan_region \<Rightarrow> nat \<Rightarrow> nat \<Rightarrow> BatchEntry \<Rightarrow> BatchEntry" where
  "try_entry m r pos ff e =
     (if res_valid (be_result e) then e
      else let p = be_pattern e; patStart = (of_nat pos - of_nat ff :: u64) in
        if of_nat (rg_size r) < patStart + of_nat (length (pp_bytes p)) then e
        else if match_from (at m (rg_start r + patStart)) 0 (pp_bytes p) (pp_mask p)
        then e\<lparr>be_result := hit (rg_start r + patStart) p (rg_section r)\<rparr>
        else e)"

definition try_candidate :: "memory \<Rightarrow> scan_region \<Rightarrow> nat \<Rightarrow> nat \<times> nat \<Rightarrow> BatchEntry list \<Rightarrow> BatchEntry list" where
  "try_candidate m r pos = (\<lambda>(i, ff) es. es[i := try_entry m r pos ff (es ! i)])"

definition batch_position :: "memory \<Rightarrow> byte_index \<Rightarrow> scan_region \<Rightarrow> nat \<Rightarrow> BatchEntry list \<Rightarrow> BatchEntry list" where
  "batch_position m ix r pos es = (case um_find ix (at m (rg_start r) pos) of
     None \<Rightarrow> es | Some cs \<Rightarrow> fold (try_candidate m r pos) cs es)"

definition unresolvedCount :: "BatchEntry list \<Rightarrow> nat" where
  "unresolvedCount es = length (filter (\<lambda>e. \<not> res_valid (be_result e)) es)"

fun batch_regions :: "memory \<Rightarrow> byte_index \<Rightarrow> scan_region list \<Rightarrow> BatchEntry list \<Rightarrow> BatchEntry list" where
  "batch_regions m ix [] es = es"
| "batch_regions m ix (r # rs) es =
     (if unresolvedCount es = 0 then es else batch_regions m ix rs (fold (batch_position m ix r) [0..<rg_size r] es))"

definition BatchScan :: "memory \<Rightarrow> ScannerEngine \<Rightarrow> BatchEntry list \<Rightarrow> BatchEntry list" where
  "BatchScan m s es = (if es = [] then es else batch_regions m (fold index_entry (List.enumerate 0 es) []) (GetScanRegions s) es)"

section \<open>The cache is transparent\<close>

lemma dec_int_chars: "c \<in> set (dec_int k) \<Longrightarrow> c \<noteq> 64"
  using dec_nat_digits [of c] by (fastforce simp: dec_int_def split: if_splits)

lemma dec_int_inj: "dec_int k = dec_int l \<Longrightarrow> k = l"
proof -
  have minus: "dec_nat n \<noteq> 45 # xs" for n xs using dec_nat_digits [of 45 n] by force
  then have minus': "45 # xs \<noteq> dec_nat n" for n xs by metis
  show "dec_int k = dec_int l \<Longrightarrow> k = l"
    by (auto simp: dec_int_def minus minus' dest!: dec_nat_inj split: if_splits)
qed

lemma split_at_last:
  assumes "xs @ a # ds = ys @ a # es" "a \<notin> set ds" "a \<notin> set es"
  shows "xs = ys \<and> ds = es"
proof -
  have "takeWhile (\<lambda>x. x \<noteq> a) (rev (xs @ a # ds)) = rev ds" if "a \<notin> set ds" for xs ds
  proof -
    have "rev (xs @ a # ds) = rev ds @ a # rev xs" by simp
    moreover have "takeWhile (\<lambda>x. x \<noteq> a) (rev ds @ a # rev xs) = rev ds @ takeWhile (\<lambda>x. x \<noteq> a) (a # rev xs)"
      using that by (intro takeWhile_append2) auto
    ultimately show ?thesis by simp
  qed
  from this [of ds xs] this [of es ys] assms have "rev ds = rev es" by metis
  with assms(1) show ?thesis by simp
qed

lemma cache_key_inj: "cache_key a i = cache_key b j \<Longrightarrow> cstr a = cstr b \<and> i = j"
proof -
  assume "cache_key a i = cache_key b j"
  then have "cstr a @ 64 # dec_int (sint i) = cstr b @ 64 # dec_int (sint j)" by (simp add: cache_key_def lit_def)
  from split_at_last [OF this] dec_int_chars have "cstr a = cstr b" "dec_int (sint i) = dec_int (sint j)" by blast+
  then have "sint i = sint j" by (intro dec_int_inj)
  then show ?thesis using \<open>cstr a = cstr b\<close> by (simp add: signed_word_eqI)
qed

definition fresh_result :: "memory \<Rightarrow> bytes \<Rightarrow> i32 \<Rightarrow> ScannerEngine \<Rightarrow> ScanResult" where
  "fresh_result m pattern offset s = (case Parse pattern of None \<Rightarrow> ScanResult_default | Some p \<Rightarrow> Find_parsed m (p\<lparr>pp_offset := offset\<rparr>) s)"

lemma fresh_result_cstr: "cstr a = cstr b \<Longrightarrow> fresh_result m a i s = fresh_result m b i s"
  by (simp add: fresh_result_def Parse_def Let_def)

lemma fresh_result_cache: "fresh_result m a i (s\<lparr>eng_cache := c\<rparr>) = fresh_result m a i s"
  by (simp add: fresh_result_def Find_parsed_def GetScanRegions_def FindSection_def cong: option.case_cong)

datatype scan_op = ScanFind bytes i32 | ScanClear

fun scan_apply :: "memory \<Rightarrow> scan_op \<Rightarrow> ScannerEngine \<Rightarrow> ScannerEngine" where
  "scan_apply m (ScanFind pattern offset) = snd \<circ> Find_text m pattern offset"
| "scan_apply m ScanClear = ClearCache"

definition cache_ok :: "memory \<Rightarrow> ScannerEngine \<Rightarrow> ScannerEngine \<Rightarrow> bool" where
  "cache_ok m s0 s \<longleftrightarrow> (\<exists>c. s = s0\<lparr>eng_cache := c\<rparr>) \<and>
     (\<forall>pattern offset r. um_find (eng_cache s) (cache_key pattern offset) = Some r \<longrightarrow> r = fresh_result m pattern offset s0)"

lemma Find_text_result: "cache_ok m s0 s \<Longrightarrow> fst (Find_text m pattern offset s) = fresh_result m pattern offset s0"
  by (auto simp: cache_ok_def Find_text_def fresh_result_cache fresh_result_def [symmetric] Let_def split: option.splits)
    (auto simp: fresh_result_def Find_parsed_def GetScanRegions_def FindSection_def split: option.splits)

interpretation result_cache: run_invariant "scan_apply m" "\<lambda>x s. True" "cache_ok m s0" for m s0
proof
  fix s x
  assume s: "cache_ok m s0 s"
  show "cache_ok m s0 (scan_apply m x s)"
  proof (cases x)
    case (ScanFind pattern offset)
    have s': "\<exists>c. snd (Find_text m pattern offset s) = s0\<lparr>eng_cache := c\<rparr>"
      using s by (auto simp: cache_ok_def Find_text_def Let_def split: option.splits)
    have "r = fresh_result m a i s0" if "um_find (eng_cache (snd (Find_text m pattern offset s))) (cache_key a i) = Some r" for a i r
    proof (cases "um_find (eng_cache s) (cache_key a i)")
      case (Some r')
      moreover have "r = r'" using that Some
        by (auto simp: Find_text_def um_find_set Let_def split: option.splits if_splits)
      ultimately show ?thesis using s by (auto simp: cache_ok_def)
    next
      case None
      then have "cache_key a i = cache_key pattern offset" "r = fst (Find_text m pattern offset s)"
        using that by (auto simp: Find_text_def um_find_set Let_def split: option.splits if_splits)
      then show ?thesis using Find_text_result [OF s] cache_key_inj fresh_result_cstr by metis
    qed
    with s' show ?thesis by (simp add: cache_ok_def ScanFind)
  next
    case ScanClear
    then show ?thesis using s by (auto simp: cache_ok_def ClearCache_def)
  qed
qed

text \<open>
  As long as the searched sections stay the same, the cache is invisible: after any searches and clearings a
  search returns what it returns without a cache, although the cache key joins pattern and offset into one text.
\<close>

theorem cache_transparent:
  assumes "eng_cache s = []"
  shows "fst (Find_text m pattern offset (fold (scan_apply m) ops s)) = fresh_result m pattern offset s"
proof -
  have "cache_ok m s s" using assms by (auto simp: cache_ok_def intro: exI [of _ "[]"])
  moreover have "run_ok (\<lambda>x s. True) (scan_apply m) ops s" by (induction ops arbitrary: s) simp_all
  ultimately show ?thesis using Find_text_result result_cache.run by blast
qed

definition example_engine :: ScannerEngine where
  "example_engine = \<lparr>eng_moduleBase = 0x1000, eng_moduleSize = 3, eng_sections = [], eng_restrictSections = [], eng_cache = []\<rparr>"

theorem cache_transparent_witness:
  "fst (Find_text example_bytes (lit ''90'') 1 (fold (scan_apply example_bytes) [ScanFind (lit ''90'') 0, ScanFind (lit ''90'') 1] example_engine)) =
     fresh_result example_bytes (lit ''90'') 1 example_engine"
  by (rule cache_transparent) (simp add: example_engine_def)

text \<open>Changing the sections does not clear the cache: an old result is returned whatever sections are selected now.\<close>

lemma stale_cache:
  "um_find (eng_cache s) (cache_key pattern offset) = Some r \<Longrightarrow> fst (Find_text m pattern offset (SetScanSections names s)) = r"
  by (simp add: Find_text_def SetScanSections_def)

section \<open>The batch scan agrees with single scans\<close>

definition cands :: "byte_index \<Rightarrow> u8 \<Rightarrow> (nat \<times> nat) list" where
  "cands ix b = (case um_find ix b of None \<Rightarrow> [] | Some cs \<Rightarrow> cs)"

definition indexed :: "BatchEntry list \<Rightarrow> byte_index \<Rightarrow> bool" where
  "indexed es ix \<longleftrightarrow> (\<forall>b. distinct (map fst (cands ix b)) \<and>
     (\<forall>i ff. (i, ff) \<in> set (cands ix b) \<longleftrightarrow> i < length es \<and> \<not> res_valid (be_result (es ! i)) \<and>
        first_fixed (pp_mask (be_pattern (es ! i))) = Some ff \<and> pp_bytes (be_pattern (es ! i)) ! ff = b))"

lemma index_entry_cands:
  "cands (index_entry (i, e) ix) b = cands ix b @
     (case first_fixed (pp_mask (be_pattern e)) of
        Some ff \<Rightarrow> if \<not> res_valid (be_result e) \<and> pp_bytes (be_pattern e) ! ff = b then [(i, ff)] else []
      | None \<Rightarrow> [])"
  by (auto simp: index_entry_def cands_def um_find_set Let_def split: option.splits)

lemma build_index_indexed: "indexed es (fold index_entry (List.enumerate 0 es) [])"
proof (induction es rule: rev_induct)
  case Nil
  then show ?case by (simp add: indexed_def cands_def)
next
  case (snoc e es)
  let ?ix = "fold index_entry (List.enumerate 0 es) []"
  have step: "fold index_entry (List.enumerate 0 (es @ [e])) [] = index_entry (length es, e) ?ix"
    by (simp add: enumerate_append_eq)
  show ?case unfolding step
    using snoc.IH by (fastforce simp: indexed_def index_entry_cands nth_append less_Suc_eq split: option.splits)
qed

lemma fold_candidates:
  assumes "distinct (map fst cs)" "\<forall>(i, ff) \<in> set cs. i < length es"
  shows "length (fold (try_candidate m r pos) cs es) = length es \<and>
    (\<forall>k < length es. fold (try_candidate m r pos) cs es ! k =
       (case map_of cs k of Some ff \<Rightarrow> try_entry m r pos ff (es ! k) | None \<Rightarrow> es ! k))"
  using assms
proof (induction cs arbitrary: es)
  case (Cons c cs)
  obtain i ff where c: "c = (i, ff)" by (cases c)
  let ?es = "es[i := try_entry m r pos ff (es ! i)]"
  have len: "\<forall>(j, ff) \<in> set cs. j < length ?es" using Cons.prems(2) by auto
  have "map_of cs i = None" using Cons.prems(1) c by (auto simp: map_of_eq_None_iff)
  then show ?case using Cons.IH [OF _ len] Cons.prems c by (auto simp: try_candidate_def nth_list_update split: option.splits)
qed simp

text \<open>What one position does to one entry whose first byte is fixed.\<close>

definition entry_step :: "memory \<Rightarrow> scan_region \<Rightarrow> u8 \<Rightarrow> nat \<Rightarrow> BatchEntry \<Rightarrow> BatchEntry" where
  "entry_step m r b pos e = (if at m (rg_start r) pos = b then try_entry m r pos 0 e else e)"

lemma batch_position_step:
  assumes "indexed es0 ix" "length es = length es0" "k < length es0" "\<not> res_valid (be_result (es0 ! k))"
    "first_fixed (pp_mask (be_pattern (es0 ! k))) = Some 0"
  shows "length (batch_position m ix r pos es) = length es \<and>
    batch_position m ix r pos es ! k = entry_step m r (pp_bytes (be_pattern (es0 ! k)) ! 0) pos (es ! k)"
proof -
  let ?b = "at m (rg_start r) pos"
  have step: "batch_position m ix r pos es = fold (try_candidate m r pos) (cands ix ?b) es"
    by (simp add: batch_position_def cands_def split: option.split)
  have d: "distinct (map fst (cands ix ?b))" "\<forall>(i, ff) \<in> set (cands ix ?b). i < length es"
    using assms(1,2) by (auto simp: indexed_def)
  have "map_of (cands ix ?b) k = (if ?b = pp_bytes (be_pattern (es0 ! k)) ! 0 then Some 0 else None)"
  proof (cases "map_of (cands ix ?b) k")
    case None
    then have "(k, 0) \<notin> set (cands ix ?b)" by (auto simp: map_of_eq_None_iff intro: rev_image_eqI)
    then show ?thesis using None assms by (auto simp: indexed_def)
  next
    case (Some ff)
    then have "(k, ff) \<in> set (cands ix ?b)" by (rule map_of_SomeD)
    then show ?thesis using Some assms by (auto simp: indexed_def)
  qed
  then show ?thesis unfolding step using fold_candidates [OF d, of m r pos] assms(2,3) by (auto simp: entry_step_def)
qed

lemma fold_positions_step:
  assumes "indexed es0 ix" "k < length es0" "\<not> res_valid (be_result (es0 ! k))" "first_fixed (pp_mask (be_pattern (es0 ! k))) = Some 0"
  shows "length es = length es0 \<Longrightarrow> length (fold (batch_position m ix r) ps es) = length es0 \<and>
    fold (batch_position m ix r) ps es ! k = fold (entry_step m r (pp_bytes (be_pattern (es0 ! k)) ! 0)) ps (es ! k)"
proof (induction ps arbitrary: es)
  case (Cons pos ps)
  note step = batch_position_step [OF assms(1) Cons.prems assms(2-4), of m r pos]
  with Cons.IH [of "batch_position m ix r pos es"] Cons.prems show ?case by simp
qed simp

definition small_region :: "scan_region \<Rightarrow> bool" where
  "small_region r \<longleftrightarrow> rg_size r < 2 ^ 63 \<and> (\<forall>i < rg_size r. rg_start r + of_nat i \<noteq> 0)"

lemma try_entry_small:
  assumes "pattern_ok (be_pattern e)" "length (pp_bytes (be_pattern e)) < 2 ^ 63" "rg_size r < 2 ^ 63" "pos < rg_size r"
  shows "try_entry m r pos 0 e = (if res_valid (be_result e) then e
    else if pos + length (pp_bytes (be_pattern e)) \<le> rg_size r \<and> matches (at m (rg_start r)) (be_pattern e) pos
    then e\<lparr>be_result := hit (rg_start r + of_nat pos) (be_pattern e) (rg_section r)\<rparr> else e)"
proof -
  let ?l = "length (pp_bytes (be_pattern e))"
  have "of_nat (rg_size r) < (of_nat pos + of_nat ?l :: u64) \<longleftrightarrow> rg_size r < pos + ?l"
    using assms(2-4) by (simp add: word_less_nat_alt unat_of_nat flip: of_nat_add)
  moreover have "match_from (at m (rg_start r + of_nat pos)) 0 (pp_bytes (be_pattern e)) (pp_mask (be_pattern e)) =
      matches (at m (rg_start r)) (be_pattern e) pos"
    using match_from_matches [OF assms(1)] matches_shift [of m "rg_start r" pos "be_pattern e" 0] by simp
  ultimately show ?thesis by (auto simp: try_entry_def Let_def)
qed

lemma fold_entry_steps:
  assumes "pattern_ok p" "length (pp_bytes p) < 2 ^ 63" "rg_size r < 2 ^ 63" "first_fixed (pp_mask p) = Some 0"
    "be_pattern e = p" "\<not> res_valid (be_result e)"
  shows "n \<le> rg_size r \<Longrightarrow> fold (entry_step m r (pp_bytes p ! 0)) [0..<n] e =
    (case find (\<lambda>i. matches (at m (rg_start r)) p i \<and> i + length (pp_bytes p) \<le> rg_size r) [0..<n] of
       None \<Rightarrow> e | Some i \<Rightarrow> e\<lparr>be_result := hit (rg_start r + of_nat i) p (rg_section r)\<rparr>)"
proof (induction n)
  case (Suc n)
  let ?Q = "\<lambda>i. matches (at m (rg_start r)) p i \<and> i + length (pp_bytes p) \<le> rg_size r"
  have first: "at m (rg_start r) n = pp_bytes p ! 0" if "matches (at m (rg_start r)) p n"
    using first_fixed_matches [OF assms(1,4) that] by simp
  have split: "find ?Q [0..<Suc n] = (case find ?Q [0..<n] of None \<Rightarrow> (if ?Q n then Some n else None) | Some i \<Rightarrow> Some i)"
  proof -
    have one: "find ?Q [n..<Suc n] = (if ?Q n then Some n else None)" by simp
    show ?thesis using find_upt_split [of 0 n "Suc n" ?Q] unfolding one by (simp del: upt_Suc)
  qed
  show ?case
  proof (cases "find ?Q [0..<n]")
    case None
    then show ?thesis unfolding split using Suc first try_entry_small [of e r n m] assms
      by (auto simp: entry_step_def)
  next
    case (Some i)
    have "res_valid (be_result (e\<lparr>be_result := hit a p x\<rparr>))" for a x by (simp add: hit_def)
    then show ?thesis unfolding split using Suc Some by (simp add: entry_step_def try_entry_def)
  qed
qed simp

lemma find_fitting:
  assumes "0 < l"
  shows "find (\<lambda>i. P i \<and> i + l \<le> n) [0..<n] = (if n < l then None else find P [0..<n - l + 1])"
proof (cases "n < l")
  case False
  show ?thesis
  proof (cases "find P [0..<n - l + 1]")
    case None
    then have "find (\<lambda>i. P i \<and> i + l \<le> n) [0..<n] = None" using False unfolding find_upt_None by auto
    then show ?thesis unfolding None using False by simp
  next
    case (Some i)
    then have "find (\<lambda>i. P i \<and> i + l \<le> n) [0..<n] = Some i" using False assms unfolding find_upt_Some by auto
    then show ?thesis using False Some by simp
  qed
qed (auto simp: find_upt_None)

lemma region_entry_steps:
  assumes "pattern_ok p" "length (pp_bytes p) < 2 ^ 63" "small_region r" "first_fixed (pp_mask p) = Some 0"
    "be_pattern e = p" "\<not> res_valid (be_result e)"
  shows "fold (entry_step m r (pp_bytes p ! 0)) [0..<rg_size r] e =
    (let a = ScanRegionSSE2 m (rg_start r) (rg_size r) p in if a \<noteq> 0 then e\<lparr>be_result := hit a p (rg_section r)\<rparr> else e)"
proof -
  let ?l = "length (pp_bytes p)"
  have l: "0 < ?l" using assms(1) by (simp add: pattern_ok_def)
  have "rg_size r < 2 ^ 63" using assms(3) by (simp add: small_region_def)
  note f = fold_entry_steps [OF assms(1,2) this assms(4-6) order_refl, of m, unfolded find_fitting [OF l]]
  show ?thesis
  proof (cases "rg_size r < ?l")
    case True
    then show ?thesis unfolding f by (simp add: ScanRegionSSE2_def)
  next
    case False
    have scan: "ScanRegionSSE2 m (rg_start r) (rg_size r) p =
        address_of (rg_start r) (find (matches (at m (rg_start r)) p) [0..<rg_size r - ?l + 1])"
      using simd_scan_first_match [OF assms(1), of "rg_size r"] False by (simp add: first_match_def del: upt_Suc)
    show ?thesis
    proof (cases "find (matches (at m (rg_start r)) p) [0..<rg_size r - ?l + 1]")
      case None
      then show ?thesis unfolding f scan using False by (simp add: address_of_def del: upt_Suc)
    next
      case (Some i)
      then have "i < rg_size r - ?l + 1" unfolding find_upt_Some by blast
      then have "i < rg_size r" using False l by linarith
      then have "rg_start r + of_nat i \<noteq> 0" using assms(3) by (simp add: small_region_def)
      then show ?thesis unfolding f scan Some using False by (simp add: address_of_def)
    qed
  qed
qed

lemma entry_steps_valid: "res_valid (be_result e) \<Longrightarrow> fold (entry_step m r b) ps e = e"
  by (induction ps) (simp_all add: entry_step_def try_entry_def)

lemma all_resolved: "unresolvedCount es = 0 \<Longrightarrow> k < length es \<Longrightarrow> res_valid (be_result (es ! k))"
  by (auto simp: unresolvedCount_def filter_empty_conv)

lemma batch_regions_entry:
  assumes "indexed es0 ix" "k < length es0" "\<not> res_valid (be_result (es0 ! k))" "be_pattern (es0 ! k) = p"
    "pattern_ok p" "length (pp_bytes p) < 2 ^ 63" "first_fixed (pp_mask p) = Some 0"
  shows "\<forall>r \<in> set rs. small_region r \<Longrightarrow> length es = length es0 \<Longrightarrow> be_pattern (es ! k) = p \<Longrightarrow>
    be_result (batch_regions m ix rs es ! k) =
      (if res_valid (be_result (es ! k)) then be_result (es ! k)
       else let x = find_in_regions m p rs in if res_valid x then x else be_result (es ! k))"
proof (induction rs arbitrary: es)
  case Nil
  then show ?case by (simp add: ScanResult_default_def)
next
  case (Cons r rs)
  let ?es = "fold (batch_position m ix r) [0..<rg_size r] es"
  have ff: "first_fixed (pp_mask (be_pattern (es0 ! k))) = Some 0" using assms(4,7) by simp
  note step = fold_positions_step [OF assms(1-3) ff Cons.prems(2), of m r "[0..<rg_size r]", unfolded assms(4)]
  show ?case
  proof (cases "res_valid (be_result (es ! k))")
    case True
    have "?es ! k = es ! k" using step entry_steps_valid [OF True] by simp
    then show ?thesis using True Cons.IH [of ?es] Cons.prems step by simp
  next
    case False
    then have go: "unresolvedCount es \<noteq> 0" using all_resolved Cons.prems(2) assms(2) by metis
    have r: "small_region r" using Cons.prems(1) by simp
    have now: "?es ! k = (let a = ScanRegionSSE2 m (rg_start r) (rg_size r) p in
        if a \<noteq> 0 then (es ! k)\<lparr>be_result := hit a p (rg_section r)\<rparr> else es ! k)"
      using step region_entry_steps [OF assms(5,6) r assms(7) Cons.prems(3) False] by simp
    have len: "length ?es = length es0" using step by blast
    have "be_pattern (?es ! k) = p" using now Cons.prems(3) by (simp add: Let_def split: if_splits)
    then show ?thesis using Cons.IH [OF _ len] Cons.prems(1) now go False by (simp add: Let_def hit_def)
  qed
qed

text \<open>
  C38.  The batch scan, one pass over the memory for all patterns, gives every pattern whose first byte is fixed exactly
  the result of searching for it alone, whatever the other patterns are.
\<close>

theorem batch_agrees_with_single:
  assumes "k < length es" "be_result (es ! k) = ScanResult_default" "pattern_ok (be_pattern (es ! k))"
    "hd (pp_mask (be_pattern (es ! k)))" "length (pp_bytes (be_pattern (es ! k))) < 2 ^ 63"
    "\<forall>r \<in> set (GetScanRegions s). small_region r"
  shows "be_result (BatchScan m s es ! k) = Find_parsed m (be_pattern (es ! k)) s"
proof -
  have "first_fixed (pp_mask (be_pattern (es ! k))) = Some 0"
    using assms(3,4) by (cases "pp_mask (be_pattern (es ! k))") (auto simp: pattern_ok_def)
  note scan = batch_regions_entry [OF build_index_indexed assms(1) _ refl assms(3,5) this assms(6) refl refl, of m]
  have "x = ScanResult_default" if "\<not> res_valid x" "x = find_in_regions m p rs" for x p rs
    using that by (induction rs) (auto simp: hit_def Let_def split: if_splits)
  then show ?thesis using scan assms(1,2) by (auto simp: BatchScan_def Find_parsed_def ScanResult_default_def Let_def)
qed

definition example_batch :: "BatchEntry list" where
  "example_batch = [\<lparr>be_id = lit ''a'', be_pattern = \<lparr>pp_bytes = [0x90], pp_mask = [True], pp_original = [], pp_offset = 0\<rparr>, be_result = ScanResult_default\<rparr>]"

theorem batch_agrees_with_single_witness:
  "be_result (BatchScan example_bytes example_engine example_batch ! 0) =
     Find_parsed example_bytes \<lparr>pp_bytes = [0x90], pp_mask = [True], pp_original = [], pp_offset = 0\<rparr> example_engine"
proof -
  have "\<forall>r \<in> set (GetScanRegions example_engine). small_region r"
    by (auto simp: GetScanRegions_def FindSection_def example_engine_def small_region_def numeral_3_eq_3 less_Suc_eq)
  from batch_agrees_with_single [of 0 example_batch example_engine example_bytes, OF _ _ _ _ _ this]
  show ?thesis by (simp add: example_batch_def pattern_ok_def)
qed

text \<open>
  A pattern whose first byte is free can match before the region: the wrapped start passes the bounds check, and the
  byte before the region is never looked at.
\<close>

lemma batch_matches_before_region:
  "res_address (be_result (try_entry example_bytes \<lparr>rg_start = 0x1000, rg_size = 3, rg_section = []\<rparr> 0 1
     \<lparr>be_id = [], be_pattern = \<lparr>pp_bytes = [0, 0x90], pp_mask = [False, True], pp_original = [], pp_offset = 0\<rparr>,
      be_result = ScanResult_default\<rparr>)) = 0xFFF"
  by (simp add: try_entry_def ScanResult_default_def hit_def at_def example_bytes_def Let_def)

end
