(* ===== verification/Pattern_Scanner.thy ===== *)
theory Pattern_Scanner
  imports Scanner_Engine
begin

text \<open>
  \<^verbatim>\<open>scanner.cpp\<close>, the older scanner: one module, one region, the linear scan.  It is proved to find what the engine of
  \<^verbatim>\<open>scanner_engine.cpp\<close> finds in the same region.
\<close>

section \<open>State and operations\<close>

record PatternScanner =
  psc_moduleBase :: u64
  psc_moduleSize :: nat
  psc_textBase :: u64
  psc_textSize :: nat
  psc_textOnly :: bool

record PatternResult =
  ptr_address :: u64
  ptr_valid :: bool

text \<open>\<^verbatim>\<open>memcmp(section->Name, ".text", 5)\<close> compares the first five characters only.\<close>

definition is_text_name :: "bytes \<Rightarrow> bool" where
  "is_text_name name \<longleftrightarrow> take 5 name = lit ''.text''"

definition FindTextSection :: "memory \<Rightarrow> PatternScanner \<Rightarrow> bool \<times> PatternScanner" where
  "FindTextSection m s =
     (let base = psc_moduleBase s; nt = nt_header m base;
          secs = map (\<lambda>i. read_section m base (section_header m nt i)) [0..<unat (read_u16 m (nt + 6))]
      in case find (\<lambda>sec. is_text_name (sec_name sec)) secs of
           Some sec \<Rightarrow> (True, s\<lparr>psc_textBase := sec_base sec, psc_textSize := sec_size sec\<rparr>)
         | None \<Rightarrow> (False, s\<lparr>psc_textBase := psc_moduleBase s, psc_textSize := psc_moduleSize s\<rparr>))"

definition PatternScanner_Init :: "memory \<Rightarrow> u64 \<Rightarrow> PatternScanner \<Rightarrow> bool \<times> PatternScanner" where
  "PatternScanner_Init m handle s =
     (if handle = 0 then (False, s)
      else let s1 = s\<lparr>psc_moduleBase := handle\<rparr>; nt = nt_header m handle in
        if read_u16 m handle \<noteq> 0x5A4D then (False, s1)
        else if read_u32 m nt \<noteq> 0x00004550 then (False, s1)
        else (True, snd (FindTextSection m (s1\<lparr>psc_moduleSize := unat (read_u32 m (nt + 80))\<rparr>))))"

definition PatternScanner_Parse :: "bytes \<Rightarrow> (u8 list \<times> bool list) option" where
  "PatternScanner_Parse s = (let ts = words [] (cstr s) in if ts = [] then None
     else Some (map token_byte ts, map (\<lambda>t. \<not> is_wild t) ts))"

fun region_loop :: "(nat \<Rightarrow> u8) \<Rightarrow> u8 list \<times> bool list \<Rightarrow> nat \<Rightarrow> nat \<Rightarrow> nat option" where
  "region_loop d p i 0 = None"
| "region_loop d p i (Suc n) =
     (if hd (snd p) \<and> d i \<noteq> hd (fst p) then region_loop d p (Suc i) n
      else if match_from d (Suc i) (tl (fst p)) (tl (snd p)) then Some i
      else region_loop d p (Suc i) n)"

definition PatternScanner_ScanRegion :: "memory \<Rightarrow> u64 \<Rightarrow> nat \<Rightarrow> u8 list \<times> bool list \<Rightarrow> u64" where
  "PatternScanner_ScanRegion m start n p =
     (if fst p = [] \<or> n < length (fst p) then 0 else address_of start (region_loop (at m start) p 0 (n - length (fst p) + 1)))"

definition scan_start :: "PatternScanner \<Rightarrow> u64" where
  "scan_start s = (if psc_textOnly s then psc_textBase s else psc_moduleBase s)"

definition scan_size :: "PatternScanner \<Rightarrow> nat" where
  "scan_size s = (if psc_textOnly s then psc_textSize s else psc_moduleSize s)"

definition PatternScanner_Find :: "memory \<Rightarrow> bytes \<Rightarrow> i32 \<Rightarrow> PatternScanner \<Rightarrow> PatternResult" where
  "PatternScanner_Find m pattern offset s = (case PatternScanner_Parse pattern of
     None \<Rightarrow> \<lparr>ptr_address = 0, ptr_valid = False\<rparr>
   | Some p \<Rightarrow> (let a = PatternScanner_ScanRegion m (scan_start s) (scan_size s) p in
       if a = 0 then \<lparr>ptr_address = 0, ptr_valid = False\<rparr> else \<lparr>ptr_address = a + scast offset, ptr_valid = True\<rparr>))"

function find_all_loop :: "memory \<Rightarrow> u8 list \<times> bool list \<Rightarrow> u64 \<Rightarrow> nat \<Rightarrow> u64 list" where
  "find_all_loop m p current remaining =
     (if length (fst p) < remaining
      then let addr = PatternScanner_ScanRegion m current remaining p in
        if addr = 0 then []
        else addr # find_all_loop m p (current + of_nat (advance_by current addr)) (remaining - advance_by current addr)
      else [])"
  by pat_completeness auto
termination by (relation "measure (\<lambda>(m, p, current, remaining). remaining)") (auto simp: advance_by_def)

declare find_all_loop.simps [simp del]

definition PatternScanner_FindAll :: "memory \<Rightarrow> bytes \<Rightarrow> PatternScanner \<Rightarrow> u64 list" where
  "PatternScanner_FindAll m pattern s = (case PatternScanner_Parse pattern of None \<Rightarrow> []
     | Some p \<Rightarrow> find_all_loop m p (scan_start s) (scan_size s))"

definition SetTextOnly :: "bool \<Rightarrow> PatternScanner \<Rightarrow> PatternScanner" where
  "SetTextOnly b s = s\<lparr>psc_textOnly := b\<rparr>"

section \<open>It finds what the engine finds\<close>

definition same_pattern :: "ParsedPattern \<Rightarrow> u8 list \<times> bool list" where
  "same_pattern p = (pp_bytes p, pp_mask p)"

lemma region_loop_linear: "region_loop d (same_pattern p) i n = linear_loop d p i n"
  by (induction d p i n rule: linear_loop.induct) (simp_all add: same_pattern_def)

lemma scan_region_same: "pattern_ok p \<Longrightarrow> PatternScanner_ScanRegion m start n (same_pattern p) = ScanRegionSSE2 m start n p"
proof -
  assume "pattern_ok p"
  moreover have "PatternScanner_ScanRegion m start n (same_pattern p) = ScanRegionLinear m start n p"
    unfolding PatternScanner_ScanRegion_def ScanRegionLinear_def region_loop_linear by (simp only: same_pattern_def fst_conv)
  ultimately show ?thesis using simd_equals_linear [of p m start n] by metis
qed

lemma find_all_same: "pattern_ok p \<Longrightarrow> find_all_loop m (same_pattern p) current n = scan_all m p current n"
proof (induction m p current n rule: scan_all.induct)
  case (1 m p current n)
  then show ?case using scan_region_same [OF 1(2), of m current n]
    by (subst find_all_loop.simps, subst scan_all.simps) (simp add: Let_def same_pattern_def)
qed

lemma parse_same: "PatternScanner_Parse s = map_option same_pattern (Parse s)"
  by (simp add: PatternScanner_Parse_def Parse_def same_pattern_def Let_def)

text \<open>
  Where both search one region, the older scanner and the engine agree: the same parsed patterns, the same match
  with the same offset, and the same list of all matches, gaps included.
\<close>

theorem scanners_agree:
  assumes "GetScanRegions e = [r]" "rg_start r = scan_start s" "rg_size r = scan_size s"
  shows "ptr_valid (PatternScanner_Find m pattern offset s) = res_valid (fresh_result m pattern offset e) \<and>
    ptr_address (PatternScanner_Find m pattern offset s) = res_address (fresh_result m pattern offset e) \<and>
    PatternScanner_FindAll m pattern s = FindAll_text m pattern e"
proof (cases "Parse pattern")
  case None
  then show ?thesis
    by (simp add: PatternScanner_Find_def PatternScanner_FindAll_def FindAll_text_def fresh_result_def parse_same ScanResult_default_def)
next
  case (Some p)
  then have ok: "pattern_ok p" by (rule parse_ok)
  then have ok': "pattern_ok (p\<lparr>pp_offset := offset\<rparr>)" by (simp add: pattern_ok_def)
  have same: "ScanRegionSSE2 m a n (p\<lparr>pp_offset := offset\<rparr>) = PatternScanner_ScanRegion m a n (same_pattern p)" for a n
    using scan_region_same [OF ok', of m a n] by (simp add: same_pattern_def)
  have "ScanRegionAll m a n p = find_all_loop m (same_pattern p) a n" for a n
    using ok by (simp add: find_all_same ScanRegionAll_def pattern_ok_def) (simp add: scan_all.simps)
  then show ?thesis using assms Some same
    by (simp add: PatternScanner_Find_def PatternScanner_FindAll_def FindAll_text_def FindAll_parsed_def fresh_result_def parse_same
      Find_parsed_def hit_def ScanResult_default_def Let_def)
qed

theorem scanners_agree_witness:
  "PatternScanner_FindAll example_bytes (lit ''90'') \<lparr>psc_moduleBase = 0x1000, psc_moduleSize = 3, psc_textBase = 0, psc_textSize = 0, psc_textOnly = False\<rparr> =
     FindAll_text example_bytes (lit ''90'') example_engine"
proof -
  have "GetScanRegions example_engine = [\<lparr>rg_start = 0x1000, rg_size = 3, rg_section = lit ''module''\<rparr>]"
    by (simp add: GetScanRegions_def FindSection_def example_engine_def)
  from scanners_agree [OF this] show ?thesis by (simp add: scan_start_def scan_size_def)
qed

end
