(* ===== verification/PData_Enumerator.thy ===== *)
theory PData_Enumerator
  imports Scanner_Engine
begin

text \<open>
  \<^verbatim>\<open>pdata_enumerator.cpp\<close>: the table of all functions of the executable, read from the exception directory, the
  binary searches over it, and the parser of unwind information.  \<open>ok\<close> says which addresses can be read; a read
  of another one ends the guarded code with an access violation.
\<close>

section \<open>The function table\<close>

record FunctionEntry =
  fe_startRVA :: u64
  fe_endRVA :: u64
  fe_startVA :: u64
  fe_endVA :: u64
  fe_unwindRVA :: u32
  fe_size :: nat
  fe_label :: bytes
  fe_category :: bytes
  fe_confidence :: f32
  fe_prologueSize :: u8
  fe_frameRegister :: u8
  fe_frameOffset :: u8
  fe_unwindCodeCount :: u16

record PDataEnumerator =
  pd_moduleBase :: u64
  pd_moduleSize :: nat
  pd_functions :: "FunctionEntry list"

definition PDataEnumerator_Init :: "u64 \<Rightarrow> nat \<Rightarrow> PDataEnumerator \<Rightarrow> bool \<times> PDataEnumerator" where
  "PDataEnumerator_Init base n s = (base \<noteq> 0 \<and> 0 < n, s\<lparr>pd_moduleBase := base, pd_moduleSize := n\<rparr>)"

definition readable :: "(u64 \<Rightarrow> bool) \<Rightarrow> u64 \<Rightarrow> nat \<Rightarrow> bool" where
  "readable ok a n = list_all (\<lambda>k. ok (a + of_nat k)) [0..<n]"

text \<open>One record of the directory; \<open>None\<close> is an access violation, \<open>Some None\<close> an empty record.\<close>

definition read_entry :: "(u64 \<Rightarrow> bool) \<Rightarrow> memory \<Rightarrow> u64 \<Rightarrow> nat \<Rightarrow> u64 \<Rightarrow> FunctionEntry option option" where
  "read_entry ok m base modSize a =
     (if \<not> readable ok a 4 then None
      else let begin = read_u32 m a in
      if begin = 0 then Some None
      else if \<not> readable ok (a + 4) 8 then None
      else let fin = read_u32 m (a + 4); unwind = read_u32 m (a + 8);
               ptr = base + ucast (unwind AND NOT 1);
               inside = (ptr \<noteq> 0 \<and> ptr < base + of_nat modSize)
      in if inside \<and> \<not> readable ok (ptr + 1) 3 then None
         else Some (Some \<lparr>fe_startRVA = ucast begin, fe_endRVA = ucast fin, fe_startVA = base + ucast begin, fe_endVA = base + ucast fin,
           fe_unwindRVA = unwind, fe_size = unat (fin - begin), fe_label = [], fe_category = [], fe_confidence = 0,
           fe_prologueSize = (if inside then m (ptr + 1) else 0),
           fe_frameRegister = (if inside then m (ptr + 3) AND 0x0F else 0),
           fe_frameOffset = (if inside then drop_bit 4 (m (ptr + 3)) AND 0x0F else 0),
           fe_unwindCodeCount = (if inside then ucast (m (ptr + 2)) else 0)\<rparr>))"

fun SehEnumeratePData :: "(u64 \<Rightarrow> bool) \<Rightarrow> memory \<Rightarrow> u64 \<Rightarrow> nat \<Rightarrow> u64 \<Rightarrow> nat \<Rightarrow> bool \<times> FunctionEntry list" where
  "SehEnumeratePData ok m base modSize a 0 = (True, [])"
| "SehEnumeratePData ok m base modSize a (Suc n) = (case read_entry ok m base modSize a of
     None \<Rightarrow> (False, [])
   | Some None \<Rightarrow> SehEnumeratePData ok m base modSize (a + 12) n
   | Some (Some e) \<Rightarrow> apsnd (Cons e) (SehEnumeratePData ok m base modSize (a + 12) n))"

text \<open>\<^verbatim>\<open>std::sort\<close> may order entries of the same start in any way; the model keeps their order.\<close>

definition BuildIndex :: "PDataEnumerator \<Rightarrow> PDataEnumerator" where
  "BuildIndex s = s\<lparr>pd_functions := sort_key fe_startVA (pd_functions s)\<rparr>"

definition Enumerate :: "(u64 \<Rightarrow> bool) \<Rightarrow> memory \<Rightarrow> bool \<Rightarrow> PDataEnumerator \<Rightarrow> bool \<times> PDataEnumerator" where
  "Enumerate ok m allocated s =
     (let base = pd_moduleBase s; nt = nt_header m base; dir = read_u32 m (nt + 160); len = read_u32 m (nt + 164) in
      if base = 0 then (False, s)
      else if read_u16 m base \<noteq> 0x5A4D then (False, s)
      else if read_u32 m nt \<noteq> 0x00004550 then (False, s)
      else if dir = 0 \<or> len = 0 then (False, s)
      else if \<not> allocated then (False, s)
      else case SehEnumeratePData ok m base (pd_moduleSize s) (base + ucast dir) (unat len div 12) of
        (good, es) \<Rightarrow> if \<not> good then (False, s\<lparr>pd_functions := es\<rparr>) else (True, BuildIndex (s\<lparr>pd_functions := es\<rparr>)))"

section \<open>Searches\<close>

text \<open>The loop of \<^verbatim>\<open>std::lower_bound\<close> and \<^verbatim>\<open>std::upper_bound\<close>; \<open>P\<close> holds for the elements before the result.\<close>

function bound_loop :: "(FunctionEntry \<Rightarrow> bool) \<Rightarrow> FunctionEntry list \<Rightarrow> nat \<Rightarrow> nat \<Rightarrow> nat" where
  "bound_loop P fs first n =
     (if n = 0 then first
      else let half = n div 2 in
        if P (fs ! (first + half)) then bound_loop P fs (first + half + 1) (n - (half + 1))
        else bound_loop P fs first half)"
  by pat_completeness auto
termination by (relation "measure (\<lambda>(P, fs, first, n). n)") auto

declare bound_loop.simps [simp del]

definition lower_bound :: "FunctionEntry list \<Rightarrow> u64 \<Rightarrow> nat" where
  "lower_bound fs a = bound_loop (\<lambda>f. fe_startVA f < a) fs 0 (length fs)"

definition upper_bound :: "FunctionEntry list \<Rightarrow> u64 \<Rightarrow> nat" where
  "upper_bound fs a = bound_loop (\<lambda>f. \<not> a < fe_startVA f) fs 0 (length fs)"

definition FindFunction :: "u64 \<Rightarrow> PDataEnumerator \<Rightarrow> FunctionEntry option" where
  "FindFunction a s = (let fs = pd_functions s; i = lower_bound fs a in
     if i < length fs \<and> fe_startVA (fs ! i) = a then Some (fs ! i) else None)"

definition FindContaining :: "u64 \<Rightarrow> PDataEnumerator \<Rightarrow> FunctionEntry option" where
  "FindContaining a s = (let fs = pd_functions s; i = upper_bound fs a in
     if fs = [] then None
     else if i \<noteq> 0 then (let f = fs ! (i - 1) in if fe_startVA f \<le> a \<and> a < fe_endVA f then Some f else None)
     else None)"

definition GetFunctionsBySize :: "nat \<Rightarrow> nat \<Rightarrow> PDataEnumerator \<Rightarrow> FunctionEntry list" where
  "GetFunctionsBySize lo hi s = filter (\<lambda>f. lo \<le> fe_size f \<and> fe_size f \<le> hi) (pd_functions s)"

definition GetFunctionsInRange :: "u64 \<Rightarrow> u64 \<Rightarrow> PDataEnumerator \<Rightarrow> FunctionEntry list" where
  "GetFunctionsInRange start fin s = takeWhile (\<lambda>f. fe_startVA f < fin) (drop (lower_bound (pd_functions s) start) (pd_functions s))"

record pdata_stats =
  st_totalFunctions :: nat
  st_labeledFunctions :: nat
  st_minSize :: nat
  st_maxSize :: nat
  st_avgSize :: nat
  st_totalCodeBytes :: nat

definition GetStats :: "PDataEnumerator \<Rightarrow> pdata_stats" where
  "GetStats s =
     (let fs = pd_functions s in
      if fs = [] then \<lparr>st_totalFunctions = 0, st_labeledFunctions = 0, st_minSize = 0, st_maxSize = 0, st_avgSize = 0, st_totalCodeBytes = 0\<rparr>
      else let total = fold (\<lambda>f n. n + fe_size f) fs 0 in
        \<lparr>st_totalFunctions = length fs, st_labeledFunctions = length (filter (\<lambda>f. fe_label f \<noteq> []) fs),
         st_minSize = fold (\<lambda>f n. if fe_size f < n then fe_size f else n) fs (2 ^ 64 - 1),
         st_maxSize = fold (\<lambda>f n. if n < fe_size f then fe_size f else n) fs 0,
         st_avgSize = total div length fs, st_totalCodeBytes = total\<rparr>)"

section \<open>Unwind information\<close>

record UnwindCode =
  uc_codeOffset :: u8
  uc_opCode :: u8
  uc_opInfo :: u8
  uc_extraData :: u16

record UnwindInfo =
  ui_version :: u8
  ui_flags :: u8
  ui_prologueSize :: u8
  ui_frameRegister :: u8
  ui_frameOffset :: u8
  ui_codes :: "UnwindCode list"
  ui_handlerRVA :: u64
  ui_chainedRVA :: u64

definition UnwindInfo_default :: UnwindInfo where
  "UnwindInfo_default = \<lparr>ui_version = 0, ui_flags = 0, ui_prologueSize = 0, ui_frameRegister = 0, ui_frameOffset = 0, ui_codes = [],
     ui_handlerRVA = 0, ui_chainedRVA = 0\<rparr>"

text \<open>
  One code and the number of slots it takes: \<open>slot k\<close> is the word of slot \<open>k\<close> and \<open>can k\<close> says whether it can be
  read.  The word after the next one is shifted by sixteen and lost in the cast.
\<close>

definition code_slots :: "u8 \<Rightarrow> u8 \<Rightarrow> nat" where
  "code_slots op info = (if op = 1 then (if info = 0 then 2 else 3) else if op = 5 \<or> op = 9 then 3 else if op = 4 \<or> op = 8 then 2 else 1)"

definition read_code :: "(nat \<Rightarrow> u16) \<Rightarrow> nat \<Rightarrow> UnwindCode" where
  "read_code slot i =
     (let w = slot i; op = ucast (drop_bit 8 w AND 0x0F); info = ucast (drop_bit 12 w AND 0x0F); n = code_slots op info in
      \<lparr>uc_codeOffset = ucast (w AND 0xFF), uc_opCode = op, uc_opInfo = info,
       uc_extraData = (if n = 1 then 0 else if n = 2 then slot (i + 1)
         else ucast ((ucast (slot (i + 1)) :: u32) OR push_bit 16 (ucast (slot (i + 2)))))\<rparr>)"

definition code_size :: "UnwindCode \<Rightarrow> nat" where
  "code_size c = code_slots (uc_opCode c) (uc_opInfo c)"

text \<open>
  The loop counter is a \<^verbatim>\<open>uint8_t\<close>.  No result: the loop does not end; \<open>Some None\<close>: access violation; at most 256
  codes are kept.
\<close>

partial_function (option) unwind_loop ::
  "(nat \<Rightarrow> bool) \<Rightarrow> (nat \<Rightarrow> u16) \<Rightarrow> u8 \<Rightarrow> u8 \<Rightarrow> UnwindCode list \<Rightarrow> UnwindCode list option option" where
  "unwind_loop can slot count i acc =
     (if i < count
      then let c = read_code slot (unat i) in
        if \<not> list_all can [unat i..<unat i + code_size c] then Some None
        else unwind_loop can slot count (i + of_nat (code_size c)) (if length acc < 256 then acc @ [c] else acc)
      else Some (Some acc))"

definition SehParseUnwindInfo :: "(u64 \<Rightarrow> bool) \<Rightarrow> memory \<Rightarrow> u64 \<Rightarrow> u32 \<Rightarrow> UnwindInfo option option" where
  "SehParseUnwindInfo ok m base unwindRVA =
     (let d = base + ucast (unwindRVA AND NOT 1) in
      if \<not> readable ok d 4 then Some None
      else let flags = drop_bit 3 (m d) AND 0x1F; count = m (d + 2) in
      (case unwind_loop (\<lambda>k. readable ok (d + 4 + 2 * of_nat k) 2) (\<lambda>k. read_u16 m (d + 4 + 2 * of_nat k)) count 0 [] of
         None \<Rightarrow> None
       | Some None \<Rightarrow> Some None
       | Some (Some codes) \<Rightarrow>
           (let tail = d + of_nat (4 + 2 * unat count + (if odd (unat count) then 2 else 0));
                handler = (flags AND 0x01 \<noteq> 0); chain = (flags AND 0x04 \<noteq> 0)
            in if (handler \<or> chain) \<and> \<not> readable ok tail 4 then Some None
               else Some (Some \<lparr>ui_version = m d AND 0x07, ui_flags = flags, ui_prologueSize = m (d + 1),
                 ui_frameRegister = m (d + 3) AND 0x0F, ui_frameOffset = drop_bit 4 (m (d + 3)) AND 0x0F, ui_codes = codes,
                 ui_handlerRVA = (if handler then ucast (read_u32 m tail) else 0),
                 ui_chainedRVA = (if chain then ucast (read_u32 m tail) else 0)\<rparr>))))"

definition ParseUnwindInfo :: "(u64 \<Rightarrow> bool) \<Rightarrow> memory \<Rightarrow> FunctionEntry \<Rightarrow> PDataEnumerator \<Rightarrow> UnwindInfo option" where
  "ParseUnwindInfo ok m f s =
     (if fe_unwindRVA f = 0 then Some UnwindInfo_default
      else map_option (\<lambda>r. case r of None \<Rightarrow> UnwindInfo_default | Some u \<Rightarrow> u)
        (SehParseUnwindInfo ok m (pd_moduleBase s) (fe_unwindRVA f)))"

section \<open>The binary searches find what a linear search finds\<close>

definition splits_at :: "(FunctionEntry \<Rightarrow> bool) \<Rightarrow> FunctionEntry list \<Rightarrow> nat \<Rightarrow> bool" where
  "splits_at P fs r \<longleftrightarrow> r \<le> length fs \<and> (\<forall>i < r. P (fs ! i)) \<and> (\<forall>i. r \<le> i \<longrightarrow> i < length fs \<longrightarrow> \<not> P (fs ! i))"

lemma bound_loop_splits:
  assumes "\<And>i j. i < j \<Longrightarrow> j < length fs \<Longrightarrow> P (fs ! j) \<Longrightarrow> P (fs ! i)"
    "first + n \<le> length fs" "\<forall>i < first. P (fs ! i)" "\<forall>i. first + n \<le> i \<longrightarrow> i < length fs \<longrightarrow> \<not> P (fs ! i)"
  shows "splits_at P fs (bound_loop P fs first n)"
  using assms(2-4)
proof (induction n arbitrary: first rule: less_induct)
  case (less n)
  let ?mid = "first + n div 2"
  show ?case
  proof (cases "n = 0")
    case True
    then show ?thesis using less.prems by (simp add: bound_loop.simps splits_at_def)
  next
    case False
    then have mid: "?mid < first + n" "n div 2 < n" by simp_all
    show ?thesis
    proof (cases "P (fs ! ?mid)")
      case True
      have "P (fs ! i)" if "i < ?mid + 1" for i
        using that True assms(1) [of i ?mid] mid less.prems(1) by (cases "i = ?mid") auto
      then have "splits_at P fs (bound_loop P fs (?mid + 1) (n - (n div 2 + 1)))"
        using False mid less.prems by (intro less.IH) auto
      then show ?thesis using False True by (subst bound_loop.simps) (simp add: Let_def)
    next
      case False
      have "\<not> P (fs ! i)" if "?mid \<le> i" "i < length fs" for i
        using that False assms(1) [of ?mid i] by (cases "i = ?mid") auto
      then have "splits_at P fs (bound_loop P fs first (n div 2))"
        using mid less.prems by (intro less.IH) auto
      then show ?thesis using \<open>n \<noteq> 0\<close> False by (subst bound_loop.simps) (simp add: Let_def)
    qed
  qed
qed

definition in_order :: "FunctionEntry list \<Rightarrow> bool" where
  "in_order fs \<longleftrightarrow> sorted (map fe_startVA fs)"

lemma in_orderD: "in_order fs \<Longrightarrow> i < j \<Longrightarrow> j < length fs \<Longrightarrow> fe_startVA (fs ! i) \<le> fe_startVA (fs ! j)"
  using sorted_nth_mono [of "map fe_startVA fs" i j] by (simp add: in_order_def)

lemma lower_bound_splits: "in_order fs \<Longrightarrow> splits_at (\<lambda>f. fe_startVA f < a) fs (lower_bound fs a)"
  unfolding lower_bound_def by (rule bound_loop_splits) (auto dest: in_orderD)

lemma upper_bound_splits: "in_order fs \<Longrightarrow> splits_at (\<lambda>f. fe_startVA f \<le> a) fs (upper_bound fs a)"
  unfolding upper_bound_def not_less by (rule bound_loop_splits) (auto dest: in_orderD)

lemma filter_less_takeWhile:
  "sorted (map g xs) \<Longrightarrow> filter (\<lambda>x. g x < b) xs = takeWhile (\<lambda>x. g x < (b :: 'a :: linorder)) xs"
  by (induction xs) (auto simp: filter_empty_conv takeWhile_eq_Nil_iff, metis hd_in_set le_less_trans)

lemma Enumerate_in_order: "fst (Enumerate ok m al s) \<Longrightarrow> in_order (pd_functions (snd (Enumerate ok m al s)))"
  by (auto simp: Enumerate_def BuildIndex_def in_order_def Let_def split: prod.splits if_splits)

text \<open>
  In a table sorted by start address, which a successful enumeration leaves, the exact lookup finds a function
  exactly when one starts at the address, and the range query returns, in order, exactly the functions that start in it.
\<close>

theorem lookup_exact:
  assumes "in_order (pd_functions s)"
  shows "(FindFunction a s = None \<longleftrightarrow> (\<forall>f \<in> set (pd_functions s). fe_startVA f \<noteq> a)) \<and>
    (\<forall>f. FindFunction a s = Some f \<longrightarrow> f \<in> set (pd_functions s) \<and> fe_startVA f = a) \<and>
    GetFunctionsInRange a b s = filter (\<lambda>f. a \<le> fe_startVA f \<and> fe_startVA f < b) (pd_functions s)"
proof -
  let ?fs = "pd_functions s" and ?i = "lower_bound (pd_functions s) a"
  note sp = lower_bound_splits [OF assms, of a, unfolded splits_at_def]
  have "?i < length ?fs \<and> fe_startVA (?fs ! ?i) = a" if f: "f \<in> set ?fs" and eq: "fe_startVA f = a" for f
  proof -
    obtain j where j: "j < length ?fs" "?fs ! j = f" using f unfolding in_set_conv_nth by blast
    then have "?i \<le> j" using sp eq by (metis less_irrefl not_le)
    moreover from this have "fe_startVA (?fs ! ?i) \<le> a" using in_orderD [OF assms, of ?i j] j eq by (cases "?i = j") auto
    ultimately show ?thesis using sp j(1) by (metis le_less_trans less_le not_less order_refl)
  qed
  then have "FindFunction a s = None \<longleftrightarrow> (\<forall>f \<in> set ?fs. fe_startVA f \<noteq> a)"
    by (auto simp: FindFunction_def Let_def)
  moreover have "\<forall>f. FindFunction a s = Some f \<longrightarrow> f \<in> set ?fs \<and> fe_startVA f = a"
    by (auto simp: FindFunction_def Let_def split: if_splits)
  moreover have "GetFunctionsInRange a b s = filter (\<lambda>f. a \<le> fe_startVA f \<and> fe_startVA f < b) ?fs"
  proof -
    have "filter (\<lambda>f. a \<le> fe_startVA f \<and> fe_startVA f < b) (take ?i ?fs) = []"
      using sp by (fastforce simp: filter_empty_conv in_set_conv_nth)
    moreover have "filter (\<lambda>f. a \<le> fe_startVA f \<and> fe_startVA f < b) (drop ?i ?fs) = filter (\<lambda>f. fe_startVA f < b) (drop ?i ?fs)"
    proof (rule filter_cong [OF refl])
      fix f assume "f \<in> set (drop ?i ?fs)"
      then obtain k where "k < length (drop ?i ?fs)" "f = drop ?i ?fs ! k" by (auto simp: in_set_conv_nth)
      then have "\<not> fe_startVA f < a" using sp by simp
      then show "(a \<le> fe_startVA f \<and> fe_startVA f < b) = (fe_startVA f < b)" by (simp add: not_less)
    qed
    moreover have "sorted (map fe_startVA (drop ?i ?fs))" using assms by (simp add: in_order_def drop_map [symmetric] sorted_wrt_drop)
    then have "filter (\<lambda>f. fe_startVA f < b) (drop ?i ?fs) = takeWhile (\<lambda>f. fe_startVA f < b) (drop ?i ?fs)"
      by (rule filter_less_takeWhile)
    moreover have "filter Q ?fs = filter Q (take ?i ?fs) @ filter Q (drop ?i ?fs)" for Q by (simp flip: filter_append)
    ultimately show ?thesis unfolding GetFunctionsInRange_def by (simp only: append_Nil)
  qed
  ultimately show ?thesis by blast
qed

definition disjoint_functions :: "FunctionEntry list \<Rightarrow> bool" where
  "disjoint_functions fs \<longleftrightarrow> sorted_wrt (\<lambda>f g. fe_startVA f \<le> fe_startVA g \<and> fe_endVA f \<le> fe_startVA g) fs"

text \<open>
  When the functions do not overlap, the search for the function around an address, one step back from the upper
  bound, is the search through the whole table.
\<close>

theorem containing_is_linear_search:
  assumes "disjoint_functions (pd_functions s)"
  shows "FindContaining a s = find (\<lambda>f. fe_startVA f \<le> a \<and> a < fe_endVA f) (pd_functions s)"
proof -
  let ?fs = "pd_functions s" and ?i = "upper_bound (pd_functions s) a"
  let ?in = "\<lambda>f. fe_startVA f \<le> a \<and> a < fe_endVA f"
  have apart: "fe_endVA (?fs ! i) \<le> fe_startVA (?fs ! j)" "fe_startVA (?fs ! i) \<le> fe_startVA (?fs ! j)" if "i < j" "j < length ?fs" for i j
    using sorted_wrt_nth_less [of _ ?fs i j] assms that by (auto simp: disjoint_functions_def)
  have "in_order ?fs" using assms by (auto simp: in_order_def disjoint_functions_def sorted_wrt_map elim: sorted_wrt_mono_rel [rotated])
  note sp = upper_bound_splits [OF this, of a, unfolded splits_at_def]
  have unique: "j = ?i - 1 \<and> 0 < ?i" if "j < length ?fs" "?in (?fs ! j)" for j
  proof -
    have "j < ?i" using sp that by (meson not_le)
    moreover have "\<not> j < ?i - 1"
    proof
      assume "j < ?i - 1"
      then have "fe_endVA (?fs ! j) \<le> fe_startVA (?fs ! (?i - 1))" "fe_startVA (?fs ! (?i - 1)) \<le> a"
        using apart(1) [of j "?i - 1"] sp by auto
      then show False using that(2) by (meson leD order_trans)
    qed
    ultimately show ?thesis by simp
  qed
  show ?thesis
  proof (cases "?fs \<noteq> [] \<and> 0 < ?i \<and> ?in (?fs ! (?i - 1))")
    case True
    have "\<not> ?in (?fs ! j)" if "j < ?i - 1" for j
    proof -
      have "j < length ?fs" using sp that by linarith
      then show ?thesis using unique [of j] that by auto
    qed
    then have "find ?in ?fs = Some (?fs ! (?i - 1))"
      unfolding find_Some_iff using sp True by (intro exI [of _ "?i - 1"]) auto
    then show ?thesis using True by (simp add: FindContaining_def Let_def)
  next
    case False
    then have "find ?in ?fs = None" unfolding find_None_iff in_set_conv_nth using unique sp by fastforce
    then show ?thesis using False by (auto simp: FindContaining_def Let_def)
  qed
qed

section \<open>Reading unwind codes\<close>

lemma code_size_bounds: "1 \<le> code_size c \<and> code_size c \<le> 3"
  by (simp add: code_size_def code_slots_def)

text \<open>
  C39.  The loop over the unwind codes, whose counter is a byte, ends for every table of at most 253 slots: with an access
  violation, or with codes whose sizes add up to the table, of which only the last may reach beyond it.
\<close>

theorem unwind_loop_ends:
  assumes "unat count \<le> 253"
  shows "\<exists>r. unwind_loop can slot count 0 [] = Some r \<and>
    (\<forall>cs. r = Some cs \<longrightarrow> length cs \<le> unat count \<and> unat count \<le> sum_list (map code_size cs) \<and>
       sum_list (map code_size cs) \<le> unat count + 2)"
proof -
  have "\<exists>r. unwind_loop can slot count i acc = Some r \<and>
      (\<forall>cs. r = Some cs \<longrightarrow> length cs \<le> sum_list (map code_size cs) \<and> length cs \<le> unat count \<and> unat count \<le> sum_list (map code_size cs) \<and>
         sum_list (map code_size cs) \<le> unat count + 2)"
    if "sum_list (map code_size acc) = unat i" "length acc \<le> unat i" "length acc \<le> unat count" "unat i \<le> unat count + 2" for i acc
    using that
  proof (induction "unat count + 3 - unat i" arbitrary: i acc rule: less_induct)
    case less
    let ?c = "read_code slot (unat i)"
    show ?case
    proof (cases "i < count \<and> list_all can [unat i..<unat i + code_size ?c]")
      case True
      let ?i = "i + of_nat (code_size ?c)"
      note b = code_size_bounds [of ?c]
      have i: "unat i < unat count" using True by (simp add: word_less_nat_alt)
      then have next_i: "unat ?i = unat i + code_size ?c" using b assms by (simp add: unat_word_ariths unat_of_nat)
      have "length acc < 256" using less.prems(3) assms by simp
      then have step: "unwind_loop can slot count i acc = unwind_loop can slot count ?i (acc @ [?c])"
        using True by (subst unwind_loop.simps) (simp add: Let_def)
      show ?thesis unfolding step
        by (rule less.hyps) (use less.prems next_i b i in auto)
    next
      case False
      then show ?thesis using less.prems by (subst unwind_loop.simps) (auto simp: Let_def word_less_nat_alt not_less)
    qed
  qed
  from this [of "[]" 0] show ?thesis by auto
qed

theorem unwind_loop_ends_witness: "\<exists>r. unwind_loop (\<lambda>k. True) (\<lambda>k. 0x0100) 253 0 [] = Some r"
proof -
  have "unat (253 :: u8) \<le> 253" by simp
  from unwind_loop_ends [OF this] show ?thesis by blast
qed

text \<open>The bound is sharp: the counter of a table of 255 two-slot codes wraps from 254 to 0, and the loop never ends.\<close>

lemma unwind_loop_can_hang: "unwind_loop (\<lambda>k. True) (\<lambda>k. 0x0100) 255 0 [] = None"
proof -
  have "even (unat i) \<Longrightarrow> can = (\<lambda>k. True) \<Longrightarrow> slot = (\<lambda>k. 0x0100) \<Longrightarrow> count = 255 \<Longrightarrow> False"
    if "unwind_loop can slot count i acc = Some r" for can slot count i acc r
  proof (induction rule: unwind_loop.raw_induct [OF _ that])
    case (1 loop can slot count i acc r)
    have "code_size (read_code slot (unat i)) = 2"
      unfolding 1(5) by (simp add: code_size_def read_code_def code_slots_def Let_def)
    moreover have "i < 255"
    proof -
      have "unat i \<noteq> 255" using 1(3) by auto
      then show ?thesis using unat_u8 [of i] by (simp add: word_less_nat_alt)
    qed
    moreover have "even (unat (i + 2))" using 1(3) by (simp add: unat_word_ariths dvd_mod_iff)
    ultimately show False using 1(1) [of can slot count "i + 2"] 1(2-) by (auto simp: Let_def split: if_splits)
  qed
  then show ?thesis by (cases "unwind_loop (\<lambda>k. True) (\<lambda>k. 0x0100) 255 0 []") force+
qed

text \<open>A code of three slots keeps only the lower half of its operand.\<close>

lemma far_operand_truncated:
  "code_slots op info = 3 \<Longrightarrow> op = ucast (drop_bit 8 (slot i) AND 0x0F) \<Longrightarrow> info = ucast (drop_bit 12 (slot i) AND 0x0F) \<Longrightarrow>
     uc_extraData (read_code slot i) = slot (i + 1)"
  by (simp add: read_code_def Let_def) (auto intro!: bit_word_eqI simp: bit_simps)

definition example_functions :: PDataEnumerator where
  "example_functions = \<lparr>pd_moduleBase = 0x400000, pd_moduleSize = 100, pd_functions = map (\<lambda>i. \<lparr>fe_startRVA = i, fe_endRVA = i + 16,
     fe_startVA = 0x400000 + i, fe_endVA = 0x400010 + i, fe_unwindRVA = 0, fe_size = 16, fe_label = [], fe_category = [], fe_confidence = 0,
     fe_prologueSize = 0, fe_frameRegister = 0, fe_frameOffset = 0, fe_unwindCodeCount = 0\<rparr>) [0, 16, 48]\<rparr>"

theorem lookup_exact_witness: "FindFunction 0x400020 example_functions = None"
proof -
  have "in_order (pd_functions example_functions)" by (simp add: in_order_def example_functions_def)
  from lookup_exact [OF this, of "0x400020"] show ?thesis by (simp add: example_functions_def)
qed

theorem containing_is_linear_search_witness:
  "map_option fe_startVA (FindContaining 0x40001F example_functions) = Some 0x400010 \<and> FindContaining 0x400020 example_functions = None"
proof -
  have "disjoint_functions (pd_functions example_functions)" by (simp add: disjoint_functions_def example_functions_def)
  from containing_is_linear_search [OF this] show ?thesis by (simp add: example_functions_def)
qed

end
