(* ===== verification/Task_Orchestrator.thy ===== *)
theory Task_Orchestrator
  imports Kmp_Prelude "HOL-Library.Multiset"
begin

text \<open>
  \<^verbatim>\<open>KenshiMP.Core/sys/task_orchestrator.cpp\<close>: the worker threads, their queue and the wait for the work of a frame.
  Threads are modelled by interleaving.  A step is what one thread does between two points where another can get in:
  a block under \<^verbatim>\<open>m_taskMutex\<close>, an atomic access, a notification.  A wait on a condition variable has a step between
  the test of its predicate and falling asleep: the mutex is held there, but a notification that is sent without the
  mutex does not reach the thread.  A task is named by a number; what its closure does is not part of this component.
\<close>

section \<open>State and steps\<close>

record Task =
  tk_work :: nat
  tk_isFrameWork :: bool

text \<open>
  Where a worker is in \<^verbatim>\<open>WorkerLoop\<close>: at the loop test, before locking the mutex, after the predicate was false,
  asleep, holding a task, after a frame task, before \<^verbatim>\<open>notify_all\<close>, returned.
\<close>

datatype worker = AtLoop | Locking | FallingAsleep | Sleeping | Running Task | Ran | Notifying | Returned

datatype waiter = NotWaiting | WaitEntering | WaitAsleep | WaitWoken

datatype stopper = NotStopping | StopNotify | StopJoin

record TaskOrchestrator =
  to_running :: bool
  to_tasks :: "Task list"
  to_pending :: int
  to_workers :: "worker list"
  to_posting :: "Task list"
  to_signals :: nat
  to_waiter :: waiter
  to_stopper :: stopper

definition TaskOrchestrator_new :: TaskOrchestrator where
  "TaskOrchestrator_new = \<lparr>to_running = False, to_tasks = [], to_pending = 0, to_workers = [], to_posting = [],
     to_signals = 0, to_waiter = NotWaiting, to_stopper = NotStopping\<rparr>"

definition task_mutex_free :: "TaskOrchestrator \<Rightarrow> bool" where
  "task_mutex_free s \<longleftrightarrow> FallingAsleep \<notin> set (to_workers s)"

text \<open>
  The actions: the public operations, the second half of a post (\<open>PushFrame i\<close> by the thread that posts the i-th
  pending frame task, \<open>Signal w\<close> for a \<^verbatim>\<open>notify_one\<close>, which prefers worker \<open>w\<close>), a step of a worker, of the waiting and
  of the stopping thread, and the spurious wake-ups the standard allows.
\<close>

datatype action = StartWorkers nat | Post nat | AddFrameWork nat | PushFrame nat | Signal nat | Work nat | WaitForFrameWork
  | WaitStep | StopWorkers | StopStep | SpuriousWork nat | SpuriousWait

definition push_task :: "Task \<Rightarrow> TaskOrchestrator \<Rightarrow> TaskOrchestrator option" where
  "push_task t s = (if task_mutex_free s then Some (s\<lparr>to_tasks := to_tasks s @ [t], to_signals := to_signals s + 1\<rparr>) else None)"

definition wake :: "worker \<Rightarrow> worker" where
  "wake w = (if w = Sleeping then Locking else w)"

definition wake_one :: "nat \<Rightarrow> worker list \<Rightarrow> worker list" where
  "wake_one w ws = (if w < length ws \<and> ws ! w = Sleeping then ws[w := Locking]
     else case filter (\<lambda>i. ws ! i = Sleeping) [0..<length ws] of i # _ \<Rightarrow> ws[i := Locking] | [] \<Rightarrow> ws)"

definition set_worker :: "nat \<Rightarrow> worker \<Rightarrow> TaskOrchestrator \<Rightarrow> TaskOrchestrator" where
  "set_worker w x s = s\<lparr>to_workers := (to_workers s)[w := x]\<rparr>"

definition notify_frame :: "TaskOrchestrator \<Rightarrow> TaskOrchestrator" where
  "notify_frame s = s\<lparr>to_waiter := (if to_waiter s = WaitAsleep then WaitWoken else to_waiter s)\<rparr>"

definition WorkerLoop :: "nat \<Rightarrow> TaskOrchestrator \<Rightarrow> TaskOrchestrator option" where
  "WorkerLoop w s = (case to_workers s ! w of
     AtLoop \<Rightarrow> Some (set_worker w (if to_running s then Locking else Returned) s)
   | Locking \<Rightarrow> if \<not> task_mutex_free s then None
       else (case to_tasks s of
         t # ts \<Rightarrow> Some (set_worker w (Running t) (s\<lparr>to_tasks := ts\<rparr>))
       | [] \<Rightarrow> Some (set_worker w (if to_running s then FallingAsleep else Returned) s))
   | FallingAsleep \<Rightarrow> Some (set_worker w Sleeping s)
   | Sleeping \<Rightarrow> None
   | Running t \<Rightarrow> Some (set_worker w (if tk_isFrameWork t then Ran else AtLoop) s)
   | Ran \<Rightarrow> Some (set_worker w (if to_pending s \<le> 1 then Notifying else AtLoop) (s\<lparr>to_pending := to_pending s - 1\<rparr>))
   | Notifying \<Rightarrow> Some (set_worker w AtLoop (notify_frame s))
   | Returned \<Rightarrow> None)"

definition wait_test :: "TaskOrchestrator \<Rightarrow> TaskOrchestrator" where
  "wait_test s = s\<lparr>to_waiter := (if to_pending s \<le> 0 then NotWaiting else WaitEntering)\<rparr>"

definition stop_step :: "TaskOrchestrator \<Rightarrow> TaskOrchestrator option" where
  "stop_step s = (case to_stopper s of
     NotStopping \<Rightarrow> None
   | StopNotify \<Rightarrow> Some (s\<lparr>to_workers := List.map wake (to_workers s), to_stopper := StopJoin\<rparr>)
   | StopJoin \<Rightarrow> if list_all (\<lambda>w. w = Returned) (to_workers s)
       then Some (s\<lparr>to_workers := [], to_tasks := [], to_pending := 0, to_stopper := NotStopping\<rparr>) else None)"

definition task_step :: "action \<Rightarrow> TaskOrchestrator \<Rightarrow> TaskOrchestrator option" where
  "task_step a s = (case a of
     StartWorkers n \<Rightarrow> if to_stopper s \<noteq> NotStopping then None else if to_running s then Some s
       else Some (s\<lparr>to_running := True, to_workers := replicate n AtLoop\<rparr>)
   | Post k \<Rightarrow> push_task \<lparr>tk_work = k, tk_isFrameWork = False\<rparr> s
   | AddFrameWork k \<Rightarrow> Some (s\<lparr>to_pending := to_pending s + 1,
       to_posting := to_posting s @ [\<lparr>tk_work = k, tk_isFrameWork = True\<rparr>]\<rparr>)
   | PushFrame i \<Rightarrow> if i < length (to_posting s)
       then push_task (to_posting s ! i) (s\<lparr>to_posting := take i (to_posting s) @ drop (Suc i) (to_posting s)\<rparr>) else None
   | Signal w \<Rightarrow> if to_signals s = 0 then None
       else Some (s\<lparr>to_signals := to_signals s - 1, to_workers := wake_one w (to_workers s)\<rparr>)
   | Work w \<Rightarrow> if w < length (to_workers s) then WorkerLoop w s else None
   | WaitForFrameWork \<Rightarrow> if to_waiter s = NotWaiting then Some (wait_test s) else None
   | WaitStep \<Rightarrow> (case to_waiter s of WaitEntering \<Rightarrow> Some (s\<lparr>to_waiter := WaitAsleep\<rparr>)
       | WaitWoken \<Rightarrow> Some (wait_test s) | _ \<Rightarrow> None)
   | StopWorkers \<Rightarrow> if to_stopper s \<noteq> NotStopping then None else if \<not> to_running s then Some s
       else Some (s\<lparr>to_running := False, to_stopper := StopNotify\<rparr>)
   | StopStep \<Rightarrow> stop_step s
   | SpuriousWork w \<Rightarrow> if w < length (to_workers s) then Some (set_worker w (wake (to_workers s ! w)) s) else None
   | SpuriousWait \<Rightarrow> Some (notify_frame s))"

text \<open>A scheduler picks an action; when its thread is blocked nothing happens.\<close>

definition task_exec :: "action \<Rightarrow> TaskOrchestrator \<Rightarrow> TaskOrchestrator" where
  "task_exec a s = (case task_step a s of Some s' \<Rightarrow> s' | None \<Rightarrow> s)"

definition executes :: "action \<Rightarrow> TaskOrchestrator \<Rightarrow> Task option" where
  "executes a s = (case a of Work w \<Rightarrow> if w < length (to_workers s)
     then (case to_workers s ! w of Running t \<Rightarrow> Some t | _ \<Rightarrow> None) else None | _ \<Rightarrow> None)"

section \<open>Frame work is counted\<close>

definition frame_load :: "worker \<Rightarrow> nat" where
  "frame_load w = (case w of Running t \<Rightarrow> if tk_isFrameWork t then 1 else 0 | Ran \<Rightarrow> 1 | _ \<Rightarrow> 0)"

definition unfinished :: "TaskOrchestrator \<Rightarrow> nat" where
  "unfinished s = length (to_posting s) + length (filter tk_isFrameWork (to_tasks s)) + sum_list (List.map frame_load (to_workers s))"

definition frame_counted :: "TaskOrchestrator \<Rightarrow> bool" where
  "frame_counted s \<longleftrightarrow> to_pending s = int (unfinished s) \<and> list_all tk_isFrameWork (to_posting s)"

text \<open>\<^verbatim>\<open>Stop\<close> resets the counter, so it must not overlap with a post.\<close>

definition no_overlap :: "action \<Rightarrow> TaskOrchestrator \<Rightarrow> bool" where
  "no_overlap a s \<longleftrightarrow> (a = StopStep \<longrightarrow> to_posting s = [])"

definition wait_returns :: "action \<Rightarrow> TaskOrchestrator \<Rightarrow> bool" where
  "wait_returns a s \<longleftrightarrow> (a = WaitForFrameWork \<and> to_waiter s = NotWaiting \<or> a = WaitStep \<and> to_waiter s = WaitWoken) \<and>
     to_waiter (task_exec a s) = NotWaiting"

lemma frame_load_simps [simp]:
  "frame_load AtLoop = 0" "frame_load Locking = 0" "frame_load FallingAsleep = 0" "frame_load Sleeping = 0"
  "frame_load (Running t) = (if tk_isFrameWork t then 1 else 0)" "frame_load Ran = 1" "frame_load Notifying = 0"
  "frame_load Returned = 0"
  by (simp_all add: frame_load_def)

lemma frame_load_wake [simp]: "frame_load (wake w) = frame_load w"
  by (simp add: wake_def)

lemma wake_one_cases:
  obtains (none) "wake_one w ws = ws" "Sleeping \<notin> set ws"
    | (one) i where "i < length ws" "ws ! i = Sleeping" "wake_one w ws = ws[i := Locking]"
proof (cases "w < length ws \<and> ws ! w = Sleeping")
  case True
  then show ?thesis using one[of w] by (simp add: wake_one_def)
next
  case False
  note unpreferred = False
  show ?thesis
  proof (cases "filter (\<lambda>i. ws ! i = Sleeping) [0..<length ws]")
    case Nil
    then have "Sleeping \<notin> set ws" by (auto simp: filter_empty_conv in_set_conv_nth)
    then show ?thesis using none Nil unpreferred by (simp add: wake_one_def)
  next
    case (Cons i js)
    then have "i \<in> set (filter (\<lambda>i. ws ! i = Sleeping) [0..<length ws])" by simp
    then have "i < length ws" "ws ! i = Sleeping" by auto
    then show ?thesis using one[of i] Cons unpreferred by (simp add: wake_one_def)
  qed
qed

lemma load_update:
  "w < length ws \<Longrightarrow> sum_list (List.map frame_load (ws[w := x])) + frame_load (ws ! w) = sum_list (List.map frame_load ws) + frame_load x"
proof (induction ws arbitrary: w)
  case (Cons y ws)
  then show ?case by (cases w) (auto simp: algebra_simps)
qed simp

lemma load_wake_one: "sum_list (List.map frame_load (wake_one w ws)) = sum_list (List.map frame_load ws)"
proof (cases rule: wake_one_cases[of w ws])
  case (one i)
  then show ?thesis using load_update[of i ws Locking] by simp
qed simp

lemma load_wake_all: "sum_list (List.map (frame_load \<circ> wake) ws) = sum_list (List.map frame_load ws)"
  by (simp add: comp_def)

lemma load_returned: "list_all (\<lambda>w. w = Returned) ws \<Longrightarrow> sum_list (List.map frame_load ws) = 0"
  by (induction ws) auto

lemma length_remove_at: "i < length xs \<Longrightarrow> length (take i xs @ drop (Suc i) xs) + 1 = length xs"
  by simp

text \<open>
  The life of the workers, and why no notification to them is lost while the queue is in use: a worker falls asleep
  only on an empty queue, and when there is work somebody is awake or a notification is under way.
\<close>

definition somebody_awake :: "worker list \<Rightarrow> bool" where
  "somebody_awake ws \<longleftrightarrow> (\<exists>w\<in>set ws. w \<noteq> Sleeping)"

definition workers_inv :: "TaskOrchestrator \<Rightarrow> bool" where
  "workers_inv s \<longleftrightarrow> (to_stopper s = NotStopping \<longrightarrow> \<not> to_running s \<longrightarrow> to_workers s = []) \<and>
     (to_running s \<longrightarrow> to_stopper s = NotStopping \<and> Returned \<notin> set (to_workers s)) \<and>
     (FallingAsleep \<in> set (to_workers s) \<longrightarrow> to_tasks s = []) \<and>
     (to_running s \<longrightarrow> to_workers s \<noteq> [] \<longrightarrow> to_tasks s \<noteq> [] \<longrightarrow> to_signals s = 0 \<longrightarrow> somebody_awake (to_workers s))"

lemmas step_defs = task_exec_def task_step_def push_task_def set_worker_def notify_frame_def wait_test_def stop_step_def

lemma awake_update [simp]: "w < length ws \<Longrightarrow> x \<noteq> Sleeping \<Longrightarrow> somebody_awake (ws[w := x])"
  by (auto simp: somebody_awake_def intro!: bexI[of _ x] set_update_memI)

lemma awake_nth: "w < length ws \<Longrightarrow> ws ! w \<noteq> Sleeping \<Longrightarrow> somebody_awake ws"
  by (auto simp: somebody_awake_def)

lemma update_mem_cases: "y \<in> set (ws[w := x]) \<Longrightarrow> y = x \<or> y \<in> set ws"
  using set_update_subset_insert[of ws w x] by auto

lemma workers_inv_set:
  assumes "workers_inv s" "w < length (to_workers s)" "x = Returned \<longrightarrow> \<not> to_running s" "x \<in> {FallingAsleep, Sleeping} \<longrightarrow> to_tasks s = []"
  shows "workers_inv (set_worker w x s)"
proof -
  have awake: "to_tasks s \<noteq> [] \<Longrightarrow> somebody_awake ((to_workers s)[w := x])"
    using assms(2,4) awake_update[of w "to_workers s" x] by auto
  show ?thesis
    using assms awake by (auto simp: workers_inv_def set_worker_def dest!: update_mem_cases)
qed

lemma notify_frame_workers [simp]: "to_workers (notify_frame s) = to_workers s" "to_tasks (notify_frame s) = to_tasks s"
  by (simp_all add: notify_frame_def)

lemma workers_inv_cong:
  "workers_inv s \<Longrightarrow> workers_inv (s\<lparr>to_pending := p\<rparr>)" "workers_inv s \<Longrightarrow> workers_inv (notify_frame s)"
  "workers_inv s \<Longrightarrow> to_tasks s = t # ts \<Longrightarrow> workers_inv (s\<lparr>to_tasks := ts\<rparr>)"
  by (auto simp: workers_inv_def notify_frame_def)

lemma workers_inv_other [intro]:
  "workers_inv s \<Longrightarrow> workers_inv (s\<lparr>to_pending := p, to_posting := ts\<rparr>)" "workers_inv s \<Longrightarrow> workers_inv (s\<lparr>to_waiter := x\<rparr>)"
  by (simp_all add: workers_inv_def)

lemma workers_inv_work:
  assumes inv: "workers_inv s" and w: "w < length (to_workers s)" and run: "WorkerLoop w s = Some s'"
  shows "workers_inv s'"
proof -
  have here: "to_workers s ! w \<in> set (to_workers s)" using w by simp
  show ?thesis
  proof (cases "to_workers s ! w")
    case FallingAsleep
    then have "to_tasks s = []" using inv here by (simp add: workers_inv_def)
    then show ?thesis using inv run w FallingAsleep by (auto simp: WorkerLoop_def intro!: workers_inv_set)
  next
    case Locking
    then show ?thesis using inv run w
      by (auto simp: WorkerLoop_def split: if_splits list.splits intro!: workers_inv_set workers_inv_cong)
  qed (use inv run w in \<open>auto simp: WorkerLoop_def split: if_splits intro!: workers_inv_set workers_inv_cong\<close>)
qed

lemma workers_inv_wake_one: "workers_inv s \<Longrightarrow> workers_inv (s\<lparr>to_signals := n, to_workers := wake_one w (to_workers s)\<rparr>)"
proof (cases rule: wake_one_cases[of w "to_workers s"])
  case none
  moreover assume "workers_inv s"
  moreover have "to_workers s \<noteq> [] \<Longrightarrow> somebody_awake (to_workers s)"
    using none(2) by (cases "to_workers s") (auto simp: somebody_awake_def)
  ultimately show ?thesis by (auto simp: workers_inv_def)
next
  case (one i)
  moreover assume "workers_inv s"
  ultimately show ?thesis by (auto simp: workers_inv_def dest!: update_mem_cases)
qed

lemma wake_mem: "x \<in> wake ` set ws \<Longrightarrow> x \<noteq> Sleeping \<and> (x = Locking \<or> x \<in> set ws)"
  by (auto simp: wake_def)

lemma workers_inv_step: "workers_inv s \<Longrightarrow> workers_inv (task_exec a s)"
proof (cases "task_step a s")
  case (Some s')
  assume inv: "workers_inv s"
  have "workers_inv s'"
  proof (cases a)
    case (Work w)
    then show ?thesis using inv Some workers_inv_work[of s w s'] by (simp add: task_step_def split: if_splits)
  next
    case (Signal w)
    then show ?thesis using inv Some workers_inv_wake_one[where s = s and n = "to_signals s - 1" and w = w] by (auto simp: task_step_def split: if_splits)
  next
    case (SpuriousWork w)
    then show ?thesis using inv Some
      by (auto simp: workers_inv_def task_step_def set_worker_def wake_def split: if_splits dest!: update_mem_cases)
  next
    case (StartWorkers n)
    then show ?thesis using inv Some by (cases n) (auto simp: workers_inv_def task_step_def somebody_awake_def split: if_splits)
  next
    case StopStep
    then show ?thesis using inv Some
      by (auto simp: workers_inv_def task_step_def stop_step_def wake_def split: stopper.splits if_splits)
  next
    case (PushFrame i)
    then show ?thesis using inv Some
      by (auto simp: workers_inv_def task_step_def push_task_def task_mutex_free_def split: if_splits)
  next
    case (Post k)
    then show ?thesis using inv Some
      by (auto simp: workers_inv_def task_step_def push_task_def task_mutex_free_def split: if_splits)
  next
    case StopWorkers
    then show ?thesis using inv Some by (auto simp: workers_inv_def task_step_def split: if_splits)
  qed (use inv Some in \<open>auto simp: task_step_def wait_test_def split: if_splits waiter.splits intro: workers_inv_other workers_inv_cong\<close>)
  then show ?thesis using Some by (simp add: task_exec_def)
qed (simp add: task_exec_def)

lemma frame_counted_work:
  assumes inv: "frame_counted s" and w: "w < length (to_workers s)" and run: "WorkerLoop w s = Some s'"
  shows "frame_counted s'"
proof -
  note load = load_update[OF w]
  show ?thesis
  proof (cases "to_workers s ! w")
    case Locking
    then show ?thesis using inv run load[of "Running _"] load[of FallingAsleep] load[of Returned]
      by (auto simp: WorkerLoop_def frame_counted_def unfinished_def set_worker_def split: if_splits list.splits)
  next
    case (Running t)
    then show ?thesis using inv run load[of Ran] load[of AtLoop]
      by (auto simp: WorkerLoop_def frame_counted_def unfinished_def set_worker_def)
  next
    case Ran
    then show ?thesis using inv run load[of Notifying] load[of AtLoop]
      by (auto simp: WorkerLoop_def frame_counted_def unfinished_def set_worker_def)
  next
    case AtLoop
    then show ?thesis using inv run load[of Locking] load[of Returned]
      by (auto simp: WorkerLoop_def frame_counted_def unfinished_def set_worker_def)
  next
    case Notifying
    then show ?thesis using inv run load[of AtLoop]
      by (auto simp: WorkerLoop_def frame_counted_def unfinished_def set_worker_def notify_frame_def)
  next
    case FallingAsleep
    then show ?thesis using inv run load[of Sleeping]
      by (auto simp: WorkerLoop_def frame_counted_def unfinished_def set_worker_def)
  qed (use run in \<open>simp_all add: WorkerLoop_def\<close>)
qed

lemma frame_counted_push:
  assumes inv: "frame_counted s" and i: "i < length (to_posting s)"
    and push: "push_task (to_posting s ! i) (s\<lparr>to_posting := take i (to_posting s) @ drop (Suc i) (to_posting s)\<rparr>) = Some s'"
  shows "frame_counted s'"
proof -
  have frame: "tk_isFrameWork (to_posting s ! i)" using inv i by (simp add: frame_counted_def list_all_length)
  have rest: "list_all tk_isFrameWork (take i (to_posting s) @ drop (Suc i) (to_posting s))"
    using inv by (auto simp: frame_counted_def list_all_iff dest: in_set_takeD in_set_dropD)
  show ?thesis using inv push frame rest i
    by (auto simp: frame_counted_def unfinished_def push_task_def split: if_splits)
qed

lemma frame_counted_step:
  assumes inv: "frame_counted s" and wk: "workers_inv s" and ok: "no_overlap a s"
  shows "frame_counted (task_exec a s)"
proof (cases "task_step a s")
  case (Some s')
  have "frame_counted s'"
  proof (cases a)
    case (PushFrame i)
    then show ?thesis using inv Some frame_counted_push[of s i s'] by (simp add: task_step_def split: if_splits)
  next
    case (Work w)
    then show ?thesis using inv Some frame_counted_work[of s w s'] by (simp add: task_step_def split: if_splits)
  next
    case (SpuriousWork w)
    then show ?thesis using inv Some load_update[of w "to_workers s" "wake (to_workers s ! w)"]
      by (auto simp: frame_counted_def unfinished_def task_step_def set_worker_def split: if_splits)
  next
    case (StartWorkers n)
    then show ?thesis using inv Some wk
      by (auto simp: frame_counted_def unfinished_def workers_inv_def task_step_def sum_list_replicate split: if_splits)
  qed (use inv Some ok in \<open>auto simp: frame_counted_def unfinished_def no_overlap_def step_defs load_wake_one load_wake_all load_returned
     split: if_splits stopper.splits waiter.splits\<close>)
  then show ?thesis using Some by (simp add: task_exec_def)
qed (simp add: task_exec_def inv)

interpretation task_run: run_invariant task_exec no_overlap "\<lambda>s. workers_inv s \<and> frame_counted s"
  by unfold_locales (auto intro: workers_inv_step frame_counted_step)

lemma TaskOrchestrator_new_inv: "workers_inv TaskOrchestrator_new" "frame_counted TaskOrchestrator_new"
  by (simp_all add: workers_inv_def frame_counted_def unfinished_def TaskOrchestrator_new_def)

text \<open>
  When \<^verbatim>\<open>WaitForFrameWork\<close> returns, no frame task is being posted, queued or executed, whatever the
  threads did before, as long as \<^verbatim>\<open>Stop\<close> does not overlap with a post.
\<close>

theorem frame_wait_is_complete:
  assumes "run_ok no_overlap task_exec xs TaskOrchestrator_new" and "wait_returns a (fold task_exec xs TaskOrchestrator_new)"
  shows "unfinished (fold task_exec xs TaskOrchestrator_new) = 0"
proof -
  define s where "s = fold task_exec xs TaskOrchestrator_new"
  have "frame_counted s" using task_run.run[OF _ assms(1)] TaskOrchestrator_new_inv by (simp add: s_def)
  moreover have "to_pending s \<le> 0" using assms(2)
    by (auto simp: s_def [symmetric] wait_returns_def task_exec_def task_step_def wait_test_def split: if_splits)
  ultimately show ?thesis by (simp add: frame_counted_def s_def)
qed

definition frame_example :: "action list" where
  "frame_example = [StartWorkers 2, AddFrameWork 1, AddFrameWork 2, PushFrame 0, PushFrame 0, Work 0, Work 1, Work 0, Work 1,
     WaitForFrameWork, WaitStep, Work 1, Work 0, Work 0, Work 1, Work 1]"

theorem frame_wait_is_complete_witness:
  "unfinished (fold task_exec frame_example TaskOrchestrator_new) = 0 \<and>
   to_waiter (fold task_exec frame_example TaskOrchestrator_new) = WaitWoken"
proof -
  have "run_ok no_overlap task_exec frame_example TaskOrchestrator_new" by code_simp
  moreover have "wait_returns WaitStep (fold task_exec frame_example TaskOrchestrator_new)" by code_simp
  ultimately have "unfinished (fold task_exec frame_example TaskOrchestrator_new) = 0" by (rule frame_wait_is_complete)
  then show ?thesis by simp code_simp
qed

section \<open>Lost wake-ups\<close>

text \<open>
  The counter of the frame work and the running flag are changed without the mutex of the condition variable, so a
  notification can fall between a failed test and the sleep.  Only a spurious wake-up helps then.
\<close>

definition thread_step :: "action \<Rightarrow> bool" where
  "thread_step a \<longleftrightarrow> (case a of Work _ \<Rightarrow> True | Signal _ \<Rightarrow> True | WaitStep \<Rightarrow> True | StopStep \<Rightarrow> True | _ \<Rightarrow> False)"

definition lost_frame_wakeup :: "action list" where
  "lost_frame_wakeup = [StartWorkers 1, AddFrameWork 7, PushFrame 0, Signal 0, WaitForFrameWork, Work 0, Work 0, Work 0, Work 0, Work 0,
     WaitStep, Work 0, Work 0, Work 0]"

definition lost_stop_wakeup :: "action list" where
  "lost_stop_wakeup = [StartWorkers 1, Work 0, Work 0, StopWorkers, StopStep, Work 0]"

lemma stuck_for_ever:
  assumes "\<And>a. thread_step a \<Longrightarrow> task_exec a s = s" "list_all thread_step xs"
  shows "fold task_exec xs s = s"
  using assms(2) by (induction xs) (simp_all add: assms(1))

lemma thread_step_cases:
  assumes "thread_step a"
  obtains (w) w where "a = Work w" | (s) w where "a = Signal w" | (wait) "a = WaitStep" | (stop) "a = StopStep"
  using assms by (cases a) (auto simp: thread_step_def)

text \<open>The frame work is done, all threads sleep, and the game thread waits for a frame without work.\<close>

definition frame_deadlock :: TaskOrchestrator where
  "frame_deadlock = \<lparr>to_running = True, to_tasks = [], to_pending = 0, to_workers = [Sleeping], to_posting = [], to_signals = 0,
     to_waiter = WaitAsleep, to_stopper = NotStopping\<rparr>"

definition stop_deadlock :: TaskOrchestrator where
  "stop_deadlock = \<lparr>to_running = False, to_tasks = [], to_pending = 0, to_workers = [Sleeping], to_posting = [], to_signals = 0,
     to_waiter = NotWaiting, to_stopper = StopJoin\<rparr>"

lemma frame_deadlock_stuck: "thread_step a \<Longrightarrow> task_exec a frame_deadlock = frame_deadlock"
  by (erule thread_step_cases) (simp_all add: frame_deadlock_def task_exec_def task_step_def WorkerLoop_def stop_step_def)

lemma stop_deadlock_stuck: "thread_step a \<Longrightarrow> task_exec a stop_deadlock = stop_deadlock"
  by (erule thread_step_cases) (simp_all add: stop_deadlock_def task_exec_def task_step_def WorkerLoop_def stop_step_def)

text \<open>
  The wait for a frame can miss its notification: from the start a few steps lead to a state with no frame work
  left in which the game thread sleeps, and no step of any thread ever wakes it.
\<close>

theorem frame_wait_can_hang:
  "\<exists>s. fold task_exec lost_frame_wakeup TaskOrchestrator_new = s \<and> unfinished s = 0 \<and> to_waiter s = WaitAsleep \<and>
     (\<forall>xs. list_all thread_step xs \<longrightarrow> fold task_exec xs s = s)"
proof -
  have "fold task_exec lost_frame_wakeup TaskOrchestrator_new = frame_deadlock" by code_simp
  then show ?thesis using stuck_for_ever[OF frame_deadlock_stuck]
    by (auto simp: unfinished_def frame_deadlock_def)
qed

theorem frame_wait_can_hang_witness:
  "fold task_exec [Work 0, WaitStep, Signal 0] (fold task_exec lost_frame_wakeup TaskOrchestrator_new)
     = fold task_exec lost_frame_wakeup TaskOrchestrator_new"
proof -
  have "list_all thread_step [Work 0, WaitStep, Signal 0]" by (simp add: thread_step_def)
  then show ?thesis using frame_wait_can_hang by metis
qed

lemma stop_can_hang:
  "fold task_exec lost_stop_wakeup TaskOrchestrator_new = stop_deadlock"
  "list_all thread_step xs \<Longrightarrow> fold task_exec xs stop_deadlock = stop_deadlock"
  by code_simp (rule stuck_for_ever[OF stop_deadlock_stuck])

section \<open>Every task runs\<close>

text \<open>An execution under a scheduler, which is fair when every worker and every notification gets its turn again.\<close>

primrec execution :: "(nat \<Rightarrow> action) \<Rightarrow> nat \<Rightarrow> TaskOrchestrator" where
  "execution a 0 = TaskOrchestrator_new"
| "execution a (Suc i) = task_exec (a i) (execution a i)"

definition fair :: "(nat \<Rightarrow> action) \<Rightarrow> nat \<Rightarrow> bool" where
  "fair a n \<longleftrightarrow> (\<forall>i. \<exists>j\<ge>i. \<exists>w. a j = Signal w) \<and> (\<forall>w<n. \<forall>i. \<exists>j\<ge>i. a j = Work w)"

text \<open>How far a worker is from taking the next task, while there is one.\<close>

definition distance :: "worker \<Rightarrow> nat" where
  "distance w = (case w of Locking \<Rightarrow> 0 | AtLoop \<Rightarrow> 1 | Sleeping \<Rightarrow> 1 | FallingAsleep \<Rightarrow> 2 | Notifying \<Rightarrow> 2 | Ran \<Rightarrow> 3
     | Running _ \<Rightarrow> 4 | Returned \<Rightarrow> 0)"

definition rank :: "TaskOrchestrator \<Rightarrow> nat" where
  "rank s = sum_list (List.map distance (to_workers s))"

lemma distance_simps [simp]:
  "distance AtLoop = 1" "distance Locking = 0" "distance FallingAsleep = 2" "distance Sleeping = 1"
  "distance (Running t) = 4" "distance Ran = 3" "distance Notifying = 2" "distance Returned = 0"
  by (simp_all add: distance_def)

lemma sum_list_update_distance:
  "w < length ws \<Longrightarrow> sum_list (List.map distance (ws[w := x])) + distance (ws ! w) = sum_list (List.map distance ws) + distance x"
proof (induction ws arbitrary: w)
  case (Cons y ws)
  then show ?case by (cases w) (auto simp: algebra_simps)
qed simp

lemma rank_set: "w < length ws \<Longrightarrow> distance x < distance (ws ! w) \<Longrightarrow>
    sum_list (List.map distance (ws[w := x])) < sum_list (List.map distance ws)"
  using sum_list_update_distance[of w ws x] by simp

definition extends :: "Task list \<Rightarrow> Task list \<Rightarrow> bool" where
  "extends ts us \<longleftrightarrow> (\<exists>more. us = ts @ more)"

lemma extends_refl [simp]: "extends ts ts" "extends ts (ts @ us)"
  by (simp_all add: extends_def)

lemma extends_trans: "extends a b \<Longrightarrow> extends b c \<Longrightarrow> extends a c"
  by (auto simp: extends_def)

text \<open>With work in the queue a step leaves the workers alone, takes the first task, or brings a worker nearer to it.\<close>

definition takes_first :: "action \<Rightarrow> TaskOrchestrator \<Rightarrow> TaskOrchestrator \<Rightarrow> bool" where
  "takes_first a s s' \<longleftrightarrow> (\<exists>w. a = Work w \<and> w < length (to_workers s) \<and> to_workers s' = (to_workers s)[w := Running (hd (to_tasks s))] \<and>
     to_tasks s' = tl (to_tasks s))"

definition in_use :: "TaskOrchestrator \<Rightarrow> bool" where
  "in_use s \<longleftrightarrow> workers_inv s \<and> to_running s"

lemma in_use_step: "in_use s \<Longrightarrow> a \<noteq> StopWorkers \<Longrightarrow> in_use (task_exec a s)"
proof -
  assume use: "in_use s" and a: "a \<noteq> StopWorkers"
  have "to_stopper s = NotStopping" using use by (simp add: in_use_def workers_inv_def)
  then have "to_running (task_exec a s)" using use a
    by (cases a) (auto simp: in_use_def step_defs WorkerLoop_def split: option.splits worker.splits list.splits waiter.splits)
  then show ?thesis using use workers_inv_step by (simp add: in_use_def)
qed

lemma length_wake_one [simp]: "length (wake_one w ws) = length ws"
  by (cases rule: wake_one_cases[of w ws]) simp_all

lemma workers_length: "in_use s \<Longrightarrow> a \<noteq> StopWorkers \<Longrightarrow> length (to_workers (task_exec a s)) = length (to_workers s)"
  by (cases a) (auto simp: in_use_def workers_inv_def step_defs WorkerLoop_def split: option.splits worker.splits list.splits waiter.splits)

definition nearer :: "TaskOrchestrator \<Rightarrow> TaskOrchestrator \<Rightarrow> bool" where
  "nearer s s' \<longleftrightarrow> extends (to_tasks s) (to_tasks s') \<and> (to_workers s' = to_workers s \<or> rank s' < rank s)"

lemma wake_one_nearer: "wake_one w ws = ws \<or> sum_list (List.map distance (wake_one w ws)) < sum_list (List.map distance ws)"
  by (cases rule: wake_one_cases[of w ws]) (auto simp: rank_set)

lemma worker_step_cases:
  assumes use: "in_use s" and tasks: "to_tasks s \<noteq> []" and w: "w < length (to_workers s)"
  shows "takes_first (Work w) s (task_exec (Work w) s) \<or> nearer s (task_exec (Work w) s)"
proof -
  have "to_workers s ! w \<noteq> Returned" using use w by (auto simp: in_use_def workers_inv_def dest: nth_mem)
  then show ?thesis using use tasks w
    by (cases "to_workers s ! w"; cases "to_tasks s")
      (auto simp: in_use_def takes_first_def nearer_def rank_def task_exec_def task_step_def WorkerLoop_def set_worker_def
        notify_frame_def intro!: rank_set)
qed

lemma step_cases:
  assumes use: "in_use s" and tasks: "to_tasks s \<noteq> []" and a: "a \<noteq> StopWorkers"
  shows "takes_first a s (task_exec a s) \<or> nearer s (task_exec a s)"
proof (cases a)
  case (Work w)
  show ?thesis
  proof (cases "w < length (to_workers s)")
    case True
    then show ?thesis using worker_step_cases[OF use tasks] Work by simp
  next
    case False
    then show ?thesis using Work by (simp add: nearer_def task_exec_def task_step_def)
  qed
next
  case (Signal w)
  then show ?thesis using wake_one_nearer[of w "to_workers s"] by (simp add: nearer_def rank_def task_exec_def task_step_def)
next
  case (SpuriousWork w)
  have "w < length ws \<Longrightarrow> ws[w := wake (ws ! w)] = ws \<or> sum_list (List.map distance (ws[w := wake (ws ! w)])) < sum_list (List.map distance ws)"
    for ws by (auto simp: wake_def rank_set)
  then show ?thesis using SpuriousWork by (simp add: nearer_def rank_def task_exec_def task_step_def set_worker_def)
next
  case StopStep
  then show ?thesis using use by (simp add: nearer_def step_defs in_use_def workers_inv_def)
qed (use use a in \<open>auto simp: nearer_def step_defs in_use_def workers_inv_def split: option.splits waiter.splits\<close>)

text \<open>And the workers cannot all be stuck: some worker or some notification changes them when it gets its turn.\<close>

lemma somebody_moves:
  assumes use: "in_use s" and tasks: "to_tasks s \<noteq> []"
  shows "\<And>w. w < length (to_workers s) \<Longrightarrow> to_workers s ! w \<noteq> Sleeping \<Longrightarrow> to_workers (task_exec (Work w) s) \<noteq> to_workers s"
    and "to_workers s \<noteq> [] \<Longrightarrow> \<not> somebody_awake (to_workers s) \<Longrightarrow> to_workers (task_exec (Signal v) s) \<noteq> to_workers s"
proof -
  have change: "ws[w := x] \<noteq> ws" if "w < length ws" "ws ! w \<noteq> x" for w ws and x :: worker
    using that by (metis nth_list_update_eq)
  {
  fix w assume w: "w < length (to_workers s)" and awake: "to_workers s ! w \<noteq> Sleeping"
  have free: "FallingAsleep \<notin> set (to_workers s)" "Returned \<notin> set (to_workers s)"
    using use tasks by (auto simp: in_use_def workers_inv_def)
  then have "to_workers s ! w \<noteq> FallingAsleep" "to_workers s ! w \<noteq> Returned" using w by (metis nth_mem)+
  moreover obtain t ts where "to_tasks s = t # ts" using tasks by (cases "to_tasks s") auto
  ultimately show "to_workers (task_exec (Work w) s) \<noteq> to_workers s" using use w awake free(1)
    by (cases "to_workers s ! w")
      (simp_all add: in_use_def task_exec_def task_step_def WorkerLoop_def set_worker_def task_mutex_free_def change)
  }
  assume ws: "to_workers s \<noteq> []" and asleep: "\<not> somebody_awake (to_workers s)"
  then have "to_signals s \<noteq> 0" using use tasks by (auto simp: in_use_def workers_inv_def)
  moreover have "Sleeping \<in> set (to_workers s)" using ws asleep by (cases "to_workers s") (auto simp: somebody_awake_def)
  moreover have "wake_one v (to_workers s) \<noteq> to_workers s" if "Sleeping \<in> set (to_workers s)"
  proof (cases rule: wake_one_cases[of v "to_workers s"])
    case (one i)
    then show ?thesis using change[of i "to_workers s" Locking] by simp
  qed (use that in simp)
  ultimately show "to_workers (task_exec (Signal v) s) \<noteq> to_workers s" by (simp add: task_exec_def task_step_def)
qed

definition keeps_running :: "(nat \<Rightarrow> action) \<Rightarrow> nat \<Rightarrow> nat \<Rightarrow> bool" where
  "keeps_running a i n \<longleftrightarrow> fair a n \<and> (\<forall>j\<ge>i. a j \<noteq> StopWorkers) \<and> to_running (execution a i) \<and> length (to_workers (execution a i)) = n"

lemma turns:
  assumes "keeps_running a i n"
  shows "w < n \<Longrightarrow> \<exists>j\<ge>k. a j = Work w" "\<exists>j\<ge>k. \<exists>w. a j = Signal w"
  using assms unfolding keeps_running_def fair_def by blast+

lemma execution_inv: "workers_inv (execution a i)"
  by (induction i) (simp_all add: TaskOrchestrator_new_inv workers_inv_step)

lemma keeps_running_in_use:
  assumes "keeps_running a i n" "i \<le> j"
  shows "in_use (execution a j)" "length (to_workers (execution a j)) = n" "a j \<noteq> StopWorkers"
proof -
  have "in_use (execution a j) \<and> length (to_workers (execution a j)) = n" using assms(2)
  proof (induction rule: dec_induct)
    case base
    then show ?case using assms(1) execution_inv by (simp add: keeps_running_def in_use_def)
  next
    case (step k)
    then show ?case using assms(1) in_use_step[of "execution a k" "a k"] workers_length[of "execution a k" "a k"]
      by (simp add: keeps_running_def)
  qed
  then show "in_use (execution a j)" "length (to_workers (execution a j)) = n" by simp_all
  show "a j \<noteq> StopWorkers" using assms by (simp add: keeps_running_def)
qed

text \<open>While the workers do not change, the queue only grows.\<close>

lemma quiet_extends:
  assumes run: "keeps_running a i n" and tasks: "to_tasks (execution a i) \<noteq> []"
    and quiet: "\<forall>k. i \<le> k \<longrightarrow> k < j \<longrightarrow> to_workers (execution a (Suc k)) = to_workers (execution a k)" and ij: "i \<le> j"
  shows "to_workers (execution a j) = to_workers (execution a i) \<and> extends (to_tasks (execution a i)) (to_tasks (execution a j))"
  using ij quiet
proof (induction rule: dec_induct)
  case (step k)
  then have same: "to_workers (execution a k) = to_workers (execution a i)" and ext: "extends (to_tasks (execution a i)) (to_tasks (execution a k))"
    and kk: "to_workers (execution a (Suc k)) = to_workers (execution a k)" by auto
  have "to_tasks (execution a k) \<noteq> []" using tasks ext by (auto simp: extends_def)
  then have "takes_first (a k) (execution a k) (execution a (Suc k)) \<or> nearer (execution a k) (execution a (Suc k))"
    using step_cases keeps_running_in_use[OF run \<open>i \<le> k\<close>] by simp
  moreover have "\<not> takes_first (a k) (execution a k) (execution a (Suc k))"
  proof
    assume "takes_first (a k) (execution a k) (execution a (Suc k))"
    then obtain w where w: "a k = Work w" "w < length (to_workers (execution a k))"
      and upd: "(to_workers (execution a k))[w := Running (hd (to_tasks (execution a k)))] = to_workers (execution a k)"
      and tl: "to_tasks (execution a (Suc k)) = tl (to_tasks (execution a k))" using kk by (auto simp: takes_first_def)
    then have "to_workers (execution a k) ! w = Running (hd (to_tasks (execution a k)))" by (metis nth_list_update_eq)
    then have "to_tasks (execution a (Suc k)) = to_tasks (execution a k)"
      using w by (simp add: task_exec_def task_step_def WorkerLoop_def set_worker_def)
    then show False using tl \<open>to_tasks (execution a k) \<noteq> []\<close> by (metis length_tl diff_less length_greater_0_conv less_irrefl zero_less_one)
  qed
  ultimately show ?case using ext same kk by (auto simp: nearer_def intro: extends_trans)
qed simp

lemma workers_change:
  assumes run: "keeps_running a i n" and n: "0 < n" and tasks: "to_tasks (execution a i) \<noteq> []"
  shows "\<exists>j\<ge>i. to_workers (execution a (Suc j)) \<noteq> to_workers (execution a j)"
proof (rule ccontr)
  assume "\<not> ?thesis"
  then have quiet: "\<And>k. i \<le> k \<Longrightarrow> to_workers (execution a (Suc k)) = to_workers (execution a k)" by auto
  let ?ws = "to_workers (execution a i)"
  have always: "to_workers (execution a j) = ?ws" "to_tasks (execution a j) \<noteq> []" if "i \<le> j" for j
    using quiet_extends[OF run tasks _ that] quiet tasks by (auto simp: extends_def)
  have len: "length ?ws = n" using run by (simp add: keeps_running_def)
  show False
  proof (cases "somebody_awake ?ws")
    case True
    then obtain w where w: "w < n" "?ws ! w \<noteq> Sleeping" using len by (auto simp: somebody_awake_def in_set_conv_nth)
    then obtain j where j: "i \<le> j" "a j = Work w" using turns(1)[OF run] by blast
    then show False using somebody_moves(1)[of "execution a j" w] keeps_running_in_use[OF run j(1)] always[OF j(1)] quiet[OF j(1)] w len
      by simp
  next
    case False
    obtain j v where j: "i \<le> j" "a j = Signal v" using turns(2)[OF run] by blast
    then show False using somebody_moves(2)[of "execution a j" v] keeps_running_in_use[OF run j(1)] always[OF j(1)] quiet[OF j(1)] False n len
      by auto
  qed
qed

lemma eventually_taken:
  assumes "keeps_running a i n" "0 < n" "to_tasks (execution a i) \<noteq> []"
  shows "\<exists>j\<ge>i. takes_first (a j) (execution a j) (execution a (Suc j)) \<and> extends (to_tasks (execution a i)) (to_tasks (execution a j))"
  using assms
proof (induction "rank (execution a i)" arbitrary: i rule: less_induct)
  case less
  define j where "j = (LEAST j. i \<le> j \<and> to_workers (execution a (Suc j)) \<noteq> to_workers (execution a j))"
  have j: "i \<le> j" "to_workers (execution a (Suc j)) \<noteq> to_workers (execution a j)"
    using LeastI_ex[OF workers_change[OF less.prems]] by (simp_all add: j_def)
  have "\<forall>k. i \<le> k \<longrightarrow> k < j \<longrightarrow> to_workers (execution a (Suc k)) = to_workers (execution a k)"
    using not_less_Least by (fastforce simp: j_def)
  note same = quiet_extends[OF less.prems(1,3) this j(1)]
  then have tasks: "to_tasks (execution a j) \<noteq> []" using less.prems(3) by (auto simp: extends_def)
  note use = keeps_running_in_use[OF less.prems(1)]
  consider (take) "takes_first (a j) (execution a j) (execution a (Suc j))" | (near) "nearer (execution a j) (execution a (Suc j))"
    using step_cases[OF use(1)[OF j(1)] tasks use(3)[OF j(1)]] by auto
  then show ?case
  proof cases
    case near
    have "keeps_running a (Suc j) n" using less.prems(1) use[of "Suc j"] j(1) by (simp add: keeps_running_def in_use_def)
    moreover have "rank (execution a (Suc j)) < rank (execution a i)" "extends (to_tasks (execution a i)) (to_tasks (execution a (Suc j)))"
      using near j(2) same by (auto simp: nearer_def rank_def intro: extends_trans)
    moreover have "to_tasks (execution a (Suc j)) \<noteq> []" using calculation(3) less.prems(3) by (auto simp: extends_def)
    ultimately obtain k where "Suc j \<le> k" "takes_first (a k) (execution a k) (execution a (Suc k))"
      "extends (to_tasks (execution a (Suc j))) (to_tasks (execution a k))" using less.hyps less.prems(2) by blast
    then show ?thesis using j(1) \<open>extends (to_tasks (execution a i)) (to_tasks (execution a (Suc j)))\<close>
      by (intro exI[of _ k]) (auto intro: extends_trans)
  qed (use j same in auto)
qed

text \<open>A worker that holds a task keeps it until its next turn, and then executes it.\<close>

lemma others_keep_task:
  "in_use s \<Longrightarrow> w < length (to_workers s) \<Longrightarrow> to_workers s ! w = Running t \<Longrightarrow> a \<noteq> Work w \<Longrightarrow> a \<noteq> StopWorkers \<Longrightarrow>
     to_workers (task_exec a s) ! w = Running t"
proof (cases a)
  case (Signal v)
  assume "to_workers s ! w = Running t"
  then show ?thesis using Signal
    by (cases rule: wake_one_cases[of v "to_workers s"]) (auto simp: task_exec_def task_step_def nth_list_update)
qed (auto simp: in_use_def workers_inv_def step_defs WorkerLoop_def wake_def nth_list_update
    split: option.splits worker.splits list.splits waiter.splits if_splits)

lemma eventually_executed:
  assumes run: "keeps_running a i n" and w: "w < n" "to_workers (execution a i) ! w = Running t"
  shows "\<exists>j\<ge>i. executes (a j) (execution a j) = Some t"
proof -
  obtain m where m: "i \<le> m" "a m = Work w" using turns(1)[OF run w(1)] by blast
  define j where "j = (LEAST j. i \<le> j \<and> a j = Work w)"
  have j: "i \<le> j" "a j = Work w" using LeastI[of "\<lambda>j. i \<le> j \<and> a j = Work w" m] m by (simp_all add: j_def)
  have before: "a k \<noteq> Work w" if "i \<le> k" "k < j" for k using not_less_Least[of k "\<lambda>j. i \<le> j \<and> a j = Work w"] that by (auto simp: j_def)
  note use = keeps_running_in_use[OF run]
  have "i \<le> k \<Longrightarrow> k \<le> j \<Longrightarrow> to_workers (execution a k) ! w = Running t" for k
  proof (induction rule: dec_induct)
    case (step k)
    then show ?case using others_keep_task[OF use(1)] use(2,3)[of k] before[of k] w(1) by simp
  qed (rule w(2))
  then have "to_workers (execution a j) ! w = Running t" using j by simp
  then show ?thesis using j use(2)[OF j(1)] w(1) by (auto simp: executes_def)
qed

text \<open>
  C32.  Under a fair scheduler every task in the queue is executed, as long as there is a worker and nobody calls
  \<^verbatim>\<open>Stop\<close>: no task is lost to a missed notification and none is overtaken for ever.
\<close>

theorem every_task_runs:
  assumes "keeps_running a i n" and "0 < n" and "t \<in> set (to_tasks (execution a i))"
  shows "\<exists>j\<ge>i. executes (a j) (execution a j) = Some t"
proof -
  obtain p where p: "p < length (to_tasks (execution a i))" "to_tasks (execution a i) ! p = t" using assms(3) by (auto simp: in_set_conv_nth)
  show ?thesis using assms(1) p
  proof (induction p arbitrary: i)
    case 0
    note use = keeps_running_in_use[OF 0(1)]
    have first: "to_tasks (execution a i) = t # tl (to_tasks (execution a i))" using 0 by (cases "to_tasks (execution a i)") auto
    then obtain j where j: "i \<le> j" "takes_first (a j) (execution a j) (execution a (Suc j))"
      and ext: "extends (to_tasks (execution a i)) (to_tasks (execution a j))"
      using eventually_taken[OF 0(1) assms(2)] by (metis list.distinct(1))
    have "hd (to_tasks (execution a j)) = t" using ext first by (metis append_Cons extends_def list.sel(1))
    then obtain w where w: "w < n" "to_workers (execution a (Suc j)) ! w = Running t"
      using j use(2)[OF j(1)] by (auto simp: takes_first_def)
    have "keeps_running a (Suc j) n" using 0(1) use[of "Suc j"] j(1) by (simp add: keeps_running_def in_use_def)
    from eventually_executed[OF this w] show ?case using j(1) by (meson Suc_leD le_trans)
  next
    case (Suc p)
    note use = keeps_running_in_use[OF Suc.prems(1)]
    have "to_tasks (execution a i) \<noteq> []" using Suc.prems(2) by auto
    then obtain j where j: "i \<le> j" "takes_first (a j) (execution a j) (execution a (Suc j))"
      and ext: "extends (to_tasks (execution a i)) (to_tasks (execution a j))"
      using eventually_taken[OF Suc.prems(1) assms(2)] by blast
    have "Suc p < length (to_tasks (execution a j))" "to_tasks (execution a j) ! Suc p = t"
      using ext Suc.prems(2,3) by (auto simp: extends_def nth_append)
    then have "p < length (to_tasks (execution a (Suc j)))" "to_tasks (execution a (Suc j)) ! p = t"
      using j(2) by (auto simp: takes_first_def nth_tl)
    moreover have "keeps_running a (Suc j) n" using Suc.prems(1) use[of "Suc j"] j(1) by (simp add: keeps_running_def in_use_def)
    ultimately obtain k where "Suc j \<le> k" "executes (a k) (execution a k) = Some t" using Suc.IH by blast
    then show ?case using j(1) by (intro exI[of _ k]) simp
  qed
qed

definition example_schedule :: "nat \<Rightarrow> action" where
  "example_schedule i = (if i = 0 then StartWorkers 1 else if i = 1 then Post 4 else if even i then Work 0 else Signal 0)"

theorem every_task_runs_witness: "\<exists>j. executes (example_schedule j) (execution example_schedule j) = Some \<lparr>tk_work = 4, tk_isFrameWork = False\<rparr>"
proof -
  have "example_schedule (2 * i + 2) = Work 0" "example_schedule (2 * i + 3) = Signal 0" for i by (simp_all add: example_schedule_def)
  then have "\<exists>j\<ge>i. example_schedule j = Work 0" "\<exists>j\<ge>i. \<exists>w. example_schedule j = Signal w" for i
    using exI[of "\<lambda>j. i \<le> j \<and> example_schedule j = Work 0" "2 * i + 2"]
      exI[of "\<lambda>j. i \<le> j \<and> (\<exists>w. example_schedule j = Signal w)" "2 * i + 3"] by auto
  then have "fair example_schedule 1" by (simp add: fair_def)
  moreover have start: "execution example_schedule 2 = fold task_exec [StartWorkers 1, Post 4] TaskOrchestrator_new"
    by (simp add: numeral_2_eq_2 example_schedule_def)
  moreover have state: "to_running (fold task_exec [StartWorkers 1, Post 4] TaskOrchestrator_new)"
    "length (to_workers (fold task_exec [StartWorkers 1, Post 4] TaskOrchestrator_new)) = 1"
    "to_tasks (fold task_exec [StartWorkers 1, Post 4] TaskOrchestrator_new) = [\<lparr>tk_work = 4, tk_isFrameWork = False\<rparr>]" by code_simp+
  moreover have "\<forall>j\<ge>2. example_schedule j \<noteq> StopWorkers" by (simp add: example_schedule_def)
  ultimately have "keeps_running example_schedule 2 1" unfolding keeps_running_def start by blast
  from every_task_runs[OF this, of "\<lparr>tk_work = 4, tk_isFrameWork = False\<rparr>"] show ?thesis unfolding start state(3) by auto
qed

end
