(* ===== verification/Loading_Orchestrator.thy ===== *)
theory Loading_Orchestrator
  imports Text_Util
begin

text \<open>
  \<^verbatim>\<open>KenshiMP.Core/game/loading_orchestrator.cpp\<close>: the loading phases of the game, the resources that are being
  loaded, and the gate for spawning.  A clock reading in nanoseconds is an argument; a time point that was never set is
  the clock's epoch.  A change of phase is recorded as the event the code gives to the pipeline debugger, and the
  spawn gate callback as the value it gets.
\<close>

section \<open>State and operations\<close>

datatype LoadingPhase = Idle | InitialLoad | ZoneTransition | SpawnLoad

fun loading_code :: "LoadingPhase \<Rightarrow> u8" where
  "loading_code Idle = 0"
| "loading_code InitialLoad = 1"
| "loading_code ZoneTransition = 2"
| "loading_code SpawnLoad = 3"

record ResourceState =
  rs_name :: bytes
  rs_type :: bytes
  rs_loaded :: bool
  rs_failed :: bool
  rs_requestTime :: int
  rs_completedTime :: int

record LoadingOrchestrator =
  lo_phase :: LoadingPhase
  lo_resources :: "(bytes, ResourceState) umap"
  lo_pending :: "bytes list"
  lo_totalLoaded :: nat
  lo_burstCount :: nat
  lo_gameLoaded :: bool
  lo_inBurst :: bool
  lo_burstStartTime :: int
  lo_lastLoadCompleteTime :: int
  lo_zoneLoadEndTime :: int
  lo_hasResourceHooks :: bool
  lo_gate :: "bool option"
  lo_hasCallback :: bool
  lo_phaseChanges :: "(LoadingPhase \<times> LoadingPhase) list"

definition LoadingOrchestrator_new :: LoadingOrchestrator where
  "LoadingOrchestrator_new = \<lparr>lo_phase = InitialLoad, lo_resources = [], lo_pending = [], lo_totalLoaded = 0, lo_burstCount = 0,
     lo_gameLoaded = False, lo_inBurst = False, lo_burstStartTime = 0, lo_lastLoadCompleteTime = 0, lo_zoneLoadEndTime = 0,
     lo_hasResourceHooks = False, lo_gate = None, lo_hasCallback = False, lo_phaseChanges = []\<rparr>"

definition SPAWN_COOLDOWN_MS :: int where "SPAWN_COOLDOWN_MS = 2000"

definition ZONE_SETTLE_MS :: int where "ZONE_SETTLE_MS = 1500"

definition BURST_TIMEOUT_MS :: int where "BURST_TIMEOUT_MS = 30000"

text \<open>\<^verbatim>\<open>duration_cast<milliseconds>\<close> truncates towards zero.\<close>

definition whole_millis :: "int \<Rightarrow> int" where
  "whole_millis ns = sgn ns * (\<bar>ns\<bar> div 1000000)"

definition Loading_TransitionTo :: "LoadingPhase \<Rightarrow> LoadingOrchestrator \<Rightarrow> LoadingOrchestrator" where
  "Loading_TransitionTo p s = (if lo_phase s = p then s
     else s\<lparr>lo_phase := p, lo_phaseChanges := lo_phaseChanges s @ [(lo_phase s, p)]\<rparr>)"

definition IsSafeToSpawn :: "int \<Rightarrow> LoadingOrchestrator \<Rightarrow> bool" where
  "IsSafeToSpawn now s =
     (if lo_phase s \<noteq> Idle then False
      else if lo_inBurst s then False
      else if \<not> lo_gameLoaded s then False
      else if lo_hasResourceHooks s \<and> lo_pending s \<noteq> [] then False
      else if whole_millis (now - lo_lastLoadCompleteTime s) < SPAWN_COOLDOWN_MS then False
      else True)"

definition loading_phase_name :: "LoadingPhase \<Rightarrow> bytes" where
  "loading_phase_name p = (case p of InitialLoad \<Rightarrow> lit ''InitialLoad'' | ZoneTransition \<Rightarrow> lit ''ZoneTransition''
     | SpawnLoad \<Rightarrow> lit ''SpawnLoad'' | Idle \<Rightarrow> lit ''?'')"

definition GetSpawnBlockReason :: "int \<Rightarrow> LoadingOrchestrator \<Rightarrow> bytes" where
  "GetSpawnBlockReason now s =
     (if lo_phase s \<noteq> Idle then lit ''Phase='' @ loading_phase_name (lo_phase s) @ lit '' (need Idle)''
      else if lo_inBurst s then lit ''Burst in progress''
      else if \<not> lo_gameLoaded s then lit ''Game not loaded (OnGameLoaded never fired)''
      else if lo_hasResourceHooks s \<and> lo_pending s \<noteq> [] then lit ''Pending resources: '' @ dec_nat (length (lo_pending s))
      else let elapsed = whole_millis (now - lo_lastLoadCompleteTime s) in
        if elapsed < SPAWN_COOLDOWN_MS then lit ''Cooldown: '' @ dec_int (SPAWN_COOLDOWN_MS - elapsed) @ lit ''ms remaining''
        else lit ''OK'')"

definition OnResourceRequested :: "int \<Rightarrow> bytes \<Rightarrow> bytes \<Rightarrow> LoadingOrchestrator \<Rightarrow> LoadingOrchestrator" where
  "OnResourceRequested now name type s =
     (let old = (case um_find (lo_resources s) name of None \<Rightarrow> \<lparr>rs_name = [], rs_type = [], rs_loaded = False, rs_failed = False,
            rs_requestTime = 0, rs_completedTime = 0\<rparr> | Some x \<Rightarrow> x)
      in s\<lparr>lo_pending := List.insert name (lo_pending s),
           lo_resources := um_set name (old\<lparr>rs_name := name, rs_type := type, rs_loaded := False, rs_failed := False, rs_requestTime := now\<rparr>)
             (lo_resources s),
           lo_hasResourceHooks := True\<rparr>)"

definition OnResourceLoaded :: "int \<Rightarrow> bytes \<Rightarrow> LoadingOrchestrator \<Rightarrow> LoadingOrchestrator" where
  "OnResourceLoaded now name s = s\<lparr>lo_pending := removeAll name (lo_pending s),
     lo_resources := um_modify name (\<lambda>x. x\<lparr>rs_loaded := True, rs_completedTime := now\<rparr>) (lo_resources s),
     lo_totalLoaded := lo_totalLoaded s + 1, lo_lastLoadCompleteTime := now\<rparr>"

definition OnResourceFailed :: "int \<Rightarrow> bytes \<Rightarrow> LoadingOrchestrator \<Rightarrow> LoadingOrchestrator" where
  "OnResourceFailed now name s = s\<lparr>lo_pending := removeAll name (lo_pending s),
     lo_resources := um_modify name (\<lambda>x. x\<lparr>rs_failed := True, rs_completedTime := now\<rparr>) (lo_resources s),
     lo_lastLoadCompleteTime := now\<rparr>"

definition OnBurstDetected :: "int \<Rightarrow> LoadingOrchestrator \<Rightarrow> LoadingOrchestrator" where
  "OnBurstDetected now s = (let s1 = s\<lparr>lo_inBurst := True, lo_burstStartTime := now, lo_burstCount := lo_burstCount s + 1\<rparr> in
     if lo_phase s1 = Idle \<and> lo_gameLoaded s1 then Loading_TransitionTo ZoneTransition s1 else s1)"

definition OnBurstEnded :: "int \<Rightarrow> LoadingOrchestrator \<Rightarrow> LoadingOrchestrator" where
  "OnBurstEnded now s = (let s1 = s\<lparr>lo_inBurst := False, lo_lastLoadCompleteTime := now\<rparr> in
     if lo_phase s1 = InitialLoad \<or> lo_phase s1 = ZoneTransition then Loading_TransitionTo Idle s1 else s1)"

definition Loading_OnGameLoaded :: "int \<Rightarrow> LoadingOrchestrator \<Rightarrow> LoadingOrchestrator" where
  "Loading_OnGameLoaded now s = (let s1 = s\<lparr>lo_gameLoaded := True, lo_lastLoadCompleteTime := now\<rparr> in
     if lo_phase s1 = InitialLoad then Loading_TransitionTo Idle s1 else s1)"

definition OnZoneLoadStart :: "LoadingOrchestrator \<Rightarrow> LoadingOrchestrator" where
  "OnZoneLoadStart s = (if lo_gameLoaded s then Loading_TransitionTo ZoneTransition s else s)"

definition OnZoneLoadEnd :: "int \<Rightarrow> LoadingOrchestrator \<Rightarrow> LoadingOrchestrator" where
  "OnZoneLoadEnd now s = s\<lparr>lo_zoneLoadEndTime := now, lo_lastLoadCompleteTime := now\<rparr>"

text \<open>The phase is read once, before the burst is cleared.\<close>

definition Loading_Tick :: "int \<Rightarrow> LoadingOrchestrator \<Rightarrow> LoadingOrchestrator" where
  "Loading_Tick now s =
     (let phase = lo_phase s;
          s1 = (if lo_inBurst s \<and> BURST_TIMEOUT_MS \<le> whole_millis (now - lo_burstStartTime s)
                then let s' = s\<lparr>lo_inBurst := False, lo_lastLoadCompleteTime := now\<rparr> in
                  if phase = InitialLoad \<or> phase = ZoneTransition then Loading_TransitionTo Idle s' else s'
                else s);
          s2 = (if phase = ZoneTransition \<and> \<not> lo_inBurst s1 \<and> ZONE_SETTLE_MS \<le> whole_millis (now - lo_zoneLoadEndTime s1)
                then Loading_TransitionTo Idle s1 else s1)
      in if lo_hasCallback s2 then s2\<lparr>lo_gate := Some (IsSafeToSpawn now s2)\<rparr> else s2)"

definition SetSpawnGateCallback :: "bool \<Rightarrow> LoadingOrchestrator \<Rightarrow> LoadingOrchestrator" where
  "SetSpawnGateCallback present s = s\<lparr>lo_hasCallback := present\<rparr>"

section \<open>Runs\<close>

datatype loading_op =
    LoResourceRequested int bytes bytes
  | LoResourceLoaded int bytes
  | LoResourceFailed int bytes
  | LoBurstDetected int
  | LoBurstEnded int
  | LoGameLoaded int
  | LoZoneStart
  | LoZoneEnd int
  | LoTick int
  | LoSetCallback bool

fun loading_apply :: "loading_op \<Rightarrow> LoadingOrchestrator \<Rightarrow> LoadingOrchestrator" where
  "loading_apply (LoResourceRequested now name type) s = OnResourceRequested now name type s"
| "loading_apply (LoResourceLoaded now name) s = OnResourceLoaded now name s"
| "loading_apply (LoResourceFailed now name) s = OnResourceFailed now name s"
| "loading_apply (LoBurstDetected now) s = OnBurstDetected now s"
| "loading_apply (LoBurstEnded now) s = OnBurstEnded now s"
| "loading_apply (LoGameLoaded now) s = Loading_OnGameLoaded now s"
| "loading_apply LoZoneStart s = OnZoneLoadStart s"
| "loading_apply (LoZoneEnd now) s = OnZoneLoadEnd now s"
| "loading_apply (LoTick now) s = Loading_Tick now s"
| "loading_apply (LoSetCallback b) s = SetSpawnGateCallback b s"

fun changes_from :: "LoadingPhase \<Rightarrow> (LoadingPhase \<times> LoadingPhase) list \<Rightarrow> LoadingPhase \<Rightarrow> bool" where
  "changes_from p [] q \<longleftrightarrow> p = q"
| "changes_from p ((a, b) # xs) q \<longleftrightarrow> a = p \<and> a \<noteq> b \<and> changes_from b xs q"

definition outstanding :: "ResourceState option \<Rightarrow> bool" where
  "outstanding x \<longleftrightarrow> (case x of None \<Rightarrow> False | Some r \<Rightarrow> \<not> rs_loaded r \<and> \<not> rs_failed r)"

definition resources_inv :: "LoadingOrchestrator \<Rightarrow> bool" where
  "resources_inv s \<longleftrightarrow> um_wf (lo_resources s) \<and> (\<forall>name. name \<in> set (lo_pending s) \<longleftrightarrow> outstanding (um_find (lo_resources s) name))"

definition phase_inv :: "LoadingOrchestrator \<Rightarrow> bool" where
  "phase_inv s \<longleftrightarrow> lo_phase s \<noteq> SpawnLoad \<and> (lo_gameLoaded s \<longrightarrow> lo_phase s \<noteq> InitialLoad) \<and>
     changes_from InitialLoad (lo_phaseChanges s) (lo_phase s)"

lemma TransitionTo_simps [simp]:
  "lo_phase (Loading_TransitionTo p s) = p" "lo_gameLoaded (Loading_TransitionTo p s) = lo_gameLoaded s"
  "lo_inBurst (Loading_TransitionTo p s) = lo_inBurst s" "lo_pending (Loading_TransitionTo p s) = lo_pending s"
  "lo_resources (Loading_TransitionTo p s) = lo_resources s" "lo_hasCallback (Loading_TransitionTo p s) = lo_hasCallback s"
  "lo_lastLoadCompleteTime (Loading_TransitionTo p s) = lo_lastLoadCompleteTime s"
  "lo_zoneLoadEndTime (Loading_TransitionTo p s) = lo_zoneLoadEndTime s"
  "lo_burstStartTime (Loading_TransitionTo p s) = lo_burstStartTime s"
  "lo_hasResourceHooks (Loading_TransitionTo p s) = lo_hasResourceHooks s"
  by (simp_all add: Loading_TransitionTo_def)

lemma changes_snoc: "changes_from p xs q \<Longrightarrow> q \<noteq> r \<Longrightarrow> changes_from p (xs @ [(q, r)]) r"
  by (induction p xs q rule: changes_from.induct) auto

lemma TransitionTo_changes:
  "changes_from InitialLoad (lo_phaseChanges s) (lo_phase s) \<Longrightarrow> changes_from InitialLoad (lo_phaseChanges (Loading_TransitionTo p s)) p"
  by (auto simp: Loading_TransitionTo_def changes_snoc)

lemma resources_step: "resources_inv s \<Longrightarrow> resources_inv (loading_apply x s)"
  by (cases x)
    (auto simp: resources_inv_def OnResourceRequested_def OnResourceLoaded_def OnResourceFailed_def OnBurstDetected_def OnBurstEnded_def
      Loading_OnGameLoaded_def OnZoneLoadStart_def OnZoneLoadEnd_def Loading_Tick_def SetSpawnGateCallback_def Let_def
      um_find_set um_find_modify outstanding_def split: option.splits)

lemma phase_step: "phase_inv s \<Longrightarrow> phase_inv (loading_apply x s)"
  by (cases x)
    (auto simp: phase_inv_def OnResourceRequested_def OnResourceLoaded_def OnResourceFailed_def OnBurstDetected_def OnBurstEnded_def
      Loading_OnGameLoaded_def OnZoneLoadStart_def OnZoneLoadEnd_def Loading_Tick_def SetSpawnGateCallback_def Let_def
      intro!: TransitionTo_changes)

interpretation loading_run: run_invariant loading_apply "\<lambda>_ _. True" "\<lambda>s. resources_inv s \<and> phase_inv s"
  by unfold_locales (auto intro: resources_step phase_step)

lemma run_ok_true: "run_ok (\<lambda>_ _. True) f xs s"
  by (induction xs arbitrary: s) simp_all

lemma loading_inv: "resources_inv (fold loading_apply xs LoadingOrchestrator_new) \<and> phase_inv (fold loading_apply xs LoadingOrchestrator_new)"
proof -
  have "resources_inv LoadingOrchestrator_new \<and> phase_inv LoadingOrchestrator_new"
    by (simp add: resources_inv_def phase_inv_def LoadingOrchestrator_new_def outstanding_def um_wf_def um_keys_def)
  from loading_run.run[OF this run_ok_true] show ?thesis .
qed

text \<open>
  After any events a resource is pending exactly when it was requested and has neither been loaded nor failed since,
  the phase \<open>SpawnLoad\<close> is never entered, \<open>InitialLoad\<close> is over once the game is loaded, and the reported phase
  changes lead step by step from the start to the current phase.
\<close>

theorem loading_state_exact:
  fixes xs defines "s \<equiv> fold loading_apply xs LoadingOrchestrator_new"
  shows "(name \<in> set (lo_pending s) \<longleftrightarrow> outstanding (um_find (lo_resources s) name)) \<and> lo_phase s \<noteq> SpawnLoad \<and>
    \<not> (lo_gameLoaded s \<and> lo_phase s = InitialLoad) \<and> changes_from InitialLoad (lo_phaseChanges s) (lo_phase s)"
  using loading_inv[of xs] by (simp add: s_def resources_inv_def phase_inv_def)

section \<open>The gate and its explanation\<close>

lemma lit_inject [simp]: "lit s = lit t \<longleftrightarrow> map of_char s = (map of_char t :: byte list)"
  by (simp add: lit_def)

text \<open>
  The text that says why spawning is blocked is \<open>OK\<close> exactly when spawning is allowed at that time.
\<close>

theorem block_reason_agrees: "GetSpawnBlockReason now s = lit ''OK'' \<longleftrightarrow> IsSafeToSpawn now s"
  by (simp add: GetSpawnBlockReason_def IsSafeToSpawn_def Let_def lit_def)

section \<open>The gate opens again\<close>

definition quiet_since :: "int \<Rightarrow> LoadingOrchestrator \<Rightarrow> bool" where
  "quiet_since now s \<longleftrightarrow> lo_burstStartTime s + 30000000000 \<le> now \<and> lo_zoneLoadEndTime s + 1500000000 \<le> now \<and>
     lo_lastLoadCompleteTime s \<le> now"

lemma whole_millis_ge: "0 \<le> k \<Longrightarrow> k * 1000000 \<le> ns \<Longrightarrow> k \<le> whole_millis ns"
proof -
  assume k: "0 \<le> k" and ns: "k * 1000000 \<le> ns"
  show "k \<le> whole_millis ns"
  proof (cases "ns = 0")
    case True
    then show ?thesis using ns by (simp add: whole_millis_def)
  next
    case False
    then have "0 < ns" using k ns by linarith
    then show ?thesis using ns zdiv_mono1[OF ns, of 1000000] by (simp add: whole_millis_def)
  qed
qed

lemma Tick_idle:
  assumes "phase_inv s" "lo_gameLoaded s" "quiet_since now s"
  shows "lo_phase (Loading_Tick now s) = Idle" "\<not> lo_inBurst (Loading_Tick now s)" "lo_gameLoaded (Loading_Tick now s)"
    "lo_pending (Loading_Tick now s) = lo_pending s" "lo_lastLoadCompleteTime (Loading_Tick now s) \<le> now"
proof -
  have burst: "BURST_TIMEOUT_MS \<le> whole_millis (now - lo_burstStartTime s)"
    and zone: "ZONE_SETTLE_MS \<le> whole_millis (now - lo_zoneLoadEndTime s)"
    using assms(3) by (auto simp: quiet_since_def BURST_TIMEOUT_MS_def ZONE_SETTLE_MS_def intro!: whole_millis_ge)
  have "lo_phase s = Idle \<or> lo_phase s = ZoneTransition" using assms(1,2) by (cases "lo_phase s") (auto simp: phase_inv_def)
  then show "lo_phase (Loading_Tick now s) = Idle" "\<not> lo_inBurst (Loading_Tick now s)" "lo_gameLoaded (Loading_Tick now s)"
    "lo_pending (Loading_Tick now s) = lo_pending s" "lo_lastLoadCompleteTime (Loading_Tick now s) \<le> now"
    using assms burst zone by (auto simp: Loading_Tick_def Let_def quiet_since_def)
qed

text \<open>
  C18.  Spawning is never blocked for ever: whatever happened before, once the game is loaded and no resource is
  pending, a tick 30 seconds after the last burst began and 1.5 seconds after the last zone load, with no event
  afterwards, lets spawning pass two seconds later, even if the end of the burst was never reported.
\<close>

theorem gate_opens:
  fixes xs defines "s \<equiv> fold loading_apply xs LoadingOrchestrator_new"
  assumes "lo_gameLoaded s" and "lo_pending s = []" and "quiet_since now s" and "now + 2000000000 \<le> later"
  shows "IsSafeToSpawn later (Loading_Tick now s)"
proof -
  have "phase_inv s" using loading_inv by (simp add: s_def)
  note tick = Tick_idle[OF this assms(2,4)]
  have "SPAWN_COOLDOWN_MS \<le> whole_millis (later - lo_lastLoadCompleteTime (Loading_Tick now s))"
    using tick(5) assms(5) by (auto simp: SPAWN_COOLDOWN_MS_def intro!: whole_millis_ge)
  then show ?thesis using tick assms(3) by (simp add: IsSafeToSpawn_def)
qed

definition example_loading :: "loading_op list" where
  "example_loading = [LoResourceRequested 5 (lit ''hair'') (lit ''mesh''), LoGameLoaded 10, LoResourceFailed 20 (lit ''hair''), LoBurstDetected 30]"

theorem gate_opens_witness:
  "IsSafeToSpawn 33000000000 (Loading_Tick 31000000000 (fold loading_apply example_loading LoadingOrchestrator_new)) \<and>
   lo_inBurst (fold loading_apply example_loading LoadingOrchestrator_new)"
proof -
  have "lo_gameLoaded (fold loading_apply example_loading LoadingOrchestrator_new)" by code_simp
  moreover have "lo_pending (fold loading_apply example_loading LoadingOrchestrator_new) = []" by code_simp
  moreover have "quiet_since 31000000000 (fold loading_apply example_loading LoadingOrchestrator_new)" by code_simp
  moreover have "lo_inBurst (fold loading_apply example_loading LoadingOrchestrator_new)" by code_simp
  ultimately show ?thesis using gate_opens[of example_loading 31000000000 33000000000] by simp
qed

text \<open>
  The start of a zone load does not reset the end of the load before it, so the next tick takes the old end for the new
  one and leaves the transition at once.
\<close>

definition two_zone_loads :: "loading_op list" where
  "two_zone_loads = [LoGameLoaded 0, LoZoneStart, LoZoneEnd 1000000000, LoTick 3000000000, LoZoneStart]"

lemma zone_load_ends_early:
  "lo_phase (fold loading_apply two_zone_loads LoadingOrchestrator_new) = ZoneTransition"
  "lo_phase (fold loading_apply (two_zone_loads @ [LoTick 3000000001]) LoadingOrchestrator_new) = Idle"
  "IsSafeToSpawn 3000000001 (fold loading_apply (two_zone_loads @ [LoTick 3000000001]) LoadingOrchestrator_new)"
  by code_simp+

end
