(* ===== verification/Pipeline_Orchestrator.thy ===== *)
theory Pipeline_Orchestrator
  imports Loading_Orchestrator Player_Engine Wire_Properties Example_Server
begin

text \<open>
  \<^verbatim>\<open>KenshiMP.Core/sync/pipeline_orchestrator.cpp\<close> and \<^verbatim>\<open>pipeline_state.h\<close>: the pipeline debugger, which collects
  a snapshot of the client once a second, exchanges snapshots and events with the other clients through the server,
  and watches for anomalies.  What the snapshot reads from the hooks, the spawn manager, the network and the core is
  the record \<open>snapshot_input\<close>; the registry and the loading orchestrator are their models.  Clock readings in
  nanoseconds are arguments.  The texts for the HUD and for the \<^verbatim>\<open>/pipeline\<close> command are not modelled.
\<close>

section \<open>Snapshots and events\<close>

type_synonym PipelineEventType = u8

definition PhaseChanged :: PipelineEventType where "PhaseChanged = 0x13"

record PipelineEvent =
  ev_type :: PipelineEventType
  ev_severity :: u8
  ev_timestamp :: u32
  ev_entityId :: u32
  ev_auxData :: u32
  ev_detail :: bytes

record PipelineSnapshot =
  ps_playerId :: u32
  ps_totalCreates :: u16
  ps_totalDestroys :: u16
  ps_burstCount :: u16
  ps_hookFlags :: u8
  ps_inPlaceSpawnCount :: u8
  ps_pendingSpawnCount :: u16
  ps_templateCount :: u16
  ps_factoryFlags :: u8
  ps_charTemplateCount :: u8
  ps_loadingPhase :: u8
  ps_pendingResources :: u8
  ps_orchFlags :: u8
  ps_reserved1 :: u8
  ps_localEntityCount :: u16
  ps_remoteEntityCount :: u16
  ps_spawnedRemoteCount :: u16
  ps_ghostCount :: u16
  ps_lastCompletedStep :: u8
  ps_coreFlags :: u8
  ps_ping :: u16
  ps_uptimeSeconds :: u32
  ps_syncTickCount :: u16
  ps_syncFlags :: u8
  ps_reserved2 :: u8
  ps_snapshotTimestamp :: u32
  ps_version :: u8
  ps_reserved3 :: u8

definition PipelineSnapshot_enc :: "PipelineSnapshot \<Rightarrow> bytes" where
  "PipelineSnapshot_enc m = bytes_u32 (ps_playerId m) @
     bytes_u16 (ps_totalCreates m) @
     bytes_u16 (ps_totalDestroys m) @
     bytes_u16 (ps_burstCount m) @
     bytes_u8 (ps_hookFlags m) @
     bytes_u8 (ps_inPlaceSpawnCount m) @
     bytes_u16 (ps_pendingSpawnCount m) @
     bytes_u16 (ps_templateCount m) @
     bytes_u8 (ps_factoryFlags m) @
     bytes_u8 (ps_charTemplateCount m) @
     bytes_u8 (ps_loadingPhase m) @
     bytes_u8 (ps_pendingResources m) @
     bytes_u8 (ps_orchFlags m) @
     bytes_u8 (ps_reserved1 m) @
     bytes_u16 (ps_localEntityCount m) @
     bytes_u16 (ps_remoteEntityCount m) @
     bytes_u16 (ps_spawnedRemoteCount m) @
     bytes_u16 (ps_ghostCount m) @
     bytes_u8 (ps_lastCompletedStep m) @
     bytes_u8 (ps_coreFlags m) @
     bytes_u16 (ps_ping m) @
     bytes_u32 (ps_uptimeSeconds m) @
     bytes_u16 (ps_syncTickCount m) @
     bytes_u8 (ps_syncFlags m) @
     bytes_u8 (ps_reserved2 m) @
     bytes_u32 (ps_snapshotTimestamp m) @
     bytes_u8 (ps_version m) @
     bytes_u8 (ps_reserved3 m)"

definition PipelineSnapshot_dec :: "bytes \<Rightarrow> PipelineSnapshot" where
  "PipelineSnapshot_dec bs = \<lparr>ps_playerId = u32_of (bslice 0 4 bs),
     ps_totalCreates = u16_of (bslice 4 2 bs),
     ps_totalDestroys = u16_of (bslice 6 2 bs),
     ps_burstCount = u16_of (bslice 8 2 bs),
     ps_hookFlags = u8_of (bslice 10 1 bs),
     ps_inPlaceSpawnCount = u8_of (bslice 11 1 bs),
     ps_pendingSpawnCount = u16_of (bslice 12 2 bs),
     ps_templateCount = u16_of (bslice 14 2 bs),
     ps_factoryFlags = u8_of (bslice 16 1 bs),
     ps_charTemplateCount = u8_of (bslice 17 1 bs),
     ps_loadingPhase = u8_of (bslice 18 1 bs),
     ps_pendingResources = u8_of (bslice 19 1 bs),
     ps_orchFlags = u8_of (bslice 20 1 bs),
     ps_reserved1 = u8_of (bslice 21 1 bs),
     ps_localEntityCount = u16_of (bslice 22 2 bs),
     ps_remoteEntityCount = u16_of (bslice 24 2 bs),
     ps_spawnedRemoteCount = u16_of (bslice 26 2 bs),
     ps_ghostCount = u16_of (bslice 28 2 bs),
     ps_lastCompletedStep = u8_of (bslice 30 1 bs),
     ps_coreFlags = u8_of (bslice 31 1 bs),
     ps_ping = u16_of (bslice 32 2 bs),
     ps_uptimeSeconds = u32_of (bslice 34 4 bs),
     ps_syncTickCount = u16_of (bslice 38 2 bs),
     ps_syncFlags = u8_of (bslice 40 1 bs),
     ps_reserved2 = u8_of (bslice 41 1 bs),
     ps_snapshotTimestamp = u32_of (bslice 42 4 bs),
     ps_version = u8_of (bslice 46 1 bs),
     ps_reserved3 = u8_of (bslice 47 1 bs)\<rparr>"

definition PipelineSnapshot_zero :: PipelineSnapshot where
  "PipelineSnapshot_zero = PipelineSnapshot_dec (replicate 48 0)"

interpretation pipeline_snapshot: wire_struct PipelineSnapshot_enc PipelineSnapshot_dec 48 "\<lambda>_. True"
  by unfold_locales (simp_all add: PipelineSnapshot_enc_def PipelineSnapshot_dec_def wire_simps)

datatype AnomalyType = SpawnQueueMismatch | CanSpawnStuck | EntityGhostMismatch | HookNotFiring | PhaseStuck | PingSpike | SnapshotStale

record PipelineAnomaly =
  an_type :: AnomalyType
  an_sourcePlayer :: PlayerID
  an_detectedAt :: u32
  an_description :: bytes
  an_resolved :: bool

definition GetPhaseName :: "u8 \<Rightarrow> bytes" where
  "GetPhaseName p = (if p = 0 then lit ''Idle'' else if p = 1 then lit ''InitLoad'' else if p = 2 then lit ''ZoneTrans''
     else if p = 3 then lit ''SpawnLoad'' else lit ''???'')"

record PipelineOrchestrator =
  po_initialized :: bool
  po_localPlayerId :: PlayerID
  po_connectionStart :: int
  po_lastSnapshotTime :: int
  po_lastAnomalyCheck :: int
  po_gameLoadedTime :: int
  po_gameLoadedTimeSet :: bool
  po_localSnapshot :: PipelineSnapshot
  po_remoteSnapshots :: "(PlayerID, PipelineSnapshot) umap"
  po_remoteTimes :: "(PlayerID, int) umap"
  po_events :: "PipelineEvent list"
  po_pendingBroadcast :: "PipelineEvent list"
  po_anomalies :: "PipelineAnomaly list"
  po_hudVisible :: bool

definition PipelineOrchestrator_new :: PipelineOrchestrator where
  "PipelineOrchestrator_new = \<lparr>po_initialized = False, po_localPlayerId = 0, po_connectionStart = 0, po_lastSnapshotTime = 0,
     po_lastAnomalyCheck = 0, po_gameLoadedTime = 0, po_gameLoadedTimeSet = False, po_localSnapshot = PipelineSnapshot_zero,
     po_remoteSnapshots = [], po_remoteTimes = [], po_events = [], po_pendingBroadcast = [], po_anomalies = [], po_hudVisible = False\<rparr>"

definition EVENT_BROADCAST_BATCH :: nat where "EVENT_BROADCAST_BATCH = 8"

definition MAX_LOCAL_EVENTS :: nat where "MAX_LOCAL_EVENTS = 200"

definition MAX_ANOMALIES :: nat where "MAX_ANOMALIES = 32"

section \<open>Lifecycle\<close>

definition Pipeline_Initialize :: "int \<Rightarrow> PlayerID \<Rightarrow> PipelineOrchestrator \<Rightarrow> PipelineOrchestrator" where
  "Pipeline_Initialize now localId s = s\<lparr>po_localPlayerId := localId, po_connectionStart := now, po_lastSnapshotTime := now,
     po_lastAnomalyCheck := now, po_gameLoadedTimeSet := False, po_initialized := True\<rparr>"

definition Pipeline_Shutdown :: "PipelineOrchestrator \<Rightarrow> PipelineOrchestrator" where
  "Pipeline_Shutdown s = (if \<not> po_initialized s then s
     else s\<lparr>po_initialized := False, po_remoteSnapshots := [], po_remoteTimes := [], po_events := [], po_pendingBroadcast := [],
       po_anomalies := []\<rparr>)"

definition GetTimestampMs :: "int \<Rightarrow> PipelineOrchestrator \<Rightarrow> u32" where
  "GetTimestampMs now s = word_of_int (whole_millis (now - po_connectionStart s))"

section \<open>Collecting a snapshot\<close>

record snapshot_input =
  si_totalCreates :: i32
  si_totalDestroys :: i32
  si_inPlaceSpawnCount :: i32
  si_createHookEnabled :: bool
  si_destroyHookEnabled :: bool
  si_pendingSpawnCount :: nat
  si_templateCount :: nat
  si_characterTemplateCount :: nat
  si_factoryReady :: bool
  si_hasPreCallData :: bool
  si_hasRequestStruct :: bool
  si_lastCompletedStep :: i32
  si_isHost :: bool
  si_isLoading :: bool
  si_isGameLoaded :: bool
  si_isConnected :: bool
  si_ping :: u32
  si_syncOrchestrator :: "(u64 \<times> bool) option"

definition flag :: "bool \<Rightarrow> u8 \<Rightarrow> u8" where
  "flag b v = (if b then v else 0)"

definition CollectSnapshot :: "int \<Rightarrow> snapshot_input \<Rightarrow> LoadingOrchestrator \<Rightarrow> EntityRegistry \<Rightarrow> PipelineOrchestrator \<Rightarrow> PipelineSnapshot" where
  "CollectSnapshot now si lo reg s =
     (let total = GetEntityCount reg; remote = GetRemoteCount reg; spawned = GetSpawnedRemoteCount reg in
      \<lparr>ps_playerId = po_localPlayerId s,
       ps_totalCreates = ucast (si_totalCreates si AND 0xFFFF),
       ps_totalDestroys = ucast (si_totalDestroys si AND 0xFFFF),
       ps_burstCount = 0,
       ps_hookFlags = flag (si_createHookEnabled si) 1 OR flag (si_destroyHookEnabled si) 2,
       ps_inPlaceSpawnCount = word_of_int (min (sint (si_inPlaceSpawnCount si)) 255),
       ps_pendingSpawnCount = of_nat (min (si_pendingSpawnCount si) 65535),
       ps_templateCount = of_nat (min (si_templateCount si) 65535),
       ps_factoryFlags = flag (si_factoryReady si) 1 OR flag (si_hasPreCallData si) 2 OR flag (si_hasRequestStruct si) 4,
       ps_charTemplateCount = of_nat (min (si_characterTemplateCount si) 255),
       ps_loadingPhase = loading_code (lo_phase lo),
       ps_pendingResources = of_nat (min (length (lo_pending lo)) 255),
       ps_orchFlags = flag (lo_gameLoaded lo) 1 OR flag (IsSafeToSpawn now lo) 2 OR flag (0 < lo_burstCount lo) 4,
       ps_reserved1 = 0,
       ps_localEntityCount = of_nat (if remote < total then total - remote else 0),
       ps_remoteEntityCount = of_nat remote,
       ps_spawnedRemoteCount = of_nat spawned,
       ps_ghostCount = of_nat (if spawned < remote then remote - spawned else 0),
       ps_lastCompletedStep = ucast (si_lastCompletedStep si),
       ps_coreFlags = flag (si_isHost si) 1 OR flag (si_isLoading si) 2 OR flag (si_isGameLoaded si) 4 OR flag (si_isConnected si) 8,
       ps_ping = ucast (min (si_ping si) 65535),
       ps_uptimeSeconds = word_of_int (whole_seconds (now - po_connectionStart s)),
       ps_syncTickCount = (case si_syncOrchestrator si of None \<Rightarrow> 0 | Some (ticks, active) \<Rightarrow> ucast (ticks AND 0xFFFF)),
       ps_syncFlags = (case si_syncOrchestrator si of None \<Rightarrow> 0 | Some (ticks, active) \<Rightarrow> flag active 1),
       ps_reserved2 = 0,
       ps_snapshotTimestamp = GetTimestampMs now s,
       ps_version = 1,
       ps_reserved3 = 0\<rparr>)"

section \<open>Broadcasting\<close>

definition BroadcastSnapshot :: "PipelineSnapshot \<Rightarrow> bytes" where
  "BroadcastSnapshot snap = packet [hdr C2S_PipelineSnapshot, WriteRaw (PipelineSnapshot_enc snap)]"

definition write_event :: "PipelineEvent \<Rightarrow> PacketWriter \<Rightarrow> PacketWriter" where
  "write_event e w = WriteString (take 64 (ev_detail e)) (WriteU32 (ev_auxData e) (WriteU32 (ev_entityId e)
     (WriteU32 (ev_timestamp e) (WriteU16 0 (WriteU8 (ev_severity e) (WriteU8 (ev_type e) w))))))"

definition BroadcastPendingEvents :: "PipelineOrchestrator \<Rightarrow> bytes list \<times> PipelineOrchestrator" where
  "BroadcastPendingEvents s = (if po_pendingBroadcast s = [] then ([], s)
     else let n = min (length (po_pendingBroadcast s)) EVENT_BROADCAST_BATCH in
       ([packet ([hdr C2S_PipelineEvent, WriteU8 (of_nat n)] @ List.map write_event (take n (po_pendingBroadcast s)))],
        s\<lparr>po_pendingBroadcast := drop n (po_pendingBroadcast s)\<rparr>))"

section \<open>Receiving\<close>

definition OnRemoteSnapshot :: "int \<Rightarrow> PlayerID \<Rightarrow> bytes \<Rightarrow> PipelineOrchestrator \<Rightarrow> PipelineOrchestrator" where
  "OnRemoteSnapshot now sender data s = (if length data < 48 then s
     else let snap = PipelineSnapshot_dec (take 48 data) in
       if ps_version snap = 0 \<or> 1 < ps_version snap then s
       else s\<lparr>po_remoteSnapshots := um_set sender snap (po_remoteSnapshots s), po_remoteTimes := um_set sender now (po_remoteTimes s)\<rparr>)"

definition push_event :: "PipelineEvent \<Rightarrow> PipelineEvent list \<Rightarrow> PipelineEvent list" where
  "push_event e es = (let es1 = es @ [e] in if MAX_LOCAL_EVENTS < length es1 then tl es1 else es1)"

definition read_event :: "PacketReader \<Rightarrow> (PipelineEvent \<times> PacketReader) option" where
  "read_event r = (case ReadU8 r of (None, r) \<Rightarrow> None | (Some type, r) \<Rightarrow>
     (case ReadU8 r of (None, r) \<Rightarrow> None | (Some sev, r) \<Rightarrow>
     (case ReadU16 r of (None, r) \<Rightarrow> None | (Some pad, r) \<Rightarrow>
     (case ReadU32 r of (None, r) \<Rightarrow> None | (Some ts, r) \<Rightarrow>
     (case ReadU32 r of (None, r) \<Rightarrow> None | (Some ent, r) \<Rightarrow>
     (case ReadU32 r of (None, r) \<Rightarrow> None | (Some aux, r) \<Rightarrow>
     (case ReadString 64 r of (None, r) \<Rightarrow> None | (Some detail, r) \<Rightarrow>
        Some (\<lparr>ev_type = type, ev_severity = sev, ev_timestamp = ts, ev_entityId = ent, ev_auxData = aux, ev_detail = detail\<rparr>, r))))))))"

definition from_sender :: "PlayerID \<Rightarrow> PipelineEvent \<Rightarrow> PipelineEvent" where
  "from_sender sender e = e\<lparr>ev_detail := lit ''[P'' @ dec_nat (unat sender) @ lit ''] '' @ ev_detail e\<rparr>"

fun remote_event_loop :: "PlayerID \<Rightarrow> nat \<Rightarrow> PacketReader \<Rightarrow> PipelineEvent list \<Rightarrow> PipelineEvent list" where
  "remote_event_loop sender 0 r es = es"
| "remote_event_loop sender (Suc n) r es = (case read_event r of
     None \<Rightarrow> es
   | Some (e, r) \<Rightarrow> remote_event_loop sender n r (push_event (from_sender sender e) es))"

definition OnRemoteEvent :: "PlayerID \<Rightarrow> bytes \<Rightarrow> PipelineOrchestrator \<Rightarrow> PipelineOrchestrator" where
  "OnRemoteEvent sender data s = (case ReadU8 (PacketReader_new data) of
     (None, r) \<Rightarrow> s
   | (Some n, r) \<Rightarrow> s\<lparr>po_events := remote_event_loop sender (min (unat n) EVENT_BROADCAST_BATCH) r (po_events s)\<rparr>)"

definition RecordEvent :: "int \<Rightarrow> PipelineEventType \<Rightarrow> u8 \<Rightarrow> EntityID \<Rightarrow> u32 \<Rightarrow> bytes \<Rightarrow> PipelineOrchestrator \<Rightarrow> PipelineOrchestrator" where
  "RecordEvent now type severity entityId auxData detail s = (if \<not> po_initialized s then s
     else let e = \<lparr>ev_type = type, ev_severity = severity, ev_timestamp = GetTimestampMs now s, ev_entityId = entityId,
            ev_auxData = auxData, ev_detail = detail\<rparr>
       in s\<lparr>po_events := push_event e (po_events s), po_pendingBroadcast := po_pendingBroadcast s @ [e]\<rparr>)"

text \<open>What the loading orchestrator reports of a change of phase.\<close>

definition record_phase_change :: "int \<Rightarrow> LoadingPhase \<times> LoadingPhase \<Rightarrow> PipelineOrchestrator \<Rightarrow> PipelineOrchestrator" where
  "record_phase_change now ch = RecordEvent now PhaseChanged 0 0 (ucast (loading_code (snd ch)))
     (GetPhaseName (loading_code (fst ch)) @ lit '' -> '' @ GetPhaseName (loading_code (snd ch)))"

section \<open>Anomalies\<close>

definition active :: "AnomalyType \<Rightarrow> PlayerID \<Rightarrow> PipelineAnomaly \<Rightarrow> bool" where
  "active type source a \<longleftrightarrow> an_type a = type \<and> an_sourcePlayer a = source \<and> \<not> an_resolved a"

definition RaiseAnomaly :: "int \<Rightarrow> AnomalyType \<Rightarrow> PlayerID \<Rightarrow> bytes \<Rightarrow> PipelineOrchestrator \<Rightarrow> PipelineOrchestrator" where
  "RaiseAnomaly now type source desc s = (if list_ex (active type source) (po_anomalies s) then s
     else let as = po_anomalies s @ [\<lparr>an_type = type, an_sourcePlayer = source, an_detectedAt = GetTimestampMs now s,
            an_description = desc, an_resolved = False\<rparr>]
       in s\<lparr>po_anomalies := (if MAX_ANOMALIES < length as then tl as else as)\<rparr>)"

definition ResolveAnomaly :: "AnomalyType \<Rightarrow> PlayerID \<Rightarrow> PipelineOrchestrator \<Rightarrow> PipelineOrchestrator" where
  "ResolveAnomaly type source s = s\<lparr>po_anomalies :=
     List.map (\<lambda>a. if active type source a then a\<lparr>an_resolved := True\<rparr> else a) (po_anomalies s)\<rparr>"

definition raise_or_resolve :: "int \<Rightarrow> bool \<Rightarrow> AnomalyType \<Rightarrow> PlayerID \<Rightarrow> bytes \<Rightarrow> PipelineOrchestrator \<Rightarrow> PipelineOrchestrator" where
  "raise_or_resolve now b type source desc s = (if b then RaiseAnomaly now type source desc s else ResolveAnomaly type source s)"

definition check_peer :: "int \<Rightarrow> PipelineSnapshot \<Rightarrow> PlayerID \<times> PipelineSnapshot \<Rightarrow> PipelineOrchestrator \<Rightarrow> PipelineOrchestrator" where
  "check_peer now local pr s = (case pr of (peerId, rsnap) \<Rightarrow>
     let s1 = raise_or_resolve now (5 < ps_pendingSpawnCount rsnap \<and> ps_pendingSpawnCount local = 0) SpawnQueueMismatch peerId
            (lit ''P'' @ dec_nat (unat peerId) @ lit '' has '' @ dec_nat (unat (ps_pendingSpawnCount rsnap)) @
             lit '' pending spawns, local has 0'') s;
         s2 = raise_or_resolve now (0 < ps_spawnedRemoteCount rsnap \<and> 3 < ps_ghostCount local) EntityGhostMismatch (po_localPlayerId s1)
            (lit ''Local has '' @ dec_nat (unat (ps_ghostCount local)) @ lit '' ghost entities (no game object)'') s1;
         s3 = (if um_find (po_remoteTimes s2) peerId = None then s2\<lparr>po_remoteTimes := um_set peerId 0 (po_remoteTimes s2)\<rparr> else s2);
         elapsed = whole_millis (now - (case um_find (po_remoteTimes s3) peerId of None \<Rightarrow> 0 | Some t \<Rightarrow> t))
     in raise_or_resolve now (5000 < elapsed) SnapshotStale peerId
          (lit ''No snapshot from P'' @ dec_nat (unat peerId) @ lit '' for '' @ dec_int (elapsed div 1000) @ lit ''s'') s3)"

definition RunAnomalyDetection :: "int \<Rightarrow> PipelineOrchestrator \<Rightarrow> PipelineOrchestrator" where
  "RunAnomalyDetection now s =
     (let local = po_localSnapshot s; me = po_localPlayerId s;
          s1 = fold (check_peer now local) (po_remoteSnapshots s) s;
          sinceLoad = whole_millis (now - po_gameLoadedTime s1);
          canSpawn = (ps_orchFlags local AND 2 \<noteq> 0);
          s2 = (if \<not> po_gameLoadedTimeSet s1 then s1
                else if \<not> canSpawn \<and> 30000 < sinceLoad then RaiseAnomaly now CanSpawnStuck me
                  (lit ''CanSpawn stuck false for '' @ dec_int (sinceLoad div 1000) @ lit ''s (phase='' @
                   GetPhaseName (ps_loadingPhase local) @ lit '')'') s1
                else if canSpawn then ResolveAnomaly CanSpawnStuck me s1 else s1);
          s3 = (if 30 < ps_uptimeSeconds local \<and> ps_totalCreates local = 0 then RaiseAnomaly now HookNotFiring me
                  (lit ''CharacterCreate: 0 calls after '' @ dec_nat (unat (ps_uptimeSeconds local)) @ lit ''s'') s2
                else if 0 < ps_totalCreates local then ResolveAnomaly HookNotFiring me s2 else s2)
      in if ps_loadingPhase local \<noteq> 0 \<and> 60 < ps_uptimeSeconds local then RaiseAnomaly now PhaseStuck me
           (lit ''Loading phase '' @ GetPhaseName (ps_loadingPhase local) @ lit '' stuck for >60s'') s3
         else if ps_loadingPhase local = 0 then ResolveAnomaly PhaseStuck me s3 else s3)"

section \<open>The tick\<close>

definition TickInner :: "int \<Rightarrow> snapshot_input \<Rightarrow> LoadingOrchestrator \<Rightarrow> EntityRegistry \<Rightarrow> PipelineOrchestrator \<Rightarrow> bytes list \<times> PipelineOrchestrator" where
  "TickInner now si lo reg s =
     (let s1 = (if \<not> po_gameLoadedTimeSet s \<and> si_isGameLoaded si then s\<lparr>po_gameLoadedTime := now, po_gameLoadedTimeSet := True\<rparr> else s);
          (out2, s2) = (if 1000 \<le> whole_millis (now - po_lastSnapshotTime s1)
             then let snap = CollectSnapshot now si lo reg s1 in
               (if si_isConnected si then [BroadcastSnapshot snap] else [],
                s1\<lparr>po_localSnapshot := snap, po_lastSnapshotTime := now\<rparr>)
             else ([], s1));
          (out3, s3) = (if si_isConnected si then BroadcastPendingEvents s2 else ([], s2));
          s4 = (if 2000 \<le> whole_millis (now - po_lastAnomalyCheck s3) then (RunAnomalyDetection now s3)\<lparr>po_lastAnomalyCheck := now\<rparr> else s3)
      in (out2 @ out3, s4))"

definition Pipeline_Tick :: "int \<Rightarrow> snapshot_input \<Rightarrow> LoadingOrchestrator \<Rightarrow> EntityRegistry \<Rightarrow> PipelineOrchestrator \<Rightarrow> bytes list \<times> PipelineOrchestrator" where
  "Pipeline_Tick now si lo reg s = (if \<not> po_initialized s then ([], s) else TickInner now si lo reg s)"

section \<open>Queries\<close>

definition ToggleHud :: "PipelineOrchestrator \<Rightarrow> PipelineOrchestrator" where
  "ToggleHud s = s\<lparr>po_hudVisible := \<not> po_hudVisible s\<rparr>"

definition GetRecentEvents :: "i32 \<Rightarrow> PipelineOrchestrator \<Rightarrow> PipelineEvent list" where
  "GetRecentEvents maxCount s = drop (nat (max 0 (int (length (po_events s)) - sint maxCount))) (po_events s)"

definition GetActiveAnomalies :: "PipelineOrchestrator \<Rightarrow> PipelineAnomaly list" where
  "GetActiveAnomalies s = filter (\<lambda>a. \<not> an_resolved a) (po_anomalies s)"

fun history_loop :: "EntityID \<Rightarrow> int \<Rightarrow> PipelineEvent list \<Rightarrow> PipelineEvent list \<Rightarrow> PipelineEvent list" where
  "history_loop entityId maxCount [] result = result"
| "history_loop entityId maxCount (e # es) result = (if int (length result) < maxCount
     then history_loop entityId maxCount es (if ev_entityId e = entityId then result @ [e] else result) else result)"

definition GetEntityHistory :: "EntityID \<Rightarrow> i32 \<Rightarrow> PipelineOrchestrator \<Rightarrow> PipelineEvent list" where
  "GetEntityHistory entityId maxCount s = rev (history_loop entityId (sint maxCount) (rev (po_events s)) [])"

section \<open>The events are the last two hundred\<close>

definition newest :: "nat \<Rightarrow> 'a list \<Rightarrow> 'a list" where
  "newest k xs = drop (length xs - k) xs"

lemma newest_short [simp]: "length xs \<le> k \<Longrightarrow> newest k xs = xs"
  by (simp add: newest_def)

lemma length_newest [simp]: "length (newest k xs) \<le> k"
  by (simp add: newest_def)

lemma newest_append: "newest k (newest k xs @ ys) = newest k (xs @ ys)"
proof (cases "length xs \<le> k")
  case False
  then have "length (newest k xs) = k" by (simp add: newest_def)
  then show ?thesis using False by (simp add: newest_def add.commute)
qed simp

lemma push_newest: "length es \<le> MAX_LOCAL_EVENTS \<Longrightarrow> push_event e es = newest MAX_LOCAL_EVENTS (es @ [e])"
proof (cases "length es = MAX_LOCAL_EVENTS")
  case True
  then show ?thesis by (cases es) (auto simp: push_event_def newest_def Let_def)
qed (simp add: push_event_def)

lemma fold_push: "length es \<le> MAX_LOCAL_EVENTS \<Longrightarrow> fold push_event new es = newest MAX_LOCAL_EVENTS (es @ new)"
proof (induction new arbitrary: es)
  case (Cons e new)
  then show ?case by (simp add: push_newest newest_append)
qed simp

fun read_events :: "nat \<Rightarrow> PacketReader \<Rightarrow> PipelineEvent list" where
  "read_events 0 r = []"
| "read_events (Suc n) r = (case read_event r of None \<Rightarrow> [] | Some (e, r) \<Rightarrow> e # read_events n r)"

lemma remote_event_loop_fold: "remote_event_loop sender n r es = fold push_event (List.map (from_sender sender) (read_events n r)) es"
  by (induction n arbitrary: r es) (auto split: option.splits)

section \<open>Runs\<close>

datatype pipeline_op =
    PoInitialize int PlayerID
  | PoShutdown
  | PoRecord int PipelineEventType u8 EntityID u32 bytes
  | PoPhase int "LoadingPhase \<times> LoadingPhase"
  | PoRemoteSnapshot int PlayerID bytes
  | PoRemoteEvent PlayerID bytes
  | PoTick int snapshot_input LoadingOrchestrator EntityRegistry
  | PoToggle

fun pipeline_apply :: "pipeline_op \<Rightarrow> PipelineOrchestrator \<Rightarrow> PipelineOrchestrator" where
  "pipeline_apply (PoInitialize now me) s = Pipeline_Initialize now me s"
| "pipeline_apply PoShutdown s = Pipeline_Shutdown s"
| "pipeline_apply (PoRecord now type sev ent aux detail) s = RecordEvent now type sev ent aux detail s"
| "pipeline_apply (PoPhase now ch) s = record_phase_change now ch s"
| "pipeline_apply (PoRemoteSnapshot now sender data) s = OnRemoteSnapshot now sender data s"
| "pipeline_apply (PoRemoteEvent sender data) s = OnRemoteEvent sender data s"
| "pipeline_apply (PoTick now si lo reg) s = snd (Pipeline_Tick now si lo reg s)"
| "pipeline_apply PoToggle s = ToggleHud s"

definition active_keys :: "PipelineAnomaly list \<Rightarrow> (AnomalyType \<times> PlayerID) list" where
  "active_keys as = List.map (\<lambda>a. (an_type a, an_sourcePlayer a)) (filter (\<lambda>a. \<not> an_resolved a) as)"

definition pipeline_inv :: "PipelineOrchestrator \<Rightarrow> bool" where
  "pipeline_inv s \<longleftrightarrow> length (po_events s) \<le> MAX_LOCAL_EVENTS \<and> length (po_anomalies s) \<le> MAX_ANOMALIES \<and>
     distinct (active_keys (po_anomalies s)) \<and> um_wf (po_remoteSnapshots s) \<and> um_wf (po_remoteTimes s)"

lemma active_keys_iff: "(t, p) \<in> set (active_keys as) \<longleftrightarrow> list_ex (active t p) as"
  by (force simp: active_keys_def list_ex_iff active_def)

lemma distinct_tl_keys: "distinct (active_keys as) \<Longrightarrow> distinct (active_keys (tl as))"
  by (cases as) (auto simp: active_keys_def split: if_splits)

lemma Raise_inv:
  assumes "pipeline_inv s" shows "pipeline_inv (RaiseAnomaly now t p d s)"
proof (cases "list_ex (active t p) (po_anomalies s)")
  case False
  let ?new = "\<lparr>an_type = t, an_sourcePlayer = p, an_detectedAt = GetTimestampMs now s, an_description = d, an_resolved = False\<rparr>"
  have "active_keys (po_anomalies s @ [?new]) = active_keys (po_anomalies s) @ [(t, p)]" by (simp add: active_keys_def)
  then have d: "distinct (active_keys (po_anomalies s @ [?new]))" using assms False by (simp add: pipeline_inv_def active_keys_iff)
  then show ?thesis using assms False distinct_tl_keys[OF d] by (auto simp: RaiseAnomaly_def pipeline_inv_def Let_def)
qed (use assms in \<open>simp add: RaiseAnomaly_def\<close>)

lemma resolve_keys:
  "active_keys (List.map (\<lambda>a. if active t p a then a\<lparr>an_resolved := True\<rparr> else a) as) = filter (\<lambda>k. k \<noteq> (t, p)) (active_keys as)"
  by (induction as) (auto simp: active_keys_def active_def)

lemma Resolve_inv: "pipeline_inv s \<Longrightarrow> pipeline_inv (ResolveAnomaly t p s)"
  by (simp add: pipeline_inv_def ResolveAnomaly_def resolve_keys)

lemma check_peer_inv: "pipeline_inv s \<Longrightarrow> pipeline_inv (check_peer now local pr s)"
proof -
  have rr: "pipeline_inv s \<Longrightarrow> pipeline_inv (raise_or_resolve now b t p d s)" for b t p d s
    by (simp add: raise_or_resolve_def Raise_inv Resolve_inv)
  have times: "pipeline_inv s \<Longrightarrow> pipeline_inv (s\<lparr>po_remoteTimes := um_set k v (po_remoteTimes s)\<rparr>)" for s k v
    by (simp add: pipeline_inv_def)
  show "pipeline_inv s \<Longrightarrow> pipeline_inv (check_peer now local pr s)"
    by (cases pr) (simp add: check_peer_def Let_def rr times)
qed

lemma RunAnomalyDetection_inv: "pipeline_inv s \<Longrightarrow> pipeline_inv (RunAnomalyDetection now s)"
proof -
  have "pipeline_inv s' \<Longrightarrow> pipeline_inv (fold (check_peer now local) prs s')" for local prs s'
    by (induction prs arbitrary: s') (simp_all add: check_peer_inv)
  then show "pipeline_inv s \<Longrightarrow> pipeline_inv (RunAnomalyDetection now s)"
    by (simp add: RunAnomalyDetection_def Let_def Raise_inv Resolve_inv)
qed

lemma pipeline_inv_cong:
  "pipeline_inv s \<Longrightarrow> pipeline_inv (s\<lparr>po_pendingBroadcast := xs\<rparr>)" "pipeline_inv s \<Longrightarrow> pipeline_inv (s\<lparr>po_lastAnomalyCheck := t\<rparr>)"
  "pipeline_inv s \<Longrightarrow> pipeline_inv (s\<lparr>po_gameLoadedTime := t, po_gameLoadedTimeSet := b\<rparr>)"
  "pipeline_inv s \<Longrightarrow> pipeline_inv (s\<lparr>po_localSnapshot := sn, po_lastSnapshotTime := t\<rparr>)"
  by (simp_all add: pipeline_inv_def)

lemma Broadcast_inv: "pipeline_inv s \<Longrightarrow> pipeline_inv (snd (BroadcastPendingEvents s))"
  by (simp add: BroadcastPendingEvents_def Let_def pipeline_inv_cong)

lemma TickInner_inv: "pipeline_inv s \<Longrightarrow> pipeline_inv (snd (TickInner now si lo reg s))"
  unfolding TickInner_def Let_def
  by (auto simp: case_prod_unfold intro!: pipeline_inv_cong RunAnomalyDetection_inv Broadcast_inv)

lemma fold_push_length: "length es \<le> MAX_LOCAL_EVENTS \<Longrightarrow> length (fold push_event new es) \<le> MAX_LOCAL_EVENTS"
  by (simp add: fold_push)

lemma Record_inv: "pipeline_inv s \<Longrightarrow> pipeline_inv (RecordEvent now t sev ent aux d s)"
  by (simp add: pipeline_inv_def RecordEvent_def Let_def push_newest)

lemma pipeline_step: "pipeline_inv s \<Longrightarrow> pipeline_inv (pipeline_apply x s)"
proof (cases x)
  case (PoRemoteEvent sender data)
  assume "pipeline_inv s"
  then show ?thesis using PoRemoteEvent
    by (auto simp: pipeline_inv_def OnRemoteEvent_def remote_event_loop_fold fold_push_length split: prod.splits option.splits)
next
  case PoShutdown
  assume "pipeline_inv s"
  then show ?thesis using PoShutdown by (simp add: pipeline_inv_def Pipeline_Shutdown_def active_keys_def um_wf_def um_keys_def)
qed (simp_all add: Record_inv record_phase_change_def Pipeline_Tick_def TickInner_inv,
     simp_all add: pipeline_inv_def Pipeline_Initialize_def OnRemoteSnapshot_def ToggleHud_def Let_def)

interpretation pipeline_run: run_invariant pipeline_apply "\<lambda>_ _. True" pipeline_inv
  by unfold_locales (rule pipeline_step)

text \<open>
  In every run at most 200 events and 32 anomalies are kept, and no anomaly is active twice for the same kind
  and player.
\<close>

theorem pipeline_bounded:
  fixes xs defines "s \<equiv> fold pipeline_apply xs PipelineOrchestrator_new"
  shows "length (po_events s) \<le> 200 \<and> length (po_anomalies s) \<le> 32 \<and>
    distinct (List.map (\<lambda>a. (an_type a, an_sourcePlayer a)) (GetActiveAnomalies s))"
proof -
  have "pipeline_inv PipelineOrchestrator_new"
    by (simp add: pipeline_inv_def PipelineOrchestrator_new_def active_keys_def um_wf_def um_keys_def)
  from pipeline_run.run[OF this run_ok_true, of xs] show ?thesis
    by (simp add: s_def pipeline_inv_def active_keys_def GetActiveAnomalies_def MAX_LOCAL_EVENTS_def MAX_ANOMALIES_def)
qed

text \<open>Any remote event packet appends what can be read of it, with the sender's name in front, and drops the oldest.\<close>

lemma remote_events_exact:
  assumes "length (po_events s) \<le> 200" "ReadU8 (PacketReader_new data) = (Some n, r)"
  shows "po_events (OnRemoteEvent sender data s) =
    newest 200 (po_events s @ List.map (from_sender sender) (read_events (min (unat n) 8) r))"
  using assms fold_push[of "po_events s"] by (simp add: OnRemoteEvent_def remote_event_loop_fold MAX_LOCAL_EVENTS_def EVENT_BROADCAST_BATCH_def)

section \<open>Through the server to another client\<close>

text \<open>The two cases of the client's \<^verbatim>\<open>HandlePacket\<close> that feed the debugger.\<close>

definition HandlePipelinePacket :: "int \<Rightarrow> MessageType \<Rightarrow> PacketReader \<Rightarrow> PipelineOrchestrator \<Rightarrow> PipelineOrchestrator" where
  "HandlePipelinePacket now type r s = (case ReadU32 r of
     (None, r) \<Rightarrow> s
   | (Some sender, r) \<Rightarrow> if type = S2C_PipelineSnapshot then OnRemoteSnapshot now sender (Current r) s
       else OnRemoteEvent sender (Current r) s)"

definition receive_pipeline :: "int \<Rightarrow> bytes \<Rightarrow> PipelineOrchestrator \<Rightarrow> PipelineOrchestrator" where
  "receive_pipeline now data s = (case ReadHeader (PacketReader_new data) of
     (None, r) \<Rightarrow> s
   | (Some h, r) \<Rightarrow> if ph_type h \<in> {S2C_PipelineSnapshot, S2C_PipelineEvent} then HandlePipelinePacket now (ph_type h) r s else s)"

definition plain_header :: "MessageType \<Rightarrow> PacketHeader" where
  "plain_header type = \<lparr>ph_type = type, ph_flags = 0, ph_sequence = 0, ph_timestamp = 0\<rparr>"

lemma packet_hdr: "packet (hdr type # ws) = fold (\<lambda>f w. f w) ws (PacketHeader_enc (plain_header type))"
  by (simp add: packet_def writer_defs WriteRaw_def plain_header_def)

lemma Current_at [simp]: "Current (reader_at pre rest) = rest"
  by (simp add: Current_def reader_at_def)

lemma length_header [simp]: "length (PacketHeader_enc h) = 8"
  by (simp add: PacketHeader_enc_def)

lemma HandlePacket_handler:
  assumes "GetPlayerByPeer q srv = Some p" "map_of (player_handlers env q) type = Some f" "\<not> wrong_channel type channel"
    "type \<noteq> C2S_Handshake" "type \<noteq> C2S_Disconnect" "type \<noteq> C2S_ServerQuery"
  shows "HandlePacket env q (PacketHeader_enc (plain_header type) @ body) channel srv =
    f p (reader_at (PacketHeader_enc (plain_header type)) body) srv"
  using assms by (simp add: HandlePacket_def reader_at_new scalars_at dispatch_def plain_header_def)

definition relay_packet :: "MessageType \<Rightarrow> PlayerID \<Rightarrow> bytes \<Rightarrow> bytes" where
  "relay_packet type sender body = PacketHeader_enc (plain_header type) @ bytes_u32 sender @ body"

lemma relayed:
  assumes "GetPlayerByPeer q srv = Some p" "(type, fwd) \<in> {(C2S_PipelineSnapshot, S2C_PipelineSnapshot), (C2S_PipelineEvent, S2C_PipelineEvent)}"
  shows "HandlePacket env q (PacketHeader_enc (plain_header type) @ body) KMP_CHANNEL_RELIABLE_UNORDERED srv =
    BroadcastExcept (cp_id p) (relay_packet fwd (cp_id p) body) KMP_CHANNEL_RELIABLE_UNORDERED True srv"
proof -
  have "map_of (player_handlers env q) type = Some (RelayPipeline fwd)" using assms(2) by (auto simp: player_handlers_def msg_type)
  moreover have "\<not> wrong_channel type KMP_CHANNEL_RELIABLE_UNORDERED"
    using assms(2) by (auto simp: wrong_channel_def KMP_CHANNEL_RELIABLE_UNORDERED_def KMP_CHANNEL_UNRELIABLE_SEQ_def msg_type)
  moreover have "type \<noteq> C2S_Handshake" "type \<noteq> C2S_Disconnect" "type \<noteq> C2S_ServerQuery" using assms(2) by (auto simp: msg_type)
  ultimately show ?thesis using HandlePacket_handler[OF assms(1)]
    by (simp add: RelayPipeline_def packet_hdr relay_packet_def WriteU32_def WriteRaw_def)
qed

lemma receive_relayed:
  "receive_pipeline now (relay_packet S2C_PipelineSnapshot sender body) s = OnRemoteSnapshot now sender body s"
  "receive_pipeline now (relay_packet S2C_PipelineEvent sender body) s = OnRemoteEvent sender body s"
  by (simp_all add: receive_pipeline_def relay_packet_def reader_at_new scalars_at plain_header_def HandlePipelinePacket_def msg_type)

text \<open>One event on the wire.\<close>

definition event_bytes :: "PipelineEvent \<Rightarrow> bytes" where
  "event_bytes e = bytes_u8 (ev_type e) @ bytes_u8 (ev_severity e) @ bytes_u16 0 @ bytes_u32 (ev_timestamp e) @
     bytes_u32 (ev_entityId e) @ bytes_u32 (ev_auxData e) @ WriteString (take 64 (ev_detail e)) []"

definition cut_detail :: "PipelineEvent \<Rightarrow> PipelineEvent" where
  "cut_detail e = e\<lparr>ev_detail := take 64 (ev_detail e)\<rparr>"

lemma WriteString_append: "WriteString s w = w @ WriteString s []"
  by (simp add: WriteString_def Let_def WriteU16_def WriteRaw_def)

lemma write_event_bytes: "write_event e w = w @ event_bytes e"
  by (subst write_event_def, subst WriteString_append) (simp add: event_bytes_def writer_defs WriteRaw_def)

lemma fold_write_events: "fold (\<lambda>f w. f w) (List.map write_event es) w = w @ concat (List.map event_bytes es)"
  by (induction es arbitrary: w) (simp_all add: write_event_bytes)

lemma string64_at:
  assumes "length d \<le> 64"
  shows "ReadString 64 (reader_at pre (WriteString d [] @ rest)) = (Some d, reader_at (pre @ WriteString d []) rest)"
proof -
  have "unat (of_nat (length d) :: u16) = length d" "length d < 65536" using assms by (simp_all add: unat_of_nat)
  then show ?thesis using assms
    by (simp add: WriteString_bytes ReadString_def read_at) (auto simp: reader_at_def bslice_def)
qed

lemma read_event_at: "read_event (reader_at pre (event_bytes e @ rest)) = Some (cut_detail e, reader_at (pre @ event_bytes e) rest)"
  by (simp add: read_event_def event_bytes_def read_at string64_at cut_detail_def)

lemma read_events_at: "read_events (length es) (reader_at pre (concat (List.map event_bytes es))) = List.map cut_detail es"
proof (induction es arbitrary: pre)
  case (Cons e es)
  then show ?case using read_event_at[of pre e "concat (List.map event_bytes es)"] by simp
qed simp

definition event_batch :: "PipelineEvent list \<Rightarrow> bytes" where
  "event_batch es = bytes_u8 (of_nat (length es)) @ concat (List.map event_bytes es)"

lemma broadcast_bytes:
  assumes "po_pendingBroadcast s \<noteq> []"
  shows "BroadcastPendingEvents s = ([PacketHeader_enc (plain_header C2S_PipelineEvent) @ event_batch (take 8 (po_pendingBroadcast s))],
    s\<lparr>po_pendingBroadcast := drop 8 (po_pendingBroadcast s)\<rparr>)"
proof -
  have "take (min (length xs) 8) xs = take 8 xs" "drop (min (length xs) 8) xs = drop 8 xs" for xs :: "PipelineEvent list"
    by (simp_all add: min_def)
  then show ?thesis using assms
    by (simp add: BroadcastPendingEvents_def EVENT_BROADCAST_BATCH_def Let_def packet_hdr fold_write_events event_batch_def
        WriteU8_def WriteRaw_def)
qed

lemma OnRemoteEvent_batch:
  assumes "length es \<le> 8" "length (po_events s) \<le> 200"
  shows "OnRemoteEvent sender (event_batch es) s =
    s\<lparr>po_events := newest 200 (po_events s @ List.map (from_sender sender \<circ> cut_detail) es)\<rparr>"
proof -
  let ?r = "reader_at (bytes_u8 (of_nat (length es))) (concat (List.map event_bytes es))"
  have "ReadU8 (PacketReader_new (event_batch es)) = (Some (of_nat (length es)), ?r)"
    using scalars_at(1)[of "[]"] by (simp add: reader_at_new event_batch_def)
  moreover have "unat (of_nat (length es) :: u8) = length es" using assms(1) by (simp add: unat_of_nat)
  ultimately show ?thesis using assms fold_push[of "po_events s"]
    by (simp add: OnRemoteEvent_def remote_event_loop_fold read_events_at EVENT_BROADCAST_BATCH_def MAX_LOCAL_EVENTS_def)
qed

text \<open>
  C17.  Client, server and client together: the packet of pending events, relayed by the server, gives every other
  client exactly the oldest eight pending events, in order, with the details cut to 64 bytes and the sender's id in
  front; the sender has the rest left to send.
\<close>

theorem events_reach_others:
  assumes "po_pendingBroadcast mine \<noteq> []" and "GetPlayerByPeer q srv = Some p" and "length (po_events other) \<le> 200"
  shows "\<exists>data relay. BroadcastPendingEvents mine = ([data], mine\<lparr>po_pendingBroadcast := drop 8 (po_pendingBroadcast mine)\<rparr>) \<and>
    HandlePacket env q data KMP_CHANNEL_RELIABLE_UNORDERED srv = BroadcastExcept (cp_id p) relay KMP_CHANNEL_RELIABLE_UNORDERED True srv \<and>
    receive_pipeline now relay other = other\<lparr>po_events := newest 200 (po_events other @
      List.map (from_sender (cp_id p) \<circ> cut_detail) (take 8 (po_pendingBroadcast mine)))\<rparr>"
proof -
  let ?body = "event_batch (take 8 (po_pendingBroadcast mine))"
  have "HandlePacket env q (PacketHeader_enc (plain_header C2S_PipelineEvent) @ ?body) KMP_CHANNEL_RELIABLE_UNORDERED srv =
      BroadcastExcept (cp_id p) (relay_packet S2C_PipelineEvent (cp_id p) ?body) KMP_CHANNEL_RELIABLE_UNORDERED True srv"
    by (rule relayed[OF assms(2)]) simp
  moreover have "receive_pipeline now (relay_packet S2C_PipelineEvent (cp_id p) ?body) other = other\<lparr>po_events := newest 200
      (po_events other @ List.map (from_sender (cp_id p) \<circ> cut_detail) (take 8 (po_pendingBroadcast mine)))\<rparr>"
    using OnRemoteEvent_batch[OF _ assms(3), of "take 8 (po_pendingBroadcast mine)"] by (simp add: receive_relayed)
  ultimately show ?thesis using broadcast_bytes[OF assms(1)] by blast
qed

text \<open>A snapshot arrives as it was collected, and the server does not look at it.\<close>

lemma snapshot_reaches_others:
  assumes "GetPlayerByPeer q srv = Some p" and "ps_version snap = 1"
  shows "\<exists>relay. HandlePacket env q (BroadcastSnapshot snap) KMP_CHANNEL_RELIABLE_UNORDERED srv =
      BroadcastExcept (cp_id p) relay KMP_CHANNEL_RELIABLE_UNORDERED True srv \<and>
    um_find (po_remoteSnapshots (receive_pipeline now relay other)) (cp_id p) = Some snap"
proof -
  have "BroadcastSnapshot snap = PacketHeader_enc (plain_header C2S_PipelineSnapshot) @ PipelineSnapshot_enc snap"
    by (simp add: BroadcastSnapshot_def packet_hdr WriteRaw_def)
  moreover have "length (PipelineSnapshot_enc snap) = 48" "PipelineSnapshot_dec (PipelineSnapshot_enc snap) = snap"
    using pipeline_snapshot.enc_length pipeline_snapshot.dec_enc by auto
  ultimately show ?thesis using relayed[OF assms(1), of C2S_PipelineSnapshot S2C_PipelineSnapshot] assms(2)
    by (auto simp: receive_relayed OnRemoteSnapshot_def Let_def um_find_set)
qed

definition example_event :: PipelineEvent where
  "example_event = \<lparr>ev_type = PhaseChanged, ev_severity = 0, ev_timestamp = 5, ev_entityId = 0, ev_auxData = 1, ev_detail = lit ''Idle''\<rparr>"

theorem events_reach_others_witness:
  "\<exists>data relay. fst (BroadcastPendingEvents (PipelineOrchestrator_new\<lparr>po_pendingBroadcast := [example_event]\<rparr>)) = [data] \<and>
    HandlePacket example_env 1 data KMP_CHANNEL_RELIABLE_UNORDERED example_server =
      BroadcastExcept 1 relay KMP_CHANNEL_RELIABLE_UNORDERED True example_server \<and>
    po_events (receive_pipeline 0 relay PipelineOrchestrator_new) = [example_event\<lparr>ev_detail := lit ''[P1] Idle''\<rparr>]"
proof -
  note p = example_peers(1)
  have id: "cp_id (example_player 1 (lit ''Ann'')) = 1" by (simp add: example_player_def)
  have ev: "List.map (from_sender 1 \<circ> cut_detail) (take 8 [example_event]) = [example_event\<lparr>ev_detail := lit ''[P1] Idle''\<rparr>]" by code_simp
  let ?mine = "PipelineOrchestrator_new\<lparr>po_pendingBroadcast := [example_event]\<rparr>"
  have "po_pendingBroadcast ?mine \<noteq> []" "length (po_events PipelineOrchestrator_new) \<le> 200" "po_events PipelineOrchestrator_new = []"
    by (simp_all add: PipelineOrchestrator_new_def)
  then obtain data relay where r: "BroadcastPendingEvents ?mine = ([data], ?mine\<lparr>po_pendingBroadcast := drop 8 (po_pendingBroadcast ?mine)\<rparr>)"
    "HandlePacket example_env 1 data KMP_CHANNEL_RELIABLE_UNORDERED example_server = BroadcastExcept 1 relay KMP_CHANNEL_RELIABLE_UNORDERED True example_server"
    "receive_pipeline 0 relay PipelineOrchestrator_new = PipelineOrchestrator_new\<lparr>po_events := newest 200 (po_events PipelineOrchestrator_new @
      List.map (from_sender 1 \<circ> cut_detail) (take 8 (po_pendingBroadcast ?mine)))\<rparr>"
    using events_reach_others[OF _ p, of ?mine PipelineOrchestrator_new example_env 0] unfolding id by blast
  have "po_events (receive_pipeline 0 relay PipelineOrchestrator_new) = [example_event\<lparr>ev_detail := lit ''[P1] Idle''\<rparr>]"
    unfolding r(3) using ev \<open>po_events PipelineOrchestrator_new = []\<close> by simp
  moreover have "fst (BroadcastPendingEvents ?mine) = [data]" by (subst r(1)) (rule fst_conv)
  ultimately show ?thesis using r(2) by blast
qed

section \<open>Two peers and one anomaly\<close>

text \<open>
  The anomaly of the ghosts is one for the client, but every peer raises or resolves it: which one wins depends on the
  order of the hash table.
\<close>

definition ghost_local :: PipelineSnapshot where
  "ghost_local = PipelineSnapshot_zero\<lparr>ps_ghostCount := 4\<rparr>"

definition ghost_peers :: "(PlayerID, PipelineSnapshot) umap" where
  "ghost_peers = [(2, PipelineSnapshot_zero\<lparr>ps_spawnedRemoteCount := 1\<rparr>), (3, PipelineSnapshot_zero)]"

definition ghost_state :: PipelineOrchestrator where
  "ghost_state = PipelineOrchestrator_new\<lparr>po_localPlayerId := 1, po_localSnapshot := ghost_local, po_remoteTimes := [(2, 0), (3, 0)]\<rparr>"

lemma ghost_anomaly_depends_on_order:
  "GetActiveAnomalies (RunAnomalyDetection 0 (ghost_state\<lparr>po_remoteSnapshots := ghost_peers\<rparr>)) = []"
  "List.map an_type (GetActiveAnomalies (RunAnomalyDetection 0 (ghost_state\<lparr>po_remoteSnapshots := rev ghost_peers\<rparr>))) = [EntityGhostMismatch]"
  by code_simp+

end
