(* ===== verification/Game_Memory.thy ===== *)
theory Game_Memory
  imports Messages
begin

text \<open>
  \<^verbatim>\<open>KenshiMP.Scanner/include/kmp/memory.h\<close>: reads and writes of the game's memory by absolute address.  The
  address space is a partial function to bytes; an access to an unmapped byte raises an access violation, which
  \<^verbatim>\<open>Read\<close> and \<^verbatim>\<open>Write\<close> turn into false.  Whether \<^verbatim>\<open>VirtualProtect\<close> succeeds on a range is the operating system's
  answer, the field \<open>gm_protect\<close>.  \<^verbatim>\<open>SEH_ReadKenshiStringRaw\<close> and \<^verbatim>\<open>ReadKenshiString\<close> are those of
  \<^verbatim>\<open>KenshiMP.Core/game/spawn_manager.cpp\<close>.  The contract of a packed struct gives the contract of a memory cell:
  a value written is read back, and an access that does not overlap it is not affected.
\<close>

section \<open>64-bit words\<close>

definition bytes_u64 :: "u64 \<Rightarrow> bytes" where
  "bytes_u64 w = bytes_u32 (ucast w) @ bytes_u32 (ucast (drop_bit 32 w))"

definition u64_of :: "bytes \<Rightarrow> u64" where
  "u64_of bs = (ucast (u32_of (take 4 bs)) OR push_bit 32 (ucast (u32_of (drop 4 bs))))"

lemma u64_halves:
  "ucast (ucast a OR push_bit 32 (ucast b) :: u64) = (a :: u32)"
  "ucast (drop_bit 32 (ucast a OR push_bit 32 (ucast b) :: u64)) = (b :: u32)"
  by (rule bit_word_eqI; auto simp: bit_simps dest: bit_imp_le_length)+

lemma u64_joined: "ucast (ucast w :: u32) OR push_bit 32 (ucast (ucast (drop_bit 32 w) :: u32)) = (w :: u64)"
proof -
  have "bit w n" if "bit w (32 + (n - 32))" "\<not> n < 32" for n
    using that by simp
  then show ?thesis by (intro bit_word_eqI) (auto simp: bit_simps intro: ccontr)
qed

lemma bytes_u64_of: "length bs = 8 \<Longrightarrow> bytes_u64 (u64_of bs) = bs"
  unfolding bytes_u64_def u64_of_def u64_halves by (simp add: bytes_u32_of)

interpretation wire_u64: wire_struct bytes_u64 u64_of 8 "\<lambda>_. True"
  by unfold_locales (simp_all add: bytes_u64_of, simp_all add: bytes_u64_def u64_of_def u64_joined)

section \<open>Reads and writes\<close>

record GameMemory =
  gm_byte :: "u64 \<Rightarrow> byte option"
  gm_protect :: "u64 \<Rightarrow> nat \<Rightarrow> bool"

definition cells :: "u64 \<Rightarrow> nat \<Rightarrow> u64 list" where
  "cells a n = map (\<lambda>i. a + of_nat i) [0..<n]"

definition mem_get :: "nat \<Rightarrow> u64 \<Rightarrow> GameMemory \<Rightarrow> bytes option" where
  "mem_get n a m = (if \<exists>p \<in> set (cells a n). gm_byte m p = None then None
     else Some (map (\<lambda>p. the (gm_byte m p)) (cells a n)))"

fun mem_put :: "u64 \<Rightarrow> bytes \<Rightarrow> GameMemory \<Rightarrow> GameMemory" where
  "mem_put a [] m = m"
| "mem_put a (b # bs) m = mem_put (a + 1) bs (m\<lparr>gm_byte := (gm_byte m)(a := Some b)\<rparr>)"

definition Mem_Read :: "nat \<Rightarrow> (bytes \<Rightarrow> 'a) \<Rightarrow> u64 \<Rightarrow> GameMemory \<Rightarrow> 'a option" where
  "Mem_Read n dec a m = map_option dec (mem_get n a m)"

definition Mem_Write :: "bytes \<Rightarrow> u64 \<Rightarrow> GameMemory \<Rightarrow> bool \<times> GameMemory" where
  "Mem_Write bs a m =
     (if \<not> gm_protect m a (length bs) then (False, m)
      else if mem_get (length bs) a m = None then (False, m)
      else (True, mem_put a bs m))"

text \<open>The idiom \<^verbatim>\<open>T x = d; Memory::Read(a, x);\<close> keeps the default when the read fails.\<close>

definition peek :: "nat \<Rightarrow> (bytes \<Rightarrow> 'a) \<Rightarrow> 'a \<Rightarrow> u64 \<Rightarrow> GameMemory \<Rightarrow> 'a" where
  "peek n dec d a m = (case Mem_Read n dec a m of None \<Rightarrow> d | Some x \<Rightarrow> x)"

abbreviation "Read64 \<equiv> Mem_Read 8 u64_of"

abbreviation "Read32 \<equiv> Mem_Read 4 u32_of"

abbreviation "peek64 \<equiv> peek 8 u64_of 0"

abbreviation "peek32 \<equiv> peek 4 u32_of"

abbreviation "peek8 \<equiv> peek 1 u8_of 0"

abbreviation "peek_bool a m \<equiv> peek8 a m \<noteq> 0"

text \<open>\<^verbatim>\<open>address + offset\<close> with an \<^verbatim>\<open>int\<close> offset.\<close>

definition at_offset :: "u64 \<Rightarrow> int \<Rightarrow> u64" where
  "at_offset a k = a + word_of_int k"

fun walk_chain :: "u64 \<Rightarrow> int list \<Rightarrow> GameMemory \<Rightarrow> u64 option" where
  "walk_chain a [] m = Some a"
| "walk_chain a (k # ks) m = (case Read64 (at_offset a k) m of None \<Rightarrow> None | Some p \<Rightarrow> walk_chain p ks m)"

text \<open>The offsets are terminated by -1.\<close>

definition chain_of :: "int list \<Rightarrow> int list" where
  "chain_of offsets = takeWhile (\<lambda>k. k \<noteq> -1) offsets"

definition FollowChain :: "u64 \<Rightarrow> int list \<Rightarrow> GameMemory \<Rightarrow> u64" where
  "FollowChain base offsets m = (case walk_chain base (chain_of offsets) m of None \<Rightarrow> 0 | Some p \<Rightarrow> p)"

definition ReadChainFloat :: "u64 \<Rightarrow> int list \<Rightarrow> GameMemory \<Rightarrow> f32 option" where
  "ReadChainFloat base offsets m = (let ks = chain_of offsets in
     if ks = [] then Read32 base m
     else (case walk_chain base (butlast ks) m of None \<Rightarrow> None | Some p \<Rightarrow> Read32 (at_offset p (last ks)) m))"

definition Mem_ReadVec3 :: "u64 \<Rightarrow> GameMemory \<Rightarrow> Vec3 option" where
  "Mem_ReadVec3 a m = Mem_Read 12 (\<lambda>bs. Vec3_new (u32_of (bslice 0 4 bs)) (u32_of (bslice 4 4 bs)) (u32_of (bslice 8 4 bs))) a m"

text \<open>\<^verbatim>\<open>Patch\<close> and \<^verbatim>\<open>Nop\<close> copy without a handler; the third result is an unhandled access violation.\<close>

datatype patch_result = Patched | NotPatched | AccessViolation

definition Patch :: "u64 \<Rightarrow> bytes \<Rightarrow> GameMemory \<Rightarrow> patch_result \<times> GameMemory" where
  "Patch a bs m =
     (if \<not> gm_protect m a (length bs) then (NotPatched, m)
      else if mem_get (length bs) a m = None then (AccessViolation, m)
      else (Patched, mem_put a bs m))"

definition Nop :: "u64 \<Rightarrow> nat \<Rightarrow> GameMemory \<Rightarrow> patch_result \<times> GameMemory" where
  "Nop a n m = Patch a (replicate n 0x90) m"

section \<open>The game's strings\<close>

definition chars_at :: "u64 \<Rightarrow> nat \<Rightarrow> GameMemory \<Rightarrow> bytes" where
  "chars_at a n m = map (\<lambda>p. peek8 p m) (cells a n)"

definition SEH_ReadKenshiStringRaw :: "u64 \<Rightarrow> nat \<Rightarrow> GameMemory \<Rightarrow> bytes option" where
  "SEH_ReadKenshiStringRaw a bufSize m =
     (let len = peek64 (a + 0x10) m; capacity = peek64 (a + 0x18) m in
      if len = 0 \<or> 4096 < len then None
      else
        let str = (if capacity < 16 then a else peek64 a m) in
        if \<not> capacity < 16 \<and> str = 0 then None
        else mem_get (if unat len < bufSize - 1 then unat len else bufSize - 1) str m)"

definition ReadKenshiString :: "u64 \<Rightarrow> GameMemory \<Rightarrow> bytes" where
  "ReadKenshiString a m = (case SEH_ReadKenshiStringRaw a 256 m of None \<Rightarrow> [] | Some bs \<Rightarrow> bs)"

text \<open>
  \<^verbatim>\<open>GetName\<close> of characters, squads, buildings and factions: the same reader with another name for "unknown".  A
  character that cannot be read stays 0 in the zeroed buffer.
\<close>

definition read_name :: "bytes \<Rightarrow> u64 \<Rightarrow> GameMemory \<Rightarrow> bytes" where
  "read_name unknown a m =
     (let n = peek64 (a + 0x10) m; capacity = peek64 (a + 0x18) m in
      if n = 0 \<or> 256 < n then unknown
      else if 15 < capacity then
        let p = peek64 a m in if p = 0 then unknown else chars_at p (unat n) m
      else chars_at a (unat n) m)"

text \<open>A sequence of one-byte writes, each of which may fail on its own.\<close>

fun poke_each :: "u64 \<Rightarrow> bytes \<Rightarrow> GameMemory \<Rightarrow> GameMemory" where
  "poke_each a [] m = m"
| "poke_each a (b # bs) m = poke_each (a + 1) bs (snd (Mem_Write (bytes_u8 b) a m))"

text \<open>The short form of a string: at most 15 characters in the inline buffer.\<close>

definition write_sso :: "bytes \<Rightarrow> u64 \<Rightarrow> GameMemory \<Rightarrow> GameMemory" where
  "write_sso s a m =
     (let m1 = poke_each a s (poke_each a (replicate 16 0) m);
          m2 = snd (Mem_Write (bytes_u64 (of_nat (length s))) (a + 0x10) m1)
      in snd (Mem_Write (bytes_u64 15) (a + 0x18) m2))"

section \<open>Cells\<close>

lemma length_cells [simp]: "length (cells a n) = n"
  by (simp add: cells_def)

lemma cells_Suc: "cells a (Suc n) = a # cells (a + 1) n"
  by (simp add: cells_def upt_conv_Cons map_Suc_upt [symmetric] add.assoc del: upt_Suc)

lemma cells_0 [simp]: "cells a 0 = []"
  by (simp add: cells_def)

lemma cells_add: "cells a (n + k) = cells a n @ cells (a + of_nat n) k"
  by (induction n arbitrary: a) (simp_all add: cells_Suc algebra_simps)

lemma in_cells: "p \<in> set (cells a n) \<longleftrightarrow> (\<exists>i < n. p = a + of_nat i)"
  by (auto simp: cells_def)

lemma cells_mono: "n \<le> k \<Longrightarrow> set (cells a n) \<subseteq> set (cells a k)"
  by (auto simp: cells_def)

lemma head_not_later:
  assumes "Suc n \<le> 2 ^ 64" shows "a \<notin> set (cells (a + 1) n)"
proof
  assume "a \<in> set (cells (a + 1) n)"
  then obtain i where i: "i < n" "a = a + 1 + of_nat i" by (auto simp: in_cells)
  then have "of_nat (Suc i) = (0 :: u64)" by (simp add: add.assoc)
  then have "2 ^ 64 dvd Suc i" by (simp only: word_of_nat_eq_0_iff len_bit0 len_num1 len_of_numeral_defs) simp
  then show False using i(1) assms by (auto dest: dvd_imp_le)
qed

lemma mem_get_cong: "(\<And>p. p \<in> set (cells a n) \<Longrightarrow> gm_byte m' p = gm_byte m p) \<Longrightarrow> mem_get n a m' = mem_get n a m"
  by (auto simp: mem_get_def)

lemma mem_put_protect [simp]: "gm_protect (mem_put a bs m) = gm_protect m"
  by (induction bs arbitrary: a m) simp_all

lemma mem_put_other: "p \<notin> set (cells a (length bs)) \<Longrightarrow> gm_byte (mem_put a bs m) p = gm_byte m p"
  by (induction bs arbitrary: a m) (simp_all add: cells_Suc)

lemma mem_put_mapped: "gm_byte (mem_put a bs m) p = None \<longleftrightarrow> gm_byte m p = None \<and> p \<notin> set (cells a (length bs))"
  by (induction bs arbitrary: a m) (auto simp: cells_Suc)

lemma mem_get_put: "length bs \<le> 2 ^ 64 \<Longrightarrow> mem_get (length bs) a (mem_put a bs m) = Some bs"
proof (induction bs arbitrary: a m)
  case (Cons b bs)
  let ?m = "mem_put (a + 1) bs (m\<lparr>gm_byte := (gm_byte m)(a := Some b)\<rparr>)"
  have "mem_get (length bs) (a + 1) ?m = Some bs" using Cons by simp
  moreover have "gm_byte ?m a = Some b" using mem_put_other head_not_later Cons.prems by simp
  ultimately show ?case by (auto simp: mem_get_def cells_Suc split: if_splits)
qed (simp add: mem_get_def)

section \<open>The contract of a memory cell\<close>

text \<open>\<open>writable\<close>: every byte of the range is mapped and its protection can be lifted.\<close>

definition writable :: "u64 \<Rightarrow> nat \<Rightarrow> GameMemory \<Rightarrow> bool" where
  "writable a n m \<longleftrightarrow> gm_protect m a n \<and> (\<forall>p \<in> set (cells a n). gm_byte m p \<noteq> None)"

definition apart :: "u64 \<Rightarrow> nat \<Rightarrow> u64 \<Rightarrow> nat \<Rightarrow> bool" where
  "apart a n b k \<longleftrightarrow> set (cells a n) \<inter> set (cells b k) = {}"

lemma apart_sym: "apart a n b k \<Longrightarrow> apart b k a n"
  by (auto simp: apart_def)

lemma writable_get: "writable a n m \<Longrightarrow> mem_get n a m \<noteq> None"
  by (auto simp: writable_def mem_get_def)

lemma Mem_Write_ok: "writable a (length bs) m \<Longrightarrow> Mem_Write bs a m = (True, mem_put a bs m)"
  using writable_get by (auto simp: Mem_Write_def writable_def)

lemma Mem_Write_cases: "snd (Mem_Write bs a m) = m \<or> (mem_get (length bs) a m \<noteq> None \<and> snd (Mem_Write bs a m) = mem_put a bs m)"
  by (simp add: Mem_Write_def)

lemma write_protect [simp]: "gm_protect (snd (Mem_Write bs a m)) = gm_protect m"
  by (simp add: Mem_Write_def)

lemma write_mapped [simp]: "gm_byte (snd (Mem_Write bs a m)) p = None \<longleftrightarrow> gm_byte m p = None"
  using Mem_Write_cases [of bs a m] by (fastforce simp: mem_put_mapped mem_get_def split: if_splits)

lemma write_writable [simp]: "writable b k (snd (Mem_Write bs a m)) = writable b k m"
  by (simp add: writable_def)

lemma write_other: "p \<notin> set (cells a (length bs)) \<Longrightarrow> gm_byte (snd (Mem_Write bs a m)) p = gm_byte m p"
  using Mem_Write_cases [of bs a m] by (auto simp: mem_put_other)

lemma get_write_apart: "apart a (length bs) b k \<Longrightarrow> mem_get k b (snd (Mem_Write bs a m)) = mem_get k b m"
  by (rule mem_get_cong) (auto simp: apart_def intro!: write_other)

lemma read_write_apart: "apart a (length bs) b k \<Longrightarrow> Mem_Read k dec b (snd (Mem_Write bs a m)) = Mem_Read k dec b m"
  by (simp add: Mem_Read_def get_write_apart)

lemma peek_write_apart: "apart a (length bs) b k \<Longrightarrow> peek k dec d b (snd (Mem_Write bs a m)) = peek k dec d b m"
  by (simp add: peek_def read_write_apart)

context wire_struct
begin

lemma read_back:
  assumes "wf x" "writable a sz m" "sz \<le> 2 ^ 64"
  shows "Mem_Read sz dec a (snd (Mem_Write (enc x) a m)) = Some x"
  using assms by (simp add: Mem_Read_def Mem_Write_ok enc_length dec_enc mem_get_put [of "enc x", unfolded enc_length [OF assms(1)]])

lemma peek_back: "wf x \<Longrightarrow> writable a sz m \<Longrightarrow> sz \<le> 2 ^ 64 \<Longrightarrow> peek sz dec d a (snd (Mem_Write (enc x) a m)) = x"
  by (simp add: peek_def read_back)

end

lemma poke_each_protect [simp]: "gm_protect (poke_each a bs m) = gm_protect m"
  by (induction bs arbitrary: a m) simp_all

lemma poke_each_mapped [simp]: "gm_byte (poke_each a bs m) p = None \<longleftrightarrow> gm_byte m p = None"
  by (induction bs arbitrary: a m) simp_all

lemma poke_each_writable [simp]: "writable b k (poke_each a bs m) = writable b k m"
  by (simp add: writable_def)

lemma poke_each_other: "p \<notin> set (cells a (length bs)) \<Longrightarrow> gm_byte (poke_each a bs m) p = gm_byte m p"
  by (induction bs arbitrary: a m) (simp_all add: cells_Suc write_other)

lemma get_poke_apart: "apart a (length bs) b k \<Longrightarrow> mem_get k b (poke_each a bs m) = mem_get k b m"
  by (rule mem_get_cong) (auto simp: apart_def intro!: poke_each_other)

lemma poke_each_put: "\<forall>p \<in> set (cells a (length bs)). writable p 1 m \<Longrightarrow> poke_each a bs m = mem_put a bs m"
proof (induction bs arbitrary: a m)
  case (Cons b bs)
  have "writable a 1 m" using Cons.prems by (simp add: cells_Suc)
  then have w: "snd (Mem_Write (bytes_u8 b) a m) = m\<lparr>gm_byte := (gm_byte m)(a := Some b)\<rparr>"
    using Mem_Write_ok [of a "[b]" m] by (simp add: bytes_u8_def)
  have "\<forall>p \<in> set (cells (a + 1) (length bs)). writable p 1 (snd (Mem_Write (bytes_u8 b) a m))"
    using Cons.prems by (simp add: cells_Suc)
  then have "poke_each (a + 1) bs (snd (Mem_Write (bytes_u8 b) a m)) = mem_put (a + 1) bs (snd (Mem_Write (bytes_u8 b) a m))"
    by (rule Cons.IH)
  with w show ?case by simp
qed simp

lemma cells_small: "i < n \<Longrightarrow> unat v + n \<le> 2 ^ 64 \<Longrightarrow> unat (v + of_nat i :: u64) = unat v + i"
  by (simp add: unat_word_ariths unat_of_nat)

lemma apart_offsets:
  fixes a v w :: u64
  assumes "unat v + n \<le> unat w \<or> unat w + k \<le> unat v" "unat v + n \<le> 2 ^ 64" "unat w + k \<le> 2 ^ 64"
  shows "apart (a + v) n (a + w) k"
proof -
  have False if "i < n" "j < k" "a + v + of_nat i = a + w + of_nat j" for i j
  proof -
    have "v + of_nat i = w + of_nat j" using that(3) by (simp add: add.assoc)
    then have "unat v + i = unat w + j" using cells_small [OF that(1) assms(2)] cells_small [OF that(2) assms(3)] by metis
    with assms(1) that(1,2) show False by arith
  qed
  then show ?thesis by (auto simp: apart_def in_cells)
qed

lemma apart_base:
  fixes a w :: u64
  assumes "n \<le> unat w" "unat w + k \<le> 2 ^ 64"
  shows "apart a n (a + w) k" "apart (a + w) k a n"
  using apart_offsets [of 0 n w k a] assms by (auto dest: apart_sym)

lemma peek8_mapped: "gm_byte m p = Some b \<Longrightarrow> peek8 p m = b" "gm_byte m p = Some b \<Longrightarrow> peek (Suc 0) u8_of 0 p m = b"
  by (simp_all add: peek_def Mem_Read_def mem_get_def cells_Suc)

lemma chars_at_get: "mem_get n a m = Some bs \<Longrightarrow> chars_at a n m = bs"
  by (auto simp: mem_get_def chars_at_def peek8_mapped split: if_splits)

lemma mem_get_prefix: "mem_get (length xs + k) a m = Some (xs @ ys) \<Longrightarrow> mem_get (length xs) a m = Some xs"
  by (auto simp: mem_get_def cells_add split: if_splits)

text \<open>\<open>sso_writable\<close>: the inline buffer byte by byte, the size and the capacity of a string object can be written.\<close>

definition sso_writable :: "u64 \<Rightarrow> GameMemory \<Rightarrow> bool" where
  "sso_writable a m \<longleftrightarrow> (\<forall>p \<in> set (cells a 16). writable p 1 m) \<and> writable (a + 0x10) 8 m \<and> writable (a + 0x18) 8 m"

lemma write_sso_fields:
  assumes "sso_writable a m" "length s \<le> 15"
  shows "mem_get (length s) a (write_sso s a m) = Some s" "peek64 (a + 0x10) (write_sso s a m) = of_nat (length s)"
    "peek64 (a + 0x18) (write_sso s a m) = 15"
proof -
  let ?m0 = "poke_each a s (poke_each a (replicate 16 0) m)"
  let ?m1 = "snd (Mem_Write (bytes_u64 (of_nat (length s))) (a + 0x10) ?m0)"
  have w: "writable (a + 0x10) 8 m" "writable (a + 0x18) 8 m" using assms(1) by (simp_all add: sso_writable_def)
  have eq: "write_sso s a m = snd (Mem_Write (bytes_u64 15) (a + 0x18) ?m1)" by (simp add: write_sso_def Let_def)
  have len [simp]: "length (bytes_u64 x) = 8" for x by (simp add: bytes_u64_def)
  show "peek64 (a + 0x18) (write_sso s a m) = 15"
    unfolding eq by (rule wire_u64.peek_back) (simp_all add: w)
  have "peek64 (a + 0x10) (write_sso s a m) = peek64 (a + 0x10) ?m1"
    unfolding eq by (intro peek_write_apart) (simp add: apart_offsets)
  also have "\<dots> = of_nat (length s)" by (rule wire_u64.peek_back) (simp_all add: w)
  finally show "peek64 (a + 0x10) (write_sso s a m) = of_nat (length s)" .
  have "p \<in> set (cells a (length s)) \<Longrightarrow> p \<in> set (cells a 16)" for p
    using assms(2) cells_mono [of "length s" 16 a] by auto
  then have "?m0 = mem_put a s (poke_each a (replicate 16 0) m)"
    using assms(1) by (intro poke_each_put) (simp add: sso_writable_def)
  then have "mem_get (length s) a ?m0 = Some s" using assms(2) by (simp add: mem_get_put)
  then show "mem_get (length s) a (write_sso s a m) = Some s"
    unfolding eq using assms(2) by (simp add: get_write_apart apart_base)
qed

lemma read_write_sso: "sso_writable a m \<Longrightarrow> 0 < length s \<Longrightarrow> length s \<le> 15 \<Longrightarrow> read_name unknown a (write_sso s a m) = s"
  using write_sso_fields [of a m s] chars_at_get
  by (auto simp: read_name_def Let_def unat_of_nat word_of_nat_eq_0_iff word_less_nat_alt dest: dvd_imp_le)

end
