(* ===== verification/Game_Accessors.thy ===== *)
theory Game_Accessors
  imports Game_Memory
begin

text \<open>
  The accessors of \<^verbatim>\<open>KenshiMP.Core/game\<close>: \<^verbatim>\<open>game_types.h\<close> (the offset tables), \<^verbatim>\<open>game_character.cpp\<close>,
  \<^verbatim>\<open>game_squad.cpp\<close>, \<^verbatim>\<open>game_building.cpp\<close>, \<^verbatim>\<open>game_faction.cpp\<close>, \<^verbatim>\<open>game_stats.cpp\<close>, \<^verbatim>\<open>game_world.cpp\<close> and
  \<^verbatim>\<open>game_inventory.cpp\<close>.  An accessor is a pointer; its operations take the pointer and the process: the memory, the
  offset tables and the file statics of the runtime probes.  Calls of the game's own position function are recorded.
  The integers of the offset tables are unbounded in the model; none of the arithmetic comes near the bounds of
  \<^verbatim>\<open>int\<close>.  Logging is left out.
\<close>

section \<open>Offset tables\<close>

record CharacterOffsets =
  cho_name :: int
  cho_faction :: int
  cho_position :: int
  cho_rotation :: int
  cho_sceneNode :: int
  cho_aiPackage :: int
  cho_inventory :: int
  cho_stats :: int
  cho_equipment :: int
  cho_currentTask :: int
  cho_isAlive :: int
  cho_isPlayerControlled :: int
  cho_health :: int
  cho_moveSpeed :: int
  cho_animState :: int
  cho_healthChain1 :: int
  cho_healthChain2 :: int
  cho_healthBase :: int
  cho_healthStride :: int
  cho_animClassOffset :: int
  cho_charMovementOffset :: int
  cho_writablePosOffset :: int
  cho_writablePosVecOffset :: int
  cho_squad :: int
  cho_gameDataPtr :: int
  cho_moneyChain1 :: int
  cho_moneyChain2 :: int
  cho_moneyBase :: int

definition CharacterOffsets_default :: CharacterOffsets where
  "CharacterOffsets_default = \<lparr>cho_name = 0x18, cho_faction = 0x10, cho_position = 0x48, cho_rotation = 0x58, cho_sceneNode = -1,
     cho_aiPackage = -1, cho_inventory = 0x2E8, cho_stats = 0x450, cho_equipment = -1, cho_currentTask = -1, cho_isAlive = -1,
     cho_isPlayerControlled = -1, cho_health = -1, cho_moveSpeed = -1, cho_animState = -1, cho_healthChain1 = 0x2B8,
     cho_healthChain2 = 0x5F8, cho_healthBase = 0x40, cho_healthStride = 8, cho_animClassOffset = -1, cho_charMovementOffset = 0xC0,
     cho_writablePosOffset = 0x320, cho_writablePosVecOffset = 0x20, cho_squad = -1, cho_gameDataPtr = 0x40,
     cho_moneyChain1 = 0x298, cho_moneyChain2 = 0x78, cho_moneyBase = 0x88\<rparr>"

record SquadOffsets =
  sqo_name :: int
  sqo_memberList :: int
  sqo_memberCount :: int
  sqo_factionId :: int
  sqo_isPlayerSquad :: int

definition SquadOffsets_default :: SquadOffsets where
  "SquadOffsets_default = \<lparr>sqo_name = 0x10, sqo_memberList = 0x28, sqo_memberCount = 0x30, sqo_factionId = 0x38, sqo_isPlayerSquad = 0x40\<rparr>"

record WorldOffsets =
  wro_timeOfDay :: int
  wro_gameSpeed :: int
  wro_weatherState :: int
  wro_characterList :: int
  wro_buildingList :: int
  wro_paused :: int
  wro_zoneManager :: int
  wro_characterCount :: int

definition WorldOffsets_default :: WorldOffsets where
  "WorldOffsets_default = \<lparr>wro_timeOfDay = -1, wro_gameSpeed = 0x700, wro_weatherState = -1, wro_characterList = 0x0888,
     wro_buildingList = -1, wro_paused = 0x08B9, wro_zoneManager = 0x08B0, wro_characterCount = -1\<rparr>"

record BuildingOffsets =
  bdo_name :: int
  bdo_position :: int
  bdo_rotation :: int
  bdo_ownerFaction :: int
  bdo_health :: int
  bdo_maxHealth :: int
  bdo_isDestroyed :: int
  bdo_functionality :: int
  bdo_inventory :: int
  bdo_townId :: int
  bdo_buildProgress :: int
  bdo_isConstructed :: int

definition BuildingOffsets_default :: BuildingOffsets where
  "BuildingOffsets_default = \<lparr>bdo_name = 0x10, bdo_position = 0x48, bdo_rotation = 0x58, bdo_ownerFaction = 0x80, bdo_health = 0xA0,
     bdo_maxHealth = 0xA4, bdo_isDestroyed = 0xA8, bdo_functionality = 0xC0, bdo_inventory = 0xE0, bdo_townId = 0x100,
     bdo_buildProgress = 0x110, bdo_isConstructed = 0x114\<rparr>"

record InventoryOffsets =
  ivo_items :: int
  ivo_itemCount :: int
  ivo_width :: int
  ivo_height :: int
  ivo_owner :: int
  ivo_maxStackMult :: int

definition InventoryOffsets_default :: InventoryOffsets where
  "InventoryOffsets_default = \<lparr>ivo_items = 0x10, ivo_itemCount = 0x18, ivo_width = 0x20, ivo_height = 0x24, ivo_owner = 0x28,
     ivo_maxStackMult = 0x30\<rparr>"

record ItemOffsets =
  ito_name :: int
  ito_templateId :: int
  ito_stackCount :: int
  ito_quality :: int
  ito_value :: int
  ito_weight :: int
  ito_equipSlot :: int
  ito_condition :: int

definition ItemOffsets_default :: ItemOffsets where
  "ItemOffsets_default = \<lparr>ito_name = 0x10, ito_templateId = 0x20, ito_stackCount = 0x30, ito_quality = 0x38, ito_value = 0x40,
     ito_weight = 0x48, ito_equipSlot = 0x50, ito_condition = 0x58\<rparr>"

record FactionOffsets =
  fao_id :: int
  fao_name :: int
  fao_members :: int
  fao_memberCount :: int
  fao_relations :: int
  fao_color1 :: int
  fao_color2 :: int
  fao_isPlayerFaction :: int
  fao_money :: int

definition FactionOffsets_default :: FactionOffsets where
  "FactionOffsets_default = \<lparr>fao_id = 0x08, fao_name = 0x10, fao_members = 0x30, fao_memberCount = 0x38, fao_relations = 0x50,
     fao_color1 = 0x80, fao_color2 = 0x84, fao_isPlayerFaction = 0x90, fao_money = 0xA0\<rparr>"

text \<open>The 23 stats, in the order in which \<^verbatim>\<open>HandleStatUpdate\<close> of the packet handler numbers them.\<close>

record StatsOffsets =
  sto_meleeAttack :: int
  sto_meleeDefence :: int
  sto_dodge :: int
  sto_martialArts :: int
  sto_strength :: int
  sto_toughness :: int
  sto_dexterity :: int
  sto_athletics :: int
  sto_crossbows :: int
  sto_turrets :: int
  sto_precision :: int
  sto_stealth :: int
  sto_assassination :: int
  sto_lockpicking :: int
  sto_thievery :: int
  sto_science :: int
  sto_engineering :: int
  sto_medic :: int
  sto_farming :: int
  sto_cooking :: int
  sto_weaponsmith :: int
  sto_armoursmith :: int
  sto_labouring :: int

definition StatsOffsets_default :: StatsOffsets where
  "StatsOffsets_default = \<lparr>sto_meleeAttack = 0x00, sto_meleeDefence = 0x04, sto_dodge = 0x08, sto_martialArts = 0x0C, sto_strength = 0x10,
     sto_toughness = 0x14, sto_dexterity = 0x18, sto_athletics = 0x1C, sto_crossbows = 0x20, sto_turrets = 0x24, sto_precision = 0x28,
     sto_stealth = 0x30, sto_assassination = 0x34, sto_lockpicking = 0x38, sto_thievery = 0x3C, sto_science = 0x40,
     sto_engineering = 0x44, sto_medic = 0x48, sto_farming = 0x50, sto_cooking = 0x54, sto_weaponsmith = 0x58,
     sto_armoursmith = 0x5C, sto_labouring = 0x60\<rparr>"

record GameOffsets =
  gof_character :: CharacterOffsets
  gof_squad :: SquadOffsets
  gof_world :: WorldOffsets
  gof_building :: BuildingOffsets
  gof_inventory :: InventoryOffsets
  gof_item :: ItemOffsets
  gof_faction :: FactionOffsets
  gof_stats :: StatsOffsets
  gof_gameData_id :: int
  gof_gameData_managerPtr :: int
  gof_gameData_name :: int

definition GameOffsets_default :: GameOffsets where
  "GameOffsets_default = \<lparr>gof_character = CharacterOffsets_default, gof_squad = SquadOffsets_default, gof_world = WorldOffsets_default,
     gof_building = BuildingOffsets_default, gof_inventory = InventoryOffsets_default, gof_item = ItemOffsets_default,
     gof_faction = FactionOffsets_default, gof_stats = StatsOffsets_default, gof_gameData_id = 0x08, gof_gameData_managerPtr = 0x10,
     gof_gameData_name = 0x28\<rparr>"

section \<open>The process\<close>

record GameProcess =
  gp_memory :: GameMemory
  gp_offsets :: GameOffsets
  gp_moduleBase :: u64
  gp_setPositionFn :: bool
  gp_animClassProbed :: bool
  gp_discoveredAnimClass :: int
  gp_equipmentProbed :: bool
  gp_squadProbed :: bool
  gp_lastWritePosMethod :: int
  gp_deferredProbeChars :: "u64 list"
  gp_deferredTotalAttempts :: nat
  gp_playerControlledOffset :: int
  gp_resolvedPlayerBase :: u64
  gp_resolvedGameWorld :: u64
  gp_isLoading :: bool
  gp_positionCalls :: "(u64 \<times> Vec3) list"

definition GameProcess_new :: "GameMemory \<Rightarrow> u64 \<Rightarrow> GameProcess" where
  "GameProcess_new m base = \<lparr>gp_memory = m, gp_offsets = GameOffsets_default, gp_moduleBase = base, gp_setPositionFn = False,
     gp_animClassProbed = False, gp_discoveredAnimClass = -1, gp_equipmentProbed = False, gp_squadProbed = False,
     gp_lastWritePosMethod = 0, gp_deferredProbeChars = [], gp_deferredTotalAttempts = 0, gp_playerControlledOffset = -1,
     gp_resolvedPlayerBase = 0, gp_resolvedGameWorld = 0, gp_isLoading = False, gp_positionCalls = []\<rparr>"

abbreviation "chr_off g \<equiv> gof_character (gp_offsets g)"

definition on_memory :: "(GameMemory \<Rightarrow> GameMemory) \<Rightarrow> GameProcess \<Rightarrow> GameProcess" where
  "on_memory f g = g\<lparr>gp_memory := f (gp_memory g)\<rparr>"

definition on_character_offsets :: "(CharacterOffsets \<Rightarrow> CharacterOffsets) \<Rightarrow> GameProcess \<Rightarrow> GameProcess" where
  "on_character_offsets f g = g\<lparr>gp_offsets := (gp_offsets g)\<lparr>gof_character := f (chr_off g)\<rparr>\<rparr>"

text \<open>The ranges against which the code checks a pointer: in user space, on the heap side of it, aligned.\<close>

definition user_ptr :: "u64 \<Rightarrow> bool" where
  "user_ptr p \<longleftrightarrow> 0x10000 < p \<and> p < 0x00007FFFFFFFFFFF"

definition aligned_ptr :: "u64 \<Rightarrow> bool" where
  "aligned_ptr p \<longleftrightarrow> 0x10000 \<le> p \<and> p < 0x00007FFFFFFFFFFF \<and> p AND 7 = 0"

definition loose_ptr :: "u64 \<Rightarrow> bool" where
  "loose_ptr p \<longleftrightarrow> 0x10000 \<le> p \<and> p \<le> 0x00007FFFFFFFFFFF"

definition in_image :: "u64 \<Rightarrow> GameProcess \<Rightarrow> bool" where
  "in_image p g \<longleftrightarrow> gp_moduleBase g \<le> p \<and> p < gp_moduleBase g + 0x4000000"

definition peek_at :: "int \<Rightarrow> u64 \<Rightarrow> GameProcess \<Rightarrow> u64" where
  "peek_at off p g = peek64 (at_offset p off) (gp_memory g)"

section \<open>Characters: reads\<close>

definition Character_GetPosition :: "u64 \<Rightarrow> GameProcess \<Rightarrow> Vec3" where
  "Character_GetPosition p g =
     (if 0 \<le> cho_position (chr_off g)
      then (case Mem_ReadVec3 (at_offset p (cho_position (chr_off g))) (gp_memory g) of Some v \<Rightarrow> v | None \<Rightarrow> Vec3_new 0 0 0)
      else Vec3_new 0 0 0)"

definition quat_of_bytes :: "bytes \<Rightarrow> Quat" where
  "quat_of_bytes bs = \<lparr>qw = u32_of (bslice 0 4 bs), qx = u32_of (bslice 4 4 bs), qy = u32_of (bslice 8 4 bs), qz = u32_of (bslice 12 4 bs)\<rparr>"

definition Character_GetRotation :: "u64 \<Rightarrow> GameProcess \<Rightarrow> Quat" where
  "Character_GetRotation p g =
     (if 0 \<le> cho_rotation (chr_off g) then peek 16 quat_of_bytes Quat_default (at_offset p (cho_rotation (chr_off g))) (gp_memory g)
      else Quat_default)"

text \<open>The health chain: two dereferences from the character to the array of body parts, none of them null.\<close>

definition health_array :: "u64 \<Rightarrow> GameProcess \<Rightarrow> u64 option" where
  "health_array p g = (let o1 = chr_off g in
     if 0 \<le> cho_healthChain1 o1 \<and> 0 \<le> cho_healthChain2 o1 \<and> 0 \<le> cho_healthBase o1 then
       (case Read64 (at_offset p (cho_healthChain1 o1)) (gp_memory g) of
          None \<Rightarrow> None
        | Some ptr1 \<Rightarrow> if ptr1 = 0 then None else
            (case Read64 (at_offset ptr1 (cho_healthChain2 o1)) (gp_memory g) of
               None \<Rightarrow> None
             | Some ptr2 \<Rightarrow> if ptr2 = 0 then None else Some ptr2))
     else None)"

definition part_address :: "u64 \<Rightarrow> nat \<Rightarrow> GameProcess \<Rightarrow> u64" where
  "part_address arr i g = at_offset arr (cho_healthBase (chr_off g) + int i * cho_healthStride (chr_off g))"

definition Character_GetHealth :: "BodyPart \<Rightarrow> u64 \<Rightarrow> GameProcess \<Rightarrow> f32" where
  "Character_GetHealth part p g = (let o1 = chr_off g; i = BodyPart_code part in
     if 0 \<le> cho_health o1 then peek32 0 (at_offset p (cho_health o1 + int i * cho_healthStride o1)) (gp_memory g)
     else (case health_array p g of None \<Rightarrow> 0 | Some arr \<Rightarrow> peek32 0 (part_address arr i g) (gp_memory g)))"

definition Character_IsAlive :: "u64 \<Rightarrow> GameProcess \<Rightarrow> bool" where
  "Character_IsAlive p g =
     (if 0 \<le> cho_isAlive (chr_off g) then peek_bool (at_offset p (cho_isAlive (chr_off g))) (gp_memory g)
      else f32_lt (f32_of_int (- 100)) (Character_GetHealth Chest p g) \<and> f32_lt (f32_of_int (- 100)) (Character_GetHealth Head p g))"

definition Character_IsPlayerControlled :: "u64 \<Rightarrow> GameProcess \<Rightarrow> bool" where
  "Character_IsPlayerControlled p g =
     (0 \<le> cho_isPlayerControlled (chr_off g) \<and> peek_bool (at_offset p (cho_isPlayerControlled (chr_off g))) (gp_memory g))"

definition Character_GetMoveSpeed :: "u64 \<Rightarrow> GameProcess \<Rightarrow> f32" where
  "Character_GetMoveSpeed p g = (if cho_moveSpeed (chr_off g) < 0 then 0 else peek32 0 (at_offset p (cho_moveSpeed (chr_off g))) (gp_memory g))"

definition Character_GetAnimState :: "u64 \<Rightarrow> GameProcess \<Rightarrow> u8" where
  "Character_GetAnimState p g = (if cho_animState (chr_off g) < 0 then 0 else peek8 (at_offset p (cho_animState (chr_off g))) (gp_memory g))"

definition Character_GetName :: "u64 \<Rightarrow> GameProcess \<Rightarrow> bytes" where
  "Character_GetName p g = (if cho_name (chr_off g) < 0 then lit ''Unknown''
     else read_name (lit ''Unknown'') (at_offset p (cho_name (chr_off g))) (gp_memory g))"

definition Character_GetFactionPtr :: "u64 \<Rightarrow> GameProcess \<Rightarrow> u64" where
  "Character_GetFactionPtr p g = (if cho_faction (chr_off g) < 0 then 0 else peek_at (cho_faction (chr_off g)) p g)"

definition Character_GetGameDataPtr :: "u64 \<Rightarrow> GameProcess \<Rightarrow> u64" where
  "Character_GetGameDataPtr p g = (if cho_gameDataPtr (chr_off g) < 0 then 0
     else let d = peek_at (cho_gameDataPtr (chr_off g)) p g in
       if \<not> aligned_ptr d then 0 else if in_image d g then 0 else d)"

definition Character_GetInventoryPtr :: "u64 \<Rightarrow> GameProcess \<Rightarrow> u64" where
  "Character_GetInventoryPtr p g = (if cho_inventory (chr_off g) < 0 then 0
     else let d = peek_at (cho_inventory (chr_off g)) p g in if \<not> aligned_ptr d then 0 else d)"

definition Character_GetAIPackagePtr :: "u64 \<Rightarrow> GameProcess \<Rightarrow> u64" where
  "Character_GetAIPackagePtr p g = (if cho_aiPackage (chr_off g) < 0 then 0
     else let d = peek_at (cho_aiPackage (chr_off g)) p g in if \<not> aligned_ptr d then 0 else d)"

definition Character_GetCurrentTask :: "u64 \<Rightarrow> GameProcess \<Rightarrow> u32" where
  "Character_GetCurrentTask p g = (if cho_currentTask (chr_off g) < 0 then 0 else peek32 0 (at_offset p (cho_currentTask (chr_off g))) (gp_memory g))"

definition Character_GetStatsPtr :: "u64 \<Rightarrow> GameProcess \<Rightarrow> u64" where
  "Character_GetStatsPtr p g = (if cho_stats (chr_off g) < 0 then 0 else at_offset p (cho_stats (chr_off g)))"

definition Character_GetMoney :: "u64 \<Rightarrow> GameProcess \<Rightarrow> i32" where
  "Character_GetMoney p g = (let o1 = chr_off g in
     if 0 \<le> cho_moneyChain1 o1 \<and> 0 \<le> cho_moneyChain2 o1 \<and> 0 \<le> cho_moneyBase o1 then
       (case Read64 (at_offset p (cho_moneyChain1 o1)) (gp_memory g) of
          None \<Rightarrow> 0
        | Some ptr1 \<Rightarrow> if ptr1 = 0 then 0 else
            (case Read64 (at_offset ptr1 (cho_moneyChain2 o1)) (gp_memory g) of
               None \<Rightarrow> 0
             | Some ptr2 \<Rightarrow> if ptr2 = 0 then 0 else peek32 0 (at_offset ptr2 (cho_moneyBase o1)) (gp_memory g)))
     else 0)"

section \<open>Runtime probes\<close>

definition s_close :: "f32 \<Rightarrow> f32 \<Rightarrow> bool" where
  "s_close a b \<longleftrightarrow> f32_lt (f32_abs (f32_sub a b)) (f32_of_int 1)"

definition physics_address :: "u64 \<Rightarrow> GameProcess \<Rightarrow> u64" where
  "physics_address charMovement g =
     at_offset charMovement (cho_writablePosOffset (chr_off g) + cho_writablePosVecOffset (chr_off g))"

text \<open>Whether the pointer at \<open>probe\<close> leads along the physics chain to the character's cached position.\<close>

definition anim_candidate :: "u64 \<Rightarrow> Vec3 \<Rightarrow> GameProcess \<Rightarrow> int \<Rightarrow> bool" where
  "anim_candidate p cached g probe = (let m = gp_memory g in
     case Read64 (at_offset p probe) m of
       None \<Rightarrow> False
     | Some candidate \<Rightarrow> candidate \<noteq> 0 \<and> loose_ptr candidate \<and>
         (case Read64 (at_offset candidate (cho_charMovementOffset (chr_off g))) m of
            None \<Rightarrow> False
          | Some charMovement \<Rightarrow> charMovement \<noteq> 0 \<and> loose_ptr charMovement \<and>
              (let a = physics_address charMovement g in
               case (Read32 a m, Read32 (a + 4) m, Read32 (a + 8) m) of
                 (Some x, Some y, Some z) \<Rightarrow> s_close x (vx cached) \<and> s_close y (vy cached) \<and> s_close z (vz cached)
               | _ \<Rightarrow> False)))"

definition anim_probes :: "int list" where
  "anim_probes = map (\<lambda>k. 0x60 + 8 * int k) [0..<53]"

definition ProbeAnimClassOffset :: "u64 \<Rightarrow> GameProcess \<Rightarrow> GameProcess" where
  "ProbeAnimClassOffset p g =
     (if gp_animClassProbed g then g
      else if cho_position (chr_off g) < 0 then g
      else
        let cached = Character_GetPosition p g in
        if f32_eq (vx cached) 0 \<and> f32_eq (vy cached) 0 \<and> f32_eq (vz cached) 0 then g
        else
          let g1 = g\<lparr>gp_animClassProbed := True\<rparr> in
          (case find (anim_candidate p cached g1) anim_probes of
             None \<Rightarrow> g1
           | Some probe \<Rightarrow> on_character_offsets (\<lambda>o1. o1\<lparr>cho_animClassOffset := probe\<rparr>) (g1\<lparr>gp_discoveredAnimClass := probe\<rparr>)))"

definition equip_slots :: "u64 \<Rightarrow> GameProcess \<Rightarrow> int \<Rightarrow> u64 option list" where
  "equip_slots p g probe = map (\<lambda>slot. Read64 (at_offset p (probe + 8 * int slot)) (gp_memory g)) [0..<14]"

definition equip_candidate :: "u64 \<Rightarrow> GameProcess \<Rightarrow> int \<Rightarrow> bool" where
  "equip_candidate p g probe = (let xs = equip_slots p g probe in
     (\<forall>x \<in> set xs. case x of None \<Rightarrow> False | Some q \<Rightarrow> q = 0 \<or> user_ptr q) \<and> (\<exists>x \<in> set xs. x \<noteq> None \<and> x \<noteq> Some 0))"

definition equip_probes :: "int list" where
  "equip_probes = map (\<lambda>k. 0x2F0 + 8 * int k) [0..<29]"

definition ProbeEquipmentOffset :: "u64 \<Rightarrow> GameProcess \<Rightarrow> GameProcess" where
  "ProbeEquipmentOffset p g =
     (if gp_equipmentProbed g then g
      else
        let g1 = g\<lparr>gp_equipmentProbed := True\<rparr> in
        (case find (equip_candidate p g1) equip_probes of
           None \<Rightarrow> g1
         | Some probe \<Rightarrow> on_character_offsets (\<lambda>o1. o1\<lparr>cho_equipment := probe\<rparr>) g1))"

definition Character_GetEquipmentSlot :: "nat \<Rightarrow> u64 \<Rightarrow> GameProcess \<Rightarrow> u64 \<times> GameProcess" where
  "Character_GetEquipmentSlot slot p g =
     (let g1 = (if cho_equipment (chr_off g) < 0 then ProbeEquipmentOffset p g else g); off = cho_equipment (chr_off g1) in
      if off < 0 then (0, g1)
      else if 14 \<le> slot then (0, g1)
      else (peek64 (at_offset p (off + 8 * int slot)) (gp_memory g1), g1))"

text \<open>A pointer near the faction that looks like a squad: its name is a plausible string.\<close>

definition squad_candidate :: "u64 \<Rightarrow> u64 \<Rightarrow> GameProcess \<Rightarrow> int \<Rightarrow> bool" where
  "squad_candidate p faction g off = (let m = gp_memory g in
     case Read64 (at_offset p off) m of
       None \<Rightarrow> False
     | Some q \<Rightarrow> loose_ptr q \<and> q AND 7 = 0 \<and> q \<noteq> faction \<and> q \<le> 0x00007FFFFFFFFFE0 \<and>
         (case (Read64 (q + 0x10 + 0x18) m, Read64 (q + 0x10 + 0x10) m) of
            (Some capacity, Some n) \<Rightarrow> 1 \<le> capacity \<and> capacity \<le> 256 \<and> n \<le> capacity \<and> n \<le> 64
          | _ \<Rightarrow> False))"

definition Character_GetSquadPtr :: "u64 \<Rightarrow> GameProcess \<Rightarrow> u64 \<times> GameProcess" where
  "Character_GetSquadPtr p g =
     (if 0 \<le> cho_squad (chr_off g)
      then (let q = peek_at (cho_squad (chr_off g)) p g in (if user_ptr q then q else 0, g))
      else
        let faction = Character_GetFactionPtr p g in
        if faction = 0 then (0, g)
        else (case find (squad_candidate p faction g) [0x08, 0x20, 0x28, 0x30, 0x38] of
           None \<Rightarrow> (0, g)
         | Some off \<Rightarrow> (peek_at off p g, on_character_offsets (\<lambda>o1. o1\<lparr>cho_squad := off\<rparr>) g)))"

section \<open>Characters: writes\<close>

definition write_name_to :: "bytes \<Rightarrow> u64 \<Rightarrow> GameMemory \<Rightarrow> bool \<times> GameMemory" where
  "write_name_to name a m =
     (let capacity = peek64 (a + 0x18) m; n = length name in
      if n \<le> 15 then (True, write_sso name a m)
      else if n \<le> unat capacity then
        let d = peek64 a m in
        if d < 0x10000 then (False, m)
        else
          let m1 = snd (Mem_Write (bytes_u8 0) (d + of_nat n) (poke_each d name m))
          in (True, snd (Mem_Write (bytes_u64 (of_nat n)) (a + 0x10) m1))
      else (True, write_sso (take 15 name) a m))"

definition Character_WriteName :: "bytes \<Rightarrow> u64 \<Rightarrow> GameProcess \<Rightarrow> bool \<times> GameProcess" where
  "Character_WriteName name p g =
     (if cho_name (chr_off g) < 0 \<or> name = [] then (False, g)
      else let (ok, m) = write_name_to name (at_offset p (cho_name (chr_off g))) (gp_memory g) in (ok, g\<lparr>gp_memory := m\<rparr>))"

definition Character_WriteNameToGameData :: "bytes \<Rightarrow> u64 \<Rightarrow> GameProcess \<Rightarrow> bool \<times> GameProcess" where
  "Character_WriteNameToGameData name p g =
     (if cho_gameDataPtr (chr_off g) < 0 \<or> gof_gameData_name (gp_offsets g) < 0 \<or> name = [] then (False, g)
      else
        let d = peek_at (cho_gameDataPtr (chr_off g)) p g in
        if d < 0x10000 \<or> 0x00007FFFFFFFFFFF \<le> d then (False, g)
        else (True, on_memory (write_sso (take 15 name) (at_offset d (gof_gameData_name (gp_offsets g)))) g))"

definition Character_WriteFaction :: "u64 \<Rightarrow> u64 \<Rightarrow> GameProcess \<Rightarrow> bool \<times> GameProcess" where
  "Character_WriteFaction faction p g =
     (if cho_faction (chr_off g) < 0 then (False, g)
      else if \<not> aligned_ptr faction then (False, g)
      else if in_image faction g then (False, g)
      else (True, on_memory (\<lambda>m. snd (Mem_Write (bytes_u64 faction) (at_offset p (cho_faction (chr_off g))) m)) g))"

definition write_vec :: "Vec3 \<Rightarrow> u64 \<Rightarrow> GameMemory \<Rightarrow> GameMemory" where
  "write_vec v a m = snd (Mem_Write (bytes_u32 (vz v)) (a + 8) (snd (Mem_Write (bytes_u32 (vy v)) (a + 4) (snd (Mem_Write (bytes_u32 (vx v)) a m)))))"

text \<open>The end of the physics chain, if every pointer on it is plausible.\<close>

definition movement_of :: "u64 \<Rightarrow> GameProcess \<Rightarrow> u64 option" where
  "movement_of p g = (let o1 = chr_off g; m = gp_memory g in
     if cho_animClassOffset o1 < 0 then None
     else (case Read64 (at_offset p (cho_animClassOffset o1)) m of
        None \<Rightarrow> None
      | Some animClass \<Rightarrow> if \<not> (user_ptr animClass \<and> animClass AND 7 = 0) then None
          else (case Read64 (at_offset animClass (cho_charMovementOffset o1)) m of
             None \<Rightarrow> None
           | Some charMovement \<Rightarrow> if user_ptr charMovement \<and> charMovement AND 7 = 0 then Some charMovement else None)))"

definition Character_WritePosition :: "Vec3 \<Rightarrow> u64 \<Rightarrow> GameProcess \<Rightarrow> bool \<times> GameProcess" where
  "Character_WritePosition v p g =
     (if gp_setPositionFn g
      then (True, g\<lparr>gp_lastWritePosMethod := 1, gp_positionCalls := gp_positionCalls g @ [(p, v)]\<rparr>)
      else
        let g1 = (if cho_animClassOffset (chr_off g) < 0 \<and> \<not> gp_animClassProbed g then ProbeAnimClassOffset p g else g) in
        (case movement_of p g1 of
           Some charMovement \<Rightarrow> (True, on_memory (write_vec v (physics_address charMovement g1)) (g1\<lparr>gp_lastWritePosMethod := 2\<rparr>))
         | None \<Rightarrow>
             if 0 \<le> cho_position (chr_off g1)
             then (True, on_memory (write_vec v (at_offset p (cho_position (chr_off g1)))) (g1\<lparr>gp_lastWritePosMethod := 3\<rparr>))
             else (False, g1\<lparr>gp_lastWritePosMethod := -1\<rparr>)))"

definition Character_SetPlayerControlled :: "bool \<Rightarrow> u64 \<Rightarrow> GameProcess \<Rightarrow> bool \<times> GameProcess" where
  "Character_SetPlayerControlled controlled p g =
     (if cho_isPlayerControlled (chr_off g) < 0 then (False, g)
      else (True, on_memory (\<lambda>m. snd (Mem_Write (bytes_u8 (if controlled then 1 else 0)) (at_offset p (cho_isPlayerControlled (chr_off g))) m)) g))"

definition game_WritePlayerControlled :: "u64 \<Rightarrow> bool \<Rightarrow> GameProcess \<Rightarrow> bool \<times> GameProcess" where
  "game_WritePlayerControlled p controlled g =
     (if cho_isPlayerControlled (chr_off g) < 0 then (False, g)
      else (True, on_memory (\<lambda>m. snd (Mem_Write (bytes_u8 (if controlled then 1 else 0)) (at_offset p (cho_isPlayerControlled (chr_off g))) m)) g))"

section \<open>The list of characters\<close>

record CharacterIterator =
  cit_listBase :: u64
  cit_index :: nat
  cit_count :: nat

text \<open>The image size in the module's PE header, 64 MB when the header is not one.\<close>

definition image_size :: "GameProcess \<Rightarrow> u64" where
  "image_size g = (let m = gp_memory g; base = gp_moduleBase g in
     if peek 2 u16_of 0 base m = 0x5A4D then
       let nt = at_offset base (sint (peek32 0 (base + 0x3C) m)) in
       if peek32 0 nt m = 0x00004550 then ucast (peek32 0 (nt + 0x50) m) else 0x4000000
     else 0x4000000)"

definition isValidHeapPtr :: "GameProcess \<Rightarrow> u64 \<Rightarrow> bool" where
  "isValidHeapPtr g p \<longleftrightarrow> aligned_ptr p \<and> \<not> (gp_moduleBase g \<le> p \<and> p < gp_moduleBase g + image_size g)"

definition tryReadLektor :: "u64 \<Rightarrow> GameProcess \<Rightarrow> (u64 \<times> nat) option" where
  "tryReadLektor a g = (let m = gp_memory g in
     case (Read32 (a + 0x08) m, Read32 (a + 0x0C) m, Read64 (a + 0x10) m) of
       (Some n, Some capacity, Some p) \<Rightarrow>
         if n = 0 \<or> capacity < n \<or> 100000 < capacity \<or> \<not> isValidHeapPtr g p then None else Some (p, unat n)
     | _ \<Rightarrow> None)"

fun count_entries :: "nat \<Rightarrow> u64 \<Rightarrow> GameProcess \<Rightarrow> nat" where
  "count_entries 0 a g = 0"
| "count_entries (Suc n) a g = (case Read64 a (gp_memory g) of
     None \<Rightarrow> 0
   | Some p \<Rightarrow> if p \<noteq> 0 \<and> isValidHeapPtr g p then Suc (count_entries n (a + 8) g) else 0)"

definition player_list :: "GameProcess \<Rightarrow> u64" where
  "player_list g = (let m = gp_memory g in
     if gp_resolvedPlayerBase g = 0 then 0
     else (case Read64 (gp_resolvedPlayerBase g) m of
        None \<Rightarrow> 0
      | Some b \<Rightarrow> if \<not> isValidHeapPtr g b then 0
          else (case Read64 b m of None \<Rightarrow> 0 | Some e \<Rightarrow> if isValidHeapPtr g e then b else 0)))"

definition world_list :: "GameProcess \<Rightarrow> (u64 \<times> nat) option" where
  "world_list g = (let m = gp_memory g; w = gp_resolvedGameWorld g; off = wro_characterList (gof_world (gp_offsets g)) in
     if w = 0 then None
     else (case (case Read64 w m of None \<Rightarrow> None | Some gw \<Rightarrow> if isValidHeapPtr g gw then tryReadLektor (at_offset gw off) g else None) of
        Some x \<Rightarrow> Some x
      | None \<Rightarrow> tryReadLektor (at_offset w off) g))"

definition CharacterIterator_Reset :: "GameProcess \<Rightarrow> CharacterIterator" where
  "CharacterIterator_Reset g =
     (if gp_isLoading g then \<lparr>cit_listBase = 0, cit_index = 0, cit_count = 0\<rparr>
      else let b = player_list g in
        if b = 0 then (case world_list g of
             Some (p, n) \<Rightarrow> \<lparr>cit_listBase = p, cit_index = 0, cit_count = n\<rparr>
           | None \<Rightarrow> \<lparr>cit_listBase = 0, cit_index = 0, cit_count = 0\<rparr>)
        else \<lparr>cit_listBase = b, cit_index = 0, cit_count = count_entries 10000 b g\<rparr>)"

definition HasNext :: "CharacterIterator \<Rightarrow> bool" where
  "HasNext it \<longleftrightarrow> cit_index it < cit_count it"

text \<open>Null stands for the invalid accessor.\<close>

definition CharacterIterator_Next :: "GameProcess \<Rightarrow> CharacterIterator \<Rightarrow> u64 \<times> CharacterIterator" where
  "CharacterIterator_Next g it =
     (if \<not> HasNext it then (0, it)
      else
        let p = peek64 (cit_listBase it + of_nat (cit_index it) * 8) (gp_memory g); it1 = it\<lparr>cit_index := Suc (cit_index it)\<rparr> in
        if p = 0 \<or> p AND 7 \<noteq> 0 \<or> 0x00007FFFFFFFFFFF \<le> p then (0, it1)
        else (case Read64 p (gp_memory g) of
           None \<Rightarrow> (0, it1)
         | Some vtable \<Rightarrow> if \<not> in_image vtable g then (0, it1) else (p, it1)))"

text \<open>The loop \<^verbatim>\<open>while (iter.HasNext()) iter.Next()\<close>, the characters it yields in order.\<close>

fun iterate_from :: "nat \<Rightarrow> GameProcess \<Rightarrow> CharacterIterator \<Rightarrow> u64 list" where
  "iterate_from 0 g it = []"
| "iterate_from (Suc n) g it = (if HasNext it then fst (CharacterIterator_Next g it) # iterate_from n g (snd (CharacterIterator_Next g it)) else [])"

definition all_characters :: "GameProcess \<Rightarrow> u64 list" where
  "all_characters g = (let it = CharacterIterator_Reset g in iterate_from (cit_count it) g it)"

section \<open>Deferred probes\<close>

definition ScheduleDeferredAnimClassProbe :: "u64 \<Rightarrow> GameProcess \<Rightarrow> GameProcess" where
  "ScheduleDeferredAnimClassProbe p g =
     (if p \<in> set (gp_deferredProbeChars g) then g else g\<lparr>gp_deferredProbeChars := gp_deferredProbeChars g @ [p]\<rparr>)"

text \<open>
  The pass over the queue: implausible pointers are dropped, the first character whose probe succeeds ends it.
  The probe itself reads with \<^verbatim>\<open>Memory::Read\<close>, so the handler around it never fires.
\<close>

fun probe_queue :: "u64 list \<Rightarrow> u64 list \<Rightarrow> GameProcess \<Rightarrow> bool \<times> GameProcess" where
  "probe_queue [] kept g = (False, g\<lparr>gp_deferredProbeChars := kept\<rparr>)"
| "probe_queue (p # ps) kept g =
     (if \<not> loose_ptr p then probe_queue ps kept g
      else
        let g1 = ProbeAnimClassOffset p (g\<lparr>gp_animClassProbed := False\<rparr>) in
        if 0 \<le> cho_animClassOffset (chr_off g1) then (True, g1\<lparr>gp_deferredProbeChars := []\<rparr>)
        else probe_queue ps (kept @ [p]) g1)"

definition ProcessDeferredAnimClassProbes :: "GameProcess \<Rightarrow> bool \<times> GameProcess" where
  "ProcessDeferredAnimClassProbes g =
     (if 0 \<le> cho_animClassOffset (chr_off g) then (True, g\<lparr>gp_deferredProbeChars := []\<rparr>)
      else if gp_deferredProbeChars g = [] then (False, g)
      else (case probe_queue (gp_deferredProbeChars g) [] g of
         (True, g1) \<Rightarrow> (True, g1)
       | (False, g1) \<Rightarrow>
           let g2 = g1\<lparr>gp_deferredTotalAttempts := Suc (gp_deferredTotalAttempts g1)\<rparr> in
           (False, if 50 < gp_deferredTotalAttempts g2 then g2\<lparr>gp_deferredProbeChars := []\<rparr> else g2)))"

text \<open>The statics of the unified offset prober are not part of this state.\<close>

definition ResetProbeState :: "GameProcess \<Rightarrow> GameProcess" where
  "ResetProbeState g = g\<lparr>gp_animClassProbed := False, gp_discoveredAnimClass := -1, gp_equipmentProbed := False,
     gp_lastWritePosMethod := 0, gp_deferredTotalAttempts := 0, gp_deferredProbeChars := []\<rparr>"

definition controlled_candidate :: "u64 \<Rightarrow> u64 \<Rightarrow> GameProcess \<Rightarrow> int \<Rightarrow> bool" where
  "controlled_candidate player npc g off = (let m = gp_memory g in
     case (Mem_Read 1 u8_of (at_offset player off) m, Mem_Read 1 u8_of (at_offset npc off) m) of
       (Some a, Some b) \<Rightarrow> a = 1 \<and> b = 0 \<and>
         peek8 (at_offset player (off - 1)) m = 0 \<and> peek8 (at_offset player (off + 1)) m = 0 \<and>
         peek8 (at_offset npc (off - 1)) m = 0 \<and> peek8 (at_offset npc (off + 1)) m = 0
     | _ \<Rightarrow> False)"

definition ProbePlayerControlledOffset :: "u64 \<Rightarrow> u64 \<Rightarrow> GameProcess \<Rightarrow> GameProcess" where
  "ProbePlayerControlledOffset player npc g =
     (if 0 \<le> gp_playerControlledOffset g then g
      else if player = 0 \<or> npc = 0 then g
      else (case find (controlled_candidate player npc g) (map (\<lambda>k. 0x100 + int k) [0..<1025]) of
         None \<Rightarrow> g
       | Some off \<Rightarrow> on_character_offsets (\<lambda>o1. o1\<lparr>cho_isPlayerControlled := off\<rparr>) (g\<lparr>gp_playerControlledOffset := off\<rparr>)))"

section \<open>Squads, buildings, factions and stats\<close>

abbreviation "sqd_off g \<equiv> gof_squad (gp_offsets g)"

abbreviation "bld_off g \<equiv> gof_building (gp_offsets g)"

abbreviation "fac_off g \<equiv> gof_faction (gp_offsets g)"

definition squad_pair :: "u64 \<Rightarrow> GameProcess \<Rightarrow> int \<Rightarrow> bool" where
  "squad_pair q g probe = (let m = gp_memory g in
     case Read64 (at_offset q probe) m of
       None \<Rightarrow> False
     | Some l \<Rightarrow> l \<noteq> 0 \<and> loose_ptr l \<and>
         (let n = sint (peek32 (- 1) (at_offset q (probe + 8)) m) in
          0 \<le> n \<and> n \<le> 256 \<and> (n = 0 \<or> loose_ptr (peek64 l m))))"

definition ProbeSquadOffsets :: "u64 \<Rightarrow> GameProcess \<Rightarrow> GameProcess" where
  "ProbeSquadOffsets q g =
     (if gp_squadProbed g \<or> q = 0 then g
      else
        let g1 = g\<lparr>gp_squadProbed := True\<rparr>; m = gp_memory g; o1 = sqd_off g;
            n = (if 0 \<le> sqo_memberCount o1 then sint (peek32 (- 1) (at_offset q (sqo_memberCount o1)) m) else -1);
            l = (if 0 \<le> sqo_memberList o1 then peek64 (at_offset q (sqo_memberList o1)) m else 0);
            good = ((l = 0 \<or> user_ptr l) \<and> 0 \<le> n \<and> n < 256 \<and> (0 < n \<and> l \<noteq> 0 \<longrightarrow> user_ptr (peek64 l m)))
        in if good then g1
           else (case find (squad_pair q g1) (map (\<lambda>k. 0x20 + 8 * int k) [0..<29]) of
              None \<Rightarrow> g1
            | Some probe \<Rightarrow> g1\<lparr>gp_offsets := (gp_offsets g1)\<lparr>gof_squad := o1\<lparr>sqo_memberList := probe, sqo_memberCount := probe + 8\<rparr>\<rparr>\<rparr>))"

definition Squad_GetName :: "u64 \<Rightarrow> GameProcess \<Rightarrow> bytes" where
  "Squad_GetName q g = (if sqo_name (sqd_off g) < 0 then lit ''Unknown Squad''
     else read_name (lit ''Unknown Squad'') (at_offset q (sqo_name (sqd_off g))) (gp_memory g))"

definition Squad_GetMemberCount :: "u64 \<Rightarrow> GameProcess \<Rightarrow> nat" where
  "Squad_GetMemberCount q g = (if sqo_memberCount (sqd_off g) < 0 then 0
     else let n = sint (peek32 0 (at_offset q (sqo_memberCount (sqd_off g))) (gp_memory g)) in if 0 \<le> n \<and> n < 256 then nat n else 0)"

definition Squad_GetMember :: "int \<Rightarrow> u64 \<Rightarrow> GameProcess \<Rightarrow> u64" where
  "Squad_GetMember i q g =
     (if sqo_memberList (sqd_off g) < 0 then 0
      else if i < 0 \<or> int (Squad_GetMemberCount q g) \<le> i then 0
      else let l = peek_at (sqo_memberList (sqd_off g)) q g in
        if l = 0 then 0 else peek64 (at_offset l (i * 8)) (gp_memory g))"

definition Squad_GetFactionPtr :: "u64 \<Rightarrow> GameProcess \<Rightarrow> u64" where
  "Squad_GetFactionPtr q g = (if sqo_factionId (sqd_off g) < 0 then 0 else peek_at (sqo_factionId (sqd_off g)) q g)"

definition IsPlayerSquad :: "u64 \<Rightarrow> GameProcess \<Rightarrow> bool" where
  "IsPlayerSquad q g \<longleftrightarrow> 0 \<le> sqo_isPlayerSquad (sqd_off g) \<and> peek_bool (at_offset q (sqo_isPlayerSquad (sqd_off g))) (gp_memory g)"

definition Building_GetName :: "u64 \<Rightarrow> GameProcess \<Rightarrow> bytes" where
  "Building_GetName b g = (if bdo_name (bld_off g) < 0 then lit ''Unknown Building''
     else read_name (lit ''Unknown Building'') (at_offset b (bdo_name (bld_off g))) (gp_memory g))"

definition Building_GetPosition :: "u64 \<Rightarrow> GameProcess \<Rightarrow> Vec3" where
  "Building_GetPosition b g =
     (if 0 \<le> bdo_position (bld_off g)
      then (case Mem_ReadVec3 (at_offset b (bdo_position (bld_off g))) (gp_memory g) of Some v \<Rightarrow> v | None \<Rightarrow> Vec3_new 0 0 0)
      else Vec3_new 0 0 0)"

definition Building_GetHealth :: "u64 \<Rightarrow> GameProcess \<Rightarrow> f32" where
  "Building_GetHealth b g = (if bdo_health (bld_off g) < 0 then 0 else peek32 0 (at_offset b (bdo_health (bld_off g))) (gp_memory g))"

definition Building_GetMaxHealth :: "u64 \<Rightarrow> GameProcess \<Rightarrow> f32" where
  "Building_GetMaxHealth b g = (if bdo_maxHealth (bld_off g) < 0 then 0 else peek32 0 (at_offset b (bdo_maxHealth (bld_off g))) (gp_memory g))"

definition IsDestroyed :: "u64 \<Rightarrow> GameProcess \<Rightarrow> bool" where
  "IsDestroyed b g =
     (if bdo_isDestroyed (bld_off g) < 0 then f32_lt 0 (Building_GetMaxHealth b g) \<and> f32_le (Building_GetHealth b g) 0
      else peek_bool (at_offset b (bdo_isDestroyed (bld_off g))) (gp_memory g))"

definition GetBuildProgress :: "u64 \<Rightarrow> GameProcess \<Rightarrow> f32" where
  "GetBuildProgress b g =
     (if bdo_buildProgress (bld_off g) < 0 then f32_of_int 1 else peek32 0 (at_offset b (bdo_buildProgress (bld_off g))) (gp_memory g))"

definition IsConstructed :: "u64 \<Rightarrow> GameProcess \<Rightarrow> bool" where
  "IsConstructed b g =
     (if bdo_isConstructed (bld_off g) < 0 then f32_le (f32_of_int 1) (GetBuildProgress b g)
      else peek_bool (at_offset b (bdo_isConstructed (bld_off g))) (gp_memory g))"

definition GetOwnerFaction :: "u64 \<Rightarrow> GameProcess \<Rightarrow> u64" where
  "GetOwnerFaction b g = (if bdo_ownerFaction (bld_off g) < 0 then 0
     else let p = peek_at (bdo_ownerFaction (bld_off g)) b g in if user_ptr p then p else 0)"

definition Building_GetInventoryPtr :: "u64 \<Rightarrow> GameProcess \<Rightarrow> u64" where
  "Building_GetInventoryPtr b g = (if bdo_inventory (bld_off g) < 0 then 0
     else let p = peek_at (bdo_inventory (bld_off g)) b g in if user_ptr p then p else 0)"

definition Faction_GetName :: "u64 \<Rightarrow> GameProcess \<Rightarrow> bytes" where
  "Faction_GetName f g = (if fao_name (fac_off g) < 0 then lit ''Unknown Faction''
     else read_name (lit ''Unknown Faction'') (at_offset f (fao_name (fac_off g))) (gp_memory g))"

definition Faction_GetMemberCount :: "u64 \<Rightarrow> GameProcess \<Rightarrow> nat" where
  "Faction_GetMemberCount f g = (if fao_memberCount (fac_off g) < 0 then 0
     else let n = sint (peek32 0 (at_offset f (fao_memberCount (fac_off g))) (gp_memory g)) in if 0 \<le> n \<and> n < 10000 then nat n else 0)"

definition IsPlayerFaction :: "u64 \<Rightarrow> GameProcess \<Rightarrow> bool" where
  "IsPlayerFaction f g \<longleftrightarrow> 0 \<le> fao_isPlayerFaction (fac_off g) \<and> peek_bool (at_offset f (fao_isPlayerFaction (fac_off g))) (gp_memory g)"

definition Faction_GetMoney :: "u64 \<Rightarrow> GameProcess \<Rightarrow> i32" where
  "Faction_GetMoney f g = (if fao_money (fac_off g) < 0 then 0 else peek32 0 (at_offset f (fao_money (fac_off g))) (gp_memory g))"

definition ReadStat :: "u64 \<Rightarrow> int \<Rightarrow> GameProcess \<Rightarrow> f32" where
  "ReadStat s off g = (if off < 0 \<or> s = 0 then 0
     else let v = peek32 0 (at_offset s off) (gp_memory g) in if f32_le 0 v \<and> f32_lt v (f32_of_int 1000) then v else 0)"

definition GetMeleeAttack :: "u64 \<Rightarrow> GameProcess \<Rightarrow> f32" where
  "GetMeleeAttack s g = ReadStat s (sto_meleeAttack (gof_stats (gp_offsets g))) g"

definition GetMeleeDefence :: "u64 \<Rightarrow> GameProcess \<Rightarrow> f32" where
  "GetMeleeDefence s g = ReadStat s (sto_meleeDefence (gof_stats (gp_offsets g))) g"

definition GetDodge :: "u64 \<Rightarrow> GameProcess \<Rightarrow> f32" where
  "GetDodge s g = ReadStat s (sto_dodge (gof_stats (gp_offsets g))) g"

definition GetMartialArts :: "u64 \<Rightarrow> GameProcess \<Rightarrow> f32" where
  "GetMartialArts s g = ReadStat s (sto_martialArts (gof_stats (gp_offsets g))) g"

definition GetStrength :: "u64 \<Rightarrow> GameProcess \<Rightarrow> f32" where
  "GetStrength s g = ReadStat s (sto_strength (gof_stats (gp_offsets g))) g"

definition GetToughness :: "u64 \<Rightarrow> GameProcess \<Rightarrow> f32" where
  "GetToughness s g = ReadStat s (sto_toughness (gof_stats (gp_offsets g))) g"

definition GetDexterity :: "u64 \<Rightarrow> GameProcess \<Rightarrow> f32" where
  "GetDexterity s g = ReadStat s (sto_dexterity (gof_stats (gp_offsets g))) g"

definition GetAthletics :: "u64 \<Rightarrow> GameProcess \<Rightarrow> f32" where
  "GetAthletics s g = ReadStat s (sto_athletics (gof_stats (gp_offsets g))) g"

definition GetStealth :: "u64 \<Rightarrow> GameProcess \<Rightarrow> f32" where
  "GetStealth s g = ReadStat s (sto_stealth (gof_stats (gp_offsets g))) g"

definition GetCrossbows :: "u64 \<Rightarrow> GameProcess \<Rightarrow> f32" where
  "GetCrossbows s g = ReadStat s (sto_crossbows (gof_stats (gp_offsets g))) g"

definition GetMedic :: "u64 \<Rightarrow> GameProcess \<Rightarrow> f32" where
  "GetMedic s g = ReadStat s (sto_medic (gof_stats (gp_offsets g))) g"

end
