(* ===== verification/Game_Inventory.thy ===== *)
theory Game_Inventory
  imports Game_Accessors
begin

text \<open>
  \<^verbatim>\<open>game_inventory.cpp\<close> and \<^verbatim>\<open>game_world.cpp\<close> of \<^verbatim>\<open>KenshiMP.Core/game\<close>: item stacks, equipment, the time and
  weather of the game world, and what the item operations promise about the memory they leave behind.  The sum of
  two quantities wraps in the model; in the code its overflow is undefined.
\<close>

section \<open>Inventories\<close>

abbreviation "ivo g \<equiv> gof_inventory (gp_offsets g)"

abbreviation "ito g \<equiv> gof_item (gp_offsets g)"

definition GetItemCount :: "u64 \<Rightarrow> GameProcess \<Rightarrow> nat" where
  "GetItemCount iv g = (if iv = 0 then 0 else if ivo_itemCount (ivo g) < 0 then 0
     else let n = sint (peek32 0 (at_offset iv (ivo_itemCount (ivo g))) (gp_memory g)) in if 0 \<le> n \<and> n < 10000 then nat n else 0)"

definition item_list :: "u64 \<Rightarrow> GameProcess \<Rightarrow> u64" where
  "item_list iv g = (if 0 \<le> ivo_items (ivo g) then peek_at (ivo_items (ivo g)) iv g else 0)"

definition item_at :: "u64 \<Rightarrow> GameProcess \<Rightarrow> nat \<Rightarrow> u64" where
  "item_at l g i = peek64 (l + of_nat i * 8) (gp_memory g)"

definition GetItem :: "int \<Rightarrow> u64 \<Rightarrow> GameProcess \<Rightarrow> u64" where
  "GetItem i iv g =
     (if iv = 0 \<or> i < 0 \<or> int (GetItemCount iv g) \<le> i then 0
      else if ivo_items (ivo g) < 0 then 0
      else if item_list iv g = 0 then 0 else item_at (item_list iv g) g (nat i))"

definition GetWidth :: "u64 \<Rightarrow> GameProcess \<Rightarrow> i32" where
  "GetWidth iv g = (if iv = 0 then 0 else if ivo_width (ivo g) < 0 then 0 else peek32 0 (at_offset iv (ivo_width (ivo g))) (gp_memory g))"

definition GetHeight :: "u64 \<Rightarrow> GameProcess \<Rightarrow> i32" where
  "GetHeight iv g = (if iv = 0 then 0 else if ivo_height (ivo g) < 0 then 0 else peek32 0 (at_offset iv (ivo_height (ivo g))) (gp_memory g))"

definition item_template :: "u64 \<Rightarrow> GameProcess \<Rightarrow> u32" where
  "item_template item g = (if 0 \<le> ito_templateId (ito g) then peek32 0 (at_offset item (ito_templateId (ito g))) (gp_memory g) else 0)"

definition stack_address :: "u64 \<Rightarrow> GameProcess \<Rightarrow> u64" where
  "stack_address item g = at_offset item (ito_stackCount (ito g))"

definition stack_count :: "u64 \<Rightarrow> GameProcess \<Rightarrow> i32" where
  "stack_count item g = peek32 0 (stack_address item g) (gp_memory g)"

text \<open>The first stack of a template in the list; the loop goes on over null entries and unknown stack offsets.\<close>

definition find_stack :: "u32 \<Rightarrow> u64 \<Rightarrow> GameProcess \<Rightarrow> u64 option" where
  "find_stack templateId iv g =
     find (\<lambda>item. item \<noteq> 0 \<and> item_template item g = templateId \<and> 0 \<le> ito_stackCount (ito g))
       (map (item_at (item_list iv g) g) [0..<GetItemCount iv g])"

definition set_stack :: "u64 \<Rightarrow> i32 \<Rightarrow> GameProcess \<Rightarrow> bool \<times> GameProcess" where
  "set_stack item n g = (let (ok, m) = Mem_Write (bytes_u32 n) (stack_address item g) (gp_memory g) in (ok, g\<lparr>gp_memory := m\<rparr>))"

definition AddItem :: "u32 \<Rightarrow> i32 \<Rightarrow> u64 \<Rightarrow> GameProcess \<Rightarrow> bool \<times> GameProcess" where
  "AddItem templateId quantity iv g =
     (if iv = 0 \<or> sint quantity \<le> 0 then (False, g)
      else if item_list iv g = 0 then (False, g)
      else (case find_stack templateId iv g of
         None \<Rightarrow> (False, g)
       | Some item \<Rightarrow> set_stack item (stack_count item g + quantity) g))"

definition RemoveItem :: "u32 \<Rightarrow> i32 \<Rightarrow> u64 \<Rightarrow> GameProcess \<Rightarrow> bool \<times> GameProcess" where
  "RemoveItem templateId quantity iv g =
     (if iv = 0 \<or> sint quantity \<le> 0 then (False, g)
      else if item_list iv g = 0 then (False, g)
      else (case find_stack templateId iv g of
         None \<Rightarrow> (False, g)
       | Some item \<Rightarrow>
           let n = stack_count item g - quantity in set_stack item (if sint n < 0 then 0 else n) g))"

definition SetEquipment :: "nat \<Rightarrow> u32 \<Rightarrow> u64 \<Rightarrow> GameProcess \<Rightarrow> bool \<times> GameProcess" where
  "SetEquipment slot templateId iv g =
     (if iv = 0 then (False, g)
      else if 14 \<le> slot then (False, g)
      else if cho_equipment (chr_off g) < 0 then (False, g)
      else if item_list iv g = 0 \<or> ito_templateId (ito g) < 0 then (False, g)
      else (case find (\<lambda>item. item \<noteq> 0 \<and> item_template item g = templateId) (map (item_at (item_list iv g) g) [0..<GetItemCount iv g]) of
         None \<Rightarrow> (False, g)
       | Some item \<Rightarrow>
           let owner = (if 0 \<le> ivo_owner (ivo g) then peek_at (ivo_owner (ivo g)) iv g else 0) in
           if owner = 0 then (False, g)
           else
             let (ok, m) = Mem_Write (bytes_u64 item) (at_offset owner (cho_equipment (chr_off g) + 8 * int slot)) (gp_memory g)
             in (ok, g\<lparr>gp_memory := m\<rparr>)))"

section \<open>The game world\<close>

abbreviation "wro g \<equiv> gof_world (gp_offsets g)"

text \<open>\<open>WorldAccessor\<close> reads from the world itself, \<open>GameWorldAccessor\<close> through the singleton's pointer.\<close>

definition WorldAccessor_GetTimeOfDay :: "u64 \<Rightarrow> GameProcess \<Rightarrow> f32" where
  "WorldAccessor_GetTimeOfDay w g = (if wro_timeOfDay (wro g) < 0 \<or> w = 0 then f32_lit 5 10
     else peek32 (f32_lit 5 10) (at_offset w (wro_timeOfDay (wro g))) (gp_memory g))"

definition WorldAccessor_GetGameSpeed :: "u64 \<Rightarrow> GameProcess \<Rightarrow> f32" where
  "WorldAccessor_GetGameSpeed w g = (if wro_gameSpeed (wro g) < 0 \<or> w = 0 then f32_of_int 1
     else peek32 (f32_of_int 1) (at_offset w (wro_gameSpeed (wro g))) (gp_memory g))"

definition WorldAccessor_GetWeatherState :: "u64 \<Rightarrow> GameProcess \<Rightarrow> i32" where
  "WorldAccessor_GetWeatherState w g = (if wro_weatherState (wro g) < 0 \<or> w = 0 then 0
     else peek32 0 (at_offset w (wro_weatherState (wro g))) (gp_memory g))"

definition poke32 :: "int \<Rightarrow> u32 \<Rightarrow> u64 \<Rightarrow> GameProcess \<Rightarrow> bool \<times> GameProcess" where
  "poke32 off x p g = (let (ok, m) = Mem_Write (bytes_u32 x) (at_offset p off) (gp_memory g) in (ok, g\<lparr>gp_memory := m\<rparr>))"

definition WorldAccessor_SetTimeOfDay :: "f32 \<Rightarrow> u64 \<Rightarrow> GameProcess \<Rightarrow> bool \<times> GameProcess" where
  "WorldAccessor_SetTimeOfDay t w g = (if wro_timeOfDay (wro g) < 0 \<or> w = 0 then (False, g) else poke32 (wro_timeOfDay (wro g)) t w g)"

definition WorldAccessor_SetGameSpeed :: "f32 \<Rightarrow> u64 \<Rightarrow> GameProcess \<Rightarrow> bool \<times> GameProcess" where
  "WorldAccessor_SetGameSpeed s w g = (if wro_gameSpeed (wro g) < 0 \<or> w = 0 then (False, g) else poke32 (wro_gameSpeed (wro g)) s w g)"

definition WorldAccessor_SetWeatherState :: "i32 \<Rightarrow> u64 \<Rightarrow> GameProcess \<Rightarrow> bool \<times> GameProcess" where
  "WorldAccessor_SetWeatherState k w g = (if wro_weatherState (wro g) < 0 \<or> w = 0 then (False, g) else poke32 (wro_weatherState (wro g)) k w g)"

definition GetZone :: "Vec3 \<Rightarrow> ZoneCoord" where
  "GetZone p = FromWorldPos p KMP_ZONE_SIZE"

definition world_of :: "u64 \<Rightarrow> GameProcess \<Rightarrow> u64" where
  "world_of a g = (let w = peek64 a (gp_memory g) in if w < 0x10000 then 0 else w)"

definition GameWorld_GetTimeOfDay :: "u64 \<Rightarrow> GameProcess \<Rightarrow> f32" where
  "GameWorld_GetTimeOfDay a g = (if wro_timeOfDay (wro g) < 0 \<or> a = 0 then f32_lit 5 10
     else if world_of a g = 0 then f32_lit 5 10
     else peek32 (f32_lit 5 10) (at_offset (world_of a g) (wro_timeOfDay (wro g))) (gp_memory g))"

definition GameWorld_GetGameSpeed :: "u64 \<Rightarrow> GameProcess \<Rightarrow> f32" where
  "GameWorld_GetGameSpeed a g = (if wro_gameSpeed (wro g) < 0 \<or> a = 0 then f32_of_int 1
     else if world_of a g = 0 then f32_of_int 1
     else peek32 (f32_of_int 1) (at_offset (world_of a g) (wro_gameSpeed (wro g))) (gp_memory g))"

definition GameWorld_GetWeatherState :: "u64 \<Rightarrow> GameProcess \<Rightarrow> i32" where
  "GameWorld_GetWeatherState a g = (if wro_weatherState (wro g) < 0 \<or> a = 0 then 0
     else if world_of a g = 0 then 0 else peek32 0 (at_offset (world_of a g) (wro_weatherState (wro g))) (gp_memory g))"

definition GameWorld_WriteTimeOfDay :: "f32 \<Rightarrow> u64 \<Rightarrow> GameProcess \<Rightarrow> bool \<times> GameProcess" where
  "GameWorld_WriteTimeOfDay t a g = (if wro_timeOfDay (wro g) < 0 \<or> a = 0 then (False, g)
     else if world_of a g = 0 then (False, g) else poke32 (wro_timeOfDay (wro g)) t (world_of a g) g)"

definition GameWorld_WriteGameSpeed :: "f32 \<Rightarrow> u64 \<Rightarrow> GameProcess \<Rightarrow> bool \<times> GameProcess" where
  "GameWorld_WriteGameSpeed s a g = (if wro_gameSpeed (wro g) < 0 \<or> a = 0 then (False, g)
     else if world_of a g = 0 then (False, g) else poke32 (wro_gameSpeed (wro g)) s (world_of a g) g)"

end
