(* ===== verification/Game_Properties.thy ===== *)
theory Game_Properties
  imports Game_Inventory
begin

text \<open>
  What the accessors promise: names, item stacks and positions written are read back and nothing else changes, the
  iterator yields only plausible objects, and the two ways in which the runtime probes stop working.
\<close>

section \<open>Names\<close>

lemma writable_poke: "writable b k (poke_each a bs m) = writable b k m"
  by simp

lemma poke_name_get:
  assumes "\<forall>p \<in> set (cells d (length s)). writable p 1 m" "length s \<le> 256"
  shows "mem_get (length s) d (poke_each d s m) = Some s"
  using assms by (simp add: poke_each_put mem_get_put)

text \<open>
  \<open>heap_writable\<close>: the characters and the terminator of a string on the heap can be written and do not overlap the
  string object.
\<close>

definition heap_writable :: "u64 \<Rightarrow> nat \<Rightarrow> GameMemory \<Rightarrow> bool" where
  "heap_writable a n m \<longleftrightarrow> (let d = peek64 a m in
     0x10000 \<le> d \<and> n \<le> 256 \<and> apart d (n + 1) a 32 \<and> (\<forall>p \<in> set (cells d (n + 1)). writable p 1 m))"

lemma apart_part: "apart a n b k \<Longrightarrow> set (cells c i) \<subseteq> set (cells a n) \<Longrightarrow> set (cells e j) \<subseteq> set (cells b k) \<Longrightarrow> apart c i e j"
  unfolding apart_def by blast

lemma cells_within: "i + n \<le> k \<Longrightarrow> set (cells (a + of_nat i) n) \<subseteq> set (cells a k)"
proof
  fix p assume "i + n \<le> k" "p \<in> set (cells (a + of_nat i) n)"
  then obtain j where j: "j < n" "p = a + of_nat i + of_nat j" by (auto simp: in_cells)
  then have "i + j < k" "p = a + of_nat (i + j)" using \<open>i + n \<le> k\<close> by simp_all
  then show "p \<in> set (cells a k)" unfolding in_cells by blast
qed

lemma read_write_heap:
  assumes "sso_writable a m" "heap_writable a (length s) m" "15 < length s" "length s \<le> unat (peek64 (a + 0x18) m)"
  shows "read_name unknown a (snd (write_name_to s a m)) = s"
proof -
  define d where "d = peek64 a m"
  define n where "n = length s"
  define m1 where "m1 = poke_each d s m"
  define m2 where "m2 = snd (Mem_Write (bytes_u8 0) (d + of_nat n) m1)"
  define m3 where "m3 = snd (Mem_Write (bytes_u64 (of_nat n)) (a + 0x10) m2)"
  have h: "0x10000 \<le> d" "n \<le> 256" "apart d (n + 1) a 32" "\<forall>p \<in> set (cells d (n + 1)). writable p 1 m"
    using assms(2) by (simp_all add: heap_writable_def Let_def d_def n_def)
  have eq: "write_name_to s a m = (True, m3)"
    using assms(3,4) h(1) by (simp add: write_name_to_def Let_def d_def m3_def m2_def m1_def n_def not_less)
  have sub: "set (cells d n) \<subseteq> set (cells d (n + 1))" "set (cells (d + of_nat n) 1) \<subseteq> set (cells d (n + 1))"
    using cells_within [of 0 n "n + 1" d] cells_within [of n 1 "n + 1" d] by simp_all
  have obj: "set (cells a 8) \<subseteq> set (cells a 32)" "set (cells (a + 0x10) 8) \<subseteq> set (cells a 32)" "set (cells (a + 0x18) 8) \<subseteq> set (cells a 32)"
    using cells_within [of 0 8 32 a] cells_within [of 16 8 32 a] cells_within [of 24 8 32 a] by simp_all
  have len: "length (bytes_u64 x) = 8" "length (bytes_u8 y) = 1" for x y by (simp_all add: bytes_u64_def)
  have keep: "peek64 b m2 = peek64 b m" if "set (cells b 8) \<subseteq> set (cells a 32)" for b
  proof -
    have "apart (d + of_nat n) 1 b 8" "apart d n b 8" using apart_part [OF h(3)] sub that by blast+
    then show ?thesis
      by (simp add: m2_def m1_def peek_write_apart len peek_def Mem_Read_def get_poke_apart n_def get_write_apart)
  qed
  have "peek64 a m3 = d"
    unfolding m3_def by (subst peek_write_apart) (simp_all add: len apart_base keep obj d_def)
  moreover have "peek64 (a + 0x18) m3 = peek64 (a + 0x18) m"
    unfolding m3_def by (subst peek_write_apart) (simp_all add: len apart_offsets keep obj)
  moreover have "peek64 (a + 0x10) m3 = of_nat n"
    unfolding m3_def using assms(1) by (intro wire_u64.peek_back) (simp_all add: m2_def m1_def sso_writable_def)
  moreover have "mem_get n d m3 = Some s"
  proof -
    have "apart (a + 0x10) 8 d n" using apart_part [OF h(3) sub(1) obj(2)] by (rule apart_sym)
    moreover have "apart (d + of_nat n) 1 d n"
      using h(2) apart_base(2) [of n "of_nat n" 1 d] by (simp add: unat_of_nat)
    moreover have "mem_get n d m1 = Some s"
      using poke_name_get [of d s m] h(2,4) sub(1) by (auto simp: m1_def n_def)
    ultimately show ?thesis by (simp add: m3_def m2_def get_write_apart len)
  qed
  ultimately show ?thesis
    using h(1,2) assms(3,4) unfolding eq n_def [symmetric]
    by (auto simp: read_name_def Let_def chars_at_get unat_of_nat word_less_nat_alt word_of_nat_eq_0_iff n_def dest: dvd_imp_le)
qed

definition name_address :: "u64 \<Rightarrow> GameProcess \<Rightarrow> u64" where
  "name_address p g = at_offset p (cho_name (chr_off g))"

definition name_fits :: "bytes \<Rightarrow> u64 \<Rightarrow> GameProcess \<Rightarrow> bool" where
  "name_fits s p g \<longleftrightarrow> 15 < length s \<and> length s \<le> unat (peek64 (name_address p g + 0x18) (gp_memory g))"

text \<open>
  Roundtrip.  The name written to a character (\<open>WriteName\<close>) is the name read from it (\<open>GetName\<close>): whole when it has at
  most 15 characters or the string's heap buffer has room for it, otherwise its first 15 characters.
\<close>

theorem character_name_roundtrip:
  assumes "0 \<le> cho_name (chr_off g)" "s \<noteq> []" "sso_writable (name_address p g) (gp_memory g)"
    and "name_fits s p g \<Longrightarrow> heap_writable (name_address p g) (length s) (gp_memory g)"
  shows "fst (Character_WriteName s p g) \<and>
    Character_GetName p (snd (Character_WriteName s p g)) = (if name_fits s p g then s else take 15 s)"
proof (cases "name_fits s p g")
  case True
  have d: "0x10000 \<le> peek64 (name_address p g) (gp_memory g)" using assms(4) [OF True] by (simp add: heap_writable_def Let_def)
  have "fst (write_name_to s (name_address p g) (gp_memory g))"
    using True d by (simp add: write_name_to_def name_fits_def Let_def not_less)
  with True show ?thesis using assms(1,2) read_write_heap [OF assms(3) assms(4)]
    by (auto simp: Character_WriteName_def Character_GetName_def name_fits_def name_address_def case_prod_unfold)
next
  case False
  then have "write_name_to s (name_address p g) (gp_memory g) = (True, write_sso (take 15 s) (name_address p g) (gp_memory g))"
    by (auto simp: write_name_to_def name_fits_def Let_def)
  with False show ?thesis using assms(1,2) read_write_sso [OF assms(3), of "take 15 s"]
    by (simp add: Character_WriteName_def Character_GetName_def name_address_def)
qed

definition example_memory :: GameMemory where
  "example_memory = \<lparr>gm_byte = (\<lambda>a. if 0x20000 \<le> a \<and> a < 0x30000 then Some 0 else None), gm_protect = (\<lambda>a n. True)\<rparr>"

lemma example_writable: "0x20000 \<le> a \<Longrightarrow> unat a + n \<le> 0x30000 \<Longrightarrow> writable a n example_memory"
  by (auto simp: writable_def in_cells example_memory_def word_le_nat_alt word_less_nat_alt unat_word_ariths unat_of_nat)

definition example_process :: GameProcess where
  "example_process = GameProcess_new example_memory 0x140000000"

lemma example_sso: "0x20000 \<le> a \<Longrightarrow> unat a + 32 \<le> 0x30000 \<Longrightarrow> sso_writable a example_memory"
  unfolding sso_writable_def
  by (auto simp: in_cells word_le_nat_alt unat_word_ariths unat_of_nat intro!: example_writable)

theorem character_name_roundtrip_witness:
  "Character_GetName 0x20000 (snd (Character_WriteName (lit ''Beep'') 0x20000 example_process)) = lit ''Beep'' \<and>
   Character_GetName 0x20000 (snd (Character_WriteName (lit ''a name of twenty one'') 0x20000 example_process)) = lit ''a name of twent''"
proof -
  have a: "0 \<le> cho_name (chr_off example_process)" "sso_writable (name_address 0x20000 example_process) (gp_memory example_process)"
    by (simp_all add: example_process_def GameProcess_new_def GameOffsets_default_def CharacterOffsets_default_def name_address_def
        at_offset_def example_sso)
  have c: "peek64 (name_address 0x20000 example_process + 0x18) (gp_memory example_process) = 0"
    by code_simp
  then have f: "\<not> name_fits s 0x20000 example_process" for s by (auto simp: name_fits_def)
  show ?thesis
    using character_name_roundtrip [OF a(1) _ a(2), of "lit ''Beep''"] character_name_roundtrip [OF a(1) _ a(2), of "lit ''a name of twenty one''"] f
    by (simp add: lit_def)
qed

section \<open>Item stacks\<close>

lemma mem_get_same:
  assumes "mem_get n a m = Some bs" "mem_get n a m' = Some bs" "p \<in> set (cells a n)"
  shows "gm_byte m p = gm_byte m' p"
proof -
  have "map (\<lambda>p. the (gm_byte m p)) (cells a n) = map (\<lambda>p. the (gm_byte m' p)) (cells a n)"
    "gm_byte m p \<noteq> None" "gm_byte m' p \<noteq> None"
    using assms by (auto simp: mem_get_def split: if_splits)
  then show ?thesis using assms(3) by (auto simp del: not_None_eq simp: option.expand)
qed

lemma mem_put_put: "length bs = length cs \<Longrightarrow> length cs \<le> 2 ^ 64 \<Longrightarrow> mem_put a bs (mem_put a cs m) = mem_put a bs m"
proof -
  assume l: "length bs = length cs" "length cs \<le> 2 ^ 64"
  have "gm_byte (mem_put a bs (mem_put a cs m)) p = gm_byte (mem_put a bs m) p" for p
  proof (cases "p \<in> set (cells a (length bs))")
    case True
    have len: "length bs \<le> 2 ^ 64" using l by simp
    show ?thesis by (rule mem_get_same [OF mem_get_put [OF len] mem_get_put [OF len] True])
  qed (simp add: mem_put_other l)
  then show ?thesis by (intro GameMemory.equality) auto
qed

lemma mem_put_same:
  assumes "mem_get (length bs) a m = Some bs" "length bs \<le> 2 ^ 64" shows "mem_put a bs m = m"
proof -
  have "gm_byte (mem_put a bs m) p = gm_byte m p" for p
  proof (cases "p \<in> set (cells a (length bs))")
    case True
    then show ?thesis by (rule mem_get_same [OF mem_get_put [OF assms(2)] assms(1)])
  qed (simp add: mem_put_other)
  then show ?thesis by (intro GameMemory.equality) auto
qed

text \<open>
  \<open>stack_apart\<close>: the stack cell of an item does not overlap what the search reads: the inventory's list and count,
  the entries of the list and the template ids of the items.
\<close>

definition stack_apart :: "u64 \<Rightarrow> u64 \<Rightarrow> GameProcess \<Rightarrow> bool" where
  "stack_apart item iv g \<longleftrightarrow> (let a = stack_address item g; l = item_list iv g in
     apart a 4 (at_offset iv (ivo_items (ivo g))) 8 \<and> apart a 4 (at_offset iv (ivo_itemCount (ivo g))) 4 \<and>
     (\<forall>i \<in> set [0..<GetItemCount iv g]. apart a 4 (l + of_nat i * 8) 8 \<and>
        apart a 4 (at_offset (item_at l g i) (ito_templateId (ito g))) 4))"

lemma set_stack_sel [simp]: "gp_offsets (snd (set_stack item n g)) = gp_offsets g"
  by (simp add: set_stack_def case_prod_unfold Let_def)

lemma set_stack_memory: "gp_memory (snd (set_stack item n g)) = snd (Mem_Write (bytes_u32 n) (stack_address item g) (gp_memory g))"
  by (simp add: set_stack_def case_prod_unfold Let_def)

lemma set_stack_search:
  assumes "stack_apart item iv g"
  shows "item_list iv (snd (set_stack item n g)) = item_list iv g" "GetItemCount iv (snd (set_stack item n g)) = GetItemCount iv g"
    "find_stack t iv (snd (set_stack item n g)) = find_stack t iv g"
proof -
  let ?g = "snd (set_stack item n g)"
  have len: "length (bytes_u32 n) = 4" by simp
  show l: "item_list iv ?g = item_list iv g"
    using assms by (simp add: item_list_def peek_at_def set_stack_memory peek_write_apart stack_apart_def Let_def)
  show c: "GetItemCount iv ?g = GetItemCount iv g"
    using assms by (simp add: GetItemCount_def set_stack_memory peek_write_apart stack_apart_def Let_def)
  have i: "item_at (item_list iv g) ?g k = item_at (item_list iv g) g k" if "k < GetItemCount iv g" for k
    using assms that by (simp add: item_at_def set_stack_memory peek_write_apart stack_apart_def Let_def)
  have t: "item_template (item_at (item_list iv g) g k) ?g = item_template (item_at (item_list iv g) g k) g" if "k < GetItemCount iv g" for k
    using assms that by (simp add: item_template_def set_stack_memory peek_write_apart stack_apart_def Let_def)
  have m: "map (item_at (item_list iv g) ?g) [0..<GetItemCount iv g] = map (item_at (item_list iv g) g) [0..<GetItemCount iv g]"
    using i by simp
  show "find_stack t iv ?g = find_stack t iv g"
    unfolding find_stack_def l c m using t by (intro find_cong) (auto simp: set_stack_sel)
qed

lemma stack_cell:
  assumes "writable (stack_address item g) 4 (gp_memory g)"
  shows "mem_get 4 (stack_address item g) (gp_memory g) = Some (bytes_u32 (stack_count item g))"
proof -
  obtain bs where bs: "mem_get 4 (stack_address item g) (gp_memory g) = Some bs" using writable_get [OF assms] by auto
  then have "length bs = 4" by (auto simp: mem_get_def split: if_splits)
  with bs show ?thesis by (simp add: stack_count_def peek_def Mem_Read_def bytes_u32_of)
qed

lemma set_stack_eq:
  "writable (stack_address item g) 4 (gp_memory g) \<Longrightarrow>
    set_stack item n g = (True, g\<lparr>gp_memory := mem_put (stack_address item g) (bytes_u32 n) (gp_memory g)\<rparr>)"
  using Mem_Write_ok [of "stack_address item g" "bytes_u32 n"] by (simp add: set_stack_def)

lemma stack_address_memory [simp]: "stack_address item (g\<lparr>gp_memory := m\<rparr>) = stack_address item g"
  by (simp add: stack_address_def)

lemma set_stack_count:
  assumes "writable (stack_address item g) 4 (gp_memory g)"
  shows "fst (set_stack item n g)" "stack_count item (snd (set_stack item n g)) = n"
    "set_stack item k (snd (set_stack item n g)) = (True, snd (set_stack item k g))"
    "snd (set_stack item (stack_count item g) g) = g"
proof -
  note eq = set_stack_eq [OF assms]
  show "fst (set_stack item n g)" by (simp add: eq)
  show "stack_count item (snd (set_stack item n g)) = n"
    using wire_u32.peek_back [where x = n and a = "stack_address item g" and m = "gp_memory g"] assms Mem_Write_ok [of "stack_address item g" "bytes_u32 n"]
    by (simp add: eq stack_count_def)
  have "writable (stack_address item g) 4 (mem_put (stack_address item g) (bytes_u32 n) (gp_memory g))"
    using assms by (simp add: writable_def mem_put_mapped)
  then show "set_stack item k (snd (set_stack item n g)) = (True, snd (set_stack item k g))"
    by (simp add: eq set_stack_eq mem_put_put)
  show "snd (set_stack item (stack_count item g) g) = g"
    using mem_put_same [of "bytes_u32 (stack_count item g)"] stack_cell [OF assms] by (simp add: eq)
qed

lemma sint_add_small:
  "0 \<le> sint (a :: i32) \<Longrightarrow> 0 < sint b \<Longrightarrow> sint a + sint b < 2147483648 \<Longrightarrow> sint (a + b) = sint a + sint b"
proof -
  assume "0 \<le> sint a" "0 < sint b" "sint a + sint b < 2147483648"
  then have "sint (word_of_int (sint a + sint b) :: i32) = sint a + sint b" by (intro sint_word_of_int) simp_all
  then show ?thesis by (simp add: of_int_sint)
qed

text \<open>
  C30.  Functional.  \<open>AddItem\<close> raises the count of the first stack of the template by the quantity and touches no other byte of
  the process, and \<open>RemoveItem\<close> of the same quantity then restores the process exactly, as long as the sum fits in an
  \<open>int\<close>; a removal of more than the stack holds leaves an empty stack, not a negative one.
\<close>

theorem item_stack_exact:
  assumes "iv \<noteq> 0" "item_list iv g \<noteq> 0" "find_stack t iv g = Some item" "stack_apart item iv g"
    and "writable (stack_address item g) 4 (gp_memory g)"
    and "0 < sint q" "0 \<le> sint (stack_count item g)" "sint (stack_count item g) + sint q < 2147483648"
  shows "fst (AddItem t q iv g) \<and> sint (stack_count item (snd (AddItem t q iv g))) = sint (stack_count item g) + sint q \<and>
    RemoveItem t q iv (snd (AddItem t q iv g)) = (True, g) \<and>
    (\<forall>p. p \<notin> set (cells (stack_address item g) 4) \<longrightarrow> gm_byte (gp_memory (snd (AddItem t q iv g))) p = gm_byte (gp_memory g) p) \<and>
    (sint (stack_count item g) < sint q \<longrightarrow> stack_count item (snd (RemoveItem t q iv g)) = 0)"
proof -
  let ?g = "snd (set_stack item (stack_count item g + q) g)"
  note st = set_stack_count [OF assms(5)] and srch = set_stack_search [OF assms(4), where n = "stack_count item g + q"]
  have add: "AddItem t q iv g = (True, ?g)"
    using assms(1-3,6) st(1) by (simp add: AddItem_def prod_eq_iff)
  have "RemoveItem t q iv ?g = set_stack item (stack_count item g) ?g"
    using assms(1-3,6,7) srch st(2) by (simp add: RemoveItem_def Let_def)
  also have "\<dots> = (True, g)" by (simp add: st(3,4))
  finally have restored: "RemoveItem t q iv ?g = (True, g)" .
  have other: "p \<notin> set (cells (stack_address item g) 4) \<Longrightarrow> gm_byte (gp_memory ?g) p = gm_byte (gp_memory g) p" for p
    by (simp add: set_stack_memory write_other)
  have "stack_count item (snd (RemoveItem t q iv g)) = 0" if "sint (stack_count item g) < sint q"
  proof -
    have "sint (stack_count item g - q) = sint (stack_count item g) - sint q"
    proof -
      have "sint (word_of_int (sint (stack_count item g) - sint q) :: i32) = sint (stack_count item g) - sint q"
        using assms(6,7) that sint_i32_range [of q] by (intro sint_word_of_int) simp_all
      then show ?thesis by (simp add: of_int_sint)
    qed
    with that have "sint (stack_count item g - q) < 0" by simp
    then show ?thesis using assms(1-3,6) st(2) by (simp add: RemoveItem_def Let_def)
  qed
  then show ?thesis using add restored other st(2) sint_add_small [OF assms(7,6,8)] by simp
qed

definition example_bytes_of :: "u64 \<Rightarrow> byte option" where
  "example_bytes_of a = (case map_of [(0x20011, 0x10), (0x20012, 2), (0x20018, 1), (0x21001, 0x20), (0x21002, 2), (0x22020, 7), (0x22030, 3)] a of
     Some b \<Rightarrow> Some b
   | None \<Rightarrow> if 0x20000 \<le> a \<and> a < 0x30000 then Some 0 else None)"

definition example_protect :: "u64 \<Rightarrow> nat \<Rightarrow> bool" where
  "example_protect a n = True"

definition example_stack :: GameProcess where
  "example_stack = GameProcess_new \<lparr>gm_byte = example_bytes_of, gm_protect = example_protect\<rparr> 0x140000000"

theorem item_stack_exact_witness:
  "RemoveItem 7 5 0x20000 (snd (AddItem 7 5 0x20000 example_stack)) = (True, example_stack) \<and>
   sint (stack_count 0x22000 (snd (AddItem 7 5 0x20000 example_stack))) = 8"
proof -
  have f: "item_list 0x20000 example_stack \<noteq> 0" "find_stack 7 0x20000 example_stack = Some 0x22000"
    "stack_apart 0x22000 0x20000 example_stack" "stack_count 0x22000 example_stack = 3"
    "writable (stack_address 0x22000 example_stack) 4 (gp_memory example_stack)"
    by code_simp+
  show ?thesis using item_stack_exact [OF _ f(1,2,3,5), of 5] f(4) by simp
qed

section \<open>The list of characters\<close>

lemma Next_sel: "cit_count (snd (CharacterIterator_Next g it)) = cit_count it" "HasNext it \<Longrightarrow> cit_index (snd (CharacterIterator_Next g it)) = Suc (cit_index it)"
  by (simp_all add: CharacterIterator_Next_def Let_def split: option.splits)

lemma iterate_length: "cit_count it - cit_index it \<le> n \<Longrightarrow> length (iterate_from n g it) = cit_count it - cit_index it"
  by (induction n arbitrary: it) (auto simp: Next_sel HasNext_def)

definition plausible_character :: "GameProcess \<Rightarrow> u64 \<Rightarrow> bool" where
  "plausible_character g p \<longleftrightarrow> p AND 7 = 0 \<and> p < 0x00007FFFFFFFFFFF \<and>
     (case Read64 p (gp_memory g) of Some vtable \<Rightarrow> in_image vtable g | None \<Rightarrow> False)"

lemma Next_plausible: "fst (CharacterIterator_Next g it) = 0 \<or> plausible_character g (fst (CharacterIterator_Next g it))"
  by (auto simp: CharacterIterator_Next_def Let_def plausible_character_def not_le split: option.splits)

lemma iterate_plausible: "p \<in> set (iterate_from n g it) \<Longrightarrow> p = 0 \<or> plausible_character g p"
  by (induction n arbitrary: it) (use Next_plausible in \<open>fastforce split: if_splits\<close>)+

lemma count_entries_le: "count_entries n a g \<le> n"
  by (induction n arbitrary: a) (auto split: option.splits)

lemma lektor_bound: "tryReadLektor a g = Some (p, n) \<Longrightarrow> n \<le> 100000"
  by (auto simp: tryReadLektor_def Let_def word_less_nat_alt word_le_nat_alt not_less split: option.splits if_splits)

lemma world_list_bound: "world_list g = Some (p, n) \<Longrightarrow> n \<le> 100000"
  by (auto simp: world_list_def Let_def dest: lektor_bound split: option.splits if_splits)

lemma all_characters_length:
  "length (all_characters g) = cit_count (CharacterIterator_Reset g)" "length (all_characters g) \<le> 100000"
proof -
  have "cit_index (CharacterIterator_Reset g) = 0"
    by (simp add: CharacterIterator_Reset_def Let_def split: option.splits)
  then show l: "length (all_characters g) = cit_count (CharacterIterator_Reset g)"
    by (simp add: all_characters_def Let_def iterate_length)
  have "cit_count (CharacterIterator_Reset g) \<le> 100000"
    using count_entries_le [of 10000 "player_list g" g]
    by (auto simp: CharacterIterator_Reset_def Let_def dest: world_list_bound split: option.splits)
  with l show "length (all_characters g) \<le> 100000" by simp
qed

text \<open>
  C34.  Bounds.  The loop over the game's characters ends: the iterator yields exactly the number of entries it counted, never
  more than 100000 and none while the game is loading, and every accessor it yields is null or an aligned object of user
  space whose first word points into the game's image.
\<close>

theorem character_iterator_bounded:
  "length (all_characters g) = cit_count (CharacterIterator_Reset g) \<and> length (all_characters g) \<le> 100000 \<and>
   (gp_isLoading g \<longrightarrow> all_characters g = []) \<and>
   (\<forall>p \<in> set (all_characters g). p = 0 \<or> plausible_character g p)"
proof -
  have "all_characters g = []" if "gp_isLoading g"
    using all_characters_length(1) [of g] that by (simp add: CharacterIterator_Reset_def)
  then show ?thesis using all_characters_length by (auto simp: all_characters_def Let_def dest: iterate_plausible)
qed

definition example_list_bytes :: "u64 \<Rightarrow> byte option" where
  "example_list_bytes a = (case map_of [(0x2088C, 2), (0x20888 + 0x08, 1), (0x20888 + 0x0C, 4), (0x20888 + 0x11, 0x10), (0x20888 + 0x12, 2),
       (0x21001, 0x20), (0x21002, 2), (0x22001, 0x10), (0x22003, 0x40), (0x22004, 1)] a of
     Some b \<Rightarrow> Some b
   | None \<Rightarrow> if 0x20000 \<le> a \<and> a < 0x30000 then Some 0 else None)"

definition example_list :: GameProcess where
  "example_list = (GameProcess_new \<lparr>gm_byte = example_list_bytes, gm_protect = example_protect\<rparr> 0x140000000)\<lparr>gp_resolvedGameWorld := 0x20000\<rparr>"

theorem character_iterator_bounded_witness:
  "all_characters example_list = [0x22000] \<and> plausible_character example_list 0x22000"
proof -
  have "all_characters example_list = [0x22000]" by code_simp
  then show ?thesis using character_iterator_bounded [of example_list] by simp
qed

section \<open>Probes\<close>

lemma Probe_attempts: "gp_deferredTotalAttempts (ProbeAnimClassOffset p g) = gp_deferredTotalAttempts g"
  by (simp add: ProbeAnimClassOffset_def Let_def on_character_offsets_def split: option.splits)

lemma probe_queue_attempts: "gp_deferredTotalAttempts (snd (probe_queue ps kept g)) = gp_deferredTotalAttempts g"
  by (induction ps arbitrary: kept g) (simp_all add: Let_def Probe_attempts)

lemma probe_queue_done: "fst (probe_queue ps kept g) \<Longrightarrow> gp_deferredProbeChars (snd (probe_queue ps kept g)) = []"
  by (induction ps arbitrary: kept g) (auto simp: Let_def)

text \<open>
  Liveness, as a defect.  \<open>ScheduleDeferredAnimClassProbe\<close> queues a freshly spawned character so that it is probed on
  later ticks until its position has settled.  After fifty failed ticks in total the counter is never reset by the queue,
  so a character scheduled from then on is dropped after the first tick, whatever that tick found.
\<close>

theorem exhausted_probes_give_one_try:
  assumes "50 \<le> gp_deferredTotalAttempts g"
  shows "gp_deferredProbeChars (snd (ProcessDeferredAnimClassProbes (ScheduleDeferredAnimClassProbe p g))) = []"
proof -
  let ?g = "ScheduleDeferredAnimClassProbe p g"
  have a: "gp_deferredTotalAttempts ?g = gp_deferredTotalAttempts g" by (simp add: ScheduleDeferredAnimClassProbe_def)
  obtain b h where r: "probe_queue (gp_deferredProbeChars ?g) [] ?g = (b, h)" by fastforce
  have "gp_deferredTotalAttempts h = gp_deferredTotalAttempts g" "b \<Longrightarrow> gp_deferredProbeChars h = []"
    using probe_queue_attempts [of "gp_deferredProbeChars ?g" "[]" ?g] probe_queue_done [of "gp_deferredProbeChars ?g" "[]" ?g] r a by simp_all
  then show ?thesis using assms r by (cases b) (simp_all add: ProcessDeferredAnimClassProbes_def Let_def)
qed

theorem exhausted_probes_give_one_try_witness:
  "gp_deferredProbeChars (snd (ProcessDeferredAnimClassProbes (ScheduleDeferredAnimClassProbe 0x20000 (example_process\<lparr>gp_deferredTotalAttempts := 50\<rparr>)))) = []"
  by (rule exhausted_probes_give_one_try) simp

text \<open>
  Functional, as a divergence from the comments.  \<open>ResetProbeState\<close> is meant to let the physics offset be discovered anew for
  the next game; it forgets that a probe ran, but not the offset itself, so after the reset the queue reports success
  without a probe, and a position write goes by the old offset.
\<close>

theorem reset_keeps_the_offset:
  assumes "0 \<le> cho_animClassOffset (chr_off g)"
  shows "fst (ProcessDeferredAnimClassProbes (ResetProbeState g)) \<and>
    cho_animClassOffset (chr_off (snd (Character_WritePosition v p (ResetProbeState g)))) = cho_animClassOffset (chr_off g)"
  using assms by (auto simp: ProcessDeferredAnimClassProbes_def ResetProbeState_def Character_WritePosition_def Let_def on_memory_def split: option.splits)

theorem reset_keeps_the_offset_witness:
  "fst (ProcessDeferredAnimClassProbes (ResetProbeState (on_character_offsets (\<lambda>o1. o1\<lparr>cho_animClassOffset := 0x60\<rparr>) example_process)))"
  using reset_keeps_the_offset [of "on_character_offsets (\<lambda>o1. o1\<lparr>cho_animClassOffset := 0x60\<rparr>) example_process" "Vec3_new 0 0 0" "0x20000"]
  by (simp add: on_character_offsets_def)

end
