(* ===== verification/Lobby_Manager.thy ===== *)
theory Lobby_Manager
  imports Game_Inventory
begin

text \<open>
  \<^verbatim>\<open>KenshiMP.Core/game/lobby_manager.cpp\<close>: the faction the server assigned, and the patch of the faction string in
  the read-only data of the game.  The section headers are those of the module in memory; the addresses searched are
  listed lazily by their number.
\<close>

section \<open>State\<close>

record LobbyManager =
  lb_factionString :: bytes
  lb_playerSlot :: i32
  lb_hasAssignment :: bool

definition LobbyManager_new :: LobbyManager where
  "LobbyManager_new = \<lparr>lb_factionString = [], lb_playerSlot = -1, lb_hasAssignment = False\<rparr>"

definition OnFactionAssigned :: "bytes \<Rightarrow> i32 \<Rightarrow> LobbyManager \<Rightarrow> LobbyManager" where
  "OnFactionAssigned s k lb = lb\<lparr>lb_factionString := s, lb_playerSlot := k, lb_hasAssignment := True\<rparr>"

section \<open>Finding the string\<close>

definition SEH_CheckFactionCandidate :: "u64 \<Rightarrow> GameMemory \<Rightarrow> bytes option" where
  "SEH_CheckFactionCandidate a m = mem_get 17 a m"

definition looks_like_faction :: "bytes \<Rightarrow> bool" where
  "looks_like_faction bs \<longleftrightarrow> 0x2D \<in> set bs \<and> 0x2E \<in> set bs"

definition SEH_MemcmpAt :: "u64 \<Rightarrow> bytes \<Rightarrow> GameMemory \<Rightarrow> bool" where
  "SEH_MemcmpAt a s m \<longleftrightarrow> mem_get (length s) a m = Some s"

definition default_faction :: bytes where
  "default_faction = lit ''204-gamedata.base''"

definition faction_candidates :: "u64 \<Rightarrow> u64 list" where
  "faction_candidates base = [base + 0x16C4258, base + 0x16C2F68]"

definition candidate_ok :: "GameMemory \<Rightarrow> u64 \<Rightarrow> bool" where
  "candidate_ok m a \<longleftrightarrow> (case SEH_CheckFactionCandidate a m of None \<Rightarrow> False | Some bs \<Rightarrow> looks_like_faction bs)"

text \<open>The section headers of the module; each has 40 bytes, with the name, the size and the address.\<close>

definition lobby_sections :: "GameMemory \<Rightarrow> u64 \<Rightarrow> u64 list" where
  "lobby_sections m nt = (let first = nt + 24 + ucast (peek 2 u16_of 0 (nt + 20) m) in
     map (\<lambda>i. first + 40 * of_nat i) [0..<unat (peek 2 u16_of 0 (nt + 6) m)])"

definition is_rdata :: "GameMemory \<Rightarrow> u64 \<Rightarrow> bool" where
  "is_rdata m h \<longleftrightarrow> chars_at h 6 m = lit ''.rdata''"

text \<open>The bound \<^verbatim>\<open>end - searchLen\<close> is computed in 64 bits.\<close>

definition search_section :: "GameMemory \<Rightarrow> u64 \<Rightarrow> u64 \<Rightarrow> u64 option" where
  "search_section m base h =
     (let a = base + ucast (peek32 0 (h + 12) m); stop = a + ucast (peek32 0 (h + 8) m) - 17 in
      if a < stop then find (\<lambda>p. SEH_MemcmpAt p default_faction m) (cells a (unat (stop - a))) else None)"

definition FindFactionStringAddress :: "GameProcess \<Rightarrow> u64" where
  "FindFactionStringAddress g =
     (let m = gp_memory g; base = gp_moduleBase g in
      case find (candidate_ok m) (faction_candidates base) of
        Some a \<Rightarrow> a
      | None \<Rightarrow>
          if peek 2 u16_of 0 base m \<noteq> 0x5A4D then 0
          else
            let nt = at_offset base (sint (peek32 0 (base + 0x3C) m)) in
            if peek32 0 nt m \<noteq> 0x00004550 then 0
            else (case List.map_filter (search_section m base) (filter (is_rdata m) (lobby_sections m nt)) of
               [] \<Rightarrow> 0
             | a # _ \<Rightarrow> a))"

section \<open>Patching it\<close>

definition MAX_FACTION_WRITE :: nat where
  "MAX_FACTION_WRITE = 24"

definition faction_bytes :: "LobbyManager \<Rightarrow> bytes" where
  "faction_bytes lb = take MAX_FACTION_WRITE (lb_factionString lb) @ [0]"

definition ApplyFactionPatch :: "LobbyManager \<Rightarrow> GameProcess \<Rightarrow> patch_result \<times> GameProcess" where
  "ApplyFactionPatch lb g =
     (if \<not> lb_hasAssignment lb \<or> lb_factionString lb = [] then (NotPatched, g)
      else
        let a = FindFactionStringAddress g in
        if a = 0 then (NotPatched, g)
        else
          let (r, m) = Patch a (faction_bytes lb) (gp_memory g) in (r, g\<lparr>gp_memory := m\<rparr>))"

section \<open>What the patch does\<close>

lemma faction_bytes_length: "length (faction_bytes lb) \<le> 25"
  by (simp add: faction_bytes_def MAX_FACTION_WRITE_def)

lemma patched:
  assumes "ApplyFactionPatch lb g = (Patched, g')"
  shows "FindFactionStringAddress g \<noteq> 0" "g' = g\<lparr>gp_memory := mem_put (FindFactionStringAddress g) (faction_bytes lb) (gp_memory g)\<rparr>"
  using assms by (auto simp: ApplyFactionPatch_def Patch_def Let_def split: if_splits)

text \<open>
  Functional.  A successful patch leaves the assigned faction string (its first 24 characters), with a terminator, at the
  address that was found, and changes no byte outside these at most 25; a string of the length of the original, 17, stays
  inside the original's 18 bytes, a longer one overwrites what follows it.
\<close>

theorem faction_patch_exact:
  assumes "ApplyFactionPatch lb g = (Patched, g')" and "0 \<notin> set (lb_factionString lb)"
  shows "\<exists>a. a \<noteq> 0 \<and> a = FindFactionStringAddress g \<and>
    cstr (chars_at a 25 (gp_memory g')) = take 24 (lb_factionString lb) \<and>
    (\<forall>p. p \<notin> set (cells a (length (faction_bytes lb))) \<longrightarrow> gm_byte (gp_memory g') p = gm_byte (gp_memory g) p) \<and>
    (length (lb_factionString lb) \<le> 17 \<longrightarrow> length (faction_bytes lb) \<le> 18) \<and>
    (17 < length (lb_factionString lb) \<longrightarrow> 18 < length (faction_bytes lb))"
proof (intro exI conjI allI impI)
  let ?a = "FindFactionStringAddress g" and ?s = "take 24 (lb_factionString lb)"
  note p = patched [OF assms(1)]
  show "?a \<noteq> 0" by (rule p(1))
  show "?a = ?a" by simp
  have len: "length (faction_bytes lb) \<le> 2 ^ 64" using faction_bytes_length [of lb] by simp
  have "mem_get (length (faction_bytes lb)) ?a (gp_memory g') = Some (faction_bytes lb)"
    using mem_get_put [OF len] by (simp add: p(2))
  then have "chars_at ?a (length (faction_bytes lb)) (gp_memory g') = faction_bytes lb" by (rule chars_at_get)
  then have "chars_at ?a 25 (gp_memory g') = ?s @ [0] @ chars_at (?a + of_nat (length (faction_bytes lb))) (25 - length (faction_bytes lb)) (gp_memory g')"
    using cells_add [of ?a "length (faction_bytes lb)" "25 - length (faction_bytes lb)"] faction_bytes_length [of lb]
    by (simp add: chars_at_def faction_bytes_def MAX_FACTION_WRITE_def)
  moreover have "0 \<notin> set ?s" using assms(2) by (auto dest: in_set_takeD)
  ultimately show "cstr (chars_at ?a 25 (gp_memory g')) = ?s"
    by (auto simp: cstr_def takeWhile_append)
  show "gm_byte (gp_memory g') q = gm_byte (gp_memory g) q" if "q \<notin> set (cells ?a (length (faction_bytes lb)))" for q
    using that by (simp add: p(2) mem_put_other)
  show "length (lb_factionString lb) \<le> 17 \<Longrightarrow> length (faction_bytes lb) \<le> 18"
    and "17 < length (lb_factionString lb) \<Longrightarrow> 18 < length (faction_bytes lb)"
    by (simp_all add: faction_bytes_def MAX_FACTION_WRITE_def)
qed

end
