(* ===== verification/Char_Tracker.thy ===== *)
theory Char_Tracker
  imports Game_Inventory
begin

text \<open>
  \<^verbatim>\<open>KenshiMP.Core/hooks/char_tracker_hooks.cpp\<close>: the characters seen by the animation hook.  The hook runs hundreds of
  times a second and hands unknown characters to the game tick through a ring buffer without a lock; the tick reads
  their names and puts them into a table.  The ring is modelled twice: by the operations of the two sides, and by the
  single loads and stores of the two threads in any interleaving.  The inline hook itself is machine code.
\<close>

section \<open>The ring buffer\<close>

record PendingCharUpdate =
  pu_animClassPtr :: u64
  pu_charPtr :: u64

definition PENDING_RING_SIZE :: nat where
  "PENDING_RING_SIZE = 128"

record CharRing =
  cr_slots :: "PendingCharUpdate list"
  cr_write :: nat
  cr_read :: nat

definition CharRing_new :: CharRing where
  "CharRing_new = \<lparr>cr_slots = replicate PENDING_RING_SIZE \<lparr>pu_animClassPtr = 0, pu_charPtr = 0\<rparr>, cr_write = 0, cr_read = 0\<rparr>"

definition next_index :: "nat \<Rightarrow> nat" where
  "next_index i = (i + 1) mod PENDING_RING_SIZE"

definition ring_push :: "PendingCharUpdate \<Rightarrow> CharRing \<Rightarrow> CharRing" where
  "ring_push x q = (if next_index (cr_write q) \<noteq> cr_read q
     then q\<lparr>cr_slots := (cr_slots q)[cr_write q := x], cr_write := next_index (cr_write q)\<rparr> else q)"

definition ring_pop :: "CharRing \<Rightarrow> (PendingCharUpdate \<times> CharRing) option" where
  "ring_pop q = (if cr_read q = cr_write q then None
     else Some (cr_slots q ! cr_read q, q\<lparr>cr_read := next_index (cr_read q)\<rparr>))"

section \<open>The table\<close>

record TrackedChar =
  tk_animClassPtr :: u64
  tk_characterPtr :: u64
  tk_name :: bytes
  tk_position :: Vec3
  tk_lastSeenTick :: u64

record CharTracker =
  ck_chars :: "(u64, TrackedChar) umap"
  ck_ring :: CharRing

definition CharTracker_new :: CharTracker where
  "CharTracker_new = \<lparr>ck_chars = [], ck_ring = CharRing_new\<rparr>"

text \<open>\<open>locked\<close>: whether \<^verbatim>\<open>try_lock\<close> succeeds.\<close>

definition seen :: "u64 \<Rightarrow> u64 \<Rightarrow> TrackedChar \<Rightarrow> TrackedChar" where
  "seen anim tick c = c\<lparr>tk_animClassPtr := anim, tk_lastSeenTick := tick\<rparr>"

definition OnCharUpdate :: "bool \<Rightarrow> u64 \<Rightarrow> GameProcess \<Rightarrow> u64 \<Rightarrow> CharTracker \<Rightarrow> CharTracker" where
  "OnCharUpdate locked tick g anim s =
     (if anim = 0 \<or> \<not> loose_ptr anim then s
      else (case Read64 (anim + 0x2D8) (gp_memory g) of
         None \<Rightarrow> s
       | Some p \<Rightarrow>
           if p = 0 \<or> \<not> loose_ptr p then s
           else if locked \<and> um_find (ck_chars s) p \<noteq> None then s\<lparr>ck_chars := um_modify p (seen anim tick) (ck_chars s)\<rparr>
           else s\<lparr>ck_ring := ring_push \<lparr>pu_animClassPtr = anim, pu_charPtr = p\<rparr> (ck_ring s)\<rparr>))"

definition tracker_FindByName :: "bytes \<Rightarrow> CharTracker \<Rightarrow> TrackedChar option" where
  "tracker_FindByName n s = map_option snd (find (\<lambda>(k, c). tk_name c = n) (ck_chars s))"

definition FindByPtr :: "u64 \<Rightarrow> CharTracker \<Rightarrow> TrackedChar option" where
  "FindByPtr p s = um_find (ck_chars s) p"

definition GetRemotePlayerAnimClass :: "bytes \<Rightarrow> CharTracker \<Rightarrow> u64" where
  "GetRemotePlayerAnimClass n s = (case tracker_FindByName n s of Some c \<Rightarrow> tk_animClassPtr c | None \<Rightarrow> 0)"

definition GetTrackedCount :: "CharTracker \<Rightarrow> nat" where
  "GetTrackedCount s = length (ck_chars s)"

definition discover_one :: "u64 \<Rightarrow> GameProcess \<Rightarrow> PendingCharUpdate \<Rightarrow> (u64, TrackedChar) umap \<Rightarrow> (u64, TrackedChar) umap" where
  "discover_one tick g x m =
     (let p = pu_charPtr x in
      if um_find m p \<noteq> None then um_modify p (seen (pu_animClassPtr x) tick) m
      else
        let name = Character_GetName p g in
        if name = [] then m
        else um_set p \<lparr>tk_animClassPtr = pu_animClassPtr x, tk_characterPtr = p, tk_name = name,
          tk_position = Character_GetPosition p g, tk_lastSeenTick = tick\<rparr> m)"

text \<open>At most eight entries a tick.\<close>

fun discover :: "nat \<Rightarrow> u64 \<Rightarrow> GameProcess \<Rightarrow> CharTracker \<Rightarrow> CharTracker" where
  "discover 0 tick g s = s"
| "discover (Suc n) tick g s = (case ring_pop (ck_ring s) of
     None \<Rightarrow> s
   | Some (x, q) \<Rightarrow> discover n tick g (s\<lparr>ck_ring := q, ck_chars := discover_one tick g x (ck_chars s)\<rparr>))"

definition ProcessDeferredDiscovery :: "u64 \<Rightarrow> GameProcess \<Rightarrow> CharTracker \<Rightarrow> CharTracker" where
  "ProcessDeferredDiscovery tick g s = discover 8 tick g s"

section \<open>Two threads\<close>

text \<open>
  Where the hook stands: outside, having found room for an entry, having stored it.  Where the tick stands: outside,
  having found the ring non-empty, having copied an entry.
\<close>

datatype producer = PIdle | PFound PendingCharUpdate | PStored PendingCharUpdate

datatype consumer = CIdle | CFound | CCopied PendingCharUpdate

record ring_system =
  rs_ring :: CharRing
  rs_producer :: producer
  rs_consumer :: consumer
  rs_accepted :: "PendingCharUpdate list"
  rs_delivered :: "PendingCharUpdate list"

definition ring_start :: ring_system where
  "ring_start = \<lparr>rs_ring = CharRing_new, rs_producer = PIdle, rs_consumer = CIdle, rs_accepted = [], rs_delivered = []\<rparr>"

inductive ring_step :: "ring_system \<Rightarrow> ring_system \<Rightarrow> bool" where
  found: "rs_producer s = PIdle \<Longrightarrow> next_index (cr_write (rs_ring s)) \<noteq> cr_read (rs_ring s) \<Longrightarrow>
    ring_step s (s\<lparr>rs_producer := PFound x\<rparr>)"
| store: "rs_producer s = PFound x \<Longrightarrow>
    ring_step s (s\<lparr>rs_producer := PStored x,
      rs_ring := (rs_ring s)\<lparr>cr_slots := (cr_slots (rs_ring s))[cr_write (rs_ring s) := x]\<rparr>\<rparr>)"
| publish: "rs_producer s = PStored x \<Longrightarrow>
    ring_step s (s\<lparr>rs_producer := PIdle, rs_accepted := rs_accepted s @ [x],
      rs_ring := (rs_ring s)\<lparr>cr_write := next_index (cr_write (rs_ring s))\<rparr>\<rparr>)"
| nonempty: "rs_consumer s = CIdle \<Longrightarrow> cr_read (rs_ring s) \<noteq> cr_write (rs_ring s) \<Longrightarrow>
    ring_step s (s\<lparr>rs_consumer := CFound\<rparr>)"
| copy: "rs_consumer s = CFound \<Longrightarrow>
    ring_step s (s\<lparr>rs_consumer := CCopied (cr_slots (rs_ring s) ! cr_read (rs_ring s))\<rparr>)"
| advance: "rs_consumer s = CCopied x \<Longrightarrow>
    ring_step s (s\<lparr>rs_consumer := CIdle, rs_delivered := rs_delivered s @ [x],
      rs_ring := (rs_ring s)\<lparr>cr_read := next_index (cr_read (rs_ring s))\<rparr>\<rparr>)"

inductive ring_reachable :: "ring_system \<Rightarrow> bool" where
  start: "ring_reachable ring_start"
| step: "ring_reachable s \<Longrightarrow> ring_step s s' \<Longrightarrow> ring_reachable s'"

definition ring_inv :: "ring_system \<Rightarrow> bool" where
  "ring_inv s \<longleftrightarrow> (let q = rs_ring s; w = length (rs_accepted s); r = length (rs_delivered s) in
     length (cr_slots q) = PENDING_RING_SIZE \<and> cr_write q = w mod PENDING_RING_SIZE \<and> cr_read q = r mod PENDING_RING_SIZE \<and>
     r \<le> w \<and> w \<le> r + 127 \<and> rs_delivered s = take r (rs_accepted s) \<and>
     (\<forall>i. r \<le> i \<and> i < w \<longrightarrow> cr_slots q ! (i mod PENDING_RING_SIZE) = rs_accepted s ! i) \<and>
     (case rs_producer s of PIdle \<Rightarrow> True | PFound x \<Rightarrow> w < r + 127
      | PStored x \<Rightarrow> w < r + 127 \<and> cr_slots q ! (w mod PENDING_RING_SIZE) = x) \<and>
     (case rs_consumer s of CIdle \<Rightarrow> True | CFound \<Rightarrow> r < w | CCopied x \<Rightarrow> r < w \<and> x = rs_accepted s ! r))"

lemma mod_ring_eq:
  assumes "r \<le> i" "i \<le> w" "w < r + 128" "i mod 128 = w mod (128 :: nat)"
  shows "i = w"
proof -
  have "128 dvd w - i" using assms(2,4) by (metis mod_eq_dvd_iff_nat)
  with assms(1-3) show ?thesis by (auto dest: dvd_imp_le)
qed

lemma mod_ring_less:
  assumes "w \<le> r + 127" "(w + 1) mod 128 \<noteq> r mod (128 :: nat)"
  shows "w < r + 127"
proof (rule ccontr)
  assume "\<not> w < r + 127"
  with assms(1) have "w + 1 = r + 128" by simp
  then have "(w + 1) mod 128 = r mod 128" by (simp only: mod_add_self2)
  with assms(2) show False by simp
qed

lemma ring_inv_start: "ring_inv ring_start"
  by (simp add: ring_inv_def ring_start_def CharRing_new_def)

lemma nth_slots_other:
  "length xs = 128 \<Longrightarrow> r \<le> i \<Longrightarrow> i < w \<Longrightarrow> w < r + 127 \<Longrightarrow> xs[w mod 128 := x] ! (i mod 128) = xs ! (i mod (128 :: nat))"
  using mod_ring_eq [of r i w] by (auto simp: nth_list_update)

lemma next_index_mod [simp]: "next_index (w mod 128) = (w + 1) mod 128"
  by (simp add: next_index_def PENDING_RING_SIZE_def mod_simps)

lemma ring_inv_step:
  assumes "ring_step s s'" "ring_inv s"
  shows "ring_inv s'"
  using assms
proof cases
  case (found x)
  then show ?thesis using assms(2) mod_ring_less [of "length (rs_accepted s)" "length (rs_delivered s)"]
    by (simp add: ring_inv_def Let_def PENDING_RING_SIZE_def split: consumer.splits)
next
  case (store x)
  then have w: "length (rs_accepted s) < length (rs_delivered s) + 127" using assms(2) by (simp add: ring_inv_def Let_def)
  have "(cr_slots (rs_ring s))[length (rs_accepted s) mod 128 := x] ! (i mod 128) = rs_accepted s ! i"
    if "length (rs_delivered s) \<le> i" "i < length (rs_accepted s)" for i
    using nth_slots_other [of "cr_slots (rs_ring s)", OF _ that w] that assms(2) by (simp add: ring_inv_def Let_def PENDING_RING_SIZE_def)
  then show ?thesis using assms(2) store w
    by (simp add: ring_inv_def Let_def PENDING_RING_SIZE_def split: consumer.splits)
next
  case (publish x)
  have "cr_slots (rs_ring s) ! (i mod 128) = (rs_accepted s @ [x]) ! i"
    if "length (rs_delivered s) \<le> i" "i < Suc (length (rs_accepted s))" for i
    using that assms(2) publish by (cases "i = length (rs_accepted s)") (simp_all add: ring_inv_def Let_def PENDING_RING_SIZE_def nth_append)
  moreover have "rs_consumer s = CCopied y \<Longrightarrow> y = (rs_accepted s @ [x]) ! length (rs_delivered s)" for y
    using assms(2) by (simp add: ring_inv_def Let_def nth_append)
  ultimately show ?thesis using assms(2) publish
    by (simp add: ring_inv_def Let_def PENDING_RING_SIZE_def split: consumer.splits)
next
  case nonempty
  then show ?thesis using assms(2) by (auto simp: ring_inv_def Let_def PENDING_RING_SIZE_def order.strict_iff_order)
next
  case copy
  then show ?thesis using assms(2) by (simp add: ring_inv_def Let_def)
next
  case (advance x)
  then have "rs_delivered s @ [x] = take (Suc (length (rs_delivered s))) (rs_accepted s)"
    using assms(2) by (simp add: ring_inv_def Let_def take_Suc_conv_app_nth)
  then show ?thesis using assms(2) advance
    by (simp add: ring_inv_def Let_def PENDING_RING_SIZE_def split: producer.splits)
qed

lemma ring_reachable_inv: "ring_reachable s \<Longrightarrow> ring_inv s"
  by (induction rule: ring_reachable.induct) (auto intro: ring_inv_start ring_inv_step)

text \<open>
  C33.  Refinement, concurrency.  In every interleaving of the hook with the game tick, the entries the tick has taken out are
  the first entries the hook has put in, unchanged and in order; at most 127 are waiting; and when the hook is about to
  store an entry while the tick is about to copy one, they are at different slots, so no entry is read while it is
  written.
\<close>

theorem ring_is_a_queue:
  assumes "ring_reachable s"
  shows "rs_delivered s = take (length (rs_delivered s)) (rs_accepted s) \<and>
    length (rs_accepted s) \<le> length (rs_delivered s) + 127 \<and>
    (rs_producer s = PFound x \<and> rs_consumer s = CFound \<longrightarrow> cr_write (rs_ring s) \<noteq> cr_read (rs_ring s))"
proof -
  have i: "ring_inv s" by (rule ring_reachable_inv [OF assms])
  have "cr_write (rs_ring s) \<noteq> cr_read (rs_ring s)" if "rs_producer s = PFound x" "rs_consumer s = CFound"
    using i that mod_ring_eq [of "length (rs_delivered s)" "length (rs_delivered s)" "length (rs_accepted s)"]
    by (auto simp: ring_inv_def Let_def PENDING_RING_SIZE_def)
  then show ?thesis using i by (simp add: ring_inv_def Let_def)
qed

text \<open>The operations of one side are its steps in a row.\<close>

lemma push_is_steps:
  assumes "ring_reachable s" "rs_producer s = PIdle" "next_index (cr_write (rs_ring s)) \<noteq> cr_read (rs_ring s)"
  shows "ring_reachable (s\<lparr>rs_ring := ring_push x (rs_ring s), rs_accepted := rs_accepted s @ [x]\<rparr>)"
proof -
  have f: "ring_reachable (s\<lparr>rs_producer := PFound x\<rparr>)" using assms by (intro ring_reachable.step [OF assms(1)] ring_step.found)
  have g: "ring_reachable (s\<lparr>rs_producer := PStored x, rs_ring := (rs_ring s)\<lparr>cr_slots := (cr_slots (rs_ring s))[cr_write (rs_ring s) := x]\<rparr>\<rparr>)"
    using ring_reachable.step [OF f ring_step.store [of _ x]] by simp
  have "s\<lparr>rs_producer := PIdle, rs_accepted := a, rs_ring := r\<rparr> = s\<lparr>rs_ring := r, rs_accepted := a\<rparr>" for r a
    using assms(2) by (cases s) simp
  then show ?thesis using ring_reachable.step [OF g ring_step.publish [of _ x]] assms(3) by (simp add: ring_push_def)
qed

lemma pop_is_steps:
  assumes "ring_reachable s" "rs_consumer s = CIdle" "ring_pop (rs_ring s) = Some (x, q)"
  shows "ring_reachable (s\<lparr>rs_ring := q, rs_delivered := rs_delivered s @ [x]\<rparr>)"
proof -
  have ne: "cr_read (rs_ring s) \<noteq> cr_write (rs_ring s)" and x: "x = cr_slots (rs_ring s) ! cr_read (rs_ring s)"
    and q: "q = (rs_ring s)\<lparr>cr_read := next_index (cr_read (rs_ring s))\<rparr>"
    using assms(3) by (auto simp: ring_pop_def split: if_splits)
  have f: "ring_reachable (s\<lparr>rs_consumer := CFound\<rparr>)" using assms(2) ne by (intro ring_reachable.step [OF assms(1)] ring_step.nonempty)
  have g: "ring_reachable (s\<lparr>rs_consumer := CCopied x\<rparr>)"
    using ring_reachable.step [OF f ring_step.copy] by (simp add: x)
  have "s\<lparr>rs_consumer := CIdle, rs_delivered := a, rs_ring := r\<rparr> = s\<lparr>rs_ring := r, rs_delivered := a\<rparr>" for r a
    using assms(2) by (cases s) simp
  then show ?thesis using ring_reachable.step [OF g ring_step.advance [of _ x]] by (simp add: q)
qed

definition example_entry :: PendingCharUpdate where
  "example_entry = \<lparr>pu_animClassPtr = 0x20000, pu_charPtr = 0x30000\<rparr>"

theorem ring_is_a_queue_witness:
  "\<exists>s. ring_reachable s \<and> rs_accepted s = [example_entry] \<and> rs_delivered s = take (length (rs_delivered s)) (rs_accepted s)"
proof -
  let ?s = "ring_start\<lparr>rs_ring := ring_push example_entry (rs_ring ring_start), rs_accepted := rs_accepted ring_start @ [example_entry]\<rparr>"
  have "ring_reachable ?s"
    by (rule push_is_steps [OF ring_reachable.start]) (simp_all add: ring_start_def CharRing_new_def next_index_def PENDING_RING_SIZE_def)
  then show ?thesis using ring_is_a_queue [of ?s] by (intro exI [of _ ?s]) (simp add: ring_start_def)
qed

section \<open>What the table keeps\<close>

lemma seen_name [simp]: "tk_name (seen anim tick c) = tk_name c" "tk_position (seen anim tick c) = tk_position c"
  by (simp_all add: seen_def)

lemma discover_one_keeps:
  "um_find m p = Some c \<Longrightarrow> \<exists>c'. um_find (discover_one tick g x m) p = Some c' \<and> tk_name c' = tk_name c \<and> tk_position c' = tk_position c"
  by (auto simp: discover_one_def Let_def um_find_modify um_find_set)

lemma discover_keeps:
  "um_find (ck_chars s) p = Some c \<Longrightarrow>
    \<exists>c'. um_find (ck_chars (discover n tick g s)) p = Some c' \<and> tk_name c' = tk_name c \<and> tk_position c' = tk_position c"
proof (induction n arbitrary: s c)
  case (Suc n)
  show ?case
  proof (cases "ring_pop (ck_ring s)")
    case None
    then show ?thesis using Suc.prems by simp
  next
    case (Some xq)
    then obtain c1 where c1: "um_find (discover_one tick g (fst xq) (ck_chars s)) p = Some c1" "tk_name c1 = tk_name c" "tk_position c1 = tk_position c"
      using discover_one_keeps [OF Suc.prems] by blast
    with Some show ?thesis using Suc.IH [of "s\<lparr>ck_ring := snd xq, ck_chars := discover_one tick g (fst xq) (ck_chars s)\<rparr>" c1]
      by (auto simp: case_prod_unfold)
  qed
qed simp

text \<open>
  Safety, as a defect.  A character that is tracked once stays in the table with the name and the position of its first
  sighting, whatever the hook and the tick do: renaming it, moving it or freeing it is never noticed.
\<close>

theorem tracked_characters_go_stale:
  assumes "um_find (ck_chars s) p = Some c"
  shows "\<exists>c'. um_find (ck_chars (ProcessDeferredDiscovery tick g (OnCharUpdate locked tick h anim s))) p = Some c' \<and>
    tk_name c' = tk_name c \<and> tk_position c' = tk_position c"
proof -
  have "\<exists>c1. um_find (ck_chars (OnCharUpdate locked tick h anim s)) p = Some c1 \<and> tk_name c1 = tk_name c \<and> tk_position c1 = tk_position c"
    using assms by (auto simp: OnCharUpdate_def um_find_modify split: option.splits)
  then show ?thesis unfolding ProcessDeferredDiscovery_def using discover_keeps by fastforce
qed

end
