(* ===== verification/Shared_Save_Sync.thy ===== *)
theory Shared_Save_Sync
  imports Lobby_Manager Char_Tracker Game_Properties Client_Properties Player_Engine Loading_Orchestrator
begin

text \<open>
  \<^verbatim>\<open>KenshiMP.Core/game/shared_save_sync.cpp\<close>: two players load the same save, each takes one of its two characters,
  the client finds both by name, sends the position of its own and writes the position it receives into the other.
  The file statics are a record; what the code hands to the network, to the AI hooks and to the HUD is appended to
  lists.  Each reading of the clock is an argument, in nanoseconds.
\<close>

section \<open>State\<close>

record SharedSave =
  sv_ownCharName :: bytes
  sv_otherCharName :: bytes
  sv_ownAnimClass :: u64
  sv_otherAnimClass :: u64
  sv_ownCharPtr :: u64
  sv_otherCharPtr :: u64
  sv_initialized :: bool
  sv_ownFound :: bool
  sv_otherFound :: bool
  sv_lastPosSend :: int
  sv_lastDiscoveryLog :: int
  sv_discoveryAttempts :: nat
  sv_remotePosition :: Vec3
  sv_hasRemotePosition :: bool
  sv_remoteGameSpeed :: f32
  sv_revalidateCounter :: nat
  sv_sent :: "bytes list"
  sv_marked :: "u64 list"
  sv_hud :: "bytes list"

definition minus_one :: f32 where
  "minus_one = f32_of_int (- 1)"

definition SharedSave_new :: SharedSave where
  "SharedSave_new = \<lparr>sv_ownCharName = [], sv_otherCharName = [], sv_ownAnimClass = 0, sv_otherAnimClass = 0, sv_ownCharPtr = 0,
     sv_otherCharPtr = 0, sv_initialized = False, sv_ownFound = False, sv_otherFound = False, sv_lastPosSend = 0,
     sv_lastDiscoveryLog = 0, sv_discoveryAttempts = 0, sv_remotePosition = Vec3_new 0 0 0, sv_hasRemotePosition = False,
     sv_remoteGameSpeed = minus_one, sv_revalidateCounter = 0, sv_sent = [], sv_marked = [], sv_hud = []\<rparr>"

definition POS_SEND_INTERVAL_MS :: int where
  "POS_SEND_INTERVAL_MS = 50"

definition FactionToOwnName :: "bytes \<Rightarrow> bytes" where
  "FactionToOwnName faction =
     (if faction = lit ''10-kenshi-online'' then lit ''Player 1''
      else if faction = lit ''12-kenshi-online'' then lit ''Player 2'' else [])"

definition FactionToOtherName :: "bytes \<Rightarrow> bytes" where
  "FactionToOtherName faction =
     (if faction = lit ''10-kenshi-online'' then lit ''Player 2''
      else if faction = lit ''12-kenshi-online'' then lit ''Player 1'' else [])"

definition sv_message :: "bytes \<Rightarrow> SharedSave \<Rightarrow> SharedSave" where
  "sv_message t s = s\<lparr>sv_hud := sv_hud s @ [t]\<rparr>"

definition SharedSave_Init :: "LobbyManager \<Rightarrow> SharedSave \<Rightarrow> SharedSave" where
  "SharedSave_Init lobby s =
     (if \<not> lb_hasAssignment lobby then s
      else
        let f = lb_factionString lobby;
            s1 = s\<lparr>sv_ownCharName := FactionToOwnName f, sv_otherCharName := FactionToOtherName f\<rparr> in
        if sv_ownCharName s1 = [] \<or> sv_otherCharName s1 = [] then s1
        else sv_message (lit ''Shared save sync: you are '' @ sv_ownCharName s1 @ lit '', looking for '' @ sv_otherCharName s1 @ lit ''...'')
          (s1\<lparr>sv_initialized := True, sv_ownFound := False, sv_otherFound := False, sv_ownAnimClass := 0, sv_otherAnimClass := 0,
            sv_ownCharPtr := 0, sv_otherCharPtr := 0, sv_hasRemotePosition := False, sv_remotePosition := Vec3_new 0 0 0,
            sv_remoteGameSpeed := minus_one, sv_discoveryAttempts := 0\<rparr>))"

definition SharedSave_Reset :: "SharedSave \<Rightarrow> SharedSave" where
  "SharedSave_Reset s = s\<lparr>sv_initialized := False, sv_ownFound := False, sv_otherFound := False, sv_ownAnimClass := 0,
     sv_otherAnimClass := 0, sv_ownCharPtr := 0, sv_otherCharPtr := 0, sv_ownCharName := [], sv_otherCharName := [],
     sv_hasRemotePosition := False, sv_remoteGameSpeed := minus_one\<rparr>"

section \<open>The position behind an animation class\<close>

definition plausible :: "u64 \<Rightarrow> bool" where
  "plausible p \<longleftrightarrow> p \<noteq> 0 \<and> loose_ptr p"

definition position_struct :: "u64 \<Rightarrow> GameMemory \<Rightarrow> u64 option" where
  "position_struct anim m =
     (if \<not> loose_ptr anim then None
      else (case Read64 (anim + 0xC0) m of
         None \<Rightarrow> None
       | Some movement \<Rightarrow> if \<not> plausible movement then None
           else (case Read64 (movement + 0x320) m of
              None \<Rightarrow> None
            | Some pos \<Rightarrow> if plausible pos then Some pos else None)))"

definition SEH_ReadAnimClassPosition :: "u64 \<Rightarrow> GameMemory \<Rightarrow> Vec3 option" where
  "SEH_ReadAnimClassPosition anim m = (case position_struct anim m of
     None \<Rightarrow> None
   | Some p \<Rightarrow>
       let v = Vec3_new (peek32 0 (p + 0x20) m) (peek32 0 (p + 0x24) m) (peek32 0 (p + 0x28) m)
       in if nonzero_pos v then Some v else None)"

definition SEH_WriteAnimClassPosition :: "u64 \<Rightarrow> Vec3 \<Rightarrow> GameMemory \<Rightarrow> GameMemory" where
  "SEH_WriteAnimClassPosition anim v m = (case position_struct anim m of
     None \<Rightarrow> m
   | Some p \<Rightarrow> write_vec v (p + 0x20) m)"

definition SEH_WriteCachedPosition :: "u64 \<Rightarrow> Vec3 \<Rightarrow> GameMemory \<Rightarrow> GameMemory" where
  "SEH_WriteCachedPosition p v m = (if p = 0 then m else write_vec v (p + 0x48) m)"

section \<open>The tick\<close>

definition adopt_own :: "TrackedChar \<Rightarrow> SharedSave \<Rightarrow> SharedSave" where
  "adopt_own c s = s\<lparr>sv_ownAnimClass := tk_animClassPtr c, sv_ownCharPtr := tk_characterPtr c\<rparr>"

definition adopt_other :: "TrackedChar \<Rightarrow> SharedSave \<Rightarrow> SharedSave" where
  "adopt_other c s = s\<lparr>sv_otherAnimClass := tk_animClassPtr c, sv_otherCharPtr := tk_characterPtr c,
     sv_marked := sv_marked s @ (if tk_characterPtr c \<noteq> 0 then [tk_characterPtr c] else [])\<rparr>"

definition discover_own :: "CharTracker \<Rightarrow> SharedSave \<Rightarrow> SharedSave" where
  "discover_own ck s = (if sv_ownFound s then s
     else (case tracker_FindByName (sv_ownCharName s) ck of
        None \<Rightarrow> s
      | Some c \<Rightarrow> if tk_animClassPtr c = 0 then s
          else sv_message (lit ''Found your character: '' @ sv_ownCharName s) ((adopt_own c s)\<lparr>sv_ownFound := True\<rparr>)))"

definition discover_other :: "CharTracker \<Rightarrow> SharedSave \<Rightarrow> SharedSave" where
  "discover_other ck s = (if sv_otherFound s then s
     else (case tracker_FindByName (sv_otherCharName s) ck of
        None \<Rightarrow> s
      | Some c \<Rightarrow> if tk_animClassPtr c = 0 then s
          else sv_message (lit ''Found remote player: '' @ sv_otherCharName s) ((adopt_other c s)\<lparr>sv_otherFound := True\<rparr>)))"

definition both_found :: "SharedSave \<Rightarrow> bool" where
  "both_found s \<longleftrightarrow> sv_ownFound s \<and> sv_otherFound s"

definition discovery_log :: "int \<Rightarrow> CharTracker \<Rightarrow> SharedSave \<Rightarrow> SharedSave" where
  "discovery_log now ck s = (if 5 \<le> whole_seconds (now - sv_lastDiscoveryLog s) then
     let s1 = s\<lparr>sv_lastDiscoveryLog := now\<rparr> in
       if both_found s1 then s1
       else sv_message (lit ''Looking for characters... (tracked: '' @ dec_nat (GetTrackedCount ck) @ lit '')'') s1
     else s)"

definition revalidate :: "CharTracker \<Rightarrow> SharedSave \<Rightarrow> SharedSave" where
  "revalidate ck s =
     (let s1 = s\<lparr>sv_revalidateCounter := Suc (sv_revalidateCounter s)\<rparr> in
      if sv_revalidateCounter s1 mod 300 \<noteq> 0 then s1
      else
        let s2 = (case tracker_FindByName (sv_ownCharName s1) ck of
                    None \<Rightarrow> s1 | Some c \<Rightarrow> if tk_animClassPtr c = sv_ownAnimClass s1 then s1 else adopt_own c s1)
        in (case tracker_FindByName (sv_otherCharName s2) ck of
              None \<Rightarrow> s2 | Some c \<Rightarrow> if tk_animClassPtr c = sv_otherAnimClass s2 then s2 else adopt_other c s2))"

text \<open>Step 1 of \<^verbatim>\<open>Update\<close>: the characters.\<close>

definition find_characters :: "int \<Rightarrow> CharTracker \<Rightarrow> SharedSave \<Rightarrow> SharedSave" where
  "find_characters now ck s =
     (if both_found s then revalidate ck s
      else
        let s1 = discovery_log now ck (discover_other ck (discover_own ck (s\<lparr>sv_discoveryAttempts := Suc (sv_discoveryAttempts s)\<rparr>)))
        in if both_found s1 then sv_message (lit ''Both players found! Position sync active.'') s1 else s1)"

definition own_position_packet :: "Vec3 \<Rightarrow> bytes" where
  "own_position_packet v = packet [hdr C2S_PositionUpdate, WriteU8 1, WriteRaw (CharacterPosition_enc
     \<lparr>CharacterPosition_entityId = 0, CharacterPosition_generation = 0, CharacterPosition_posX = vx v, CharacterPosition_posY = vy v,
      CharacterPosition_posZ = vz v, CharacterPosition_compressedQuat = 0, CharacterPosition_animStateId = 0,
      CharacterPosition_moveSpeed = 0, CharacterPosition_flags = 0\<rparr>)]"

text \<open>Step 2: the own position.\<close>

definition send_own :: "int \<Rightarrow> GameMemory \<Rightarrow> SharedSave \<Rightarrow> SharedSave" where
  "send_own now m s =
     (if POS_SEND_INTERVAL_MS \<le> whole_millis (now - sv_lastPosSend s) \<and> sv_ownAnimClass s \<noteq> 0 then
        let s1 = s\<lparr>sv_lastPosSend := now\<rparr> in
        (case SEH_ReadAnimClassPosition (sv_ownAnimClass s1) m of
           None \<Rightarrow> s1
         | Some v \<Rightarrow> s1\<lparr>sv_sent := sv_sent s1 @ [own_position_packet v]\<rparr>)
      else s)"

text \<open>Step 3: the position received.\<close>

definition write_remote :: "SharedSave \<Rightarrow> GameMemory \<Rightarrow> GameMemory" where
  "write_remote s m = (if sv_hasRemotePosition s \<and> sv_otherAnimClass s \<noteq> 0
     then SEH_WriteCachedPosition (sv_otherCharPtr s) (sv_remotePosition s)
            (SEH_WriteAnimClassPosition (sv_otherAnimClass s) (sv_remotePosition s) m)
     else m)"

text \<open>Step 4: the game speed.  \<open>gw\<close> is the address of the singleton of the game world, 0 if it was not found.\<close>

definition apply_speed :: "u64 \<Rightarrow> SharedSave \<Rightarrow> GameProcess \<Rightarrow> SharedSave \<times> GameProcess" where
  "apply_speed gw s g =
     (let speed = sv_remoteGameSpeed s in
      if f32_le 0 speed then
        (s\<lparr>sv_remoteGameSpeed := minus_one\<rparr>,
         if gw \<noteq> 0 \<and> f32_lt (f32_lit 1 100) (f32_abs (f32_sub (GameWorld_GetGameSpeed gw g) speed))
         then snd (GameWorld_WriteGameSpeed speed gw g) else g)
      else (s, g))"

definition SharedSave_Update :: "bool \<Rightarrow> bool \<Rightarrow> int \<Rightarrow> int \<Rightarrow> u64 \<Rightarrow> LobbyManager \<Rightarrow> CharTracker \<Rightarrow> SharedSave \<times> GameProcess \<Rightarrow>
    SharedSave \<times> GameProcess" where
  "SharedSave_Update connected loaded now1 now2 gw lobby ck sg = (case sg of (s, g) \<Rightarrow>
     if \<not> connected \<or> \<not> loaded then (s, g)
     else
       let s1 = (if sv_initialized s then s else SharedSave_Init lobby s) in
       if \<not> sv_initialized s1 then (s1, g)
       else
         let s2 = find_characters now1 ck s1 in
         if \<not> both_found s2 then (s2, g)
         else
           let s3 = send_own now2 (gp_memory g) s2
           in apply_speed gw s3 (on_memory (write_remote s3) g))"

definition SharedSave_OnRemotePositionReceived :: "Vec3 \<Rightarrow> SharedSave \<Rightarrow> SharedSave" where
  "SharedSave_OnRemotePositionReceived v s = s\<lparr>sv_remotePosition := v, sv_hasRemotePosition := True\<rparr>"

definition OnRemoteGameSpeedReceived :: "f32 \<Rightarrow> SharedSave \<Rightarrow> SharedSave" where
  "OnRemoteGameSpeedReceived speed s = s\<lparr>sv_remoteGameSpeed := speed\<rparr>"

section \<open>The assignment of the faction\<close>

text \<open>
  \<^verbatim>\<open>HandleFactionAssignment\<close> of \<^verbatim>\<open>net/packet_handler.cpp\<close> up to the call of the lobby manager: the string, at most 32
  bytes, and the slot, 0 when it is missing.
\<close>

definition read_faction :: "PacketReader \<Rightarrow> (bytes \<times> i32) option" where
  "read_faction r = (case ReadU16 r of
     (None, r) \<Rightarrow> None
   | (Some n, r) \<Rightarrow>
       if n = 0 \<or> 32 < n then None
       else (case ReadRaw (unat n) r of
          (None, r) \<Rightarrow> None
        | (Some s, r) \<Rightarrow> Some (s, case fst (ReadI32 r) of None \<Rightarrow> 0 | Some k \<Rightarrow> k)))"


section \<open>What it does\<close>

text \<open>The state without the two names.\<close>

definition nameless :: "SharedSave \<Rightarrow> SharedSave" where
  "nameless s = s\<lparr>sv_ownCharName := [], sv_otherCharName := []\<rparr>"

lemma nameless_initialized: "nameless s = nameless s' \<Longrightarrow> sv_initialized s = sv_initialized s'"
  by (auto simp: nameless_def dest: arg_cong [of _ _ sv_initialized])

lemma Init_unknown: "FactionToOwnName (lb_factionString lobby) = [] \<Longrightarrow> nameless (SharedSave_Init lobby s) = nameless s"
  by (simp add: SharedSave_Init_def Let_def nameless_def)

lemma Update_unknown:
  assumes "FactionToOwnName (lb_factionString lobby) = []" "\<not> sv_initialized s"
  shows "nameless (fst (SharedSave_Update connected loaded now1 now2 gw lobby ck (s, g))) = nameless s \<and>
    snd (SharedSave_Update connected loaded now1 now2 gw lobby ck (s, g)) = g"
proof -
  have "\<not> sv_initialized (SharedSave_Init lobby s)" using nameless_initialized [OF Init_unknown [OF assms(1)]] assms(2) by simp
  then show ?thesis using assms(2) Init_unknown [OF assms(1)] by (simp add: SharedSave_Update_def Let_def)
qed

record shared_save_tick =
  st_connected :: bool
  st_loaded :: bool
  st_now1 :: int
  st_now2 :: int
  st_gw :: u64
  st_tracker :: CharTracker

definition tick_shared :: "LobbyManager \<Rightarrow> shared_save_tick \<Rightarrow> SharedSave \<times> GameProcess \<Rightarrow> SharedSave \<times> GameProcess" where
  "tick_shared lobby t = SharedSave_Update (st_connected t) (st_loaded t) (st_now1 t) (st_now2 t) (st_gw t) lobby (st_tracker t)"

lemma ticks_unknown:
  assumes "FactionToOwnName (lb_factionString lobby) = []" "\<not> sv_initialized s"
  shows "nameless (fst (fold (tick_shared lobby) ts (s, g))) = nameless s \<and> snd (fold (tick_shared lobby) ts (s, g)) = g"
  using assms(2)
proof (induction ts arbitrary: s)
  case (Cons t ts)
  obtain s' where e: "tick_shared lobby t (s, g) = (s', g)" and n: "nameless s' = nameless s"
    using Update_unknown [OF assms(1) Cons.prems, of "st_connected t" "st_loaded t" "st_now1 t" "st_now2 t" "st_gw t" "st_tracker t" g]
    by (metis prod.collapse tick_shared_def)
  then show ?case using Cons.IH [of s'] Cons.prems nameless_initialized [OF n] by simp
qed simp

lemma server_faction_read:
  "read_faction (snd (ReadHeader (PacketReader_new (faction_packet pid)))) =
    Some (faction_strings ! unat (faction_slot pid), faction_slot pid)"
proof -
  have "faction_slot pid = 0 \<or> faction_slot pid = 1"
    by (simp add: faction_slot_def) (metis mod2_eq_if)
  moreover have
    "read_faction (snd (ReadHeader (PacketReader_new (packet [hdr S2C_FactionAssignment, WriteU16 (of_nat (length (lit ''10-kenshi-online.mod''))),
       WriteRaw (lit ''10-kenshi-online.mod''), WriteI32 0])))) = Some (lit ''10-kenshi-online.mod'', 0)"
    "read_faction (snd (ReadHeader (PacketReader_new (packet [hdr S2C_FactionAssignment, WriteU16 (of_nat (length (lit ''12-kenshi-online.mod''))),
       WriteRaw (lit ''12-kenshi-online.mod''), WriteI32 1])))) = Some (lit ''12-kenshi-online.mod'', 1)"
    by code_simp+
  ultimately show ?thesis by (auto simp: faction_packet_def faction_strings_def Let_def)
qed

lemma server_factions_unknown:
  "FactionToOwnName (faction_strings ! unat (faction_slot pid)) = [] \<and> FactionToOtherName (faction_strings ! unat (faction_slot pid)) = []"
proof -
  have "faction_slot pid = 0 \<or> faction_slot pid = 1"
    by (simp add: faction_slot_def) (metis mod2_eq_if)
  then show ?thesis by (auto simp: faction_strings_def FactionToOwnName_def FactionToOtherName_def lit_def)
qed

text \<open>
  C25.  Safety, client and server, as a defect.  Whatever player the server assigns a faction to, the string it sends
  (\<^verbatim>\<open>10-kenshi-online.mod\<close> or \<^verbatim>\<open>12-kenshi-online.mod\<close>) is none of the two the client knows, so however long the
  client runs and whatever characters it sees, it finds no character, sends no position and writes no memory.
\<close>

theorem shared_save_never_starts:
  "\<exists>f slot. read_faction (snd (ReadHeader (PacketReader_new (faction_packet pid)))) = Some (f, slot) \<and>
    nameless (fst (fold (tick_shared (OnFactionAssigned f slot lobby)) ts (SharedSave_new, g))) = SharedSave_new \<and>
    snd (fold (tick_shared (OnFactionAssigned f slot lobby)) ts (SharedSave_new, g)) = g"
proof (intro exI conjI)
  let ?f = "faction_strings ! unat (faction_slot pid)"
  let ?lb = "OnFactionAssigned ?f (faction_slot pid) lobby"
  show "read_faction (snd (ReadHeader (PacketReader_new (faction_packet pid)))) = Some (?f, faction_slot pid)"
    by (rule server_faction_read)
  have "FactionToOwnName (lb_factionString ?lb) = []" using server_factions_unknown by (simp add: OnFactionAssigned_def)
  moreover have "\<not> sv_initialized SharedSave_new" "nameless SharedSave_new = SharedSave_new"
    by (simp_all add: SharedSave_new_def nameless_def)
  ultimately show "nameless (fst (fold (tick_shared ?lb) ts (SharedSave_new, g))) = SharedSave_new"
    "snd (fold (tick_shared ?lb) ts (SharedSave_new, g)) = g"
    using ticks_unknown [of ?lb SharedSave_new ts g] by simp_all
qed

text \<open>
  Safety, client and server, as a defect.  The position a client sends for its character carries the entity id 0.  No
  entity has that id, so the server drops it: positions would not reach the other player even with the right strings.
\<close>

theorem own_position_is_dropped:
  assumes "um_find (m_entities s) 0 = None"
  shows "HandlePositionUpdate player (snd (ReadHeader (PacketReader_new (own_position_packet v)))) s = s"
proof -
  let ?c = "\<lparr>CharacterPosition_entityId = 0, CharacterPosition_generation = 0, CharacterPosition_posX = vx v, CharacterPosition_posY = vy v,
      CharacterPosition_posZ = vz v, CharacterPosition_compressedQuat = 0, CharacterPosition_animStateId = 0,
      CharacterPosition_moveSpeed = 0, CharacterPosition_flags = 0\<rparr>"
  let ?h = "PacketHeader_enc \<lparr>ph_type = C2S_PositionUpdate, ph_flags = 0, ph_sequence = 0, ph_timestamp = 0\<rparr>"
  have "own_position_packet v = ?h @ bytes_u8 1 @ CharacterPosition_enc ?c"
    by (simp add: own_position_packet_def packet_def writer_defs WriteRaw_def)
  then have "snd (ReadHeader (PacketReader_new (own_position_packet v))) = reader_at ?h (bytes_u8 1 @ CharacterPosition_enc ?c)"
    by (simp add: reader_at_new scalars_at)
  moreover have "ReadStruct CharacterPosition_size CharacterPosition_dec (reader_at (?h @ bytes_u8 1) (CharacterPosition_enc ?c)) =
      (Some ?c, reader_at ((?h @ bytes_u8 1) @ CharacterPosition_enc ?c) [])"
    using CharacterPosition.struct_at [where m = ?c and pre = "?h @ bytes_u8 1" and rest = "[]"] by simp
  ultimately show ?thesis using assms
    by (simp add: HandlePositionUpdate_def scalars_at ValidatePositionUpdate_def)
qed

section \<open>The two players\<close>

text \<open>
  Functional.  With the strings the client knows, the two players take the two characters crosswise: what is the own
  character for one is the other's for the other.
\<close>

theorem factions_are_crosswise:
  "FactionToOwnName (lit ''10-kenshi-online'') = FactionToOtherName (lit ''12-kenshi-online'') \<and>
   FactionToOwnName (lit ''12-kenshi-online'') = FactionToOtherName (lit ''10-kenshi-online'') \<and>
   (FactionToOwnName f = FactionToOtherName f \<longleftrightarrow> f \<notin> {lit ''10-kenshi-online'', lit ''12-kenshi-online''})"
  by (auto simp: FactionToOwnName_def FactionToOtherName_def lit_def)

text \<open>The cells of the position behind an animation class, and of the two pointers on the way.\<close>

definition position_writable :: "u64 \<Rightarrow> GameMemory \<Rightarrow> bool" where
  "position_writable anim m \<longleftrightarrow> (\<exists>movement p. Read64 (anim + 0xC0) m = Some movement \<and> Read64 (movement + 0x320) m = Some p \<and>
     loose_ptr anim \<and> plausible movement \<and> plausible p \<and> writable (p + 0x20) 4 m \<and> writable (p + 0x24) 4 m \<and> writable (p + 0x28) 4 m \<and>
     apart (p + 0x20) 12 (anim + 0xC0) 8 \<and> apart (p + 0x20) 12 (movement + 0x320) 8)"

lemma write_vec_apart:
  assumes "apart a 12 b k"
  shows "Mem_Read k dec b (write_vec v a m) = Mem_Read k dec b m"
proof -
  have "apart (a + of_nat i) 4 b k" if "i \<le> 8" for i
    using assms cells_within [of i 4 12 a] that by (auto simp: apart_def)
  from this [of 0] this [of 4] this [of 8] show ?thesis by (simp add: write_vec_def read_write_apart)
qed

lemma write_vec_read:
  assumes "writable a 4 m" "writable (a + 4) 4 m" "writable (a + 8) 4 m"
  shows "peek32 d a (write_vec v a m) = vx v" "peek32 d (a + 4) (write_vec v a m) = vy v" "peek32 d (a + 8) (write_vec v a m) = vz v"
proof -
  have "apart (a + 4) 4 a 4" "apart (a + 8) 4 a 4" "apart (a + 8) 4 (a + 4) 4"
    using apart_base [of 4 4 4 a] apart_base [of 4 8 4 a] apart_base [of 4 4 4 "a + 4"] by (simp_all add: add.assoc)
  then show "peek32 d a (write_vec v a m) = vx v" "peek32 d (a + 4) (write_vec v a m) = vy v" "peek32 d (a + 8) (write_vec v a m) = vz v"
    using assms by (simp_all add: write_vec_def peek_write_apart wire_u32.peek_back)
qed

text \<open>
  Roundtrip.  The position written into the other player's character is the one read back along the same pointers.
\<close>

theorem anim_position_roundtrip:
  assumes "position_writable anim m" "nonzero_pos v"
  shows "SEH_ReadAnimClassPosition anim (SEH_WriteAnimClassPosition anim v m) = Some v"
proof -
  obtain movement p where a: "Read64 (anim + 0xC0) m = Some movement" "Read64 (movement + 0x320) m = Some p"
      "loose_ptr anim" "plausible movement" "plausible p"
    and w: "writable (p + 0x20) 4 m" "writable (p + 0x24) 4 m" "writable (p + 0x28) 4 m"
    and ap: "apart (p + 0x20) 12 (anim + 0xC0) 8" "apart (p + 0x20) 12 (movement + 0x320) 8"
    using assms(1) by (auto simp: position_writable_def)
  have "position_struct anim m = Some p" using a by (simp add: position_struct_def)
  moreover have "position_struct anim (write_vec v (p + 0x20) m) = Some p"
    using a ap by (simp add: position_struct_def write_vec_apart)
  moreover have "peek32 0 (p + 0x20) (write_vec v (p + 0x20) m) = vx v" "peek32 0 (p + 0x24) (write_vec v (p + 0x20) m) = vy v"
    "peek32 0 (p + 0x28) (write_vec v (p + 0x20) m) = vz v"
    using write_vec_read [of "p + 0x20" m] w by (simp_all add: add.assoc)
  ultimately show ?thesis using assms(2)
    by (cases v) (simp add: SEH_ReadAnimClassPosition_def SEH_WriteAnimClassPosition_def Vec3_new_def Let_def)
qed

end
