(* ===== verification/Client_Core.thy ===== *)
theory Client_Core
  imports Shared_Save_Sync Pipeline_Orchestrator
begin

text \<open>
  The client's core (\<^verbatim>\<open>KenshiMP.Core/core.h\<close>): the state its subsystems share and the operations by which they reach
  each other, with the small stores of the hooks (\<^verbatim>\<open>ai_hooks\<close>, \<^verbatim>\<open>entity_hooks\<close>, \<^verbatim>\<open>time_hooks\<close>, \<^verbatim>\<open>squad_hooks\<close>), the
  queue of spawn requests, the queue of commands for the game thread, and the connection and phase transitions.  The
  effects that the handlers of \<^verbatim>\<open>Client_Session\<close> record are carried out here.  A call of a function of the game is a
  parameter: what it does to memory and whether it faults.  Logging is left out.
\<close>

section \<open>The game's functions\<close>

datatype native_call =
    NativeApplyDamage u64 u64 u8 f32 f32 f32
  | NativeDeath u64 u64
  | NativeKO u64 u64 u8
  | NativeFactionRelation u64 u64 f32

text \<open>Which of them the scanner has found, and their outcome: \<open>False\<close> is an access violation.\<close>

record game_functions =
  gf_ApplyDamage :: bool
  gf_CharacterDeath :: bool
  gf_CharacterKO :: bool
  gf_FactionRelation :: bool
  gf_call :: "native_call \<Rightarrow> GameMemory \<Rightarrow> bool \<times> GameMemory"

text \<open>
  What an operation reads from outside: the session clock, the steady clock in nanoseconds, the code page conversion, the
  C library functions of \<^verbatim>\<open>Slerp\<close>, the game's functions and the configured player name.
\<close>

record core_env =
  en_now :: f32
  en_clock :: int
  en_utf8ToAnsi :: "bytes \<Rightarrow> bytes"
  en_acosf :: "f32 \<Rightarrow> f32"
  en_sinf :: "f32 \<Rightarrow> f32"
  en_functions :: game_functions
  en_playerName :: bytes

section \<open>State\<close>

text \<open>The closures pushed for the game thread, with what they capture.\<close>

datatype game_command =
    CmdWritePosition u64 Vec3
  | CmdCombatHit u64 MsgCombatHit
  | CmdCombatDeath u64 u64 MsgCombatDeath

datatype ui_call =
    UiSystem bytes
  | UiOverlaySystem bytes
  | UiOverlayChat PlayerID bytes
  | UiChat bytes bytes
  | UiAddPlayer PlayerID bytes
  | UiCloseChatInput
  | UiResetForReconnect

datatype hook_call =
    HkEnable bytes
  | HkDisable bytes
  | HkSuspendForDisconnect
  | HkResumeForNetwork
  | HkResetKeepalive
  | HkDestroyProxies
  | HkCreateProxy EntityID PlayerID Vec3 Quat
  | HkLoadingPassthrough

record CachedEntityPos =
  ch_netId :: EntityID
  ch_position :: Vec3
  ch_rotation :: Quat
  ch_speed :: f32
  ch_animState :: u8
  ch_dirty :: bool

record CachedRemoteResult =
  crr_netId :: EntityID
  crr_position :: Vec3
  crr_rotation :: Quat
  crr_moveSpeed :: u8
  crr_animState :: u8
  crr_valid :: bool

record FrameData =
  fd_localEntities :: "CachedEntityPos list"
  fd_remoteResults :: "CachedRemoteResult list"
  fd_packetBytes :: bytes
  fd_ready :: bool

definition FrameData_Clear :: FrameData where
  "FrameData_Clear = \<lparr>fd_localEntities = [], fd_remoteResults = [], fd_packetBytes = [], fd_ready = False\<rparr>"

record SyncOrchestrator =
  so_resolver :: interest_cache
  so_zoneEngine :: ZoneEngine
  so_playerEngine :: PlayerEngine
  so_frameData :: "FrameData list"
  so_writeBuffer :: nat
  so_readBuffer :: nat
  so_pipelineStarted :: bool
  so_tickCount :: u64
  so_active :: bool
  so_localPlayerId :: PlayerID
  so_lastZoneRebuild :: int
  so_firstPendingTime :: int
  so_hasPendingTimer :: bool
  so_directSpawnAttempts :: nat
  so_shownWaitingMsg :: bool
  so_shownTimeoutMsg :: bool
  so_lastDirectAttempt :: int
  so_heapScanned :: bool
  so_heapScanAttempts :: nat
  so_lastHeapScan :: int
  so_lastSpawnLog :: int
  so_lastPollTime :: int
  so_lastEquipmentPollTime :: int

definition SyncOrchestrator_new :: SyncOrchestrator where
  "SyncOrchestrator_new = \<lparr>so_resolver = [], so_zoneEngine = ZoneEngine_new, so_playerEngine = PlayerEngine_new,
     so_frameData = [FrameData_Clear, FrameData_Clear], so_writeBuffer = 0, so_readBuffer = 1, so_pipelineStarted = False,
     so_tickCount = 0, so_active = False, so_localPlayerId = INVALID_PLAYER, so_lastZoneRebuild = 0, so_firstPendingTime = 0,
     so_hasPendingTimer = False, so_directSpawnAttempts = 0, so_shownWaitingMsg = False, so_shownTimeoutMsg = False,
     so_lastDirectAttempt = 0, so_heapScanned = False, so_heapScanAttempts = 0, so_lastHeapScan = 0, so_lastSpawnLog = 0,
     so_lastPollTime = 0, so_lastEquipmentPollTime = 0\<rparr>"

text \<open>\<open>co_client\<close> is the state of \<^verbatim>\<open>Client_Session\<close>: registry, interpolation, queues, own id and phase.\<close>

record ClientCore =
  co_client :: Client
  co_game :: GameProcess
  co_lobby :: LobbyManager
  co_sharedSave :: SharedSave
  co_pipeline :: PipelineOrchestrator
  co_controller :: PlayerController
  co_sync :: "SyncOrchestrator option"
  co_spawnQueue :: "SpawnRequest list"
  co_spawnsPerPlayer :: "(PlayerID, int) umap"
  co_remoteControlled :: "u64 list"
  co_commands :: "game_command list"
  co_connected :: bool
  co_isHost :: bool
  co_hostPlayerId :: PlayerID
  co_timeManager :: u64
  co_serverTime :: "(f32 \<times> f32) option"
  co_pendingSquads :: "u64 list"
  co_squadIds :: "(u64, u32) umap"
  co_earlyFaction :: u64
  co_initialEntityScanDone :: bool
  co_spawnTeleportDone :: bool
  co_hostTpTimerStarted :: bool
  co_pipelineStarted :: bool
  co_needSpawnQueueReset :: bool
  co_needPollReset :: bool
  co_frameData :: "FrameData list"
  co_sent :: "(bool \<times> bytes) list"
  co_ui :: "ui_call list"
  co_hooks :: "hook_call list"

definition ui :: "ui_call list \<Rightarrow> ClientCore \<Rightarrow> ClientCore" where
  "ui xs co = co\<lparr>co_ui := co_ui co @ xs\<rparr>"

definition hook :: "hook_call list \<Rightarrow> ClientCore \<Rightarrow> ClientCore" where
  "hook xs co = co\<lparr>co_hooks := co_hooks co @ xs\<rparr>"

definition on_client :: "(Client \<Rightarrow> Client) \<Rightarrow> ClientCore \<Rightarrow> ClientCore" where
  "on_client f co = co\<lparr>co_client := f (co_client co)\<rparr>"

definition on_game :: "(GameProcess \<Rightarrow> GameProcess) \<Rightarrow> ClientCore \<Rightarrow> ClientCore" where
  "on_game f co = co\<lparr>co_game := f (co_game co)\<rparr>"

definition on_sync :: "(SyncOrchestrator \<Rightarrow> SyncOrchestrator) \<Rightarrow> ClientCore \<Rightarrow> ClientCore" where
  "on_sync f co = co\<lparr>co_sync := map_option f (co_sync co)\<rparr>"

definition on_players :: "(PlayerEngine \<Rightarrow> PlayerEngine) \<Rightarrow> ClientCore \<Rightarrow> ClientCore" where
  "on_players f = on_sync (\<lambda>so. so\<lparr>so_playerEngine := f (so_playerEngine so)\<rparr>)"

definition on_controller :: "(PlayerController \<Rightarrow> PlayerController) \<Rightarrow> ClientCore \<Rightarrow> ClientCore" where
  "on_controller f co = co\<lparr>co_controller := f (co_controller co)\<rparr>"

abbreviation "co_registry co \<equiv> cl_registry (co_client co)"

abbreviation "co_localPlayerId co \<equiv> cl_localPlayerId (co_client co)"

abbreviation "IsGameLoaded co \<equiv> cl_gameLoaded (co_client co)"

section \<open>The stores of the hooks\<close>

definition ai_MarkRemoteControlled :: "u64 \<Rightarrow> ClientCore \<Rightarrow> ClientCore" where
  "ai_MarkRemoteControlled p co = co\<lparr>co_remoteControlled := List.insert p (co_remoteControlled co)\<rparr>"

definition ai_UnmarkRemoteControlled :: "u64 \<Rightarrow> ClientCore \<Rightarrow> ClientCore" where
  "ai_UnmarkRemoteControlled p co = co\<lparr>co_remoteControlled := removeAll p (co_remoteControlled co)\<rparr>"

definition entity_DecrementSpawnCount :: "PlayerID \<Rightarrow> ClientCore \<Rightarrow> ClientCore" where
  "entity_DecrementSpawnCount owner co =
     co\<lparr>co_spawnsPerPlayer := um_modify owner (\<lambda>n. if 0 < n then n - 1 else n) (co_spawnsPerPlayer co)\<rparr>"

text \<open>The hooks' own counters are not part of this state.\<close>

definition ResumeForNetwork :: "ClientCore \<Rightarrow> ClientCore" where
  "ResumeForNetwork co =
     (let co1 = co\<lparr>co_spawnsPerPlayer := []\<rparr>;
          co2 = (if co_earlyFaction co1 \<noteq> 0 \<and> pct_localFactionPtr (co_controller co1) = 0
                 then on_controller (SetLocalFactionPtr (co_earlyFaction co1)) co1 else co1)
      in hook [HkResumeForNetwork] (co2\<lparr>co_earlyFaction := 0\<rparr>))"

definition SetServerTime :: "f32 \<Rightarrow> f32 \<Rightarrow> ClientCore \<Rightarrow> ClientCore" where
  "SetServerTime timeOfDay gameSpeed co =
     (let co1 = co\<lparr>co_serverTime := Some (timeOfDay, gameSpeed)\<rparr> in
      if co_timeManager co1 = 0 then co1
      else on_game (on_memory (\<lambda>m. snd (Mem_Write (bytes_u32 gameSpeed) (co_timeManager co1 + 0x10)
             (snd (Mem_Write (bytes_u32 timeOfDay) (co_timeManager co1 + 0x08) m))))) co1)"

definition OnSquadNetIdAssigned :: "u32 \<Rightarrow> ClientCore \<Rightarrow> ClientCore" where
  "OnSquadNetIdAssigned squadNetId co = (case co_pendingSquads co of
     [] \<Rightarrow> co
   | p # ps \<Rightarrow> co\<lparr>co_pendingSquads := ps, co_squadIds := um_set p squadNetId (co_squadIds co)\<rparr>)"

section \<open>The queue of spawn requests\<close>

definition SpawnQueued :: PipelineEventType where
  "SpawnQueued = 0x01"

definition Spawn_QueueSpawn :: "core_env \<Rightarrow> SpawnRequest \<Rightarrow> ClientCore \<Rightarrow> ClientCore" where
  "Spawn_QueueSpawn env q co = co\<lparr>co_spawnQueue := co_spawnQueue co @ [q],
     co_pipeline := RecordEvent (en_clock env) SpawnQueued 0 (rq_netId q) (rq_owner q) (lit ''Queued: '' @ rq_templateName q) (co_pipeline co)\<rparr>"

definition ClearSpawnQueue :: "ClientCore \<Rightarrow> ClientCore" where
  "ClearSpawnQueue co = co\<lparr>co_spawnQueue := []\<rparr>"

definition Spawn_ClearSpawnsForOwner :: "PlayerID \<Rightarrow> ClientCore \<Rightarrow> nat \<times> ClientCore" where
  "Spawn_ClearSpawnsForOwner owner co =
     (let kept = filter (\<lambda>q. rq_owner q \<noteq> owner) (co_spawnQueue co)
      in (length (co_spawnQueue co) - length kept, co\<lparr>co_spawnQueue := kept\<rparr>))"

definition PopNextSpawn :: "ClientCore \<Rightarrow> SpawnRequest option \<times> ClientCore" where
  "PopNextSpawn co = (case co_spawnQueue co of [] \<Rightarrow> (None, co) | q # qs \<Rightarrow> (Some q, co\<lparr>co_spawnQueue := qs\<rparr>))"

definition RequeueSpawn :: "SpawnRequest \<Rightarrow> ClientCore \<Rightarrow> ClientCore" where
  "RequeueSpawn q co = co\<lparr>co_spawnQueue := co_spawnQueue co @ [q]\<rparr>"

section \<open>Mod characters\<close>

definition ReadCharNameSafe :: "u64 \<Rightarrow> nat \<Rightarrow> GameProcess \<Rightarrow> bytes" where
  "ReadCharNameSafe p bufSize g = take (bufSize - 1) (ReadKenshiString (at_offset p (cho_name (chr_off g))) (gp_memory g))"

definition FindModCharacterBySlot :: "i32 \<Rightarrow> GameProcess \<Rightarrow> u64" where
  "FindModCharacterBySlot k g =
     (if sint k < 1 \<or> 16 < sint k then 0
      else (case find (\<lambda>p. p \<noteq> 0 \<and> cstr (ReadCharNameSafe p 64 g) = lit ''Player '' @ dec_nat (unat k)) (all_characters g) of
         None \<Rightarrow> 0 | Some p \<Rightarrow> p))"

section \<open>Carrying out effects\<close>

definition game_api_of :: "GameProcess \<Rightarrow> game_api" where
  "game_api_of g = \<lparr>ga_IsValid = (\<lambda>p. p \<noteq> 0), ga_GetFactionPtr = (\<lambda>p. Character_GetFactionPtr p g),
     ga_WriteName = (\<lambda>p n. fst (Character_WriteName n p g)),
     ga_WriteNameToGameData = (\<lambda>p n. fst (Character_WriteNameToGameData n p g)), ga_moduleBase = gp_moduleBase g\<rparr>"

definition core_OnRemoteCharacterSpawned :: "EntityID \<Rightarrow> u64 \<Rightarrow> PlayerID \<Rightarrow> ClientCore \<Rightarrow> ClientCore" where
  "core_OnRemoteCharacterSpawned k obj owner co =
     (case OnRemoteCharacterSpawned (game_api_of (co_game co)) k obj owner (co_controller co) of
        (ok, name, pc) \<Rightarrow> (case name of
            None \<Rightarrow> co\<lparr>co_controller := pc\<rparr>
          | Some n \<Rightarrow> on_game (\<lambda>g. snd (Character_WriteName n obj g)) (co\<lparr>co_controller := pc\<rparr>)))"

definition core_WriteGameDataName :: "u64 \<Rightarrow> PlayerID \<Rightarrow> ClientCore \<Rightarrow> ClientCore" where
  "core_WriteGameDataName obj owner co = (if obj = 0 then co
     else on_game (\<lambda>g. snd (Character_WriteNameToGameData (take 15 (display_name owner (co_controller co))) obj g)) co)"

text \<open>The health of several body parts, along the chain of pointers, if it leads anywhere.\<close>

fun write_parts :: "nat \<Rightarrow> f32 list \<Rightarrow> u64 \<Rightarrow> GameProcess \<Rightarrow> GameProcess" where
  "write_parts i [] arr g = g"
| "write_parts i (h # hs) arr g = write_parts (Suc i) hs arr (on_memory (\<lambda>m. snd (Mem_Write (bytes_u32 h) (part_address arr i g) m)) g)"

definition write_health :: "u64 \<Rightarrow> f32 list \<Rightarrow> GameProcess \<Rightarrow> GameProcess" where
  "write_health p hs g = (case health_array p g of None \<Rightarrow> g | Some arr \<Rightarrow> write_parts 0 hs arr g)"

definition write_part :: "u64 \<Rightarrow> nat \<Rightarrow> f32 \<Rightarrow> GameProcess \<Rightarrow> GameProcess" where
  "write_part p i h g = (case health_array p g of None \<Rightarrow> g
     | Some arr \<Rightarrow> on_memory (\<lambda>m. snd (Mem_Write (bytes_u32 h) (part_address arr i g) m)) g)"

definition call_native :: "core_env \<Rightarrow> native_call \<Rightarrow> GameProcess \<Rightarrow> bool \<times> GameProcess" where
  "call_native env c g = (let (ok, m) = gf_call (en_functions env) c (gp_memory g) in (ok, g\<lparr>gp_memory := m\<rparr>))"

text \<open>A fault in the first of the two calls skips the second.\<close>

definition SEH_AllyModFaction :: "core_env \<Rightarrow> u64 \<Rightarrow> ClientCore \<Rightarrow> ClientCore" where
  "SEH_AllyModFaction env obj co =
     (let g = co_game co; remote = Character_GetFactionPtr obj g; own = pct_localFactionPtr (co_controller co) in
      if \<not> gf_FactionRelation (en_functions env) \<or> obj = 0 then co
      else if remote < 0x10000 \<or> 0x00007FFFFFFFFFFF \<le> remote then co
      else if own = 0 \<or> own = remote then co
      else
        let (ok, g1) = call_native env (NativeFactionRelation own remote (f32_of_int 100)) g
        in co\<lparr>co_game := (if ok then snd (call_native env (NativeFactionRelation remote own (f32_of_int 100)) g1) else g1)\<rparr>)"

fun run_effect :: "core_env \<Rightarrow> game_effect \<Rightarrow> ClientCore \<Rightarrow> ClientCore" where
  "run_effect env (MarkRemoteControlled p) co = ai_MarkRemoteControlled p co"
| "run_effect env (UnmarkRemoteControlled p) co = ai_UnmarkRemoteControlled p co"
| "run_effect env (PushWritePosition p v) co = co\<lparr>co_commands := co_commands co @ [CmdWritePosition p v]\<rparr>"
| "run_effect env (WritePosition p v) co = on_game (\<lambda>g. snd (Character_WritePosition v p g)) co"
| "run_effect env (WritePlayerControlled p b) co = on_game (\<lambda>g. snd (game_WritePlayerControlled p b g)) co"
| "run_effect env (OnRemoteCharSpawned k p owner) co = core_OnRemoteCharacterSpawned k p owner co"
| "run_effect env (WriteGameDataName p owner) co = core_WriteGameDataName p owner co"
| "run_effect env (ScheduleAnimProbe p) co = on_game (ScheduleDeferredAnimClassProbe p) co"
| "run_effect env (WriteLimbHealth p hs) co = on_game (write_health p hs) co"
| "run_effect env (CreateProxy k owner pos rot) co = hook [HkCreateProxy k owner pos rot] co"
| "run_effect env (AllyModFaction p) co = SEH_AllyModFaction env p co"
| "run_effect env (QueueSpawn q) co = Spawn_QueueSpawn env q co"
| "run_effect env (ClearSpawnsForOwner p) co = snd (Spawn_ClearSpawnsForOwner p co)"
| "run_effect env (DecrementSpawnCount p) co = entity_DecrementSpawnCount p co"
| "run_effect env (OnRemotePositionReceived v) co = co\<lparr>co_sharedSave := SharedSave_OnRemotePositionReceived v (co_sharedSave co)\<rparr>"
| "run_effect env (game_effect.RecordActivity p) co = on_players (Player_Engine.RecordActivity (en_clock env) p) co"
| "run_effect env (game_effect.RemoveRemotePlayer p) co = on_controller (Player_Engine.RemoveRemotePlayer p) co"
| "run_effect env (game_effect.OnRemotePlayerLeft p) co = on_players (Player_Engine.OnRemotePlayerLeft p) co"
| "run_effect env (ZoneRemovePlayer p) co = on_sync (\<lambda>so. so\<lparr>so_zoneEngine := ZoneEngine_RemovePlayer p (so_zoneEngine so)\<rparr>) co"
| "run_effect env (ClearInterest p) co = on_sync (\<lambda>so. so\<lparr>so_resolver := Resolver_ClearInterest p (so_resolver so)\<rparr>) co"

text \<open>What a handler of \<^verbatim>\<open>Client_Session\<close> reads from the core.\<close>

definition client_env_of :: "core_env \<Rightarrow> ClientCore \<Rightarrow> client_env" where
  "client_env_of env co = \<lparr>ce_now = en_now env, ce_modCharacter = (\<lambda>k. FindModCharacterBySlot k (co_game co)),
     ce_utf8ToAnsi = en_utf8ToAnsi env, ce_acosf = en_acosf env, ce_sinf = en_sinf env, ce_orchestrator = (co_sync co \<noteq> None)\<rparr>"

definition with_client :: "core_env \<Rightarrow> (client_env \<Rightarrow> Client \<Rightarrow> Client) \<Rightarrow> ClientCore \<Rightarrow> ClientCore" where
  "with_client env f co =
     (let c = f (client_env_of env co) ((co_client co)\<lparr>cl_effects := []\<rparr>)
      in fold (run_effect env) (cl_effects c) (co\<lparr>co_client := c\<lparr>cl_effects := []\<rparr>\<rparr>))"


section \<open>Phases and connection\<close>

definition TransitionTo :: "ClientPhase \<Rightarrow> ClientCore \<Rightarrow> ClientCore" where
  "TransitionTo new co =
     (let old = cl_phase (co_client co); co1 = on_client (\<lambda>c. c\<lparr>cl_phase := new\<rparr>) co in
      if old = new then co1
      else if new = Loading then on_game (\<lambda>g. g\<lparr>gp_isLoading := True\<rparr>) co1
      else if old = Loading then on_game (\<lambda>g. g\<lparr>gp_isLoading := False\<rparr>) co1
      else co1)"

definition clear_frames :: "ClientCore \<Rightarrow> ClientCore" where
  "clear_frames co = co\<lparr>co_frameData := [FrameData_Clear, FrameData_Clear], co_pipelineStarted := False\<rparr>"

definition OnLoadingGapDetected :: "ClientCore \<Rightarrow> ClientCore" where
  "OnLoadingGapDetected co =
     (let current = cl_phase (co_client co) in
      if current = MainMenu \<or> current = GameReady then
        let co1 = (on_client (\<lambda>c. c\<lparr>cl_gameLoaded := False\<rparr>) co)
                    \<lparr>co_initialEntityScanDone := False, co_spawnTeleportDone := False, co_needPollReset := True\<rparr>;
            co2 = (if current = GameReady
              then on_game ResetProbeState (clear_frames (on_controller PlayerController_Reset
                     (on_client (on_interp Interpolation_Clear \<circ> on_registry Registry_Clear) co1)))
              else co1);
            co3 = (if lb_hasAssignment (co_lobby co2) then on_game (\<lambda>g. snd (ApplyFactionPatch (co_lobby co2) g)) co2 else co2)
        in TransitionTo Loading (hook [HkLoadingPassthrough] co3)
      else co)"

definition Sync_Initialize :: "int \<Rightarrow> PlayerID \<Rightarrow> bytes \<Rightarrow> SyncOrchestrator \<Rightarrow> SyncOrchestrator" where
  "Sync_Initialize now localId name s =
     s\<lparr>so_localPlayerId := localId, so_active := True, so_tickCount := 0, so_playerEngine := OnHandshakeAck localId name (so_playerEngine s),
       so_zoneEngine := (so_zoneEngine s)\<lparr>ze_sendFn := True\<rparr>, so_lastZoneRebuild := now, so_lastPollTime := now,
       so_lastEquipmentPollTime := now, so_lastSpawnLog := now\<rparr>"

definition Sync_Shutdown :: "SyncOrchestrator \<Rightarrow> SyncOrchestrator" where
  "Sync_Shutdown s = s\<lparr>so_active := False\<rparr>"

definition Sync_Reset :: "SyncOrchestrator \<Rightarrow> SyncOrchestrator" where
  "Sync_Reset s =
     (let s1 = s\<lparr>so_active := False, so_pipelineStarted := False, so_tickCount := 0, so_localPlayerId := INVALID_PLAYER,
                so_writeBuffer := 0, so_readBuffer := 1, so_frameData := [FrameData_Clear, FrameData_Clear]\<rparr>
      in s1\<lparr>so_resolver := Resolver_ClearInterest (so_localPlayerId s1) (so_resolver s1),
            so_zoneEngine := ZoneEngine_Reset (so_zoneEngine s1), so_playerEngine := PlayerEngine_Reset (so_playerEngine s1),
            so_hasPendingTimer := False, so_directSpawnAttempts := 0, so_shownWaitingMsg := False, so_shownTimeoutMsg := False,
            so_heapScanned := False, so_heapScanAttempts := 0, so_lastHeapScan := 0\<rparr>)"

definition SetLocalHostPlayerId :: "PlayerID \<Rightarrow> ClientCore \<Rightarrow> ClientCore" where
  "SetLocalHostPlayerId k co = co\<lparr>co_hostPlayerId := k, co_isHost := (k \<noteq> 0 \<and> k = co_localPlayerId co)\<rparr>"

definition combat_hook_names :: "bytes list" where
  "combat_hook_names = [lit ''CharacterDeath'', lit ''CharacterKO'']"

definition forget_session :: "ClientCore \<Rightarrow> ClientCore" where
  "forget_session co =
     (let co1 = hook (HkSuspendForDisconnect # map HkDisable combat_hook_names) co;
          co2 = on_client (on_interp Interpolation_Clear \<circ> on_registry (\<lambda>r. snd (ClearRemoteEntities r))) co1;
          co3 = on_controller PlayerController_Reset (hook [HkDestroyProxies] co2);
          co4 = on_client (\<lambda>c. c\<lparr>cl_hostSpawnPoint := None\<rparr>)
                  (co3\<lparr>co_initialEntityScanDone := False, co_spawnTeleportDone := False, co_isHost := False, co_hostPlayerId := 0,
                       co_hostTpTimerStarted := False\<rparr>);
          co5 = on_sync Sync_Reset (clear_frames co4);
          co6 = co5\<lparr>co_pipeline := Pipeline_Shutdown (co_pipeline co5), co_sharedSave := SharedSave_Reset (co_sharedSave co5)\<rparr>;
          co7 = (ClearSpawnQueue co6)\<lparr>co_needSpawnQueueReset := True\<rparr>
      in ui [UiCloseChatInput, UiResetForReconnect] (on_game ResetProbeState co7))"

definition SetConnected :: "bool \<Rightarrow> ClientCore \<Rightarrow> ClientCore" where
  "SetConnected connected co =
     (let co1 = co\<lparr>co_connected := connected\<rparr> in
      if connected then hook (HkResetKeepalive # (if IsGameLoaded co1 then map HkEnable combat_hook_names else [])) co1
      else forget_session (if IsGameLoaded co1 then TransitionTo GameReady co1 else co1))"

section \<open>Commands for the game thread\<close>

definition Queue_Push :: "game_command \<Rightarrow> ClientCore \<Rightarrow> ClientCore" where
  "Queue_Push cmd co = co\<lparr>co_commands := co_commands co @ [cmd]\<rparr>"

definition Queue_Clear :: "ClientCore \<Rightarrow> ClientCore" where
  "Queue_Clear co = co\<lparr>co_commands := []\<rparr>"

definition object_of :: "EntityID \<Rightarrow> ClientCore \<Rightarrow> u64" where
  "object_of k co = (if k \<noteq> INVALID_ENTITY then GetGameObject k (co_registry co) else 0)"

text \<open>A native call that faults leaves the fallback to be tried.\<close>

definition attempt :: "core_env \<Rightarrow> bool \<Rightarrow> native_call \<Rightarrow> (GameProcess \<Rightarrow> GameProcess) \<Rightarrow> GameProcess \<Rightarrow> GameProcess" where
  "attempt env present c fallback g = (if present
     then (case call_native env c g of (ok, g1) \<Rightarrow> if ok then g1 else fallback g1)
     else fallback g)"

definition write_not_alive :: "u64 \<Rightarrow> GameProcess \<Rightarrow> GameProcess" where
  "write_not_alive p g = (if 0 \<le> cho_isAlive (chr_off g)
     then on_memory (\<lambda>m. snd (Mem_Write (bytes_u8 0) (at_offset p (cho_isAlive (chr_off g))) m)) g else g)"

definition death_health :: "f32 list" where
  "death_health = replicate 7 (f32_of_int (- 100))"

fun run_command :: "core_env \<Rightarrow> game_command \<Rightarrow> ClientCore \<Rightarrow> ClientCore" where
  "run_command env (CmdWritePosition p v) co =
     (if IsGameLoaded co \<and> phase_code GameReady \<le> phase_code (cl_phase (co_client co))
      then on_game (\<lambda>g. snd (Character_WritePosition v p g)) co else co)"
| "run_command env (CmdCombatHit target msg) co =
     (let attacker = object_of (MsgCombatHit_attackerId msg) co in
      on_game (attempt env (gf_ApplyDamage (en_functions env) \<and> attacker \<noteq> 0)
        (NativeApplyDamage target attacker (MsgCombatHit_bodyPart msg) (MsgCombatHit_cutDamage msg) (MsgCombatHit_bluntDamage msg)
           (MsgCombatHit_pierceDamage msg))
        (write_part target (unat (MsgCombatHit_bodyPart msg)) (MsgCombatHit_resultHealth msg))) co)"
| "run_command env (CmdCombatDeath obj killer msg) co =
     on_game (attempt env True (NativeDeath obj killer) (write_not_alive obj \<circ> write_health obj death_health)) co"

definition DrainAll :: "core_env \<Rightarrow> ClientCore \<Rightarrow> ClientCore" where
  "DrainAll env co = fold (run_command env) (co_commands co) (co\<lparr>co_commands := []\<rparr>)"

end
