(* ===== verification/Client_Handlers.thy ===== *)
theory Client_Handlers
  imports Client_Core
begin

text \<open>
  The handlers of \<^verbatim>\<open>KenshiMP.Core/net/packet_handler.cpp\<close> and their dispatch.  The handlers for spawns, despawns,
  positions, moves and leaving players are those of \<^verbatim>\<open>Client_Session\<close>, run on the core.  The texts for HUD and overlay
  of those are left out, those of the other handlers are recorded; log lines and the lines of \<^verbatim>\<open>LogStep\<close> are left out.
\<close>

section \<open>Two message structs\<close>

record MsgHealthUpdate =
  MsgHealthUpdate_entityId :: EntityID
  MsgHealthUpdate_health :: "f32 list"
  MsgHealthUpdate_bloodLevel :: f32

definition MsgHealthUpdate_size :: nat where
  "MsgHealthUpdate_size = 36"

definition MsgHealthUpdate_enc :: "MsgHealthUpdate \<Rightarrow> bytes" where
  "MsgHealthUpdate_enc m = bytes_u32 (MsgHealthUpdate_entityId m) @
     f32s_enc (MsgHealthUpdate_health m) @
     bytes_u32 (MsgHealthUpdate_bloodLevel m)"

definition MsgHealthUpdate_dec :: "bytes \<Rightarrow> MsgHealthUpdate" where
  "MsgHealthUpdate_dec bs = \<lparr>
     MsgHealthUpdate_entityId = u32_of (bslice 0 4 bs),
     MsgHealthUpdate_health = f32s_dec 7 (bslice 4 28 bs),
     MsgHealthUpdate_bloodLevel = u32_of (bslice 32 4 bs)\<rparr>"

record MsgStatUpdate =
  MsgStatUpdate_entityId :: EntityID
  MsgStatUpdate_statIndex :: u8
  MsgStatUpdate_statValue :: f32

definition MsgStatUpdate_size :: nat where
  "MsgStatUpdate_size = 9"

definition MsgStatUpdate_enc :: "MsgStatUpdate \<Rightarrow> bytes" where
  "MsgStatUpdate_enc m = bytes_u32 (MsgStatUpdate_entityId m) @
     bytes_u8 (MsgStatUpdate_statIndex m) @
     bytes_u32 (MsgStatUpdate_statValue m)"

definition MsgStatUpdate_dec :: "bytes \<Rightarrow> MsgStatUpdate" where
  "MsgStatUpdate_dec bs = \<lparr>
     MsgStatUpdate_entityId = u32_of (bslice 0 4 bs),
     MsgStatUpdate_statIndex = u8_of (bslice 4 1 bs),
     MsgStatUpdate_statValue = u32_of (bslice 5 4 bs)\<rparr>"

interpretation MsgStatUpdate: wire_struct MsgStatUpdate_enc MsgStatUpdate_dec MsgStatUpdate_size "\<lambda>_. True"
  by unfold_locales (simp_all add: MsgStatUpdate_enc_def MsgStatUpdate_dec_def MsgStatUpdate_size_def wire_simps)

section \<open>Connection\<close>

definition HandleHandshakeAck :: "core_env \<Rightarrow> PacketReader \<Rightarrow> ClientCore \<Rightarrow> ClientCore" where
  "HandleHandshakeAck env r co = (case fst (ReadStruct MsgHandshakeAck_size MsgHandshakeAck_dec r) of
     None \<Rightarrow> co
   | Some msg \<Rightarrow>
       let me = MsgHandshakeAck_playerId msg;
           co1 = TransitionTo Connected (SetConnected True (on_client (\<lambda>c. c\<lparr>cl_localPlayerId := me\<rparr>) co));
           co2 = on_controller (InitializeLocalPlayer (game_api_of (co_game co1)) (co_registry co1) me (en_playerName env)) co1;
           co3 = on_sync (Sync_Initialize (en_clock env) me (en_playerName env)) co2;
           co4 = co3\<lparr>co_pipeline := Pipeline_Initialize (en_clock env) me (Pipeline_Shutdown (co_pipeline co3))\<rparr>;
           co5 = (if IsGameLoaded co4 then ResumeForNetwork co4 else co4);
           co6 = ui [UiOverlaySystem (lit ''Connected to server! Player '' @ dec_nat (unat me) @ lit '' ('' @
                   dec_nat (unat (MsgHandshakeAck_currentPlayers msg)) @ lit ''/'' @ dec_nat (unat (MsgHandshakeAck_maxPlayers msg)) @ lit '')'')] co5
       in SetServerTime (MsgHandshakeAck_timeOfDay msg) (f32_of_int 1) co6)"

definition HandleHandshakeReject :: "PacketReader \<Rightarrow> ClientCore \<Rightarrow> ClientCore" where
  "HandleHandshakeReject r co = (case fst (ReadStruct MsgHandshakeReject_size MsgHandshakeReject_dec r) of
     None \<Rightarrow> co
   | Some msg \<Rightarrow>
       let co1 = (if IsGameLoaded co then TransitionTo GameReady co else co)
       in ui [UiOverlaySystem (lit ''Connection rejected: '' @ cstr (butlast (MsgHandshakeReject_reasonText msg)))] co1)"

definition HandlePlayerJoined :: "core_env \<Rightarrow> PacketReader \<Rightarrow> ClientCore \<Rightarrow> ClientCore" where
  "HandlePlayerJoined env r co = (case fst (ReadStruct MsgPlayerJoined_size MsgPlayerJoined_dec r) of
     None \<Rightarrow> co
   | Some msg \<Rightarrow>
       let k = MsgPlayerJoined_playerId msg; name = cstr (butlast (MsgPlayerJoined_playerName msg)) in
       if k = co_localPlayerId co then co
       else
         on_players (OnRemotePlayerJoined (en_clock env) k name)
           (on_controller (RegisterRemotePlayer k name)
             (ui [UiOverlaySystem (name @ lit '' joined the game''), UiSystem (name @ lit '' joined the game''), UiAddPlayer k name] co)))"

definition HandleHostAssignment :: "PacketReader \<Rightarrow> ClientCore \<Rightarrow> ClientCore" where
  "HandleHostAssignment r co = (case fst (ReadStruct MsgHostAssignment_size MsgHostAssignment_dec r) of
     None \<Rightarrow> co
   | Some msg \<Rightarrow>
       let co1 = SetLocalHostPlayerId (MsgHostAssignment_newHostPlayerId msg) co
       in if co_isHost co1 then ui [UiSystem (lit ''You are now the host.'')] co1 else co1)"

text \<open>Each deferred spawn looks the mod characters up again.\<close>

definition core_HandleAllPlayersReady :: "core_env \<Rightarrow> ClientCore \<Rightarrow> ClientCore" where
  "core_HandleAllPlayersReady env co =
     (let co1 = ui [UiSystem (lit ''All players ready - spawning characters!'')] co; ds = cl_deferred (co_client co1) in
      if ds = [] then co1
      else on_client Deferred_Clear (fold (\<lambda>d. with_client env (\<lambda>ce. ProcessDeferredSpawn ce d)) ds co1))"

section \<open>Combat\<close>

definition body_part_ok :: "u8 \<Rightarrow> bool" where
  "body_part_ok p \<longleftrightarrow> unat p < 7"

definition set_limb :: "EntityID \<Rightarrow> nat \<Rightarrow> f32 \<Rightarrow> ClientCore \<Rightarrow> ClientCore" where
  "set_limb k i h co = (case GetInfo k (co_registry co) of
     None \<Rightarrow> co
   | Some info \<Rightarrow> on_client (on_registry (UpdateLimbHealth k ((ei_limbs info)[i := h]))) co)"

definition HandleCombatHit :: "PacketReader \<Rightarrow> ClientCore \<Rightarrow> ClientCore" where
  "HandleCombatHit r co = (case fst (ReadStruct MsgCombatHit_size MsgCombatHit_dec r) of
     None \<Rightarrow> co
   | Some msg \<Rightarrow>
       let target = GetGameObject (MsgCombatHit_targetId msg) (co_registry co) in
       if \<not> body_part_ok (MsgCombatHit_bodyPart msg) \<or> \<not> IsGameLoaded co \<or> target = 0 then co
       else set_limb (MsgCombatHit_targetId msg) (unat (MsgCombatHit_bodyPart msg)) (MsgCombatHit_resultHealth msg)
              (Queue_Push (CmdCombatHit target msg) co))"

definition client_HandleCombatDeath :: "core_env \<Rightarrow> PacketReader \<Rightarrow> ClientCore \<Rightarrow> ClientCore" where
  "client_HandleCombatDeath env r co = (case fst (ReadStruct MsgCombatDeath_size MsgCombatDeath_dec r) of
     None \<Rightarrow> co
   | Some msg \<Rightarrow>
       let k = MsgCombatDeath_entityId msg; obj = GetGameObject k (co_registry co) in
       if \<not> IsGameLoaded co \<or> obj = 0 then co
       else on_client (on_registry (UpdateLimbHealth k death_health))
              (if gf_CharacterDeath (en_functions env)
               then Queue_Push (CmdCombatDeath obj (object_of (MsgCombatDeath_killerId msg) co) msg) co else co))"

definition client_HandleCombatKO :: "core_env \<Rightarrow> PacketReader \<Rightarrow> ClientCore \<Rightarrow> ClientCore" where
  "client_HandleCombatKO env r co = (case fst (ReadStruct MsgCombatKO_size MsgCombatKO_dec r) of
     None \<Rightarrow> co
   | Some msg \<Rightarrow>
       if \<not> body_part_ok (MsgCombatKO_bodyPart msg) \<or> \<not> IsGameLoaded co then co
       else
         let k = MsgCombatKO_entityId msg; obj = GetGameObject k (co_registry co); h = MsgCombatKO_resultHealth msg;
             co1 = (if obj = 0 then co
               else on_game (attempt env (gf_CharacterKO (en_functions env))
                      (NativeKO obj (object_of (MsgCombatKO_attackerId msg) co) (MsgCombatKO_bodyPart msg)) (write_part obj 0 h)) co)
         in set_limb k (BodyPart_code Chest) h co1)"

text \<open>The offset of a stat by its number in the message.\<close>

definition stat_offsets :: "StatsOffsets \<Rightarrow> int list" where
  "stat_offsets s = [sto_meleeAttack s, sto_meleeDefence s, sto_dodge s, sto_martialArts s, sto_strength s, sto_toughness s,
     sto_dexterity s, sto_athletics s, sto_crossbows s, sto_turrets s, sto_precision s, sto_stealth s, sto_assassination s,
     sto_lockpicking s, sto_thievery s, sto_science s, sto_engineering s, sto_medic s, sto_farming s, sto_cooking s,
     sto_weaponsmith s, sto_armoursmith s, sto_labouring s]"

definition HandleStatUpdate :: "PacketReader \<Rightarrow> ClientCore \<Rightarrow> ClientCore" where
  "HandleStatUpdate r co = (case fst (ReadStruct MsgStatUpdate_size MsgStatUpdate_dec r) of
     None \<Rightarrow> co
   | Some msg \<Rightarrow>
       let obj = GetGameObject (MsgStatUpdate_entityId msg) (co_registry co); i = unat (MsgStatUpdate_statIndex msg);
           sp = Character_GetStatsPtr obj (co_game co); offs = stat_offsets (gof_stats (gp_offsets (co_game co))) in
       if \<not> IsGameLoaded co \<or> obj = 0 \<or> sp = 0 \<or> 23 \<le> i then co
       else if 0 \<le> offs ! i
       then on_game (on_memory (\<lambda>m. snd (Mem_Write (bytes_u32 (MsgStatUpdate_statValue msg)) (at_offset sp (offs ! i)) m))) co
       else co)"

text \<open>The length of the array is in the struct; the registry reads seven values.\<close>

definition HandleHealthUpdate :: "PacketReader \<Rightarrow> ClientCore \<Rightarrow> ClientCore" where
  "HandleHealthUpdate r co = (case fst (ReadStruct MsgHealthUpdate_size MsgHealthUpdate_dec r) of
     None \<Rightarrow> co
   | Some msg \<Rightarrow>
       let k = MsgHealthUpdate_entityId msg; hs = MsgHealthUpdate_health msg; obj = GetGameObject k (co_registry co) in
       if \<not> IsGameLoaded co \<or> obj = 0 then co
       else on_client (on_registry (UpdateLimbHealth k hs)) (on_game (write_health obj hs) co))"

definition client_HandleLimbHealth :: "PacketReader \<Rightarrow> ClientCore \<Rightarrow> ClientCore" where
  "client_HandleLimbHealth r co = (case fst (ReadStruct MsgLimbHealth_size MsgLimbHealth_dec r) of
     None \<Rightarrow> co
   | Some msg \<Rightarrow>
       if \<not> IsGameLoaded co then co
       else
         let k = MsgLimbHealth_entityId msg; hs = MsgLimbHealth_health msg;
             co1 = on_client (on_registry (UpdateLimbHealth k hs)) co; obj = GetGameObject k (co_registry co1)
         in if obj = 0 then co1 else on_game (write_health obj hs) co1)"

definition client_HandleStatusEffect :: "PacketReader \<Rightarrow> ClientCore \<Rightarrow> ClientCore" where
  "client_HandleStatusEffect r co = (case fst (ReadStruct MsgStatusEffect_size MsgStatusEffect_dec r) of
     None \<Rightarrow> co
   | Some msg \<Rightarrow> if \<not> IsGameLoaded co then co
       else on_client (on_registry (UpdateStatusEffect (MsgStatusEffect_entityId msg) (MsgStatusEffect_effectType msg)
              (MsgStatusEffect_active msg \<noteq> 0))) co)"


definition client_HandleEquipmentUpdate :: "PacketReader \<Rightarrow> ClientCore \<Rightarrow> ClientCore" where
  "client_HandleEquipmentUpdate r co = (case fst (ReadStruct MsgEquipmentUpdate_size MsgEquipmentUpdate_dec r) of
     None \<Rightarrow> co
   | Some msg \<Rightarrow>
       let obj = GetGameObject (MsgEquipmentUpdate_entityId msg) (co_registry co);
           iv = Character_GetInventoryPtr obj (co_game co); slot1 = unat (MsgEquipmentUpdate_slot msg) in
       if \<not> IsGameLoaded co \<or> obj = 0 \<or> iv = 0 \<or> 14 \<le> slot1 then co
       else on_game (\<lambda>g. snd (SetEquipment slot1 (MsgEquipmentUpdate_itemTemplateId msg) iv g)) co)"

section \<open>World\<close>

definition HandleTimeSync :: "PacketReader \<Rightarrow> ClientCore \<Rightarrow> ClientCore" where
  "HandleTimeSync r co = (case fst (ReadStruct MsgTimeSync_size MsgTimeSync_dec r) of
     None \<Rightarrow> co
   | Some msg \<Rightarrow> SetServerTime (MsgTimeSync_timeOfDay msg) (MsgTimeSync_gameSpeed msg) co)"

fun read_ids :: "nat \<Rightarrow> PacketReader \<Rightarrow> EntityID list" where
  "read_ids 0 r = []"
| "read_ids (Suc n) r = (case ReadU32 r of (None, r) \<Rightarrow> [] | (Some k, r) \<Rightarrow> k # read_ids n r)"

definition clean_ghost :: "EntityID \<Rightarrow> ClientCore \<Rightarrow> ClientCore" where
  "clean_ghost k co =
     (let co1 = (case GetInfo k (co_registry co) of
                   Some i \<Rightarrow> if ei_isRemote i then entity_DecrementSpawnCount (ei_ownerPlayerId i) co else co
                 | None \<Rightarrow> co)
      in on_client (on_registry (Unregister k) \<circ> on_interp (Interpolation_RemoveEntity k)) co1)"

definition HandleEntityHeartbeat :: "PacketReader \<Rightarrow> ClientCore \<Rightarrow> ClientCore" where
  "HandleEntityHeartbeat r co = (case ReadU32 r of
     (None, r) \<Rightarrow> co
   | (Some serverTick, r) \<Rightarrow> (case ReadU16 r of
       (None, r) \<Rightarrow> co
     | (Some n, r) \<Rightarrow>
         if \<not> IsGameLoaded co then co
         else
           let known = read_ids (unat n) r
           in fold clean_ghost (filter (\<lambda>k. k \<notin> set known) (GetRemoteEntities (co_registry co))) co))"

record received_entity =
  sn_entityId :: EntityID
  sn_type :: u8
  sn_ownerId :: PlayerID
  sn_templateId :: u32
  sn_pos :: Vec3
  sn_compQuat :: u32
  sn_factionId :: u32
  sn_templateName :: bytes

text \<open>The optional name: a length that is 0, above 255 or beyond the packet leaves it empty and its bytes unread.\<close>

definition read_snapshot_name :: "PacketReader \<Rightarrow> bytes \<times> PacketReader" where
  "read_snapshot_name r = (if Remaining r < 2 then ([], r)
     else (case ReadU16 r of
        (None, r) \<Rightarrow> ([], r)
      | (Some n, r) \<Rightarrow>
          if 0 < n \<and> n \<le> 255 \<and> unat n \<le> Remaining r
          then (case ReadRaw (unat n) r of (None, r) \<Rightarrow> ([], r) | (Some s, r) \<Rightarrow> (s, r))
          else ([], r)))"

definition read_snapshot_entity :: "PacketReader \<Rightarrow> (received_entity \<times> PacketReader) option" where
  "read_snapshot_entity r =
     (case ReadU32 r of (None, r) \<Rightarrow> None | (Some k, r) \<Rightarrow>
     (case ReadU8 r of (None, r) \<Rightarrow> None | (Some ty, r) \<Rightarrow>
     (case ReadU32 r of (None, r) \<Rightarrow> None | (Some owner, r) \<Rightarrow>
     (case ReadU32 r of (None, r) \<Rightarrow> None | (Some template, r) \<Rightarrow>
     (case ReadVec3 r of (None, r) \<Rightarrow> None | (Some (x, y, z), r) \<Rightarrow>
     (case ReadU32 r of (None, r) \<Rightarrow> None | (Some q, r) \<Rightarrow>
     (case ReadU32 r of (None, r) \<Rightarrow> None | (Some f, r) \<Rightarrow>
     (case read_snapshot_name r of (name, r) \<Rightarrow>
       Some (\<lparr>sn_entityId = k, sn_type = ty, sn_ownerId = owner, sn_templateId = template, sn_pos = Vec3_new x y z,
         sn_compQuat = q, sn_factionId = f, sn_templateName = name\<rparr>, r)))))))))"

definition apply_snapshot_entity :: "core_env \<Rightarrow> received_entity \<Rightarrow> ClientCore \<Rightarrow> ClientCore" where
  "apply_snapshot_entity env e co =
     (let k = sn_entityId e; owner = sn_ownerId e; pos = sn_pos e; rot = Decompress (sn_compQuat e) in
      if owner = co_localPlayerId co then on_client (confirm_own k owner pos) co
      else
        let co1 = on_client (\<lambda>c. if cl_hostSpawnPoint c = None \<and> \<not> f32_eq (vx pos) 0 \<and> \<not> f32_eq (vz pos) 0
                                 then c\<lparr>cl_hostSpawnPoint := Some pos\<rparr> else c) co;
            co2 = on_client (on_interp (AddSnapshot k (en_now env) pos rot 0 0) \<circ> on_registry (RegisterRemote k (sn_type e) owner pos)) co1
        in Spawn_QueueSpawn env \<lparr>rq_netId = k, rq_owner = owner, rq_type = sn_type e,
             rq_templateName = en_utf8ToAnsi env (sn_templateName e), rq_position = pos, rq_rotation = rot,
             rq_templateId = sn_templateId e, rq_factionId = sn_factionId e, rq_retryCount = 0, rq_hasExtendedState = False,
             rq_health = default_limbs, rq_alive = True\<rparr> co2)"

fun snapshot_loop :: "core_env \<Rightarrow> nat \<Rightarrow> PacketReader \<Rightarrow> ClientCore \<Rightarrow> ClientCore" where
  "snapshot_loop env 0 r co = co"
| "snapshot_loop env (Suc n) r co =
     (if Remaining r < 33 then co
      else (case read_snapshot_entity r of
         None \<Rightarrow> co
       | Some (e, r) \<Rightarrow> snapshot_loop env n r (apply_snapshot_entity env e co)))"

definition HandleWorldSnapshot :: "core_env \<Rightarrow> PacketReader \<Rightarrow> ClientCore \<Rightarrow> ClientCore" where
  "HandleWorldSnapshot env r co = (case ReadU32 r of
     (None, r) \<Rightarrow> co
   | (Some n, r) \<Rightarrow> on_players OnWorldSnapshotReceived (snapshot_loop env (unat n) r co))"

definition HandleBuildPlaced :: "PacketReader \<Rightarrow> ClientCore \<Rightarrow> ClientCore" where
  "HandleBuildPlaced r co = (case fst (ReadStruct MsgBuildPlaced_size MsgBuildPlaced_dec r) of
     None \<Rightarrow> co
   | Some msg \<Rightarrow> on_client (on_registry (RegisterRemote (MsgBuildPlaced_entityId msg) Building (MsgBuildPlaced_builderId msg)
       (Vec3_new (MsgBuildPlaced_posX msg) (MsgBuildPlaced_posY msg) (MsgBuildPlaced_posZ msg)))) co)"

definition HandleBuildDestroyed :: "PacketReader \<Rightarrow> ClientCore \<Rightarrow> ClientCore" where
  "HandleBuildDestroyed r co = (case ReadU32 r of
     (None, r) \<Rightarrow> co
   | (Some k, r) \<Rightarrow>
       let reason = (case fst (ReadU8 r) of None \<Rightarrow> 0 | Some x \<Rightarrow> x)
       in ui [UiSystem (lit ''Building '' @ (if reason = 2 then lit ''dismantled'' else lit ''destroyed''))]
            (on_client (on_registry (Unregister k)) co))"

definition HandleBuildProgressUpdate :: "PacketReader \<Rightarrow> ClientCore \<Rightarrow> ClientCore" where
  "HandleBuildProgressUpdate r co = (case fst (ReadStruct MsgBuildProgress_size MsgBuildProgress_dec r) of
     None \<Rightarrow> co
   | Some msg \<Rightarrow> (case GetInfo (MsgBuildProgress_entityId msg) (co_registry co) of
       None \<Rightarrow> co
     | Some i \<Rightarrow> if ei_isRemote i \<and> f32_le (f32_of_int 1) (MsgBuildProgress_progress msg)
         then ui [UiSystem (lit ''Remote building completed.'')] co else co))"

definition HandleDoorState :: "PacketReader \<Rightarrow> ClientCore \<Rightarrow> ClientCore" where
  "HandleDoorState r co = (case fst (ReadStruct MsgDoorState_size MsgDoorState_dec r) of
     None \<Rightarrow> co
   | Some msg \<Rightarrow>
       let obj = GetGameObject (MsgDoorState_entityId msg) (co_registry co); off = bdo_functionality (bld_off (co_game co));
           p = (if 0 \<le> off then peek_at off obj (co_game co) else 0) in
       if \<not> IsGameLoaded co \<or> obj = 0 \<or> \<not> 0x10000 < p then co
       else on_game (on_memory (\<lambda>m. snd (Mem_Write (bytes_u8 (MsgDoorState_state msg)) (p + 0x10) m))) co)"

section \<open>Messages, trade, squads and factions\<close>

definition client_HandleChatMessage :: "PacketReader \<Rightarrow> ClientCore \<Rightarrow> ClientCore" where
  "client_HandleChatMessage r co = (case ReadU32 r of
     (None, r) \<Rightarrow> co
   | (Some sender, r) \<Rightarrow> (case fst (ReadString 1024 r) of
       None \<Rightarrow> co
     | Some message \<Rightarrow>
         let name = (case GetRemotePlayer sender (co_controller co) of
                       Some x \<Rightarrow> rps_playerName x | None \<Rightarrow> lit ''Player_'' @ dec_nat (unat sender))
         in ui [UiOverlayChat sender message, UiChat name message] co))"

definition HandleSystemMessage :: "PacketReader \<Rightarrow> ClientCore \<Rightarrow> ClientCore" where
  "HandleSystemMessage r co = (case ReadU32 r of
     (None, r) \<Rightarrow> co
   | (Some unused, r) \<Rightarrow> (case fst (ReadString 1024 r) of
       None \<Rightarrow> co
     | Some message \<Rightarrow> ui [UiOverlaySystem message, UiSystem message] co))"

definition HandleInventoryUpdate :: "PacketReader \<Rightarrow> ClientCore \<Rightarrow> ClientCore" where
  "HandleInventoryUpdate r co = (case fst (ReadStruct MsgInventoryUpdate_size MsgInventoryUpdate_dec r) of
     None \<Rightarrow> co
   | Some msg \<Rightarrow>
       let obj = GetGameObject (MsgInventoryUpdate_entityId msg) (co_registry co);
           iv = Character_GetInventoryPtr obj (co_game co); item = MsgInventoryUpdate_itemTemplateId msg; n = MsgInventoryUpdate_quantity msg in
       if \<not> IsGameLoaded co \<or> obj = 0 \<or> iv = 0 then co
       else if MsgInventoryUpdate_action msg = 0 then on_game (\<lambda>g. snd (AddItem item n iv g)) co
       else if MsgInventoryUpdate_action msg = 1 then on_game (\<lambda>g. snd (RemoveItem item n iv g)) co
       else co)"

definition HandleTradeResult :: "PacketReader \<Rightarrow> ClientCore \<Rightarrow> ClientCore" where
  "HandleTradeResult r co = (case fst (ReadStruct MsgTradeResult_size MsgTradeResult_dec r) of
     None \<Rightarrow> co
   | Some msg \<Rightarrow> ui [UiSystem (if MsgTradeResult_success msg \<noteq> 0 then lit ''Trade completed successfully'' else lit ''Trade denied by server'')] co)"

definition HandleSquadCreated :: "PacketReader \<Rightarrow> ClientCore \<Rightarrow> ClientCore" where
  "HandleSquadCreated r co = (case ReadU32 r of
     (None, r) \<Rightarrow> co
   | (Some creator, r) \<Rightarrow> (case ReadU32 r of
       (None, r) \<Rightarrow> co
     | (Some squadNetId, r) \<Rightarrow> (case fst (ReadString 1024 r) of
         None \<Rightarrow> co
       | Some name \<Rightarrow> ui [UiSystem (lit ''Squad created: '' @ name)] (OnSquadNetIdAssigned squadNetId co))))"

text \<open>The first faction pointer seen for each of the two ids.\<close>

definition match_faction :: "u32 \<Rightarrow> u32 \<Rightarrow> u64 \<Rightarrow> GameProcess \<Rightarrow> u64 \<times> u64 \<Rightarrow> u64 \<times> u64" where
  "match_faction idA idB p g ab = (case ab of (a, b) \<Rightarrow>
     if p = 0 then (a, b)
     else let k = peek32 0 (at_offset p (fao_id (fac_off g))) (gp_memory g)
       in (if k = idA \<and> a = 0 then p else a, if k = idB \<and> b = 0 then p else b))"

definition find_factions :: "u32 \<Rightarrow> u32 \<Rightarrow> u64 \<Rightarrow> GameProcess \<Rightarrow> u64 \<times> u64" where
  "find_factions idA idB own g =
     fold (\<lambda>c. match_faction idA idB (if c = 0 then 0 else Character_GetFactionPtr c g) g) (all_characters g)
       (match_faction idA idB own g (0, 0))"

definition client_HandleFactionRelation :: "core_env \<Rightarrow> PacketReader \<Rightarrow> ClientCore \<Rightarrow> ClientCore" where
  "client_HandleFactionRelation env r co = (case fst (ReadStruct MsgFactionRelation_size MsgFactionRelation_dec r) of
     None \<Rightarrow> co
   | Some msg \<Rightarrow>
       if \<not> IsGameLoaded co \<or> \<not> gf_FactionRelation (en_functions env) \<or> fao_id (fac_off (co_game co)) < 0 then co
       else
         let (a, b) = find_factions (MsgFactionRelation_factionIdA msg) (MsgFactionRelation_factionIdB msg)
                        (pct_localFactionPtr (co_controller co)) (co_game co) in
         if a = 0 \<or> b = 0 then co
         else on_game (\<lambda>g. snd (call_native env (NativeFactionRelation a b (MsgFactionRelation_relation msg)) g)) co)"

definition HandleAdminResponse :: "PacketReader \<Rightarrow> ClientCore \<Rightarrow> ClientCore" where
  "HandleAdminResponse r co = (case fst (ReadStruct MsgAdminResponse_size MsgAdminResponse_dec r) of
     None \<Rightarrow> co
   | Some msg \<Rightarrow> ui [UiSystem ((if MsgAdminResponse_success msg \<noteq> 0 then lit ''[Admin] '' else lit ''[Admin Error] '') @
       cstr (butlast (MsgAdminResponse_responseText msg)))] co)"

section \<open>Lobby\<close>

definition HandleLobbyStart :: "ClientCore \<Rightarrow> ClientCore" where
  "HandleLobbyStart co = ui [UiSystem (lit ''All players ready! Click NEW GAME to start.''),
     UiSystem (lit ''You are Player '' @ dec_int (sint (lb_playerSlot (co_lobby co))))] co"

definition HandleFactionAssignment :: "PacketReader \<Rightarrow> ClientCore \<Rightarrow> ClientCore" where
  "HandleFactionAssignment r co = (case read_faction r of
     None \<Rightarrow> co
   | Some (s, k) \<Rightarrow>
       let co1 = ui [UiSystem (lit ''Faction assigned: '' @ s @ lit '' (slot '' @ dec_int (sint k) @ lit '')'')]
                   (co\<lparr>co_lobby := OnFactionAssigned s k (co_lobby co)\<rparr>) in
       if cl_phase (co_client co1) = MainMenu \<or> cl_phase (co_client co1) = GameReady then
         (case ApplyFactionPatch (co_lobby co1) (co_game co1) of
            (res, g) \<Rightarrow> (if res = Patched then ui [UiSystem (lit ''Faction string patched in memory'')] else id) (co1\<lparr>co_game := g\<rparr>))
       else co1)"

section \<open>Dispatch\<close>

text \<open>The messages that do not need the game world.\<close>

definition safe_handlers :: "core_env \<Rightarrow> (MessageType \<times> (PacketReader \<Rightarrow> ClientCore \<Rightarrow> ClientCore)) list" where
  "safe_handlers env =
    [(S2C_HandshakeAck, HandleHandshakeAck env),
     (S2C_HandshakeReject, HandleHandshakeReject),
     (S2C_PlayerJoined, HandlePlayerJoined env),
     (S2C_PlayerLeft, \<lambda>r co. if IsGameLoaded co then with_client env (\<lambda>ce. HandlePlayerLeft ce r) co else co),
     (S2C_ChatMessage, client_HandleChatMessage),
     (S2C_SystemMessage, HandleSystemMessage),
     (S2C_AdminResponse, HandleAdminResponse),
     (S2C_HostAssignment, HandleHostAssignment),
     (S2C_TradeResult, HandleTradeResult),
     (S2C_KeepaliveAck, \<lambda>r co. co),
     (S2C_AllPlayersReady, \<lambda>r. core_HandleAllPlayersReady env),
     (S2C_FactionAssignment, HandleFactionAssignment),
     (S2C_LobbyStart, \<lambda>r. HandleLobbyStart),
     (S2C_PipelineSnapshot, \<lambda>r co. co\<lparr>co_pipeline := HandlePipelinePacket (en_clock env) S2C_PipelineSnapshot r (co_pipeline co)\<rparr>),
     (S2C_PipelineEvent, \<lambda>r co. co\<lparr>co_pipeline := HandlePipelinePacket (en_clock env) S2C_PipelineEvent r (co_pipeline co)\<rparr>)]"

definition core_HandleEntitySpawn :: "core_env \<Rightarrow> PacketReader \<Rightarrow> ClientCore \<Rightarrow> ClientCore" where
  "core_HandleEntitySpawn env r = with_client env (\<lambda>ce. Client_HandleEntitySpawn ce r)"

text \<open>Those accepted before the game is loaded.\<close>

definition early_handlers :: "core_env \<Rightarrow> (MessageType \<times> (PacketReader \<Rightarrow> ClientCore \<Rightarrow> ClientCore)) list" where
  "early_handlers env =
    [(S2C_EntitySpawn, core_HandleEntitySpawn env), (S2C_WorldSnapshot, HandleWorldSnapshot env), (S2C_TimeSync, HandleTimeSync)]"

definition world_handlers :: "core_env \<Rightarrow> (MessageType \<times> (PacketReader \<Rightarrow> ClientCore \<Rightarrow> ClientCore)) list" where
  "world_handlers env =
    [(S2C_EntitySpawn, core_HandleEntitySpawn env),
     (S2C_EntityDespawn, \<lambda>r. with_client env (\<lambda>ce. Client_HandleEntityDespawn r)),
     (S2C_PositionUpdate, \<lambda>r. with_client env (\<lambda>ce. Client_HandlePositionUpdate ce r)),
     (S2C_MoveCommand, \<lambda>r. with_client env (\<lambda>ce. Client_HandleMoveCommand ce r)),
     (S2C_CombatHit, HandleCombatHit),
     (S2C_CombatDeath, client_HandleCombatDeath env),
     (S2C_CombatKO, client_HandleCombatKO env),
     (S2C_TimeSync, HandleTimeSync),
     (S2C_WorldSnapshot, HandleWorldSnapshot env),
     (S2C_EntityHeartbeat, HandleEntityHeartbeat),
     (S2C_BuildPlaced, HandleBuildPlaced),
     (S2C_StatUpdate, HandleStatUpdate),
     (S2C_HealthUpdate, HandleHealthUpdate),
     (S2C_EquipmentUpdate, client_HandleEquipmentUpdate),
     (S2C_LimbHealth, client_HandleLimbHealth),
     (S2C_StatusEffect, client_HandleStatusEffect),
     (S2C_InventoryUpdate, HandleInventoryUpdate),
     (S2C_SquadCreated, HandleSquadCreated),
     (S2C_SquadMemberUpdate, \<lambda>r co. co),
     (S2C_FactionRelation, client_HandleFactionRelation env),
     (S2C_BuildDestroyed, HandleBuildDestroyed),
     (S2C_BuildProgress, HandleBuildProgressUpdate),
     (S2C_DoorState, HandleDoorState),
     (S2C_CombatBlock, \<lambda>r co. co)]"

definition client_HandlePacket :: "core_env \<Rightarrow> bytes \<Rightarrow> ClientCore \<Rightarrow> ClientCore" where
  "client_HandlePacket env data co = (case ReadHeader (PacketReader_new data) of
     (None, r) \<Rightarrow> co
   | (Some h, r) \<Rightarrow> (case map_of (safe_handlers env) (ph_type h) of
       Some f \<Rightarrow> f r co
     | None \<Rightarrow> (case map_of (if IsGameLoaded co then world_handlers env else early_handlers env) (ph_type h) of
         None \<Rightarrow> co
       | Some f \<Rightarrow> f r co)))"

end
