(* ===== verification/Core_Properties.thy ===== *)
theory Core_Properties
  imports Client_Handlers Client_Properties Game_Properties
begin

text \<open>
  What the client's core promises: the replication state stays consistent under every packet and every transition, the
  game is not touched before it is loaded, what a disconnect forgets and what it keeps, and the heartbeat of the server.
\<close>

section \<open>Which parts an operation changes\<close>

named_theorems core_simps

lemma core_sel [core_simps]:
  "co_client (ui xs co) = co_client co" "co_client (hook ys co) = co_client co" "co_client (on_client f co) = f (co_client co)"
  "co_client (on_game h co) = co_client co" "co_client (on_sync s co) = co_client co" "co_client (on_players p co) = co_client co"
  "co_client (on_controller c co) = co_client co"
  "co_game (ui xs co) = co_game co" "co_game (hook ys co) = co_game co" "co_game (on_client f co) = co_game co"
  "co_game (on_game h co) = h (co_game co)" "co_game (on_sync s co) = co_game co" "co_game (on_players p co) = co_game co"
  "co_game (on_controller c co) = co_game co"
  by (simp_all add: ui_def hook_def on_client_def on_game_def on_sync_def on_players_def on_controller_def)

lemma step_client [core_simps]:
  "co_client (Spawn_QueueSpawn env q co) = co_client co" "co_client (Queue_Push c co) = co_client co"
  "co_client (OnSquadNetIdAssigned n co) = co_client co" "co_client (SetServerTime t v co) = co_client co"
  "co_client (entity_DecrementSpawnCount p co) = co_client co" "co_client (ResumeForNetwork co) = co_client co"
  "co_client (SEH_AllyModFaction env x co) = co_client co" "co_client (core_OnRemoteCharacterSpawned k x p co) = co_client co"
  "co_client (core_WriteGameDataName x p co) = co_client co" "co_client (SetLocalHostPlayerId p co) = co_client co"
  "co_client (clear_frames co) = co_client co" "co_client (ClearSpawnQueue co) = co_client co"
  by (simp_all add: Spawn_QueueSpawn_def Queue_Push_def OnSquadNetIdAssigned_def SetServerTime_def entity_DecrementSpawnCount_def
      ResumeForNetwork_def SEH_AllyModFaction_def core_OnRemoteCharacterSpawned_def core_WriteGameDataName_def SetLocalHostPlayerId_def
      clear_frames_def ClearSpawnQueue_def Let_def core_simps split: list.splits prod.splits option.splits)

lemma run_effect_client [core_simps]: "co_client (run_effect env e co) = co_client co"
  by (cases e) (simp_all add: core_simps ai_MarkRemoteControlled_def ai_UnmarkRemoteControlled_def Spawn_ClearSpawnsForOwner_def Let_def)

lemma fold_effects_client [core_simps]: "co_client (fold (run_effect env) es co) = co_client co"
  by (induction es arbitrary: co) (simp_all add: core_simps)

lemma run_command_client [core_simps]: "co_client (run_command env c co) = co_client co"
  by (cases c) (simp_all add: core_simps Let_def)

lemma with_client_client:
  "co_client (with_client env f co) = (f (client_env_of env co) ((co_client co)\<lparr>cl_effects := []\<rparr>))\<lparr>cl_effects := []\<rparr>"
  by (simp add: with_client_def Let_def core_simps)

section \<open>The invariant\<close>

lemma inv_effects [simp]: "client_inv (c\<lparr>cl_effects := es\<rparr>) = client_inv c"
  by (simp add: client_inv_def)

lemma inv_flags [simp]: "client_inv (c\<lparr>cl_phase := p\<rparr>) = client_inv c" "client_inv (c\<lparr>cl_gameLoaded := b\<rparr>) = client_inv c"
  "client_inv (c\<lparr>cl_localPlayerId := k\<rparr>) = client_inv c" "client_inv (c\<lparr>cl_hostSpawnPoint := v\<rparr>) = client_inv c"
  by (simp_all add: client_inv_def)

lemma with_client_inv:
  assumes "client_inv (co_client co)"
    and "\<And>ce c. ce_now ce = en_now env \<Longrightarrow> client_inv c \<Longrightarrow> client_inv (f ce c)"
  shows "client_inv (co_client (with_client env f co))"
  using assms by (simp add: with_client_client client_env_of_def)

definition clock_fine :: "core_env \<Rightarrow> bool" where
  "clock_fine env \<longleftrightarrow> f32_isfinite (en_now env) \<and> f32_isfinite (f32_add (en_now env) (f32_of_int 1))"

lemma clock_fine_ok: "clock_fine env \<Longrightarrow> ce_now ce = en_now env \<Longrightarrow> clock_ok ce"
  by (simp add: clock_fine_def clock_ok_def)

lemma reg_ok_more:
  assumes "reg_ok s"
  shows "reg_ok (UpdateStatusEffect k ty a s)" "reg_ok (snd (ClearRemoteEntities s))" "reg_ok (Registry_Clear s)"
proof -
  have i: "reg_inv s" and z: "um_find (reg_entities s) INVALID_ENTITY = None" using assms by (simp_all add: reg_ok_def)
  show "reg_ok (UpdateStatusEffect k ty a s)"
    using z reg_step [OF i, of "OpUpdateStatusEffect k ty a"] by (simp add: reg_ok_def UpdateStatusEffect_def modify_info_def um_find_modify)
  have "reg_ok t \<Longrightarrow> reg_ok (fold Unregister ks t)" for ks t
    by (induction ks arbitrary: t) (simp_all add: reg_ok_ops)
  then show "reg_ok (snd (ClearRemoteEntities s))" using assms by (simp add: ClearRemoteEntities_def)
  show "reg_ok (Registry_Clear s)" using reg_step [OF i, of OpClear] by (simp add: reg_ok_def Registry_Clear_def)
qed

lemma limbs_length: "reg_ok s \<Longrightarrow> GetInfo k s = Some i \<Longrightarrow> length (ei_limbs i) = 7"
  using reg_invD(1) [of s k i] by (simp add: reg_ok_def GetInfo_def info_ok_def)

lemma set_limb_inv: "client_inv (co_client co) \<Longrightarrow> client_inv (co_client (set_limb k i h co))"
  using limbs_length [OF inv_reg_ok, of "co_client co" k]
  by (auto simp: set_limb_def core_simps limbs_inv split: option.splits)

lemma clean_ghost_inv: "client_inv (co_client co) \<Longrightarrow> client_inv (co_client (clean_ghost k co))"
proof -
  assume i: "client_inv (co_client co)"
  have "client_inv ((on_registry (Unregister k) \<circ> on_interp (Interpolation_RemoveEntity k)) c)" if "client_inv c" for c
    using that by (auto simp: client_simps intro!: inv_registry inv_interp reg_ok_ops(4) RemoveEntity_inv inv_reg_ok inv_ip)
  with i show ?thesis by (auto simp: clean_ghost_def Let_def core_simps split: option.splits)
qed

lemma core_fold_inv: "(\<And>x co. client_inv (co_client co) \<Longrightarrow> client_inv (co_client (f x co))) \<Longrightarrow> client_inv (co_client co) \<Longrightarrow>
    client_inv (co_client (fold f xs co))"
  by (induction xs arbitrary: co) simp_all

lemma snapshot_entity_inv:
  assumes "client_inv (co_client co)" "clock_fine env" "proper_id (sn_entityId e)"
  shows "client_inv (co_client (apply_snapshot_entity env e co))"
proof -
  have "client_inv ((on_interp (AddSnapshot (sn_entityId e) (en_now env) pos rot 0 0) \<circ> on_registry (RegisterRemote (sn_entityId e) ty owner pos)) c)"
    if "client_inv c" for c pos rot ty owner
    using that assms(2,3)
    by (auto simp: client_simps clock_fine_def intro!: inv_registry inv_interp reg_ok_ops(1) AddSnapshot_inv inv_reg_ok inv_ip)
  then show ?thesis using assms(1,3) by (simp add: apply_snapshot_entity_def Let_def core_simps confirm_own_inv)
qed

fun snapshot_ids_ok :: "nat \<Rightarrow> PacketReader \<Rightarrow> bool" where
  "snapshot_ids_ok 0 r = True"
| "snapshot_ids_ok (Suc n) r = (if Remaining r < 33 then True
     else (case read_snapshot_entity r of None \<Rightarrow> True | Some (e, r) \<Rightarrow> proper_id (sn_entityId e) \<and> snapshot_ids_ok n r))"

lemma snapshot_loop_inv:
  "client_inv (co_client co) \<Longrightarrow> clock_fine env \<Longrightarrow> snapshot_ids_ok n r \<Longrightarrow> client_inv (co_client (snapshot_loop env n r co))"
  by (induction n arbitrary: r co) (auto simp: snapshot_entity_inv split: option.splits if_splits)

text \<open>The ids a packet introduces are proper: neither 0 nor the largest.\<close>

definition ids_ok :: "MessageType \<Rightarrow> PacketReader \<Rightarrow> bool" where
  "ids_ok type r \<longleftrightarrow>
     (type = S2C_EntitySpawn \<longrightarrow> (case read_spawn_req r of None \<Rightarrow> True | Some q \<Rightarrow> proper_id (sr_clientEntityId q))) \<and>
     (type = S2C_WorldSnapshot \<longrightarrow> (case ReadU32 r of (None, r) \<Rightarrow> True | (Some n, r) \<Rightarrow> snapshot_ids_ok (unat n) r)) \<and>
     (type = S2C_BuildPlaced \<longrightarrow> (case fst (ReadStruct MsgBuildPlaced_size MsgBuildPlaced_dec r) of None \<Rightarrow> True
        | Some msg \<Rightarrow> proper_id (MsgBuildPlaced_entityId msg)))"

definition packet_ok :: "bytes \<Rightarrow> bool" where
  "packet_ok data \<longleftrightarrow> (case ReadHeader (PacketReader_new data) of (None, r) \<Rightarrow> True | (Some h, r) \<Rightarrow> ids_ok (ph_type h) r)"

lemma TransitionTo_client: "co_client (TransitionTo p co) = (co_client co)\<lparr>cl_phase := p\<rparr>"
  by (simp add: TransitionTo_def Let_def core_simps)

lemma ready_core_inv:
  assumes "client_inv (co_client co)" "clock_fine env"
  shows "client_inv (co_client (core_HandleAllPlayersReady env co))"
proof -
  have "client_inv (co_client (fold (\<lambda>d. with_client env (\<lambda>ce. ProcessDeferredSpawn ce d)) ds co'))"
    if "client_inv (co_client co')" "\<forall>d \<in> set ds. deferred_ok d" for ds co'
    using that
  proof (induction ds arbitrary: co')
    case (Cons d ds)
    have "client_inv (co_client (with_client env (\<lambda>ce. ProcessDeferredSpawn ce d) co'))"
      using Cons.prems by (intro with_client_inv) (auto intro: deferred_spawn_inv clock_fine_ok [OF assms(2)])
    then show ?case using Cons by simp
  qed simp
  moreover have "\<forall>d \<in> set (cl_deferred (co_client co)). deferred_ok d" using assms(1) by (simp add: client_inv_def)
  moreover have "client_inv (Deferred_Clear c)" if "client_inv c" for c using that by (simp add: client_inv_def Deferred_Clear_def)
  ultimately show ?thesis using assms(1) by (simp add: core_HandleAllPlayersReady_def Let_def core_simps)
qed


text \<open>Handlers that leave the replication state alone, apart from phase, own id and flags.\<close>

lemma plain_handlers_inv:
  assumes "client_inv (co_client co)"
  shows "client_inv (co_client (HandleHandshakeAck env r co))" "client_inv (co_client (HandleHandshakeReject r co))"
    "client_inv (co_client (HandlePlayerJoined env r co))" "client_inv (co_client (client_HandleChatMessage r co))"
    "client_inv (co_client (HandleSystemMessage r co))" "client_inv (co_client (HandleAdminResponse r co))"
    "client_inv (co_client (HandleHostAssignment r co))" "client_inv (co_client (HandleTradeResult r co))"
    "client_inv (co_client (HandleFactionAssignment r co))" "client_inv (co_client (HandleLobbyStart co))"
    "client_inv (co_client (HandleTimeSync r co))" "client_inv (co_client (HandleStatUpdate r co))"
    "client_inv (co_client (client_HandleEquipmentUpdate r co))" "client_inv (co_client (HandleInventoryUpdate r co))"
    "client_inv (co_client (HandleSquadCreated r co))" "client_inv (co_client (client_HandleFactionRelation env r co))"
    "client_inv (co_client (HandleBuildProgressUpdate r co))" "client_inv (co_client (HandleDoorState r co))"
  using assms
  by (auto simp: HandleHandshakeAck_def HandleHandshakeReject_def HandlePlayerJoined_def client_HandleChatMessage_def HandleSystemMessage_def
      HandleAdminResponse_def HandleHostAssignment_def HandleTradeResult_def HandleFactionAssignment_def HandleLobbyStart_def
      HandleTimeSync_def HandleStatUpdate_def client_HandleEquipmentUpdate_def HandleInventoryUpdate_def HandleSquadCreated_def
      client_HandleFactionRelation_def HandleBuildProgressUpdate_def HandleDoorState_def SetConnected_def Let_def
      core_simps TransitionTo_client split: option.splits prod.splits)

lemma f32s_dec_length [simp]: "length (f32s_dec n bs) = n"
  by (simp add: f32s_dec_def)

lemma health_handlers_inv:
  assumes "client_inv (co_client co)"
  shows "client_inv (co_client (HandleCombatHit r co))" "client_inv (co_client (client_HandleCombatDeath env r co))"
    "client_inv (co_client (client_HandleCombatKO env r co))" "client_inv (co_client (HandleHealthUpdate r co))"
    "client_inv (co_client (client_HandleLimbHealth r co))" "client_inv (co_client (client_HandleStatusEffect r co))"
proof -
  have limbs: "client_inv (on_registry (UpdateLimbHealth k hs) c)" if "client_inv c" "length hs = 7" for c k hs
    using that by (rule limbs_inv)
  have status: "client_inv (on_registry (UpdateStatusEffect k ty a) c)" if "client_inv c" for c k ty a
    using that by (intro inv_registry reg_ok_more inv_reg_ok)
  have len: "ReadStruct MsgHealthUpdate_size MsgHealthUpdate_dec r = (Some m, r') \<Longrightarrow> length (MsgHealthUpdate_health m) = 7"
    "ReadStruct MsgLimbHealth_size MsgLimbHealth_dec r = (Some n, r') \<Longrightarrow> length (MsgLimbHealth_health n) = 7" for m n r'
    by (auto simp: ReadStruct_def apfst_def map_prod_def MsgHealthUpdate_dec_def MsgLimbHealth_dec_def split: prod.splits)
  show "client_inv (co_client (HandleCombatHit r co))" "client_inv (co_client (client_HandleCombatDeath env r co))"
    "client_inv (co_client (client_HandleCombatKO env r co))" "client_inv (co_client (client_HandleStatusEffect r co))"
    using assms
    by (auto simp: HandleCombatHit_def client_HandleCombatDeath_def client_HandleCombatKO_def client_HandleStatusEffect_def Let_def core_simps
        death_health_def limbs status split: option.splits intro!: set_limb_inv)
  show "client_inv (co_client (HandleHealthUpdate r co))"
    using assms by (cases "ReadStruct MsgHealthUpdate_size MsgHealthUpdate_dec r")
      (auto simp: HandleHealthUpdate_def Let_def core_simps limbs len split: option.splits)
  show "client_inv (co_client (client_HandleLimbHealth r co))"
    using assms by (cases "ReadStruct MsgLimbHealth_size MsgLimbHealth_dec r")
      (auto simp: client_HandleLimbHealth_def Let_def core_simps limbs len split: option.splits)
qed

lemma world_handlers_inv:
  assumes "client_inv (co_client co)" "clock_fine env"
  shows "ids_ok S2C_EntitySpawn r \<Longrightarrow> client_inv (co_client (core_HandleEntitySpawn env r co))"
    "ids_ok S2C_WorldSnapshot r \<Longrightarrow> client_inv (co_client (HandleWorldSnapshot env r co))"
    "ids_ok S2C_BuildPlaced r \<Longrightarrow> client_inv (co_client (HandleBuildPlaced r co))"
    "client_inv (co_client (HandleEntityHeartbeat r co))" "client_inv (co_client (HandleBuildDestroyed r co))"
    "client_inv (co_client (with_client env (\<lambda>ce. HandlePlayerLeft ce r) co))"
    "client_inv (co_client (with_client env (\<lambda>ce. Client_HandleEntityDespawn r) co))"
    "client_inv (co_client (with_client env (\<lambda>ce. Client_HandlePositionUpdate ce r) co))"
    "client_inv (co_client (with_client env (\<lambda>ce. Client_HandleMoveCommand ce r) co))"
proof -
  show "client_inv (co_client (core_HandleEntitySpawn env r co))" if "ids_ok S2C_EntitySpawn r"
    unfolding core_HandleEntitySpawn_def using assms that
    by (intro with_client_inv spawn_inv) (auto simp: ids_ok_def intro: clock_fine_ok)
  show "client_inv (co_client (HandleWorldSnapshot env r co))" if "ids_ok S2C_WorldSnapshot r"
    using assms that by (auto simp: HandleWorldSnapshot_def core_simps ids_ok_def snapshot_loop_inv split: prod.splits option.splits)
  show "client_inv (co_client (HandleBuildPlaced r co))" if "ids_ok S2C_BuildPlaced r"
    using assms that by (auto simp: HandleBuildPlaced_def core_simps ids_ok_def intro!: inv_registry reg_ok_ops(1) inv_reg_ok split: option.splits)
  show "client_inv (co_client (HandleEntityHeartbeat r co))"
    using assms by (auto simp: HandleEntityHeartbeat_def Let_def intro!: core_fold_inv clean_ghost_inv split: prod.splits option.splits)
  show "client_inv (co_client (HandleBuildDestroyed r co))"
    using assms by (auto simp: HandleBuildDestroyed_def Let_def core_simps intro!: inv_registry reg_ok_ops(4) inv_reg_ok split: prod.splits option.splits)
qed (use assms in \<open>auto intro!: with_client_inv left_inv despawn_inv positions_inv move_inv intro: clock_fine_ok\<close>)

lemmas handler_invs = plain_handlers_inv health_handlers_inv world_handlers_inv ready_core_inv

lemma safe_table_inv:
  assumes "client_inv (co_client co)" "clock_fine env" "(type, f) \<in> set (safe_handlers env)"
  shows "client_inv (co_client (f r co))"
  using assms by (auto simp: safe_handlers_def handler_invs)

lemma world_table_inv:
  assumes "client_inv (co_client co)" "clock_fine env" "(type, f) \<in> set (world_handlers env) \<union> set (early_handlers env)" "ids_ok type r"
  shows "client_inv (co_client (f r co))"
  using assms by (auto simp: world_handlers_def early_handlers_def handler_invs)

lemma core_packet_inv:
  assumes "client_inv (co_client co)" "clock_fine env" "packet_ok data"
  shows "client_inv (co_client (client_HandlePacket env data co))"
proof (cases "ReadHeader (PacketReader_new data)")
  case (Pair h r)
  then show ?thesis using assms
    by (auto simp: client_HandlePacket_def packet_ok_def split: option.splits dest!: map_of_SomeD intro: safe_table_inv world_table_inv)
qed


section \<open>Runs of the core\<close>

datatype core_op = CoPacket bytes | CoConnected bool | CoLoadingGap | CoDrain

fun core_apply :: "core_env \<times> core_op \<Rightarrow> ClientCore \<Rightarrow> ClientCore" where
  "core_apply (env, CoPacket data) co = client_HandlePacket env data co"
| "core_apply (env, CoConnected b) co = SetConnected b co"
| "core_apply (env, CoLoadingGap) co = OnLoadingGapDetected co"
| "core_apply (env, CoDrain) co = DrainAll env co"

fun core_pre :: "core_env \<times> core_op \<Rightarrow> ClientCore \<Rightarrow> bool" where
  "core_pre (env, CoPacket data) co \<longleftrightarrow> clock_fine env \<and> packet_ok data"
| "core_pre (env, x) co \<longleftrightarrow> True"

lemma clear_inv: "client_inv c \<Longrightarrow> client_inv ((on_interp Interpolation_Clear \<circ> on_registry Registry_Clear) c)"
  "client_inv c \<Longrightarrow> client_inv ((on_interp Interpolation_Clear \<circ> on_registry (\<lambda>g. snd (ClearRemoteEntities g))) c)"
  using ip_step [of "cl_interp c" OpIpClear id id]
  by (auto simp: client_simps inv_ip intro!: inv_interp inv_registry reg_ok_more inv_reg_ok)

lemma forget_client: "co_client (forget_session co) =
    ((on_interp Interpolation_Clear \<circ> on_registry (\<lambda>g. snd (ClearRemoteEntities g))) (co_client co))\<lparr>cl_hostSpawnPoint := None\<rparr>"
  by (simp add: forget_session_def Let_def core_simps)

lemma fold_commands_client: "co_client (fold (run_command env) cs co) = co_client co"
  by (induction cs arbitrary: co) (simp_all add: core_simps)

lemma gap_inv: "client_inv (co_client co) \<Longrightarrow> client_inv (co_client (OnLoadingGapDetected co))"
  using clear_inv(1) [of "(co_client co)\<lparr>cl_gameLoaded := False\<rparr>"]
  by (simp add: OnLoadingGapDetected_def Let_def TransitionTo_client core_simps)

lemma connected_inv: "client_inv (co_client co) \<Longrightarrow> client_inv (co_client (SetConnected b co))"
  using clear_inv(2) [of "(co_client co)\<lparr>cl_phase := GameReady\<rparr>"] clear_inv(2) [of "co_client co"]
  by (simp add: SetConnected_def Let_def core_simps forget_client TransitionTo_client)

lemma core_step:
  assumes "client_inv (co_client co)" "core_pre x co"
  shows "client_inv (co_client (core_apply x co))"
proof -
  obtain env y where "x = (env, y)" by (cases x)
  with assms show ?thesis
    by (cases y) (simp_all add: core_packet_inv connected_inv gap_inv DrainAll_def fold_commands_client)
qed

interpretation core: run_invariant core_apply core_pre "\<lambda>co. client_inv (co_client co)"
  by unfold_locales (rule core_step)

definition ClientCore_new :: "GameProcess \<Rightarrow> ClientCore" where
  "ClientCore_new g = \<lparr>co_client = Client_new 0, co_game = g, co_lobby = LobbyManager_new, co_sharedSave = SharedSave_new,
     co_pipeline = PipelineOrchestrator_new, co_controller = PlayerController_new, co_sync = Some SyncOrchestrator_new,
     co_spawnQueue = [], co_spawnsPerPlayer = [], co_remoteControlled = [], co_commands = [], co_connected = False, co_isHost = False,
     co_hostPlayerId = 0, co_timeManager = 0, co_serverTime = None, co_pendingSquads = [], co_squadIds = [], co_earlyFaction = 0,
     co_initialEntityScanDone = False, co_spawnTeleportDone = False, co_hostTpTimerStarted = False, co_pipelineStarted = False,
     co_needSpawnQueueReset = False, co_needPollReset = False, co_frameData = [FrameData_Clear, FrameData_Clear], co_sent = [],
     co_ui = [], co_hooks = []\<rparr>"

text \<open>
  Invariant.  Whatever packets arrive and however the connection and the phases change, in any order, the client's
  replication state stays consistent: the registry's two tables are inverse to each other and every entry has its own id
  and zone and seven limbs, the poses are finite and the render delays bounded, and the queues hold what may be applied
  later.  The packets must not introduce the ids 0 or 0xFFFFFFFF.
\<close>

theorem core_stays_consistent:
  assumes "run_ok core_pre core_apply xs (ClientCore_new g)"
  shows "client_inv (co_client (fold core_apply xs (ClientCore_new g)))"
  using core.run [OF _ assms] Client_new_inv by (simp add: ClientCore_new_def)

definition example_core_env :: core_env where
  "example_core_env = \<lparr>en_now = f32_of_int 1, en_clock = 0, en_utf8ToAnsi = id, en_acosf = id, en_sinf = id,
     en_functions = \<lparr>gf_ApplyDamage = False, gf_CharacterDeath = False, gf_CharacterKO = False, gf_FactionRelation = False,
       gf_call = (\<lambda>c m. (True, m))\<rparr>, en_playerName = lit ''A''\<rparr>"

lemma example_core_clock: "clock_fine example_core_env"
  using example_clock by (simp add: clock_fine_def clock_ok_def example_core_env_def example_client_env_def)

definition example_run :: "(core_env \<times> core_op) list" where
  "example_run = [(example_core_env, CoConnected True), (example_core_env, CoPacket (heartbeat_packet 0 [5])), (example_core_env, CoLoadingGap)]"

theorem core_stays_consistent_witness:
  "run_ok core_pre core_apply example_run (ClientCore_new example_process) \<and>
   client_inv (co_client (fold core_apply example_run (ClientCore_new example_process)))"
proof -
  have "packet_ok (heartbeat_packet 0 [5])" by code_simp
  then have ok: "run_ok core_pre core_apply example_run (ClientCore_new example_process)"
    using example_core_clock by (simp add: example_run_def)
  then show ?thesis using core_stays_consistent [OF ok] by simp
qed

section \<open>Before the game is loaded\<close>

text \<open>The memory of the game, and the calls of its own functions.\<close>

definition touched :: "ClientCore \<Rightarrow> GameMemory \<times> (u64 \<times> Vec3) list" where
  "touched co = (gp_memory (co_game co), gp_positionCalls (co_game co))"

lemma touched_parts [simp]:
  "touched (ui xs co) = touched co" "touched (hook ys co) = touched co" "touched (on_client f co) = touched co"
  "touched (on_sync s co) = touched co" "touched (on_players p co) = touched co" "touched (on_controller c co) = touched co"
  "touched (TransitionTo ph co) = touched co" "touched (Spawn_QueueSpawn env q co) = touched co"
  "touched (SetLocalHostPlayerId k co) = touched co"
  by (simp_all add: touched_def ui_def hook_def on_client_def on_sync_def on_players_def on_controller_def TransitionTo_def on_game_def
      Spawn_QueueSpawn_def SetLocalHostPlayerId_def Let_def)

lemma touched_update [simp]:
  "touched (co\<lparr>co_connected := b\<rparr>) = touched co" "touched (co\<lparr>co_pipeline := p\<rparr>) = touched co"
  "touched (co\<lparr>co_client := c\<rparr>) = touched co" "touched (co\<lparr>co_serverTime := t\<rparr>) = touched co"
  by (simp_all add: touched_def)

lemma unloaded_spawn_effects:
  "\<not> cl_gameLoaded c \<Longrightarrow> cl_effects (Client_HandleEntitySpawn ce r c) = cl_effects c"
  by (auto simp: Client_HandleEntitySpawn_def confirm_own_def defer_spawn_def on_registry_def Let_def split: option.splits)

lemma touched_spawn: "\<not> IsGameLoaded co \<Longrightarrow> touched (core_HandleEntitySpawn env r co) = touched co"
  by (simp add: core_HandleEntitySpawn_def with_client_def Let_def unloaded_spawn_effects)

lemma touched_snapshot: "touched (HandleWorldSnapshot env r co) = touched co"
proof -
  have "touched (apply_snapshot_entity env e co) = touched co" for e co by (simp add: apply_snapshot_entity_def Let_def)
  then have "touched (snapshot_loop env n r co) = touched co" for n r co
    by (induction n arbitrary: r co) (auto split: option.splits)
  then show ?thesis by (simp add: HandleWorldSnapshot_def split: prod.splits option.splits)
qed

lemma touched_time: "co_timeManager co = 0 \<Longrightarrow> touched (SetServerTime t v co) = touched co"
  by (simp add: SetServerTime_def)

lemma time_parts [simp]:
  "co_timeManager (ui xs co) = co_timeManager co" "co_timeManager (hook ys co) = co_timeManager co" "co_timeManager (on_client f co) = co_timeManager co"
  "co_timeManager (on_sync s co) = co_timeManager co" "co_timeManager (on_controller c co) = co_timeManager co"
  "co_timeManager (TransitionTo ph co) = co_timeManager co"
  by (simp_all add: ui_def hook_def on_client_def on_sync_def on_controller_def TransitionTo_def on_game_def Let_def)

lemma touched_ack: "\<not> IsGameLoaded co \<Longrightarrow> co_timeManager co = 0 \<Longrightarrow> touched (HandleHandshakeAck env r co) = touched co"
  by (simp add: HandleHandshakeAck_def Let_def SetConnected_def touched_time TransitionTo_client core_simps split: option.splits)

definition touches_world :: "MessageType \<Rightarrow> bool" where
  "touches_world type \<longleftrightarrow> type = S2C_AllPlayersReady \<or> type = S2C_FactionAssignment"



section \<open>Disconnecting\<close>

lemma Unregister_entities: "reg_entities (Unregister k s) = filter (\<lambda>(j, i). j \<noteq> k) (reg_entities s)"
proof -
  have "um_find m k = None \<Longrightarrow> filter (\<lambda>(j, i). j \<noteq> k) m = m" for m :: "(EntityID, EntityInfo) umap"
    by (induction m) (auto split: if_splits)
  moreover have "um_erase k m = filter (\<lambda>(j, i). j \<noteq> k) m" for m :: "(EntityID, EntityInfo) umap"
    by (auto simp: um_erase_def AList.delete_eq intro!: filter_cong)
  ultimately show ?thesis by (simp add: Unregister_def split: option.splits)
qed

lemma fold_Unregister_entities: "reg_entities (fold Unregister ks s) = filter (\<lambda>(j, i). j \<notin> set ks) (reg_entities s)"
proof (induction ks arbitrary: s)
  case (Cons k ks)
  then show ?case by (auto simp: Unregister_entities intro!: filter_cong)
qed (simp add: case_prod_unfold)

lemma no_remote_left: "GetRemoteEntities (snd (ClearRemoteEntities s)) = []"
  by (force simp: GetRemoteEntities_def ClearRemoteEntities_def ids_where_def fold_Unregister_entities filter_empty_conv)

lemma forget_parts:
  "co_spawnQueue (forget_session co) = []" "co_connected (forget_session co) = co_connected co" "\<not> co_isHost (forget_session co)"
  "co_controller (forget_session co) = PlayerController_Reset (co_controller co)" "co_sharedSave (forget_session co) = SharedSave_Reset (co_sharedSave co)"
  "co_sync (forget_session co) = map_option Sync_Reset (co_sync co)" "co_commands (forget_session co) = co_commands co"
  "co_remoteControlled (forget_session co) = co_remoteControlled co" "co_pendingSquads (forget_session co) = co_pendingSquads co"
  by (simp_all add: forget_session_def Let_def ui_def hook_def on_client_def on_game_def on_sync_def on_controller_def clear_frames_def ClearSpawnQueue_def)

lemma phase_parts:
  "co_sync (TransitionTo p co) = co_sync co" "co_connected (TransitionTo p co) = co_connected co" "co_commands (TransitionTo p co) = co_commands co"
  "co_remoteControlled (TransitionTo p co) = co_remoteControlled co" "co_pendingSquads (TransitionTo p co) = co_pendingSquads co"
  by (simp_all add: TransitionTo_def Let_def on_client_def on_game_def)

text \<open>
  Safety, as a defect.  A disconnect leaves no remote entity, no interpolation state, no spawn request, no session and no
  host; but the snapshots waiting for a spawn, the spawns waiting for the ready signal, the commands for the game thread,
  the characters marked as remote and the squads waiting for an id stay, and are applied to the next session.
\<close>

theorem disconnect_forgets:
  fixes co :: ClientCore
  defines "co' \<equiv> SetConnected False co"
  shows "(GetRemoteEntities (co_registry co') = [] \<and> ip_entities (cl_interp (co_client co')) = [] \<and> co_spawnQueue co' = [] \<and>
      \<not> co_connected co' \<and> \<not> co_isHost co' \<and> pct_remotePlayers (co_controller co') = [] \<and> \<not> sv_initialized (co_sharedSave co') \<and>
      list_all (\<lambda>so. pg_sessions (so_playerEngine so) = [] \<and> \<not> so_active so) (case co_sync co' of None \<Rightarrow> [] | Some so \<Rightarrow> [so])) \<and>
    cl_pending (co_client co') = cl_pending (co_client co) \<and> cl_deferred (co_client co') = cl_deferred (co_client co) \<and>
    co_commands co' = co_commands co \<and> co_remoteControlled co' = co_remoteControlled co \<and> co_pendingSquads co' = co_pendingSquads co"
  by (simp add: co'_def SetConnected_def Let_def forget_parts forget_client phase_parts TransitionTo_client client_simps no_remote_left
      Interpolation_Clear_def PlayerController_Reset_def SharedSave_Reset_def Sync_Reset_def PlayerEngine_Reset_def split: option.split)

section \<open>The heartbeat\<close>

lemma read_ids_at: "read_ids (length ks) (reader_at pre (concat (map bytes_u32 ks))) = ks"
proof (induction ks arbitrary: pre)
  case (Cons k ks)
  then show ?case by (simp add: scalars_at)
qed simp

lemma heartbeat_read:
  assumes "length ks < 65536"
  shows "client_HandlePacket env (heartbeat_packet tick ks) co =
    (if IsGameLoaded co then fold clean_ghost (filter (\<lambda>k. k \<notin> set ks) (GetRemoteEntities (co_registry co))) co else co)"
proof -
  let ?h = "PacketHeader_enc (plain_header S2C_EntityHeartbeat)"
  have w: "fold (\<lambda>f w. f w) (map WriteU32 ks) pre = pre @ concat (map bytes_u32 ks)" for pre
    by (induction ks arbitrary: pre) (simp_all add: writer_defs WriteRaw_def)
  have "heartbeat_packet tick ks = ?h @ bytes_u32 tick @ bytes_u16 (of_nat (length ks)) @ concat (map bytes_u32 ks)"
    by (simp add: heartbeat_packet_def packet_def w writer_defs WriteRaw_def plain_header_def)
  then have r: "ReadHeader (PacketReader_new (heartbeat_packet tick ks)) =
      (Some (plain_header S2C_EntityHeartbeat), reader_at ?h (bytes_u32 tick @ bytes_u16 (of_nat (length ks)) @ concat (map bytes_u32 ks)))"
    by (simp add: reader_at_new scalars_at)
  have u: "unat (of_nat (length ks) :: u16) = length ks" using assms by (simp add: unat_of_nat)
  have t: "map_of (safe_handlers env) S2C_EntityHeartbeat = None" "map_of (early_handlers env) S2C_EntityHeartbeat = None"
    "map_of (world_handlers env) S2C_EntityHeartbeat = Some HandleEntityHeartbeat"
    by (simp_all add: safe_handlers_def early_handlers_def world_handlers_def msg_type)
  show ?thesis by (simp add: client_HandlePacket_def r t plain_header_def HandleEntityHeartbeat_def scalars_at u read_ids_at Let_def)
qed

lemma clean_ghost_registry: "co_registry (clean_ghost k co) = Unregister k (co_registry co)"
  by (simp add: clean_ghost_def Let_def core_simps client_simps split: option.splits)

lemma fold_clean_registry: "co_registry (fold clean_ghost ks co) = fold Unregister ks (co_registry co)"
  by (induction ks arbitrary: co) (simp_all add: clean_ghost_registry)

lemma listed_iff: "um_wf (reg_entities s) \<Longrightarrow> (k, i) \<in> set (reg_entities s) \<Longrightarrow> k \<in> set (ids_where P s) \<longleftrightarrow> P i"
proof -
  assume w: "um_wf (reg_entities s)" and m: "(k, i) \<in> set (reg_entities s)"
  have "j = i" if "(k, j) \<in> set (reg_entities s)" for j
    using um_find_Some_iff [OF w, of k i] um_find_Some_iff [OF w, of k j] m that by simp
  moreover have "k \<in> set (ids_where P s) \<longleftrightarrow> (\<exists>j. (k, j) \<in> set (reg_entities s) \<and> P j)"
    by (simp add: ids_where_def image_def Bex_def case_prod_unfold)
  ultimately show ?thesis using m by blast
qed

text \<open>
  C29.  Functional, server and client.  After the heartbeat the server sends for a player at zone \<open>z\<close>, with fewer than 65536 ids
  in it, a client in the game keeps exactly its local entities and those remote ones that are in the list: active, and
  in a zone next to \<open>z\<close>, unowned, or its own.
\<close>

theorem heartbeat_exact:
  assumes "client_inv (co_client co)" "IsGameLoaded co" "length (heartbeat_ids pid z es) < 65536"
  shows "reg_entities (co_registry (client_HandlePacket env (heartbeat_packet tick (heartbeat_ids pid z es)) co)) =
    filter (\<lambda>(k, i). ei_isRemote i \<longrightarrow> k \<in> set (heartbeat_ids pid z es)) (reg_entities (co_registry co))"
proof -
  let ?ks = "heartbeat_ids pid z es" and ?m = "reg_entities (co_registry co)"
  have "um_wf ?m" using assms(1) by (simp add: client_inv_def reg_ok_def reg_inv_def)
  then have "filter (\<lambda>(j, i). j \<notin> set (filter (\<lambda>k. k \<notin> set ?ks) (ids_where ei_isRemote (co_registry co)))) ?m =
      filter (\<lambda>(k, i). ei_isRemote i \<longrightarrow> k \<in> set ?ks) ?m"
    by (intro filter_cong) (auto simp: listed_iff)
  then show ?thesis using assms(2,3)
    by (simp add: heartbeat_read fold_clean_registry fold_Unregister_entities GetRemoteEntities_def)
qed

text \<open>Two remote entities, of which the server lists the second.\<close>

definition example_core :: ClientCore where
  "example_core = on_client (on_registry (RegisterRemote 7 NPC 2 Vec3_default \<circ> RegisterRemote 8 NPC 2 Vec3_default) \<circ> (\<lambda>c. c\<lparr>cl_gameLoaded := True\<rparr>))
     (ClientCore_new example_process)"

definition example_listed :: "EntityID list" where
  "example_listed = heartbeat_ids 1 ZoneCoord_default [(8, (example_entity 8 0)\<lparr>se_state := Active\<rparr>)]"

theorem heartbeat_exact_witness:
  "map fst (reg_entities (co_registry example_core)) = [8, 7] \<and>
   map fst (reg_entities (co_registry (client_HandlePacket example_core_env (heartbeat_packet 0 example_listed) example_core))) = [8]"
proof -
  have l: "example_listed = [8]" by (simp add: example_listed_def heartbeat_ids_def example_entity_def)
  have "client_inv (co_client example_core)"
    using Client_new_inv [of 0]
    by (auto simp: example_core_def core_simps ClientCore_new_def proper_id_def INVALID_ENTITY_def intro!: inv_registry reg_ok_ops(1) inv_reg_ok)
  moreover have "IsGameLoaded example_core" by (simp add: example_core_def core_simps client_simps)
  moreover have "reg_entities (co_registry example_core) = [(8, remote_info 8 NPC 2 Vec3_default), (7, remote_info 7 NPC 2 Vec3_default)]"
    by (simp add: example_core_def core_simps client_simps ClientCore_new_def Client_new_def RegisterRemote_def EntityRegistry_new_def um_simps um_set_def)
  ultimately show ?thesis
    using heartbeat_exact [of example_core 1 ZoneCoord_default "[(8, (example_entity 8 0)\<lparr>se_state := Active\<rparr>)]" example_core_env 0] l
    by (simp add: example_listed_def remote_info_def)
qed

end
