(* ===== verification/Sync_Orchestrator.thy ===== *)
theory Sync_Orchestrator
  imports Core_Properties
begin

text \<open>
  The synchronisation tick of \<^verbatim>\<open>sync/sync_orchestrator.cpp\<close>: its stages on the game thread and the two background
  tasks they post, over the state of the core.  The tasks run at any time between the post and the next wait; a run is a
  sequence of ticks, tasks and packets.  A stage or task is one step.  Reads of a character's memory cannot fault, as
  they go through \<^verbatim>\<open>Memory::Read\<close>.  Logging and diagnostics are left out.
\<close>

section \<open>Reading and writing characters\<close>

record BGReadResult =
  bg_pos :: Vec3
  bg_rot :: Quat
  bg_speed :: f32
  bg_animState :: u8

definition SEH_ReadCharacterBG :: "u64 \<Rightarrow> GameProcess \<Rightarrow> BGReadResult option" where
  "SEH_ReadCharacterBG p g = (if p = 0 then None
     else Some \<lparr>bg_pos = Character_GetPosition p g, bg_rot = Character_GetRotation p g, bg_speed = Character_GetMoveSpeed p g,
                bg_animState = Character_GetAnimState p g\<rparr>)"

definition quat_valid :: "Quat \<Rightarrow> bool" where
  "quat_valid q \<longleftrightarrow>
     (let magSq = f32_add (f32_add (f32_add (f32_mul (qw q) (qw q)) (f32_mul (qx q) (qx q))) (f32_mul (qy q) (qy q))) (f32_mul (qz q) (qz q)) in
      \<not> f32_isnan magSq \<and> \<not> f32_isinf magSq \<and> \<not> f32_lt magSq (f32_lit 1 2) \<and> \<not> f32_lt (f32_lit 3 2) magSq \<and>
      list_all (\<lambda>c. \<not> f32_isnan c \<and> \<not> f32_isinf c) [qw q, qx q, qy q, qz q])"

definition bytes_quat :: "Quat \<Rightarrow> bytes" where
  "bytes_quat q = bytes_u32 (qw q) @ bytes_u32 (qx q) @ bytes_u32 (qy q) @ bytes_u32 (qz q)"

text \<open>A value at the rotation's place that may be a pointer is left alone.\<close>

definition looks_like_pointer :: "u64 \<Rightarrow> bool" where
  "looks_like_pointer v \<longleftrightarrow> 0x10000 < v \<and> v < 0x00007FFFFFFFFFFF \<and> v AND 3 = 0"

definition SEH_WritePositionRotation :: "u64 \<Rightarrow> Vec3 \<Rightarrow> Quat \<Rightarrow> GameProcess \<Rightarrow> GameProcess" where
  "SEH_WritePositionRotation p pos rot g =
     (let g1 = snd (Character_WritePosition pos p g); off = cho_rotation (chr_off g1) in
      if 0 \<le> off \<and> quat_valid rot \<and> \<not> looks_like_pointer (peek_at off p g1)
      then on_memory (\<lambda>m. snd (Mem_Write (bytes_quat rot) (at_offset p off) m)) g1
      else g1)"

definition SEH_WriteMoveData :: "u64 \<Rightarrow> u8 \<Rightarrow> u8 \<Rightarrow> GameProcess \<Rightarrow> GameProcess" where
  "SEH_WriteMoveData p moveSpeedU8 animState g =
     (let o1 = chr_off g;
          speed = f32_mul (f32_div (f32_of_int (uint moveSpeedU8)) (f32_of_int 255)) (f32_of_int 15);
          g1 = (if 0 \<le> cho_moveSpeed o1 then on_memory (\<lambda>m. snd (Mem_Write (bytes_u32 speed) (at_offset p (cho_moveSpeed o1)) m)) g else g)
      in if 0 \<le> cho_animState o1 then on_memory (\<lambda>m. snd (Mem_Write (bytes_u8 animState) (at_offset p (cho_animState o1)) m)) g1 else g1)"

definition SEH_FixFactionAndSetup :: "u64 \<Rightarrow> u64 \<Rightarrow> Vec3 \<Rightarrow> GameProcess \<Rightarrow> bool \<times> GameProcess" where
  "SEH_FixFactionAndSetup p localFaction pos g =
     (let vtable = peek64 p (gp_memory g) in
      if p < 0x10000 \<or> 0x00007FFFFFFFFFFF \<le> p then (False, g)
      else if vtable < gp_moduleBase g \<or> gp_moduleBase g + 0x4000000 \<le> vtable then (False, g)
      else
        let g1 = on_memory (\<lambda>m. snd (Mem_Write (bytes_u64 localFaction) (at_offset p (cho_faction (chr_off g))) m)) g
        in (True, if nonzero_pos pos then snd (Character_WritePosition pos p g1) else g1))"

definition SEH_ReadEquipmentSlot :: "u64 \<Rightarrow> nat \<Rightarrow> GameProcess \<Rightarrow> u32 \<times> GameProcess" where
  "SEH_ReadEquipmentSlot p k g = (case Character_GetEquipmentSlot k p g of
     (item, g1) \<Rightarrow> (if item = 0 then 0 else peek32 0 (item + 0x20) (gp_memory g1), g1))"

section \<open>Constants and access\<close>

definition KMP_TICK_INTERVAL_MS :: int where "KMP_TICK_INTERVAL_MS = 50"
definition KMP_POS_CHANGE_THRESHOLD :: f32 where "KMP_POS_CHANGE_THRESHOLD = f32_lit 1 10"
definition ZONE_REBUILD_INTERVAL_MS :: int where "ZONE_REBUILD_INTERVAL_MS = 500"
definition EQUIPMENT_POLL_INTERVAL_MS :: int where "EQUIPMENT_POLL_INTERVAL_MS = 2000"
definition MAX_SPAWN_RETRIES :: nat where "MAX_SPAWN_RETRIES = 200"

text \<open>The orchestrator; the tick is only called when there is one.\<close>

definition sync_of :: "ClientCore \<Rightarrow> SyncOrchestrator" where
  "sync_of co = (case co_sync co of Some so \<Rightarrow> so | None \<Rightarrow> SyncOrchestrator_new)"

definition client_send :: "bool \<Rightarrow> bytes \<Rightarrow> ClientCore \<Rightarrow> ClientCore" where
  "client_send reliable bs co = co\<lparr>co_sent := co_sent co @ [(reliable, bs)]\<rparr>"

definition on_reg :: "(EntityRegistry \<Rightarrow> EntityRegistry) \<Rightarrow> ClientCore \<Rightarrow> ClientCore" where
  "on_reg f = on_client (on_registry f)"

section \<open>The stages\<close>

definition StageUpdateZones :: "core_env \<Rightarrow> ClientCore \<Rightarrow> ClientCore" where
  "StageUpdateZones env co =
     (let so = sync_of co; p = GetPrimaryCharacter (co_registry co) (co_controller co); pos = Character_GetPosition p (co_game co) in
      if p = 0 then co
      else if f32_eq (vx pos) 0 \<and> f32_eq (vy pos) 0 \<and> f32_eq (vz pos) 0 then co
      else (case UpdateLocalPlayerZone pos (so_zoneEngine so) of
        (changed, events, packets, ze) \<Rightarrow>
          let co1 = on_sync (\<lambda>s. s\<lparr>so_zoneEngine := ze\<rparr>) (fold (\<lambda>(bs, ch, rel). client_send rel bs) packets co);
              co2 = (if changed then on_players (SetLocalZone (ze_localZone ze)) co1 else co1)
          in if ZONE_REBUILD_INTERVAL_MS \<le> whole_millis (en_clock env - so_lastZoneRebuild so) \<or> changed
             then on_sync (\<lambda>s. s\<lparr>so_zoneEngine := RebuildZoneIndex (co_registry co2) (so_zoneEngine s), so_lastZoneRebuild := en_clock env\<rparr>) co2
             else co2))"

definition StageSwapBuffers :: "ClientCore \<Rightarrow> ClientCore" where
  "StageSwapBuffers co = (if so_pipelineStarted (sync_of co)
     then on_sync (\<lambda>s. s\<lparr>so_readBuffer := so_writeBuffer s, so_writeBuffer := so_readBuffer s\<rparr>) co else co)"

definition apply_result :: "CachedRemoteResult \<Rightarrow> ClientCore \<Rightarrow> ClientCore" where
  "apply_result r co =
     (let p = GetGameObject (crr_netId r) (co_registry co) in
      if \<not> crr_valid r then co
      else if \<not> finite_pose (crr_position r) (crr_rotation r) then co
      else if p = 0 then co
      else if p < 0x1000000 \<or> 0x00007FFFFFFFFFFF < p then on_reg (SetGameObject (crr_netId r) 0) co
      else on_game (SEH_WriteMoveData p (crr_moveSpeed r) (crr_animState r))
             (on_reg (UpdateRotation (crr_netId r) (crr_rotation r) \<circ> UpdatePosition (crr_netId r) (crr_position r))
               (on_game (SEH_WritePositionRotation p (crr_position r) (crr_rotation r)) co)))"

definition StageApplyRemotePositions :: "ClientCore \<Rightarrow> ClientCore" where
  "StageApplyRemotePositions co =
     (let so = sync_of co; f = so_frameData so ! so_readBuffer so in
      if \<not> so_pipelineStarted so \<or> \<not> fd_ready f then co else fold apply_result (fd_remoteResults f) co)"

text \<open>The speed the packet carries, and what is derived from it.\<close>

definition effective_speed :: "f32 \<Rightarrow> f32 \<Rightarrow> f32" where
  "effective_speed speed computed = (if f32_le speed 0 \<and> f32_lt 0 computed then computed else speed)"

definition derived_anim :: "u8 \<Rightarrow> f32 \<Rightarrow> u8" where
  "derived_anim anim speed = (if anim = 0 \<and> f32_lt (f32_lit 1 2) speed then (if f32_lt (f32_of_int 5) speed then 2 else 1) else anim)"

definition speed_byte :: "f32 \<Rightarrow> u8" where
  "speed_byte speed = ucast (f32_to_i32 (f32_min (f32_of_int 255) (f32_mul (f32_div speed (f32_of_int 15)) (f32_of_int 255))))"

definition move_flags :: "f32 \<Rightarrow> u16" where
  "move_flags speed = (if f32_lt (f32_of_int 3) speed then 1 else 0)"

definition position_packet :: "EntityID \<Rightarrow> Vec3 \<Rightarrow> u32 \<Rightarrow> u8 \<Rightarrow> u8 \<Rightarrow> u16 \<Rightarrow> bytes" where
  "position_packet netId pos compQuat animState moveSpeed flags =
     packet [hdr C2S_PositionUpdate, WriteU8 1, WriteU32 netId, WriteF32 (vx pos), WriteF32 (vy pos), WriteF32 (vz pos),
       WriteU32 compQuat, WriteU8 animState, WriteU8 moveSpeed, WriteU16 flags]"

definition poll_entity :: "int \<Rightarrow> EntityID \<Rightarrow> ClientCore \<Rightarrow> ClientCore" where
  "poll_entity elapsed netId co = (case GetInfo netId (co_registry co) of
     None \<Rightarrow> co
   | Some info \<Rightarrow>
       let p = GetGameObject netId (co_registry co) in
       if p = 0 then co
       else (case SEH_ReadCharacterBG p (co_game co) of
         None \<Rightarrow> on_reg (SetGameObject netId 0) co
       | Some rd \<Rightarrow>
           let pos = bg_pos rd; rotation = bg_rot rd; dist = DistanceTo pos (ei_lastPosition info) in
           if f32_lt dist KMP_POS_CHANGE_THRESHOLD then co
           else
             let elapsedSec = f32_div (f32_of_int elapsed) (f32_of_int 1000);
                 speed = effective_speed (bg_speed rd) (if f32_lt (f32_lit 1 1000) elapsedSec then f32_div dist elapsedSec else 0)
             in on_reg (UpdateRotation netId rotation \<circ> UpdatePosition netId pos)
                  (client_send False (position_packet netId pos (Compress rotation) (derived_anim (bg_animState rd) speed)
                     (speed_byte speed) (move_flags speed)) co)))"

definition StagePollAndSendPositions :: "core_env \<Rightarrow> ClientCore \<Rightarrow> ClientCore" where
  "StagePollAndSendPositions env co =
     (let so = sync_of co; me = so_localPlayerId so; elapsed = whole_millis (en_clock env - so_lastPollTime so) in
      if me = INVALID_PLAYER \<or> elapsed < KMP_TICK_INTERVAL_MS then co
      else fold (poll_entity elapsed) (GetPlayerEntities me (co_registry co)) (on_sync (\<lambda>s. s\<lparr>so_lastPollTime := en_clock env\<rparr>) co))"

definition poll_slot :: "EntityID \<Rightarrow> u64 \<Rightarrow> EntityInfo \<Rightarrow> nat \<Rightarrow> ClientCore \<Rightarrow> ClientCore" where
  "poll_slot netId p info k co =
     (let (item, g) = SEH_ReadEquipmentSlot p k (co_game co); co1 = co\<lparr>co_game := g\<rparr> in
      if item = ei_lastEquipment info ! k then co1
      else client_send True (packet [hdr C2S_EquipmentUpdate, WriteRaw (MsgEquipmentUpdate_enc
               \<lparr>MsgEquipmentUpdate_entityId = netId, MsgEquipmentUpdate_slot = of_nat k, MsgEquipmentUpdate_itemTemplateId = item\<rparr>)])
             (on_reg (UpdateEquipment netId (of_nat k) item) co1))"

definition poll_equipment :: "EntityID \<Rightarrow> ClientCore \<Rightarrow> ClientCore" where
  "poll_equipment netId co = (case GetInfo netId (co_registry co) of
     None \<Rightarrow> co
   | Some info \<Rightarrow>
       let p = GetGameObject netId (co_registry co) in
       if p = 0 then co else fold (poll_slot netId p info) [0..<14] co)"

definition StagePollAndSendEquipment :: "core_env \<Rightarrow> ClientCore \<Rightarrow> ClientCore" where
  "StagePollAndSendEquipment env co =
     (let so = sync_of co; me = so_localPlayerId so in
      if me = INVALID_PLAYER \<or> whole_millis (en_clock env - so_lastEquipmentPollTime so) < EQUIPMENT_POLL_INTERVAL_MS then co
      else fold poll_equipment (GetPlayerEntities me (co_registry co)) (on_sync (\<lambda>s. s\<lparr>so_lastEquipmentPollTime := en_clock env\<rparr>) co))"

section \<open>Spawns\<close>

text \<open>
  What the spawn manager answers: its template tables and the game's factory are not modelled.  The number of mod
  templates may change by the heap scan.  \<open>se_spawn\<close> is the direct spawn, 0 on failure, and \<open>se_addToSquad\<close> the call of
  the game's squad function.
\<close>

record spawn_env =
  se_ready :: bool
  se_manager :: bool
  se_templates :: nat
  se_modTemplates :: nat
  se_modTemplatesAfter :: nat
  se_preCall :: bool
  se_spawn :: "Vec3 \<Rightarrow> nat \<Rightarrow> GameProcess \<Rightarrow> u64 \<times> GameProcess"
  se_addToSquad :: "u64 \<Rightarrow> GameProcess \<Rightarrow> GameProcess"

definition needs_scan :: "core_env \<Rightarrow> spawn_env \<Rightarrow> SyncOrchestrator \<Rightarrow> bool" where
  "needs_scan env se so \<longleftrightarrow> (\<not> so_heapScanned so \<or> se_modTemplates se = 0 \<and> so_heapScanAttempts so < 5) \<and> se_ready se \<and>
     5 \<le> whole_seconds (en_clock env - so_lastHeapScan so) \<and> (se_manager se \<or> se_templates se < 10)"

definition heap_scan :: "core_env \<Rightarrow> spawn_env \<Rightarrow> ClientCore \<Rightarrow> ClientCore" where
  "heap_scan env se = on_sync (\<lambda>s. s\<lparr>so_heapScanAttempts := so_heapScanAttempts s + 1, so_lastHeapScan := en_clock env,
     so_heapScanned := (so_heapScanned s \<or> 0 < se_modTemplatesAfter se \<or> 5 \<le> so_heapScanAttempts s + 1)\<rparr>)"

definition track_pending :: "core_env \<Rightarrow> ClientCore \<Rightarrow> ClientCore" where
  "track_pending env co =
     (if co_spawnQueue co \<noteq> [] \<and> \<not> so_hasPendingTimer (sync_of co)
      then ui [UiSystem (lit ''Waiting for game to create an NPC for remote player...'')]
        (on_sync (\<lambda>s. s\<lparr>so_firstPendingTime := en_clock env, so_hasPendingTimer := True, so_shownWaitingMsg := False, so_shownTimeoutMsg := False\<rparr>) co)
      else if co_spawnQueue co = []
      then on_sync (\<lambda>s. s\<lparr>so_hasPendingTimer := False, so_directSpawnAttempts := 0, so_shownWaitingMsg := False, so_shownTimeoutMsg := False\<rparr>) co
      else co)"

definition pending_seconds :: "core_env \<Rightarrow> ClientCore \<Rightarrow> int" where
  "pending_seconds env co = whole_seconds (en_clock env - so_firstPendingTime (sync_of co))"

definition show_waiting :: "core_env \<Rightarrow> ClientCore \<Rightarrow> ClientCore" where
  "show_waiting env co =
     (if co_spawnQueue co \<noteq> [] \<and> so_hasPendingTimer (sync_of co) then
        let co1 = (if 3 \<le> pending_seconds env co \<and> \<not> so_shownWaitingMsg (sync_of co)
                   then ui [UiSystem (lit ''Spawning remote player...'')] (on_sync (\<lambda>s. s\<lparr>so_shownWaitingMsg := True\<rparr>) co) else co)
        in if 15 \<le> pending_seconds env co1 \<and> \<not> so_shownTimeoutMsg (sync_of co1)
           then ui [UiSystem (lit ''Spawn delayed '' @ [0xE2, 0x80, 0x94] @ lit '' walk near a town or camp to trigger NPC creation.'')]
                  (on_sync (\<lambda>s. s\<lparr>so_shownTimeoutMsg := True\<rparr>) co1) else co1
      else co)"

definition log_pending :: "core_env \<Rightarrow> ClientCore \<Rightarrow> ClientCore" where
  "log_pending env co = (if 5 \<le> whole_seconds (en_clock env - so_lastSpawnLog (sync_of co)) \<and> co_spawnQueue co \<noteq> []
     then on_sync (\<lambda>s. s\<lparr>so_lastSpawnLog := en_clock env\<rparr>) co else co)"

definition mod_slot :: "nat \<Rightarrow> PlayerID \<Rightarrow> nat" where
  "mod_slot templates owner = (if 1 < templates \<and> 0 < owner then unat (owner - 1) mod templates else 0)"

definition direct_spawn_due :: "core_env \<Rightarrow> spawn_env \<Rightarrow> ClientCore \<Rightarrow> bool" where
  "direct_spawn_due env se co \<longleftrightarrow> (let so = sync_of co in
     co_spawnQueue co \<noteq> [] \<and> so_hasPendingTimer so \<and> 15 \<le> pending_seconds env co \<and> so_directSpawnAttempts so < 5 \<and> se_preCall se \<and>
     (so_directSpawnAttempts so = 0 \<or> 3 \<le> whole_seconds (en_clock env - so_lastDirectAttempt so)))"

definition finish_spawn :: "spawn_env \<Rightarrow> SpawnRequest \<Rightarrow> u64 \<Rightarrow> ClientCore \<Rightarrow> ClientCore" where
  "finish_spawn se q p co = (case GetInfo (rq_netId q) (co_registry co) of
     None \<Rightarrow> entity_DecrementSpawnCount (rq_owner q) co
   | Some info \<Rightarrow>
       let co1 = on_game (\<lambda>g. snd (SEH_FixFactionAndSetup p (pct_localFactionPtr (co_controller co)) (rq_position q) g)) co;
           co2 = on_reg (UpdatePosition (rq_netId q) (rq_position q) \<circ> SetGameObject (rq_netId q) p) co1;
           co3 = ai_MarkRemoteControlled p (core_OnRemoteCharacterSpawned (rq_netId q) p (rq_owner q) co2);
           co4 = on_game (ScheduleDeferredAnimClassProbe p \<circ> (\<lambda>g. snd (game_WritePlayerControlled p True g)) \<circ> se_addToSquad se p) co3
       in ui [UiSystem (lit ''Remote player spawned!'')] co4)"

definition retry_spawn :: "SpawnRequest \<Rightarrow> ClientCore \<Rightarrow> ClientCore" where
  "retry_spawn q co =
     (let q1 = q\<lparr>rq_retryCount := rq_retryCount q + 1\<rparr>
      in ui [UiSystem (lit ''Direct spawn failed, will retry...'')]
           (if rq_retryCount q1 < of_nat MAX_SPAWN_RETRIES then RequeueSpawn q1 co else entity_DecrementSpawnCount (rq_owner q1) co))"

definition direct_spawn :: "core_env \<Rightarrow> spawn_env \<Rightarrow> nat \<Rightarrow> ClientCore \<Rightarrow> ClientCore" where
  "direct_spawn env se templates co =
     (let co1 = on_sync (\<lambda>s. s\<lparr>so_lastDirectAttempt := en_clock env, so_directSpawnAttempts := so_directSpawnAttempts s + 1\<rparr>) co in
      case PopNextSpawn co1 of
        (None, co2) \<Rightarrow> co2
      | (Some q, co2) \<Rightarrow>
          let co3 = ui [UiSystem (lit ''Attempting direct spawn...'')] co2;
              (p, g) = se_spawn se (rq_position q) (mod_slot templates (rq_owner q)) (co_game co3);
              co4 = co3\<lparr>co_game := g\<rparr>
          in if p \<noteq> 0 then finish_spawn se q p co4 else retry_spawn q co4)"

definition StageProcessSpawns :: "core_env \<Rightarrow> spawn_env \<Rightarrow> ClientCore \<Rightarrow> ClientCore" where
  "StageProcessSpawns env se co =
     (let scan = needs_scan env se (sync_of co);
          co1 = (if scan then heap_scan env se co else co);
          co2 = log_pending env (show_waiting env (track_pending env co1))
      in if direct_spawn_due env se co2
         then direct_spawn env se (if scan then se_modTemplatesAfter se else se_modTemplates se) co2 else co2)"

section \<open>Background work\<close>

definition on_write_frame :: "(FrameData \<Rightarrow> FrameData) \<Rightarrow> ClientCore \<Rightarrow> ClientCore" where
  "on_write_frame f = on_sync (\<lambda>s. s\<lparr>so_frameData := (so_frameData s)[so_writeBuffer s := f (so_frameData s ! so_writeBuffer s)]\<rparr>)"

definition StageKickBackgroundWork :: "ClientCore \<Rightarrow> ClientCore" where
  "StageKickBackgroundWork co = on_sync (\<lambda>s. s\<lparr>so_pipelineStarted := True\<rparr>) (on_write_frame (\<lambda>f. FrameData_Clear) co)"

definition StageUpdatePlayers :: "core_env \<Rightarrow> ClientCore \<Rightarrow> ClientCore" where
  "StageUpdatePlayers env co = (if so_tickCount (sync_of co) mod 200 = 0
     then on_players (\<lambda>pe. snd (CheckAFK (en_clock env) (f32_of_int 300) pe)) co else co)"

text \<open>\<open>junk k\<close> is the field \<open>generation\<close>, which the code does not set.\<close>

definition read_entity :: "(EntityID \<Rightarrow> u32) \<Rightarrow> ClientCore \<Rightarrow> EntityID \<Rightarrow> (CachedEntityPos \<times> CharacterPosition) option" where
  "read_entity junk co netId =
     (let p = GetGameObject netId (co_registry co) in
      case (SEH_ReadCharacterBG p (co_game co), GetInfo netId (co_registry co)) of
        (Some rd, Some info) \<Rightarrow>
          let pos = bg_pos rd; dist = DistanceTo pos (ei_lastPosition info) in
          if ei_isRemote info then None
          else if f32_eq (vx pos) 0 \<and> f32_eq (vy pos) 0 \<and> f32_eq (vz pos) 0 then None
          else if f32_lt dist KMP_POS_CHANGE_THRESHOLD then None
          else
            let speed = effective_speed (bg_speed rd) (f32_div dist (f32_lit 16 1000)); anim = derived_anim (bg_animState rd) speed
            in Some (\<lparr>ch_netId = netId, ch_position = pos, ch_rotation = bg_rot rd, ch_speed = speed, ch_animState = anim, ch_dirty = True\<rparr>,
                 \<lparr>CharacterPosition_entityId = netId, CharacterPosition_generation = junk netId, CharacterPosition_posX = vx pos,
                  CharacterPosition_posY = vy pos, CharacterPosition_posZ = vz pos, CharacterPosition_compressedQuat = Compress (bg_rot rd),
                  CharacterPosition_animStateId = anim, CharacterPosition_moveSpeed = speed_byte speed,
                  CharacterPosition_flags = move_flags speed\<rparr>)
      | _ \<Rightarrow> None)"

definition batch_packet :: "CharacterPosition list \<Rightarrow> bytes" where
  "batch_packet cps = packet ([hdr C2S_PositionUpdate, WriteU8 (of_nat (length cps))] @ map (\<lambda>cp. WriteRaw (CharacterPosition_enc cp)) cps)"

definition BackgroundReadEntities :: "(EntityID \<Rightarrow> u32) \<Rightarrow> ClientCore \<Rightarrow> ClientCore" where
  "BackgroundReadEntities junk co =
     (let found = List.map_filter (read_entity junk co) (GetPlayerEntities (so_localPlayerId (sync_of co)) (co_registry co));
          co1 = on_write_frame (\<lambda>f. f\<lparr>fd_localEntities := fd_localEntities f @ map fst found,
                  fd_packetBytes := (if found = [] then fd_packetBytes f else batch_packet (map snd found))\<rparr>) co;
          co2 = fold (\<lambda>(c, cp). on_reg (UpdateRotation (ch_netId c) (ch_rotation c) \<circ> UpdatePosition (ch_netId c) (ch_position c))) found co1
      in on_write_frame (\<lambda>f. f\<lparr>fd_ready := True\<rparr>) co2)"

definition interpolate_entity :: "core_env \<Rightarrow> EntityID \<Rightarrow> ClientCore \<Rightarrow> ClientCore" where
  "interpolate_entity env k co =
     (let (out, ip) = GetInterpolated (en_acosf env) (en_sinf env) k (en_now env) (cl_interp (co_client co));
          r = (case out of
                 None \<Rightarrow> \<lparr>crr_netId = k, crr_position = Vec3_default, crr_rotation = Quat_default, crr_moveSpeed = 0, crr_animState = 0, crr_valid = False\<rparr>
               | Some x \<Rightarrow> \<lparr>crr_netId = k, crr_position = po_pos x, crr_rotation = po_rot x, crr_moveSpeed = po_moveSpeed x,
                            crr_animState = po_animState x, crr_valid = True\<rparr>)
      in on_write_frame (\<lambda>f. f\<lparr>fd_remoteResults := fd_remoteResults f @ [r]\<rparr>) (on_client (\<lambda>c. c\<lparr>cl_interp := ip\<rparr>) co))"

definition BackgroundInterpolate :: "core_env \<Rightarrow> ClientCore \<Rightarrow> ClientCore" where
  "BackgroundInterpolate env co = fold (interpolate_entity env) (GetRemoteEntities (co_registry co)) co"

section \<open>The tick\<close>

definition Sync_Tick :: "core_env \<Rightarrow> spawn_env \<Rightarrow> ClientCore \<Rightarrow> bool \<times> ClientCore" where
  "Sync_Tick env se co =
     (let so = sync_of co in
      if \<not> so_active so \<or> so_localPlayerId so = INVALID_PLAYER then (False, co)
      else
        let co1 = StageApplyRemotePositions (StageSwapBuffers (StageUpdateZones env co));
            co2 = StagePollAndSendEquipment env (StagePollAndSendPositions env co1);
            co3 = StageUpdatePlayers env (StageKickBackgroundWork (StageProcessSpawns env se co2))
        in (True, on_sync (\<lambda>s. s\<lparr>so_tickCount := so_tickCount s + 1\<rparr>) co3))"

datatype SyncPriority = Critical | Normal | Low | NoSync

definition ComputePriority :: "EntityID \<Rightarrow> ClientCore \<Rightarrow> SyncPriority" where
  "ComputePriority k co = (case GetInfo k (co_registry co) of
     None \<Rightarrow> NoSync
   | Some info \<Rightarrow>
       let localZone = ze_localZone (so_zoneEngine (sync_of co)) in
       if ei_zone info = localZone then Critical else if IsAdjacent localZone (ei_zone info) then Normal else NoSync)"

definition ShouldSyncThisTick :: "EntityID \<Rightarrow> ClientCore \<Rightarrow> bool" where
  "ShouldSyncThisTick k co = (case ComputePriority k co of
     Critical \<Rightarrow> True | Normal \<Rightarrow> True | Low \<Rightarrow> so_tickCount (sync_of co) mod 2 = 0 | NoSync \<Rightarrow> False)"

end
