(* ===== verification/Sync_Runs.thy ===== *)
theory Sync_Runs
  imports Sync_Properties
begin

text \<open>
  Runs of the synchronisation tick: ticks, background tasks, packets, connections and load screens in any order.  The
  two buffers stay apart, direct spawns are bounded, and the replication state stays consistent.
\<close>

section \<open>The orchestrator under the operations of the core\<close>

definition sync_ok :: "SyncOrchestrator \<Rightarrow> bool" where
  "sync_ok so \<longleftrightarrow> length (so_frameData so) = 2 \<and> (so_writeBuffer so = 0 \<and> so_readBuffer so = 1 \<or> so_writeBuffer so = 1 \<and> so_readBuffer so = 0) \<and>
     so_directSpawnAttempts so \<le> 5"

definition buffers_ok :: "ClientCore \<Rightarrow> bool" where
  "buffers_ok co \<longleftrightarrow> length (co_frameData co) = 2 \<and> pred_option sync_ok (co_sync co)"

lemma sync_ok_updates [simp]:
  "sync_ok (so\<lparr>so_playerEngine := a\<rparr>) = sync_ok so" "sync_ok (so\<lparr>so_zoneEngine := b\<rparr>) = sync_ok so"
  "sync_ok (so\<lparr>so_resolver := c\<rparr>) = sync_ok so" "sync_ok (so\<lparr>so_lastZoneRebuild := t\<rparr>) = sync_ok so"
  "sync_ok (so\<lparr>so_lastPollTime := t\<rparr>) = sync_ok so" "sync_ok (so\<lparr>so_lastEquipmentPollTime := t\<rparr>) = sync_ok so"
  "sync_ok (so\<lparr>so_lastSpawnLog := t\<rparr>) = sync_ok so" "sync_ok (so\<lparr>so_tickCount := n\<rparr>) = sync_ok so"
  "sync_ok (so\<lparr>so_active := p\<rparr>) = sync_ok so" "sync_ok (so\<lparr>so_localPlayerId := k\<rparr>) = sync_ok so"
  "sync_ok (so\<lparr>so_pipelineStarted := p\<rparr>) = sync_ok so" "sync_ok (so\<lparr>so_shownWaitingMsg := p\<rparr>) = sync_ok so"
  "sync_ok (so\<lparr>so_shownTimeoutMsg := p\<rparr>) = sync_ok so" "sync_ok (so\<lparr>so_hasPendingTimer := p\<rparr>) = sync_ok so"
  "sync_ok (so\<lparr>so_firstPendingTime := t\<rparr>) = sync_ok so" "sync_ok (so\<lparr>so_lastDirectAttempt := t\<rparr>) = sync_ok so"
  "sync_ok (so\<lparr>so_heapScanned := p\<rparr>) = sync_ok so" "sync_ok (so\<lparr>so_heapScanAttempts := n'\<rparr>) = sync_ok so"
  "sync_ok (so\<lparr>so_lastHeapScan := t\<rparr>) = sync_ok so"
  by (simp_all add: sync_ok_def)

lemma sync_ok_reset [simp]: "sync_ok (Sync_Reset so)" "sync_ok (Sync_Initialize now k name so) = sync_ok so" "sync_ok SyncOrchestrator_new"
  by (simp_all add: Sync_Reset_def Let_def sync_ok_def Sync_Initialize_def SyncOrchestrator_new_def)

lemma same_sync [simp]:
  "buffers_ok (ui xs co) = buffers_ok co" "buffers_ok (hook ys co) = buffers_ok co" "buffers_ok (on_client f co) = buffers_ok co"
  "buffers_ok (on_game g co) = buffers_ok co" "buffers_ok (on_controller h co) = buffers_ok co" "buffers_ok (on_reg r co) = buffers_ok co"
  "buffers_ok (client_send b bs co) = buffers_ok co" "buffers_ok (Spawn_QueueSpawn env q co) = buffers_ok co"
  "buffers_ok (Queue_Push cmd co) = buffers_ok co" "buffers_ok (OnSquadNetIdAssigned n co) = buffers_ok co"
  "buffers_ok (SetServerTime t v co) = buffers_ok co" "buffers_ok (entity_DecrementSpawnCount p co) = buffers_ok co"
  "buffers_ok (ResumeForNetwork co) = buffers_ok co" "buffers_ok (SEH_AllyModFaction env x co) = buffers_ok co"
  "buffers_ok (core_OnRemoteCharacterSpawned k x p co) = buffers_ok co" "buffers_ok (core_WriteGameDataName x p co) = buffers_ok co"
  "buffers_ok (SetLocalHostPlayerId p co) = buffers_ok co" "buffers_ok (ClearSpawnQueue co) = buffers_ok co"
  "buffers_ok (ai_MarkRemoteControlled x co) = buffers_ok co" "buffers_ok (ai_UnmarkRemoteControlled x co) = buffers_ok co"
  "buffers_ok (TransitionTo ph co) = buffers_ok co" "buffers_ok (RequeueSpawn q co) = buffers_ok co"
  by (simp_all add: buffers_ok_def ui_def hook_def on_client_def on_game_def on_controller_def on_reg_def client_send_def Spawn_QueueSpawn_def
      Queue_Push_def OnSquadNetIdAssigned_def SetServerTime_def entity_DecrementSpawnCount_def ResumeForNetwork_def SEH_AllyModFaction_def
      core_OnRemoteCharacterSpawned_def core_WriteGameDataName_def SetLocalHostPlayerId_def ClearSpawnQueue_def
      ai_MarkRemoteControlled_def ai_UnmarkRemoteControlled_def TransitionTo_def RequeueSpawn_def Let_def split: list.splits prod.splits option.splits)

lemma same_sync_update [simp]:
  "buffers_ok (co\<lparr>co_client := c\<rparr>) = buffers_ok co" "buffers_ok (co\<lparr>co_game := g\<rparr>) = buffers_ok co" "buffers_ok (co\<lparr>co_pipeline := p\<rparr>) = buffers_ok co"
  "buffers_ok (co\<lparr>co_connected := b\<rparr>) = buffers_ok co" "buffers_ok (co\<lparr>co_lobby := l\<rparr>) = buffers_ok co"
  "buffers_ok (co\<lparr>co_commands := cs\<rparr>) = buffers_ok co" "buffers_ok (co\<lparr>co_sharedSave := v\<rparr>) = buffers_ok co"
  "buffers_ok (co\<lparr>co_spawnQueue := q\<rparr>) = buffers_ok co" "buffers_ok (co\<lparr>co_needSpawnQueueReset := b\<rparr>) = buffers_ok co"
  "buffers_ok (co\<lparr>co_initialEntityScanDone := b\<rparr>) = buffers_ok co" "buffers_ok (co\<lparr>co_needPollReset := b\<rparr>) = buffers_ok co"
  "buffers_ok (co\<lparr>co_spawnTeleportDone := b\<rparr>) = buffers_ok co"
  by (simp_all add: buffers_ok_def)

lemma on_sync_ok: "buffers_ok co \<Longrightarrow> (\<And>so. sync_ok so \<Longrightarrow> sync_ok (f so)) \<Longrightarrow> buffers_ok (on_sync f co)"
  by (auto simp: buffers_ok_def on_sync_def option.pred_map pred_option_def)

lemma clear_ok [simp]: "buffers_ok co \<Longrightarrow> buffers_ok (clear_frames co)"
  by (simp add: buffers_ok_def clear_frames_def)

lemma on_players_ok [simp]: "buffers_ok co \<Longrightarrow> buffers_ok (on_players f co)"
  by (simp add: on_players_def on_sync_ok)

lemma effect_ok [simp]: "buffers_ok co \<Longrightarrow> buffers_ok (run_effect env e co)"
  by (cases e) (simp_all add: on_sync_ok Spawn_ClearSpawnsForOwner_def Let_def)

lemma effects_ok [simp]: "buffers_ok co \<Longrightarrow> buffers_ok (fold (run_effect env) es co)"
  by (induction es arbitrary: co) simp_all

lemma with_client_ok [simp]: "buffers_ok co \<Longrightarrow> buffers_ok (with_client env f co)"
  by (simp add: with_client_def Let_def)

lemma fold_ok: "(\<And>x co. buffers_ok co \<Longrightarrow> buffers_ok (f x co)) \<Longrightarrow> buffers_ok co \<Longrightarrow> buffers_ok (fold f xs co)"
  by (induction xs arbitrary: co) simp_all

lemma forget_ok: "buffers_ok (forget_session co)"
proof -
  have "buffers_ok (on_sync Sync_Reset (clear_frames co'))" for co'
    by (cases "co_sync co'") (simp_all add: buffers_ok_def on_sync_def clear_frames_def)
  then show ?thesis by (simp add: forget_session_def Let_def)
qed

lemma transitions_ok [simp]: "buffers_ok co \<Longrightarrow> buffers_ok (SetConnected b co)" "buffers_ok co \<Longrightarrow> buffers_ok (OnLoadingGapDetected co)"
  by (simp_all add: SetConnected_def OnLoadingGapDetected_def Let_def forget_ok)

lemma limb_ok [simp]: "buffers_ok (set_limb k i h co) = buffers_ok co" "buffers_ok (clean_ghost k co) = buffers_ok co"
  by (simp_all add: set_limb_def clean_ghost_def Let_def split: option.splits)

lemma snapshot_ok [simp]: "buffers_ok co \<Longrightarrow> buffers_ok (snapshot_loop env n r co)"
proof (induction n arbitrary: r co)
  case (Suc n)
  have "buffers_ok (apply_snapshot_entity env e co)" for e using Suc.prems by (simp add: apply_snapshot_entity_def Let_def)
  with Suc show ?case by (auto split: option.splits)
qed simp

lemma commands_ok [simp]: "buffers_ok co \<Longrightarrow> buffers_ok (DrainAll env co)"
proof -
  have "buffers_ok (run_command env c co') = buffers_ok co'" for c co' by (cases c) (simp_all add: Let_def)
  then show "buffers_ok co \<Longrightarrow> buffers_ok (DrainAll env co)" by (simp add: DrainAll_def fold_ok)
qed

lemma safe_ok: "buffers_ok co \<Longrightarrow> (type, f) \<in> set (safe_handlers env) \<Longrightarrow> buffers_ok (f r co)"
  by (auto simp: safe_handlers_def HandleHandshakeAck_def HandleHandshakeReject_def HandlePlayerJoined_def client_HandleChatMessage_def
      HandleSystemMessage_def HandleAdminResponse_def HandleHostAssignment_def HandleTradeResult_def HandleFactionAssignment_def HandleLobbyStart_def
      core_HandleAllPlayersReady_def Let_def on_sync_ok fold_ok split: option.splits prod.splits)

lemma world_ok: "buffers_ok co \<Longrightarrow> (type, f) \<in> set (world_handlers env) \<union> set (early_handlers env) \<Longrightarrow> buffers_ok (f r co)"
  by (auto simp: world_handlers_def early_handlers_def core_HandleEntitySpawn_def HandleCombatHit_def client_HandleCombatDeath_def
      client_HandleCombatKO_def HandleTimeSync_def HandleWorldSnapshot_def HandleEntityHeartbeat_def HandleBuildPlaced_def HandleStatUpdate_def
      HandleHealthUpdate_def client_HandleEquipmentUpdate_def client_HandleLimbHealth_def client_HandleStatusEffect_def
      HandleInventoryUpdate_def HandleSquadCreated_def client_HandleFactionRelation_def HandleBuildDestroyed_def HandleBuildProgressUpdate_def
      HandleDoorState_def Let_def fold_ok split: option.splits prod.splits)

lemma packet_buffers_ok [simp]: "buffers_ok co \<Longrightarrow> buffers_ok (client_HandlePacket env data co)"
  by (auto simp: client_HandlePacket_def split: option.splits prod.splits dest!: map_of_SomeD intro: safe_ok world_ok)

lemma core_apply_ok: "buffers_ok co \<Longrightarrow> buffers_ok (core_apply x co)"
  by (cases "(x, co)" rule: core_apply.cases) simp_all

section \<open>The stages\<close>

text \<open>\<open>S\<close> are objects that no entity has yet.\<close>

definition sync_inv :: "u64 set \<Rightarrow> ClientCore \<Rightarrow> bool" where
  "sync_inv S co \<longleftrightarrow> client_inv (co_client co) \<and> buffers_ok co \<and> (\<forall>p \<in> S. um_find (reg_ptrToId (co_registry co)) p = None)"

lemma reg_ok_rotation: "reg_ok s \<Longrightarrow> reg_ok (UpdateRotation k rot s)"
  using reg_step [of s "OpUpdateRotation k rot"] by (simp add: reg_ok_def UpdateRotation_def modify_info_def um_find_modify)

lemma reg_ok_equipment: "reg_ok s \<Longrightarrow> reg_ok (UpdateEquipment k n item s)"
  using reg_step [of s "OpUpdateEquipment k n item"] by (simp add: reg_ok_def UpdateEquipment_def modify_info_def um_find_modify)

lemma reg_ok_unlink: "reg_ok s \<Longrightarrow> reg_ok (SetGameObject k 0 s)"
  using reg_ok_ops(6) [of s 0 k] by (simp add: reg_ok_def reg_inv_def linked_def)

lemma ptrs_same [simp]:
  "reg_ptrToId (UpdatePosition k v s) = reg_ptrToId s" "reg_ptrToId (UpdateRotation k rot s) = reg_ptrToId s"
  "reg_ptrToId (UpdateEquipment k n item s) = reg_ptrToId s"
  by (simp_all add: UpdatePosition_def UpdateRotation_def UpdateEquipment_def modify_info_def)

lemma ptrs_unlink: "um_find (reg_ptrToId s) p = None \<Longrightarrow> um_find (reg_ptrToId (SetGameObject k 0 s)) p = None"
  by (auto simp: SetGameObject_def Let_def um_simps modify_info_def split: option.splits if_splits)

lemma client_parts:
  "co_client (client_send b bs co) = co_client co" "co_client (ai_MarkRemoteControlled x co) = co_client co" "co_client (RequeueSpawn r co) = co_client co"
  by (simp_all add: client_send_def ai_MarkRemoteControlled_def RequeueSpawn_def)

lemma sync_inv_parts [simp]:
  "sync_inv S (ui xs co) = sync_inv S co" "sync_inv S (on_game g co) = sync_inv S co" "sync_inv S (client_send b bs co) = sync_inv S co"
  "sync_inv S (co\<lparr>co_game := h\<rparr>) = sync_inv S co" "sync_inv S (co\<lparr>co_spawnQueue := q\<rparr>) = sync_inv S co"
  "sync_inv S (ai_MarkRemoteControlled x co) = sync_inv S co" "sync_inv S (entity_DecrementSpawnCount p co) = sync_inv S co"
  "sync_inv S (core_OnRemoteCharacterSpawned k x p co) = sync_inv S co" "sync_inv S (RequeueSpawn r co) = sync_inv S co"
  by (simp_all add: sync_inv_def core_simps client_parts)

lemma sync_inv_sync: "sync_inv S co \<Longrightarrow> (\<And>so. co_sync co = Some so \<Longrightarrow> sync_ok so \<Longrightarrow> sync_ok (f so)) \<Longrightarrow> sync_inv S (on_sync f co)"
  by (cases "co_sync co") (auto simp: sync_inv_def core_simps buffers_ok_def on_sync_def)

lemma sync_inv_players [simp]: "sync_inv S co \<Longrightarrow> sync_inv S (on_players f co)"
  by (simp add: on_players_def sync_inv_sync)

lemma sync_inv_reg:
  assumes "sync_inv S co" "\<And>s. reg_ok s \<Longrightarrow> reg_ok (f s)"
    "\<And>s p. um_find (reg_ptrToId s) p = None \<Longrightarrow> um_find (reg_ptrToId (f s)) p = None"
  shows "sync_inv S (on_reg f co)"
  using assms by (auto simp: sync_inv_def on_reg_def core_simps client_simps intro!: inv_registry inv_reg_ok)

lemma sync_inv_move [simp]: "sync_inv S co \<Longrightarrow> sync_inv S (on_reg (UpdateRotation k rot \<circ> UpdatePosition k v) co)"
  by (rule sync_inv_reg) (simp_all add: reg_ok_rotation reg_ok_ops(2))

lemma sync_inv_unlink [simp]: "sync_inv S co \<Longrightarrow> sync_inv S (on_reg (SetGameObject k 0) co)"
  by (rule sync_inv_reg) (simp_all add: reg_ok_unlink ptrs_unlink)

lemma sync_inv_equip [simp]: "sync_inv S co \<Longrightarrow> sync_inv S (on_reg (UpdateEquipment k n item) co)"
  by (rule sync_inv_reg) (simp_all add: reg_ok_equipment)

lemma sync_inv_fold: "(\<And>x co. sync_inv S co \<Longrightarrow> sync_inv S (f x co)) \<Longrightarrow> sync_inv S co \<Longrightarrow> sync_inv S (fold f xs co)"
  by (induction xs arbitrary: co) simp_all

lemma zones_inv [simp]: "sync_inv S co \<Longrightarrow> sync_inv S (StageUpdateZones env co)"
  by (auto simp: StageUpdateZones_def Let_def intro!: sync_inv_sync sync_inv_players sync_inv_fold split: prod.splits)

lemma swap_inv [simp]: "sync_inv S co \<Longrightarrow> sync_inv S (StageSwapBuffers co)"
  by (auto simp: StageSwapBuffers_def sync_ok_def intro!: sync_inv_sync)

lemma apply_inv [simp]: "sync_inv S co \<Longrightarrow> sync_inv S (StageApplyRemotePositions co)"
  by (auto simp: StageApplyRemotePositions_def apply_result_def Let_def intro!: sync_inv_fold)

lemma poll_inv [simp]: "sync_inv S co \<Longrightarrow> sync_inv S (StagePollAndSendPositions env co)"
  by (auto simp: StagePollAndSendPositions_def poll_entity_def Let_def intro!: sync_inv_fold sync_inv_sync split: option.splits)

lemma equipment_inv [simp]: "sync_inv S co \<Longrightarrow> sync_inv S (StagePollAndSendEquipment env co)"
  by (auto simp: StagePollAndSendEquipment_def poll_equipment_def poll_slot_def Let_def intro!: sync_inv_fold sync_inv_sync
      split: option.splits prod.splits)

lemma kick_inv [simp]: "sync_inv S co \<Longrightarrow> sync_inv S (on_write_frame f co)" "sync_inv S co \<Longrightarrow> sync_inv S (StageKickBackgroundWork co)"
  by (auto simp: StageKickBackgroundWork_def on_write_frame_def sync_ok_def intro!: sync_inv_sync)

lemma players_inv [simp]: "sync_inv S co \<Longrightarrow> sync_inv S (StageUpdatePlayers env co)"
  by (simp add: StageUpdatePlayers_def)

lemma read_inv [simp]: "sync_inv S co \<Longrightarrow> sync_inv S (BackgroundReadEntities junk co)"
  by (auto simp: BackgroundReadEntities_def Let_def intro!: sync_inv_fold kick_inv)

lemma interpolate_inv [simp]: "sync_inv S co \<Longrightarrow> sync_inv S (BackgroundInterpolate env co)"
proof -
  have "sync_inv S (on_client (\<lambda>c. c\<lparr>cl_interp := snd (GetInterpolated a b k t (cl_interp (co_client co')))\<rparr>) co')" if "sync_inv S co'" for co' a b k t
    using that by (simp add: sync_inv_def core_simps client_inv_def GetInterpolated_inv)
  then have "sync_inv S (interpolate_entity env k co')" if "sync_inv S co'" for k co'
    using that by (simp add: interpolate_entity_def Let_def case_prod_unfold)
  then show "sync_inv S co \<Longrightarrow> sync_inv S (BackgroundInterpolate env co)" by (auto simp: BackgroundInterpolate_def intro!: sync_inv_fold)
qed

text \<open>A direct spawn links an object that was free, if the game's factory returns a new one.\<close>

definition spawns_in :: "u64 set \<Rightarrow> spawn_env \<Rightarrow> bool" where
  "spawns_in S se \<longleftrightarrow> (\<forall>v n g. fst (se_spawn se v n g) \<in> insert 0 S)"

lemma attempts_ok: "sync_ok so \<Longrightarrow> so_directSpawnAttempts so < 5 \<Longrightarrow> sync_ok (so\<lparr>so_lastDirectAttempt := t, so_directSpawnAttempts := Suc (so_directSpawnAttempts so)\<rparr>)"
  by (simp add: sync_ok_def)

lemma finish_inv:
  assumes "sync_inv S co" "p \<in> S"
  shows "sync_inv {} (finish_spawn se q p co)"
proof -
  have "sync_inv {} (on_reg (UpdatePosition k v \<circ> SetGameObject k p) (on_game g co))" for k v g
    using assms by (auto simp: sync_inv_def on_reg_def core_simps client_simps intro!: inv_registry inv_reg_ok reg_ok_ops(2,6))
  moreover have "sync_inv {} co" using assms(1) by (simp add: sync_inv_def)
  ultimately show ?thesis by (simp add: finish_spawn_def Let_def split: option.splits)
qed

lemma weaken_inv: "sync_inv S co \<Longrightarrow> sync_inv {} co"
  by (simp add: sync_inv_def)

lemma retry_inv: "sync_inv S co \<Longrightarrow> sync_inv S (retry_spawn q co)"
  by (simp add: retry_spawn_def Let_def)

lemma direct_inv:
  assumes "sync_inv S co" "so_directSpawnAttempts (sync_of co) < 5" "spawns_in S se"
  shows "sync_inv {} (direct_spawn env se n co)"
proof -
  let ?co = "on_sync (\<lambda>s. s\<lparr>so_lastDirectAttempt := en_clock env, so_directSpawnAttempts := so_directSpawnAttempts s + 1\<rparr>) co"
  have i: "sync_inv S ?co" using assms(1,2) by (auto intro!: sync_inv_sync attempts_ok simp: sync_of_def)
  show ?thesis
  proof (cases "co_spawnQueue ?co")
    case Nil
    then show ?thesis using weaken_inv [OF i] by (simp add: direct_spawn_def PopNextSpawn_def)
  next
    case (Cons q qs)
    let ?c = "ui [UiSystem (lit ''Attempting direct spawn...'')] (?co\<lparr>co_spawnQueue := qs\<rparr>)"
    obtain p g where r: "se_spawn se (rq_position q) (mod_slot n (rq_owner q)) (co_game ?c) = (p, g)" by fastforce
    have c: "sync_inv S (?c\<lparr>co_game := g\<rparr>)" using i by simp
    have "fst (se_spawn se (rq_position q) (mod_slot n (rq_owner q)) (co_game ?c)) \<in> insert 0 S" using assms(3) by (simp add: spawns_in_def)
    then have "p \<in> insert 0 S" using r by simp
    then have "p \<noteq> 0 \<Longrightarrow> sync_inv {} (finish_spawn se q p (?c\<lparr>co_game := g\<rparr>))" "sync_inv {} (retry_spawn q (?c\<lparr>co_game := g\<rparr>))"
      using finish_inv [OF c] weaken_inv [OF retry_inv [OF c]] by auto
    then show ?thesis using Cons r by (simp add: direct_spawn_def PopNextSpawn_def Let_def)
  qed
qed

lemma waiting_inv [simp]: "sync_inv S co \<Longrightarrow> sync_inv S (track_pending env co)" "sync_inv S co \<Longrightarrow> sync_inv S (show_waiting env co)"
    "sync_inv S co \<Longrightarrow> sync_inv S (log_pending env co)"
  by (auto simp: track_pending_def sync_ok_def intro!: sync_inv_sync, auto simp: show_waiting_def log_pending_def Let_def intro!: sync_inv_sync)

lemma spawns_inv:
  assumes "sync_inv S co" "spawns_in S se"
  shows "sync_inv {} (StageProcessSpawns env se co)"
proof -
  let ?a = "if needs_scan env se (sync_of co) then heap_scan env se co else co"
  let ?co = "log_pending env (show_waiting env (track_pending env ?a))"
  have "sync_inv S ?a" using assms(1) by (auto simp: heap_scan_def intro!: sync_inv_sync)
  then have "sync_inv S ?co" by simp
  moreover have "direct_spawn_due env se ?co \<Longrightarrow> so_directSpawnAttempts (sync_of ?co) < 5" by (simp add: direct_spawn_due_def Let_def)
  ultimately show ?thesis using direct_inv assms(2) weaken_inv by (auto simp: StageProcessSpawns_def Let_def)
qed

lemma tick_inv:
  assumes "sync_inv S co" "spawns_in S se"
  shows "sync_inv {} (snd (Sync_Tick env se co))"
proof -
  let ?co = "StagePollAndSendEquipment env (StagePollAndSendPositions env (StageApplyRemotePositions (StageSwapBuffers (StageUpdateZones env co))))"
  have "sync_inv {} (StageProcessSpawns env se ?co)" by (rule spawns_inv [where S = S]) (use assms in simp_all)
  then show ?thesis using assms(1) weaken_inv by (auto simp: Sync_Tick_def Let_def intro!: sync_inv_sync)
qed

section \<open>Runs\<close>

text \<open>
  The tasks that are posted but not yet done.  The tick waits for them once the pipeline has started; a reset forgets
  that it has, so that old tasks may run later.
\<close>

datatype frame_task = TaskRead | TaskInterpolate

record sync_run =
  sr_core :: ClientCore
  sr_posted :: "frame_task list"

fun run_task :: "core_env \<Rightarrow> (EntityID \<Rightarrow> u32) \<Rightarrow> frame_task \<Rightarrow> ClientCore \<Rightarrow> ClientCore" where
  "run_task env junk TaskRead co = BackgroundReadEntities junk co"
| "run_task env junk TaskInterpolate co = BackgroundInterpolate env co"

definition unlinked :: "ClientCore \<Rightarrow> u64 set" where
  "unlinked co = {p. um_find (reg_ptrToId (co_registry co)) p = None}"

inductive sync_step :: "sync_run \<Rightarrow> sync_run \<Rightarrow> bool" where
  step_tick: "so_pipelineStarted (sync_of (sr_core s)) \<longrightarrow> sr_posted s = [] \<Longrightarrow> spawns_in (unlinked (sr_core s)) se \<Longrightarrow>
     Sync_Tick env se (sr_core s) = (True, co) \<Longrightarrow> sync_step s \<lparr>sr_core = co, sr_posted = sr_posted s @ [TaskRead, TaskInterpolate]\<rparr>"
| step_idle: "Sync_Tick env se (sr_core s) = (False, co) \<Longrightarrow> sync_step s (s\<lparr>sr_core := co\<rparr>)"
| step_task: "sr_posted s = xs @ t # ys \<Longrightarrow> sync_step s \<lparr>sr_core = run_task env junk t (sr_core s), sr_posted = xs @ ys\<rparr>"
| step_core: "core_pre x (sr_core s) \<Longrightarrow> sync_step s (s\<lparr>sr_core := core_apply x (sr_core s)\<rparr>)"

inductive_cases sync_stepE: "sync_step s s'"

definition sync_start :: "GameProcess \<Rightarrow> sync_run" where
  "sync_start g = \<lparr>sr_core = ClientCore_new g, sr_posted = []\<rparr>"

lemma sync_step_inv:
  assumes "sync_step s s'" "sync_inv {} (sr_core s)"
  shows "sync_inv {} (sr_core s')"
  using assms(1)
proof cases
  case (step_tick se env co)
  have "sync_inv (unlinked (sr_core s)) (sr_core s)" using assms(2) by (simp add: sync_inv_def unlinked_def)
  then show ?thesis using tick_inv [of _ _ se env] step_tick by fastforce
next
  case (step_idle env se co)
  then have "co = sr_core s" by (auto simp: Sync_Tick_def Let_def split: if_splits)
  with step_idle assms(2) show ?thesis by simp
next
  case (step_task xs t ys env junk)
  then show ?thesis using assms(2) by (cases t) simp_all
next
  case (step_core x)
  then show ?thesis using assms(2) core_step core_apply_ok by (simp add: sync_inv_def)
qed

lemma sync_start_inv: "sync_inv {} (sr_core (sync_start g))"
  using Client_new_inv by (simp add: sync_start_def ClientCore_new_def sync_inv_def buffers_ok_def)

text \<open>
  Invariant.  In every run of the client, with the tick, its two background tasks, packets, connections and load screens
  in any order, the background tasks never write the buffer the tick reads from, never more than five direct
  spawns are tried in a row, and the replication state stays consistent: the two tables of the registry are inverse, each
  entry has its own id, zone and limbs, and poses are finite.  Packets must not introduce the ids 0 or 0xFFFFFFFF, and
  the game's factory must return new objects.
\<close>

theorem sync_runs_consistent:
  assumes "sync_step\<^sup>*\<^sup>* (sync_start g) s"
  shows "client_inv (co_client (sr_core s)) \<and>
    (case co_sync (sr_core s) of None \<Rightarrow> True | Some so \<Rightarrow>
       so_writeBuffer so < length (so_frameData so) \<and> so_readBuffer so < length (so_frameData so) \<and> so_writeBuffer so \<noteq> so_readBuffer so \<and>
       so_directSpawnAttempts so \<le> 5)"
proof -
  have "sync_inv {} (sr_core s)"
    using assms by (induction rule: rtranclp_induct) (auto intro: sync_start_inv sync_step_inv)
  then show ?thesis by (auto simp: sync_inv_def buffers_ok_def sync_ok_def split: option.splits)
qed

theorem sync_runs_consistent_witness:
  "sync_step\<^sup>*\<^sup>* (sync_start example_walk) ((sync_start example_walk)\<lparr>sr_core := SetConnected True (ClientCore_new example_walk)\<rparr>) \<and>
   client_inv (co_client (SetConnected True (ClientCore_new example_walk)))"
proof -
  have "sync_step (sync_start example_walk) ((sync_start example_walk)\<lparr>sr_core := core_apply (example_core_env, CoConnected True) (sr_core (sync_start example_walk))\<rparr>)"
    by (rule step_core) simp
  then have r: "sync_step\<^sup>*\<^sup>* (sync_start example_walk) ((sync_start example_walk)\<lparr>sr_core := SetConnected True (ClientCore_new example_walk)\<rparr>)"
    by (auto simp: sync_start_def)
  with sync_runs_consistent [OF r] show ?thesis by simp
qed

section \<open>Direct spawns\<close>

lemma spawn_sync: "co_sync co \<noteq> None \<Longrightarrow> co_sync (on_sync f co) \<noteq> None"
  by (auto simp: on_sync_def)

lemma sync_of_on_sync: "co_sync co \<noteq> None \<Longrightarrow> sync_of (on_sync f co) = f (sync_of co)"
  by (auto simp: on_sync_def sync_of_def)

lemma queue_parts [simp]: "co_spawnQueue (on_sync f co) = co_spawnQueue co" "co_spawnQueue (ui xs co) = co_spawnQueue co"
  "sync_of (ui xs co) = sync_of co" "co_sync (ui xs co) = co_sync co"
  by (simp_all add: on_sync_def ui_def sync_of_def)

definition stuck :: "SpawnRequest list \<Rightarrow> ClientCore \<Rightarrow> bool" where
  "stuck q co \<longleftrightarrow> co_spawnQueue co = q \<and> so_directSpawnAttempts (sync_of co) = 5 \<and> co_sync co \<noteq> None"

lemma stuck_ui: "stuck q (ui xs co) = stuck q co"
  by (simp add: stuck_def)

lemma stuck_sync: "stuck q co \<Longrightarrow> (\<And>so. so_directSpawnAttempts (f so) = so_directSpawnAttempts so) \<Longrightarrow> stuck q (on_sync f co)"
  by (simp add: stuck_def sync_of_on_sync spawn_sync del: not_None_eq)

lemma stuck_stage:
  assumes "q \<noteq> []" "stuck q co"
  shows "stuck q (StageProcessSpawns env se co)"
proof -
  let ?a = "if needs_scan env se (sync_of co) then heap_scan env se co else co"
  have "stuck q ?a" using assms(2) by (simp add: heap_scan_def stuck_sync)
  moreover from this have "co_spawnQueue ?a = q" unfolding stuck_def by blast
  ultimately have "stuck q (track_pending env ?a)" using assms(1) by (auto simp: track_pending_def stuck_ui stuck_sync simp del: if_split)
  then have "stuck q (show_waiting env (track_pending env ?a))" by (simp add: show_waiting_def Let_def stuck_ui stuck_sync)
  then have "stuck q (log_pending env (show_waiting env (track_pending env ?a)))" by (simp add: log_pending_def stuck_sync)
  moreover from this have "\<not> direct_spawn_due env se (log_pending env (show_waiting env (track_pending env ?a)))"
    by (simp add: direct_spawn_due_def stuck_def Let_def)
  ultimately show ?thesis by (simp add: StageProcessSpawns_def Let_def)
qed

text \<open>
  Safety, as a defect.  The counter of direct spawns counts the successful ones too and starts again only when the queue is
  empty.  So after five of them, whatever still waits in the queue is never spawned by the tick, however often it runs.
\<close>

theorem direct_spawns_give_up:
  assumes "co_spawnQueue co \<noteq> []" "so_directSpawnAttempts (sync_of co) = 5" "co_sync co \<noteq> None"
  shows "co_spawnQueue (fold (\<lambda>(env, se). StageProcessSpawns env se) steps co) = co_spawnQueue co"
proof -
  have "stuck (co_spawnQueue co) (fold (\<lambda>(env, se). StageProcessSpawns env se) xs co')" if "stuck (co_spawnQueue co) co'" for xs co'
    using that assms(1) by (induction xs arbitrary: co') (auto simp: stuck_stage)
  then show ?thesis using assms by (simp add: stuck_def)
qed

definition example_request :: SpawnRequest where
  "example_request = \<lparr>rq_netId = 7, rq_owner = 2, rq_type = NPC, rq_templateName = [], rq_position = Vec3_default, rq_rotation = Quat_default,
     rq_templateId = 0, rq_factionId = 0, rq_retryCount = 0, rq_hasExtendedState = False, rq_health = default_limbs, rq_alive = True\<rparr>"

definition example_waiting :: ClientCore where
  "example_waiting = (ClientCore_new example_walk)\<lparr>co_spawnQueue := [example_request], co_sync := Some (SyncOrchestrator_new\<lparr>so_directSpawnAttempts := 5\<rparr>)\<rparr>"

definition example_spawner :: spawn_env where
  "example_spawner = \<lparr>se_ready = True, se_manager = True, se_templates = 20, se_modTemplates = 2, se_modTemplatesAfter = 2, se_preCall = True,
     se_spawn = (\<lambda>v n g. (0x22000000, g)), se_addToSquad = (\<lambda>p g. g)\<rparr>"

theorem direct_spawns_give_up_witness:
  "co_spawnQueue (fold (\<lambda>(env, se). StageProcessSpawns env se)
     (map (\<lambda>t. (example_core_env\<lparr>en_clock := t * 1000000000\<rparr>, example_spawner)) [100, 200, 300]) example_waiting) = [example_request]"
proof -
  have "co_spawnQueue example_waiting = [example_request]" "so_directSpawnAttempts (sync_of example_waiting) = 5" "co_sync example_waiting \<noteq> None"
    by (simp_all add: example_waiting_def sync_of_def)
  then show ?thesis using direct_spawns_give_up [of example_waiting] by (simp del: fold_simps list.map)
qed

end
