(* ===== verification/Core_Pipeline.thy ===== *)
theory Core_Pipeline
  imports Sync_Runs
begin

text \<open>
  The default synchronisation pipeline of \<^verbatim>\<open>core.cpp\<close>, which runs when the orchestrator of
  \<^verbatim>\<open>Sync_Orchestrator\<close> is switched off: the state that the tick's functions keep in members and function statics
  beside \<open>ClientCore\<close>, the validation of factions, the positions applied and polled, the background tasks, the teleports,
  and the forced unpause.  A clock that is set when a function is first entered is an option.  Counters and clocks that only
  thin out the log are left out.
\<close>

section \<open>State\<close>

text \<open>The statics of \<^verbatim>\<open>HandleSpawnQueue\<close> that a new connection resets.\<close>

record SpawnStatics =
  st_heapScanned :: bool
  st_heapScanAttempts :: nat
  st_lastHeapScan :: int
  st_firstPendingTime :: int
  st_hasPendingTimer :: bool
  st_directSpawnAttempts :: nat
  st_shownWaitingMsg :: bool
  st_shownTimeoutMsg :: bool
  st_retriedHookEnable :: bool
  st_lastDirectAttempt :: int
  st_directSpawnsPerPlayer :: "(PlayerID, int) umap"

definition SpawnStatics_new :: SpawnStatics where
  "SpawnStatics_new = \<lparr>st_heapScanned = False, st_heapScanAttempts = 0, st_lastHeapScan = 0, st_firstPendingTime = 0,
     st_hasPendingTimer = False, st_directSpawnAttempts = 0, st_shownWaitingMsg = False, st_shownTimeoutMsg = False,
     st_retriedHookEnable = False, st_lastDirectAttempt = 0, st_directSpawnsPerPlayer = []\<rparr>"

record CoreTick =
  tk_core :: ClientCore
  tk_loading :: LoadingOrchestrator
  tk_forceSpawnBypass :: bool
  tk_needsEntityRescan :: bool
  tk_hostTpTimer :: int
  tk_writeBuffer :: nat
  tk_readBuffer :: nat
  tk_lastPollTime :: "int option"
  tk_fallbackFaction :: u64
  tk_gateBlockStart :: int
  tk_gateTimerStarted :: bool
  tk_spawn :: SpawnStatics
  tk_lastStuckCheck :: "int option"
  tk_entityScanRetries :: nat
  tk_wasScanning :: bool
  tk_lastTickTime :: int
  tk_lastKeepalive :: int
  tk_tickCallCount :: nat
  tk_cleanupCounter :: nat

definition CoreTick_new :: "GameProcess \<Rightarrow> CoreTick" where
  "CoreTick_new g = \<lparr>tk_core = ClientCore_new g, tk_loading = LoadingOrchestrator_new, tk_forceSpawnBypass = False,
     tk_needsEntityRescan = False, tk_hostTpTimer = 0, tk_writeBuffer = 0, tk_readBuffer = 1, tk_lastPollTime = None,
     tk_fallbackFaction = 0, tk_gateBlockStart = 0, tk_gateTimerStarted = False, tk_spawn = SpawnStatics_new,
     tk_lastStuckCheck = None, tk_entityScanRetries = 0, tk_wasScanning = False, tk_lastTickTime = 0, tk_lastKeepalive = 0,
     tk_tickCallCount = 0, tk_cleanupCounter = 0\<rparr>"

text \<open>The game's second factory function, and what else the tick reads from outside.\<close>

record factory_env = spawn_env +
  se_random :: "GameProcess \<Rightarrow> u64 \<times> GameProcess"

record tick_env =
  te_core :: core_env
  te_factory :: factory_env
  te_moduleSize :: u64
  te_cosf :: "f32 \<Rightarrow> f32"
  te_playerBase :: u64

abbreviation "te_clock env \<equiv> en_clock (te_core env)"

definition on_core :: "(ClientCore \<Rightarrow> ClientCore) \<Rightarrow> CoreTick \<Rightarrow> CoreTick" where
  "on_core f tk = tk\<lparr>tk_core := f (tk_core tk)\<rparr>"

definition on_spawn :: "(SpawnStatics \<Rightarrow> SpawnStatics) \<Rightarrow> CoreTick \<Rightarrow> CoreTick" where
  "on_spawn f tk = tk\<lparr>tk_spawn := f (tk_spawn tk)\<rparr>"

section \<open>Factions\<close>

definition vtable_in_module :: "u64 \<Rightarrow> u64 \<Rightarrow> GameProcess \<Rightarrow> bool" where
  "vtable_in_module msize f g \<longleftrightarrow>
     (let v = peek64 f (gp_memory g) in v \<noteq> 0 \<and> gp_moduleBase g \<le> v \<and> v < gp_moduleBase g + msize)"

text \<open>\<open>True\<close> is the result 1, repaired; the result -1 needs a fault, which \<^verbatim>\<open>Memory::Read\<close> does not raise.\<close>

definition SEH_ValidateEntityFaction :: "u64 \<Rightarrow> u64 \<Rightarrow> u64 \<Rightarrow> GameProcess \<Rightarrow> bool \<times> GameProcess" where
  "SEH_ValidateEntityFaction p goodFaction msize g =
     (let faction = peek64 (p + 0x10) (gp_memory g) in
      if \<not> aligned_ptr faction \<or> \<not> vtable_in_module msize faction g
      then (True, on_memory (\<lambda>m. snd (Mem_Write (bytes_u64 goodFaction) (p + 0x10) m)) g)
      else (False, g))"

definition good_faction :: "tick_env \<Rightarrow> ClientCore \<Rightarrow> u64" where
  "good_faction env co =
     (let p = GetPrimaryCharacter (co_registry co) (co_controller co); g = co_game co; f = peek64 (p + 0x10) (gp_memory g) in
      if p = 0 \<or> \<not> aligned_ptr f then 0
      else if gp_moduleBase g \<le> f \<and> f < gp_moduleBase g + te_moduleSize env then 0 else f)"

definition validate_one :: "tick_env \<Rightarrow> u64 \<Rightarrow> EntityID \<Rightarrow> ClientCore \<Rightarrow> ClientCore" where
  "validate_one env good k co =
     (let p = GetGameObject k (co_registry co) in
      if p = 0 \<or> p < 0x10000 \<or> 0x00007FFFFFFFFFFF \<le> p then co
      else on_game (\<lambda>g. snd (SEH_ValidateEntityFaction p good (te_moduleSize env) g)) co)"

definition ValidateFactions :: "tick_env \<Rightarrow> CoreTick \<Rightarrow> CoreTick" where
  "ValidateFactions env tk =
     (let good = good_faction env (tk_core tk) in
      if tk_tickCallCount tk mod 50 \<noteq> 0 \<or> good = 0 then tk
      else on_core (fold (validate_one env good) (GetRemoteEntities (co_registry (tk_core tk)))) tk)"

definition SEH_IsFactionValid :: "u64 \<Rightarrow> u64 \<Rightarrow> GameProcess \<Rightarrow> bool" where
  "SEH_IsFactionValid msize f g \<longleftrightarrow> loose_ptr f \<and> f AND 7 = 0 \<and> vtable_in_module msize f g"

definition GetFallbackFaction :: "tick_env \<Rightarrow> CoreTick \<Rightarrow> u64 \<times> CoreTick" where
  "GetFallbackFaction env tk =
     (let f = tk_fallbackFaction tk in
      if f \<noteq> 0 \<and> \<not> SEH_IsFactionValid (te_moduleSize env) f (co_game (tk_core tk)) then (0, tk\<lparr>tk_fallbackFaction := 0\<rparr>) else (f, tk))"

definition GetEarlyPlayerFaction :: "tick_env \<Rightarrow> CoreTick \<Rightarrow> u64 \<times> CoreTick" where
  "GetEarlyPlayerFaction env tk =
     (let f = co_earlyFaction (tk_core tk) in
      if f \<noteq> 0 \<and> \<not> SEH_IsFactionValid (te_moduleSize env) f (co_game (tk_core tk))
      then (0, on_core (\<lambda>co. co\<lparr>co_earlyFaction := 0\<rparr>) tk) else (f, tk))"

definition UpdateFallbackFaction :: "u64 \<Rightarrow> CoreTick \<Rightarrow> CoreTick" where
  "UpdateFallbackFaction f tk = (if user_ptr f \<and> f AND 7 = 0 then tk\<lparr>tk_fallbackFaction := f\<rparr> else tk)"

definition SEH_CheckIsPlayerFaction :: "u64 \<Rightarrow> GameProcess \<Rightarrow> bool" where
  "SEH_CheckIsPlayerFaction f g = (let off = fao_isPlayerFaction (gof_faction (gp_offsets g)) in
     0 \<le> off \<and> peek_bool (at_offset f off) (gp_memory g))"

text \<open>One character of the scan: the best faction so far and whether it is certain.\<close>

definition revalidate_character :: "tick_env \<Rightarrow> GameProcess \<Rightarrow> u64 \<Rightarrow> u64 \<times> bool \<Rightarrow> u64 \<times> bool" where
  "revalidate_character env g p s =
     (let f = Character_GetFactionPtr p g; cfg = en_playerName (te_core env); name = Character_GetName p g; (best, found) = s in
      if \<not> loose_ptr f \<or> f AND 7 \<noteq> 0 then s
      else if \<not> SEH_IsFactionValid (te_moduleSize env) f g then s
      else if in_image f g then s
      else if \<not> found \<and> cfg \<noteq> [] \<and> length name = length cfg \<and> strnicmp_eq name cfg (length cfg) then (f, True)
      else if \<not> found \<and> SEH_CheckIsPlayerFaction f g then (f, True)
      else if best = 0 then (f, found) else s)"

definition RevalidateFaction :: "tick_env \<Rightarrow> CoreTick \<Rightarrow> bool \<times> CoreTick" where
  "RevalidateFaction env tk =
     (let co = tk_core tk; g = co_game co; valid = (\<lambda>f. f \<noteq> 0 \<and> SEH_IsFactionValid (te_moduleSize env) f g); fallback = tk_fallbackFaction tk in
      if valid (co_earlyFaction co) \<or> valid (pct_localFactionPtr (co_controller co)) then (True, tk)
      else if valid fallback then (True, on_core (\<lambda>c. on_controller (SetLocalFactionPtr fallback) (c\<lparr>co_earlyFaction := fallback\<rparr>)) tk)
      else
        let tk1 = on_core (\<lambda>c. c\<lparr>co_earlyFaction := 0\<rparr>) (tk\<lparr>tk_fallbackFaction := 0\<rparr>);
            best = fst (fold (revalidate_character env g) (take 20 (filter (\<lambda>p. p \<noteq> 0) (all_characters g))) (0, False))
        in if best \<noteq> 0
           then (True, on_core (on_controller (SetLocalFactionPtr best)) (UpdateFallbackFaction best (on_core (\<lambda>c. c\<lparr>co_earlyFaction := best\<rparr>) tk1)))
           else (False, tk1))"

text \<open>The last pointer of the chain is only required to lead to a vtable that is not null.\<close>

definition bad_faction :: "u64 \<Rightarrow> bool" where
  "bad_faction f \<longleftrightarrow> f < 0x10000 \<or> 0x00007FFFFFFFFFFF < f"

definition SEH_FixUpFaction_Core :: "tick_env \<Rightarrow> u64 \<Rightarrow> CoreTick \<Rightarrow> bool \<times> CoreTick" where
  "SEH_FixUpFaction_Core env p tk =
     (let g = co_game (tk_core tk); current = peek64 (p + 0x10) (gp_memory g) in
      if aligned_ptr current \<and> vtable_in_module (te_moduleSize env) current g then (False, tk)
      else
        let (f1, tk1) = GetFallbackFaction env tk;
            (f2, tk2) = (if bad_faction f1 then GetEarlyPlayerFaction env tk1 else (f1, tk1));
            f3 = (if bad_faction f2 then pct_localFactionPtr (co_controller (tk_core tk2)) else f2)
        in if bad_faction f3 then (False, tk2)
           else if peek64 f3 (gp_memory g) = 0 then (False, tk2)
           else (True, on_core (on_game (on_memory (\<lambda>m. snd (Mem_Write (bytes_u64 f3) (p + 0x10) m)))) tk2))"

section \<open>After a spawn\<close>

definition SEH_FallbackPostSpawnSetup :: "u64 \<Rightarrow> EntityID \<Rightarrow> PlayerID \<Rightarrow> Vec3 \<Rightarrow> ClientCore \<Rightarrow> ClientCore" where
  "SEH_FallbackPostSpawnSetup p netId owner pos co =
     (let co1 = (if nonzero_pos pos then on_game (\<lambda>g. snd (Character_WritePosition pos p g)) co else co);
          co2 = ai_MarkRemoteControlled p (core_OnRemoteCharacterSpawned netId p owner co1)
      in on_game (ScheduleDeferredAnimClassProbe p) co2)"

section \<open>Positions of remote characters\<close>

definition valid_object :: "u64 \<Rightarrow> bool" where
  "valid_object p \<longleftrightarrow> 0x10000 \<le> p \<and> p < 0x00007FFFFFFFFFFF \<and> p AND 7 = 0"

definition write_pose :: "EntityID \<Rightarrow> u64 \<Rightarrow> Vec3 \<Rightarrow> Quat \<Rightarrow> ClientCore \<Rightarrow> ClientCore" where
  "write_pose k p pos rot co = on_reg (UpdateRotation k rot \<circ> UpdatePosition k pos) (on_game (SEH_WritePositionRotation p pos rot) co)"

definition apply_cached :: "CachedRemoteResult \<Rightarrow> ClientCore \<Rightarrow> ClientCore" where
  "apply_cached r co =
     (let p = GetGameObject (crr_netId r) (co_registry co) in
      if \<not> crr_valid r \<or> p = 0 then co else write_pose (crr_netId r) p (crr_position r) (crr_rotation r) co)"

definition ApplyRemotePositions :: "CoreTick \<Rightarrow> CoreTick" where
  "ApplyRemotePositions tk =
     (let f = co_frameData (tk_core tk) ! tk_readBuffer tk in
      if \<not> fd_ready f then tk else on_core (fold apply_cached (fd_remoteResults f)) tk)"

definition apply_direct :: "core_env \<Rightarrow> EntityID \<Rightarrow> ClientCore \<Rightarrow> ClientCore" where
  "apply_direct env k co =
     (let p = GetGameObject k (co_registry co) in
      if p = 0 then co
      else if \<not> valid_object p then on_reg (SetGameObject k 0) co
      else (case GetInterpolated (en_acosf env) (en_sinf env) k (en_now env) (cl_interp (co_client co)) of
        (out, ip) \<Rightarrow>
          let co1 = on_client (\<lambda>c. c\<lparr>cl_interp := ip\<rparr>) co in
          (case out of None \<Rightarrow> co1 | Some x \<Rightarrow> write_pose k p (po_pos x) (po_rot x) co1)))"

definition ApplyRemotePositionsDirect :: "tick_env \<Rightarrow> CoreTick \<Rightarrow> CoreTick" where
  "ApplyRemotePositionsDirect env tk =
     on_core (fold (apply_direct (te_core env)) (GetRemoteEntities (co_registry (tk_core tk)))) tk"

section \<open>Positions of the player's characters\<close>

definition speed_anim :: "f32 \<Rightarrow> u8" where
  "speed_anim speed = (if f32_lt (f32_of_int 5) speed then 2 else if f32_lt (f32_lit 1 2) speed then 1 else 0)"

definition poll_local :: "int \<Rightarrow> EntityID \<Rightarrow> ClientCore \<Rightarrow> ClientCore" where
  "poll_local elapsed netId co = (case GetInfo netId (co_registry co) of
     None \<Rightarrow> co
   | Some info \<Rightarrow>
       let p = GetGameObject netId (co_registry co) in
       if p = 0 then co
       else if \<not> valid_object p then on_reg (SetGameObject netId 0) co
       else
         let pos = Character_GetPosition p (co_game co); rotation = Character_GetRotation p (co_game co);
             dist = DistanceTo pos (ei_lastPosition info)
         in if f32_lt dist KMP_POS_CHANGE_THRESHOLD then co
            else
              let elapsedSec = f32_div (f32_of_int elapsed) (f32_of_int 1000);
                  speed = (if f32_lt (f32_lit 1 1000) elapsedSec then f32_div dist elapsedSec else 0)
              in on_reg (UpdateRotation netId rotation \<circ> UpdatePosition netId pos)
                   (client_send False (position_packet netId pos (Compress rotation) (speed_anim speed) (speed_byte speed) (move_flags speed)) co))"

definition PollLocalPositions :: "tick_env \<Rightarrow> CoreTick \<Rightarrow> CoreTick" where
  "PollLocalPositions env tk =
     (let co = tk_core tk; me = co_localPlayerId co; now = te_clock env;
          last = (case tk_lastPollTime tk of None \<Rightarrow> now | Some t \<Rightarrow> t); elapsed = whole_millis (now - last)
      in if \<not> co_connected co \<or> me = 0 then tk
         else if elapsed < KMP_TICK_INTERVAL_MS then tk\<lparr>tk_lastPollTime := Some last\<rparr>
         else on_core (fold (poll_local elapsed) (GetPlayerEntities me (co_registry co))) (tk\<lparr>tk_lastPollTime := Some now\<rparr>))"

definition SendCachedPackets :: "CoreTick \<Rightarrow> CoreTick" where
  "SendCachedPackets tk =
     (let f = co_frameData (tk_core tk) ! tk_readBuffer tk in
      if \<not> fd_ready f \<or> fd_packetBytes f = [] then tk else on_core (client_send False (fd_packetBytes f)) tk)"

section \<open>Teleports\<close>

text \<open>The squad in a grid of four columns, three metres apart.\<close>

definition grid_place :: "Vec3 \<Rightarrow> nat \<Rightarrow> Vec3" where
  "grid_place v n = v\<lparr>vx := f32_add (vx v) (f32_mul (f32_of_int (int (n mod 4))) (f32_of_int 3)),
                      vz := f32_add (vz v) (f32_mul (f32_of_int (int (n div 4))) (f32_of_int 3))\<rparr>"

definition teleport_one :: "Vec3 \<Rightarrow> EntityID \<Rightarrow> nat \<times> ClientCore \<Rightarrow> nat \<times> ClientCore" where
  "teleport_one v k s =
     (let (n, co) = s; p = GetGameObject k (co_registry co) in
      if p = 0 then s
      else (case Character_WritePosition (grid_place v n) p (co_game co) of
        (ok, g) \<Rightarrow> if ok then (Suc n, on_reg (UpdatePosition k (grid_place v n)) (co\<lparr>co_game := g\<rparr>)) else (n, co\<lparr>co_game := g\<rparr>)))"

definition HandleHostTeleport :: "tick_env \<Rightarrow> CoreTick \<Rightarrow> CoreTick" where
  "HandleHostTeleport env tk = (let co = tk_core tk in case cl_hostSpawnPoint (co_client co) of
     None \<Rightarrow> tk
   | Some hostPos \<Rightarrow>
       if co_spawnTeleportDone co \<or> co_isHost co then tk
       else
         let tk1 = (if co_hostTpTimerStarted co then tk
                    else on_core (\<lambda>c. c\<lparr>co_hostTpTimerStarted := True\<rparr>) (tk\<lparr>tk_hostTpTimer := te_clock env\<rparr>));
             ks = GetPlayerEntities (co_localPlayerId co) (co_registry co)
         in if whole_seconds (te_clock env - tk_hostTpTimer tk1) < 2 \<or> ks = [] then tk1
            else (case fold (teleport_one hostPos) ks (0, tk_core tk1) of
              (n, co1) \<Rightarrow> tk1\<lparr>tk_core := (if 0 < n
                 then ui [UiOverlaySystem (lit ''Teleported to host location!''), UiSystem (lit ''Teleported '' @ dec_nat n @ lit '' characters to host!'')]
                        (co1\<lparr>co_spawnTeleportDone := True\<rparr>)
                 else co1)\<rparr>))"

text \<open>The nearest remote entity whose last position is not the origin: distance, position, id and owner.\<close>

definition nearer_remote :: "EntityRegistry \<Rightarrow> Vec3 \<Rightarrow> EntityID \<Rightarrow> f32 \<times> Vec3 \<times> EntityID \<times> PlayerID \<Rightarrow> f32 \<times> Vec3 \<times> EntityID \<times> PlayerID" where
  "nearer_remote reg from k best = (case GetInfo k reg of
     None \<Rightarrow> best
   | Some info \<Rightarrow>
       let r = ei_lastPosition info; dist = DistanceTo from r in
       if f32_eq (vx r) 0 \<and> f32_eq (vy r) 0 \<and> f32_eq (vz r) 0 then best
       else if f32_lt dist (fst best) then (dist, r, k, ei_ownerPlayerId info) else best)"

definition nearest_remote :: "EntityRegistry \<Rightarrow> Vec3 \<Rightarrow> f32 \<times> Vec3 \<times> EntityID \<times> PlayerID" where
  "nearest_remote reg from = fold (nearer_remote reg from) (GetRemoteEntities reg) (f32_of_int 1000000000000000000, Vec3_new 0 0 0, INVALID_ENTITY, 0)"

definition name_or_id :: "PlayerID \<Rightarrow> PlayerController \<Rightarrow> bytes" where
  "name_or_id owner pc = (case GetRemotePlayer owner pc of Some rp \<Rightarrow> rps_playerName rp | None \<Rightarrow> lit ''Player_'' @ dec_nat (unat owner))"

definition TeleportToNearestRemotePlayer :: "ClientCore \<Rightarrow> bool \<times> ClientCore" where
  "TeleportToNearestRemotePlayer co =
     (let reg = co_registry co; ks = GetPlayerEntities (co_localPlayerId co) reg in
      if \<not> co_connected co then (False, ui [UiSystem (lit ''Not connected to a server.'')] co)
      else if GetRemoteEntities reg = [] then (False, ui [UiSystem (lit ''No remote players found.'')] co)
      else (case ks of
        [] \<Rightarrow> (False, ui [UiSystem (lit ''No local characters registered.'')] co)
      | k # _ \<Rightarrow>
          let first = GetGameObject k reg; from = (if first = 0 then Vec3_new 0 0 0 else Character_GetPosition first (co_game co));
              (dist, pos, bestId, owner) = nearest_remote reg from
          in if bestId = INVALID_ENTITY then (False, ui [UiSystem (lit ''No remote players with valid positions found.'')] co)
             else (case fold (teleport_one pos) ks (0, co) of
               (n, co1) \<Rightarrow>
                 let name = name_or_id owner (co_controller co) in
                 if 0 < n then (True, ui [UiSystem (lit ''Teleported to '' @ name @ lit ''!''),
                     UiOverlaySystem (lit ''Teleported '' @ dec_nat n @ lit '' characters to '' @ name)] co1)
                 else (False, ui [UiSystem (lit ''Teleport failed '' @ [0xE2, 0x80, 0x94] @ lit '' no valid local characters.'')] co1))))"

section \<open>Background work\<close>

definition core_write_frame :: "nat \<Rightarrow> (FrameData \<Rightarrow> FrameData) \<Rightarrow> ClientCore \<Rightarrow> ClientCore" where
  "core_write_frame w f co = co\<lparr>co_frameData := (co_frameData co)[w := f (co_frameData co ! w)]\<rparr>"

definition core_read_entity :: "ClientCore \<Rightarrow> EntityID \<Rightarrow> (CachedEntityPos \<times> CharacterPosition) option" where
  "core_read_entity co netId =
     (let p = GetGameObject netId (co_registry co) in
      case (SEH_ReadCharacterBG p (co_game co), GetInfo netId (co_registry co)) of
        (Some rd, Some info) \<Rightarrow>
          let pos = bg_pos rd; dist = DistanceTo pos (ei_lastPosition info) in
          if ei_isRemote info then None
          else if f32_eq (vx pos) 0 \<and> f32_eq (vy pos) 0 \<and> f32_eq (vz pos) 0 then None
          else if f32_lt dist KMP_POS_CHANGE_THRESHOLD then None
          else
            let speed = effective_speed (bg_speed rd) (if 0 < ei_lastUpdateTick info then f32_div dist (f32_lit 16 1000) else 0);
                anim = derived_anim (bg_animState rd) speed
            in Some (\<lparr>ch_netId = netId, ch_position = pos, ch_rotation = bg_rot rd, ch_speed = speed, ch_animState = anim, ch_dirty = True\<rparr>,
                 \<lparr>CharacterPosition_entityId = netId, CharacterPosition_generation = ei_generation info, CharacterPosition_posX = vx pos,
                  CharacterPosition_posY = vy pos, CharacterPosition_posZ = vz pos, CharacterPosition_compressedQuat = Compress (bg_rot rd),
                  CharacterPosition_animStateId = anim, CharacterPosition_moveSpeed = speed_byte speed,
                  CharacterPosition_flags = move_flags speed\<rparr>)
      | _ \<Rightarrow> None)"

definition Core_BackgroundReadEntities :: "CoreTick \<Rightarrow> CoreTick" where
  "Core_BackgroundReadEntities tk =
     (let co = tk_core tk; w = tk_writeBuffer tk;
          found = List.map_filter (core_read_entity co) (GetPlayerEntities (co_localPlayerId co) (co_registry co));
          co1 = core_write_frame w (\<lambda>f. f\<lparr>fd_localEntities := fd_localEntities f @ map fst found,
                  fd_packetBytes := (if found = [] then fd_packetBytes f else batch_packet (map snd found))\<rparr>) co;
          co2 = fold (\<lambda>(c, cp). on_reg (UpdateRotation (ch_netId c) (ch_rotation c) \<circ> UpdatePosition (ch_netId c) (ch_position c))) found co1
      in tk\<lparr>tk_core := core_write_frame w (\<lambda>f. f\<lparr>fd_ready := True\<rparr>) co2\<rparr>)"

definition core_interpolate :: "core_env \<Rightarrow> nat \<Rightarrow> EntityID \<Rightarrow> ClientCore \<Rightarrow> ClientCore" where
  "core_interpolate env w k co =
     (let (out, ip) = GetInterpolated (en_acosf env) (en_sinf env) k (en_now env) (cl_interp (co_client co));
          r = (case out of
                 None \<Rightarrow> \<lparr>crr_netId = k, crr_position = Vec3_default, crr_rotation = Quat_default, crr_moveSpeed = 0, crr_animState = 0, crr_valid = False\<rparr>
               | Some x \<Rightarrow> \<lparr>crr_netId = k, crr_position = po_pos x, crr_rotation = po_rot x, crr_moveSpeed = po_moveSpeed x,
                            crr_animState = po_animState x, crr_valid = True\<rparr>)
      in core_write_frame w (\<lambda>f. f\<lparr>fd_remoteResults := fd_remoteResults f @ [r]\<rparr>) (on_client (\<lambda>c. c\<lparr>cl_interp := ip\<rparr>) co))"

definition Core_BackgroundInterpolate :: "tick_env \<Rightarrow> CoreTick \<Rightarrow> CoreTick" where
  "Core_BackgroundInterpolate env tk =
     on_core (fold (core_interpolate (te_core env) (tk_writeBuffer tk)) (GetRemoteEntities (co_registry (tk_core tk)))) tk"

text \<open>The swap at the tick's begin, and the clearing of the write buffer before the tasks are posted.\<close>

definition SwapBuffers :: "CoreTick \<Rightarrow> CoreTick" where
  "SwapBuffers tk = (if co_pipelineStarted (tk_core tk)
     then tk\<lparr>tk_writeBuffer := tk_readBuffer tk, tk_readBuffer := tk_writeBuffer tk\<rparr> else tk)"

definition KickBackgroundWork :: "CoreTick \<Rightarrow> CoreTick" where
  "KickBackgroundWork tk = on_core (\<lambda>co. (core_write_frame (tk_writeBuffer tk) (\<lambda>f. FrameData_Clear) co)\<lparr>co_pipelineStarted := True\<rparr>) tk"

section \<open>Gates of the tick\<close>

definition send_keepalive :: "tick_env \<Rightarrow> CoreTick \<Rightarrow> CoreTick" where
  "send_keepalive env tk = (if 5 \<le> whole_seconds (te_clock env - tk_lastKeepalive tk)
     then on_core (client_send True (packet [hdr C2S_Keepalive])) (tk\<lparr>tk_lastKeepalive := te_clock env\<rparr>) else tk)"

definition whole_micros :: "int \<Rightarrow> int" where
  "whole_micros ns = sgn ns * (\<bar>ns\<bar> div 1000)"

definition duplicate_tick :: "tick_env \<Rightarrow> CoreTick \<Rightarrow> bool" where
  "duplicate_tick env tk \<longleftrightarrow> whole_micros (te_clock env - tk_lastTickTime tk) < 4000"

text \<open>The world's pause flag and speed, when the singleton resolves.\<close>

definition ForceUnpause :: "GameProcess \<Rightarrow> GameProcess" where
  "ForceUnpause g = (if gp_resolvedGameWorld g = 0 then g
     else (case Read64 (gp_resolvedGameWorld g) (gp_memory g) of
       None \<Rightarrow> g
     | Some w \<Rightarrow>
         if \<not> user_ptr w then g
         else
           let o1 = gof_world (gp_offsets g); pausedAt = at_offset w (wro_paused o1); speedAt = at_offset w (wro_gameSpeed o1);
               g1 = (if peek8 pausedAt (gp_memory g) \<noteq> 0 then on_memory (\<lambda>m. snd (Mem_Write (bytes_u8 0) pausedAt m)) g else g);
               speed = peek32 0 speedAt (gp_memory g1)
           in if f32_lt speed (f32_lit 1 2) \<or> f32_lt (f32_lit 7 2) speed
              then on_memory (\<lambda>m. snd (Mem_Write (bytes_u32 (f32_of_int 1)) speedAt m)) g1 else g1))"

definition CleanupSnapshots :: "tick_env \<Rightarrow> CoreTick \<Rightarrow> CoreTick" where
  "CleanupSnapshots env tk =
     (let tk1 = tk\<lparr>tk_cleanupCounter := Suc (tk_cleanupCounter tk)\<rparr> in
      if tk_cleanupCounter tk1 mod 300 = 0
      then on_core (on_client (CleanupOld (en_now (te_core env)) (f32_of_int 10))) tk1 else tk1)"

end
