(* ===== verification/Core_Spawns.thy ===== *)
theory Core_Spawns
  imports Core_Pipeline
begin

text \<open>
  The queue of spawn requests as the default pipeline works it off (\<^verbatim>\<open>Core::HandleSpawnQueue\<close>), in the order of the
  code: the gate with its time-out, the reset of the statics, the heap scan, the messages to the player, one request
  per second, the clean-up of entities that were never spawned; with the commands that force spawns and
  \<^verbatim>\<open>AssetFacilitator\<close>.  The templates and the game's factory are in \<open>factory_env\<close>.
\<close>

section \<open>The loading facade\<close>

text \<open>\<open>None\<close> is a facade to which no orchestrator is bound.\<close>

definition CanSpawn :: "int \<Rightarrow> LoadingOrchestrator option \<Rightarrow> bool" where
  "CanSpawn now orch = (case orch of None \<Rightarrow> True | Some lo \<Rightarrow> IsSafeToSpawn now lo)"

definition IsGameLoading :: "LoadingOrchestrator option \<Rightarrow> bool" where
  "IsGameLoading orch = (case orch of None \<Rightarrow> False | Some lo \<Rightarrow> lo_phase lo = InitialLoad)"

definition IsZoneLoading :: "LoadingOrchestrator option \<Rightarrow> bool" where
  "IsZoneLoading orch = (case orch of None \<Rightarrow> False | Some lo \<Rightarrow> lo_phase lo = ZoneTransition)"

definition Facilitator_GetPhase :: "LoadingOrchestrator option \<Rightarrow> LoadingPhase" where
  "Facilitator_GetPhase orch = (case orch of None \<Rightarrow> Idle | Some lo \<Rightarrow> lo_phase lo)"

record LoadingStats =
  ls_pendingResources :: nat
  ls_loadedResources :: nat
  ls_currentPhase :: LoadingPhase
  ls_safeToSpawn :: bool
  ls_gameLoaded :: bool
  ls_burstCount :: nat

definition Facilitator_GetStats :: "int \<Rightarrow> LoadingOrchestrator option \<Rightarrow> LoadingStats" where
  "Facilitator_GetStats now orch = (case orch of
     None \<Rightarrow> \<lparr>ls_pendingResources = 0, ls_loadedResources = 0, ls_currentPhase = Idle, ls_safeToSpawn = True, ls_gameLoaded = False, ls_burstCount = 0\<rparr>
   | Some lo \<Rightarrow> \<lparr>ls_pendingResources = length (lo_pending lo), ls_loadedResources = lo_totalLoaded lo, ls_currentPhase = lo_phase lo,
       ls_safeToSpawn = IsSafeToSpawn now lo, ls_gameLoaded = lo_gameLoaded lo, ls_burstCount = lo_burstCount lo\<rparr>)"

section \<open>The gate\<close>

abbreviation "tk_queue tk \<equiv> co_spawnQueue (tk_core tk)"

definition dash :: bytes where "dash = [0xE2, 0x80, 0x94]"

definition spawn_gate :: "tick_env \<Rightarrow> CoreTick \<Rightarrow> bool \<times> CoreTick" where
  "spawn_gate env tk =
     (let now = te_clock env in
      if \<not> IsGameLoaded (tk_core tk) then (False, tk)
      else if CanSpawn now (Some (tk_loading tk)) \<or> tk_forceSpawnBypass tk then (True, tk)
      else if tk_queue tk = [] then (False, tk\<lparr>tk_gateTimerStarted := False\<rparr>)
      else
        let tk1 = (if tk_gateTimerStarted tk then tk else tk\<lparr>tk_gateBlockStart := now, tk_gateTimerStarted := True\<rparr>) in
        if 8 \<le> whole_seconds (now - tk_gateBlockStart tk1)
        then (True, on_core (ui [UiSystem (lit ''Spawn gate bypassed (timeout) '' @ dash @ lit '' forcing spawn...'')])
                      (tk1\<lparr>tk_gateTimerStarted := False\<rparr>))
        else (False, tk1))"

text \<open>The time of the first pending request is not among what is reset.\<close>

definition reset_statics :: "CoreTick \<Rightarrow> CoreTick" where
  "reset_statics tk = (if co_needSpawnQueueReset (tk_core tk)
     then on_core (\<lambda>co. co\<lparr>co_needSpawnQueueReset := False\<rparr>)
       (tk\<lparr>tk_spawn := SpawnStatics_new\<lparr>st_firstPendingTime := st_firstPendingTime (tk_spawn tk)\<rparr>, tk_wasScanning := False,
           tk_entityScanRetries := 0\<rparr>)
     else tk)"

section \<open>Scan and messages\<close>

definition scan_due :: "tick_env \<Rightarrow> CoreTick \<Rightarrow> bool" where
  "scan_due env tk \<longleftrightarrow> (let st = tk_spawn tk; se = te_factory env in
     (\<not> st_heapScanned st \<or> se_modTemplates se = 0 \<and> st_heapScanAttempts st < 5) \<and> se_ready se \<and>
     5 \<le> whole_seconds (te_clock env - st_lastHeapScan st) \<and> (se_manager se \<or> se_templates se < 10))"

definition core_heap_scan :: "tick_env \<Rightarrow> CoreTick \<Rightarrow> CoreTick" where
  "core_heap_scan env = on_spawn (\<lambda>s. s\<lparr>st_heapScanAttempts := st_heapScanAttempts s + 1, st_lastHeapScan := te_clock env, st_heapScanned := True\<rparr>)"

definition core_track_pending :: "tick_env \<Rightarrow> CoreTick \<Rightarrow> CoreTick" where
  "core_track_pending env tk =
     (if tk_queue tk \<noteq> [] \<and> \<not> st_hasPendingTimer (tk_spawn tk)
      then on_core (ui [UiSystem (lit ''Spawning remote player...'')])
        (on_spawn (\<lambda>s. s\<lparr>st_firstPendingTime := te_clock env, st_hasPendingTimer := True, st_shownWaitingMsg := False, st_shownTimeoutMsg := False\<rparr>) tk)
      else if tk_queue tk = []
      then on_spawn (\<lambda>s. s\<lparr>st_hasPendingTimer := False, st_directSpawnAttempts := 0, st_shownWaitingMsg := False, st_shownTimeoutMsg := False\<rparr>) tk
      else tk)"

definition pending_for :: "tick_env \<Rightarrow> CoreTick \<Rightarrow> int" where
  "pending_for env tk = whole_seconds (te_clock env - st_firstPendingTime (tk_spawn tk))"

definition core_show_waiting :: "tick_env \<Rightarrow> CoreTick \<Rightarrow> CoreTick" where
  "core_show_waiting env tk =
     (if tk_queue tk \<noteq> [] \<and> st_hasPendingTimer (tk_spawn tk) then
        let tk1 = (if 10 \<le> pending_for env tk \<and> \<not> st_shownWaitingMsg (tk_spawn tk)
                   then on_core (ui [UiSystem (lit ''Spawning taking longer than expected...'')]) (on_spawn (\<lambda>s. s\<lparr>st_shownWaitingMsg := True\<rparr>) tk)
                   else tk)
        in if 30 \<le> pending_for env tk1 \<and> \<not> st_shownTimeoutMsg (tk_spawn tk1)
           then on_core (ui [UiSystem (lit ''Spawn timeout! Ensure kenshi-online.mod is loaded.'')]) (on_spawn (\<lambda>s. s\<lparr>st_shownTimeoutMsg := True\<rparr>) tk1)
           else tk1
      else tk)"

section \<open>One request\<close>

definition direct_spawns :: "PlayerID \<Rightarrow> CoreTick \<Rightarrow> int" where
  "direct_spawns owner tk = (case um_find (st_directSpawnsPerPlayer (tk_spawn tk)) owner of None \<Rightarrow> 0 | Some n \<Rightarrow> n)"

definition bump_spawns :: "PlayerID \<Rightarrow> CoreTick \<Rightarrow> CoreTick" where
  "bump_spawns owner tk = on_spawn (\<lambda>s. s\<lparr>st_directSpawnsPerPlayer := um_set owner (direct_spawns owner tk + 1) (st_directSpawnsPerPlayer s)\<rparr>) tk"

definition MAX_DIRECT_SPAWNS_PER_PLAYER :: int where "MAX_DIRECT_SPAWNS_PER_PLAYER = 1"

definition link_object :: "SpawnRequest \<Rightarrow> u64 \<Rightarrow> ClientCore \<Rightarrow> ClientCore" where
  "link_object q p = on_reg (UpdatePosition (rq_netId q) (rq_position q) \<circ> SetGameObject (rq_netId q) p)"

definition extended_health :: "SpawnRequest \<Rightarrow> u64 \<Rightarrow> ClientCore \<Rightarrow> ClientCore" where
  "extended_health q p co = (if rq_hasExtendedState q
     then on_game (write_health p (rq_health q)) (on_reg (UpdateLimbHealth (rq_netId q) (rq_health q)) co) else co)"

definition spawn_proxy :: "SpawnRequest \<Rightarrow> ClientCore \<Rightarrow> ClientCore" where
  "spawn_proxy q = hook [HkCreateProxy (rq_netId q) (rq_owner q) (rq_position q) (rq_rotation q)]"

text \<open>Both counters, after a character was linked or spawned.\<close>

definition spawn_done :: "SpawnRequest \<Rightarrow> bytes \<Rightarrow> CoreTick \<Rightarrow> CoreTick" where
  "spawn_done q msg tk = on_core (ui [UiSystem msg])
     (bump_spawns (rq_owner q) (on_spawn (\<lambda>s. s\<lparr>st_directSpawnAttempts := st_directSpawnAttempts s + 1\<rparr>) tk))"

definition link_mod_character :: "tick_env \<Rightarrow> SpawnRequest \<Rightarrow> u64 \<Rightarrow> CoreTick \<Rightarrow> CoreTick" where
  "link_mod_character env q p tk =
     (let co1 = ai_MarkRemoteControlled p (link_object q p (tk_core tk));
          co2 = core_WriteGameDataName p (rq_owner q) (SEH_FallbackPostSpawnSetup p (rq_netId q) (rq_owner q) (rq_position q) co1);
          co3 = SEH_AllyModFaction (te_core env) p (spawn_proxy q (extended_health q p co2))
      in spawn_done q (lit ''Remote player linked (deferred)!'') (tk\<lparr>tk_core := co3\<rparr>))"

text \<open>The owner as a signed number, reduced to the templates there are.\<close>

definition core_mod_slot :: "nat \<Rightarrow> PlayerID \<Rightarrow> nat" where
  "core_mod_slot templates owner = (if 0 < templates \<and> 0 < sint owner then nat ((sint owner - 1) mod int templates) else 0)"

definition set_game :: "GameProcess \<Rightarrow> CoreTick \<Rightarrow> CoreTick" where
  "set_game g = on_core (\<lambda>co. co\<lparr>co_game := g\<rparr>)"

text \<open>The template's spawn, then the random one: the object, and whether the template was used.\<close>

definition factory_spawn :: "tick_env \<Rightarrow> nat \<Rightarrow> SpawnRequest \<Rightarrow> GameProcess \<Rightarrow> u64 \<times> bool \<times> GameProcess" where
  "factory_spawn env templates q g =
     (let se = te_factory env;
          (p, g1) = (if 0 < templates then se_spawn se (rq_position q) (core_mod_slot templates (rq_owner q)) g else (0, g))
      in if p \<noteq> 0 then (p, True, g1) else (case se_random se g1 of (p2, g2) \<Rightarrow> (p2, False, g2)))"

definition spawned_character :: "tick_env \<Rightarrow> SpawnRequest \<Rightarrow> u64 \<Rightarrow> bool \<Rightarrow> CoreTick \<Rightarrow> CoreTick" where
  "spawned_character env q p template tk =
     (let tk1 = (if template then tk else snd (SEH_FixUpFaction_Core env p tk));
          co1 = SEH_FallbackPostSpawnSetup p (rq_netId q) (rq_owner q) (rq_position q) (link_object q p (tk_core tk1));
          co2 = (if template then core_WriteGameDataName p (rq_owner q) co1 else co1);
          co3 = SEH_AllyModFaction (te_core env) p (extended_health q p (spawn_proxy q co2))
      in spawn_done q (if template then lit ''Remote player spawned!'' else lit ''Remote player spawned (fallback appearance)'')
           (tk1\<lparr>tk_core := co3\<rparr>))"

definition drop_entity :: "EntityID \<Rightarrow> PlayerID \<Rightarrow> ClientCore \<Rightarrow> ClientCore" where
  "drop_entity k owner co = on_reg (Unregister k) (on_client (on_interp (Interpolation_RemoveEntity k)) (entity_DecrementSpawnCount owner co))"

definition failed_spawn :: "SpawnRequest \<Rightarrow> ClientCore \<Rightarrow> ClientCore" where
  "failed_spawn q co =
     (let q1 = q\<lparr>rq_retryCount := rq_retryCount q + 1\<rparr> in
      if rq_retryCount q1 < of_nat MAX_SPAWN_RETRIES then RequeueSpawn q1 co
      else ui [UiSystem (lit ''Failed to spawn remote player after retries.'')] (drop_entity (rq_netId q1) (rq_owner q1) co))"

text \<open>The first component is the early \<^verbatim>\<open>return\<close>.\<close>

definition spawn_request_step :: "tick_env \<Rightarrow> nat \<Rightarrow> SpawnRequest \<Rightarrow> CoreTick \<Rightarrow> bool \<times> CoreTick" where
  "spawn_request_step env templates q tk =
     (let reg = co_registry (tk_core tk); owner = rq_owner q in
      if GetGameObject (rq_netId q) reg \<noteq> 0 then (True, bump_spawns owner tk)
      else if MAX_DIRECT_SPAWNS_PER_PLAYER \<le> direct_spawns owner tk then (False, tk)
      else
        let existing = FindModCharacterBySlot owner (co_game (tk_core tk)); linked = GetNetId existing reg in
        if existing \<noteq> 0 \<and> (linked = INVALID_ENTITY \<or> linked = rq_netId q) then (False, link_mod_character env q existing tk)
        else (case factory_spawn env templates q (co_game (tk_core tk)) of
          (p, template, g) \<Rightarrow>
            if user_ptr p \<and> p AND 7 = 0 then (False, spawned_character env q p template (set_game g tk))
            else (False, on_core (failed_spawn q) (set_game g tk))))"

definition attempt_spawn :: "tick_env \<Rightarrow> nat \<Rightarrow> CoreTick \<Rightarrow> bool \<times> CoreTick" where
  "attempt_spawn env templates tk =
     (let tk1 = on_spawn (\<lambda>s. s\<lparr>st_lastDirectAttempt := te_clock env\<rparr>) tk in
      case PopNextSpawn (tk_core tk1) of
        (None, co) \<Rightarrow> (False, tk1\<lparr>tk_core := co\<rparr>)
      | (Some q, co) \<Rightarrow> spawn_request_step env templates q (tk1\<lparr>tk_core := co\<rparr>))"

definition work_queue :: "tick_env \<Rightarrow> nat \<Rightarrow> CoreTick \<Rightarrow> bool \<times> CoreTick" where
  "work_queue env templates tk =
     (let st = tk_spawn tk in
      if tk_queue tk = [] \<or> \<not> st_hasPendingTimer st then (False, tk)
      else if se_ready (te_factory env) \<and> 2 \<le> pending_for env tk \<and> 1 \<le> whole_seconds (te_clock env - st_lastDirectAttempt st)
      then attempt_spawn env templates tk
      else if \<not> se_ready (te_factory env) \<and> \<not> st_retriedHookEnable st \<and> 5 \<le> pending_for env tk
      then (False, on_core ResumeForNetwork (on_spawn (\<lambda>s. s\<lparr>st_retriedHookEnable := True\<rparr>) tk))
      else (False, tk))"

section \<open>Entities that were never spawned\<close>

definition clean_stuck :: "EntityID \<Rightarrow> ClientCore \<Rightarrow> ClientCore" where
  "clean_stuck k co = (case GetInfo k (co_registry co) of
     None \<Rightarrow> co
   | Some info \<Rightarrow> if ei_state info = Spawning \<and> ei_gameObject info = 0 \<and> co_spawnQueue co = [] then drop_entity k (ei_ownerPlayerId info) co else co)"

definition stuck_cleanup :: "tick_env \<Rightarrow> CoreTick \<Rightarrow> CoreTick" where
  "stuck_cleanup env tk =
     (let now = te_clock env; last = (case tk_lastStuckCheck tk of None \<Rightarrow> now | Some t \<Rightarrow> t) in
      if 10 \<le> whole_seconds (now - last)
      then on_core (fold clean_stuck (GetRemoteEntities (co_registry (tk_core tk)))) (tk\<lparr>tk_lastStuckCheck := Some now\<rparr>)
      else tk\<lparr>tk_lastStuckCheck := Some last\<rparr>)"

section \<open>The whole\<close>

definition HandleSpawnQueue :: "tick_env \<Rightarrow> CoreTick \<Rightarrow> CoreTick" where
  "HandleSpawnQueue env tk = (case spawn_gate env tk of
     (False, tk1) \<Rightarrow> tk1
   | (True, tk1) \<Rightarrow>
       let tk2 = reset_statics tk1; scan = scan_due env tk2;
           tk3 = core_show_waiting env (core_track_pending env (if scan then core_heap_scan env tk2 else tk2));
           templates = (if scan then se_modTemplatesAfter (te_factory env) else se_modTemplates (te_factory env))
       in (case work_queue env templates tk3 of
            (True, tk4) \<Rightarrow> tk4
          | (False, tk4) \<Rightarrow> stuck_cleanup env (tk4\<lparr>tk_forceSpawnBypass := False\<rparr>)))"

section \<open>Commands\<close>

definition requeue_missing :: "core_env \<Rightarrow> EntityID \<Rightarrow> ClientCore \<Rightarrow> ClientCore" where
  "requeue_missing env k co =
     (if GetGameObject k (co_registry co) \<noteq> 0 then co
      else (case GetInfo k (co_registry co) of
        None \<Rightarrow> co
      | Some info \<Rightarrow> Spawn_QueueSpawn env \<lparr>rq_netId = k, rq_owner = ei_ownerPlayerId info, rq_type = ei_type info, rq_templateName = [],
          rq_position = ei_lastPosition info, rq_rotation = Quat_default, rq_templateId = 0, rq_factionId = 0, rq_retryCount = 0,
          rq_hasExtendedState = False, rq_health = default_limbs, rq_alive = True\<rparr> co))"

definition ForceSpawnRemotePlayers :: "tick_env \<Rightarrow> CoreTick \<Rightarrow> CoreTick" where
  "ForceSpawnRemotePlayers env tk =
     (let co = tk_core tk; remote = GetRemoteEntities (co_registry co);
          missing = length (filter (\<lambda>k. GetGameObject k (co_registry co) = 0) remote)
      in if \<not> co_connected co then on_core (ui [UiSystem (lit ''Not connected to a server.'')]) tk
         else if co_spawnQueue co = [] then
           let co1 = ui [UiSystem (lit ''No pending spawns in queue.'')] co in
           if 0 < missing
           then tk\<lparr>tk_core := fold (requeue_missing (te_core env)) remote
                    (ui [UiSystem (dec_nat missing @ lit '' remote entities without game objects '' @ dash @ lit '' re-queuing...'')] co1)\<rparr>
           else tk\<lparr>tk_core := co1\<rparr>
         else on_core (ui [UiSystem (lit ''Force-spawning '' @ dec_nat (length (co_spawnQueue co)) @ lit '' remote player(s)...'')])
                (tk\<lparr>tk_forceSpawnBypass := True\<rparr>))"

end
