(* ===== verification/Core_Scan.thy ===== *)
theory Core_Scan
  imports Core_Spawns Pattern_Scan
begin

text \<open>
  How the core finds the player's own characters and announces them to the server: by the names of the mod's characters
  (\<^verbatim>\<open>FindAndClaimModCharacters\<close>), then by the player's faction (\<^verbatim>\<open>SendExistingEntitiesToServer\<close>), with the
  retries of the tick.
\<close>

section \<open>Numbers in names\<close>

definition is_decimal :: "byte \<Rightarrow> bool" where
  "is_decimal c \<longleftrightarrow> 48 \<le> c \<and> c \<le> 57"

definition decimal_value :: "bytes \<Rightarrow> int" where
  "decimal_value ds = foldl (\<lambda>v c. v * 10 + (uint c - 48)) 0 ds"

text \<open>\<^verbatim>\<open>std::stoi\<close>; \<open>None\<close> is either exception.\<close>

definition stoi :: "bytes \<Rightarrow> int option" where
  "stoi s =
     (let t = dropWhile isspace s;
          (neg, u) = (case t of [] \<Rightarrow> (False, []) | c # cs \<Rightarrow> if c = 45 then (True, cs) else if c = 43 then (False, cs) else (False, t));
          ds = takeWhile is_decimal u; v = (if neg then - decimal_value ds else decimal_value ds)
      in if ds = [] then None else if - (2 ^ 31) \<le> v \<and> v < 2 ^ 31 then Some v else None)"

section \<open>Announcing a character\<close>

definition body_parts :: "BodyPart list" where
  "body_parts = [Head, Chest, Stomach, LeftArm, RightArm, LeftLeg, RightLeg]"

definition read_factionId :: "u64 \<Rightarrow> GameProcess \<Rightarrow> u32" where
  "read_factionId p g =
     (let f = Character_GetFactionPtr p g in
      if f \<noteq> 0 \<and> 0 \<le> fao_id (fac_off g) then peek32 0 (at_offset f (fao_id (fac_off g))) (gp_memory g) else 0)"

definition announce_packet ::
  "EntityID \<Rightarrow> EntityType \<Rightarrow> PlayerID \<Rightarrow> Vec3 \<Rightarrow> Quat \<Rightarrow> (PacketWriter \<Rightarrow> PacketWriter) list \<Rightarrow> u64 \<Rightarrow> GameProcess \<Rightarrow> bytes" where
  "announce_packet netId type owner pos rot name p g =
     packet ([hdr C2S_EntitySpawnReq, WriteU32 netId, WriteU8 type, WriteU32 owner, WriteU32 0, WriteF32 (vx pos), WriteF32 (vy pos),
       WriteF32 (vz pos), WriteU32 (Compress rot), WriteU32 (read_factionId p g)] @ name @ [WriteU8 1]
       @ map (\<lambda>bp. WriteF32 (Character_GetHealth bp p g)) body_parts @ [WriteU8 (if Character_IsAlive p g then 1 else 0)])"

definition short_name :: "bytes \<Rightarrow> (PacketWriter \<Rightarrow> PacketWriter) list" where
  "short_name s = (let n = min (length s) 255 in WriteU16 (of_nat n) # (if 0 < n then [WriteRaw (take n s)] else []))"

section \<open>By faction\<close>

record scan_result =
  sx_core :: ClientCore
  sx_firstPlayer :: u64
  sx_firstNpc :: u64
  sx_sent :: nat

definition announce_existing :: "u64 \<Rightarrow> u64 \<Rightarrow> scan_result \<Rightarrow> scan_result" where
  "announce_existing playerFaction p sx =
     (let co = sx_core sx; g = co_game co; pos = Character_GetPosition p g; me = co_localPlayerId co in
      if p = 0 then sx
      else if f32_eq (vx pos) 0 \<and> f32_eq (vy pos) 0 \<and> f32_eq (vz pos) 0 then sx
      else if Character_GetFactionPtr p g \<noteq> playerFaction then sx\<lparr>sx_firstNpc := (if sx_firstNpc sx = 0 then p else sx_firstNpc sx)\<rparr>
      else
        let sx1 = sx\<lparr>sx_firstPlayer := (if sx_firstPlayer sx = 0 then p else sx_firstPlayer sx)\<rparr> in
        if GetNetId p (co_registry co) \<noteq> INVALID_ENTITY then sx1
        else
          let netId = fst (Register p NPC me (co_registry co)); rot = Character_GetRotation p g;
              co1 = on_reg (UpdateRotation netId rot \<circ> UpdatePosition netId pos \<circ> (\<lambda>r. snd (Register p NPC me r))) co
          in sx1\<lparr>sx_core := client_send True (announce_packet netId NPC me pos rot (short_name (Character_GetName p g)) p g) co1,
                 sx_sent := Suc (sx_sent sx1)\<rparr>)"

text \<open>The player's faction, found again when it is not known.\<close>

definition resolve_faction :: "tick_env \<Rightarrow> CoreTick \<Rightarrow> u64 \<times> CoreTick" where
  "resolve_faction env tk =
     (let f = pct_localFactionPtr (co_controller (tk_core tk)) in
      if f \<noteq> 0 then (f, tk)
      else (case RevalidateFaction env tk of
        (False, tk1) \<Rightarrow> (0, tk1)
      | (True, tk1) \<Rightarrow> let f1 = pct_localFactionPtr (co_controller (tk_core tk1)) in
          if f1 \<noteq> 0 then (f1, tk1) else GetEarlyPlayerFaction env tk1))"

definition SendExistingEntitiesToServer :: "tick_env \<Rightarrow> CoreTick \<Rightarrow> CoreTick" where
  "SendExistingEntitiesToServer env tk =
     (let chars = all_characters (co_game (tk_core tk)) in
      if chars = [] then tk
      else (case resolve_faction env tk of (f, tk1) \<Rightarrow>
        if f = 0 then tk1
        else
          let sx = fold (announce_existing f) chars \<lparr>sx_core = tk_core tk1, sx_firstPlayer = 0, sx_firstNpc = 0, sx_sent = 0\<rparr>;
              co1 = (if sx_firstPlayer sx \<noteq> 0 \<and> sx_firstNpc sx \<noteq> 0
                     then on_game (ProbePlayerControlledOffset (sx_firstPlayer sx) (sx_firstNpc sx)) (sx_core sx) else sx_core sx)
          in tk1\<lparr>tk_core := (if 0 < sx_sent sx
               then ui [UiOverlaySystem (lit ''Syncing '' @ dec_nat (sx_sent sx) @ lit '' squad characters...'')] co1 else co1)\<rparr>))"

section \<open>By name\<close>

text \<open>The slot in a name like \<^verbatim>\<open>Player 3\<close>.\<close>

definition mod_character_slot :: "bytes \<Rightarrow> int option" where
  "mod_character_slot name =
     (if length name < 8 \<or> take 7 name \<noteq> lit ''Player '' then None
      else (case stoi (drop 7 name) of None \<Rightarrow> None | Some k \<Rightarrow> if k < 1 \<or> 16 < k then None else Some k))"

definition circle_place :: "tick_env \<Rightarrow> int \<Rightarrow> Vec3 \<Rightarrow> Vec3" where
  "circle_place env k v =
     (let angle = f32_mul (f32_of_int (k - 1)) (f32_div (f32_lit 62831853 10000000) (f32_of_int 16)) in
      Vec3_new (f32_add (vx v) (f32_mul (te_cosf env angle) (f32_of_int 3))) (vy v)
        (f32_add (vz v) (f32_mul (en_sinf (te_core env) angle) (f32_of_int 3))))"

definition claim_character :: "tick_env \<Rightarrow> int \<Rightarrow> u64 \<Rightarrow> ClientCore \<times> nat \<Rightarrow> ClientCore \<times> nat" where
  "claim_character env mySlot p s =
     (let (co, claimed) = s; name = cstr (ReadCharNameSafe p 64 (co_game co)); me = co_localPlayerId co;
          pos = circle_place env mySlot (Character_GetPosition p (co_game co)); rot = Character_GetRotation p (co_game co)
      in if p = 0 \<or> mod_character_slot name \<noteq> Some mySlot then s
         else if GetNetId p (co_registry co) \<noteq> INVALID_ENTITY then s
         else
           let co1 = on_game (\<lambda>g. snd (Character_WritePosition pos p g)) co;
               netId = fst (Register p PlayerCharacter me (co_registry co1));
               co2 = on_reg (UpdateRotation netId rot \<circ> UpdatePosition netId pos \<circ> (\<lambda>r. snd (Register p PlayerCharacter me r))) co1
           in (client_send True (announce_packet netId PlayerCharacter me pos rot [WriteString name] p (co_game co2)) co2, Suc claimed))"

definition FindAndClaimModCharacters :: "tick_env \<Rightarrow> ClientCore \<Rightarrow> ClientCore" where
  "FindAndClaimModCharacters env co =
     (let mySlot = sint (lb_playerSlot (co_lobby co)); chars = all_characters (co_game co) in
      if mySlot \<le> 0 \<or> chars = [] then co
      else (case fold (claim_character env mySlot) chars (co, 0) of (co1, claimed) \<Rightarrow>
        if 0 < claimed
        then ui [UiSystem (lit ''Found your character: Player '' @ dec_int mySlot)] (co1\<lparr>co_initialEntityScanDone := True\<rparr>) else co1))"

section \<open>The scan of the tick\<close>

definition MAX_ENTITY_SCAN_RETRIES :: nat where "MAX_ENTITY_SCAN_RETRIES = 45"
definition RETRY_INTERVAL_TICKS :: nat where "RETRY_INTERVAL_TICKS = 150"

definition own_entities :: "CoreTick \<Rightarrow> EntityID list" where
  "own_entities tk = GetPlayerEntities (co_localPlayerId (tk_core tk)) (co_registry (tk_core tk))"

definition scan_attempt :: "tick_env \<Rightarrow> CoreTick \<Rightarrow> CoreTick" where
  "scan_attempt env tk =
     (let lobby = co_lobby (tk_core tk);
          tk1 = (if lb_hasAssignment lobby \<and> 0 < sint (lb_playerSlot lobby) then on_core (FindAndClaimModCharacters env) tk else tk);
          tk2 = (if own_entities tk1 = [] then SendExistingEntitiesToServer env tk1 else tk1);
          tk3 = tk2\<lparr>tk_entityScanRetries := Suc (tk_entityScanRetries tk2)\<rparr>
      in if own_entities tk3 \<noteq> [] \<or> MAX_ENTITY_SCAN_RETRIES \<le> tk_entityScanRetries tk3
         then on_core (\<lambda>co. co\<lparr>co_initialEntityScanDone := True\<rparr>) (tk3\<lparr>tk_wasScanning := False\<rparr>) else tk3)"

definition InitialEntityScan :: "tick_env \<Rightarrow> CoreTick \<Rightarrow> CoreTick" where
  "InitialEntityScan env tk =
     (if co_initialEntityScanDone (tk_core tk) then tk
      else
        let tk1 = (if tk_wasScanning tk then tk else tk\<lparr>tk_entityScanRetries := 0, tk_wasScanning := True\<rparr>) in
        if tk_entityScanRetries tk1 = 0 \<or> tk_tickCallCount tk1 mod RETRY_INTERVAL_TICKS = 0 then scan_attempt env tk1 else tk1)"

definition DeferredRescan :: "tick_env \<Rightarrow> CoreTick \<Rightarrow> CoreTick" where
  "DeferredRescan env tk =
     (if \<not> tk_needsEntityRescan tk then tk
      else
        let tk1 = SendExistingEntitiesToServer env (tk\<lparr>tk_needsEntityRescan := False\<rparr>) in
        if own_entities tk1 \<noteq> [] then on_core (\<lambda>co. co\<lparr>co_initialEntityScanDone := True\<rparr>) tk1 else tk1)"

definition RequestEntityRescan :: "CoreTick \<Rightarrow> CoreTick" where
  "RequestEntityRescan tk = tk\<lparr>tk_needsEntityRescan := True\<rparr>"

end
