(* ===== verification/Core_Runs.thy ===== *)
theory Core_Runs
  imports Core_Scan
begin

text \<open>
  Runs of the default pipeline: the steps of the tick, its background tasks, the commands of the player, packets,
  connections and load screens in any order.  The two frame buffers stay apart, and the replication state stays consistent.
\<close>

section \<open>The invariant\<close>

definition tick_ok :: "u64 set \<Rightarrow> CoreTick \<Rightarrow> bool" where
  "tick_ok S tk \<longleftrightarrow> sync_inv S (tk_core tk) \<and>
     (tk_writeBuffer tk = 0 \<and> tk_readBuffer tk = 1 \<or> tk_writeBuffer tk = 1 \<and> tk_readBuffer tk = 0)"

lemma tick_ok_updates [simp]:
  "tick_ok S (tk\<lparr>tk_loading := a\<rparr>) = tick_ok S tk" "tick_ok S (tk\<lparr>tk_forceSpawnBypass := b\<rparr>) = tick_ok S tk"
  "tick_ok S (tk\<lparr>tk_needsEntityRescan := b\<rparr>) = tick_ok S tk" "tick_ok S (tk\<lparr>tk_hostTpTimer := t\<rparr>) = tick_ok S tk"
  "tick_ok S (tk\<lparr>tk_lastPollTime := u\<rparr>) = tick_ok S tk" "tick_ok S (tk\<lparr>tk_fallbackFaction := f\<rparr>) = tick_ok S tk"
  "tick_ok S (tk\<lparr>tk_gateBlockStart := t\<rparr>) = tick_ok S tk" "tick_ok S (tk\<lparr>tk_gateTimerStarted := b\<rparr>) = tick_ok S tk"
  "tick_ok S (tk\<lparr>tk_spawn := st\<rparr>) = tick_ok S tk" "tick_ok S (tk\<lparr>tk_lastStuckCheck := u\<rparr>) = tick_ok S tk"
  "tick_ok S (tk\<lparr>tk_entityScanRetries := n\<rparr>) = tick_ok S tk" "tick_ok S (tk\<lparr>tk_wasScanning := b\<rparr>) = tick_ok S tk"
  "tick_ok S (tk\<lparr>tk_lastKeepalive := t\<rparr>) = tick_ok S tk" "tick_ok S (tk\<lparr>tk_cleanupCounter := n\<rparr>) = tick_ok S tk"
  "tick_ok S (on_spawn g tk) = tick_ok S tk"
  by (simp_all add: tick_ok_def on_spawn_def)

lemma tick_ok_core: "tick_ok S tk \<Longrightarrow> sync_inv T (f (tk_core tk)) \<Longrightarrow> tick_ok T (on_core f tk)"
  by (simp add: tick_ok_def on_core_def)

lemma tick_ok_set: "tick_ok S tk \<Longrightarrow> sync_inv T co \<Longrightarrow> tick_ok T (tk\<lparr>tk_core := co\<rparr>)"
  by (simp add: tick_ok_def)

lemma tick_ok_inv: "tick_ok S tk \<Longrightarrow> sync_inv S (tk_core tk)"
  by (simp add: tick_ok_def)

lemma tick_ok_weaken: "tick_ok S tk \<Longrightarrow> tick_ok {} tk"
  using weaken_inv by (auto simp: tick_ok_def)

lemma core_inv_parts [simp]:
  "sync_inv S (hook ys co) = sync_inv S co" "sync_inv S (on_controller h co) = sync_inv S co"
  "sync_inv S (co\<lparr>co_earlyFaction := f\<rparr>) = sync_inv S co" "sync_inv S (co\<lparr>co_initialEntityScanDone := b\<rparr>) = sync_inv S co"
  "sync_inv S (co\<lparr>co_spawnTeleportDone := b\<rparr>) = sync_inv S co" "sync_inv S (co\<lparr>co_hostTpTimerStarted := b\<rparr>) = sync_inv S co"
  "sync_inv S (co\<lparr>co_needSpawnQueueReset := b\<rparr>) = sync_inv S co" "sync_inv S (co\<lparr>co_pipelineStarted := b\<rparr>) = sync_inv S co"
  "sync_inv S (SEH_AllyModFaction env p co) = sync_inv S co" "sync_inv S (core_WriteGameDataName p owner co) = sync_inv S co"
  "sync_inv S (ResumeForNetwork co) = sync_inv S co" "sync_inv S (Spawn_QueueSpawn ev q co) = sync_inv S co"
  by (simp_all add: sync_inv_def core_simps buffers_ok_def on_controller_def hook_def SEH_AllyModFaction_def core_WriteGameDataName_def
      ResumeForNetwork_def Spawn_QueueSpawn_def on_game_def Let_def split: prod.splits)

lemma tick_frame_inv [simp]: "sync_inv S co \<Longrightarrow> sync_inv S (core_write_frame w f co)"
  by (simp add: core_write_frame_def sync_inv_def buffers_ok_def)

lemma interp_inv: "sync_inv S co \<Longrightarrow> sync_inv S (on_client (\<lambda>c. c\<lparr>cl_interp := snd (GetInterpolated a b k t (cl_interp (co_client co)))\<rparr>) co)"
  by (simp add: sync_inv_def core_simps client_inv_def GetInterpolated_inv)

lemma tick_cleanup_inv: "sync_inv S co \<Longrightarrow> sync_inv S (on_client (CleanupOld t m) co)"
  by (simp add: sync_inv_def core_simps cleanup_inv) (simp add: CleanupOld_def Let_def)

lemma position_inv [simp]: "sync_inv S co \<Longrightarrow> sync_inv S (on_reg (UpdatePosition k v) co)"
  by (rule sync_inv_reg) (simp_all add: reg_ok_ops(2))

section \<open>The steps\<close>

lemma pose_inv: "sync_inv S co \<Longrightarrow> sync_inv S (write_pose k p pos rot co)"
  by (simp add: write_pose_def)

lemma apply_direct_inv: "sync_inv S co \<Longrightarrow> sync_inv S (apply_direct env k co)"
  using interp_inv [of S co] by (auto simp: apply_direct_def Let_def case_prod_unfold intro!: pose_inv split: option.splits)

lemma poll_local_inv: "sync_inv S co \<Longrightarrow> sync_inv S (poll_local e k co)"
  by (simp add: poll_local_def Let_def split: option.splits)

lemma teleport_fold_inv:
  "sync_inv S co \<Longrightarrow> sync_inv S (snd (fold (teleport_one v) ks (n, co)))"
proof (induction ks arbitrary: n co)
  case (Cons k ks)
  have "sync_inv S (snd (teleport_one v k (n, co)))" using Cons.prems by (simp add: teleport_one_def Let_def split: prod.split)
  then show ?case using Cons.IH by (metis fold_simps(2) prod.collapse)
qed simp

lemma validate_inv: "sync_inv S co \<Longrightarrow> sync_inv S (validate_one env g k co)"
  by (simp add: validate_one_def Let_def)

lemma requeue_inv: "sync_inv S co \<Longrightarrow> sync_inv S (requeue_missing ev k co)"
  by (simp add: requeue_missing_def split: option.splits)

lemma core_interpolate_inv: "sync_inv S co \<Longrightarrow> sync_inv S (core_interpolate env w k co)"
  using interp_inv [of S co] by (simp add: core_interpolate_def Let_def case_prod_unfold)

text \<open>What a step does that neither links objects nor registers entities.\<close>

definition quiet_steps :: "tick_env \<Rightarrow> (CoreTick \<Rightarrow> CoreTick) list" where
  "quiet_steps env = [SwapBuffers, KickBackgroundWork, ApplyRemotePositions, ApplyRemotePositionsDirect env, PollLocalPositions env,
     SendCachedPackets, HandleHostTeleport env, ValidateFactions env, Core_BackgroundReadEntities, Core_BackgroundInterpolate env,
     send_keepalive env, CleanupSnapshots env, ForceSpawnRemotePlayers env, RequestEntityRescan,
     on_core (on_game ForceUnpause), on_core (\<lambda>co. snd (TeleportToNearestRemotePlayer co))]"

lemma apply_positions_ok: "tick_ok S tk \<Longrightarrow> tick_ok S (ApplyRemotePositions tk)" "tick_ok S tk \<Longrightarrow> tick_ok S (ApplyRemotePositionsDirect env tk)"
  by (auto simp: ApplyRemotePositions_def ApplyRemotePositionsDirect_def apply_cached_def Let_def
      intro!: tick_ok_core sync_inv_fold pose_inv apply_direct_inv dest: tick_ok_inv)

lemma poll_positions_ok: "tick_ok S tk \<Longrightarrow> tick_ok S (PollLocalPositions env tk)"
  by (auto simp: PollLocalPositions_def Let_def intro!: tick_ok_core sync_inv_fold poll_local_inv dest: tick_ok_inv)

lemma host_teleport_ok: "tick_ok S tk \<Longrightarrow> tick_ok S (HandleHostTeleport env tk)"
proof -
  assume a: "tick_ok S tk"
  let ?t = "if co_hostTpTimerStarted (tk_core tk) then tk
            else on_core (\<lambda>c. c\<lparr>co_hostTpTimerStarted := True\<rparr>) (tk\<lparr>tk_hostTpTimer := te_clock env\<rparr>)"
  have t: "tick_ok S ?t" using a by (auto intro!: tick_ok_core dest: tick_ok_inv)
  then have "sync_inv S (snd (fold (teleport_one v) ks (0, tk_core ?t)))" for v ks using teleport_fold_inv tick_ok_inv by blast
  with a t show ?thesis by (auto simp: HandleHostTeleport_def Let_def case_prod_unfold intro!: tick_ok_set split: option.split)
qed

lemma teleport_ok: "tick_ok S tk \<Longrightarrow> tick_ok S (on_core (\<lambda>co. snd (TeleportToNearestRemotePlayer co)) tk)"
  using teleport_fold_inv [OF tick_ok_inv, of S tk]
  by (auto simp: TeleportToNearestRemotePlayer_def Let_def case_prod_unfold intro!: tick_ok_core dest: tick_ok_inv split: list.split)

lemma read_background_ok: "tick_ok S tk \<Longrightarrow> tick_ok S (Core_BackgroundReadEntities tk)"
  by (auto simp: Core_BackgroundReadEntities_def Let_def intro!: tick_ok_set sync_inv_fold tick_frame_inv dest: tick_ok_inv)

lemma quiet_ok: "tick_ok S tk \<Longrightarrow> f \<in> set (quiet_steps env) \<Longrightarrow> tick_ok S (f tk)"
  unfolding quiet_steps_def
  apply (auto simp: apply_positions_ok poll_positions_ok host_teleport_ok teleport_ok read_background_ok)
  subgoal by (auto simp: SwapBuffers_def tick_ok_def)
  subgoal by (auto simp: KickBackgroundWork_def intro!: tick_ok_core dest: tick_ok_inv)
  subgoal by (auto simp: SendCachedPackets_def Let_def intro!: tick_ok_core dest: tick_ok_inv)
  subgoal by (auto simp: ValidateFactions_def Let_def intro!: tick_ok_core sync_inv_fold validate_inv dest: tick_ok_inv)
  subgoal by (auto simp: Core_BackgroundInterpolate_def intro!: tick_ok_core sync_inv_fold core_interpolate_inv dest: tick_ok_inv)
  subgoal by (auto simp: send_keepalive_def intro!: tick_ok_core dest: tick_ok_inv)
  subgoal by (auto simp: CleanupSnapshots_def Let_def intro!: tick_ok_core tick_cleanup_inv dest: tick_ok_inv)
  subgoal by (auto simp: ForceSpawnRemotePlayers_def Let_def intro!: tick_ok_core tick_ok_set sync_inv_fold requeue_inv dest: tick_ok_inv)
  subgoal by (simp add: RequestEntityRescan_def)
  subgoal by (auto intro!: tick_ok_core dest: tick_ok_inv)
  done


section \<open>The spawn queue\<close>

text \<open>The game's factory returns objects that no entity has, and a request has the seven health values of the code's array.\<close>

definition factory_in :: "u64 set \<Rightarrow> tick_env \<Rightarrow> bool" where
  "factory_in S env \<longleftrightarrow> (\<forall>v n g. fst (se_spawn (te_factory env) v n g) \<in> insert 0 S) \<and> (\<forall>g. fst (se_random (te_factory env) g) \<in> insert 0 S)"

definition requests_sized :: "ClientCore \<Rightarrow> bool" where
  "requests_sized co \<longleftrightarrow> list_all (\<lambda>q. length (rq_health q) = 7) (co_spawnQueue co)"

lemma drop_inv: "sync_inv S co \<Longrightarrow> sync_inv S (drop_entity k owner co)"
proof -
  assume i: "sync_inv S co"
  let ?c = "on_client (on_interp (Interpolation_RemoveEntity k)) (entity_DecrementSpawnCount owner co)"
  have "sync_inv S ?c" using i by (simp add: sync_inv_def core_simps client_simps inv_interp RemoveEntity_inv inv_ip)
  then show ?thesis unfolding drop_entity_def
    by (rule sync_inv_reg) (simp add: reg_ok_ops(4), auto simp: Unregister_def um_simps split: option.splits)
qed

lemma tick_link_inv:
  assumes "sync_inv S co" "um_find (reg_ptrToId (co_registry co)) p = None \<or> um_find (reg_ptrToId (co_registry co)) p = Some (rq_netId q)"
  shows "sync_inv {} (link_object q p co)"
  using assms by (auto simp: link_object_def sync_inv_def on_reg_def core_simps client_simps intro!: inv_registry inv_reg_ok reg_ok_ops(2,6))

lemma setup_inv [simp]: "sync_inv S (SEH_FallbackPostSpawnSetup p k owner pos co) = sync_inv S co"
  by (simp add: SEH_FallbackPostSpawnSetup_def Let_def)

lemma health_inv: "sync_inv S co \<Longrightarrow> length (rq_health q) = 7 \<Longrightarrow> sync_inv S (extended_health q p co)"
proof -
  assume a: "sync_inv S co" "length (rq_health q) = 7"
  have "sync_inv S (on_reg (UpdateLimbHealth (rq_netId q) (rq_health q)) co)"
    by (rule sync_inv_reg [OF a(1)]) (use a(2) in \<open>simp_all add: reg_ok_ops(3)\<close>, simp add: UpdateLimbHealth_def modify_info_def)
  with a(1) show ?thesis by (simp add: extended_health_def)
qed

lemma done_ok: "tick_ok S (spawn_done q msg tk) = tick_ok S tk"
  by (simp add: spawn_done_def bump_spawns_def on_core_def tick_ok_def on_spawn_def)

lemma same_tick_core [simp]:
  "tick_ok S (on_core (ui xs) tk) = tick_ok S tk" "tick_ok S (on_core (on_game g) tk) = tick_ok S tk"
  "tick_ok S (on_core (\<lambda>co. co\<lparr>co_earlyFaction := f\<rparr>) tk) = tick_ok S tk" "tick_ok S (set_game h tk) = tick_ok S tk"
  "tick_ok S (on_core (on_controller c) tk) = tick_ok S tk"
  by (simp_all add: tick_ok_def on_core_def set_game_def)

lemma link_mod_ok:
  assumes "tick_ok S tk" "length (rq_health q) = 7"
    "um_find (reg_ptrToId (co_registry (tk_core tk))) p = None \<or> um_find (reg_ptrToId (co_registry (tk_core tk))) p = Some (rq_netId q)"
  shows "tick_ok {} (link_mod_character env q p tk)"
  using assms tick_link_inv [OF tick_ok_inv [OF assms(1)], of p q]
  by (auto simp: link_mod_character_def Let_def done_ok spawn_proxy_def intro!: tick_ok_set health_inv)

lemma fix_faction:
  "tick_ok S (snd (SEH_FixUpFaction_Core env p tk)) = tick_ok S tk"
  "co_registry (tk_core (snd (SEH_FixUpFaction_Core env p tk))) = co_registry (tk_core tk)"
  by (simp_all add: SEH_FixUpFaction_Core_def GetFallbackFaction_def GetEarlyPlayerFaction_def Let_def on_core_def on_game_def tick_ok_def sync_inv_def
      buffers_ok_def split: prod.splits)

lemma spawned_ok:
  assumes "tick_ok S tk" "length (rq_health q) = 7" "p \<in> S"
  shows "tick_ok {} (spawned_character env q p b tk)"
proof -
  let ?t = "if b then tk else snd (SEH_FixUpFaction_Core env p tk)"
  have t: "tick_ok S ?t" using assms(1) by (simp add: fix_faction)
  have "um_find (reg_ptrToId (co_registry (tk_core ?t))) p = None"
    using assms(1,3) by (simp add: fix_faction tick_ok_def sync_inv_def)
  then have "sync_inv {} (link_object q p (tk_core ?t))" using tick_link_inv [OF tick_ok_inv [OF t]] by simp
  with assms(2) t show ?thesis
    by (auto simp: spawned_character_def Let_def done_ok spawn_proxy_def intro!: tick_ok_set health_inv)
qed

lemma failed_inv: "sync_inv S co \<Longrightarrow> sync_inv S (failed_spawn q co)"
  by (simp add: failed_spawn_def Let_def drop_inv)

lemma factory_spawn_in: "factory_in S env \<Longrightarrow> fst (factory_spawn env n q g) \<in> insert 0 S"
  unfolding factory_in_def factory_spawn_def Let_def
  by (auto simp: case_prod_unfold split: if_splits)

lemma request_ok:
  assumes "tick_ok S tk" "factory_in S env" "length (rq_health q) = 7"
  shows "tick_ok {} (snd (spawn_request_step env n q tk))"
proof -
  let ?co = "tk_core tk" and ?ex = "FindModCharacterBySlot (rq_owner q) (co_game (tk_core tk))"
  obtain p b g where f: "factory_spawn env n q (co_game ?co) = (p, b, g)" by (metis prod_cases3)
  have p: "p \<in> insert 0 S" using factory_spawn_in [OF assms(2), of n q "co_game ?co"] f by simp
  have r: "reg_ok (co_registry ?co)" using assms(1) by (simp add: tick_ok_def sync_inv_def inv_reg_ok)
  have weak: "tick_ok {} tk" "tick_ok {} (bump_spawns (rq_owner q) tk)" using tick_ok_weaken [OF assms(1)] by (simp_all add: bump_spawns_def)
  have "tick_ok {} (on_core (failed_spawn q) (set_game g tk))"
    using assms(1) by (intro tick_ok_core [of S]) (auto simp: set_game_def on_core_def tick_ok_def intro!: failed_inv weaken_inv [of S])
  moreover have "tick_ok {} (spawned_character env q p b (set_game g tk))" if "user_ptr p"
    using p that assms by (intro spawned_ok [of S]) (auto simp: user_ptr_def)
  moreover have "tick_ok {} (link_mod_character env q ?ex tk)"
    if "?ex \<noteq> 0" "GetNetId ?ex (co_registry ?co) = INVALID_ENTITY \<or> GetNetId ?ex (co_registry ?co) = rq_netId q"
    using that GetNetId_unlinked [OF r, of ?ex] GetNetId_linked [OF r, of ?ex] assms(3)
    by (intro link_mod_ok [OF assms(1)]) auto
  ultimately show ?thesis using weak f by (simp add: spawn_request_step_def Let_def)
qed

lemma work_ok:
  assumes "tick_ok S tk" "factory_in S env" "requests_sized (tk_core tk)"
  shows "tick_ok {} (snd (work_queue env n tk))"
proof -
  let ?t = "on_spawn (\<lambda>s. s\<lparr>st_lastDirectAttempt := te_clock env\<rparr>) tk"
  have "tick_ok {} (snd (attempt_spawn env n tk))"
  proof (cases "co_spawnQueue (tk_core ?t)")
    case Nil
    then show ?thesis using tick_ok_weaken [OF assms(1)] by (simp add: attempt_spawn_def PopNextSpawn_def)
  next
    case (Cons q qs)
    have "tick_ok S (?t\<lparr>tk_core := (tk_core ?t)\<lparr>co_spawnQueue := qs\<rparr>\<rparr>)"
      using assms(1) by (auto simp: on_spawn_def intro!: tick_ok_set dest: tick_ok_inv)
    moreover have "length (rq_health q) = 7" using Cons assms(3) by (simp add: requests_sized_def on_spawn_def)
    ultimately show ?thesis using request_ok [OF _ assms(2)] Cons by (simp add: attempt_spawn_def PopNextSpawn_def Let_def)
  qed
  moreover have "tick_ok {} tk" by (rule tick_ok_weaken [OF assms(1)])
  moreover from this have "tick_ok {} (on_core ResumeForNetwork (on_spawn h tk))" for h by (auto simp: on_spawn_def intro!: tick_ok_core dest: tick_ok_inv)
  ultimately show ?thesis by (simp add: work_queue_def Let_def)
qed

lemma stuck_ok: "tick_ok S tk \<Longrightarrow> tick_ok S (stuck_cleanup env tk)"
  by (auto simp: stuck_cleanup_def Let_def clean_stuck_def intro!: tick_ok_core sync_inv_fold drop_inv dest: tick_ok_inv split: option.splits)

lemma queue_kept [simp]:
  "tk_queue (on_core (ui xs) tk) = tk_queue tk" "tk_queue (on_spawn f tk) = tk_queue tk"
  "tk_queue (on_core (\<lambda>co. co\<lparr>co_needSpawnQueueReset := b\<rparr>) tk) = tk_queue tk"
  by (simp_all add: on_core_def on_spawn_def ui_def)

lemma gate_ok: "tick_ok S tk \<Longrightarrow> tick_ok S (snd (spawn_gate env tk))" "tk_queue (snd (spawn_gate env tk)) = tk_queue tk"
  by (simp_all add: spawn_gate_def Let_def)

lemma before_work:
  "tick_ok S tk \<Longrightarrow> tick_ok S (reset_statics tk)" "tk_queue (reset_statics tk) = tk_queue tk"
  "tick_ok S (core_heap_scan env tk) = tick_ok S tk" "tk_queue (core_heap_scan env tk) = tk_queue tk"
  "tick_ok S tk \<Longrightarrow> tick_ok S (core_track_pending env tk)" "tk_queue (core_track_pending env tk) = tk_queue tk"
  "tick_ok S tk \<Longrightarrow> tick_ok S (core_show_waiting env tk)" "tk_queue (core_show_waiting env tk) = tk_queue tk"
  by (auto simp: reset_statics_def core_heap_scan_def core_track_pending_def core_show_waiting_def Let_def intro!: tick_ok_core dest: tick_ok_inv)

lemma spawn_queue_ok:
  assumes "tick_ok S tk" "factory_in S env" "requests_sized (tk_core tk)"
  shows "tick_ok {} (HandleSpawnQueue env tk)"
proof -
  let ?g = "snd (spawn_gate env tk)"
  let ?r = "reset_statics ?g"
  let ?w = "core_show_waiting env (core_track_pending env (if scan_due env ?r then core_heap_scan env ?r else ?r))"
  have "tick_ok S ?w" using assms(1) by (simp add: gate_ok before_work)
  moreover have "requests_sized (tk_core ?w)" using assms(3) by (simp add: requests_sized_def gate_ok before_work)
  ultimately have "tick_ok {} (snd (work_queue env n ?w))" for n by (rule work_ok [OF _ assms(2)])
  moreover have "tick_ok {} ?g" using tick_ok_weaken [OF gate_ok(1) [OF assms(1)]] .
  ultimately show ?thesis
    by (auto simp: HandleSpawnQueue_def Let_def case_prod_unfold intro!: stuck_ok split: bool.splits)
qed


section \<open>The scans\<close>

text \<open>The counter of ids is at least \<open>n\<close> away from its largest value.\<close>

definition ids_left :: "nat \<Rightarrow> ClientCore \<Rightarrow> bool" where
  "ids_left n co \<longleftrightarrow> 0 < reg_nextId (co_registry co) \<and> unat (reg_nextId (co_registry co)) + n < 2 ^ 32 - 1"

lemma ids_left_parts [simp]:
  "ids_left n (client_send b bs co) = ids_left n co" "ids_left n (on_game g co) = ids_left n co" "ids_left n (ui xs co) = ids_left n co"
  "ids_left n (co\<lparr>co_initialEntityScanDone := d\<rparr>) = ids_left n co" "ids_left n (co\<lparr>co_earlyFaction := f\<rparr>) = ids_left n co"
  "ids_left n (on_controller h co) = ids_left n co"
  by (simp_all add: ids_left_def core_simps client_parts on_controller_def)

lemma ids_left_less: "ids_left (Suc n) co \<Longrightarrow> ids_left n co"
  by (simp add: ids_left_def)

lemma next_id_kept [simp]: "reg_nextId (UpdateRotation k r s) = reg_nextId s" "reg_nextId (UpdatePosition k v s) = reg_nextId s"
  by (simp_all add: UpdateRotation_def UpdatePosition_def modify_info_def)

lemma register_ok:
  assumes "reg_ok s" "0 < reg_nextId s" "reg_nextId s \<noteq> 0xFFFFFFFF" "p \<noteq> 0"
  shows "reg_ok (snd (Register p ty me s))"
  using assms Register_inv [of s p ty me]
  by (auto simp: reg_ok_def Register_def um_simps INVALID_ENTITY_def Let_def split: option.splits)

lemma register_step:
  fixes k rot v p ty me
  assumes "sync_inv {} co" "ids_left (Suc n) co" "p \<noteq> 0"
  defines "co' \<equiv> on_reg (UpdateRotation k rot \<circ> UpdatePosition k v \<circ> (\<lambda>r. snd (Register p ty me r))) co"
  shows "sync_inv {} co' \<and> ids_left n co'"
proof -
  let ?s = "co_registry co"
  have n: "reg_nextId ?s \<noteq> 0xFFFFFFFF" "unat (reg_nextId ?s + 1) = Suc (unat (reg_nextId ?s))"
    using assms(2) by (auto simp: ids_left_def unat_word_ariths)
  have z: "0 < reg_nextId ?s + 1" using n(2) by (metis nat.distinct(1) unat_0 word_neq_0_conv)
  have "reg_ok ?s" using assms(1) by (simp add: sync_inv_def inv_reg_ok)
  then have "reg_ok (snd (Register p ty me ?s))" using n assms(2,3) register_ok by (simp add: ids_left_def)
  then have "reg_ok ((UpdateRotation k rot \<circ> UpdatePosition k v \<circ> (\<lambda>r. snd (Register p ty me r))) ?s)"
    by (simp add: reg_ok_rotation reg_ok_ops(2))
  then have "sync_inv {} co'" using assms(1) by (auto simp: co'_def sync_inv_def on_reg_def core_simps intro!: inv_registry)
  moreover have "ids_left n co'"
    using assms(2) n z by (auto simp: co'_def ids_left_def Register_def Let_def split: option.splits)
  ultimately show ?thesis ..
qed


text \<open>A loop that registers at most one entity for each character.\<close>

lemma scan_fold:
  assumes "\<And>x a n. P (Suc n) a \<Longrightarrow> P n (f x a)" "P (n + length xs) a"
  shows "P n (fold f xs a)"
  using assms(2) by (induction xs arbitrary: a) (simp_all add: assms(1))

lemma claim_ok:
  assumes "sync_inv {} (fst a) \<and> ids_left (Suc n) (fst a)"
  shows "sync_inv {} (fst (claim_character env k p a)) \<and> ids_left n (fst (claim_character env k p a))"
proof (cases "p = 0")
  case True
  with assms ids_left_less show ?thesis by (simp add: claim_character_def case_prod_unfold Let_def)
next
  case False
  then have "sync_inv {} (on_reg (UpdateRotation j rot \<circ> UpdatePosition j v \<circ> (\<lambda>r. snd (Register p ty me r))) (on_game g (fst a))) \<and>
    ids_left n (on_reg (UpdateRotation j rot \<circ> UpdatePosition j v \<circ> (\<lambda>r. snd (Register p ty me r))) (on_game g (fst a)))" for j rot v ty me g
    by (intro register_step) (use assms in simp_all)
  with assms ids_left_less [of n "fst a"] show ?thesis by (simp add: claim_character_def case_prod_unfold Let_def)
qed

lemma claim_scan_ok:
  assumes "sync_inv {} co" "ids_left (n + 100000) co"
  shows "sync_inv {} (FindAndClaimModCharacters env co) \<and> ids_left n (FindAndClaimModCharacters env co)"
proof -
  let ?cs = "all_characters (co_game co)"
  have l: "ids_left (n + length ?cs) co" "ids_left n co" using assms(2) all_characters_length(2) [of "co_game co"] by (simp_all add: ids_left_def)
  have "sync_inv {} (fst (fold (claim_character env k) ?cs (co, 0))) \<and> ids_left n (fst (fold (claim_character env k) ?cs (co, 0)))" for k
    by (rule scan_fold [where P = "\<lambda>n a. sync_inv {} (fst a) \<and> ids_left n (fst a)"]) (rule claim_ok, assumption, simp add: assms(1) l)
  with assms(1) l show ?thesis by (simp add: FindAndClaimModCharacters_def Let_def case_prod_unfold)
qed

lemma announce_ok:
  assumes "sync_inv {} (sx_core a) \<and> ids_left (Suc n) (sx_core a)"
  shows "sync_inv {} (sx_core (announce_existing f p a)) \<and> ids_left n (sx_core (announce_existing f p a))"
proof (cases "p = 0")
  case True
  with assms ids_left_less show ?thesis by (simp add: announce_existing_def Let_def)
next
  case False
  then have "sync_inv {} (on_reg (UpdateRotation j rot \<circ> UpdatePosition j v \<circ> (\<lambda>r. snd (Register p ty me r))) (sx_core a)) \<and>
    ids_left n (on_reg (UpdateRotation j rot \<circ> UpdatePosition j v \<circ> (\<lambda>r. snd (Register p ty me r))) (sx_core a))" for j rot v ty me
    by (intro register_step) (use assms in simp_all)
  with assms ids_left_less [of n "sx_core a"] show ?thesis by (simp add: announce_existing_def Let_def)
qed

lemma core_of_on_core [simp]: "tk_core (on_core f tk) = f (tk_core tk)" "tk_core (UpdateFallbackFaction f' tk) = tk_core tk"
  by (simp_all add: on_core_def UpdateFallbackFaction_def)

lemma fallback_ok: "tick_ok S (UpdateFallbackFaction f tk) = tick_ok S tk"
  by (simp add: UpdateFallbackFaction_def)

lemma promote_ok: "tick_ok S (on_core (\<lambda>c. on_controller h (c\<lparr>co_earlyFaction := f\<rparr>)) tk) = tick_ok S tk"
  by (simp add: tick_ok_def on_core_def)

lemma early_faction_ok:
  "tick_ok S (snd (GetEarlyPlayerFaction env tk)) = tick_ok S tk" "ids_left n (tk_core (snd (GetEarlyPlayerFaction env tk))) = ids_left n (tk_core tk)"
  by (simp_all add: GetEarlyPlayerFaction_def Let_def)

lemma faction_scan_ok:
  "tick_ok S (snd (RevalidateFaction env tk)) = tick_ok S tk" "ids_left n (tk_core (snd (RevalidateFaction env tk))) = ids_left n (tk_core tk)"
  by (simp_all add: RevalidateFaction_def Let_def fallback_ok promote_ok)

lemma revalidate_ok:
  "tick_ok S (snd (resolve_faction env tk)) = tick_ok S tk" "ids_left n (tk_core (snd (resolve_faction env tk))) = ids_left n (tk_core tk)"
  using faction_scan_ok(1) [of S env tk] faction_scan_ok(2) [of n env tk]
  by (auto simp: resolve_faction_def Let_def early_faction_ok split: prod.split bool.split)

lemma send_existing_ok:
  assumes "tick_ok {} tk" "ids_left (n + 100000) (tk_core tk)"
  shows "tick_ok {} (SendExistingEntitiesToServer env tk) \<and> ids_left n (tk_core (SendExistingEntitiesToServer env tk))"
proof -
  let ?cs = "all_characters (co_game (tk_core tk))"
  let ?t = "snd (resolve_faction env tk)" and ?f = "fst (resolve_faction env tk)"
  let ?x = "\<lparr>sx_core = tk_core ?t, sx_firstPlayer = 0, sx_firstNpc = 0, sx_sent = 0\<rparr>"
  have l: "ids_left (n + length ?cs) (tk_core tk)" "ids_left n (tk_core tk)"
    using assms(2) all_characters_length(2) [of "co_game (tk_core tk)"] by (simp_all add: ids_left_def)
  have t: "tick_ok {} ?t" using assms(1) by (simp add: revalidate_ok)
  have "sync_inv {} (sx_core (fold (announce_existing ?f) ?cs ?x)) \<and> ids_left n (sx_core (fold (announce_existing ?f) ?cs ?x))"
    by (rule scan_fold [where P = "\<lambda>n a. sync_inv {} (sx_core a) \<and> ids_left n (sx_core a)"])
      (rule announce_ok, assumption, simp add: tick_ok_inv [OF t] l revalidate_ok)
  with assms(1) l t show ?thesis
    by (auto simp: SendExistingEntitiesToServer_def Let_def case_prod_unfold revalidate_ok intro!: tick_ok_set)
qed

lemma scan_ok:
  assumes "tick_ok {} tk" "ids_left 200000 (tk_core tk)"
  shows "tick_ok {} (InitialEntityScan env tk)"
proof -
  have scan: "tick_ok {} (scan_attempt env t)" if t: "tick_ok {} t" "ids_left 200000 (tk_core t)" for t
  proof -
    let ?a = "if lb_hasAssignment (co_lobby (tk_core t)) \<and> 0 < sint (lb_playerSlot (co_lobby (tk_core t)))
              then on_core (FindAndClaimModCharacters env) t else t"
    have c: "sync_inv {} (FindAndClaimModCharacters env (tk_core t)) \<and> ids_left 100000 (FindAndClaimModCharacters env (tk_core t))"
      by (rule claim_scan_ok) (use t tick_ok_inv in auto)
    have a: "tick_ok {} ?a" "ids_left 100000 (tk_core ?a)"
      using t c by (auto simp: on_core_def ids_left_def tick_ok_def)
    let ?b = "if own_entities ?a = [] then SendExistingEntitiesToServer env ?a else ?a"
    have "tick_ok {} ?b" using a send_existing_ok [of ?a 0 env] by auto
    then show ?thesis by (auto simp: scan_attempt_def Let_def intro!: tick_ok_core dest: tick_ok_inv)
  qed
  have "tick_ok {} (tk\<lparr>tk_entityScanRetries := 0, tk_wasScanning := True\<rparr>)" using assms(1) by simp
  then show ?thesis using assms scan by (simp add: InitialEntityScan_def Let_def)
qed

lemma rescan_ok:
  assumes "tick_ok {} tk" "ids_left 200000 (tk_core tk)"
  shows "tick_ok {} (DeferredRescan env tk)"
proof -
  have "tick_ok {} (SendExistingEntitiesToServer env (tk\<lparr>tk_needsEntityRescan := False\<rparr>))"
    using send_existing_ok [of "tk\<lparr>tk_needsEntityRescan := False\<rparr>" 100000 env] assms by simp
  then show ?thesis using assms(1) by (auto simp: DeferredRescan_def Let_def intro!: tick_ok_core dest: tick_ok_inv)
qed

section \<open>Runs\<close>

text \<open>
  Background tasks are among the quiet steps: they may run at any time.  \<open>pipe_loading\<close> is any progress of the game's loading.
\<close>

inductive pipeline_step :: "CoreTick \<Rightarrow> CoreTick \<Rightarrow> bool" where
  pipe_quiet: "f \<in> set (quiet_steps env) \<Longrightarrow> pipeline_step tk (f tk)"
| pipe_spawn: "factory_in (unlinked (tk_core tk)) env \<Longrightarrow> requests_sized (tk_core tk) \<Longrightarrow> pipeline_step tk (HandleSpawnQueue env tk)"
| pipe_scan: "ids_left 200000 (tk_core tk) \<Longrightarrow> pipeline_step tk (InitialEntityScan env tk)"
| pipe_rescan: "ids_left 200000 (tk_core tk) \<Longrightarrow> pipeline_step tk (DeferredRescan env tk)"
| pipe_core: "core_pre x (tk_core tk) \<Longrightarrow> pipeline_step tk (on_core (core_apply x) tk)"
| pipe_loading: "pipeline_step tk (tk\<lparr>tk_loading := lo, tk_tickCallCount := n, tk_lastTickTime := t\<rparr>)"

inductive_cases pipeline_stepE: "pipeline_step tk tk'"

lemma pipeline_step_ok:
  assumes "pipeline_step tk tk'" "tick_ok {} tk"
  shows "tick_ok {} tk'"
  using assms(1)
proof cases
  case (pipe_spawn env)
  have "tick_ok (unlinked (tk_core tk)) tk" using assms(2) by (simp add: tick_ok_def sync_inv_def unlinked_def)
  then show ?thesis using pipe_spawn spawn_queue_ok by blast
next
  case (pipe_core x)
  then show ?thesis using assms(2) core_step core_apply_ok by (simp add: tick_ok_def on_core_def sync_inv_def)
next
  case (pipe_quiet f env)
  then show ?thesis using assms(2) quiet_ok by simp
next
  case (pipe_scan env)
  then show ?thesis using assms(2) scan_ok by simp
next
  case (pipe_rescan env)
  then show ?thesis using assms(2) rescan_ok by simp
next
  case (pipe_loading lo n t)
  then show ?thesis using assms(2) by (simp add: tick_ok_def)
qed

lemma CoreTick_new_ok: "tick_ok {} (CoreTick_new g)"
  using sync_start_inv [of g] by (simp add: CoreTick_new_def tick_ok_def sync_start_def)



definition example_tick_env :: tick_env where
  "example_tick_env = \<lparr>te_core = example_core_env\<lparr>en_clock := 20000000000\<rparr>,
     te_factory = \<lparr>se_ready = True, se_manager = True, se_templates = 20, se_modTemplates = 0, se_modTemplatesAfter = 0, se_preCall = True,
       se_spawn = (\<lambda>v n g. (0, g)), se_addToSquad = (\<lambda>p g. g), se_random = (\<lambda>g. (0x22000000, g))\<rparr>,
     te_moduleSize = 0x4000000, te_cosf = id, te_playerBase = 0\<rparr>"


end
