(* ===== verification/Pipeline_Properties.thy ===== *)
theory Pipeline_Properties
  imports Core_Runs
begin

text \<open>
  Properties of the default pipeline: what the server makes of the positions it sends, what the cap of one spawn for each
  player does to later requests, when the spawn gate lets requests through, and the names by which characters are claimed.
\<close>

section \<open>Positions\<close>

lemma poll_local_sent: "\<exists>xs. co_sent (poll_local e k co) = co_sent co @ xs \<and> list_all (\<lambda>(b, bs). \<not> b \<and> is_position_packet bs) xs"
  by (auto simp: poll_local_def Let_def split: option.splits)

lemma poll_positions_sent:
  "\<exists>xs. co_sent (tk_core (PollLocalPositions env tk)) = co_sent (tk_core tk) @ xs \<and> list_all (\<lambda>(b, bs). \<not> b \<and> is_position_packet bs) xs"
proof -
  have "\<exists>xs. co_sent (fold (poll_local e) ks co) = co_sent co @ xs \<and> list_all (\<lambda>(b, bs). \<not> b \<and> is_position_packet bs) xs" for e ks co
    by (rule fold_sent) (rule poll_local_sent)
  then show ?thesis by (auto simp: PollLocalPositions_def Let_def)
qed

definition ignored_by_server :: "ConnectedPlayer \<Rightarrow> GameServer \<Rightarrow> bool \<times> bytes \<Rightarrow> bool" where
  "ignored_by_server player s = (\<lambda>(reliable, bs). \<not> reliable \<and> HandlePositionUpdate player (snd (ReadHeader (PacketReader_new bs))) s = s)"

lemma packets_ignored: "list_all (\<lambda>(b, bs). \<not> b \<and> is_position_packet bs) xs \<Longrightarrow> list_all (ignored_by_server player s) xs"
  by (auto simp: list_all_iff is_position_packet_def position_packet_ignored ignored_by_server_def)

text \<open>
  C19.  Safety, as a defect, client and server.  Both pipelines report the positions of the player's own characters in packets
  without the field \<open>generation\<close>: four bytes short, none of them changes anything on the server, whoever sends them and
  whatever its state.
\<close>

theorem reported_positions_are_ignored:
  "list_all (ignored_by_server player s) (sent_since (tk_core tk) (tk_core (PollLocalPositions env tk))) \<and>
   list_all (ignored_by_server player s) (sent_since co (StagePollAndSendPositions cenv co))"
proof -
  obtain xs where "co_sent (tk_core (PollLocalPositions env tk)) = co_sent (tk_core tk) @ xs" "list_all (\<lambda>(b, bs). \<not> b \<and> is_position_packet bs) xs"
    using poll_positions_sent by blast
  moreover obtain ys where "co_sent (StagePollAndSendPositions cenv co) = co_sent co @ ys" "list_all (\<lambda>(b, bs). \<not> b \<and> is_position_packet bs) ys"
    using stage_poll_sent by blast
  ultimately show ?thesis by (simp add: sent_since_def packets_ignored)
qed

section \<open>The cap of one spawn\<close>

lemma spawn_statics [simp]:
  "direct_spawns k (on_core f tk) = direct_spawns k tk" "direct_spawns k (tk\<lparr>tk_core := co\<rparr>) = direct_spawns k tk"
  "direct_spawns k (tk\<lparr>tk_forceSpawnBypass := b\<rparr>) = direct_spawns k tk" "direct_spawns k (tk\<lparr>tk_lastStuckCheck := u\<rparr>) = direct_spawns k tk"
  "direct_spawns k (tk\<lparr>tk_gateTimerStarted := b\<rparr>) = direct_spawns k tk" "direct_spawns k (tk\<lparr>tk_gateBlockStart := t\<rparr>) = direct_spawns k tk"
  "direct_spawns k (tk\<lparr>tk_fallbackFaction := f'\<rparr>) = direct_spawns k tk" "direct_spawns k (set_game g tk) = direct_spawns k tk"
  by (simp_all add: direct_spawns_def on_core_def set_game_def)

lemma spawn_statics_on [simp]:
  "(\<And>s. st_directSpawnsPerPlayer (h s) = st_directSpawnsPerPlayer s) \<Longrightarrow> direct_spawns k (on_spawn h tk) = direct_spawns k tk"
  by (simp add: direct_spawns_def on_spawn_def)

lemma bump_count [simp]: "direct_spawns k (bump_spawns owner tk) = (if k = owner then direct_spawns k tk + 1 else direct_spawns k tk)"
  by (simp add: direct_spawns_def bump_spawns_def on_spawn_def um_simps)

lemma done_count: "direct_spawns k (spawn_done q msg tk) = (if k = rq_owner q then direct_spawns k tk + 1 else direct_spawns k tk)"
  by (simp add: spawn_done_def)

lemma fix_count [simp]: "direct_spawns k (snd (SEH_FixUpFaction_Core env p tk)) = direct_spawns k tk"
  by (simp add: SEH_FixUpFaction_Core_def GetFallbackFaction_def GetEarlyPlayerFaction_def Let_def split: prod.splits)

lemma request_count: "direct_spawns k tk \<le> direct_spawns k (snd (spawn_request_step env n q tk))"
  by (simp add: spawn_request_step_def Let_def link_mod_character_def spawned_character_def done_count split: prod.split)

lemma work_count: "direct_spawns k tk \<le> direct_spawns k (snd (work_queue env n tk))"
proof -
  have "direct_spawns k tk \<le> direct_spawns k (snd (attempt_spawn env n tk))"
    using request_count [of k "(on_spawn (\<lambda>s. s\<lparr>st_lastDirectAttempt := te_clock env\<rparr>) tk)\<lparr>tk_core := c\<rparr>" env n for c]
    by (simp add: attempt_spawn_def Let_def split: prod.split option.split)
  then show ?thesis by (simp add: work_queue_def Let_def)
qed

lemma stuck_count [simp]: "direct_spawns k (stuck_cleanup env tk) = direct_spawns k tk"
  by (simp add: stuck_cleanup_def Let_def)

lemma gate_count [simp]: "direct_spawns k (snd (spawn_gate env tk)) = direct_spawns k tk"
  "co_needSpawnQueueReset (tk_core (snd (spawn_gate env tk))) = co_needSpawnQueueReset (tk_core tk)"
  by (simp_all add: spawn_gate_def Let_def ui_def)

lemma before_count [simp]: "direct_spawns k (core_heap_scan env tk) = direct_spawns k tk" "direct_spawns k (core_track_pending env tk) = direct_spawns k tk"
  "direct_spawns k (core_show_waiting env tk) = direct_spawns k tk"
  by (simp_all add: core_heap_scan_def core_track_pending_def core_show_waiting_def Let_def)

lemma spawn_queue_count:
  assumes "\<not> co_needSpawnQueueReset (tk_core tk)"
  shows "direct_spawns k tk \<le> direct_spawns k (HandleSpawnQueue env tk)"
proof -
  let ?g = "snd (spawn_gate env tk)"
  let ?w = "core_show_waiting env (core_track_pending env (if scan_due env ?g then core_heap_scan env ?g else ?g))"
  have "reset_statics ?g = ?g" using assms by (simp add: reset_statics_def)
  moreover have "direct_spawns k tk \<le> direct_spawns k (snd (work_queue env n (core_show_waiting env (core_track_pending env t))))"
    if "direct_spawns k t = direct_spawns k tk" for n t
    using work_count [of k "core_show_waiting env (core_track_pending env t)" env n] that by simp
  ultimately show ?thesis by (simp add: HandleSpawnQueue_def Let_def case_prod_unfold split: bool.split)
qed

lemma quiet_spawn: "f \<in> set (quiet_steps env) \<Longrightarrow> tk_spawn (f tk) = tk_spawn tk"
  by (auto simp: quiet_steps_def SwapBuffers_def KickBackgroundWork_def ApplyRemotePositions_def ApplyRemotePositionsDirect_def
      PollLocalPositions_def SendCachedPackets_def HandleHostTeleport_def ValidateFactions_def Core_BackgroundReadEntities_def
      Core_BackgroundInterpolate_def send_keepalive_def CleanupSnapshots_def ForceSpawnRemotePlayers_def RequestEntityRescan_def on_core_def
      Let_def case_prod_unfold split: option.split)

lemma resolve_spawn: "tk_spawn (snd (resolve_faction env tk)) = tk_spawn tk"
proof -
  have "tk_spawn (snd (RevalidateFaction env tk)) = tk_spawn tk"
    by (simp add: RevalidateFaction_def UpdateFallbackFaction_def on_core_def Let_def)
  moreover have "tk_spawn (snd (GetEarlyPlayerFaction env t)) = tk_spawn t" for t by (simp add: GetEarlyPlayerFaction_def on_core_def Let_def)
  ultimately show ?thesis by (auto simp: resolve_faction_def Let_def case_prod_unfold split: bool.split)
qed

lemma same_spawn: "tk_spawn tk' = tk_spawn tk \<Longrightarrow> direct_spawns k tk' = direct_spawns k tk"
  by (simp add: direct_spawns_def)

lemma existing_count: "direct_spawns k (SendExistingEntitiesToServer env tk) = direct_spawns k tk"
  by (rule same_spawn) (simp add: SendExistingEntitiesToServer_def resolve_spawn Let_def case_prod_unfold)

lemma scan_count: "direct_spawns k (InitialEntityScan env tk) = direct_spawns k tk" "direct_spawns k (DeferredRescan env tk) = direct_spawns k tk"
proof -
  have e: "direct_spawns k (t\<lparr>tk_entityScanRetries := i, tk_wasScanning := b\<rparr>) = direct_spawns k t"
    "direct_spawns k (t\<lparr>tk_entityScanRetries := i\<rparr>) = direct_spawns k t" "direct_spawns k (t\<lparr>tk_wasScanning := b\<rparr>) = direct_spawns k t"
    "direct_spawns k (t\<lparr>tk_needsEntityRescan := b\<rparr>) = direct_spawns k t" for t i b
    by (simp_all add: direct_spawns_def)
  have "direct_spawns k (scan_attempt env t) = direct_spawns k t" for t by (simp add: scan_attempt_def Let_def e existing_count)
  then show "direct_spawns k (InitialEntityScan env tk) = direct_spawns k tk" by (simp add: InitialEntityScan_def Let_def e)
  show "direct_spawns k (DeferredRescan env tk) = direct_spawns k tk" by (simp add: DeferredRescan_def Let_def e existing_count)
qed

lemma step_count:
  assumes "pipeline_step tk tk'" "\<not> co_needSpawnQueueReset (tk_core tk)"
  shows "direct_spawns k tk \<le> direct_spawns k tk'"
  using assms(1)
proof cases
  case (pipe_quiet f env)
  then show ?thesis using same_spawn [OF quiet_spawn, of f env k tk] by simp
next
  case (pipe_loading lo n t)
  then show ?thesis by (simp add: direct_spawns_def)
qed (use assms(2) in \<open>simp_all add: spawn_queue_count scan_count\<close>)

text \<open>Steps of one connection: none from a state in which the statics are to be reset.\<close>

definition connected_step :: "CoreTick \<Rightarrow> CoreTick \<Rightarrow> bool" where
  "connected_step tk tk' \<longleftrightarrow> pipeline_step tk tk' \<and> \<not> co_needSpawnQueueReset (tk_core tk)"

lemma connected_count: "connected_step\<^sup>*\<^sup>* tk tk' \<Longrightarrow> direct_spawns k tk \<le> direct_spawns k tk'"
  by (induction rule: rtranclp_induct) (auto simp: connected_step_def dest: step_count [of _ _ k])



section \<open>Requests for entities that are gone\<close>

lemma missing_entity:
  assumes "GetInfo k s = None"
  shows "SetGameObject k p s = s" "UpdatePosition k v s = s" "UpdateLimbHealth k h s = s"
  using assms by (simp_all add: GetInfo_def SetGameObject_def UpdatePosition_def UpdateLimbHealth_def modify_info_def um_modify_find_None Let_def)

lemma setup_registry [simp]: "co_registry (SEH_FallbackPostSpawnSetup p k owner pos co) = co_registry co"
  by (simp add: SEH_FallbackPostSpawnSetup_def Let_def core_simps client_parts)

lemma proxy_registry [simp]: "co_registry (spawn_proxy q co) = co_registry co"
  by (simp add: spawn_proxy_def core_simps)

lemma missing_registry:
  assumes "GetInfo (rq_netId q) (co_registry co) = None"
  shows "co_registry (link_object q p co) = co_registry co" "co_registry (extended_health q p co) = co_registry co"
  using missing_entity [OF assms] by (simp_all add: link_object_def extended_health_def)

lemma remote_kept [simp]:
  "co_remoteControlled (on_game f co) = co_remoteControlled co" "co_remoteControlled (ui xs co) = co_remoteControlled co"
  "co_remoteControlled (on_reg r co) = co_remoteControlled co" "co_remoteControlled (SEH_AllyModFaction ev x co) = co_remoteControlled co"
  "co_remoteControlled (extended_health q x co) = co_remoteControlled co" "co_remoteControlled (spawn_proxy q co) = co_remoteControlled co"
  "co_remoteControlled (core_WriteGameDataName x o1 co) = co_remoteControlled co" "co_remoteControlled (link_object q x co) = co_remoteControlled co"
  by (simp_all add: on_game_def ui_def on_reg_def on_client_def SEH_AllyModFaction_def extended_health_def spawn_proxy_def hook_def
      core_WriteGameDataName_def link_object_def Let_def split: prod.splits)

lemma setup_remote: "p \<in> set (co_remoteControlled (SEH_FallbackPostSpawnSetup p k owner pos co))"
  by (simp add: SEH_FallbackPostSpawnSetup_def ai_MarkRemoteControlled_def Let_def)

lemma done_core: "tk_core (spawn_done q msg tk) = ui [UiSystem msg] (tk_core tk)"
  by (simp add: spawn_done_def bump_spawns_def on_spawn_def)

lemma ally_registry [simp]: "co_registry (SEH_AllyModFaction ev x co) = co_registry co" "co_registry (core_WriteGameDataName x o1 co) = co_registry co"
    "co_registry (ui xs co) = co_registry co"
  by (simp_all add: core_simps)

lemma orphan_spawned:
  assumes "GetInfo (rq_netId q) (co_registry (tk_core tk)) = None"
  shows "co_registry (tk_core (spawned_character env q p b tk)) = co_registry (tk_core tk)"
    "p \<in> set (co_remoteControlled (tk_core (spawned_character env q p b tk)))"
    "direct_spawns (rq_owner q) (spawned_character env q p b tk) = direct_spawns (rq_owner q) tk + 1"
  using assms by (simp_all add: spawned_character_def Let_def done_core done_count missing_registry fix_faction setup_remote)

text \<open>
  Safety, as a defect.  The spawn queue does not look whether the entity of a request still exists, and the despawn
  handler leaves requests in the queue.  A character is then created that belongs to no entity and is marked as
  controlled by the network, and it takes the one place of its player: the next request of the player is dropped.
\<close>

theorem orphan_takes_the_place:
  assumes "GetInfo (rq_netId q) (co_registry (tk_core tk)) = None" "direct_spawns (rq_owner q) tk = 0"
    "FindModCharacterBySlot (rq_owner q) (co_game (tk_core tk)) = 0"
    "factory_spawn env n q (co_game (tk_core tk)) = (p, b, g)" "user_ptr p" "p AND 7 = 0"
    "rq_owner q' = rq_owner q" "GetGameObject (rq_netId q') (co_registry (tk_core tk)) = 0"
  shows "co_registry (tk_core (snd (spawn_request_step env n q tk))) = co_registry (tk_core tk) \<and>
    p \<in> set (co_remoteControlled (tk_core (snd (spawn_request_step env n q tk)))) \<and>
    spawn_request_step env m q' (snd (spawn_request_step env n q tk)) = (False, snd (spawn_request_step env n q tk))"
proof -
  have "GetGameObject (rq_netId q) (co_registry (tk_core tk)) = 0" using assms(1) by (simp add: GetInfo_def GetGameObject_def)
  then have e: "spawn_request_step env n q tk = (False, spawned_character env q p b (set_game g tk))"
    using assms(2-6) by (simp add: spawn_request_step_def MAX_DIRECT_SPAWNS_PER_PLAYER_def Let_def)
  have r: "co_registry (tk_core (set_game g tk)) = co_registry (tk_core tk)" by (simp add: set_game_def)
  note o = orphan_spawned [where q = q and tk = "set_game g tk" and env = env and p = p and b = b, unfolded r, OF assms(1)]
  then have "spawn_request_step env m q' (spawned_character env q p b (set_game g tk)) = (False, spawned_character env q p b (set_game g tk))"
    using assms(2,7,8) by (simp add: spawn_request_step_def MAX_DIRECT_SPAWNS_PER_PLAYER_def Let_def)
  with e o show ?thesis by simp
qed

section \<open>Entities over the cap\<close>

lemma drop_registry [simp]: "co_registry (drop_entity k owner co) = Unregister k (co_registry co)" "co_spawnQueue (drop_entity k owner co) = co_spawnQueue co"
  by (simp_all add: drop_entity_def core_simps client_simps on_reg_def on_client_def on_registry_def on_interp_def entity_DecrementSpawnCount_def)

lemma Unregister_info: "GetInfo k (Unregister j s) = (if k = j then None else GetInfo k s)"
  by (auto simp: GetInfo_def Unregister_def um_simps split: option.splits)

definition never_spawned :: "EntityInfo \<Rightarrow> bool" where
  "never_spawned i \<longleftrightarrow> ei_state i = Spawning \<and> ei_gameObject i = 0"

lemma clean_stuck_info:
  assumes "co_spawnQueue co = []"
  shows "co_spawnQueue (clean_stuck j co) = []"
    "GetInfo k (co_registry (clean_stuck j co)) = (if k = j \<and> pred_option never_spawned (GetInfo k (co_registry co)) then None else GetInfo k (co_registry co))"
  using assms by (auto simp: clean_stuck_def Unregister_info never_spawned_def split: option.split)

lemma clean_stuck_fold:
  assumes "co_spawnQueue co = []" "pred_option never_spawned (GetInfo k (co_registry co))" "k \<in> set ks \<or> GetInfo k (co_registry co) = None"
  shows "GetInfo k (co_registry (fold clean_stuck ks co)) = None"
  using assms
proof (induction ks arbitrary: co)
  case (Cons j ks)
  show ?case using Cons.IH [of "clean_stuck j co"] Cons.prems by (auto simp: clean_stuck_info)
qed simp

text \<open>A single request over the cap whose turn it is, and a clean-up that is due.\<close>

definition over_cap :: "tick_env \<Rightarrow> SpawnRequest \<Rightarrow> EntityInfo \<Rightarrow> CoreTick \<Rightarrow> bool" where
  "over_cap env q i tk \<longleftrightarrow> tk_queue tk = [q] \<and> GetInfo (rq_netId q) (co_registry (tk_core tk)) = Some i \<and> never_spawned i \<and> ei_isRemote i \<and>
     1 \<le> direct_spawns (rq_owner q) tk \<and> \<not> co_needSpawnQueueReset (tk_core tk) \<and> st_hasPendingTimer (tk_spawn tk) \<and>
     2 \<le> pending_for env tk \<and> 1 \<le> whole_seconds (te_clock env - st_lastDirectAttempt (tk_spawn tk)) \<and>
     (case tk_lastStuckCheck tk of None \<Rightarrow> False | Some t \<Rightarrow> 10 \<le> whole_seconds (te_clock env - t))"

lemma over_cap_kept:
  "over_cap env q i tk \<Longrightarrow> over_cap env q i (snd (spawn_gate env tk))"
  "over_cap env q i tk \<Longrightarrow> over_cap env q i (core_heap_scan env tk)"
  "over_cap env q i tk \<Longrightarrow> over_cap env q i (core_track_pending env tk)"
  "over_cap env q i tk \<Longrightarrow> over_cap env q i (core_show_waiting env tk)"
  by (simp_all add: over_cap_def spawn_gate_def core_heap_scan_def core_track_pending_def core_show_waiting_def pending_for_def Let_def
      on_core_def on_spawn_def ui_def direct_spawns_def)

lemma remote_listed: "GetInfo k s = Some i \<Longrightarrow> ei_isRemote i \<Longrightarrow> k \<in> set (GetRemoteEntities s)"
  by (force simp: GetRemoteEntities_def ids_where_def GetInfo_def dest: map_of_SomeD)

lemma over_cap_work:
  assumes "over_cap env q i tk" "se_ready (te_factory env)"
  obtains tk' where "work_queue env n tk = (False, tk')" "co_spawnQueue (tk_core tk') = []" "co_registry (tk_core tk') = co_registry (tk_core tk)"
    "tk_lastStuckCheck tk' = tk_lastStuckCheck tk"
proof
  let ?t = "(on_spawn (\<lambda>s. s\<lparr>st_lastDirectAttempt := te_clock env\<rparr>) tk)\<lparr>tk_core := (tk_core tk)\<lparr>co_spawnQueue := []\<rparr>\<rparr>"
  have o: "GetGameObject (rq_netId q) (co_registry (tk_core tk)) = 0" using assms(1)
    by (simp add: over_cap_def never_spawned_def GetInfo_def GetGameObject_def)
  have "direct_spawns (rq_owner q) ?t = direct_spawns (rq_owner q) tk" by simp
  with o assms show "work_queue env n tk = (False, ?t)"
    by (simp add: over_cap_def work_queue_def attempt_spawn_def PopNextSpawn_def spawn_request_step_def MAX_DIRECT_SPAWNS_PER_PLAYER_def Let_def
        on_spawn_def)
qed (simp_all add: on_spawn_def)

text \<open>
  Safety, as a defect.  The queue's comment says that an entity over the cap stays in the registry, with its position
  tracked.  In fact its request is dropped, and the clean-up for orphaned entities in the same function then finds it
  without object and request and removes it from the registry.
\<close>

theorem entity_over_cap_is_removed:
  assumes "over_cap env q i tk" "se_ready (te_factory env)" "fst (spawn_gate env tk)"
  shows "GetInfo (rq_netId q) (co_registry (tk_core (HandleSpawnQueue env tk))) = None"
proof -
  let ?g = "snd (spawn_gate env tk)"
  let ?w = "core_show_waiting env (core_track_pending env (if scan_due env ?g then core_heap_scan env ?g else ?g))"
  let ?n = "if scan_due env ?g then se_modTemplatesAfter (te_factory env) else se_modTemplates (te_factory env)"
  have g: "spawn_gate env tk = (True, ?g)" using assms(3) by (metis prod.collapse)
  have "over_cap env q i ?g" by (rule over_cap_kept(1) [OF assms(1)])
  then have r: "reset_statics ?g = ?g" and w: "over_cap env q i ?w"
    by (simp add: over_cap_def reset_statics_def, auto intro!: over_cap_kept)
  obtain t where t: "work_queue env ?n ?w = (False, t)" "co_spawnQueue (tk_core t) = []" "co_registry (tk_core t) = co_registry (tk_core ?w)"
    "tk_lastStuckCheck t = tk_lastStuckCheck ?w" by (rule over_cap_work [OF w assms(2)])
  let ?t = "t\<lparr>tk_forceSpawnBypass := False\<rparr>"
  have "\<exists>u. tk_lastStuckCheck ?w = Some u \<and> 10 \<le> whole_seconds (te_clock env - u)" using w unfolding over_cap_def by (auto split: option.splits simp del: split_paired_Ex)
  then obtain u where u: "tk_lastStuckCheck t = Some u" "10 \<le> whole_seconds (te_clock env - u)" using t(4) by metis
  have "HandleSpawnQueue env tk = stuck_cleanup env ?t" using t(1) r by (subst HandleSpawnQueue_def, subst g) (cases "scan_due env ?g"; simp add: Let_def)
  also have "\<dots> = on_core (fold clean_stuck (GetRemoteEntities (co_registry (tk_core t)))) (?t\<lparr>tk_lastStuckCheck := Some (te_clock env)\<rparr>)"
    using u by (simp add: stuck_cleanup_def Let_def)
  finally have "co_registry (tk_core (HandleSpawnQueue env tk)) =
      co_registry (fold clean_stuck (GetRemoteEntities (co_registry (tk_core t))) (tk_core t))" by simp
  moreover have "GetInfo (rq_netId q) (co_registry (fold clean_stuck (GetRemoteEntities (co_registry (tk_core t))) (tk_core t))) = None"
    by (rule clean_stuck_fold) (use t(2,3) w remote_listed in \<open>auto simp: over_cap_def\<close>)
  ultimately show ?thesis by simp
qed


section \<open>The time-out of the gate\<close>

text \<open>What \<open>spawn_gate\<close> remembers and depends on.\<close>

definition gate_state :: "CoreTick \<Rightarrow> bool \<times> int \<times> LoadingOrchestrator" where
  "gate_state tk = (tk_gateTimerStarted tk, tk_gateBlockStart tk, tk_loading tk)"

lemma gate_state_parts [simp]:
  "gate_state (on_core f tk) = gate_state tk" "gate_state (on_spawn h tk) = gate_state tk" "gate_state (tk\<lparr>tk_core := co\<rparr>) = gate_state tk"
  "gate_state (tk\<lparr>tk_forceSpawnBypass := b\<rparr>) = gate_state tk" "gate_state (tk\<lparr>tk_lastStuckCheck := u\<rparr>) = gate_state tk"
  "gate_state (tk\<lparr>tk_fallbackFaction := f'\<rparr>) = gate_state tk" "gate_state (set_game g tk) = gate_state tk"
  "gate_state (bump_spawns k tk) = gate_state tk" "gate_state (spawn_done q msg tk) = gate_state tk"
  "gate_state (snd (SEH_FixUpFaction_Core env p tk)) = gate_state tk" "gate_state (reset_statics tk) = gate_state tk"
  "gate_state (core_heap_scan env tk) = gate_state tk" "gate_state (core_track_pending env tk) = gate_state tk"
  "gate_state (core_show_waiting env tk) = gate_state tk" "gate_state (stuck_cleanup env tk) = gate_state tk"
  by (simp_all add: gate_state_def on_core_def on_spawn_def set_game_def bump_spawns_def spawn_done_def SEH_FixUpFaction_Core_def
      GetFallbackFaction_def GetEarlyPlayerFaction_def reset_statics_def core_heap_scan_def core_track_pending_def core_show_waiting_def
      stuck_cleanup_def Let_def split: prod.splits)

lemma gate_state_work [simp]: "gate_state (snd (work_queue env n tk)) = gate_state tk"
proof -
  have "gate_state (snd (spawn_request_step env n q t)) = gate_state t" for q t
    by (simp add: spawn_request_step_def link_mod_character_def spawned_character_def Let_def split: prod.split)
  then show ?thesis by (simp add: work_queue_def attempt_spawn_def Let_def split: prod.split option.split)
qed

lemma gate_state_open: "CanSpawn (te_clock env) (Some (tk_loading tk)) \<Longrightarrow> gate_state (HandleSpawnQueue env tk) = gate_state tk"
  by (simp add: HandleSpawnQueue_def spawn_gate_def Let_def case_prod_unfold split: bool.split)

lemma gate_state_fold:
  "list_all (\<lambda>env. CanSpawn (te_clock env) (Some (tk_loading tk))) envs \<Longrightarrow> gate_state (fold HandleSpawnQueue envs tk) = gate_state tk"
proof (induction envs arbitrary: tk)
  case (Cons env envs)
  then have "gate_state (HandleSpawnQueue env tk) = gate_state tk" by (simp add: gate_state_open)
  moreover from this have "tk_loading (HandleSpawnQueue env tk) = tk_loading tk" by (simp add: gate_state_def)
  ultimately show ?case using Cons by simp
qed simp

text \<open>
  Safety, as a defect.  The time-out of the gate is meant for eight seconds of blocking.  Its timer is not stopped when the
  gate opens: however often the queue was worked off in between, the first time the gate blocks again, eight seconds after it
  first did, requests go through at once, where a timer that starts with the blocking would hold them.
\<close>

theorem gate_timer_is_not_restarted:
  assumes "tk_gateTimerStarted tk" "list_all (\<lambda>env. CanSpawn (te_clock env) (Some (tk_loading tk))) envs"
    "8 \<le> whole_seconds (te_clock env - tk_gateBlockStart tk)" "\<not> CanSpawn (te_clock env) (Some lo)"
    "IsGameLoaded (tk_core (fold HandleSpawnQueue envs tk))" "tk_queue (fold HandleSpawnQueue envs tk) \<noteq> []"
  shows "fst (spawn_gate env ((fold HandleSpawnQueue envs tk)\<lparr>tk_loading := lo\<rparr>)) \<and>
    \<not> fst (spawn_gate env ((fold HandleSpawnQueue envs tk)\<lparr>tk_loading := lo, tk_forceSpawnBypass := False, tk_gateTimerStarted := False\<rparr>))"
  using assms gate_state_fold [OF assms(2)] by (simp add: spawn_gate_def gate_state_def whole_seconds_def Let_def)

section \<open>The names of the mod's characters\<close>

lemma decimal_value_snoc: "decimal_value (ds @ [c]) = decimal_value ds * 10 + (uint c - 48)"
  by (simp add: decimal_value_def)

lemma digit_value: "n < 10 \<Longrightarrow> uint (48 + of_nat n :: byte) - 48 = int n"
proof -
  have "list_all (\<lambda>n. uint (48 + of_nat n :: byte) - 48 = int n) [0..<10]" by code_simp
  then show "n < 10 \<Longrightarrow> uint (48 + of_nat n :: byte) - 48 = int n" by (simp add: list_all_iff)
qed

lemma decimal_value_dec_nat: "decimal_value (dec_nat n) = int n"
proof (induction n rule: dec_nat.induct)
  case (1 n)
  show ?case
  proof (cases "n < 10")
    case True
    then show ?thesis by (simp add: dec_nat_small decimal_value_def digit_value)
  next
    case False
    then have "decimal_value (dec_nat n) = int (n div 10) * 10 + int (n mod 10)"
      using 1 by (simp add: dec_nat_big decimal_value_snoc digit_value)
    moreover have "n div 10 * 10 + n mod 10 = n" by simp
    ultimately show ?thesis by (metis of_nat_add of_nat_mult of_nat_numeral)
  qed
qed

lemma stoi_dec_nat: "stoi (dec_nat n) = (if n < 2 ^ 31 then Some (int n) else None)"
proof -
  have d: "48 \<le> c \<and> c \<le> 57" if "c \<in> set (dec_nat n)" for c
    using dec_nat_digits [OF that] by (simp add: word_le_nat_alt)
  then have t: "takeWhile is_decimal (dec_nat n) = dec_nat n" by (simp add: is_decimal_def)
  obtain c cs where c: "dec_nat n = c # cs" using dec_nat_nonempty by (cases "dec_nat n") auto
  then have "\<not> isspace c \<and> c \<noteq> 45 \<and> c \<noteq> 43" using d [of c] by (auto simp: isspace_def word_le_nat_alt)
  with c have "stoi (dec_nat n) = (if - (2 ^ 31) \<le> decimal_value (dec_nat n) \<and> decimal_value (dec_nat n) < 2 ^ 31 then Some (decimal_value (dec_nat n)) else None)"
    using t by (simp add: stoi_def Let_def)
  then show ?thesis by (simp add: decimal_value_dec_nat)
qed

text \<open>
  Round trip.  The name by which other clients look for the character of a slot is claimed for exactly that slot by
  the client it belongs to, and names of slots that do not exist are claimed by nobody.
\<close>

theorem slot_name_roundtrip:
  "mod_character_slot (lit ''Player '' @ dec_nat k) = (if 1 \<le> k \<and> k \<le> 16 then Some (int k) else None)"
proof -
  have "length (lit ''Player '') = 7" by code_simp
  moreover have "1 \<le> length (dec_nat k)" using dec_nat_nonempty [of k] by (cases "dec_nat k") simp_all
  ultimately show ?thesis by (auto simp: mod_character_slot_def stoi_dec_nat)
qed


section \<open>Examples\<close>

text \<open>
  A game in which player 2 has had his spawn: the request for his entity 7 waits, registered but not spawned.  In
  \<open>example_orphan\<close> he has not had it and the entity is gone.
\<close>

definition example_capped :: CoreTick where
  "example_capped = (CoreTick_new example_walk)\<lparr>
     tk_core := (ClientCore_new example_walk)\<lparr>co_client := (on_registry (RegisterRemote 7 NPC 2 Vec3_default) (Client_new 1))\<lparr>cl_gameLoaded := True\<rparr>,
       co_spawnQueue := [example_request]\<rparr>,
     tk_forceSpawnBypass := True, tk_lastStuckCheck := Some 0,
     tk_spawn := SpawnStatics_new\<lparr>st_hasPendingTimer := True, st_directSpawnsPerPlayer := [(2, 1)]\<rparr>\<rparr>"

definition example_orphan :: CoreTick where
  "example_orphan = (CoreTick_new example_walk)\<lparr>tk_core := (ClientCore_new example_walk)\<lparr>co_spawnQueue := [example_request]\<rparr>\<rparr>"

lemma example_capped_info: "GetInfo 7 (co_registry (tk_core example_capped)) = Some (remote_info 7 NPC 2 Vec3_default)"
  by (simp add: example_capped_def client_simps Client_new_def EntityRegistry_new_def RegisterRemote_def GetInfo_def um_simps um_set_def)

lemma example_capped_count: "direct_spawns 2 example_capped = 1"
  by (simp add: example_capped_def direct_spawns_def)

lemma example_capped_connected: "\<not> co_needSpawnQueueReset (tk_core example_capped)"
  by (simp add: example_capped_def ClientCore_new_def)


theorem entity_over_cap_is_removed_witness:
  "GetInfo 7 (co_registry (tk_core example_capped)) \<noteq> None \<and>
   GetInfo 7 (co_registry (tk_core (HandleSpawnQueue example_tick_env example_capped))) = None"
proof -
  have clock: "te_clock example_tick_env = 20000000000" by (simp add: example_tick_env_def)
  have n: "rq_netId example_request = 7" "rq_owner example_request = 2" by (simp_all add: example_request_def)
  have f: "tk_queue example_capped = [example_request]" "st_hasPendingTimer (tk_spawn example_capped)"
    "st_lastDirectAttempt (tk_spawn example_capped) = 0" "st_firstPendingTime (tk_spawn example_capped) = 0"
    "tk_lastStuckCheck example_capped = Some 0" "tk_forceSpawnBypass example_capped" "IsGameLoaded (tk_core example_capped)"
    by (simp_all add: example_capped_def SpawnStatics_new_def)
  have "over_cap example_tick_env example_request (remote_info 7 NPC 2 Vec3_default) example_capped"
    unfolding over_cap_def n example_capped_info example_capped_count
    using example_capped_connected f by (simp add: never_spawned_def remote_info_def pending_for_def clock whole_seconds_def)
  moreover have "se_ready (te_factory example_tick_env)" by (simp add: example_tick_env_def)
  moreover have "fst (spawn_gate example_tick_env example_capped)" using f by (simp add: spawn_gate_def)
  ultimately have "GetInfo (rq_netId example_request) (co_registry (tk_core (HandleSpawnQueue example_tick_env example_capped))) = None"
    by (rule entity_over_cap_is_removed)
  then show ?thesis using example_capped_info by (simp add: n)
qed

theorem orphan_takes_the_place_witness:
  "0x22000000 \<in> set (co_remoteControlled (tk_core (snd (spawn_request_step example_tick_env 0 example_request example_orphan)))) \<and>
   reg_ptrToId (co_registry (tk_core (snd (spawn_request_step example_tick_env 0 example_request example_orphan)))) = []"
proof -
  have n: "rq_netId example_request = 7" "rq_owner example_request = 2" by (simp_all add: example_request_def)
  have c: "co_game (tk_core example_orphan) = example_walk" by (simp add: example_orphan_def ClientCore_new_def)
  have r: "co_registry (tk_core example_orphan) = EntityRegistry_new" by (simp add: example_orphan_def ClientCore_new_def Client_new_def)
  have "all_characters example_walk = []" by code_simp
  then have m: "FindModCharacterBySlot 2 example_walk = 0" by (simp add: FindModCharacterBySlot_def)
  have f: "factory_spawn example_tick_env 0 example_request example_walk = (0x22000000, False, example_walk)"
    by (simp add: factory_spawn_def example_tick_env_def)
  have "direct_spawns 2 example_orphan = 0" by (simp add: example_orphan_def direct_spawns_def CoreTick_new_def SpawnStatics_new_def)
  then show ?thesis
    using orphan_takes_the_place [where q = example_request and tk = example_orphan and env = example_tick_env and n = 0 and m = 0 and p = "0x22000000" and b = False and g = example_walk and
      q' = "example_request\<lparr>rq_netId := 8\<rparr>"] m f
    by (simp add: n c r GetInfo_def GetGameObject_def EntityRegistry_new_def user_ptr_def)
qed

definition example_gate :: CoreTick where
  "example_gate = example_capped\<lparr>tk_gateTimerStarted := True, tk_gateBlockStart := 0\<rparr>"

theorem gate_timer_is_not_restarted_witness:
  "fst (spawn_gate example_tick_env (example_gate\<lparr>tk_loading := LoadingOrchestrator_new\<rparr>)) \<and>
   \<not> fst (spawn_gate example_tick_env (example_gate\<lparr>tk_loading := LoadingOrchestrator_new, tk_forceSpawnBypass := False, tk_gateTimerStarted := False\<rparr>))"
  using gate_timer_is_not_restarted [of example_gate "[]" example_tick_env LoadingOrchestrator_new]
  by (simp add: example_gate_def example_capped_def example_tick_env_def CanSpawn_def IsSafeToSpawn_def LoadingOrchestrator_new_def whole_seconds_def)

end
