(* ===== verification/Event_Hooks.thy ===== *)
theory Event_Hooks
  imports Core_Scan "HOL-Library.While_Combinator"
begin

text \<open>
  The hooks on single events of the game (\<^verbatim>\<open>KenshiMP.Core/hooks\<close>: \<^verbatim>\<open>combat_hooks.cpp\<close>, \<^verbatim>\<open>world_hooks.cpp\<close>,
  \<^verbatim>\<open>faction_hooks.cpp\<close>, \<^verbatim>\<open>inventory_hooks.cpp\<close>) and the guarded call of the hooked function
  (\<^verbatim>\<open>kmp/safe_hook.h\<close>).  Deaths, knock-outs and zone changes go through a ring buffer to the game tick; relations and
  items are sent by the hook itself.  What the game's own function does to memory, and whether it faults, is the
  parameter \<open>native\<close>.  Installing the hooks, the diagnostic counters and logging are left out; both sides of a ring run
  on the game thread, so its operations are not interleaved.
\<close>

section \<open>The guarded call\<close>

type_synonym native = "GameMemory \<Rightarrow> bool \<times> GameMemory"

record HookHealth =
  hh_trampolineFailed :: bool
  hh_failCount :: nat

definition HookHealth_new :: HookHealth where
  "HookHealth_new = \<lparr>hh_trampolineFailed = False, hh_failCount = 0\<rparr>"

definition SafeCall :: "native \<Rightarrow> HookHealth \<Rightarrow> GameProcess \<Rightarrow> bool \<times> HookHealth \<times> GameProcess" where
  "SafeCall native hh g =
     (if hh_trampolineFailed hh then (False, hh, g)
      else case native (gp_memory g) of
        (True, m) \<Rightarrow> (True, hh, g\<lparr>gp_memory := m\<rparr>)
      | (False, m) \<Rightarrow> (False, \<lparr>hh_trampolineFailed = True, hh_failCount = hh_failCount hh + 1\<rparr>, g\<lparr>gp_memory := m\<rparr>))"

definition guarded :: "native \<Rightarrow> HookHealth \<Rightarrow> ClientCore \<Rightarrow> bool \<times> HookHealth \<times> ClientCore" where
  "guarded native hh co = (case SafeCall native hh (co_game co) of (ok, hh1, g) \<Rightarrow> (ok, hh1, co\<lparr>co_game := g\<rparr>))"

section \<open>The ring buffers\<close>

record 'e EventRing =
  er_slots :: "'e list"
  er_write :: nat
  er_read :: nat

definition event_ring :: "nat \<Rightarrow> 'e \<Rightarrow> 'e EventRing" where
  "event_ring n e = \<lparr>er_slots = replicate n e, er_write = 0, er_read = 0\<rparr>"

definition ring_next :: "'e EventRing \<Rightarrow> nat \<Rightarrow> nat" where
  "ring_next q i = (i + 1) mod length (er_slots q)"

text \<open>One slot stays free: a full ring refuses the event.\<close>

definition ring_push_event :: "'e \<Rightarrow> 'e EventRing \<Rightarrow> bool \<times> 'e EventRing" where
  "ring_push_event e q = (let n = ring_next q (er_write q) in
     if n = er_read q then (False, q) else (True, q\<lparr>er_slots := (er_slots q)[er_write q := e], er_write := n\<rparr>))"

definition ring_pop_event :: "'e EventRing \<Rightarrow> 'e option \<times> 'e EventRing" where
  "ring_pop_event q = (if er_read q = er_write q then (None, q)
     else (Some (er_slots q ! er_read q), q\<lparr>er_read := ring_next q (er_read q)\<rparr>))"

definition drain_events :: "'e EventRing \<Rightarrow> 'e EventRing" where
  "drain_events q = while (\<lambda>q. fst (ring_pop_event q) \<noteq> None) (\<lambda>q. snd (ring_pop_event q)) q"

section \<open>Deaths and knock-outs\<close>

datatype CombatEventType = DeathEvent | KOEvent

record DeferredCombatEvent =
  dce_type :: CombatEventType
  dce_entityId :: EntityID
  dce_otherId :: EntityID
  dce_reason :: u8

definition MAX_DEFERRED_EVENTS :: nat where "MAX_DEFERRED_EVENTS = 256"

definition DeferredCombatEvent_default :: DeferredCombatEvent where
  "DeferredCombatEvent_default = \<lparr>dce_type = DeathEvent, dce_entityId = 0, dce_otherId = 0, dce_reason = 0\<rparr>"

record CombatHooks =
  cbh_events :: "DeferredCombatEvent EventRing"
  cbh_dropCount :: nat
  cbh_serverSourcedDeath :: bool
  cbh_serverSourcedKO :: bool
  cbh_deathHealth :: HookHealth
  cbh_koHealth :: HookHealth
  cbh_lastSentHealth :: "(EntityID, f32 list) umap"
  cbh_lastPollMs :: int

definition CombatHooks_new :: CombatHooks where
  "CombatHooks_new = \<lparr>cbh_events = event_ring MAX_DEFERRED_EVENTS DeferredCombatEvent_default, cbh_dropCount = 0,
     cbh_serverSourcedDeath = False, cbh_serverSourcedKO = False, cbh_deathHealth = HookHealth_new, cbh_koHealth = HookHealth_new,
     cbh_lastSentHealth = [], cbh_lastPollMs = 0\<rparr>"

definition PushEvent :: "DeferredCombatEvent \<Rightarrow> CombatHooks \<Rightarrow> CombatHooks" where
  "PushEvent e ch = (case ring_push_event e (cbh_events ch) of
     (True, q) \<Rightarrow> ch\<lparr>cbh_events := q\<rparr> | (False, q) \<Rightarrow> ch\<lparr>cbh_dropCount := cbh_dropCount ch + 1\<rparr>)"

definition PopEvent :: "CombatHooks \<Rightarrow> DeferredCombatEvent option \<times> CombatHooks" where
  "PopEvent ch = (case ring_pop_event (cbh_events ch) of (e, q) \<Rightarrow> (e, ch\<lparr>cbh_events := q\<rparr>))"

definition other_id :: "u64 \<Rightarrow> ClientCore \<Rightarrow> EntityID" where
  "other_id p co = (if p = 0 then INVALID_ENTITY else GetNetId p (co_registry co))"

definition Hook_CharacterDeath :: "native \<Rightarrow> u64 \<Rightarrow> u64 \<Rightarrow> CombatHooks \<times> ClientCore \<Rightarrow> CombatHooks \<times> ClientCore" where
  "Hook_CharacterDeath native character killer = (\<lambda>(ch, co).
     case guarded native (cbh_deathHealth ch) co of (ok, hh, co1) \<Rightarrow>
       let ch1 = ch\<lparr>cbh_deathHealth := hh\<rparr>; k = GetNetId character (co_registry co1) in
       if cbh_serverSourcedDeath ch1 \<or> \<not> co_connected co1 \<or> k = INVALID_ENTITY then (ch1, co1)
       else (PushEvent \<lparr>dce_type = DeathEvent, dce_entityId = k, dce_otherId = other_id killer co1, dce_reason = 0\<rparr> ch1, co1))"

definition Hook_CharacterKO :: "native \<Rightarrow> u64 \<Rightarrow> u64 \<Rightarrow> i32 \<Rightarrow> CombatHooks \<times> ClientCore \<Rightarrow> CombatHooks \<times> ClientCore" where
  "Hook_CharacterKO native character attacker reason = (\<lambda>(ch, co).
     case guarded native (cbh_koHealth ch) co of (ok, hh, co1) \<Rightarrow>
       let ch1 = ch\<lparr>cbh_koHealth := hh\<rparr>; k = GetNetId character (co_registry co1) in
       if cbh_serverSourcedKO ch1 \<or> \<not> co_connected co1 \<or> k = INVALID_ENTITY then (ch1, co1)
       else (PushEvent \<lparr>dce_type = KOEvent, dce_entityId = k, dce_otherId = other_id attacker co1, dce_reason = ucast reason\<rparr> ch1, co1))"

definition SetServerSourcedDeath :: "bool \<Rightarrow> CombatHooks \<Rightarrow> CombatHooks" where
  "SetServerSourcedDeath b ch = ch\<lparr>cbh_serverSourcedDeath := b\<rparr>"

definition SetServerSourcedKO :: "bool \<Rightarrow> CombatHooks \<Rightarrow> CombatHooks" where
  "SetServerSourcedKO b ch = ch\<lparr>cbh_serverSourcedKO := b\<rparr>"

text \<open>Every read of the accessor is guarded by itself, so the handlers around the two readers never run.\<close>

definition SEH_ReadAllLimbHealth :: "u64 \<Rightarrow> GameProcess \<Rightarrow> f32 list" where
  "SEH_ReadAllLimbHealth p g = map (\<lambda>part. Character_GetHealth part p g) [Head, Chest, Stomach, LeftArm, RightArm, LeftLeg, RightLeg]"

definition SEH_ReadChestHealth :: "u64 \<Rightarrow> GameProcess \<Rightarrow> f32" where
  "SEH_ReadChestHealth p g = Character_GetHealth Chest p g"

definition limb_packet :: "EntityID \<Rightarrow> f32 list \<Rightarrow> bytes" where
  "limb_packet k hs = packet ([hdr C2S_LimbHealth, WriteU32 k] @ map WriteF32 hs)"

definition SendLimbHealthUpdate :: "EntityID \<Rightarrow> u64 \<Rightarrow> ClientCore \<Rightarrow> ClientCore" where
  "SendLimbHealthUpdate k p co = (if p = 0 then co else client_send True (limb_packet k (SEH_ReadAllLimbHealth p (co_game co))) co)"

definition death_packet :: "EntityID \<Rightarrow> EntityID \<Rightarrow> bytes" where
  "death_packet k killer = packet [hdr C2S_CombatDeath, WriteU32 k, WriteU32 killer]"

definition ko_packet :: "EntityID \<Rightarrow> EntityID \<Rightarrow> u8 \<Rightarrow> f32 \<Rightarrow> bytes" where
  "ko_packet k attacker reason h = packet [hdr C2S_CombatKO, WriteU32 k, WriteU32 attacker, WriteU8 reason, WriteF32 h]"

definition report_event :: "DeferredCombatEvent \<Rightarrow> ClientCore \<Rightarrow> ClientCore" where
  "report_event e co = (let k = dce_entityId e; p = GetGameObject k (co_registry co) in
     if GetInfo k (co_registry co) = None then co
     else case dce_type e of
       DeathEvent \<Rightarrow> SendLimbHealthUpdate k p (client_send True (death_packet k (dce_otherId e)) co)
     | KOEvent \<Rightarrow> SendLimbHealthUpdate k p (client_send True
         (ko_packet k (dce_otherId e) (dce_reason e) (if p = 0 then f32_of_int (- 100) else SEH_ReadChestHealth p (co_game co))) co))"

text \<open>\<open>left\<close> counts what may still be handled: the loop takes an event before it looks at it.\<close>

fun deferred_events :: "nat \<Rightarrow> CombatHooks \<times> ClientCore \<Rightarrow> CombatHooks \<times> ClientCore" where
  "deferred_events left (ch, co) = (case PopEvent ch of
     (None, ch1) \<Rightarrow> (ch1, co)
   | (Some e, ch1) \<Rightarrow> (case left of 0 \<Rightarrow> (ch1, co) | Suc n \<Rightarrow> deferred_events n (ch1, report_event e co)))"

definition ProcessDeferredEvents :: "CombatHooks \<times> ClientCore \<Rightarrow> CombatHooks \<times> ClientCore" where
  "ProcessDeferredEvents = (\<lambda>(ch, co).
     if \<not> co_connected co then (ch\<lparr>cbh_events := drain_events (cbh_events ch)\<rparr>, co)
     else deferred_events 64 (ch\<lparr>cbh_dropCount := 0\<rparr>, co))"

section \<open>Polled health\<close>

definition HEALTH_POLL_INTERVAL_MS :: int where "HEALTH_POLL_INTERVAL_MS = 250"

definition HEALTH_EPSILON :: f32 where "HEALTH_EPSILON = f32_lit 1 2"

definition MAX_POLLED_PER_TICK :: nat where "MAX_POLLED_PER_TICK = 64"

definition limbs_changed :: "f32 list option \<Rightarrow> f32 list \<Rightarrow> bool" where
  "limbs_changed sent_before cur = (case sent_before of
     None \<Rightarrow> True
   | Some old \<Rightarrow> list_ex (\<lambda>(x, y). f32_lt HEALTH_EPSILON (f32_abs (f32_sub x y))) (zip cur old))"

fun poll_health :: "nat \<Rightarrow> EntityID list \<Rightarrow> CombatHooks \<times> ClientCore \<Rightarrow> CombatHooks \<times> ClientCore" where
  "poll_health processed [] s = s"
| "poll_health processed (k # ks) (ch, co) =
     (if MAX_POLLED_PER_TICK \<le> processed then (ch, co)
      else let p = GetGameObject k (co_registry co); cur = SEH_ReadAllLimbHealth p (co_game co) in
        if p = 0 then poll_health processed ks (ch, co)
        else if \<not> limbs_changed (um_find (cbh_lastSentHealth ch) k) cur then poll_health (processed + 1) ks (ch, co)
        else poll_health (processed + 1) ks
          (ch\<lparr>cbh_lastSentHealth := um_set k cur (cbh_lastSentHealth ch)\<rparr>, SendLimbHealthUpdate k p co))"

definition forget_others :: "EntityID list \<Rightarrow> CombatHooks \<Rightarrow> CombatHooks" where
  "forget_others owned ch = (if length (remdups owned) < length (cbh_lastSentHealth ch)
     then ch\<lparr>cbh_lastSentHealth := filter (\<lambda>(k, v). k \<in> set owned) (cbh_lastSentHealth ch)\<rparr> else ch)"

text \<open>\<open>now\<close> in milliseconds.\<close>

definition PollOwnedHealth :: "int \<Rightarrow> CombatHooks \<times> ClientCore \<Rightarrow> CombatHooks \<times> ClientCore" where
  "PollOwnedHealth now = (\<lambda>(ch, co).
     if \<not> co_connected co then (ch\<lparr>cbh_lastSentHealth := []\<rparr>, co)
     else if now - cbh_lastPollMs ch < HEALTH_POLL_INTERVAL_MS then (ch, co)
     else
       let ch1 = ch\<lparr>cbh_lastPollMs := now\<rparr>; owned = GetPlayerEntities (co_localPlayerId co) (co_registry co) in
       if co_localPlayerId co = 0 then (ch1, co)
       else case poll_health 0 owned (ch1, co) of (ch2, co2) \<Rightarrow> (forget_others owned ch2, co2))"

section \<open>Zones\<close>

datatype ZoneEventType = LoadEvent | UnloadEvent

record DeferredZoneEvent =
  dze_type :: ZoneEventType
  dze_zoneX :: i32
  dze_zoneY :: i32

definition ZONE_RING_SIZE :: nat where "ZONE_RING_SIZE = 32"

record ZoneHooks =
  znh_events :: "DeferredZoneEvent EventRing"
  znh_loadHealth :: HookHealth
  znh_unloadHealth :: HookHealth

definition ZoneHooks_new :: ZoneHooks where
  "ZoneHooks_new = \<lparr>znh_events = event_ring ZONE_RING_SIZE \<lparr>dze_type = LoadEvent, dze_zoneX = 0, dze_zoneY = 0\<rparr>,
     znh_loadHealth = HookHealth_new, znh_unloadHealth = HookHealth_new\<rparr>"

definition PushZoneEvent :: "DeferredZoneEvent \<Rightarrow> ZoneHooks \<Rightarrow> ZoneHooks" where
  "PushZoneEvent e zh = zh\<lparr>znh_events := snd (ring_push_event e (znh_events zh))\<rparr>"

definition Hook_ZoneLoad :: "native \<Rightarrow> i32 \<Rightarrow> i32 \<Rightarrow> ZoneHooks \<times> ClientCore \<Rightarrow> ZoneHooks \<times> ClientCore" where
  "Hook_ZoneLoad native x y = (\<lambda>(zh, co). case guarded native (znh_loadHealth zh) co of (ok, hh, co1) \<Rightarrow>
     let zh1 = zh\<lparr>znh_loadHealth := hh\<rparr> in
     (if co_connected co1 then PushZoneEvent \<lparr>dze_type = LoadEvent, dze_zoneX = x, dze_zoneY = y\<rparr> zh1 else zh1, co1))"

definition Hook_ZoneUnload :: "native \<Rightarrow> i32 \<Rightarrow> i32 \<Rightarrow> ZoneHooks \<times> ClientCore \<Rightarrow> ZoneHooks \<times> ClientCore" where
  "Hook_ZoneUnload native x y = (\<lambda>(zh, co). case guarded native (znh_unloadHealth zh) co of (ok, hh, co1) \<Rightarrow>
     let zh1 = zh\<lparr>znh_unloadHealth := hh\<rparr> in
     (if co_connected co1 then PushZoneEvent \<lparr>dze_type = UnloadEvent, dze_zoneX = x, dze_zoneY = y\<rparr> zh1 else zh1, co1))"

definition unload_entity :: "EntityID \<Rightarrow> ClientCore \<Rightarrow> ClientCore" where
  "unload_entity k co = on_client (on_interp (Interpolation_RemoveEntity k))
     (case GetInfo k (co_registry co) of
        Some i \<Rightarrow> if ei_isRemote i then entity_DecrementSpawnCount (ei_ownerPlayerId i) co else co
      | None \<Rightarrow> co)"

definition zone_event :: "DeferredZoneEvent \<Rightarrow> ClientCore \<Rightarrow> ClientCore" where
  "zone_event e co = (case dze_type e of
     LoadEvent \<Rightarrow> client_send True (packet [hdr C2S_ZoneRequest, WriteI32 (dze_zoneX e), WriteI32 (dze_zoneY e)]) co
   | UnloadEvent \<Rightarrow>
       let z = ZoneCoord_new (dze_zoneX e) (dze_zoneY e)
       in on_reg (RemoveEntitiesInZone z) (fold unload_entity (GetEntitiesInZone z (co_registry co)) co))"

fun zone_events :: "nat \<Rightarrow> ZoneHooks \<times> ClientCore \<Rightarrow> ZoneHooks \<times> ClientCore" where
  "zone_events 0 s = s"
| "zone_events (Suc n) (zh, co) = (case ring_pop_event (znh_events zh) of
     (None, q) \<Rightarrow> (zh, co) | (Some e, q) \<Rightarrow> zone_events n (zh\<lparr>znh_events := q\<rparr>, zone_event e co))"

definition ProcessDeferredZoneEvents :: "ZoneHooks \<times> ClientCore \<Rightarrow> ZoneHooks \<times> ClientCore" where
  "ProcessDeferredZoneEvents = (\<lambda>(zh, co).
     if \<not> co_connected co then (zh\<lparr>znh_events := drain_events (znh_events zh)\<rparr>, co) else zone_events 8 (zh, co))"

end
