(* ===== verification/Report_Hooks.thy ===== *)
theory Report_Hooks
  imports Event_Hooks
begin

text \<open>
  The hooks that send from the hook itself: relations between factions (\<^verbatim>\<open>KenshiMP.Core/hooks/faction_hooks.cpp\<close>) and
  items picked up, dropped and bought (\<^verbatim>\<open>inventory_hooks.cpp\<close>).  They report what the game's function has done, unless
  it faulted, a save is loading or, for relations, the change came from the server.
\<close>

section \<open>Relations\<close>

record FactionHooks =
  fch_loading :: bool
  fch_serverSourced :: bool

definition FactionHooks_SetLoading :: "bool \<Rightarrow> FactionHooks \<Rightarrow> FactionHooks" where
  "FactionHooks_SetLoading b fh = fh\<lparr>fch_loading := b\<rparr>"

definition FactionHooks_SetServerSourced :: "bool \<Rightarrow> FactionHooks \<Rightarrow> FactionHooks" where
  "FactionHooks_SetServerSourced b fh = fh\<lparr>fch_serverSourced := b\<rparr>"

text \<open>This hook has no memory of a fault.\<close>

definition run_native :: "native \<Rightarrow> ClientCore \<Rightarrow> bool \<times> ClientCore" where
  "run_native native co = (case native (gp_memory (co_game co)) of (ok, m) \<Rightarrow> (ok, on_game (on_memory (\<lambda>_. m)) co))"

definition faction_id :: "u64 \<Rightarrow> GameProcess \<Rightarrow> u32" where
  "faction_id p g = (if p = 0 then 0 else peek32 0 (at_offset p (fao_id (fac_off g))) (gp_memory g))"

definition Hook_FactionRelation :: "native \<Rightarrow> u64 \<Rightarrow> u64 \<Rightarrow> f32 \<Rightarrow> FactionHooks \<Rightarrow> ClientCore \<Rightarrow> ClientCore" where
  "Hook_FactionRelation native factionA factionB relation fh co = (case run_native native co of (ok, co1) \<Rightarrow>
     let g = co_game co1 in
     if \<not> ok \<or> fch_loading fh \<or> fch_serverSourced fh \<or> \<not> co_connected co1 \<or> fao_id (fac_off g) < 0 then co1
     else client_send True (packet [hdr C2S_FactionRelation, WriteRaw (MsgFactionRelation_enc
       \<lparr>MsgFactionRelation_factionIdA = faction_id factionA g, MsgFactionRelation_factionIdB = faction_id factionB g,
        MsgFactionRelation_relation = relation, MsgFactionRelation_causerEntityId = 0\<rparr>)]) co1)"

section \<open>Items\<close>

record InventoryHooks =
  ivh_loading :: bool
  ivh_pickupHealth :: HookHealth
  ivh_dropHealth :: HookHealth
  ivh_buyHealth :: HookHealth

definition InventoryHooks_new :: InventoryHooks where
  "InventoryHooks_new = \<lparr>ivh_loading = False, ivh_pickupHealth = HookHealth_new, ivh_dropHealth = HookHealth_new, ivh_buyHealth = HookHealth_new\<rparr>"

definition InventoryHooks_SetLoading :: "bool \<Rightarrow> InventoryHooks \<Rightarrow> InventoryHooks" where
  "InventoryHooks_SetLoading b ih = ih\<lparr>ivh_loading := b\<rparr>"

text \<open>With the offset the code was compiled with, not the one that was discovered.\<close>

definition TryGetItemTemplateId :: "u64 \<Rightarrow> GameProcess \<Rightarrow> u32" where
  "TryGetItemTemplateId p g = (if p = 0 then 0 else peek32 0 (at_offset p (ito_templateId ItemOffsets_default)) (gp_memory g))"

text \<open>The entity that owns an inventory, if the pointer to it is known and leads to one.\<close>

definition inventory_owner :: "u64 \<Rightarrow> ClientCore \<Rightarrow> EntityID" where
  "inventory_owner iv co = (let g = co_game co; off = ivo_owner (gof_inventory (gp_offsets g)) in
     if off < 0 then INVALID_ENTITY
     else let p = peek64 (at_offset iv off) (gp_memory g) in
       if p = 0 then INVALID_ENTITY else GetNetId p (co_registry co))"

definition Hook_ItemPickup :: "native \<Rightarrow> u64 \<Rightarrow> u64 \<Rightarrow> i32 \<Rightarrow> InventoryHooks \<times> ClientCore \<Rightarrow> InventoryHooks \<times> ClientCore" where
  "Hook_ItemPickup native iv item quantity = (\<lambda>(ih, co). case guarded native (ivh_pickupHealth ih) co of (ok, hh, co1) \<Rightarrow>
     let k = inventory_owner iv co1 in
     (ih\<lparr>ivh_pickupHealth := hh\<rparr>,
      if \<not> ok \<or> ivh_loading ih \<or> \<not> co_connected co1 \<or> k = INVALID_ENTITY then co1
      else client_send True (packet [hdr C2S_ItemPickup, WriteRaw (MsgItemPickup_enc
        \<lparr>MsgItemPickup_entityId = k, MsgItemPickup_itemTemplateId = TryGetItemTemplateId item (co_game co1),
         MsgItemPickup_quantity = quantity\<rparr>)]) co1))"

definition Hook_ItemDrop :: "native \<Rightarrow> u64 \<Rightarrow> u64 \<Rightarrow> InventoryHooks \<times> ClientCore \<Rightarrow> InventoryHooks \<times> ClientCore" where
  "Hook_ItemDrop native iv item = (\<lambda>(ih, co). case guarded native (ivh_dropHealth ih) co of (ok, hh, co1) \<Rightarrow>
     let k = inventory_owner iv co1 in
     (ih\<lparr>ivh_dropHealth := hh\<rparr>,
      if \<not> ok \<or> ivh_loading ih \<or> \<not> co_connected co1 \<or> k = INVALID_ENTITY then co1
      else client_send True (packet [hdr C2S_ItemDrop, WriteRaw (MsgItemDrop_enc
        \<lparr>MsgItemDrop_entityId = k, MsgItemDrop_itemTemplateId = TryGetItemTemplateId item (co_game co1),
         MsgItemDrop_posX = 0, MsgItemDrop_posY = 0, MsgItemDrop_posZ = 0\<rparr>)]) co1))"

definition Hook_BuyItem :: "native \<Rightarrow> u64 \<Rightarrow> u64 \<Rightarrow> u64 \<Rightarrow> i32 \<Rightarrow> InventoryHooks \<times> ClientCore \<Rightarrow> InventoryHooks \<times> ClientCore" where
  "Hook_BuyItem native buyer seller item quantity = (\<lambda>(ih, co). case guarded native (ivh_buyHealth ih) co of (ok, hh, co1) \<Rightarrow>
     let k = GetNetId buyer (co_registry co1) in
     (ih\<lparr>ivh_buyHealth := hh\<rparr>,
      if \<not> ok \<or> ivh_loading ih \<or> \<not> co_connected co1 \<or> k = INVALID_ENTITY then co1
      else client_send True (packet [hdr C2S_TradeRequest, WriteRaw (MsgTradeRequest_enc
        \<lparr>MsgTradeRequest_buyerEntityId = k, MsgTradeRequest_sellerEntityId = GetNetId seller (co_registry co1),
         MsgTradeRequest_itemTemplateId = TryGetItemTemplateId item (co_game co1), MsgTradeRequest_quantity = quantity,
         MsgTradeRequest_price = 0\<rparr>)]) co1))"

end
