(* ===== verification/Hook_Properties.thy ===== *)
theory Hook_Properties
  imports Report_Hooks Core_Runs Zone_Engine
begin

text \<open>
  What the hooks on single events do.  \<open>bounded_queue\<close> is the contract of a ring buffer between a hook and the tick; the
  rings of the combat and of the zone hooks are its instances.  Then the deaths and knock-outs that the tick reports, the
  polled health, and the way of both to the server.
\<close>

section \<open>The contract of a ring\<close>

locale bounded_queue =
  fixes push :: "'e \<Rightarrow> 'q \<Rightarrow> bool \<times> 'q" and pop :: "'q \<Rightarrow> 'e option \<times> 'q" and contents :: "'q \<Rightarrow> 'e list"
    and ok :: "'q \<Rightarrow> bool" and cap :: nat
  assumes bounded: "ok q \<Longrightarrow> length (contents q) \<le> cap"
    and push_ok: "ok q \<Longrightarrow> ok (snd (push e q))"
    and push_room: "ok q \<Longrightarrow> length (contents q) < cap \<Longrightarrow> fst (push e q) \<and> contents (snd (push e q)) = contents q @ [e]"
    and push_full: "ok q \<Longrightarrow> length (contents q) = cap \<Longrightarrow> push e q = (False, q)"
    and pop_ok: "ok q \<Longrightarrow> ok (snd (pop q))"
    and pop_empty: "ok q \<Longrightarrow> contents q = [] \<Longrightarrow> pop q = (None, q)"
    and pop_head: "ok q \<Longrightarrow> contents q = e # es \<Longrightarrow> fst (pop q) = Some e \<and> contents (snd (pop q)) = es"
begin

lemma push_contents: "ok q \<Longrightarrow> contents (snd (push e q)) = contents q @ take (cap - length (contents q)) [e]"
  using bounded [of q] push_room [of q e] push_full [of q e] by (cases "length (contents q) < cap") auto

text \<open>Of a burst of events the ring keeps the first ones, in order.\<close>

lemma burst:
  assumes "ok q"
  shows "ok (fold (\<lambda>e q. snd (push e q)) es q) \<and>
    contents (fold (\<lambda>e q. snd (push e q)) es q) = contents q @ take (cap - length (contents q)) es"
  using assms
proof (induction es arbitrary: q)
  case (Cons e es)
  have "take (cap - length (contents q)) (e # es) = take (cap - length (contents q)) [e] @
      take (cap - length (contents (snd (push e q)))) es"
    using bounded [OF Cons.prems] by (auto simp: push_contents [OF Cons.prems] take_Cons' Suc_diff_Suc)
  with Cons.IH [OF push_ok [OF Cons.prems]] show ?case by (simp add: push_contents [OF Cons.prems])
qed simp

lemma popped_iff: "ok q \<Longrightarrow> fst (pop q) \<noteq> None \<longleftrightarrow> contents q \<noteq> []"
  using pop_empty pop_head by (cases "contents q") (fastforce simp del: not_None_eq)+

lemma pop_shorter: "ok q \<Longrightarrow> fst (pop q) \<noteq> None \<Longrightarrow> length (contents (snd (pop q))) < length (contents q)"
  using pop_head popped_iff by (cases "contents q") fastforce+

text \<open>Taking events until there are none comes to an end.\<close>

lemma drained:
  assumes "ok q"
  shows "ok (while (\<lambda>q. fst (pop q) \<noteq> None) (\<lambda>q. snd (pop q)) q) \<and>
    contents (while (\<lambda>q. fst (pop q) \<noteq> None) (\<lambda>q. snd (pop q)) q) = []"
  by (rule while_rule [where P = ok and r = "measure (\<lambda>q. length (contents q)) \<inter> {(a, b). True}"])
    (use assms popped_iff in \<open>auto simp: pop_ok pop_shorter simp del: not_None_eq\<close>)

end

section \<open>The rings keep it\<close>

definition ring_length :: "'e EventRing \<Rightarrow> nat" where
  "ring_length q = (er_write q + length (er_slots q) - er_read q) mod length (er_slots q)"

definition ring_contents :: "'e EventRing \<Rightarrow> 'e list" where
  "ring_contents q = map (\<lambda>i. er_slots q ! ((er_read q + i) mod length (er_slots q))) [0..<ring_length q]"

definition ring_ok :: "nat \<Rightarrow> 'e EventRing \<Rightarrow> bool" where
  "ring_ok n q \<longleftrightarrow> length (er_slots q) = n \<and> er_write q < n \<and> er_read q < n"

lemma mod_once: "(a :: nat) < 2 * n \<Longrightarrow> a mod n = (if a < n then a else a - n)"
  by (simp add: mod_if)

lemma ring_length_if:
  assumes "ring_ok n q"
  shows "ring_length q = (if er_read q \<le> er_write q then er_write q - er_read q else er_write q + n - er_read q)"
proof (cases "er_read q \<le> er_write q")
  case True
  then have "er_write q + n - er_read q = (er_write q - er_read q) + n" by simp
  then have "(er_write q + n - er_read q) mod n = (er_write q - er_read q) mod n" by (simp only: mod_add_self2)
  with True assms show ?thesis by (simp add: ring_ok_def ring_length_def less_imp_diff_less)
next
  case False
  then have "er_write q + n - er_read q < n" using assms unfolding ring_ok_def by arith
  with False assms show ?thesis by (simp add: ring_ok_def ring_length_def)
qed

lemma ring_bounded: "ring_ok n q \<Longrightarrow> length (ring_contents q) \<le> n - 1"
  by (auto simp: ring_contents_def ring_length_if ring_ok_def)

lemma ring_push_event_ok: "ring_ok n q \<Longrightarrow> ring_ok n (snd (ring_push_event e q))"
  by (auto simp: ring_ok_def ring_push_event_def ring_next_def Let_def)

lemma ring_pop_event_ok: "ring_ok n q \<Longrightarrow> ring_ok n (snd (ring_pop_event q))"
  by (auto simp: ring_ok_def ring_pop_event_def ring_next_def)

lemma ring_next_if: "ring_ok n q \<Longrightarrow> i < n \<Longrightarrow> ring_next q i = (if Suc i = n then 0 else Suc i)"
  by (simp add: ring_ok_def ring_next_def)

lemma ring_push_event_accepts:
  assumes "ring_ok n q" shows "fst (ring_push_event e q) \<longleftrightarrow> length (ring_contents q) < n - 1"
proof -
  have "er_write q < n" "er_read q < n" using assms by (simp_all add: ring_ok_def)
  then show ?thesis
    by (cases "er_read q \<le> er_write q") (auto simp: ring_push_event_def Let_def ring_next_if [OF assms] ring_contents_def ring_length_if [OF assms])
qed

lemma ring_push_event_room:
  assumes "ring_ok n q" "length (ring_contents q) < n - 1"
  shows "ring_contents (snd (ring_push_event e q)) = ring_contents q @ [e]"
proof -
  have l: "length (er_slots q) = n" "er_write q < n" "er_read q < n" using assms(1) by (simp_all add: ring_ok_def)
  have "ring_ok n (snd (ring_push_event e q))" by (rule ring_push_event_ok [OF assms(1)])
  moreover have s: "snd (ring_push_event e q) = q\<lparr>er_slots := (er_slots q)[er_write q := e], er_write := ring_next q (er_write q)\<rparr>"
    using ring_push_event_accepts [OF assms(1), of e] assms(2) by (auto simp: ring_push_event_def Let_def split: if_splits)
  moreover have "ring_length q < n - 1" using assms(2) by (simp add: ring_contents_def)
  ultimately have r: "ring_length (snd (ring_push_event e q)) = Suc (ring_length q)"
    using l by (cases "er_read q \<le> er_write q") (auto simp: ring_length_if [of n] assms(1) s ring_next_if [OF assms(1)])
  have w: "(er_read q + ring_length q) mod n = er_write q"
    using l by (simp add: ring_length_if [OF assms(1)] mod_once)
  have o: "(er_read q + i) mod n \<noteq> er_write q" if "i < ring_length q" for i
    using l that by (auto simp: ring_length_if [OF assms(1)] mod_once split: if_splits)
  show ?thesis
    unfolding ring_contents_def r by (simp add: s l w) (metis o atLeastLessThan_iff nth_list_update_neq)
qed

lemma ring_pop_event_head:
  assumes "ring_ok n q" "ring_contents q = e # es"
  shows "fst (ring_pop_event q) = Some e \<and> ring_contents (snd (ring_pop_event q)) = es"
proof -
  have l: "length (er_slots q) = n" "er_write q < n" "er_read q < n" using assms(1) by (simp_all add: ring_ok_def)
  have n: "ring_length q = Suc (length es)" using arg_cong [OF assms(2), of length] by (simp add: ring_contents_def)
  have c: "er_slots q ! er_read q = e" "map (\<lambda>i. er_slots q ! ((er_read q + Suc i) mod n)) [0..<length es] = es"
    using assms(2) l by (simp_all add: ring_contents_def n map_upt_Suc del: upt_Suc)
  have p: "ring_pop_event q = (Some e, q\<lparr>er_read := ring_next q (er_read q)\<rparr>)"
    using n c(1) by (auto simp: ring_pop_event_def ring_length_if [OF assms(1)])
  have "ring_length (snd (ring_pop_event q)) = length es"
    using n l ring_pop_event_ok [OF assms(1)] assms(1)
    by (cases "er_read q \<le> er_write q") (auto simp: p ring_length_if [of n] ring_next_if [OF assms(1)] split: if_splits)
  moreover have "((er_read q + 1) mod n + i) mod n = (er_read q + Suc i) mod n" for i by (simp add: mod_simps)
  ultimately show ?thesis using c(2) l by (simp add: p ring_contents_def ring_next_def)
qed

lemma ring_laws:
  assumes "0 < n"
  shows "bounded_queue ring_push_event ring_pop_event ring_contents (ring_ok n) (n - 1)"
proof
  fix q :: "'e EventRing" and e es
  assume q: "ring_ok n q"
  show "length (ring_contents q) \<le> n - 1" by (rule ring_bounded [OF q])
  show "ring_ok n (snd (ring_push_event e q))" "ring_ok n (snd (ring_pop_event q))" by (rule ring_push_event_ok [OF q] ring_pop_event_ok [OF q])+
  show "fst (ring_push_event e q) \<and> ring_contents (snd (ring_push_event e q)) = ring_contents q @ [e]" if "length (ring_contents q) < n - 1"
    using ring_push_event_accepts [OF q] ring_push_event_room [OF q that] that by blast
  show "ring_push_event e q = (False, q)" if "length (ring_contents q) = n - 1"
    using ring_push_event_accepts [OF q, of e] that by (auto simp: ring_push_event_def Let_def split: if_splits)
  show "ring_pop_event q = (None, q)" if "ring_contents q = []"
    using that q by (auto simp: ring_contents_def ring_length_if ring_pop_event_def ring_ok_def split: if_splits)
  show "fst (ring_pop_event q) = Some e \<and> ring_contents (snd (ring_pop_event q)) = es" if "ring_contents q = e # es"
    by (rule ring_pop_event_head [OF q that])
qed

interpretation combat_queue: bounded_queue ring_push_event ring_pop_event ring_contents "ring_ok MAX_DEFERRED_EVENTS" "MAX_DEFERRED_EVENTS - 1"
  by (rule ring_laws) (simp add: MAX_DEFERRED_EVENTS_def)

interpretation zone_queue: bounded_queue ring_push_event ring_pop_event ring_contents "ring_ok ZONE_RING_SIZE" "ZONE_RING_SIZE - 1"
  by (rule ring_laws) (simp add: ZONE_RING_SIZE_def)

end
