(* ===== verification/Hook_Delivery.thy ===== *)
theory Hook_Delivery
  imports Hook_Properties
begin

text \<open>
  Deaths, knock-outs and polled health on their way from the game to the server: what the tick takes out of the ring, what
  the health poll sends, and the state of the server once the packets have arrived in order.
\<close>

section \<open>The tick and the ring\<close>

lemma PopEvent_cases:
  assumes "ring_ok MAX_DEFERRED_EVENTS (cbh_events ch)"
  obtains "ring_contents (cbh_events ch) = []" "PopEvent ch = (None, ch)"
  | e es q where "ring_contents (cbh_events ch) = e # es" "PopEvent ch = (Some e, ch\<lparr>cbh_events := q\<rparr>)"
      "ring_contents q = es" "ring_ok MAX_DEFERRED_EVENTS q"
proof (cases "ring_contents (cbh_events ch)")
  case Nil
  then show thesis using that(1) combat_queue.pop_empty [OF assms Nil] by (simp add: PopEvent_def)
next
  case (Cons e es)
  obtain x q where x: "ring_pop_event (cbh_events ch) = (x, q)" by (cases "ring_pop_event (cbh_events ch)")
  show thesis
    using that(2) [OF Cons] combat_queue.pop_head [OF assms Cons] combat_queue.pop_ok [OF assms] by (auto simp: PopEvent_def x)
qed

lemma same_events: "ch\<lparr>cbh_events := cbh_events ch\<rparr> = ch"
  by simp

lemma deferred_events_spec:
  assumes "ring_ok MAX_DEFERRED_EVENTS (cbh_events ch)"
  shows "\<exists>q. deferred_events n (ch, co) = (ch\<lparr>cbh_events := q\<rparr>, fold report_event (take n (ring_contents (cbh_events ch))) co) \<and>
    ring_contents q = drop (Suc n) (ring_contents (cbh_events ch)) \<and> ring_ok MAX_DEFERRED_EVENTS q"
  using assms
proof (induction n arbitrary: ch co)
  case 0
  from 0 show ?case
  proof (cases rule: PopEvent_cases)
    case 1
    then show ?thesis using 0 by (auto simp: same_events intro!: exI [of _ "cbh_events ch"])
  next
    case (2 e es q)
    then show ?thesis by (auto intro!: exI [of _ q])
  qed
next
  case (Suc n)
  from Suc.prems show ?case
  proof (cases rule: PopEvent_cases)
    case 1
    then show ?thesis using Suc.prems by (auto simp: same_events intro!: exI [of _ "cbh_events ch"])
  next
    case (2 e es q)
    then show ?thesis using Suc.IH [of "ch\<lparr>cbh_events := q\<rparr>" "report_event e co"] by simp
  qed
qed

lemma waiting_events:
  assumes "ring_ok MAX_DEFERRED_EVENTS (cbh_events ch)" "co_connected co"
  shows "snd (ProcessDeferredEvents (ch, co)) = fold report_event (take 64 (ring_contents (cbh_events ch))) co"
    "ring_contents (cbh_events (fst (ProcessDeferredEvents (ch, co)))) = drop 65 (ring_contents (cbh_events ch))"
proof -
  obtain q where "deferred_events 64 (ch\<lparr>cbh_dropCount := 0\<rparr>, co) =
      (ch\<lparr>cbh_dropCount := 0, cbh_events := q\<rparr>, fold report_event (take 64 (ring_contents (cbh_events ch))) co)"
      "ring_contents q = drop (Suc 64) (ring_contents (cbh_events ch))"
    using deferred_events_spec [of "ch\<lparr>cbh_dropCount := 0\<rparr>" 64 co] assms(1) by auto
  then show "snd (ProcessDeferredEvents (ch, co)) = fold report_event (take 64 (ring_contents (cbh_events ch))) co"
    "ring_contents (cbh_events (fst (ProcessDeferredEvents (ch, co)))) = drop 65 (ring_contents (cbh_events ch))"
    using assms(2) by (simp_all add: ProcessDeferredEvents_def)
qed

text \<open>
  C40.  Functional.  A tick of a connected client reports the first 64 waiting deaths and knock-outs in order.  When more wait,
  the 65th is taken out of the ring and lost; the others stay for the next tick.
\<close>

theorem waiting_combat_events:
  assumes "ring_ok MAX_DEFERRED_EVENTS (cbh_events ch)" "co_connected co"
  defines "es \<equiv> ring_contents (cbh_events ch)"
  shows "snd (ProcessDeferredEvents (ch, co)) = fold report_event (take 64 es) co \<and>
    ring_contents (cbh_events (fst (ProcessDeferredEvents (ch, co)))) = drop 65 es"
  using waiting_events [OF assms(1,2)] by (simp add: es_def)

lemma event_ring_ok: "0 < n \<Longrightarrow> ring_ok n (event_ring n e)" "ring_contents (event_ring n e) = []"
  by (simp_all add: ring_ok_def event_ring_def ring_contents_def ring_length_def)

text \<open>Without a connection both queues are emptied and nothing is sent.\<close>

lemma disconnected_drains:
  assumes "\<not> co_connected co"
  shows "ring_ok MAX_DEFERRED_EVENTS (cbh_events ch) \<Longrightarrow> snd (ProcessDeferredEvents (ch, co)) = co \<and>
      ring_contents (cbh_events (fst (ProcessDeferredEvents (ch, co)))) = []"
    "ring_ok ZONE_RING_SIZE (znh_events zh) \<Longrightarrow> snd (ProcessDeferredZoneEvents (zh, co)) = co \<and>
      ring_contents (znh_events (fst (ProcessDeferredZoneEvents (zh, co)))) = []"
  using assms combat_queue.drained [of "cbh_events ch"] zone_queue.drained [of "znh_events zh"]
  by (simp_all add: ProcessDeferredEvents_def ProcessDeferredZoneEvents_def drain_events_def)

text \<open>When a zone is unloaded, no entity of it keeps snapshots and no remote one stays registered.\<close>

lemma fold_unload_entity:
  "co_registry (fold unload_entity ks co) = co_registry co"
  "cl_interp (co_client (fold unload_entity ks co)) = fold Interpolation_RemoveEntity ks (cl_interp (co_client co))"
  by (induction ks arbitrary: co)
    (simp_all add: unload_entity_def on_client_def on_interp_def entity_DecrementSpawnCount_def split: option.splits)

lemma in_ids_where: "um_wf (reg_entities s) \<Longrightarrow> k \<in> set (ids_where P s) \<longleftrightarrow> (\<exists>i. um_find (reg_entities s) k = Some i \<and> P i)"
  unfolding ids_where_def by (rule in_keys_filter)

lemma zone_unload_forgets:
  assumes "dze_type e = UnloadEvent" "um_wf (reg_entities (co_registry co))"
  defines "z \<equiv> ZoneCoord_new (dze_zoneX e) (dze_zoneY e)"
  shows "GetInfo k (co_registry (zone_event e co)) = (case GetInfo k (co_registry co) of
      None \<Rightarrow> None | Some i \<Rightarrow> if ei_zone i = z \<and> ei_isRemote i then None else Some i)"
    "(\<exists>i. GetInfo k (co_registry co) = Some i \<and> ei_zone i = z) \<Longrightarrow>
      um_find (ip_entities (cl_interp (co_client (zone_event e co)))) k = None"
  using assms(1,2)
  by (auto simp: zone_event_def z_def Let_def on_reg_def on_client_def on_registry_def fold_unload_entity RemoveEntitiesInZone_def
      GetEntitiesInZone_def GetInfo_def fold_Unregister_find fold_RemoveEntity_find in_ids_where split: option.splits)

definition example_death :: "EntityID \<Rightarrow> DeferredCombatEvent" where
  "example_death k = DeferredCombatEvent_default\<lparr>dce_entityId := k\<rparr>"

definition example_burst :: "DeferredCombatEvent list" where
  "example_burst = map (\<lambda>i. example_death (of_nat i)) [0..<66]"

definition example_waiting :: CombatHooks where
  "example_waiting = CombatHooks_new\<lparr>cbh_events := fold (\<lambda>e q. snd (ring_push_event e q)) example_burst (cbh_events CombatHooks_new)\<rparr>"

lemma example_waiting_ring:
  "ring_ok MAX_DEFERRED_EVENTS (cbh_events example_waiting)" "ring_contents (cbh_events example_waiting) = example_burst"
proof -
  have "0 < MAX_DEFERRED_EVENTS" "length example_burst \<le> MAX_DEFERRED_EVENTS - 1"
    by (simp_all add: MAX_DEFERRED_EVENTS_def example_burst_def)
  then show "ring_ok MAX_DEFERRED_EVENTS (cbh_events example_waiting)" "ring_contents (cbh_events example_waiting) = example_burst"
    using combat_queue.burst [of "cbh_events CombatHooks_new" example_burst]
    by (simp_all add: example_waiting_def CombatHooks_new_def event_ring_ok)
qed

theorem waiting_combat_events_witness:
  "let co = (ClientCore_new example_process)\<lparr>co_connected := True\<rparr>; s = ProcessDeferredEvents (example_waiting, co) in
   snd s = fold report_event (map (\<lambda>i. example_death (of_nat i)) [0..<64]) co \<and>
   ring_contents (cbh_events (fst s)) = [example_death 65]"
proof -
  have "take 64 example_burst = map (\<lambda>i. example_death (of_nat i)) [0..<64]" "drop 65 example_burst = [example_death 65]"
    by (simp_all add: example_burst_def take_map drop_map take_upt drop_upt upt_rec [of 65 66])
  then show ?thesis
    using waiting_combat_events [OF example_waiting_ring(1), of "(ClientCore_new example_process)\<lparr>co_connected := True\<rparr>"]
    by (simp add: Let_def example_waiting_ring)
qed

section \<open>The health poll\<close>

lemma f32_diff_self: "f32_isnan (f32_sub x x) \<or> f32_key (f32_sub x x) = 0"
proof (cases "f32_isfinite x")
  case True
  then show ?thesis by (simp add: f32_sub_key kround_def)
next
  case False
  then have "f32_isnan x \<or> f32_isinf x" by (auto simp: f32_isfinite_def f32_isnan_def f32_isinf_def)
  moreover have "f32_sign (f32_neg x) \<noteq> f32_sign x" by (simp add: f32_neg_def)
  ultimately have "f32_sub x x = f32_nan" by (auto simp: f32_sub_def f32_add_def)
  then show ?thesis by (simp add: f32_nan_def f32_eval)
qed

lemma limbs_unchanged: "\<not> limbs_changed (Some hs) hs"
proof -
  have "\<not> f32_lt HEALTH_EPSILON (f32_abs (f32_sub x x))" for x
    using f32_diff_self [of x] by (auto simp: f32_lt_def f32_key_abs f32_class_key HEALTH_EPSILON_def f32_lits) (simp_all add: f32_eval)
  then show ?thesis by (auto simp: limbs_changed_def list_ex_iff in_set_zip)
qed

text \<open>The characters that one poll looks at, and their limbs.\<close>

definition polled :: "EntityID list \<Rightarrow> EntityRegistry \<Rightarrow> EntityID list" where
  "polled ks reg = filter (\<lambda>k. GetGameObject k reg \<noteq> 0) ks"

definition limbs_of :: "ClientCore \<Rightarrow> EntityID \<Rightarrow> f32 list" where
  "limbs_of co k = SEH_ReadAllLimbHealth (GetGameObject k (co_registry co)) (co_game co)"

definition stale :: "ClientCore \<Rightarrow> CombatHooks \<Rightarrow> EntityID \<Rightarrow> bool" where
  "stale co ch k \<longleftrightarrow> limbs_changed (um_find (cbh_lastSentHealth ch) k) (limbs_of co k)"

abbreviation note_health :: "ClientCore \<Rightarrow> EntityID list \<Rightarrow> CombatHooks \<Rightarrow> CombatHooks" where
  "note_health co ks ch \<equiv> ch\<lparr>cbh_lastSentHealth := fold (\<lambda>k. um_set k (limbs_of co k)) ks (cbh_lastSentHealth ch)\<rparr>"

abbreviation send_health :: "ClientCore \<Rightarrow> EntityID list \<Rightarrow> ClientCore \<Rightarrow> ClientCore" where
  "send_health co ks \<equiv> fold (\<lambda>k. client_send True (limb_packet k (limbs_of co k))) ks"

lemma poll_health_spec:
  assumes "distinct ks" "co_registry co1 = co_registry co" "co_game co1 = co_game co"
  shows "poll_health n ks (ch, co1) =
    (let xs = filter (stale co ch) (take (MAX_POLLED_PER_TICK - n) (polled ks (co_registry co)))
     in (note_health co xs ch, send_health co xs co1))"
  using assms
proof (induction ks arbitrary: n ch co1)
  case Nil
  then show ?case by (simp add: polled_def)
next
  case (Cons k ks)
  let ?p = "GetGameObject k (co_registry co)"
  have other: "filter (stale co (note_health co [k] ch)) (take m (polled ks (co_registry co))) =
      filter (stale co ch) (take m (polled ks (co_registry co)))" for m
    using Cons.prems(1) by (intro filter_cong refl) (auto simp: stale_def um_simps polled_def dest: in_set_takeD)
  show ?case
  proof (cases "MAX_POLLED_PER_TICK \<le> n")
    case True
    then show ?thesis by simp
  next
    case False
    then have n: "MAX_POLLED_PER_TICK - n = Suc (MAX_POLLED_PER_TICK - Suc n)" by simp
    consider (1) "?p = 0" | (2) "?p \<noteq> 0" "stale co ch k" | (3) "?p \<noteq> 0" "\<not> stale co ch k" by blast
    then show ?thesis
    proof cases
      case 1
      then show ?thesis using False Cons by (simp add: polled_def)
    next
      case 2
      let ?ch = "note_health co [k] ch" and ?co = "client_send True (limb_packet k (limbs_of co k)) co1"
      have "poll_health n (k # ks) (ch, co1) = poll_health (Suc n) ks (?ch, ?co)"
        using 2 False Cons.prems by (simp add: Let_def stale_def limbs_of_def SendLimbHealthUpdate_def)
      also have "\<dots> = (let xs = filter (stale co ?ch) (take (MAX_POLLED_PER_TICK - Suc n) (polled ks (co_registry co)))
          in (note_health co xs ?ch, send_health co xs ?co))"
        by (rule Cons.IH) (use Cons.prems in \<open>simp_all add: client_send_def\<close>)
      finally show ?thesis unfolding other using 2 n by (simp add: polled_def Let_def)
    next
      case 3
      then show ?thesis using False Cons n by (simp add: polled_def Let_def stale_def limbs_of_def)
    qed
  qed
qed

section \<open>At the server\<close>

definition plain_header :: "MessageType \<Rightarrow> PacketHeader" where
  "plain_header t = \<lparr>ph_type = t, ph_flags = 0, ph_sequence = 0, ph_timestamp = 0\<rparr>"

lemma hdr_bytes: "hdr t [] = PacketHeader_enc (plain_header t)"
  by (simp add: write_at plain_header_def)

text \<open>A reliable packet of a player reaches the handler of its type, which reads what follows the header.\<close>

lemma client_packet_handled:
  assumes "GetPlayerByPeer q srv = Some p" "map_of (player_handlers env q) t = Some h"
    "t \<notin> {C2S_Handshake, C2S_Disconnect, C2S_ServerQuery, C2S_PositionUpdate}"
  shows "HandlePacket env q (PacketHeader_enc (plain_header t) @ body) KMP_CHANNEL_RELIABLE_ORDERED srv =
    h p (reader_at (PacketHeader_enc (plain_header t)) body) srv"
proof -
  have "length (PacketHeader_enc (plain_header t)) = 8" by (simp add: PacketHeader_enc_def)
  then show ?thesis using assms
    by (simp add: HandlePacket_def reader_at_new scalars_at wrong_channel_def dispatch_def plain_header_def
        KMP_CHANNEL_RELIABLE_ORDERED_def KMP_CHANNEL_UNRELIABLE_SEQ_def)
qed

lemma written_f32s: "packet (ws @ map WriteF32 hs) = packet ws @ f32s_enc hs"
  by (induction hs rule: rev_induct) (simp_all add: write_at f32s_enc_def flip: append_assoc)

lemma limb_packet_bytes: "limb_packet k hs = PacketHeader_enc (plain_header C2S_LimbHealth) @
    MsgLimbHealth_enc \<lparr>MsgLimbHealth_entityId = k, MsgLimbHealth_health = hs\<rparr>"
  unfolding limb_packet_def written_f32s by (simp add: write_at MsgLimbHealth_enc_def plain_header_def)

definition deliver :: "packet_env \<Rightarrow> peer \<Rightarrow> (bool \<times> bytes) list \<Rightarrow> GameServer \<Rightarrow> GameServer" where
  "deliver env q xs = fold (\<lambda>(reliable, bs). HandlePacket env q bs KMP_CHANNEL_RELIABLE_ORDERED) xs"

lemma limb_health_arrives:
  assumes "GetPlayerByPeer q srv = Some p" "um_find (m_entities srv) k = Some e" "se_owner e = cp_id p" "length hs = 7"
  shows "m_entities (HandlePacket env q (limb_packet k hs) KMP_CHANNEL_RELIABLE_ORDERED srv) =
      um_modify k (\<lambda>e. e\<lparr>se_limbHealth := hs\<rparr>) (m_entities srv)"
    "GetPlayerByPeer q (HandlePacket env q (limb_packet k hs) KMP_CHANNEL_RELIABLE_ORDERED srv) = Some p"
proof -
  let ?m = "\<lparr>MsgLimbHealth_entityId = k, MsgLimbHealth_health = hs\<rparr>" and ?pre = "PacketHeader_enc (plain_header C2S_LimbHealth)"
  have "map_of (player_handlers env q) C2S_LimbHealth = Some HandleLimbHealth" by (simp add: player_handlers_def msg_type)
  from client_packet_handled [OF assms(1) this]
  have h: "HandlePacket env q (limb_packet k hs) KMP_CHANNEL_RELIABLE_ORDERED srv = HandleLimbHealth p (reader_at ?pre (MsgLimbHealth_enc ?m)) srv"
    by (simp add: limb_packet_bytes msg_type)
  have r: "ReadStruct MsgLimbHealth_size MsgLimbHealth_dec (reader_at ?pre (MsgLimbHealth_enc ?m)) = (Some ?m, reader_at (?pre @ MsgLimbHealth_enc ?m) [])"
    using MsgLimbHealth.struct_at [of ?m ?pre "[]"] assms(4) by (simp add: MsgLimbHealth_wf_def)
  show "m_entities (HandlePacket env q (limb_packet k hs) KMP_CHANNEL_RELIABLE_ORDERED srv) =
      um_modify k (\<lambda>e. e\<lparr>se_limbHealth := hs\<rparr>) (m_entities srv)"
    "GetPlayerByPeer q (HandlePacket env q (limb_packet k hs) KMP_CHANNEL_RELIABLE_ORDERED srv) = Some p"
    using assms by (auto simp: h HandleLimbHealth_def r srv_simps modify_entity_def GetPlayerByPeer_def split: if_splits)
qed

definition owns_all :: "PlayerID \<Rightarrow> EntityID list \<Rightarrow> GameServer \<Rightarrow> bool" where
  "owns_all pid ks srv \<longleftrightarrow> list_all (\<lambda>k. case um_find (m_entities srv) k of None \<Rightarrow> False | Some e \<Rightarrow> se_owner e = pid) ks"

lemma limb_packets_arrive:
  assumes "GetPlayerByPeer q srv = Some p" "owns_all (cp_id p) ks srv" "\<And>k. length (hs k) = 7"
  shows "um_find (m_entities (deliver env q (map (\<lambda>k. (True, limb_packet k (hs k))) ks) srv)) k =
    (if k \<in> set ks then map_option (\<lambda>e. e\<lparr>se_limbHealth := hs k\<rparr>) (um_find (m_entities srv) k) else um_find (m_entities srv) k)"
  using assms(1,2)
proof (induction ks arbitrary: srv)
  case Nil
  then show ?case by (simp add: deliver_def)
next
  case (Cons j ks)
  obtain e where e: "um_find (m_entities srv) j = Some e" "se_owner e = cp_id p"
    using Cons.prems(2) by (auto simp: owns_all_def split: option.splits)
  let ?s = "HandlePacket env q (limb_packet j (hs j)) KMP_CHANNEL_RELIABLE_ORDERED srv"
  note a = limb_health_arrives [OF Cons.prems(1) e assms(3)]
  have "owns_all (cp_id p) ks ?s" using Cons.prems(2) e
    by (auto simp: owns_all_def a um_simps list_all_iff split: option.splits)
  from Cons.IH [OF a(2) this] show ?case by (auto simp: deliver_def a um_simps option.map_comp comp_def)
qed

text \<open>What the client remembers having sent is what the server has, for the given entities.\<close>

definition health_in_step :: "CombatHooks \<Rightarrow> GameServer \<Rightarrow> EntityID list \<Rightarrow> bool" where
  "health_in_step ch srv ks \<longleftrightarrow> list_all (\<lambda>k. case um_find (cbh_lastSentHealth ch) k of
     None \<Rightarrow> True | Some hs \<Rightarrow> map_option se_limbHealth (um_find (m_entities srv) k) = Some hs) ks"

lemma find_forget_others: "k \<in> set ks \<Longrightarrow> um_find (cbh_lastSentHealth (forget_others ks ch)) k = um_find (cbh_lastSentHealth ch) k"
proof -
  have "k \<in> set ks \<Longrightarrow> um_find (filter (\<lambda>(k, v). k \<in> set ks) m) k = um_find m k" for m :: "(EntityID, f32 list) umap"
    by (induction m) auto
  then show "k \<in> set ks \<Longrightarrow> ?thesis" by (simp add: forget_others_def)
qed

lemma find_note_health: "um_find (fold (\<lambda>k. um_set k (f k)) xs m) k = (if k \<in> set xs then Some (f k) else um_find m k)"
  by (induction xs arbitrary: m) (simp_all add: um_simps)

lemma sent_health: "sent_since co (fold (\<lambda>k. client_send True (f k)) xs co) = map (\<lambda>k. (True, f k)) xs"
proof -
  have "co_sent (fold (\<lambda>k. client_send True (f k)) xs co) = co_sent co @ map (\<lambda>k. (True, f k)) xs"
    by (induction xs arbitrary: co) (simp_all add: client_send_def)
  then show ?thesis by (simp add: sent_since_def)
qed

lemma poll_spec:
  assumes "co_connected co" "co_localPlayerId co \<noteq> 0" "HEALTH_POLL_INTERVAL_MS \<le> now - cbh_lastPollMs ch"
    "um_wf (reg_entities (co_registry co))"
  defines "owned \<equiv> GetPlayerEntities (co_localPlayerId co) (co_registry co)"
  defines "xs \<equiv> filter (stale co ch) (take MAX_POLLED_PER_TICK (polled owned (co_registry co)))"
  shows "PollOwnedHealth now (ch, co) = (forget_others owned (note_health co xs (ch\<lparr>cbh_lastPollMs := now\<rparr>)), send_health co xs co)"
proof -
  have "distinct owned" using assms(4)
    by (simp add: owned_def GetPlayerEntities_def ids_where_def um_wf_def um_keys_def distinct_map_filter)
  moreover have "stale co (ch\<lparr>cbh_lastPollMs := now\<rparr>) = stale co ch" by (simp add: fun_eq_iff stale_def)
  ultimately show ?thesis using assms(1-3) poll_health_spec [of owned co co 0 "ch\<lparr>cbh_lastPollMs := now\<rparr>"]
    by (simp add: PollOwnedHealth_def Let_def xs_def flip: owned_def)
qed

text \<open>After the packets of a poll have arrived, the server has the health it had or the health of the game.\<close>

lemma polled_health_at_server:
  assumes "GetPlayerByPeer q srv = Some p" "owns_all (cp_id p) owned srv" "set xs \<subseteq> set owned" "k \<in> set owned"
  shows "\<exists>e. um_find (m_entities srv) k = Some e \<and>
    um_find (m_entities (deliver env q (map (\<lambda>k. (True, limb_packet k (limbs_of co k))) xs) srv)) k =
      Some (if k \<in> set xs then e\<lparr>se_limbHealth := limbs_of co k\<rparr> else e)"
proof -
  have "owns_all (cp_id p) xs srv" using assms(2,3) by (auto simp: owns_all_def list_all_iff)
  moreover obtain e where "um_find (m_entities srv) k = Some e"
    using assms(2,4) by (auto simp: owns_all_def list_all_iff split: option.splits)
  ultimately show ?thesis using limb_packets_arrive [OF assms(1), of xs "limbs_of co" env k]
    by (simp add: limbs_of_def SEH_ReadAllLimbHealth_def)
qed

text \<open>
  C37.  Refinement, client and server together.  When the server knows the player's characters as his and has their health as
  the client last sent it, then after a health poll and the arrival of its packets it still has, and no limb of the first 64
  characters with a game object is more than half a point off.
\<close>

theorem polled_health_reaches_server:
  assumes "co_connected co" "co_localPlayerId co \<noteq> 0" "HEALTH_POLL_INTERVAL_MS \<le> now - cbh_lastPollMs ch"
    "um_wf (reg_entities (co_registry co))" "GetPlayerByPeer q srv = Some p"
  defines "owned \<equiv> GetPlayerEntities (co_localPlayerId co) (co_registry co)"
  assumes "owns_all (cp_id p) owned srv" "health_in_step ch srv owned"
  shows "let (ch', co') = PollOwnedHealth now (ch, co); srv' = deliver env q (sent_since co co') srv in
    health_in_step ch' srv' owned \<and>
    list_all (\<lambda>k. case um_find (m_entities srv') k of None \<Rightarrow> False | Some e \<Rightarrow> \<not> limbs_changed (Some (se_limbHealth e)) (limbs_of co k))
      (take 64 (polled owned (co_registry co)))"
proof -
  define ks where "ks = take 64 (polled owned (co_registry co))"
  define xs where "xs = filter (stale co ch) ks"
  define srv' where "srv' = deliver env q (map (\<lambda>k. (True, limb_packet k (limbs_of co k))) xs) srv"
  let ?ch = "forget_others owned (note_health co xs (ch\<lparr>cbh_lastPollMs := now\<rparr>))"
  have sub: "set xs \<subseteq> set owned" "set ks \<subseteq> set owned" by (auto simp: xs_def ks_def polled_def dest: in_set_takeD)
  note at = polled_health_at_server [OF assms(5,7) sub(1), of _ env co, folded srv'_def]
  have step: "case um_find (cbh_lastSentHealth ch) k of None \<Rightarrow> True | Some hs \<Rightarrow> map_option se_limbHealth (um_find (m_entities srv) k) = Some hs"
    if "k \<in> set owned" for k using assms(8) that by (simp add: health_in_step_def list_all_iff)
  have "health_in_step ?ch srv' owned"
    unfolding health_in_step_def list_all_iff
    using at step by (fastforce simp: find_forget_others find_note_health split: option.splits)
  moreover have "case um_find (m_entities srv') k of None \<Rightarrow> False | Some e \<Rightarrow> \<not> limbs_changed (Some (se_limbHealth e)) (limbs_of co k)"
    if k: "k \<in> set ks" for k
  proof (cases "k \<in> set xs")
    case True
    then show ?thesis using at [OF subsetD [OF sub(2) k]] limbs_unchanged by auto
  next
    case False
    with k have f: "\<not> limbs_changed (um_find (cbh_lastSentHealth ch) k) (limbs_of co k)" by (simp add: xs_def stale_def)
    then obtain hs where "um_find (cbh_lastSentHealth ch) k = Some hs"
      by (cases "um_find (cbh_lastSentHealth ch) k") (simp_all add: limbs_changed_def)
    then show ?thesis using f at [OF subsetD [OF sub(2) k]] step [OF subsetD [OF sub(2) k]] False by auto
  qed
  ultimately show ?thesis
    unfolding poll_spec [OF assms(1-4), folded owned_def] prod.case Let_def sent_health
    by (simp add: list_all_iff srv'_def xs_def ks_def MAX_POLLED_PER_TICK_def)
qed

definition example_owned :: ClientCore where
  "example_owned = (ClientCore_new example_process)\<lparr>co_connected := True, co_client := (Client_new 0)\<lparr>cl_localPlayerId := 1,
     cl_registry := EntityRegistry_new\<lparr>reg_entities := [(1, EntityInfo_default\<lparr>ei_netId := 1, ei_ownerPlayerId := 1, ei_gameObject := 0x1000\<rparr>)]\<rparr>\<rparr>\<rparr>"

theorem polled_health_reaches_server_witness:
  "let (ch', co') = PollOwnedHealth 250 (CombatHooks_new, example_owned);
       srv' = deliver example_env 1 (sent_since example_owned co') example_server in
    health_in_step ch' srv' [1] \<and>
    list_all (\<lambda>k. case um_find (m_entities srv') k of None \<Rightarrow> False | Some e \<Rightarrow> \<not> limbs_changed (Some (se_limbHealth e)) (limbs_of example_owned k)) [1]"
proof -
  have o: "co_connected example_owned" "co_localPlayerId example_owned = 1"
    "GetPlayerEntities 1 (co_registry example_owned) = [1]" "polled [1] (co_registry example_owned) = [1]"
    "um_wf (reg_entities (co_registry example_owned))"
    by (simp_all add: example_owned_def GetPlayerEntities_def ids_where_def polled_def GetGameObject_def um_wf_def um_keys_def)
  have s: "owns_all 1 [1] example_server" "health_in_step CombatHooks_new example_server [1]"
    "cbh_lastPollMs CombatHooks_new = 0"
    by (simp_all add: owns_all_def health_in_step_def example_server_sel CombatHooks_new_def example_entity_def ServerEntity_default_def)
  have "cp_id (example_player 1 (lit ''Ann'')) = 1" by (simp add: example_player_def)
  then show ?thesis
    using polled_health_reaches_server [of example_owned 250 CombatHooks_new 1 example_server _ example_env, OF o(1) _ _ o(5) example_peers(1)]
    by (simp add: o s HEALTH_POLL_INTERVAL_MS_def)
qed

section \<open>Deaths\<close>

lemma death_packet_bytes: "death_packet k killer = PacketHeader_enc (plain_header C2S_CombatDeath) @
    MsgCombatDeath_enc \<lparr>MsgCombatDeath_entityId = k, MsgCombatDeath_killerId = killer\<rparr>"
  by (simp add: death_packet_def write_at MsgCombatDeath_enc_def plain_header_def)

lemma death_arrives:
  assumes "GetPlayerByPeer q srv = Some p" "um_find (m_entities srv) k = Some e" "se_owner e = cp_id p" "se_alive e"
  shows "m_entities (HandlePacket env q (death_packet k killer) KMP_CHANNEL_RELIABLE_ORDERED srv) =
      um_modify k (\<lambda>e. e\<lparr>se_alive := False\<rparr>) (m_entities srv)"
    "GetPlayerByPeer q (HandlePacket env q (death_packet k killer) KMP_CHANNEL_RELIABLE_ORDERED srv) = Some p"
proof -
  let ?m = "\<lparr>MsgCombatDeath_entityId = k, MsgCombatDeath_killerId = killer\<rparr>" and ?pre = "PacketHeader_enc (plain_header C2S_CombatDeath)"
  have "map_of (player_handlers env q) C2S_CombatDeath = Some HandleCombatDeath" by (simp add: player_handlers_def msg_type)
  from client_packet_handled [OF assms(1) this]
  have h: "HandlePacket env q (death_packet k killer) KMP_CHANNEL_RELIABLE_ORDERED srv = HandleCombatDeath p (reader_at ?pre (MsgCombatDeath_enc ?m)) srv"
    by (simp add: death_packet_bytes msg_type)
  have r: "ReadStruct MsgCombatDeath_size MsgCombatDeath_dec (reader_at ?pre (MsgCombatDeath_enc ?m)) = (Some ?m, reader_at (?pre @ MsgCombatDeath_enc ?m) [])"
    using MsgCombatDeath.struct_at [of ?pre ?m "[]"] by simp
  show "m_entities (HandlePacket env q (death_packet k killer) KMP_CHANNEL_RELIABLE_ORDERED srv) =
      um_modify k (\<lambda>e. e\<lparr>se_alive := False\<rparr>) (m_entities srv)"
    "GetPlayerByPeer q (HandlePacket env q (death_packet k killer) KMP_CHANNEL_RELIABLE_ORDERED srv) = Some p"
    using assms by (auto simp: h HandleCombatDeath_def r srv_simps is_reporter_def modify_entity_def GetPlayerByPeer_def split: if_splits)
qed

lemma guarded_frame:
  assumes "guarded native hh co = (ok, hh', co')"
  shows "\<exists>g. co' = co\<lparr>co_game := g\<rparr>"
  using assms by (auto simp: guarded_def split: prod.splits)

lemma PushEvent_empty:
  assumes "ring_ok MAX_DEFERRED_EVENTS (cbh_events ch)" "ring_contents (cbh_events ch) = []"
  shows "ring_ok MAX_DEFERRED_EVENTS (cbh_events (PushEvent e ch)) \<and> ring_contents (cbh_events (PushEvent e ch)) = [e]"
  using combat_queue.push_room [OF assms(1), of e] combat_queue.push_ok [OF assms(1), of e] assms(2)
  by (auto simp: PushEvent_def MAX_DEFERRED_EVENTS_def split: prod.splits bool.splits)


definition example_registered :: ClientCore where
  "example_registered = example_owned\<lparr>co_client := (co_client example_owned)\<lparr>cl_registry :=
     (co_registry example_owned)\<lparr>reg_ptrToId := [(0x1000, 1)]\<rparr>\<rparr>\<rparr>"


text \<open>
  Error behaviour.  The comments say that the game's own death logic must always run.  After a single fault in it the hook
  never calls it again: no later death of any character changes the game, while the deaths are still reported.
\<close>

theorem one_fault_stops_deaths:
  assumes "\<not> fst (native (gp_memory (co_game co)))"
  shows "let s = Hook_CharacterDeath native character killer (ch, co)
    in co_game (snd (fold (\<lambda>(later, c, k). Hook_CharacterDeath later c k) xs s)) = co_game (snd s)"
proof -
  have keep: "cbh_deathHealth (PushEvent e h) = cbh_deathHealth h" for e h
    by (simp add: PushEvent_def split: prod.splits bool.splits)
  have later: "co_game (snd (fold (\<lambda>(later, c, k). Hook_CharacterDeath later c k) xs s)) = co_game (snd s)"
    if "hh_trampolineFailed (cbh_deathHealth (fst s))" for s
    using that
  proof (induction xs arbitrary: s)
    case (Cons x xs)
    obtain n c k where x: "x = (n, c, k)" by (cases x)
    obtain h co where s: "s = (h, co)" by (cases s)
    have "hh_trampolineFailed (cbh_deathHealth (fst (Hook_CharacterDeath n c k s)))"
      "co_game (snd (Hook_CharacterDeath n c k s)) = co_game (snd s)"
      using Cons.prems by (simp_all add: s Hook_CharacterDeath_def guarded_def SafeCall_def Let_def keep)
    with Cons.IH show ?case by (simp add: x)
  qed simp
  have "hh_trampolineFailed (cbh_deathHealth (fst (Hook_CharacterDeath native character killer (ch, co))))"
    using assms by (auto simp: Hook_CharacterDeath_def guarded_def SafeCall_def Let_def keep split: prod.splits bool.splits)
  from later [OF this] show ?thesis by (simp add: Let_def)
qed

theorem one_fault_stops_deaths_witness:
  "let s = Hook_CharacterDeath (\<lambda>m. (False, m)) 0x1000 0 (CombatHooks_new, example_registered)
   in co_game (snd (fold (\<lambda>(later, c, k). Hook_CharacterDeath later c k) [(\<lambda>m. (True, snd (Mem_Write [1] 0x1000 m)), 0x1000, 0)] s)) = co_game (snd s)"
  using one_fault_stops_deaths [where native = "\<lambda>m. (False, m)" and co = example_registered and ch = CombatHooks_new
      and character = "0x1000" and killer = 0 and xs = "[(\<lambda>m. (True, snd (Mem_Write [1] 0x1000 m)), 0x1000, 0)]"] by simp

end
