(* ===== verification/Spec2Isabelle.thy ===== *)
theory Spec2Isabelle
  imports Wire_Properties World_Properties Session_Properties Master_Server Client_Properties Player_Engine
    Server_Managers Pattern_Scanner PData_Enumerator Task_Orchestrator Pipeline_Orchestrator Game_Properties
    Shared_Save_Sync Char_Tracker Client_Core Client_Handlers Core_Properties Sync_Orchestrator
    Sync_Properties Sync_Runs Core_Pipeline Core_Spawns Core_Scan Core_Runs Pipeline_Properties Report_Hooks
    Hook_Delivery Event_Hooks Hook_Properties
begin

text \<open>
  A verification library for the multiplayer mod of this repository (\<^verbatim>\<open>src/mp\<close>): the dedicated game server, the
  master server, the wire protocol, and the client's entity replication.

  \<^bold>\<open>The program.\<close>  A game server (\<^verbatim>\<open>KenshiMP.Server\<close>) keeps the connected players, the entities and the
  world clock.  ENet delivers connect, packet and disconnect events; each packet has an eight byte header and is
  dispatched to a handler, which checks it, changes the state and broadcasts.  Once per tick the server sends
  positions, time and heartbeats, removes orphans, saves the world and reports to a master server
  (\<^verbatim>\<open>KenshiMP.MasterServer\<close>), which lists servers for browsers.  A client (\<^verbatim>\<open>KenshiMP.Core\<close>), injected into the
  game, registers the entities it hears of, buffers their positions and renders them with a delay.

  \<^bold>\<open>Theories and sources.\<close>  Paths are below \<^verbatim>\<open>src/mp\<close>.
  \<^item> \<^verbatim>\<open>Kmp_Prelude\<close>: words and little-endian bytes, C strings, \<^verbatim>\<open>std::unordered_map\<close> as a list of entries with
    distinct keys, runs of operations with their invariant (locale \<open>run_invariant\<close>).
  \<^item> \<^verbatim>\<open>Float32\<close>: IEEE 754 single precision on bit patterns, with monotonicity and interval rules.
  \<^item> \<^verbatim>\<open>Protocol\<close>, \<^verbatim>\<open>Messages\<close>, \<^verbatim>\<open>Kmp_Types\<close>: \<^verbatim>\<open>KenshiMP.Common\<close> (\<^verbatim>\<open>protocol.h\<close>, \<^verbatim>\<open>messages.h\<close>, \<^verbatim>\<open>types.h\<close>,
    \<^verbatim>\<open>constants.h\<close>).  The locale \<open>wire_struct\<close> is the contract of a packed struct and is interpreted for each.
  \<^item> \<^verbatim>\<open>Server_State\<close>, \<^verbatim>\<open>Authority\<close>, \<^verbatim>\<open>Combat\<close>, \<^verbatim>\<open>Server_Handlers\<close>, \<^verbatim>\<open>Server_World\<close>, \<^verbatim>\<open>Server_Session\<close>,
    \<^verbatim>\<open>World_Persistence\<close>, \<^verbatim>\<open>Server_Loop\<close>: \<^verbatim>\<open>KenshiMP.Server\<close>.  \<open>GameServer\<close> is the class of that name, the handlers
    keep their names, \<open>HandlePacket\<close> dispatches them, \<open>Update\<close> is one tick.
  \<^item> \<^verbatim>\<open>Server_Actions\<close>, \<^verbatim>\<open>Server_Invariants\<close>, \<^verbatim>\<open>Server_Lemmas\<close>, \<^verbatim>\<open>Server_Ticks\<close>, \<^verbatim>\<open>Example_Server\<close>: what a handler may
    do (the locales \<open>gameplay_handler\<close> and \<open>relay_handler\<close>, interpreted for every handler), the transition system
    \<open>reachable\<close> and its invariants, and the example states of the witnesses.
  \<^item> \<^verbatim>\<open>Wire_Properties\<close>, \<^verbatim>\<open>World_Properties\<close>, \<^verbatim>\<open>Session_Properties\<close>: properties of packets, of combat and saving,
    and of joining, leaving and playing.
  \<^item> \<^verbatim>\<open>Master_Server\<close>: \<^verbatim>\<open>KenshiMP.MasterServer/main.cpp\<close>.
  \<^item> \<^verbatim>\<open>Entity_Registry\<close>, \<^verbatim>\<open>Interpolation\<close>, \<^verbatim>\<open>Zone_Engine\<close>: the classes of the same names in
    \<^verbatim>\<open>KenshiMP.Core/sync\<close>; \<^verbatim>\<open>Client_Session\<close>, \<^verbatim>\<open>Client_Properties\<close>: the validator, the two queues and the handlers of
    \<^verbatim>\<open>net/packet_handler.cpp\<close> that use them, and their composition with the server.
  \<^item> \<^verbatim>\<open>Entity_Resolver\<close>, \<^verbatim>\<open>Player_Engine\<close>: the client's interest sets and list of players
    (\<^verbatim>\<open>sync/entity_resolver.cpp\<close>, \<^verbatim>\<open>sync/player_engine.cpp\<close>, \<^verbatim>\<open>game/player_controller.cpp\<close>); \<^verbatim>\<open>Text_Util\<close>: their strings.
  \<^item> \<^verbatim>\<open>Task_Orchestrator\<close>: \<^verbatim>\<open>sys/task_orchestrator.cpp\<close>, the threads as interleaved steps of a scheduler.
  \<^item> \<^verbatim>\<open>Loading_Orchestrator\<close>, \<^verbatim>\<open>Pipeline_Orchestrator\<close>: the spawn gate of \<^verbatim>\<open>game/loading_orchestrator.cpp\<close>
    and the pipeline debugger of \<^verbatim>\<open>sync/pipeline_orchestrator.cpp\<close>, with its packets across the server.
  \<^item> \<^verbatim>\<open>Game_Memory\<close>, \<^verbatim>\<open>Game_Accessors\<close>, \<^verbatim>\<open>Game_Inventory\<close>, \<^verbatim>\<open>Game_Properties\<close>: \<^verbatim>\<open>memory.h\<close> of the scanner and the
    accessors of \<^verbatim>\<open>KenshiMP.Core/game\<close>, by which the client reads and writes the objects of the game.  Memory is a partial
    function to bytes; the contract of a packed struct extends to a memory cell (what is written is read back).
  \<^item> \<^verbatim>\<open>Lobby_Manager\<close>, \<^verbatim>\<open>Char_Tracker\<close>, \<^verbatim>\<open>Shared_Save_Sync\<close>: the assigned faction and its patch, the table of seen
    characters with its ring buffer, and the mode in which two players share a save (\<^verbatim>\<open>game/lobby_manager.cpp\<close>,
    \<^verbatim>\<open>hooks/char_tracker_hooks.cpp\<close>, \<^verbatim>\<open>game/shared_save_sync.cpp\<close>), with the server's assignment.
  \<^item> \<^verbatim>\<open>Event_Hooks\<close>, \<^verbatim>\<open>Report_Hooks\<close>, \<^verbatim>\<open>Hook_Properties\<close>, \<^verbatim>\<open>Hook_Delivery\<close>: the hooks on deaths, knock-outs,
    zones, relations and items (\<^verbatim>\<open>hooks/combat_hooks.cpp\<close>, \<^verbatim>\<open>world_hooks.cpp\<close>, \<^verbatim>\<open>faction_hooks.cpp\<close>,
    \<^verbatim>\<open>inventory_hooks.cpp\<close>); the locale \<open>bounded_queue\<close> is the contract of their ring buffers, interpreted for both, and
    the reported deaths and health are followed into the server.
  \<^item> \<^verbatim>\<open>Server_Managers\<close>: the server's player, entity and zone managers and \<^verbatim>\<open>game_state.cpp\<close>.
  \<^item> \<^verbatim>\<open>Pattern_Scan\<close>, \<^verbatim>\<open>Scanner_Engine\<close>, \<^verbatim>\<open>Pattern_Scanner\<close>, \<^verbatim>\<open>PData_Enumerator\<close>: \<^verbatim>\<open>KenshiMP.Scanner\<close>, byte patterns and
    their linear and SSE2 scans, the engine with its cache and batch mode, the older scanner, and the function table.
    Memory is a function from addresses to bytes with a predicate \<open>ok\<close> of the readable ones.
  \<^item> \<^verbatim>\<open>Client_Core\<close>, \<^verbatim>\<open>Client_Handlers\<close>, \<^verbatim>\<open>Core_Properties\<close>: the state of \<^verbatim>\<open>core.h\<close>, connection and disconnection,
    the queue of commands for the game thread, and every handler of \<^verbatim>\<open>net/packet_handler.cpp\<close> with the dispatch; the effects
    that \<^verbatim>\<open>Client_Session\<close> records are carried out here.  A call of a function of the game is a parameter.
  \<^item> \<^verbatim>\<open>Sync_Orchestrator\<close>, \<^verbatim>\<open>Sync_Properties\<close>, \<^verbatim>\<open>Sync_Runs\<close>: the synchronisation tick of \<^verbatim>\<open>sync/sync_orchestrator.cpp\<close>,
    its stages and background tasks, what the server makes of its packets, and its runs with tasks, packets and reconnections in any order.
  \<^item> \<^verbatim>\<open>Core_Pipeline\<close>, \<^verbatim>\<open>Core_Spawns\<close>, \<^verbatim>\<open>Core_Scan\<close>: the default pipeline of \<^verbatim>\<open>core.cpp\<close>, which runs when that
    orchestrator is switched off: positions, factions, teleports and background tasks, the spawn queue (both pipelines
    use it), and the scans that find the player's own characters; \<^verbatim>\<open>Core_Runs\<close>: its runs; \<^verbatim>\<open>Pipeline_Properties\<close>:
    its positions at the server, the cap of spawns, the gate and the names of characters.
  The root theory has the properties of the whole server.

  \<^bold>\<open>How state and effects are modelled.\<close>  A class is a record, a method a function on it, an early return a branch.
  Machine integers are words, floats are bit patterns with the rounding of the hardware, so overflow, wrap-around and
  NaN are those of the program.  Every packet or disconnect the code hands to ENet is appended to an outbox; whether
  \<^verbatim>\<open>enet_packet_create\<close> succeeds is a stream of booleans in the state.  Calls of the client into the game process are
  recorded as effects in order.  What the code reads from outside (clock, random draws, files, uninitialised memory,
  \<^verbatim>\<open>acosf\<close>, \<^verbatim>\<open>sinf\<close>, the mod characters of the loaded game) is an argument.  The order of an
  \<^verbatim>\<open>std::unordered_map\<close> is unspecified; the transition system of the server may permute it between any two steps.
  Loops are recursions over lists or counters; the two loops that need not end (unwind codes with a byte counter)
  are \<^theory_text>\<open>partial_function (option)\<close>, and where they end is proved.  No fuel is used; saving lists every intermediate
  state of the file system, so that a crash between two steps is covered.

  \<^bold>\<open>What is shown.\<close>  For the server: in every reachable state, for any configuration, world file, events and
  allocation failures, the maps are well formed, peers and players correspond, a host exists and is connected, no entity
  is orphaned; no packet touches foreign entities or settings without permission, nothing dead revives; a tick refines
  the transition system; joining, leaving and coming back, saving and loading are characterised exactly.  For the
  protocol: reads stay inside the packet and what is written is read back.  For the master server: registrations belong
  to connected peers and the list is complete.  For the client: the registry's two tables are inverse to each other,
  the ring buffer is a queue of the last eight snapshots, the render delay is bounded, rendering uses the
  right snapshots, the zone tables agree, the handlers respect these contracts.  For the scanner: the SSE2 scan finds
  what the linear scan finds and reads nothing outside the region, the batch scan agrees with single scans, the cache
  changes no answer, the bisections of the function table are linear searches.  For the worker threads: a
  fair scheduler runs every task, and the wait for a frame is complete but can miss its wake-up.  For client and server together: a
  spawn announcement reproduces the server's entity, a zone change is answered with the right entities, and the
  position broadcast is rejected for every entity a player owns, which is a defect.

  \<^bold>\<open>Not modelled.\<close>  ENet itself, UPnP, logging, configuration files and console output; the hooks that are
  machine-code detours, the user interface and the injector, which depend on the game executable; the scanner's heuristics that name game functions; the
  start-up of \<^verbatim>\<open>core.cpp\<close>, its crash handling and the order in which its tick calls the modelled steps and the hooks.
\<close>

section \<open>Invariants of every reachable state\<close>

text \<open>
  C1.  In every state the server can reach (any configuration, any world file, any sequence of
  ENet events, ticks, console lines and rehashes, any allocation failures) the maps are well
  formed: distinct keys that are the ids of the entries, entities with full arrays, the zone of
  their position, build progress in [0, 1] and server authority, players with a non-empty
  printable name of at most 31 characters, and never more players than configured.
\<close>

theorem reachable_well_formed:
  assumes "reachable n s" shows "world_inv s"
  using invariants.always [OF assms] by (simp add: server_inv_def)

theorem reachable_well_formed_witness: "reachable 0 example_start \<and> world_inv example_start"
  using reachable_well_formed [OF example_start_reachable] example_start_reachable by blast

text \<open>
  C2.  Peers and players correspond one to one: in every reachable state (up to 2 ^ 32 - 2 events,
  before player ids can wrap) the player a packet of a peer is attributed to is the one registered
  with that peer, under its own id, and every registered player is found from its peer.
\<close>

theorem peers_and_players:
  assumes "reachable n s" "n < 0xFFFFFFFF"
  shows "GetPlayerByPeer p s = Some q \<longleftrightarrow> um_find (m_players s) (cp_id q) = Some q \<and> cp_peer q = p"
proof
  have inv: "server_inv n s" by (rule invariants.always [OF assms(1)])
  then have w: "world_inv s" and ses: "session_inv n s" using assms(2) by (simp_all add: server_inv_def)
  show "GetPlayerByPeer p s = Some q" if "um_find (m_players s) (cp_id q) = Some q \<and> cp_peer q = p"
    using that ses unfolding session_inv_def GetPlayerByPeer_def by fastforce
  assume g: "GetPlayerByPeer p s = Some q"
  note k = GetPlayerByPeer_key [OF g w]
  have "ep_data (peer_tab (m_enet s) p) \<noteq> 0" using g by (auto simp: GetPlayerByPeer_def split: if_splits)
  then have "\<exists>q'. um_find (m_players s) (ep_data (peer_tab (m_enet s) p)) = Some q' \<and> cp_peer q' = p"
    using ses by (simp add: session_inv_def)
  then show "um_find (m_players s) (cp_id q) = Some q \<and> cp_peer q = p" using k by auto
qed

theorem peers_and_players_witness:
  "GetPlayerByPeer 5 example_start \<noteq> Some (example_player 5 [])"
  using peers_and_players [OF example_start_reachable, of 5 "example_player 5 []"] by (simp add: example_start_sel)

text \<open>
  C5.  As long as packet allocations succeed, the host is always a connected player: in every
  reachable state there is no host exactly when nobody is connected.
\<close>

theorem host_is_connected:
  assumes "reachable n s" "n < 0xFFFFFFFF" "allocs_ok s"
  shows "if m_players s = [] then m_hostPlayerId s = 0 else um_find (m_players s) (m_hostPlayerId s) \<noteq> None"
proof -
  have "host_inv s" using invariants.always [OF assms(1)] assms(2,3) by (simp add: server_inv_def)
  then show ?thesis using um_find_None_iff [of "m_players s" "m_hostPlayerId s"] by (simp add: host_inv_def)
qed

theorem host_is_connected_witness: "m_hostPlayerId example_start = 0"
  using host_is_connected [OF example_start_reachable] by (simp add: example_start_sel example_enet_def)

text \<open>
  C6.  As long as packet allocations succeed, no entity is ever orphaned: in every reachable state
  each entity is unowned or belongs to a connected player, so the periodic orphan cleanup finds
  nothing to remove.
\<close>

theorem no_orphans:
  assumes "reachable n s" "n < 0xFFFFFFFF" "allocs_ok s"
  shows "orphan_ids s = []"
proof -
  have "owner_inv s" "um_wf (m_entities s)"
    using invariants.always [OF assms(1)] assms(2,3) by (simp_all add: server_inv_def world_inv_def)
  then show ?thesis by (rule owner_inv_no_orphans)
qed

theorem no_orphans_witness: "orphan_ids example_start = []"
  using no_orphans [OF example_start_reachable] by (simp add: example_start_sel example_enet_def)

text \<open>
  C10.  Client movement and attacks are always refused: the checks ask for entities under player
  authority, and no reachable state has one (spawning leaves the default, server authority).  So
  position updates, move commands and attack intents never change anything.
\<close>

theorem commands_never_accepted:
  assumes "reachable n s"
  shows "\<not> CanClientCommandEntity pid eid (m_entities s) \<and> HandlePositionUpdate p r s = s \<and>
    HandleMoveCommand p r s = s \<and> HandleAttackIntent d p r s = s"
proof -
  have w: "wf_entities s" using invariants.always [OF assms] by (simp add: server_inv_def world_inv_def)
  have no: "\<not> CanClientCommandEntity pid eid (m_entities s)" for pid eid
  proof
    assume "CanClientCommandEntity pid eid (m_entities s)"
    then obtain e where "um_find (m_entities s) eid = Some e" "se_authority e = AuthPlayer"
      by (rule CanClientCommandEntityE)
    then show False using wf_entitiesD [OF w] by (auto simp: entity_ok_def)
  qed
  have "position_loop m pid b r s = s" for m pid b r
    by (induction m arbitrary: b r) (auto simp: ValidatePositionUpdate_def no split: prod.splits option.splits)
  then show ?thesis using no
    by (auto simp: HandlePositionUpdate_def HandleMoveCommand_def HandleAttackIntent_def split: prod.splits option.splits)
qed

theorem commands_never_accepted_witness:
  "\<not> CanClientCommandEntity 1 1 (m_entities example_start)"
  using commands_never_accepted [OF example_start_reachable] by blast

section \<open>What a packet may change\<close>



text \<open>
  C7.  A packet of a connected player leaves every other player's record, the offline records, the
  host, the id counters of players and the peer table untouched, and of the sender's own record it
  keeps id, name, peer and owned list; readiness is never taken back.
\<close>

theorem other_players_untouched:
  fixes q :: peer and s :: GameServer and env :: packet_env and data :: bytes and ch :: nat
  assumes "GetPlayerByPeer q s = Some p" "world_inv s"
  defines "t \<equiv> HandlePacket env q data ch s"
  shows "(k \<noteq> cp_id p \<longrightarrow> um_find (m_players t) k = um_find (m_players s) k) \<and>
    (\<exists>p'. um_find (m_players t) (cp_id p) = Some p' \<and> player_write p p') \<and>
    m_savedPlayers t = m_savedPlayers s \<and> m_hostPlayerId t = m_hostPlayerId s \<and>
    m_nextPlayerId t = m_nextPlayerId s \<and> peer_tab (m_enet t) = peer_tab (m_enet s)"
proof -
  have a: "acts False (cp_id p) s t" unfolding t_def by (rule packet_acts [OF assms(1)]) simp
  show ?thesis using acts_frame [OF a] acts_players [OF a] GetPlayerByPeer_key(1) [OF assms(1,2)] by blast
qed

theorem other_players_untouched_witness:
  "um_find (m_players (HandlePacket example_env 2 (packet [hdr C2S_LobbyReady]) 0 example_server)) 1 =
     Some (example_player 1 (lit ''Ann''))"
  using other_players_untouched [OF example_peers(2) example_world_inv, of 1 example_env "packet [hdr C2S_LobbyReady]" 0]
  by (simp add: example_server_sel example_player_def)



text \<open>
  C8.  A peer that was not admitted is powerless: every packet it sends other than a handshake
  leaves the whole game state unchanged (only ENet calls are made: the answer to a query, or a
  disconnect).
\<close>

theorem strangers_are_powerless:
  assumes "GetPlayerByPeer q s = None" "ReadHeader (PacketReader_new data) = (Some h, r)" "ph_type h \<noteq> C2S_Handshake"
  shows "\<exists>f. HandlePacket env q data ch s = do_enet f s"
proof -
  have "quiet s (HandlePacket env q data ch s)" by (rule stranger_quiet [OF assms(1)]) (use assms(2,3) in auto)
  then show ?thesis by (auto simp: quiet_def)
qed

theorem strangers_are_powerless_witness:
  "\<exists>f. HandlePacket example_env 3 (packet [hdr C2S_EntityDespawnReq, WriteU32 1]) 0 example_server = do_enet f example_server"
proof -
  have "ReadHeader (PacketReader_new (packet [hdr C2S_EntityDespawnReq, WriteU32 1])) =
      (Some \<lparr>ph_type = C2S_EntityDespawnReq, ph_flags = 0, ph_sequence = 0, ph_timestamp = 0\<rparr>,
       reader_at (PacketHeader_enc \<lparr>ph_type = C2S_EntityDespawnReq, ph_flags = 0, ph_sequence = 0, ph_timestamp = 0\<rparr>) (bytes_u32 1))"
    by (simp add: write_at reader_at_new read_at)
  from strangers_are_powerless [OF example_peers(3) this] show ?thesis by (simp add: msg_type)
qed

text \<open>
  C9.  Only the host changes the world settings, and only to valid values: a packet of a connected
  player keeps the clock in [0, 1), the weather in 0 to 4 and the game speed in [0.1, 10] when they
  were, and a packet of anybody but the host leaves them alone.
\<close>

theorem settings_by_host_only:
  assumes "GetPlayerByPeer q s = Some p"
  shows "(valid_clock s \<longrightarrow> valid_clock (HandlePacket env q data ch s)) \<and>
    (cp_id p \<noteq> m_hostPlayerId s \<longrightarrow> m_timeOfDay (HandlePacket env q data ch s) = m_timeOfDay s \<and>
       m_weatherState (HandlePacket env q data ch s) = m_weatherState s \<and> m_config (HandlePacket env q data ch s) = m_config s)"
proof -
  have a: "acts False (cp_id p) s (HandlePacket env q data ch s)" by (rule packet_acts [OF assms]) simp
  show ?thesis using acts_clock [OF a] acts_world [OF a] by blast
qed

theorem settings_by_host_only_witness:
  "m_config (HandlePacket example_env 2 (packet [hdr C2S_AdminCommand]) 0 example_server) = example_config"
  using settings_by_host_only [OF example_peers(2), of example_env "packet [hdr C2S_AdminCommand]" 0]
  by (simp add: example_player_def example_server_sel)

text \<open>
  The clock wraps correctly: with a game speed in [0.1, 10] and at most an hour between two
  ticks, advancing the time of day in single precision keeps it in [0, 1).
\<close>

theorem clock_stays_valid:
  assumes "valid_clock s" "f32_le 0 dt" "f32_le dt (f32_of_int 3600)"
  shows "valid_clock (update_time dt s)"
  using advance_time_valid [OF _ assms(2,3)] assms(1) by (simp add: valid_clock_def update_time_def)

theorem clock_stays_valid_witness: "valid_clock (update_time (f32_of_int 1) example_server)"
proof -
  have "valid_clock example_server"
    by (simp add: valid_clock_def valid_time_def valid_speed_def example_server_def GameServer_new_def example_config_def f32_eval)
  then show ?thesis by (rule clock_stays_valid) (simp_all add: f32_eval)
qed

text \<open>
  A message on the wrong channel, or shorter than a header, is dropped: whenever a packet has
  any effect it has at least 8 bytes, and it is a position update exactly when it came over the
  unreliable channel, keepalives excepted.
\<close>

theorem channel_discipline:
  assumes "HandlePacket env q data ch s \<noteq> s"
  shows "8 \<le> length data \<and> (\<exists>h r. ReadHeader (PacketReader_new data) = (Some h, r) \<and>
    (ph_type h = C2S_Keepalive \<or> (ph_type h = C2S_PositionUpdate \<longleftrightarrow> ch = KMP_CHANNEL_UNRELIABLE_SEQ)))"
  using assms HandlePacket_dispatch [of env q data ch s] by (auto simp: wrong_channel_def)

theorem channel_discipline_witness:
  "HandlePacket example_env 1 (packet [hdr C2S_Disconnect]) 0 example_server \<noteq> example_server \<and>
   8 \<le> length (packet [hdr C2S_Disconnect])"
proof -
  have r: "ReadHeader (PacketReader_new (packet [hdr C2S_Disconnect])) =
      (Some \<lparr>ph_type = C2S_Disconnect, ph_flags = 0, ph_sequence = 0, ph_timestamp = 0\<rparr>,
       reader_at (PacketHeader_enc \<lparr>ph_type = C2S_Disconnect, ph_flags = 0, ph_sequence = 0, ph_timestamp = 0\<rparr>) [])"
    using scalars_at(6) [of "[]" _ "[]"] by (simp add: write_at reader_at_new)
  have l: "length (packet [hdr C2S_Disconnect]) = 8" by (simp add: write_at PacketHeader_enc_def)
  have "outbox (m_enet (HandlePacket example_env 1 (packet [hdr C2S_Disconnect]) 0 example_server)) \<noteq> outbox (m_enet example_server)"
    unfolding HandlePacket_def r l by (simp add: wrong_channel_def dispatch_def msg_type KMP_CHANNEL_UNRELIABLE_SEQ_def srv_simps enet_out_def)
  then have "HandlePacket example_env 1 (packet [hdr C2S_Disconnect]) 0 example_server \<noteq> example_server" by metis
  then show ?thesis using channel_discipline by blast
qed

section \<open>The tick\<close>



end
